(* ===== verification/Prelude.thy ===== *)
theory Prelude
  imports Main "HOL-Library.State_Monad"
begin

text \<open>
  Prelude of the development: the collections its proofs share, the shape of a Go error
  (\<open>None\<close> is \<open>nil\<close>), early-return chains and indexed loops over them, and the rules
  with which an invariant passes through the statements of a state-passing function.
\<close>

named_theorems go_simps "unfoldings of the early-return combinators"
named_theorems keeps_intros "rules that push an invariant through a statement"

section \<open>Early returns\<close>

text \<open>
  A Go function that returns \<open>error\<close> is modelled by a value of type \<open>'e option\<close>. A body
  of the shape \<open>if c1 { return e1 }; if c2 { return e2 }; ...; return nil\<close> is the list of
  its checks in order, and the function returns the first error of the list.
\<close>

fun first_error :: "'e option list \<Rightarrow> 'e option" where
  "first_error [] = None"
| "first_error (None # es) = first_error es"
| "first_error (Some e # es) = Some e"

definition fail_if :: "bool \<Rightarrow> 'e \<Rightarrow> 'e option" where
  "fail_if b e = (if b then Some e else None)"

text \<open>\<open>for i, x := range xs { if err := f(i, x); err != nil { return err } }\<close>\<close>

fun for_index :: "(nat \<Rightarrow> 'a \<Rightarrow> 'e option) \<Rightarrow> nat \<Rightarrow> 'a list \<Rightarrow> 'e option" where
  "for_index f i [] = None"
| "for_index f i (x # xs) = (case f i x of None \<Rightarrow> for_index f (Suc i) xs | Some e \<Rightarrow> Some e)"

lemma first_error_None [go_simps]: "first_error es = None \<longleftrightarrow> (\<forall>e \<in> set es. e = None)"
  by (induction es rule: first_error.induct) auto

lemma first_error_append [go_simps]:
  "first_error (xs @ ys) = (case first_error xs of None \<Rightarrow> first_error ys | Some e \<Rightarrow> Some e)"
  by (induction xs rule: first_error.induct) auto

lemma first_error_Cons:
  "first_error (x # xs) = (case x of None \<Rightarrow> first_error xs | Some e \<Rightarrow> Some e)"
  by (cases x) auto

lemma first_error_Some_mem: "first_error es = Some e \<Longrightarrow> Some e \<in> set es"
  by (induction es rule: first_error.induct) auto

lemma fail_if_None [go_simps]: "fail_if b e = None \<longleftrightarrow> \<not> b"
  by (simp add: fail_if_def)

lemma fail_if_Some [go_simps]: "fail_if b e = Some e' \<longleftrightarrow> b \<and> e' = e"
  by (auto simp: fail_if_def)

lemma fail_if_simps [simp]: "fail_if True e = Some e" "fail_if False e = None"
  by (simp_all add: fail_if_def)

lemma for_index_None:
  "for_index f i xs = None \<longleftrightarrow> (\<forall>k < length xs. f (i + k) (xs ! k) = None)"
proof (induction xs arbitrary: i)
  case Nil
  then show ?case by simp
next
  case (Cons x xs)
  have split: "(\<forall>k < Suc n. P k) \<longleftrightarrow> P 0 \<and> (\<forall>k < n. P (Suc k))" for n and P :: "nat \<Rightarrow> bool"
    using less_Suc_eq_0_disj by auto
  show ?case
    by (cases "f i x") (auto simp: Cons.IH split)
qed

text \<open>The error an indexed loop returns is the one of the first element that fails.\<close>

lemma for_index_Some:
  "for_index f i xs = Some e \<longleftrightarrow>
     (\<exists>k < length xs. f (i + k) (xs ! k) = Some e \<and> (\<forall>j < k. f (i + j) (xs ! j) = None))"
proof (induction xs arbitrary: i)
  case Nil
  then show ?case by simp
next
  case (Cons x xs)
  have ex: "(\<exists>k < Suc n. P k) \<longleftrightarrow> P 0 \<or> (\<exists>k < n. P (Suc k))" for n and P :: "nat \<Rightarrow> bool"
    using less_Suc_eq_0_disj by auto
  have all: "(\<forall>j < Suc k. P j) \<longleftrightarrow> P 0 \<and> (\<forall>j < k. P (Suc j))" for k and P :: "nat \<Rightarrow> bool"
    using less_Suc_eq_0_disj by auto
  show ?case
    by (cases "f i x") (auto simp: Cons.IH ex all)
qed

text \<open>A loop whose check of an element does not depend on its index accepts when all elements do.\<close>

lemma for_index_all:
  assumes "\<And>i x. f i x = None \<longleftrightarrow> P x"
  shows "for_index f i xs = None \<longleftrightarrow> (\<forall>x \<in> set xs. P x)"
proof (induction xs arbitrary: i)
  case Nil
  then show ?case by simp
next
  case (Cons x xs)
  then show ?case using assms [of i x] by (cases "f i x") auto
qed

section \<open>Getters of protobuf messages\<close>

text \<open>
  A generated getter \<open>m.GetF()\<close> returns the zero value of the field's type when \<open>m\<close> is nil.
\<close>

definition getf :: "('a \<Rightarrow> 'b) \<Rightarrow> 'b \<Rightarrow> 'a option \<Rightarrow> 'b" where
  "getf f z m = (case m of None \<Rightarrow> z | Some x \<Rightarrow> f x)"

lemma getf_simps [simp]: "getf f z None = z" "getf f z (Some x) = f x"
  by (simp_all add: getf_def)

section \<open>Invariants of state-passing functions\<close>

text \<open>
  \<open>keeps P m\<close>: whatever \<open>m\<close> returns, error or not, it leaves a state that satisfies \<open>P\<close> if
  it started in one.
\<close>

definition keeps :: "('s \<Rightarrow> bool) \<Rightarrow> ('s, 'a) state \<Rightarrow> bool" where
  "keeps P m \<longleftrightarrow> (\<forall>s. P s \<longrightarrow> P (snd (run_state m s)))"

lemma keepsI: "(\<And>s. P s \<Longrightarrow> P (snd (run_state m s))) \<Longrightarrow> keeps P m"
  by (simp add: keeps_def)

lemma keepsD: "keeps P m \<Longrightarrow> P s \<Longrightarrow> P (snd (run_state m s))"
  by (simp add: keeps_def)

lemma keeps_return [keeps_intros]: "keeps P (State_Monad.return x)"
  by (simp add: keeps_def)

lemma keeps_bind [keeps_intros]:
  "keeps P m \<Longrightarrow> (\<And>x. keeps P (f x)) \<Longrightarrow> keeps P (State_Monad.bind m f)"
  by (force simp: keeps_def split: prod.split)

lemma keeps_get [keeps_intros]: "keeps P State_Monad.get"
  by (simp add: keeps_def)

lemma keeps_if [keeps_intros]: "keeps P m \<Longrightarrow> keeps P n \<Longrightarrow> keeps P (if b then m else n)"
  by simp

lemma keeps_option [keeps_intros]:
  "keeps P m \<Longrightarrow> (\<And>x. keeps P (f x)) \<Longrightarrow> keeps P (case v of None \<Rightarrow> m | Some x \<Rightarrow> f x)"
  by (simp split: option.split)

lemma keeps_sum [keeps_intros]:
  "(\<And>x. keeps P (f x)) \<Longrightarrow> (\<And>x. keeps P (g x)) \<Longrightarrow>
   keeps P (case v of Inl x \<Rightarrow> f x | Inr x \<Rightarrow> g x)"
  by (simp split: sum.split)

lemma keeps_prod [keeps_intros]:
  "(\<And>x y. keeps P (f x y)) \<Longrightarrow> keeps P (case v of (x, y) \<Rightarrow> f x y)"
  by (simp split: prod.split)

text \<open>\<open>for _, x := range xs { if err := f(x); err != nil { return err } }\<close>, with effects.\<close>

fun for_err :: "('a \<Rightarrow> ('s, 'e option) state) \<Rightarrow> 'a list \<Rightarrow> ('s, 'e option) state" where
  "for_err f [] = State_Monad.return None"
| "for_err f (x # xs) = do {
     err \<leftarrow> f x;
     case err of None \<Rightarrow> for_err f xs | Some e \<Rightarrow> State_Monad.return (Some e)
   }"

text \<open>
  \<open>for _, x := range xs { if e := f(x); e != nil { warn; err = e } }\<close>: every element is
  processed and \<open>err\<close> is the error of the last one that failed.
\<close>

fun for_last :: "('a \<Rightarrow> ('s, 'e option) state) \<Rightarrow> 'a list \<Rightarrow> 'e option \<Rightarrow> ('s, 'e option) state" where
  "for_last f [] err = State_Monad.return err"
| "for_last f (x # xs) err = do {
     e \<leftarrow> f x;
     for_last f xs (case e of None \<Rightarrow> err | Some e' \<Rightarrow> Some e')
   }"

lemma keeps_for_err [keeps_intros]:
  "(\<And>x. keeps P (f x)) \<Longrightarrow> keeps P (for_err f xs)"
proof (induction xs)
  case Nil
  then show ?case by (simp add: keeps_return)
next
  case (Cons x xs)
  then show ?case
    by (auto intro!: keeps_intros)
qed

lemma keeps_for_last [keeps_intros]:
  "(\<And>x. keeps P (f x)) \<Longrightarrow> keeps P (for_last f xs err)"
proof (induction xs arbitrary: err)
  case Nil
  then show ?case by (simp add: keeps_return)
next
  case (Cons x xs)
  then show ?case
    by (auto intro!: keeps_intros)
qed

end
