(* ===== verification/GoText.thy ===== *)
theory GoText
  imports Prelude
begin

text \<open>
  Go strings and the library functions the program applies to them. A Go string is a
  sequence of bytes, here a \<open>string\<close> (a list of 8-bit characters). Modelled: decimal
  formatting (\<open>%d\<close>), \<open>utf8.RuneCountInString\<close>, \<open>strings.Split\<close> with a one-byte
  separator, \<open>uuid.Parse\<close> of the vendored google/uuid (acceptance only: the validators
  drop the value), and the acceptance of \<open>time.Parse\<close> of Go 1.14 for the one layout used.
\<close>

section \<open>Decimal formatting\<close>

definition digit_char :: "nat \<Rightarrow> char" where
  "digit_char d = ''0123456789'' ! d"

fun itoa :: "nat \<Rightarrow> string" where
  "itoa n = (if n < 10 then [digit_char n] else itoa (n div 10) @ [digit_char (n mod 10)])"

declare itoa.simps [simp del]

definition is_digit :: "char \<Rightarrow> bool" where
  "is_digit c = (48 \<le> (of_char c :: nat) \<and> (of_char c :: nat) \<le> 57)"

definition digit_val :: "char \<Rightarrow> nat" where
  "digit_val c = (of_char c :: nat) - 48"

fun dec_val :: "nat \<Rightarrow> string \<Rightarrow> nat" where
  "dec_val acc [] = acc"
| "dec_val acc (c # cs) = dec_val (10 * acc + digit_val c) cs"

lemma of_char_digit_char: "d < 10 \<Longrightarrow> (of_char (digit_char d) :: nat) = 48 + d"
proof -
  assume "d < 10"
  then have "d \<in> {0, 1, 2, 3, 4, 5, 6, 7, 8, 9}" by auto
  then show ?thesis by (auto simp: digit_char_def)
qed

lemma digit_val_digit_char: "d < 10 \<Longrightarrow> digit_val (digit_char d) = d"
  by (simp add: digit_val_def of_char_digit_char)

lemma is_digit_digit_char: "d < 10 \<Longrightarrow> is_digit (digit_char d)"
  by (simp add: is_digit_def of_char_digit_char)

lemma dec_val_append: "dec_val acc (xs @ ys) = dec_val (dec_val acc xs) ys"
  by (induction xs arbitrary: acc) auto

lemma itoa_digits: "c \<in> set (itoa n) \<Longrightarrow> is_digit c"
proof (induction n rule: itoa.induct)
  case (1 n)
  then show ?case
    by (subst (asm) (2) itoa.simps) (auto split: if_splits intro: is_digit_digit_char)
qed

lemma itoa_nonempty: "itoa n \<noteq> []"
  by (subst itoa.simps) simp

text \<open>Reading back what was printed: decimal formatting is injective.\<close>

lemma dec_val_itoa: "dec_val 0 (itoa n) = n"
proof (induction n rule: itoa.induct)
  case (1 n)
  show ?case
  proof (cases "n < 10")
    case True
    then show ?thesis by (subst itoa.simps) (simp add: digit_val_digit_char)
  next
    case False
    with 1 show ?thesis
      by (subst itoa.simps) (simp add: dec_val_append digit_val_digit_char)
  qed
qed

lemma itoa_inject [simp]: "itoa m = itoa n \<longleftrightarrow> m = n"
  by (metis dec_val_itoa)

lemma itoa_no_char: "\<not> is_digit c \<Longrightarrow> c \<notin> set (itoa n)"
  using itoa_digits by blast

text \<open>Splitting a key at the first byte that is not a digit.\<close>

lemma itoa_append_sep:
  assumes "\<not> is_digit c" and "itoa m @ c # xs = itoa n @ c # ys"
  shows "m = n \<and> xs = ys"
proof -
  have "takeWhile is_digit (itoa k @ c # zs) = itoa k" for k zs
    using assms(1) by (subst takeWhile_append2) (auto simp: itoa_digits)
  then have "itoa m = itoa n" using assms(2) by metis
  then show ?thesis using assms(2) by simp
qed

section \<open>utf8.RuneCountInString\<close>

text \<open>
  The number of bytes the decoder consumes at the start of a non-empty string: an encoded
  code point of 2, 3 or 4 bytes when the first byte announces it and the following bytes
  are in range, one byte otherwise (ASCII, or an invalid byte, which counts as one rune).
\<close>

definition byte_in :: "nat \<Rightarrow> nat \<Rightarrow> char \<Rightarrow> bool" where
  "byte_in lo hi c = (lo \<le> (of_char c :: nat) \<and> (of_char c :: nat) \<le> hi)"

definition second_range :: "nat \<Rightarrow> nat \<times> nat" where
  "second_range b =
     (if b = 0xE0 then (0xA0, 0xBF) else if b = 0xED then (0x80, 0x9F)
      else if b = 0xF0 then (0x90, 0xBF) else if b = 0xF4 then (0x80, 0x8F) else (0x80, 0xBF))"

fun rune_len :: "string \<Rightarrow> nat" where
  "rune_len [] = 0"
| "rune_len (c # cs) =
     (let b = (of_char c :: nat); (lo, hi) = second_range b in
      if 0xC2 \<le> b \<and> b \<le> 0xDF then
        (case cs of c1 # _ \<Rightarrow> if byte_in lo hi c1 then 2 else 1 | _ \<Rightarrow> 1)
      else if 0xE0 \<le> b \<and> b \<le> 0xEF then
        (case cs of c1 # c2 # _ \<Rightarrow> if byte_in lo hi c1 \<and> byte_in 0x80 0xBF c2 then 3 else 1
         | _ \<Rightarrow> 1)
      else if 0xF0 \<le> b \<and> b \<le> 0xF4 then
        (case cs of c1 # c2 # c3 # _ \<Rightarrow>
           if byte_in lo hi c1 \<and> byte_in 0x80 0xBF c2 \<and> byte_in 0x80 0xBF c3 then 4 else 1
         | _ \<Rightarrow> 1)
      else 1)"

lemma rune_len_bounds:
  assumes "s \<noteq> []"
  shows "1 \<le> rune_len s \<and> rune_len s \<le> 4 \<and> rune_len s \<le> length s"
  using assms
  by (cases s) (auto simp: Let_def split: prod.split list.split)

declare rune_len.simps [simp del]

function rune_count :: "string \<Rightarrow> nat" where
  "rune_count s = (if s = [] then 0 else Suc (rune_count (drop (rune_len s) s)))"
  by pat_completeness auto
termination
  by (relation "measure length") (use rune_len_bounds in fastforce)+

declare rune_count.simps [simp del]

lemma rune_count_Nil [simp]: "rune_count [] = 0"
  by (simp add: rune_count.simps)

text \<open>A rune is one to four bytes, so the count is between a quarter of the length and it.\<close>

lemma rune_count_bounds: "rune_count s \<le> length s \<and> length s \<le> 4 * rune_count s"
proof (induction s rule: rune_count.induct)
  case (1 s)
  show ?case
  proof (cases "s = []")
    case True
    then show ?thesis by simp
  next
    case False
    note ih = "1.IH" [OF False]
    have "rune_count s = Suc (rune_count (drop (rune_len s) s))"
      using False by (subst rune_count.simps) simp
    with ih rune_len_bounds [OF False] show ?thesis by auto
  qed
qed

lemma rune_len_ascii: "(of_char c :: nat) < 0x80 \<Longrightarrow> rune_len (c # cs) = 1"
  by (auto simp: rune_len.simps Let_def split: prod.split)

lemma rune_count_ascii: "\<forall>c \<in> set s. (of_char c :: nat) < 0x80 \<Longrightarrow> rune_count s = length s"
proof (induction s)
  case Nil
  then show ?case by simp
next
  case (Cons c s)
  then have "rune_len (c # s) = 1" by (intro rune_len_ascii) simp
  then show ?case using Cons by (subst rune_count.simps) simp
qed

section \<open>strings.Split with a one-byte separator\<close>

fun split_on :: "char \<Rightarrow> string \<Rightarrow> string list" where
  "split_on sep [] = [[]]"
| "split_on sep (c # cs) =
     (if c = sep then [] # split_on sep cs
      else (case split_on sep cs of [] \<Rightarrow> [[c]] | p # ps \<Rightarrow> (c # p) # ps))"

lemma split_on_nonempty [simp]: "split_on sep s \<noteq> []"
  by (cases s) (auto split: list.split)

lemma split_on_none: "sep \<notin> set s \<Longrightarrow> split_on sep s = [s]"
  by (induction s) auto

lemma split_on_append:
  "sep \<notin> set p \<Longrightarrow> split_on sep (p @ sep # s) = p # split_on sep s"
  by (induction p) auto

lemma length_split_on: "length (split_on sep s) = Suc (count_list s sep)"
proof (induction s)
  case Nil
  then show ?case by simp
next
  case (Cons c s)
  obtain p ps where "split_on sep s = p # ps" by (cases "split_on sep s") auto
  with Cons show ?case by auto
qed

section \<open>uuid.Parse\<close>

text \<open>
  Acceptance of the vendored google/uuid \<open>Parse\<close>: 36 bytes \<open>xxxxxxxx-xxxx-xxxx-xxxx-xxxxxxxxxxxx\<close>,
  the same after \<open>urn:uuid:\<close> in any case (45 bytes), the same with one byte before and one
  after it, which are not looked at (38 bytes), or 32 hexadecimal digits.
\<close>

definition is_hex :: "char \<Rightarrow> bool" where
  "is_hex c = (let b = (of_char c :: nat) in
     (48 \<le> b \<and> b \<le> 57) \<or> (65 \<le> b \<and> b \<le> 70) \<or> (97 \<le> b \<and> b \<le> 102))"

definition lower_byte :: "char \<Rightarrow> char" where
  "lower_byte c = (let b = (of_char c :: nat) in if 65 \<le> b \<and> b \<le> 90 then char_of (b + 32) else c)"

definition uuid_dashes :: "nat list" where
  "uuid_dashes = [8, 13, 18, 23]"

definition uuid_hex_positions :: "nat list" where
  "uuid_hex_positions = [0, 2, 4, 6, 9, 11, 14, 16, 19, 21, 24, 26, 28, 30, 32, 34]"

definition canonical_uuid :: "string \<Rightarrow> bool" where
  "canonical_uuid s =
     (list_all (\<lambda>i. s ! i = CHR ''-'') uuid_dashes \<and>
      list_all (\<lambda>x. is_hex (s ! x) \<and> is_hex (s ! Suc x)) uuid_hex_positions)"

definition uuid_parse :: "string \<Rightarrow> bool" where
  "uuid_parse s =
     (if length s = 36 then canonical_uuid s
      else if length s = 45 then map lower_byte (take 9 s) = ''urn:uuid:'' \<and> canonical_uuid (drop 9 s)
      else if length s = 38 then canonical_uuid (drop 1 s)
      else if length s = 32 then list_all is_hex s
      else False)"

lemma uuid_parse_length: "uuid_parse s \<Longrightarrow> length s \<in> {32, 36, 38, 45}"
  by (auto simp: uuid_parse_def split: if_splits)

lemma uuid_parse_Nil [simp]: "\<not> uuid_parse []"
  by (simp add: uuid_parse_def)

lemma list_all_upt_Suc: "list_all P [i..<Suc n] \<longleftrightarrow> (if i \<le> n then list_all P [i..<n] \<and> P n else True)"
  by auto

lemma canonical_uuid_bytes:
  assumes "canonical_uuid s" and "i < 36"
  shows "is_hex (s ! i) \<or> s ! i = CHR ''-''"
proof -
  have "\<forall>i \<in> set [0..<36]. i \<in> set uuid_dashes \<or> i \<in> set uuid_hex_positions
      \<or> (\<exists>x \<in> set uuid_hex_positions. i = Suc x)"
    unfolding uuid_dashes_def uuid_hex_positions_def by code_simp
  then have "i \<in> set uuid_dashes \<or> i \<in> set uuid_hex_positions \<or> (\<exists>x \<in> set uuid_hex_positions. i = Suc x)"
    using assms(2) by simp
  then show ?thesis
    using assms(1) unfolding canonical_uuid_def list_all_iff by blast
qed

text \<open>No accepted identifier contains the separator of a volume snapshot name.\<close>

lemma is_hex_not_at: "is_hex c \<Longrightarrow> c \<noteq> CHR ''@''"
  by (auto simp: is_hex_def)

section \<open>time.Parse for snap-2006-01-02-15:04:05\<close>

text \<open>
  Acceptance of Go 1.14's \<open>time.Parse\<close> for the layout \<open>snap-2006-01-02-15:04:05\<close>: a literal
  prefix, a four-digit year, two-digit month, day, minute and second, an hour of one or two
  digits, an optional fraction below one second whatever its number of digits, nothing after
  it, and a day that exists in its month.
\<close>

fun skip_prefix :: "string \<Rightarrow> string \<Rightarrow> string option" where
  "skip_prefix [] v = Some v"
| "skip_prefix (p # ps) [] = None"
| "skip_prefix (p # ps) (c # cs) = (if c = p then skip_prefix ps cs else None)"

fun getnum :: "bool \<Rightarrow> string \<Rightarrow> (nat \<times> string) option" where
  "getnum fixed [] = None"
| "getnum fixed [c] = (if is_digit c \<and> \<not> fixed then Some (digit_val c, []) else None)"
| "getnum fixed (c # d # cs) =
     (if \<not> is_digit c then None
      else if \<not> is_digit d then (if fixed then None else Some (digit_val c, d # cs))
      else Some (10 * digit_val c + digit_val d, cs))"

definition getyear :: "string \<Rightarrow> (nat \<times> string) option" where
  "getyear v = (if 4 \<le> length v \<and> list_all is_digit (take 4 v)
                then Some (dec_val 0 (take 4 v), drop 4 v) else None)"

definition skip_fraction :: "string \<Rightarrow> string option" where
  "skip_fraction v =
     (case v of
        c # d # cs \<Rightarrow>
          (if c = CHR ''.'' \<and> is_digit d then
             (let digits = takeWhile is_digit (d # cs) in
              if dec_val 0 digits < 1000000000 then Some (dropWhile is_digit (d # cs)) else None)
           else Some v)
      | _ \<Rightarrow> Some v)"

definition is_leap :: "nat \<Rightarrow> bool" where
  "is_leap y = (y mod 4 = 0 \<and> (y mod 100 \<noteq> 0 \<or> y mod 400 = 0))"

definition days_in :: "nat \<Rightarrow> nat \<Rightarrow> nat" where
  "days_in m y =
     (if m = 2 then (if is_leap y then 29 else 28)
      else if m \<in> {4, 6, 9, 11} then 30 else 31)"

definition accept :: "bool \<Rightarrow> unit option" where
  "accept b = (if b then Some () else None)"

definition snap_time_parse :: "string \<Rightarrow> bool" where
  "snap_time_parse v =
     (case (do {
        v \<leftarrow> skip_prefix ''snap-'' v; (year, v) \<leftarrow> getyear v;
        v \<leftarrow> skip_prefix ''-'' v; (month, v) \<leftarrow> getnum True v;
        accept (1 \<le> month \<and> month \<le> 12);
        v \<leftarrow> skip_prefix ''-'' v; (day, v) \<leftarrow> getnum True v;
        v \<leftarrow> skip_prefix ''-'' v; (hour, v) \<leftarrow> getnum False v;
        accept (hour < 24);
        v \<leftarrow> skip_prefix '':'' v; (minute, v) \<leftarrow> getnum True v;
        accept (minute < 60);
        v \<leftarrow> skip_prefix '':'' v; (second, v) \<leftarrow> getnum True v;
        accept (second < 60);
        v \<leftarrow> skip_fraction v;
        accept (v = [] \<and> 1 \<le> day \<and> day \<le> days_in month year)
      }) of None \<Rightarrow> False | Some _ \<Rightarrow> True)"

lemma skip_prefix_Some: "skip_prefix p v = Some r \<Longrightarrow> v = p @ r"
  by (induction p v rule: skip_prefix.induct) (auto split: if_splits)

lemma snap_time_parse_prefix: "snap_time_parse v \<Longrightarrow> take 5 v = ''snap-''"
  by (auto simp: snap_time_parse_def Option.bind_eq_Some_conv dest!: skip_prefix_Some
      split: option.splits)

end
