(* ===== verification/GoErrors.thy ===== *)
theory GoErrors
  imports GoText
begin

text \<open>
  The errors the program returns, as values: the parameter errors of the shared \<open>errors\<close>
  package, the errors of \<open>internal/errors.go\<close> and of the packages it calls, one constructor per
  kind with the values the code attaches. \<open>DriverError\<close> is an unwrapped error of a library,
  \<open>NilDereference\<close> the run-time panic, and \<open>StackOverflow\<close> stands for a call that is nested
  deeper than a bound the model was given.
\<close>

text \<open>The value of a parameter, as \<open>interface{}\<close>.\<close>

datatype gval = GNil | GStr string | GNat nat | GStrs "string list" | GNats "nat list"

datatype err =
    RequiredParameter string
  | UnchangeableParameter string
  | ConflictParameterValue string gval
  | InvalidParameterValue string gval string
  | LengthOverflowParameterValue string gval nat
  | OutOfRangeParameterValue string gval gval gval
  | UnavailableParameterValue string gval gval
  | FormatMismatchParameterValue string gval string
  | UnauthorizedRequest
  | UnusableDatabase string
  | UnusableStore string
  | UnusableBroker string
  | Unknown string
  | RecordNotFound
  | NotFoundCluster nat
  | NotFoundClusterTenant nat
  | NotFoundClusterResource string gval
  | NotFoundClusterSyncStatus nat
  | NotFoundClusterException nat
  | UnableSynchronizeStatus nat string
  | UnsupportedClusterType string
  | NotFoundKey
  | NotFoundConfig nat
  | NotFoundVolume nat nat
  | NotFoundVolumeMetadata nat nat
  | NotFoundStorage nat nat
  | NotFoundStorageMetadata nat nat
  | UnsupportedStorageType string
  | ClientNotFound
  | ClientError string
  | NotFoundReservation
  | NotFoundVolumeType
  | NotFoundInstanceHypervisor
  | NotFoundInstanceSpec
  | VolumeStatusTimeout string string
  | InstanceStatusTimeout string string
  | StackOverflow
  | DriverError string
  | NilDereference
  | IPCFailed string
  | NotFoundGroup nat
  | RemoteServerError string
  | NewError string
  | InvalidRequest
  | NoContent
  | UnAuthenticated string
  | ClientUnAuthorized string
  | UnAuthorizedUser string string string
  | NotConnected string
  | ClientBadRequest string
  | ClientConflict string
  | NotFoundEndpoint string
  | NotFoundVolumeBackendName string
  | NotFoundAvailableServiceHostName string
  | UnknownInstanceState string int

text \<open>
  \<open>errors.Equal\<close> of the shared package compares the texts of two errors, and a nil error is equal to
  none. The text of a wrapped error is that of its base error, that is the constructor here, with two
  exceptions: \<open>errors.ErrUnknown\<close> and \<open>client.ErrUnknown\<close> have the same text, and so have
  \<open>ErrUnAuthorized\<close> and \<open>ErrUnAuthorizedUser\<close> of the client.
\<close>

section \<open>Checks the validators repeat\<close>

text \<open>\<open>if v == "" { return errors.RequiredParameter(p) }\<close> and its companions.\<close>

definition required :: "string \<Rightarrow> string \<Rightarrow> err option" where
  "required p v = fail_if (v = []) (RequiredParameter p)"

definition required_id :: "string \<Rightarrow> nat \<Rightarrow> err option" where
  "required_id p v = fail_if (v = 0) (RequiredParameter p)"

definition required_msg :: "string \<Rightarrow> 'a option \<Rightarrow> err option" where
  "required_msg p m = fail_if (m = None) (RequiredParameter p)"

text \<open>\<open>if utf8.RuneCountInString(v) > n { return errors.LengthOverflowParameterValue(p, v, n) }\<close>.\<close>

definition max_runes :: "string \<Rightarrow> string \<Rightarrow> nat \<Rightarrow> err option" where
  "max_runes p v n = fail_if (rune_count v > n) (LengthOverflowParameterValue p (GStr v) n)"

text \<open>\<open>if len(v) > n { return errors.LengthOverflowParameterValue(p, v, n) }\<close>.\<close>

definition max_bytes :: "string \<Rightarrow> string \<Rightarrow> nat \<Rightarrow> err option" where
  "max_bytes p v n = fail_if (length v > n) (LengthOverflowParameterValue p (GStr v) n)"

text \<open>\<open>if _, err := uuid.Parse(v); err != nil { return errors.FormatMismatchParameterValue(p, v, "UUID") }\<close>.\<close>

definition is_uuid :: "string \<Rightarrow> string \<Rightarrow> err option" where
  "is_uuid p v = fail_if (\<not> uuid_parse v) (FormatMismatchParameterValue p (GStr v) ''UUID'')"

lemma required_None [go_simps]: "required p v = None \<longleftrightarrow> v \<noteq> []"
  by (simp add: required_def fail_if_None)

lemma required_id_None [go_simps]: "required_id p v = None \<longleftrightarrow> v \<noteq> 0"
  by (simp add: required_id_def fail_if_None)

lemma required_msg_None [go_simps]: "required_msg p m = None \<longleftrightarrow> m \<noteq> None"
  by (simp add: required_msg_def fail_if_None)

lemma max_runes_None [go_simps]: "max_runes p v n = None \<longleftrightarrow> rune_count v \<le> n"
  by (auto simp: max_runes_def fail_if_None)

lemma max_bytes_None [go_simps]: "max_bytes p v n = None \<longleftrightarrow> length v \<le> n"
  by (auto simp: max_bytes_def fail_if_None)

lemma is_uuid_None [go_simps]: "is_uuid p v = None \<longleftrightarrow> uuid_parse v"
  by (simp add: is_uuid_def fail_if_None)

text \<open>\<open>fmt.Sprintf("base[%d].field", i)\<close>.\<close>

definition indexed :: "string \<Rightarrow> nat \<Rightarrow> string \<Rightarrow> string" where
  "indexed base i field = base @ ''['' @ itoa i @ ''].'' @ field"

text \<open>The name of an element's field determines its index.\<close>

lemma indexed_inject [simp]: "indexed base i field = indexed base j field' \<longleftrightarrow> i = j \<and> field = field'"
proof -
  have "\<not> is_digit (CHR '']'')" by (simp add: is_digit_def)
  then show ?thesis
    using itoa_append_sep [of "CHR '']''" i "CHR ''.'' # field" j "CHR ''.'' # field'"]
    by (auto simp: indexed_def)
qed

text \<open>
  The checks of an acceptance characterisation: which combinators to unfold when a validator
  that is a chain of checks is compared with \<open>None\<close>.
\<close>

lemmas accepts = first_error_None fail_if_None required_None required_id_None
  required_msg_None max_runes_None max_bytes_None is_uuid_None

end
