(* ===== verification/Schema.thy ===== *)
theory Schema
  imports Prelude
begin

text \<open>
  The relational model of the service: one record per table of \<open>database/model/model.go\<close>,
  with the Go struct's fields in their order (a pointer field is an option, identifiers and
  counters are naturals, on which the program does no arithmetic), and the database as one
  list of rows per table. The foreign keys of the DDL are \<open>ON DELETE RESTRICT\<close>.
\<close>

section \<open>Tables\<close>

record cluster =
  cl_id :: nat
  cl_tenant_id :: nat
  cl_owner_group_id :: nat
  cl_name :: string
  cl_remarks :: "string option"
  cl_type_code :: string
  cl_api_server_url :: string
  cl_credential :: string
  cl_state_code :: string
  cl_created_at :: int
  cl_updated_at :: int
  cl_synchronized_at :: int

record cluster_permission =
  cp_cluster_id :: nat
  cp_group_id :: nat
  cp_mode_code :: string

record cluster_hypervisor =
  hv_id :: nat
  hv_cluster_id :: nat
  hv_cluster_availability_zone_id :: nat
  hv_uuid :: string
  hv_type_code :: string
  hv_hostname :: string
  hv_ip_address :: string
  hv_vcpu_total_cnt :: nat
  hv_vcpu_used_cnt :: nat
  hv_mem_total_bytes :: nat
  hv_mem_used_bytes :: nat
  hv_disk_total_bytes :: nat
  hv_disk_used_bytes :: nat
  hv_state :: string
  hv_status :: string
  hv_ssh_port :: "nat option"
  hv_ssh_account :: "string option"
  hv_ssh_password :: "string option"
  hv_agent_port :: "nat option"
  hv_agent_version :: "string option"
  hv_agent_installed_at :: "int option"
  hv_agent_last_upgraded_at :: "int option"
  hv_raw :: "string option"

record cluster_availability_zone =
  az_id :: nat
  az_cluster_id :: nat
  az_name :: string
  az_available :: bool
  az_raw :: "string option"

record cluster_tenant =
  tn_id :: nat
  tn_cluster_id :: nat
  tn_uuid :: string
  tn_name :: string
  tn_description :: "string option"
  tn_enabled :: bool
  tn_raw :: "string option"

record cluster_quota =
  qt_cluster_tenant_id :: nat
  qt_key :: string
  qt_value :: int

record cluster_network =
  nw_id :: nat
  nw_cluster_tenant_id :: nat
  nw_uuid :: string
  nw_name :: string
  nw_description :: "string option"
  nw_type_code :: string
  nw_external_flag :: bool
  nw_state :: string
  nw_status :: string
  nw_raw :: "string option"

record cluster_floating_ip =
  fip_id :: nat
  fip_cluster_tenant_id :: nat
  fip_cluster_network_id :: nat
  fip_uuid :: string
  fip_description :: "string option"
  fip_ip_address :: string
  fip_status :: string
  fip_raw :: "string option"

record cluster_subnet =
  sn_id :: nat
  sn_cluster_network_id :: nat
  sn_uuid :: string
  sn_name :: string
  sn_description :: "string option"
  sn_network_cidr :: string
  sn_dhcp_enabled :: bool
  sn_gateway_enabled :: bool
  sn_gateway_ip_address :: "string option"
  sn_ipv6_address_mode_code :: "string option"
  sn_ipv6_ra_mode_code :: "string option"
  sn_raw :: "string option"

record cluster_subnet_nameserver =
  ns_id :: nat
  ns_cluster_subnet_id :: nat
  ns_nameserver :: string

record cluster_router =
  rt_id :: nat
  rt_cluster_tenant_id :: nat
  rt_uuid :: string
  rt_name :: string
  rt_description :: "string option"
  rt_state :: string
  rt_status :: string
  rt_raw :: "string option"

record cluster_network_routing_interface =
  ri_cluster_router_id :: nat
  ri_cluster_subnet_id :: nat
  ri_ip_address :: string
  ri_external_flag :: bool

record cluster_router_extra_route =
  er_id :: nat
  er_cluster_router_id :: nat
  er_destination :: string
  er_nexthop :: string

record cluster_subnet_dhcp_pool =
  dp_id :: nat
  dp_cluster_subnet_id :: nat
  dp_start_ip_address :: string
  dp_end_ip_address :: string

record cluster_security_group =
  sg_id :: nat
  sg_cluster_tenant_id :: nat
  sg_uuid :: string
  sg_name :: string
  sg_description :: "string option"
  sg_raw :: "string option"

record cluster_security_group_rule =
  sgr_id :: nat
  sgr_security_group_id :: nat
  sgr_remote_security_group_id :: "nat option"
  sgr_uuid :: string
  sgr_description :: "string option"
  sgr_network_cidr :: "string option"
  sgr_direction :: string
  sgr_port_range_min :: "nat option"
  sgr_port_range_max :: "nat option"
  sgr_protocol :: "string option"
  sgr_ether_type :: nat
  sgr_raw :: "string option"

record cluster_storage =
  st_id :: nat
  st_cluster_id :: nat
  st_uuid :: string
  st_name :: string
  st_description :: "string option"
  st_type_code :: string
  st_capacity_bytes :: "nat option"
  st_used_bytes :: "nat option"
  st_status :: string
  st_credential :: "string option"
  st_raw :: "string option"

record cluster_volume =
  vol_id :: nat
  vol_cluster_tenant_id :: nat
  vol_cluster_storage_id :: nat
  vol_uuid :: string
  vol_name :: string
  vol_description :: "string option"
  vol_size_bytes :: nat
  vol_multiattach :: bool
  vol_bootable :: bool
  vol_readonly :: bool
  vol_status :: string
  vol_raw :: "string option"

record cluster_volume_snapshot =
  vs_id :: nat
  vs_cluster_volume_id :: nat
  vs_uuid :: string
  vs_cluster_volume_group_snapshot_uuid :: "string option"
  vs_name :: string
  vs_description :: "string option"
  vs_size_bytes :: nat
  vs_status :: string
  vs_created_at :: int
  vs_raw :: "string option"

record cluster_instance_spec =
  sp_id :: nat
  sp_cluster_id :: nat
  sp_uuid :: string
  sp_name :: string
  sp_description :: "string option"
  sp_vcpu_total_cnt :: nat
  sp_mem_total_bytes :: nat
  sp_disk_total_bytes :: nat
  sp_swap_total_bytes :: nat
  sp_ephemeral_total_bytes :: nat

record cluster_instance_extra_spec =
  es_id :: nat
  es_cluster_instance_spec_id :: nat
  es_key :: string
  es_value :: string

record cluster_keypair =
  kp_id :: nat
  kp_cluster_id :: nat
  kp_name :: string
  kp_fingerprint :: string
  kp_public_key :: string
  kp_type_code :: string

record cluster_instance =
  ins_id :: nat
  ins_cluster_tenant_id :: nat
  ins_cluster_availability_zone_id :: nat
  ins_cluster_hypervisor_id :: nat
  ins_cluster_instance_spec_id :: nat
  ins_cluster_keypair_id :: "nat option"
  ins_uuid :: string
  ins_name :: string
  ins_description :: "string option"
  ins_state :: string
  ins_status :: string
  ins_raw :: "string option"

record cluster_instance_network =
  inw_id :: nat
  inw_cluster_instance_id :: nat
  inw_cluster_network_id :: nat
  inw_cluster_subnet_id :: nat
  inw_cluster_floating_ip_id :: "nat option"
  inw_dhcp_flag :: bool
  inw_ip_address :: string

record cluster_instance_security_group =
  isg_cluster_instance_id :: nat
  isg_cluster_security_group_id :: nat

record cluster_instance_volume =
  ivol_cluster_instance_id :: nat
  ivol_cluster_volume_id :: nat
  ivol_device_path :: string
  ivol_boot_index :: int

record cluster_instance_user_script =
  us_cluster_instance_id :: nat
  us_user_data :: string

section \<open>The database\<close>

text \<open>
  \<open>db_groups\<close> is the user-group table, which belongs to another service
  (\<open>commonModel.Group\<close> of the package \<open>cdm-cloud/common\<close>), with the columns that are read here.
\<close>

record user_group =
  ug_id :: nat
  ug_tenant_id :: nat
  ug_name :: string
  ug_remarks :: "string option"
  ug_deleted_flag :: bool

record database =
  db_groups :: "user_group list"
  db_cluster :: "cluster list"
  db_permission :: "cluster_permission list"
  db_hypervisor :: "cluster_hypervisor list"
  db_availability_zone :: "cluster_availability_zone list"
  db_tenant :: "cluster_tenant list"
  db_quota :: "cluster_quota list"
  db_network :: "cluster_network list"
  db_floating_ip :: "cluster_floating_ip list"
  db_subnet :: "cluster_subnet list"
  db_nameserver :: "cluster_subnet_nameserver list"
  db_dhcp_pool :: "cluster_subnet_dhcp_pool list"
  db_router :: "cluster_router list"
  db_routing_interface :: "cluster_network_routing_interface list"
  db_extra_route :: "cluster_router_extra_route list"
  db_security_group :: "cluster_security_group list"
  db_security_group_rule :: "cluster_security_group_rule list"
  db_storage :: "cluster_storage list"
  db_volume :: "cluster_volume list"
  db_volume_snapshot :: "cluster_volume_snapshot list"
  db_instance_spec :: "cluster_instance_spec list"
  db_extra_spec :: "cluster_instance_extra_spec list"
  db_keypair :: "cluster_keypair list"
  db_instance :: "cluster_instance list"
  db_instance_network :: "cluster_instance_network list"
  db_instance_security_group :: "cluster_instance_security_group list"
  db_instance_volume :: "cluster_instance_volume list"
  db_instance_user_script :: "cluster_instance_user_script list"

definition empty_db :: database where
  "empty_db = \<lparr>db_groups = [], db_cluster = [], db_permission = [], db_hypervisor = [],
     db_availability_zone = [], db_tenant = [], db_quota = [], db_network = [],
     db_floating_ip = [], db_subnet = [], db_nameserver = [], db_dhcp_pool = [], db_router = [],
     db_routing_interface = [], db_extra_route = [], db_security_group = [],
     db_security_group_rule = [], db_storage = [], db_volume = [], db_volume_snapshot = [],
     db_instance_spec = [], db_extra_spec = [], db_keypair = [], db_instance = [],
     db_instance_network = [], db_instance_security_group = [], db_instance_volume = [],
     db_instance_user_script = []\<rparr>"

section \<open>gorm reads\<close>

text \<open>
  \<open>db.First\<close>: the matching row with the smallest primary key, \<open>ErrRecordNotFound\<close> when no
  row matches, or the error of the driver, which the model receives as an argument
  (\<open>None\<close> when the statement succeeds). A struct condition ignores the fields that have
  their zero value (\<open>cond_nat\<close>, \<open>cond_str\<close>).
\<close>

datatype 'a first = Row 'a | NoRow | QueryError string

fun least_by :: "('a \<Rightarrow> nat) \<Rightarrow> 'a list \<Rightarrow> 'a option" where
  "least_by key [] = None"
| "least_by key (x # xs) =
     (case least_by key xs of None \<Rightarrow> Some x | Some y \<Rightarrow> if key x \<le> key y then Some x else Some y)"

definition first :: "string option \<Rightarrow> ('a \<Rightarrow> nat) \<Rightarrow> ('a \<Rightarrow> bool) \<Rightarrow> 'a list \<Rightarrow> 'a first" where
  "first fault key P rows =
     (case fault of Some e \<Rightarrow> QueryError e
      | None \<Rightarrow> (case least_by key (filter P rows) of None \<Rightarrow> NoRow | Some r \<Rightarrow> Row r))"

definition cond_nat :: "nat \<Rightarrow> nat \<Rightarrow> bool" where
  "cond_nat v x = (v = 0 \<or> x = v)"

definition cond_str :: "string \<Rightarrow> string \<Rightarrow> bool" where
  "cond_str v x = (v = [] \<or> x = v)"

lemma least_by_None [simp]: "least_by key xs = None \<longleftrightarrow> xs = []"
  by (induction xs) (auto split: option.splits)

lemma least_by_Some:
  "least_by key xs = Some x \<Longrightarrow> x \<in> set xs \<and> (\<forall>y \<in> set xs. key x \<le> key y)"
proof (induction xs arbitrary: x)
  case Nil
  then show ?case by simp
next
  case (Cons a xs)
  show ?case
  proof (cases "least_by key xs")
    case None
    then show ?thesis using Cons.prems by simp
  next
    case (Some y)
    with Cons.IH have "y \<in> set xs" "\<forall>z \<in> set xs. key y \<le> key z" by blast+
    then show ?thesis using Cons.prems Some by (auto split: if_splits dest: order_trans)
  qed
qed

text \<open>With a unique key, the row found does not depend on the order of the table.\<close>

lemma first_Row:
  "first f key P rows = Row r \<Longrightarrow>
     f = None \<and> r \<in> set rows \<and> P r \<and> (\<forall>q \<in> set rows. P q \<longrightarrow> key r \<le> key q)"
  by (auto simp: first_def split: option.splits dest!: least_by_Some)

lemma first_NoRow: "first f key P rows = NoRow \<longleftrightarrow> f = None \<and> (\<forall>r \<in> set rows. \<not> P r)"
  by (cases f; cases "least_by key (filter P rows)")
    (auto simp: first_def filter_empty_conv dest!: least_by_Some)

lemma first_QueryError: "first f key P rows = QueryError e \<longleftrightarrow> f = Some e"
  by (auto simp: first_def split: option.splits)

lemma first_eq_Row:
  assumes "f = None" and "r \<in> set rows" and "P r" and "\<And>q. q \<in> set rows \<Longrightarrow> P q \<Longrightarrow> q = r"
  shows "first f key P rows = Row r"
proof -
  have ne: "filter P rows \<noteq> []" using assms by (auto simp: filter_empty_conv)
  then obtain q where q: "least_by key (filter P rows) = Some q"
    by (cases "least_by key (filter P rows)") auto
  with least_by_Some [OF q] assms(4) have "q = r" by auto
  with q assms(1) show ?thesis by (simp add: first_def)
qed

end
