(* ===== verification/Access.thy ===== *)
theory Access
  imports GoErrors Schema
begin

text \<open>
  Codes, users and ownership: \<open>internal/codes.go\<close>, \<open>constant/codes.go\<close>, \<open>storage/types.go\<close>,
  \<open>internal/utils.go\<close> and \<open>IsClusterOwner\<close> of \<open>internal/cluster/cluster_util.go\<close>. The context of
  a request carries the authenticated user and the tenant; both lookups drop their error, so
  the model has the value the program goes on with (no user, tenant 0).
\<close>

section \<open>Codes\<close>

definition cluster_type_codes :: "string list" where
  "cluster_type_codes = [''cluster.type.openstack'', ''cluster.type.openshift'',
     ''cluster.type.kubernetes'', ''cluster.type.vmware'']"

definition is_cluster_type_code :: "string \<Rightarrow> bool" where
  "is_cluster_type_code code = list_ex (\<lambda>c. c = code) cluster_type_codes"

definition cluster_permission_mode_codes :: "string list" where
  "cluster_permission_mode_codes =
     [''cluster.permission.mode.readonly'', ''cluster.permission.mode.readwrite'']"

definition is_cluster_permission_mode_code :: "string \<Rightarrow> bool" where
  "is_cluster_permission_mode_code code = list_ex (\<lambda>c. c = code) cluster_permission_mode_codes"

definition cluster_hypervisor_type_codes :: "string list" where
  "cluster_hypervisor_type_codes =
     [''openstack.hypervisor.type.kvm'', ''openstack.hypervisor.type.lxc'',
      ''openstack.hypervisor.type.qemu'', ''openstack.hypervisor.type.uml'',
      ''openstack.hypervisor.type.vmware'', ''openstack.hypervisor.type.xen'',
      ''openstack.hypervisor.type.xenserver'', ''openstack.hypervisor.type.hyperv'',
      ''openstack.hypervisor.type.virtuozzo'']"

definition is_cluster_hypervisor_type_code :: "string \<Rightarrow> bool" where
  "is_cluster_hypervisor_type_code code = list_ex (\<lambda>c. c = code) cluster_hypervisor_type_codes"

definition openstack_keypair_type_codes :: "string list" where
  "openstack_keypair_type_codes = [''ssh'', ''x509'']"

definition is_openstack_keypair_type_code :: "string \<Rightarrow> bool" where
  "is_openstack_keypair_type_code code = list_ex (\<lambda>c. c = code) openstack_keypair_type_codes"

definition cluster_storage_type_codes :: "string list" where
  "cluster_storage_type_codes =
     [''openstack.storage.type.nfs'', ''openstack.storage.type.ceph'',
      ''openstack.storage.type.lvm'', ''openstack.storage.type.unknown'']"

definition is_cluster_storage_type_code :: "string \<Rightarrow> bool" where
  "is_cluster_storage_type_code s = list_ex (\<lambda>c. s = c) cluster_storage_type_codes"

lemma is_cluster_type_code_iff [go_simps]:
  "is_cluster_type_code c \<longleftrightarrow> c \<in> set cluster_type_codes"
  by (auto simp: is_cluster_type_code_def list_ex_iff)

lemma is_cluster_storage_type_code_iff [go_simps]:
  "is_cluster_storage_type_code c \<longleftrightarrow> c \<in> set cluster_storage_type_codes"
  by (auto simp: is_cluster_storage_type_code_def list_ex_iff)

lemma is_openstack_keypair_type_code_iff [go_simps]:
  "is_openstack_keypair_type_code c \<longleftrightarrow> c \<in> set openstack_keypair_type_codes"
  by (auto simp: is_openstack_keypair_type_code_def list_ex_iff)

lemma storage_type_code_nonempty: "is_cluster_storage_type_code c \<Longrightarrow> c \<noteq> []"
  by (auto simp: is_cluster_storage_type_code_iff cluster_storage_type_codes_def)

section \<open>Users\<close>

record user =
  user_roles :: "string list"
  user_groups :: "nat list"

record request_context =
  ctx_user :: "user option"
  ctx_tenant :: nat

definition is_admin_user :: "user option \<Rightarrow> bool" where
  "is_admin_user u = list_ex (\<lambda>r. r = ''admin'') (getf user_roles [] u)"

definition is_group_user :: "user option \<Rightarrow> nat \<Rightarrow> bool" where
  "is_group_user u group_id = list_ex (\<lambda>g. group_id = g) (getf user_groups [] u)"

lemma no_user [simp]: "\<not> is_admin_user None" "\<not> is_group_user None g"
  by (simp_all add: is_admin_user_def is_group_user_def)

text \<open>
  The row condition of \<open>IsClusterOwner\<close>: a struct condition of gorm, whose zero fields select
  nothing, and which an administrator's request does not restrict to the tenant.
\<close>

definition owner_condition :: "request_context \<Rightarrow> nat \<Rightarrow> cluster \<Rightarrow> bool" where
  "owner_condition ctx cid c =
     (if is_admin_user (ctx_user ctx) then cond_nat cid (cl_id c)
      else cond_nat cid (cl_id c) \<and> cond_nat (ctx_tenant ctx) (cl_tenant_id c))"

definition is_cluster_owner :: "request_context \<Rightarrow> database \<Rightarrow> string option \<Rightarrow> nat \<Rightarrow> err option" where
  "is_cluster_owner ctx db fault cid =
     (case first fault cl_id (owner_condition ctx cid) (db_cluster db) of
        NoRow \<Rightarrow> Some (NotFoundCluster cid)
      | QueryError e \<Rightarrow> Some (UnusableDatabase e)
      | Row c \<Rightarrow>
          fail_if (\<not> is_admin_user (ctx_user ctx) \<and>
                   \<not> is_group_user (ctx_user ctx) (cl_owner_group_id c)) UnauthorizedRequest)"

text \<open>
  The specification of the access check: with a known tenant and unique identifiers, a
  request is let through exactly when the cluster exists and the user is an administrator or
  belongs to the cluster's owner group inside the cluster's tenant.
\<close>

definition may_access :: "request_context \<Rightarrow> cluster \<Rightarrow> bool" where
  "may_access ctx c =
     (is_admin_user (ctx_user ctx) \<or>
      ctx_tenant ctx = cl_tenant_id c \<and> is_group_user (ctx_user ctx) (cl_owner_group_id c))"

lemma distinct_map_eq: "distinct (map f xs) \<Longrightarrow> x \<in> set xs \<Longrightarrow> y \<in> set xs \<Longrightarrow> f x = f y \<Longrightarrow> x = y"
  by (auto simp: distinct_map dest: inj_onD)

lemma owner_condition_iff:
  assumes "cid \<noteq> 0" and "ctx_tenant ctx \<noteq> 0"
  shows "owner_condition ctx cid c \<longleftrightarrow>
           cl_id c = cid \<and> (is_admin_user (ctx_user ctx) \<or> ctx_tenant ctx = cl_tenant_id c)"
  using assms by (auto simp: owner_condition_def cond_nat_def)

lemma is_cluster_owner_found:
  assumes "c \<in> set (db_cluster db)" and "cl_id c = cid" and "cid \<noteq> 0"
    and "distinct (map cl_id (db_cluster db))" and "owner_condition ctx cid c"
  shows "is_cluster_owner ctx db None cid =
           fail_if (\<not> is_admin_user (ctx_user ctx) \<and>
                    \<not> is_group_user (ctx_user ctx) (cl_owner_group_id c)) UnauthorizedRequest"
proof -
  have "first None cl_id (owner_condition ctx cid) (db_cluster db) = Row c"
  proof (rule first_eq_Row)
    fix q
    assume "q \<in> set (db_cluster db)" and "owner_condition ctx cid q"
    then show "q = c"
      using assms(1-3) distinct_map_eq [OF assms(4), of q c]
      by (simp add: owner_condition_def cond_nat_def split: if_splits)
  qed (use assms in auto)
  then show ?thesis by (simp add: is_cluster_owner_def)
qed

text \<open>C31. A cluster request passes the ownership check exactly when the cluster exists and the
  user is an administrator, or belongs to the cluster's owner group and acts in its tenant.\<close>

theorem is_cluster_owner_iff:
  assumes "distinct (map cl_id (db_cluster db))" and "cid \<noteq> 0" and "ctx_tenant ctx \<noteq> 0"
  shows "is_cluster_owner ctx db None cid = None \<longleftrightarrow>
           (\<exists>c \<in> set (db_cluster db). cl_id c = cid \<and> may_access ctx c)"
proof (cases "\<exists>c \<in> set (db_cluster db). owner_condition ctx cid c")
  case True
  then obtain c where c: "c \<in> set (db_cluster db)" "owner_condition ctx cid c" by blast
  note oc = owner_condition_iff [OF assms(2,3)]
  have eq: "cl_id c = cid" using c(2) oc [of c] by simp
  have only: "d = c" if "d \<in> set (db_cluster db)" "cl_id d = cid" for d
    using distinct_map_eq [OF assms(1) that(1) c(1)] that eq by simp
  have "is_cluster_owner ctx db None cid = None \<longleftrightarrow> may_access ctx c"
    unfolding is_cluster_owner_found [OF c(1) eq assms(2,1) c(2)] fail_if_None may_access_def
    using c(2) oc [of c] by auto
  moreover have "(\<exists>d \<in> set (db_cluster db). cl_id d = cid \<and> may_access ctx d) = may_access ctx c"
    using c(1) eq by (metis only)
  ultimately show ?thesis by simp
next
  case False
  then have "first None cl_id (owner_condition ctx cid) (db_cluster db) = NoRow"
    by (simp add: first_NoRow)
  then have "is_cluster_owner ctx db None cid \<noteq> None"
    by (simp add: is_cluster_owner_def)
  moreover have "\<not> (cl_id c = cid \<and> may_access ctx c)" if "c \<in> set (db_cluster db)" for c
    using False that owner_condition_iff [OF assms(2,3), of c] by (auto simp: may_access_def)
  ultimately show ?thesis by blast
qed

definition example_cluster :: cluster where
  "example_cluster = \<lparr>cl_id = 3, cl_tenant_id = 1, cl_owner_group_id = 7, cl_name = ''c'',
     cl_remarks = None, cl_type_code = ''cluster.type.openstack'', cl_api_server_url = ''http://a'',
     cl_credential = ''{}'', cl_state_code = ''cluster.state.active'', cl_created_at = 0,
     cl_updated_at = 0, cl_synchronized_at = 0\<rparr>"

theorem is_cluster_owner_iff_witness:
  "is_cluster_owner \<lparr>ctx_user = Some \<lparr>user_roles = [''user''], user_groups = [7]\<rparr>, ctx_tenant = 1\<rparr>
     (empty_db\<lparr>db_cluster := [example_cluster]\<rparr>) None 3 = None"
proof -
  let ?ctx = "\<lparr>ctx_user = Some \<lparr>user_roles = [''user''], user_groups = [7]\<rparr>, ctx_tenant = 1\<rparr> :: request_context"
  let ?db = "empty_db\<lparr>db_cluster := [example_cluster]\<rparr>"
  have "\<exists>c \<in> set (db_cluster ?db). cl_id c = 3 \<and> may_access ?ctx c"
    by (simp add: example_cluster_def may_access_def is_group_user_def)
  then show ?thesis
    using is_cluster_owner_iff [of ?db 3 ?ctx] by simp
qed

text \<open>A tenant that could not be read from the context (0) does not restrict the lookup.\<close>

lemma is_cluster_owner_no_tenant:
  assumes "distinct (map cl_id (db_cluster db))" and "cid \<noteq> 0" and "ctx_tenant ctx = 0"
    and "c \<in> set (db_cluster db)" and "cl_id c = cid"
    and "is_group_user (ctx_user ctx) (cl_owner_group_id c)"
  shows "is_cluster_owner ctx db None cid = None"
  using is_cluster_owner_found [OF assms(4,5,2,1)] assms
  by (simp add: owner_condition_def cond_nat_def fail_if_None)

end
