(* ===== verification/ClusterValidator.thy ===== *)
theory ClusterValidator
  imports Access
begin

text \<open>
  \<open>internal/cluster/validator.go\<close>: connection information and the requests that add, update
  and list clusters. What the program takes from elsewhere is the record \<open>externals\<close>: the
  predicates of the govalidator package and the JSON decoder, of which the validator only uses
  whether it fails and the decoded credential. A validator that queries the database receives
  the outcome of its statements: \<open>fault i\<close> is the driver's error of its \<open>i\<close>-th statement.
\<close>

section \<open>Messages\<close>

record openstack_credential =
  cred_methods :: "string list option"
  cred_token_id :: string
  cred_user_name :: string
  cred_user_domain_name :: string
  cred_user_password :: string

record externals =
  is_url :: "string \<Rightarrow> bool"
  is_cidr :: "string \<Rightarrow> bool"
  is_ip :: "string \<Rightarrow> bool"
  is_ipv4 :: "string \<Rightarrow> bool"
  is_ipv6 :: "string \<Rightarrow> bool"
  unmarshal_credential :: "string \<Rightarrow> openstack_credential option"

record connection_info =
  ci_type_code :: string
  ci_api_server_url :: string
  ci_credential :: string
  ci_tenant_id :: string

record cluster_message =
  cm_id :: nat
  cm_owner_group :: "nat option"
  cm_name :: string
  cm_remarks :: string
  cm_type_code :: string
  cm_api_server_url :: string
  cm_credential :: string

section \<open>Connection information\<close>

definition openstack_credential_validate :: "externals \<Rightarrow> string \<Rightarrow> err option" where
  "openstack_credential_validate ext credential =
     (if length credential > 1024 then
        Some (LengthOverflowParameterValue ''cluster.credential'' (GStr []) 1024)
      else
        (case unmarshal_credential ext credential of
           None \<Rightarrow> Some (FormatMismatchParameterValue ''cluster.credential'' (GStr []) ''ClusterCredential'')
         | Some cred \<Rightarrow>
             (case cred_methods cred of
                None \<Rightarrow> Some (RequiredParameter ''cluster.credential.methods'')
              | Some methods \<Rightarrow>
                  if length methods \<noteq> 1 then
                    Some (OutOfRangeParameterValue ''cluster.credential.methods'' (GStrs methods)
                      (GNat 1) (GNat 1))
                  else if hd methods = ''password'' then
                    first_error [
                      required ''cluster.credential.password.user.name'' (cred_user_name cred),
                      required ''cluster.credential.password.user.domain.name'' (cred_user_domain_name cred),
                      required ''cluster.credential.password.user.password'' (cred_user_password cred)]
                  else
                    Some (UnavailableParameterValue ''cluster.credential.methods'' (GStr [])
                      (GStrs [''password''])))))"

text \<open>\<open>newCredentialValidator\<close>: the only type with a validator is openstack.\<close>

definition new_credential_validator :: "externals \<Rightarrow> string \<Rightarrow> err + (string \<Rightarrow> err option)" where
  "new_credential_validator ext code =
     (if code = ''cluster.type.openstack'' then Inr (openstack_credential_validate ext)
      else Inl (UnsupportedClusterType code))"

definition check_valid_cluster_connection_info ::
    "externals \<Rightarrow> connection_info option \<Rightarrow> err option" where
  "check_valid_cluster_connection_info ext conn =
     (let api_server_url = getf ci_api_server_url [] conn;
          credential = getf ci_credential [] conn;
          type_code = getf ci_type_code [] conn;
          tenant_id = getf ci_tenant_id [] conn in
      first_error [
        required ''cluster.type_code'' type_code,
        (if type_code = ''cluster.type.openstack'' then
           first_error [
             required ''cluster.api_server_url'' api_server_url,
             max_bytes ''cluster.api_server_url'' api_server_url 300,
             fail_if (\<not> is_url ext api_server_url)
               (FormatMismatchParameterValue ''cluster.api_server_url'' (GStr api_server_url) ''URL''),
             required ''cluster.credential'' credential,
             fail_if (length credential > 1024)
               (LengthOverflowParameterValue ''cluster.credential'' (GStr []) 1024),
             (case new_credential_validator ext type_code of
                Inl err \<Rightarrow> Some err
              | Inr validate \<Rightarrow> validate credential),
             fail_if (tenant_id \<noteq> [] \<and> \<not> uuid_parse tenant_id)
               (FormatMismatchParameterValue ''cluster.tenant.uuid'' (GStr tenant_id) ''UUID'')]
         else Some (UnsupportedClusterType type_code))])"

text \<open>What an accepted credential and an accepted connection are.\<close>

definition password_credential :: "openstack_credential \<Rightarrow> bool" where
  "password_credential cred \<longleftrightarrow>
     cred_methods cred = Some [''password''] \<and> cred_user_name cred \<noteq> [] \<and>
     cred_user_domain_name cred \<noteq> [] \<and> cred_user_password cred \<noteq> []"

definition usable_connection :: "externals \<Rightarrow> connection_info \<Rightarrow> bool" where
  "usable_connection ext c \<longleftrightarrow>
     ci_type_code c = ''cluster.type.openstack'' \<and>
     ci_api_server_url c \<noteq> [] \<and> length (ci_api_server_url c) \<le> 300 \<and> is_url ext (ci_api_server_url c) \<and>
     ci_credential c \<noteq> [] \<and> length (ci_credential c) \<le> 1024 \<and>
     (\<exists>cred. unmarshal_credential ext (ci_credential c) = Some cred \<and> password_credential cred) \<and>
     (ci_tenant_id c = [] \<or> uuid_parse (ci_tenant_id c))"

lemma openstack_credential_validate_iff:
  "openstack_credential_validate ext s = None \<longleftrightarrow>
     length s \<le> 1024 \<and> (\<exists>cred. unmarshal_credential ext s = Some cred \<and> password_credential cred)"
proof -
  have one: "length ms = Suc 0 \<and> hd ms = x \<longleftrightarrow> ms = [x]" for ms :: "string list" and x
    by (cases ms) auto
  show ?thesis
    by (auto simp: openstack_credential_validate_def password_credential_def accepts one [symmetric]
        split: option.splits)
qed

text \<open>Connection information is accepted exactly when it names an openstack cluster with a
  URL of at most 300 bytes, a credential of at most 1024 bytes that decodes to a single
  password method with a non-empty user, domain and password, and no tenant or a UUID.\<close>

theorem check_valid_cluster_connection_info_iff:
  "check_valid_cluster_connection_info ext conn = None \<longleftrightarrow>
     (case conn of None \<Rightarrow> False | Some c \<Rightarrow> usable_connection ext c)"
  by (cases conn)
    (auto simp: check_valid_cluster_connection_info_def usable_connection_def accepts Let_def
      new_credential_validator_def openstack_credential_validate_iff)

lemma connection_required [simp]: "check_valid_cluster_connection_info ext None \<noteq> None"
  by (simp add: check_valid_cluster_connection_info_iff)

lemma connection_accepts [go_simps]:
  "check_valid_cluster_connection_info ext conn = None \<longleftrightarrow> (\<exists>c. conn = Some c \<and> usable_connection ext c)"
  by (auto simp: check_valid_cluster_connection_info_def usable_connection_def accepts Let_def
      new_credential_validator_def openstack_credential_validate_iff getf_def split: option.splits)

section \<open>Names\<close>

text \<open>
  The regular expression \<open>^[a-zA-Z0-9(HANGUL)\.\#\-\_]*$\<close>, where the Hangul range is U+AC00 to
  U+D7A3: the runes of the name are ASCII letters, digits and \<open>.#-_\<close>, or three-byte
  encodings in that range.
\<close>

definition name_byte :: "char \<Rightarrow> bool" where
  "name_byte c = (let b = (of_char c :: nat) in
     (97 \<le> b \<and> b \<le> 122) \<or> (65 \<le> b \<and> b \<le> 90) \<or> (48 \<le> b \<and> b \<le> 57) \<or>
     c = CHR ''.'' \<or> c = CHR ''#'' \<or> c = CHR ''-'' \<or> c = CHR ''_'')"

definition hangul_syllable :: "string \<Rightarrow> bool" where
  "hangul_syllable s =
     (let code = ((of_char (s ! 0) :: nat) mod 16) * 4096
               + ((of_char (s ! 1) :: nat) mod 64) * 64 + ((of_char (s ! 2) :: nat) mod 64) in
      0xAC00 \<le> code \<and> code \<le> 0xD7A3)"

function valid_name :: "string \<Rightarrow> bool" where
  "valid_name s =
     (if s = [] then True
      else if rune_len s = 1 then name_byte (hd s) \<and> valid_name (drop 1 s)
      else if rune_len s = 3 then hangul_syllable s \<and> valid_name (drop 3 s)
      else False)"
  by pat_completeness auto
termination
  by (relation "measure length") auto

declare valid_name.simps [simp del]

lemma valid_name_Nil [simp]: "valid_name []"
  by (simp add: valid_name.simps)

lemma name_byte_ascii: "name_byte c \<Longrightarrow> (of_char c :: nat) < 0x80"
  by (auto simp: name_byte_def Let_def)

text \<open>On ASCII names the check is a check of every byte.\<close>

lemma valid_name_ascii:
  "\<forall>c \<in> set s. (of_char c :: nat) < 0x80 \<Longrightarrow> valid_name s \<longleftrightarrow> (\<forall>c \<in> set s. name_byte c)"
proof (induction s)
  case Nil
  then show ?case by simp
next
  case (Cons c s)
  then have "rune_len (c # s) = 1" by (intro rune_len_ascii) simp
  then have "valid_name (c # s) \<longleftrightarrow> name_byte c \<and> valid_name s"
    by (subst valid_name.simps) simp
  then show ?case using Cons by simp
qed

section \<open>Requests\<close>

definition name_message :: string where
  "name_message = ''Only Hangul, Alphabet and special characters (-, _, #, .) are allowed.''"

definition name_message_update :: string where
  "name_message_update =
     ''Only Hangul, Alphabet, Number(0-9) and special characters (-, _, #, .) are allowed.''"

text \<open>\<open>db.First(&commonModel.Group{}, id)\<close> and the errors made of it.\<close>

definition check_group :: "database \<Rightarrow> string option \<Rightarrow> nat option \<Rightarrow> err option" where
  "check_group db fault owner_group =
     (case owner_group of
        None \<Rightarrow> Some (RequiredParameter ''cluster.owner_group.id'')
      | Some gid \<Rightarrow>
          if gid = 0 then Some (RequiredParameter ''cluster.owner_group.id'')
          else (case first fault ug_id (\<lambda>g. ug_id g = gid) (db_groups db) of
                  NoRow \<Rightarrow> Some (InvalidParameterValue ''cluster.owner_group.id'' (GNat gid) ''not found group'')
                | QueryError e \<Rightarrow> Some (UnusableDatabase e)
                | Row _ \<Rightarrow> None))"

text \<open>A lookup that must find nothing.\<close>

definition check_absent :: "err \<Rightarrow> 'a first \<Rightarrow> err option" where
  "check_absent conflict r =
     (case r of Row _ \<Rightarrow> Some conflict | NoRow \<Rightarrow> None | QueryError e \<Rightarrow> Some (UnusableDatabase e))"

definition validate_add_cluster_request ::
    "externals \<Rightarrow> request_context \<Rightarrow> database \<Rightarrow> (nat \<Rightarrow> string option) \<Rightarrow> cluster_message option \<Rightarrow> string
     \<Rightarrow> err option" where
  "validate_add_cluster_request ext ctx db fault m credential =
     (case m of
        None \<Rightarrow> Some (RequiredParameter ''cluster'')
      | Some c \<Rightarrow>
          let user = ctx_user ctx; tid = ctx_tenant ctx in
          first_error [
            fail_if (cm_id c \<noteq> 0) (InvalidParameterValue ''cluster.id'' (GNat (cm_id c)) ''unusable parameter''),
            (if is_admin_user user then None
             else (case cm_owner_group c of
                     None \<Rightarrow> Some NilDereference
                   | Some gid \<Rightarrow> fail_if (\<not> is_group_user user gid) UnauthorizedRequest)),
            check_valid_cluster_connection_info ext
              (Some \<lparr>ci_type_code = cm_type_code c, ci_api_server_url = cm_api_server_url c,
                     ci_credential = credential, ci_tenant_id = []\<rparr>),
            check_group db (fault 0) (cm_owner_group c),
            required ''cluster.name'' (cm_name c),
            max_runes ''cluster.name'' (cm_name c) 255,
            fail_if (\<not> valid_name (cm_name c))
              (InvalidParameterValue ''group.name'' (GStr (cm_name c)) name_message),
            check_absent (ConflictParameterValue ''cluster.name'' (GStr (cm_name c)))
              (first (fault 1) cl_id
                 (\<lambda>r. cond_nat tid (cl_tenant_id r) \<and> cond_str (cm_name c) (cl_name r)) (db_cluster db)),
            check_absent (ConflictParameterValue ''cluster.ApiServerUrl'' (GStr (cm_api_server_url c)))
              (first (fault 2) cl_id
                 (\<lambda>r. cond_nat tid (cl_tenant_id r) \<and> cond_str (cm_api_server_url c) (cl_api_server_url r))
                 (db_cluster db)),
            max_runes ''cluster.remarks'' (cm_remarks c) 300])"

definition validate_update_cluster_request ::
    "request_context \<Rightarrow> database \<Rightarrow> (nat \<Rightarrow> string option) \<Rightarrow> nat \<Rightarrow> cluster_message option \<Rightarrow> err option" where
  "validate_update_cluster_request ctx db fault cluster_id m =
     first_error [
       required_id ''cluster_id'' cluster_id,
       (case m of
          None \<Rightarrow> Some (RequiredParameter ''cluster'')
        | Some c \<Rightarrow>
            first_error [
              check_group db (fault 0) (cm_owner_group c),
              required ''cluster.name'' (cm_name c),
              max_runes ''cluster.name'' (cm_name c) 255,
              fail_if (\<not> valid_name (cm_name c))
                (InvalidParameterValue ''group.name'' (GStr (cm_name c)) name_message_update),
              check_absent (ConflictParameterValue ''cluster.name'' (GStr (cm_name c)))
                (first (fault 1) cl_id
                   (\<lambda>r. cl_id r \<noteq> cluster_id \<and> cond_nat (ctx_tenant ctx) (cl_tenant_id r) \<and>
                        cond_str (cm_name c) (cl_name r)) (db_cluster db)),
              max_runes ''cluster.remarks'' (cm_remarks c) 300])]"

definition check_updatable_cluster :: "cluster \<Rightarrow> cluster_message \<Rightarrow> err option" where
  "check_updatable_cluster orig c =
     first_error [
       fail_if (cl_id orig \<noteq> cm_id c) (UnchangeableParameter ''cluster.id''),
       (case cm_owner_group c of
          None \<Rightarrow> None
        | Some gid \<Rightarrow>
            fail_if (gid \<noteq> 0 \<and> gid \<noteq> cl_owner_group_id orig) (UnchangeableParameter ''cluster.owner_group.id'')),
       fail_if (cm_type_code c \<noteq> [] \<and> cm_type_code c \<noteq> cl_type_code orig)
         (UnchangeableParameter ''cluster.type_code''),
       fail_if (cm_api_server_url c \<noteq> [] \<and> cm_api_server_url c \<noteq> cl_api_server_url orig)
         (UnchangeableParameter ''cluster.api_server_url'')]"

record cluster_list_request =
  clr_type_code :: string
  clr_name :: string
  clr_owner_group_id :: nat

definition validate_get_clusters :: "request_context \<Rightarrow> cluster_list_request \<Rightarrow> err option" where
  "validate_get_clusters ctx req =
     first_error [
       fail_if (length (clr_type_code req) \<noteq> 0 \<and> \<not> is_cluster_type_code (clr_type_code req))
         (UnavailableParameterValue ''type_code'' (GStr (clr_type_code req)) (GStrs cluster_type_codes)),
       max_runes ''name'' (clr_name req) 255,
       fail_if (clr_owner_group_id req \<noteq> 0 \<and> \<not> is_admin_user (ctx_user ctx) \<and>
                \<not> is_group_user (ctx_user ctx) (clr_owner_group_id req)) UnauthorizedRequest]"

section \<open>Properties\<close>

lemma check_group_None:
  "check_group db fault og = None \<longleftrightarrow>
     (\<exists>g. og = Some g \<and> g \<noteq> 0 \<and> fault = None \<and> g \<in> ug_id ` set (db_groups db))"
  by (auto simp: check_group_def first_NoRow first_QueryError split: option.splits first.splits
      dest!: first_Row)

lemma check_absent_first_None:
  "check_absent e (first fault key P rows) = None \<longleftrightarrow> fault = None \<and> (\<forall>r \<in> set rows. \<not> P r)"
  by (cases "first fault key P rows")
    (auto simp: check_absent_def first_NoRow first_QueryError dest: first_Row
      split: first.splits)

text \<open>The condition an accepted name satisfies.\<close>

definition acceptable_name :: "string \<Rightarrow> bool" where
  "acceptable_name n \<longleftrightarrow> n \<noteq> [] \<and> rune_count n \<le> 255 \<and> valid_name n"

lemmas cluster_accepts = accepts check_group_None check_absent_first_None connection_accepts

text \<open>C32. A request to add a cluster is accepted exactly when it is authorised, its connection
  is usable, its owner group exists, its name is well formed, and neither its name nor its URL
  is used by a cluster of the same tenant.\<close>

theorem validate_add_cluster_request_iff:
  assumes "ctx_tenant ctx \<noteq> 0" and "\<And>i. fault i = None"
  shows "validate_add_cluster_request ext ctx db fault m credential = None \<longleftrightarrow>
    (\<exists>c g. m = Some c \<and> cm_owner_group c = Some g \<and> cm_id c = 0 \<and>
       (is_admin_user (ctx_user ctx) \<or> is_group_user (ctx_user ctx) g) \<and>
       usable_connection ext \<lparr>ci_type_code = cm_type_code c, ci_api_server_url = cm_api_server_url c,
                              ci_credential = credential, ci_tenant_id = []\<rparr> \<and>
       g \<noteq> 0 \<and> g \<in> ug_id ` set (db_groups db) \<and> acceptable_name (cm_name c) \<and>
       (\<forall>r \<in> set (db_cluster db). cl_tenant_id r = ctx_tenant ctx \<longrightarrow>
          cl_name r \<noteq> cm_name c \<and> cl_api_server_url r \<noteq> cm_api_server_url c) \<and>
       rune_count (cm_remarks c) \<le> 300)"
proof (cases m)
  case None
  then show ?thesis by (simp add: validate_add_cluster_request_def)
next
  case (Some c)
  show ?thesis
  proof (cases "cm_owner_group c")
    case None
    then show ?thesis
      by (auto simp: validate_add_cluster_request_def Some cluster_accepts Let_def)
  next
    case (Some g)
    have url: "usable_connection ext \<lparr>ci_type_code = t, ci_api_server_url = u, ci_credential = k,
        ci_tenant_id = v\<rparr> \<Longrightarrow> u \<noteq> []" for t u k v
      by (simp add: usable_connection_def)
    show ?thesis
      by (auto simp: validate_add_cluster_request_def \<open>m = Some c\<close> Some cluster_accepts Let_def
          acceptable_name_def cond_nat_def cond_str_def assms dest: url)
  qed
qed

definition example_externals :: externals where
  "example_externals = \<lparr>is_url = (\<lambda>s. take 4 s = ''http''), is_cidr = (\<lambda>s. CHR ''/'' \<in> set s),
     is_ip = (\<lambda>s. s \<noteq> []), is_ipv4 = (\<lambda>s. CHR ''.'' \<in> set s), is_ipv6 = (\<lambda>s. CHR '':'' \<in> set s),
     unmarshal_credential = (\<lambda>s. if s = ''{}'' then
        Some \<lparr>cred_methods = Some [''password''], cred_token_id = [], cred_user_name = ''u'',
              cred_user_domain_name = ''d'', cred_user_password = ''p''\<rparr> else None)\<rparr>"

definition example_add :: cluster_message where
  "example_add = \<lparr>cm_id = 0, cm_owner_group = Some 7, cm_name = ''n'', cm_remarks = [],
     cm_type_code = ''cluster.type.openstack'', cm_api_server_url = ''http://b'', cm_credential = ''k''\<rparr>"

definition example_group :: user_group where
  "example_group = \<lparr>ug_id = 7, ug_tenant_id = 1, ug_name = ''g'', ug_remarks = None, ug_deleted_flag = False\<rparr>"

definition example_context :: request_context where
  "example_context = \<lparr>ctx_user = Some \<lparr>user_roles = [''user''], user_groups = [7]\<rparr>, ctx_tenant = 1\<rparr>"

theorem validate_add_cluster_request_iff_witness:
  "validate_add_cluster_request example_externals example_context
     (empty_db\<lparr>db_groups := [example_group], db_cluster := [example_cluster]\<rparr>) (\<lambda>_. None) (Some example_add) ''{}'' = None"
proof -
  let ?db = "empty_db\<lparr>db_groups := [example_group], db_cluster := [example_cluster]\<rparr>"
  have "usable_connection example_externals
      \<lparr>ci_type_code = cm_type_code example_add, ci_api_server_url = cm_api_server_url example_add,
       ci_credential = ''{}'', ci_tenant_id = []\<rparr>"
    by (simp add: usable_connection_def example_add_def example_externals_def password_credential_def)
  moreover have "acceptable_name (cm_name example_add)"
    by (simp add: acceptable_name_def example_add_def rune_count.simps rune_len.simps
        second_range_def valid_name.simps name_byte_def)
  ultimately show ?thesis
    using validate_add_cluster_request_iff [of example_context "\<lambda>_. None" example_externals ?db "Some example_add" "''{}''"]
    by (simp add: example_context_def example_add_def example_cluster_def example_group_def is_group_user_def)
qed

text \<open>No other check of the request panics.\<close>

lemma no_panic_first_error: "Some NilDereference \<notin> set es \<Longrightarrow> first_error es \<noteq> Some NilDereference"
  by (auto dest: first_error_Some_mem)

lemma no_panic_connection: "check_valid_cluster_connection_info ext conn \<noteq> Some NilDereference"
proof -
  have "openstack_credential_validate ext k \<noteq> Some NilDereference" for k
    by (auto simp: openstack_credential_validate_def required_def fail_if_def first_error_Cons
        split: option.splits if_splits)
  then show ?thesis
    by (auto simp: check_valid_cluster_connection_info_def Let_def new_credential_validator_def
        required_def max_bytes_def fail_if_def first_error_Cons split: option.splits if_splits)
qed

lemma no_panic_check_group: "check_group db f og \<noteq> Some NilDereference"
  by (simp add: check_group_def split: option.splits first.splits)

lemma no_panic_checks:
  "required p v \<noteq> Some NilDereference" "max_runes p v n \<noteq> Some NilDereference"
  "check_absent (ConflictParameterValue p w) r \<noteq> Some NilDereference"
  "fail_if b (InvalidParameterValue p w q) \<noteq> Some NilDereference"
  by (simp_all add: required_def max_runes_def check_absent_def fail_if_Some split: first.splits)

lemmas no_panic = no_panic_connection no_panic_check_group no_panic_checks

text \<open>The request to add a cluster panics, by reading the identifier of a nil owner group,
  exactly when a user who is not an administrator leaves the group out of a request without
  cluster identifier.\<close>

theorem validate_add_cluster_request_panics:
  "validate_add_cluster_request ext ctx db fault m credential = Some NilDereference \<longleftrightarrow>
     (\<exists>c. m = Some c \<and> cm_id c = 0 \<and> cm_owner_group c = None \<and> \<not> is_admin_user (ctx_user ctx))"
proof (cases m)
  case None
  then show ?thesis by (simp add: validate_add_cluster_request_def)
next
  case (Some c)
  show ?thesis
  proof (cases "cm_id c = 0 \<and> \<not> is_admin_user (ctx_user ctx) \<and> cm_owner_group c = None")
    case True
    then show ?thesis by (simp add: validate_add_cluster_request_def Some Let_def)
  next
    case False
    have user: "(if is_admin_user u then None
        else case og of None \<Rightarrow> Some NilDereference
             | Some g \<Rightarrow> fail_if (\<not> is_group_user u g) UnauthorizedRequest) = Some NilDereference
        \<longleftrightarrow> \<not> is_admin_user u \<and> og = None" for u og
      by (simp add: fail_if_Some split: option.splits)
    note user_sym = trans [OF eq_commute user]
    have "validate_add_cluster_request ext ctx db fault m credential \<noteq> Some NilDereference"
    proof (cases "cm_id c = 0")
      case True
      with False have "\<not> (\<not> is_admin_user (ctx_user ctx) \<and> cm_owner_group c = None)" by simp
      then show ?thesis
        unfolding validate_add_cluster_request_def Some Let_def option.case
        by (intro no_panic_first_error) (simp add: no_panic [THEN not_sym] user_sym)
    next
      case False
      then show ?thesis by (simp add: validate_add_cluster_request_def Some Let_def)
    qed
    then show ?thesis using False Some by auto
  qed
qed

text \<open>An accepted update leaves names unique inside the tenant: no other cluster of the
  tenant has the requested name.\<close>

theorem validate_update_cluster_request_unique:
  assumes "validate_update_cluster_request ctx db fault cid m = None" and "ctx_tenant ctx \<noteq> 0"
  shows "cid \<noteq> 0 \<and> (\<exists>c g. m = Some c \<and> cm_owner_group c = Some g \<and> g \<in> ug_id ` set (db_groups db) \<and>
           acceptable_name (cm_name c) \<and> rune_count (cm_remarks c) \<le> 300 \<and>
           (\<forall>r \<in> set (db_cluster db). cl_tenant_id r = ctx_tenant ctx \<and> cl_name r = cm_name c \<longrightarrow> cl_id r = cid))"
  using assms
  by (cases m)
    (auto simp: validate_update_cluster_request_def cluster_accepts acceptable_name_def
      cond_nat_def cond_str_def)

theorem validate_update_cluster_request_unique_witness:
  "\<exists>c g. Some (example_add\<lparr>cm_name := ''c''\<rparr>) = Some c \<and> cm_owner_group c = Some g \<and> g \<in> {7::nat}"
proof -
  let ?db = "empty_db\<lparr>db_groups := [example_group], db_cluster := [example_cluster]\<rparr>"
  let ?m = "Some (example_add\<lparr>cm_name := ''c''\<rparr>)"
  have "validate_update_cluster_request example_context ?db (\<lambda>_. None) 3 ?m = None"
    by (simp add: validate_update_cluster_request_def cluster_accepts example_add_def
        example_context_def example_cluster_def example_group_def cond_nat_def cond_str_def rune_count.simps
        rune_len.simps second_range_def valid_name.simps name_byte_def)
  from validate_update_cluster_request_unique [OF this]
  have "\<exists>c g. ?m = Some c \<and> cm_owner_group c = Some g \<and> g \<in> ug_id ` set (db_groups ?db)"
    by (auto simp: example_context_def)
  then show ?thesis by (simp add: empty_db_def example_group_def)
qed

text \<open>A message passes the immutability check exactly when it keeps the cluster's identifier
  and every field it sets among owner group, type and URL keeps its value.\<close>

theorem check_updatable_cluster_iff:
  "check_updatable_cluster orig c = None \<longleftrightarrow>
     cm_id c = cl_id orig \<and> cm_owner_group c \<in> {None, Some 0, Some (cl_owner_group_id orig)} \<and>
     cm_type_code c \<in> {[], cl_type_code orig} \<and> cm_api_server_url c \<in> {[], cl_api_server_url orig}"
  by (auto simp: check_updatable_cluster_def accepts split: option.splits)

end
