(* ===== verification/Messages.thy ===== *)
theory Messages
  imports ClusterValidator
begin

text \<open>
  The request messages of \<open>proto/cluster-manager.proto\<close>, with the fields the program reads. A
  sub-message is an option (nil), a repeated field a list; its elements come from the wire and
  are never nil. The requests themselves are never nil: the server decodes them.
\<close>

section \<open>Resources\<close>

record tenant_message =
  tm_id :: nat
  tm_uuid :: string
  tm_name :: string
  tm_enabled :: bool
  tm_description :: string
  tm_quotas :: "(string \<times> int) list"

record storage_message =
  sm_id :: nat
  sm_uuid :: string
  sm_name :: string
  sm_type_code :: string
  sm_capacity_bytes :: nat
  sm_used_bytes :: nat
  sm_description :: string
  sm_status :: string
  sm_cluster_id :: "nat option"

record volume_message =
  vm_id :: nat
  vm_storage :: "storage_message option"
  vm_uuid :: string
  vm_name :: string
  vm_description :: string
  vm_size_bytes :: nat
  vm_multiattach :: bool
  vm_bootable :: bool
  vm_readonly :: bool
  vm_status :: string

record snapshot_message =
  ssm_uuid :: string
  ssm_name :: string
  ssm_description :: string
  ssm_id :: nat
  ssm_cluster_volume_group_snapshot_uuid :: string
  ssm_size_bytes :: nat
  ssm_status :: string
  ssm_created_at :: nat

record volume_pair_message =
  vp_source :: "volume_message option"
  vp_target :: "volume_message option"
  vp_source_file :: string
  vp_target_file :: string

record snapshot_pair_message =
  spp_source :: "snapshot_message option"
  spp_target :: "snapshot_message option"
  spp_source_file :: string
  spp_target_file :: string

record volume_group_message =
  vgm_uuid :: string
  vgm_name :: string
  vgm_description :: string
  vgm_storages :: "storage_message list"

record dhcp_pool_message =
  dpm_start_ip_address :: string
  dpm_end_ip_address :: string

record subnet_message =
  snm_uuid :: string
  snm_name :: string
  snm_description :: string
  snm_network_cidr :: string
  snm_dhcp_pools :: "dhcp_pool_message list"
  snm_nameservers :: "string list"
  snm_id :: nat
  snm_dhcp_enabled :: bool
  snm_gateway_enabled :: bool
  snm_gateway_ip_address :: string
  snm_ipv6_address_mode_code :: string
  snm_ipv6_ra_mode_code :: string

record network_message =
  nm_uuid :: string
  nm_name :: string
  nm_description :: string
  nm_id :: nat
  nm_type_code :: string
  nm_external_flag :: bool
  nm_status :: string
  nm_state :: string

record floating_ip_message =
  fm_uuid :: string
  fm_description :: string
  fm_ip_address :: string
  fm_id :: nat
  fm_status :: string

record routing_interface_message =
  rim_network :: "network_message option"
  rim_subnet :: "subnet_message option"
  rim_ip_address :: string

record extra_route_message =
  erm_destination :: string
  erm_nexthop :: string

record router_message =
  rm_uuid :: string
  rm_name :: string
  rm_description :: string
  rm_state :: string
  rm_extra_routes :: "extra_route_message list"
  rm_external_routing_interfaces :: "routing_interface_message list"
  rm_internal_routing_interfaces :: "routing_interface_message list"
  rm_id :: nat
  rm_status :: string

record security_group_rule_message =
  srm_uuid :: string
  srm_description :: string
  srm_remote_security_group_uuid :: string
  srm_network_cidr :: string
  srm_direction :: string
  srm_port_range_min :: nat
  srm_port_range_max :: nat
  srm_protocol :: string
  srm_ether_type :: nat
  srm_id :: nat

record security_group_message =
  sgm_uuid :: string
  sgm_name :: string
  sgm_description :: string
  sgm_rules :: "security_group_rule_message list"
  sgm_id :: nat

record extra_spec_message =
  esm_key :: string
  esm_value :: string

record spec_message =
  spm_cluster_id :: "nat option"
  spm_uuid :: string
  spm_name :: string
  spm_description :: string
  spm_vcpu_total_cnt :: nat
  spm_mem_total_bytes :: nat
  spm_id :: nat
  spm_disk_total_bytes :: nat
  spm_swap_total_bytes :: nat
  spm_ephemeral_total_bytes :: nat

record keypair_message =
  kpm_name :: string
  kpm_public_key :: string
  kpm_type_code :: string
  kpm_id :: nat
  kpm_fingerprint :: string

record hypervisor_message =
  hm_id :: nat
  hm_hostname :: string
  hm_ssh_port :: nat
  hm_ssh_account :: string
  hm_ssh_password :: string
  hm_agent_port :: nat
  hm_agent_version :: string
  hm_uuid :: string
  hm_type_code :: string
  hm_ip_address :: string
  hm_vcpu_total_cnt :: nat
  hm_vcpu_used_cnt :: nat
  hm_mem_total_bytes :: nat
  hm_mem_used_bytes :: nat
  hm_disk_total_bytes :: nat
  hm_disk_used_bytes :: nat
  hm_state :: string
  hm_status :: string
  hm_agent_installed_at :: int
  hm_agent_last_upgraded_at :: int
  hm_cluster_id :: "nat option"

record instance_message =
  im_uuid :: string
  im_name :: string
  im_description :: string
  im_id :: nat
  im_status :: string
  im_state :: string

record instance_network_message =
  inm_network :: "network_message option"
  inm_subnet :: "subnet_message option"
  inm_floating_ip :: "floating_ip_message option"
  inm_ip_address :: string
  inm_id :: nat
  inm_dhcp_flag :: bool

record instance_volume_message =
  ivm_volume :: "volume_message option"
  ivm_device_path :: string
  ivm_boot_index :: int

section \<open>Checks that several packages repeat\<close>

text \<open>
  The checks of a required message with a UUID, as the validators write them out for
  \<open>tenant\<close>, \<open>network\<close>, \<open>subnet\<close>, \<open>router\<close> and others.
\<close>

definition check_uuid :: "string \<Rightarrow> string \<Rightarrow> err option" where
  "check_uuid p v = first_error [required p v, is_uuid p v]"

definition check_tenant :: "tenant_message option \<Rightarrow> err option" where
  "check_tenant t = first_error [required_msg ''tenant'' t, check_uuid ''tenant.uuid'' (getf tm_uuid [] t)]"

lemma check_uuid_None [go_simps]: "check_uuid p v = None \<longleftrightarrow> uuid_parse v"
  by (auto simp: check_uuid_def accepts)

lemma check_tenant_None [go_simps]:
  "check_tenant t = None \<longleftrightarrow> (\<exists>m. t = Some m \<and> uuid_parse (tm_uuid m))"
  by (cases t) (auto simp: check_tenant_def accepts check_uuid_None)

text \<open>
  The identifier of a volume: a UUID, or a UUID and a snapshot name separated by \<open>@\<close>.
\<close>

definition check_volume_uuid :: "string \<Rightarrow> string \<Rightarrow> err option" where
  "check_volume_uuid p v =
     (let err = FormatMismatchParameterValue p (GStr v) ''UUID''; slice = split_on (CHR ''@'') v in
      first_error [
        fail_if (length slice > 2) err,
        fail_if (\<not> uuid_parse (slice ! 0)) err,
        fail_if (length slice = 2 \<and> \<not> snap_time_parse (slice ! 1)) err])"

text \<open>The specification: what a volume identifier is.\<close>

definition volume_identifier :: "string \<Rightarrow> bool" where
  "volume_identifier v \<longleftrightarrow>
     (CHR ''@'' \<notin> set v \<and> uuid_parse v) \<or>
     (\<exists>u t. v = u @ CHR ''@'' # t \<and> CHR ''@'' \<notin> set u \<and> CHR ''@'' \<notin> set t \<and>
            uuid_parse u \<and> snap_time_parse t)"

lemma split_on_length_1: "length (split_on c s) = 1 \<longleftrightarrow> c \<notin> set s"
  by (simp add: length_split_on count_list_0_iff)

lemma split_on_2:
  assumes "length (split_on c s) = 2"
  obtains u t where "s = u @ c # t" "c \<notin> set u" "c \<notin> set t" "split_on c s = [u, t]"
proof -
  from assms have "count_list s c = 1" by (simp add: length_split_on)
  then have "c \<in> set s" by (metis count_list_0_iff zero_neq_one)
  then obtain u t where s: "s = u @ c # t" "c \<notin> set u" by (metis split_list_first)
  with assms have "length (split_on c t) = 1" by (simp add: split_on_append)
  then have t: "c \<notin> set t" by (rule iffD1 [OF split_on_length_1])
  then show ?thesis using that [OF s t] s t by (simp add: split_on_append split_on_none)
qed

lemma check_volume_uuid_None: "check_volume_uuid p v = None \<longleftrightarrow> volume_identifier v"
proof -
  let ?s = "split_on (CHR ''@'') v"
  consider "length ?s = 1" | "length ?s = 2" | "2 < length ?s"
    by (metis length_split_on less_2_cases linorder_neqE_nat nat.distinct(1) One_nat_def)
  then show ?thesis
  proof cases
    case 1
    then have "CHR ''@'' \<notin> set v" by (simp only: split_on_length_1) simp
    then show ?thesis
      by (auto simp: check_volume_uuid_def accepts volume_identifier_def split_on_none Let_def)
  next
    case 2
    then obtain u t where v: "v = u @ CHR ''@'' # t" "CHR ''@'' \<notin> set u" "CHR ''@'' \<notin> set t"
      and s: "?s = [u, t]" by (rule split_on_2)
    have "volume_identifier v \<longleftrightarrow> uuid_parse u \<and> snap_time_parse t"
    proof -
      have "u' = u \<and> t' = t" if "v = u' @ CHR ''@'' # t'" "CHR ''@'' \<notin> set u'" "CHR ''@'' \<notin> set t'" for u' t'
        using that s by (simp add: split_on_append split_on_none)
      then show ?thesis using v unfolding volume_identifier_def by auto
    qed
    then show ?thesis by (simp add: check_volume_uuid_def accepts s Let_def)
  next
    case 3
    have "\<not> volume_identifier v"
      using 3 by (auto simp: volume_identifier_def split_on_append split_on_none)
    then show ?thesis using 3 by (simp add: check_volume_uuid_def accepts Let_def)
  qed
qed

lemmas resource_accepts = accepts connection_accepts check_uuid_None check_tenant_None
  check_volume_uuid_None is_cluster_storage_type_code_iff is_openstack_keypair_type_code_iff

end
