(* ===== verification/VolumeValidator.thy ===== *)
theory VolumeValidator
  imports Messages
begin

text \<open>\<open>internal/volume/validator.go\<close> and \<open>internal/volume_group/validator.go\<close>.\<close>

section \<open>Requests\<close>

record volume_request =
  vr_cluster_id :: nat
  vr_cluster_volume_id :: nat
  vr_uuid :: string
  vr_name :: string

record create_volume_request =
  cvr_conn :: "connection_info option"
  cvr_tenant :: "tenant_message option"
  cvr_storage :: "storage_message option"
  cvr_volume :: "volume_message option"

record move_volume_request =
  mvr_conn :: "connection_info option"
  mvr_tenant :: "tenant_message option"
  mvr_source_storage :: "storage_message option"
  mvr_target_storage :: "storage_message option"
  mvr_volume :: "volume_message option"
  mvr_volume_id :: nat
  mvr_snapshots :: "snapshot_message list"

record unmanage_volume_request =
  uvr_conn :: "connection_info option"
  uvr_tenant :: "tenant_message option"
  uvr_source_storage :: "storage_message option"
  uvr_target_storage :: "storage_message option"
  uvr_volume_pair :: "volume_pair_message option"
  uvr_volume_id :: nat
  uvr_snapshot_pairs :: "snapshot_pair_message list"

record volume_snapshot_request =
  vsr_conn :: "connection_info option"
  vsr_tenant :: "tenant_message option"
  vsr_volume :: "volume_message option"
  vsr_snapshot :: "snapshot_message option"

section \<open>Lookups\<close>

definition validate_volume_request :: "request_context \<Rightarrow> database \<Rightarrow> string option \<Rightarrow> volume_request \<Rightarrow> err option" where
  "validate_volume_request ctx db fault req =
     first_error [
       required_id ''cluster_id'' (vr_cluster_id req),
       required_id ''cluster_volume_id'' (vr_cluster_volume_id req),
       is_cluster_owner ctx db fault (vr_cluster_id req)]"

definition validate_volume_by_uuid_request :: "request_context \<Rightarrow> database \<Rightarrow> string option \<Rightarrow> volume_request \<Rightarrow> err option" where
  "validate_volume_by_uuid_request ctx db fault req =
     first_error [
       required_id ''cluster_id'' (vr_cluster_id req),
       required ''uuid'' (vr_uuid req),
       is_cluster_owner ctx db fault (vr_cluster_id req)]"

definition validate_volume_list_request :: "request_context \<Rightarrow> database \<Rightarrow> string option \<Rightarrow> volume_request \<Rightarrow> err option" where
  "validate_volume_list_request ctx db fault req =
     first_error [
       required_id ''cluster_id'' (vr_cluster_id req),
       max_runes ''name'' (vr_name req) 255,
       is_cluster_owner ctx db fault (vr_cluster_id req)]"

section \<open>Volumes\<close>

definition min_volume_size :: nat where
  "min_volume_size = 1024 * 1024 * 1024"

definition check_volume_text :: "volume_message option \<Rightarrow> err option" where
  "check_volume_text v =
     first_error [
       max_runes ''volume.name'' (getf vm_name [] v) 255,
       max_runes ''volume.description'' (getf vm_description [] v) 255,
       fail_if (getf vm_size_bytes 0 v < min_volume_size)
         (OutOfRangeParameterValue ''volume.size_bytes'' (GNat (getf vm_size_bytes 0 v)) (GNat 1073741824) GNil)]"

text \<open>The checks of a source or target storage, with the parameter's name as prefix.\<close>

definition check_storage_ref :: "string \<Rightarrow> storage_message option \<Rightarrow> err option" where
  "check_storage_ref p s =
     first_error [
       required_msg p s,
       required_id (p @ ''.id'') (getf sm_id 0 s),
       required (p @ ''.name'') (getf sm_name [] s),
       max_runes (p @ ''.name'') (getf sm_name [] s) 255,
       check_uuid (p @ ''.uuid'') (getf sm_uuid [] s),
       fail_if (\<not> is_cluster_storage_type_code (getf sm_type_code [] s))
         (UnavailableParameterValue (p @ ''.type_code'') (GStr (getf sm_type_code [] s))
            (GStrs cluster_storage_type_codes))]"

definition validate_create_cluster_volume_request :: "externals \<Rightarrow> create_volume_request \<Rightarrow> err option" where
  "validate_create_cluster_volume_request ext req =
     (let s = cvr_storage req; v = cvr_volume req in
      first_error [
        check_valid_cluster_connection_info ext (cvr_conn req),
        check_tenant (cvr_tenant req),
        required_msg ''storage'' s,
        required ''storage.name'' (getf sm_name [] s),
        max_runes ''storage.name'' (getf sm_name [] s) 255,
        fail_if (\<not> is_cluster_storage_type_code (getf sm_type_code [] s))
          (UnavailableParameterValue ''storage.type_code'' (GStr (getf sm_type_code [] s))
             (GStrs cluster_storage_type_codes)),
        required_msg ''volume'' v,
        check_volume_text v])"

definition check_snapshot :: "nat \<Rightarrow> snapshot_message \<Rightarrow> err option" where
  "check_snapshot i s =
     first_error [
       check_uuid (indexed ''snapshots'' i ''uuid'') (ssm_uuid s),
       max_runes (indexed ''snapshots'' i ''name'') (ssm_name s) 255,
       max_runes (indexed ''snapshots'' i ''description'') (ssm_description s) 255]"

definition check_volume_ref :: "volume_message option \<Rightarrow> err option" where
  "check_volume_ref v =
     first_error [
       required_msg ''volume'' v,
       required_id ''volume.id'' (getf vm_id 0 v),
       required ''volume.uuid'' (getf vm_uuid [] v),
       check_volume_uuid ''volume.uuid'' (getf vm_uuid [] v)]"

definition validate_import_cluster_volume_request :: "externals \<Rightarrow> move_volume_request \<Rightarrow> err option" where
  "validate_import_cluster_volume_request ext req =
     first_error [
       check_valid_cluster_connection_info ext (mvr_conn req),
       check_tenant (mvr_tenant req),
       check_storage_ref ''source_storage'' (mvr_source_storage req),
       check_storage_ref ''target_storage'' (mvr_target_storage req),
       check_volume_ref (mvr_volume req),
       check_volume_text (mvr_volume req),
       for_index check_snapshot 0 (mvr_snapshots req)]"

definition validate_copy_cluster_volume_request :: "externals \<Rightarrow> move_volume_request \<Rightarrow> err option" where
  "validate_copy_cluster_volume_request ext req =
     first_error [
       check_valid_cluster_connection_info ext (mvr_conn req),
       check_tenant (mvr_tenant req),
       check_storage_ref ''source_storage'' (mvr_source_storage req),
       check_storage_ref ''target_storage'' (mvr_target_storage req),
       check_volume_ref (mvr_volume req),
       check_volume_text (mvr_volume req),
       for_index check_snapshot 0 (mvr_snapshots req)]"

definition validate_delete_cluster_volume_request :: "externals \<Rightarrow> create_volume_request \<Rightarrow> err option" where
  "validate_delete_cluster_volume_request ext req =
     (let v = cvr_volume req in
      first_error [
        check_valid_cluster_connection_info ext (cvr_conn req),
        check_tenant (cvr_tenant req),
        required_msg ''volume'' v,
        required ''volume.uuid'' (getf vm_uuid [] v),
        check_volume_uuid ''volume.uuid'' (getf vm_uuid [] v)])"

definition validate_create_cluster_volume_snapshot_request :: "externals \<Rightarrow> volume_snapshot_request \<Rightarrow> err option" where
  "validate_create_cluster_volume_snapshot_request ext req =
     (let v = vsr_volume req; s = vsr_snapshot req in
      first_error [
        check_valid_cluster_connection_info ext (vsr_conn req),
        check_tenant (vsr_tenant req),
        required_msg ''volume'' v,
        required ''volume.uuid'' (getf vm_uuid [] v),
        check_volume_uuid ''volume.uuid'' (getf vm_uuid [] v),
        required_msg ''snapshot'' s,
        max_runes ''snapshot.name'' (getf ssm_name [] s) 255,
        max_runes ''snapshot.description'' (getf ssm_description [] s) 255])"

definition validate_delete_cluster_volume_snapshot_request :: "externals \<Rightarrow> volume_snapshot_request \<Rightarrow> err option" where
  "validate_delete_cluster_volume_snapshot_request ext req =
     (let s = vsr_snapshot req in
      first_error [
        check_valid_cluster_connection_info ext (vsr_conn req),
        check_tenant (vsr_tenant req),
        required_msg ''snapshot'' s,
        check_uuid ''snapshot.uuid'' (getf ssm_uuid [] s)])"

definition check_snapshot_pair :: "nat \<Rightarrow> snapshot_pair_message \<Rightarrow> err option" where
  "check_snapshot_pair i p =
     first_error [
       required_msg (indexed ''snapshot_pairs'' i ''source'') (spp_source p),
       check_uuid (indexed ''snapshot_pairs'' i ''source.uuid'') (getf ssm_uuid [] (spp_source p)),
       required_msg (indexed ''snapshot_pairs'' i ''target'') (spp_target p),
       check_uuid (indexed ''snapshot_pairs'' i ''target.uuid'') (getf ssm_uuid [] (spp_target p))]"

definition validate_unmanage_cluster_volume_request :: "externals \<Rightarrow> unmanage_volume_request \<Rightarrow> err option" where
  "validate_unmanage_cluster_volume_request ext req =
     (let pair = uvr_volume_pair req;
          source = getf vp_source None pair;
          target = getf vp_target None pair in
      first_error [
        check_valid_cluster_connection_info ext (uvr_conn req),
        check_tenant (uvr_tenant req),
        check_storage_ref ''source_storage'' (uvr_source_storage req),
        check_storage_ref ''target_storage'' (uvr_target_storage req),
        required_msg ''volume_pair'' pair,
        required_msg ''volume_pair.source'' source,
        required ''volume_pair.source.uuid'' (getf vm_uuid [] source),
        check_volume_uuid ''volume.uuid'' (getf vm_uuid [] source),
        required_id ''volume_id'' (uvr_volume_id req),
        required_msg ''volume_pair.target'' target,
        required ''volume_pair.target.uuid'' (getf vm_uuid [] target),
        check_volume_uuid ''volume.uuid'' (getf vm_uuid [] target),
        for_index check_snapshot_pair 0 (uvr_snapshot_pairs req)])"

definition validate_delete_cluster_volume_copy_request :: "externals \<Rightarrow> move_volume_request \<Rightarrow> err option" where
  "validate_delete_cluster_volume_copy_request ext req =
     (let v = mvr_volume req in
      first_error [
        check_valid_cluster_connection_info ext (mvr_conn req),
        check_tenant (mvr_tenant req),
        check_storage_ref ''source_storage'' (mvr_source_storage req),
        check_storage_ref ''target_storage'' (mvr_target_storage req),
        required_id ''volume_id'' (mvr_volume_id req),
        required_msg ''volume'' v,
        required ''volume.uuid'' (getf vm_uuid [] v),
        check_volume_uuid ''volume.uuid'' (getf vm_uuid [] v),
        for_index (\<lambda>i s. check_uuid (indexed ''snapshots'' i ''uuid'') (ssm_uuid s)) 0 (mvr_snapshots req)])"

section \<open>Volume groups\<close>

record volume_group_lookup =
  vgl_cluster_id :: nat
  vgl_cluster_tenant_id :: nat
  vgl_cluster_volume_group_uuid :: string

record volume_group_request =
  vgr_conn :: "connection_info option"
  vgr_tenant :: "tenant_message option"
  vgr_volume_group :: "volume_group_message option"
  vgr_volume_group_snapshot :: "snapshot_message option"
  vgr_add_volumes :: "volume_message list"
  vgr_delete_volumes :: "volume_message list"

text \<open>
  The lookup computes the error of a missing tenant and drops it: the branch does not return.
  The driver's message of \<open>gorm.ErrRecordNotFound\<close> is what the error then carries.
\<close>

definition record_not_found_message :: string where
  "record_not_found_message = ''record not found''"

definition validate_get_cluster_volume_group_request ::
    "database \<Rightarrow> string option \<Rightarrow> volume_group_lookup \<Rightarrow> err option" where
  "validate_get_cluster_volume_group_request db fault req =
     first_error [
       required_id ''cluster.id'' (vgl_cluster_id req),
       required_id ''tenant.id'' (vgl_cluster_tenant_id req),
       required ''volume_group.uuid'' (vgl_cluster_volume_group_uuid req),
       (case first fault tn_id
              (\<lambda>t. cond_nat (vgl_cluster_id req) (tn_cluster_id t) \<and> cond_nat (vgl_cluster_tenant_id req) (tn_id t))
              (db_tenant db) of
          Row _ \<Rightarrow> None
        | NoRow \<Rightarrow> Some (UnusableDatabase record_not_found_message)
        | QueryError e \<Rightarrow> Some (UnusableDatabase e))]"

text \<open>
  The generated message has no way to tell an absent list from an empty one: \<open>GetStorages() == nil\<close>
  holds for a decoded message without storages.
\<close>

definition validate_create_cluster_volume_group_request :: "externals \<Rightarrow> volume_group_request \<Rightarrow> err option" where
  "validate_create_cluster_volume_group_request ext req =
     (let g = vgr_volume_group req in
      first_error [
        check_valid_cluster_connection_info ext (vgr_conn req),
        check_uuid ''tenant.uuid'' (getf tm_uuid [] (vgr_tenant req)),
        required ''volume_group.name'' (getf vgm_name [] g),
        max_runes ''volume_group.name'' (getf vgm_name [] g) 255,
        max_runes ''volume_group.description'' (getf vgm_description [] g) 255,
        fail_if (getf vgm_storages [] g = []) (RequiredParameter ''volume_group.storages''),
        for_index (\<lambda>i s. check_uuid (indexed ''volume_group.storages'' i ''uuid'') (sm_uuid s)) 0
          (getf vgm_storages [] g)])"

definition validate_delete_cluster_volume_group_request :: "externals \<Rightarrow> volume_group_request \<Rightarrow> err option" where
  "validate_delete_cluster_volume_group_request ext req =
     first_error [
       check_valid_cluster_connection_info ext (vgr_conn req),
       check_uuid ''tenant.uuid'' (getf tm_uuid [] (vgr_tenant req)),
       check_uuid ''volume_group.uuid'' (getf vgm_uuid [] (vgr_volume_group req))]"

definition validate_update_cluster_volume_group_request :: "externals \<Rightarrow> volume_group_request \<Rightarrow> err option" where
  "validate_update_cluster_volume_group_request ext req =
     first_error [
       check_valid_cluster_connection_info ext (vgr_conn req),
       check_uuid ''tenant.uuid'' (getf tm_uuid [] (vgr_tenant req)),
       check_uuid ''volume_group.uuid'' (getf vgm_uuid [] (vgr_volume_group req)),
       for_index (\<lambda>i v. check_uuid (indexed ''add_volumes'' i ''uuid'') (vm_uuid v)) 0 (vgr_add_volumes req),
       for_index (\<lambda>i v. check_uuid (indexed ''delete_volumes'' i ''uuid'') (vm_uuid v)) 0 (vgr_delete_volumes req)]"

definition validate_create_cluster_volume_group_snapshot_request :: "externals \<Rightarrow> volume_group_request \<Rightarrow> err option" where
  "validate_create_cluster_volume_group_snapshot_request ext req =
     (let s = vgr_volume_group_snapshot req in
      first_error [
        check_valid_cluster_connection_info ext (vgr_conn req),
        check_uuid ''tenant.uuid'' (getf tm_uuid [] (vgr_tenant req)),
        check_uuid ''volume_group.uuid'' (getf vgm_uuid [] (vgr_volume_group req)),
        max_runes ''volume_group_snapshot.name'' (getf ssm_name [] s) 255,
        max_runes ''volume_group_snapshot.description'' (getf ssm_description [] s) 255])"

definition validate_delete_cluster_volume_group_snapshot_request :: "externals \<Rightarrow> volume_group_request \<Rightarrow> err option" where
  "validate_delete_cluster_volume_group_snapshot_request ext req =
     first_error [
       check_valid_cluster_connection_info ext (vgr_conn req),
       check_uuid ''tenant.uuid'' (getf tm_uuid [] (vgr_tenant req)),
       check_uuid ''volume_group.uuid'' (getf vgm_uuid [] (vgr_volume_group req)),
       check_uuid ''volume_group_snapshot.uuid'' (getf ssm_uuid [] (vgr_volume_group_snapshot req))]"

definition validate_get_cluster_volume_group_snapshot_list_request :: "externals \<Rightarrow> volume_group_request \<Rightarrow> err option" where
  "validate_get_cluster_volume_group_snapshot_list_request ext req =
     check_valid_cluster_connection_info ext (vgr_conn req)"

section \<open>Properties\<close>

definition well_formed_storage :: "storage_message \<Rightarrow> bool" where
  "well_formed_storage s \<longleftrightarrow>
     sm_id s \<noteq> 0 \<and> sm_name s \<noteq> [] \<and> rune_count (sm_name s) \<le> 255 \<and> uuid_parse (sm_uuid s) \<and>
     sm_type_code s \<in> set cluster_storage_type_codes"

definition well_formed_snapshot :: "snapshot_message \<Rightarrow> bool" where
  "well_formed_snapshot s \<longleftrightarrow>
     uuid_parse (ssm_uuid s) \<and> rune_count (ssm_name s) \<le> 255 \<and> rune_count (ssm_description s) \<le> 255"

definition well_formed_volume :: "volume_message \<Rightarrow> bool" where
  "well_formed_volume v \<longleftrightarrow>
     vm_id v \<noteq> 0 \<and> volume_identifier (vm_uuid v) \<and> rune_count (vm_name v) \<le> 255 \<and>
     rune_count (vm_description v) \<le> 255 \<and> min_volume_size \<le> vm_size_bytes v"

lemma volume_identifier_nonempty: "volume_identifier v \<Longrightarrow> v \<noteq> []"
  by (auto simp: volume_identifier_def)

lemma check_storage_ref_None [go_simps]:
  "check_storage_ref p s = None \<longleftrightarrow> (\<exists>m. s = Some m \<and> well_formed_storage m)"
  by (cases s) (auto simp: check_storage_ref_def resource_accepts well_formed_storage_def)

lemma check_snapshot_None [go_simps]: "check_snapshot i s = None \<longleftrightarrow> well_formed_snapshot s"
  by (auto simp: check_snapshot_def resource_accepts well_formed_snapshot_def)

lemma check_volume_ref_None [go_simps]:
  "check_volume_ref v = None \<longleftrightarrow> (\<exists>m. v = Some m \<and> vm_id m \<noteq> 0 \<and> volume_identifier (vm_uuid m))"
  by (cases v) (auto simp: check_volume_ref_def resource_accepts dest: volume_identifier_nonempty)

lemma check_volume_text_None [go_simps]:
  "check_volume_text (Some m) = None \<longleftrightarrow>
     rune_count (vm_name m) \<le> 255 \<and> rune_count (vm_description m) \<le> 255 \<and> min_volume_size \<le> vm_size_bytes m"
  by (auto simp: check_volume_text_def accepts)

lemma check_snapshot_pair_None [go_simps]:
  "check_snapshot_pair i p = None \<longleftrightarrow>
     (\<exists>s t. spp_source p = Some s \<and> spp_target p = Some t \<and> uuid_parse (ssm_uuid s) \<and> uuid_parse (ssm_uuid t))"
  by (cases "spp_source p"; cases "spp_target p")
    (auto simp: check_snapshot_pair_def resource_accepts)

lemmas volume_accepts = resource_accepts check_storage_ref_None check_snapshot_None
  check_volume_ref_None check_volume_text_None check_snapshot_pair_None
  for_index_all [of check_snapshot, OF check_snapshot_None]

text \<open>A request to import a volume is accepted exactly when its connection is usable and its
  tenant, both storages, the volume (a UUID, or a UUID, an at sign and a snapshot time; at least
  one GiB) and every snapshot are well formed; the request to copy one is the same check.\<close>

theorem validate_import_cluster_volume_request_iff:
  "(validate_import_cluster_volume_request ext req = None \<longleftrightarrow>
     (\<exists>c t s u v. mvr_conn req = Some c \<and> usable_connection ext c \<and>
        mvr_tenant req = Some t \<and> uuid_parse (tm_uuid t) \<and>
        mvr_source_storage req = Some s \<and> well_formed_storage s \<and>
        mvr_target_storage req = Some u \<and> well_formed_storage u \<and>
        mvr_volume req = Some v \<and> well_formed_volume v \<and>
        list_all well_formed_snapshot (mvr_snapshots req))) \<and>
   validate_copy_cluster_volume_request ext req = validate_import_cluster_volume_request ext req"
proof
  show "validate_copy_cluster_volume_request ext req = validate_import_cluster_volume_request ext req"
    by (simp add: validate_copy_cluster_volume_request_def validate_import_cluster_volume_request_def)
  show "validate_import_cluster_volume_request ext req = None \<longleftrightarrow>
     (\<exists>c t s u v. mvr_conn req = Some c \<and> usable_connection ext c \<and>
        mvr_tenant req = Some t \<and> uuid_parse (tm_uuid t) \<and>
        mvr_source_storage req = Some s \<and> well_formed_storage s \<and>
        mvr_target_storage req = Some u \<and> well_formed_storage u \<and>
        mvr_volume req = Some v \<and> well_formed_volume v \<and>
        list_all well_formed_snapshot (mvr_snapshots req))"
    by (cases "mvr_volume req")
      (auto simp: validate_import_cluster_volume_request_def volume_accepts well_formed_volume_def
        list_all_iff)
qed

text \<open>When everything before the snapshots is well formed, the error of a refused request
  names the first snapshot that is not well formed, by its index.\<close>

theorem validate_import_cluster_volume_request_snapshot_error:
  assumes "validate_import_cluster_volume_request ext (req\<lparr>mvr_snapshots := []\<rparr>) = None"
  shows "validate_import_cluster_volume_request ext req = Some e \<longleftrightarrow>
     (\<exists>k < length (mvr_snapshots req). check_snapshot k (mvr_snapshots req ! k) = Some e \<and>
        (\<forall>j < k. well_formed_snapshot (mvr_snapshots req ! j)))"
proof -
  have "validate_import_cluster_volume_request ext req = for_index check_snapshot 0 (mvr_snapshots req)"
    using assms unfolding validate_import_cluster_volume_request_def
    by (simp add: first_error_Cons split: option.splits)
  then show ?thesis by (simp add: for_index_Some check_snapshot_None)
qed

text \<open>Looking up a volume group of a tenant that does not exist never reports the missing
  tenant: the request fails as if the database were unusable.\<close>

theorem validate_get_cluster_volume_group_request_missing_tenant:
  assumes "vgl_cluster_id req \<noteq> 0" and "vgl_cluster_tenant_id req \<noteq> 0"
    and "vgl_cluster_volume_group_uuid req \<noteq> []"
  shows "validate_get_cluster_volume_group_request db None req =
     (if \<exists>t \<in> set (db_tenant db). tn_id t = vgl_cluster_tenant_id req \<and> tn_cluster_id t = vgl_cluster_id req
      then None else Some (UnusableDatabase ''record not found''))"
proof -
  let ?P = "\<lambda>t. cond_nat (vgl_cluster_id req) (tn_cluster_id t) \<and> cond_nat (vgl_cluster_tenant_id req) (tn_id t)"
  have P: "?P t \<longleftrightarrow> tn_cluster_id t = vgl_cluster_id req \<and> tn_id t = vgl_cluster_tenant_id req" for t
    using assms by (simp add: cond_nat_def)
  have "first None tn_id ?P (db_tenant db) = NoRow \<longleftrightarrow>
      \<not> (\<exists>t \<in> set (db_tenant db). tn_id t = vgl_cluster_tenant_id req \<and> tn_cluster_id t = vgl_cluster_id req)"
    by (auto simp: first_NoRow P)
  moreover have "first None tn_id ?P (db_tenant db) \<noteq> QueryError e" for e
    by (simp add: first_QueryError)
  ultimately show ?thesis
    using assms unfolding validate_get_cluster_volume_group_request_def
    by (cases "first None tn_id ?P (db_tenant db)")
      (auto simp del: P simp: record_not_found_message_def required_id_def required_def)
qed

theorem validate_get_cluster_volume_group_request_missing_tenant_witness:
  "validate_get_cluster_volume_group_request empty_db None
     \<lparr>vgl_cluster_id = 1, vgl_cluster_tenant_id = 2, vgl_cluster_volume_group_uuid = ''g''\<rparr>
   = Some (UnusableDatabase ''record not found'')"
  by (subst validate_get_cluster_volume_group_request_missing_tenant) (simp_all add: empty_db_def)

definition example_uuid :: string where
  "example_uuid = ''0123456789abcdef0123456789abcdef''"

definition example_connection :: connection_info where
  "example_connection = \<lparr>ci_type_code = ''cluster.type.openstack'', ci_api_server_url = ''http://b'',
     ci_credential = ''{}'', ci_tenant_id = []\<rparr>"

definition example_storage :: storage_message where
  "example_storage = \<lparr>sm_id = 1, sm_uuid = example_uuid, sm_name = ''s'',
     sm_type_code = ''openstack.storage.type.nfs'',
     sm_capacity_bytes = 0, sm_used_bytes = 0, sm_description = [], sm_status = [], sm_cluster_id = None\<rparr>"

definition example_import :: move_volume_request where
  "example_import = \<lparr>mvr_conn = Some example_connection,
     mvr_tenant = Some \<lparr>tm_id = 1, tm_uuid = example_uuid, tm_name = ''t'',
       tm_enabled = True, tm_description = [], tm_quotas = []\<rparr>,
     mvr_source_storage = Some example_storage, mvr_target_storage = Some example_storage,
     mvr_volume = Some \<lparr>vm_id = 1, vm_storage = None, vm_uuid = example_uuid @ ''@snap-2020-02-29-10:00:00'',
        vm_name = ''v'', vm_description = [], vm_size_bytes = 1073741824,
        vm_multiattach = False, vm_bootable = False, vm_readonly = False, vm_status = []\<rparr>,
     mvr_volume_id = 0,
     mvr_snapshots = [\<lparr>ssm_uuid = ''x'', ssm_name = [], ssm_description = [],
        ssm_id = 0, ssm_cluster_volume_group_snapshot_uuid = [], ssm_size_bytes = 0, ssm_status = [], ssm_created_at = 0\<rparr>]\<rparr>"

lemma example_uuid_parse: "uuid_parse example_uuid"
  by (simp add: uuid_parse_def example_uuid_def is_hex_def)

lemma example_connection_usable: "usable_connection example_externals example_connection"
  by (simp add: usable_connection_def example_connection_def example_externals_def password_credential_def)

lemma example_storage_ok: "well_formed_storage example_storage"
  by (simp add: well_formed_storage_def example_storage_def example_uuid_parse rune_count.simps
      rune_len.simps second_range_def cluster_storage_type_codes_def)

lemma example_volume_identifier: "volume_identifier (example_uuid @ ''@snap-2020-02-29-10:00:00'')"
proof -
  have "CHR ''@'' \<notin> set example_uuid" by (simp add: example_uuid_def)
  moreover have "snap_time_parse ''snap-2020-02-29-10:00:00''"
    by (simp add: snap_time_parse_def getyear_def is_digit_def digit_val_def skip_fraction_def
        accept_def days_in_def is_leap_def)
  ultimately show ?thesis
    unfolding volume_identifier_def using example_uuid_parse
    by (intro disjI2 exI [of _ example_uuid] exI [of _ "''snap-2020-02-29-10:00:00''"]) simp
qed

theorem validate_import_cluster_volume_request_snapshot_error_witness:
  "validate_import_cluster_volume_request example_externals example_import =
     Some (FormatMismatchParameterValue ''snapshots[0].uuid'' (GStr ''x'') ''UUID'')"
proof -
  have volume: "check_volume_ref (mvr_volume example_import) = None"
    using example_volume_identifier by (simp add: check_volume_ref_None example_import_def)
  have body: "check_volume_text (mvr_volume example_import) = None"
    by (simp add: example_import_def check_volume_text_None rune_count.simps rune_len.simps
        second_range_def min_volume_size_def)
  have "validate_import_cluster_volume_request example_externals (example_import\<lparr>mvr_snapshots := []\<rparr>) = None"
    using volume body
    by (simp add: validate_import_cluster_volume_request_def first_error_None connection_accepts
        check_tenant_None check_storage_ref_None example_import_def example_uuid_parse
        example_connection_usable example_storage_ok)
  from validate_import_cluster_volume_request_snapshot_error [OF this]
  show ?thesis
    by (simp add: example_import_def check_snapshot_def check_uuid_def required_def is_uuid_def
        uuid_parse_def indexed_def itoa.simps digit_char_def)
qed

end
