(* ===== verification/NetworkValidator.thy ===== *)
theory NetworkValidator
  imports VolumeValidator
begin

text \<open>
  The validators of the network resources: \<open>internal/network\<close>, \<open>internal/router\<close>,
  \<open>internal/floating_ip\<close> and \<open>internal/security_group\<close>, each \<open>validator.go\<close>.
\<close>

section \<open>Requests\<close>

text \<open>A request that names a cluster and one resource of it, by identifier, UUID, name or address.\<close>

record lookup_request =
  lr_cluster_id :: nat
  lr_resource_id :: nat
  lr_uuid :: string
  lr_name :: string
  lr_cluster_tenant_id :: nat

record network_request =
  nr_conn :: "connection_info option"
  nr_tenant :: "tenant_message option"
  nr_network :: "network_message option"
  nr_subnet :: "subnet_message option"
  nr_floating_ip :: "floating_ip_message option"
  nr_router :: "router_message option"

record security_group_request =
  sgq_conn :: "connection_info option"
  sgq_tenant :: "tenant_message option"
  sgq_security_group :: "security_group_message option"
  sgq_security_group_rule :: "security_group_rule_message option"

type_synonym lookup_validator =
  "request_context \<Rightarrow> database \<Rightarrow> (nat \<Rightarrow> string option) \<Rightarrow> lookup_request \<Rightarrow> err option"

section \<open>Networks and subnets\<close>

definition validate_network_request :: lookup_validator where
  "validate_network_request ctx db fault req =
     first_error [
       required_id ''cluster_id'' (lr_cluster_id req),
       required_id ''cluster_network_id'' (lr_resource_id req),
       is_cluster_owner ctx db (fault 0) (lr_cluster_id req)]"

definition validate_network_by_uuid_request :: lookup_validator where
  "validate_network_by_uuid_request ctx db fault req =
     first_error [
       required_id ''cluster_id'' (lr_cluster_id req),
       required ''uuid'' (lr_uuid req),
       is_cluster_owner ctx db (fault 0) (lr_cluster_id req)]"

definition validate_network_list_request :: lookup_validator where
  "validate_network_list_request ctx db fault req =
     first_error [
       required_id ''cluster_id'' (lr_cluster_id req),
       is_cluster_owner ctx db (fault 0) (lr_cluster_id req),
       (if lr_cluster_tenant_id req \<noteq> 0 then
          (case first (fault 1) tn_id
                 (\<lambda>t. cond_nat (lr_cluster_tenant_id req) (tn_id t) \<and>
                      cond_nat (lr_cluster_id req) (tn_cluster_id t)) (db_tenant db) of
             Row _ \<Rightarrow> None
           | NoRow \<Rightarrow> Some (InvalidParameterValue ''cluster_tenant_id''
                        (GNat (lr_cluster_tenant_id req)) ''not found tenant'')
           | QueryError e \<Rightarrow> Some (UnusableDatabase e))
        else None)]"

definition validate_create_cluster_network_request :: "externals \<Rightarrow> network_request \<Rightarrow> err option" where
  "validate_create_cluster_network_request ext req =
     first_error [
       check_valid_cluster_connection_info ext (nr_conn req),
       check_tenant (nr_tenant req),
       required_msg ''network'' (nr_network req),
       max_runes ''network.name'' (getf nm_name [] (nr_network req)) 255,
       max_runes ''network.description'' (getf nm_description [] (nr_network req)) 255]"

definition check_network :: "network_message option \<Rightarrow> err option" where
  "check_network n = first_error [required_msg ''network'' n, check_uuid ''network.uuid'' (getf nm_uuid [] n)]"

definition validate_delete_cluster_network_request :: "externals \<Rightarrow> network_request \<Rightarrow> err option" where
  "validate_delete_cluster_network_request ext req =
     first_error [
       check_valid_cluster_connection_info ext (nr_conn req),
       check_tenant (nr_tenant req),
       check_network (nr_network req)]"

definition validate_get_cluster_subnet_request :: lookup_validator where
  "validate_get_cluster_subnet_request ctx db fault req =
     first_error [
       required_id ''cluster_id'' (lr_cluster_id req),
       required_id ''cluster_subnet_id'' (lr_resource_id req),
       is_cluster_owner ctx db (fault 0) (lr_cluster_id req)]"

definition check_address :: "externals \<Rightarrow> string \<Rightarrow> string \<Rightarrow> err option" where
  "check_address ext p v =
     first_error [required p v, fail_if (\<not> is_ip ext v) (FormatMismatchParameterValue p (GStr v) ''IP'')]"

definition check_cidr :: "externals \<Rightarrow> string \<Rightarrow> string \<Rightarrow> err option" where
  "check_cidr ext p v =
     first_error [required p v, fail_if (\<not> is_cidr ext v) (FormatMismatchParameterValue p (GStr v) ''CIDR'')]"

definition check_dhcp_pool :: "externals \<Rightarrow> nat \<Rightarrow> dhcp_pool_message \<Rightarrow> err option" where
  "check_dhcp_pool ext i pool =
     first_error [
       check_address ext (indexed ''subnet.dhcp_pools'' i ''start_ip_address'') (dpm_start_ip_address pool),
       check_address ext (indexed ''subnet.dhcp_pools'' i ''end_ip_address'') (dpm_end_ip_address pool)]"

definition validate_create_cluster_subnet_request :: "externals \<Rightarrow> network_request \<Rightarrow> err option" where
  "validate_create_cluster_subnet_request ext req =
     (let s = nr_subnet req in
      first_error [
        check_valid_cluster_connection_info ext (nr_conn req),
        check_tenant (nr_tenant req),
        check_network (nr_network req),
        required_msg ''subnet'' s,
        max_runes ''subnet.name'' (getf snm_name [] s) 255,
        max_runes ''subnet.description'' (getf snm_description [] s) 255,
        check_cidr ext ''subnet.network_cidr'' (getf snm_network_cidr [] s),
        for_index (check_dhcp_pool ext) 0 (getf snm_dhcp_pools [] s),
        for_index (\<lambda>i n. check_address ext (indexed ''subnet.nameservers'' i ''nameserver'') n) 0
          (getf snm_nameservers [] s)])"

definition validate_delete_cluster_subnet_request :: "externals \<Rightarrow> network_request \<Rightarrow> err option" where
  "validate_delete_cluster_subnet_request ext req =
     first_error [
       check_valid_cluster_connection_info ext (nr_conn req),
       check_tenant (nr_tenant req),
       check_network (nr_network req),
       required_msg ''subnet'' (nr_subnet req),
       check_uuid ''subnet.uuid'' (getf snm_uuid [] (nr_subnet req))]"

section \<open>Floating IPs\<close>

text \<open>\<open>address != "" && !IsIPv4(address) && !IsIPv6(address)\<close>.\<close>

definition check_optional_ip :: "externals \<Rightarrow> string \<Rightarrow> string \<Rightarrow> err option" where
  "check_optional_ip ext p v =
     fail_if (v \<noteq> [] \<and> \<not> is_ipv4 ext v \<and> \<not> is_ipv6 ext v) (FormatMismatchParameterValue p (GStr v) ''IP'')"

definition validate_create_cluster_floating_ip_request :: "externals \<Rightarrow> network_request \<Rightarrow> err option" where
  "validate_create_cluster_floating_ip_request ext req =
     first_error [
       check_valid_cluster_connection_info ext (nr_conn req),
       check_tenant (nr_tenant req),
       check_network (nr_network req),
       required_msg ''floating_ip'' (nr_floating_ip req),
       max_runes ''floating_ip.description'' (getf fm_description [] (nr_floating_ip req)) 255,
       check_optional_ip ext ''floating_ip.ip_address'' (getf fm_ip_address [] (nr_floating_ip req))]"

definition validate_delete_cluster_floating_ip_request :: "externals \<Rightarrow> network_request \<Rightarrow> err option" where
  "validate_delete_cluster_floating_ip_request ext req =
     first_error [
       check_valid_cluster_connection_info ext (nr_conn req),
       check_tenant (nr_tenant req),
       required_msg ''floating_ip'' (nr_floating_ip req),
       check_uuid ''floating_ip.uuid'' (getf fm_uuid [] (nr_floating_ip req))]"

definition validate_get_cluster_floating_ip :: lookup_validator where
  "validate_get_cluster_floating_ip ctx db fault req =
     first_error [
       required_id ''cluster_id'' (lr_cluster_id req),
       required_id ''cluster_floating_ip'' (lr_resource_id req),
       is_cluster_owner ctx db (fault 0) (lr_cluster_id req)]"

definition validate_check_is_exist_floating_ip :: lookup_validator where
  "validate_check_is_exist_floating_ip ctx db fault req =
     first_error [
       required_id ''cluster_id'' (lr_cluster_id req),
       required ''cluster_floating_ip_address'' (lr_name req),
       is_cluster_owner ctx db (fault 0) (lr_cluster_id req)]"

section \<open>Routers\<close>

definition check_extra_route :: "externals \<Rightarrow> nat \<Rightarrow> extra_route_message \<Rightarrow> err option" where
  "check_extra_route ext i r =
     first_error [
       check_cidr ext (indexed ''router.extra_routes'' i ''destination'') (erm_destination r),
       check_address ext (indexed ''router.extra_routes'' i ''nexthop'') (erm_nexthop r)]"

definition check_external_interface :: "externals \<Rightarrow> nat \<Rightarrow> routing_interface_message \<Rightarrow> err option" where
  "check_external_interface ext i r =
     (let p = indexed ''router.external_routing_interfaces'' i; a = rim_ip_address r in
      first_error [
        check_uuid (p ''network.uuid'') (getf nm_uuid [] (rim_network r)),
        fail_if (a \<noteq> [] \<and> \<not> is_ip ext a) (FormatMismatchParameterValue (p ''ip_address'') (GStr a) ''IP''),
        check_uuid (p ''subnet.uuid'') (getf snm_uuid [] (rim_subnet r))])"

definition check_internal_interface :: "externals \<Rightarrow> nat \<Rightarrow> routing_interface_message \<Rightarrow> err option" where
  "check_internal_interface ext i r =
     (let p = indexed ''router.internal_routing_interfaces'' i in
      first_error [
        check_uuid (p ''network.uuid'') (getf nm_uuid [] (rim_network r)),
        check_optional_ip ext (p ''ip_address'') (rim_ip_address r),
        check_uuid (p ''subnet.uuid'') (getf snm_uuid [] (rim_subnet r))])"

definition validate_create_cluster_router_request :: "externals \<Rightarrow> network_request \<Rightarrow> err option" where
  "validate_create_cluster_router_request ext req =
     (let r = nr_router req; state = getf rm_state [] r in
      first_error [
        check_valid_cluster_connection_info ext (nr_conn req),
        check_tenant (nr_tenant req),
        required_msg ''router'' r,
        fail_if (state \<noteq> [] \<and> state \<noteq> ''up'' \<and> state \<noteq> ''down'')
          (UnavailableParameterValue ''router.state'' (GStr state) (GStrs [''up'', ''down''])),
        max_runes ''router.name'' (getf rm_name [] r) 255,
        max_runes ''router.description'' (getf rm_description [] r) 255,
        for_index (check_extra_route ext) 0 (getf rm_extra_routes [] r),
        for_index (check_external_interface ext) 0 (getf rm_external_routing_interfaces [] r),
        for_index (check_internal_interface ext) 0 (getf rm_internal_routing_interfaces [] r)])"

definition validate_delete_cluster_router_request :: "externals \<Rightarrow> network_request \<Rightarrow> err option" where
  "validate_delete_cluster_router_request ext req =
     first_error [
       check_valid_cluster_connection_info ext (nr_conn req),
       check_tenant (nr_tenant req),
       required_msg ''router'' (nr_router req),
       check_uuid ''router.uuid'' (getf rm_uuid [] (nr_router req))]"

definition validate_get_cluster_router_request :: lookup_validator where
  "validate_get_cluster_router_request ctx db fault req =
     first_error [
       required_id ''cluster_id'' (lr_cluster_id req),
       required_id ''cluster_router_id'' (lr_resource_id req),
       is_cluster_owner ctx db (fault 0) (lr_cluster_id req)]"

definition validate_get_cluster_router_by_uuid_request :: lookup_validator where
  "validate_get_cluster_router_by_uuid_request ctx db fault req =
     first_error [
       required_id ''cluster_id'' (lr_cluster_id req),
       required ''uuid'' (lr_uuid req),
       is_cluster_owner ctx db (fault 0) (lr_cluster_id req)]"

definition validate_get_cluster_router_list_request :: lookup_validator where
  "validate_get_cluster_router_list_request ctx db fault req =
     first_error [
       required_id ''cluster_id'' (lr_cluster_id req),
       is_cluster_owner ctx db (fault 0) (lr_cluster_id req)]"

section \<open>Security groups\<close>

definition validate_get_security_group :: lookup_validator where
  "validate_get_security_group ctx db fault req =
     first_error [
       required_id ''cluster_id'' (lr_cluster_id req),
       required_id ''cluster_security_group_id'' (lr_resource_id req),
       is_cluster_owner ctx db (fault 0) (lr_cluster_id req)]"

definition validate_get_security_group_by_uuid :: lookup_validator where
  "validate_get_security_group_by_uuid ctx db fault req =
     first_error [
       required_id ''cluster_id'' (lr_cluster_id req),
       required ''uuid'' (lr_uuid req),
       is_cluster_owner ctx db (fault 0) (lr_cluster_id req)]"

definition validate_get_security_group_list :: lookup_validator where
  "validate_get_security_group_list ctx db fault req =
     first_error [
       required_id ''cluster_id'' (lr_cluster_id req),
       is_cluster_owner ctx db (fault 0) (lr_cluster_id req)]"

definition validate_create_security_group :: "externals \<Rightarrow> security_group_request \<Rightarrow> err option" where
  "validate_create_security_group ext req =
     (let g = sgq_security_group req in
      first_error [
        check_valid_cluster_connection_info ext (sgq_conn req),
        check_tenant (sgq_tenant req),
        required_msg ''security_group'' g,
        required ''security_group.name'' (getf sgm_name [] g),
        max_runes ''security_group.name'' (getf sgm_name [] g) 255,
        max_runes ''security_group.description'' (getf sgm_description [] g) 255])"

definition rule_protocols :: "string list" where
  "rule_protocols =
     [''any'', ''ah'', ''dccp'', ''egp'', ''esp'', ''gre'', ''icmp'', ''icmpv6'', ''igmp'', ''ipip'',
      ''ipv6-encap'', ''ipv6-frag'', ''ipv6-icmp'', ''ipv6-nonxt'', ''ipv6-opts'', ''ipv6-route'',
      ''ospf'', ''pgm'', ''rsvp'', ''sctp'', ''tcp'', ''udp'', ''udplite'', ''vrrp'']"

text \<open>\<open>matched = matched || (ruleProtocol == p)\<close> over the protocols.\<close>

definition protocol_matched :: "string \<Rightarrow> bool" where
  "protocol_matched v = fold (\<lambda>p matched. matched \<or> v = p) rule_protocols False"

definition check_port_range :: "nat \<Rightarrow> nat \<Rightarrow> err option" where
  "check_port_range port_max port_min =
     (if port_max \<noteq> 0 \<or> port_min \<noteq> 0 then
        first_error [
          fail_if (\<not> (0 < port_max \<and> port_max < 65536))
            (OutOfRangeParameterValue ''security_group_rule.port_range_max'' (GNat port_max) (GNat 1) (GNat 65535)),
          fail_if (\<not> (0 < port_min \<and> port_min < 65536))
            (OutOfRangeParameterValue ''security_group_rule.port_range_min'' (GNat port_min) (GNat 1) (GNat 65535)),
          fail_if (port_max < port_min)
            (InvalidParameterValue ''security_group_rule.port_range_min'' (GNat port_max)
               ''port_range_max value is must equal larger than port_range_min value'')]
      else None)"

definition validate_create_security_group_rule :: "externals \<Rightarrow> security_group_request \<Rightarrow> err option" where
  "validate_create_security_group_rule ext req =
     (let g = sgq_security_group req; r = sgq_security_group_rule req;
          remote = getf srm_remote_security_group_uuid [] r;
          cidr = getf srm_network_cidr [] r;
          ether = getf srm_ether_type 0 r;
          direction = getf srm_direction [] r;
          protocol = getf srm_protocol [] r in
      first_error [
        check_valid_cluster_connection_info ext (sgq_conn req),
        check_tenant (sgq_tenant req),
        required_msg ''security_group'' g,
        check_uuid ''security_group.uuid'' (getf sgm_uuid [] g),
        required_msg ''security_group_rule'' r,
        max_runes ''security_group_rule.description'' (getf srm_description [] r) 255,
        fail_if (remote \<noteq> [] \<and> cidr \<noteq> [])
          (InvalidParameterValue ''security_group_rule.network_cidr'' (GStr cidr)
             ''either the remote_security_group.uuid or network_cidr''),
        fail_if (remote \<noteq> [] \<and> \<not> uuid_parse remote)
          (FormatMismatchParameterValue ''security_group_rule.remote_security_group.uuid'' (GStr remote) ''UUID''),
        fail_if (ether \<noteq> 4 \<and> ether \<noteq> 6)
          (UnavailableParameterValue ''security_group_rule.ether_type'' (GNat ether) (GNats [4, 6])),
        fail_if (cidr \<noteq> [] \<and> \<not> is_cidr ext cidr)
          (FormatMismatchParameterValue ''security_group_rule.network_cidr'' (GStr cidr) ''CIDR''),
        fail_if (direction \<noteq> ''ingress'' \<and> direction \<noteq> ''egress'')
          (UnavailableParameterValue ''security_group_rule.direction'' (GStr direction)
             (GStrs [''ingress'', ''egress''])),
        check_port_range (getf srm_port_range_max 0 r) (getf srm_port_range_min 0 r),
        fail_if (\<not> protocol_matched protocol \<and> protocol \<noteq> [])
          (UnavailableParameterValue ''security_group_rule.protocol'' (GStr protocol) (GStrs rule_protocols))])"

definition validate_delete_security_group :: "externals \<Rightarrow> security_group_request \<Rightarrow> err option" where
  "validate_delete_security_group ext req =
     (let g = sgq_security_group req in
      first_error [
        check_valid_cluster_connection_info ext (sgq_conn req),
        check_tenant (sgq_tenant req),
        required_msg ''security_group'' g,
        check_uuid ''security_group.uuid'' (getf sgm_uuid [] g),
        for_index (\<lambda>i r. check_uuid (indexed ''security_group.rules'' i ''uuid'') (srm_uuid r)) 0
          (getf sgm_rules [] g)])"

definition validate_check_is_exist_security_group :: lookup_validator where
  "validate_check_is_exist_security_group ctx db fault req =
     first_error [
       required_id ''tenant_id'' (lr_cluster_id req),
       required ''name'' (lr_name req),
       is_cluster_owner ctx db (fault 0) (lr_cluster_id req)]"

section \<open>Properties\<close>

definition ports_ok :: "nat \<Rightarrow> nat \<Rightarrow> bool" where
  "ports_ok lo hi \<longleftrightarrow> (lo = 0 \<and> hi = 0) \<or> (1 \<le> lo \<and> lo \<le> hi \<and> hi \<le> 65535)"

definition well_formed_rule :: "externals \<Rightarrow> security_group_rule_message \<Rightarrow> bool" where
  "well_formed_rule ext r \<longleftrightarrow>
     rune_count (srm_description r) \<le> 255 \<and>
     (srm_remote_security_group_uuid r = [] \<or> srm_network_cidr r = []) \<and>
     (srm_remote_security_group_uuid r \<noteq> [] \<longrightarrow> uuid_parse (srm_remote_security_group_uuid r)) \<and>
     (srm_network_cidr r \<noteq> [] \<longrightarrow> is_cidr ext (srm_network_cidr r)) \<and>
     srm_ether_type r \<in> {4, 6} \<and> srm_direction r \<in> {''ingress'', ''egress''} \<and>
     ports_ok (srm_port_range_min r) (srm_port_range_max r) \<and>
     (srm_protocol r = [] \<or> srm_protocol r \<in> set rule_protocols)"

lemma protocol_matched_iff: "protocol_matched v \<longleftrightarrow> v \<in> set rule_protocols"
proof -
  have "fold (\<lambda>p matched. matched \<or> v = p) ps b \<longleftrightarrow> b \<or> v \<in> set ps" for ps b
    by (induction ps arbitrary: b) auto
  then show ?thesis by (simp add: protocol_matched_def)
qed

lemma check_port_range_None: "check_port_range hi lo = None \<longleftrightarrow> ports_ok lo hi"
  by (auto simp: check_port_range_def ports_ok_def accepts)

text \<open>C33. A rule is accepted exactly when the connection is usable, tenant and group have UUIDs,
  at most one of remote group and CIDR is set and is well formed, the ether type is 4 or 6, the
  direction is ingress or egress, the ports are both zero or a range inside 1 to 65535, and
  the protocol is empty or known.\<close>

theorem validate_create_security_group_rule_iff:
  "validate_create_security_group_rule ext req = None \<longleftrightarrow>
     (\<exists>c t g r. sgq_conn req = Some c \<and> usable_connection ext c \<and>
        sgq_tenant req = Some t \<and> uuid_parse (tm_uuid t) \<and>
        sgq_security_group req = Some g \<and> uuid_parse (sgm_uuid g) \<and>
        sgq_security_group_rule req = Some r \<and> well_formed_rule ext r)"
proof (cases "sgq_security_group_rule req")
  case None
  then show ?thesis by (auto simp: validate_create_security_group_rule_def resource_accepts Let_def)
next
  case (Some r)
  show ?thesis
  proof (cases "sgq_security_group req")
    case None
    then show ?thesis by (auto simp: validate_create_security_group_rule_def resource_accepts Let_def)
  next
    case (Some g)
    have "validate_create_security_group_rule ext req = None \<longleftrightarrow>
        (\<exists>c. sgq_conn req = Some c \<and> usable_connection ext c) \<and>
        (\<exists>t. sgq_tenant req = Some t \<and> uuid_parse (tm_uuid t)) \<and> uuid_parse (sgm_uuid g) \<and>
        well_formed_rule ext r"
      unfolding validate_create_security_group_rule_def well_formed_rule_def
      using \<open>sgq_security_group_rule req = Some r\<close> Some
      by (auto simp: resource_accepts Let_def check_port_range_None protocol_matched_iff)
    then show ?thesis using \<open>sgq_security_group_rule req = Some r\<close> Some by auto
  qed
qed

definition well_formed_interface :: "(string \<Rightarrow> bool) \<Rightarrow> routing_interface_message \<Rightarrow> bool" where
  "well_formed_interface address r \<longleftrightarrow>
     uuid_parse (getf nm_uuid [] (rim_network r)) \<and> uuid_parse (getf snm_uuid [] (rim_subnet r)) \<and>
     (rim_ip_address r = [] \<or> address (rim_ip_address r))"

lemma check_cidr_None: "check_cidr ext p v = None \<longleftrightarrow> v \<noteq> [] \<and> is_cidr ext v"
  by (simp add: check_cidr_def accepts)

lemma check_address_None: "check_address ext p v = None \<longleftrightarrow> v \<noteq> [] \<and> is_ip ext v"
  by (simp add: check_address_def accepts)

lemma check_interface_None:
  "check_external_interface ext i r = None \<longleftrightarrow> well_formed_interface (is_ip ext) r"
  "check_internal_interface ext i r = None \<longleftrightarrow> well_formed_interface (\<lambda>a. is_ipv4 ext a \<or> is_ipv6 ext a) r"
  by (auto simp: check_external_interface_def check_internal_interface_def check_optional_ip_def
      well_formed_interface_def resource_accepts Let_def)

lemma check_extra_route_None:
  "check_extra_route ext i x = None \<longleftrightarrow>
     erm_destination x \<noteq> [] \<and> is_cidr ext (erm_destination x) \<and>
     erm_nexthop x \<noteq> [] \<and> is_ip ext (erm_nexthop x)"
  by (auto simp: check_extra_route_def accepts check_cidr_None check_address_None)

lemma check_dhcp_pool_None:
  "check_dhcp_pool ext i p = None \<longleftrightarrow>
     dpm_start_ip_address p \<noteq> [] \<and> is_ip ext (dpm_start_ip_address p) \<and>
     dpm_end_ip_address p \<noteq> [] \<and> is_ip ext (dpm_end_ip_address p)"
  by (auto simp: check_dhcp_pool_def accepts check_address_None)

lemma check_network_None: "check_network n = None \<longleftrightarrow> (\<exists>m. n = Some m \<and> uuid_parse (nm_uuid m))"
  by (cases n) (auto simp: check_network_def resource_accepts)

lemmas network_accepts = resource_accepts check_cidr_None check_address_None check_network_None
  for_index_all [of "check_extra_route ext" for ext, OF check_extra_route_None]
  for_index_all [of "check_external_interface ext" for ext, OF check_interface_None(1)]
  for_index_all [of "check_internal_interface ext" for ext, OF check_interface_None(2)]
  for_index_all [of "check_dhcp_pool ext" for ext, OF check_dhcp_pool_None]
  for_index_all [of "\<lambda>i n. check_address ext (p i) n" for ext p, OF check_address_None]

text \<open>A router is accepted exactly when its connection is usable, its tenant has a UUID, its
  state is empty, up or down, and all its routes and interfaces are well formed.\<close>

theorem validate_create_cluster_router_request_iff:
  "validate_create_cluster_router_request ext req = None \<longleftrightarrow>
     (\<exists>c t r. nr_conn req = Some c \<and> usable_connection ext c \<and>
        nr_tenant req = Some t \<and> uuid_parse (tm_uuid t) \<and> nr_router req = Some r \<and>
        rm_state r \<in> {[], ''up'', ''down''} \<and> rune_count (rm_name r) \<le> 255 \<and>
        rune_count (rm_description r) \<le> 255 \<and>
        (\<forall>x \<in> set (rm_extra_routes r). erm_destination x \<noteq> [] \<and> is_cidr ext (erm_destination x) \<and>
           erm_nexthop x \<noteq> [] \<and> is_ip ext (erm_nexthop x)) \<and>
        (\<forall>x \<in> set (rm_external_routing_interfaces r). well_formed_interface (is_ip ext) x) \<and>
        (\<forall>x \<in> set (rm_internal_routing_interfaces r).
           well_formed_interface (\<lambda>a. is_ipv4 ext a \<or> is_ipv6 ext a) x))"
proof (cases "nr_router req")
  case None
  then show ?thesis by (simp add: validate_create_cluster_router_request_def resource_accepts Let_def)
next
  case (Some r)
  show ?thesis
    unfolding validate_create_cluster_router_request_def Let_def using Some
    by (auto simp: network_accepts)
qed

theorem validate_create_cluster_router_request_iff_witness:
  "validate_create_cluster_router_request example_externals
     \<lparr>nr_conn = Some example_connection,
      nr_tenant = Some \<lparr>tm_id = 1, tm_uuid = example_uuid, tm_name = [],
        tm_enabled = True, tm_description = [], tm_quotas = []\<rparr>, nr_network = None,
      nr_subnet = None, nr_floating_ip = None,
      nr_router = Some \<lparr>rm_uuid = [], rm_name = [], rm_description = [], rm_state = ''up'',
        rm_extra_routes = [\<lparr>erm_destination = ''10.0.0.0/8'', erm_nexthop = ''10.0.0.1''\<rparr>],
        rm_external_routing_interfaces = [], rm_internal_routing_interfaces = [],
        rm_id = 0, rm_status = []\<rparr>\<rparr> = None"
  by (subst validate_create_cluster_router_request_iff)
    (simp add: example_connection_usable example_uuid_parse, simp add: example_externals_def)

text \<open>A subnet is accepted exactly when its network and addresses are well formed.\<close>

lemma validate_create_cluster_subnet_request_iff:
  "validate_create_cluster_subnet_request ext req = None \<longleftrightarrow>
     (\<exists>c t n s. nr_conn req = Some c \<and> usable_connection ext c \<and>
        nr_tenant req = Some t \<and> uuid_parse (tm_uuid t) \<and>
        nr_network req = Some n \<and> uuid_parse (nm_uuid n) \<and> nr_subnet req = Some s \<and>
        rune_count (snm_name s) \<le> 255 \<and> rune_count (snm_description s) \<le> 255 \<and>
        snm_network_cidr s \<noteq> [] \<and> is_cidr ext (snm_network_cidr s) \<and>
        (\<forall>p \<in> set (snm_dhcp_pools s). dpm_start_ip_address p \<noteq> [] \<and> is_ip ext (dpm_start_ip_address p) \<and>
           dpm_end_ip_address p \<noteq> [] \<and> is_ip ext (dpm_end_ip_address p)) \<and>
        (\<forall>a \<in> set (snm_nameservers s). a \<noteq> [] \<and> is_ip ext a))"
proof (cases "nr_subnet req")
  case None
  then show ?thesis
    by (auto simp: validate_create_cluster_subnet_request_def resource_accepts Let_def check_network_def)
next
  case (Some s)
  show ?thesis
    unfolding validate_create_cluster_subnet_request_def Let_def using Some
    by (auto simp: network_accepts)
qed

end
