(* ===== verification/ResourceValidator.thy ===== *)
theory ResourceValidator
  imports NetworkValidator
begin

text \<open>
  The validators of the remaining resources, each \<open>validator.go\<close> under \<open>internal\<close>: \<open>instance\<close>,
  \<open>spec\<close>, \<open>tenant\<close>, \<open>keypair\<close>, \<open>hypervisor\<close>, \<open>storage\<close> and \<open>availability_zone\<close>.
\<close>

section \<open>Lookups\<close>

definition validate_instance_request :: lookup_validator where
  "validate_instance_request ctx db fault req =
     first_error [
       required_id ''cluster_id'' (lr_cluster_id req),
       required_id ''cluster_instance_id'' (lr_resource_id req),
       is_cluster_owner ctx db (fault 0) (lr_cluster_id req)]"

definition validate_instance_by_uuid_request :: lookup_validator where
  "validate_instance_by_uuid_request ctx db fault req =
     first_error [
       required_id ''cluster_id'' (lr_cluster_id req),
       required ''uuid'' (lr_uuid req),
       is_cluster_owner ctx db (fault 0) (lr_cluster_id req)]"

definition validate_instance_list_request :: lookup_validator where
  "validate_instance_list_request ctx db fault req =
     first_error [
       required_id ''cluster_id'' (lr_cluster_id req),
       max_runes ''name'' (lr_name req) 255,
       is_cluster_owner ctx db (fault 0) (lr_cluster_id req)]"

definition validate_get_keypair_request :: lookup_validator where
  "validate_get_keypair_request ctx db fault req =
     first_error [
       required_id ''cluster_id'' (lr_cluster_id req),
       required_id ''cluster_keypair_id'' (lr_resource_id req),
       is_cluster_owner ctx db (fault 0) (lr_cluster_id req)]"

definition validate_instance_spec_request :: lookup_validator where
  "validate_instance_spec_request ctx db fault req =
     first_error [
       required_id ''cluster_id'' (lr_cluster_id req),
       required_id ''cluster_instance_id'' (lr_resource_id req),
       is_cluster_owner ctx db (fault 0) (lr_cluster_id req)]"

definition validate_instance_spec_by_uuid_request :: lookup_validator where
  "validate_instance_spec_by_uuid_request ctx db fault req =
     first_error [
       required_id ''cluster_id'' (lr_cluster_id req),
       required ''uuid'' (lr_uuid req),
       is_cluster_owner ctx db (fault 0) (lr_cluster_id req)]"

definition validate_instance_spec_list_request :: lookup_validator where
  "validate_instance_spec_list_request ctx db fault req =
     first_error [
       required_id ''cluster_id'' (lr_cluster_id req),
       max_runes ''name'' (lr_name req) 255,
       max_bytes ''uuid'' (lr_uuid req) 255,
       is_cluster_owner ctx db (fault 0) (lr_cluster_id req)]"

definition validate_check_is_exist_instance_spec :: lookup_validator where
  "validate_check_is_exist_instance_spec ctx db fault req =
     first_error [
       required_id ''cluster_id'' (lr_cluster_id req),
       required ''name'' (lr_name req),
       is_cluster_owner ctx db (fault 0) (lr_cluster_id req)]"

definition validate_get_cluster_tenant_request :: lookup_validator where
  "validate_get_cluster_tenant_request ctx db fault req =
     first_error [
       required_id ''cluster_id'' (lr_cluster_id req),
       required_id ''cluster_tenant_id'' (lr_resource_id req),
       is_cluster_owner ctx db (fault 0) (lr_cluster_id req)]"

definition validate_get_cluster_tenant_by_uuid_request :: lookup_validator where
  "validate_get_cluster_tenant_by_uuid_request ctx db fault req =
     first_error [
       required_id ''cluster_id'' (lr_cluster_id req),
       required ''uuid'' (lr_uuid req),
       is_cluster_owner ctx db (fault 0) (lr_cluster_id req)]"

definition validate_cluster_tenant_list_request :: lookup_validator where
  "validate_cluster_tenant_list_request ctx db fault req =
     first_error [
       required_id ''cluster_id'' (lr_cluster_id req),
       is_cluster_owner ctx db (fault 0) (lr_cluster_id req)]"

definition validate_check_is_exist_tenant :: lookup_validator where
  "validate_check_is_exist_tenant ctx db fault req =
     first_error [
       required_id ''cluster_id'' (lr_cluster_id req),
       required ''name'' (lr_name req),
       is_cluster_owner ctx db (fault 0) (lr_cluster_id req)]"

definition validate_keypair_get_request :: lookup_validator where
  "validate_keypair_get_request ctx db fault req =
     first_error [
       required_id ''cluster_id'' (lr_cluster_id req),
       required_id ''cluster_keypair_id'' (lr_resource_id req),
       is_cluster_owner ctx db (fault 0) (lr_cluster_id req)]"

definition validate_check_is_exist_keypair :: lookup_validator where
  "validate_check_is_exist_keypair ctx db fault req =
     first_error [
       required_id ''cluster_id'' (lr_cluster_id req),
       required ''name'' (lr_name req),
       is_cluster_owner ctx db (fault 0) (lr_cluster_id req)]"

definition validate_storage_request :: lookup_validator where
  "validate_storage_request ctx db fault req =
     first_error [
       required_id ''cluster_id'' (lr_cluster_id req),
       required_id ''cluster_storage_id'' (lr_resource_id req),
       is_cluster_owner ctx db (fault 0) (lr_cluster_id req)]"

record storage_list_request =
  slr_cluster_id :: nat
  slr_type_code :: string
  slr_name :: string

definition validate_storage_list_request ::
    "request_context \<Rightarrow> database \<Rightarrow> string option \<Rightarrow> storage_list_request \<Rightarrow> err option" where
  "validate_storage_list_request ctx db fault req =
     first_error [
       required_id ''cluster_id'' (slr_cluster_id req),
       fail_if (slr_type_code req \<noteq> [] \<and> \<not> is_cluster_storage_type_code (slr_type_code req))
         (UnavailableParameterValue ''type_code'' (GStr (slr_type_code req)) (GStrs cluster_storage_type_codes)),
       max_runes ''name'' (slr_name req) 255,
       is_cluster_owner ctx db fault (slr_cluster_id req)]"

definition validate_get_availability_zone_request :: lookup_validator where
  "validate_get_availability_zone_request ctx db fault req =
     first_error [
       required_id ''cluster_id'' (lr_cluster_id req),
       required_id ''cluster_availability_zone_id'' (lr_resource_id req),
       is_cluster_owner ctx db (fault 0) (lr_cluster_id req)]"

definition validate_get_availability_zone_list_request :: lookup_validator where
  "validate_get_availability_zone_list_request ctx db fault req =
     first_error [
       required_id ''cluster_id'' (lr_cluster_id req),
       is_cluster_owner ctx db (fault 0) (lr_cluster_id req)]"

definition validate_hypervisor_request :: lookup_validator where
  "validate_hypervisor_request ctx db fault req =
     first_error [
       required_id ''cluster_id'' (lr_cluster_id req),
       required_id ''cluster_hypervisor_id'' (lr_resource_id req),
       is_cluster_owner ctx db (fault 0) (lr_cluster_id req)]"

section \<open>Hypervisors\<close>

record hypervisor_list_request =
  hlr_cluster_id :: nat
  hlr_hostname :: string
  hlr_ip_address :: string
  hlr_cluster_availability_zone_id :: nat

definition validate_hypervisor_list_request ::
    "externals \<Rightarrow> request_context \<Rightarrow> database \<Rightarrow> (nat \<Rightarrow> string option) \<Rightarrow> hypervisor_list_request \<Rightarrow> err option" where
  "validate_hypervisor_list_request ext ctx db fault req =
     first_error [
       required_id ''cluster_id'' (hlr_cluster_id req),
       max_runes ''hostname'' (hlr_hostname req) 255,
       fail_if (hlr_ip_address req \<noteq> [] \<and> \<not> is_ip ext (hlr_ip_address req))
         (FormatMismatchParameterValue ''ip_address'' (GStr (hlr_ip_address req)) ''IP Address''),
       is_cluster_owner ctx db (fault 0) (hlr_cluster_id req),
       (if hlr_cluster_availability_zone_id req \<noteq> 0 then
          (case first (fault 1) az_id
                 (\<lambda>z. cond_nat (hlr_cluster_id req) (az_cluster_id z) \<and>
                      cond_nat (hlr_cluster_availability_zone_id req) (az_id z)) (db_availability_zone db) of
             Row _ \<Rightarrow> None
           | NoRow \<Rightarrow> Some (InvalidParameterValue ''cluster_availability_zone_id''
                        (GNat (hlr_cluster_availability_zone_id req)) ''not found availability zone'')
           | QueryError e \<Rightarrow> Some (UnusableDatabase e))
        else None)]"

record update_hypervisor_request =
  uhr_cluster_id :: nat
  uhr_cluster_hypervisor_id :: nat
  uhr_hypervisor :: "hypervisor_message option"

definition validate_update_hypervisor_request ::
    "request_context \<Rightarrow> database \<Rightarrow> string option \<Rightarrow> update_hypervisor_request \<Rightarrow> err option" where
  "validate_update_hypervisor_request ctx db fault req =
     first_error [
       required_id ''cluster_id'' (uhr_cluster_id req),
       required_id ''cluster_hypervisor_id'' (uhr_cluster_hypervisor_id req),
       fail_if (uhr_cluster_hypervisor_id req \<noteq> getf hm_id 0 (uhr_hypervisor req))
         (UnchangeableParameter ''cluster.hypervisor.id''),
       is_cluster_owner ctx db fault (uhr_cluster_id req)]"

definition check_valid_hypervisor :: "hypervisor_message option \<Rightarrow> err option" where
  "check_valid_hypervisor h =
     (let ssh_port = getf hm_ssh_port 0 h; account = getf hm_ssh_account [] h;
          password = getf hm_ssh_password [] h; agent_port = getf hm_agent_port 0 h;
          version = getf hm_agent_version [] h in
      first_error [
        fail_if (ssh_port = 0 \<or> ssh_port > 65535)
          (OutOfRangeParameterValue ''ssh_port'' (GNat ssh_port) (GNat 1) (GNat 65535)),
        fail_if (agent_port = 0 \<or> agent_port > 65535)
          (OutOfRangeParameterValue ''agent_port'' (GNat agent_port) (GNat 1) (GNat 65535)),
        fail_if (account \<noteq> [] \<and> length account > 255)
          (LengthOverflowParameterValue ''ssh_account'' (GStr account) 255),
        fail_if (password \<noteq> [] \<and> length password > 255)
          (LengthOverflowParameterValue ''ssh_password'' (GStr password) 255),
        fail_if (version \<noteq> [] \<and> length version > 10)
          (LengthOverflowParameterValue ''agent_version'' (GStr version) 10)])"

section \<open>Tenants, keypairs and specs\<close>

record resource_request =
  rr_conn :: "connection_info option"
  rr_tenant :: "tenant_message option"
  rr_keypair :: "keypair_message option"
  rr_spec :: "spec_message option"
  rr_extra_specs :: "extra_spec_message list"
  rr_instance :: "instance_message option"

definition validate_create_cluster_tenant_request :: "externals \<Rightarrow> resource_request \<Rightarrow> err option" where
  "validate_create_cluster_tenant_request ext req =
     first_error [
       check_valid_cluster_connection_info ext (rr_conn req),
       required_msg ''tenant'' (rr_tenant req),
       required ''tenant.name'' (getf tm_name [] (rr_tenant req)),
       max_runes ''tenant.name'' (getf tm_name [] (rr_tenant req)) 64]"

definition validate_delete_cluster_tenant_request :: "externals \<Rightarrow> resource_request \<Rightarrow> err option" where
  "validate_delete_cluster_tenant_request ext req =
     first_error [
       check_valid_cluster_connection_info ext (rr_conn req),
       required_msg ''tenant'' (rr_tenant req),
       required ''tenant.uuid'' (getf tm_uuid [] (rr_tenant req)),
       max_bytes ''tenant.uuid'' (getf tm_uuid [] (rr_tenant req)) 36]"

definition validate_create_keypair_request :: "externals \<Rightarrow> resource_request \<Rightarrow> err option" where
  "validate_create_keypair_request ext req =
     (let k = rr_keypair req in
      first_error [
        check_valid_cluster_connection_info ext (rr_conn req),
        required_msg ''keypair'' k,
        required ''keypair.name'' (getf kpm_name [] k),
        max_runes ''keypair.name'' (getf kpm_name [] k) 255,
        required ''keypair.public_key'' (getf kpm_public_key [] k),
        max_bytes ''keypair.public_key'' (getf kpm_public_key [] k) 2048,
        required ''keypair.type_code'' (getf kpm_type_code [] k),
        fail_if (\<not> is_openstack_keypair_type_code (getf kpm_type_code [] k))
          (UnavailableParameterValue ''keypair.type_code'' (GStr (getf kpm_type_code [] k))
             (GStrs openstack_keypair_type_codes))])"

definition validate_delete_keypair_request :: "externals \<Rightarrow> resource_request \<Rightarrow> err option" where
  "validate_delete_keypair_request ext req =
     first_error [
       check_valid_cluster_connection_info ext (rr_conn req),
       required_msg ''keypair'' (rr_keypair req),
       required ''keypair.name'' (getf kpm_name [] (rr_keypair req)),
       max_runes ''keypair.name'' (getf kpm_name [] (rr_keypair req)) 255]"

definition check_extra_spec :: "nat \<Rightarrow> extra_spec_message \<Rightarrow> err option" where
  "check_extra_spec i x =
     first_error [
       required ''extra_specs.key'' (esm_key x),
       max_runes ''extra_specs.key'' (esm_key x) 255,
       required ''extra_specs.value'' (esm_value x),
       max_runes ''extra_specs.value'' (esm_value x) 255]"

definition validate_create_cluster_instance_spec_request :: "externals \<Rightarrow> resource_request \<Rightarrow> err option" where
  "validate_create_cluster_instance_spec_request ext req =
     (let s = rr_spec req in
      first_error [
        check_valid_cluster_connection_info ext (rr_conn req),
        required_msg ''spec'' s,
        required ''spec.name'' (getf spm_name [] s),
        required_id ''spec.mem_total_bytes'' (getf spm_mem_total_bytes 0 s),
        required_id ''spec.vcpu_total_cnt'' (getf spm_vcpu_total_cnt 0 s),
        max_runes ''spec.name'' (getf spm_name [] s) 255,
        max_runes ''spec.description'' (getf spm_description [] s) 255,
        for_index check_extra_spec 0 (rr_extra_specs req)])"

definition validate_delete_cluster_instance_spec_request :: "externals \<Rightarrow> resource_request \<Rightarrow> err option" where
  "validate_delete_cluster_instance_spec_request ext req =
     (let s = rr_spec req; c = getf spm_cluster_id None s in
      first_error [
        check_valid_cluster_connection_info ext (rr_conn req),
        required_msg ''spec'' s,
        required_msg ''cluster'' c,
        required_id ''cluster_id'' (getf (\<lambda>i. i) 0 c),
        required ''spec.uuid'' (getf spm_uuid [] s),
        max_bytes ''spec.uuid'' (getf spm_uuid [] s) 255])"

section \<open>Instances\<close>

record create_instance_request =
  cir_conn :: "connection_info option"
  cir_tenant :: "tenant_message option"
  cir_hypervisor :: "hypervisor_message option"
  cir_availability_zone_name :: "string option"
  cir_spec :: "spec_message option"
  cir_keypair :: "keypair_message option"
  cir_networks :: "instance_network_message list"
  cir_volumes :: "instance_volume_message list"
  cir_security_groups :: "security_group_message list"
  cir_instance :: "instance_message option"

definition check_instance_network :: "nat \<Rightarrow> instance_network_message \<Rightarrow> err option" where
  "check_instance_network i n =
     (let p = indexed ''networks'' i; fip = getf fm_uuid [] (inm_floating_ip n) in
      first_error [
        check_uuid (p ''network.uuid'') (getf nm_uuid [] (inm_network n)),
        check_uuid (p ''subnet.uuid'') (getf snm_uuid [] (inm_subnet n)),
        fail_if (fip \<noteq> [] \<and> \<not> uuid_parse fip)
          (FormatMismatchParameterValue (p ''floating_ip.uuid'') (GStr fip) ''UUID''),
        required (p ''ip_address'') (inm_ip_address n)])"

definition check_instance_volume :: "nat \<Rightarrow> instance_volume_message \<Rightarrow> err option" where
  "check_instance_volume i v =
     (let p = indexed ''volumes'' i in
      first_error [
        required_msg (p ''volume.storage'') (getf vm_storage None (ivm_volume v)),
        check_uuid (p ''volume.uuid'') (getf vm_uuid [] (ivm_volume v)),
        required (p ''device_path'') (ivm_device_path v)])"

definition check_instance_security_group :: "nat \<Rightarrow> security_group_message \<Rightarrow> err option" where
  "check_instance_security_group i g =
     first_error [
       required (indexed ''security_groups'' i ''name'') (sgm_name g),
       max_runes (indexed ''security_groups'' i ''name'') (sgm_name g) 255]"

definition validate_create_cluster_instance_request :: "externals \<Rightarrow> create_instance_request \<Rightarrow> err option" where
  "validate_create_cluster_instance_request ext req =
     (let z = cir_availability_zone_name req; s = cir_spec req; m = cir_instance req in
      first_error [
        check_valid_cluster_connection_info ext (cir_conn req),
        check_tenant (cir_tenant req),
        required_msg ''hypervisor'' (cir_hypervisor req),
        max_runes ''hypervisor.hostname'' (getf hm_hostname [] (cir_hypervisor req)) 255,
        required_msg ''availability_zone'' z,
        required ''availability_zone.name'' (getf (\<lambda>n. n) [] z),
        max_runes ''availability_zone.name'' (getf (\<lambda>n. n) [] z) 255,
        required_msg ''spec'' s,
        required ''spec.uuid'' (getf spm_uuid [] s),
        max_bytes ''spec.uuid'' (getf spm_uuid [] s) 255,
        max_runes ''keypair.name'' (getf kpm_name [] (cir_keypair req)) 255,
        for_index check_instance_network 0 (cir_networks req),
        fail_if (length (cir_volumes req) = 0) (RequiredParameter ''volumes''),
        for_index check_instance_volume 0 (cir_volumes req),
        for_index check_instance_security_group 0 (cir_security_groups req),
        required_msg ''instance'' m,
        required ''instance.name'' (getf im_name [] m),
        max_runes ''instance.name'' (getf im_name [] m) 255,
        max_runes ''instance.description'' (getf im_description [] m) 255])"

definition validate_delete_cluster_instance_request :: "externals \<Rightarrow> resource_request \<Rightarrow> err option" where
  "validate_delete_cluster_instance_request ext req =
     first_error [
       check_valid_cluster_connection_info ext (rr_conn req),
       check_tenant (rr_tenant req),
       required_msg ''instance'' (rr_instance req),
       check_uuid ''instance.uuid'' (getf im_uuid [] (rr_instance req))]"

text \<open>The start and stop requests do not test the messages for nil, only the UUIDs in them.\<close>

definition validate_start_cluster_instance_request :: "externals \<Rightarrow> resource_request \<Rightarrow> err option" where
  "validate_start_cluster_instance_request ext req =
     first_error [
       check_valid_cluster_connection_info ext (rr_conn req),
       check_uuid ''tenant.uuid'' (getf tm_uuid [] (rr_tenant req)),
       check_uuid ''instance.uuid'' (getf im_uuid [] (rr_instance req))]"

definition validate_stop_cluster_instance_request :: "externals \<Rightarrow> resource_request \<Rightarrow> err option" where
  "validate_stop_cluster_instance_request ext req =
     first_error [
       check_valid_cluster_connection_info ext (rr_conn req),
       check_uuid ''tenant.uuid'' (getf tm_uuid [] (rr_tenant req)),
       check_uuid ''instance.uuid'' (getf im_uuid [] (rr_instance req))]"

section \<open>Properties\<close>

definition well_formed_instance_network :: "instance_network_message \<Rightarrow> bool" where
  "well_formed_instance_network n \<longleftrightarrow>
     uuid_parse (getf nm_uuid [] (inm_network n)) \<and> uuid_parse (getf snm_uuid [] (inm_subnet n)) \<and>
     (getf fm_uuid [] (inm_floating_ip n) = [] \<or> uuid_parse (getf fm_uuid [] (inm_floating_ip n))) \<and>
     inm_ip_address n \<noteq> []"

definition well_formed_instance_volume :: "instance_volume_message \<Rightarrow> bool" where
  "well_formed_instance_volume v \<longleftrightarrow>
     (\<exists>w. ivm_volume v = Some w \<and> vm_storage w \<noteq> None \<and> uuid_parse (vm_uuid w)) \<and> ivm_device_path v \<noteq> []"

lemma check_instance_network_None:
  "check_instance_network i n = None \<longleftrightarrow> well_formed_instance_network n"
  by (auto simp: check_instance_network_def well_formed_instance_network_def resource_accepts Let_def)

lemma check_instance_volume_None:
  "check_instance_volume i v = None \<longleftrightarrow> well_formed_instance_volume v"
  by (cases "ivm_volume v")
    (auto simp: check_instance_volume_def well_formed_instance_volume_def resource_accepts Let_def)

lemma check_instance_security_group_None:
  "check_instance_security_group i g = None \<longleftrightarrow> sgm_name g \<noteq> [] \<and> rune_count (sgm_name g) \<le> 255"
  by (simp add: check_instance_security_group_def accepts)

lemmas instance_accepts = resource_accepts
  for_index_all [of check_instance_network, OF check_instance_network_None]
  for_index_all [of check_instance_volume, OF check_instance_volume_None]
  for_index_all [of check_instance_security_group, OF check_instance_security_group_None]

text \<open>C34. A request to create an instance is accepted exactly when everything it names is well
  formed: in particular it has at least one volume, and every volume a storage, a UUID and a
  device path.\<close>

theorem validate_create_cluster_instance_request_iff:
  "validate_create_cluster_instance_request ext req = None \<longleftrightarrow>
     (\<exists>c t h z s m. cir_conn req = Some c \<and> usable_connection ext c \<and>
        cir_tenant req = Some t \<and> uuid_parse (tm_uuid t) \<and>
        cir_hypervisor req = Some h \<and> rune_count (hm_hostname h) \<le> 255 \<and>
        cir_availability_zone_name req = Some z \<and> z \<noteq> [] \<and> rune_count z \<le> 255 \<and>
        cir_spec req = Some s \<and> spm_uuid s \<noteq> [] \<and> length (spm_uuid s) \<le> 255 \<and>
        rune_count (getf kpm_name [] (cir_keypair req)) \<le> 255 \<and>
        list_all well_formed_instance_network (cir_networks req) \<and>
        cir_volumes req \<noteq> [] \<and> list_all well_formed_instance_volume (cir_volumes req) \<and>
        list_all (\<lambda>g. sgm_name g \<noteq> [] \<and> rune_count (sgm_name g) \<le> 255) (cir_security_groups req) \<and>
        cir_instance req = Some m \<and> im_name m \<noteq> [] \<and> rune_count (im_name m) \<le> 255 \<and>
        rune_count (im_description m) \<le> 255)"
proof (cases "cir_hypervisor req = None \<or> cir_availability_zone_name req = None \<or> cir_spec req = None \<or>
              cir_instance req = None")
  case True
  then show ?thesis
    by (auto simp: validate_create_cluster_instance_request_def instance_accepts Let_def)
next
  case False
  then obtain h z s m where "cir_hypervisor req = Some h" "cir_availability_zone_name req = Some z"
    "cir_spec req = Some s" "cir_instance req = Some m" by auto
  then show ?thesis
    by (auto simp: validate_create_cluster_instance_request_def instance_accepts Let_def list_all_iff)
qed

text \<open>Stored hypervisor access data has ports between 1 and 65535 and fits its columns; a
  missing message is refused.\<close>

theorem check_valid_hypervisor_iff:
  "check_valid_hypervisor h = None \<longleftrightarrow>
     (\<exists>m. h = Some m \<and> hm_ssh_port m \<in> {1..65535} \<and> hm_agent_port m \<in> {1..65535} \<and>
        length (hm_ssh_account m) \<le> 255 \<and> length (hm_ssh_password m) \<le> 255 \<and>
        length (hm_agent_version m) \<le> 10)"
  by (cases h) (auto simp: check_valid_hypervisor_def accepts Let_def)

text \<open>
  An ownership failure is reported by every lookup whose own parameters are present: the lookups
  end with the same check.
\<close>

lemma lookups_end_with_owner_check:
  assumes "lr_cluster_id req \<noteq> 0" and "lr_resource_id req \<noteq> 0"
  shows "validate_instance_request ctx db fault req = is_cluster_owner ctx db (fault 0) (lr_cluster_id req)"
    and "validate_get_keypair_request ctx db fault req = is_cluster_owner ctx db (fault 0) (lr_cluster_id req)"
    and "validate_instance_spec_request ctx db fault req = is_cluster_owner ctx db (fault 0) (lr_cluster_id req)"
    and "validate_get_cluster_tenant_request ctx db fault req = is_cluster_owner ctx db (fault 0) (lr_cluster_id req)"
    and "validate_storage_request ctx db fault req = is_cluster_owner ctx db (fault 0) (lr_cluster_id req)"
    and "validate_hypervisor_request ctx db fault req = is_cluster_owner ctx db (fault 0) (lr_cluster_id req)"
    and "validate_network_request ctx db fault req = is_cluster_owner ctx db (fault 0) (lr_cluster_id req)"
    and "validate_get_cluster_router_request ctx db fault req = is_cluster_owner ctx db (fault 0) (lr_cluster_id req)"
    and "validate_get_security_group ctx db fault req = is_cluster_owner ctx db (fault 0) (lr_cluster_id req)"
  using assms
  by (simp_all add: validate_instance_request_def validate_get_keypair_request_def
      validate_instance_spec_request_def validate_get_cluster_tenant_request_def
      validate_storage_request_def validate_hypervisor_request_def validate_network_request_def
      validate_get_cluster_router_request_def validate_get_security_group_def required_id_def
      first_error_Cons split: option.split)

end
