(* ===== verification/Topics.thy ===== *)
theory Topics
  imports Main
begin

text \<open>
  The names of the topics and queues of \<open>constant/queue.go\<close>, as they are on the broker.
\<close>

definition topic_notice_cluster_created :: string where
  "topic_notice_cluster_created = ''cdm.center.notice.cluster.created''"

definition topic_notice_cluster_updated :: string where
  "topic_notice_cluster_updated = ''cdm.center.notice.cluster.updated''"

definition topic_notice_cluster_deleted :: string where
  "topic_notice_cluster_deleted = ''cdm.center.notice.cluster.deleted''"

definition topic_cluster_become_activated :: string where
  "topic_cluster_become_activated = ''cdm.center.notice.cluster.activated''"

definition topic_cluster_become_inactivated :: string where
  "topic_cluster_become_inactivated = ''cdm.center.notice.cluster.inactivated''"

definition topic_notice_center_config_updated :: string where
  "topic_notice_center_config_updated = ''cdm.center.notice.config.updated''"

definition topic_cluster_service_status :: string where
  "topic_cluster_service_status = ''cdm.center.notice.status.%d''"

definition queue_cluster_service_get_status :: string where
  "queue_cluster_service_get_status = ''cdm.center.service.cluster.status''"

definition queue_cluster_service_exception :: string where
  "queue_cluster_service_exception = ''cdm.center.service.cluster.exception''"

definition queue_cluster_service_delete :: string where
  "queue_cluster_service_delete = ''cdm.center.service.cluster.delete''"

definition queue_notice_cluster_sync_status :: string where
  "queue_notice_cluster_sync_status = ''cdm.center.notice.cluster.sync.status''"

definition queue_notice_cluster_tenant_created :: string where
  "queue_notice_cluster_tenant_created = ''cdm.center.notice.cluster.tenant.created''"

definition queue_notice_cluster_tenant_updated :: string where
  "queue_notice_cluster_tenant_updated = ''cdm.center.notice.cluster.tenant.updated''"

definition queue_notice_cluster_tenant_deleted :: string where
  "queue_notice_cluster_tenant_deleted = ''cdm.center.notice.cluster.tenant.deleted''"

definition queue_notice_cluster_availability_zone_created :: string where
  "queue_notice_cluster_availability_zone_created = ''cdm.center.notice.cluster.availability-zone.created''"

definition queue_notice_cluster_availability_zone_updated :: string where
  "queue_notice_cluster_availability_zone_updated = ''cdm.center.notice.cluster.availability-zone.updated''"

definition queue_notice_cluster_availability_zone_deleted :: string where
  "queue_notice_cluster_availability_zone_deleted = ''cdm.center.notice.cluster.availability-zone.deleted''"

definition queue_notice_cluster_hypervisor_created :: string where
  "queue_notice_cluster_hypervisor_created = ''cdm.center.notice.cluster.hypervisor.created''"

definition queue_notice_cluster_hypervisor_updated :: string where
  "queue_notice_cluster_hypervisor_updated = ''cdm.center.notice.cluster.hypervisor.updated''"

definition queue_notice_cluster_hypervisor_deleted :: string where
  "queue_notice_cluster_hypervisor_deleted = ''cdm.center.notice.cluster.hypervisor.deleted''"

definition queue_notice_cluster_security_group_created :: string where
  "queue_notice_cluster_security_group_created = ''cdm.center.notice.cluster.security-group.created''"

definition queue_notice_cluster_security_group_updated :: string where
  "queue_notice_cluster_security_group_updated = ''cdm.center.notice.cluster.security-group.updated''"

definition queue_notice_cluster_security_group_deleted :: string where
  "queue_notice_cluster_security_group_deleted = ''cdm.center.notice.cluster.security-group.deleted''"

definition queue_notice_cluster_security_group_rule_created :: string where
  "queue_notice_cluster_security_group_rule_created = ''cdm.center.notice.cluster.security-group-rule.created''"

definition queue_notice_cluster_security_group_rule_updated :: string where
  "queue_notice_cluster_security_group_rule_updated = ''cdm.center.notice.cluster.security-group-rule.updated''"

definition queue_notice_cluster_security_group_rule_deleted :: string where
  "queue_notice_cluster_security_group_rule_deleted = ''cdm.center.notice.cluster.security-group-rule.deleted''"

definition queue_notice_cluster_network_created :: string where
  "queue_notice_cluster_network_created = ''cdm.center.notice.cluster.network.created''"

definition queue_notice_cluster_network_updated :: string where
  "queue_notice_cluster_network_updated = ''cdm.center.notice.cluster.network.updated''"

definition queue_notice_cluster_network_deleted :: string where
  "queue_notice_cluster_network_deleted = ''cdm.center.notice.cluster.network.deleted''"

definition queue_notice_cluster_floating_ip_created :: string where
  "queue_notice_cluster_floating_ip_created = ''cdm.center.notice.cluster.floating-ip.created''"

definition queue_notice_cluster_floating_ip_updated :: string where
  "queue_notice_cluster_floating_ip_updated = ''cdm.center.notice.cluster.floating-ip.updated''"

definition queue_notice_cluster_floating_ip_deleted :: string where
  "queue_notice_cluster_floating_ip_deleted = ''cdm.center.notice.cluster.floating-ip.deleted''"

definition queue_notice_cluster_subnet_created :: string where
  "queue_notice_cluster_subnet_created = ''cdm.center.notice.cluster.subnet.created''"

definition queue_notice_cluster_subnet_updated :: string where
  "queue_notice_cluster_subnet_updated = ''cdm.center.notice.cluster.subnet.updated''"

definition queue_notice_cluster_subnet_deleted :: string where
  "queue_notice_cluster_subnet_deleted = ''cdm.center.notice.cluster.subnet.deleted''"

definition queue_notice_cluster_router_created :: string where
  "queue_notice_cluster_router_created = ''cdm.center.notice.cluster.router.created''"

definition queue_notice_cluster_router_updated :: string where
  "queue_notice_cluster_router_updated = ''cdm.center.notice.cluster.router.updated''"

definition queue_notice_cluster_router_deleted :: string where
  "queue_notice_cluster_router_deleted = ''cdm.center.notice.cluster.router.deleted''"

definition queue_notice_cluster_routing_interface_created :: string where
  "queue_notice_cluster_routing_interface_created = ''cdm.center.notice.cluster.routing-interface.created''"

definition queue_notice_cluster_routing_interface_updated :: string where
  "queue_notice_cluster_routing_interface_updated = ''cdm.center.notice.cluster.routing-interface.updated''"

definition queue_notice_cluster_routing_interface_deleted :: string where
  "queue_notice_cluster_routing_interface_deleted = ''cdm.center.notice.cluster.routing-interface.deleted''"

definition queue_notice_cluster_storage_created :: string where
  "queue_notice_cluster_storage_created = ''cdm.center.notice.cluster.storage.created''"

definition queue_notice_cluster_storage_updated :: string where
  "queue_notice_cluster_storage_updated = ''cdm.center.notice.cluster.storage.updated''"

definition queue_notice_cluster_storage_deleted :: string where
  "queue_notice_cluster_storage_deleted = ''cdm.center.notice.cluster.storage.deleted''"

definition queue_notice_cluster_volume_created :: string where
  "queue_notice_cluster_volume_created = ''cdm.center.notice.cluster.volume.created''"

definition queue_notice_cluster_volume_updated :: string where
  "queue_notice_cluster_volume_updated = ''cdm.center.notice.cluster.volume.updated''"

definition queue_notice_cluster_volume_deleted :: string where
  "queue_notice_cluster_volume_deleted = ''cdm.center.notice.cluster.volume.deleted''"

definition queue_notice_cluster_volume_snapshot_created :: string where
  "queue_notice_cluster_volume_snapshot_created = ''cdm.center.notice.cluster.volume-snapshot.created''"

definition queue_notice_cluster_volume_snapshot_updated :: string where
  "queue_notice_cluster_volume_snapshot_updated = ''cdm.center.notice.cluster.volume-snapshot.updated''"

definition queue_notice_cluster_volume_snapshot_deleted :: string where
  "queue_notice_cluster_volume_snapshot_deleted = ''cdm.center.notice.cluster.volume-snapshot.deleted''"

definition queue_notice_cluster_instance_spec_created :: string where
  "queue_notice_cluster_instance_spec_created = ''cdm.center.notice.cluster.instance-spec.created''"

definition queue_notice_cluster_instance_spec_updated :: string where
  "queue_notice_cluster_instance_spec_updated = ''cdm.center.notice.cluster.instance-spec.updated''"

definition queue_notice_cluster_instance_spec_deleted :: string where
  "queue_notice_cluster_instance_spec_deleted = ''cdm.center.notice.cluster.instance-spec.deleted''"

definition queue_notice_cluster_instance_extra_spec_created :: string where
  "queue_notice_cluster_instance_extra_spec_created = ''cdm.center.notice.cluster.instance-extra-spec.created''"

definition queue_notice_cluster_instance_extra_spec_updated :: string where
  "queue_notice_cluster_instance_extra_spec_updated = ''cdm.center.notice.cluster.instance-extra-spec.updated''"

definition queue_notice_cluster_instance_extra_spec_deleted :: string where
  "queue_notice_cluster_instance_extra_spec_deleted = ''cdm.center.notice.cluster.instance-extra-spec.deleted''"

definition queue_notice_cluster_instance_created :: string where
  "queue_notice_cluster_instance_created = ''cdm.center.notice.cluster.instance.created''"

definition queue_notice_cluster_instance_updated :: string where
  "queue_notice_cluster_instance_updated = ''cdm.center.notice.cluster.instance.updated''"

definition queue_notice_cluster_instance_deleted :: string where
  "queue_notice_cluster_instance_deleted = ''cdm.center.notice.cluster.instance.deleted''"

definition queue_notice_cluster_instance_volume_attached :: string where
  "queue_notice_cluster_instance_volume_attached = ''cdm.center.notice.cluster.instance.volume.attached''"

definition queue_notice_cluster_instance_volume_updated :: string where
  "queue_notice_cluster_instance_volume_updated = ''cdm.center.notice.cluster.instance.volume.updated''"

definition queue_notice_cluster_instance_volume_detached :: string where
  "queue_notice_cluster_instance_volume_detached = ''cdm.center.notice.cluster.instance.volume.detached''"

definition queue_notice_cluster_instance_network_attached :: string where
  "queue_notice_cluster_instance_network_attached = ''cdm.center.notice.cluster.instance.network.attached''"

definition queue_notice_cluster_instance_network_updated :: string where
  "queue_notice_cluster_instance_network_updated = ''cdm.center.notice.cluster.instance.network.updated''"

definition queue_notice_cluster_instance_network_detached :: string where
  "queue_notice_cluster_instance_network_detached = ''cdm.center.notice.cluster.instance.network.detached''"

end
