(* ===== verification/World.thy ===== *)
theory World
  imports GoErrors Schema Topics
begin

text \<open>
  The state the service works on and the primitives with which it changes it: the relational
  database behind gorm and the wrapper \<open>cdm-cloud/common/database\<close>, the key-value store
  (\<open>common/store\<close>), the broker, and the clock. Every external call takes the next entry of
  \<open>w_faults\<close>: \<open>None\<close> (or an exhausted list) is a call that works, \<open>Some e\<close> one that fails with
  \<open>e\<close>. A theorem about all worlds is therefore a theorem about all patterns of failure.
\<close>

section \<open>Documents and events\<close>

text \<open>
  JSON values as \<open>encoding/json\<close> writes and reads them; \<open>JTime\<close> is the text of an instant. A
  value of the store is the text of a document, or text that does not parse.
\<close>

datatype json = JNull | JBool bool | JInt int | JStr string | JTime int
  | JArr "json list" | JObj "(string \<times> json) list"

datatype document = Doc json | Garbage string

text \<open>The rows a message carries (\<open>queue/message.go\<close>), each under its field name.\<close>

datatype row = RTenant cluster_tenant | RZone cluster_availability_zone
  | RHypervisor cluster_hypervisor | RSecurityGroup cluster_security_group
  | RSecurityGroupRule cluster_security_group_rule | RNetwork cluster_network
  | RFloatingIP cluster_floating_ip | RSubnet cluster_subnet | RRouter cluster_router
  | RRoutingInterface cluster_network_routing_interface | RStorage cluster_storage
  | RVolume cluster_volume | RVolumeSnapshot cluster_volume_snapshot
  | RSpec cluster_instance_spec | RExtraSpec cluster_instance_extra_spec
  | RInstance cluster_instance | RInstanceVolume cluster_instance_volume
  | RInstanceNetwork cluster_instance_network | RText string

text \<open>
  What leaves the service: a message on a topic about a cluster, a document on a topic, and
  the clearing of the tasks that other services share about a resource, by its identifier alone,
  or about a whole cluster.
\<close>

datatype event = Published string nat "(string \<times> row) list" | PublishedDoc string json
  | SharedTaskCleared nat nat string string
  | SharedTasksCleared nat string
  | ClusterTasksCleared nat

datatype transaction_state = NoTx | Open | Aborted

record world =
  w_db :: database
  w_tx :: transaction_state
  w_kv :: "string \<Rightarrow> document option"
  w_faults :: "string option list"
  w_events :: "event list"
  w_clock :: "nat \<Rightarrow> int"
  w_ticks :: nat
  w_seq :: nat

type_synonym 'a op = "(world, 'a) state"

section \<open>External calls\<close>

definition pop_fault :: "string option op" where
  "pop_fault = State (\<lambda>w. case w_faults w of [] \<Rightarrow> (None, w) | f # fs \<Rightarrow> (f, w\<lparr>w_faults := fs\<rparr>))"

definition modify :: "(world \<Rightarrow> world) \<Rightarrow> unit op" where
  "modify f = State (\<lambda>w. ((), f w))"

lemma run_state_modify [simp]: "run_state (modify f) w = ((), f w)"
  by (simp add: modify_def)

text \<open>\<open>time.Now()\<close>: the readings of the clock are arbitrary.\<close>

definition now :: "int op" where
  "now = State (\<lambda>w. (w_clock w (w_ticks w), w\<lparr>w_ticks := Suc (w_ticks w)\<rparr>))"

text \<open>A request to the cluster's client: the answer may depend on when it is asked.\<close>

definition ask :: "(nat \<Rightarrow> 'a) \<Rightarrow> 'a op" where
  "ask f = State (\<lambda>w. (f (w_ticks w), w\<lparr>w_ticks := Suc (w_ticks w)\<rparr>))"

text \<open>\<open>publishMessage\<close>: the message is out unless the broker fails.\<close>

definition publish :: "event \<Rightarrow> err option op" where
  "publish e = do {
     f \<leftarrow> pop_fault;
     case f of Some m \<Rightarrow> State_Monad.return (Some (DriverError m))
     | None \<Rightarrow> do { modify (\<lambda>w. w\<lparr>w_events := w_events w @ [e]\<rparr>); State_Monad.return None }
   }"

text \<open>\<open>migrator.ClearSharedTask\<close> reports nothing to its caller.\<close>

definition clear_shared_task :: "nat \<Rightarrow> nat \<Rightarrow> string \<Rightarrow> string \<Rightarrow> unit op" where
  "clear_shared_task cid i u t = modify (\<lambda>w. w\<lparr>w_events := w_events w @ [SharedTaskCleared cid i u t]\<rparr>)"

section \<open>Statements and transactions\<close>

text \<open>
  A statement reads or writes the database, or fails: because the driver fails, because it
  violates a constraint, or because an earlier statement of the same transaction failed. A
  failing statement inside a transaction aborts it.
\<close>

definition statement :: "(database \<Rightarrow> string + 'a \<times> database) \<Rightarrow> (err + 'a) op" where
  "statement q = State (\<lambda>w.
     if w_tx w = Aborted then (Inl (DriverError ''current transaction is aborted''), w)
     else (case run_state pop_fault w of (f, w1) \<Rightarrow>
       (case (case f of Some m \<Rightarrow> Inl m | None \<Rightarrow> q (w_db w1)) of
          Inl m \<Rightarrow> (Inl (DriverError m), w1\<lparr>w_tx := (if w_tx w1 = Open then Aborted else w_tx w1)\<rparr>)
        | Inr (x, db) \<Rightarrow> (Inr x, w1\<lparr>w_db := db\<rparr>))))"

text \<open>\<open>db.Where(cond).Find(&rows)\<close>, \<open>db.Where(cond).First(&row)\<close> and a writing statement.\<close>

definition find_rows :: "(database \<Rightarrow> 'a list) \<Rightarrow> (err + 'a list) op" where
  "find_rows sel = statement (\<lambda>db. Inr (sel db, db))"

definition first_row :: "('a \<Rightarrow> nat) \<Rightarrow> (database \<Rightarrow> 'a list) \<Rightarrow> (err + 'a) op" where
  "first_row key sel = do {
     r \<leftarrow> statement (\<lambda>db. Inr (least_by key (sel db), db));
     State_Monad.return (case r of Inl e \<Rightarrow> Inl e | Inr None \<Rightarrow> Inl RecordNotFound | Inr (Some x) \<Rightarrow> Inr x)
   }"

definition exec :: "(database \<Rightarrow> string + database) \<Rightarrow> err option op" where
  "exec q = do {
     r \<leftarrow> statement (\<lambda>db. map_sum (\<lambda>m. m) (Pair ()) (q db));
     State_Monad.return (case r of Inl e \<Rightarrow> Some e | Inr _ \<Rightarrow> None)
   }"

text \<open>\<open>errors.UnusableDatabase(err)\<close> keeps the text of the cause; \<open>Execute\<close> takes it out again.\<close>

fun err_text :: "err \<Rightarrow> string" where
  "err_text (DriverError m) = m"
| "err_text (UnusableDatabase m) = m"
| "err_text (UnusableStore m) = m"
| "err_text (RemoteServerError m) = m"
| "err_text (ClientError m) = m"
| "err_text (NewError m) = m"
| "err_text (UnAuthenticated m) = m"
| "err_text (ClientUnAuthorized m) = m"
| "err_text (ClientBadRequest m) = m"
| "err_text (ClientConflict m) = m"
| "err_text RecordNotFound = ''record not found''"
| "err_text _ = ''''"

definition unusable_database :: "err \<Rightarrow> err" where
  "unusable_database e = UnusableDatabase (err_text e)"

fun unwrap :: "err \<Rightarrow> err" where
  "unwrap (UnusableDatabase m) = DriverError m"
| "unwrap e = e"

text \<open>\<open>database.Execute\<close> runs its function outside a transaction.\<close>

definition execute :: "(err + 'a) op \<Rightarrow> (err + 'a) op" where
  "execute m = do { r \<leftarrow> m; State_Monad.return (map_sum unwrap (\<lambda>x. x) r) }"

definition execute_err :: "err option op \<Rightarrow> err option op" where
  "execute_err m = do { r \<leftarrow> m; State_Monad.return (map_option unwrap r) }"

text \<open>
  \<open>database.GormTransaction\<close>: the error of the function is overwritten by the error of the
  transaction handle, which is set only when \<open>BEGIN\<close> failed, and the deferred function commits.
  Committing an aborted transaction rolls it back, a failing commit loses its changes, and
  neither is reported. When \<open>BEGIN\<close> failed every statement of the function fails. What the
  function assigned to the variables of its caller (\<open>x\<close>, \<open>d\<close> when nothing worked) stays.
\<close>

definition gorm_transaction_with :: "'a \<Rightarrow> 'a op \<Rightarrow> (err option \<times> 'a) op" where
  "gorm_transaction_with d m = do {
     b \<leftarrow> pop_fault;
     case b of Some e \<Rightarrow> State_Monad.return (Some (UnusableDatabase e), d)
     | None \<Rightarrow> do {
         w0 \<leftarrow> State_Monad.get;
         modify (\<lambda>w. w\<lparr>w_tx := Open\<rparr>);
         x \<leftarrow> m;
         c \<leftarrow> pop_fault;
         modify (\<lambda>w. w\<lparr>w_tx := NoTx,
           w_db := (if w_tx w = Aborted \<or> c \<noteq> None then w_db w0 else w_db w)\<rparr>);
         State_Monad.return (None, x)
       }
   }"

definition gorm_transaction :: "err option op \<Rightarrow> err option op" where
  "gorm_transaction m = do { r \<leftarrow> gorm_transaction_with None m; State_Monad.return (fst r) }"

section \<open>The key-value store\<close>

definition store_get :: "string \<Rightarrow> (err + document) op" where
  "store_get k = do {
     f \<leftarrow> pop_fault;
     w \<leftarrow> State_Monad.get;
     State_Monad.return (case f of Some m \<Rightarrow> Inl (DriverError m)
       | None \<Rightarrow> (case w_kv w k of None \<Rightarrow> Inl NotFoundKey | Some d \<Rightarrow> Inr d))
   }"

definition store_update :: "((string \<Rightarrow> document option) \<Rightarrow> string \<Rightarrow> document option) \<Rightarrow> err option op" where
  "store_update g = do {
     f \<leftarrow> pop_fault;
     case f of Some m \<Rightarrow> State_Monad.return (Some (DriverError m))
     | None \<Rightarrow> do { modify (\<lambda>w. w\<lparr>w_kv := g (w_kv w)\<rparr>); State_Monad.return None }
   }"

definition store_put :: "string \<Rightarrow> document \<Rightarrow> err option op" where
  "store_put k d = store_update (\<lambda>kv. kv(k := Some d))"

definition store_delete :: "string \<Rightarrow> err option op" where
  "store_delete k = store_update (\<lambda>kv. kv(k := None))"

definition has_prefix :: "string \<Rightarrow> string \<Rightarrow> bool" where
  "has_prefix p k = (take (length p) k = p)"

text \<open>\<open>store.Delete(k, store.DeletePrefix())\<close>\<close>

definition store_delete_prefix :: "string \<Rightarrow> err option op" where
  "store_delete_prefix p = store_update (\<lambda>kv k. if has_prefix p k then None else kv k)"

lemma has_prefix_append [simp]: "has_prefix p (p @ q)"
  by (simp add: has_prefix_def)

lemma has_prefix_self [simp]: "has_prefix p p"
  by (simp add: has_prefix_def)

lemma has_prefix_iff: "has_prefix p k \<longleftrightarrow> (\<exists>q. k = p @ q)"
  by (metis append_take_drop_id has_prefix_append has_prefix_def)

section \<open>Worlds without failures\<close>

text \<open>No further call fails and no transaction is open.\<close>

definition quiet :: "world \<Rightarrow> bool" where
  "quiet w = (w_faults w = [] \<and> w_tx w = NoTx)"

named_theorems quiet_run "what the primitives do in a world without failures"

lemma quiet_update [simp]:
  "quiet (w\<lparr>w_db := d\<rparr>) = quiet w" "quiet (w\<lparr>w_kv := k\<rparr>) = quiet w"
  "quiet (w\<lparr>w_events := e\<rparr>) = quiet w" "quiet (w\<lparr>w_ticks := t\<rparr>) = quiet w"
  "quiet (w\<lparr>w_seq := n\<rparr>) = quiet w"
  by (simp_all add: quiet_def)

lemma pop_fault_quiet [quiet_run]: "quiet w \<Longrightarrow> run_state pop_fault w = (None, w)"
  by (simp add: pop_fault_def quiet_def)

lemma pop_fault_fail [simp]:
  "w_faults w = Some m # fs \<Longrightarrow> run_state pop_fault w = (Some m, w\<lparr>w_faults := fs\<rparr>)"
  by (simp add: pop_fault_def)

lemma run_now [simp]: "run_state now w = (w_clock w (w_ticks w), w\<lparr>w_ticks := Suc (w_ticks w)\<rparr>)"
  by (simp add: now_def)

lemma run_ask [simp]: "run_state (ask f) w = (f (w_ticks w), w\<lparr>w_ticks := Suc (w_ticks w)\<rparr>)"
  by (simp add: ask_def)

lemma publish_quiet [quiet_run]:
  "quiet w \<Longrightarrow> run_state (publish e) w = (None, w\<lparr>w_events := w_events w @ [e]\<rparr>)"
  by (simp add: publish_def pop_fault_quiet)

lemma run_clear_shared_task [simp]:
  "run_state (clear_shared_task c i u t) w = ((), w\<lparr>w_events := w_events w @ [SharedTaskCleared c i u t]\<rparr>)"
  by (simp add: clear_shared_task_def)

lemma statement_open:
  assumes "w_faults w = []" and "w_tx w \<noteq> Aborted"
  shows "run_state (statement q) w = (case q (w_db w) of
     Inl m \<Rightarrow> (Inl (DriverError m), w\<lparr>w_tx := (if w_tx w = Open then Aborted else w_tx w)\<rparr>)
   | Inr (x, db) \<Rightarrow> (Inr x, w\<lparr>w_db := db\<rparr>))"
  using assms by (simp add: statement_def pop_fault_def split: sum.split)

lemma find_rows_quiet [quiet_run]: "quiet w \<Longrightarrow> run_state (find_rows sel) w = (Inr (sel (w_db w)), w)"
  by (simp add: find_rows_def statement_open quiet_def)

lemma first_row_quiet [quiet_run]:
  "quiet w \<Longrightarrow> run_state (first_row key sel) w =
     (case least_by key (sel (w_db w)) of None \<Rightarrow> Inl RecordNotFound | Some x \<Rightarrow> Inr x, w)"
  by (simp add: first_row_def statement_open quiet_def)

lemma exec_quiet [quiet_run]:
  "quiet w \<Longrightarrow> run_state (exec q) w =
     (case q (w_db w) of Inl m \<Rightarrow> (Some (DriverError m), w) | Inr db \<Rightarrow> (None, w\<lparr>w_db := db\<rparr>))"
  by (simp add: exec_def statement_open quiet_def split: sum.split)

text \<open>A list of writing statements, the body of most transactions: it stops at the first error.\<close>

fun exec_all :: "(database \<Rightarrow> string + database) list \<Rightarrow> err option op" where
  "exec_all [] = State_Monad.return None"
| "exec_all (q # qs) = do {
     e \<leftarrow> exec q;
     case e of Some x \<Rightarrow> State_Monad.return (Some x) | None \<Rightarrow> exec_all qs
   }"

fun apply_all :: "(database \<Rightarrow> string + database) list \<Rightarrow> database \<Rightarrow> string + database" where
  "apply_all [] db = Inr db"
| "apply_all (q # qs) db = (case q db of Inl m \<Rightarrow> Inl m | Inr db' \<Rightarrow> apply_all qs db')"

lemma exec_all_open:
  "w_faults w = [] \<Longrightarrow> w_tx w = Open \<Longrightarrow>
   \<exists>e db t. run_state (exec_all qs) w = (e, w\<lparr>w_db := db, w_tx := t\<rparr>) \<and>
     (case apply_all qs (w_db w) of Inl m \<Rightarrow> t = Aborted | Inr d \<Rightarrow> t = Open \<and> db = d)"
proof (induction qs arbitrary: w)
  case Nil
  have "w = w\<lparr>w_db := w_db w, w_tx := Open\<rparr>" using Nil.prems by simp
  then show ?case using Nil.prems by (auto intro!: exI [of _ "w_db w"])
next
  case (Cons q qs)
  show ?case
  proof (cases "q (w_db w)")
    case (Inl m)
    then show ?thesis using Cons.prems
      by (auto simp: exec_def statement_open intro!: exI [of _ "w_db w"])
  next
    case (Inr d)
    let ?w = "w\<lparr>w_db := d\<rparr>"
    obtain e db t where
      "run_state (exec_all qs) ?w = (e, ?w\<lparr>w_db := db, w_tx := t\<rparr>)"
      "case apply_all qs d of Inl m \<Rightarrow> t = Aborted | Inr d \<Rightarrow> t = Open \<and> db = d"
      using Cons.IH [of ?w] Cons.prems by auto
    then show ?thesis using Cons.prems Inr by (auto simp: exec_def statement_open)
  qed
qed

text \<open>
  Without failures a transaction applies all of its statements or, when one of them violates a
  constraint, none; the caller cannot tell the two apart.
\<close>

lemma gorm_transaction_quiet [quiet_run]:
  assumes "quiet w"
  shows "run_state (gorm_transaction (exec_all qs)) w =
    (None, w\<lparr>w_db := (case apply_all qs (w_db w) of Inl _ \<Rightarrow> w_db w | Inr db \<Rightarrow> db)\<rparr>)"
proof -
  have w: "w_faults w = []" "w_tx w = NoTx" using assms by (auto simp: quiet_def)
  obtain e db t where run: "run_state (exec_all qs) (w\<lparr>w_tx := Open\<rparr>)
      = (e, (w\<lparr>w_tx := Open\<rparr>)\<lparr>w_db := db, w_tx := t\<rparr>)"
    and t: "case apply_all qs (w_db w) of Inl m \<Rightarrow> t = Aborted | Inr d \<Rightarrow> t = Open \<and> db = d"
    using exec_all_open [of "w\<lparr>w_tx := Open\<rparr>" qs] w by auto
  have "w\<lparr>w_tx := NoTx\<rparr> = w" using w by simp
  then have norm: "w\<lparr>w_tx := NoTx, w_db := d\<rparr> = w\<lparr>w_db := d\<rparr>" for d
    by (metis (no_types))
  show ?thesis
    using run t w norm
    by (cases "apply_all qs (w_db w)")
       (auto simp: gorm_transaction_def gorm_transaction_with_def pop_fault_def)
qed

lemma store_get_quiet [quiet_run]:
  "quiet w \<Longrightarrow> run_state (store_get k) w = (case w_kv w k of None \<Rightarrow> Inl NotFoundKey | Some d \<Rightarrow> Inr d, w)"
  by (simp add: store_get_def pop_fault_quiet)

lemma store_update_quiet [quiet_run]:
  "quiet w \<Longrightarrow> run_state (store_update g) w = (None, w\<lparr>w_kv := g (w_kv w)\<rparr>)"
  by (simp add: store_update_def pop_fault_quiet)

lemma store_update_fail [simp]:
  "w_faults w = Some m # fs \<Longrightarrow>
   run_state (store_update g) w = (Some (DriverError m), w\<lparr>w_faults := fs\<rparr>)"
  by (simp add: store_update_def)

declare exec_all.simps [simp del]

end
