(* ===== verification/Tables.thy ===== *)
theory Tables
  imports World
begin

text \<open>
  The statements that change tables: deletions under the \<open>ON DELETE RESTRICT\<close> foreign keys of
  \<open>documents/database/cdm-cluster-manager.ddl\<close>, and gorm's \<open>Save\<close>.
\<close>

section \<open>Deletions\<close>

text \<open>
  \<open>DELETE FROM t WHERE P\<close> fails when a row to delete is still referenced. \<open>db.Delete(&row)\<close>
  puts the primary key of the row into \<open>P\<close>, unless it is zero: then there is no condition at
  all (\<open>cond_nat\<close>). A composite key is used as a whole unless its first field is zero.
\<close>

definition fk_violation :: string where
  "fk_violation = ''violates foreign key constraint''"

definition delete_from :: "('r \<Rightarrow> bool) \<Rightarrow> ('r \<Rightarrow> bool) \<Rightarrow> 'r list \<Rightarrow> string + 'r list" where
  "delete_from referenced P rows =
     (if list_ex (\<lambda>r. P r \<and> referenced r) rows then Inl fk_violation
      else Inr (filter (\<lambda>r. \<not> P r) rows))"

definition cond_pair :: "nat \<times> nat \<Rightarrow> nat \<times> nat \<Rightarrow> bool" where
  "cond_pair k x = (fst k = 0 \<or> x = k)"

definition volume_referenced where
  "volume_referenced db r = (
      list_ex (\<lambda>x. vs_cluster_volume_id x = vol_id r) (db_volume_snapshot db) \<or>
      list_ex (\<lambda>x. ivol_cluster_volume_id x = vol_id r) (db_instance_volume db))"

definition delete_volume_rows where
  "delete_volume_rows P db =
     map_sum (\<lambda>m. m) (\<lambda>rs. db\<lparr>db_volume := rs\<rparr>) (delete_from (volume_referenced db) P (db_volume db))"

definition delete_volume_snapshot_rows where
  "delete_volume_snapshot_rows P db =
     map_sum (\<lambda>m. m) (\<lambda>rs. db\<lparr>db_volume_snapshot := rs\<rparr>) (delete_from (\<lambda>_. False) P (db_volume_snapshot db))"

definition delete_instance_volume_rows where
  "delete_instance_volume_rows P db =
     map_sum (\<lambda>m. m) (\<lambda>rs. db\<lparr>db_instance_volume := rs\<rparr>) (delete_from (\<lambda>_. False) P (db_instance_volume db))"

definition delete_instance_network_rows where
  "delete_instance_network_rows P db =
     map_sum (\<lambda>m. m) (\<lambda>rs. db\<lparr>db_instance_network := rs\<rparr>) (delete_from (\<lambda>_. False) P (db_instance_network db))"

definition delete_instance_security_group_rows where
  "delete_instance_security_group_rows P db =
     map_sum (\<lambda>m. m) (\<lambda>rs. db\<lparr>db_instance_security_group := rs\<rparr>) (delete_from (\<lambda>_. False) P (db_instance_security_group db))"

definition delete_instance_user_script_rows where
  "delete_instance_user_script_rows P db =
     map_sum (\<lambda>m. m) (\<lambda>rs. db\<lparr>db_instance_user_script := rs\<rparr>) (delete_from (\<lambda>_. False) P (db_instance_user_script db))"

definition instance_referenced where
  "instance_referenced db r = (
      list_ex (\<lambda>x. inw_cluster_instance_id x = ins_id r) (db_instance_network db) \<or>
      list_ex (\<lambda>x. isg_cluster_instance_id x = ins_id r) (db_instance_security_group db) \<or>
      list_ex (\<lambda>x. ivol_cluster_instance_id x = ins_id r) (db_instance_volume db) \<or>
      list_ex (\<lambda>x. us_cluster_instance_id x = ins_id r) (db_instance_user_script db))"

definition delete_instance_rows where
  "delete_instance_rows P db =
     map_sum (\<lambda>m. m) (\<lambda>rs. db\<lparr>db_instance := rs\<rparr>) (delete_from (instance_referenced db) P (db_instance db))"

definition delete_extra_spec_rows where
  "delete_extra_spec_rows P db =
     map_sum (\<lambda>m. m) (\<lambda>rs. db\<lparr>db_extra_spec := rs\<rparr>) (delete_from (\<lambda>_. False) P (db_extra_spec db))"

definition instance_spec_referenced where
  "instance_spec_referenced db r = (
      list_ex (\<lambda>x. es_cluster_instance_spec_id x = sp_id r) (db_extra_spec db) \<or>
      list_ex (\<lambda>x. ins_cluster_instance_spec_id x = sp_id r) (db_instance db))"

definition delete_instance_spec_rows where
  "delete_instance_spec_rows P db =
     map_sum (\<lambda>m. m) (\<lambda>rs. db\<lparr>db_instance_spec := rs\<rparr>) (delete_from (instance_spec_referenced db) P (db_instance_spec db))"

definition keypair_referenced where
  "keypair_referenced db r = (
      list_ex (\<lambda>x. ins_cluster_keypair_id x = Some (kp_id r)) (db_instance db))"

definition delete_keypair_rows where
  "delete_keypair_rows P db =
     map_sum (\<lambda>m. m) (\<lambda>rs. db\<lparr>db_keypair := rs\<rparr>) (delete_from (keypair_referenced db) P (db_keypair db))"

definition delete_security_group_rule_rows where
  "delete_security_group_rule_rows P db =
     map_sum (\<lambda>m. m) (\<lambda>rs. db\<lparr>db_security_group_rule := rs\<rparr>) (delete_from (\<lambda>_. False) P (db_security_group_rule db))"

definition security_group_referenced where
  "security_group_referenced db r = (
      list_ex (\<lambda>x. sgr_security_group_id x = sg_id r) (db_security_group_rule db) \<or>
      list_ex (\<lambda>x. sgr_remote_security_group_id x = Some (sg_id r)) (db_security_group_rule db) \<or>
      list_ex (\<lambda>x. isg_cluster_security_group_id x = sg_id r) (db_instance_security_group db))"

definition delete_security_group_rows where
  "delete_security_group_rows P db =
     map_sum (\<lambda>m. m) (\<lambda>rs. db\<lparr>db_security_group := rs\<rparr>) (delete_from (security_group_referenced db) P (db_security_group db))"

definition floating_ip_referenced where
  "floating_ip_referenced db r = (
      list_ex (\<lambda>x. inw_cluster_floating_ip_id x = Some (fip_id r)) (db_instance_network db))"

definition delete_floating_ip_rows where
  "delete_floating_ip_rows P db =
     map_sum (\<lambda>m. m) (\<lambda>rs. db\<lparr>db_floating_ip := rs\<rparr>) (delete_from (floating_ip_referenced db) P (db_floating_ip db))"

definition delete_routing_interface_rows where
  "delete_routing_interface_rows P db =
     map_sum (\<lambda>m. m) (\<lambda>rs. db\<lparr>db_routing_interface := rs\<rparr>) (delete_from (\<lambda>_. False) P (db_routing_interface db))"

definition delete_extra_route_rows where
  "delete_extra_route_rows P db =
     map_sum (\<lambda>m. m) (\<lambda>rs. db\<lparr>db_extra_route := rs\<rparr>) (delete_from (\<lambda>_. False) P (db_extra_route db))"

definition router_referenced where
  "router_referenced db r = (
      list_ex (\<lambda>x. er_cluster_router_id x = rt_id r) (db_extra_route db) \<or>
      list_ex (\<lambda>x. ri_cluster_router_id x = rt_id r) (db_routing_interface db))"

definition delete_router_rows where
  "delete_router_rows P db =
     map_sum (\<lambda>m. m) (\<lambda>rs. db\<lparr>db_router := rs\<rparr>) (delete_from (router_referenced db) P (db_router db))"

definition delete_nameserver_rows where
  "delete_nameserver_rows P db =
     map_sum (\<lambda>m. m) (\<lambda>rs. db\<lparr>db_nameserver := rs\<rparr>) (delete_from (\<lambda>_. False) P (db_nameserver db))"

definition delete_dhcp_pool_rows where
  "delete_dhcp_pool_rows P db =
     map_sum (\<lambda>m. m) (\<lambda>rs. db\<lparr>db_dhcp_pool := rs\<rparr>) (delete_from (\<lambda>_. False) P (db_dhcp_pool db))"

definition subnet_referenced where
  "subnet_referenced db r = (
      list_ex (\<lambda>x. ns_cluster_subnet_id x = sn_id r) (db_nameserver db) \<or>
      list_ex (\<lambda>x. dp_cluster_subnet_id x = sn_id r) (db_dhcp_pool db) \<or>
      list_ex (\<lambda>x. ri_cluster_subnet_id x = sn_id r) (db_routing_interface db) \<or>
      list_ex (\<lambda>x. inw_cluster_subnet_id x = sn_id r) (db_instance_network db))"

definition delete_subnet_rows where
  "delete_subnet_rows P db =
     map_sum (\<lambda>m. m) (\<lambda>rs. db\<lparr>db_subnet := rs\<rparr>) (delete_from (subnet_referenced db) P (db_subnet db))"

definition network_referenced where
  "network_referenced db r = (
      list_ex (\<lambda>x. fip_cluster_network_id x = nw_id r) (db_floating_ip db) \<or>
      list_ex (\<lambda>x. sn_cluster_network_id x = nw_id r) (db_subnet db) \<or>
      list_ex (\<lambda>x. inw_cluster_network_id x = nw_id r) (db_instance_network db))"

definition delete_network_rows where
  "delete_network_rows P db =
     map_sum (\<lambda>m. m) (\<lambda>rs. db\<lparr>db_network := rs\<rparr>) (delete_from (network_referenced db) P (db_network db))"

definition hypervisor_referenced where
  "hypervisor_referenced db r = (
      list_ex (\<lambda>x. ins_cluster_hypervisor_id x = hv_id r) (db_instance db))"

definition delete_hypervisor_rows where
  "delete_hypervisor_rows P db =
     map_sum (\<lambda>m. m) (\<lambda>rs. db\<lparr>db_hypervisor := rs\<rparr>) (delete_from (hypervisor_referenced db) P (db_hypervisor db))"

definition availability_zone_referenced where
  "availability_zone_referenced db r = (
      list_ex (\<lambda>x. hv_cluster_availability_zone_id x = az_id r) (db_hypervisor db) \<or>
      list_ex (\<lambda>x. ins_cluster_availability_zone_id x = az_id r) (db_instance db))"

definition delete_availability_zone_rows where
  "delete_availability_zone_rows P db =
     map_sum (\<lambda>m. m) (\<lambda>rs. db\<lparr>db_availability_zone := rs\<rparr>) (delete_from (availability_zone_referenced db) P (db_availability_zone db))"

definition delete_quota_rows where
  "delete_quota_rows P db =
     map_sum (\<lambda>m. m) (\<lambda>rs. db\<lparr>db_quota := rs\<rparr>) (delete_from (\<lambda>_. False) P (db_quota db))"

definition tenant_referenced where
  "tenant_referenced db r = (
      list_ex (\<lambda>x. qt_cluster_tenant_id x = tn_id r) (db_quota db) \<or>
      list_ex (\<lambda>x. nw_cluster_tenant_id x = tn_id r) (db_network db) \<or>
      list_ex (\<lambda>x. fip_cluster_tenant_id x = tn_id r) (db_floating_ip db) \<or>
      list_ex (\<lambda>x. rt_cluster_tenant_id x = tn_id r) (db_router db) \<or>
      list_ex (\<lambda>x. sg_cluster_tenant_id x = tn_id r) (db_security_group db) \<or>
      list_ex (\<lambda>x. vol_cluster_tenant_id x = tn_id r) (db_volume db) \<or>
      list_ex (\<lambda>x. ins_cluster_tenant_id x = tn_id r) (db_instance db))"

definition delete_tenant_rows where
  "delete_tenant_rows P db =
     map_sum (\<lambda>m. m) (\<lambda>rs. db\<lparr>db_tenant := rs\<rparr>) (delete_from (tenant_referenced db) P (db_tenant db))"

definition storage_referenced where
  "storage_referenced db r = (
      list_ex (\<lambda>x. vol_cluster_storage_id x = st_id r) (db_volume db))"

definition delete_storage_rows where
  "delete_storage_rows P db =
     map_sum (\<lambda>m. m) (\<lambda>rs. db\<lparr>db_storage := rs\<rparr>) (delete_from (storage_referenced db) P (db_storage db))"

lemmas delete_rows_defs = delete_volume_rows_def delete_volume_snapshot_rows_def delete_instance_volume_rows_def delete_instance_network_rows_def delete_instance_security_group_rows_def delete_instance_user_script_rows_def delete_instance_rows_def delete_extra_spec_rows_def delete_instance_spec_rows_def delete_keypair_rows_def delete_security_group_rule_rows_def delete_security_group_rows_def delete_floating_ip_rows_def delete_routing_interface_rows_def delete_extra_route_rows_def delete_router_rows_def delete_nameserver_rows_def delete_dhcp_pool_rows_def delete_subnet_rows_def delete_network_rows_def delete_hypervisor_rows_def delete_availability_zone_rows_def delete_quota_rows_def delete_tenant_rows_def delete_storage_rows_def

lemmas referenced_defs = volume_referenced_def instance_referenced_def instance_spec_referenced_def keypair_referenced_def security_group_referenced_def floating_ip_referenced_def router_referenced_def subnet_referenced_def network_referenced_def hypervisor_referenced_def availability_zone_referenced_def tenant_referenced_def storage_referenced_def

section \<open>Saving a row\<close>

text \<open>
  \<open>db.Save(&row)\<close>: a row whose primary key is zero is inserted under a fresh one; any other row
  is updated by its key, and inserted when no row has that key. A foreign key is checked for
  an inserted row and for a column that changes.
\<close>

definition changed :: "('r \<Rightarrow> 'c) \<Rightarrow> 'r option \<Rightarrow> 'r \<Rightarrow> bool" where
  "changed col old new = (case old of None \<Rightarrow> True | Some r \<Rightarrow> col r \<noteq> col new)"

definition points_to :: "('r \<Rightarrow> nat) \<Rightarrow> ('p \<Rightarrow> nat) \<Rightarrow> 'p list \<Rightarrow> 'r option \<Rightarrow> 'r \<Rightarrow> bool" where
  "points_to col pk parents old new = (changed col old new \<longrightarrow> list_ex (\<lambda>p. pk p = col new) parents)"

definition may_point_to :: "('r \<Rightarrow> nat option) \<Rightarrow> ('p \<Rightarrow> nat) \<Rightarrow> 'p list \<Rightarrow> 'r option \<Rightarrow> 'r \<Rightarrow> bool" where
  "may_point_to col pk parents old new =
     (changed col old new \<longrightarrow> (case col new of None \<Rightarrow> True | Some i \<Rightarrow> list_ex (\<lambda>p. pk p = i) parents))"

definition save_into :: "('r \<Rightarrow> 'k) \<Rightarrow> ('r option \<Rightarrow> 'r \<Rightarrow> bool) \<Rightarrow> 'r \<Rightarrow> 'r list \<Rightarrow> string + 'r list" where
  "save_into pk ok new rows =
     (case List.find (\<lambda>r. pk r = pk new) rows of
        None \<Rightarrow> if ok None new then Inr (rows @ [new]) else Inl fk_violation
      | Some old \<Rightarrow> if ok (Some old) new
          then Inr (map (\<lambda>r. if pk r = pk new then new else r) rows) else Inl fk_violation)"

text \<open>
  The key of a row to insert comes from the database's sequence, and the struct gets it when
  the statement works. \<open>saving i q k\<close> is \<open>GormTransaction(db.Save(&row))\<close> of a row with the key
  \<open>i\<close>, followed by \<open>k\<close> on the key the struct has then.
\<close>

definition fresh_id :: "nat \<Rightarrow> nat op" where
  "fresh_id i = (if i \<noteq> 0 then State_Monad.return i
     else State (\<lambda>w. (Suc (w_seq w), w\<lparr>w_seq := Suc (w_seq w)\<rparr>)))"

definition save_statement :: "nat \<Rightarrow> (nat \<Rightarrow> database \<Rightarrow> string + database) \<Rightarrow> nat op" where
  "save_statement i q = do {
     j \<leftarrow> fresh_id i;
     e \<leftarrow> exec (q j);
     State_Monad.return (if e = None then j else i)
   }"

definition saving :: "nat \<Rightarrow> (nat \<Rightarrow> database \<Rightarrow> string + database) \<Rightarrow> (nat \<Rightarrow> err option op) \<Rightarrow> err option op" where
  "saving i q k = do {
     r \<leftarrow> gorm_transaction_with i (save_statement i q);
     case fst r of Some e \<Rightarrow> State_Monad.return (Some (unusable_database e)) | None \<Rightarrow> k (snd r)
   }"

definition save_tenant where
  "save_tenant new db = map_sum (\<lambda>m. m) (\<lambda>rs. db\<lparr>db_tenant := rs\<rparr>)
     (save_into tn_id (\<lambda>old r. points_to tn_cluster_id cl_id (db_cluster db) old r) new (db_tenant db))"

definition save_quota where
  "save_quota new db = map_sum (\<lambda>m. m) (\<lambda>rs. db\<lparr>db_quota := rs\<rparr>)
     (save_into (\<lambda>r. (qt_cluster_tenant_id r, qt_key r)) (\<lambda>old r. points_to qt_cluster_tenant_id tn_id (db_tenant db) old r) new (db_quota db))"

definition save_availability_zone where
  "save_availability_zone new db = map_sum (\<lambda>m. m) (\<lambda>rs. db\<lparr>db_availability_zone := rs\<rparr>)
     (save_into az_id (\<lambda>old r. points_to az_cluster_id cl_id (db_cluster db) old r) new (db_availability_zone db))"

definition save_hypervisor where
  "save_hypervisor new db = map_sum (\<lambda>m. m) (\<lambda>rs. db\<lparr>db_hypervisor := rs\<rparr>)
     (save_into hv_id (\<lambda>old r. points_to hv_cluster_id cl_id (db_cluster db) old r \<and>
        points_to hv_cluster_availability_zone_id az_id (db_availability_zone db) old r) new (db_hypervisor db))"

definition save_storage where
  "save_storage new db = map_sum (\<lambda>m. m) (\<lambda>rs. db\<lparr>db_storage := rs\<rparr>)
     (save_into st_id (\<lambda>old r. points_to st_cluster_id cl_id (db_cluster db) old r) new (db_storage db))"

definition save_volume where
  "save_volume new db = map_sum (\<lambda>m. m) (\<lambda>rs. db\<lparr>db_volume := rs\<rparr>)
     (save_into vol_id (\<lambda>old r. points_to vol_cluster_tenant_id tn_id (db_tenant db) old r \<and>
        points_to vol_cluster_storage_id st_id (db_storage db) old r) new (db_volume db))"

definition save_volume_snapshot where
  "save_volume_snapshot new db = map_sum (\<lambda>m. m) (\<lambda>rs. db\<lparr>db_volume_snapshot := rs\<rparr>)
     (save_into vs_id (\<lambda>old r. points_to vs_cluster_volume_id vol_id (db_volume db) old r) new (db_volume_snapshot db))"

definition save_keypair where
  "save_keypair new db = map_sum (\<lambda>m. m) (\<lambda>rs. db\<lparr>db_keypair := rs\<rparr>)
     (save_into kp_id (\<lambda>old r. True) new (db_keypair db))"

definition save_instance where
  "save_instance new db = map_sum (\<lambda>m. m) (\<lambda>rs. db\<lparr>db_instance := rs\<rparr>)
     (save_into ins_id (\<lambda>old r.
        points_to ins_cluster_tenant_id tn_id (db_tenant db) old r \<and>
        points_to ins_cluster_availability_zone_id az_id (db_availability_zone db) old r \<and>
        points_to ins_cluster_hypervisor_id hv_id (db_hypervisor db) old r \<and>
        points_to ins_cluster_instance_spec_id sp_id (db_instance_spec db) old r \<and>
        may_point_to ins_cluster_keypair_id kp_id (db_keypair db) old r) new (db_instance db))"

definition save_instance_network where
  "save_instance_network new db = map_sum (\<lambda>m. m) (\<lambda>rs. db\<lparr>db_instance_network := rs\<rparr>)
     (save_into inw_id (\<lambda>old r.
        points_to inw_cluster_instance_id ins_id (db_instance db) old r \<and>
        points_to inw_cluster_network_id nw_id (db_network db) old r \<and>
        points_to inw_cluster_subnet_id sn_id (db_subnet db) old r \<and>
        may_point_to inw_cluster_floating_ip_id fip_id (db_floating_ip db) old r)
      new (db_instance_network db))"

definition save_instance_spec where
  "save_instance_spec new db = map_sum (\<lambda>m. m) (\<lambda>rs. db\<lparr>db_instance_spec := rs\<rparr>)
     (save_into sp_id (\<lambda>old r. points_to sp_cluster_id cl_id (db_cluster db) old r)
      new (db_instance_spec db))"

definition save_extra_spec where
  "save_extra_spec new db = map_sum (\<lambda>m. m) (\<lambda>rs. db\<lparr>db_extra_spec := rs\<rparr>)
     (save_into es_id (\<lambda>old r. points_to es_cluster_instance_spec_id sp_id (db_instance_spec db) old r)
      new (db_extra_spec db))"

definition save_network where
  "save_network new db = map_sum (\<lambda>m. m) (\<lambda>rs. db\<lparr>db_network := rs\<rparr>)
     (save_into nw_id (\<lambda>old r. points_to nw_cluster_tenant_id tn_id (db_tenant db) old r) new (db_network db))"

definition save_floating_ip where
  "save_floating_ip new db = map_sum (\<lambda>m. m) (\<lambda>rs. db\<lparr>db_floating_ip := rs\<rparr>)
     (save_into fip_id (\<lambda>old r. points_to fip_cluster_tenant_id tn_id (db_tenant db) old r \<and>
        points_to fip_cluster_network_id nw_id (db_network db) old r) new (db_floating_ip db))"

definition save_subnet where
  "save_subnet new db = map_sum (\<lambda>m. m) (\<lambda>rs. db\<lparr>db_subnet := rs\<rparr>)
     (save_into sn_id (\<lambda>old r. points_to sn_cluster_network_id nw_id (db_network db) old r) new (db_subnet db))"

definition save_nameserver where
  "save_nameserver new db = map_sum (\<lambda>m. m) (\<lambda>rs. db\<lparr>db_nameserver := rs\<rparr>)
     (save_into ns_id (\<lambda>old r. points_to ns_cluster_subnet_id sn_id (db_subnet db) old r) new (db_nameserver db))"

definition save_dhcp_pool where
  "save_dhcp_pool new db = map_sum (\<lambda>m. m) (\<lambda>rs. db\<lparr>db_dhcp_pool := rs\<rparr>)
     (save_into dp_id (\<lambda>old r. points_to dp_cluster_subnet_id sn_id (db_subnet db) old r) new (db_dhcp_pool db))"

definition save_router where
  "save_router new db = map_sum (\<lambda>m. m) (\<lambda>rs. db\<lparr>db_router := rs\<rparr>)
     (save_into rt_id (\<lambda>old r. points_to rt_cluster_tenant_id tn_id (db_tenant db) old r) new (db_router db))"

definition save_extra_route where
  "save_extra_route new db = map_sum (\<lambda>m. m) (\<lambda>rs. db\<lparr>db_extra_route := rs\<rparr>)
     (save_into er_id (\<lambda>old r. points_to er_cluster_router_id rt_id (db_router db) old r) new (db_extra_route db))"

definition save_routing_interface where
  "save_routing_interface new db = map_sum (\<lambda>m. m) (\<lambda>rs. db\<lparr>db_routing_interface := rs\<rparr>)
     (save_into (\<lambda>r. (ri_cluster_router_id r, ri_cluster_subnet_id r)) (\<lambda>old r. points_to ri_cluster_router_id rt_id (db_router db) old r \<and>
        points_to ri_cluster_subnet_id sn_id (db_subnet db) old r) new (db_routing_interface db))"

definition save_security_group where
  "save_security_group new db = map_sum (\<lambda>m. m) (\<lambda>rs. db\<lparr>db_security_group := rs\<rparr>)
     (save_into sg_id (\<lambda>old r. points_to sg_cluster_tenant_id tn_id (db_tenant db) old r) new (db_security_group db))"

definition save_security_group_rule where
  "save_security_group_rule new db = map_sum (\<lambda>m. m) (\<lambda>rs. db\<lparr>db_security_group_rule := rs\<rparr>)
     (save_into sgr_id (\<lambda>old r. points_to sgr_security_group_id sg_id (db_security_group db) old r \<and>
        may_point_to sgr_remote_security_group_id sg_id (db_security_group db) old r) new (db_security_group_rule db))"

definition save_instance_volume where
  "save_instance_volume new db = map_sum (\<lambda>m. m) (\<lambda>rs. db\<lparr>db_instance_volume := rs\<rparr>)
     (save_into (\<lambda>r. (ivol_cluster_instance_id r, ivol_cluster_volume_id r)) (\<lambda>old r. points_to ivol_cluster_instance_id ins_id (db_instance db) old r \<and>
        points_to ivol_cluster_volume_id vol_id (db_volume db) old r) new (db_instance_volume db))"

definition save_instance_security_group where
  "save_instance_security_group new db = map_sum (\<lambda>m. m) (\<lambda>rs. db\<lparr>db_instance_security_group := rs\<rparr>)
     (save_into (\<lambda>r. (isg_cluster_instance_id r, isg_cluster_security_group_id r)) (\<lambda>old r. points_to isg_cluster_instance_id ins_id (db_instance db) old r \<and>
        points_to isg_cluster_security_group_id sg_id (db_security_group db) old r) new (db_instance_security_group db))"

text \<open>The rows of a list, saved one after the other in an open transaction; the first error ends it.\<close>

fun save_all :: "('r \<Rightarrow> nat) \<Rightarrow> (nat \<Rightarrow> 'r \<Rightarrow> database \<Rightarrow> string + database) \<Rightarrow> 'r list \<Rightarrow> err option op" where
  "save_all key stmt [] = State_Monad.return None"
| "save_all key stmt (r # rs) = do {
     i \<leftarrow> fresh_id (key r);
     e \<leftarrow> exec (stmt i r);
     case e of Some x \<Rightarrow> State_Monad.return (Some x) | None \<Rightarrow> save_all key stmt rs
   }"

text \<open>
  \<open>database.Transaction\<close> (of \<open>cdm-cloud/common/database\<close>) reports what goes wrong: an error of the
  function rolls back and is returned, and so is an error of the commit. Repeating a
  transaction after a serialisation failure is not modelled.
\<close>

definition transaction :: "err option op \<Rightarrow> err option op" where
  "transaction m = do {
     b \<leftarrow> pop_fault;
     case b of Some e \<Rightarrow> State_Monad.return (Some (UnusableDatabase e))
     | None \<Rightarrow> do {
         w0 \<leftarrow> State_Monad.get;
         modify (\<lambda>w. w\<lparr>w_tx := Open\<rparr>);
         x \<leftarrow> m;
         case x of
           Some e \<Rightarrow> do { modify (\<lambda>w. w\<lparr>w_tx := NoTx, w_db := w_db w0\<rparr>); State_Monad.return (Some (unwrap e)) }
         | None \<Rightarrow> do {
             c \<leftarrow> pop_fault;
             w \<leftarrow> State_Monad.get;
             let failed = (case c of Some e \<Rightarrow> Some e
               | None \<Rightarrow> if w_tx w = Aborted then Some ''current transaction is aborted'' else None);
             modify (\<lambda>w. w\<lparr>w_tx := NoTx, w_db := (if failed = None then w_db w else w_db w0)\<rparr>);
             State_Monad.return (map_option UnusableDatabase failed)
           }
       }
   }"

text \<open>The same of a function that also assigns a result to a variable of its caller.\<close>

definition transaction_with :: "(err + 'a) op \<Rightarrow> (err + 'a) op" where
  "transaction_with m = do {
     b \<leftarrow> pop_fault;
     case b of Some e \<Rightarrow> State_Monad.return (Inl (UnusableDatabase e))
     | None \<Rightarrow> do {
         w0 \<leftarrow> State_Monad.get;
         modify (\<lambda>w. w\<lparr>w_tx := Open\<rparr>);
         r \<leftarrow> m;
         case r of
           Inl e \<Rightarrow> do { modify (\<lambda>w. w\<lparr>w_tx := NoTx, w_db := w_db w0\<rparr>); State_Monad.return (Inl (unwrap e)) }
         | Inr x \<Rightarrow> do {
             c \<leftarrow> pop_fault;
             w \<leftarrow> State_Monad.get;
             let failed = (case c of Some e \<Rightarrow> Some e
               | None \<Rightarrow> if w_tx w = Aborted then Some ''current transaction is aborted'' else None);
             modify (\<lambda>w. w\<lparr>w_tx := NoTx, w_db := (if failed = None then w_db w else w_db w0)\<rparr>);
             State_Monad.return (case failed of None \<Rightarrow> Inr x | Some e \<Rightarrow> Inl (UnusableDatabase e))
           }
       }
   }"

end
