(* ===== verification/Documents.thy ===== *)
theory Documents
  imports World
begin

text \<open>
  Documents in the key-value store: how \<open>encoding/json\<close> maps the fields of a struct, the two
  code paths every package repeats around \<open>store.Get\<close> and \<open>store.Put\<close>, and the interface of
  a family of documents, whose laws are proved once for all packages that provide one.
\<close>

section \<open>Fields of a document\<close>

text \<open>
  A missing field and \<open>null\<close> leave the zero value; a value of another kind is an error. The
  order of the members of an object is immaterial; \<open>omitempty\<close> leaves out zero values.
\<close>

definition jfield :: "string \<Rightarrow> (string \<times> json) list \<Rightarrow> json" where
  "jfield k fs = (case map_of (rev fs) k of None \<Rightarrow> JNull | Some j \<Rightarrow> j)"

fun as_obj :: "json \<Rightarrow> (string \<times> json) list option" where
  "as_obj JNull = Some []" | "as_obj (JObj fs) = Some fs" | "as_obj _ = None"

fun as_str :: "json \<Rightarrow> string option" where
  "as_str JNull = Some []" | "as_str (JStr s) = Some s" | "as_str _ = None"

fun as_bool :: "json \<Rightarrow> bool option" where
  "as_bool JNull = Some False" | "as_bool (JBool b) = Some b" | "as_bool _ = None"

fun as_int :: "json \<Rightarrow> int option" where
  "as_int JNull = Some 0" | "as_int (JInt i) = Some i" | "as_int _ = None"

fun as_nat :: "json \<Rightarrow> nat option" where
  "as_nat JNull = Some 0"
| "as_nat (JInt i) = (if i < 0 then None else Some (nat i))"
| "as_nat _ = None"

fun as_time :: "json \<Rightarrow> int option" where
  "as_time JNull = Some 0" | "as_time (JTime t) = Some t" | "as_time _ = None"

fun as_arr :: "json \<Rightarrow> json list option" where
  "as_arr JNull = Some []" | "as_arr (JArr xs) = Some xs" | "as_arr _ = None"

fun decode_all :: "('j \<Rightarrow> 'a option) \<Rightarrow> 'j list \<Rightarrow> 'a list option" where
  "decode_all f [] = Some []"
| "decode_all f (x # xs) =
     Option.bind (f x) (\<lambda>y. Option.bind (decode_all f xs) (\<lambda>ys. Some (y # ys)))"

definition unless :: "bool \<Rightarrow> string \<Rightarrow> json \<Rightarrow> (string \<times> json) list" where
  "unless absent k j = (if absent then [] else [(k, j)])"

definition put_str :: "string \<Rightarrow> string \<Rightarrow> (string \<times> json) list" where
  "put_str k s = unless (s = []) k (JStr s)"

definition put_nat :: "string \<Rightarrow> nat \<Rightarrow> (string \<times> json) list" where
  "put_nat k n = unless (n = 0) k (JInt (int n))"

definition put_int :: "string \<Rightarrow> int \<Rightarrow> (string \<times> json) list" where
  "put_int k n = unless (n = 0) k (JInt n)"

lemma decode_all_map: "(\<And>x. f (g x) = Some x) \<Longrightarrow> decode_all f (map g xs) = Some xs"
  by (induction xs) auto

lemmas put_defs = put_str_def put_nat_def put_int_def unless_def jfield_def

section \<open>Reading and writing a document\<close>

text \<open>
  \<open>store.Get\<close>, the package's not-found error for \<open>ErrNotFoundKey\<close>, \<open>UnusableStore\<close> for any other
  error, and \<open>Unknown\<close> when the text cannot be decoded.
\<close>

definition load :: "string \<Rightarrow> (json \<Rightarrow> 'v option) \<Rightarrow> err \<Rightarrow> (err + 'v) op" where
  "load k dec missing = do {
     r \<leftarrow> store_get k;
     State_Monad.return (case r of
         Inl NotFoundKey \<Rightarrow> Inl missing
       | Inl e \<Rightarrow> Inl (UnusableStore (err_text e))
       | Inr (Garbage t) \<Rightarrow> Inl (Unknown t)
       | Inr (Doc j) \<Rightarrow> (case dec j of None \<Rightarrow> Inl (Unknown ''cannot unmarshal'') | Some v \<Rightarrow> Inr v))
   }"

definition unusable_store :: "err option \<Rightarrow> err option" where
  "unusable_store e = map_option (\<lambda>x. UnusableStore (err_text x)) e"

definition save :: "string \<Rightarrow> json \<Rightarrow> err option op" where
  "save k j = do { e \<leftarrow> store_put k (Doc j); State_Monad.return (unusable_store e) }"

definition erase :: "string \<Rightarrow> err option op" where
  "erase k = do { e \<leftarrow> store_delete k; State_Monad.return (unusable_store e) }"

definition erase_prefix :: "string \<Rightarrow> err option op" where
  "erase_prefix k = do { e \<leftarrow> store_delete_prefix k; State_Monad.return (unusable_store e) }"

lemma load_quiet [quiet_run]:
  "quiet w \<Longrightarrow> run_state (load k dec missing) w =
     (case w_kv w k of None \<Rightarrow> Inl missing
      | Some (Garbage t) \<Rightarrow> Inl (Unknown t)
      | Some (Doc j) \<Rightarrow> (case dec j of None \<Rightarrow> Inl (Unknown ''cannot unmarshal'') | Some v \<Rightarrow> Inr v), w)"
  by (simp add: load_def quiet_run split: option.split document.split)

lemma save_quiet [quiet_run]:
  "quiet w \<Longrightarrow> run_state (save k j) w = (None, w\<lparr>w_kv := (w_kv w)(k := Some (Doc j))\<rparr>)"
  by (simp add: save_def store_put_def quiet_run unusable_store_def)

lemma erase_quiet [quiet_run]:
  "quiet w \<Longrightarrow> run_state (erase k) w = (None, w\<lparr>w_kv := (w_kv w)(k := None)\<rparr>)"
  by (simp add: erase_def store_delete_def quiet_run unusable_store_def)

lemma erase_prefix_quiet [quiet_run]:
  "quiet w \<Longrightarrow> run_state (erase_prefix p) w =
     (None, w\<lparr>w_kv := (\<lambda>k. if has_prefix p k then None else w_kv w k)\<rparr>)"
  by (simp add: erase_prefix_def store_delete_prefix_def quiet_run unusable_store_def)

lemma save_fail:
  "w_faults w = Some m # fs \<Longrightarrow> run_state (save k j) w = (Some (UnusableStore m), w\<lparr>w_faults := fs\<rparr>)"
  by (simp add: save_def store_put_def unusable_store_def)

section \<open>Families of documents\<close>

text \<open>
  A family: where the document of an item is, how its value is written and read, and the
  package's \<open>get\<close> and \<open>put\<close>.
\<close>

locale document_store =
  fixes key :: "'i \<Rightarrow> string"
    and ident :: "'a \<Rightarrow> 'i"
    and content :: "'a \<Rightarrow> 'v"
    and enc :: "'v \<Rightarrow> json"
    and dec :: "json \<Rightarrow> 'v option"
    and missing :: "'i \<Rightarrow> err"
    and get :: "'i \<Rightarrow> (err + 'v) op"
    and put :: "'a \<Rightarrow> err option op"
  assumes key_inject: "key i = key j \<Longrightarrow> i = j"
    and round_trip: "dec (enc v) = Some v"
    and get_loads: "get i = load (key i) dec (missing i)"
    and put_saves: "put a = save (key (ident a)) (enc (content a))"
begin

lemma get_after_put:
  assumes "quiet w" and "run_state (put a) w = (e, w')"
  shows "e = None \<and> run_state (get (ident a)) w' = (Inr (content a), w')"
  using assms by (auto simp: put_saves get_loads quiet_run round_trip)

lemma get_other_after_put:
  assumes "quiet w" and "run_state (put a) w = (e, w')" and "i \<noteq> ident a"
  shows "fst (run_state (get i) w') = fst (run_state (get i) w)"
proof -
  have "key i \<noteq> key (ident a)" using key_inject assms(3) by blast
  then show ?thesis
    using assms by (auto simp: put_saves get_loads quiet_run split: option.split document.split)
qed

lemma put_fails:
  assumes "w_faults w = Some m # fs"
  shows "run_state (put a) w = (Some (UnusableStore m), w\<lparr>w_faults := fs\<rparr>)"
  using assms by (simp add: put_saves save_fail)

lemma get_missing_iff:
  assumes "quiet w" and "w_kv w (key i) = None"
  shows "run_state (get i) w = (Inl (missing i), w)"
  using assms by (simp add: get_loads quiet_run)

end

text \<open>Families whose documents are deleted by their exact key, and by their key as a prefix.\<close>

locale exact_document_store = document_store +
  fixes remove :: "'a \<Rightarrow> err option op"
  assumes remove_erases: "remove i = erase (key i)"
begin

lemma get_after_remove:
  assumes "quiet w" and "run_state (remove i) w = (e, w')"
  shows "e = None \<and> run_state (get i) w' = (Inl (missing i), w')"
  using assms by (auto simp: remove_erases get_loads quiet_run)

lemma get_other_after_remove:
  assumes "quiet w" and "run_state (remove i) w = (e, w')" and "j \<noteq> i"
  shows "fst (run_state (get j) w') = fst (run_state (get j) w)"
proof -
  have "key j \<noteq> key i" using key_inject assms(3) by blast
  then show ?thesis
    using assms by (auto simp: remove_erases get_loads quiet_run split: option.split document.split)
qed

end

locale prefix_document_store = document_store +
  fixes remove :: "'a \<Rightarrow> err option op"
  assumes remove_erases: "remove i = erase_prefix (key i)"
begin

lemma get_after_remove:
  assumes "quiet w" and "run_state (remove i) w = (e, w')"
  shows "e = None \<and> run_state (get i) w' = (Inl (missing i), w')"
  using assms by (auto simp: remove_erases get_loads quiet_run)

lemma removed_iff_prefix:
  assumes "quiet w" and "run_state (remove i) w = (e, w')" and "w_kv w (key j) \<noteq> None"
  shows "w_kv w' (key j) = None \<longleftrightarrow> has_prefix (key i) (key j)"
  using assms by (auto simp: remove_erases quiet_run split: if_splits)

end

end
