(* ===== verification/ClusterStatus.thy ===== *)
theory ClusterStatus
  imports Documents
begin

text \<open>
  What the service keeps about a cluster in the store: the status of its synchronisation, its
  configuration and the agent of its block storage (\<open>internal/cluster/cluster_util.go\<close>,
  \<open>config/config.go\<close>), and the decision whether a synchronisation may start.
\<close>

section \<open>Codes\<close>

definition cluster_sync_state_code_init :: string where
  "cluster_sync_state_code_init = ''cluster.sync.state.init''"

definition cluster_sync_state_code_running :: string where
  "cluster_sync_state_code_running = ''cluster.sync.state.running''"

definition cluster_sync_state_code_done :: string where
  "cluster_sync_state_code_done = ''cluster.sync.state.done''"

definition cluster_sync_state_code_failed :: string where
  "cluster_sync_state_code_failed = ''cluster.sync.state.failed''"

definition cluster_sync_state_code_unknown :: string where
  "cluster_sync_state_code_unknown = ''cluster.sync.state.unknown''"

lemmas sync_state_codes = cluster_sync_state_code_init_def cluster_sync_state_code_running_def
  cluster_sync_state_code_done_def cluster_sync_state_code_failed_def
  cluster_sync_state_code_unknown_def

section \<open>Status of a synchronisation\<close>

text \<open>Instants are nanoseconds after Go's zero time, durations are nanoseconds.\<close>

record sync_message =
  sm_code :: string
  sm_contents :: string

record sync_status =
  ss_status_code :: string
  ss_reasons :: "sync_message list"
  ss_started_at :: int

definition make_failed_message :: "string \<Rightarrow> sync_message" where
  "make_failed_message resource =
     \<lparr>sm_code = ''cluster-manager.'' @ resource @ ''.failed'', sm_contents = ''contents not defined''\<rparr>"

definition encode_message :: "sync_message \<Rightarrow> json" where
  "encode_message m = JObj [(''code'', JStr (sm_code m)), (''contents'', JStr (sm_contents m))]"

definition decode_message :: "json \<Rightarrow> sync_message option" where
  "decode_message j = do {
     fs \<leftarrow> as_obj j;
     c \<leftarrow> as_str (jfield ''code'' fs);
     t \<leftarrow> as_str (jfield ''contents'' fs);
     Some \<lparr>sm_code = c, sm_contents = t\<rparr>
   }"

definition encode_status :: "sync_status \<Rightarrow> json" where
  "encode_status s = JObj (put_str ''status_code'' (ss_status_code s) @
     unless (ss_reasons s = []) ''reasons'' (JArr (map encode_message (ss_reasons s))) @
     [(''created_at'', JTime (ss_started_at s))])"

definition decode_status :: "json \<Rightarrow> sync_status option" where
  "decode_status j = do {
     fs \<leftarrow> as_obj j;
     c \<leftarrow> as_str (jfield ''status_code'' fs);
     rs \<leftarrow> as_arr (jfield ''reasons'' fs);
     ms \<leftarrow> decode_all decode_message rs;
     t \<leftarrow> as_time (jfield ''created_at'' fs);
     Some \<lparr>ss_status_code = c, ss_reasons = ms, ss_started_at = t\<rparr>
   }"

lemma decode_encode_message: "decode_message (encode_message m) = Some m"
  by (simp add: decode_message_def encode_message_def jfield_def)

lemma decode_encode_status: "decode_status (encode_status s) = Some s"
  by (cases "ss_status_code s = []"; cases "ss_reasons s = []")
     (simp_all add: decode_status_def encode_status_def put_defs decode_all_map decode_encode_message)

section \<open>Keys\<close>

definition cluster_base_key :: "nat \<Rightarrow> string" where
  "cluster_base_key cid = ''clusters/'' @ itoa cid"

definition cluster_prefix_key :: "nat \<Rightarrow> string" where
  "cluster_prefix_key cid = ''clusters/'' @ itoa cid @ ''/''"

definition cluster_sync_status_key :: "nat \<Rightarrow> string" where
  "cluster_sync_status_key cid = ''clusters/'' @ itoa cid @ ''/sync/status''"

definition cluster_agent_key :: "nat \<Rightarrow> string" where
  "cluster_agent_key cid = ''clusters/'' @ itoa cid @ ''/agents/cinder''"

definition cluster_config_key :: "nat \<Rightarrow> string" where
  "cluster_config_key cid = ''clusters/'' @ itoa cid @ ''/config''"

lemma not_digit_slash [simp]: "\<not> is_digit (CHR ''/'')"
  by (simp add: is_digit_def)

lemma cluster_key_inject:
  assumes "''clusters/'' @ itoa c @ CHR ''/'' # xs = ''clusters/'' @ itoa d @ CHR ''/'' # ys"
  shows "c = d \<and> xs = ys"
  using assms itoa_append_sep [of "CHR ''/''" c xs d ys] by simp

text \<open>The keys of two clusters never share a prefix that ends in the slash.\<close>

lemma cluster_prefix_other:
  assumes "has_prefix (cluster_prefix_key c) (cluster_prefix_key d @ q)"
  shows "c = d"
proof -
  obtain r where "cluster_prefix_key d @ q = cluster_prefix_key c @ r"
    using assms by (auto simp: has_prefix_iff)
  then have "itoa d @ CHR ''/'' # q = itoa c @ CHR ''/'' # r"
    by (simp add: cluster_prefix_key_def)
  then show ?thesis using itoa_append_sep [of "CHR ''/''" d q c r] by simp
qed

section \<open>Operations\<close>

definition set_status :: "nat \<Rightarrow> sync_status \<Rightarrow> err option op" where
  "set_status cid s = save (cluster_sync_status_key cid) (encode_status s)"

definition get_status :: "nat \<Rightarrow> (err + sync_status) op" where
  "get_status cid = load (cluster_sync_status_key cid) decode_status (NotFoundClusterSyncStatus cid)"

definition delete_status :: "nat \<Rightarrow> err option op" where
  "delete_status cid = erase_prefix (cluster_sync_status_key cid)"

interpretation status_store: prefix_document_store cluster_sync_status_key fst snd encode_status
  decode_status NotFoundClusterSyncStatus get_status "\<lambda>a. set_status (fst a) (snd a)" delete_status
proof
  show "i = j" if "cluster_sync_status_key i = cluster_sync_status_key j" for i j
    using cluster_key_inject [of i "''sync/status''" j "''sync/status''"] that
    by (simp add: cluster_sync_status_key_def)
qed (simp_all add: decode_encode_status get_status_def set_status_def delete_status_def)

text \<open>\<open>IsAbleToSync\<close>\<close>

definition minute :: int where
  "minute = 60 * 10 ^ 9"

text \<open>\<open>!time.Time.IsZero(status.StartedAt) && time.Since(status.StartedAt) >= limit\<close>\<close>

definition started_before :: "sync_status \<Rightarrow> int \<Rightarrow> bool op" where
  "started_before s limit =
     (if ss_started_at s = 0 then State_Monad.return False
      else do { t \<leftarrow> now; State_Monad.return (t - ss_started_at s \<ge> limit) })"

definition unknown_status :: sync_status where
  "unknown_status = \<lparr>ss_status_code = cluster_sync_state_code_unknown, ss_reasons = [], ss_started_at = 0\<rparr>"

text \<open>The case of \<open>Init\<close> falls through to the case of \<open>Running\<close>, and both fall through to the default.\<close>

definition able_when_running :: "sync_status \<Rightarrow> (bool \<times> sync_status) op" where
  "able_when_running s = do {
     late \<leftarrow> started_before s (5 * minute);
     State_Monad.return (\<not> late, s)
   }"

definition is_able_to_sync :: "nat \<Rightarrow> (bool \<times> sync_status) op" where
  "is_able_to_sync cid = do {
     r \<leftarrow> get_status cid;
     case r of
       Inl (NotFoundClusterSyncStatus _) \<Rightarrow> State_Monad.return (True, unknown_status)
     | Inl _ \<Rightarrow> State_Monad.return (False, unknown_status)
     | Inr s \<Rightarrow>
         (if ss_status_code s = cluster_sync_state_code_init then do {
            late \<leftarrow> started_before s minute;
            if late then State_Monad.return (False, s) else able_when_running s
          }
          else if ss_status_code s = cluster_sync_state_code_running then able_when_running s
          else State_Monad.return (True, s))
   }"

text \<open>\<open>SetAgent\<close>, \<open>GetAgent\<close>: a missing agent is reported as a missing synchronisation status.\<close>

record agent =
  ag_ip :: string
  ag_port :: nat
  ag_version :: string
  ag_installed_at :: int
  ag_last_upgraded_at :: int

definition encode_agent :: "agent \<Rightarrow> json" where
  "encode_agent a = JObj (put_str ''ip'' (ag_ip a) @ put_nat ''port'' (ag_port a) @
     put_str ''version'' (ag_version a) @ put_int ''installed_at'' (ag_installed_at a) @
     put_int ''last_upgraded_at'' (ag_last_upgraded_at a))"

definition decode_agent :: "json \<Rightarrow> agent option" where
  "decode_agent j = do {
     fs \<leftarrow> as_obj j;
     ip \<leftarrow> as_str (jfield ''ip'' fs);
     port \<leftarrow> as_nat (jfield ''port'' fs);
     v \<leftarrow> as_str (jfield ''version'' fs);
     i \<leftarrow> as_int (jfield ''installed_at'' fs);
     l \<leftarrow> as_int (jfield ''last_upgraded_at'' fs);
     Some \<lparr>ag_ip = ip, ag_port = port, ag_version = v, ag_installed_at = i, ag_last_upgraded_at = l\<rparr>
   }"

lemma decode_encode_agent: "decode_agent (encode_agent a) = Some a"
  by (simp add: decode_agent_def encode_agent_def put_defs)

definition set_agent :: "nat \<Rightarrow> agent \<Rightarrow> err option op" where
  "set_agent cid a = save (cluster_agent_key cid) (encode_agent a)"

definition get_agent :: "nat \<Rightarrow> (err + agent) op" where
  "get_agent cid = load (cluster_agent_key cid) decode_agent (NotFoundClusterSyncStatus cid)"

interpretation agent_store: document_store cluster_agent_key fst snd encode_agent
  decode_agent NotFoundClusterSyncStatus get_agent "\<lambda>a. set_agent (fst a) (snd a)"
proof
  show "i = j" if "cluster_agent_key i = cluster_agent_key j" for i j
    using cluster_key_inject [of i "''agents/cinder''" j "''agents/cinder''"] that
    by (simp add: cluster_agent_key_def)
qed (simp_all add: decode_encode_agent get_agent_def set_agent_def)

section \<open>Configuration\<close>

record config =
  cf_cluster_id :: nat
  cf_timestamp_interval :: int
  cf_reserved_sync_interval :: int

definition encode_config :: "config \<Rightarrow> json" where
  "encode_config c = JObj (put_nat ''cluster_id'' (cf_cluster_id c) @
     put_int ''timestamp_interval'' (cf_timestamp_interval c) @
     put_int ''reserved_sync_interval'' (cf_reserved_sync_interval c))"

definition decode_config :: "json \<Rightarrow> config option" where
  "decode_config j = do {
     fs \<leftarrow> as_obj j;
     c \<leftarrow> as_nat (jfield ''cluster_id'' fs);
     t \<leftarrow> as_int (jfield ''timestamp_interval'' fs);
     r \<leftarrow> as_int (jfield ''reserved_sync_interval'' fs);
     Some \<lparr>cf_cluster_id = c, cf_timestamp_interval = t, cf_reserved_sync_interval = r\<rparr>
   }"

lemma decode_encode_config: "decode_config (encode_config c) = Some c"
  by (simp add: decode_config_def encode_config_def put_defs)

definition get_config :: "nat \<Rightarrow> (err + config) op" where
  "get_config cid = load (cluster_config_key cid) decode_config (NotFoundConfig cid)"

definition put_config :: "config \<Rightarrow> err option op" where
  "put_config c = save (cluster_config_key (cf_cluster_id c)) (encode_config c)"

definition delete_config :: "nat \<Rightarrow> err option op" where
  "delete_config cid = erase (cluster_config_key cid)"

interpretation config_store: exact_document_store cluster_config_key cf_cluster_id "\<lambda>c. c"
  encode_config decode_config NotFoundConfig get_config put_config delete_config
proof
  show "i = j" if "cluster_config_key i = cluster_config_key j" for i j
    using cluster_key_inject [of i "''config''" j "''config''"] that
    by (simp add: cluster_config_key_def)
qed (simp_all add: decode_encode_config get_config_def put_config_def delete_config_def)

section \<open>Deleting a cluster\<close>

definition delete_clusters :: "nat \<Rightarrow> err option op" where
  "delete_clusters cid = do {
     e \<leftarrow> erase_prefix (cluster_prefix_key cid);
     case e of Some x \<Rightarrow> State_Monad.return (Some x) | None \<Rightarrow> erase (cluster_base_key cid)
   }"

text \<open>The keys that belong to a cluster.\<close>

definition cluster_owns_key :: "nat \<Rightarrow> string \<Rightarrow> bool" where
  "cluster_owns_key cid k = (k = cluster_base_key cid \<or> has_prefix (cluster_prefix_key cid) k)"

lemma cluster_base_not_prefixed: "\<not> has_prefix (cluster_prefix_key c) (cluster_base_key d)"
proof
  assume "has_prefix (cluster_prefix_key c) (cluster_base_key d)"
  then obtain q where "itoa d = itoa c @ CHR ''/'' # q"
    by (auto simp: has_prefix_iff cluster_prefix_key_def cluster_base_key_def)
  then show False
    using itoa_no_char [OF not_digit_slash, of d] by auto
qed

lemma cluster_owns_key_unique:
  assumes "cluster_owns_key c k" and "cluster_owns_key d k"
  shows "c = d"
proof -
  have base: "c = d" if "cluster_base_key c = cluster_base_key d" for c d
    using that by (simp add: cluster_base_key_def)
  have pre: "c = d"
    if c: "has_prefix (cluster_prefix_key c) k" and d: "has_prefix (cluster_prefix_key d) k"
  proof -
    obtain q where "k = cluster_prefix_key d @ q" using d by (auto simp: has_prefix_iff)
    then show ?thesis using cluster_prefix_other c by blast
  qed
  show ?thesis
    using assms base pre cluster_base_not_prefixed
    by (auto simp: cluster_owns_key_def)
qed

lemma run_store_update:
  "run_state (store_update g) w =
     (case run_state pop_fault w of
        (Some m, w1) \<Rightarrow> (Some (DriverError m), w1)
      | (None, w1) \<Rightarrow> (None, w1\<lparr>w_kv := g (w_kv w1)\<rparr>))"
  by (simp add: store_update_def split: prod.split option.split)

lemma pop_fault_kv [simp]: "w_kv (snd (run_state pop_fault w)) = w_kv w"
  by (simp add: pop_fault_def split: list.split)

lemma run_pop_fault_kv: "run_state pop_fault w = (f, w1) \<Longrightarrow> w_kv w1 = w_kv w"
  using pop_fault_kv [of w] by simp

section \<open>When a synchronisation may start\<close>

text \<open>C39. A stored status allows a synchronisation exactly when it is neither initialising nor
  running, or has no start, or started less than five minutes ago (less than one when it is
  still initialising): a synchronisation that just started does not block another one, and one
  that started longer ago blocks every other until its status is replaced. The comments beside the two
  tests (\<open>cluster_util.go\<close>, lines 151 and 161) say the opposite, that none is possible before the time is
  over and one is possible after it.\<close>

theorem is_able_to_sync_iff:
  assumes "quiet w"
    and "w_kv w (cluster_sync_status_key cid) = Some (Doc (encode_status s))"
  shows "fst (fst (run_state (is_able_to_sync cid) w)) \<longleftrightarrow>
     ss_started_at s = 0 \<or>
     (ss_status_code s \<noteq> cluster_sync_state_code_init \<and>
        ss_status_code s \<noteq> cluster_sync_state_code_running) \<or>
     (ss_status_code s = cluster_sync_state_code_running \<and>
        w_clock w (w_ticks w) - ss_started_at s < 5 * minute) \<or>
     (ss_status_code s = cluster_sync_state_code_init \<and>
        w_clock w (w_ticks w) - ss_started_at s < minute \<and>
        w_clock w (Suc (w_ticks w)) - ss_started_at s < 5 * minute)"
proof -
  have codes: "cluster_sync_state_code_init \<noteq> cluster_sync_state_code_running"
    by (simp add: sync_state_codes)
  have "run_state (get_status cid) w = (Inr s, w)"
    using assms by (simp add: get_status_def quiet_run decode_encode_status)
  then show ?thesis
    using codes
    by (auto simp: is_able_to_sync_def able_when_running_def started_before_def not_le)
qed

definition example_world :: world where
  "example_world = \<lparr>w_db = empty_db, w_tx = NoTx, w_kv = (\<lambda>_. None), w_faults = [], w_events = [],
     w_clock = (\<lambda>_. 10 ^ 12), w_ticks = 0, w_seq = 0\<rparr>"

definition example_running :: sync_status where
  "example_running = \<lparr>ss_status_code = cluster_sync_state_code_running, ss_reasons = [],
     ss_started_at = 10 ^ 12 - minute\<rparr>"

theorem is_able_to_sync_iff_witness:
  "fst (fst (run_state (is_able_to_sync 1) (example_world\<lparr>w_kv :=
      (\<lambda>_. None)(cluster_sync_status_key 1 := Some (Doc (encode_status example_running)))\<rparr>)))"
proof -
  let ?w = "example_world\<lparr>w_kv :=
      (\<lambda>_. None)(cluster_sync_status_key 1 := Some (Doc (encode_status example_running)))\<rparr>"
  have q: "quiet ?w" by (simp add: example_world_def quiet_def)
  have k: "w_kv ?w (cluster_sync_status_key 1) = Some (Doc (encode_status example_running))" by simp
  show ?thesis
    unfolding is_able_to_sync_iff [OF q k]
    by (simp add: example_running_def example_world_def minute_def)
qed

text \<open>A status that was stored is the status that is read back, and the status of another
  cluster is not affected.\<close>

theorem set_status_get_status:
  assumes "quiet w" and "run_state (set_status cid s) w = (e, w')"
  shows "e = None \<and> run_state (get_status cid) w' = (Inr s, w') \<and>
    (d \<noteq> cid \<longrightarrow> fst (run_state (get_status d) w') = fst (run_state (get_status d) w))"
  using status_store.get_after_put [of w "(cid, s)" e w']
    status_store.get_other_after_put [of w "(cid, s)" e w' d] assms
  by simp

theorem set_status_get_status_witness:
  "fst (run_state (get_status 1) (snd (run_state (set_status 1 example_running) example_world)))
     = Inr example_running"
proof -
  have q: "quiet example_world" by (simp add: example_world_def quiet_def)
  show ?thesis
    using set_status_get_status [OF q, of 1 example_running
        "fst (run_state (set_status 1 example_running) example_world)"
        "snd (run_state (set_status 1 example_running) example_world)" 2]
    by simp
qed

section \<open>Deleting the keys of a cluster\<close>

text \<open>C30. Deleting a cluster's keys: whatever fails, the keys of every other cluster keep their
  documents, and when no error is returned every key of the cluster is gone.\<close>

theorem delete_clusters_exact:
  "(\<forall>k. \<not> cluster_owns_key cid k \<longrightarrow> w_kv (snd (run_state (delete_clusters cid) w)) k = w_kv w k) \<and>
   (fst (run_state (delete_clusters cid) w) = None \<longrightarrow>
      (\<forall>k. cluster_owns_key cid k \<longrightarrow> w_kv (snd (run_state (delete_clusters cid) w)) k = None))"
  by (auto simp: delete_clusters_def erase_prefix_def erase_def store_delete_def
      store_delete_prefix_def unusable_store_def run_store_update cluster_owns_key_def
      split: prod.splits option.splits dest!: run_pop_fault_kv)

theorem delete_clusters_exact_witness:
  "w_kv (snd (run_state (delete_clusters 1) (example_world\<lparr>w_kv := [cluster_base_key 1 \<mapsto> Doc JNull,
      cluster_base_key 10 \<mapsto> Doc JNull]\<rparr>))) (cluster_base_key 10) = Some (Doc JNull)"
proof -
  have "cluster_owns_key 10 (cluster_base_key 10)" by (simp add: cluster_owns_key_def)
  then have "\<not> cluster_owns_key 1 (cluster_base_key 10)"
    using cluster_owns_key_unique [of 1 "cluster_base_key 10" 10] by auto
  then show ?thesis
    using delete_clusters_exact [of 1 "example_world\<lparr>w_kv := [cluster_base_key 1 \<mapsto> Doc JNull,
      cluster_base_key 10 \<mapsto> Doc JNull]\<rparr>"] by simp
qed

end
