(* ===== verification/Client.thy ===== *)
theory Client
  imports ClusterStatus
begin

text \<open>
  The client of a cluster as the synchroniser sees it (\<open>client/client.go\<close>,
  \<open>client/resource.go\<close>): the results of its queries as records, and the queries themselves as
  fields of the synchroniser. Which cluster answers, and how, is a parameter of the model.
\<close>

section \<open>Results\<close>

record get_tenant_result =
  gtr_tenant :: cluster_tenant
  gtr_quota_list :: "cluster_quota list"

record get_hypervisor_result =
  ghr_hypervisor :: cluster_hypervisor
  ghr_availability_zone :: cluster_availability_zone

record get_storage_result =
  gsr_storage :: cluster_storage
  gsr_volume_backend_name :: string
  gsr_metadata :: "(string \<times> json) list"

record get_volume_result =
  gvr_volume :: cluster_volume
  gvr_tenant :: cluster_tenant
  gvr_storage :: cluster_storage
  gvr_metadata :: "(string \<times> json) list"

record get_volume_snapshot_result =
  gvs_volume_snapshot :: cluster_volume_snapshot
  gvs_volume :: cluster_volume

record get_network_result =
  gnr_network :: cluster_network
  gnr_tenant :: cluster_tenant
  gnr_subnet_list :: "cluster_subnet list"
  gnr_floating_ip_list :: "cluster_floating_ip list"

record get_subnet_result =
  gsn_subnet :: cluster_subnet
  gsn_network :: cluster_network
  gsn_nameserver_list :: "cluster_subnet_nameserver list"
  gsn_pool_list :: "cluster_subnet_dhcp_pool list"

record get_floating_ip_result =
  gfr_tenant :: cluster_tenant
  gfr_floating_ip :: cluster_floating_ip
  gfr_network :: cluster_network

record routing_interface_result =
  rir_subnet :: cluster_subnet
  rir_routing_interface :: cluster_network_routing_interface

record get_router_result =
  grr_router :: cluster_router
  grr_tenant :: cluster_tenant
  grr_extra_route :: "cluster_router_extra_route list"
  grr_external_routing_interface_list :: "routing_interface_result list"
  grr_internal_routing_interface_list :: "routing_interface_result list"

record get_security_group_result =
  ggr_security_group :: cluster_security_group
  ggr_tenant :: cluster_tenant
  ggr_rule_list :: "cluster_security_group_rule list"

record get_security_group_rule_result =
  gru_security_group_rule :: cluster_security_group_rule
  gru_security_group :: cluster_security_group
  gru_remote_security_group :: "cluster_security_group option"

record get_instance_volume_result =
  giv_instance_volume :: cluster_instance_volume
  giv_volume :: cluster_volume

record get_instance_network_result =
  gin_instance_network :: cluster_instance_network
  gin_network :: cluster_network
  gin_subnet :: cluster_subnet
  gin_floating_ip :: "cluster_floating_ip option"

record get_instance_result =
  gir_instance :: cluster_instance
  gir_tenant :: cluster_tenant
  gir_instance_spec :: cluster_instance_spec
  gir_key_pair :: "cluster_keypair option"
  gir_hypervisor :: cluster_hypervisor
  gir_availability_zone :: cluster_availability_zone
  gir_security_group_list :: "cluster_security_group list"
  gir_instance_volume_list :: "get_instance_volume_result list"
  gir_instance_network_list :: "get_instance_network_result list"

text \<open>The services of the block storage and the compute component (\<open>os-services\<close>).\<close>

record cinder_service =
  cs_binary :: string
  cs_host :: string
  cs_zone :: string
  cs_state :: string
  cs_status :: string
  cs_updated_at :: string

record compute_service =
  co_id :: string
  co_binary :: string
  co_host :: string
  co_zone_name :: string
  co_status :: string
  co_state :: string
  co_updated_at :: string

record agent_service =
  na_uuid :: string
  na_agent_type :: string
  na_binary :: string
  na_host :: string
  na_admin_state_up :: bool
  na_alive :: bool
  na_heartbeat_timestamp :: string

section \<open>The synchroniser\<close>

text \<open>
  A synchroniser works for one cluster. The answers of the cluster's client to a request are
  functions of the request and of the time at which it is made; \<open>Inl\<close> is an error, and then
  the response is nil.
\<close>

record synchronizer =
  sy_cluster_id :: nat
  sy_get_tenant_list :: "nat \<Rightarrow> err + get_tenant_result list"
  sy_get_tenant :: "string \<Rightarrow> nat \<Rightarrow> err + get_tenant_result"
  sy_get_availability_zone_list :: "nat \<Rightarrow> err + cluster_availability_zone list"
  sy_get_hypervisor_list :: "nat \<Rightarrow> err + get_hypervisor_result list"
  sy_get_hypervisor :: "string \<Rightarrow> nat \<Rightarrow> err + get_hypervisor_result"
  sy_get_storage_list :: "nat \<Rightarrow> err + get_storage_result list"
  sy_get_storage :: "string \<Rightarrow> agent \<Rightarrow> nat \<Rightarrow> err + get_storage_result"
  sy_get_volume_list :: "nat \<Rightarrow> err + get_volume_result list"
  sy_get_volume :: "string \<Rightarrow> nat \<Rightarrow> err + get_volume_result"
  sy_get_volume_snapshot_list :: "nat \<Rightarrow> err + get_volume_snapshot_result list"
  sy_get_volume_snapshot :: "string \<Rightarrow> nat \<Rightarrow> err + get_volume_snapshot_result"
  sy_get_network_list :: "nat \<Rightarrow> err + get_network_result list"
  sy_get_network :: "string \<Rightarrow> nat \<Rightarrow> err + get_network_result"
  sy_get_subnet :: "string \<Rightarrow> nat \<Rightarrow> err + get_subnet_result"
  sy_get_floating_ip :: "string \<Rightarrow> nat \<Rightarrow> err + get_floating_ip_result"
  sy_get_router_list :: "nat \<Rightarrow> err + get_router_result list"
  sy_get_router :: "string \<Rightarrow> nat \<Rightarrow> err + get_router_result"
  sy_get_security_group_list :: "nat \<Rightarrow> err + get_security_group_result list"
  sy_get_security_group :: "string \<Rightarrow> nat \<Rightarrow> err + get_security_group_result"
  sy_get_security_group_rule :: "string \<Rightarrow> nat \<Rightarrow> err + get_security_group_rule_result"
  sy_get_key_pair_list :: "nat \<Rightarrow> err + cluster_keypair list"
  sy_get_key_pair :: "string \<Rightarrow> nat \<Rightarrow> err + cluster_keypair"
  sy_get_instance_list :: "nat \<Rightarrow> err + get_instance_result list"
  sy_get_instance :: "string \<Rightarrow> nat \<Rightarrow> err + get_instance_result"
  sy_get_instance_spec ::
    "string \<Rightarrow> nat \<Rightarrow> err + (cluster_instance_spec \<times> cluster_instance_extra_spec list)"
  sy_get_instance_extra_spec :: "string \<Rightarrow> string \<Rightarrow> nat \<Rightarrow> err + cluster_instance_extra_spec"
  sy_list_all_cinder_services :: "nat \<Rightarrow> err + cinder_service list"
  sy_list_all_compute_services :: "nat \<Rightarrow> err + compute_service list"
  sy_list_all_network_agents :: "nat \<Rightarrow> err + agent_service list"

text \<open>The client of a cluster that has nothing.\<close>

definition empty_client :: "nat \<Rightarrow> synchronizer" where
  "empty_client cid = \<lparr>sy_cluster_id = cid,
     sy_get_tenant_list = (\<lambda>_. Inr []), sy_get_tenant = (\<lambda>_ _. Inl ClientNotFound),
     sy_get_availability_zone_list = (\<lambda>_. Inr []),
     sy_get_hypervisor_list = (\<lambda>_. Inr []), sy_get_hypervisor = (\<lambda>_ _. Inl ClientNotFound),
     sy_get_storage_list = (\<lambda>_. Inr []), sy_get_storage = (\<lambda>_ _ _. Inl ClientNotFound),
     sy_get_volume_list = (\<lambda>_. Inr []), sy_get_volume = (\<lambda>_ _. Inl ClientNotFound),
     sy_get_volume_snapshot_list = (\<lambda>_. Inr []), sy_get_volume_snapshot = (\<lambda>_ _. Inl ClientNotFound),
     sy_get_network_list = (\<lambda>_. Inr []), sy_get_network = (\<lambda>_ _. Inl ClientNotFound),
     sy_get_subnet = (\<lambda>_ _. Inl ClientNotFound), sy_get_floating_ip = (\<lambda>_ _. Inl ClientNotFound),
     sy_get_router_list = (\<lambda>_. Inr []), sy_get_router = (\<lambda>_ _. Inl ClientNotFound),
     sy_get_security_group_list = (\<lambda>_. Inr []), sy_get_security_group = (\<lambda>_ _. Inl ClientNotFound),
     sy_get_security_group_rule = (\<lambda>_ _. Inl ClientNotFound),
     sy_get_key_pair_list = (\<lambda>_. Inr []), sy_get_key_pair = (\<lambda>_ _. Inl ClientNotFound),
     sy_get_instance_list = (\<lambda>_. Inr []), sy_get_instance = (\<lambda>_ _. Inl ClientNotFound),
     sy_get_instance_spec = (\<lambda>_ _. Inl ClientNotFound),
     sy_get_instance_extra_spec = (\<lambda>_ _ _. Inl ClientNotFound),
     sy_list_all_cinder_services = (\<lambda>_. Inr []), sy_list_all_compute_services = (\<lambda>_. Inr []),
     sy_list_all_network_agents = (\<lambda>_. Inr [])\<rparr>"

end
