(* ===== verification/InstanceSpec.thy ===== *)
theory InstanceSpec
  imports Tables Client
begin

text \<open>
  Synchronisation of instance specs (\<open>sync/instance_spec.go\<close>), and the combinators with which
  all functions of the synchroniser are written.
\<close>

section \<open>Statements of a function that returns an error\<close>

text \<open>\<open>if err = m; err != nil { return err }\<close>, and the same with a value.\<close>

definition check :: "('s, err option) state \<Rightarrow> ('s, err option) state \<Rightarrow> ('s, err option) state" where
  "check m k = do { e \<leftarrow> m; case e of Some x \<Rightarrow> State_Monad.return (Some x) | None \<Rightarrow> k }"

definition fetch :: "('s, err + 'a) state \<Rightarrow> ('a \<Rightarrow> ('s, err option) state) \<Rightarrow> ('s, err option) state" where
  "fetch m k = do { r \<leftarrow> m; case r of Inl e \<Rightarrow> State_Monad.return (Some e) | Inr x \<Rightarrow> k x }"

text \<open>An error that is only logged.\<close>

definition ignoring :: "('s, 'a) state \<Rightarrow> ('s, 'b) state \<Rightarrow> ('s, 'b) state" where
  "ignoring m k = do { _ \<leftarrow> m; k }"

definition return_nil :: "('s, err option) state" where
  "return_nil = State_Monad.return None"

text \<open>\<open>return errors.UnusableDatabase(err)\<close>\<close>

definition db_err :: "err option op \<Rightarrow> err option op" where
  "db_err m = do { e \<leftarrow> m; State_Monad.return (map_option unusable_database e) }"

definition db_res :: "(err + 'a) op \<Rightarrow> (err + 'a) op" where
  "db_res m = do { r \<leftarrow> m; State_Monad.return (map_sum unusable_database (\<lambda>x. x) r) }"

text \<open>Two queries of one \<open>Execute\<close>.\<close>

definition both :: "(err + 'a) op \<Rightarrow> (err + 'b) op \<Rightarrow> (err + 'a \<times> 'b) op" where
  "both m n = do {
     r \<leftarrow> m;
     case r of Inl e \<Rightarrow> State_Monad.return (Inl e)
     | Inr x \<Rightarrow> do {
         q \<leftarrow> n;
         State_Monad.return (map_sum (\<lambda>e. e) (Pair x) q)
       }
   }"

definition migration_task_type_create_spec :: string where
  "migration_task_type_create_spec = ''dr.migration.task.create.spec''"

section \<open>Extra specs\<close>

definition delete_instance_extra_spec :: "synchronizer \<Rightarrow> cluster_instance_extra_spec \<Rightarrow> err option op" where
  "delete_instance_extra_spec s es =
     check (db_err (gorm_transaction (exec_all [delete_extra_spec_rows (\<lambda>r. cond_nat (es_id es) (es_id r))])))
     (ignoring (publish (Published queue_notice_cluster_instance_extra_spec_deleted (sy_cluster_id s)
        [(''OrigExtraSpec'', RExtraSpec es)]))
      return_nil)"

text \<open>The error of a response; \<open>ErrNotFound\<close> is not one, it leaves the response nil.\<close>

fun client_failed :: "err + 'a \<Rightarrow> err option" where
  "client_failed (Inl ClientNotFound) = None"
| "client_failed (Inl e) = Some e"
| "client_failed (Inr _) = None"

definition save_extra :: "cluster_instance_extra_spec \<Rightarrow> (cluster_instance_extra_spec \<Rightarrow> err option op) \<Rightarrow> err option op" where
  "save_extra es k = saving (es_id es) (\<lambda>i. save_extra_spec (es\<lparr>es_id := i\<rparr>)) (\<lambda>i. k (es\<lparr>es_id := i\<rparr>))"

definition sync_cluster_instance_extra_spec ::
    "synchronizer \<Rightarrow> bool \<Rightarrow> cluster_instance_spec \<Rightarrow> cluster_instance_extra_spec \<Rightarrow> err option op" where
  "sync_cluster_instance_extra_spec s force sp es = do {
     rsp \<leftarrow> ask (sy_get_instance_extra_spec s (sp_uuid sp) (es_key es));
     if client_failed rsp \<noteq> None then State_Monad.return (client_failed rsp)
     else do {
       row \<leftarrow> execute (first_row es_id (\<lambda>db. filter (\<lambda>r. cond_nat (sp_id sp) (es_cluster_instance_spec_id r) \<and>
         cond_str (es_key es) (es_key r) \<and> cond_nat (es_id es) (es_id r)) (db_extra_spec db)));
       case (rsp, row) of
         (Inl _, Inl RecordNotFound) \<Rightarrow> return_nil
       | (Inr new, Inl RecordNotFound) \<Rightarrow>
           save_extra (new\<lparr>es_cluster_instance_spec_id := sp_id sp\<rparr>) (\<lambda>new.
             ignoring (publish (Published queue_notice_cluster_instance_extra_spec_created (sy_cluster_id s)
               [(''ExtraSpec'', RExtraSpec new)])) return_nil)
       | (_, Inl e) \<Rightarrow> State_Monad.return (Some (unusable_database e))
       | (Inl _, Inr old) \<Rightarrow> delete_instance_extra_spec s old
       | (Inr new, Inr old) \<Rightarrow>
           (if force \<or> es_value old \<noteq> es_value new
            then save_extra (new\<lparr>es_id := es_id old, es_cluster_instance_spec_id := sp_id sp\<rparr>) (\<lambda>new.
              ignoring (publish (Published queue_notice_cluster_instance_extra_spec_updated (sy_cluster_id s)
                [(''ExtraSpec'', RExtraSpec new)])) return_nil)
            else return_nil)
     }
   }"

section \<open>Specs\<close>

definition compare_instance_spec :: "cluster_instance_spec \<Rightarrow> cluster_instance_spec \<Rightarrow> bool" where
  "compare_instance_spec d r =
     (sp_uuid d = sp_uuid r \<and> sp_name d = sp_name r \<and> sp_vcpu_total_cnt d = sp_vcpu_total_cnt r \<and>
      sp_mem_total_bytes d = sp_mem_total_bytes r \<and> sp_disk_total_bytes d = sp_disk_total_bytes r \<and>
      sp_swap_total_bytes d = sp_swap_total_bytes r \<and>
      sp_ephemeral_total_bytes d = sp_ephemeral_total_bytes r \<and> sp_description d = sp_description r)"

text \<open>\<open>errFlag\<close> and \<open>err\<close> of the loop over the extra specs: \<open>err\<close> is that of the last one.\<close>

fun delete_extra_specs ::
    "synchronizer \<Rightarrow> cluster_instance_extra_spec list \<Rightarrow> bool \<Rightarrow> err option \<Rightarrow> (bool \<times> err option) op" where
  "delete_extra_specs s [] flag e = State_Monad.return (flag, e)"
| "delete_extra_specs s (x # xs) flag e = do {
     e' \<leftarrow> delete_instance_extra_spec s x;
     delete_extra_specs s xs (flag \<or> e' \<noteq> None) e'
   }"

definition delete_instance_spec :: "synchronizer \<Rightarrow> cluster_instance_spec \<Rightarrow> err option op" where
  "delete_instance_spec s sp =
     fetch (db_res (execute (do {
         r \<leftarrow> find_rows (\<lambda>db. filter (\<lambda>i. cond_nat (sp_id sp) (ins_cluster_instance_spec_id i)) (db_instance db));
         case r of Inl e \<Rightarrow> State_Monad.return (Inl e)
         | Inr is \<Rightarrow>
             (if is \<noteq> [] then State_Monad.return (Inr (length is, []))
              else do {
                q \<leftarrow> find_rows (\<lambda>db. filter (\<lambda>x. cond_nat (sp_id sp) (es_cluster_instance_spec_id x)) (db_extra_spec db));
                State_Monad.return (map_sum (\<lambda>e. e) (Pair 0) q)
              })
       }))) (\<lambda>(count, extras).
       if count > 0 then return_nil
       else ignoring (clear_shared_task (sy_cluster_id s) (sp_id sp) (sp_uuid sp) migration_task_type_create_spec)
         (do {
           (flag, e) \<leftarrow> delete_extra_specs s extras False None;
           if flag then State_Monad.return (Some (case e of None \<Rightarrow> UnusableDatabase ''<nil>''
             | Some x \<Rightarrow> unusable_database x))
           else check (db_err (gorm_transaction (exec_all [delete_instance_spec_rows (\<lambda>r. cond_nat (sp_id sp) (sp_id r))])))
             (ignoring (publish (Published queue_notice_cluster_instance_spec_deleted (sy_cluster_id s)
                [(''OrigSpec'', RSpec sp)]))
              return_nil)
         }))"

definition save_spec :: "cluster_instance_spec \<Rightarrow> (cluster_instance_spec \<Rightarrow> err option op) \<Rightarrow> err option op" where
  "save_spec sp k = saving (sp_id sp) (\<lambda>i. save_instance_spec (sp\<lparr>sp_id := i\<rparr>)) (\<lambda>i. k (sp\<lparr>sp_id := i\<rparr>))"

text \<open>
  The extra specs of a response are synchronised whether or not the spec changed; \<open>err\<close> enters
  the loop with the error of publishing the change and leaves it with the error of the last
  extra spec.
\<close>

fun sync_extra_specs :: "synchronizer \<Rightarrow> bool \<Rightarrow> cluster_instance_spec \<Rightarrow> cluster_instance_extra_spec list \<Rightarrow>
    err option \<Rightarrow> err option op" where
  "sync_extra_specs s force sp [] e = State_Monad.return e"
| "sync_extra_specs s force sp (x # xs) e = do {
     e' \<leftarrow> sync_cluster_instance_extra_spec s force sp x;
     sync_extra_specs s force sp xs e'
   }"

definition sync_cluster_instance_spec :: "synchronizer \<Rightarrow> bool \<Rightarrow> cluster_instance_spec \<Rightarrow> err option op" where
  "sync_cluster_instance_spec s force sp = do {
     rsp \<leftarrow> ask (sy_get_instance_spec s (sp_uuid sp));
     if client_failed rsp \<noteq> None then State_Monad.return (client_failed rsp)
     else do {
       row \<leftarrow> execute (first_row sp_id (\<lambda>db. filter (\<lambda>r. cond_nat (sy_cluster_id s) (sp_cluster_id r) \<and>
         cond_str (sp_uuid sp) (sp_uuid r) \<and> cond_nat (sp_id sp) (sp_id r)) (db_instance_spec db)));
       case (rsp, row) of
         (Inl _, Inl RecordNotFound) \<Rightarrow> return_nil
       | (Inr (new, extras), Inl RecordNotFound) \<Rightarrow>
           save_spec (new\<lparr>sp_cluster_id := sy_cluster_id s\<rparr>) (\<lambda>sp'. do {
             e \<leftarrow> publish (Published queue_notice_cluster_instance_spec_created (sy_cluster_id s)
               [(''Spec'', RSpec sp')]);
             sync_extra_specs s force sp' extras e
           })
       | (_, Inl e) \<Rightarrow> State_Monad.return (Some (unusable_database e))
       | (Inl _, Inr old) \<Rightarrow> delete_instance_spec s old
       | (Inr (new, extras), Inr old) \<Rightarrow>
           (if force \<or> \<not> compare_instance_spec old new
            then save_spec (new\<lparr>sp_id := sp_id old, sp_cluster_id := sy_cluster_id s\<rparr>) (\<lambda>sp'. do {
              e \<leftarrow> publish (Published queue_notice_cluster_instance_spec_updated (sy_cluster_id s)
                [(''Spec'', RSpec sp')]);
              sync_extra_specs s force sp' extras e
            })
            else sync_extra_specs s force old extras None)
     }
   }"

section \<open>Lists of specs\<close>

definition get_instance_spec_list :: "synchronizer \<Rightarrow> (err + cluster_instance_spec list) op" where
  "get_instance_spec_list s =
     execute (find_rows (\<lambda>db. filter (\<lambda>r. cond_nat (sy_cluster_id s) (sp_cluster_id r)) (db_instance_spec db)))"

text \<open>Both list synchronisations drop the errors of the single specs.\<close>

fun sync_cluster_instance_specs :: "synchronizer \<Rightarrow> cluster_instance_spec list \<Rightarrow> err option op" where
  "sync_cluster_instance_specs s [] = return_nil"
| "sync_cluster_instance_specs s (sp # sps) =
     ignoring (sync_cluster_instance_spec s False sp) (sync_cluster_instance_specs s sps)"

definition sync_cluster_instance_spec_list :: "synchronizer \<Rightarrow> err option op" where
  "sync_cluster_instance_spec_list s =
     fetch (get_instance_spec_list s) (\<lambda>sps.
       ignoring (for_last (sync_cluster_instance_spec s False) sps None) return_nil)"

end
