(* ===== verification/ResourceDocuments.thy ===== *)
theory ResourceDocuments
  imports ClusterStatus Access
begin

text \<open>
  The documents of volumes and storages in the store and their metadata
  (\<open>volume/volume.go\<close>, \<open>storage/storage.go\<close>).
\<close>

section \<open>Metadata\<close>

text \<open>
  A \<open>map[string]interface{}\<close> is an association list; \<open>json.Unmarshal\<close> of \<open>null\<close> yields the nil
  map. Merging assigns every new entry, so it wins over an old one of the same name.
\<close>

type_synonym metadata = "(string \<times> json) list"

fun assign :: "string \<Rightarrow> json \<Rightarrow> metadata \<Rightarrow> metadata" where
  "assign k v [] = [(k, v)]"
| "assign k v ((k', v') # md) = (if k = k' then (k, v) # md else (k', v') # assign k v md)"

fun merge_entries :: "metadata \<Rightarrow> metadata \<Rightarrow> metadata" where
  "merge_entries [] old = old"
| "merge_entries ((k, v) # md) old = merge_entries md (assign k v old)"

lemma map_of_assign [simp]: "map_of (assign k v md) = (map_of md)(k \<mapsto> v)"
  by (induction md) (auto simp: fun_eq_iff)

lemma map_of_merge_entries:
  "distinct (map fst md) \<Longrightarrow> map_of (merge_entries md old) = map_of old ++ map_of md"
proof (induction md arbitrary: old)
  case Nil
  then show ?case by simp
next
  case (Cons kv md)
  obtain k v where kv: "kv = (k, v)" by force
  have "map_of md k = None" using Cons.prems kv by (simp add: map_of_eq_None_iff)
  then show ?case
    using Cons kv by (auto simp: map_add_def fun_eq_iff split: option.split)
qed

definition encode_metadata :: "metadata \<Rightarrow> json" where
  "encode_metadata md = JObj md"

section \<open>Volumes\<close>

record volume_document =
  vd_cluster_id :: nat
  vd_volume_id :: nat
  vd_volume_uuid :: string

definition cluster_volume_key :: "nat \<Rightarrow> nat \<Rightarrow> string" where
  "cluster_volume_key cid vid = ''clusters/'' @ itoa cid @ ''/volumes/'' @ itoa vid"

definition volume_get_key :: "volume_document \<Rightarrow> string" where
  "volume_get_key v = cluster_volume_key (vd_cluster_id v) (vd_volume_id v)"

definition encode_volume_document :: "volume_document \<Rightarrow> json" where
  "encode_volume_document v = JObj (put_nat ''cluster_id'' (vd_cluster_id v) @
     put_nat ''volume_id'' (vd_volume_id v) @ put_str ''volume_uuid'' (vd_volume_uuid v))"

definition decode_volume_document :: "json \<Rightarrow> volume_document option" where
  "decode_volume_document j = do {
     fs \<leftarrow> as_obj j;
     c \<leftarrow> as_nat (jfield ''cluster_id'' fs);
     v \<leftarrow> as_nat (jfield ''volume_id'' fs);
     u \<leftarrow> as_str (jfield ''volume_uuid'' fs);
     Some \<lparr>vd_cluster_id = c, vd_volume_id = v, vd_volume_uuid = u\<rparr>
   }"

lemma decode_encode_volume_document: "decode_volume_document (encode_volume_document v) = Some v"
  by (simp add: decode_volume_document_def encode_volume_document_def put_defs)

definition get_volume :: "nat \<Rightarrow> nat \<Rightarrow> (err + volume_document) op" where
  "get_volume cid vid = load (cluster_volume_key cid vid) decode_volume_document (NotFoundVolume cid vid)"

definition put_volume :: "volume_document \<Rightarrow> err option op" where
  "put_volume v = save (volume_get_key v) (encode_volume_document v)"

definition delete_volume_document :: "volume_document \<Rightarrow> err option op" where
  "delete_volume_document v = erase_prefix (volume_get_key v)"

definition get_volume_metadata :: "volume_document \<Rightarrow> (err + metadata) op" where
  "get_volume_metadata v = load (volume_get_key v @ ''/metadata'') as_obj
     (NotFoundVolumeMetadata (vd_cluster_id v) (vd_volume_id v))"

definition set_volume_metadata :: "volume_document \<Rightarrow> metadata \<Rightarrow> err option op" where
  "set_volume_metadata v md = save (volume_get_key v @ ''/metadata'') (encode_metadata md)"

definition merge_volume_metadata :: "volume_document \<Rightarrow> metadata \<Rightarrow> err option op" where
  "merge_volume_metadata v md = do {
     r \<leftarrow> get_volume_metadata v;
     case r of
       Inl (NotFoundVolumeMetadata _ _) \<Rightarrow> set_volume_metadata v (merge_entries md [])
     | Inl e \<Rightarrow> State_Monad.return (Some e)
     | Inr old \<Rightarrow> set_volume_metadata v (merge_entries md old)
   }"

lemma cluster_volume_key_inject:
  "cluster_volume_key c v = cluster_volume_key d w \<longleftrightarrow> c = d \<and> v = w"
  using cluster_key_inject [of c "''volumes/'' @ itoa v" d "''volumes/'' @ itoa w"]
  by (auto simp: cluster_volume_key_def)

interpretation volume_store: prefix_document_store "\<lambda>(c, v). cluster_volume_key c v"
  "\<lambda>v. (vd_cluster_id v, vd_volume_id v)" "\<lambda>v. v" encode_volume_document decode_volume_document
  "\<lambda>(c, v). NotFoundVolume c v" "\<lambda>(c, v). get_volume c v" put_volume
  "\<lambda>(c, v). delete_volume_document \<lparr>vd_cluster_id = c, vd_volume_id = v, vd_volume_uuid = ''''\<rparr>"
  by unfold_locales
    (auto simp: cluster_volume_key_inject decode_encode_volume_document get_volume_def put_volume_def
      delete_volume_document_def volume_get_key_def)

lemma cluster_volume_key_prefix:
  "has_prefix (cluster_volume_key c v) (cluster_volume_key d w) \<longleftrightarrow> c = d \<and> has_prefix (itoa v) (itoa w)"
proof
  assume "has_prefix (cluster_volume_key c v) (cluster_volume_key d w)"
  then obtain q where "''clusters/'' @ itoa d @ CHR ''/'' # ''volumes/'' @ itoa w
      = ''clusters/'' @ itoa c @ CHR ''/'' # ''volumes/'' @ itoa v @ q"
    by (auto simp: has_prefix_iff cluster_volume_key_def)
  from cluster_key_inject [OF this] show "c = d \<and> has_prefix (itoa v) (itoa w)"
    by (auto simp: has_prefix_iff)
next
  assume "c = d \<and> has_prefix (itoa v) (itoa w)"
  then show "has_prefix (cluster_volume_key c v) (cluster_volume_key d w)"
    by (auto simp: has_prefix_iff cluster_volume_key_def)
qed

text \<open>Deleting the document of a volume deletes the document of another volume exactly when
  it belongs to the same cluster and its decimal identifier starts with the deleted one: the
  key is used as a prefix without a separator, so deleting volume 1 also deletes volume 10.\<close>

theorem delete_volume_document_deletes_iff:
  assumes "quiet w" and "w_kv w (cluster_volume_key c u) \<noteq> None"
  shows "w_kv (snd (run_state (delete_volume_document v) w)) (cluster_volume_key c u) = None \<longleftrightarrow>
     c = vd_cluster_id v \<and> has_prefix (itoa (vd_volume_id v)) (itoa u)"
  using assms cluster_volume_key_prefix [of "vd_cluster_id v" "vd_volume_id v" c u]
  by (auto simp: delete_volume_document_def volume_get_key_def quiet_run)

theorem delete_volume_document_deletes_iff_witness:
  "w_kv (snd (run_state (delete_volume_document \<lparr>vd_cluster_id = 3, vd_volume_id = 1, vd_volume_uuid = ''a''\<rparr>)
     (example_world\<lparr>w_kv := (\<lambda>_. None)(cluster_volume_key 3 10 := Some (Doc JNull))\<rparr>)))
     (cluster_volume_key 3 10) = None"
proof -
  let ?w = "example_world\<lparr>w_kv := (\<lambda>_. None)(cluster_volume_key 3 10 := Some (Doc JNull))\<rparr>"
  have "quiet ?w" "w_kv ?w (cluster_volume_key 3 10) \<noteq> None"
    by (simp_all add: example_world_def quiet_def)
  moreover have "has_prefix (itoa 1) (itoa 10)"
    by (simp add: has_prefix_def itoa.simps digit_char_def)
  ultimately show ?thesis
    using delete_volume_document_deletes_iff
      [of ?w 3 10 "\<lparr>vd_cluster_id = 3, vd_volume_id = 1, vd_volume_uuid = ''a''\<rparr>"] by simp
qed

section \<open>Storages\<close>

record storage_document =
  sd_cluster_id :: nat
  sd_storage_id :: nat
  sd_type :: string
  sd_backend_name :: string

definition cluster_storage_key :: "nat \<Rightarrow> nat \<Rightarrow> string" where
  "cluster_storage_key cid sid = ''clusters/'' @ itoa cid @ ''/storages/'' @ itoa sid"

definition storage_get_key :: "storage_document \<Rightarrow> string" where
  "storage_get_key s = cluster_storage_key (sd_cluster_id s) (sd_storage_id s)"

definition encode_storage_document :: "storage_document \<Rightarrow> json" where
  "encode_storage_document s = JObj (put_nat ''cluster_id'' (sd_cluster_id s) @
     put_nat ''storage_id'' (sd_storage_id s) @ put_str ''type'' (sd_type s) @
     put_str ''backend_name'' (sd_backend_name s))"

definition decode_storage_document :: "json \<Rightarrow> storage_document option" where
  "decode_storage_document j = do {
     fs \<leftarrow> as_obj j;
     c \<leftarrow> as_nat (jfield ''cluster_id'' fs);
     s \<leftarrow> as_nat (jfield ''storage_id'' fs);
     t \<leftarrow> as_str (jfield ''type'' fs);
     b \<leftarrow> as_str (jfield ''backend_name'' fs);
     Some \<lparr>sd_cluster_id = c, sd_storage_id = s, sd_type = t, sd_backend_name = b\<rparr>
   }"

lemma decode_encode_storage_document: "decode_storage_document (encode_storage_document s) = Some s"
  by (simp add: decode_storage_document_def encode_storage_document_def put_defs)

definition get_storage :: "nat \<Rightarrow> nat \<Rightarrow> (err + storage_document) op" where
  "get_storage cid sid = load (cluster_storage_key cid sid) decode_storage_document (NotFoundStorage cid sid)"

definition put_storage :: "storage_document \<Rightarrow> err option op" where
  "put_storage s =
     (if \<not> is_cluster_storage_type_code (sd_type s)
      then State_Monad.return (Some (UnsupportedStorageType (sd_type s)))
      else save (storage_get_key s) (encode_storage_document s))"

definition delete_storage_document :: "storage_document \<Rightarrow> err option op" where
  "delete_storage_document s = erase_prefix (storage_get_key s)"

definition get_storage_metadata :: "storage_document \<Rightarrow> (err + metadata) op" where
  "get_storage_metadata s = load (storage_get_key s @ ''/metadata'') as_obj
     (NotFoundStorageMetadata (sd_cluster_id s) (sd_storage_id s))"

definition set_storage_metadata :: "storage_document \<Rightarrow> metadata \<Rightarrow> err option op" where
  "set_storage_metadata s md = save (storage_get_key s @ ''/metadata'') (encode_metadata md)"

definition merge_storage_metadata :: "storage_document \<Rightarrow> metadata \<Rightarrow> err option op" where
  "merge_storage_metadata s md = do {
     r \<leftarrow> get_storage_metadata s;
     case r of
       Inl (NotFoundStorageMetadata _ _) \<Rightarrow> set_storage_metadata s (merge_entries md [])
     | Inl e \<Rightarrow> State_Monad.return (Some e)
     | Inr old \<Rightarrow> set_storage_metadata s (merge_entries md old)
   }"

text \<open>C40. Merging metadata into a storage that has none or has readable metadata stores the old
  entries overridden by the new ones, and reading it back yields exactly that map.\<close>

theorem merge_storage_metadata_result:
  assumes "quiet w" and "distinct (map fst md)"
    and "w_kv w (storage_get_key s @ ''/metadata'') = None \<and> old = [] \<or>
      w_kv w (storage_get_key s @ ''/metadata'') = Some (Doc (encode_metadata old))"
  shows "\<exists>new w'. run_state (merge_storage_metadata s md) w = (None, w') \<and>
      run_state (get_storage_metadata s) w' = (Inr new, w') \<and> map_of new = map_of old ++ map_of md"
  using assms map_of_merge_entries [of md]
  by (auto simp: merge_storage_metadata_def get_storage_metadata_def set_storage_metadata_def
      quiet_run encode_metadata_def)

theorem merge_storage_metadata_result_witness:
  "\<exists>new w'. run_state (merge_storage_metadata
        \<lparr>sd_cluster_id = 1, sd_storage_id = 2, sd_type = ''ceph'', sd_backend_name = ''b''\<rparr>
        [(''pool'', JStr ''p'')]) example_world = (None, w') \<and>
      run_state (get_storage_metadata
        \<lparr>sd_cluster_id = 1, sd_storage_id = 2, sd_type = ''ceph'', sd_backend_name = ''b''\<rparr>) w'
        = (Inr new, w') \<and> map_of new ''pool'' = Some (JStr ''p'')"
proof -
  have "quiet example_world" "w_kv example_world = (\<lambda>_. None)"
    by (simp_all add: example_world_def quiet_def)
  then obtain new w' where r: "run_state (merge_storage_metadata
        \<lparr>sd_cluster_id = 1, sd_storage_id = 2, sd_type = ''ceph'', sd_backend_name = ''b''\<rparr>
        [(''pool'', JStr ''p'')]) example_world = (None, w')"
      "run_state (get_storage_metadata
        \<lparr>sd_cluster_id = 1, sd_storage_id = 2, sd_type = ''ceph'', sd_backend_name = ''b''\<rparr>) w'
        = (Inr new, w')" "map_of new = map_of [] ++ map_of [(''pool'', JStr ''p'')]"
    using merge_storage_metadata_result [of example_world "[(''pool'', JStr ''p'')]"
        "\<lparr>sd_cluster_id = 1, sd_storage_id = 2, sd_type = ''ceph'', sd_backend_name = ''b''\<rparr>" "[]"]
    by auto
  then show ?thesis by (auto intro!: exI)
qed

text \<open>A storage whose type is unknown is never written; any other is read back as written.\<close>

theorem put_storage_type:
  "(\<not> is_cluster_storage_type_code (sd_type s) \<longrightarrow>
      run_state (put_storage s) w = (Some (UnsupportedStorageType (sd_type s)), w)) \<and>
   (is_cluster_storage_type_code (sd_type s) \<and> quiet w \<longrightarrow>
      (\<exists>w'. run_state (put_storage s) w = (None, w') \<and>
        run_state (get_storage (sd_cluster_id s) (sd_storage_id s)) w' = (Inr s, w')))"
  by (auto simp: put_storage_def get_storage_def storage_get_key_def quiet_run
      decode_encode_storage_document)

theorem put_storage_type_witness:
  "\<exists>w'. run_state (put_storage \<lparr>sd_cluster_id = 1, sd_storage_id = 2,
       sd_type = ''openstack.storage.type.nfs'', sd_backend_name = ''b''\<rparr>) example_world = (None, w')"
proof -
  have "quiet example_world" by (simp add: example_world_def quiet_def)
  moreover have "is_cluster_storage_type_code ''openstack.storage.type.nfs''"
    by (simp add: is_cluster_storage_type_code_def cluster_storage_type_codes_def)
  ultimately show ?thesis
    using put_storage_type [of "\<lparr>sd_cluster_id = 1, sd_storage_id = 2,
       sd_type = ''openstack.storage.type.nfs'', sd_backend_name = ''b''\<rparr>" example_world]
    by auto
qed

end
