(* ===== verification/Deletion.thy ===== *)
theory Deletion
  imports InstanceSpec ResourceDocuments
begin

text \<open>
  The deletions of the synchroniser (\<open>sync/*.go\<close>, the functions \<open>delete...\<close>): each removes the
  rows that depend on a row, then the row, then publishes the deletion. The slices a function
  reads first are the lists its loops run over.
\<close>

definition migration_task_type_create_tenant :: string where
  "migration_task_type_create_tenant = ''dr.migration.task.create.tenant''"

definition migration_task_type_create_security_group :: string where
  "migration_task_type_create_security_group = ''dr.migration.task.create.security_group''"

definition migration_task_type_create_security_group_rule :: string where
  "migration_task_type_create_security_group_rule = ''dr.migration.task.create.security_group_rule''"

definition migration_task_type_create_keypair :: string where
  "migration_task_type_create_keypair = ''dr.migration.task.create.keypair''"

definition migration_task_type_create_network :: string where
  "migration_task_type_create_network = ''dr.migration.task.create.network''"

definition migration_task_type_create_subnet :: string where
  "migration_task_type_create_subnet = ''dr.migration.task.create.subnet''"

definition migration_task_type_create_router :: string where
  "migration_task_type_create_router = ''dr.migration.task.create.router''"

text \<open>A transaction of statements, and a message whose failure is only logged.\<close>

definition transact :: "(database \<Rightarrow> string + database) list \<Rightarrow> err option op" where
  "transact qs = db_err (gorm_transaction (exec_all qs))"

definition announce :: "synchronizer \<Rightarrow> string \<Rightarrow> (string \<times> row) list \<Rightarrow> err option op \<Rightarrow> err option op" where
  "announce s topic rows k = ignoring (publish (Published topic (sy_cluster_id s) rows)) k"

definition find_all :: "(database \<Rightarrow> 'r list) \<Rightarrow> ('r \<Rightarrow> bool) \<Rightarrow> (err + 'r list) op" where
  "find_all t P = find_rows (\<lambda>db. filter P (t db))"

section \<open>Volumes and storages\<close>

definition delete_volume_snapshot :: "synchronizer \<Rightarrow> cluster_volume \<Rightarrow> cluster_volume_snapshot \<Rightarrow> err option op" where
  "delete_volume_snapshot s v sn =
     check (transact [delete_volume_snapshot_rows (\<lambda>r. cond_nat (vs_id sn) (vs_id r))])
     (announce s queue_notice_cluster_volume_snapshot_deleted
        [(''Volume'', RVolume v), (''OrigVolumeSnapshot'', RVolumeSnapshot sn)]
      return_nil)"

definition delete_instance_volume :: "synchronizer \<Rightarrow> cluster_volume \<Rightarrow> cluster_instance_volume \<Rightarrow> err option op" where
  "delete_instance_volume s v iv =
     check (transact [delete_instance_volume_rows (\<lambda>r.
       cond_pair (ivol_cluster_instance_id iv, ivol_cluster_volume_id iv)
         (ivol_cluster_instance_id r, ivol_cluster_volume_id r))])
     (announce s queue_notice_cluster_instance_volume_detached
        [(''OrigInstanceVolume'', RInstanceVolume iv), (''OrigVolume'', RVolume v)]
      return_nil)"

definition delete_volume :: "synchronizer \<Rightarrow> cluster_volume \<Rightarrow> err option op" where
  "delete_volume s v =
     fetch (db_res (execute (both
       (find_all db_instance_volume (\<lambda>r. cond_nat (vol_id v) (ivol_cluster_volume_id r)))
       (find_all db_volume_snapshot (\<lambda>r. cond_nat (vol_id v) (vs_cluster_volume_id r)))))) (\<lambda>(ivs, sns).
     check (for_err (delete_instance_volume s v) ivs)
    (check (for_err (delete_volume_snapshot s v) sns)
    (check (transact [delete_volume_rows (\<lambda>r. cond_nat (vol_id v) (vol_id r))])
    (announce s queue_notice_cluster_volume_deleted [(''OrigVolume'', RVolume v)]
    (do {
       d \<leftarrow> get_volume (sy_cluster_id s) (vol_id v);
       case d of Inl _ \<Rightarrow> return_nil | Inr x \<Rightarrow> delete_volume_document x
     })))))"

definition delete_storage :: "synchronizer \<Rightarrow> cluster_storage \<Rightarrow> err option op" where
  "delete_storage s st =
     fetch (db_res (execute (find_all db_volume (\<lambda>r. cond_nat (st_id st) (vol_cluster_storage_id r))))) (\<lambda>vs.
     check (for_err (delete_volume s) vs)
    (check (transact [delete_storage_rows (\<lambda>r. cond_nat (st_id st) (st_id r))])
    (announce s queue_notice_cluster_storage_deleted [(''OrigStorage'', RStorage st)]
    (do {
       d \<leftarrow> get_storage (sy_cluster_id s) (st_id st);
       case d of Inl _ \<Rightarrow> return_nil | Inr x \<Rightarrow> delete_storage_document x
     }))))"

section \<open>Instances\<close>

definition delete_instance_security_group :: "cluster_instance_security_group \<Rightarrow> database \<Rightarrow> string + database" where
  "delete_instance_security_group g = delete_instance_security_group_rows (\<lambda>r.
     cond_pair (isg_cluster_instance_id g, isg_cluster_security_group_id g)
       (isg_cluster_instance_id r, isg_cluster_security_group_id r))"

definition delete_instance_user_script :: "cluster_instance_user_script \<Rightarrow> database \<Rightarrow> string + database" where
  "delete_instance_user_script u = delete_instance_user_script_rows (\<lambda>r.
     cond_nat (us_cluster_instance_id u) (us_cluster_instance_id r))"

definition delete_instance_network :: "synchronizer \<Rightarrow> cluster_instance_network \<Rightarrow> err option op" where
  "delete_instance_network s n =
     check (transact [delete_instance_network_rows (\<lambda>r. cond_nat (inw_id n) (inw_id r))])
     (announce s queue_notice_cluster_instance_network_detached
        [(''OrigInstanceNetwork'', RInstanceNetwork n)]
      return_nil)"

text \<open>The original of the message is a deep copy taken before the floating IP is removed.\<close>

definition delete_instance_network_floating_ip :: "synchronizer \<Rightarrow> cluster_instance_network \<Rightarrow> err option op" where
  "delete_instance_network_floating_ip s n =
     (let n' = n\<lparr>inw_cluster_floating_ip_id := None\<rparr> in
      saving (inw_id n) (\<lambda>i. save_instance_network (n'\<lparr>inw_id := i\<rparr>)) (\<lambda>i.
      announce s queue_notice_cluster_instance_network_updated
        [(''OrigInstanceNetwork'', RInstanceNetwork n), (''InstanceNetwork'', RInstanceNetwork (n'\<lparr>inw_id := i\<rparr>))]
      return_nil))"

text \<open>Here the original is another name of the changed instance, so the message has it twice.\<close>

definition delete_instance_keypair :: "synchronizer \<Rightarrow> cluster_instance \<Rightarrow> err option op" where
  "delete_instance_keypair s x =
     (let x' = x\<lparr>ins_cluster_keypair_id := None\<rparr> in
      saving (ins_id x) (\<lambda>i. save_instance (x'\<lparr>ins_id := i\<rparr>)) (\<lambda>i.
      announce s queue_notice_cluster_instance_updated
        [(''OrigInstance'', RInstance (x'\<lparr>ins_id := i\<rparr>)), (''Instance'', RInstance (x'\<lparr>ins_id := i\<rparr>))]
      return_nil))"

text \<open>The join of the attachments of an instance with their volumes.\<close>

definition instance_volume_join :: "nat \<Rightarrow> database \<Rightarrow> (cluster_instance_volume \<times> cluster_volume) list" where
  "instance_volume_join i db = [(iv, v). iv \<leftarrow> db_instance_volume db,
     cond_nat i (ivol_cluster_instance_id iv), v \<leftarrow> db_volume db, vol_id v = ivol_cluster_volume_id iv]"

definition get_instance_volume_records :: "nat \<Rightarrow> (err + (cluster_instance_volume \<times> cluster_volume) list) op" where
  "get_instance_volume_records i = db_res (execute (find_rows (instance_volume_join i)))"

text \<open>
  The user script is optional; the spec is looked up to be synchronised at the end, and
  whatever that returns is ignored.
\<close>

definition instance_dependents :: "cluster_instance \<Rightarrow>
    (err + (cluster_instance_network list \<times> cluster_instance_security_group list) \<times>
      cluster_instance_user_script option \<times> cluster_instance_spec option) op" where
  "instance_dependents x = both
     (both (find_all db_instance_network (\<lambda>r. cond_nat (ins_id x) (inw_cluster_instance_id r)))
           (find_all db_instance_security_group (\<lambda>r. cond_nat (ins_id x) (isg_cluster_instance_id r))))
     (do {
        u \<leftarrow> first_row us_cluster_instance_id
          (\<lambda>db. filter (\<lambda>r. cond_nat (ins_id x) (us_cluster_instance_id r)) (db_instance_user_script db));
        if (case u of Inl e \<Rightarrow> e \<noteq> RecordNotFound | Inr _ \<Rightarrow> False)
        then State_Monad.return (map_sum (\<lambda>e. e) (\<lambda>_. (None, None)) u)
        else do {
          sp \<leftarrow> first_row sp_id
            (\<lambda>db. filter (\<lambda>r. cond_nat (ins_cluster_instance_spec_id x) (sp_id r)) (db_instance_spec db));
          State_Monad.return (Inr (case u of Inl _ \<Rightarrow> None | Inr r \<Rightarrow> Some r,
            case sp of Inl _ \<Rightarrow> None | Inr r \<Rightarrow> Some r))
        }
      })"

definition delete_instance :: "synchronizer \<Rightarrow> cluster_instance \<Rightarrow> err option op" where
  "delete_instance s x =
     fetch (db_res (execute (instance_dependents x))) (\<lambda>((inws, isgs), script, spec).
     fetch (get_instance_volume_records (ins_id x)) (\<lambda>ivs.
     check (for_err (delete_instance_network s) inws)
    (check (for_err (\<lambda>(iv, v). delete_instance_volume s v iv) ivs)
    (check (for_err (\<lambda>g. gorm_transaction (exec_all [delete_instance_security_group g])) isgs)
    (check (case script of None \<Rightarrow> return_nil
        | Some u \<Rightarrow> gorm_transaction (exec_all [delete_instance_user_script u]))
    (check (transact [delete_instance_rows (\<lambda>r. cond_nat (ins_id x) (ins_id r))])
    (announce s queue_notice_cluster_instance_deleted [(''OrigInstance'', RInstance x)]
    (case spec of None \<Rightarrow> return_nil
     | Some sp \<Rightarrow> (if sp_id sp \<noteq> 0 then ignoring (sync_cluster_instance_spec s False sp) return_nil
        else return_nil)))))))))"

definition delete_keypair :: "synchronizer \<Rightarrow> cluster_keypair \<Rightarrow> err option op" where
  "delete_keypair s k =
     fetch (db_res (execute (find_all db_instance (\<lambda>r. ins_cluster_keypair_id r = Some (kp_id k))))) (\<lambda>xs.
     check (for_err (delete_instance_keypair s) xs)
    (check (transact [delete_keypair_rows (\<lambda>r. cond_nat (kp_id k) (kp_id r))])
    (ignoring (clear_shared_task (sy_cluster_id s) (kp_id k) (kp_name k) migration_task_type_create_keypair)
     return_nil)))"

section \<open>Security groups\<close>

definition delete_security_group_rule :: "synchronizer \<Rightarrow> cluster_security_group_rule \<Rightarrow> err option op" where
  "delete_security_group_rule s r =
     check (transact [delete_security_group_rule_rows (\<lambda>q. cond_nat (sgr_id r) (sgr_id q))])
    (announce s queue_notice_cluster_security_group_rule_deleted
        [(''OrigSecurityGroupRule'', RSecurityGroupRule r)]
    (ignoring (clear_shared_task (sy_cluster_id s) (sgr_id r) (sgr_uuid r) migration_task_type_create_security_group_rule)
     return_nil))"

text \<open>The group itself is deleted outside a transaction, so here an error is reported.\<close>

definition delete_security_group :: "synchronizer \<Rightarrow> cluster_security_group \<Rightarrow> err option op" where
  "delete_security_group s g =
     fetch (db_res (execute (both
       (find_all db_instance_security_group (\<lambda>r. cond_nat (sg_id g) (isg_cluster_security_group_id r)))
       (find_all db_security_group_rule (\<lambda>r. cond_nat (sg_id g) (sgr_security_group_id r)))))) (\<lambda>(isgs, rules).
     check (for_err (\<lambda>i. gorm_transaction (exec_all [delete_instance_security_group i])) isgs)
    (check (for_err (delete_security_group_rule s) rules)
    (check (db_err (execute_err (exec (delete_security_group_rows (\<lambda>r. cond_nat (sg_id g) (sg_id r))))))
    (announce s queue_notice_cluster_security_group_deleted [(''OrigSecurityGroup'', RSecurityGroup g)]
    (ignoring (clear_shared_task (sy_cluster_id s) (sg_id g) (sg_uuid g) migration_task_type_create_security_group)
     return_nil)))))"

section \<open>Networks\<close>

text \<open>The pointer to the identifier is never blank, so the condition is not dropped for zero.\<close>

definition delete_floating_ip :: "synchronizer \<Rightarrow> cluster_floating_ip \<Rightarrow> err option op" where
  "delete_floating_ip s f =
     fetch (db_res (execute (find_all db_instance_network (\<lambda>r. inw_cluster_floating_ip_id r = Some (fip_id f))))) (\<lambda>ns.
     check (for_err (delete_instance_network_floating_ip s) ns)
    (check (transact [delete_floating_ip_rows (\<lambda>r. cond_nat (fip_id f) (fip_id r))])
    (announce s queue_notice_cluster_floating_ip_deleted [(''OrigFloatingIP'', RFloatingIP f)]
     return_nil)))"

definition delete_routing_interface :: "synchronizer \<Rightarrow> cluster_network_routing_interface \<Rightarrow> err option op" where
  "delete_routing_interface s i =
     check (transact [delete_routing_interface_rows (\<lambda>r.
       cond_pair (ri_cluster_router_id i, ri_cluster_subnet_id i) (ri_cluster_router_id r, ri_cluster_subnet_id r))])
     (announce s queue_notice_cluster_routing_interface_deleted
        [(''OrigRoutingInterface'', RRoutingInterface i)]
      return_nil)"

definition delete_subnet :: "synchronizer \<Rightarrow> cluster_subnet \<Rightarrow> err option op" where
  "delete_subnet s sn =
     fetch (db_res (execute (both
       (find_all db_instance_network (\<lambda>r. cond_nat (sn_id sn) (inw_cluster_subnet_id r)))
       (find_all db_routing_interface (\<lambda>r. cond_nat (sn_id sn) (ri_cluster_subnet_id r)))))) (\<lambda>(inws, ris).
     check (for_err (delete_instance_network s) inws)
    (check (for_err (delete_routing_interface s) ris)
    (check (transact [
        delete_dhcp_pool_rows (\<lambda>r. cond_nat (sn_id sn) (dp_cluster_subnet_id r)),
        delete_nameserver_rows (\<lambda>r. cond_nat (sn_id sn) (ns_cluster_subnet_id r)),
        delete_subnet_rows (\<lambda>r. cond_nat (sn_id sn) (sn_id r))])
    (announce s queue_notice_cluster_subnet_deleted [(''OrigSubnet'', RSubnet sn)]
    (ignoring (clear_shared_task (sy_cluster_id s) (sn_id sn) (sn_uuid sn) migration_task_type_create_subnet)
     return_nil)))))"

definition delete_network :: "synchronizer \<Rightarrow> cluster_network \<Rightarrow> err option op" where
  "delete_network s n =
     fetch (db_res (execute (both
       (find_all db_instance_network (\<lambda>r. cond_nat (nw_id n) (inw_cluster_network_id r)))
       (both (find_all db_floating_ip (\<lambda>r. cond_nat (nw_id n) (fip_cluster_network_id r)))
             (find_all db_subnet (\<lambda>r. cond_nat (nw_id n) (sn_cluster_network_id r))))))) (\<lambda>(inws, fips, subnets).
     check (for_err (delete_instance_network s) inws)
    (check (for_err (delete_floating_ip s) fips)
    (check (for_err (delete_subnet s) subnets)
    (check (transact [delete_network_rows (\<lambda>r. cond_nat (nw_id n) (nw_id r))])
    (announce s queue_notice_cluster_network_deleted [(''OrigNetwork'', RNetwork n)]
    (ignoring (clear_shared_task (sy_cluster_id s) (nw_id n) (nw_uuid n) migration_task_type_create_network)
     return_nil))))))"

definition delete_router :: "synchronizer \<Rightarrow> cluster_router \<Rightarrow> err option op" where
  "delete_router s r =
     fetch (db_res (execute (find_all db_routing_interface (\<lambda>q. cond_nat (rt_id r) (ri_cluster_router_id q))))) (\<lambda>ris.
     check (for_err (delete_routing_interface s) ris)
    (check (transact [
        delete_extra_route_rows (\<lambda>q. cond_nat (rt_id r) (er_cluster_router_id q)),
        delete_router_rows (\<lambda>q. cond_nat (rt_id r) (rt_id q))])
    (announce s queue_notice_cluster_router_deleted [(''OrigRouter'', RRouter r)]
    (ignoring (clear_shared_task (sy_cluster_id s) (rt_id r) (rt_uuid r) migration_task_type_create_router)
     return_nil))))"

section \<open>Hypervisors, availability zones and tenants\<close>

definition delete_hypervisor :: "synchronizer \<Rightarrow> cluster_hypervisor \<Rightarrow> err option op" where
  "delete_hypervisor s h =
     fetch (db_res (execute (find_all db_instance (\<lambda>r. cond_nat (hv_id h) (ins_cluster_hypervisor_id r))))) (\<lambda>xs.
     check (for_err (delete_instance s) xs)
    (check (transact [delete_hypervisor_rows (\<lambda>r. cond_nat (hv_id h) (hv_id r))])
    (announce s queue_notice_cluster_hypervisor_deleted [(''OrigHypervisor'', RHypervisor h)]
     return_nil)))"

text \<open>The queries of this one wrap their error inside the function of \<open>Execute\<close>, which unwraps it.\<close>

definition delete_availability_zone :: "synchronizer \<Rightarrow> cluster_availability_zone \<Rightarrow> err option op" where
  "delete_availability_zone s z =
     fetch (execute (both
       (db_res (find_all db_instance (\<lambda>r. cond_nat (az_id z) (ins_cluster_availability_zone_id r))))
       (db_res (find_all db_hypervisor (\<lambda>r. cond_nat (az_id z) (hv_cluster_availability_zone_id r)))))) (\<lambda>(xs, hs).
     check (for_err (delete_instance s) xs)
    (check (for_err (delete_hypervisor s) hs)
    (check (transact [delete_availability_zone_rows (\<lambda>r. cond_nat (az_id z) (az_id r))])
    (announce s queue_notice_cluster_availability_zone_deleted [(''OrigAvailabilityZone'', RZone z)]
     return_nil))))"

definition delete_tenant :: "synchronizer \<Rightarrow> cluster_tenant \<Rightarrow> err option op" where
  "delete_tenant s t =
     fetch (db_res (execute (both
       (find_all db_instance (\<lambda>r. cond_nat (tn_id t) (ins_cluster_tenant_id r)))
       (both (find_all db_security_group (\<lambda>r. cond_nat (tn_id t) (sg_cluster_tenant_id r)))
       (both (find_all db_volume (\<lambda>r. cond_nat (tn_id t) (vol_cluster_tenant_id r)))
       (both (find_all db_floating_ip (\<lambda>r. cond_nat (tn_id t) (fip_cluster_tenant_id r)))
       (both (find_all db_network (\<lambda>r. cond_nat (tn_id t) (nw_cluster_tenant_id r)))
             (find_all db_router (\<lambda>r. cond_nat (tn_id t) (rt_cluster_tenant_id r)))))))))) (\<lambda>(xs, gs, vs, fs, ns, rs).
     check (for_err (delete_instance s) xs)
    (check (for_err (delete_security_group s) gs)
    (check (for_err (delete_volume s) vs)
    (check (for_err (delete_floating_ip s) fs)
    (check (for_err (delete_network s) ns)
    (check (for_err (delete_router s) rs)
    (check (gorm_transaction (exec_all [
        delete_quota_rows (\<lambda>r. cond_nat (tn_id t) (qt_cluster_tenant_id r)),
        delete_tenant_rows (\<lambda>r. cond_nat (tn_id t) (tn_id r))]))
    (announce s queue_notice_cluster_tenant_deleted [(''OrigTenant'', RTenant t)]
    (ignoring (clear_shared_task (sy_cluster_id s) (tn_id t) (tn_uuid t) migration_task_type_create_tenant)
     return_nil)))))))))"

end
