(* ===== verification/Yields.thy ===== *)
theory Yields
  imports Deletion
begin

text \<open>
  Total correctness of the synchroniser's functions in worlds without failures: \<open>yields m db R\<close>
  says that \<open>m\<close>, started on the database \<open>db\<close>, returns without an error on one that satisfies
  \<open>R\<close>. The rules follow the statements the functions are written with.
\<close>

definition yields :: "err option op \<Rightarrow> database \<Rightarrow> (database \<Rightarrow> bool) \<Rightarrow> bool" where
  "yields m db R \<longleftrightarrow> (\<forall>w. quiet w \<and> w_db w = db \<longrightarrow>
     (\<exists>w'. run_state m w = (None, w') \<and> quiet w' \<and> R (w_db w')))"

named_theorems yields_intros "rules of total correctness"
named_theorems reads_intros "what the queries of a function read"

lemma yieldsI:
  "(\<And>w. quiet w \<Longrightarrow> w_db w = db \<Longrightarrow> \<exists>w'. run_state m w = (None, w') \<and> quiet w' \<and> R (w_db w')) \<Longrightarrow>
   yields m db R"
  by (simp add: yields_def)

lemma yieldsD:
  assumes "yields m db R" and "quiet w" and "w_db w = db"
  obtains w' where "run_state m w = (None, w')" and "quiet w'" and "R (w_db w')"
  using assms by (auto simp: yields_def)

lemma yields_mono: "yields m db R \<Longrightarrow> (\<And>d. R d \<Longrightarrow> R' d) \<Longrightarrow> yields m db R'"
  by (fastforce simp: yields_def)

lemma yields_return_nil [yields_intros]: "R db \<Longrightarrow> yields return_nil db R"
  by (simp add: yields_def return_nil_def)

lemma yields_check [yields_intros]:
  assumes "yields m db Q" and "\<And>d. Q d \<Longrightarrow> yields k d R"
  shows "yields (check m k) db R"
proof (rule yieldsI)
  fix w assume w: "quiet w" "w_db w = db"
  obtain w1 where w1: "run_state m w = (None, w1)" "quiet w1" "Q (w_db w1)"
    using yieldsD [OF assms(1) w] .
  obtain w2 where "run_state k w1 = (None, w2)" "quiet w2" "R (w_db w2)"
    using yieldsD [OF assms(2) [OF w1(3)] w1(2)] by blast
  then show "\<exists>w'. run_state (check m k) w = (None, w') \<and> quiet w' \<and> R (w_db w')"
    using w1 by (simp add: check_def)
qed

lemma yields_announce [yields_intros]: "yields k db R \<Longrightarrow> yields (announce s t rows k) db R"
  by (auto simp: yields_def announce_def ignoring_def publish_quiet)

lemma yields_clear_shared_task [yields_intros]:
  "yields k db R \<Longrightarrow> yields (ignoring (clear_shared_task c i u t) k) db R"
  by (auto simp: yields_def ignoring_def)

text \<open>Queries: a function that reads the database continues with what it holds.\<close>

definition reads :: "(err + 'a) op \<Rightarrow> (database \<Rightarrow> 'a) \<Rightarrow> bool" where
  "reads m f \<longleftrightarrow> (\<forall>w. quiet w \<longrightarrow> run_state m w = (Inr (f (w_db w)), w))"

lemma reads_find_all [reads_intros]: "reads (find_all t P) (\<lambda>db. filter P (t db))"
  by (simp add: reads_def find_all_def find_rows_quiet)

lemma reads_find_rows [reads_intros]: "reads (find_rows sel) sel"
  by (simp add: reads_def find_rows_quiet)

lemma reads_both [reads_intros]: "reads m f \<Longrightarrow> reads n g \<Longrightarrow> reads (both m n) (\<lambda>db. (f db, g db))"
  by (simp add: reads_def both_def)

lemma reads_execute [reads_intros]: "reads m f \<Longrightarrow> reads (execute m) f"
  by (simp add: reads_def execute_def)

lemma reads_db_res [reads_intros]: "reads m f \<Longrightarrow> reads (db_res m) f"
  by (simp add: reads_def db_res_def)

lemma yields_fetch:
  assumes "reads m f" and "yields (k (f db)) db R"
  shows "yields (fetch m k) db R"
  using assms by (simp add: yields_def reads_def fetch_def)

lemma yields_check_eq:
  "yields m db (\<lambda>d. d = db') \<Longrightarrow> yields k db' R \<Longrightarrow> yields (check m k) db R"
  by (erule yields_check) simp

text \<open>Transactions.\<close>

lemma transact_quiet [quiet_run]:
  "quiet w \<Longrightarrow> run_state (transact qs) w =
     (None, w\<lparr>w_db := (case apply_all qs (w_db w) of Inl _ \<Rightarrow> w_db w | Inr db \<Rightarrow> db)\<rparr>)"
  by (simp add: transact_def db_err_def gorm_transaction_quiet)

lemma yields_transact:
  "apply_all qs db = Inr d \<Longrightarrow> R d \<Longrightarrow> yields (transact qs) db R"
  by (auto simp: yields_def transact_quiet)

lemma yields_check_transact:
  "apply_all qs db = Inr db' \<Longrightarrow> yields k db' R \<Longrightarrow> yields (check (transact qs) k) db R"
  by (rule yields_check_eq [OF yields_transact]) simp_all

lemma yields_gorm_transaction:
  "apply_all qs db = Inr d \<Longrightarrow> R d \<Longrightarrow> yields (gorm_transaction (exec_all qs)) db R"
  by (auto simp: yields_def gorm_transaction_quiet)

lemma gorm_save_quiet [quiet_run]:
  assumes "quiet w"
  shows "run_state (gorm_transaction_with i (save_statement i q)) w =
    (let j = (if i = 0 then Suc (w_seq w) else i); n = (if i = 0 then Suc (w_seq w) else w_seq w) in
     case q j (w_db w) of
       Inl _ \<Rightarrow> ((None, i), w\<lparr>w_seq := n\<rparr>)
     | Inr db \<Rightarrow> ((None, j), w\<lparr>w_db := db, w_seq := n\<rparr>))"
proof -
  have w: "w_faults w = []" "w_tx w = NoTx" using assms by (auto simp: quiet_def)
  have tx: "w\<lparr>w_tx := NoTx\<rparr> = w" using w by simp
  have norm: "w\<lparr>w_tx := NoTx, w_db := d\<rparr> = w\<lparr>w_db := d\<rparr>"
    "w\<lparr>w_tx := NoTx, w_db := d, w_seq := n\<rparr> = w\<lparr>w_db := d, w_seq := n\<rparr>"
    "w\<lparr>w_tx := NoTx, w_seq := n\<rparr> = w\<lparr>w_seq := n\<rparr>" for d n
    by (metis (no_types) tx)+
  show ?thesis
    using w norm
    by (auto simp: gorm_transaction_with_def pop_fault_def save_statement_def fresh_id_def
        exec_def statement_open Let_def split: sum.split)
qed

lemma for_err_check: "for_err f (x # xs) = check (f x) (for_err f xs)"
  by (simp add: check_def)

text \<open>A loop: each round changes the database by a function, whose effects accumulate.\<close>

lemma yields_for_err_fold:
  assumes "\<And>x db. x \<in> set xs \<Longrightarrow> yields (f x) db (\<lambda>d. d = g x db)"
  shows "yields (for_err f xs) db (\<lambda>d. d = fold g xs db)"
  using assms
proof (induction xs arbitrary: db)
  case Nil
  then show ?case by (simp add: yields_def)
next
  case (Cons x xs)
  have "yields (check (f x) (for_err f xs)) db (\<lambda>d. d = fold g (x # xs) db)"
  proof (rule yields_check [OF Cons.prems])
    show "x \<in> set (x # xs)" by simp
    show "yields (for_err f xs) d (\<lambda>d. d = fold g (x # xs) db)" if "d = g x db" for d
      using Cons.IH [of d] Cons.prems that by simp
  qed
  then show ?case by (simp only: for_err_check)
qed

text \<open>Deleting by key, row after row, deletes the rows whose key is among the keys.\<close>

lemma fold_filter:
  "fold (\<lambda>x. filter (\<lambda>r. \<not> P x r)) xs rows = filter (\<lambda>r. \<forall>x \<in> set xs. \<not> P x r) rows"
  by (induction xs arbitrary: rows) (auto intro: filter_cong)

lemma filter_by_key:
  assumes "distinct (map key rows)"
  shows "filter (\<lambda>r. \<forall>x \<in> set (filter P rows). key r \<noteq> key x) rows = filter (\<lambda>r. \<not> P r) rows"
proof (rule filter_cong [OF refl])
  fix r assume r: "r \<in> set rows"
  have "key r \<noteq> key x" if "x \<in> set rows" "P x" "\<not> P r" for x
    using assms r that by (auto simp: distinct_map inj_on_def)
  then show "(\<forall>x \<in> set (filter P rows). key r \<noteq> key x) = (\<not> P r)" using r by auto
qed

lemma delete_from_free:
  "(\<And>r. r \<in> set rows \<Longrightarrow> P r \<Longrightarrow> \<not> referenced r) \<Longrightarrow>
   delete_from referenced P rows = Inr (filter (\<lambda>r. \<not> P r) rows)"
  by (auto simp: delete_from_def list_ex_iff)

lemma delete_from_unreferenced [simp]:
  "delete_from (\<lambda>_. False) P rows = Inr (filter (\<lambda>r. \<not> P r) rows)"
  by (simp add: delete_from_free)

lemma cond_nat_nonzero [simp]: "i \<noteq> 0 \<Longrightarrow> cond_nat i = (\<lambda>x. x = i)"
  by (simp add: cond_nat_def fun_eq_iff)

lemma cond_pair_nonzero [simp]: "i \<noteq> 0 \<Longrightarrow> cond_pair (i, j) = (\<lambda>x. x = (i, j))"
  by (simp add: cond_pair_def fun_eq_iff)

section \<open>The deletions of dependent rows\<close>

lemma yields_delete_instance_network:
  "inw_id n \<noteq> 0 \<Longrightarrow> yields (delete_instance_network s n) db
     (\<lambda>d. d = db\<lparr>db_instance_network := filter (\<lambda>r. inw_id r \<noteq> inw_id n) (db_instance_network db)\<rparr>)"
  unfolding delete_instance_network_def
  by (intro yields_intros, rule yields_transact)
     (auto intro!: yields_intros simp: delete_instance_network_rows_def)

lemma yields_delete_instance_volume:
  "ivol_cluster_instance_id iv \<noteq> 0 \<Longrightarrow> yields (delete_instance_volume s v iv) db
     (\<lambda>d. d = db\<lparr>db_instance_volume := filter (\<lambda>r.
        (ivol_cluster_instance_id r, ivol_cluster_volume_id r) \<noteq>
        (ivol_cluster_instance_id iv, ivol_cluster_volume_id iv)) (db_instance_volume db)\<rparr>)"
  unfolding delete_instance_volume_def
  by (intro yields_intros, rule yields_transact)
     (auto intro!: yields_intros simp: delete_instance_volume_rows_def)

lemma yields_delete_volume_snapshot:
  "vs_id sn \<noteq> 0 \<Longrightarrow> yields (delete_volume_snapshot s v sn) db
     (\<lambda>d. d = db\<lparr>db_volume_snapshot := filter (\<lambda>r. vs_id r \<noteq> vs_id sn) (db_volume_snapshot db)\<rparr>)"
  unfolding delete_volume_snapshot_def
  by (intro yields_intros, rule yields_transact)
     (auto intro!: yields_intros simp: delete_volume_snapshot_rows_def)

lemma yields_delete_routing_interface:
  "ri_cluster_router_id i \<noteq> 0 \<Longrightarrow> yields (delete_routing_interface s i) db
     (\<lambda>d. d = db\<lparr>db_routing_interface := filter (\<lambda>r.
        (ri_cluster_router_id r, ri_cluster_subnet_id r) \<noteq>
        (ri_cluster_router_id i, ri_cluster_subnet_id i)) (db_routing_interface db)\<rparr>)"
  unfolding delete_routing_interface_def
  by (intro yields_intros, rule yields_transact)
     (auto intro!: yields_intros simp: delete_routing_interface_rows_def)

lemma yields_delete_security_group_rule:
  "sgr_id q \<noteq> 0 \<Longrightarrow> yields (delete_security_group_rule s q) db
     (\<lambda>d. d = db\<lparr>db_security_group_rule := filter (\<lambda>r. sgr_id r \<noteq> sgr_id q) (db_security_group_rule db)\<rparr>)"
  unfolding delete_security_group_rule_def
  by (intro yields_intros, rule yields_transact)
     (auto intro!: yields_intros simp: delete_security_group_rule_rows_def)

lemma yields_delete_instance_security_group:
  "isg_cluster_instance_id g \<noteq> 0 \<Longrightarrow> yields (gorm_transaction (exec_all [delete_instance_security_group g])) db
     (\<lambda>d. d = db\<lparr>db_instance_security_group := filter (\<lambda>r.
        (isg_cluster_instance_id r, isg_cluster_security_group_id r) \<noteq>
        (isg_cluster_instance_id g, isg_cluster_security_group_id g)) (db_instance_security_group db)\<rparr>)"
  by (rule yields_gorm_transaction)
     (auto simp: delete_instance_security_group_def delete_instance_security_group_rows_def)

lemma yields_delete_instance_user_script:
  "us_cluster_instance_id u \<noteq> 0 \<Longrightarrow> yields (gorm_transaction (exec_all [delete_instance_user_script u])) db
     (\<lambda>d. d = db\<lparr>db_instance_user_script := filter (\<lambda>r.
        us_cluster_instance_id r \<noteq> us_cluster_instance_id u) (db_instance_user_script db)\<rparr>)"
  by (rule yields_gorm_transaction)
     (auto simp: delete_instance_user_script_def delete_instance_user_script_rows_def)

section \<open>Deleting rows of one table in a loop\<close>

text \<open>
  A table of the database, by the function that changes its rows: what the loops over dependent
  rows rely on.
\<close>

locale table =
  fixes upd :: "('r list \<Rightarrow> 'r list) \<Rightarrow> database \<Rightarrow> database"
  assumes upd_upd: "upd h (upd k db) = upd (\<lambda>v. h (k v)) db"
    and upd_id: "upd (\<lambda>v. v) db = db"
begin

lemma fold_upd:
  "fold (\<lambda>x. upd (filter (\<lambda>r. \<not> P x r))) xs db = upd (filter (\<lambda>r. \<forall>x \<in> set xs. \<not> P x r)) db"
proof (induction xs arbitrary: db)
  case Nil
  have "filter (\<lambda>r. True) = (\<lambda>v :: 'r list. v)" by (simp add: fun_eq_iff)
  then show ?case by (simp add: upd_id)
next
  case (Cons x xs)
  then show ?case by (simp add: upd_upd)
qed

lemma delete_each:
  assumes "\<And>x db. x \<in> set xs \<Longrightarrow> yields (f x) db (\<lambda>d. d = upd (filter (\<lambda>r. \<not> P x r)) db)"
  shows "yields (for_err f xs) db (\<lambda>d. d = upd (filter (\<lambda>r. \<forall>x \<in> set xs. \<not> P x r)) db)"
  using yields_for_err_fold [of xs f "\<lambda>x. upd (filter (\<lambda>r. \<not> P x r))" db] assms
  by (simp add: fold_upd)

end

interpretation inw_table: table "\<lambda>h db. db\<lparr>db_instance_network := h (db_instance_network db)\<rparr>"
  by unfold_locales simp_all

interpretation snapshot_table: table "\<lambda>h db. db\<lparr>db_volume_snapshot := h (db_volume_snapshot db)\<rparr>"
  by unfold_locales simp_all

interpretation attachment_table: table "\<lambda>h db. db\<lparr>db_instance_volume := h (db_instance_volume db)\<rparr>"
  by unfold_locales simp_all

interpretation rule_table: table "\<lambda>h db. db\<lparr>db_security_group_rule := h (db_security_group_rule db)\<rparr>"
  by unfold_locales simp_all

interpretation interface_table: table "\<lambda>h db. db\<lparr>db_routing_interface := h (db_routing_interface db)\<rparr>"
  by unfold_locales simp_all

interpretation membership_table: table "\<lambda>h db. db\<lparr>db_instance_security_group := h (db_instance_security_group db)\<rparr>"
  by unfold_locales simp_all

lemma yields_delete_instance_networks:
  assumes "\<forall>n \<in> set ns. inw_id n \<noteq> 0"
  shows "yields (for_err (delete_instance_network s) ns) db (\<lambda>d. d = db\<lparr>db_instance_network :=
     filter (\<lambda>r. \<forall>n \<in> set ns. \<not> inw_id r = inw_id n) (db_instance_network db)\<rparr>)"
  using assms by (intro inw_table.delete_each [where P = "\<lambda>n r. inw_id r = inw_id n"] yields_delete_instance_network) simp

lemma yields_delete_volume_snapshots:
  assumes "\<forall>n \<in> set sns. vs_id n \<noteq> 0"
  shows "yields (for_err (delete_volume_snapshot s v) sns) db (\<lambda>d. d = db\<lparr>db_volume_snapshot :=
     filter (\<lambda>r. \<forall>n \<in> set sns. \<not> vs_id r = vs_id n) (db_volume_snapshot db)\<rparr>)"
  using assms by (intro snapshot_table.delete_each [where P = "\<lambda>n r. vs_id r = vs_id n"] yields_delete_volume_snapshot) simp

lemma yields_delete_instance_volumes:
  assumes "\<forall>n \<in> set ivs. ivol_cluster_instance_id n \<noteq> 0"
  shows "yields (for_err (delete_instance_volume s v) ivs) db (\<lambda>d. d = db\<lparr>db_instance_volume :=
     filter (\<lambda>r. \<forall>n \<in> set ivs. \<not> (ivol_cluster_instance_id r, ivol_cluster_volume_id r) = (ivol_cluster_instance_id n, ivol_cluster_volume_id n)) (db_instance_volume db)\<rparr>)"
  using assms by (intro attachment_table.delete_each [where P = "\<lambda>n r. (ivol_cluster_instance_id r, ivol_cluster_volume_id r) = (ivol_cluster_instance_id n, ivol_cluster_volume_id n)"] yields_delete_instance_volume) simp

lemma yields_delete_security_group_rules:
  assumes "\<forall>n \<in> set qs. sgr_id n \<noteq> 0"
  shows "yields (for_err (delete_security_group_rule s) qs) db (\<lambda>d. d = db\<lparr>db_security_group_rule :=
     filter (\<lambda>r. \<forall>n \<in> set qs. \<not> sgr_id r = sgr_id n) (db_security_group_rule db)\<rparr>)"
  using assms by (intro rule_table.delete_each [where P = "\<lambda>n r. sgr_id r = sgr_id n"] yields_delete_security_group_rule) simp

lemma yields_delete_routing_interfaces:
  assumes "\<forall>n \<in> set ris. ri_cluster_router_id n \<noteq> 0"
  shows "yields (for_err (delete_routing_interface s) ris) db (\<lambda>d. d = db\<lparr>db_routing_interface :=
     filter (\<lambda>r. \<forall>n \<in> set ris. \<not> (ri_cluster_router_id r, ri_cluster_subnet_id r) = (ri_cluster_router_id n, ri_cluster_subnet_id n)) (db_routing_interface db)\<rparr>)"
  using assms by (intro interface_table.delete_each [where P = "\<lambda>n r. (ri_cluster_router_id r, ri_cluster_subnet_id r) = (ri_cluster_router_id n, ri_cluster_subnet_id n)"] yields_delete_routing_interface) simp

lemma yields_delete_instance_security_groups:
  assumes "\<forall>n \<in> set gs. isg_cluster_instance_id n \<noteq> 0"
  shows "yields (for_err (\<lambda>g. gorm_transaction (exec_all [delete_instance_security_group g])) gs) db (\<lambda>d. d = db\<lparr>db_instance_security_group :=
     filter (\<lambda>r. \<forall>n \<in> set gs. \<not> (isg_cluster_instance_id r, isg_cluster_security_group_id r) = (isg_cluster_instance_id n, isg_cluster_security_group_id n)) (db_instance_security_group db)\<rparr>)"
  using assms by (intro membership_table.delete_each [where P = "\<lambda>n r. (isg_cluster_instance_id r, isg_cluster_security_group_id r) = (isg_cluster_instance_id n, isg_cluster_security_group_id n)"] yields_delete_instance_security_group) simp


end
