(* ===== verification/Purge.thy ===== *)
theory Purge
  imports Yields
begin

text \<open>
  The abstract specification of the deletions: which resources of the database go, by kind and
  identifier (\<open>targets\<close>), and what the database is without them (\<open>purge\<close>): every row that
  depends on a purged resource goes too, an instance keeps its other networks but loses a
  purged floating IP, and nothing else changes.
\<close>

section \<open>Targets\<close>

datatype kind = Tenants | Zones | Hypervisors | Instances | SecurityGroups | Networks
  | FloatingIPs | Subnets | Routers | Storages | Volumes

type_synonym targets = "kind \<Rightarrow> nat set"

definition only :: "kind \<Rightarrow> nat set \<Rightarrow> targets" where
  "only k s = (\<lambda>j. if j = k then s else {})"

lemma only_apply [simp]: "only k s j = (if j = k then s else {})"
  by (simp add: only_def)

definition without_ip :: "nat set \<Rightarrow> cluster_instance_network \<Rightarrow> cluster_instance_network" where
  "without_ip s r = (case inw_cluster_floating_ip_id r of
     None \<Rightarrow> r | Some f \<Rightarrow> if f \<in> s then r\<lparr>inw_cluster_floating_ip_id := None\<rparr> else r)"

definition purge :: "targets \<Rightarrow> database \<Rightarrow> database" where
  "purge T db = db\<lparr>
     db_tenant := filter (\<lambda>r. tn_id r \<notin> T Tenants) (db_tenant db),
     db_quota := filter (\<lambda>r. qt_cluster_tenant_id r \<notin> T Tenants) (db_quota db),
     db_availability_zone := filter (\<lambda>r. az_id r \<notin> T Zones) (db_availability_zone db),
     db_hypervisor := filter (\<lambda>r. hv_id r \<notin> T Hypervisors) (db_hypervisor db),
     db_instance := filter (\<lambda>r. ins_id r \<notin> T Instances) (db_instance db),
     db_instance_network := map (without_ip (T FloatingIPs))
       (filter (\<lambda>r. inw_cluster_instance_id r \<notin> T Instances \<and> inw_cluster_network_id r \<notin> T Networks \<and>
          inw_cluster_subnet_id r \<notin> T Subnets) (db_instance_network db)),
     db_instance_security_group := filter (\<lambda>r. isg_cluster_instance_id r \<notin> T Instances \<and>
       isg_cluster_security_group_id r \<notin> T SecurityGroups) (db_instance_security_group db),
     db_instance_volume := filter (\<lambda>r. ivol_cluster_instance_id r \<notin> T Instances \<and>
       ivol_cluster_volume_id r \<notin> T Volumes) (db_instance_volume db),
     db_instance_user_script := filter (\<lambda>r. us_cluster_instance_id r \<notin> T Instances)
       (db_instance_user_script db),
     db_security_group := filter (\<lambda>r. sg_id r \<notin> T SecurityGroups) (db_security_group db),
     db_security_group_rule := filter (\<lambda>r. sgr_security_group_id r \<notin> T SecurityGroups)
       (db_security_group_rule db),
     db_network := filter (\<lambda>r. nw_id r \<notin> T Networks) (db_network db),
     db_floating_ip := filter (\<lambda>r. fip_id r \<notin> T FloatingIPs) (db_floating_ip db),
     db_subnet := filter (\<lambda>r. sn_id r \<notin> T Subnets) (db_subnet db),
     db_nameserver := filter (\<lambda>r. ns_cluster_subnet_id r \<notin> T Subnets) (db_nameserver db),
     db_dhcp_pool := filter (\<lambda>r. dp_cluster_subnet_id r \<notin> T Subnets) (db_dhcp_pool db),
     db_router := filter (\<lambda>r. rt_id r \<notin> T Routers) (db_router db),
     db_routing_interface := filter (\<lambda>r. ri_cluster_router_id r \<notin> T Routers \<and>
       ri_cluster_subnet_id r \<notin> T Subnets) (db_routing_interface db),
     db_extra_route := filter (\<lambda>r. er_cluster_router_id r \<notin> T Routers) (db_extra_route db),
     db_storage := filter (\<lambda>r. st_id r \<notin> T Storages) (db_storage db),
     db_volume := filter (\<lambda>r. vol_id r \<notin> T Volumes) (db_volume db),
     db_volume_snapshot := filter (\<lambda>r. vs_cluster_volume_id r \<notin> T Volumes) (db_volume_snapshot db)\<rparr>"

lemma without_ip_simps [simp]:
  "inw_id (without_ip s r) = inw_id r"
  "inw_cluster_instance_id (without_ip s r) = inw_cluster_instance_id r"
  "inw_cluster_network_id (without_ip s r) = inw_cluster_network_id r"
  "inw_cluster_subnet_id (without_ip s r) = inw_cluster_subnet_id r"
  "without_ip {} r = r"
  by (simp_all add: without_ip_def split: option.split)

lemma without_ip_ip:
  "inw_cluster_floating_ip_id (without_ip s r) =
     (case inw_cluster_floating_ip_id r of None \<Rightarrow> None | Some f \<Rightarrow> if f \<in> s then None else Some f)"
  by (simp add: without_ip_def split: option.split)

lemma without_ip_union: "without_ip t (without_ip s r) = without_ip (s \<union> t) r"
  by (auto simp: without_ip_def split: option.split)

text \<open>Purging in steps is purging everything at once.\<close>

lemma purge_purge: "purge T (purge S db) = purge (sup S T) db"
proof -
  have nets: "map (without_ip t) (filter Q (map (without_ip s) (filter P rows)))
      = map (without_ip (s \<union> t)) (filter (\<lambda>r. P r \<and> Q r) rows)"
    if "\<And>r. Q (without_ip s r) = Q r" for s t P Q and rows :: "cluster_instance_network list"
    using that by (induction rows) (auto simp: without_ip_union)
  show ?thesis
    by (simp add: purge_def nets conj_ac)
qed

lemma purge_none: "purge (\<lambda>_. {}) db = db"
  by (simp add: purge_def map_idI)

text \<open>The tables of a purged database.\<close>

lemma purge_tables [simp]:
  "db_tenant (purge T db) = filter (\<lambda>r. tn_id r \<notin> T Tenants) (db_tenant db)"
  "db_quota (purge T db) = filter (\<lambda>r. qt_cluster_tenant_id r \<notin> T Tenants) (db_quota db)"
  "db_availability_zone (purge T db) = filter (\<lambda>r. az_id r \<notin> T Zones) (db_availability_zone db)"
  "db_hypervisor (purge T db) = filter (\<lambda>r. hv_id r \<notin> T Hypervisors) (db_hypervisor db)"
  "db_instance (purge T db) = filter (\<lambda>r. ins_id r \<notin> T Instances) (db_instance db)"
  "db_instance_network (purge T db) = map (without_ip (T FloatingIPs)) (filter (\<lambda>r. inw_cluster_instance_id r \<notin> T Instances \<and> inw_cluster_network_id r \<notin> T Networks \<and> inw_cluster_subnet_id r \<notin> T Subnets) (db_instance_network db))"
  "db_instance_security_group (purge T db) = filter (\<lambda>r. isg_cluster_instance_id r \<notin> T Instances \<and> isg_cluster_security_group_id r \<notin> T SecurityGroups) (db_instance_security_group db)"
  "db_instance_volume (purge T db) = filter (\<lambda>r. ivol_cluster_instance_id r \<notin> T Instances \<and> ivol_cluster_volume_id r \<notin> T Volumes) (db_instance_volume db)"
  "db_instance_user_script (purge T db) = filter (\<lambda>r. us_cluster_instance_id r \<notin> T Instances) (db_instance_user_script db)"
  "db_security_group (purge T db) = filter (\<lambda>r. sg_id r \<notin> T SecurityGroups) (db_security_group db)"
  "db_security_group_rule (purge T db) = filter (\<lambda>r. sgr_security_group_id r \<notin> T SecurityGroups) (db_security_group_rule db)"
  "db_network (purge T db) = filter (\<lambda>r. nw_id r \<notin> T Networks) (db_network db)"
  "db_floating_ip (purge T db) = filter (\<lambda>r. fip_id r \<notin> T FloatingIPs) (db_floating_ip db)"
  "db_subnet (purge T db) = filter (\<lambda>r. sn_id r \<notin> T Subnets) (db_subnet db)"
  "db_nameserver (purge T db) = filter (\<lambda>r. ns_cluster_subnet_id r \<notin> T Subnets) (db_nameserver db)"
  "db_dhcp_pool (purge T db) = filter (\<lambda>r. dp_cluster_subnet_id r \<notin> T Subnets) (db_dhcp_pool db)"
  "db_router (purge T db) = filter (\<lambda>r. rt_id r \<notin> T Routers) (db_router db)"
  "db_routing_interface (purge T db) = filter (\<lambda>r. ri_cluster_router_id r \<notin> T Routers \<and> ri_cluster_subnet_id r \<notin> T Subnets) (db_routing_interface db)"
  "db_extra_route (purge T db) = filter (\<lambda>r. er_cluster_router_id r \<notin> T Routers) (db_extra_route db)"
  "db_storage (purge T db) = filter (\<lambda>r. st_id r \<notin> T Storages) (db_storage db)"
  "db_volume (purge T db) = filter (\<lambda>r. vol_id r \<notin> T Volumes) (db_volume db)"
  "db_volume_snapshot (purge T db) = filter (\<lambda>r. vs_cluster_volume_id r \<notin> T Volumes) (db_volume_snapshot db)"
  by (simp_all add: purge_def)

section \<open>The specs\<close>

text \<open>
  Deleting an instance may synchronise its spec with the cluster, which changes only the tables
  of specs. \<open>core\<close> forgets these two tables.
\<close>

definition core :: "database \<Rightarrow> database" where
  "core db = db\<lparr>db_instance_spec := [], db_extra_spec := []\<rparr>"

lemma core_purge: "core (purge T db) = purge T (core db)"
  by (simp add: core_def purge_def)

lemma core_core [simp]: "core (core db) = core db"
  by (simp add: core_def)

section \<open>Well-formed databases\<close>

text \<open>
  What the deletions rely on and the database guarantees: identifiers are not zero (they come
  from sequences that start at one), the primary keys of the tables that are deleted from row
  by row are unique, and the volume of an attachment exists.
\<close>

definition wf_db :: "database \<Rightarrow> bool" where
  "wf_db db \<longleftrightarrow>
     (\<forall>r \<in> set (db_hypervisor db). hv_id r \<noteq> 0) \<and>
     (\<forall>r \<in> set (db_instance db). ins_id r \<noteq> 0) \<and>
     (\<forall>r \<in> set (db_security_group db). sg_id r \<noteq> 0) \<and>
     (\<forall>r \<in> set (db_security_group_rule db). sgr_id r \<noteq> 0) \<and>
     (\<forall>r \<in> set (db_network db). nw_id r \<noteq> 0) \<and>
     (\<forall>r \<in> set (db_floating_ip db). fip_id r \<noteq> 0) \<and>
     (\<forall>r \<in> set (db_subnet db). sn_id r \<noteq> 0) \<and>
     (\<forall>r \<in> set (db_router db). rt_id r \<noteq> 0) \<and>
     (\<forall>r \<in> set (db_volume db). vol_id r \<noteq> 0) \<and>
     (\<forall>r \<in> set (db_volume_snapshot db). vs_id r \<noteq> 0) \<and>
     (\<forall>r \<in> set (db_instance_network db). inw_id r \<noteq> 0) \<and>
     (\<forall>r \<in> set (db_instance_volume db). ivol_cluster_instance_id r \<noteq> 0) \<and>
     (\<forall>r \<in> set (db_instance_security_group db). isg_cluster_instance_id r \<noteq> 0) \<and>
     (\<forall>r \<in> set (db_instance_user_script db). us_cluster_instance_id r \<noteq> 0) \<and>
     (\<forall>r \<in> set (db_routing_interface db). ri_cluster_router_id r \<noteq> 0) \<and>
     distinct (map inw_id (db_instance_network db)) \<and>
     distinct (map vs_id (db_volume_snapshot db)) \<and>
     distinct (map sgr_id (db_security_group_rule db)) \<and>
     (\<forall>r \<in> set (db_instance_volume db). \<exists>v \<in> set (db_volume db). vol_id v = ivol_cluster_volume_id r)"

lemma wf_ids:
  assumes "wf_db db"
  shows "r1 \<in> set (db_hypervisor db) \<Longrightarrow> hv_id r1 \<noteq> 0" "r2 \<in> set (db_instance db) \<Longrightarrow> ins_id r2 \<noteq> 0"
    "r3 \<in> set (db_security_group db) \<Longrightarrow> sg_id r3 \<noteq> 0" "r4 \<in> set (db_network db) \<Longrightarrow> nw_id r4 \<noteq> 0"
    "r5 \<in> set (db_floating_ip db) \<Longrightarrow> fip_id r5 \<noteq> 0" "r6 \<in> set (db_subnet db) \<Longrightarrow> sn_id r6 \<noteq> 0"
    "r7 \<in> set (db_router db) \<Longrightarrow> rt_id r7 \<noteq> 0" "r8 \<in> set (db_volume db) \<Longrightarrow> vol_id r8 \<noteq> 0"
  using assms by (simp_all add: wf_db_def)

lemma wf_core [simp]: "wf_db (core db) = wf_db db"
  by (simp add: wf_db_def core_def)

lemma wf_core_cong: "core d = core db \<Longrightarrow> wf_db d = wf_db db"
  by (metis wf_core)

lemma inw_id_without_ip [simp]: "inw_id \<circ> without_ip s = inw_id"
  by (simp add: fun_eq_iff)

lemma wf_purge [simp]: "wf_db db \<Longrightarrow> wf_db (purge T db)"
proof -
  assume wf_db: "wf_db db"
  have "\<exists>v \<in> set (db_volume db). vol_id v \<notin> T Volumes \<and> vol_id v = ivol_cluster_volume_id r"
    if "r \<in> set (db_instance_volume db)" and "ivol_cluster_volume_id r \<notin> T Volumes" for r
    using wf_db that unfolding wf_db_def by metis
  then show ?thesis
    using wf_db unfolding wf_db_def
    by (elim conjE, intro conjI) (simp_all add: purge_def distinct_map_filter Bex_def)
qed

end
