(* ===== verification/Cascade.thy ===== *)
theory Cascade
  imports Purge
begin

text \<open>
  The deletions implement their specification: without failures each of them purges its target
  and everything that depends on it. The steps are stated on cores: \<open>settles m c c'\<close> says that
  \<open>m\<close> takes every database with core \<open>c\<close> to one with core \<open>c'\<close> and returns no error.
\<close>

definition settles :: "err option op \<Rightarrow> database \<Rightarrow> database \<Rightarrow> bool" where
  "settles m c c' \<longleftrightarrow> (\<forall>db. core db = c \<longrightarrow> yields m db (\<lambda>d. core d = c'))"

lemma settlesI: "(\<And>db. core db = c \<Longrightarrow> yields m db (\<lambda>d. core d = c')) \<Longrightarrow> settles m c c'"
  by (simp add: settles_def)

lemma settlesD: "settles m (core db) c' \<Longrightarrow> yields m db (\<lambda>d. core d = c')"
  by (simp add: settles_def)

lemma settles_return_nil: "settles return_nil c c"
  by (simp add: settles_def yields_return_nil)

lemma settles_check: "settles m c c1 \<Longrightarrow> settles k c1 c' \<Longrightarrow> settles (check m k) c c'"
  by (auto simp: settles_def intro: yields_check)

lemma settles_announce: "settles k c c' \<Longrightarrow> settles (announce s t rows k) c c'"
  by (simp add: settles_def yields_announce)

lemma settles_clear_shared_task: "settles k c c' \<Longrightarrow> settles (ignoring (clear_shared_task i j u t) k) c c'"
  by (simp add: settles_def yields_clear_shared_task)

text \<open>A query of tables other than those of specs reads the core.\<close>

lemma settles_fetch:
  assumes "reads m f" and "\<And>db. f (core db) = f db" and "settles (k (f c)) c c'"
  shows "settles (fetch m k) c c'"
proof (rule settlesI)
  fix db assume "core db = c"
  with assms(2) have "f c = f db" by blast
  with assms(1,3) \<open>core db = c\<close> show "yields (fetch m k) db (\<lambda>d. core d = c')"
    by (auto intro!: yields_fetch simp: settles_def)
qed

text \<open>A step that is a function of the database which respects the core.\<close>

lemma settles_yields:
  assumes "\<And>db. yields m db (\<lambda>d. d = g db)" and "\<And>db. core (g db) = g (core db)"
  shows "settles m c (g c)"
  using assms by (auto simp: settles_def intro!: yields_mono [OF assms(1)])

definition on_core :: "(database \<Rightarrow> string + database) \<Rightarrow> bool" where
  "on_core q \<longleftrightarrow> (\<forall>db. q (core db) = map_sum (\<lambda>m. m) core (q db))"

lemma apply_all_core:
  "\<forall>q \<in> set qs. on_core q \<Longrightarrow> apply_all qs (core db) = map_sum (\<lambda>m. m) core (apply_all qs db)"
proof (induction qs arbitrary: db)
  case Nil
  then show ?case by simp
next
  case (Cons q qs)
  then show ?case by (cases "q db") (simp_all add: on_core_def)
qed

lemma settles_transact:
  assumes "\<forall>q \<in> set qs. on_core q" and "apply_all qs c = Inr c'"
  shows "settles (transact qs) c c'" "settles (gorm_transaction (exec_all qs)) c c'"
proof -
  have run: "\<exists>d. apply_all qs db = Inr d \<and> core d = c'" if "core db = c" for db
    using apply_all_core [OF assms(1), of db] assms(2) that by (cases "apply_all qs db") auto
  show "settles (transact qs) c c'"
    by (rule settlesI) (use run in \<open>blast intro: yields_transact\<close>)
  show "settles (gorm_transaction (exec_all qs)) c c'"
    by (rule settlesI) (use run in \<open>blast intro: yields_gorm_transaction\<close>)
qed

named_theorems on_core_intros "statements that leave the tables of specs alone"

lemma on_core_delete [on_core_intros]:
  "on_core (delete_volume_rows P0)"
  "on_core (delete_volume_snapshot_rows P1)"
  "on_core (delete_instance_volume_rows P2)"
  "on_core (delete_instance_network_rows P3)"
  "on_core (delete_instance_security_group_rows P4)"
  "on_core (delete_instance_user_script_rows P5)"
  "on_core (delete_instance_rows P6)"
  "on_core (delete_security_group_rule_rows P7)"
  "on_core (delete_security_group_rows P8)"
  "on_core (delete_floating_ip_rows P9)"
  "on_core (delete_routing_interface_rows P10)"
  "on_core (delete_extra_route_rows P11)"
  "on_core (delete_router_rows P12)"
  "on_core (delete_nameserver_rows P13)"
  "on_core (delete_dhcp_pool_rows P14)"
  "on_core (delete_subnet_rows P15)"
  "on_core (delete_network_rows P16)"
  "on_core (delete_hypervisor_rows P17)"
  "on_core (delete_availability_zone_rows P18)"
  "on_core (delete_quota_rows P19)"
  "on_core (delete_tenant_rows P20)"
  "on_core (delete_storage_rows P21)"
  by (simp_all add: on_core_def core_def delete_from_def delete_rows_defs referenced_defs)

lemmas settles_steps = settles_announce settles_clear_shared_task settles_return_nil

section \<open>Dependent rows\<close>

text \<open>
  The loops delete by key the rows that were found. They delete exactly those rows when the
  key decides what was looked for.
\<close>

lemma delete_found:
  assumes "\<And>x r. x \<in> set rows \<Longrightarrow> r \<in> set rows \<Longrightarrow> P x \<Longrightarrow> key r = key x \<Longrightarrow> P r"
  shows "filter (\<lambda>r. \<forall>x \<in> set (filter P rows). key r \<noteq> key x) rows = filter (\<lambda>r. \<not> P r) rows"
proof (rule filter_cong [OF refl])
  fix r assume r: "r \<in> set rows"
  have "P r" if "x \<in> set rows" "P x" "key r = key x" for x
    using assms [OF that(1) r that(2,3)] .
  then show "(\<forall>x \<in> set (filter P rows). key r \<noteq> key x) = (\<not> P r)"
    using r by auto
qed

lemma wf_key:
  assumes "wf_db c"
  shows "x \<in> set (db_instance_network c) \<Longrightarrow> r \<in> set (db_instance_network c) \<Longrightarrow> inw_id r = inw_id x \<Longrightarrow> r = x"
    and "y \<in> set (db_volume_snapshot c) \<Longrightarrow> q \<in> set (db_volume_snapshot c) \<Longrightarrow> vs_id q = vs_id y \<Longrightarrow> q = y"
    and "z \<in> set (db_security_group_rule c) \<Longrightarrow> p \<in> set (db_security_group_rule c) \<Longrightarrow> sgr_id p = sgr_id z \<Longrightarrow> p = z"
  using assms by (auto simp: wf_db_def distinct_map inj_on_def)

lemma settles_detach_networks:
  assumes "wf_db c"
  shows "settles (for_err (delete_instance_network s) (filter P (db_instance_network c))) c
    (c\<lparr>db_instance_network := filter (\<lambda>r. \<not> P r) (db_instance_network c)\<rparr>)"
proof -
  let ?ns = "filter P (db_instance_network c)"
  have nz: "\<forall>n \<in> set ?ns. inw_id n \<noteq> 0" using assms by (simp add: wf_db_def)
  have "filter (\<lambda>r. \<forall>n \<in> set ?ns. inw_id r \<noteq> inw_id n) (db_instance_network c)
      = filter (\<lambda>r. \<not> P r) (db_instance_network c)"
    by (rule delete_found) (use wf_key(1) [OF assms] in blast)
  then show ?thesis
    using settles_yields [OF yields_delete_instance_networks [OF nz, of s], of c]
    by (simp add: core_def)
qed

lemma settles_delete_snapshots:
  assumes "wf_db c"
  shows "settles (for_err (delete_volume_snapshot s v) (filter P (db_volume_snapshot c))) c
    (c\<lparr>db_volume_snapshot := filter (\<lambda>r. \<not> P r) (db_volume_snapshot c)\<rparr>)"
proof -
  let ?ns = "filter P (db_volume_snapshot c)"
  have nz: "\<forall>n \<in> set ?ns. vs_id n \<noteq> 0" using assms by (simp add: wf_db_def)
  have "filter (\<lambda>r. \<forall>n \<in> set ?ns. vs_id r \<noteq> vs_id n) (db_volume_snapshot c)
      = filter (\<lambda>r. \<not> P r) (db_volume_snapshot c)"
    by (rule delete_found) (use wf_key(2) [OF assms] in blast)
  then show ?thesis
    using settles_yields [OF yields_delete_volume_snapshots [OF nz, of s v], of c]
    by (simp add: core_def)
qed

lemma settles_delete_rules:
  assumes "wf_db c"
  shows "settles (for_err (delete_security_group_rule s) (filter P (db_security_group_rule c))) c
    (c\<lparr>db_security_group_rule := filter (\<lambda>r. \<not> P r) (db_security_group_rule c)\<rparr>)"
proof -
  let ?ns = "filter P (db_security_group_rule c)"
  have nz: "\<forall>n \<in> set ?ns. sgr_id n \<noteq> 0" using assms by (simp add: wf_db_def)
  have "filter (\<lambda>r. \<forall>n \<in> set ?ns. sgr_id r \<noteq> sgr_id n) (db_security_group_rule c)
      = filter (\<lambda>r. \<not> P r) (db_security_group_rule c)"
    by (rule delete_found) (use wf_key(3) [OF assms] in blast)
  then show ?thesis
    using settles_yields [OF yields_delete_security_group_rules [OF nz, of s], of c]
    by (simp add: core_def)
qed

lemma settles_detach_volumes:
  assumes "wf_db c"
  shows "settles (for_err (delete_instance_volume s v)
      (filter (\<lambda>r. Q (ivol_cluster_volume_id r)) (db_instance_volume c))) c
    (c\<lparr>db_instance_volume := filter (\<lambda>r. \<not> Q (ivol_cluster_volume_id r)) (db_instance_volume c)\<rparr>)"
proof -
  let ?ns = "filter (\<lambda>r. Q (ivol_cluster_volume_id r)) (db_instance_volume c)"
  have nz: "\<forall>n \<in> set ?ns. ivol_cluster_instance_id n \<noteq> 0" using assms by (simp add: wf_db_def)
  have "filter (\<lambda>r. \<forall>n \<in> set ?ns. (ivol_cluster_instance_id r, ivol_cluster_volume_id r) \<noteq>
        (ivol_cluster_instance_id n, ivol_cluster_volume_id n)) (db_instance_volume c)
      = filter (\<lambda>r. \<not> Q (ivol_cluster_volume_id r)) (db_instance_volume c)"
    by (rule delete_found) auto
  then show ?thesis
    using settles_yields [OF yields_delete_instance_volumes [OF nz, of s v], of c]
    by (simp only: core_def) simp
qed

lemma settles_delete_interfaces:
  assumes "wf_db c" and "\<And>x r. P x \<Longrightarrow> ri_cluster_router_id r = ri_cluster_router_id x \<Longrightarrow>
    ri_cluster_subnet_id r = ri_cluster_subnet_id x \<Longrightarrow> P r"
  shows "settles (for_err (delete_routing_interface s) (filter P (db_routing_interface c))) c
    (c\<lparr>db_routing_interface := filter (\<lambda>r. \<not> P r) (db_routing_interface c)\<rparr>)"
proof -
  let ?ns = "filter P (db_routing_interface c)"
  have nz: "\<forall>n \<in> set ?ns. ri_cluster_router_id n \<noteq> 0" using assms(1) by (simp add: wf_db_def)
  have "filter (\<lambda>r. \<forall>n \<in> set ?ns. (ri_cluster_router_id r, ri_cluster_subnet_id r) \<noteq>
        (ri_cluster_router_id n, ri_cluster_subnet_id n)) (db_routing_interface c)
      = filter (\<lambda>r. \<not> P r) (db_routing_interface c)"
    by (rule delete_found) (use assms(2) in auto)
  then show ?thesis
    using settles_yields [OF yields_delete_routing_interfaces [OF nz, of s], of c]
    by (simp only: core_def) simp
qed

lemma settles_leave_groups:
  assumes "wf_db c" and "\<And>x r. P x \<Longrightarrow> isg_cluster_instance_id r = isg_cluster_instance_id x \<Longrightarrow>
    isg_cluster_security_group_id r = isg_cluster_security_group_id x \<Longrightarrow> P r"
  shows "settles (for_err (\<lambda>g. gorm_transaction (exec_all [delete_instance_security_group g]))
      (filter P (db_instance_security_group c))) c
    (c\<lparr>db_instance_security_group := filter (\<lambda>r. \<not> P r) (db_instance_security_group c)\<rparr>)"
proof -
  let ?ns = "filter P (db_instance_security_group c)"
  have nz: "\<forall>n \<in> set ?ns. isg_cluster_instance_id n \<noteq> 0" using assms(1) by (simp add: wf_db_def)
  have "filter (\<lambda>r. \<forall>n \<in> set ?ns. (isg_cluster_instance_id r, isg_cluster_security_group_id r) \<noteq>
        (isg_cluster_instance_id n, isg_cluster_security_group_id n)) (db_instance_security_group c)
      = filter (\<lambda>r. \<not> P r) (db_instance_security_group c)"
    by (rule delete_found) (use assms(2) in auto)
  then show ?thesis
    using settles_yields [OF yields_delete_instance_security_groups [OF nz], of c]
    by (simp only: core_def) simp
qed

section \<open>Volumes, subnets, routers\<close>

lemma yields_volume_document:
  "R db \<Longrightarrow> yields (do { d \<leftarrow> get_volume c i; case d of Inl _ \<Rightarrow> return_nil | Inr x \<Rightarrow> delete_volume_document x }) db R"
  by (auto simp: yields_def get_volume_def load_quiet delete_volume_document_def erase_prefix_quiet return_nil_def
      split: option.split document.split)

lemma yields_storage_document:
  "R db \<Longrightarrow> yields (do { d \<leftarrow> get_storage c i; case d of Inl _ \<Rightarrow> return_nil | Inr x \<Rightarrow> delete_storage_document x }) db R"
  by (auto simp: yields_def get_storage_def load_quiet delete_storage_document_def erase_prefix_quiet return_nil_def
      split: option.split document.split)


text \<open>The tables of specs are the only ones a query of these functions does not read.\<close>

lemma core_tables [simp]:
  "db_instance_volume (core db) = db_instance_volume db" "db_volume_snapshot (core db) = db_volume_snapshot db"
  "db_volume (core db) = db_volume db" "db_storage (core db) = db_storage db"
  "db_instance (core db) = db_instance db" "db_instance_network (core db) = db_instance_network db"
  "db_instance_security_group (core db) = db_instance_security_group db"
  "db_instance_user_script (core db) = db_instance_user_script db"
  "db_security_group (core db) = db_security_group db"
  "db_security_group_rule (core db) = db_security_group_rule db"
  "db_network (core db) = db_network db" "db_subnet (core db) = db_subnet db"
  "db_floating_ip (core db) = db_floating_ip db" "db_router (core db) = db_router db"
  "db_routing_interface (core db) = db_routing_interface db"
  "db_hypervisor (core db) = db_hypervisor db" "db_availability_zone (core db) = db_availability_zone db"
  "db_tenant (core db) = db_tenant db"
  by (simp_all add: core_def)

lemmas unreferenced = delete_from_def list_ex_iff delete_rows_defs referenced_defs

lemma settles_volume_document:
  "settles (do { d \<leftarrow> get_volume a i; case d of Inl _ \<Rightarrow> return_nil | Inr x \<Rightarrow> delete_volume_document x }) c c"
  by (simp add: settles_def yields_volume_document)

lemma settles_storage_document:
  "settles (do { d \<leftarrow> get_storage a i; case d of Inl _ \<Rightarrow> return_nil | Inr x \<Rightarrow> delete_storage_document x }) c c"
  by (simp add: settles_def yields_storage_document)

lemma settles_delete_volume:
  assumes wf_db: "wf_db c" and nz: "vol_id v \<noteq> 0"
  shows "settles (delete_volume s v) c (purge (only Volumes {vol_id v}) c)"
proof -
  let ?c1 = "c\<lparr>db_instance_volume := filter (\<lambda>r. ivol_cluster_volume_id r \<noteq> vol_id v) (db_instance_volume c)\<rparr>"
  let ?c2 = "?c1\<lparr>db_volume_snapshot := filter (\<lambda>r. vs_cluster_volume_id r \<noteq> vol_id v) (db_volume_snapshot c)\<rparr>"
  have wf1: "wf_db ?c1" using wf_db by (simp add: wf_db_def)
  have 1: "settles (for_err (delete_instance_volume s v)
      (filter (\<lambda>r. cond_nat (vol_id v) (ivol_cluster_volume_id r)) (db_instance_volume c))) c ?c1"
    using settles_detach_volumes [OF wf_db, of s v "cond_nat (vol_id v)"] nz by simp
  have 2: "settles (for_err (delete_volume_snapshot s v)
      (filter (\<lambda>r. cond_nat (vol_id v) (vs_cluster_volume_id r)) (db_volume_snapshot c))) ?c1 ?c2"
    using settles_delete_snapshots [OF wf1, of s v "\<lambda>r. cond_nat (vol_id v) (vs_cluster_volume_id r)"] nz by simp
  have 3: "settles (transact [delete_volume_rows (\<lambda>r. cond_nat (vol_id v) (vol_id r))]) ?c2
      (purge (only Volumes {vol_id v}) c)"
    by (rule settles_transact)
      (use nz in \<open>auto simp: on_core_intros unreferenced purge_def map_idI\<close>)
  show ?thesis
    unfolding delete_volume_def
    by (rule settles_fetch, (rule reads_intros)+, simp, unfold prod.case)
      (rule settles_check [OF 1] settles_check [OF 2] settles_check [OF 3]
        settles_announce settles_volume_document)+
qed

end
