(* ===== verification/NetworkCascade.thy ===== *)
theory NetworkCascade
  imports Cascade
begin

text \<open>
  Deleting subnets, routers, security groups and floating IPs.
\<close>

section \<open>Subnets and routers\<close>

lemma settles_delete_subnet:
  assumes wf_db: "wf_db c" and nz: "sn_id sn \<noteq> 0"
  shows "settles (delete_subnet s sn) c (purge (only Subnets {sn_id sn}) c)"
proof -
  let ?c1 = "c\<lparr>db_instance_network := filter (\<lambda>r. inw_cluster_subnet_id r \<noteq> sn_id sn) (db_instance_network c)\<rparr>"
  let ?c2 = "?c1\<lparr>db_routing_interface := filter (\<lambda>r. ri_cluster_subnet_id r \<noteq> sn_id sn) (db_routing_interface c)\<rparr>"
  have wf1: "wf_db ?c1" using wf_db by (simp add: wf_db_def distinct_map_filter)
  have 1: "settles (for_err (delete_instance_network s)
      (filter (\<lambda>r. cond_nat (sn_id sn) (inw_cluster_subnet_id r)) (db_instance_network c))) c ?c1"
    using settles_detach_networks [OF wf_db, of s "\<lambda>r. cond_nat (sn_id sn) (inw_cluster_subnet_id r)"] nz by simp
  have 2: "settles (for_err (delete_routing_interface s)
      (filter (\<lambda>r. cond_nat (sn_id sn) (ri_cluster_subnet_id r)) (db_routing_interface c))) ?c1 ?c2"
    using settles_delete_interfaces [OF wf1, of "\<lambda>r. cond_nat (sn_id sn) (ri_cluster_subnet_id r)" s] nz by simp
  have 3: "settles (transact [
        delete_dhcp_pool_rows (\<lambda>r. cond_nat (sn_id sn) (dp_cluster_subnet_id r)),
        delete_nameserver_rows (\<lambda>r. cond_nat (sn_id sn) (ns_cluster_subnet_id r)),
        delete_subnet_rows (\<lambda>r. cond_nat (sn_id sn) (sn_id r))]) ?c2
      (purge (only Subnets {sn_id sn}) c)"
    by (rule settles_transact)
      (use nz in \<open>auto simp: on_core_intros unreferenced purge_def map_idI\<close>)
  show ?thesis
    unfolding delete_subnet_def
    by (rule settles_fetch, (rule reads_intros)+, simp, unfold prod.case)
      (rule settles_check [OF 1] settles_check [OF 2] settles_check [OF 3] settles_steps)+
qed

lemma settles_delete_router:
  assumes wf_db: "wf_db c" and nz: "rt_id r \<noteq> 0"
  shows "settles (delete_router s r) c (purge (only Routers {rt_id r}) c)"
proof -
  let ?c1 = "c\<lparr>db_routing_interface := filter (\<lambda>q. ri_cluster_router_id q \<noteq> rt_id r) (db_routing_interface c)\<rparr>"
  have 1: "settles (for_err (delete_routing_interface s)
      (filter (\<lambda>q. cond_nat (rt_id r) (ri_cluster_router_id q)) (db_routing_interface c))) c ?c1"
    using settles_delete_interfaces [OF wf_db, of "\<lambda>q. cond_nat (rt_id r) (ri_cluster_router_id q)" s] nz by simp
  have 2: "settles (transact [
        delete_extra_route_rows (\<lambda>q. cond_nat (rt_id r) (er_cluster_router_id q)),
        delete_router_rows (\<lambda>q. cond_nat (rt_id r) (rt_id q))]) ?c1
      (purge (only Routers {rt_id r}) c)"
    by (rule settles_transact)
      (use nz in \<open>auto simp: on_core_intros unreferenced purge_def map_idI\<close>)
  show ?thesis
    unfolding delete_router_def
    by (rule settles_fetch, (rule reads_intros)+, simp)
      (rule settles_check [OF 1] settles_check [OF 2] settles_steps)+
qed

section \<open>Security groups\<close>

text \<open>
  The rules of other groups that name a group as their remote group are not deleted with it;
  \<open>unnamed\<close> says that there are none.
\<close>

definition unnamed :: "nat \<Rightarrow> database \<Rightarrow> bool" where
  "unnamed g db \<longleftrightarrow> (\<forall>r \<in> set (db_security_group_rule db).
     sgr_remote_security_group_id r = Some g \<longrightarrow> sgr_security_group_id r = g)"

lemma settles_execute_exec:
  assumes "on_core q" and "q c = Inr c'"
  shows "settles (db_err (execute_err (exec q))) c c'"
proof (rule settlesI)
  fix db assume c: "core db = c"
  have "map_sum (\<lambda>m. m) core (q db) = Inr c'" using assms c by (auto simp: on_core_def)
  then obtain d where "q db = Inr d" "core d = c'" by (cases "q db") auto
  then show "yields (db_err (execute_err (exec q))) db (\<lambda>d. core d = c')"
    by (auto simp: yields_def db_err_def execute_err_def exec_quiet)
qed

lemma settles_delete_security_group:
  assumes wf_db: "wf_db c" and nz: "sg_id g \<noteq> 0" and un: "unnamed (sg_id g) c"
  shows "settles (delete_security_group s g) c (purge (only SecurityGroups {sg_id g}) c)"
proof -
  let ?c1 = "c\<lparr>db_instance_security_group :=
     filter (\<lambda>r. isg_cluster_security_group_id r \<noteq> sg_id g) (db_instance_security_group c)\<rparr>"
  let ?c2 = "?c1\<lparr>db_security_group_rule := filter (\<lambda>r. sgr_security_group_id r \<noteq> sg_id g) (db_security_group_rule c)\<rparr>"
  have wf1: "wf_db ?c1" using wf_db by (simp add: wf_db_def)
  have 1: "settles (for_err (\<lambda>i. gorm_transaction (exec_all [delete_instance_security_group i]))
      (filter (\<lambda>r. cond_nat (sg_id g) (isg_cluster_security_group_id r)) (db_instance_security_group c))) c ?c1"
    using settles_leave_groups [OF wf_db, of "\<lambda>r. cond_nat (sg_id g) (isg_cluster_security_group_id r)"] nz by simp
  have 2: "settles (for_err (delete_security_group_rule s)
      (filter (\<lambda>r. cond_nat (sg_id g) (sgr_security_group_id r)) (db_security_group_rule c))) ?c1 ?c2"
    using settles_delete_rules [OF wf1, of s "\<lambda>r. cond_nat (sg_id g) (sgr_security_group_id r)"] nz by simp
  have 3: "settles (db_err (execute_err (exec (delete_security_group_rows (\<lambda>r. cond_nat (sg_id g) (sg_id r)))))) ?c2
      (purge (only SecurityGroups {sg_id g}) c)"
    by (rule settles_execute_exec)
      (use nz un in \<open>auto simp: on_core_intros unreferenced purge_def map_idI unnamed_def\<close>)
  show ?thesis
    unfolding delete_security_group_def
    by (rule settles_fetch, (rule reads_intros)+, simp, unfold prod.case)
      (rule settles_check [OF 1] settles_check [OF 2] settles_check [OF 3] settles_steps)+
qed

section \<open>Floating IPs\<close>

lemma saved_network:
  assumes "distinct (map inw_id rows)" and "n \<in> set rows"
  shows "save_into inw_id (\<lambda>old r. points_to inw_cluster_instance_id ins_id a old r \<and>
      points_to inw_cluster_network_id nw_id b old r \<and>
      points_to inw_cluster_subnet_id sn_id e old r \<and>
      may_point_to inw_cluster_floating_ip_id fip_id f old r) (n\<lparr>inw_cluster_floating_ip_id := None\<rparr>) rows
    = Inr (map (\<lambda>r. if inw_id r = inw_id n then r\<lparr>inw_cluster_floating_ip_id := None\<rparr> else r) rows)"
proof -
  have same: "r = n" if "r \<in> set rows" "inw_id r = inw_id n" for r
    using assms that by (auto simp: distinct_map inj_on_def)
  have "List.find (\<lambda>r. inw_id r = inw_id n) rows = Some n"
  proof (cases "List.find (\<lambda>r. inw_id r = inw_id n) rows")
    case None
    then show ?thesis using assms(2) by (auto simp: find_None_iff)
  next
    case (Some x)
    then show ?thesis using same [of x] by (auto simp: find_Some_iff)
  qed
  then show ?thesis
    using same by (auto simp: save_into_def points_to_def may_point_to_def changed_def)
qed

lemma yields_saving:
  assumes "i \<noteq> 0" and "q i db = Inr d" and "yields (k i) d R"
  shows "yields (saving i q k) db R"
  using assms by (auto simp: yields_def saving_def gorm_save_quiet Let_def)

definition cut_ip :: "nat set \<Rightarrow> database \<Rightarrow> database" where
  "cut_ip ids db = db\<lparr>db_instance_network := map (\<lambda>r. if inw_id r \<in> ids
     then r\<lparr>inw_cluster_floating_ip_id := None\<rparr> else r) (db_instance_network db)\<rparr>"

lemma yields_cut_ip:
  assumes "distinct (map inw_id (db_instance_network db))"
    and "inw_id n \<noteq> 0" and "n \<in> set (db_instance_network db)"
  shows "yields (delete_instance_network_floating_ip s n) db (\<lambda>d. d = cut_ip {inw_id n} db)"
proof -
  have "save_instance_network (n\<lparr>inw_cluster_floating_ip_id := None, inw_id := inw_id n\<rparr>) db
      = Inr (cut_ip {inw_id n} db)"
    by (simp add: save_instance_network_def cut_ip_def saved_network [OF assms(1,3)])
  then show ?thesis
    unfolding delete_instance_network_floating_ip_def Let_def
    by (intro yields_saving [OF assms(2)]) (auto intro: yields_announce yields_return_nil)
qed

lemma yields_cut_ips:
  assumes "distinct (map inw_id (db_instance_network db))" and "distinct (map inw_id ns)"
    and "\<forall>n \<in> set ns. inw_id n \<noteq> 0 \<and> n \<in> set (db_instance_network db)"
  shows "yields (for_err (delete_instance_network_floating_ip s) ns) db (\<lambda>d. d = cut_ip (inw_id ` set ns) db)"
  using assms
proof (induction ns arbitrary: db)
  case Nil
  then show ?case by (simp add: yields_def cut_ip_def map_idI)
next
  case (Cons n ns)
  let ?db = "cut_ip {inw_id n} db"
  have "\<forall>x \<in> set ns. inw_id x \<noteq> 0 \<and> x \<in> set (db_instance_network ?db)"
  proof
    fix x assume x: "x \<in> set ns"
    then have "inw_id x \<in> set (map inw_id ns)" by simp
    with Cons.prems(2) have "inw_id x \<noteq> inw_id n" by (metis distinct.simps(2) list.simps(9))
    then show "inw_id x \<noteq> 0 \<and> x \<in> set (db_instance_network ?db)"
      using Cons.prems(3) x by (force simp: cut_ip_def image_iff)
  qed
  moreover have "map inw_id (db_instance_network ?db) = map inw_id (db_instance_network db)"
    by (simp add: cut_ip_def)
  ultimately have "yields (for_err (delete_instance_network_floating_ip s) ns) ?db
      (\<lambda>d. d = cut_ip (inw_id ` set ns) ?db)"
    using Cons.IH [of ?db] Cons.prems(1,2) by simp
  moreover have "cut_ip (inw_id ` set ns) ?db = cut_ip (inw_id ` set (n # ns)) db"
    by (simp add: cut_ip_def)
  ultimately have "yields (check (delete_instance_network_floating_ip s n)
      (for_err (delete_instance_network_floating_ip s) ns)) db
      (\<lambda>d. d = cut_ip (inw_id ` set (n # ns)) db)"
    using yields_cut_ip [of db n s] Cons.prems by (intro yields_check_eq) auto
  then show ?case by (simp add: check_def)
qed

lemma settles_delete_floating_ip:
  assumes wf_db: "wf_db c" and nz: "fip_id f \<noteq> 0"
  shows "settles (delete_floating_ip s f) c (purge (only FloatingIPs {fip_id f}) c)"
proof -
  let ?ns = "filter (\<lambda>r. inw_cluster_floating_ip_id r = Some (fip_id f)) (db_instance_network c)"
  let ?c1 = "cut_ip (inw_id ` set ?ns) c"
  have 1: "settles (for_err (delete_instance_network_floating_ip s) ?ns) c ?c1"
  proof (rule settlesI)
    fix db assume c: "core db = c"
    have "db_instance_network c = db_instance_network db" using c by auto
    then have "yields (for_err (delete_instance_network_floating_ip s) ?ns) db
        (\<lambda>d. d = cut_ip (inw_id ` set ?ns) db)"
      using wf_db by (intro yields_cut_ips) (auto simp: wf_db_def distinct_map_filter)
    then show "yields (for_err (delete_instance_network_floating_ip s) ?ns) db (\<lambda>d. core d = ?c1)"
      by (rule yields_mono) (use c in \<open>auto simp: cut_ip_def core_def\<close>)
  qed
  have nets: "db_instance_network ?c1 = map (without_ip {fip_id f}) (db_instance_network c)"
  proof -
    have "inw_id r \<in> inw_id ` set ?ns \<longleftrightarrow> inw_cluster_floating_ip_id r = Some (fip_id f)"
      if r: "r \<in> set (db_instance_network c)" for r
    proof
      assume "inw_id r \<in> inw_id ` set ?ns"
      then obtain x where x: "x \<in> set (db_instance_network c)" "inw_id r = inw_id x"
        "inw_cluster_floating_ip_id x = Some (fip_id f)" by auto
      then show "inw_cluster_floating_ip_id r = Some (fip_id f)" using wf_key(1) [OF wf_db x(1) r] by simp
    qed (use r in simp)
    then show ?thesis by (auto simp: cut_ip_def without_ip_def split: option.split)
  qed
  have 2: "settles (transact [delete_floating_ip_rows (\<lambda>r. cond_nat (fip_id f) (fip_id r))]) ?c1
      (purge (only FloatingIPs {fip_id f}) c)"
  proof (rule settles_transact)
    have "?c1 = c\<lparr>db_instance_network := map (without_ip {fip_id f}) (db_instance_network c)\<rparr>"
      using nets by (simp add: cut_ip_def)
    then show "apply_all [delete_floating_ip_rows (\<lambda>r. cond_nat (fip_id f) (fip_id r))] ?c1
        = Inr (purge (only FloatingIPs {fip_id f}) c)"
      using nz by (auto simp: unreferenced purge_def without_ip_ip split: option.splits if_splits)
  qed (simp add: on_core_intros)
  show ?thesis
    unfolding delete_floating_ip_def
    by (rule settles_fetch, (rule reads_intros)+, simp)
      (rule settles_check [OF 1] settles_check [OF 2] settles_steps)+
qed

end
