(* ===== verification/InstanceCascade.thy ===== *)
theory InstanceCascade
  imports NetworkCascade
begin

text \<open>
  Deleting instances: the specs that are synchronised at the end change nothing but the tables
  of specs, whatever the cluster answers.
\<close>

section \<open>Synchronising a spec\<close>

definition at_core :: "database \<Rightarrow> world \<Rightarrow> bool" where
  "at_core c w \<longleftrightarrow> quiet w \<and> core (w_db w) = c"

definition spec_statement :: "(database \<Rightarrow> string + database) \<Rightarrow> bool" where
  "spec_statement q \<longleftrightarrow> (\<forall>db d. q db = Inr d \<longrightarrow> core d = core db)"

lemma spec_statements [simp]:
  "spec_statement (delete_extra_spec_rows P)" "spec_statement (delete_instance_spec_rows Q)"
  "spec_statement (save_extra_spec x)" "spec_statement (save_instance_spec y)"
  by (auto simp: spec_statement_def delete_extra_spec_rows_def delete_instance_spec_rows_def
      save_extra_spec_def save_instance_spec_def core_def map_sum_def split: sum.splits)

lemma spec_statement_core: "spec_statement q \<Longrightarrow> q db = Inr d \<Longrightarrow> core d = core db"
  by (simp add: spec_statement_def)

lemma keeps_ask [keeps_intros]: "keeps (at_core c) (ask f)"
  by (simp add: keeps_def at_core_def)

lemma keeps_publish [keeps_intros]: "keeps (at_core c) (publish e)"
  by (simp add: keeps_def at_core_def publish_quiet)

lemma keeps_clear_shared_task [keeps_intros]: "keeps (at_core c) (clear_shared_task i j u t)"
  by (simp add: keeps_def at_core_def)

lemma keeps_find_rows [keeps_intros]: "keeps (at_core c) (find_rows sel)"
  by (simp add: keeps_def at_core_def find_rows_quiet)

lemma keeps_first_row [keeps_intros]: "keeps (at_core c) (first_row key sel)"
  by (simp add: keeps_def at_core_def first_row_quiet)

lemma keeps_execute [keeps_intros]: "keeps P m \<Longrightarrow> keeps P (execute m)"
  by (simp add: execute_def keeps_intros)

lemma keeps_db_res [keeps_intros]: "keeps P m \<Longrightarrow> keeps P (db_res m)"
  by (simp add: db_res_def keeps_intros)

lemma keeps_db_err [keeps_intros]: "keeps P m \<Longrightarrow> keeps P (db_err m)"
  by (simp add: db_err_def keeps_intros)

lemma keeps_check [keeps_intros]: "keeps P m \<Longrightarrow> keeps P k \<Longrightarrow> keeps P (check m k)"
  by (auto simp: check_def intro!: keeps_intros)

lemma keeps_fetch [keeps_intros]: "keeps P m \<Longrightarrow> (\<And>x. keeps P (k x)) \<Longrightarrow> keeps P (fetch m k)"
  by (auto simp: fetch_def intro!: keeps_intros)

lemma keeps_ignoring [keeps_intros]: "keeps P m \<Longrightarrow> keeps P k \<Longrightarrow> keeps P (ignoring m k)"
  by (auto simp: ignoring_def intro!: keeps_intros)

lemma keeps_return_nil [keeps_intros]: "keeps P return_nil"
  by (simp add: return_nil_def keeps_intros)

lemma keeps_spec_transaction [keeps_intros]:
  "spec_statement q \<Longrightarrow> keeps (at_core c) (gorm_transaction (exec_all [q]))"
  by (auto simp: keeps_def at_core_def gorm_transaction_quiet spec_statement_core split: sum.split)

lemma keeps_spec_saving [keeps_intros]:
  assumes "\<And>i. spec_statement (q i)" and "\<And>i. keeps (at_core c) (k i)"
  shows "keeps (at_core c) (saving i q k)"
  unfolding saving_def
proof (rule keeps_bind)
  show "keeps (at_core c) (gorm_transaction_with i (save_statement i q))"
    using spec_statement_core [OF assms(1)]
    by (auto simp: keeps_def at_core_def gorm_save_quiet Let_def split: sum.split)
qed (use assms(2) in \<open>auto intro!: keeps_intros\<close>)

lemma keeps_delete_instance_extra_spec [keeps_intros]: "keeps (at_core c) (delete_instance_extra_spec s x)"
  unfolding delete_instance_extra_spec_def by (intro keeps_intros) simp

lemma keeps_sync_cluster_instance_extra_spec [keeps_intros]:
  "keeps (at_core c) (sync_cluster_instance_extra_spec s force sp x)"
  unfolding sync_cluster_instance_extra_spec_def save_extra_def
  by (intro keeps_intros) (auto split: sum.split err.split intro!: keeps_intros)

lemma keeps_delete_extra_specs [keeps_intros]: "keeps (at_core c) (delete_extra_specs s xs flag e)"
  by (induction xs arbitrary: flag e) (auto intro!: keeps_intros)

lemma keeps_sync_extra_specs [keeps_intros]: "keeps (at_core c) (sync_extra_specs s force sp xs e)"
  by (induction xs arbitrary: e) (auto intro!: keeps_intros)

lemma keeps_delete_instance_spec [keeps_intros]: "keeps (at_core c) (delete_instance_spec s sp)"
  unfolding delete_instance_spec_def by (auto intro!: keeps_intros)

lemma keeps_sync_cluster_instance_spec [keeps_intros]:
  "keeps (at_core c) (sync_cluster_instance_spec s force sp)"
  unfolding sync_cluster_instance_spec_def save_spec_def
  by (intro keeps_intros) (auto split: sum.split err.split intro!: keeps_intros)

lemma settles_ignored:
  assumes "keeps (at_core c) m"
  shows "settles (ignoring m return_nil) c c"
proof (rule settlesI, rule yieldsI)
  fix db w assume "core db = c" "quiet w" "w_db w = db"
  then have "at_core c (snd (run_state m w))"
    using keepsD [OF assms, of w] by (simp add: at_core_def)
  then show "\<exists>w'. run_state (ignoring m return_nil) w = (None, w') \<and> quiet w' \<and> core (w_db w') = c"
    by (cases "run_state m w") (simp add: ignoring_def return_nil_def at_core_def)
qed

section \<open>Deleting an instance\<close>

lemma reads_instance_dependents [reads_intros]:
  "reads (instance_dependents x) (\<lambda>db.
     ((filter (\<lambda>r. cond_nat (ins_id x) (inw_cluster_instance_id r)) (db_instance_network db),
       filter (\<lambda>r. cond_nat (ins_id x) (isg_cluster_instance_id r)) (db_instance_security_group db)),
      least_by us_cluster_instance_id
        (filter (\<lambda>r. cond_nat (ins_id x) (us_cluster_instance_id r)) (db_instance_user_script db)),
      least_by sp_id (filter (\<lambda>r. cond_nat (ins_cluster_instance_spec_id x) (sp_id r)) (db_instance_spec db))))"
  unfolding instance_dependents_def
  by (intro reads_both reads_find_all)
    (auto simp: reads_def first_row_quiet split: option.split)

lemma reads_instance_volume_records [reads_intros]:
  "reads (get_instance_volume_records i) (instance_volume_join i)"
  unfolding get_instance_volume_records_def by (intro reads_db_res reads_execute reads_find_rows)

lemma settles_fetch_any:
  assumes "reads m f" and "\<And>db. core db = c \<Longrightarrow> settles (k (f db)) c c'"
  shows "settles (fetch m k) c c'"
proof (rule settlesI)
  fix db assume "core db = c"
  with assms show "yields (fetch m k) db (\<lambda>d. core d = c')"
    by (auto intro!: yields_fetch simp: settles_def)
qed

lemma instance_volume_join_simps [simp]:
  "instance_volume_join i (db\<lparr>db_instance_network := rs\<rparr>) = instance_volume_join i db"
  "instance_volume_join i (core db) = instance_volume_join i db"
  by (simp_all add: instance_volume_join_def cong: if_cong)

text \<open>The join finds every attachment of the instance, since its volume exists.\<close>

lemma settles_detach_instance_volumes:
  assumes wf_db: "wf_db c" and i: "i \<noteq> 0"
  shows "settles (for_err (\<lambda>(iv, v). delete_instance_volume s v iv)
      (instance_volume_join i c)) c
    (c\<lparr>db_instance_volume := filter (\<lambda>r. ivol_cluster_instance_id r \<noteq> i) (db_instance_volume c)\<rparr>)"
proof -
  let ?xs = "instance_volume_join i c"
  let ?key = "\<lambda>r. (ivol_cluster_instance_id r, ivol_cluster_volume_id r)"
  have mem: "(iv, v) \<in> set ?xs \<longleftrightarrow> iv \<in> set (db_instance_volume c) \<and> ivol_cluster_instance_id iv = i \<and>
      v \<in> set (db_volume c) \<and> vol_id v = ivol_cluster_volume_id iv" for iv v
    using i by (auto simp: instance_volume_join_def)
  have nets: "yields (for_err (\<lambda>(iv, v). delete_instance_volume s v iv) ?xs) db
      (\<lambda>d. d = db\<lparr>db_instance_volume := filter (\<lambda>r. \<forall>x \<in> set ?xs. ?key r \<noteq> ?key (fst x)) (db_instance_volume db)\<rparr>)"
    for db
  proof (rule attachment_table.delete_each [where P = "\<lambda>x r. ?key r = ?key (fst x)"])
    fix x db assume x: "x \<in> set ?xs"
    obtain iv v where p: "x = (iv, v)" by force
    have "ivol_cluster_instance_id iv \<noteq> 0" using x mem p wf_db by (auto simp: wf_db_def)
    then show "yields (case x of (iv, v) \<Rightarrow> delete_instance_volume s v iv) db
        (\<lambda>d. d = db\<lparr>db_instance_volume := filter (\<lambda>r. \<not> ?key r = ?key (fst x)) (db_instance_volume db)\<rparr>)"
      unfolding p prod.case fst_conv by (rule yields_delete_instance_volume)
  qed
  have "filter (\<lambda>r. \<forall>x \<in> set ?xs. ?key r \<noteq> ?key (fst x)) (db_instance_volume c)
      = filter (\<lambda>r. ivol_cluster_instance_id r \<noteq> i) (db_instance_volume c)"
  proof (rule filter_cong [OF refl])
    fix r assume r: "r \<in> set (db_instance_volume c)"
    obtain v where v: "v \<in> set (db_volume c)" "vol_id v = ivol_cluster_volume_id r"
      using wf_db r by (auto simp: wf_db_def)
    have "(r, v) \<in> set ?xs" if "ivol_cluster_instance_id r = i" using mem r v that by blast
    moreover have "ivol_cluster_instance_id (fst x) = i" if "x \<in> set ?xs" for x
      using mem that by (cases x) auto
    ultimately show "(\<forall>x \<in> set ?xs. ?key r \<noteq> ?key (fst x)) = (ivol_cluster_instance_id r \<noteq> i)"
      by (metis fst_conv prod.inject)
  qed
  then show ?thesis
    using settles_yields [OF nets, of c] by (simp only: core_def) simp
qed

lemma settles_delete_instance:
  assumes wf_db: "wf_db c" and nz: "ins_id x \<noteq> 0"
  shows "settles (delete_instance s x) c (purge (only Instances {ins_id x}) c)"
proof -
  let ?i = "ins_id x"
  let ?c1 = "c\<lparr>db_instance_network := filter (\<lambda>r. inw_cluster_instance_id r \<noteq> ?i) (db_instance_network c)\<rparr>"
  let ?c2 = "?c1\<lparr>db_instance_volume := filter (\<lambda>r. ivol_cluster_instance_id r \<noteq> ?i) (db_instance_volume c)\<rparr>"
  let ?c3 = "?c2\<lparr>db_instance_security_group := filter (\<lambda>r. isg_cluster_instance_id r \<noteq> ?i) (db_instance_security_group c)\<rparr>"
  let ?c4 = "?c3\<lparr>db_instance_user_script := filter (\<lambda>r. us_cluster_instance_id r \<noteq> ?i) (db_instance_user_script c)\<rparr>"
  let ?c5 = "purge (only Instances {?i}) c"
  have wf1: "wf_db ?c1" and wf2: "wf_db ?c2" using wf_db by (simp_all add: wf_db_def distinct_map_filter)
  have nets: "settles (for_err (delete_instance_network s)
      (filter (\<lambda>r. cond_nat ?i (inw_cluster_instance_id r)) (db_instance_network c))) c ?c1"
    using settles_detach_networks [OF wf_db, of s "\<lambda>r. cond_nat ?i (inw_cluster_instance_id r)"] nz by simp
  have vols: "settles (for_err (\<lambda>(iv, v). delete_instance_volume s v iv) (instance_volume_join ?i c)) ?c1 ?c2"
    using settles_detach_instance_volumes [OF wf1 nz, of s] by simp
  have groups: "settles (for_err (\<lambda>g. gorm_transaction (exec_all [delete_instance_security_group g]))
      (filter (\<lambda>r. cond_nat ?i (isg_cluster_instance_id r)) (db_instance_security_group c))) ?c2 ?c3"
    using settles_leave_groups [OF wf2, of "\<lambda>r. cond_nat ?i (isg_cluster_instance_id r)"] nz by simp
  have script: "settles (case least_by us_cluster_instance_id
        (filter (\<lambda>r. cond_nat ?i (us_cluster_instance_id r)) (db_instance_user_script c)) of None \<Rightarrow> return_nil
      | Some u \<Rightarrow> gorm_transaction (exec_all [delete_instance_user_script u])) ?c3 ?c4"
  proof (cases "least_by us_cluster_instance_id
        (filter (\<lambda>r. cond_nat ?i (us_cluster_instance_id r)) (db_instance_user_script c))")
    case None
    then have "filter (\<lambda>r. us_cluster_instance_id r \<noteq> ?i) (db_instance_user_script c) = db_instance_user_script c"
      using nz by (auto simp: filter_empty_conv intro: filter_True)
    then have "?c4 = ?c3" by simp
    then show ?thesis using None by (simp add: settles_return_nil)
  next
    case (Some u)
    then have "us_cluster_instance_id u = ?i" using nz by (auto dest!: least_by_Some)
    then show ?thesis
      unfolding Some option.case using nz
      by (intro settles_transact(2)) (auto simp: on_core_intros delete_instance_user_script_def unreferenced)
  qed
  have row: "settles (transact [delete_instance_rows (\<lambda>r. cond_nat ?i (ins_id r))]) ?c4 ?c5"
    by (rule settles_transact)
      (use nz in \<open>auto simp: on_core_intros unreferenced purge_def map_idI\<close>)
  have spec: "settles (case sp of None \<Rightarrow> return_nil
      | Some sp \<Rightarrow> (if sp_id sp \<noteq> 0 then ignoring (sync_cluster_instance_spec s False sp) return_nil
        else return_nil)) ?c5 ?c5" for sp
    by (simp add: settles_return_nil settles_ignored keeps_intros split: option.split)
  show ?thesis
    unfolding delete_instance_def
  proof (rule settles_fetch_any, (rule reads_intros)+, unfold prod.case, goal_cases)
    case (1 db)
    then have tables: "db_instance_network db = db_instance_network c"
      "db_instance_security_group db = db_instance_security_group c"
      "db_instance_user_script db = db_instance_user_script c" by auto
    show ?case
      unfolding tables
      by (rule settles_fetch, rule reads_intros, simp)
        (rule settles_check [OF nets] settles_check [OF vols] settles_check [OF groups]
          settles_check [OF script] settles_check [OF row] settles_announce spec)+
  qed
qed

end
