(* ===== verification/ResourceCascade.thy ===== *)
theory ResourceCascade
  imports InstanceCascade
begin

text \<open>
  The deletions that delete other resources: networks, hypervisors, availability zones,
  storages and tenants. Their loops rest on one interface.
\<close>

section \<open>Loops over resources\<close>

lemma SUP_absorb_le:
  fixes T :: "'a :: complete_lattice"
  assumes "\<And>x. f x \<le> sup T (g x)"
  shows "sup T (SUP x\<in>A. f x) \<le> sup T (SUP x\<in>A. g x)"
proof (rule sup_least [OF sup_ge1 SUP_least])
  fix x assume "x \<in> A"
  then have "sup T (g x) \<le> sup T (SUP x\<in>A. g x)" by (intro sup_mono order_refl SUP_upper)
  with assms [of x] show "f x \<le> sup T (SUP x\<in>A. g x)" by (rule order_trans)
qed

lemma SUP_absorb:
  fixes T :: "'a :: complete_lattice"
  assumes "\<And>x. sup T (f x) = sup T (g x)"
  shows "sup T (SUP x\<in>A. f x) = sup T (SUP x\<in>A. g x)"
proof (rule antisym)
  show "sup T (SUP x\<in>A. f x) \<le> sup T (SUP x\<in>A. g x)"
    using assms by (intro SUP_absorb_le) (metis sup_ge2)
  show "sup T (SUP x\<in>A. g x) \<le> sup T (SUP x\<in>A. f x)"
    using assms by (intro SUP_absorb_le) (metis sup_ge2)
qed

text \<open>
  A deletion a loop may call: under its precondition it purges its goal, which another one of the
  same kind does not enlarge or shrink beyond what it purges itself, and which other purges do
  not make impossible.
\<close>

locale deletion =
  fixes run :: "'r \<Rightarrow> err option op"
    and goal :: "'r \<Rightarrow> database \<Rightarrow> targets"
    and pre :: "'r \<Rightarrow> database \<Rightarrow> bool"
  assumes correct: "wf_db c \<Longrightarrow> pre x c \<Longrightarrow> settles (run x) c (purge (goal x c) c)"
    and own: "sup (goal x c) (goal y (purge (goal x c) c)) = sup (goal x c) (goal y c)"
    and pre_stable: "pre x c \<Longrightarrow> pre x (purge T c)"
begin

lemma run_all:
  assumes "wf_db c" and "\<forall>x \<in> set xs. pre x c"
  shows "settles (for_err run xs) c (purge (SUP x\<in>set xs. goal x c) c)"
  using assms
proof (induction xs arbitrary: c)
  case Nil
  then show ?case by (simp add: purge_none settles_return_nil [unfolded return_nil_def])
next
  case (Cons x xs)
  let ?c = "purge (goal x c) c"
  have 1: "settles (run x) c ?c" using Cons.prems by (intro correct) simp_all
  have 2: "settles (for_err run xs) ?c (purge (SUP y\<in>set xs. goal y ?c) ?c)"
    using Cons.prems by (intro Cons.IH) (simp_all add: pre_stable)
  have "sup (goal x c) (SUP y\<in>set xs. goal y ?c) = sup (goal x c) (SUP y\<in>set xs. goal y c)"
    by (intro SUP_absorb own)
  then have "purge (SUP y\<in>set xs. goal y ?c) ?c = purge (SUP y\<in>set (x # xs). goal y c) c"
    by (simp add: purge_purge)
  with settles_check [OF 1 2] show ?case by (simp only: for_err_check)
qed

end

text \<open>A deletion whose goal is stable under all purges can run after loops over other resources.\<close>

locale cascade = deletion +
  assumes absorbed: "sup T (goal x (purge T c)) = sup T (goal x c)"
begin

lemma goals_absorbed: "sup T (SUP x\<in>A. goal x (purge T c)) = sup T (SUP x\<in>A. goal x c)"
  by (intro SUP_absorb absorbed)

end

interpretation instances: cascade "delete_instance s" "\<lambda>x _. only Instances {ins_id x}" "\<lambda>x _. ins_id x \<noteq> 0" for s
  by unfold_locales (simp_all add: settles_delete_instance)

interpretation volumes: cascade "delete_volume s" "\<lambda>x _. only Volumes {vol_id x}" "\<lambda>x _. vol_id x \<noteq> 0" for s
  by unfold_locales (simp_all add: settles_delete_volume)

interpretation floating_ips: cascade "delete_floating_ip s" "\<lambda>x _. only FloatingIPs {fip_id x}"
  "\<lambda>x _. fip_id x \<noteq> 0" for s
  by unfold_locales (simp_all add: settles_delete_floating_ip)

interpretation subnets: cascade "delete_subnet s" "\<lambda>x _. only Subnets {sn_id x}" "\<lambda>x _. sn_id x \<noteq> 0" for s
  by unfold_locales (simp_all add: settles_delete_subnet)

interpretation routers: cascade "delete_router s" "\<lambda>x _. only Routers {rt_id x}" "\<lambda>x _. rt_id x \<noteq> 0" for s
  by unfold_locales (simp_all add: settles_delete_router)

interpretation security_groups: cascade "delete_security_group s" "\<lambda>x _. only SecurityGroups {sg_id x}"
  "\<lambda>x c. sg_id x \<noteq> 0 \<and> unnamed (sg_id x) c" for s
  by unfold_locales (simp_all add: settles_delete_security_group unnamed_def)

text \<open>The union of the targets of rows, as the set of their identifiers.\<close>

lemma SUP_only: "(SUP x\<in>A. only k {f x}) = only k (f ` A)"
  by (auto simp: fun_eq_iff only_def)

section \<open>Networks\<close>

definition network_goal :: "nat \<Rightarrow> database \<Rightarrow> targets" where
  "network_goal n db = sup (only Networks {n}) (sup
     (only FloatingIPs (fip_id ` {f \<in> set (db_floating_ip db). fip_cluster_network_id f = n}))
     (only Subnets (sn_id ` {r \<in> set (db_subnet db). sn_cluster_network_id r = n})))"

lemma settles_delete_network:
  assumes wf_db: "wf_db c" and nz: "nw_id n \<noteq> 0"
  shows "settles (delete_network s n) c (purge (network_goal (nw_id n) c) c)"
proof -
  let ?n = "nw_id n"
  let ?fips = "filter (\<lambda>r. cond_nat ?n (fip_cluster_network_id r)) (db_floating_ip c)"
  let ?sns = "filter (\<lambda>r. cond_nat ?n (sn_cluster_network_id r)) (db_subnet c)"
  let ?c1 = "c\<lparr>db_instance_network := filter (\<lambda>r. inw_cluster_network_id r \<noteq> ?n) (db_instance_network c)\<rparr>"
  let ?c2 = "purge (only FloatingIPs (fip_id ` set ?fips)) ?c1"
  let ?c3 = "purge (only Subnets (sn_id ` set ?sns)) ?c2"
  have wf1: "wf_db ?c1" using wf_db by (simp add: wf_db_def distinct_map_filter)
  have wf2: "wf_db ?c2" using wf1 by simp
  have 1: "settles (for_err (delete_instance_network s)
      (filter (\<lambda>r. cond_nat ?n (inw_cluster_network_id r)) (db_instance_network c))) c ?c1"
    using settles_detach_networks [OF wf_db, of s "\<lambda>r. cond_nat ?n (inw_cluster_network_id r)"] nz by simp
  have 2: "settles (for_err (delete_floating_ip s) ?fips) ?c1 ?c2"
    using floating_ips.run_all [OF wf1, of ?fips s] wf_db by (simp add: SUP_only wf_db_def)
  have 3: "settles (for_err (delete_subnet s) ?sns) ?c2 ?c3"
    using subnets.run_all [OF wf2, of ?sns s] wf_db by (simp add: SUP_only wf_db_def)
  have 4: "settles (transact [delete_network_rows (\<lambda>r. cond_nat ?n (nw_id r))]) ?c3
      (purge (network_goal ?n c) c)"
  proof (rule settles_transact)
    have free: "\<not> network_referenced ?c3 r" if "nw_id r = ?n" for r
      using nz that by (auto simp: network_referenced_def list_ex_iff)
    have "?c3\<lparr>db_network := filter (\<lambda>r. nw_id r \<noteq> ?n) (db_network ?c3)\<rparr> = purge (network_goal ?n c) c"
      unfolding purge_purge using nz by (simp add: purge_def network_goal_def conj_ac)
    then show "apply_all [delete_network_rows (\<lambda>r. cond_nat ?n (nw_id r))] ?c3
        = Inr (purge (network_goal ?n c) c)"
      unfolding apply_all.simps delete_network_rows_def
      using nz free by (subst delete_from_free) auto
  qed (simp add: on_core_intros)
  show ?thesis
    unfolding delete_network_def
    by (rule settles_fetch, (rule reads_intros)+, simp, unfold prod.case)
      (rule settles_check [OF 1] settles_check [OF 2] settles_check [OF 3] settles_check [OF 4] settles_steps)+
qed

lemma network_goal_absorbed: "sup T (network_goal n (purge T c)) = sup T (network_goal n c)"
  by (auto simp: fun_eq_iff network_goal_def)

interpretation networks: cascade "delete_network s" "\<lambda>n. network_goal (nw_id n)" "\<lambda>n _. nw_id n \<noteq> 0" for s
  by unfold_locales (simp_all add: settles_delete_network network_goal_absorbed)

section \<open>Hypervisors and availability zones\<close>

definition hypervisor_goal :: "nat \<Rightarrow> database \<Rightarrow> targets" where
  "hypervisor_goal h db = sup (only Hypervisors {h})
     (only Instances (ins_id ` {x \<in> set (db_instance db). ins_cluster_hypervisor_id x = h}))"

lemma settles_delete_hypervisor:
  assumes wf: "wf_db c" and nz: "hv_id h \<noteq> 0"
  shows "settles (delete_hypervisor s h) c (purge (hypervisor_goal (hv_id h) c) c)"
proof -
  let ?h = "hv_id h"
  let ?xs = "filter (\<lambda>r. cond_nat ?h (ins_cluster_hypervisor_id r)) (db_instance c)"
  let ?c1 = "purge (only Instances (ins_id ` set ?xs)) c"
  have 1: "settles (for_err (delete_instance s) ?xs) c ?c1"
    using instances.run_all [OF wf, of ?xs s] wf by (simp add: SUP_only wf_db_def)
  have 2: "settles (transact [delete_hypervisor_rows (\<lambda>r. cond_nat ?h (hv_id r))]) ?c1
      (purge (hypervisor_goal ?h c) c)"
  proof (rule settles_transact)
    have free: "\<not> hypervisor_referenced ?c1 r" if "hv_id r = ?h" for r
      using nz that by (auto simp: hypervisor_referenced_def list_ex_iff)
    have "?c1\<lparr>db_hypervisor := filter (\<lambda>r. hv_id r \<noteq> ?h) (db_hypervisor ?c1)\<rparr> = purge (hypervisor_goal ?h c) c"
      using nz by (simp add: purge_def hypervisor_goal_def)
    then show "apply_all [delete_hypervisor_rows (\<lambda>r. cond_nat ?h (hv_id r))] ?c1
        = Inr (purge (hypervisor_goal ?h c) c)"
      unfolding apply_all.simps delete_hypervisor_rows_def
      using nz free by (subst delete_from_free) auto
  qed (simp add: on_core_intros)
  show ?thesis
    unfolding delete_hypervisor_def
    by (rule settles_fetch, (rule reads_intros)+, simp)
      (rule settles_check [OF 1] settles_check [OF 2] settles_steps)+
qed

lemma hypervisor_goal_absorbed: "sup T (hypervisor_goal n (purge T c)) = sup T (hypervisor_goal n c)"
  by (auto simp: fun_eq_iff hypervisor_goal_def)

interpretation hypervisors: cascade "delete_hypervisor s" "\<lambda>h. hypervisor_goal (hv_id h)" "\<lambda>h _. hv_id h \<noteq> 0" for s
  by unfold_locales (simp_all add: settles_delete_hypervisor hypervisor_goal_absorbed)

definition zone_goal :: "nat \<Rightarrow> database \<Rightarrow> targets" where
  "zone_goal z db = sup (only Zones {z}) (sup
     (only Instances (ins_id ` {x \<in> set (db_instance db). ins_cluster_availability_zone_id x = z}))
     (SUP h \<in> {h \<in> set (db_hypervisor db). hv_cluster_availability_zone_id h = z}. hypervisor_goal (hv_id h) db))"

lemma settles_delete_availability_zone:
  assumes wf: "wf_db c" and nz: "az_id z \<noteq> 0"
  shows "settles (delete_availability_zone s z) c (purge (zone_goal (az_id z) c) c)"
proof -
  let ?z = "az_id z"
  let ?xs = "filter (\<lambda>r. cond_nat ?z (ins_cluster_availability_zone_id r)) (db_instance c)"
  let ?hs = "filter (\<lambda>r. cond_nat ?z (hv_cluster_availability_zone_id r)) (db_hypervisor c)"
  let ?T = "only Instances (ins_id ` set ?xs)"
  let ?H = "SUP h \<in> set ?hs. hypervisor_goal (hv_id h) c"
  let ?c2 = "purge (sup ?T ?H) c"
  have 1: "settles (for_err (delete_instance s) ?xs) c (purge ?T c)"
    using instances.run_all [OF wf, of ?xs s] wf by (simp add: SUP_only wf_db_def)
  have wf1: "wf_db (purge ?T c)" and pre: "\<forall>h \<in> set ?hs. hv_id h \<noteq> 0"
    using wf by (simp, simp add: wf_db_def)
  have 2: "settles (for_err (delete_hypervisor s) ?hs) (purge ?T c) ?c2"
    using hypervisors.run_all [OF wf1 pre, of s] by (simp only: purge_purge hypervisors.goals_absorbed)
  have 3: "settles (transact [delete_availability_zone_rows (\<lambda>r. cond_nat ?z (az_id r))]) ?c2
      (purge (zone_goal ?z c) c)"
  proof (rule settles_transact)
    have free: "\<not> availability_zone_referenced ?c2 r" if "az_id r = ?z" for r
      using nz that by (auto simp: availability_zone_referenced_def list_ex_iff hypervisor_goal_def)
    have "?c2\<lparr>db_availability_zone := filter (\<lambda>r. az_id r \<noteq> ?z) (db_availability_zone ?c2)\<rparr> = purge (zone_goal ?z c) c"
      using nz by (simp add: purge_def zone_goal_def hypervisor_goal_def)
    then show "apply_all [delete_availability_zone_rows (\<lambda>r. cond_nat ?z (az_id r))] ?c2
        = Inr (purge (zone_goal ?z c) c)"
      unfolding apply_all.simps delete_availability_zone_rows_def
      using nz free by (subst delete_from_free) auto
  qed (simp add: on_core_intros)
  show ?thesis
    unfolding delete_availability_zone_def
    by (rule settles_fetch, (rule reads_intros)+, simp, unfold prod.case)
      (rule settles_check [OF 1] settles_check [OF 2] settles_check [OF 3] settles_steps)+
qed

section \<open>Storages\<close>

definition storage_goal :: "nat \<Rightarrow> database \<Rightarrow> targets" where
  "storage_goal i db = sup (only Storages {i})
     (only Volumes (vol_id ` {v \<in> set (db_volume db). vol_cluster_storage_id v = i}))"

lemma settles_delete_storage:
  assumes wf: "wf_db c" and nz: "st_id st \<noteq> 0"
  shows "settles (delete_storage s st) c (purge (storage_goal (st_id st) c) c)"
proof -
  let ?i = "st_id st"
  let ?vs = "filter (\<lambda>r. cond_nat ?i (vol_cluster_storage_id r)) (db_volume c)"
  let ?c1 = "purge (only Volumes (vol_id ` set ?vs)) c"
  have 1: "settles (for_err (delete_volume s) ?vs) c ?c1"
    using volumes.run_all [OF wf, of ?vs s] wf by (simp add: SUP_only wf_db_def)
  have 2: "settles (transact [delete_storage_rows (\<lambda>r. cond_nat ?i (st_id r))]) ?c1
      (purge (storage_goal ?i c) c)"
  proof (rule settles_transact)
    have free: "\<not> storage_referenced ?c1 r" if "st_id r = ?i" for r
      using nz that by (auto simp: storage_referenced_def list_ex_iff)
    have "?c1\<lparr>db_storage := filter (\<lambda>r. st_id r \<noteq> ?i) (db_storage ?c1)\<rparr> = purge (storage_goal ?i c) c"
      using nz by (simp add: purge_def storage_goal_def)
    then show "apply_all [delete_storage_rows (\<lambda>r. cond_nat ?i (st_id r))] ?c1
        = Inr (purge (storage_goal ?i c) c)"
      unfolding apply_all.simps delete_storage_rows_def
      using nz free by (subst delete_from_free) auto
  qed (simp add: on_core_intros)
  show ?thesis
    unfolding delete_storage_def
    by (rule settles_fetch, (rule reads_intros)+, simp)
      (rule settles_check [OF 1] settles_check [OF 2] settles_announce settles_storage_document)+
qed

section \<open>Tenants\<close>

definition tenant_goal :: "nat \<Rightarrow> database \<Rightarrow> targets" where
  "tenant_goal t db =
     sup (only Tenants {t}) (sup
      (only Instances (ins_id ` {x \<in> set (db_instance db). ins_cluster_tenant_id x = t})) (sup
      (only SecurityGroups (sg_id ` {x \<in> set (db_security_group db). sg_cluster_tenant_id x = t})) (sup
      (only Volumes (vol_id ` {x \<in> set (db_volume db). vol_cluster_tenant_id x = t})) (sup
      (only FloatingIPs (fip_id ` {x \<in> set (db_floating_ip db). fip_cluster_tenant_id x = t})) (sup
      (SUP n \<in> {n \<in> set (db_network db). nw_cluster_tenant_id n = t}. network_goal (nw_id n) db)
      (only Routers (rt_id ` {x \<in> set (db_router db). rt_cluster_tenant_id x = t})))))))"

lemma purge_tenant:
  assumes "T Tenants = {}"
  shows "(purge T c)\<lparr>db_quota := filter (\<lambda>r. qt_cluster_tenant_id r \<noteq> t) (db_quota (purge T c)),
      db_tenant := filter (\<lambda>r. tn_id r \<noteq> t) (db_tenant (purge T c))\<rparr> = purge (sup (only Tenants {t}) T) c"
  using assms by (simp add: purge_def)

lemma settles_delete_tenant:
  assumes wf: "wf_db c" and nz: "tn_id t \<noteq> 0"
    and un: "\<forall>g \<in> set (db_security_group c). sg_cluster_tenant_id g = tn_id t \<longrightarrow> unnamed (sg_id g) c"
  shows "settles (delete_tenant s t) c (purge (tenant_goal (tn_id t) c) c)"
proof -
  let ?t = "tn_id t"
  let ?xs = "filter (\<lambda>r. cond_nat ?t (ins_cluster_tenant_id r)) (db_instance c)"
  let ?gs = "filter (\<lambda>r. cond_nat ?t (sg_cluster_tenant_id r)) (db_security_group c)"
  let ?vs = "filter (\<lambda>r. cond_nat ?t (vol_cluster_tenant_id r)) (db_volume c)"
  let ?fs = "filter (\<lambda>r. cond_nat ?t (fip_cluster_tenant_id r)) (db_floating_ip c)"
  let ?ns = "filter (\<lambda>r. cond_nat ?t (nw_cluster_tenant_id r)) (db_network c)"
  let ?rs = "filter (\<lambda>r. cond_nat ?t (rt_cluster_tenant_id r)) (db_router c)"
  let ?T1 = "only Instances (ins_id ` set ?xs)"
  let ?T2 = "sup ?T1 (only SecurityGroups (sg_id ` set ?gs))"
  let ?T3 = "sup ?T2 (only Volumes (vol_id ` set ?vs))"
  let ?T4 = "sup ?T3 (only FloatingIPs (fip_id ` set ?fs))"
  let ?T5 = "sup ?T4 (SUP n \<in> set ?ns. network_goal (nw_id n) c)"
  let ?T6 = "sup ?T5 (only Routers (rt_id ` set ?rs))"
  have unnamed_purge: "unnamed g (purge T c)" if "unnamed g c" for g T
    using that by (simp add: unnamed_def)
  have wfs: "wf_db (purge T c)" for T using wf by simp
  have pre: "\<forall>x \<in> set ?xs. ins_id x \<noteq> 0" "\<forall>x \<in> set ?vs. vol_id x \<noteq> 0" "\<forall>x \<in> set ?fs. fip_id x \<noteq> 0"
    "\<forall>x \<in> set ?ns. nw_id x \<noteq> 0" "\<forall>x \<in> set ?rs. rt_id x \<noteq> 0"
    "\<forall>x \<in> set ?gs. sg_id x \<noteq> 0 \<and> unnamed (sg_id x) (purge ?T1 c)"
    using wf_ids [OF wf] un nz unnamed_purge by auto
  have 1: "settles (for_err (delete_instance s) ?xs) c (purge ?T1 c)"
    using instances.run_all [OF wf pre(1), of s] by (simp only: SUP_only)
  have 2: "settles (for_err (delete_security_group s) ?gs) (purge ?T1 c) (purge ?T2 c)"
    using security_groups.run_all [OF wfs pre(6), of s] by (simp only: SUP_only purge_purge)
  have 3: "settles (for_err (delete_volume s) ?vs) (purge ?T2 c) (purge ?T3 c)"
    using volumes.run_all [OF wfs pre(2), of s] by (simp only: SUP_only purge_purge)
  have 4: "settles (for_err (delete_floating_ip s) ?fs) (purge ?T3 c) (purge ?T4 c)"
    using floating_ips.run_all [OF wfs pre(3), of s] by (simp only: SUP_only purge_purge)
  have 5: "settles (for_err (delete_network s) ?ns) (purge ?T4 c) (purge ?T5 c)"
    using networks.run_all [OF wfs pre(4), of s] by (simp only: purge_purge networks.goals_absorbed)
  have 6: "settles (for_err (delete_router s) ?rs) (purge ?T5 c) (purge ?T6 c)"
    using routers.run_all [OF wfs pre(5), of s] by (simp only: SUP_only purge_purge)
  let ?c6 = "purge ?T6 c"
  have 7: "settles (gorm_transaction (exec_all [
        delete_quota_rows (\<lambda>r. cond_nat ?t (qt_cluster_tenant_id r)),
        delete_tenant_rows (\<lambda>r. cond_nat ?t (tn_id r))])) ?c6 (purge (tenant_goal ?t c) c)"
  proof (rule settles_transact(2))
    let ?c7 = "?c6\<lparr>db_quota := filter (\<lambda>r. qt_cluster_tenant_id r \<noteq> ?t) (db_quota ?c6)\<rparr>"
    have free: "\<not> tenant_referenced ?c7 r" if "tn_id r = ?t" for r
      using nz that by (auto simp: tenant_referenced_def list_ex_iff network_goal_def)
    have goal: "tenant_goal ?t c = sup (only Tenants {?t}) ?T6"
      using nz by (simp add: tenant_goal_def sup_assoc)
    have "?c7\<lparr>db_tenant := filter (\<lambda>r. tn_id r \<noteq> ?t) (db_tenant ?c7)\<rparr> = purge (tenant_goal ?t c) c"
      unfolding goal using purge_tenant [of ?T6 ?t c] by (simp add: network_goal_def del: purge_tables)
    then show "apply_all [delete_quota_rows (\<lambda>r. cond_nat ?t (qt_cluster_tenant_id r)),
        delete_tenant_rows (\<lambda>r. cond_nat ?t (tn_id r))] ?c6 = Inr (purge (tenant_goal ?t c) c)"
      unfolding apply_all.simps delete_tenant_rows_def delete_quota_rows_def
      using nz free by (simp, subst delete_from_free) auto
  qed (simp add: on_core_intros)
  show ?thesis
    unfolding delete_tenant_def
    by (rule settles_fetch, (rule reads_intros)+, simp, unfold prod.case)
      (rule settles_check [OF 1] settles_check [OF 2] settles_check [OF 3] settles_check [OF 4]
        settles_check [OF 5] settles_check [OF 6] settles_check [OF 7] settles_steps)+
qed

end
