(* ===== verification/Faults.thy ===== *)
theory Faults
  imports ResourceCascade
begin

text \<open>
  What holds whichever calls fail: rules for facts about the database that every operation
  upholds in every world, errors, aborted transactions and lost commits included. A failed
  transaction restores an earlier database, so a fact that every single statement preserves
  survives it.
\<close>

section \<open>Facts about the database\<close>

definition on_db :: "(database \<Rightarrow> bool) \<Rightarrow> world \<Rightarrow> bool" where
  "on_db F w = F (w_db w)"

definition sound :: "(database \<Rightarrow> bool) \<Rightarrow> (database \<Rightarrow> string + database) \<Rightarrow> bool" where
  "sound F q \<longleftrightarrow> (\<forall>db d. F db \<longrightarrow> q db = Inr d \<longrightarrow> F d)"

named_theorems sound_intros "statements that preserve a fact"

lemma soundI: "(\<And>db d. F db \<Longrightarrow> q db = Inr d \<Longrightarrow> F d) \<Longrightarrow> sound F q"
  by (simp add: sound_def)

lemma on_db_update [simp]:
  "on_db F (w\<lparr>w_ticks := n\<rparr>) = on_db F w" "on_db F (w\<lparr>w_events := e\<rparr>) = on_db F w"
  "on_db F (w\<lparr>w_faults := fs\<rparr>) = on_db F w" "on_db F (w\<lparr>w_tx := t\<rparr>) = on_db F w"
  "on_db F (w\<lparr>w_kv := kv\<rparr>) = on_db F w" "on_db F (w\<lparr>w_seq := i\<rparr>) = on_db F w"
  "on_db F (w\<lparr>w_db := d\<rparr>) = F d"
  by (simp_all add: on_db_def)

named_theorems db_intros "operations that uphold a fact about the database"

lemmas db_structure [db_intros] = keeps_return keeps_bind keeps_get keeps_if keeps_option keeps_sum
  keeps_prod keeps_execute keeps_db_res keeps_db_err keeps_check keeps_ignoring keeps_return_nil

lemma db_pop_fault [db_intros]: "keeps (on_db F) pop_fault"
  by (auto simp: keeps_def pop_fault_def split: list.split)

lemma db_ask [db_intros]: "keeps (on_db F) (ask f)"
  by (simp add: keeps_def)

lemma db_modify: "(\<And>w. w_db (f w) = w_db w) \<Longrightarrow> keeps (on_db F) (modify f)"
  by (simp add: keeps_def on_db_def)

lemma db_publish [db_intros]: "keeps (on_db F) (publish e)"
  unfolding publish_def by (intro db_intros db_modify) simp

lemma db_announce [db_intros]: "keeps (on_db F) k \<Longrightarrow> keeps (on_db F) (announce s t rows k)"
  unfolding announce_def by (intro db_intros)

lemma db_clear_shared_task [db_intros]: "keeps (on_db F) (clear_shared_task i j u t)"
  unfolding clear_shared_task_def by (intro db_modify) simp

lemma db_store_get [db_intros]: "keeps (on_db F) (store_get k)"
  unfolding store_get_def by (intro db_intros)

lemma db_store_update [db_intros]: "keeps (on_db F) (store_update g)"
  unfolding store_update_def by (intro db_intros db_modify) simp

lemma pop_fault_db [simp]: "w_db (snd (run_state pop_fault w)) = w_db w"
  by (simp add: pop_fault_def split: list.split)

lemma pop_fault_db_eq: "run_state pop_fault w = (f, w1) \<Longrightarrow> w_db w1 = w_db w"
  using pop_fault_db [of w] by simp

lemma db_statement:
  assumes "\<And>db x d. F db \<Longrightarrow> q db = Inr (x, d) \<Longrightarrow> F d"
  shows "keeps (on_db F) (statement q)"
  using assms
  by (auto simp: keeps_def statement_def on_db_def pop_fault_db_eq
      split: prod.split sum.split option.split)

lemma db_find_rows [db_intros]: "keeps (on_db F) (find_rows sel)"
  unfolding find_rows_def by (rule db_statement) simp

lemma db_first_row [db_intros]: "keeps (on_db F) (first_row key sel)"
  unfolding first_row_def by (intro db_intros db_statement) simp

lemma db_exec [db_intros]:
  assumes "sound F q"
  shows "keeps (on_db F) (exec q)"
  unfolding exec_def using assms
  by (intro db_intros db_statement) (auto simp: sound_def map_sum_def split: sum.splits)

lemma db_exec_all [db_intros]: "\<forall>q \<in> set qs. sound F q \<Longrightarrow> keeps (on_db F) (exec_all qs)"
  by (induction qs) (auto simp: exec_all.simps intro!: db_intros)

lemma db_transaction_with [db_intros]:
  assumes "keeps (on_db F) m"
  shows "keeps (on_db F) (gorm_transaction_with d m)"
proof (rule keepsI)
  fix w assume w: "on_db F w"
  obtain f w1 where f: "run_state pop_fault w = (f, w1)" by force
  show "on_db F (snd (run_state (gorm_transaction_with d m) w))"
  proof (cases f)
    case (Some e)
    then show ?thesis using f w pop_fault_db_eq [OF f]
      by (simp add: gorm_transaction_with_def on_db_def)
  next
    case None
    obtain x w2 where m: "run_state m (w1\<lparr>w_tx := Open\<rparr>) = (x, w2)" by force
    obtain g w3 where g: "run_state pop_fault w2 = (g, w3)" by force
    have "on_db F w1" using w pop_fault_db_eq [OF f] by (simp add: on_db_def)
    then have "on_db F w2" using keepsD [OF assms, of "w1\<lparr>w_tx := Open\<rparr>"] m by simp
    then show ?thesis
      using f None m g \<open>on_db F w1\<close> pop_fault_db_eq [OF g]
      by (simp add: gorm_transaction_with_def on_db_def)
  qed
qed

lemma db_gorm_transaction [db_intros]: "keeps (on_db F) m \<Longrightarrow> keeps (on_db F) (gorm_transaction m)"
  unfolding gorm_transaction_def by (intro db_intros)

lemma db_transact [db_intros]: "\<forall>q \<in> set qs. sound F q \<Longrightarrow> keeps (on_db F) (transact qs)"
  unfolding transact_def by (intro db_intros)

lemma db_saving [db_intros]:
  assumes "\<And>j. sound F (q j)" and "\<And>j. keeps (on_db F) (k j)"
  shows "keeps (on_db F) (saving i q k)"
proof -
  have "keeps (on_db F) (fresh_id i)"
    by (auto simp: keeps_def fresh_id_def)
  then have "keeps (on_db F) (save_statement i q)"
    unfolding save_statement_def using assms(1) by (intro db_intros)
  then show ?thesis
    unfolding saving_def using assms(2) by (intro db_intros)
qed

lemma db_for_err [db_intros]:
  "(\<And>x. x \<in> set xs \<Longrightarrow> keeps P (f x)) \<Longrightarrow> keeps P (for_err f xs)"
  by (induction xs) (auto intro!: keeps_return keeps_bind keeps_option)

text \<open>What a query that returned can have found.\<close>

definition finds :: "(database \<Rightarrow> bool) \<Rightarrow> (err + 'a) op \<Rightarrow> ('a \<Rightarrow> bool) \<Rightarrow> bool" where
  "finds F m Q \<longleftrightarrow> keeps (on_db F) m \<and> (\<forall>w x w'. on_db F w \<longrightarrow> run_state m w = (Inr x, w') \<longrightarrow> Q x)"

named_theorems finds_intros "what queries find"

lemma finds_mono: "finds F m Q \<Longrightarrow> (\<And>x. Q x \<Longrightarrow> R x) \<Longrightarrow> finds F m R"
  by (auto simp: finds_def)

lemma finds_find_rows [finds_intros]: "finds F (find_rows sel) (\<lambda>rs. \<exists>db. F db \<and> rs = sel db)"
  unfolding finds_def
proof (intro conjI allI impI)
  show "keeps (on_db F) (find_rows sel)" by (rule db_find_rows)
  fix w x w' assume "on_db F w" "run_state (find_rows sel) w = (Inr x, w')"
  then show "\<exists>db. F db \<and> x = sel db"
    by (auto simp: find_rows_def statement_def on_db_def
        split: if_splits prod.splits sum.splits option.splits dest!: pop_fault_db_eq)
qed

definition found :: "(database \<Rightarrow> bool) \<Rightarrow> (database \<Rightarrow> 'r list) \<Rightarrow> ('r \<Rightarrow> bool) \<Rightarrow> 'r list \<Rightarrow> bool" where
  "found F t P rs \<longleftrightarrow> (\<exists>db. F db \<and> rs = filter P (t db))"

lemma finds_find_all [finds_intros]: "finds F (find_all t P) (found F t P)"
  unfolding find_all_def found_def by (rule finds_find_rows)

lemma foundE:
  assumes "found F t P rs" and "x \<in> set rs"
  obtains db where "F db" and "x \<in> set (t db)" and "P x"
  using assms by (auto simp: found_def)

lemma finds_both [finds_intros]:
  assumes "finds F m Q" and "finds F n R"
  shows "finds F (both m n) (\<lambda>(x, y). Q x \<and> R y)"
  unfolding finds_def
proof (intro conjI allI impI)
  have k: "keeps (on_db F) m" "keeps (on_db F) n" using assms by (simp_all add: finds_def)
  then show "keeps (on_db F) (both m n)" unfolding both_def by (intro db_intros)
  fix w x w' assume "on_db F w" "run_state (both m n) w = (Inr x, w')"
  then show "case x of (x, y) \<Rightarrow> Q x \<and> R y"
    using assms keepsD [OF k(1), of w]
    by (fastforce simp: both_def finds_def map_sum_def split: prod.splits sum.splits)
qed

lemma finds_execute [finds_intros]: "finds F m Q \<Longrightarrow> finds F (execute m) Q"
  unfolding finds_def
  by (auto simp: execute_def map_sum_def intro!: db_intros split: prod.splits sum.splits)

lemma finds_db_res [finds_intros]: "finds F m Q \<Longrightarrow> finds F (db_res m) Q"
  unfolding finds_def
  by (auto simp: db_res_def map_sum_def intro!: db_intros split: prod.splits sum.splits)

lemma db_fetch:
  assumes "finds F m Q" and "\<And>x. Q x \<Longrightarrow> keeps (on_db F) (k x)"
  shows "keeps (on_db F) (fetch m k)"
proof (rule keepsI)
  fix w assume w: "on_db F w"
  obtain r w1 where r: "run_state m w = (r, w1)" by force
  have w1: "on_db F w1" using assms(1) w r keepsD [of "on_db F" m w] by (simp add: finds_def)
  show "on_db F (snd (run_state (fetch m k) w))"
    using assms w r w1 by (cases r) (auto simp: fetch_def finds_def intro: keepsD)
qed

end
