(* ===== verification/Confine.thy ===== *)
theory Confine
  imports Faults
begin

text \<open>
  Deletions are confined whatever fails: \<open>confined T c db\<close> says that the well-formed database
  \<open>db\<close> differs from \<open>c\<close> at most in rows that purging the targets \<open>T\<close> removes (and in the tables
  of specs). Every deletion of a resource in \<open>T\<close> keeps this in every world.
\<close>

section \<open>Confined databases\<close>

definition confined :: "targets \<Rightarrow> database \<Rightarrow> database \<Rightarrow> bool" where
  "confined T c db \<longleftrightarrow> wf_db db \<and> purge T (core db) = purge T (core c)"

lemma confined_self: "wf_db c \<Longrightarrow> confined T c c"
  by (simp add: confined_def)

lemma sound_confined:
  assumes "\<And>db d. confined T c db \<Longrightarrow> q db = Inr d \<Longrightarrow> purge T (core d) = purge T (core db)"
    and "\<And>db d. confined T c db \<Longrightarrow> q db = Inr d \<Longrightarrow> wf_db d"
  shows "sound (confined T c) q"
proof (rule soundI)
  fix db d assume "confined T c db" "q db = Inr d"
  with assms [of db d] show "confined T c d" by (simp add: confined_def)
qed

lemma filter_again:
  assumes "\<And>r. r \<in> set rows \<Longrightarrow> P r \<Longrightarrow> \<not> Q r"
  shows "filter Q (filter (\<lambda>r. \<not> P r) rows) = filter Q rows"
  using assms by (auto intro: filter_cong)

lemma deleted_rows:
  assumes "map_sum (\<lambda>m. m) f (delete_from referenced P rows) = Inr d"
  shows "d = f (filter (\<lambda>r. \<not> P r) rows) \<and> (\<forall>r \<in> set rows. P r \<longrightarrow> \<not> referenced r)"
  using assms by (auto simp: delete_from_def list_ex_iff split: if_splits)

lemma wf_attachment:
  "wf_db db \<Longrightarrow> x \<in> set (db_instance_volume db) \<Longrightarrow> \<exists>v \<in> set (db_volume db). vol_id v = ivol_cluster_volume_id x"
  unfolding wf_db_def by (elim conjE) (erule bspec)

lemma wf_deleted_volumes:
  assumes "wf_db db" and "d = db\<lparr>db_volume := filter (\<lambda>r. \<not> P r) (db_volume db)\<rparr>"
    and "\<And>r x. r \<in> set (db_volume db) \<Longrightarrow> P r \<Longrightarrow> x \<in> set (db_instance_volume db) \<Longrightarrow>
      ivol_cluster_volume_id x \<noteq> vol_id r"
  shows "wf_db d"
proof -
  have "\<exists>v \<in> set (db_volume d). vol_id v = ivol_cluster_volume_id x" if x: "x \<in> set (db_instance_volume db)" for x
  proof -
    obtain v where "v \<in> set (db_volume db)" "vol_id v = ivol_cluster_volume_id x"
      using wf_attachment [OF assms(1) x] by blast
    then show ?thesis using assms(2) assms(3) [of v x] x by auto
  qed
  then show ?thesis
    using assms(1,2) by (simp add: wf_db_def)
qed

lemma sound_volume_rows [sound_intros]:
  assumes "\<And>db r. confined T c db \<Longrightarrow> r \<in> set (db_volume db) \<Longrightarrow> P r \<Longrightarrow>
     vol_id r \<in> T Volumes"
  shows "sound (confined T c) (delete_volume_rows P)"
proof (rule sound_confined)
  fix db d assume db: "confined T c db" and d: "delete_volume_rows P db = Inr d"
  have "filter (\<lambda>r. vol_id r \<notin> T Volumes) (filter (\<lambda>r. \<not> P r) (db_volume db))
      = filter (\<lambda>r. vol_id r \<notin> T Volumes) (db_volume db)"
    by (rule filter_again) (use assms [OF db] in blast)
  then show "purge T (core d) = purge T (core db)"
    using deleted_rows [OF d [unfolded delete_volume_rows_def]] by (auto simp: purge_def core_def)
  show "wf_db d"
  proof (rule wf_deleted_volumes)
    show "wf_db db" using db by (simp add: confined_def)
    show "d = db\<lparr>db_volume := filter (\<lambda>r. \<not> P r) (db_volume db)\<rparr>"
      using deleted_rows [OF d [unfolded delete_volume_rows_def]] by blast
    fix r x assume "r \<in> set (db_volume db)" "P r" "x \<in> set (db_instance_volume db)"
    with deleted_rows [OF d [unfolded delete_volume_rows_def]]
    show "ivol_cluster_volume_id x \<noteq> vol_id r"
      by (auto simp: volume_referenced_def list_ex_iff)
  qed
qed

lemma sound_volume_snapshot_rows [sound_intros]:
  assumes "\<And>db r. confined T c db \<Longrightarrow> r \<in> set (db_volume_snapshot db) \<Longrightarrow> P r \<Longrightarrow>
     vs_cluster_volume_id r \<in> T Volumes"
  shows "sound (confined T c) (delete_volume_snapshot_rows P)"
proof (rule sound_confined)
  fix db d assume db: "confined T c db" and d: "delete_volume_snapshot_rows P db = Inr d"
  have "filter (\<lambda>r. vs_cluster_volume_id r \<notin> T Volumes) (filter (\<lambda>r. \<not> P r) (db_volume_snapshot db))
      = filter (\<lambda>r. vs_cluster_volume_id r \<notin> T Volumes) (db_volume_snapshot db)"
    by (rule filter_again) (use assms [OF db] in blast)
  then show "purge T (core d) = purge T (core db)"
    using deleted_rows [OF d [unfolded delete_volume_snapshot_rows_def]] by (auto simp: purge_def core_def)
  show "wf_db d"
    using db deleted_rows [OF d [unfolded delete_volume_snapshot_rows_def]] by (auto simp: confined_def wf_db_def distinct_map_filter)
qed

lemma sound_instance_volume_rows [sound_intros]:
  assumes "\<And>db r. confined T c db \<Longrightarrow> r \<in> set (db_instance_volume db) \<Longrightarrow> P r \<Longrightarrow>
     ivol_cluster_instance_id r \<in> T Instances \<or> ivol_cluster_volume_id r \<in> T Volumes"
  shows "sound (confined T c) (delete_instance_volume_rows P)"
proof (rule sound_confined)
  fix db d assume db: "confined T c db" and d: "delete_instance_volume_rows P db = Inr d"
  have "filter (\<lambda>r. ivol_cluster_instance_id r \<notin> T Instances \<and> ivol_cluster_volume_id r \<notin> T Volumes) (filter (\<lambda>r. \<not> P r) (db_instance_volume db))
      = filter (\<lambda>r. ivol_cluster_instance_id r \<notin> T Instances \<and> ivol_cluster_volume_id r \<notin> T Volumes) (db_instance_volume db)"
    by (rule filter_again) (use assms [OF db] in blast)
  then show "purge T (core d) = purge T (core db)"
    using deleted_rows [OF d [unfolded delete_instance_volume_rows_def]] by (auto simp: purge_def core_def)
  show "wf_db d"
    using db deleted_rows [OF d [unfolded delete_instance_volume_rows_def]] by (auto simp: confined_def wf_db_def distinct_map_filter)
qed

lemma sound_instance_network_rows [sound_intros]:
  assumes "\<And>db r. confined T c db \<Longrightarrow> r \<in> set (db_instance_network db) \<Longrightarrow> P r \<Longrightarrow>
     inw_cluster_instance_id r \<in> T Instances \<or> inw_cluster_network_id r \<in> T Networks \<or>
       inw_cluster_subnet_id r \<in> T Subnets"
  shows "sound (confined T c) (delete_instance_network_rows P)"
proof (rule sound_confined)
  fix db d assume db: "confined T c db" and d: "delete_instance_network_rows P db = Inr d"
  have "filter (\<lambda>r. inw_cluster_instance_id r \<notin> T Instances \<and> inw_cluster_network_id r \<notin> T Networks \<and> inw_cluster_subnet_id r \<notin> T Subnets) (filter (\<lambda>r. \<not> P r) (db_instance_network db))
      = filter (\<lambda>r. inw_cluster_instance_id r \<notin> T Instances \<and> inw_cluster_network_id r \<notin> T Networks \<and> inw_cluster_subnet_id r \<notin> T Subnets) (db_instance_network db)"
    by (rule filter_again) (use assms [OF db] in blast)
  then show "purge T (core d) = purge T (core db)"
    using deleted_rows [OF d [unfolded delete_instance_network_rows_def]] by (auto simp: purge_def core_def)
  show "wf_db d"
    using db deleted_rows [OF d [unfolded delete_instance_network_rows_def]] by (auto simp: confined_def wf_db_def distinct_map_filter)
qed

lemma sound_instance_security_group_rows [sound_intros]:
  assumes "\<And>db r. confined T c db \<Longrightarrow> r \<in> set (db_instance_security_group db) \<Longrightarrow> P r \<Longrightarrow>
     isg_cluster_instance_id r \<in> T Instances \<or> isg_cluster_security_group_id r \<in> T SecurityGroups"
  shows "sound (confined T c) (delete_instance_security_group_rows P)"
proof (rule sound_confined)
  fix db d assume db: "confined T c db" and d: "delete_instance_security_group_rows P db = Inr d"
  have "filter (\<lambda>r. isg_cluster_instance_id r \<notin> T Instances \<and> isg_cluster_security_group_id r \<notin> T SecurityGroups) (filter (\<lambda>r. \<not> P r) (db_instance_security_group db))
      = filter (\<lambda>r. isg_cluster_instance_id r \<notin> T Instances \<and> isg_cluster_security_group_id r \<notin> T SecurityGroups) (db_instance_security_group db)"
    by (rule filter_again) (use assms [OF db] in blast)
  then show "purge T (core d) = purge T (core db)"
    using deleted_rows [OF d [unfolded delete_instance_security_group_rows_def]] by (auto simp: purge_def core_def)
  show "wf_db d"
    using db deleted_rows [OF d [unfolded delete_instance_security_group_rows_def]] by (auto simp: confined_def wf_db_def distinct_map_filter)
qed

lemma sound_instance_user_script_rows [sound_intros]:
  assumes "\<And>db r. confined T c db \<Longrightarrow> r \<in> set (db_instance_user_script db) \<Longrightarrow> P r \<Longrightarrow>
     us_cluster_instance_id r \<in> T Instances"
  shows "sound (confined T c) (delete_instance_user_script_rows P)"
proof (rule sound_confined)
  fix db d assume db: "confined T c db" and d: "delete_instance_user_script_rows P db = Inr d"
  have "filter (\<lambda>r. us_cluster_instance_id r \<notin> T Instances) (filter (\<lambda>r. \<not> P r) (db_instance_user_script db))
      = filter (\<lambda>r. us_cluster_instance_id r \<notin> T Instances) (db_instance_user_script db)"
    by (rule filter_again) (use assms [OF db] in blast)
  then show "purge T (core d) = purge T (core db)"
    using deleted_rows [OF d [unfolded delete_instance_user_script_rows_def]] by (auto simp: purge_def core_def)
  show "wf_db d"
    using db deleted_rows [OF d [unfolded delete_instance_user_script_rows_def]] by (auto simp: confined_def wf_db_def distinct_map_filter)
qed

lemma sound_instance_rows [sound_intros]:
  assumes "\<And>db r. confined T c db \<Longrightarrow> r \<in> set (db_instance db) \<Longrightarrow> P r \<Longrightarrow>
     ins_id r \<in> T Instances"
  shows "sound (confined T c) (delete_instance_rows P)"
proof (rule sound_confined)
  fix db d assume db: "confined T c db" and d: "delete_instance_rows P db = Inr d"
  have "filter (\<lambda>r. ins_id r \<notin> T Instances) (filter (\<lambda>r. \<not> P r) (db_instance db))
      = filter (\<lambda>r. ins_id r \<notin> T Instances) (db_instance db)"
    by (rule filter_again) (use assms [OF db] in blast)
  then show "purge T (core d) = purge T (core db)"
    using deleted_rows [OF d [unfolded delete_instance_rows_def]] by (auto simp: purge_def core_def)
  show "wf_db d"
    using db deleted_rows [OF d [unfolded delete_instance_rows_def]] by (auto simp: confined_def wf_db_def distinct_map_filter)
qed

lemma sound_security_group_rule_rows [sound_intros]:
  assumes "\<And>db r. confined T c db \<Longrightarrow> r \<in> set (db_security_group_rule db) \<Longrightarrow> P r \<Longrightarrow>
     sgr_security_group_id r \<in> T SecurityGroups"
  shows "sound (confined T c) (delete_security_group_rule_rows P)"
proof (rule sound_confined)
  fix db d assume db: "confined T c db" and d: "delete_security_group_rule_rows P db = Inr d"
  have "filter (\<lambda>r. sgr_security_group_id r \<notin> T SecurityGroups) (filter (\<lambda>r. \<not> P r) (db_security_group_rule db))
      = filter (\<lambda>r. sgr_security_group_id r \<notin> T SecurityGroups) (db_security_group_rule db)"
    by (rule filter_again) (use assms [OF db] in blast)
  then show "purge T (core d) = purge T (core db)"
    using deleted_rows [OF d [unfolded delete_security_group_rule_rows_def]] by (auto simp: purge_def core_def)
  show "wf_db d"
    using db deleted_rows [OF d [unfolded delete_security_group_rule_rows_def]] by (auto simp: confined_def wf_db_def distinct_map_filter)
qed

lemma sound_security_group_rows [sound_intros]:
  assumes "\<And>db r. confined T c db \<Longrightarrow> r \<in> set (db_security_group db) \<Longrightarrow> P r \<Longrightarrow>
     sg_id r \<in> T SecurityGroups"
  shows "sound (confined T c) (delete_security_group_rows P)"
proof (rule sound_confined)
  fix db d assume db: "confined T c db" and d: "delete_security_group_rows P db = Inr d"
  have "filter (\<lambda>r. sg_id r \<notin> T SecurityGroups) (filter (\<lambda>r. \<not> P r) (db_security_group db))
      = filter (\<lambda>r. sg_id r \<notin> T SecurityGroups) (db_security_group db)"
    by (rule filter_again) (use assms [OF db] in blast)
  then show "purge T (core d) = purge T (core db)"
    using deleted_rows [OF d [unfolded delete_security_group_rows_def]] by (auto simp: purge_def core_def)
  show "wf_db d"
    using db deleted_rows [OF d [unfolded delete_security_group_rows_def]] by (auto simp: confined_def wf_db_def distinct_map_filter)
qed

lemma sound_floating_ip_rows [sound_intros]:
  assumes "\<And>db r. confined T c db \<Longrightarrow> r \<in> set (db_floating_ip db) \<Longrightarrow> P r \<Longrightarrow>
     fip_id r \<in> T FloatingIPs"
  shows "sound (confined T c) (delete_floating_ip_rows P)"
proof (rule sound_confined)
  fix db d assume db: "confined T c db" and d: "delete_floating_ip_rows P db = Inr d"
  have "filter (\<lambda>r. fip_id r \<notin> T FloatingIPs) (filter (\<lambda>r. \<not> P r) (db_floating_ip db))
      = filter (\<lambda>r. fip_id r \<notin> T FloatingIPs) (db_floating_ip db)"
    by (rule filter_again) (use assms [OF db] in blast)
  then show "purge T (core d) = purge T (core db)"
    using deleted_rows [OF d [unfolded delete_floating_ip_rows_def]] by (auto simp: purge_def core_def)
  show "wf_db d"
    using db deleted_rows [OF d [unfolded delete_floating_ip_rows_def]] by (auto simp: confined_def wf_db_def distinct_map_filter)
qed

lemma sound_routing_interface_rows [sound_intros]:
  assumes "\<And>db r. confined T c db \<Longrightarrow> r \<in> set (db_routing_interface db) \<Longrightarrow> P r \<Longrightarrow>
     ri_cluster_router_id r \<in> T Routers \<or> ri_cluster_subnet_id r \<in> T Subnets"
  shows "sound (confined T c) (delete_routing_interface_rows P)"
proof (rule sound_confined)
  fix db d assume db: "confined T c db" and d: "delete_routing_interface_rows P db = Inr d"
  have "filter (\<lambda>r. ri_cluster_router_id r \<notin> T Routers \<and> ri_cluster_subnet_id r \<notin> T Subnets) (filter (\<lambda>r. \<not> P r) (db_routing_interface db))
      = filter (\<lambda>r. ri_cluster_router_id r \<notin> T Routers \<and> ri_cluster_subnet_id r \<notin> T Subnets) (db_routing_interface db)"
    by (rule filter_again) (use assms [OF db] in blast)
  then show "purge T (core d) = purge T (core db)"
    using deleted_rows [OF d [unfolded delete_routing_interface_rows_def]] by (auto simp: purge_def core_def)
  show "wf_db d"
    using db deleted_rows [OF d [unfolded delete_routing_interface_rows_def]] by (auto simp: confined_def wf_db_def distinct_map_filter)
qed

lemma sound_extra_route_rows [sound_intros]:
  assumes "\<And>db r. confined T c db \<Longrightarrow> r \<in> set (db_extra_route db) \<Longrightarrow> P r \<Longrightarrow>
     er_cluster_router_id r \<in> T Routers"
  shows "sound (confined T c) (delete_extra_route_rows P)"
proof (rule sound_confined)
  fix db d assume db: "confined T c db" and d: "delete_extra_route_rows P db = Inr d"
  have "filter (\<lambda>r. er_cluster_router_id r \<notin> T Routers) (filter (\<lambda>r. \<not> P r) (db_extra_route db))
      = filter (\<lambda>r. er_cluster_router_id r \<notin> T Routers) (db_extra_route db)"
    by (rule filter_again) (use assms [OF db] in blast)
  then show "purge T (core d) = purge T (core db)"
    using deleted_rows [OF d [unfolded delete_extra_route_rows_def]] by (auto simp: purge_def core_def)
  show "wf_db d"
    using db deleted_rows [OF d [unfolded delete_extra_route_rows_def]] by (auto simp: confined_def wf_db_def distinct_map_filter)
qed

lemma sound_router_rows [sound_intros]:
  assumes "\<And>db r. confined T c db \<Longrightarrow> r \<in> set (db_router db) \<Longrightarrow> P r \<Longrightarrow>
     rt_id r \<in> T Routers"
  shows "sound (confined T c) (delete_router_rows P)"
proof (rule sound_confined)
  fix db d assume db: "confined T c db" and d: "delete_router_rows P db = Inr d"
  have "filter (\<lambda>r. rt_id r \<notin> T Routers) (filter (\<lambda>r. \<not> P r) (db_router db))
      = filter (\<lambda>r. rt_id r \<notin> T Routers) (db_router db)"
    by (rule filter_again) (use assms [OF db] in blast)
  then show "purge T (core d) = purge T (core db)"
    using deleted_rows [OF d [unfolded delete_router_rows_def]] by (auto simp: purge_def core_def)
  show "wf_db d"
    using db deleted_rows [OF d [unfolded delete_router_rows_def]] by (auto simp: confined_def wf_db_def distinct_map_filter)
qed

lemma sound_nameserver_rows [sound_intros]:
  assumes "\<And>db r. confined T c db \<Longrightarrow> r \<in> set (db_nameserver db) \<Longrightarrow> P r \<Longrightarrow>
     ns_cluster_subnet_id r \<in> T Subnets"
  shows "sound (confined T c) (delete_nameserver_rows P)"
proof (rule sound_confined)
  fix db d assume db: "confined T c db" and d: "delete_nameserver_rows P db = Inr d"
  have "filter (\<lambda>r. ns_cluster_subnet_id r \<notin> T Subnets) (filter (\<lambda>r. \<not> P r) (db_nameserver db))
      = filter (\<lambda>r. ns_cluster_subnet_id r \<notin> T Subnets) (db_nameserver db)"
    by (rule filter_again) (use assms [OF db] in blast)
  then show "purge T (core d) = purge T (core db)"
    using deleted_rows [OF d [unfolded delete_nameserver_rows_def]] by (auto simp: purge_def core_def)
  show "wf_db d"
    using db deleted_rows [OF d [unfolded delete_nameserver_rows_def]] by (auto simp: confined_def wf_db_def distinct_map_filter)
qed

lemma sound_dhcp_pool_rows [sound_intros]:
  assumes "\<And>db r. confined T c db \<Longrightarrow> r \<in> set (db_dhcp_pool db) \<Longrightarrow> P r \<Longrightarrow>
     dp_cluster_subnet_id r \<in> T Subnets"
  shows "sound (confined T c) (delete_dhcp_pool_rows P)"
proof (rule sound_confined)
  fix db d assume db: "confined T c db" and d: "delete_dhcp_pool_rows P db = Inr d"
  have "filter (\<lambda>r. dp_cluster_subnet_id r \<notin> T Subnets) (filter (\<lambda>r. \<not> P r) (db_dhcp_pool db))
      = filter (\<lambda>r. dp_cluster_subnet_id r \<notin> T Subnets) (db_dhcp_pool db)"
    by (rule filter_again) (use assms [OF db] in blast)
  then show "purge T (core d) = purge T (core db)"
    using deleted_rows [OF d [unfolded delete_dhcp_pool_rows_def]] by (auto simp: purge_def core_def)
  show "wf_db d"
    using db deleted_rows [OF d [unfolded delete_dhcp_pool_rows_def]] by (auto simp: confined_def wf_db_def distinct_map_filter)
qed

lemma sound_subnet_rows [sound_intros]:
  assumes "\<And>db r. confined T c db \<Longrightarrow> r \<in> set (db_subnet db) \<Longrightarrow> P r \<Longrightarrow>
     sn_id r \<in> T Subnets"
  shows "sound (confined T c) (delete_subnet_rows P)"
proof (rule sound_confined)
  fix db d assume db: "confined T c db" and d: "delete_subnet_rows P db = Inr d"
  have "filter (\<lambda>r. sn_id r \<notin> T Subnets) (filter (\<lambda>r. \<not> P r) (db_subnet db))
      = filter (\<lambda>r. sn_id r \<notin> T Subnets) (db_subnet db)"
    by (rule filter_again) (use assms [OF db] in blast)
  then show "purge T (core d) = purge T (core db)"
    using deleted_rows [OF d [unfolded delete_subnet_rows_def]] by (auto simp: purge_def core_def)
  show "wf_db d"
    using db deleted_rows [OF d [unfolded delete_subnet_rows_def]] by (auto simp: confined_def wf_db_def distinct_map_filter)
qed

lemma sound_network_rows [sound_intros]:
  assumes "\<And>db r. confined T c db \<Longrightarrow> r \<in> set (db_network db) \<Longrightarrow> P r \<Longrightarrow>
     nw_id r \<in> T Networks"
  shows "sound (confined T c) (delete_network_rows P)"
proof (rule sound_confined)
  fix db d assume db: "confined T c db" and d: "delete_network_rows P db = Inr d"
  have "filter (\<lambda>r. nw_id r \<notin> T Networks) (filter (\<lambda>r. \<not> P r) (db_network db))
      = filter (\<lambda>r. nw_id r \<notin> T Networks) (db_network db)"
    by (rule filter_again) (use assms [OF db] in blast)
  then show "purge T (core d) = purge T (core db)"
    using deleted_rows [OF d [unfolded delete_network_rows_def]] by (auto simp: purge_def core_def)
  show "wf_db d"
    using db deleted_rows [OF d [unfolded delete_network_rows_def]] by (auto simp: confined_def wf_db_def distinct_map_filter)
qed

lemma sound_hypervisor_rows [sound_intros]:
  assumes "\<And>db r. confined T c db \<Longrightarrow> r \<in> set (db_hypervisor db) \<Longrightarrow> P r \<Longrightarrow>
     hv_id r \<in> T Hypervisors"
  shows "sound (confined T c) (delete_hypervisor_rows P)"
proof (rule sound_confined)
  fix db d assume db: "confined T c db" and d: "delete_hypervisor_rows P db = Inr d"
  have "filter (\<lambda>r. hv_id r \<notin> T Hypervisors) (filter (\<lambda>r. \<not> P r) (db_hypervisor db))
      = filter (\<lambda>r. hv_id r \<notin> T Hypervisors) (db_hypervisor db)"
    by (rule filter_again) (use assms [OF db] in blast)
  then show "purge T (core d) = purge T (core db)"
    using deleted_rows [OF d [unfolded delete_hypervisor_rows_def]] by (auto simp: purge_def core_def)
  show "wf_db d"
    using db deleted_rows [OF d [unfolded delete_hypervisor_rows_def]] by (auto simp: confined_def wf_db_def distinct_map_filter)
qed

lemma sound_availability_zone_rows [sound_intros]:
  assumes "\<And>db r. confined T c db \<Longrightarrow> r \<in> set (db_availability_zone db) \<Longrightarrow> P r \<Longrightarrow>
     az_id r \<in> T Zones"
  shows "sound (confined T c) (delete_availability_zone_rows P)"
proof (rule sound_confined)
  fix db d assume db: "confined T c db" and d: "delete_availability_zone_rows P db = Inr d"
  have "filter (\<lambda>r. az_id r \<notin> T Zones) (filter (\<lambda>r. \<not> P r) (db_availability_zone db))
      = filter (\<lambda>r. az_id r \<notin> T Zones) (db_availability_zone db)"
    by (rule filter_again) (use assms [OF db] in blast)
  then show "purge T (core d) = purge T (core db)"
    using deleted_rows [OF d [unfolded delete_availability_zone_rows_def]] by (auto simp: purge_def core_def)
  show "wf_db d"
    using db deleted_rows [OF d [unfolded delete_availability_zone_rows_def]] by (auto simp: confined_def wf_db_def distinct_map_filter)
qed

lemma sound_quota_rows [sound_intros]:
  assumes "\<And>db r. confined T c db \<Longrightarrow> r \<in> set (db_quota db) \<Longrightarrow> P r \<Longrightarrow>
     qt_cluster_tenant_id r \<in> T Tenants"
  shows "sound (confined T c) (delete_quota_rows P)"
proof (rule sound_confined)
  fix db d assume db: "confined T c db" and d: "delete_quota_rows P db = Inr d"
  have "filter (\<lambda>r. qt_cluster_tenant_id r \<notin> T Tenants) (filter (\<lambda>r. \<not> P r) (db_quota db))
      = filter (\<lambda>r. qt_cluster_tenant_id r \<notin> T Tenants) (db_quota db)"
    by (rule filter_again) (use assms [OF db] in blast)
  then show "purge T (core d) = purge T (core db)"
    using deleted_rows [OF d [unfolded delete_quota_rows_def]] by (auto simp: purge_def core_def)
  show "wf_db d"
    using db deleted_rows [OF d [unfolded delete_quota_rows_def]] by (auto simp: confined_def wf_db_def distinct_map_filter)
qed

lemma sound_tenant_rows [sound_intros]:
  assumes "\<And>db r. confined T c db \<Longrightarrow> r \<in> set (db_tenant db) \<Longrightarrow> P r \<Longrightarrow>
     tn_id r \<in> T Tenants"
  shows "sound (confined T c) (delete_tenant_rows P)"
proof (rule sound_confined)
  fix db d assume db: "confined T c db" and d: "delete_tenant_rows P db = Inr d"
  have "filter (\<lambda>r. tn_id r \<notin> T Tenants) (filter (\<lambda>r. \<not> P r) (db_tenant db))
      = filter (\<lambda>r. tn_id r \<notin> T Tenants) (db_tenant db)"
    by (rule filter_again) (use assms [OF db] in blast)
  then show "purge T (core d) = purge T (core db)"
    using deleted_rows [OF d [unfolded delete_tenant_rows_def]] by (auto simp: purge_def core_def)
  show "wf_db d"
    using db deleted_rows [OF d [unfolded delete_tenant_rows_def]] by (auto simp: confined_def wf_db_def distinct_map_filter)
qed

lemma sound_storage_rows [sound_intros]:
  assumes "\<And>db r. confined T c db \<Longrightarrow> r \<in> set (db_storage db) \<Longrightarrow> P r \<Longrightarrow>
     st_id r \<in> T Storages"
  shows "sound (confined T c) (delete_storage_rows P)"
proof (rule sound_confined)
  fix db d assume db: "confined T c db" and d: "delete_storage_rows P db = Inr d"
  have "filter (\<lambda>r. st_id r \<notin> T Storages) (filter (\<lambda>r. \<not> P r) (db_storage db))
      = filter (\<lambda>r. st_id r \<notin> T Storages) (db_storage db)"
    by (rule filter_again) (use assms [OF db] in blast)
  then show "purge T (core d) = purge T (core db)"
    using deleted_rows [OF d [unfolded delete_storage_rows_def]] by (auto simp: purge_def core_def)
  show "wf_db d"
    using db deleted_rows [OF d [unfolded delete_storage_rows_def]] by (auto simp: confined_def wf_db_def distinct_map_filter)
qed

section \<open>Closed targets\<close>

text \<open>
  The rows of a confined database outside of the targets are the rows of the original one, so
  targets that are closed under the dependencies of the original database stay closed.
\<close>

definition closed :: "targets \<Rightarrow> database \<Rightarrow> bool" where
  "closed T db \<longleftrightarrow>
     (\<forall>r \<in> set (db_floating_ip db). fip_cluster_network_id r \<in> T Networks \<longrightarrow> fip_id r \<in> T FloatingIPs) \<and>
     (\<forall>r \<in> set (db_subnet db). sn_cluster_network_id r \<in> T Networks \<longrightarrow> sn_id r \<in> T Subnets) \<and>
     (\<forall>r \<in> set (db_instance db). ins_cluster_hypervisor_id r \<in> T Hypervisors \<longrightarrow> ins_id r \<in> T Instances) \<and>
     (\<forall>r \<in> set (db_instance db). ins_cluster_availability_zone_id r \<in> T Zones \<longrightarrow> ins_id r \<in> T Instances) \<and>
     (\<forall>r \<in> set (db_hypervisor db). hv_cluster_availability_zone_id r \<in> T Zones \<longrightarrow> hv_id r \<in> T Hypervisors) \<and>
     (\<forall>r \<in> set (db_volume db). vol_cluster_storage_id r \<in> T Storages \<longrightarrow> vol_id r \<in> T Volumes) \<and>
     (\<forall>r \<in> set (db_instance db). ins_cluster_tenant_id r \<in> T Tenants \<longrightarrow> ins_id r \<in> T Instances) \<and>
     (\<forall>r \<in> set (db_security_group db). sg_cluster_tenant_id r \<in> T Tenants \<longrightarrow> sg_id r \<in> T SecurityGroups) \<and>
     (\<forall>r \<in> set (db_volume db). vol_cluster_tenant_id r \<in> T Tenants \<longrightarrow> vol_id r \<in> T Volumes) \<and>
     (\<forall>r \<in> set (db_floating_ip db). fip_cluster_tenant_id r \<in> T Tenants \<longrightarrow> fip_id r \<in> T FloatingIPs) \<and>
     (\<forall>r \<in> set (db_network db). nw_cluster_tenant_id r \<in> T Tenants \<longrightarrow> nw_id r \<in> T Networks) \<and>
     (\<forall>r \<in> set (db_router db). rt_cluster_tenant_id r \<in> T Tenants \<longrightarrow> rt_id r \<in> T Routers)"

lemma core_tables_eq:
  assumes "purge T (core db) = purge T (core c)"
  shows "filter (\<lambda>r. fip_id r \<notin> T FloatingIPs) (db_floating_ip db) = filter (\<lambda>r. fip_id r \<notin> T FloatingIPs) (db_floating_ip c)"
    "filter (\<lambda>r. sn_id r \<notin> T Subnets) (db_subnet db) = filter (\<lambda>r. sn_id r \<notin> T Subnets) (db_subnet c)"
    "filter (\<lambda>r. ins_id r \<notin> T Instances) (db_instance db) = filter (\<lambda>r. ins_id r \<notin> T Instances) (db_instance c)"
    "filter (\<lambda>r. hv_id r \<notin> T Hypervisors) (db_hypervisor db) = filter (\<lambda>r. hv_id r \<notin> T Hypervisors) (db_hypervisor c)"
    "filter (\<lambda>r. vol_id r \<notin> T Volumes) (db_volume db) = filter (\<lambda>r. vol_id r \<notin> T Volumes) (db_volume c)"
    "filter (\<lambda>r. sg_id r \<notin> T SecurityGroups) (db_security_group db) = filter (\<lambda>r. sg_id r \<notin> T SecurityGroups) (db_security_group c)"
    "filter (\<lambda>r. nw_id r \<notin> T Networks) (db_network db) = filter (\<lambda>r. nw_id r \<notin> T Networks) (db_network c)"
    "filter (\<lambda>r. rt_id r \<notin> T Routers) (db_router db) = filter (\<lambda>r. rt_id r \<notin> T Routers) (db_router c)"
  using arg_cong [OF assms, of db_floating_ip] arg_cong [OF assms, of db_subnet]
    arg_cong [OF assms, of db_instance] arg_cong [OF assms, of db_hypervisor]
    arg_cong [OF assms, of db_volume] arg_cong [OF assms, of db_security_group]
    arg_cong [OF assms, of db_network] arg_cong [OF assms, of db_router]
  by (simp_all add: core_def)

lemma closed_rows:
  assumes "filter (\<lambda>r. key r \<notin> A) rows = filter (\<lambda>r. key r \<notin> A) rows'"
    and "\<forall>r \<in> set rows'. P r \<longrightarrow> key r \<in> A"
  shows "\<forall>r \<in> set rows. P r \<longrightarrow> key r \<in> A"
  using assms by (metis (mono_tags, lifting) mem_Collect_eq set_filter)

lemma closed_confined:
  assumes "closed T c" and "confined T c db"
  shows "closed T db"
proof -
  have eq: "purge T (core db) = purge T (core c)" using assms(2) by (simp add: confined_def)
  show ?thesis
    using assms(1) unfolding closed_def
    by (elim conjE, intro conjI) (erule core_tables_eq [OF eq, THEN closed_rows])+
qed

end
