(* ===== verification/Confinement.thy ===== *)
theory Confinement
  imports Confine
begin

text \<open>
  Every deletion of the synchroniser is confined to the targets of its specification, in every
  world: whichever statements, commits or messages fail, no row outside of the targets is
  removed or changed, and the database stays well-formed.
\<close>

section \<open>Specs\<close>

lemma sound_spec [sound_intros]:
  assumes "spec_statement q"
  shows "sound (confined T c) q"
proof (rule sound_confined)
  fix db d assume "confined T c db" "q db = Inr d"
  then show "purge T (core d) = purge T (core db)" "wf_db d"
    using spec_statement_core [OF assms, of db d] wf_core_cong [of d db] by (simp_all add: confined_def)
qed

abbreviation (input) "confines T c \<equiv> keeps (on_db (confined T c))"

lemma confines_delete_instance_extra_spec [db_intros]: "confines T c (delete_instance_extra_spec s x)"
  unfolding delete_instance_extra_spec_def by (intro db_intros) (simp add: sound_spec)

lemma confines_fetch [db_intros]:
  "keeps P m \<Longrightarrow> (\<And>x. keeps P (k x)) \<Longrightarrow> keeps P (fetch m k)"
  by (rule keeps_fetch)

lemma confines_sync_cluster_instance_extra_spec [db_intros]:
  "confines T c (sync_cluster_instance_extra_spec s force sp x)"
  unfolding sync_cluster_instance_extra_spec_def save_extra_def
  by (intro db_intros) (auto split: sum.split err.split intro!: db_intros sound_spec)

lemma confines_delete_extra_specs [db_intros]: "confines T c (delete_extra_specs s xs flag e)"
  by (induction xs arbitrary: flag e) (auto intro!: db_intros)

lemma confines_sync_extra_specs [db_intros]: "confines T c (sync_extra_specs s force sp xs e)"
  by (induction xs arbitrary: e) (auto intro!: db_intros)

lemma confines_delete_instance_spec [db_intros]: "confines T c (delete_instance_spec s sp)"
  unfolding delete_instance_spec_def by (auto intro!: db_intros sound_spec)

lemma confines_sync_cluster_instance_spec [db_intros]:
  "confines T c (sync_cluster_instance_spec s force sp)"
  unfolding sync_cluster_instance_spec_def save_spec_def
  by (intro db_intros) (auto split: sum.split err.split intro!: db_intros sound_spec)

section \<open>Rows that were found\<close>

text \<open>
  A row that was found depends on a target. A statement deletes it later by its key, in a
  database other steps have changed: the row that has the key then depends on a target too.
\<close>

lemma found_by_key:
  assumes "filter P xs = filter P ys" and "distinct (map key xs)"
    and "n \<in> set xs" and "\<not> P n" and "r \<in> set ys" and "key r = key n"
  shows "\<not> P r"
proof
  assume "P r"
  with assms(5) have "r \<in> set (filter P ys)" by simp
  then have "r \<in> set xs" unfolding assms(1) [symmetric] by simp
  then have "r = n" using assms(2,3,6) by (auto simp: distinct_map inj_on_def)
  then show False using \<open>P r\<close> assms(4) by simp
qed

lemma purge_eq_tables:
  assumes "purge T (core a) = purge T (core b)"
  shows "filter (\<lambda>r. vs_cluster_volume_id r \<notin> T Volumes) (db_volume_snapshot a)
      = filter (\<lambda>r. vs_cluster_volume_id r \<notin> T Volumes) (db_volume_snapshot b)"
    and "filter (\<lambda>r. sgr_security_group_id r \<notin> T SecurityGroups) (db_security_group_rule a)
      = filter (\<lambda>r. sgr_security_group_id r \<notin> T SecurityGroups) (db_security_group_rule b)"
    and "map (without_ip (T FloatingIPs)) (filter (\<lambda>r. inw_cluster_instance_id r \<notin> T Instances \<and>
        inw_cluster_network_id r \<notin> T Networks \<and> inw_cluster_subnet_id r \<notin> T Subnets) (db_instance_network a))
      = map (without_ip (T FloatingIPs)) (filter (\<lambda>r. inw_cluster_instance_id r \<notin> T Instances \<and>
        inw_cluster_network_id r \<notin> T Networks \<and> inw_cluster_subnet_id r \<notin> T Subnets) (db_instance_network b))"
  using arg_cong [OF assms, of db_volume_snapshot] arg_cong [OF assms, of db_security_group_rule]
    arg_cong [OF assms, of db_instance_network]
  by (simp_all add: core_def)

lemma confined_eq: "confined T c a \<Longrightarrow> confined T c b \<Longrightarrow> purge T (core a) = purge T (core b)"
  by (simp add: confined_def)

lemma confined_wf: "confined T c a \<Longrightarrow> wf_db a"
  by (simp add: confined_def)

lemma wf_keys:
  assumes "wf_db db"
  shows "distinct (map inw_id (db_instance_network db))" "distinct (map vs_id (db_volume_snapshot db))"
    "distinct (map sgr_id (db_security_group_rule db))"
    "r1 \<in> set (db_instance_network db) \<Longrightarrow> inw_id r1 \<noteq> 0"
    "r2 \<in> set (db_volume_snapshot db) \<Longrightarrow> vs_id r2 \<noteq> 0"
    "r3 \<in> set (db_security_group_rule db) \<Longrightarrow> sgr_id r3 \<noteq> 0"
    "r4 \<in> set (db_instance_volume db) \<Longrightarrow> ivol_cluster_instance_id r4 \<noteq> 0"
    "r5 \<in> set (db_instance_security_group db) \<Longrightarrow> isg_cluster_instance_id r5 \<noteq> 0"
    "r6 \<in> set (db_instance_user_script db) \<Longrightarrow> us_cluster_instance_id r6 \<noteq> 0"
    "r7 \<in> set (db_routing_interface db) \<Longrightarrow> ri_cluster_router_id r7 \<noteq> 0"
  using assms unfolding wf_db_def by (elim conjE; assumption | blast)+

definition network_in :: "targets \<Rightarrow> cluster_instance_network \<Rightarrow> bool" where
  "network_in T r \<longleftrightarrow> inw_cluster_instance_id r \<in> T Instances \<or> inw_cluster_network_id r \<in> T Networks \<or>
     inw_cluster_subnet_id r \<in> T Subnets"

lemma found_network:
  assumes "confined T c a" and "n \<in> set (db_instance_network a)" and "network_in T n"
    and "confined T c b" and "r \<in> set (db_instance_network b)" and "inw_id r = inw_id n"
  shows "network_in T r"
proof (rule ccontr)
  let ?P = "\<lambda>r. \<not> network_in T r"
  assume "\<not> network_in T r"
  then have "without_ip (T FloatingIPs) r \<in> set (map (without_ip (T FloatingIPs)) (filter ?P (db_instance_network b)))"
    using assms(5) by simp
  also have "map (without_ip (T FloatingIPs)) (filter ?P (db_instance_network b))
      = map (without_ip (T FloatingIPs)) (filter ?P (db_instance_network a))"
    using purge_eq_tables(3) [OF confined_eq [OF assms(4,1)]] by (simp add: network_in_def)
  finally obtain x where x: "x \<in> set (db_instance_network a)" "\<not> network_in T x"
    "without_ip (T FloatingIPs) x = without_ip (T FloatingIPs) r" by auto
  then have "inw_id x = inw_id n" using assms(6) without_ip_simps(1) by metis
  then have "x = n"
    using wf_keys(1) [OF confined_wf [OF assms(1)]] x(1) assms(2) by (auto simp: distinct_map inj_on_def)
  then show False using x(2) assms(3) by simp
qed


section \<open>Dependent rows\<close>

lemma sound_network_in:
  "(\<And>db r. confined T c db \<Longrightarrow> r \<in> set (db_instance_network db) \<Longrightarrow> P r \<Longrightarrow> network_in T r) \<Longrightarrow>
   sound (confined T c) (delete_instance_network_rows P)"
  unfolding network_in_def by (rule sound_instance_network_rows)

lemma confines_detach_networks:
  assumes "found (confined T c) db_instance_network P ns" and "\<And>n. P n \<Longrightarrow> network_in T n"
  shows "confines T c (for_err (delete_instance_network s) ns)"
proof (rule db_for_err)
  fix n assume "n \<in> set ns"
  then obtain a where a: "confined T c a" "n \<in> set (db_instance_network a)" "network_in T n"
    using assms by (metis foundE)
  have "inw_id n \<noteq> 0" using wf_keys(4) [OF confined_wf [OF a(1)] a(2)] .
  then show "confines T c (delete_instance_network s n)"
    unfolding delete_instance_network_def using found_network [OF a]
    by (auto intro!: db_intros sound_network_in)
qed

lemma confines_delete_snapshots:
  assumes "found (confined T c) db_volume_snapshot P ns" and "\<And>n. P n \<Longrightarrow> vs_cluster_volume_id n \<in> T Volumes"
  shows "confines T c (for_err (delete_volume_snapshot s v) ns)"
proof (rule db_for_err)
  fix n assume "n \<in> set ns"
  then obtain a where a: "confined T c a" "n \<in> set (db_volume_snapshot a)" "vs_cluster_volume_id n \<in> T Volumes"
    using assms by (metis foundE)
  have nz: "vs_id n \<noteq> 0" using wf_keys(5) [OF confined_wf [OF a(1)] a(2)] .
  have "vs_cluster_volume_id r \<in> T Volumes"
    if "confined T c b" "r \<in> set (db_volume_snapshot b)" "vs_id r = vs_id n" for b r
    using found_by_key [OF purge_eq_tables(1) [OF confined_eq [OF a(1) that(1)]]
        wf_keys(2) [OF confined_wf [OF a(1)]] a(2) _ that(2,3)] a(3) by simp
  then show "confines T c (delete_volume_snapshot s v n)"
    unfolding delete_volume_snapshot_def using nz by (auto intro!: db_intros sound_volume_snapshot_rows)
qed

lemma confines_delete_rules:
  assumes "found (confined T c) db_security_group_rule P ns" and "\<And>n. P n \<Longrightarrow> sgr_security_group_id n \<in> T SecurityGroups"
  shows "confines T c (for_err (delete_security_group_rule s) ns)"
proof (rule db_for_err)
  fix n assume "n \<in> set ns"
  then obtain a where a: "confined T c a" "n \<in> set (db_security_group_rule a)" "sgr_security_group_id n \<in> T SecurityGroups"
    using assms by (metis foundE)
  have nz: "sgr_id n \<noteq> 0" using wf_keys(6) [OF confined_wf [OF a(1)] a(2)] .
  have "sgr_security_group_id r \<in> T SecurityGroups"
    if "confined T c b" "r \<in> set (db_security_group_rule b)" "sgr_id r = sgr_id n" for b r
    using found_by_key [OF purge_eq_tables(2) [OF confined_eq [OF a(1) that(1)]]
        wf_keys(3) [OF confined_wf [OF a(1)]] a(2) _ that(2,3)] a(3) by simp
  then show "confines T c (delete_security_group_rule s n)"
    unfolding delete_security_group_rule_def using nz by (auto intro!: db_intros sound_security_group_rule_rows)
qed

lemma confines_delete_instance_volume:
  assumes "ivol_cluster_instance_id iv \<noteq> 0"
    and "ivol_cluster_instance_id iv \<in> T Instances \<or> ivol_cluster_volume_id iv \<in> T Volumes"
  shows "confines T c (delete_instance_volume s v iv)"
  unfolding delete_instance_volume_def using assms
  by (auto simp: cond_pair_def intro!: db_intros sound_instance_volume_rows)

lemma confines_detach_volumes:
  assumes "found (confined T c) db_instance_volume P ivs"
    and "\<And>iv. P iv \<Longrightarrow> ivol_cluster_instance_id iv \<in> T Instances \<or> ivol_cluster_volume_id iv \<in> T Volumes"
  shows "confines T c (for_err (delete_instance_volume s v) ivs)"
  by (rule db_for_err, erule foundE [OF assms(1)], rule confines_delete_instance_volume)
    (use wf_keys(7) confined_wf assms(2) in blast)+

lemma confines_leave_groups:
  assumes "found (confined T c) db_instance_security_group P gs"
    and "\<And>g. P g \<Longrightarrow> isg_cluster_instance_id g \<in> T Instances \<or> isg_cluster_security_group_id g \<in> T SecurityGroups"
  shows "confines T c (for_err (\<lambda>g. gorm_transaction (exec_all [delete_instance_security_group g])) gs)"
proof (rule db_for_err, erule foundE [OF assms(1)])
  fix g a assume "confined T c a" "g \<in> set (db_instance_security_group a)" "P g"
  then have "isg_cluster_instance_id g \<noteq> 0" using wf_keys(8) confined_wf by blast
  then show "confines T c (gorm_transaction (exec_all [delete_instance_security_group g]))"
    unfolding delete_instance_security_group_def using assms(2) [OF \<open>P g\<close>]
    by (auto simp: cond_pair_def intro!: db_intros sound_instance_security_group_rows)
qed

lemma confines_delete_interfaces:
  assumes "found (confined T c) db_routing_interface P is"
    and "\<And>i. P i \<Longrightarrow> ri_cluster_router_id i \<in> T Routers \<or> ri_cluster_subnet_id i \<in> T Subnets"
  shows "confines T c (for_err (delete_routing_interface s) is)"
proof (rule db_for_err, erule foundE [OF assms(1)])
  fix i a assume "confined T c a" "i \<in> set (db_routing_interface a)" "P i"
  then have "ri_cluster_router_id i \<noteq> 0" using wf_keys(10) confined_wf by blast
  then show "confines T c (delete_routing_interface s i)"
    unfolding delete_routing_interface_def using assms(2) [OF \<open>P i\<close>]
    by (auto simp: cond_pair_def intro!: db_intros sound_routing_interface_rows)
qed

lemmas confines_dependents = confines_detach_networks confines_delete_snapshots confines_delete_rules
  confines_detach_volumes confines_leave_groups confines_delete_interfaces

section \<open>Volumes, instances, security groups, subnets and routers\<close>

lemma confines_volume_document:
  "confines T c (do {
     d \<leftarrow> get_volume i j;
     case d of Inl _ \<Rightarrow> return_nil | Inr x \<Rightarrow> delete_volume_document x
   })"
  unfolding get_volume_def load_def delete_volume_document_def erase_prefix_def store_delete_prefix_def
  by (intro db_intros)

lemma confines_storage_document:
  "confines T c (do {
     d \<leftarrow> get_storage i j;
     case d of Inl _ \<Rightarrow> return_nil | Inr x \<Rightarrow> delete_storage_document x
   })"
  unfolding get_storage_def load_def delete_storage_document_def erase_prefix_def store_delete_prefix_def
  by (intro db_intros)

lemmas confines_steps = keeps_check db_transact db_announce db_clear_shared_task keeps_ignoring
  keeps_return_nil confines_volume_document confines_storage_document

lemma confines_delete_volume:
  assumes "vol_id v \<in> T Volumes" and "vol_id v \<noteq> 0"
  shows "confines T c (delete_volume s v)"
  unfolding delete_volume_def
  by (rule db_fetch, (rule finds_intros)+, unfold split_paired_all prod.case, elim conjE)
    (use assms in \<open>auto intro!: confines_steps sound_volume_rows elim!: confines_dependents\<close>)

lemma confines_delete_security_group:
  assumes "sg_id g \<in> T SecurityGroups" and "sg_id g \<noteq> 0"
  shows "confines T c (delete_security_group s g)"
  unfolding delete_security_group_def
  by (rule db_fetch, (rule finds_intros)+, unfold split_paired_all prod.case, elim conjE)
    (use assms in \<open>auto simp: execute_err_def intro!: confines_steps db_intros sound_security_group_rows
      elim!: confines_dependents\<close>)

lemma confines_delete_subnet:
  assumes "sn_id n \<in> T Subnets" and "sn_id n \<noteq> 0"
  shows "confines T c (delete_subnet s n)"
  unfolding delete_subnet_def
  by (rule db_fetch, (rule finds_intros)+, unfold split_paired_all prod.case, elim conjE)
    (use assms in \<open>auto simp: network_in_def intro!: confines_steps sound_subnet_rows sound_nameserver_rows
        sound_dhcp_pool_rows elim!: confines_dependents\<close>)

lemma confines_delete_router:
  assumes "rt_id r \<in> T Routers" and "rt_id r \<noteq> 0"
  shows "confines T c (delete_router s r)"
  unfolding delete_router_def
  by (rule db_fetch, (rule finds_intros)+)
    (use assms in \<open>auto intro!: confines_steps sound_router_rows sound_extra_route_rows elim!: confines_dependents\<close>)

section \<open>Instances\<close>

lemma finds_first_row [finds_intros]: "finds F (first_row key sel) (\<lambda>x. \<exists>db. F db \<and> x \<in> set (sel db))"
  unfolding finds_def
proof (intro conjI allI impI)
  show "keeps (on_db F) (first_row key sel)" by (rule db_first_row)
  fix w x w' assume "on_db F w" "run_state (first_row key sel) w = (Inr x, w')"
  then show "\<exists>db. F db \<and> x \<in> set (sel db)"
    by (auto simp: first_row_def statement_def on_db_def
        split: if_splits prod.splits sum.splits option.splits dest!: pop_fault_db_eq least_by_Some)
qed

text \<open>A query whose error is looked at.\<close>

lemma finds_bind:
  assumes "finds F m Q" and "\<And>e. finds F (k (Inl e)) R" and "\<And>x. Q x \<Longrightarrow> finds F (k (Inr x)) R"
  shows "finds F (do { r \<leftarrow> m; k r }) R"
  unfolding finds_def
proof (intro conjI allI impI)
  have step: "(case run_state m w of (r, w1) \<Rightarrow> on_db F w1 \<and> finds F (k r) R)" if w: "on_db F w" for w
  proof -
    obtain r w1 where r: "run_state m w = (r, w1)" by force
    have "on_db F w1" using assms(1) w r keepsD [of "on_db F" m w] by (simp add: finds_def)
    moreover have "finds F (k r) R" using assms w r by (cases r) (auto simp: finds_def)
    ultimately show ?thesis using r by simp
  qed
  show "keeps (on_db F) (do { r \<leftarrow> m; k r })"
    by (rule keepsI, drule step) (auto simp: finds_def intro: keepsD split: prod.splits)
  fix w x w' assume "on_db F w" "run_state (do { r \<leftarrow> m; k r }) w = (Inr x, w')"
  then show "R x" using step [of w] by (auto simp: finds_def split: prod.splits)
qed

lemma finds_return: "(\<And>y. r = Inr y \<Longrightarrow> Q y) \<Longrightarrow> finds F (State_Monad.return r) Q"
  by (auto simp: finds_def keeps_return)

lemma finds_instance_dependents [finds_intros]:
  "finds F (instance_dependents x) (\<lambda>((ns, gs), u, sp).
     found F db_instance_network (\<lambda>r. cond_nat (ins_id x) (inw_cluster_instance_id r)) ns \<and>
     found F db_instance_security_group (\<lambda>r. cond_nat (ins_id x) (isg_cluster_instance_id r)) gs \<and>
     (\<forall>y. u = Some y \<longrightarrow> (\<exists>db. F db \<and> y \<in> set (db_instance_user_script db) \<and>
        cond_nat (ins_id x) (us_cluster_instance_id y))))"
proof -
  let ?Q = "\<lambda>(u, sp). \<forall>y. u = Some y \<longrightarrow> (\<exists>db. F db \<and> y \<in> set (db_instance_user_script db) \<and>
        cond_nat (ins_id x) (us_cluster_instance_id y))"
  have sp: "finds F (do {
      sp \<leftarrow> first_row sp_id (\<lambda>db. filter (\<lambda>r. cond_nat (ins_cluster_instance_spec_id x) (sp_id r)) (db_instance_spec db));
      State_Monad.return (Inr (u, case sp of Inl _ \<Rightarrow> None | Inr r \<Rightarrow> Some r)) }) ?Q" if "?Q (u, None)" for u
    using that by (intro finds_bind [OF finds_first_row] finds_return) auto
  show ?thesis
    unfolding instance_dependents_def
    by (rule finds_mono, rule finds_both [OF finds_both [OF finds_find_all finds_find_all]],
        rule finds_bind [OF finds_first_row, where R = ?Q]) (auto intro!: finds_return sp)
qed

lemma confines_detach_instance_volumes:
  assumes "\<exists>db. confined T c db \<and> ivs = instance_volume_join i db" and "i \<in> T Instances" and "i \<noteq> 0"
  shows "confines T c (for_err (\<lambda>(iv, v). delete_instance_volume s v iv) ivs)"
proof (rule db_for_err)
  fix x assume x: "x \<in> set ivs"
  obtain db where "ivs = instance_volume_join i db" using assms(1) by blast
  then have "ivol_cluster_instance_id (fst x) = i" using x assms(3) by (auto simp: instance_volume_join_def)
  then show "confines T c (case x of (iv, v) \<Rightarrow> delete_instance_volume s v iv)"
    using assms(2,3) by (cases x) (auto intro!: confines_delete_instance_volume)
qed

lemma confines_delete_script:
  assumes "\<forall>y. u = Some y \<longrightarrow> (\<exists>db. confined T c db \<and> y \<in> set (db_instance_user_script db) \<and>
        cond_nat i (us_cluster_instance_id y))" and "i \<in> T Instances" and "i \<noteq> 0"
  shows "confines T c (case u of None \<Rightarrow> return_nil
        | Some y \<Rightarrow> gorm_transaction (exec_all [delete_instance_user_script y]))"
  using assms
  by (cases u) (auto simp: delete_instance_user_script_def intro!: db_intros sound_instance_user_script_rows)

lemma confines_sync_spec:
  "confines T c (case sp of None \<Rightarrow> return_nil
     | Some sp \<Rightarrow> (if sp_id sp \<noteq> 0 then ignoring (sync_cluster_instance_spec s False sp) return_nil
        else return_nil))"
  by (intro db_intros)

lemma confines_delete_instance:
  assumes "ins_id x \<in> T Instances" and "ins_id x \<noteq> 0"
  shows "confines T c (delete_instance s x)"
  unfolding delete_instance_def get_instance_volume_records_def
  by (rule db_fetch, (rule finds_intros)+, unfold split_paired_all prod.case, elim conjE,
      rule db_fetch, (rule finds_intros)+)
    (use assms in \<open>auto simp: network_in_def intro!: confines_steps sound_instance_rows
      confines_detach_instance_volumes confines_delete_script confines_sync_spec elim!: confines_dependents\<close>)

section \<open>Floating IPs\<close>

text \<open>
  The rows that have the floating IP were read before the first of them is saved. While they
  are saved one after the other each of them still has its row, which differs from it at most
  in the floating IP.
\<close>

definition holds_networks :: "nat \<Rightarrow> cluster_instance_network list \<Rightarrow> database \<Rightarrow> bool" where
  "holds_networks f ns db \<longleftrightarrow> (\<forall>n \<in> set ns. \<exists>r \<in> set (db_instance_network db).
     inw_id r = inw_id n \<and> without_ip {f} r = n\<lparr>inw_cluster_floating_ip_id := None\<rparr>)"

lemma save_into_found:
  assumes "save_into pk ok new rows = Inr rs" and "old \<in> set rows" and "pk old = pk new"
  shows "rs = map (\<lambda>r. if pk r = pk new then new else r) rows"
  using assms by (auto simp: save_into_def find_None_iff split: option.splits if_splits)

lemma sound_cut_ip:
  assumes f: "f \<in> T FloatingIPs" and n: "n \<in> set ns"
  shows "sound (\<lambda>db. confined T c db \<and> holds_networks f ns db)
    (save_instance_network (n\<lparr>inw_cluster_floating_ip_id := None\<rparr>))"
proof (rule soundI, elim conjE)
  let ?new = "n\<lparr>inw_cluster_floating_ip_id := None\<rparr>" and ?T = "T FloatingIPs"
  fix db d
  assume db: "confined T c db" "holds_networks f ns db" and d: "save_instance_network ?new db = Inr d"
  let ?rows = "db_instance_network db"
  let ?g = "\<lambda>r. if inw_id r = inw_id n then ?new else r"
  obtain old where old: "old \<in> set ?rows" "inw_id old = inw_id n" "without_ip {f} old = ?new"
    using db(2) n by (auto simp: holds_networks_def)
  have same: "r = old" if "r \<in> set ?rows" "inw_id r = inw_id n" for r
    using wf_keys(1) [OF confined_wf [OF db(1)]] that old(1,2) by (auto simp: distinct_map inj_on_def)
  have d: "d = db\<lparr>db_instance_network := map ?g ?rows\<rparr>"
    using d old by (auto simp: save_instance_network_def map_sum_def dest!: save_into_found split: sum.splits)
  have cut: "?new = without_ip {f} old" using old(3) by simp
  have g: "without_ip ?T (?g r) = without_ip ?T r" "inw_cluster_instance_id (?g r) = inw_cluster_instance_id r"
    "inw_cluster_network_id (?g r) = inw_cluster_network_id r" "inw_cluster_subnet_id (?g r) = inw_cluster_subnet_id r"
    "inw_id (?g r) = inw_id r" "without_ip {f} (?g r) = without_ip {f} r" if "r \<in> set ?rows" for r
    using same [OF that] f unfolding cut by (auto simp: without_ip_union insert_absorb)
  have "map (without_ip ?T) (filter P (map ?g ?rows)) = map (without_ip ?T) (filter P ?rows)"
    if "\<And>r. r \<in> set ?rows \<Longrightarrow> P (?g r) = P r" for P
    using that g(1) by (simp add: filter_map o_def cong: filter_cong)
  then have "purge T (core d) = purge T (core db)"
    unfolding d using g(2-4) by (simp add: purge_def core_def)
  moreover have "wf_db d"
    using confined_wf [OF db(1)] g(5) unfolding d wf_db_def by (auto simp: o_def cong: map_cong)
  moreover have "holds_networks f ns d"
    using db(2) g(5,6) unfolding d holds_networks_def by fastforce
  ultimately show "confined T c d \<and> holds_networks f ns d"
    using db(1) by (simp add: confined_def)
qed

lemma on_db_conj: "on_db (\<lambda>db. F db \<and> G db) w \<longleftrightarrow> on_db F w \<and> on_db G w"
  by (simp add: on_db_def)

lemma db_saving_key:
  assumes "i \<noteq> 0" and "sound F (q i)" and "\<And>j. keeps (on_db F) (k j)"
  shows "keeps (on_db F) (saving i q k)"
proof -
  have "save_statement i q = do { _ \<leftarrow> exec (q i); State_Monad.return i }"
    using assms(1) by (simp add: save_statement_def fresh_id_def)
  then have "keeps (on_db F) (save_statement i q)"
    using assms(2) by (simp add: keeps_bind keeps_return db_exec)
  then show ?thesis
    unfolding saving_def using assms(3) by (intro db_intros)
qed

lemma keeps_cut_ips:
  assumes "f \<in> T FloatingIPs" and "\<forall>n \<in> set ns. inw_id n \<noteq> 0"
  shows "keeps (on_db (\<lambda>db. confined T c db \<and> holds_networks f ns db))
    (for_err (delete_instance_network_floating_ip s) ns)"
proof (rule db_for_err)
  fix n assume n: "n \<in> set ns"
  have "sound (\<lambda>db. confined T c db \<and> holds_networks f ns db)
      (save_instance_network (n\<lparr>inw_cluster_floating_ip_id := None, inw_id := inw_id n\<rparr>))"
    using sound_cut_ip [of f T n ns c] assms(1) n by simp
  then show "keeps (on_db (\<lambda>db. confined T c db \<and> holds_networks f ns db)) (delete_instance_network_floating_ip s n)"
    unfolding delete_instance_network_floating_ip_def Let_def using assms(2) n
    by (intro db_saving_key db_announce keeps_return_nil) simp_all
qed

lemma run_fetch_find_all:
  "run_state (fetch (db_res (execute (find_all t P))) k) w =
     (case run_state (find_all t P) w of
        (Inl e, w') \<Rightarrow> (Some (unusable_database (unwrap e)), w') | (Inr rs, w') \<Rightarrow> run_state (k rs) w')"
  by (cases "run_state (find_all t P) w"; cases "fst (run_state (find_all t P) w)")
    (simp_all add: fetch_def db_res_def execute_def)

lemma find_all_now:
  assumes "run_state (find_all t P) w = (r, w')"
  shows "w_db w' = w_db w \<and> (\<forall>rs. r = Inr rs \<longrightarrow> rs = filter P (t (w_db w)))"
  using assms
  by (auto simp: find_all_def find_rows_def statement_def
      split: if_splits prod.splits sum.splits option.splits dest!: pop_fault_db_eq)

lemma confines_delete_floating_ip:
  assumes f: "fip_id f \<in> T FloatingIPs" and nz: "fip_id f \<noteq> 0"
  shows "confines T c (delete_floating_ip s f)"
proof (rule keepsI)
  fix w assume w: "on_db (confined T c) w"
  let ?P = "\<lambda>r. inw_cluster_floating_ip_id r = Some (fip_id f)"
  obtain r w1 where r: "run_state (find_all db_instance_network ?P) w = (r, w1)" by force
  show "on_db (confined T c) (snd (run_state (delete_floating_ip s f) w))"
  proof (cases r)
    case (Inl e)
    then show ?thesis
      using w find_all_now [OF r] by (simp add: delete_floating_ip_def run_fetch_find_all r on_db_def)
  next
    case (Inr ns)
    let ?J = "\<lambda>db. confined T c db \<and> holds_networks (fip_id f) ns db"
    let ?loop = "for_err (delete_instance_network_floating_ip s) ns"
    let ?rest = "check (transact [delete_floating_ip_rows (\<lambda>r. cond_nat (fip_id f) (fip_id r))])
      (announce s queue_notice_cluster_floating_ip_deleted [(''OrigFloatingIP'', RFloatingIP f)] return_nil)"
    have ns: "ns = filter ?P (db_instance_network (w_db w1))" and db: "w_db w1 = w_db w"
      using find_all_now [OF r] Inr by auto
    have "confined T c (w_db w1)" using w db by (simp add: on_db_def)
    moreover have "holds_networks (fip_id f) ns (w_db w1)"
      unfolding ns by (auto simp: holds_networks_def without_ip_def intro!: bexI)
    ultimately have w1: "on_db ?J w1" by (simp add: on_db_def)
    have "\<forall>n \<in> set ns. inw_id n \<noteq> 0"
      unfolding ns using wf_keys(4) [OF confined_wf [OF \<open>confined T c (w_db w1)\<close>]] by simp
    then have loop: "on_db (confined T c) (snd (run_state ?loop w1))"
      using keepsD [OF keeps_cut_ips [of "fip_id f" T ns c s, OF f] w1] by (simp add: on_db_conj)
    have "confines T c ?rest"
      using f nz by (auto intro!: confines_steps sound_floating_ip_rows)
    then have "on_db (confined T c) (snd (run_state (check ?loop ?rest) w1))"
      using loop by (auto simp: check_def keeps_def split: prod.split option.split)
    then show ?thesis
      by (simp add: delete_floating_ip_def run_fetch_find_all r Inr)
  qed
qed

section \<open>Networks, hypervisors, availability zones, storages and tenants\<close>

text \<open>The rows a deletion finds are targets because the targets are closed.\<close>

lemma closed_found:
  assumes "closed T c" and "confined T c db"
  shows "r1 \<in> set (db_floating_ip db) \<Longrightarrow> fip_cluster_network_id r1 \<in> T Networks \<Longrightarrow> fip_id r1 \<in> T FloatingIPs \<and> fip_id r1 \<noteq> 0"
    "r2 \<in> set (db_subnet db) \<Longrightarrow> sn_cluster_network_id r2 \<in> T Networks \<Longrightarrow> sn_id r2 \<in> T Subnets \<and> sn_id r2 \<noteq> 0"
    "r3 \<in> set (db_instance db) \<Longrightarrow> ins_cluster_hypervisor_id r3 \<in> T Hypervisors \<Longrightarrow> ins_id r3 \<in> T Instances \<and> ins_id r3 \<noteq> 0"
    "r4 \<in> set (db_instance db) \<Longrightarrow> ins_cluster_availability_zone_id r4 \<in> T Zones \<Longrightarrow> ins_id r4 \<in> T Instances \<and> ins_id r4 \<noteq> 0"
    "r5 \<in> set (db_hypervisor db) \<Longrightarrow> hv_cluster_availability_zone_id r5 \<in> T Zones \<Longrightarrow> hv_id r5 \<in> T Hypervisors \<and> hv_id r5 \<noteq> 0"
    "r6 \<in> set (db_volume db) \<Longrightarrow> vol_cluster_storage_id r6 \<in> T Storages \<Longrightarrow> vol_id r6 \<in> T Volumes \<and> vol_id r6 \<noteq> 0"
    "r7 \<in> set (db_instance db) \<Longrightarrow> ins_cluster_tenant_id r7 \<in> T Tenants \<Longrightarrow> ins_id r7 \<in> T Instances \<and> ins_id r7 \<noteq> 0"
    "r8 \<in> set (db_security_group db) \<Longrightarrow> sg_cluster_tenant_id r8 \<in> T Tenants \<Longrightarrow> sg_id r8 \<in> T SecurityGroups \<and> sg_id r8 \<noteq> 0"
    "r9 \<in> set (db_volume db) \<Longrightarrow> vol_cluster_tenant_id r9 \<in> T Tenants \<Longrightarrow> vol_id r9 \<in> T Volumes \<and> vol_id r9 \<noteq> 0"
    "r10 \<in> set (db_floating_ip db) \<Longrightarrow> fip_cluster_tenant_id r10 \<in> T Tenants \<Longrightarrow> fip_id r10 \<in> T FloatingIPs \<and> fip_id r10 \<noteq> 0"
    "r11 \<in> set (db_network db) \<Longrightarrow> nw_cluster_tenant_id r11 \<in> T Tenants \<Longrightarrow> nw_id r11 \<in> T Networks \<and> nw_id r11 \<noteq> 0"
    "r12 \<in> set (db_router db) \<Longrightarrow> rt_cluster_tenant_id r12 \<in> T Tenants \<Longrightarrow> rt_id r12 \<in> T Routers \<and> rt_id r12 \<noteq> 0"
  using closed_confined [OF assms] unfolding closed_def
  by (elim conjE, simp add: wf_ids [OF confined_wf [OF assms(2)]])+

lemma confines_loop:
  assumes "found (confined T c) t P xs"
    and "\<And>db x. confined T c db \<Longrightarrow> x \<in> set (t db) \<Longrightarrow> P x \<Longrightarrow> confines T c (f x)"
  shows "confines T c (for_err f xs)"
  by (rule db_for_err, erule foundE [OF assms(1)]) (rule assms(2))

lemmas confines_loops = confines_loop [where t = db_floating_ip] confines_loop [where t = db_subnet]
  confines_loop [where t = db_instance] confines_loop [where t = db_hypervisor]
  confines_loop [where t = db_volume] confines_loop [where t = db_security_group]
  confines_loop [where t = db_network] confines_loop [where t = db_router]

lemmas confines_resources = confines_delete_volume confines_delete_instance confines_delete_security_group
  confines_delete_subnet confines_delete_router confines_delete_floating_ip

lemma confines_delete_network:
  assumes "closed T c" and "nw_id n \<in> T Networks" and "nw_id n \<noteq> 0"
  shows "confines T c (delete_network s n)"
  unfolding delete_network_def
  by (rule db_fetch, (rule finds_intros)+, unfold split_paired_all prod.case, elim conjE)
    (use assms closed_found [OF assms(1)] in \<open>auto simp: network_in_def intro!: confines_steps sound_network_rows
      confines_resources elim!: confines_detach_networks confines_loops\<close>)

lemma confines_delete_hypervisor:
  assumes "closed T c" and "hv_id h \<in> T Hypervisors" and "hv_id h \<noteq> 0"
  shows "confines T c (delete_hypervisor s h)"
  unfolding delete_hypervisor_def
  by (rule db_fetch, (rule finds_intros)+)
    (use assms closed_found [OF assms(1)] in \<open>auto intro!: confines_steps sound_hypervisor_rows
      confines_resources elim!: confines_loops\<close>)

lemma confines_delete_availability_zone:
  assumes "closed T c" and "az_id z \<in> T Zones" and "az_id z \<noteq> 0"
  shows "confines T c (delete_availability_zone s z)"
  unfolding delete_availability_zone_def
  by (rule db_fetch, (rule finds_intros)+, unfold split_paired_all prod.case, elim conjE)
    (use assms closed_found [OF assms(1)] in \<open>auto intro!: confines_steps sound_availability_zone_rows
      confines_resources confines_delete_hypervisor elim!: confines_loops\<close>)

lemma confines_delete_storage:
  assumes "closed T c" and "st_id st \<in> T Storages" and "st_id st \<noteq> 0"
  shows "confines T c (delete_storage s st)"
  unfolding delete_storage_def
  by (rule db_fetch, (rule finds_intros)+)
    (use assms closed_found [OF assms(1)] in \<open>auto intro!: confines_steps sound_storage_rows
      confines_resources elim!: confines_loops\<close>)

lemma confines_delete_tenant:
  assumes "closed T c" and "tn_id t \<in> T Tenants" and "tn_id t \<noteq> 0"
  shows "confines T c (delete_tenant s t)"
  unfolding delete_tenant_def
  by (rule db_fetch, (rule finds_intros)+, unfold split_paired_all prod.case, elim conjE)
    (use assms closed_found [OF assms(1)] in \<open>auto intro!: confines_steps db_gorm_transaction db_exec_all
      sound_tenant_rows sound_quota_rows confines_resources confines_delete_network elim!: confines_loops\<close>)

text \<open>The targets of the specifications are closed.\<close>

lemma closed_goals:
  "closed (network_goal n c) c" "closed (hypervisor_goal h c) c" "closed (zone_goal z c) c"
  "closed (storage_goal i c) c" "closed (tenant_goal t c) c"
  by (auto simp: closed_def network_goal_def hypervisor_goal_def zone_goal_def storage_goal_def tenant_goal_def)

lemma confinesD:
  assumes "confines T (w_db w) m" and "wf_db (w_db w)"
  shows "confined T (w_db w) (w_db (snd (run_state m w)))"
  using keepsD [OF assms(1), of w] confined_self [OF assms(2)] by (simp add: on_db_def)

end
