(* ===== verification/DeletionResults.thy ===== *)
theory DeletionResults
  imports Confinement
begin

text \<open>
  What the deletions of the synchroniser do: the specifications they implement, what they
  leave alone when something fails, and the cases in which they do not do what they report.
\<close>

section \<open>An example\<close>

definition example_synchronizer :: synchronizer where
  "example_synchronizer = empty_client 1"

definition example_tenant :: "nat \<Rightarrow> cluster_tenant" where
  "example_tenant i = \<lparr>tn_id = i, tn_cluster_id = 1, tn_uuid = ''t'', tn_name = ''tenant'',
     tn_description = None, tn_enabled = True, tn_raw = None\<rparr>"

definition example_network :: "nat \<Rightarrow> nat \<Rightarrow> cluster_network" where
  "example_network i t = \<lparr>nw_id = i, nw_cluster_tenant_id = t, nw_uuid = ''n'', nw_name = ''net'',
     nw_description = None, nw_type_code = ''vxlan'', nw_external_flag = False, nw_state = ''up'',
     nw_status = ''ACTIVE'', nw_raw = None\<rparr>"

definition example_floating_ip :: "nat \<Rightarrow> nat \<Rightarrow> nat \<Rightarrow> cluster_floating_ip" where
  "example_floating_ip i t n = \<lparr>fip_id = i, fip_cluster_tenant_id = t, fip_cluster_network_id = n,
     fip_uuid = ''f'', fip_description = None, fip_ip_address = ''10.0.0.1'', fip_status = ''ACTIVE'',
     fip_raw = None\<rparr>"

definition example_security_group :: "nat \<Rightarrow> nat \<Rightarrow> cluster_security_group" where
  "example_security_group i t = \<lparr>sg_id = i, sg_cluster_tenant_id = t, sg_uuid = ''g'', sg_name = ''group'',
     sg_description = None, sg_raw = None\<rparr>"

definition example_rule :: "nat \<Rightarrow> nat \<Rightarrow> nat option \<Rightarrow> cluster_security_group_rule" where
  "example_rule i g r = \<lparr>sgr_id = i, sgr_security_group_id = g, sgr_remote_security_group_id = r,
     sgr_uuid = ''r'', sgr_description = None, sgr_network_cidr = None, sgr_direction = ''ingress'',
     sgr_port_range_min = None, sgr_port_range_max = None, sgr_protocol = None, sgr_ether_type = 4,
     sgr_raw = None\<rparr>"

definition example_zone :: "nat \<Rightarrow> cluster_availability_zone" where
  "example_zone i = \<lparr>az_id = i, az_cluster_id = 1, az_name = ''nova'', az_available = True, az_raw = None\<rparr>"

definition example_hypervisor :: "nat \<Rightarrow> cluster_hypervisor" where
  "example_hypervisor i = \<lparr>hv_id = i, hv_cluster_id = 1, hv_cluster_availability_zone_id = 1, hv_uuid = ''h'',
     hv_type_code = ''openstack.hypervisor.type.qemu'', hv_hostname = ''host'', hv_ip_address = ''10.0.0.2'',
     hv_vcpu_total_cnt = 8, hv_vcpu_used_cnt = 0, hv_mem_total_bytes = 0, hv_mem_used_bytes = 0,
     hv_disk_total_bytes = 0, hv_disk_used_bytes = 0, hv_state = ''up'', hv_status = ''enabled'',
     hv_ssh_port = None, hv_ssh_account = None, hv_ssh_password = None, hv_agent_port = None,
     hv_agent_version = None, hv_agent_installed_at = None, hv_agent_last_upgraded_at = None, hv_raw = None\<rparr>"

text \<open>Two tenants; the network of the first carries a floating IP of the second.\<close>

definition example_db :: database where
  "example_db = empty_db\<lparr>db_tenant := [example_tenant 1, example_tenant 2],
     db_network := [example_network 3 1, example_network 4 2],
     db_floating_ip := [example_floating_ip 5 2 3, example_floating_ip 6 2 4]\<rparr>"

lemmas example_defs = example_db_def empty_db_def example_tenant_def example_network_def
  example_floating_ip_def example_security_group_def example_rule_def example_synchronizer_def empty_client_def

lemma example_wf: "wf_db example_db"
  by (simp add: wf_db_def example_defs)

lemma example_quiet [simp]: "quiet example_world"
  by (simp add: example_world_def quiet_def)

lemma example_fields:
  "tn_id (example_tenant i) = i" "nw_id (example_network i t) = i" "nw_cluster_tenant_id (example_network i t) = t"
  "fip_id (example_floating_ip i t n) = i" "fip_cluster_tenant_id (example_floating_ip i t n) = t"
  "fip_cluster_network_id (example_floating_ip i t n) = n"
  by (simp_all add: example_tenant_def example_network_def example_floating_ip_def)

lemma example_tables:
  "db_tenant example_db = [example_tenant 1, example_tenant 2]"
  "db_network example_db = [example_network 3 1, example_network 4 2]"
  "db_floating_ip example_db = [example_floating_ip 5 2 3, example_floating_ip 6 2 4]"
  "db_instance example_db = []" "db_subnet example_db = []" "db_security_group example_db = []"
  by (simp_all add: example_db_def empty_db_def)

lemma example_found:
  "{f \<in> set (db_floating_ip example_db). fip_cluster_network_id f = 3} = {example_floating_ip 5 2 3}"
  "{f \<in> set (db_floating_ip example_db). fip_cluster_tenant_id f = 1} = {}"
  "{n \<in> set (db_network example_db). nw_cluster_tenant_id n = 1} = {example_network 3 1}"
  by (auto simp: example_tables example_fields)

lemma example_goal_sets:
  "tenant_goal 1 example_db Tenants = {1}" "tenant_goal 1 example_db Networks = {3}"
  "tenant_goal 1 example_db FloatingIPs = {5}" "network_goal 3 example_db Networks = {3}"
  "network_goal 3 example_db FloatingIPs = {5}"
  by (simp_all only: tenant_goal_def network_goal_def example_found) (simp_all add: example_fields example_found)

lemmas example_goals = example_goal_sets example_goal_sets [unfolded One_nat_def]

section \<open>Without failures\<close>

lemma settles_run:
  assumes "settles m (core (w_db w)) c'" and "quiet w"
  shows "\<exists>w'. run_state m w = (None, w') \<and> quiet w' \<and> core (w_db w') = c'"
  by (rule yieldsD [OF settlesD [OF assms(1)] assms(2) refl]) blast

lemma core_goals [simp]:
  "network_goal n (core db) = network_goal n db" "hypervisor_goal h (core db) = hypervisor_goal h db"
  "zone_goal z (core db) = zone_goal z db" "storage_goal i (core db) = storage_goal i db"
  "tenant_goal t (core db) = tenant_goal t db"
  by (simp_all add: network_goal_def hypervisor_goal_def zone_goal_def storage_goal_def tenant_goal_def core_def)



text \<open>C38. Without failures \<open>deleteNetwork\<close> removes the network with its subnets and floating IPs and
  whatever hangs on them; the networks of instances on other networks stay and only lose the
  floating IPs that are gone.\<close>

theorem delete_network_refines_purge:
  assumes "quiet w" and "wf_db (w_db w)" and "nw_id n \<noteq> 0"
  shows "\<exists>w'. run_state (delete_network s n) w = (None, w') \<and> quiet w' \<and>
    core (w_db w') = purge (network_goal (nw_id n) (w_db w)) (core (w_db w))"
  using settles_run [OF settles_delete_network [of "core (w_db w)" n s] assms(1)] assms(2,3) by simp

theorem delete_network_refines_purge_witness:
  "\<exists>w'. run_state (delete_network example_synchronizer (example_network 3 1)) (example_world\<lparr>w_db := example_db\<rparr>) = (None, w') \<and>
     db_network (w_db w') = [example_network 4 2] \<and> db_floating_ip (w_db w') = [example_floating_ip 6 2 4]"
proof -
  let ?w = "example_world\<lparr>w_db := example_db\<rparr>"
  have h: "quiet ?w" "wf_db (w_db ?w)" "nw_id (example_network 3 1) \<noteq> 0"
    using example_wf by (simp_all add: example_network_def)
  obtain w' where w': "run_state (delete_network example_synchronizer (example_network 3 1)) ?w = (None, w')"
    "core (w_db w') = purge (network_goal 3 example_db) (core example_db)"
    using delete_network_refines_purge [OF h, of example_synchronizer] by (auto simp: example_network_def)
  have "db_network (core (w_db w')) = [example_network 4 2]"
    "db_floating_ip (core (w_db w')) = [example_floating_ip 6 2 4]"
    unfolding w'(2) by (simp_all add: core_purge example_goals) (simp_all add: core_def example_defs)
  then show ?thesis using w'(1) by (simp add: core_def)
qed

text \<open>Without failures \<open>deleteAvailabilityZone\<close> removes the zone with its hypervisors and with the
  instances of the zone and of these hypervisors.\<close>

theorem delete_availability_zone_refines_purge:
  assumes "quiet w" and "wf_db (w_db w)" and "az_id z \<noteq> 0"
  shows "\<exists>w'. run_state (delete_availability_zone s z) w = (None, w') \<and> quiet w' \<and>
    core (w_db w') = purge (zone_goal (az_id z) (w_db w)) (core (w_db w))"
  using settles_run [OF settles_delete_availability_zone [of "core (w_db w)" z s] assms(1)] assms(2,3) by simp

theorem delete_availability_zone_refines_purge_witness:
  "\<exists>w'. run_state (delete_availability_zone example_synchronizer (example_zone 1)) (example_world\<lparr>w_db :=
       empty_db\<lparr>db_availability_zone := [example_zone 1, example_zone 2]\<rparr>\<rparr>) = (None, w') \<and>
     db_availability_zone (w_db w') = [example_zone 2]"
proof -
  let ?db = "empty_db\<lparr>db_availability_zone := [example_zone 1, example_zone 2]\<rparr>"
  let ?w = "example_world\<lparr>w_db := ?db\<rparr>"
  have h: "quiet ?w" "wf_db (w_db ?w)" "az_id (example_zone 1) \<noteq> 0"
    by (simp_all add: example_zone_def wf_db_def empty_db_def)
  obtain w' where w': "run_state (delete_availability_zone example_synchronizer (example_zone 1)) ?w = (None, w')"
    "core (w_db w') = purge (zone_goal 1 ?db) (core ?db)"
    using delete_availability_zone_refines_purge [OF h, of example_synchronizer] by (auto simp: example_zone_def)
  have "db_availability_zone (core (w_db w')) = [example_zone 2]"
    unfolding w'(2) by (simp add: core_def zone_goal_def example_zone_def empty_db_def)
  then show ?thesis using w'(1) by (simp add: core_def)
qed

section \<open>With failures\<close>



text \<open>The deletion of a storage, a network or an availability zone is confined in the same way.\<close>

theorem deletions_confined:
  assumes "wf_db (w_db w)"
  shows "st_id st \<noteq> 0 \<Longrightarrow> confined (storage_goal (st_id st) (w_db w)) (w_db w)
      (w_db (snd (run_state (delete_storage s st) w)))"
    and "nw_id n \<noteq> 0 \<Longrightarrow> confined (network_goal (nw_id n) (w_db w)) (w_db w)
      (w_db (snd (run_state (delete_network s n) w)))"
    and "az_id z \<noteq> 0 \<Longrightarrow> confined (zone_goal (az_id z) (w_db w)) (w_db w)
      (w_db (snd (run_state (delete_availability_zone s z) w)))"
  using confinesD [OF confines_delete_storage [OF closed_goals(4)] assms, of st "st_id st" s]
    confinesD [OF confines_delete_network [OF closed_goals(1)] assms, of n "nw_id n" s]
    confinesD [OF confines_delete_availability_zone [OF closed_goals(3)] assms, of z "az_id z" s]
  by (simp_all add: storage_goal_def network_goal_def zone_goal_def)

section \<open>What is not what it seems\<close>

text \<open>\<open>GormTransaction\<close> tells its caller about an error exactly when the transaction cannot even
  begin: a statement that fails in it, or a commit that fails, is reported as a success.\<close>

theorem transact_reports_iff:
  "fst (run_state (transact qs) w) \<noteq> None \<longleftrightarrow> (\<exists>m fs. w_faults w = Some m # fs)"
proof (cases "w_faults w")
  case Nil
  then show ?thesis
    by (simp add: transact_def db_err_def gorm_transaction_def gorm_transaction_with_def pop_fault_def
        split: prod.split list.split)
next
  case (Cons f fs)
  then show ?thesis
    by (cases f) (simp_all add: transact_def db_err_def gorm_transaction_def gorm_transaction_with_def
        pop_fault_def split: prod.split list.split)
qed

text \<open>A security group that a rule of another group names as its remote group cannot be deleted:
  \<open>deleteSecurityGroup\<close> first deletes the rules of the group and takes the instances out of it, and
  then fails on the foreign key of the other rule, so the group stays without its rules.\<close>

theorem delete_security_group_named:
  assumes "quiet w" and "wf_db (w_db w)" and "g \<in> set (db_security_group (w_db w))"
    and "r \<in> set (db_security_group_rule (w_db w))" and "sgr_remote_security_group_id r = Some (sg_id g)"
    and "sgr_security_group_id r \<noteq> sg_id g"
  shows "\<exists>w'. run_state (delete_security_group s g) w = (Some (UnusableDatabase fk_violation), w') \<and>
    db_security_group (w_db w') = db_security_group (w_db w) \<and>
    db_security_group_rule (w_db w') =
      filter (\<lambda>r. sgr_security_group_id r \<noteq> sg_id g) (db_security_group_rule (w_db w))"
proof -
  let ?db = "w_db w" and ?g = "sg_id g"
  let ?isgs = "filter (\<lambda>r. cond_nat ?g (isg_cluster_security_group_id r)) (db_instance_security_group ?db)"
  let ?rules = "filter (\<lambda>r. cond_nat ?g (sgr_security_group_id r)) (db_security_group_rule ?db)"
  let ?c = "core ?db"
  let ?c1 = "?c\<lparr>db_instance_security_group := filter (\<lambda>r. isg_cluster_security_group_id r \<noteq> ?g) (db_instance_security_group ?c)\<rparr>"
  let ?c2 = "?c1\<lparr>db_security_group_rule := filter (\<lambda>r. sgr_security_group_id r \<noteq> ?g) (db_security_group_rule ?c1)\<rparr>"
  have nz: "?g \<noteq> 0" using wf_ids(3) [OF assms(2,3)] .
  have "wf_db ?c" using assms(2) by simp
  then have wf: "wf_db ?c" "wf_db ?c1" by (simp_all add: wf_db_def)
  have same: "db_instance_security_group ?db = db_instance_security_group ?c"
    "db_security_group_rule ?db = db_security_group_rule ?c1" by (simp_all add: core_def)
  have 1: "settles (for_err (\<lambda>i. gorm_transaction (exec_all [delete_instance_security_group i])) ?isgs) ?c ?c1"
    using settles_leave_groups [OF wf(1), of "\<lambda>r. cond_nat ?g (isg_cluster_security_group_id r)"] nz
    unfolding same by simp
  obtain w1 where w1: "run_state (for_err (\<lambda>i. gorm_transaction (exec_all [delete_instance_security_group i])) ?isgs) w = (None, w1)"
    "quiet w1" "core (w_db w1) = ?c1"
    using settles_run [OF 1 assms(1)] by blast
  have 2: "settles (for_err (delete_security_group_rule s) ?rules) (core (w_db w1)) ?c2"
    using settles_delete_rules [OF wf(2), of s "\<lambda>r. cond_nat ?g (sgr_security_group_id r)"] nz
    unfolding same w1(3) by simp
  obtain w2 where w2: "run_state (for_err (delete_security_group_rule s) ?rules) w1 = (None, w2)"
    "quiet w2" "core (w_db w2) = ?c2"
    using settles_run [OF 2 w1(2)] by blast
  have tables: "db_security_group (w_db w2) = db_security_group ?db"
    "db_security_group_rule (w_db w2) = filter (\<lambda>r. sgr_security_group_id r \<noteq> ?g) (db_security_group_rule ?db)"
    using arg_cong [OF w2(3), of db_security_group] arg_cong [OF w2(3), of db_security_group_rule]
    by (simp_all add: core_def)
  have "security_group_referenced (w_db w2) g"
    using assms(4-6) by (auto simp: security_group_referenced_def tables list_ex_iff)
  then have fk: "delete_security_group_rows (\<lambda>r. cond_nat ?g (sg_id r)) (w_db w2) = Inl fk_violation"
    using assms(3) nz by (auto simp: delete_security_group_rows_def delete_from_def list_ex_iff tables)
  have "run_state (delete_security_group s g) w = (Some (UnusableDatabase fk_violation), w2)"
    using assms(1) w1 w2 fk
    by (simp add: delete_security_group_def fetch_def check_def db_res_def execute_def both_def find_all_def
        find_rows_quiet db_err_def execute_err_def exec_quiet unusable_database_def)
  then show ?thesis using tables by blast
qed

theorem delete_security_group_named_witness:
  "fst (run_state (delete_security_group example_synchronizer (example_security_group 1 1))
     (example_world\<lparr>w_db := empty_db\<lparr>db_security_group := [example_security_group 1 1, example_security_group 2 1],
        db_security_group_rule := [example_rule 1 2 (Some 1)]\<rparr>\<rparr>)) = Some (UnusableDatabase fk_violation)"
proof -
  let ?w = "example_world\<lparr>w_db := empty_db\<lparr>db_security_group := [example_security_group 1 1, example_security_group 2 1],
        db_security_group_rule := [example_rule 1 2 (Some 1)]\<rparr>\<rparr>"
  let ?g = "example_security_group 1 1" and ?r = "example_rule 1 2 (Some 1)"
  have h: "quiet ?w" "wf_db (w_db ?w)" "?g \<in> set (db_security_group (w_db ?w))"
    "?r \<in> set (db_security_group_rule (w_db ?w))" "sgr_remote_security_group_id ?r = Some (sg_id ?g)"
    "sgr_security_group_id ?r \<noteq> sg_id ?g"
    by (simp, simp add: wf_db_def empty_db_def example_security_group_def example_rule_def,
        simp_all add: example_security_group_def example_rule_def)
  show ?thesis
    using delete_security_group_named [OF h, of example_synchronizer] by (metis fst_conv)
qed

text \<open>A hypervisor without an identifier takes everything with it: \<open>deleteHypervisor\<close> of the zero
  value deletes all instances and all hypervisors, those of other clusters included, because gorm
  builds no condition from a zero value.\<close>

theorem delete_hypervisor_zero:
  assumes "quiet w" and "wf_db (w_db w)" and "hv_id h = 0"
  shows "\<exists>w'. run_state (delete_hypervisor s h) w = (None, w') \<and>
    db_instance (w_db w') = [] \<and> db_hypervisor (w_db w') = []"
proof -
  let ?c = "core (w_db w)"
  let ?c1 = "purge (only Instances (ins_id ` set (db_instance ?c))) ?c"
  let ?c2 = "?c1\<lparr>db_hypervisor := []\<rparr>"
  have all: "filter (\<lambda>r. cond_nat (hv_id h) (P r)) xs = xs" for P and xs :: "'a list"
    using assms(3) by (simp add: cond_nat_def)
  have 1: "settles (for_err (delete_instance s) (db_instance ?c)) ?c ?c1"
    using instances.run_all [of ?c "db_instance ?c" s] wf_ids(2) [of ?c] assms(2) by (simp add: SUP_only)
  have none: "db_instance ?c1 = []" by (auto simp: filter_empty_conv)
  have 2: "settles (transact [delete_hypervisor_rows (\<lambda>r. cond_nat (hv_id h) (hv_id r))]) ?c1 ?c2"
    by (rule settles_transact)
      (use none assms(3) in \<open>simp_all add: on_core_intros delete_hypervisor_rows_def delete_from_def cond_nat_def
        hypervisor_referenced_def list_ex_iff\<close>)
  have "settles (delete_hypervisor s h) ?c ?c2"
    unfolding delete_hypervisor_def
    by (rule settles_fetch, (rule reads_intros)+, simp add: core_def, simp only: all)
      (rule settles_check [OF 1] settles_check [OF 2] settles_steps)+
  from settles_run [OF this assms(1)] obtain w' where w': "run_state (delete_hypervisor s h) w = (None, w')"
    "core (w_db w') = ?c2" by blast
  have "db_instance (core (w_db w')) = []" "db_hypervisor (core (w_db w')) = []"
    unfolding w'(2) using none by simp_all
  then show ?thesis using w'(1) by (simp add: core_def)
qed

theorem delete_hypervisor_zero_witness:
  "\<exists>w'. run_state (delete_hypervisor example_synchronizer (example_hypervisor 0))
     (example_world\<lparr>w_db := empty_db\<lparr>db_hypervisor := [example_hypervisor 1, example_hypervisor 2]\<rparr>\<rparr>) = (None, w') \<and>
     db_hypervisor (w_db w') = []"
proof -
  let ?w = "example_world\<lparr>w_db := empty_db\<lparr>db_hypervisor := [example_hypervisor 1, example_hypervisor 2]\<rparr>\<rparr>"
  have h: "quiet ?w" "wf_db (w_db ?w)" "hv_id (example_hypervisor 0) = 0"
    by (simp, simp add: wf_db_def empty_db_def example_hypervisor_def, simp add: example_hypervisor_def)
  show ?thesis using delete_hypervisor_zero [OF h, of example_synchronizer] by blast
qed

end
