(* ===== verification/Sequence.thy ===== *)
theory Sequence
  imports DeletionResults
begin

text \<open>
  The sequence that identifiers of new rows come from never goes back, whatever fails: a
  transaction that is rolled back keeps the numbers it took.
\<close>

definition drawn :: "nat \<Rightarrow> world \<Rightarrow> bool" where
  "drawn n w \<longleftrightarrow> n \<le> w_seq w"

named_theorems drawn_intros "operations that never take the sequence back"

lemmas drawn_structure [drawn_intros] = keeps_return keeps_bind keeps_get keeps_if keeps_option keeps_sum
  keeps_prod keeps_execute keeps_db_res keeps_db_err keeps_check keeps_fetch keeps_ignoring
  keeps_return_nil keeps_for_err

lemma drawn_modify: "(\<And>w. w_seq (f w) = w_seq w) \<Longrightarrow> keeps (drawn n) (modify f)"
  by (simp add: keeps_def drawn_def)

lemma drawn_pop_fault [drawn_intros]: "keeps (drawn n) pop_fault"
  by (simp add: keeps_def drawn_def pop_fault_def split: list.split)

lemma pop_fault_seq: "run_state pop_fault w = (f, w1) \<Longrightarrow> w_seq w1 = w_seq w"
  by (auto simp: pop_fault_def split: list.splits)

lemma drawn_ask [drawn_intros]: "keeps (drawn n) (ask f)"
  by (simp add: keeps_def drawn_def)

lemma drawn_now [drawn_intros]: "keeps (drawn n) now"
  by (simp add: keeps_def drawn_def)

lemma drawn_publish [drawn_intros]: "keeps (drawn n) (publish e)"
  unfolding publish_def by (intro drawn_intros drawn_modify) simp

lemma drawn_clear_shared_task [drawn_intros]: "keeps (drawn n) (clear_shared_task i j u t)"
  unfolding clear_shared_task_def by (rule drawn_modify) simp

lemma drawn_announce [drawn_intros]: "keeps (drawn n) k \<Longrightarrow> keeps (drawn n) (announce s t rows k)"
  unfolding announce_def by (intro drawn_intros)

lemma drawn_statement [drawn_intros]: "keeps (drawn n) (statement q)"
  by (auto simp: keeps_def drawn_def statement_def pop_fault_seq split: prod.split sum.split option.split)

lemma drawn_queries [drawn_intros]:
  "keeps (drawn n) (find_rows sel)" "keeps (drawn n) (first_row key sel')" "keeps (drawn n) (exec q)"
  "keeps (drawn n) (find_all t P)"
  unfolding find_rows_def first_row_def exec_def find_all_def by (intro drawn_intros)+

lemma drawn_exec_all [drawn_intros]: "keeps (drawn n) (exec_all qs)"
  by (induction qs) (auto simp: exec_all.simps intro!: drawn_intros)

lemma drawn_both [drawn_intros]: "keeps (drawn n) m \<Longrightarrow> keeps (drawn n) k \<Longrightarrow> keeps (drawn n) (both m k)"
  unfolding both_def by (intro drawn_intros)

lemma drawn_transaction_with [drawn_intros]:
  "keeps (drawn n) m \<Longrightarrow> keeps (drawn n) (gorm_transaction_with d m)"
  unfolding gorm_transaction_with_def by (intro drawn_intros drawn_modify) simp_all

lemma drawn_transaction [drawn_intros]:
  "keeps (drawn n) m \<Longrightarrow> keeps (drawn n) (gorm_transaction m)"
  unfolding gorm_transaction_def by (intro drawn_intros)

lemma drawn_transact [drawn_intros]: "keeps (drawn n) (transact qs)"
  unfolding transact_def by (intro drawn_intros)

lemma drawn_saving [drawn_intros]:
  assumes "\<And>j. keeps (drawn n) (k j)"
  shows "keeps (drawn n) (saving i q k)"
proof -
  have "keeps (drawn n) (fresh_id i)"
    by (auto simp: keeps_def drawn_def fresh_id_def)
  then show ?thesis
    unfolding saving_def save_statement_def using assms by (intro drawn_intros)
qed

lemma drawn_store [drawn_intros]: "keeps (drawn n) (store_get k)" "keeps (drawn n) (store_update g)"
  unfolding store_get_def store_update_def by (intro drawn_intros drawn_modify, simp?)+

lemma drawn_documents [drawn_intros]:
  "keeps (drawn n) (load k d e)" "keeps (drawn n) (save k j)" "keeps (drawn n) (erase k)"
  "keeps (drawn n) (erase_prefix k)"
  unfolding load_def save_def erase_def erase_prefix_def store_put_def store_delete_def store_delete_prefix_def
    unusable_store_def
  by (auto intro!: drawn_intros split: sum.split err.split document.split option.split)

section \<open>Deletions\<close>

lemma drawn_extra_spec [drawn_intros]: "keeps (drawn n) (delete_instance_extra_spec s x)"
  unfolding delete_instance_extra_spec_def by (intro drawn_intros)

lemma drawn_sync_extra_spec [drawn_intros]: "keeps (drawn n) (sync_cluster_instance_extra_spec s force sp x)"
  unfolding sync_cluster_instance_extra_spec_def save_extra_def
  by (intro drawn_intros) (auto split: sum.split err.split intro!: drawn_intros)

lemma drawn_delete_extra_specs [drawn_intros]: "keeps (drawn n) (delete_extra_specs s xs flag e)"
  by (induction xs arbitrary: flag e) (auto intro!: drawn_intros)

lemma drawn_sync_extra_specs [drawn_intros]: "keeps (drawn n) (sync_extra_specs s force sp xs e)"
  by (induction xs arbitrary: e) (auto intro!: drawn_intros)

lemma drawn_delete_instance_spec [drawn_intros]: "keeps (drawn n) (delete_instance_spec s sp)"
  unfolding delete_instance_spec_def by (intro drawn_intros)

lemma drawn_sync_cluster_instance_spec [drawn_intros]: "keeps (drawn n) (sync_cluster_instance_spec s force sp)"
  unfolding sync_cluster_instance_spec_def save_spec_def
  by (intro drawn_intros) (auto split: sum.split err.split intro!: drawn_intros)

lemma drawn_delete_volume [drawn_intros]: "keeps (drawn n) (delete_volume s v)"
  unfolding delete_volume_def delete_volume_snapshot_def delete_instance_volume_def get_volume_def
    delete_volume_document_def
  by (intro drawn_intros)

lemma drawn_delete_instance [drawn_intros]: "keeps (drawn n) (delete_instance s x)"
  unfolding delete_instance_def delete_instance_network_def delete_instance_volume_def
    get_instance_volume_records_def instance_dependents_def case_prod_unfold
  by (intro drawn_intros)

lemma drawn_delete_security_group [drawn_intros]: "keeps (drawn n) (delete_security_group s g)"
  unfolding delete_security_group_def delete_security_group_rule_def execute_err_def
  by (intro drawn_intros)

lemma drawn_delete_floating_ip [drawn_intros]: "keeps (drawn n) (delete_floating_ip s f)"
  unfolding delete_floating_ip_def delete_instance_network_floating_ip_def Let_def by (intro drawn_intros)

lemma drawn_delete_subnet [drawn_intros]: "keeps (drawn n) (delete_subnet s sn)"
  unfolding delete_subnet_def delete_instance_network_def delete_routing_interface_def by (intro drawn_intros)

lemma drawn_delete_network [drawn_intros]: "keeps (drawn n) (delete_network s x)"
  unfolding delete_network_def delete_instance_network_def by (intro drawn_intros)

lemma drawn_delete_router [drawn_intros]: "keeps (drawn n) (delete_router s r)"
  unfolding delete_router_def delete_routing_interface_def by (intro drawn_intros)

lemma drawn_delete_hypervisor [drawn_intros]: "keeps (drawn n) (delete_hypervisor s h)"
  unfolding delete_hypervisor_def by (intro drawn_intros)

lemma drawn_delete_availability_zone [drawn_intros]: "keeps (drawn n) (delete_availability_zone s z)"
  unfolding delete_availability_zone_def by (intro drawn_intros)

lemma drawn_delete_tenant [drawn_intros]: "keeps (drawn n) (delete_tenant s t)"
  unfolding delete_tenant_def by (intro drawn_intros)

end
