(* ===== verification/SyncTenant.thy ===== *)
theory SyncTenant
  imports Deletion
begin

text \<open>
  Synchronisation of tenants, availability zones and hypervisors (\<open>sync/tenant.go\<close>,
  \<open>sync/availability_zone.go\<close>, \<open>sync/hypervisor.go\<close>). The row that a function is given is
  looked up by the fields of it that are not zero; on success the function leaves the stored
  row in it, which is what the functions here continue with.
\<close>

section \<open>Options and responses\<close>

record options =
  opt_force :: bool
  opt_tenant_uuid :: string

text \<open>An error of the cluster ends a synchronisation, unless it says that there is no such resource.\<close>

definition respond :: "err + 'a \<Rightarrow> err option op \<Rightarrow> err option op" where
  "respond rsp k = (if client_failed rsp \<noteq> None then State_Monad.return (client_failed rsp) else k)"

text \<open>
  What the four cases of a synchronisation do: neither side has the resource, only the
  database, only the cluster, or both. Any other error of the query is returned.
\<close>

definition compare_sides :: "err + 'a \<Rightarrow> err + 'r \<Rightarrow> err option op \<Rightarrow> ('r \<Rightarrow> err option op) \<Rightarrow>
    ('a \<Rightarrow> err option op) \<Rightarrow> ('a \<Rightarrow> 'r \<Rightarrow> err option op) \<Rightarrow> err option op" where
  "compare_sides rsp row neither gone new known =
     (case row of
        Inl RecordNotFound \<Rightarrow> (case rsp of Inl _ \<Rightarrow> neither | Inr x \<Rightarrow> new x)
      | Inl e \<Rightarrow> State_Monad.return (Some (unusable_database e))
      | Inr old \<Rightarrow> (case rsp of Inl _ \<Rightarrow> gone old | Inr x \<Rightarrow> known x old))"

text \<open>\<open>db.Find(&row, cond)\<close>: gorm scans every row it gets into the same struct.\<close>

definition find_row :: "(database \<Rightarrow> 'a list) \<Rightarrow> (err + 'a) op" where
  "find_row sel = do {
     r \<leftarrow> find_rows sel;
     State_Monad.return (case r of Inl e \<Rightarrow> Inl e | Inr [] \<Rightarrow> Inl RecordNotFound | Inr xs \<Rightarrow> Inr (last xs))
   }"

text \<open>\<open>GormTransaction(db.Save(row))\<close>, continued with the row under its identifier.\<close>

definition save_row :: "('r \<Rightarrow> nat) \<Rightarrow> (nat \<Rightarrow> 'r \<Rightarrow> 'r) \<Rightarrow> ('r \<Rightarrow> database \<Rightarrow> string + database) \<Rightarrow> 'r \<Rightarrow>
    ('r \<Rightarrow> err option op) \<Rightarrow> err option op" where
  "save_row key set_key stmt r k = saving (key r) (\<lambda>i. stmt (set_key i r)) (\<lambda>i. k (set_key i r))"

text \<open>\<open>for _, x := range xs { if e := f(x); e != nil { err = e } }; return err\<close>\<close>

definition sync_each :: "('a \<Rightarrow> err option op) \<Rightarrow> 'a list \<Rightarrow> err option op" where
  "sync_each f xs = for_last f xs None"

section \<open>Tenants\<close>

definition compare_tenant :: "cluster_tenant \<Rightarrow> cluster_tenant \<Rightarrow> bool" where
  "compare_tenant d c = (tn_uuid d = tn_uuid c \<and> tn_name d = tn_name c \<and>
     tn_enabled d = tn_enabled c \<and> tn_description d = tn_description c)"

definition find_tenant :: "synchronizer \<Rightarrow> cluster_tenant \<Rightarrow> (err + cluster_tenant) op" where
  "find_tenant s t = execute (first_row tn_id (\<lambda>db. filter (\<lambda>r. cond_nat (sy_cluster_id s) (tn_cluster_id r) \<and>
     cond_str (tn_uuid t) (tn_uuid r) \<and> cond_nat (tn_id t) (tn_id r)) (db_tenant db)))"

definition new_tenant :: "string \<Rightarrow> cluster_tenant" where
  "new_tenant u = \<lparr>tn_id = 0, tn_cluster_id = 0, tn_uuid = u, tn_name = '''', tn_description = None,
     tn_enabled = False, tn_raw = None\<rparr>"

definition is_deleted_tenant :: "synchronizer \<Rightarrow> string \<Rightarrow> (err + bool) op" where
  "is_deleted_tenant s u = do {
     r \<leftarrow> find_tenant s (new_tenant u);
     State_Monad.return (case r of Inl RecordNotFound \<Rightarrow> Inr True
       | Inl e \<Rightarrow> Inl (unusable_database e) | Inr _ \<Rightarrow> Inr False)
   }"

text \<open>The option names a tenant: its resources are left alone once it is deleted.\<close>

definition unless_deleted :: "synchronizer \<Rightarrow> options \<Rightarrow> err option op \<Rightarrow> err option op" where
  "unless_deleted s opts k = (if opt_tenant_uuid opts = [] then k
     else fetch (is_deleted_tenant s (opt_tenant_uuid opts)) (\<lambda>gone. if gone then return_nil else k))"

text \<open>
  A quota that the database does not have is compared as if its value were zero. The keys are
  set by the caller; a row with the two keys is updated, otherwise it is inserted.
\<close>

definition sync_cluster_tenant_quota :: "cluster_tenant \<Rightarrow> cluster_quota \<Rightarrow> err option op" where
  "sync_cluster_tenant_quota t q = do {
     m \<leftarrow> find_row (\<lambda>db. filter (\<lambda>r. cond_nat (tn_id t) (qt_cluster_tenant_id r) \<and>
       cond_str (qt_key q) (qt_key r)) (db_quota db));
     if (case m of Inl e \<Rightarrow> e \<noteq> RecordNotFound | Inr _ \<Rightarrow> False)
     then State_Monad.return (case m of Inl e \<Rightarrow> Some (unusable_database e) | Inr _ \<Rightarrow> None)
     else if (case m of Inl _ \<Rightarrow> 0 | Inr r \<Rightarrow> qt_value r) = qt_value q then return_nil
     else db_err (exec (save_quota (q\<lparr>qt_cluster_tenant_id := tn_id t\<rparr>)))
   }"

text \<open>All quotas in one transaction; their errors are only logged.\<close>

fun sync_quotas :: "cluster_tenant \<Rightarrow> cluster_quota list \<Rightarrow> err option op" where
  "sync_quotas t [] = return_nil"
| "sync_quotas t (q # qs) = ignoring (sync_cluster_tenant_quota t q) (sync_quotas t qs)"

definition sync_tenant_quotas :: "cluster_tenant \<Rightarrow> cluster_quota list \<Rightarrow> err option op" where
  "sync_tenant_quotas t qs = gorm_transaction (sync_quotas t qs)"

definition save_tenant_row :: "cluster_tenant \<Rightarrow> (cluster_tenant \<Rightarrow> err option op) \<Rightarrow> err option op" where
  "save_tenant_row = save_row tn_id (\<lambda>i r. r\<lparr>tn_id := i\<rparr>) save_tenant"

definition sync_cluster_tenant :: "synchronizer \<Rightarrow> options \<Rightarrow> cluster_tenant \<Rightarrow> err option op" where
  "sync_cluster_tenant s opts t = do {
     rsp \<leftarrow> ask (sy_get_tenant s (tn_uuid t));
     respond rsp (do {
       row \<leftarrow> find_tenant s t;
       compare_sides rsp row
         return_nil
         (\<lambda>old. delete_tenant s old)
         (\<lambda>res. save_tenant_row (gtr_tenant res\<lparr>tn_cluster_id := sy_cluster_id s\<rparr>) (\<lambda>new.
            announce s queue_notice_cluster_tenant_created [(''Tenant'', RTenant new)]
            (sync_tenant_quotas new (gtr_quota_list res))))
         (\<lambda>res old. if opt_force opts \<or> \<not> compare_tenant old (gtr_tenant res)
            then save_tenant_row (gtr_tenant res\<lparr>tn_id := tn_id old, tn_cluster_id := sy_cluster_id s\<rparr>) (\<lambda>new.
              announce s queue_notice_cluster_tenant_updated [(''OrigTenant'', RTenant old), (''Tenant'', RTenant new)]
              (sync_tenant_quotas new (gtr_quota_list res)))
            else sync_tenant_quotas old (gtr_quota_list res))
     })
   }"

text \<open>The row of a resource, synchronised first when the lookup fails for whatever reason.\<close>

definition get_tenant :: "synchronizer \<Rightarrow> options \<Rightarrow> string \<Rightarrow> (err + cluster_tenant option) op" where
  "get_tenant s opts u = do {
     r \<leftarrow> find_tenant s (new_tenant u);
     case r of Inr t \<Rightarrow> State_Monad.return (Inr (Some t))
     | Inl _ \<Rightarrow> do {
         e \<leftarrow> sync_cluster_tenant s opts (new_tenant u);
         case e of Some x \<Rightarrow> State_Monad.return (Inl x)
         | None \<Rightarrow> do {
             q \<leftarrow> find_tenant s (new_tenant u);
             State_Monad.return (case q of Inr t \<Rightarrow> Inr (Some t) | Inl RecordNotFound \<Rightarrow> Inr None
               | Inl x \<Rightarrow> Inl (unusable_database x))
           }
       }
   }"

text \<open>What the cluster does not report any more is deleted; the first error ends it.\<close>

definition delete_missing :: "('r \<Rightarrow> string) \<Rightarrow> ('r \<Rightarrow> err option op) \<Rightarrow> string list \<Rightarrow> 'r list \<Rightarrow> err option op" where
  "delete_missing uuid del reported rows = for_err del (filter (\<lambda>r. uuid r \<notin> set reported) rows)"

definition sync_deleted_tenant_list :: "synchronizer \<Rightarrow> get_tenant_result list \<Rightarrow> err option op" where
  "sync_deleted_tenant_list s rsp =
     fetch (db_res (execute (find_all db_tenant (\<lambda>r. cond_nat (sy_cluster_id s) (tn_cluster_id r)))))
       (delete_missing tn_uuid (delete_tenant s) (map (\<lambda>x. tn_uuid (gtr_tenant x)) rsp))"

definition sync_cluster_tenant_list :: "synchronizer \<Rightarrow> options \<Rightarrow> err option op" where
  "sync_cluster_tenant_list s opts =
     fetch (ask (sy_get_tenant_list s)) (\<lambda>rsp.
     check (sync_deleted_tenant_list s rsp)
     (sync_each (\<lambda>x. sync_cluster_tenant s opts (new_tenant (tn_uuid (gtr_tenant x)))) rsp))"

section \<open>Availability zones\<close>

definition compare_availability_zone :: "cluster_availability_zone \<Rightarrow> cluster_availability_zone \<Rightarrow> bool" where
  "compare_availability_zone d c = (az_name d = az_name c \<and> az_available d = az_available c)"

definition find_availability_zone :: "synchronizer \<Rightarrow> string \<Rightarrow> (err + cluster_availability_zone) op" where
  "find_availability_zone s n = execute (first_row az_id (\<lambda>db. filter (\<lambda>r.
     cond_nat (sy_cluster_id s) (az_cluster_id r) \<and> cond_str n (az_name r)) (db_availability_zone db)))"

definition save_availability_zone_row ::
    "cluster_availability_zone \<Rightarrow> (cluster_availability_zone \<Rightarrow> err option op) \<Rightarrow> err option op" where
  "save_availability_zone_row = save_row az_id (\<lambda>i r. r\<lparr>az_id := i\<rparr>) save_availability_zone"

definition sync_cluster_availability_zone :: "synchronizer \<Rightarrow> options \<Rightarrow> cluster_availability_zone \<Rightarrow> err option op" where
  "sync_cluster_availability_zone s opts z = do {
     row \<leftarrow> find_availability_zone s (az_name z);
     case row of
       Inl RecordNotFound \<Rightarrow>
         save_availability_zone_row (z\<lparr>az_cluster_id := sy_cluster_id s\<rparr>) (\<lambda>z.
           announce s queue_notice_cluster_availability_zone_created [(''AvailabilityZone'', RZone z)] return_nil)
     | Inl e \<Rightarrow> State_Monad.return (Some (unusable_database e))
     | Inr old \<Rightarrow>
         (if opt_force opts \<or> \<not> compare_availability_zone old z
          then save_availability_zone_row (z\<lparr>az_id := az_id old, az_cluster_id := sy_cluster_id s\<rparr>) (\<lambda>z.
            announce s queue_notice_cluster_availability_zone_updated [(''AvailabilityZone'', RZone z)] return_nil)
          else return_nil)
   }"

definition sync_deleted_availability_zone_list ::
    "synchronizer \<Rightarrow> cluster_availability_zone list \<Rightarrow> err option op" where
  "sync_deleted_availability_zone_list s rsp =
     fetch (db_res (execute (find_all db_availability_zone (\<lambda>r. cond_nat (sy_cluster_id s) (az_cluster_id r)))))
       (delete_missing az_name (delete_availability_zone s) (map az_name rsp))"

definition sync_cluster_availability_zone_list :: "synchronizer \<Rightarrow> options \<Rightarrow> err option op" where
  "sync_cluster_availability_zone_list s opts =
     fetch (ask (sy_get_availability_zone_list s)) (\<lambda>rsp.
     check (sync_deleted_availability_zone_list s rsp)
     (sync_each (sync_cluster_availability_zone s opts) rsp))"

definition get_availability_zone :: "synchronizer \<Rightarrow> options \<Rightarrow> string \<Rightarrow> (err + cluster_availability_zone option) op" where
  "get_availability_zone s opts n = do {
     r \<leftarrow> find_availability_zone s n;
     case r of Inr z \<Rightarrow> State_Monad.return (Inr (Some z))
     | Inl _ \<Rightarrow> do {
         e \<leftarrow> sync_cluster_availability_zone_list s opts;
         case e of Some x \<Rightarrow> State_Monad.return (Inl x)
         | None \<Rightarrow> do {
             q \<leftarrow> find_availability_zone s n;
             State_Monad.return (case q of Inr z \<Rightarrow> Inr (Some z) | Inl RecordNotFound \<Rightarrow> Inr None
               | Inl x \<Rightarrow> Inl (unusable_database x))
           }
       }
   }"

section \<open>Hypervisors\<close>

definition same_hypervisor :: "cluster_hypervisor \<Rightarrow> cluster_hypervisor \<Rightarrow> bool" where
  "same_hypervisor d c = (hv_uuid d = hv_uuid c \<and> hv_type_code d = hv_type_code c \<and>
     hv_hostname d = hv_hostname c \<and> hv_ip_address d = hv_ip_address c \<and>
     hv_vcpu_total_cnt d = hv_vcpu_total_cnt c \<and> hv_vcpu_used_cnt d = hv_vcpu_used_cnt c \<and>
     hv_mem_total_bytes d = hv_mem_total_bytes c \<and> hv_mem_used_bytes d = hv_mem_used_bytes c \<and>
     hv_disk_total_bytes d = hv_disk_total_bytes c \<and> hv_disk_used_bytes d = hv_disk_used_bytes c \<and>
     hv_state d = hv_state c \<and> hv_status d = hv_status c)"

text \<open>The query is made only when all fields agree, and its failure counts as a difference.\<close>

definition compare_hypervisor :: "cluster_hypervisor \<Rightarrow> get_hypervisor_result \<Rightarrow> bool op" where
  "compare_hypervisor d r =
     (if \<not> same_hypervisor d (ghr_hypervisor r) then State_Monad.return False
      else do {
        z \<leftarrow> execute (find_row (\<lambda>db. filter (\<lambda>x. cond_nat (hv_cluster_availability_zone_id d) (az_id x))
          (db_availability_zone db)));
        State_Monad.return (case z of Inl _ \<Rightarrow> False
          | Inr x \<Rightarrow> az_name x = az_name (ghr_availability_zone r))
      })"

definition new_hypervisor :: "string \<Rightarrow> cluster_hypervisor" where
  "new_hypervisor u = \<lparr>hv_id = 0, hv_cluster_id = 0, hv_cluster_availability_zone_id = 0, hv_uuid = u,
     hv_type_code = '''', hv_hostname = '''', hv_ip_address = '''', hv_vcpu_total_cnt = 0, hv_vcpu_used_cnt = 0,
     hv_mem_total_bytes = 0, hv_mem_used_bytes = 0, hv_disk_total_bytes = 0, hv_disk_used_bytes = 0,
     hv_state = '''', hv_status = '''', hv_ssh_port = None, hv_ssh_account = None, hv_ssh_password = None,
     hv_agent_port = None, hv_agent_version = None, hv_agent_installed_at = None,
     hv_agent_last_upgraded_at = None, hv_raw = None\<rparr>"

definition find_hypervisor :: "synchronizer \<Rightarrow> cluster_hypervisor \<Rightarrow> (err + cluster_hypervisor) op" where
  "find_hypervisor s h = execute (first_row hv_id (\<lambda>db. filter (\<lambda>r. cond_nat (sy_cluster_id s) (hv_cluster_id r) \<and>
     cond_str (hv_uuid h) (hv_uuid r) \<and> cond_nat (hv_id h) (hv_id r)) (db_hypervisor db)))"

definition save_hypervisor_row ::
    "cluster_hypervisor \<Rightarrow> (cluster_hypervisor \<Rightarrow> err option op) \<Rightarrow> err option op" where
  "save_hypervisor_row = save_row hv_id (\<lambda>i r. r\<lparr>hv_id := i\<rparr>) save_hypervisor"

text \<open>What the cluster does not know about a hypervisor is kept.\<close>

definition keep_access :: "cluster_hypervisor \<Rightarrow> cluster_hypervisor \<Rightarrow> cluster_hypervisor" where
  "keep_access old new = new\<lparr>hv_ssh_port := hv_ssh_port old, hv_ssh_account := hv_ssh_account old,
     hv_ssh_password := hv_ssh_password old, hv_agent_port := hv_agent_port old,
     hv_agent_version := hv_agent_version old, hv_agent_installed_at := hv_agent_installed_at old,
     hv_agent_last_upgraded_at := hv_agent_last_upgraded_at old\<rparr>"

text \<open>
  Between the query and the case distinction the function copies the row, and the result of
  copying, nil, replaces the error of the query. So a row that was not found is the row the
  function was given, the case of a new hypervisor is never reached, and a hypervisor that the
  cluster does not have is deleted whether or not there is a row of it.
\<close>

definition sync_cluster_hypervisor :: "synchronizer \<Rightarrow> options \<Rightarrow> cluster_hypervisor \<Rightarrow> err option op" where
  "sync_cluster_hypervisor s opts h = do {
     rsp \<leftarrow> ask (sy_get_hypervisor s (hv_uuid h));
     respond rsp (do {
       row \<leftarrow> find_hypervisor s h;
       if (case row of Inl e \<Rightarrow> e \<noteq> RecordNotFound | Inr _ \<Rightarrow> False)
       then State_Monad.return (case row of Inl e \<Rightarrow> Some (unusable_database e) | Inr _ \<Rightarrow> None)
       else (let old = (case row of Inl _ \<Rightarrow> h | Inr r \<Rightarrow> r);
                 updated = (\<lambda>x. announce s queue_notice_cluster_hypervisor_updated
                   [(''OrigHypervisor'', RHypervisor old), (''Hypervisor'', RHypervisor x)] return_nil)
         in (case rsp of
           Inl _ \<Rightarrow> delete_hypervisor s old
         | Inr res \<Rightarrow> do {
             same \<leftarrow> (if opt_force opts then State_Monad.return False else compare_hypervisor old res);
             if same then updated old
             else if az_name (ghr_availability_zone res) = [] then return_nil
             else fetch (get_availability_zone s opts (az_name (ghr_availability_zone res))) (\<lambda>z.
               case z of None \<Rightarrow> return_nil
               | Some az \<Rightarrow> save_hypervisor_row (keep_access old (ghr_hypervisor res)\<lparr>hv_id := hv_id old,
                   hv_cluster_id := sy_cluster_id s, hv_cluster_availability_zone_id := az_id az\<rparr>) updated)
           }))
     })
   }"

definition get_hypervisor :: "synchronizer \<Rightarrow> options \<Rightarrow> string \<Rightarrow> (err + cluster_hypervisor option) op" where
  "get_hypervisor s opts u = do {
     r \<leftarrow> find_hypervisor s (new_hypervisor u);
     case r of Inr h \<Rightarrow> State_Monad.return (Inr (Some h))
     | Inl _ \<Rightarrow> do {
         e \<leftarrow> sync_cluster_hypervisor s opts (new_hypervisor u);
         case e of Some x \<Rightarrow> State_Monad.return (Inl x)
         | None \<Rightarrow> do {
             q \<leftarrow> find_hypervisor s (new_hypervisor u);
             State_Monad.return (case q of Inr h \<Rightarrow> Inr (Some h) | Inl RecordNotFound \<Rightarrow> Inr None
               | Inl x \<Rightarrow> Inl (unusable_database x))
           }
       }
   }"

definition sync_deleted_hypervisor_list :: "synchronizer \<Rightarrow> get_hypervisor_result list \<Rightarrow> err option op" where
  "sync_deleted_hypervisor_list s rsp =
     fetch (db_res (execute (find_all db_hypervisor (\<lambda>r. cond_nat (sy_cluster_id s) (hv_cluster_id r)))))
       (delete_missing hv_uuid (delete_hypervisor s) (map (\<lambda>x. hv_uuid (ghr_hypervisor x)) rsp))"

definition sync_cluster_hypervisor_list :: "synchronizer \<Rightarrow> options \<Rightarrow> err option op" where
  "sync_cluster_hypervisor_list s opts =
     fetch (ask (sy_get_hypervisor_list s)) (\<lambda>rsp.
     check (sync_deleted_hypervisor_list s rsp)
     (sync_each (\<lambda>x. sync_cluster_hypervisor s opts (new_hypervisor (hv_uuid (ghr_hypervisor x)))) rsp))"

section \<open>The status of hypervisors\<close>

text \<open>The services by identifier; a later entry of the same identifier replaces an earlier one.\<close>

record compute_status =
  cst_binary :: string
  cst_host :: string
  cst_zone :: string
  cst_status :: string
  cst_state :: string
  cst_updated_at :: string

definition get_compute_service_list :: "synchronizer \<Rightarrow> (err + (string \<Rightarrow> compute_status option)) op" where
  "get_compute_service_list s = do {
     rsp \<leftarrow> ask (sy_list_all_compute_services s);
     State_Monad.return (map_sum (\<lambda>e. e) (\<lambda>cs. fold (\<lambda>c m. m(co_id c \<mapsto>
       \<lparr>cst_binary = co_binary c, cst_host = co_host c, cst_zone = co_zone_name c, cst_status = co_status c,
        cst_state = co_state c, cst_updated_at = co_updated_at c\<rparr>)) cs Map.empty) rsp)
   }"

text \<open>The loops go on after a row that could not be saved.\<close>

fun set_unknown_hypervisors :: "cluster_hypervisor list \<Rightarrow> err option op" where
  "set_unknown_hypervisors [] = return_nil"
| "set_unknown_hypervisors (h # hs) =
     (if hv_status h = ''unknown'' \<and> hv_state h = ''unknown'' then set_unknown_hypervisors hs
      else ignoring (transaction (exec (save_hypervisor (h\<lparr>hv_status := ''unknown'', hv_state := ''unknown''\<rparr>))))
        (set_unknown_hypervisors hs))"

definition set_unknown_cluster_hypervisor_status :: "nat \<Rightarrow> err option op" where
  "set_unknown_cluster_hypervisor_status cid =
     fetch (db_res (execute (find_all db_hypervisor (\<lambda>r. cond_nat cid (hv_cluster_id r))))) set_unknown_hypervisors"

fun update_hypervisors :: "(string \<Rightarrow> compute_status option) \<Rightarrow> cluster_hypervisor list \<Rightarrow> err option op" where
  "update_hypervisors m [] = return_nil"
| "update_hypervisors m (h # hs) =
     (case m (hv_uuid h) of
        None \<Rightarrow> update_hypervisors m hs
      | Some v \<Rightarrow>
          (if cst_state v = [] \<or> cst_status v = [] \<or> (cst_status v = hv_status h \<and> cst_state v = hv_state h)
           then update_hypervisors m hs
           else ignoring (transaction (exec (save_hypervisor (h\<lparr>hv_status := cst_status v, hv_state := cst_state v\<rparr>))))
             (update_hypervisors m hs)))"

definition update_cluster_hypervisor_status ::
    "synchronizer \<Rightarrow> (string \<Rightarrow> compute_status option) \<Rightarrow> err option op" where
  "update_cluster_hypervisor_status s m =
     fetch (db_res (execute (find_all db_hypervisor (\<lambda>r. cond_nat (sy_cluster_id s) (hv_cluster_id r)))))
       (update_hypervisors m)"

end
