(* ===== verification/SyncStorage.thy ===== *)
theory SyncStorage
  imports SyncTenant
begin

text \<open>
  Synchronisation of storages, volumes and volume snapshots (\<open>sync/storage.go\<close>,
  \<open>sync/volume.go\<close>, \<open>sync/volume_snapshot.go\<close>) and the status of the storage services.
\<close>

section \<open>Storage services\<close>

text \<open>\<open>strings.Split\<close> at a separator that is a string: the text before and after its first occurrence.\<close>

fun cut_at :: "string \<Rightarrow> string \<Rightarrow> (string \<times> string) option" where
  "cut_at sep [] = (if sep = [] then Some ([], []) else None)"
| "cut_at sep (c # cs) = (if has_prefix sep (c # cs) then Some ([], drop (length sep) (c # cs))
     else map_option (\<lambda>(a, b). (c # a, b)) (cut_at sep cs))"

text \<open>\<open>strings.Split(s, sep)[1]\<close> panics when the separator does not occur.\<close>

definition second_part :: "string \<Rightarrow> string \<Rightarrow> string option" where
  "second_part sep t = (case cut_at sep t of None \<Rightarrow> None
     | Some (_, rest) \<Rightarrow> Some (case cut_at sep rest of None \<Rightarrow> rest | Some (a, _) \<Rightarrow> a))"

record storage_services =
  ss_id :: string
  ss_binary :: string
  ss_backend_name :: string
  ss_host :: string
  ss_zone :: string
  ss_status :: string
  ss_updated_at :: string
  ss_exception :: bool
  ss_deleted :: bool

text \<open>A backend is available as soon as one of its services so far is up and enabled.\<close>

definition note_backend :: "string \<Rightarrow> bool \<Rightarrow> (string \<Rightarrow> string option) \<Rightarrow> string \<Rightarrow> string option" where
  "note_backend k up m =
     (if up then (if m k = None \<or> m k = Some ''unavailable'' then m(k \<mapsto> ''available'') else m)
      else (if m k = None then m(k \<mapsto> ''unavailable'') else m))"

fun collect_services :: "cinder_service list \<Rightarrow> (string \<Rightarrow> string option) \<Rightarrow>
    (storage_services list \<times> (string \<Rightarrow> string option)) option" where
  "collect_services [] m = Some ([], m)"
| "collect_services (c # cs) m =
     (let up = (cs_state c = ''up'' \<and> cs_status c = ''enabled'') in
      case (if cs_binary c = ''cinder-volume'' then second_part ''@'' (cs_host c) else Some (cs_binary c)) of
        None \<Rightarrow> None
      | Some k \<Rightarrow>
          (let m' = note_backend k up m;
               x = \<lparr>ss_id = '''', ss_binary = cs_binary c,
                    ss_backend_name = (if cs_binary c = ''cinder-volume'' then k else ''''),
                    ss_host = cs_host c, ss_zone = cs_zone c, ss_status = (case m' k of None \<Rightarrow> '''' | Some v \<Rightarrow> v),
                    ss_updated_at = cs_updated_at c, ss_exception = False, ss_deleted = False\<rparr>
           in map_option (\<lambda>(xs, m''). (x # xs, m'')) (collect_services cs m')))"

text \<open>A host without an at sign makes the function panic.\<close>

definition get_storage_service_list ::
    "synchronizer \<Rightarrow> (err + storage_services list \<times> (string \<Rightarrow> string option)) op" where
  "get_storage_service_list s = do {
     rsp \<leftarrow> ask (sy_list_all_cinder_services s);
     State_Monad.return (case rsp of Inl e \<Rightarrow> Inl e
       | Inr cs \<Rightarrow> (case collect_services cs [''unknown'' \<mapsto> ''unknown''] of
           None \<Rightarrow> Inl NilDereference | Some r \<Rightarrow> Inr r))
   }"

definition get_storage_status :: "synchronizer \<Rightarrow> string \<Rightarrow> (err + string) op" where
  "get_storage_status s code = do {
     r \<leftarrow> get_storage_service_list s;
     State_Monad.return (case r of
         Inl e \<Rightarrow> (if e = NilDereference then Inl e else Inr ''unknown'')
       | Inr (_, m) \<Rightarrow> (case second_part ''openstack.storage.type.'' code of
           None \<Rightarrow> Inl NilDereference
         | Some k \<Rightarrow> Inr (case m k of None \<Rightarrow> ''unknown'' | Some v \<Rightarrow> if v = [] then ''unknown'' else v)))
   }"

fun set_unknown_storages :: "cluster_storage list \<Rightarrow> err option op" where
  "set_unknown_storages [] = return_nil"
| "set_unknown_storages (r # rs) =
     (if st_status r = ''unknown'' then set_unknown_storages rs
      else ignoring (transaction (exec (save_storage (r\<lparr>st_status := ''unknown''\<rparr>)))) (set_unknown_storages rs))"

definition set_unknown_cluster_storages_status :: "nat \<Rightarrow> err option op" where
  "set_unknown_cluster_storages_status cid =
     fetch (db_res (execute (find_all db_storage (\<lambda>r. cond_nat cid (st_cluster_id r))))) set_unknown_storages"

text \<open>
  One storage takes the status of every service of its backend in turn; the status in memory
  changes even when it could not be saved. A service without a status counts as unknown, but
  only after it was compared.
\<close>

fun apply_services :: "string \<Rightarrow> storage_services list \<Rightarrow> cluster_storage \<Rightarrow> unit op" where
  "apply_services b [] r = State_Monad.return ()"
| "apply_services b (v # vs) r =
     (if ss_backend_name v \<noteq> b \<or> st_status r = ss_status v then apply_services b vs r
      else (let r' = r\<lparr>st_status := (if ss_status v = [] then ''unknown'' else ss_status v)\<rparr> in
        do { _ \<leftarrow> transaction (exec (save_storage r')); apply_services b vs r' }))"

fun update_storages :: "nat \<Rightarrow> storage_services list \<Rightarrow> cluster_storage list \<Rightarrow> err option op" where
  "update_storages cid vs [] = return_nil"
| "update_storages cid vs (r # rs) = do {
     d \<leftarrow> get_storage cid (st_id r);
     case d of Inl _ \<Rightarrow> update_storages cid vs rs
     | Inr x \<Rightarrow> do { _ \<leftarrow> apply_services (sd_backend_name x) vs r; update_storages cid vs rs }
   }"

definition update_cluster_storages_status :: "synchronizer \<Rightarrow> storage_services list \<Rightarrow> err option op" where
  "update_cluster_storages_status s vs =
     fetch (db_res (execute (find_all db_storage (\<lambda>r. cond_nat (sy_cluster_id s) (st_cluster_id r)))))
       (update_storages (sy_cluster_id s) vs)"

section \<open>Storages\<close>

definition compare_storage :: "cluster_storage \<Rightarrow> get_storage_result \<Rightarrow> bool" where
  "compare_storage d r = (let c = gsr_storage r in st_uuid d = st_uuid c \<and> st_name d = st_name c \<and>
     st_type_code d = st_type_code c \<and> st_description d = st_description c \<and>
     st_capacity_bytes d = st_capacity_bytes c \<and> st_used_bytes d = st_used_bytes c)"

definition new_storage :: "string \<Rightarrow> cluster_storage" where
  "new_storage u = \<lparr>st_id = 0, st_cluster_id = 0, st_uuid = u, st_name = '''', st_description = None,
     st_type_code = '''', st_capacity_bytes = None, st_used_bytes = None, st_status = '''',
     st_credential = None, st_raw = None\<rparr>"

definition find_storage :: "synchronizer \<Rightarrow> cluster_storage \<Rightarrow> (err + cluster_storage) op" where
  "find_storage s t = execute (first_row st_id (\<lambda>db. filter (\<lambda>r. cond_nat (sy_cluster_id s) (st_cluster_id r) \<and>
     cond_str (st_uuid t) (st_uuid r) \<and> cond_nat (st_id t) (st_id r)) (db_storage db)))"

definition save_storage_row :: "cluster_storage \<Rightarrow> (cluster_storage \<Rightarrow> err option op) \<Rightarrow> err option op" where
  "save_storage_row = save_row st_id (\<lambda>i r. r\<lparr>st_id := i\<rparr>) save_storage"

definition sync_cluster_storage_metadata :: "storage_document \<Rightarrow> metadata \<Rightarrow> err option op" where
  "sync_cluster_storage_metadata d md =
     check (put_storage d)
     (fetch (get_storage (sd_cluster_id d) (sd_storage_id d)) (\<lambda>x. merge_storage_metadata x md))"

text \<open>The document of a stored storage.\<close>

definition storage_document_of :: "synchronizer \<Rightarrow> cluster_storage \<Rightarrow> string \<Rightarrow> storage_document" where
  "storage_document_of s r b = \<lparr>sd_cluster_id = sy_cluster_id s, sd_storage_id = st_id r,
     sd_type = st_type_code r, sd_backend_name = b\<rparr>"

definition sync_cluster_storage :: "synchronizer \<Rightarrow> options \<Rightarrow> cluster_storage \<Rightarrow> err option op" where
  "sync_cluster_storage s opts t =
     fetch (get_agent (sy_cluster_id s)) (\<lambda>a. do {
     rsp \<leftarrow> ask (sy_get_storage s (st_uuid t) a);
     respond rsp (do {
       row \<leftarrow> find_storage s t;
       compare_sides rsp row
         return_nil
         (\<lambda>old. delete_storage s old)
         (\<lambda>res. fetch (get_storage_status s (st_type_code (gsr_storage res))) (\<lambda>st.
            save_storage_row (gsr_storage res\<lparr>st_cluster_id := sy_cluster_id s, st_status := st\<rparr>) (\<lambda>new.
            check (sync_cluster_storage_metadata (storage_document_of s new (gsr_volume_backend_name res)) (gsr_metadata res))
            (announce s queue_notice_cluster_storage_created [(''Storage'', RStorage new)]
             return_nil))))
         (\<lambda>res old. if opt_force opts \<or> \<not> compare_storage old res
            then fetch (get_storage_status s (st_type_code (gsr_storage res))) (\<lambda>st.
              save_storage_row (gsr_storage res\<lparr>st_id := st_id old, st_cluster_id := sy_cluster_id s, st_status := st\<rparr>) (\<lambda>new.
              fetch (get_storage (st_cluster_id old) (st_id old)) (\<lambda>orig.
              check (sync_cluster_storage_metadata (storage_document_of s new (gsr_volume_backend_name res)) (gsr_metadata res))
              (announce s queue_notice_cluster_storage_updated
                [(''OrigStorage'', RStorage old), (''Storage'', RStorage new),
                 (''OrigVolumeBackendName'', RText (sd_backend_name orig)),
                 (''VolumeBackendName'', RText (gsr_volume_backend_name res))]
               return_nil))))
            else return_nil)
     })
   })"

definition get_storage_row :: "synchronizer \<Rightarrow> options \<Rightarrow> string \<Rightarrow> (err + cluster_storage) op" where
  "get_storage_row s opts u = do {
     r \<leftarrow> find_storage s (new_storage u);
     case r of Inr t \<Rightarrow> State_Monad.return (Inr t)
     | Inl _ \<Rightarrow> do {
         e \<leftarrow> sync_cluster_storage s opts (new_storage u);
         case e of Some x \<Rightarrow> State_Monad.return (Inl x)
         | None \<Rightarrow> db_res (find_storage s (new_storage u))
       }
   }"

definition sync_deleted_storage_list :: "synchronizer \<Rightarrow> get_storage_result list \<Rightarrow> err option op" where
  "sync_deleted_storage_list s rsp =
     fetch (db_res (execute (find_all db_storage (\<lambda>r. cond_nat (sy_cluster_id s) (st_cluster_id r)))))
       (delete_missing st_uuid (delete_storage s) (map (\<lambda>x. st_uuid (gsr_storage x)) rsp))"

definition sync_cluster_storage_list :: "synchronizer \<Rightarrow> options \<Rightarrow> err option op" where
  "sync_cluster_storage_list s opts =
     fetch (ask (sy_get_storage_list s)) (\<lambda>rsp.
     check (sync_deleted_storage_list s rsp)
     (sync_each (\<lambda>x. sync_cluster_storage s opts (new_storage (st_uuid (gsr_storage x)))) rsp))"

section \<open>Volumes\<close>

text \<open>The tenants of the cluster, which the queries of volumes and networks join with.\<close>

definition tenant_of_cluster :: "synchronizer \<Rightarrow> nat \<Rightarrow> database \<Rightarrow> bool" where
  "tenant_of_cluster s i db = list_ex (\<lambda>t. tn_id t = i \<and> cond_nat (sy_cluster_id s) (tn_cluster_id t)) (db_tenant db)"

definition same_volume :: "cluster_volume \<Rightarrow> cluster_volume \<Rightarrow> bool" where
  "same_volume d c = (vol_uuid d = vol_uuid c \<and> vol_name d = vol_name c \<and> vol_size_bytes d = vol_size_bytes c \<and>
     vol_multiattach d = vol_multiattach c \<and> vol_bootable d = vol_bootable c \<and> vol_readonly d = vol_readonly c \<and>
     vol_status d = vol_status c \<and> vol_description d = vol_description c)"

definition compare_volume :: "cluster_volume \<Rightarrow> get_volume_result \<Rightarrow> bool op" where
  "compare_volume d r =
     (if \<not> same_volume d (gvr_volume r) then State_Monad.return False
      else do {
        q \<leftarrow> execute (both
          (find_row (\<lambda>db. filter (\<lambda>t. cond_nat (vol_cluster_tenant_id d) (tn_id t)) (db_tenant db)))
          (find_row (\<lambda>db. filter (\<lambda>t. cond_nat (vol_cluster_storage_id d) (st_id t)) (db_storage db))));
        State_Monad.return (case q of Inl _ \<Rightarrow> False
          | Inr (t, st) \<Rightarrow> tn_uuid t = tn_uuid (gvr_tenant r) \<and> st_uuid st = st_uuid (gvr_storage r))
      })"

definition new_volume :: "string \<Rightarrow> cluster_volume" where
  "new_volume u = \<lparr>vol_id = 0, vol_cluster_tenant_id = 0, vol_cluster_storage_id = 0, vol_uuid = u,
     vol_name = '''', vol_description = None, vol_size_bytes = 0, vol_multiattach = False, vol_bootable = False,
     vol_readonly = False, vol_status = '''', vol_raw = None\<rparr>"

definition find_volume :: "synchronizer \<Rightarrow> cluster_volume \<Rightarrow> (err + cluster_volume) op" where
  "find_volume s v = execute (first_row vol_id (\<lambda>db. filter (\<lambda>r. tenant_of_cluster s (vol_cluster_tenant_id r) db \<and>
     cond_str (vol_uuid v) (vol_uuid r) \<and> cond_nat (vol_id v) (vol_id r)) (db_volume db)))"

definition save_volume_row :: "cluster_volume \<Rightarrow> (cluster_volume \<Rightarrow> err option op) \<Rightarrow> err option op" where
  "save_volume_row = save_row vol_id (\<lambda>i r. r\<lparr>vol_id := i\<rparr>) save_volume"

definition sync_cluster_volume_metadata :: "volume_document \<Rightarrow> metadata \<Rightarrow> err option op" where
  "sync_cluster_volume_metadata d md =
     check (put_volume d)
     (fetch (get_volume (vd_cluster_id d) (vd_volume_id d)) (\<lambda>x. merge_volume_metadata x md))"

definition volume_document_of :: "synchronizer \<Rightarrow> cluster_volume \<Rightarrow> volume_document" where
  "volume_document_of s v = \<lparr>vd_cluster_id = sy_cluster_id s, vd_volume_id = vol_id v, vd_volume_uuid = vol_uuid v\<rparr>"

text \<open>The tenant and the storage a volume of the cluster belongs to; without a tenant it is left out.\<close>

definition with_owners :: "synchronizer \<Rightarrow> options \<Rightarrow> get_volume_result \<Rightarrow> (nat \<Rightarrow> nat \<Rightarrow> err option op) \<Rightarrow> err option op" where
  "with_owners s opts res k =
     fetch (get_tenant s opts (tn_uuid (gvr_tenant res))) (\<lambda>t. case t of None \<Rightarrow> return_nil
     | Some t \<Rightarrow> fetch (get_storage_row s opts (st_uuid (gvr_storage res))) (\<lambda>st. k (tn_id t) (st_id st)))"

definition sync_cluster_volume :: "synchronizer \<Rightarrow> options \<Rightarrow> cluster_volume \<Rightarrow> err option op" where
  "sync_cluster_volume s opts v =
     unless_deleted s opts (do {
     rsp \<leftarrow> ask (sy_get_volume s (vol_uuid v));
     respond rsp (do {
       row \<leftarrow> find_volume s v;
       compare_sides rsp row
         return_nil
         (\<lambda>old. delete_volume s old)
         (\<lambda>res. with_owners s opts res (\<lambda>t st.
            save_volume_row (gvr_volume res\<lparr>vol_cluster_tenant_id := t, vol_cluster_storage_id := st\<rparr>) (\<lambda>new.
            check (sync_cluster_volume_metadata (volume_document_of s new) (gvr_metadata res))
            (announce s queue_notice_cluster_volume_created [(''Volume'', RVolume new)]
             return_nil))))
         (\<lambda>res old. do {
            same \<leftarrow> (if opt_force opts then State_Monad.return False else compare_volume old res);
            if same then return_nil
            else with_owners s opts res (\<lambda>t st.
              save_volume_row (gvr_volume res\<lparr>vol_id := vol_id old, vol_cluster_tenant_id := t, vol_cluster_storage_id := st\<rparr>) (\<lambda>new.
              check (sync_cluster_volume_metadata (volume_document_of s new) (gvr_metadata res))
              (announce s queue_notice_cluster_volume_updated [(''OrigVolume'', RVolume old), (''Volume'', RVolume new)]
               return_nil)))
         })
     })
   })"

definition get_volume_row :: "synchronizer \<Rightarrow> options \<Rightarrow> string \<Rightarrow> (err + cluster_volume) op" where
  "get_volume_row s opts u = do {
     r \<leftarrow> find_volume s (new_volume u);
     case r of Inr v \<Rightarrow> State_Monad.return (Inr v)
     | Inl _ \<Rightarrow> do {
         e \<leftarrow> sync_cluster_volume s opts (new_volume u);
         case e of Some x \<Rightarrow> State_Monad.return (Inl x)
         | None \<Rightarrow> db_res (find_volume s (new_volume u))
       }
   }"

definition sync_deleted_volume_list :: "synchronizer \<Rightarrow> get_volume_result list \<Rightarrow> err option op" where
  "sync_deleted_volume_list s rsp =
     fetch (db_res (execute (find_rows (\<lambda>db. filter (\<lambda>r. tenant_of_cluster s (vol_cluster_tenant_id r) db) (db_volume db)))))
       (delete_missing vol_uuid (delete_volume s) (map (\<lambda>x. vol_uuid (gvr_volume x)) rsp))"

definition sync_cluster_volume_list :: "synchronizer \<Rightarrow> options \<Rightarrow> err option op" where
  "sync_cluster_volume_list s opts =
     fetch (ask (sy_get_volume_list s)) (\<lambda>rsp.
     check (sync_deleted_volume_list s rsp)
     (sync_each (\<lambda>x. sync_cluster_volume s opts (new_volume (vol_uuid (gvr_volume x)))) rsp))"

section \<open>Volume snapshots\<close>

definition same_volume_snapshot :: "cluster_volume_snapshot \<Rightarrow> cluster_volume_snapshot \<Rightarrow> bool" where
  "same_volume_snapshot d c = (vs_uuid d = vs_uuid c \<and>
     vs_cluster_volume_group_snapshot_uuid d = vs_cluster_volume_group_snapshot_uuid c \<and>
     vs_name d = vs_name c \<and> vs_size_bytes d = vs_size_bytes c \<and> vs_status d = vs_status c \<and>
     vs_created_at d = vs_created_at c \<and> vs_description d = vs_description c)"

definition compare_volume_snapshot :: "cluster_volume_snapshot \<Rightarrow> get_volume_snapshot_result \<Rightarrow> bool op" where
  "compare_volume_snapshot d r =
     (if \<not> same_volume_snapshot d (gvs_volume_snapshot r) then State_Monad.return False
      else do {
        v \<leftarrow> execute (find_row (\<lambda>db. filter (\<lambda>x. cond_nat (vs_cluster_volume_id d) (vol_id x)) (db_volume db)));
        State_Monad.return (case v of Inl _ \<Rightarrow> False | Inr x \<Rightarrow> vol_uuid x = vol_uuid (gvs_volume r))
      })"

definition new_volume_snapshot :: "string \<Rightarrow> cluster_volume_snapshot" where
  "new_volume_snapshot u = \<lparr>vs_id = 0, vs_cluster_volume_id = 0, vs_uuid = u,
     vs_cluster_volume_group_snapshot_uuid = None, vs_name = '''', vs_description = None, vs_size_bytes = 0,
     vs_status = '''', vs_created_at = 0, vs_raw = None\<rparr>"

text \<open>The join of the snapshots of the cluster with their volumes.\<close>

definition snapshot_join :: "synchronizer \<Rightarrow> database \<Rightarrow> (cluster_volume_snapshot \<times> cluster_volume) list" where
  "snapshot_join s db = [(sn, v). sn \<leftarrow> db_volume_snapshot db, v \<leftarrow> db_volume db,
     vol_id v = vs_cluster_volume_id sn, tenant_of_cluster s (vol_cluster_tenant_id v) db]"

definition save_volume_snapshot_row ::
    "cluster_volume_snapshot \<Rightarrow> (cluster_volume_snapshot \<Rightarrow> err option op) \<Rightarrow> err option op" where
  "save_volume_snapshot_row = save_row vs_id (\<lambda>i r. r\<lparr>vs_id := i\<rparr>) save_volume_snapshot"

definition sync_deleted_volume_snapshot_list ::
    "synchronizer \<Rightarrow> get_volume_snapshot_result list \<Rightarrow> err option op" where
  "sync_deleted_volume_snapshot_list s rsp =
     fetch (db_res (execute (find_rows (snapshot_join s))))
       (delete_missing (\<lambda>x. vs_uuid (fst x)) (\<lambda>(sn, v). delete_volume_snapshot s v sn)
          (map (\<lambda>x. vs_uuid (gvs_volume_snapshot x)) rsp))"

text \<open>
  The record that was found is copied over the given row, and the result of copying, nil,
  replaces the error of the query: a snapshot without a row is the zero value from then on. The
  case of a new snapshot is never reached, and a snapshot that the cluster does not have is
  deleted whether or not there is a row of it.
\<close>

definition sync_cluster_volume_snapshot ::
    "synchronizer \<Rightarrow> options \<Rightarrow> cluster_volume_snapshot \<Rightarrow> err option op" where
  "sync_cluster_volume_snapshot s opts sn =
     unless_deleted s opts (do {
     rsp \<leftarrow> ask (sy_get_volume_snapshot s (vs_uuid sn));
     respond rsp (do {
       row \<leftarrow> execute (first_row (\<lambda>x. vs_id (fst x)) (\<lambda>db. filter (\<lambda>x. cond_str (vs_uuid sn) (vs_uuid (fst x)))
         (snapshot_join s db)));
       if (case row of Inl e \<Rightarrow> e \<noteq> RecordNotFound | Inr _ \<Rightarrow> False)
       then State_Monad.return (case row of Inl e \<Rightarrow> Some (unusable_database e) | Inr _ \<Rightarrow> None)
       else (let (old, v) = (case row of Inl _ \<Rightarrow> (new_volume_snapshot '''', new_volume '''') | Inr x \<Rightarrow> x)
         in (case rsp of
           Inl _ \<Rightarrow>
             check (transact [delete_volume_snapshot_rows (\<lambda>r. cond_nat (vs_id old) (vs_id r))])
             (announce s queue_notice_cluster_volume_snapshot_deleted
                [(''Volume'', RVolume v), (''OrigVolumeSnapshot'', RVolumeSnapshot old)]
              return_nil)
         | Inr res \<Rightarrow> do {
             same \<leftarrow> (if opt_force opts then State_Monad.return False else compare_volume_snapshot old res);
             if same then return_nil
             else fetch (get_volume_row s opts (vol_uuid (gvs_volume res))) (\<lambda>w.
               save_volume_snapshot_row (gvs_volume_snapshot res\<lparr>vs_id := vs_id old, vs_cluster_volume_id := vol_id w\<rparr>) (\<lambda>new.
               announce s queue_notice_cluster_volume_snapshot_updated
                 [(''Volume'', RVolume w), (''VolumeSnapshot'', RVolumeSnapshot new)]
               return_nil))
           }))
     })
   })"

definition sync_cluster_volume_snapshot_list :: "synchronizer \<Rightarrow> options \<Rightarrow> err option op" where
  "sync_cluster_volume_snapshot_list s opts =
     fetch (ask (sy_get_volume_snapshot_list s)) (\<lambda>rsp.
     check (sync_deleted_volume_snapshot_list s rsp)
     (sync_each (\<lambda>x. sync_cluster_volume_snapshot s opts
        (new_volume_snapshot (vs_uuid (gvs_volume_snapshot x)))) rsp))"

end
