(* ===== verification/Reconciler.thy ===== *)
theory Reconciler
  imports Sequence SyncStorage
begin

text \<open>
  What a list synchronisation is for: afterwards the database holds, for its cluster, what the
  cluster reported. A table is seen as a map from the name of a resource (its UUID, or the name
  of a zone) to what the synchronisation compares; every list synchronisation first prunes the
  map to the reported names and then updates it with each report.
\<close>

section \<open>Tables as maps\<close>

definition table_view :: "('r \<Rightarrow> bool) \<Rightarrow> ('r \<Rightarrow> string) \<Rightarrow> ('r \<Rightarrow> 'v) \<Rightarrow> 'r list \<Rightarrow> string \<Rightarrow> 'v option" where
  "table_view mine name f rows = map_of (map (\<lambda>r. (name r, f r)) (filter mine rows))"

text \<open>Keys come from the sequence and are unique, and the names of one cluster are.\<close>

definition keyed :: "('r \<Rightarrow> bool) \<Rightarrow> ('r \<Rightarrow> string) \<Rightarrow> ('r \<Rightarrow> nat) \<Rightarrow> nat \<Rightarrow> 'r list \<Rightarrow> bool" where
  "keyed mine name key n rows \<longleftrightarrow> (\<forall>r \<in> set rows. key r \<noteq> 0 \<and> key r \<le> n) \<and>
     distinct (map key rows) \<and> distinct (map name (filter mine rows))"

lemma keyed_mono: "keyed mine name key n rows \<Longrightarrow> n \<le> m \<Longrightarrow> keyed mine name key m rows"
  by (auto simp: keyed_def)

lemma keyed_filter: "keyed mine name key n rows \<Longrightarrow> keyed mine name key n (filter P rows)"
proof -
  assume k: "keyed mine name key n rows"
  then have "distinct (map name (filter P (filter mine rows)))" by (simp add: keyed_def distinct_map_filter del: filter_filter)
  then have "distinct (map name (filter mine (filter P rows)))" by (simp add: conj_commute)
  then show "keyed mine name key n (filter P rows)"
    using k unfolding keyed_def by (auto simp: distinct_map_filter simp del: filter_filter)
qed

lemma table_view_None: "table_view mine name f rows u = None \<longleftrightarrow> (\<forall>r \<in> set rows. mine r \<longrightarrow> name r \<noteq> u)"
  by (auto simp: table_view_def map_of_eq_None_iff image_image)

lemma table_view_Some:
  assumes "keyed mine name key n rows" and "r \<in> set rows" and "mine r"
  shows "table_view mine name f rows (name r) = Some (f r)"
proof -
  have "distinct (map fst (map (\<lambda>r. (name r, f r)) (filter mine rows)))"
    using assms(1) by (simp add: keyed_def o_def)
  then show ?thesis
    unfolding table_view_def using assms(2,3) by (intro map_of_is_SomeI) auto
qed

text \<open>The row with the least key among those of a name is the one with that name.\<close>

lemma lookup_row:
  assumes "keyed mine name key n rows"
  shows "case least_by key (filter (\<lambda>r. mine r \<and> name r = u) rows) of
      None \<Rightarrow> table_view mine name f rows u = None
    | Some r \<Rightarrow> r \<in> set rows \<and> mine r \<and> name r = u \<and> table_view mine name f rows u = Some (f r)"
proof (cases "least_by key (filter (\<lambda>r. mine r \<and> name r = u) rows)")
  case None
  then show ?thesis by (auto simp: table_view_None filter_empty_conv)
next
  case (Some r)
  then have "r \<in> set rows" "mine r" "name r = u" using least_by_Some [OF Some] by auto
  then show ?thesis using Some table_view_Some [OF assms, of r f] by auto
qed

lemma view_insert:
  assumes "keyed mine name key n rows" and "mine new" and "key new = Suc n"
    and "table_view mine name f rows (name new) = None"
  shows "keyed mine name key (Suc n) (rows @ [new])"
    and "table_view mine name g (rows @ [new]) = (table_view mine name g rows)(name new \<mapsto> g new)"
proof -
  have fresh: "\<forall>r \<in> set rows. mine r \<longrightarrow> name r \<noteq> name new" using assms(4) by (simp add: table_view_None)
  have "\<forall>r \<in> set rows. key r \<noteq> Suc n" using assms(1) by (auto simp: keyed_def)
  then show "keyed mine name key (Suc n) (rows @ [new])"
    using assms(1-3) fresh by (auto simp: keyed_def)
  have "table_view mine name g rows (name new) = None" using fresh by (simp add: table_view_None)
  then show "table_view mine name g (rows @ [new]) = (table_view mine name g rows)(name new \<mapsto> g new)"
    using assms(2) by (auto simp: table_view_def fun_eq_iff map_add_def split: option.split)
qed

lemma view_update:
  assumes "keyed mine name key n rows" and "r \<in> set rows" and "mine r" and "mine new"
    and "key new = key r" and "name new = name r"
  shows "keyed mine name key n (map (\<lambda>x. if key x = key new then new else x) rows)" (is "keyed _ _ _ _ ?rows")
    and "table_view mine name g (map (\<lambda>x. if key x = key new then new else x) rows) =
      (table_view mine name g rows)(name new \<mapsto> g new)"
    and "filter (\<lambda>x. \<not> mine x) (map (\<lambda>x. if key x = key new then new else x) rows) = filter (\<lambda>x. \<not> mine x) rows"
proof -
  have same: "x = r" if "x \<in> set rows" "key x = key r" for x
    using assms(1,2) that by (auto simp: keyed_def distinct_map dest: inj_onD)
  have m: "mine (if key x = key new then new else x) = mine x" if "x \<in> set rows" for x
    using same [OF that] assms(3-5) by auto
  have nm: "name (if key x = key new then new else x) = name x" if "x \<in> set rows" for x
    using same [OF that] assms(5,6) by auto
  have fl: "filter mine ?rows = map (\<lambda>x. if key x = key new then new else x) (filter mine rows)"
    using m by (simp add: filter_map o_def cong: filter_cong)
  have keys: "map key ?rows = map key rows" using assms(5) by (auto simp: o_def)
  have names: "map name (filter mine ?rows) = map name (filter mine rows)"
    unfolding fl using nm by auto
  show "keyed mine name key n ?rows"
    unfolding keyed_def keys names using assms(1,2,5) by (auto simp: keyed_def)
  have inner: "x = r" if "x \<in> set (filter mine rows)" "name x = name r" for x
    using assms(1-3) that by (auto simp: keyed_def distinct_map dest: inj_onD)
  show "table_view mine name g ?rows = (table_view mine name g rows)(name new \<mapsto> g new)"
  proof
    fix u
    have d: "distinct (map fst (map (\<lambda>r. (name r, g r)) (filter mine ?rows)))"
      using assms(1) names by (simp add: keyed_def o_def)
    show "table_view mine name g ?rows u = ((table_view mine name g rows)(name new \<mapsto> g new)) u"
    proof (cases "u = name new")
      case True
      have "new \<in> set (filter mine ?rows)"
        using assms(2-5) by (auto simp: image_iff intro!: bexI [of _ r])
      then have "(name new, g new) \<in> set (map (\<lambda>r. (name r, g r)) (filter mine ?rows))" by auto
      then show ?thesis using True map_of_is_SomeI [OF d] by (simp add: table_view_def)
    next
      case False
      have "map_of (map (\<lambda>r. (name r, g r)) (map (\<lambda>x. if key x = key new then new else x) xs)) u =
          map_of (map (\<lambda>r. (name r, g r)) xs) u" if "set xs \<subseteq> set rows" for xs
        using that
      proof (induction xs)
        case (Cons x xs)
        then show ?case using False same [of x] assms(5,6) by auto
      qed simp
      then show ?thesis using False by (simp add: table_view_def fl)
    qed
  qed
  have "filter (\<lambda>x. \<not> mine x) (map (\<lambda>x. if key x = key new then new else x) xs) = filter (\<lambda>x. \<not> mine x) xs"
    if "set xs \<subseteq> set rows" for xs
    using that
  proof (induction xs)
    case (Cons x xs)
    then show ?case using same [of x] assms(3-5) by auto
  qed simp
  then show "filter (\<lambda>x. \<not> mine x) ?rows = filter (\<lambda>x. \<not> mine x) rows" by simp
qed

lemma view_prune:
  "table_view mine name g (filter (\<lambda>r. \<not> (mine r \<and> name r \<notin> us)) rows) = table_view mine name g rows |` us"
proof
  fix u
  show "table_view mine name g (filter (\<lambda>r. \<not> (mine r \<and> name r \<notin> us)) rows) u = (table_view mine name g rows |` us) u"
    by (induction rows) (auto simp: table_view_def restrict_map_def)
qed

section \<open>List synchronisations\<close>

text \<open>
  The contract of a list synchronisation without failures: \<open>prune\<close> deletes what is not
  reported, \<open>sync\<close> brings one report into the table, both keep the identifiers of what stays
  (\<open>ident\<close>) and everything of other clusters (\<open>others\<close>).
\<close>

locale reconciler =
  fixes ok :: "world \<Rightarrow> bool" and view :: "world \<Rightarrow> string \<Rightarrow> 'v option"
    and ident :: "world \<Rightarrow> string \<Rightarrow> nat option" and others :: "world \<Rightarrow> 'o"
    and valid :: "'x \<Rightarrow> bool" and label :: "'x \<Rightarrow> string" and shown :: "'x \<Rightarrow> 'v"
    and sync :: "'x \<Rightarrow> err option op" and prune :: "string list \<Rightarrow> err option op"
  assumes sync_step: "ok w \<Longrightarrow> valid x \<Longrightarrow> \<exists>w'. run_state (sync x) w = (None, w') \<and> ok w' \<and>
      view w' = (view w)(label x \<mapsto> shown x) \<and> others w' = others w \<and> ident w \<subseteq>\<^sub>m ident w'"
    and prune_step: "ok w \<Longrightarrow> \<exists>w'. run_state (prune us) w = (None, w') \<and> ok w' \<and>
      view w' = view w |` set us \<and> others w' = others w \<and> ident w' = ident w |` set us"
begin

lemma sync_all:
  assumes "ok w" and "\<forall>x \<in> set xs. valid x"
  shows "\<exists>w'. run_state (sync_each sync xs) w = (None, w') \<and> ok w' \<and>
    view w' = view w ++ map_of (rev (map (\<lambda>x. (label x, shown x)) xs)) \<and>
    others w' = others w \<and> ident w \<subseteq>\<^sub>m ident w'"
  using assms unfolding sync_each_def
proof (induction xs arbitrary: w)
  case Nil
  then show ?case by simp
next
  case (Cons x xs)
  obtain w1 where w1: "run_state (sync x) w = (None, w1)" "ok w1" "view w1 = (view w)(label x \<mapsto> shown x)"
    "others w1 = others w" "ident w \<subseteq>\<^sub>m ident w1"
    using sync_step [OF Cons.prems(1), of x] Cons.prems(2) by auto
  obtain w2 where w2: "run_state (for_last sync xs None) w1 = (None, w2)" "ok w2"
    "view w2 = view w1 ++ map_of (rev (map (\<lambda>x. (label x, shown x)) xs))"
    "others w2 = others w1" "ident w1 \<subseteq>\<^sub>m ident w2"
    using Cons.IH [OF w1(2)] Cons.prems(2) by auto
  have "view w2 = view w ++ map_of (rev (map (\<lambda>x. (label x, shown x)) (x # xs)))"
    by (auto simp: w2(3) w1(3) map_add_def fun_eq_iff split: option.split)
  then show ?case using w1 w2 map_le_trans by auto
qed

text \<open>Afterwards the view is what was reported; of two reports under one name the last counts.\<close>

lemma reconciles:
  assumes "ok w" and "\<forall>x \<in> set xs. valid x"
  shows "\<exists>w'. run_state (check (prune (map label xs)) (sync_each sync xs)) w = (None, w') \<and> ok w' \<and>
    view w' = map_of (rev (map (\<lambda>x. (label x, shown x)) xs)) \<and> others w' = others w \<and>
    ident w |` (label ` set xs) \<subseteq>\<^sub>m ident w'"
proof -
  obtain w1 where w1: "run_state (prune (map label xs)) w = (None, w1)" "ok w1"
    "view w1 = view w |` (label ` set xs)" "others w1 = others w" "ident w1 = ident w |` (label ` set xs)"
    using prune_step [OF assms(1), of "map label xs"] by auto
  obtain w2 where w2: "run_state (sync_each sync xs) w1 = (None, w2)" "ok w2"
    "view w2 = view w1 ++ map_of (rev (map (\<lambda>x. (label x, shown x)) xs))"
    "others w2 = others w1" "ident w1 \<subseteq>\<^sub>m ident w2"
    using sync_all [OF w1(2) assms(2)] by auto
  let ?m = "map_of (rev (map (\<lambda>x. (label x, shown x)) xs))"
  have "dom ?m = label ` set xs" by (simp add: dom_map_of_conv_image_fst image_image)
  then have "view w1 ++ ?m = ?m"
    unfolding w1(3) by (auto simp: map_add_def fun_eq_iff restrict_map_def split: option.split)
  then show ?thesis using w1 w2 by (auto simp: check_def)
qed

end

end
