(* ===== verification/Reconcile.thy ===== *)
theory Reconcile
  imports Reconciler
begin

text \<open>
  The list synchronisations of availability zones and of tenants meet the contract of
  \<open>reconciler\<close>: without failures the database ends up with what the cluster reports.
\<close>

section \<open>Steps without failures\<close>

lemma saving_quiet [quiet_run]:
  assumes "quiet w"
  shows "run_state (saving i q k) w =
    (let j = (if i = 0 then Suc (w_seq w) else i); n = (if i = 0 then Suc (w_seq w) else w_seq w) in
     case q j (w_db w) of
       Inl _ \<Rightarrow> run_state (k i) (w\<lparr>w_seq := n\<rparr>)
     | Inr db \<Rightarrow> run_state (k j) (w\<lparr>w_db := db, w_seq := n\<rparr>))"
  using assms by (simp add: saving_def gorm_save_quiet Let_def split: sum.split)

lemma announce_quiet [quiet_run]:
  "quiet w \<Longrightarrow> run_state (announce s t rows k) w =
    run_state k (w\<lparr>w_events := w_events w @ [Published t (sy_cluster_id s) rows]\<rparr>)"
  by (simp add: announce_def ignoring_def publish_quiet)

lemma run_return_nil [simp]: "run_state return_nil w = (None, w)"
  by (simp add: return_nil_def)

lemma settles_draws:
  assumes "settles m (core (w_db w)) c'" and "quiet w" and "\<And>n. keeps (drawn n) m"
  obtains w' where "run_state m w = (None, w')" and "quiet w'" and "core (w_db w') = c'" and "w_seq w \<le> w_seq w'"
proof -
  obtain w' where w': "run_state m w = (None, w')" "quiet w'" "core (w_db w') = c'"
    using settles_run [OF assms(1,2)] by blast
  have "drawn (w_seq w) w'"
    using keepsD [OF assms(3), of "w_seq w" w] w'(1) by (simp add: drawn_def)
  then show ?thesis using w' that by (simp add: drawn_def)
qed

text \<open>Saving a row of one table: the two outcomes that satisfy the foreign keys.\<close>

lemma save_into_new:
  assumes "\<forall>r \<in> set rows. key r \<noteq> key new" and "ok None new"
  shows "save_into key ok new rows = Inr (rows @ [new])"
proof -
  have "List.find (\<lambda>r. key r = key new) rows = None" using assms(1) by (simp add: find_None_iff)
  then show ?thesis using assms(2) by (simp add: save_into_def)
qed

lemma save_into_known:
  assumes "distinct (map key rows)" and "r \<in> set rows" and "key new = key r" and "ok (Some r) new"
  shows "save_into key ok new rows = Inr (map (\<lambda>x. if key x = key new then new else x) rows)"
proof -
  have "List.find (\<lambda>r. key r = key new) rows \<noteq> None" using assms(2,3) by (auto simp: find_None_iff)
  then obtain x where x: "List.find (\<lambda>r. key r = key new) rows = Some x" by blast
  then have "x \<in> set rows" "key x = key new" by (auto simp: find_Some_iff)
  moreover have "inj_on key (set rows)" using assms(1) by (simp add: distinct_map)
  ultimately have "x = r" using assms(2,3) by (simp add: inj_on_def)
  then show ?thesis using x assms(4) by (simp add: save_into_def)
qed

section \<open>Availability zones\<close>

definition zone_rows :: "nat \<Rightarrow> (cluster_availability_zone \<Rightarrow> 'v) \<Rightarrow> world \<Rightarrow> string \<Rightarrow> 'v option" where
  "zone_rows c f w = table_view (\<lambda>r. az_cluster_id r = c) az_name f (db_availability_zone (w_db w))"

definition other_zones :: "nat \<Rightarrow> world \<Rightarrow> cluster_availability_zone list" where
  "other_zones c w = filter (\<lambda>r. az_cluster_id r \<noteq> c) (db_availability_zone (w_db w))"

definition zones_ready :: "nat \<Rightarrow> world \<Rightarrow> bool" where
  "zones_ready c w \<longleftrightarrow> quiet w \<and> wf_db (w_db w) \<and> c \<noteq> 0 \<and>
     list_ex (\<lambda>k. cl_id k = c) (db_cluster (w_db w)) \<and>
     keyed (\<lambda>r. az_cluster_id r = c) az_name az_id (w_seq w) (db_availability_zone (w_db w))"

lemma zone_goal_own: "sup (zone_goal m c) (zone_goal n (purge (zone_goal m c) c)) = sup (zone_goal m c) (zone_goal n c)"
proof
  fix k
  let ?c = "purge (zone_goal m c) c"
  have hv: "h \<in> zone_goal z d Hypervisors \<longleftrightarrow>
      (\<exists>r \<in> set (db_hypervisor d). hv_id r = h \<and> hv_cluster_availability_zone_id r = z)" for h z d
    by (auto simp: zone_goal_def hypervisor_goal_def)
  have ins: "i \<in> zone_goal z d Instances \<longleftrightarrow> (\<exists>x \<in> set (db_instance d). ins_id x = i \<and>
      (ins_cluster_availability_zone_id x = z \<or> ins_cluster_hypervisor_id x \<in> zone_goal z d Hypervisors))" for i z d
    unfolding hv by (auto simp: zone_goal_def hypervisor_goal_def) metis
  have hvs: "zone_goal m c Hypervisors \<union> zone_goal n ?c Hypervisors = zone_goal m c Hypervisors \<union> zone_goal n c Hypervisors"
    by (auto simp: hv)
  have "i \<in> zone_goal m c Instances \<union> zone_goal n ?c Instances \<longleftrightarrow>
      i \<in> zone_goal m c Instances \<union> zone_goal n c Instances" for i
  proof -
    have "ins_id x \<in> zone_goal m c Instances"
      if "x \<in> set (db_instance c)" "ins_cluster_hypervisor_id x \<in> zone_goal m c Hypervisors" for x
      using that by (auto simp: ins)
    then show ?thesis using hvs unfolding Un_iff ins [of i n] by (simp, blast)
  qed
  then have inss: "zone_goal m c Instances \<union> zone_goal n ?c Instances = zone_goal m c Instances \<union> zone_goal n c Instances"
    by blast
  have rest: "zone_goal z d k = only Zones {z} k" if "k \<noteq> Instances" "k \<noteq> Hypervisors" for z d
    using that by (simp add: zone_goal_def hypervisor_goal_def)
  consider "k = Instances" | "k = Hypervisors" | "k \<noteq> Instances" "k \<noteq> Hypervisors" by blast
  then show "sup (zone_goal m c) (zone_goal n ?c) k = sup (zone_goal m c) (zone_goal n c) k"
    using hvs inss rest by cases simp_all
qed

interpretation zones: deletion "delete_availability_zone s" "\<lambda>z. zone_goal (az_id z)" "\<lambda>z _. az_id z \<noteq> 0" for s
  by unfold_locales (simp_all add: settles_delete_availability_zone zone_goal_own)

lemma zone_goals: "(SUP x\<in>A. zone_goal (f x) c) Zones = f ` A"
  by (auto simp: zone_goal_def hypervisor_goal_def)

definition prune_zones :: "synchronizer \<Rightarrow> string list \<Rightarrow> err option op" where
  "prune_zones s us =
     fetch (db_res (execute (find_all db_availability_zone (\<lambda>r. cond_nat (sy_cluster_id s) (az_cluster_id r)))))
       (delete_missing az_name (delete_availability_zone s) us)"

lemma purged_frame [simp]: "db_cluster (purge T db) = db_cluster db" "db_cluster (core db) = db_cluster db"
  by (simp_all add: purge_def core_def)

lemma wf_save_zone:
  assumes "wf_db db"
  shows "wf_db (db\<lparr>db_availability_zone := rs\<rparr>)"
  using assms by (simp add: wf_db_def)

lemma zones_of_core: "core d = purge T (core db) \<Longrightarrow>
    db_availability_zone d = filter (\<lambda>r. az_id r \<notin> T Zones) (db_availability_zone db)"
  by (metis core_tables purge_tables(3))


lemma prune_zones_step:
  assumes "zones_ready (sy_cluster_id s) w"
  shows "\<exists>w'. run_state (prune_zones s us) w = (None, w') \<and> zones_ready (sy_cluster_id s) w' \<and>
    zone_rows (sy_cluster_id s) f w' = zone_rows (sy_cluster_id s) f w |` set us \<and>
    other_zones (sy_cluster_id s) w' = other_zones (sy_cluster_id s) w"
proof -
  let ?c = "sy_cluster_id s" and ?db = "w_db w"
  let ?P = "\<lambda>r. az_cluster_id r = ?c \<and> az_name r \<notin> set us"
  let ?gone = "filter ?P (db_availability_zone ?db)"
  let ?T = "SUP z\<in>set ?gone. zone_goal (az_id z) (core ?db)"
  have w: "quiet w" "wf_db ?db" "?c \<noteq> 0" and cl: "list_ex (\<lambda>k. cl_id k = ?c) (db_cluster ?db)"
    and k: "keyed (\<lambda>r. az_cluster_id r = ?c) az_name az_id (w_seq w) (db_availability_zone ?db)"
    using assms by (auto simp: zones_ready_def)
  have nz: "\<forall>z \<in> set ?gone. az_id z \<noteq> 0" using k by (simp add: keyed_def)
  have del: "settles (for_err (delete_availability_zone s) ?gone) (core ?db) (purge ?T (core ?db))"
    by (rule zones.run_all) (use w nz in simp_all)
  have "settles (prune_zones s us) (core ?db) (purge ?T (core ?db))"
    unfolding prune_zones_def delete_missing_def
    by (rule settles_fetch, (rule reads_intros)+, simp)
      (use del w(3) in \<open>simp add: conj_commute\<close>)
  moreover have "keeps (drawn n) (prune_zones s us)" for n
    unfolding prune_zones_def delete_missing_def by (intro drawn_intros)
  ultimately obtain w' where w': "run_state (prune_zones s us) w = (None, w')" "quiet w'"
    "core (w_db w') = purge ?T (core ?db)" "w_seq w \<le> w_seq w'"
    using settles_draws [OF _ w(1)] by blast
  have "db_availability_zone (w_db w') = filter (\<lambda>r. az_id r \<notin> az_id ` set ?gone) (db_availability_zone ?db)"
    using zones_of_core [OF w'(3)] by (simp only: zone_goals)
  also have "\<dots> = filter (\<lambda>r. \<not> ?P r) (db_availability_zone ?db)"
    using k by (intro filter_cong) (auto simp: keyed_def distinct_map dest: inj_onD)
  finally have rows: "db_availability_zone (w_db w') = filter (\<lambda>r. \<not> ?P r) (db_availability_zone ?db)" .
  have "wf_db (core (w_db w'))" using w(2) by (simp add: w'(3))
  then have "wf_db (w_db w')" by simp
  moreover have "db_cluster (w_db w') = db_cluster ?db" using arg_cong [OF w'(3), of db_cluster] by simp
  ultimately have "zones_ready ?c w'"
    using w w' cl keyed_mono [OF keyed_filter [OF k] w'(4)] by (simp add: zones_ready_def rows)
  moreover have "other_zones ?c w' = other_zones ?c w"
    by (auto simp: other_zones_def rows intro: filter_cong)
  moreover have "zone_rows ?c f w' = zone_rows ?c f w |` set us"
    by (simp only: zone_rows_def rows view_prune)
  ultimately show ?thesis using w'(1) by blast
qed

lemma find_zone_quiet:
  "quiet w \<Longrightarrow> sy_cluster_id s \<noteq> 0 \<Longrightarrow> u \<noteq> [] \<Longrightarrow> run_state (find_availability_zone s u) w =
    (case least_by az_id (filter (\<lambda>r. az_cluster_id r = sy_cluster_id s \<and> az_name r = u) (db_availability_zone (w_db w))) of
       None \<Rightarrow> Inl RecordNotFound | Some r \<Rightarrow> Inr r, w)"
  by (simp add: find_availability_zone_def execute_def first_row_quiet cond_nat_def cond_str_def split: option.split)

lemma sync_zone_step:
  assumes "zones_ready (sy_cluster_id s) w" and "az_id z = 0" and "az_name z \<noteq> []"
  shows "\<exists>w'. run_state (sync_cluster_availability_zone s opts z) w = (None, w') \<and>
    zones_ready (sy_cluster_id s) w' \<and>
    zone_rows (sy_cluster_id s) az_available w' =
      (zone_rows (sy_cluster_id s) az_available w)(az_name z \<mapsto> az_available z) \<and>
    other_zones (sy_cluster_id s) w' = other_zones (sy_cluster_id s) w \<and>
    zone_rows (sy_cluster_id s) az_id w \<subseteq>\<^sub>m zone_rows (sy_cluster_id s) az_id w'"
proof -
  let ?c = "sy_cluster_id s" and ?db = "w_db w" and ?rows = "db_availability_zone (w_db w)"
  let ?mine = "\<lambda>r. az_cluster_id r = ?c"
  have w: "quiet w" "wf_db ?db" "?c \<noteq> 0" and cl: "list_ex (\<lambda>k. cl_id k = ?c) (db_cluster ?db)"
    and k: "keyed ?mine az_name az_id (w_seq w) ?rows"
    using assms(1) by (auto simp: zones_ready_def)
  let ?found = "least_by az_id (filter (\<lambda>r. az_cluster_id r = ?c \<and> az_name r = az_name z) ?rows)"
  show ?thesis
  proof (cases ?found)
    case None
    let ?new = "z\<lparr>az_cluster_id := ?c, az_id := Suc (w_seq w)\<rparr>"
    have free: "table_view ?mine az_name az_id ?rows (az_name ?new) = None"
      using lookup_row [OF k, where u = "az_name z" and f = az_id] None by simp
    have "save_availability_zone ?new ?db = Inr (?db\<lparr>db_availability_zone := ?rows @ [?new]\<rparr>)"
      unfolding save_availability_zone_def
      by (subst save_into_new) (use k cl in \<open>auto simp: keyed_def points_to_def changed_def\<close>)
    then have run: "run_state (sync_cluster_availability_zone s opts z) w = (None,
        w\<lparr>w_db := ?db\<lparr>db_availability_zone := ?rows @ [?new]\<rparr>, w_seq := Suc (w_seq w),
          w_events := w_events w @ [Published queue_notice_cluster_availability_zone_created ?c
            [(''AvailabilityZone'', RZone ?new)]]\<rparr>)" (is "_ = (None, ?w')")
      using w assms(2,3) None
      by (simp add: sync_cluster_availability_zone_def find_zone_quiet save_availability_zone_row_def
          save_row_def saving_quiet announce_quiet)
    have "zones_ready ?c ?w'"
      using w cl view_insert(1) [OF k _ _ free] by (simp add: zones_ready_def wf_save_zone)
    then show ?thesis
      using run view_insert(2) [OF k _ _ free, where g = az_available] view_insert(2) [OF k _ _ free, where g = az_id] free
      by (auto simp: zone_rows_def other_zones_def map_le_def)
  next
    case (Some r)
    have r: "r \<in> set ?rows" "?mine r" "az_name r = az_name z"
      using lookup_row [OF k, where u = "az_name z" and f = az_id] Some by auto
    show ?thesis
    proof (cases "opt_force opts \<or> \<not> compare_availability_zone r z")
      case True
      let ?new = "z\<lparr>az_cluster_id := ?c, az_id := az_id r\<rparr>"
      let ?rows' = "map (\<lambda>x. if az_id x = az_id ?new then ?new else x) ?rows"
      have nz: "az_id r \<noteq> 0" using k r by (simp add: keyed_def)
      have "save_availability_zone ?new ?db = Inr (?db\<lparr>db_availability_zone := ?rows'\<rparr>)"
        unfolding save_availability_zone_def
        by (subst save_into_known [of _ _ r]) (use k r in \<open>auto simp: keyed_def points_to_def changed_def\<close>)
      then have run: "run_state (sync_cluster_availability_zone s opts z) w = (None,
          w\<lparr>w_db := ?db\<lparr>db_availability_zone := ?rows'\<rparr>,
            w_events := w_events w @ [Published queue_notice_cluster_availability_zone_updated ?c
              [(''AvailabilityZone'', RZone ?new)]]\<rparr>)" (is "_ = (None, ?w')")
        using w assms(3) Some True nz
        by (simp add: sync_cluster_availability_zone_def find_zone_quiet save_availability_zone_row_def
            save_row_def saving_quiet announce_quiet Let_def)
      note upd = view_update [OF k r(1), of ?new]
      have "zones_ready ?c ?w'"
        using w cl upd(1) r by (simp add: zones_ready_def wf_save_zone)
      then show ?thesis
        using run r upd(2) [where g = az_available] upd(2) [where g = az_id] upd(3)
          table_view_Some [OF k r(1,2), of az_id]
        by (auto simp: zone_rows_def other_zones_def map_le_def)
    next
      case False
      then have run: "run_state (sync_cluster_availability_zone s opts z) w = (None, w)"
        using w assms(3) Some by (simp add: sync_cluster_availability_zone_def find_zone_quiet)
      have "az_available r = az_available z" using False by (simp add: compare_availability_zone_def)
      then show ?thesis
        using run assms(1) r table_view_Some [OF k r(1,2), of az_available]
        by (auto simp: zone_rows_def)
    qed
  qed
qed

interpretation zone_list: reconciler "zones_ready (sy_cluster_id s)" "zone_rows (sy_cluster_id s) az_available"
  "zone_rows (sy_cluster_id s) az_id" "other_zones (sy_cluster_id s)" "\<lambda>z :: cluster_availability_zone. az_id z = 0 \<and> az_name z \<noteq> []"
  az_name az_available "sync_cluster_availability_zone s opts" "prune_zones s" for s opts
proof
  fix w and x :: cluster_availability_zone assume "zones_ready (sy_cluster_id s) w" "az_id x = 0 \<and> az_name x \<noteq> []"
  then show "\<exists>w'. run_state (sync_cluster_availability_zone s opts x) w = (None, w') \<and>
      zones_ready (sy_cluster_id s) w' \<and>
      zone_rows (sy_cluster_id s) az_available w' =
        (zone_rows (sy_cluster_id s) az_available w)(az_name x \<mapsto> az_available x) \<and>
      other_zones (sy_cluster_id s) w' = other_zones (sy_cluster_id s) w \<and>
      zone_rows (sy_cluster_id s) az_id w \<subseteq>\<^sub>m zone_rows (sy_cluster_id s) az_id w'"
    by (intro sync_zone_step) simp_all
next
  fix w us assume ready: "zones_ready (sy_cluster_id s) w"
  from prune_zones_step [OF ready, of us az_available] prune_zones_step [OF ready, of us az_id]
  show "\<exists>w'. run_state (prune_zones s us) w = (None, w') \<and> zones_ready (sy_cluster_id s) w' \<and>
      zone_rows (sy_cluster_id s) az_available w' = zone_rows (sy_cluster_id s) az_available w |` set us \<and>
      other_zones (sy_cluster_id s) w' = other_zones (sy_cluster_id s) w \<and>
      zone_rows (sy_cluster_id s) az_id w' = zone_rows (sy_cluster_id s) az_id w |` set us"
    by auto
qed

text \<open>C35. Without failures the synchronisation of availability zones returns no error and leaves, for
  its cluster, exactly the zones that the cluster reported, each with the availability of its last
  report: zones that are not reported are gone, known ones keep their identifier, and the zones of
  other clusters are not touched.\<close>

theorem sync_cluster_availability_zone_list_reconciles:
  assumes "zones_ready (sy_cluster_id s) w" and "sy_get_availability_zone_list s (w_ticks w) = Inr zs"
    and "\<forall>z \<in> set zs. az_id z = 0 \<and> az_name z \<noteq> []"
  shows "\<exists>w'. run_state (sync_cluster_availability_zone_list s opts) w = (None, w') \<and>
    zones_ready (sy_cluster_id s) w' \<and>
    zone_rows (sy_cluster_id s) az_available w' = map_of (rev (map (\<lambda>z. (az_name z, az_available z)) zs)) \<and>
    zone_rows (sy_cluster_id s) az_id w |` (az_name ` set zs) \<subseteq>\<^sub>m zone_rows (sy_cluster_id s) az_id w' \<and>
    other_zones (sy_cluster_id s) w' = other_zones (sy_cluster_id s) w"
proof -
  let ?w = "w\<lparr>w_ticks := Suc (w_ticks w)\<rparr>"
  have "zones_ready (sy_cluster_id s) ?w" using assms(1) by (simp add: zones_ready_def)
  from zone_list.reconciles [OF this assms(3), of opts]
  show ?thesis
    using assms(2)
    by (simp add: sync_cluster_availability_zone_list_def fetch_def sync_deleted_availability_zone_list_def
        prune_zones_def zone_rows_def other_zones_def) blast
qed

definition reporting :: "cluster_availability_zone list \<Rightarrow> synchronizer" where
  "reporting zs = (empty_client 1)\<lparr>sy_get_availability_zone_list := (\<lambda>_. Inr zs)\<rparr>"

definition example_cluster :: "nat \<Rightarrow> cluster" where
  "example_cluster i = \<lparr>cl_id = i, cl_tenant_id = 1, cl_owner_group_id = 1, cl_name = ''c'', cl_remarks = None,
     cl_type_code = ''openstack'', cl_api_server_url = ''u'', cl_credential = ''k'', cl_state_code = ''s'',
     cl_created_at = 0, cl_updated_at = 0, cl_synchronized_at = 0\<rparr>"

theorem sync_cluster_availability_zone_list_reconciles_witness:
  "\<exists>w'. run_state (sync_cluster_availability_zone_list (reporting [(example_zone 0)\<lparr>az_name := ''nova''\<rparr>])
       \<lparr>opt_force = False, opt_tenant_uuid = []\<rparr>) (example_world\<lparr>w_seq := 1, w_db := empty_db\<lparr>db_cluster := [example_cluster 1],
         db_availability_zone := [(example_zone 1)\<lparr>az_name := ''old''\<rparr>]\<rparr>\<rparr>) = (None, w') \<and>
     dom (zone_rows 1 az_available w') = {''nova''}"
proof -
  let ?s = "reporting [(example_zone 0)\<lparr>az_name := ''nova''\<rparr>]"
  let ?w = "example_world\<lparr>w_seq := 1, w_db := empty_db\<lparr>db_cluster := [example_cluster 1],
      db_availability_zone := [(example_zone 1)\<lparr>az_name := ''old''\<rparr>]\<rparr>\<rparr>"
  have "zones_ready (sy_cluster_id ?s) ?w"
    by (simp add: zones_ready_def keyed_def reporting_def empty_client_def example_cluster_def example_zone_def
        empty_db_def wf_db_def)
  moreover have "sy_get_availability_zone_list ?s (w_ticks ?w) = Inr [(example_zone 0)\<lparr>az_name := ''nova''\<rparr>]"
    by (simp add: reporting_def)
  ultimately obtain w' where "run_state (sync_cluster_availability_zone_list ?s \<lparr>opt_force = False, opt_tenant_uuid = []\<rparr>) ?w = (None, w')"
    "zone_rows (sy_cluster_id ?s) az_available w' = map_of (rev (map (\<lambda>z. (az_name z, az_available z)) [(example_zone 0)\<lparr>az_name := ''nova''\<rparr>]))"
    using sync_cluster_availability_zone_list_reconciles
      [of ?s ?w "[(example_zone 0)\<lparr>az_name := ''nova''\<rparr>]" "\<lparr>opt_force = False, opt_tenant_uuid = []\<rparr>"]
    by (auto simp: example_zone_def)
  then show ?thesis by (auto simp: reporting_def empty_client_def)
qed

end
