(* ===== verification/TenantReconcile.thy ===== *)
theory TenantReconcile
  imports Reconcile
begin

text \<open>
  The list synchronisation of tenants, whose quotas are synchronised in a transaction of their
  own and whose deletion cascades through everything a tenant owns.
\<close>

section \<open>Deleting several tenants\<close>

lemma tenant_goal_own:
  "sup (tenant_goal m c) (tenant_goal n (purge (tenant_goal m c) c)) = sup (tenant_goal m c) (tenant_goal n c)"
proof
  fix k
  let ?G = "tenant_goal m c" and ?c = "purge (tenant_goal m c) c"
  have net: "i \<in> tenant_goal t d Networks \<longleftrightarrow> (\<exists>x \<in> set (db_network d). nw_id x = i \<and> nw_cluster_tenant_id x = t)"
    for i t d by (auto simp: tenant_goal_def network_goal_def)
  have fip: "i \<in> tenant_goal t d FloatingIPs \<longleftrightarrow> (\<exists>x \<in> set (db_floating_ip d). fip_id x = i \<and>
      (fip_cluster_tenant_id x = t \<or> fip_cluster_network_id x \<in> tenant_goal t d Networks))" for i t d
    unfolding net by (auto simp: tenant_goal_def network_goal_def) metis
  have sub: "i \<in> tenant_goal t d Subnets \<longleftrightarrow> (\<exists>x \<in> set (db_subnet d). sn_id x = i \<and>
      sn_cluster_network_id x \<in> tenant_goal t d Networks)" for i t d
    unfolding net by (auto simp: tenant_goal_def network_goal_def) metis
  have nets: "?G Networks \<union> tenant_goal n ?c Networks = ?G Networks \<union> tenant_goal n c Networks"
    by (auto simp: net)
  have "i \<in> ?G FloatingIPs \<union> tenant_goal n ?c FloatingIPs \<longleftrightarrow> i \<in> ?G FloatingIPs \<union> tenant_goal n c FloatingIPs" for i
  proof -
    have "fip_id x \<in> ?G FloatingIPs" if "x \<in> set (db_floating_ip c)" "fip_cluster_network_id x \<in> ?G Networks" for x
      using that by (auto simp: fip)
    then show ?thesis using nets unfolding Un_iff fip [of i n] by (simp, blast)
  qed
  then have fips: "?G FloatingIPs \<union> tenant_goal n ?c FloatingIPs = ?G FloatingIPs \<union> tenant_goal n c FloatingIPs"
    by blast
  have "i \<in> ?G Subnets \<union> tenant_goal n ?c Subnets \<longleftrightarrow> i \<in> ?G Subnets \<union> tenant_goal n c Subnets" for i
  proof -
    have "sn_id x \<in> ?G Subnets" if "x \<in> set (db_subnet c)" "sn_cluster_network_id x \<in> ?G Networks" for x
      using that by (auto simp: sub)
    then show ?thesis using nets unfolding Un_iff sub [of i n] by (simp, blast)
  qed
  then have subs: "?G Subnets \<union> tenant_goal n ?c Subnets = ?G Subnets \<union> tenant_goal n c Subnets"
    by blast
  have rest: "k \<notin> {Networks, FloatingIPs, Subnets} \<Longrightarrow> sup ?G (tenant_goal n ?c) k = sup ?G (tenant_goal n c) k"
    by (cases k) (auto simp: tenant_goal_def network_goal_def)
  consider "k = Networks" | "k = FloatingIPs" | "k = Subnets" | "k \<notin> {Networks, FloatingIPs, Subnets}" by blast
  then show "sup ?G (tenant_goal n ?c) k = sup ?G (tenant_goal n c) k"
    using nets fips subs rest by cases simp_all
qed

definition groups_unnamed :: "database \<Rightarrow> bool" where
  "groups_unnamed db \<longleftrightarrow> (\<forall>g \<in> set (db_security_group db). unnamed (sg_id g) db)"

lemma groups_unnamed_purge [simp]: "groups_unnamed db \<Longrightarrow> groups_unnamed (purge T db)"
  by (auto simp: groups_unnamed_def unnamed_def)

lemma groups_unnamed_core [simp]: "groups_unnamed (core db) = groups_unnamed db"
  by (simp add: groups_unnamed_def unnamed_def)

interpretation tenants: deletion "delete_tenant s" "\<lambda>t. tenant_goal (tn_id t)" "\<lambda>t c. tn_id t \<noteq> 0 \<and> groups_unnamed c" for s
proof
  fix c and x :: cluster_tenant
  show "wf_db c \<Longrightarrow> tn_id x \<noteq> 0 \<and> groups_unnamed c \<Longrightarrow>
      settles (delete_tenant s x) c (purge (tenant_goal (tn_id x) c) c)"
    by (intro settles_delete_tenant) (simp_all add: groups_unnamed_def)
qed (simp_all add: tenant_goal_own)

lemma tenant_goals: "(SUP x\<in>A. tenant_goal (f x) c) Tenants = f ` A"
  by (auto simp: tenant_goal_def network_goal_def)

section \<open>Quotas\<close>

text \<open>In an open transaction without failures a query reads and a statement writes.\<close>

definition undisturbed :: "world \<Rightarrow> bool" where
  "undisturbed w \<longleftrightarrow> w_faults w = [] \<and> w_tx w = Open"

lemma undisturbed_update [simp]: "undisturbed (w\<lparr>w_db := d\<rparr>) = undisturbed w"
  by (simp add: undisturbed_def)

lemma same_quotas: "\<exists>qs. w = w\<lparr>w_db := w_db w\<lparr>db_quota := qs\<rparr>\<rparr>"
  by (rule exI [of _ "db_quota (w_db w)"]) simp

lemma sync_quota_run:
  assumes "undisturbed w" and "list_ex (\<lambda>r. tn_id r = tn_id t) (db_tenant (w_db w))"
  shows "\<exists>qs. run_state (sync_cluster_tenant_quota t q) w = (None, w\<lparr>w_db := w_db w\<lparr>db_quota := qs\<rparr>\<rparr>)"
proof -
  have saved: "\<exists>qs. save_quota (q\<lparr>qt_cluster_tenant_id := tn_id t\<rparr>) (w_db w) = Inr (w_db w\<lparr>db_quota := qs\<rparr>)"
    using assms(2) by (auto simp: save_quota_def save_into_def points_to_def split: option.split)
  then obtain qs where qs: "save_quota (q\<lparr>qt_cluster_tenant_id := tn_id t\<rparr>) (w_db w) = Inr (w_db w\<lparr>db_quota := qs\<rparr>)"
    by blast
  let ?found = "filter (\<lambda>r. cond_nat (tn_id t) (qt_cluster_tenant_id r) \<and> cond_str (qt_key q) (qt_key r)) (db_quota (w_db w))"
  have found: "run_state (find_row (\<lambda>db. filter (\<lambda>r. cond_nat (tn_id t) (qt_cluster_tenant_id r) \<and>
      cond_str (qt_key q) (qt_key r)) (db_quota db))) w =
      (if ?found = [] then Inl RecordNotFound else Inr (last ?found), w)"
    using assms(1) by (cases ?found) (simp_all add: find_row_def find_rows_def statement_open undisturbed_def)
  have exec: "run_state (db_err (exec (save_quota (q\<lparr>qt_cluster_tenant_id := tn_id t\<rparr>)))) w =
      (None, w\<lparr>w_db := w_db w\<lparr>db_quota := qs\<rparr>\<rparr>)"
    using assms(1) qs by (simp add: db_err_def exec_def statement_open undisturbed_def)
  show ?thesis
    unfolding sync_cluster_tenant_quota_def
    using found exec same_quotas [of w]
    by (cases "?found = []") (auto simp: return_nil_def)
qed

lemma sync_quotas_run:
  assumes "undisturbed w" and "list_ex (\<lambda>r. tn_id r = tn_id t) (db_tenant (w_db w))"
  shows "\<exists>rs. run_state (sync_quotas t qs) w = (None, w\<lparr>w_db := w_db w\<lparr>db_quota := rs\<rparr>\<rparr>)"
  using assms
proof (induction qs arbitrary: w)
  case Nil
  then show ?case using same_quotas [of w] by (simp add: return_nil_def)
next
  case (Cons q qs)
  obtain rs where rs: "run_state (sync_cluster_tenant_quota t q) w = (None, w\<lparr>w_db := w_db w\<lparr>db_quota := rs\<rparr>\<rparr>)"
    using sync_quota_run [OF Cons.prems] by blast
  then show ?case
    using Cons.IH [of "w\<lparr>w_db := w_db w\<lparr>db_quota := rs\<rparr>\<rparr>"] Cons.prems by (auto simp: ignoring_def)
qed

lemma sync_tenant_quotas_run:
  assumes "quiet w" and "list_ex (\<lambda>r. tn_id r = tn_id t) (db_tenant (w_db w))"
  shows "\<exists>rs. run_state (sync_tenant_quotas t qs) w = (None, w\<lparr>w_db := w_db w\<lparr>db_quota := rs\<rparr>\<rparr>)"
proof -
  have w: "w_faults w = []" "w_tx w = NoTx" using assms(1) by (auto simp: quiet_def)
  obtain rs where rs: "run_state (sync_quotas t qs) (w\<lparr>w_tx := Open\<rparr>) =
      (None, w\<lparr>w_tx := Open, w_db := w_db w\<lparr>db_quota := rs\<rparr>\<rparr>)"
    using sync_quotas_run [of "w\<lparr>w_tx := Open\<rparr>" t qs] assms(2) w by (auto simp: undisturbed_def)
  have "w\<lparr>w_tx := NoTx\<rparr> = w" using w(2) by simp
  then have "w\<lparr>w_tx := NoTx, w_db := d\<rparr> = w\<lparr>w_db := d\<rparr>" for d by (metis (no_types))
  with rs w show ?thesis
    by (auto simp: sync_tenant_quotas_def gorm_transaction_def gorm_transaction_with_def pop_fault_def intro!: exI [of _ rs])
qed

section \<open>Tenants\<close>

definition tenant_rows :: "nat \<Rightarrow> (cluster_tenant \<Rightarrow> 'v) \<Rightarrow> world \<Rightarrow> string \<Rightarrow> 'v option" where
  "tenant_rows c f w = table_view (\<lambda>r. tn_cluster_id r = c) tn_uuid f (db_tenant (w_db w))"

definition other_tenants :: "nat \<Rightarrow> world \<Rightarrow> cluster_tenant list" where
  "other_tenants c w = filter (\<lambda>r. tn_cluster_id r \<noteq> c) (db_tenant (w_db w))"

definition tenants_ready :: "nat \<Rightarrow> world \<Rightarrow> bool" where
  "tenants_ready c w \<longleftrightarrow> quiet w \<and> wf_db (w_db w) \<and> groups_unnamed (w_db w) \<and> c \<noteq> 0 \<and>
     list_ex (\<lambda>k. cl_id k = c) (db_cluster (w_db w)) \<and>
     keyed (\<lambda>r. tn_cluster_id r = c) tn_uuid tn_id (w_seq w) (db_tenant (w_db w))"

text \<open>What the synchronisation of a tenant compares, next to the UUID.\<close>

definition tenant_shown :: "cluster_tenant \<Rightarrow> string \<times> bool \<times> string option" where
  "tenant_shown t = (tn_name t, tn_enabled t, tn_description t)"

lemma quota_frame [simp]:
  "wf_db (db\<lparr>db_quota := rs\<rparr>) = wf_db db" "groups_unnamed (db\<lparr>db_quota := rs\<rparr>) = groups_unnamed db"
  "wf_db (db\<lparr>db_tenant := ts\<rparr>) = wf_db db" "groups_unnamed (db\<lparr>db_tenant := ts\<rparr>) = groups_unnamed db"
  by (simp_all add: wf_db_def groups_unnamed_def unnamed_def)

definition prune_tenants :: "synchronizer \<Rightarrow> string list \<Rightarrow> err option op" where
  "prune_tenants s us =
     fetch (db_res (execute (find_all db_tenant (\<lambda>r. cond_nat (sy_cluster_id s) (tn_cluster_id r)))))
       (delete_missing tn_uuid (delete_tenant s) us)"

lemma tenants_of_core: "core d = purge T (core db) \<Longrightarrow>
    db_tenant d = filter (\<lambda>r. tn_id r \<notin> T Tenants) (db_tenant db)"
  by (metis core_tables purge_tables(1))

lemma prune_tenants_step:
  assumes "tenants_ready (sy_cluster_id s) w"
  shows "\<exists>w'. run_state (prune_tenants s us) w = (None, w') \<and> tenants_ready (sy_cluster_id s) w' \<and>
    tenant_rows (sy_cluster_id s) f w' = tenant_rows (sy_cluster_id s) f w |` set us \<and>
    other_tenants (sy_cluster_id s) w' = other_tenants (sy_cluster_id s) w"
proof -
  let ?c = "sy_cluster_id s" and ?db = "w_db w"
  let ?P = "\<lambda>r. tn_cluster_id r = ?c \<and> tn_uuid r \<notin> set us"
  let ?gone = "filter ?P (db_tenant ?db)"
  let ?T = "SUP t\<in>set ?gone. tenant_goal (tn_id t) (core ?db)"
  have w: "quiet w" "wf_db ?db" "groups_unnamed ?db" "?c \<noteq> 0"
    and cl: "list_ex (\<lambda>k. cl_id k = ?c) (db_cluster ?db)"
    and k: "keyed (\<lambda>r. tn_cluster_id r = ?c) tn_uuid tn_id (w_seq w) (db_tenant ?db)"
    using assms by (auto simp: tenants_ready_def)
  have nz: "\<forall>t \<in> set ?gone. tn_id t \<noteq> 0 \<and> groups_unnamed (core ?db)" using k w(3) by (simp add: keyed_def)
  have del: "settles (for_err (delete_tenant s) ?gone) (core ?db) (purge ?T (core ?db))"
    by (rule tenants.run_all) (use w nz in simp_all)
  have "settles (prune_tenants s us) (core ?db) (purge ?T (core ?db))"
    unfolding prune_tenants_def delete_missing_def
    by (rule settles_fetch, (rule reads_intros)+, simp)
      (use del w(4) in \<open>simp add: conj_commute\<close>)
  moreover have "keeps (drawn n) (prune_tenants s us)" for n
    unfolding prune_tenants_def delete_missing_def by (intro drawn_intros)
  ultimately obtain w' where w': "run_state (prune_tenants s us) w = (None, w')" "quiet w'"
    "core (w_db w') = purge ?T (core ?db)" "w_seq w \<le> w_seq w'"
    using settles_draws [OF _ w(1)] by blast
  have "db_tenant (w_db w') = filter (\<lambda>r. tn_id r \<notin> tn_id ` set ?gone) (db_tenant ?db)"
    using tenants_of_core [OF w'(3)] by (simp only: tenant_goals)
  also have "\<dots> = filter (\<lambda>r. \<not> ?P r) (db_tenant ?db)"
    using k by (intro filter_cong) (auto simp: keyed_def distinct_map dest: inj_onD)
  finally have rows: "db_tenant (w_db w') = filter (\<lambda>r. \<not> ?P r) (db_tenant ?db)" .
  have "wf_db (core (w_db w'))" "groups_unnamed (core (w_db w'))" using w(2,3) by (simp_all add: w'(3))
  then have "wf_db (w_db w')" "groups_unnamed (w_db w')" by simp_all
  moreover have "db_cluster (w_db w') = db_cluster ?db" using arg_cong [OF w'(3), of db_cluster] by simp
  ultimately have "tenants_ready ?c w'"
    using w w' cl keyed_mono [OF keyed_filter [OF k] w'(4)] by (simp add: tenants_ready_def rows)
  moreover have "other_tenants ?c w' = other_tenants ?c w"
    by (auto simp: other_tenants_def rows intro: filter_cong)
  moreover have "tenant_rows ?c f w' = tenant_rows ?c f w |` set us"
    by (simp only: tenant_rows_def rows view_prune)
  ultimately show ?thesis using w'(1) by blast
qed

lemma find_tenant_quiet:
  "quiet w \<Longrightarrow> sy_cluster_id s \<noteq> 0 \<Longrightarrow> u \<noteq> [] \<Longrightarrow> run_state (find_tenant s (new_tenant u)) w =
    (case least_by tn_id (filter (\<lambda>r. tn_cluster_id r = sy_cluster_id s \<and> tn_uuid r = u) (db_tenant (w_db w))) of
       None \<Rightarrow> Inl RecordNotFound | Some r \<Rightarrow> Inr r, w)"
  by (simp add: find_tenant_def execute_def first_row_quiet cond_nat_def cond_str_def new_tenant_def split: option.split)

text \<open>The client gives the same answer about a tenant whenever it is asked.\<close>

definition answers_tenant :: "synchronizer \<Rightarrow> get_tenant_result \<Rightarrow> bool" where
  "answers_tenant s x \<longleftrightarrow> tn_id (gtr_tenant x) = 0 \<and> tn_uuid (gtr_tenant x) \<noteq> [] \<and>
     sy_get_tenant s (tn_uuid (gtr_tenant x)) = (\<lambda>_. Inr x)"

lemma tenant_steps:
  "tenants_ready c (w\<lparr>w_ticks := n\<rparr>) = tenants_ready c w"
  "tenants_ready c (w\<lparr>w_events := e\<rparr>) = tenants_ready c w"
  "tenants_ready c (w\<lparr>w_db := db\<lparr>db_quota := rs\<rparr>\<rparr>) = tenants_ready c (w\<lparr>w_db := db\<rparr>)"
  by (simp_all add: tenants_ready_def)

lemma sync_tenant_step:
  assumes "tenants_ready (sy_cluster_id s) w" and "answers_tenant s x"
  shows "\<exists>w'. run_state (sync_cluster_tenant s opts (new_tenant (tn_uuid (gtr_tenant x)))) w = (None, w') \<and>
    tenants_ready (sy_cluster_id s) w' \<and>
    tenant_rows (sy_cluster_id s) tenant_shown w' =
      (tenant_rows (sy_cluster_id s) tenant_shown w)(tn_uuid (gtr_tenant x) \<mapsto> tenant_shown (gtr_tenant x)) \<and>
    other_tenants (sy_cluster_id s) w' = other_tenants (sy_cluster_id s) w \<and>
    tenant_rows (sy_cluster_id s) tn_id w \<subseteq>\<^sub>m tenant_rows (sy_cluster_id s) tn_id w'"
proof -
  let ?c = "sy_cluster_id s" and ?db = "w_db w" and ?rows = "db_tenant (w_db w)" and ?t = "gtr_tenant x"
  let ?mine = "\<lambda>r. tn_cluster_id r = ?c" and ?w1 = "w\<lparr>w_ticks := Suc (w_ticks w)\<rparr>"
  have w: "quiet w" "wf_db ?db" "groups_unnamed ?db" "?c \<noteq> 0"
    and cl: "list_ex (\<lambda>k. cl_id k = ?c) (db_cluster ?db)" and k: "keyed ?mine tn_uuid tn_id (w_seq w) ?rows"
    using assms(1) by (auto simp: tenants_ready_def)
  have x: "tn_id ?t = 0" "tn_uuid ?t \<noteq> []" "\<And>n. sy_get_tenant s (tn_uuid ?t) n = Inr x"
    using assms(2) by (auto simp: answers_tenant_def)
  have uuid: "tn_uuid (new_tenant u) = u" for u by (simp add: new_tenant_def)
  let ?found = "least_by tn_id (filter (\<lambda>r. tn_cluster_id r = ?c \<and> tn_uuid r = tn_uuid ?t) ?rows)"
  note sync_simps = sync_cluster_tenant_def respond_def compare_sides_def uuid find_tenant_quiet x(3)
    save_tenant_row_def save_row_def saving_quiet announce_quiet Let_def
  show ?thesis
  proof (cases ?found)
    case None
    let ?new = "?t\<lparr>tn_cluster_id := ?c, tn_id := Suc (w_seq w)\<rparr>"
    let ?db' = "?db\<lparr>db_tenant := ?rows @ [?new]\<rparr>"
    let ?w2 = "?w1\<lparr>w_db := ?db', w_seq := Suc (w_seq w),
      w_events := w_events w @ [Published queue_notice_cluster_tenant_created ?c [(''Tenant'', RTenant ?new)]]\<rparr>"
    have free: "table_view ?mine tn_uuid tn_id ?rows (tn_uuid ?new) = None"
      using lookup_row [OF k, where u = "tn_uuid ?t" and f = tn_id] None by simp
    have saved: "save_tenant ?new ?db = Inr ?db'"
      unfolding save_tenant_def
      by (subst save_into_new) (use k cl in \<open>auto simp: keyed_def points_to_def changed_def\<close>)
    obtain rs where rs: "run_state (sync_tenant_quotas ?new (gtr_quota_list x)) ?w2 =
        (None, ?w2\<lparr>w_db := ?db'\<lparr>db_quota := rs\<rparr>\<rparr>)"
      using sync_tenant_quotas_run [of ?w2 ?new "gtr_quota_list x"] w(1) by auto
    have run: "run_state (sync_cluster_tenant s opts (new_tenant (tn_uuid ?t))) w =
        (None, ?w2\<lparr>w_db := ?db'\<lparr>db_quota := rs\<rparr>\<rparr>)" (is "_ = (None, ?w')")
      using w x None saved rs by (simp add: sync_simps)
    have "tenants_ready ?c ?w'"
      using w cl view_insert(1) [OF k _ _ free] by (simp add: tenants_ready_def)
    then show ?thesis
      using run view_insert(2) [OF k _ _ free, where g = tenant_shown] view_insert(2) [OF k _ _ free, where g = tn_id] free
      by (auto simp: tenant_rows_def other_tenants_def map_le_def tenant_shown_def)
  next
    case (Some r)
    have r: "r \<in> set ?rows" "?mine r" "tn_uuid r = tn_uuid ?t"
      using lookup_row [OF k, where u = "tn_uuid ?t" and f = tn_id] Some by auto
    show ?thesis
    proof (cases "opt_force opts \<or> \<not> compare_tenant r ?t")
      case True
      let ?new = "?t\<lparr>tn_cluster_id := ?c, tn_id := tn_id r\<rparr>"
      let ?rows' = "map (\<lambda>x. if tn_id x = tn_id ?new then ?new else x) ?rows"
      let ?db' = "?db\<lparr>db_tenant := ?rows'\<rparr>"
      let ?w2 = "?w1\<lparr>w_db := ?db', w_events := w_events w @ [Published queue_notice_cluster_tenant_updated ?c
        [(''OrigTenant'', RTenant r), (''Tenant'', RTenant ?new)]]\<rparr>"
      have nz: "tn_id r \<noteq> 0" using k r by (simp add: keyed_def)
      have saved: "save_tenant ?new ?db = Inr ?db'"
        unfolding save_tenant_def
        by (subst save_into_known [of _ _ r]) (use k r in \<open>auto simp: keyed_def points_to_def changed_def\<close>)
      have "?new \<in> set ?rows'" using r(1) by (auto simp: image_iff intro!: bexI [of _ r])
      then have "list_ex (\<lambda>q. tn_id q = tn_id ?new) ?rows'" unfolding list_ex_iff by blast
      then obtain rs where rs: "run_state (sync_tenant_quotas ?new (gtr_quota_list x)) ?w2 =
          (None, ?w2\<lparr>w_db := ?db'\<lparr>db_quota := rs\<rparr>\<rparr>)"
        using sync_tenant_quotas_run [of ?w2 ?new "gtr_quota_list x"] w(1) by auto
      have run: "run_state (sync_cluster_tenant s opts (new_tenant (tn_uuid ?t))) w =
          (None, ?w2\<lparr>w_db := ?db'\<lparr>db_quota := rs\<rparr>\<rparr>)" (is "_ = (None, ?w')")
        using w x Some True nz saved rs by (simp add: sync_simps)
      note upd = view_update [OF k r(1), of ?new]
      have "tenants_ready ?c ?w'"
        using w cl upd(1) r by (simp add: tenants_ready_def)
      then show ?thesis
        using run r upd(2) [where g = tenant_shown] upd(2) [where g = tn_id] upd(3)
          table_view_Some [OF k r(1,2), of tn_id]
        by (auto simp: tenant_rows_def other_tenants_def map_le_def tenant_shown_def)
    next
      case False
      have "list_ex (\<lambda>q. tn_id q = tn_id r) ?rows" using r(1) by (auto simp: list_ex_iff)
      then obtain rs where rs: "run_state (sync_tenant_quotas r (gtr_quota_list x)) ?w1 =
          (None, ?w1\<lparr>w_db := ?db\<lparr>db_quota := rs\<rparr>\<rparr>)"
        using sync_tenant_quotas_run [of ?w1 r "gtr_quota_list x"] w(1) by auto
      have run: "run_state (sync_cluster_tenant s opts (new_tenant (tn_uuid ?t))) w =
          (None, ?w1\<lparr>w_db := ?db\<lparr>db_quota := rs\<rparr>\<rparr>)" (is "_ = (None, ?w')")
        using w x Some False rs by (simp add: sync_simps)
      have "tenant_shown r = tenant_shown ?t" using False by (simp add: compare_tenant_def tenant_shown_def)
      moreover have "tenants_ready ?c ?w'" using assms(1) by (simp add: tenants_ready_def)
      ultimately show ?thesis
        using run r table_view_Some [OF k r(1,2), of tenant_shown]
        by (auto simp: tenant_rows_def other_tenants_def)
    qed
  qed
qed

interpretation tenant_list: reconciler "tenants_ready (sy_cluster_id s)" "tenant_rows (sy_cluster_id s) tenant_shown"
  "tenant_rows (sy_cluster_id s) tn_id" "other_tenants (sy_cluster_id s)" "answers_tenant s"
  "\<lambda>x. tn_uuid (gtr_tenant x)" "\<lambda>x. tenant_shown (gtr_tenant x)"
  "\<lambda>x. sync_cluster_tenant s opts (new_tenant (tn_uuid (gtr_tenant x)))" "prune_tenants s" for s opts
proof
  fix w x assume "tenants_ready (sy_cluster_id s) w" "answers_tenant s x"
  then show "\<exists>w'. run_state (sync_cluster_tenant s opts (new_tenant (tn_uuid (gtr_tenant x)))) w = (None, w') \<and>
      tenants_ready (sy_cluster_id s) w' \<and>
      tenant_rows (sy_cluster_id s) tenant_shown w' =
        (tenant_rows (sy_cluster_id s) tenant_shown w)(tn_uuid (gtr_tenant x) \<mapsto> tenant_shown (gtr_tenant x)) \<and>
      other_tenants (sy_cluster_id s) w' = other_tenants (sy_cluster_id s) w \<and>
      tenant_rows (sy_cluster_id s) tn_id w \<subseteq>\<^sub>m tenant_rows (sy_cluster_id s) tn_id w'"
    by (rule sync_tenant_step)
next
  fix w us assume ready: "tenants_ready (sy_cluster_id s) w"
  from prune_tenants_step [OF ready, of us tenant_shown] prune_tenants_step [OF ready, of us tn_id]
  show "\<exists>w'. run_state (prune_tenants s us) w = (None, w') \<and> tenants_ready (sy_cluster_id s) w' \<and>
      tenant_rows (sy_cluster_id s) tenant_shown w' = tenant_rows (sy_cluster_id s) tenant_shown w |` set us \<and>
      other_tenants (sy_cluster_id s) w' = other_tenants (sy_cluster_id s) w \<and>
      tenant_rows (sy_cluster_id s) tn_id w' = tenant_rows (sy_cluster_id s) tn_id w |` set us"
    by auto
qed

text \<open>C5. Without failures the synchronisation of tenants leaves, for its cluster, exactly the
  tenants that the cluster reported, with their names, states and descriptions, provided the
  cluster answers the single queries as it answered the list and no rule names a security group
  of another group. Tenants that are not reported are deleted with all they own, known ones keep
  their identifier, and the tenants of other clusters stay.\<close>

theorem sync_cluster_tenant_list_reconciles:
  assumes "tenants_ready (sy_cluster_id s) w" and "sy_get_tenant_list s (w_ticks w) = Inr ts"
    and "\<forall>t \<in> set ts. answers_tenant s t"
  shows "\<exists>w'. run_state (sync_cluster_tenant_list s opts) w = (None, w') \<and>
    tenants_ready (sy_cluster_id s) w' \<and>
    tenant_rows (sy_cluster_id s) tenant_shown w' =
      map_of (rev (map (\<lambda>t. (tn_uuid (gtr_tenant t), tenant_shown (gtr_tenant t))) ts)) \<and>
    tenant_rows (sy_cluster_id s) tn_id w |` ((\<lambda>t. tn_uuid (gtr_tenant t)) ` set ts)
      \<subseteq>\<^sub>m tenant_rows (sy_cluster_id s) tn_id w' \<and>
    other_tenants (sy_cluster_id s) w' = other_tenants (sy_cluster_id s) w"
proof -
  let ?w = "w\<lparr>w_ticks := Suc (w_ticks w)\<rparr>"
  have "tenants_ready (sy_cluster_id s) ?w" using assms(1) by (simp add: tenants_ready_def)
  from tenant_list.reconciles [OF this assms(3), of opts]
  show ?thesis
    using assms(2)
    by (simp add: sync_cluster_tenant_list_def fetch_def sync_deleted_tenant_list_def
        prune_tenants_def tenant_rows_def other_tenants_def) blast
qed

definition one_tenant :: get_tenant_result where
  "one_tenant = \<lparr>gtr_tenant = (example_tenant 0)\<lparr>tn_uuid := ''new''\<rparr>, gtr_quota_list = []\<rparr>"

definition one_tenant_client :: synchronizer where
  "one_tenant_client = (empty_client 1)\<lparr>sy_get_tenant_list := (\<lambda>_. Inr [one_tenant]),
     sy_get_tenant := (\<lambda>_ _. Inr one_tenant)\<rparr>"

theorem sync_cluster_tenant_list_reconciles_witness:
  "\<exists>w'. run_state (sync_cluster_tenant_list one_tenant_client \<lparr>opt_force = False, opt_tenant_uuid = []\<rparr>)
       (example_world\<lparr>w_seq := 2, w_db := empty_db\<lparr>db_cluster := [example_cluster 1], db_tenant := [example_tenant 1],
         db_network := [example_network 2 1]\<rparr>\<rparr>) = (None, w') \<and>
     dom (tenant_rows 1 tenant_shown w') = {''new''}"
proof -
  let ?opts = "\<lparr>opt_force = False, opt_tenant_uuid = []\<rparr>"
  let ?w = "example_world\<lparr>w_seq := 2, w_db := empty_db\<lparr>db_cluster := [example_cluster 1], db_tenant := [example_tenant 1],
    db_network := [example_network 2 1]\<rparr>\<rparr>"
  have "tenants_ready (sy_cluster_id one_tenant_client) ?w"
    by (simp add: tenants_ready_def keyed_def one_tenant_client_def empty_client_def example_cluster_def
        example_tenant_def example_network_def empty_db_def wf_db_def groups_unnamed_def)
  moreover have "sy_get_tenant_list one_tenant_client (w_ticks ?w) = Inr [one_tenant]"
    by (simp add: one_tenant_client_def)
  moreover have "\<forall>t \<in> set [one_tenant]. answers_tenant one_tenant_client t"
    by (simp add: answers_tenant_def one_tenant_client_def one_tenant_def example_tenant_def)
  ultimately obtain w' where "run_state (sync_cluster_tenant_list one_tenant_client ?opts) ?w = (None, w')"
    "tenant_rows (sy_cluster_id one_tenant_client) tenant_shown w' =
      map_of (rev (map (\<lambda>t. (tn_uuid (gtr_tenant t), tenant_shown (gtr_tenant t))) [one_tenant]))"
    using sync_cluster_tenant_list_reconciles [of one_tenant_client ?w "[one_tenant]" ?opts] by blast
  then show ?thesis by (auto simp: one_tenant_client_def empty_client_def one_tenant_def)
qed

end
