(* ===== verification/SyncNetwork.thy ===== *)
theory SyncNetwork
  imports SyncStorage
begin

text \<open>
  Synchronisation of networks, subnets, floating IPs and routers (\<open>sync/network.go\<close>,
  \<open>sync/subnet.go\<close>, \<open>sync/floating_ip.go\<close>, \<open>sync/router.go\<close>). A network synchronises its subnets
  and floating IPs, and each of these synchronises the network again when it is not in the
  database. The functions take that call as a parameter (\<open>again\<close>), and \<open>sync_cluster_network\<close>
  closes the recursion with a bound on its depth.
\<close>

type_synonym network_sync = "options \<Rightarrow> cluster_network \<Rightarrow> err option op"

text \<open>No options.\<close>

definition no_options :: options where
  "no_options = \<lparr>opt_force = False, opt_tenant_uuid = []\<rparr>"

section \<open>Lookups\<close>

text \<open>The row of a resource, synchronised first when the lookup fails for whatever reason.\<close>

definition lookup_or_sync :: "(err + 'a) op \<Rightarrow> err option op \<Rightarrow> (err + 'a) op \<Rightarrow> (err + 'a) op" where
  "lookup_or_sync q m q' = do {
     r \<leftarrow> q;
     case r of Inr x \<Rightarrow> State_Monad.return (Inr x)
     | Inl _ \<Rightarrow> do {
         e \<leftarrow> m;
         case e of Some x \<Rightarrow> State_Monad.return (Inl x) | None \<Rightarrow> q'
       }
   }"

text \<open>A resource whose tenant is not in the database is left out.\<close>

definition with_tenant :: "synchronizer \<Rightarrow> options \<Rightarrow> string \<Rightarrow> (nat \<Rightarrow> err option op) \<Rightarrow> err option op" where
  "with_tenant s opts u k =
     fetch (get_tenant s opts u) (\<lambda>t. case t of None \<Rightarrow> return_nil | Some t \<Rightarrow> k (tn_id t))"

definition network_in_cluster :: "synchronizer \<Rightarrow> database \<Rightarrow> nat \<Rightarrow> bool" where
  "network_in_cluster s db n = list_ex (\<lambda>r. nw_id r = n \<and> tenant_of_cluster s (nw_cluster_tenant_id r) db) (db_network db)"

definition new_network :: "string \<Rightarrow> cluster_network" where
  "new_network u = \<lparr>nw_id = 0, nw_cluster_tenant_id = 0, nw_uuid = u, nw_name = '''', nw_description = None,
     nw_type_code = '''', nw_external_flag = False, nw_state = '''', nw_status = '''', nw_raw = None\<rparr>"

definition find_network :: "synchronizer \<Rightarrow> cluster_network \<Rightarrow> (err + cluster_network) op" where
  "find_network s n = execute (first_row nw_id (\<lambda>db. filter (\<lambda>r. tenant_of_cluster s (nw_cluster_tenant_id r) db \<and>
     cond_str (nw_uuid n) (nw_uuid r) \<and> cond_nat (nw_id n) (nw_id r)) (db_network db)))"

definition get_network :: "network_sync \<Rightarrow> synchronizer \<Rightarrow> options \<Rightarrow> string \<Rightarrow> (err + cluster_network) op" where
  "get_network again s opts u = lookup_or_sync (find_network s (new_network u))
     (again opts (new_network u)) (db_res (find_network s (new_network u)))"

section \<open>Subnets\<close>

definition same_subnet :: "cluster_subnet \<Rightarrow> cluster_subnet \<Rightarrow> bool" where
  "same_subnet d c = (sn_uuid d = sn_uuid c \<and> sn_name d = sn_name c \<and> sn_network_cidr d = sn_network_cidr c \<and>
     sn_dhcp_enabled d = sn_dhcp_enabled c \<and> sn_gateway_enabled d = sn_gateway_enabled c \<and>
     sn_description d = sn_description c \<and> sn_gateway_ip_address d = sn_gateway_ip_address c \<and>
     sn_ipv6_address_mode_code d = sn_ipv6_address_mode_code c \<and> sn_ipv6_ra_mode_code d = sn_ipv6_ra_mode_code c)"

text \<open>The network of a row has to have the UUID of the reported one; a failing query counts as a difference.\<close>

definition network_has_uuid :: "nat \<Rightarrow> string \<Rightarrow> bool op" where
  "network_has_uuid i u = do {
     n \<leftarrow> execute (find_row (\<lambda>db. filter (\<lambda>x. cond_nat i (nw_id x)) (db_network db)));
     State_Monad.return (case n of Inl _ \<Rightarrow> False | Inr x \<Rightarrow> nw_uuid x = u)
   }"

definition tenant_has_uuid :: "nat \<Rightarrow> string \<Rightarrow> bool op" where
  "tenant_has_uuid i u = do {
     t \<leftarrow> execute (find_row (\<lambda>db. filter (\<lambda>x. cond_nat i (tn_id x)) (db_tenant db)));
     State_Monad.return (case t of Inl _ \<Rightarrow> False | Inr x \<Rightarrow> tn_uuid x = u)
   }"

definition compare_subnet :: "cluster_subnet \<Rightarrow> get_subnet_result \<Rightarrow> bool op" where
  "compare_subnet d r = (if \<not> same_subnet d (gsn_subnet r) then State_Monad.return False
     else network_has_uuid (sn_cluster_network_id d) (nw_uuid (gsn_network r)))"

definition new_subnet :: "string \<Rightarrow> cluster_subnet" where
  "new_subnet u = \<lparr>sn_id = 0, sn_cluster_network_id = 0, sn_uuid = u, sn_name = '''', sn_description = None,
     sn_network_cidr = '''', sn_dhcp_enabled = False, sn_gateway_enabled = False, sn_gateway_ip_address = None,
     sn_ipv6_address_mode_code = None, sn_ipv6_ra_mode_code = None, sn_raw = None\<rparr>"

definition find_subnet :: "synchronizer \<Rightarrow> cluster_subnet \<Rightarrow> (err + cluster_subnet) op" where
  "find_subnet s n = execute (first_row sn_id (\<lambda>db. filter (\<lambda>r. network_in_cluster s db (sn_cluster_network_id r) \<and>
     cond_str (sn_uuid n) (sn_uuid r) \<and> cond_nat (sn_id n) (sn_id r)) (db_subnet db)))"

definition save_subnet_row :: "cluster_subnet \<Rightarrow> (cluster_subnet \<Rightarrow> err option op) \<Rightarrow> err option op" where
  "save_subnet_row = save_row sn_id (\<lambda>i r. r\<lparr>sn_id := i\<rparr>) save_subnet"

text \<open>All nameservers of the subnet are deleted and the reported ones inserted, in one transaction.\<close>

definition sync_cluster_subnet_nameserver_list :: "cluster_subnet \<Rightarrow> cluster_subnet_nameserver list \<Rightarrow> err option op" where
  "sync_cluster_subnet_nameserver_list sn ns = gorm_transaction
     (check (exec (delete_nameserver_rows (\<lambda>r. cond_nat (sn_id sn) (ns_cluster_subnet_id r))))
       (save_all ns_id (\<lambda>i r. save_nameserver (r\<lparr>ns_id := i, ns_cluster_subnet_id := sn_id sn\<rparr>)) ns))"

definition sync_cluster_subnet_dhcp_pool_list :: "cluster_subnet \<Rightarrow> cluster_subnet_dhcp_pool list \<Rightarrow> err option op" where
  "sync_cluster_subnet_dhcp_pool_list sn ps = gorm_transaction
     (check (exec (delete_dhcp_pool_rows (\<lambda>r. cond_nat (sn_id sn) (dp_cluster_subnet_id r))))
       (save_all dp_id (\<lambda>i r. save_dhcp_pool (r\<lparr>dp_id := i, dp_cluster_subnet_id := sn_id sn\<rparr>)) ps))"

text \<open>The error of the nameservers is overwritten by the result of the pools.\<close>

definition sync_subnet_parts :: "cluster_subnet \<Rightarrow> get_subnet_result \<Rightarrow> err option op" where
  "sync_subnet_parts sn res = ignoring (sync_cluster_subnet_nameserver_list sn (gsn_nameserver_list res))
     (sync_cluster_subnet_dhcp_pool_list sn (gsn_pool_list res))"

definition sync_cluster_subnet :: "network_sync \<Rightarrow> synchronizer \<Rightarrow> options \<Rightarrow> cluster_subnet \<Rightarrow> err option op" where
  "sync_cluster_subnet again s opts sn =
     unless_deleted s opts (do {
     rsp \<leftarrow> ask (sy_get_subnet s (sn_uuid sn));
     respond rsp (
       fetch (case rsp of Inl _ \<Rightarrow> State_Monad.return (Inr (new_network ''''))
              | Inr res \<Rightarrow> get_network again s opts (nw_uuid (gsn_network res))) (\<lambda>n. do {
       row \<leftarrow> find_subnet s sn;
       compare_sides rsp row
         return_nil
         (\<lambda>old. delete_subnet s old)
         (\<lambda>res. save_subnet_row (gsn_subnet res\<lparr>sn_cluster_network_id := nw_id n\<rparr>) (\<lambda>new.
            announce s queue_notice_cluster_subnet_created [(''Subnet'', RSubnet new)]
            (sync_subnet_parts new res)))
         (\<lambda>res old. do {
            same \<leftarrow> (if opt_force opts then State_Monad.return False else compare_subnet old res);
            if same then sync_subnet_parts old res
            else save_subnet_row (gsn_subnet res\<lparr>sn_id := sn_id old, sn_cluster_network_id := nw_id n\<rparr>) (\<lambda>new.
              announce s queue_notice_cluster_subnet_updated [(''Subnet'', RSubnet new)]
              (sync_subnet_parts new res))
         })
     }))
   })"

text \<open>Here the error of the second lookup is returned as it is.\<close>

definition get_subnet :: "network_sync \<Rightarrow> synchronizer \<Rightarrow> options \<Rightarrow> string \<Rightarrow> (err + cluster_subnet) op" where
  "get_subnet again s opts u = lookup_or_sync (find_subnet s (new_subnet u))
     (sync_cluster_subnet again s opts (new_subnet u)) (find_subnet s (new_subnet u))"

definition sync_deleted_subnet_list :: "synchronizer \<Rightarrow> cluster_network \<Rightarrow> cluster_subnet list \<Rightarrow> err option op" where
  "sync_deleted_subnet_list s n rsp =
     fetch (db_res (execute (find_all db_subnet (\<lambda>r. cond_nat (nw_id n) (sn_cluster_network_id r)))))
       (delete_missing sn_uuid (delete_subnet s) (map sn_uuid rsp))"

definition sync_cluster_subnet_list ::
    "network_sync \<Rightarrow> synchronizer \<Rightarrow> options \<Rightarrow> cluster_network \<Rightarrow> cluster_subnet list \<Rightarrow> err option op" where
  "sync_cluster_subnet_list again s opts n xs =
     check (sync_deleted_subnet_list s n xs)
       (sync_each (\<lambda>x. sync_cluster_subnet again s opts (new_subnet (sn_uuid x))) xs)"

section \<open>Floating IPs\<close>

definition compare_floating_ip :: "cluster_floating_ip \<Rightarrow> get_floating_ip_result \<Rightarrow> bool op" where
  "compare_floating_ip d r = (let c = gfr_floating_ip r in
     if fip_uuid d = fip_uuid c \<and> fip_ip_address d = fip_ip_address c \<and> fip_status d = fip_status c \<and>
       fip_description d = fip_description c
     then network_has_uuid (fip_cluster_network_id d) (nw_uuid (gfr_network r))
     else State_Monad.return False)"

definition new_floating_ip :: "string \<Rightarrow> cluster_floating_ip" where
  "new_floating_ip u = \<lparr>fip_id = 0, fip_cluster_tenant_id = 0, fip_cluster_network_id = 0, fip_uuid = u,
     fip_description = None, fip_ip_address = '''', fip_status = '''', fip_raw = None\<rparr>"

definition find_floating_ip :: "synchronizer \<Rightarrow> cluster_floating_ip \<Rightarrow> (err + cluster_floating_ip) op" where
  "find_floating_ip s f = execute (first_row fip_id (\<lambda>db. filter (\<lambda>r.
     list_ex (\<lambda>n. nw_id n = fip_cluster_network_id r) (db_network db) \<and>
     tenant_of_cluster s (fip_cluster_tenant_id r) db \<and>
     cond_str (fip_uuid f) (fip_uuid r) \<and> cond_nat (fip_id f) (fip_id r)) (db_floating_ip db)))"

definition save_floating_ip_row :: "cluster_floating_ip \<Rightarrow> (cluster_floating_ip \<Rightarrow> err option op) \<Rightarrow> err option op" where
  "save_floating_ip_row = save_row fip_id (\<lambda>i r. r\<lparr>fip_id := i\<rparr>) save_floating_ip"

text \<open>The tenant and the network of a floating IP; a tenant that is not in the database is an error.\<close>

definition floating_ip_owners :: "network_sync \<Rightarrow> synchronizer \<Rightarrow> options \<Rightarrow> err + get_floating_ip_result \<Rightarrow>
    (nat \<Rightarrow> nat \<Rightarrow> err option op) \<Rightarrow> err option op" where
  "floating_ip_owners again s opts rsp k = (case rsp of Inl _ \<Rightarrow> k 0 0
     | Inr res \<Rightarrow> fetch (get_tenant s opts (tn_uuid (gfr_tenant res))) (\<lambda>t.
         fetch (get_network again s opts (nw_uuid (gfr_network res))) (\<lambda>n.
           case t of None \<Rightarrow> State_Monad.return (Some (Unknown ''tenant or network is nil''))
           | Some t \<Rightarrow> k (tn_id t) (nw_id n))))"

definition sync_cluster_floating_ip :: "network_sync \<Rightarrow> synchronizer \<Rightarrow> options \<Rightarrow> cluster_floating_ip \<Rightarrow> err option op" where
  "sync_cluster_floating_ip again s opts f =
     unless_deleted s opts (do {
     rsp \<leftarrow> ask (sy_get_floating_ip s (fip_uuid f));
     respond rsp (floating_ip_owners again s opts rsp (\<lambda>t n. do {
       row \<leftarrow> find_floating_ip s f;
       compare_sides rsp row
         return_nil
         (\<lambda>old. delete_floating_ip s old)
         (\<lambda>res. save_floating_ip_row (gfr_floating_ip res\<lparr>fip_cluster_tenant_id := t, fip_cluster_network_id := n\<rparr>) (\<lambda>new.
            announce s queue_notice_cluster_floating_ip_created [(''FloatingIP'', RFloatingIP new)] return_nil))
         (\<lambda>res old. do {
            same \<leftarrow> (if opt_force opts then State_Monad.return False else compare_floating_ip old res);
            if same then return_nil
            else save_floating_ip_row (gfr_floating_ip res\<lparr>fip_id := fip_id old, fip_cluster_tenant_id := t,
                fip_cluster_network_id := n\<rparr>) (\<lambda>new.
              announce s queue_notice_cluster_floating_ip_updated
                [(''OrigFloatingIP'', RFloatingIP old), (''FloatingIP'', RFloatingIP new)] return_nil)
         })
     }))
   })"

definition get_floating_ip :: "network_sync \<Rightarrow> synchronizer \<Rightarrow> options \<Rightarrow> string \<Rightarrow> (err + cluster_floating_ip) op" where
  "get_floating_ip again s opts u = lookup_or_sync (find_floating_ip s (new_floating_ip u))
     (sync_cluster_floating_ip again s opts (new_floating_ip u)) (find_floating_ip s (new_floating_ip u))"

text \<open>The query runs in \<open>GormTransaction\<close>: when it fails there is nothing to delete.\<close>

definition sync_deleted_floating_ip_list :: "synchronizer \<Rightarrow> cluster_network \<Rightarrow> cluster_floating_ip list \<Rightarrow> err option op" where
  "sync_deleted_floating_ip_list s n rsp = do {
     r \<leftarrow> gorm_transaction_with (Inr []) (find_all db_floating_ip (\<lambda>r. cond_nat (nw_id n) (fip_cluster_network_id r)));
     case fst r of Some e \<Rightarrow> State_Monad.return (Some (unusable_database e))
     | None \<Rightarrow> delete_missing fip_uuid (delete_floating_ip s) (map fip_uuid rsp)
         (case snd r of Inl _ \<Rightarrow> [] | Inr fs \<Rightarrow> fs)
   }"

definition sync_cluster_floating_ip_list ::
    "network_sync \<Rightarrow> synchronizer \<Rightarrow> options \<Rightarrow> cluster_network \<Rightarrow> cluster_floating_ip list \<Rightarrow> err option op" where
  "sync_cluster_floating_ip_list again s opts n xs =
     check (sync_deleted_floating_ip_list s n xs)
       (sync_each (\<lambda>x. sync_cluster_floating_ip again s opts (new_floating_ip (fip_uuid x))) xs)"

section \<open>Networks\<close>

definition compare_network :: "cluster_network \<Rightarrow> get_network_result \<Rightarrow> bool op" where
  "compare_network d r = (let c = gnr_network r in
     if nw_uuid d = nw_uuid c \<and> nw_name d = nw_name c \<and> nw_type_code d = nw_type_code c \<and>
       nw_external_flag d = nw_external_flag c \<and> nw_state d = nw_state c \<and> nw_status d = nw_status c \<and>
       nw_description d = nw_description c
     then tenant_has_uuid (nw_cluster_tenant_id d) (tn_uuid (gnr_tenant r))
     else State_Monad.return False)"

definition save_network_row :: "cluster_network \<Rightarrow> (cluster_network \<Rightarrow> err option op) \<Rightarrow> err option op" where
  "save_network_row = save_row nw_id (\<lambda>i r. r\<lparr>nw_id := i\<rparr>) save_network"

text \<open>The error of the subnets is overwritten by the result of the floating IPs.\<close>

definition sync_network_parts ::
    "network_sync \<Rightarrow> synchronizer \<Rightarrow> options \<Rightarrow> cluster_network \<Rightarrow> get_network_result \<Rightarrow> err option op" where
  "sync_network_parts again s opts n res =
     ignoring (sync_cluster_subnet_list again s opts n (gnr_subnet_list res))
       (sync_cluster_floating_ip_list again s opts n (gnr_floating_ip_list res))"

definition sync_cluster_network_with :: "network_sync \<Rightarrow> synchronizer \<Rightarrow> options \<Rightarrow> cluster_network \<Rightarrow> err option op" where
  "sync_cluster_network_with again s opts n =
     unless_deleted s opts (do {
     rsp \<leftarrow> ask (sy_get_network s (nw_uuid n));
     respond rsp (do {
       row \<leftarrow> find_network s n;
       compare_sides rsp row
         return_nil
         (\<lambda>old. delete_network s old)
         (\<lambda>res. with_tenant s opts (tn_uuid (gnr_tenant res)) (\<lambda>t.
            save_network_row (gnr_network res\<lparr>nw_cluster_tenant_id := t\<rparr>) (\<lambda>new.
            announce s queue_notice_cluster_network_created [(''Network'', RNetwork new)]
            (sync_network_parts again s opts new res))))
         (\<lambda>res old. do {
            same \<leftarrow> (if opt_force opts then State_Monad.return False else compare_network old res);
            if same then sync_network_parts again s opts old res
            else with_tenant s opts (tn_uuid (gnr_tenant res)) (\<lambda>t.
              save_network_row (gnr_network res\<lparr>nw_id := nw_id old, nw_cluster_tenant_id := t\<rparr>) (\<lambda>new.
              announce s queue_notice_cluster_network_updated
                [(''OrigNetwork'', RNetwork old), (''Network'', RNetwork new)]
              (sync_network_parts again s opts new res)))
         })
     })
   })"

text \<open>The recursion, nested at most \<open>k\<close> calls deep.\<close>

fun sync_cluster_network :: "nat \<Rightarrow> synchronizer \<Rightarrow> network_sync" where
  "sync_cluster_network 0 s opts n = State_Monad.return (Some StackOverflow)"
| "sync_cluster_network (Suc k) s opts n = sync_cluster_network_with (sync_cluster_network k s) s opts n"

definition sync_deleted_network_list :: "synchronizer \<Rightarrow> get_network_result list \<Rightarrow> err option op" where
  "sync_deleted_network_list s rsp =
     fetch (db_res (execute (find_rows (\<lambda>db. filter (\<lambda>r. tenant_of_cluster s (nw_cluster_tenant_id r) db) (db_network db)))))
       (delete_missing nw_uuid (delete_network s) (map (\<lambda>x. nw_uuid (gnr_network x)) rsp))"

definition sync_cluster_network_list :: "nat \<Rightarrow> synchronizer \<Rightarrow> options \<Rightarrow> err option op" where
  "sync_cluster_network_list k s opts =
     fetch (ask (sy_get_network_list s)) (\<lambda>rsp.
     check (sync_deleted_network_list s rsp)
     (sync_each (\<lambda>x. sync_cluster_network k s opts (new_network (nw_uuid (gnr_network x)))) rsp))"

section \<open>Routers\<close>

definition compare_router :: "cluster_router \<Rightarrow> get_router_result \<Rightarrow> bool op" where
  "compare_router d r = (let c = grr_router r in
     if rt_uuid d = rt_uuid c \<and> rt_name d = rt_name c \<and> rt_state d = rt_state c \<and> rt_status d = rt_status c \<and>
       rt_description d = rt_description c
     then tenant_has_uuid (rt_cluster_tenant_id d) (tn_uuid (grr_tenant r))
     else State_Monad.return False)"

definition new_router :: "string \<Rightarrow> cluster_router" where
  "new_router u = \<lparr>rt_id = 0, rt_cluster_tenant_id = 0, rt_uuid = u, rt_name = '''', rt_description = None,
     rt_state = '''', rt_status = '''', rt_raw = None\<rparr>"

definition find_router :: "synchronizer \<Rightarrow> cluster_router \<Rightarrow> (err + cluster_router) op" where
  "find_router s x = execute (first_row rt_id (\<lambda>db. filter (\<lambda>r. tenant_of_cluster s (rt_cluster_tenant_id r) db \<and>
     cond_str (rt_uuid x) (rt_uuid r) \<and> cond_nat (rt_id x) (rt_id r)) (db_router db)))"

definition save_router_row :: "cluster_router \<Rightarrow> (cluster_router \<Rightarrow> err option op) \<Rightarrow> err option op" where
  "save_router_row = save_row rt_id (\<lambda>i r. r\<lparr>rt_id := i\<rparr>) save_router"

text \<open>In one transaction the reported routes are saved first and then all routes of the router deleted.\<close>

definition sync_cluster_router_extra_route_list :: "cluster_router \<Rightarrow> cluster_router_extra_route list \<Rightarrow> err option op" where
  "sync_cluster_router_extra_route_list x routes = gorm_transaction
     (check (save_all er_id (\<lambda>i r. save_extra_route (r\<lparr>er_id := i, er_cluster_router_id := rt_id x\<rparr>)) routes)
       (exec (delete_extra_route_rows (\<lambda>r. cond_nat (rt_id x) (er_cluster_router_id r)))))"

definition compare_routing_interface ::
    "cluster_network_routing_interface \<Rightarrow> routing_interface_result \<Rightarrow> bool" where
  "compare_routing_interface d r = (ri_ip_address d = ri_ip_address (rir_routing_interface r) \<and>
     ri_external_flag d = ri_external_flag (rir_routing_interface r))"

text \<open>The join of interfaces with their subnet, router and tenant.\<close>

definition interface_join :: "synchronizer \<Rightarrow> nat \<Rightarrow> database \<Rightarrow>
    (cluster_network_routing_interface \<times> cluster_subnet) list" where
  "interface_join s i db = [(x, sn). x \<leftarrow> db_routing_interface db, sn \<leftarrow> db_subnet db,
     sn_id sn = ri_cluster_subnet_id x, r \<leftarrow> db_router db,
     rt_id r = ri_cluster_router_id x \<and> cond_nat i (rt_id r) \<and> tenant_of_cluster s (rt_cluster_tenant_id r) db]"

definition sync_deleted_routing_interface_list :: "synchronizer \<Rightarrow> nat \<Rightarrow> routing_interface_result list \<Rightarrow> err option op" where
  "sync_deleted_routing_interface_list s i rsp =
     fetch (db_res (execute (find_rows (interface_join s i))))
       (delete_missing (\<lambda>x. sn_uuid (snd x)) (\<lambda>x. delete_routing_interface s (fst x))
         (map (\<lambda>x. sn_uuid (rir_subnet x)) rsp))"

text \<open>The subnets are looked up without options. The first error ends the loop.\<close>

definition sync_routing_interface ::
    "network_sync \<Rightarrow> synchronizer \<Rightarrow> cluster_router \<Rightarrow> routing_interface_result \<Rightarrow> err option op" where
  "sync_routing_interface again s x r =
     fetch (get_subnet again s no_options (sn_uuid (rir_subnet r))) (\<lambda>sn. do {
       row \<leftarrow> execute (first_row ri_cluster_router_id (\<lambda>db. filter (\<lambda>q. cond_nat (rt_id x) (ri_cluster_router_id q) \<and>
         cond_nat (sn_id sn) (ri_cluster_subnet_id q)) (db_routing_interface db)));
       case row of
         Inl RecordNotFound \<Rightarrow>
           (let new = \<lparr>ri_cluster_router_id = rt_id x, ri_cluster_subnet_id = sn_id sn,
              ri_ip_address = ri_ip_address (rir_routing_interface r),
              ri_external_flag = ri_external_flag (rir_routing_interface r)\<rparr> in
            check (transact [save_routing_interface new])
              (announce s queue_notice_cluster_routing_interface_created
                [(''RoutingInterface'', RRoutingInterface new)] return_nil))
       | Inl e \<Rightarrow> State_Monad.return (Some (unusable_database e))
       | Inr old \<Rightarrow>
           (if compare_routing_interface old r then return_nil
            else (let new = old\<lparr>ri_ip_address := ri_ip_address (rir_routing_interface r),
                ri_external_flag := ri_external_flag (rir_routing_interface r)\<rparr> in
              check (transact [save_routing_interface new])
                (announce s queue_notice_cluster_routing_interface_updated
                  [(''OrigRoutingInterface'', RRoutingInterface old), (''RoutingInterface'', RRoutingInterface new)]
                 return_nil)))
     })"

definition sync_cluster_network_routing_interface_list ::
    "network_sync \<Rightarrow> synchronizer \<Rightarrow> cluster_router \<Rightarrow> get_router_result \<Rightarrow> err option op" where
  "sync_cluster_network_routing_interface_list again s x res =
     (let rs = grr_internal_routing_interface_list res @ grr_external_routing_interface_list res in
      check (sync_deleted_routing_interface_list s (rt_id x) rs)
        (for_err (sync_routing_interface again s x) rs))"

definition sync_router_parts :: "network_sync \<Rightarrow> synchronizer \<Rightarrow> cluster_router \<Rightarrow> get_router_result \<Rightarrow> err option op" where
  "sync_router_parts again s x res =
     ignoring (sync_cluster_router_extra_route_list x (grr_extra_route res))
       (sync_cluster_network_routing_interface_list again s x res)"

definition sync_cluster_router :: "network_sync \<Rightarrow> synchronizer \<Rightarrow> options \<Rightarrow> cluster_router \<Rightarrow> err option op" where
  "sync_cluster_router again s opts x =
     unless_deleted s opts (do {
     rsp \<leftarrow> ask (sy_get_router s (rt_uuid x));
     respond rsp (do {
       row \<leftarrow> find_router s x;
       compare_sides rsp row
         return_nil
         (\<lambda>old. delete_router s old)
         (\<lambda>res. with_tenant s opts (tn_uuid (grr_tenant res)) (\<lambda>t.
            save_router_row (grr_router res\<lparr>rt_cluster_tenant_id := t\<rparr>) (\<lambda>new.
            announce s queue_notice_cluster_router_created [(''Router'', RRouter new)]
            (sync_router_parts again s new res))))
         (\<lambda>res old. do {
            same \<leftarrow> (if opt_force opts then State_Monad.return False else compare_router old res);
            if same then sync_router_parts again s old res
            else with_tenant s opts (tn_uuid (grr_tenant res)) (\<lambda>t.
              save_router_row (grr_router res\<lparr>rt_id := rt_id old, rt_cluster_tenant_id := t\<rparr>) (\<lambda>new.
              announce s queue_notice_cluster_router_updated [(''OrigRouter'', RRouter old), (''Router'', RRouter new)]
              (sync_router_parts again s new res)))
         })
     })
   })"

definition sync_deleted_router_list :: "synchronizer \<Rightarrow> get_router_result list \<Rightarrow> err option op" where
  "sync_deleted_router_list s rsp =
     fetch (db_res (execute (find_rows (\<lambda>db. filter (\<lambda>r. tenant_of_cluster s (rt_cluster_tenant_id r) db) (db_router db)))))
       (delete_missing rt_uuid (delete_router s) (map (\<lambda>x. rt_uuid (grr_router x)) rsp))"

definition sync_cluster_router_list :: "network_sync \<Rightarrow> synchronizer \<Rightarrow> options \<Rightarrow> err option op" where
  "sync_cluster_router_list again s opts =
     fetch (ask (sy_get_router_list s)) (\<lambda>rsp.
     check (sync_deleted_router_list s rsp)
     (sync_each (\<lambda>x. sync_cluster_router again s opts (new_router (rt_uuid (grr_router x)))) rsp))"

end
