(* ===== verification/SyncGroup.thy ===== *)
theory SyncGroup
  imports SyncNetwork
begin

text \<open>
  Synchronisation of security groups and their rules (\<open>sync/security_group.go\<close>,
  \<open>sync/security_group_rule.go\<close>). A group synchronises its rules, and a rule synchronises its
  own group and the remote group it names when they are not in the database; \<open>again\<close> is that call,
  and \<open>sync_cluster_security_group\<close> bounds how deep the calls nest.
\<close>

type_synonym group_sync = "options \<Rightarrow> cluster_security_group \<Rightarrow> err option op"

text \<open>\<open>for _, x := range xs { if err = f(x); err != nil { log } }; return err\<close>\<close>

fun sync_last :: "('a \<Rightarrow> err option op) \<Rightarrow> 'a list \<Rightarrow> err option \<Rightarrow> err option op" where
  "sync_last f [] e = State_Monad.return e"
| "sync_last f (x # xs) e = do { e' \<leftarrow> f x; sync_last f xs e' }"

section \<open>Lookups\<close>

definition new_security_group :: "string \<Rightarrow> cluster_security_group" where
  "new_security_group u = \<lparr>sg_id = 0, sg_cluster_tenant_id = 0, sg_uuid = u, sg_name = '''',
     sg_description = None, sg_raw = None\<rparr>"

definition find_security_group :: "synchronizer \<Rightarrow> cluster_security_group \<Rightarrow> (err + cluster_security_group) op" where
  "find_security_group s g = execute (first_row sg_id (\<lambda>db. filter (\<lambda>r.
     tenant_of_cluster s (sg_cluster_tenant_id r) db \<and>
     cond_str (sg_uuid g) (sg_uuid r) \<and> cond_nat (sg_id g) (sg_id r)) (db_security_group db)))"

definition get_security_group :: "group_sync \<Rightarrow> synchronizer \<Rightarrow> options \<Rightarrow> string \<Rightarrow> (err + cluster_security_group) op" where
  "get_security_group again s opts u = lookup_or_sync (find_security_group s (new_security_group u))
     (again opts (new_security_group u)) (db_res (find_security_group s (new_security_group u)))"

section \<open>Rules\<close>

definition same_security_group_rule :: "cluster_security_group_rule \<Rightarrow> cluster_security_group_rule \<Rightarrow> bool" where
  "same_security_group_rule d c = (sgr_uuid d = sgr_uuid c \<and> sgr_direction d = sgr_direction c \<and>
     sgr_description d = sgr_description c \<and> sgr_network_cidr d = sgr_network_cidr c \<and>
     sgr_port_range_min d = sgr_port_range_min c \<and> sgr_port_range_max d = sgr_port_range_max c \<and>
     sgr_protocol d = sgr_protocol c \<and> sgr_ether_type d = sgr_ether_type c)"

text \<open>
  The groups are looked at only when both sides have a remote group; without one on either side
  the rules are equal whatever group they belong to.
\<close>

definition compare_security_group_rule ::
    "cluster_security_group_rule \<Rightarrow> get_security_group_rule_result \<Rightarrow> bool op" where
  "compare_security_group_rule d r =
     (if \<not> same_security_group_rule d (gru_security_group_rule r) then State_Monad.return False
      else (case (gru_remote_security_group r, sgr_remote_security_group_id d) of
        (None, None) \<Rightarrow> State_Monad.return True
      | (Some g, Some i) \<Rightarrow> do {
          q \<leftarrow> execute (both
            (find_row (\<lambda>db. filter (\<lambda>x. cond_nat (sgr_security_group_id d) (sg_id x)) (db_security_group db)))
            (find_row (\<lambda>db. filter (\<lambda>x. cond_nat i (sg_id x)) (db_security_group db))));
          State_Monad.return (case q of Inl _ \<Rightarrow> False
            | Inr (own, remote) \<Rightarrow> sg_uuid own = sg_uuid (gru_security_group r) \<and> sg_uuid remote = sg_uuid g)
        }
      | _ \<Rightarrow> State_Monad.return False))"

definition new_security_group_rule :: "string \<Rightarrow> cluster_security_group_rule" where
  "new_security_group_rule u = \<lparr>sgr_id = 0, sgr_security_group_id = 0, sgr_remote_security_group_id = None,
     sgr_uuid = u, sgr_description = None, sgr_network_cidr = None, sgr_direction = '''',
     sgr_port_range_min = None, sgr_port_range_max = None, sgr_protocol = None, sgr_ether_type = 0, sgr_raw = None\<rparr>"

definition find_security_group_rule ::
    "synchronizer \<Rightarrow> cluster_security_group_rule \<Rightarrow> (err + cluster_security_group_rule) op" where
  "find_security_group_rule s x = execute (first_row sgr_id (\<lambda>db. filter (\<lambda>r.
     list_ex (\<lambda>g. sg_id g = sgr_security_group_id r \<and> tenant_of_cluster s (sg_cluster_tenant_id g) db)
       (db_security_group db) \<and>
     cond_str (sgr_uuid x) (sgr_uuid r) \<and> cond_nat (sgr_id x) (sgr_id r)) (db_security_group_rule db)))"

definition save_security_group_rule_row ::
    "cluster_security_group_rule \<Rightarrow> (cluster_security_group_rule \<Rightarrow> err option op) \<Rightarrow> err option op" where
  "save_security_group_rule_row = save_row sgr_id (\<lambda>i r. r\<lparr>sgr_id := i\<rparr>) save_security_group_rule"

text \<open>The identifier of the remote group goes into the reported rule.\<close>

definition with_remote_group :: "group_sync \<Rightarrow> synchronizer \<Rightarrow> options \<Rightarrow> get_security_group_rule_result \<Rightarrow>
    cluster_security_group_rule \<Rightarrow> (cluster_security_group_rule \<Rightarrow> err option op) \<Rightarrow> err option op" where
  "with_remote_group again s opts res rule k = (case gru_remote_security_group res of
       None \<Rightarrow> k rule
     | Some g \<Rightarrow> fetch (get_security_group again s opts (sg_uuid g)) (\<lambda>r.
         k (rule\<lparr>sgr_remote_security_group_id := Some (sg_id r)\<rparr>)))"

definition sync_cluster_security_group_rule ::
    "group_sync \<Rightarrow> synchronizer \<Rightarrow> options \<Rightarrow> cluster_security_group_rule \<Rightarrow> err option op" where
  "sync_cluster_security_group_rule again s opts x =
     unless_deleted s opts (do {
     rsp \<leftarrow> ask (sy_get_security_group_rule s (sgr_uuid x));
     respond rsp (
       fetch (case rsp of Inl _ \<Rightarrow> State_Monad.return (Inr (new_security_group ''''))
              | Inr res \<Rightarrow> get_security_group again s opts (sg_uuid (gru_security_group res))) (\<lambda>g. do {
       row \<leftarrow> find_security_group_rule s x;
       compare_sides rsp row
         return_nil
         (\<lambda>old. delete_security_group_rule s old)
         (\<lambda>res. with_remote_group again s opts res
            (gru_security_group_rule res\<lparr>sgr_security_group_id := sg_id g\<rparr>) (\<lambda>rule.
            save_security_group_rule_row rule (\<lambda>new.
            announce s queue_notice_cluster_security_group_rule_created
              [(''SecurityGroupRule'', RSecurityGroupRule new)] return_nil)))
         (\<lambda>res old. do {
            same \<leftarrow> (if opt_force opts then State_Monad.return False else compare_security_group_rule old res);
            if same then return_nil
            else with_remote_group again s opts res
              (gru_security_group_rule res\<lparr>sgr_security_group_id := sg_id g\<rparr>) (\<lambda>rule.
              save_security_group_rule_row (rule\<lparr>sgr_id := sgr_id old\<rparr>) (\<lambda>new.
              announce s queue_notice_cluster_security_group_rule_updated
                [(''SecurityGroupRule'', RSecurityGroupRule new)] return_nil))
         })
     }))
   })"

definition sync_deleted_security_group_rule_list ::
    "synchronizer \<Rightarrow> cluster_security_group \<Rightarrow> cluster_security_group_rule list \<Rightarrow> err option op" where
  "sync_deleted_security_group_rule_list s g rs =
     fetch (db_res (execute (find_all db_security_group_rule (\<lambda>r. cond_nat (sg_id g) (sgr_security_group_id r)))))
       (delete_missing sgr_uuid (delete_security_group_rule s) (map sgr_uuid rs))"

definition sync_cluster_security_group_rule_list :: "group_sync \<Rightarrow> synchronizer \<Rightarrow> options \<Rightarrow>
    cluster_security_group \<Rightarrow> cluster_security_group_rule list \<Rightarrow> err option op" where
  "sync_cluster_security_group_rule_list again s opts g rs =
     check (sync_deleted_security_group_rule_list s g rs)
       (sync_each (\<lambda>r. sync_cluster_security_group_rule again s opts (new_security_group_rule (sgr_uuid r))) rs)"

section \<open>Groups\<close>

definition compare_security_group :: "cluster_security_group \<Rightarrow> get_security_group_result \<Rightarrow> bool op" where
  "compare_security_group d r = (let c = ggr_security_group r in
     if sg_uuid d = sg_uuid c \<and> sg_name d = sg_name c \<and> sg_description d = sg_description c
     then tenant_has_uuid (sg_cluster_tenant_id d) (tn_uuid (ggr_tenant r))
     else State_Monad.return False)"

definition save_security_group_row ::
    "cluster_security_group \<Rightarrow> (cluster_security_group \<Rightarrow> err option op) \<Rightarrow> err option op" where
  "save_security_group_row = save_row sg_id (\<lambda>i r. r\<lparr>sg_id := i\<rparr>) save_security_group"

definition sync_cluster_security_group_with ::
    "group_sync \<Rightarrow> synchronizer \<Rightarrow> options \<Rightarrow> cluster_security_group \<Rightarrow> err option op" where
  "sync_cluster_security_group_with again s opts g =
     unless_deleted s opts (do {
     rsp \<leftarrow> ask (sy_get_security_group s (sg_uuid g));
     respond rsp (do {
       row \<leftarrow> find_security_group s g;
       compare_sides rsp row
         return_nil
         (\<lambda>old. delete_security_group s old)
         (\<lambda>res. with_tenant s opts (tn_uuid (ggr_tenant res)) (\<lambda>t.
            save_security_group_row (ggr_security_group res\<lparr>sg_cluster_tenant_id := t\<rparr>) (\<lambda>new.
            announce s queue_notice_cluster_security_group_created [(''SecurityGroup'', RSecurityGroup new)]
            (sync_cluster_security_group_rule_list again s opts new (ggr_rule_list res)))))
         (\<lambda>res old. do {
            same \<leftarrow> (if opt_force opts then State_Monad.return False else compare_security_group old res);
            if same then sync_cluster_security_group_rule_list again s opts old (ggr_rule_list res)
            else with_tenant s opts (tn_uuid (ggr_tenant res)) (\<lambda>t.
              save_security_group_row (ggr_security_group res\<lparr>sg_id := sg_id old, sg_cluster_tenant_id := t\<rparr>) (\<lambda>new.
              announce s queue_notice_cluster_security_group_updated [(''SecurityGroup'', RSecurityGroup new)]
              (sync_cluster_security_group_rule_list again s opts new (ggr_rule_list res))))
         })
     })
   })"

text \<open>The recursion, nested at most \<open>k\<close> calls deep.\<close>

fun sync_cluster_security_group :: "nat \<Rightarrow> synchronizer \<Rightarrow> group_sync" where
  "sync_cluster_security_group 0 s opts g = State_Monad.return (Some StackOverflow)"
| "sync_cluster_security_group (Suc k) s opts g =
     sync_cluster_security_group_with (sync_cluster_security_group k s) s opts g"

definition sync_deleted_security_group_list :: "synchronizer \<Rightarrow> get_security_group_result list \<Rightarrow> err option op" where
  "sync_deleted_security_group_list s rsp =
     fetch (db_res (execute (find_rows (\<lambda>db. filter (\<lambda>r. tenant_of_cluster s (sg_cluster_tenant_id r) db)
       (db_security_group db)))))
       (delete_missing sg_uuid (delete_security_group s) (map (\<lambda>x. sg_uuid (ggr_security_group x)) rsp))"

text \<open>The result is the error of the last group alone.\<close>

definition sync_cluster_security_group_list :: "nat \<Rightarrow> synchronizer \<Rightarrow> options \<Rightarrow> err option op" where
  "sync_cluster_security_group_list k s opts =
     fetch (ask (sy_get_security_group_list s)) (\<lambda>rsp.
     check (sync_deleted_security_group_list s rsp)
     (sync_last (\<lambda>x. sync_cluster_security_group k s opts
       (new_security_group (sg_uuid (ggr_security_group x)))) rsp None))"

end
