(* ===== verification/SyncInstance.thy ===== *)
theory SyncInstance
  imports SyncGroup
begin

text \<open>
  Synchronisation of keypairs and instances (\<open>sync/instance_keypair.go\<close>, \<open>sync/instance.go\<close>,
  the lookup of \<open>sync/instance_spec.go\<close>), and the wait for a volume or an instance to settle
  (\<open>sync/sync_util.go\<close>).
\<close>

section \<open>Keypairs\<close>

definition new_keypair :: "string \<Rightarrow> cluster_keypair" where
  "new_keypair n = \<lparr>kp_id = 0, kp_cluster_id = 0, kp_name = n, kp_fingerprint = '''', kp_public_key = '''',
     kp_type_code = ''''\<rparr>"

definition find_keypair :: "synchronizer \<Rightarrow> cluster_keypair \<Rightarrow> (err + cluster_keypair) op" where
  "find_keypair s x = execute (first_row kp_id (\<lambda>db. filter (\<lambda>r. cond_nat (sy_cluster_id s) (kp_cluster_id r) \<and>
     cond_str (kp_name x) (kp_name r) \<and> cond_nat (kp_id x) (kp_id r)) (db_keypair db)))"

definition save_keypair_row :: "cluster_keypair \<Rightarrow> (cluster_keypair \<Rightarrow> err option op) \<Rightarrow> err option op" where
  "save_keypair_row = save_row kp_id (\<lambda>i r. r\<lparr>kp_id := i\<rparr>) save_keypair"

text \<open>A keypair that both sides have is left as it is.\<close>

definition sync_cluster_keypair :: "synchronizer \<Rightarrow> cluster_keypair \<Rightarrow> err option op" where
  "sync_cluster_keypair s x = do {
     rsp \<leftarrow> ask (sy_get_key_pair s (kp_name x));
     respond rsp (do {
       row \<leftarrow> find_keypair s x;
       compare_sides rsp row
         return_nil
         (\<lambda>old. delete_keypair s old)
         (\<lambda>res. save_keypair_row (res\<lparr>kp_cluster_id := sy_cluster_id s\<rparr>) (\<lambda>_. return_nil))
         (\<lambda>res old. return_nil)
     })
   }"

text \<open>
  The first lookup takes every error for a missing row, the second one only that. The keypair the
  cluster answers with has the name it was asked for, so both lookups are by that name.
\<close>

definition get_keypair :: "synchronizer \<Rightarrow> string \<Rightarrow> (err + cluster_keypair option) op" where
  "get_keypair s n = do {
     r \<leftarrow> find_keypair s (new_keypair n);
     case r of Inr k \<Rightarrow> State_Monad.return (Inr (Some k))
     | Inl _ \<Rightarrow> do {
         e \<leftarrow> sync_cluster_keypair s (new_keypair n);
         case e of Some x \<Rightarrow> State_Monad.return (Inl x)
         | None \<Rightarrow> do {
             q \<leftarrow> find_keypair s (new_keypair n);
             State_Monad.return (case q of Inr k \<Rightarrow> Inr (Some k) | Inl RecordNotFound \<Rightarrow> Inr None
               | Inl x \<Rightarrow> Inl (unusable_database x))
           }
       }
   }"

definition sync_deleted_keypair_list :: "synchronizer \<Rightarrow> cluster_keypair list \<Rightarrow> err option op" where
  "sync_deleted_keypair_list s rsp =
     fetch (db_res (execute (find_all db_keypair (\<lambda>r. cond_nat (sy_cluster_id s) (kp_cluster_id r)))))
       (delete_missing kp_name (delete_keypair s) (map kp_name rsp))"

definition sync_cluster_keypair_list :: "synchronizer \<Rightarrow> err option op" where
  "sync_cluster_keypair_list s =
     fetch (ask (sy_get_key_pair_list s)) (\<lambda>rsp.
     check (sync_deleted_keypair_list s rsp)
     (sync_each (\<lambda>x. sync_cluster_keypair s (new_keypair (kp_name x))) rsp))"

section \<open>Lookup of an instance spec\<close>

text \<open>The spec the cluster answers with has the identifier it was asked for.\<close>

definition new_instance_spec :: "string \<Rightarrow> cluster_instance_spec" where
  "new_instance_spec u = \<lparr>sp_id = 0, sp_cluster_id = 0, sp_uuid = u, sp_name = '''', sp_description = None,
     sp_vcpu_total_cnt = 0, sp_mem_total_bytes = 0, sp_disk_total_bytes = 0, sp_swap_total_bytes = 0,
     sp_ephemeral_total_bytes = 0\<rparr>"

definition find_instance_spec :: "synchronizer \<Rightarrow> string \<Rightarrow> (err + cluster_instance_spec) op" where
  "find_instance_spec s u = execute (first_row sp_id (\<lambda>db. filter (\<lambda>r. cond_nat (sy_cluster_id s) (sp_cluster_id r) \<and>
     cond_str u (sp_uuid r)) (db_instance_spec db)))"

definition get_instance_spec :: "synchronizer \<Rightarrow> options \<Rightarrow> string \<Rightarrow> (err + cluster_instance_spec) op" where
  "get_instance_spec s opts u = lookup_or_sync (find_instance_spec s u)
     (sync_cluster_instance_spec s (opt_force opts) (new_instance_spec u)) (db_res (find_instance_spec s u))"

section \<open>What an instance has\<close>

text \<open>
  An instance synchronises the networks and the security groups it names; \<open>again\<close> is the
  synchronisation of a network or of a security group.
\<close>

definition sync_deleted_instance_volume_list ::
    "synchronizer \<Rightarrow> cluster_instance \<Rightarrow> get_instance_volume_result list \<Rightarrow> err option op" where
  "sync_deleted_instance_volume_list s x rs =
     fetch (get_instance_volume_records (ins_id x))
       (delete_missing (\<lambda>r. vol_uuid (snd r)) (\<lambda>(iv, v). delete_instance_volume s v iv)
         (map (\<lambda>r. vol_uuid (giv_volume r)) rs))"

definition sync_instance_volume ::
    "synchronizer \<Rightarrow> cluster_instance \<Rightarrow> get_instance_volume_result \<Rightarrow> err option op" where
  "sync_instance_volume s x r =
     fetch (get_volume_row s no_options (vol_uuid (giv_volume r))) (\<lambda>v. do {
       row \<leftarrow> execute (first_row ivol_cluster_instance_id (\<lambda>db. filter (\<lambda>q. cond_nat (ins_id x) (ivol_cluster_instance_id q) \<and>
         cond_nat (vol_id v) (ivol_cluster_volume_id q)) (db_instance_volume db)));
       case row of
         Inl RecordNotFound \<Rightarrow>
           (let new = \<lparr>ivol_cluster_instance_id = ins_id x, ivol_cluster_volume_id = vol_id v,
              ivol_device_path = ivol_device_path (giv_instance_volume r), ivol_boot_index = 0\<rparr> in
            check (transact [save_instance_volume new])
              (announce s queue_notice_cluster_instance_volume_attached
                [(''InstanceVolume'', RInstanceVolume new), (''Volume'', RVolume v)] return_nil))
       | Inl e \<Rightarrow> State_Monad.return (Some (unusable_database e))
       | Inr old \<Rightarrow>
           (if ivol_device_path old = ivol_device_path (giv_instance_volume r) then return_nil
            else (let new = old\<lparr>ivol_device_path := ivol_device_path (giv_instance_volume r)\<rparr> in
              check (transact [save_instance_volume new])
                (announce s queue_notice_cluster_instance_volume_updated
                  [(''InstanceVolume'', RInstanceVolume new), (''Volume'', RVolume v)] return_nil)))
     })"

definition sync_cluster_instance_volume_list ::
    "synchronizer \<Rightarrow> cluster_instance \<Rightarrow> get_instance_volume_result list \<Rightarrow> err option op" where
  "sync_cluster_instance_volume_list s x rs =
     check (sync_deleted_instance_volume_list s x rs) (for_err (sync_instance_volume s x) rs)"

text \<open>The join of the interfaces of an instance with their networks; the floating IP is not used.\<close>

definition instance_network_join :: "nat \<Rightarrow> database \<Rightarrow> (cluster_instance_network \<times> cluster_network) list" where
  "instance_network_join i db = [(x, n). x \<leftarrow> db_instance_network db, cond_nat i (inw_cluster_instance_id x),
     n \<leftarrow> db_network db, nw_id n = inw_cluster_network_id x]"

definition get_instance_network_records :: "nat \<Rightarrow> (err + (cluster_instance_network \<times> cluster_network) list) op" where
  "get_instance_network_records i = db_res (execute (find_rows (instance_network_join i)))"

definition sync_deleted_instance_network_list ::
    "synchronizer \<Rightarrow> cluster_instance \<Rightarrow> get_instance_network_result list \<Rightarrow> err option op" where
  "sync_deleted_instance_network_list s x rs =
     fetch (get_instance_network_records (ins_id x))
       (delete_missing (\<lambda>r. nw_uuid (snd r)) (\<lambda>r. delete_instance_network s (fst r))
         (map (\<lambda>r. nw_uuid (gin_network r)) rs))"

definition compare_instance_network :: "cluster_instance_network \<Rightarrow> get_instance_network_result \<Rightarrow> bool op" where
  "compare_instance_network d r =
     (if inw_dhcp_flag d \<noteq> inw_dhcp_flag (gin_instance_network r) \<or>
         inw_ip_address d \<noteq> inw_ip_address (gin_instance_network r) then State_Monad.return False
      else (case (gin_floating_ip r, inw_cluster_floating_ip_id d) of
        (None, None) \<Rightarrow> State_Monad.return True
      | (Some f, Some i) \<Rightarrow> do {
          q \<leftarrow> execute (first_row fip_id (\<lambda>db. filter (\<lambda>x. cond_nat i (fip_id x)) (db_floating_ip db)));
          State_Monad.return (case q of Inl _ \<Rightarrow> False | Inr x \<Rightarrow> fip_uuid x = fip_uuid f)
        }
      | _ \<Rightarrow> State_Monad.return False))"

definition save_instance_network_row ::
    "cluster_instance_network \<Rightarrow> (cluster_instance_network \<Rightarrow> err option op) \<Rightarrow> err option op" where
  "save_instance_network_row = save_row inw_id (\<lambda>i r. r\<lparr>inw_id := i\<rparr>) save_instance_network"

definition instance_floating_ip :: "network_sync \<Rightarrow> synchronizer \<Rightarrow> get_instance_network_result \<Rightarrow>
    (nat option \<Rightarrow> err option op) \<Rightarrow> err option op" where
  "instance_floating_ip again s r k = (case gin_floating_ip r of None \<Rightarrow> k None
     | Some f \<Rightarrow> fetch (get_floating_ip again s no_options (fip_uuid f)) (\<lambda>x. k (Some (fip_id x))))"

text \<open>An interface that exists keeps its subnet whatever the cluster reports.\<close>

definition sync_instance_network ::
    "network_sync \<Rightarrow> synchronizer \<Rightarrow> cluster_instance \<Rightarrow> get_instance_network_result \<Rightarrow> err option op" where
  "sync_instance_network again s x r =
     fetch (get_network again s no_options (nw_uuid (gin_network r))) (\<lambda>n.
     fetch (get_subnet again s no_options (sn_uuid (gin_subnet r))) (\<lambda>sn.
     instance_floating_ip again s r (\<lambda>f. do {
       row \<leftarrow> execute (first_row inw_id (\<lambda>db. filter (\<lambda>q. cond_nat (ins_id x) (inw_cluster_instance_id q) \<and>
         cond_nat (nw_id n) (inw_cluster_network_id q)) (db_instance_network db)));
       case row of
         Inl RecordNotFound \<Rightarrow>
           save_instance_network_row \<lparr>inw_id = 0, inw_cluster_instance_id = ins_id x,
             inw_cluster_network_id = nw_id n, inw_cluster_subnet_id = sn_id sn, inw_cluster_floating_ip_id = f,
             inw_dhcp_flag = inw_dhcp_flag (gin_instance_network r),
             inw_ip_address = inw_ip_address (gin_instance_network r)\<rparr> (\<lambda>new.
           announce s queue_notice_cluster_instance_network_attached
             [(''InstanceNetwork'', RInstanceNetwork new)] return_nil)
       | Inl e \<Rightarrow> State_Monad.return (Some (unusable_database e))
       | Inr old \<Rightarrow> do {
           same \<leftarrow> compare_instance_network old r;
           if same then return_nil
           else save_instance_network_row (old\<lparr>inw_dhcp_flag := inw_dhcp_flag (gin_instance_network r),
               inw_ip_address := inw_ip_address (gin_instance_network r), inw_cluster_floating_ip_id := f\<rparr>) (\<lambda>new.
             announce s queue_notice_cluster_instance_network_updated
               [(''OrigInstanceNetwork'', RInstanceNetwork old), (''InstanceNetwork'', RInstanceNetwork new)]
             return_nil)
         }
     })))"

definition sync_cluster_instance_network_list :: "network_sync \<Rightarrow> synchronizer \<Rightarrow> cluster_instance \<Rightarrow>
    get_instance_network_result list \<Rightarrow> err option op" where
  "sync_cluster_instance_network_list again s x rs =
     check (sync_deleted_instance_network_list s x rs) (for_err (sync_instance_network again s x) rs)"

text \<open>All links of the instance to security groups are deleted, then those reported are saved one by one.\<close>

definition sync_cluster_instance_security_group_list ::
    "group_sync \<Rightarrow> synchronizer \<Rightarrow> cluster_instance \<Rightarrow> cluster_security_group list \<Rightarrow> err option op" where
  "sync_cluster_instance_security_group_list again s x gs =
     check (transact [delete_instance_security_group_rows (\<lambda>r. cond_nat (ins_id x) (isg_cluster_instance_id r))])
       (for_err (\<lambda>g. fetch (get_security_group again s no_options (sg_uuid g)) (\<lambda>sg.
          transact [save_instance_security_group
            \<lparr>isg_cluster_instance_id = ins_id x, isg_cluster_security_group_id = sg_id sg\<rparr>])) gs)"

section \<open>Instances\<close>

text \<open>
  Without a keypair on either side the instances are equal whatever their tenant, zone,
  hypervisor and spec are; those are compared only when both sides have a keypair.
\<close>

definition same_instance :: "cluster_instance \<Rightarrow> cluster_instance \<Rightarrow> bool" where
  "same_instance d c = (ins_uuid d = ins_uuid c \<and> ins_name d = ins_name c \<and> ins_state d = ins_state c \<and>
     ins_status d = ins_status c \<and> ins_description d = ins_description c)"

definition row_with_id :: "(database \<Rightarrow> 'r list) \<Rightarrow> ('r \<Rightarrow> nat) \<Rightarrow> nat \<Rightarrow> (err + 'r) op" where
  "row_with_id table key i = find_row (\<lambda>db. filter (\<lambda>x. cond_nat i (key x)) (table db))"

definition compare_instance :: "cluster_instance \<Rightarrow> get_instance_result \<Rightarrow> bool op" where
  "compare_instance d r =
     (if \<not> same_instance d (gir_instance r) then State_Monad.return False
      else (case (gir_key_pair r, ins_cluster_keypair_id d) of
        (None, None) \<Rightarrow> State_Monad.return True
      | (Some kp, Some i) \<Rightarrow> do {
          q \<leftarrow> execute (both (row_with_id db_tenant tn_id (ins_cluster_tenant_id d))
            (both (row_with_id db_availability_zone az_id (ins_cluster_availability_zone_id d))
            (both (row_with_id db_hypervisor hv_id (ins_cluster_hypervisor_id d))
            (both (row_with_id db_instance_spec sp_id (ins_cluster_instance_spec_id d))
                  (row_with_id db_keypair kp_id i)))));
          State_Monad.return (case q of Inl _ \<Rightarrow> False
            | Inr (t, z, h, sp, k) \<Rightarrow> tn_uuid t = tn_uuid (gir_tenant r) \<and>
                az_name z = az_name (gir_availability_zone r) \<and> hv_uuid h = hv_uuid (gir_hypervisor r) \<and>
                sp_uuid sp = sp_uuid (gir_instance_spec r) \<and> kp_name k = kp_name kp)
        }
      | _ \<Rightarrow> State_Monad.return False))"

definition new_instance :: "string \<Rightarrow> cluster_instance" where
  "new_instance u = \<lparr>ins_id = 0, ins_cluster_tenant_id = 0, ins_cluster_availability_zone_id = 0,
     ins_cluster_hypervisor_id = 0, ins_cluster_instance_spec_id = 0, ins_cluster_keypair_id = None,
     ins_uuid = u, ins_name = '''', ins_description = None, ins_state = '''', ins_status = '''', ins_raw = None\<rparr>"

definition find_instance :: "synchronizer \<Rightarrow> cluster_instance \<Rightarrow> (err + cluster_instance) op" where
  "find_instance s x = execute (first_row ins_id (\<lambda>db. filter (\<lambda>r. tenant_of_cluster s (ins_cluster_tenant_id r) db \<and>
     cond_str (ins_uuid x) (ins_uuid r) \<and> cond_nat (ins_id x) (ins_id r)) (db_instance db)))"

definition save_instance_row :: "cluster_instance \<Rightarrow> (cluster_instance \<Rightarrow> err option op) \<Rightarrow> err option op" where
  "save_instance_row = save_row ins_id (\<lambda>i r. r\<lparr>ins_id := i\<rparr>) save_instance"

text \<open>Only the error of the security groups is returned.\<close>

definition sync_instance_parts :: "network_sync \<Rightarrow> group_sync \<Rightarrow> synchronizer \<Rightarrow> cluster_instance \<Rightarrow>
    get_instance_result \<Rightarrow> err option op" where
  "sync_instance_parts net grp s x res =
     ignoring (sync_cluster_instance_volume_list s x (gir_instance_volume_list res))
    (ignoring (sync_cluster_instance_network_list net s x (gir_instance_network_list res))
     (sync_cluster_instance_security_group_list grp s x (gir_security_group_list res)))"

text \<open>The keypair is optional: an error on the way to it is only logged.\<close>

definition instance_keypair :: "synchronizer \<Rightarrow> get_instance_result \<Rightarrow> cluster_instance op" where
  "instance_keypair s res = (case gir_key_pair res of None \<Rightarrow> State_Monad.return (gir_instance res)
     | Some kp \<Rightarrow> do {
         k \<leftarrow> get_keypair s (kp_name kp);
         State_Monad.return (case k of
           Inr (Some x) \<Rightarrow> gir_instance res\<lparr>ins_cluster_keypair_id := Some (kp_id x)\<rparr>
         | _ \<Rightarrow> gir_instance res)
       })"

text \<open>
  The rows an instance refers to, looked up or synchronised before it: when one of them cannot be
  had, the instance is left out.
\<close>

definition with_instance_owners :: "synchronizer \<Rightarrow> get_instance_result \<Rightarrow>
    (cluster_instance \<Rightarrow> err option op) \<Rightarrow> err option op" where
  "with_instance_owners s res k =
     (if az_name (gir_availability_zone res) = [] then return_nil
      else fetch (get_tenant s no_options (tn_uuid (gir_tenant res))) (\<lambda>t. case t of None \<Rightarrow> return_nil | Some t \<Rightarrow>
           fetch (get_availability_zone s no_options (az_name (gir_availability_zone res))) (\<lambda>z.
             case z of None \<Rightarrow> return_nil | Some z \<Rightarrow>
           fetch (get_hypervisor s no_options (hv_uuid (gir_hypervisor res))) (\<lambda>h.
             case h of None \<Rightarrow> return_nil | Some h \<Rightarrow>
           fetch (get_instance_spec s no_options (sp_uuid (gir_instance_spec res))) (\<lambda>sp. do {
             x \<leftarrow> instance_keypair s res;
             k (x\<lparr>ins_cluster_tenant_id := tn_id t, ins_cluster_availability_zone_id := az_id z,
               ins_cluster_hypervisor_id := hv_id h, ins_cluster_instance_spec_id := sp_id sp\<rparr>)
           })))))"

text \<open>
  The errors that say the cluster lost the hypervisor or the spec of an instance count as if it
  had lost the instance.
\<close>

definition respond_instance :: "err + 'a \<Rightarrow> err option op \<Rightarrow> err option op" where
  "respond_instance rsp k = (case rsp of
       Inl NotFoundInstanceHypervisor \<Rightarrow> k
     | Inl NotFoundInstanceSpec \<Rightarrow> k
     | _ \<Rightarrow> respond rsp k)"

definition sync_cluster_instance ::
    "network_sync \<Rightarrow> group_sync \<Rightarrow> synchronizer \<Rightarrow> options \<Rightarrow> cluster_instance \<Rightarrow> err option op" where
  "sync_cluster_instance net grp s opts x =
     unless_deleted s opts (do {
     rsp \<leftarrow> ask (sy_get_instance s (ins_uuid x));
     respond_instance rsp (
       (case rsp of Inl _ \<Rightarrow> (\<lambda>k. k x) | Inr res \<Rightarrow> with_instance_owners s res) (\<lambda>reported. do {
       row \<leftarrow> find_instance s x;
       compare_sides rsp row
         return_nil
         (\<lambda>old. delete_instance s old)
         (\<lambda>res. save_instance_row reported (\<lambda>new.
            announce s queue_notice_cluster_instance_created [(''Instance'', RInstance new)]
            (sync_instance_parts net grp s new res)))
         (\<lambda>res old. do {
            same \<leftarrow> (if opt_force opts then State_Monad.return False else compare_instance old res);
            if same then sync_instance_parts net grp s old res
            else save_instance_row (reported\<lparr>ins_id := ins_id old\<rparr>) (\<lambda>new.
              announce s queue_notice_cluster_instance_updated
                [(''OrigInstance'', RInstance old), (''Instance'', RInstance new)]
              (sync_instance_parts net grp s new res))
         })
     }))
   })"

definition sync_deleted_instance_list :: "synchronizer \<Rightarrow> get_instance_result list \<Rightarrow> err option op" where
  "sync_deleted_instance_list s rsp =
     fetch (db_res (execute (find_rows (\<lambda>db. filter (\<lambda>r. tenant_of_cluster s (ins_cluster_tenant_id r) db) (db_instance db)))))
       (delete_missing ins_uuid (delete_instance s) (map (\<lambda>x. ins_uuid (gir_instance x)) rsp))"

definition sync_cluster_instance_list :: "network_sync \<Rightarrow> group_sync \<Rightarrow> synchronizer \<Rightarrow> options \<Rightarrow> err option op" where
  "sync_cluster_instance_list net grp s opts =
     fetch (ask (sy_get_instance_list s)) (\<lambda>rsp.
     check (sync_deleted_instance_list s rsp)
     (sync_each (\<lambda>x. sync_cluster_instance net grp s opts (new_instance (ins_uuid (gir_instance x)))) rsp))"

section \<open>Waiting\<close>

text \<open>
  The two wait loops of \<open>sync/sync_util.go\<close>. Time is in milliseconds since the loop began: the
  \<open>i\<close>-th request takes \<open>took i\<close>, and between two requests the loop pauses for three seconds. The
  timer that ends the loop was started first, so it wins when it is due no later than the pause.
\<close>

definition poll_interval :: nat where
  "poll_interval = 3000"

function poll :: "nat \<Rightarrow> (nat \<Rightarrow> nat) \<Rightarrow> (nat \<Rightarrow> err + 'a) \<Rightarrow> (err \<Rightarrow> bool) \<Rightarrow> ('a \<Rightarrow> err option) \<Rightarrow> nat \<Rightarrow> nat \<Rightarrow>
    err option op" where
  "poll limit took request gone busy i elapsed = do {
     rsp \<leftarrow> ask request;
     case rsp of
       Inl e \<Rightarrow> State_Monad.return (if gone e then None else Some e)
     | Inr x \<Rightarrow>
         (case busy x of None \<Rightarrow> State_Monad.return None
          | Some timeout \<Rightarrow>
              (if elapsed + took i + poll_interval < limit
               then poll limit took request gone busy (Suc i) (elapsed + took i + poll_interval)
               else State_Monad.return (Some timeout)))
   }"
  by pat_completeness auto

termination poll
  by (relation "measure (\<lambda>(limit, took, request, gone, busy, i, elapsed). limit - elapsed)")
     (auto simp: poll_interval_def)

declare poll.simps [simp del]

definition volume_states :: "string list" where
  "volume_states = [''attaching'', ''deleting'', ''extending'', ''unmanaging'', ''detaching'', ''retyping'']"

definition wait_volume_status :: "(nat \<Rightarrow> nat) \<Rightarrow> synchronizer \<Rightarrow> string \<Rightarrow> err option op" where
  "wait_volume_status took s u = poll 120000 took (sy_get_volume s u)
     (\<lambda>e. e = ClientNotFound \<or> e = NotFoundVolumeType)
     (\<lambda>r. if vol_status (gvr_volume r) \<in> set volume_states
        then Some (VolumeStatusTimeout (vol_status (gvr_volume r)) u) else None) 0 0"

definition wait_instance_status :: "(nat \<Rightarrow> nat) \<Rightarrow> synchronizer \<Rightarrow> string \<Rightarrow> err option op" where
  "wait_instance_status took s u = poll 60000 took (sy_get_instance s u)
     (\<lambda>e. e = ClientNotFound \<or> e = NotFoundInstanceHypervisor)
     (\<lambda>r. if ins_status (gir_instance r) = ''MIGRATING''
        then Some (InstanceStatusTimeout (ins_status (gir_instance r)) u) else None) 0 0"

text \<open>A wait asks the cluster at least once and at most once every three seconds, and changes nothing.\<close>

lemma poll_settles:
  "\<exists>e n. run_state (poll limit took request gone busy i elapsed) w = (e, w\<lparr>w_ticks := w_ticks w + Suc n\<rparr>) \<and>
     (n = 0 \<or> elapsed + poll_interval * n < limit)"
proof (induction limit took request gone busy i elapsed arbitrary: w rule: poll.induct)
  case (1 limit took request gone busy i elapsed)
  let ?w = "w\<lparr>w_ticks := Suc (w_ticks w)\<rparr>"
  have stop: "\<exists>n. ?w = w\<lparr>w_ticks := w_ticks w + Suc n\<rparr> \<and> (n = 0 \<or> elapsed + poll_interval * n < limit)"
    by (rule exI [of _ 0]) simp
  show ?case
  proof (cases "\<exists>x t. request (w_ticks w) = Inr x \<and> busy x = Some t \<and> elapsed + took i + poll_interval < limit")
    case True
    then obtain x t where x: "request (w_ticks w) = Inr x" "busy x = Some t"
      "elapsed + took i + poll_interval < limit" by blast
    obtain e n where
      "run_state (poll limit took request gone busy (Suc i) (elapsed + took i + poll_interval)) ?w
         = (e, ?w\<lparr>w_ticks := w_ticks ?w + Suc n\<rparr>)"
      "n = 0 \<or> elapsed + took i + poll_interval + poll_interval * n < limit"
      using 1 [OF x(2,3), of ?w] by blast
    then show ?thesis using x
      by (intro exI [of _ e] exI [of _ "Suc n"]) (subst poll.simps, auto)
  next
    case False
    then have "snd (run_state (poll limit took request gone busy i elapsed) w) = ?w"
      by (subst poll.simps) (auto split: sum.split option.split)
    then show ?thesis using stop by (metis prod.collapse)
  qed
qed

end
