(* ===== verification/ClusterSync.thy ===== *)
theory ClusterSync
  imports SyncInstance "HOL-Library.AList"
begin

text \<open>
  The synchronisation of a whole cluster (\<open>sync/cluster.go\<close>), how a synchroniser is made
  (\<open>NewSynchronizer\<close> of \<open>sync/sync.go\<close>) and how the credential of a cluster is decrypted for it
  (\<open>client/client.go\<close>).
\<close>

section \<open>Credentials\<close>

text \<open>
  Bytes are characters. \<open>None\<close> is a panic, which \<open>decryptAESCBC\<close> turns into an error. The block
  cipher itself, \<open>cbc key iv text\<close>, and the decoding of base 64 are parameters.
\<close>

definition pkcs5_trimming :: "string \<Rightarrow> string option" where
  "pkcs5_trimming b = (if b = [] then None
     else (let p = (of_char (last b) :: nat) in
       if p \<le> length b then Some (take (length b - p) b) else None))"

definition decrypt_aes_cbc ::
    "(string \<Rightarrow> string \<Rightarrow> string \<Rightarrow> string) \<Rightarrow> string \<Rightarrow> string \<Rightarrow> string \<Rightarrow> string + string" where
  "decrypt_aes_cbc cbc c k iv =
     (if length k \<notin> {16, 24, 32} then Inl ''invalid key size''
      else if length iv \<noteq> 16 then Inl ''IV length must equal block size''
      else if length c mod 16 \<noteq> 0 then Inl ''input not full blocks''
      else (case pkcs5_trimming (cbc k iv c) of None \<Rightarrow> Inl ''runtime error'' | Some p \<Rightarrow> Inr p))"

definition decrypt_credential_password ::
    "(string \<Rightarrow> string option) \<Rightarrow> (string \<Rightarrow> string \<Rightarrow> string \<Rightarrow> string) \<Rightarrow> string \<Rightarrow> string \<Rightarrow> err + string" where
  "decrypt_credential_password base64 cbc k password =
     (case base64 password of None \<Rightarrow> Inl (Unknown ''illegal base64 data'')
      | Some c \<Rightarrow> map_sum Unknown (\<lambda>p. p) (decrypt_aes_cbc cbc c k k))"

text \<open>Text of \<open>n\<close> bytes is padded with 1 to 16 bytes that say how many they are.\<close>

definition pkcs5_padded :: "string \<Rightarrow> string" where
  "pkcs5_padded p = (let n = 16 - length p mod 16 in p @ replicate n (char_of n))"

lemma pkcs5_trimming_padded: "pkcs5_trimming (pkcs5_padded p) = Some p"
proof -
  let ?n = "16 - length p mod 16"
  have n: "0 < ?n" "?n \<le> 16" by (simp_all add: less_imp_le)
  then have "(of_char (char_of ?n :: char) :: nat) = ?n" by (simp add: of_char_of)
  then show ?thesis using n by (simp add: pkcs5_trimming_def pkcs5_padded_def Let_def)
qed

section \<open>Making a synchroniser\<close>

text \<open>
  \<open>connect\<close> stands for decrypting the credential, creating a client of the cluster's type,
  connecting it and checking its authority.
\<close>

type_synonym connector = "cluster \<Rightarrow> nat \<Rightarrow> err + synchronizer"

definition new_synchronizer :: "connector \<Rightarrow> nat \<Rightarrow> (err + synchronizer) op" where
  "new_synchronizer connect cid = do {
     r \<leftarrow> execute (first_row cl_id (\<lambda>db. filter (\<lambda>c. cond_nat cid (cl_id c)) (db_cluster db)));
     case r of
       Inl RecordNotFound \<Rightarrow> State_Monad.return (Inl (NotFoundCluster cid))
     | Inl e \<Rightarrow> State_Monad.return (Inl (unusable_database e))
     | Inr c \<Rightarrow> do {
         q \<leftarrow> ask (connect c);
         State_Monad.return (map_sum (\<lambda>e. e) (\<lambda>s. s\<lparr>sy_cluster_id := cid\<rparr>) q)
       }
   }"

section \<open>Names of the resources\<close>

definition resource_tenant_list :: string where "resource_tenant_list = ''cluster.tenant.list.sync''"
definition resource_availability_zone_list :: string where
  "resource_availability_zone_list = ''cluster.availability_zone.list.sync''"
definition resource_hypervisor_list :: string where
  "resource_hypervisor_list = ''cluster.hypervisor.list.sync''"
definition resource_security_group_list :: string where
  "resource_security_group_list = ''cluster.security_group.list.sync''"
definition resource_network_list :: string where "resource_network_list = ''cluster.network.list.sync''"
definition resource_router_list :: string where "resource_router_list = ''cluster.router.list.sync''"
definition resource_storage_list :: string where "resource_storage_list = ''cluster.storage.list.sync''"
definition resource_volume_list :: string where "resource_volume_list = ''cluster.volume.list.sync''"
definition resource_volume_snapshot_list :: string where
  "resource_volume_snapshot_list = ''cluster.volume-snapshot.list.sync''"
definition resource_keypair_list :: string where "resource_keypair_list = ''cluster.keypair.list.sync''"
definition resource_instance_list :: string where "resource_instance_list = ''cluster.instance.list.sync''"
definition resource_instance_spec_list :: string where
  "resource_instance_spec_list = ''cluster.instance.spec.list.sync''"

lemmas list_resource_defs = resource_tenant_list_def resource_availability_zone_list_def
  resource_hypervisor_list_def resource_security_group_list_def resource_network_list_def
  resource_router_list_def resource_storage_list_def resource_volume_list_def
  resource_volume_snapshot_list_def resource_keypair_list_def resource_instance_list_def
  resource_instance_spec_list_def

definition completed :: string where "completed = ''cluster.sync.completed''"
definition failed :: string where "failed = ''cluster.sync.failed''"
definition running :: string where "running = ''cluster.sync.running''"

lemmas completion_defs = completed_def failed_def running_def

section \<open>Progress\<close>

text \<open>
  The two maps of the loop: which resources are synchronised, and what is shown of each. They are
  association lists with one entry per key; the order in which Go walks through a map is the
  order of the list.
\<close>

record sync_round =
  sr_func :: "(string \<times> bool) list"
  sr_status :: "(string \<times> string) list"

definition check_failed_sync_func :: "(string \<times> bool) list \<Rightarrow> bool" where
  "check_failed_sync_func m = list_ex (\<lambda>(k, v). \<not> v) m"

definition finished_count :: "(string \<times> string) list \<Rightarrow> nat" where
  "finished_count completion = length (filter (\<lambda>(k, v). v = completed \<or> v = failed) completion)"

definition sync_progress :: "(string \<times> string) list \<Rightarrow> int" where
  "sync_progress completion = (let n = int (finished_count completion) in
     if n \<le> 2 then n * 5 else (n - 1) * 10)"

definition publish_to_status :: "nat \<Rightarrow> (string \<times> string) list \<Rightarrow> err option op" where
  "publish_to_status cid completion = publish (PublishedDoc queue_notice_cluster_sync_status
     (JObj (put_nat ''cluster_id'' cid @
       unless (completion = []) ''completion'' (JObj (map (\<lambda>(k, v). (k, JStr v)) completion)) @
       put_int ''progress'' (sync_progress completion))))"

section \<open>The loop\<close>

definition show_status :: "nat \<Rightarrow> string \<Rightarrow> string \<Rightarrow> sync_round \<Rightarrow> sync_round op" where
  "show_status cid r v st = (let st' = st\<lparr>sr_status := AList.update r v (sr_status st)\<rparr> in
     do { _ \<leftarrow> publish_to_status cid (sr_status st'); State_Monad.return st' })"

definition sync_resource :: "nat \<Rightarrow> string \<times> err option op \<Rightarrow> sync_round \<Rightarrow> sync_round op" where
  "sync_resource cid x st = (case x of (r, m) \<Rightarrow> do {
     st1 \<leftarrow> (if map_of (sr_status st) r \<noteq> Some completed then show_status cid r running st
             else State_Monad.return st);
     if map_of (sr_func st1) r = Some True then State_Monad.return st1
     else do {
       e \<leftarrow> m;
       case e of
         None \<Rightarrow> show_status cid r completed (st1\<lparr>sr_func := AList.update r True (sr_func st1)\<rparr>)
       | Some _ \<Rightarrow> show_status cid r failed st1
     }
   })"

fun sync_resources :: "nat \<Rightarrow> (string \<times> err option op) list \<Rightarrow> sync_round \<Rightarrow> sync_round op" where
  "sync_resources cid [] st = State_Monad.return st"
| "sync_resources cid (x # xs) st = do { st1 \<leftarrow> sync_resource cid x st; sync_resources cid xs st1 }"

text \<open>
  The instance specs are synchronised in every round, whatever happened before: their entry of the
  first map is never set.
\<close>

definition sync_specs :: "err option op \<Rightarrow> sync_round \<Rightarrow> sync_round op" where
  "sync_specs m st = do {
     e \<leftarrow> m;
     State_Monad.return (st\<lparr>sr_status := AList.update resource_instance_spec_list
       (if e = None then completed else failed) (sr_status st)\<rparr>)
   }"

text \<open>At most \<open>n\<close> rounds are left. The pause before the second and the third one is left out.\<close>

fun sync_rounds :: "nat \<Rightarrow> (string \<times> err option op) list \<Rightarrow> err option op \<Rightarrow> nat \<Rightarrow> sync_round \<Rightarrow> sync_round op" where
  "sync_rounds cid steps specs 0 st = State_Monad.return st"
| "sync_rounds cid steps specs (Suc n) st =
     (if check_failed_sync_func (sr_func st) then do {
        st1 \<leftarrow> sync_resources cid steps st;
        st2 \<leftarrow> sync_specs specs st1;
        sync_rounds cid steps specs n st2
      } else State_Monad.return st)"

text \<open>What is synchronised, in this order; \<open>k\<close> bounds how deep networks and groups nest.\<close>

definition cluster_steps :: "nat \<Rightarrow> synchronizer \<Rightarrow> (string \<times> err option op) list" where
  "cluster_steps k s = [
     (resource_tenant_list, sync_cluster_tenant_list s no_options),
     (resource_availability_zone_list, sync_cluster_availability_zone_list s no_options),
     (resource_hypervisor_list, sync_cluster_hypervisor_list s no_options),
     (resource_security_group_list, sync_cluster_security_group_list k s no_options),
     (resource_network_list, sync_cluster_network_list k s no_options),
     (resource_router_list, sync_cluster_router_list (sync_cluster_network k s) s no_options),
     (resource_storage_list, sync_cluster_storage_list s no_options),
     (resource_volume_list, sync_cluster_volume_list s no_options),
     (resource_volume_snapshot_list, sync_cluster_volume_snapshot_list s no_options),
     (resource_keypair_list, sync_cluster_keypair_list s),
     (resource_instance_list, sync_cluster_instance_list (sync_cluster_network k s)
        (sync_cluster_security_group k s) s no_options)]"

definition first_round :: "(string \<times> err option op) list \<Rightarrow> sync_round" where
  "first_round steps = \<lparr>sr_func = map (\<lambda>(r, m). (r, False)) steps,
     sr_status = map (\<lambda>(r, m). (r, ''waiting'')) steps\<rparr>"

definition failed_resources :: "(string \<times> bool) list \<Rightarrow> sync_message list" where
  "failed_resources m = map (\<lambda>(k, v). make_failed_message k) (filter (\<lambda>(k, v). \<not> v) m)"

definition status_code :: "string \<Rightarrow> sync_status" where
  "status_code c = \<lparr>ss_status_code = c, ss_reasons = [], ss_started_at = 0\<rparr>"

text \<open>\<open>Failed\<close> with the resources that could not be synchronised, or \<open>Done\<close>.\<close>

definition final_status :: "(string \<times> bool) list \<Rightarrow> sync_status" where
  "final_status m = (if failed_resources m \<noteq> []
     then (status_code cluster_sync_state_code_failed)\<lparr>ss_reasons := failed_resources m\<rparr>
     else status_code cluster_sync_state_code_done)"

definition sync_all :: "nat \<Rightarrow> (string \<times> err option op) list \<Rightarrow> err option op \<Rightarrow> err option op" where
  "sync_all cid steps specs =
     check (set_status cid (status_code cluster_sync_state_code_running)) (do {
       st \<leftarrow> sync_rounds cid steps specs 3 (first_round steps);
       set_status cid (final_status (sr_func st))
     })"

text \<open>An error that ends the function is followed by the attempt to store the status \<open>Failed\<close>.\<close>

definition or_failed :: "nat \<Rightarrow> err option op \<Rightarrow> err option op" where
  "or_failed cid m = do {
     e \<leftarrow> m;
     if e = None then State_Monad.return None
     else do { _ \<leftarrow> set_status cid (status_code cluster_sync_state_code_failed); State_Monad.return e }
   }"

definition sync_cluster :: "connector \<Rightarrow> nat \<Rightarrow> cluster \<Rightarrow> err option op" where
  "sync_cluster connect k c = do {
     t \<leftarrow> now;
     check (set_status (cl_id c) ((status_code cluster_sync_state_code_init)\<lparr>ss_started_at := t\<rparr>))
       (fetch (new_synchronizer connect (cl_id c)) (\<lambda>s.
         or_failed (cl_id c) (sync_all (cl_id c) (cluster_steps k s) (sync_cluster_instance_spec_list s))))
   }"

end
