(* ===== verification/Reserve.thy ===== *)
theory Reserve
  imports ClusterSync
begin

text \<open>
  Reserved synchronisations (\<open>sync/sync.go\<close>): events name resources, \<open>Reserve\<close> remembers them per
  cluster, and \<open>ReservedSync\<close> takes everything that is remembered and synchronises it; what fails is
  reserved again. The global map is passed explicitly. The maps of Go are association lists with
  one entry per key; the order in which Go walks through them is the order of the list.
\<close>

section \<open>Names of the resources\<close>

definition resource_tenant :: string where "resource_tenant = ''cluster.tenant.sync''"
definition resource_security_group :: string where "resource_security_group = ''cluster.security_group.sync''"
definition resource_security_group_rule :: string where
  "resource_security_group_rule = ''cluster.security_group_rule.sync''"
definition resource_network :: string where "resource_network = ''cluster.network.sync''"
definition resource_subnet :: string where "resource_subnet = ''cluster.subnet.sync''"
definition resource_router :: string where "resource_router = ''cluster.router.sync''"
definition resource_floating_ip :: string where "resource_floating_ip = ''cluster.floating-ip.sync''"
definition resource_storage :: string where "resource_storage = ''cluster.storage.sync''"
definition resource_volume :: string where "resource_volume = ''cluster.volume.sync''"
definition resource_volume_snapshot :: string where "resource_volume_snapshot = ''cluster.volume-snapshot.sync''"
definition resource_keypair :: string where "resource_keypair = ''cluster.keypair.sync''"
definition resource_instance :: string where "resource_instance = ''cluster.instance.sync''"

lemmas resource_defs = resource_tenant_def resource_security_group_def resource_security_group_rule_def
  resource_network_def resource_subnet_def resource_router_def resource_floating_ip_def
  resource_storage_def resource_volume_def resource_volume_snapshot_def resource_keypair_def
  resource_instance_def

section \<open>Reservations\<close>

type_synonym by_tenant = "(string \<times> string) list"

record reserved =
  rv_availability_zone_list :: bool
  rv_hypervisor_list :: bool
  rv_projects :: "(string \<times> bool) list"
  rv_instances :: by_tenant
  rv_keypairs :: "(string \<times> bool) list"
  rv_volumes :: by_tenant
  rv_volume_snapshots :: by_tenant
  rv_volume_types :: "(string \<times> bool) list"
  rv_networks :: by_tenant
  rv_subnets :: by_tenant
  rv_security_groups :: by_tenant
  rv_security_group_rules :: by_tenant
  rv_routers :: by_tenant
  rv_floating_ips :: by_tenant

definition no_reservation :: reserved where
  "no_reservation = \<lparr>rv_availability_zone_list = False, rv_hypervisor_list = False, rv_projects = [],
     rv_instances = [], rv_keypairs = [], rv_volumes = [], rv_volume_snapshots = [], rv_volume_types = [],
     rv_networks = [], rv_subnets = [], rv_security_groups = [], rv_security_group_rules = [],
     rv_routers = [], rv_floating_ips = []\<rparr>"

type_synonym reserved_map = "(nat \<times> reserved) list"

text \<open>An empty identifier is accepted only for the two lists.\<close>

definition reserve_resource :: "string \<Rightarrow> string \<Rightarrow> string \<Rightarrow> reserved \<Rightarrow> reserved" where
  "reserve_resource ty u t rs =
     (if u = [] \<and> ty \<noteq> resource_availability_zone_list \<and> ty \<noteq> resource_hypervisor_list then rs
      else if ty = resource_availability_zone_list then rs\<lparr>rv_availability_zone_list := True\<rparr>
      else if ty = resource_hypervisor_list then rs\<lparr>rv_hypervisor_list := True\<rparr>
      else if ty = resource_tenant then rs\<lparr>rv_projects := AList.update u True (rv_projects rs)\<rparr>
      else if ty = resource_instance then rs\<lparr>rv_instances := AList.update u t (rv_instances rs)\<rparr>
      else if ty = resource_keypair then rs\<lparr>rv_keypairs := AList.update u True (rv_keypairs rs)\<rparr>
      else if ty = resource_volume then rs\<lparr>rv_volumes := AList.update u t (rv_volumes rs)\<rparr>
      else if ty = resource_volume_snapshot
        then rs\<lparr>rv_volume_snapshots := AList.update u t (rv_volume_snapshots rs)\<rparr>
      else if ty = resource_storage then rs\<lparr>rv_volume_types := AList.update u True (rv_volume_types rs)\<rparr>
      else if ty = resource_network then rs\<lparr>rv_networks := AList.update u t (rv_networks rs)\<rparr>
      else if ty = resource_subnet then rs\<lparr>rv_subnets := AList.update u t (rv_subnets rs)\<rparr>
      else if ty = resource_security_group
        then rs\<lparr>rv_security_groups := AList.update u t (rv_security_groups rs)\<rparr>
      else if ty = resource_security_group_rule
        then rs\<lparr>rv_security_group_rules := AList.update u t (rv_security_group_rules rs)\<rparr>
      else if ty = resource_router then rs\<lparr>rv_routers := AList.update u t (rv_routers rs)\<rparr>
      else if ty = resource_floating_ip then rs\<lparr>rv_floating_ips := AList.update u t (rv_floating_ips rs)\<rparr>
      else rs)"

definition reserve :: "nat \<Rightarrow> string \<Rightarrow> string \<Rightarrow> string \<Rightarrow> reserved_map \<Rightarrow> reserved_map" where
  "reserve cid ty u t m =
     AList.update cid (reserve_resource ty u t (case map_of m cid of None \<Rightarrow> no_reservation | Some rs \<Rightarrow> rs)) m"

section \<open>Synchronising what is reserved\<close>

text \<open>The failures so far, and the map into which they are reserved again.\<close>

record reserved_run =
  rr_reasons :: "sync_message list"
  rr_map :: reserved_map

definition reserve_again :: "nat \<Rightarrow> string \<Rightarrow> string \<Rightarrow> string \<Rightarrow> reserved_run \<Rightarrow> reserved_run" where
  "reserve_again cid ty u t r = r\<lparr>rr_reasons := rr_reasons r @ [make_failed_message ty],
     rr_map := reserve cid ty u t (rr_map r)\<rparr>"

fun sync_reserved :: "nat \<Rightarrow> string \<Rightarrow> (string \<Rightarrow> string \<Rightarrow> err option op) \<Rightarrow> by_tenant \<Rightarrow> reserved_run \<Rightarrow>
    reserved_run op" where
  "sync_reserved cid ty f [] r = State_Monad.return r"
| "sync_reserved cid ty f ((u, t) # xs) r = do {
     e \<leftarrow> f u t;
     sync_reserved cid ty f xs (if e = None then r else reserve_again cid ty u t r)
   }"

definition without_tenant :: "(string \<times> bool) list \<Rightarrow> by_tenant" where
  "without_tenant = map (\<lambda>(u, b). (u, ''''))"

text \<open>The option that names the tenant is given even when its name is empty.\<close>

definition tenant_uuid :: "string \<Rightarrow> options" where
  "tenant_uuid t = no_options\<lparr>opt_tenant_uuid := t\<rparr>"

text \<open>
  The wait for an instance stores its error in the variable that the deferred function reads, so
  the loop carries it along.
\<close>

fun sync_reserved_instances :: "nat \<Rightarrow> (string \<Rightarrow> err option op) \<Rightarrow> (string \<Rightarrow> string \<Rightarrow> err option op) \<Rightarrow> by_tenant \<Rightarrow>
    err option \<Rightarrow> reserved_run \<Rightarrow> (err option \<times> reserved_run) op" where
  "sync_reserved_instances cid waiting f [] e r = State_Monad.return (e, r)"
| "sync_reserved_instances cid waiting f ((u, t) # xs) e r = do {
     e1 \<leftarrow> waiting u;
     e2 \<leftarrow> (if e1 = None then f u t else State_Monad.return e1);
     sync_reserved_instances cid waiting f xs e1
       (if e2 = None then r else reserve_again cid resource_instance u t r)
   }"

text \<open>Everything after the two lists, in the order of the code; then the status is stored.\<close>

definition reserved_sync_resources ::
    "(nat \<Rightarrow> nat) \<Rightarrow> nat \<Rightarrow> synchronizer \<Rightarrow> nat \<Rightarrow> reserved \<Rightarrow> err option \<Rightarrow> reserved_run \<Rightarrow> (err option \<times> reserved_run) op" where
  "reserved_sync_resources took k s cid rs e r0 = (
     let net = sync_cluster_network k s; grp = sync_cluster_security_group k s in do {
     r1 \<leftarrow> sync_reserved cid resource_security_group
       (\<lambda>u t. grp (tenant_uuid t) (new_security_group u)) (rv_security_groups rs) r0;
     r2 \<leftarrow> sync_reserved cid resource_security_group_rule
       (\<lambda>u t. sync_cluster_security_group_rule grp s (tenant_uuid t) (new_security_group_rule u)) (rv_security_group_rules rs) r1;
     r3 \<leftarrow> sync_reserved cid resource_network (\<lambda>u t. net (tenant_uuid t) (new_network u)) (rv_networks rs) r2;
     r4 \<leftarrow> sync_reserved cid resource_subnet
       (\<lambda>u t. sync_cluster_subnet net s (tenant_uuid t) (new_subnet u)) (rv_subnets rs) r3;
     r5 \<leftarrow> sync_reserved cid resource_router
       (\<lambda>u t. sync_cluster_router net s (tenant_uuid t) (new_router u)) (rv_routers rs) r4;
     r6 \<leftarrow> sync_reserved cid resource_floating_ip
       (\<lambda>u t. sync_cluster_floating_ip net s (tenant_uuid t) (new_floating_ip u)) (rv_floating_ips rs) r5;
     r7 \<leftarrow> sync_reserved cid resource_storage
       (\<lambda>u t. sync_cluster_storage s no_options (new_storage u)) (without_tenant (rv_volume_types rs)) r6;
     r8 \<leftarrow> sync_reserved cid resource_volume
       (\<lambda>u t. check (wait_volume_status took s u) (sync_cluster_volume s (tenant_uuid t) (new_volume u))) (rv_volumes rs) r7;
     r9 \<leftarrow> sync_reserved cid resource_volume_snapshot
       (\<lambda>u t. sync_cluster_volume_snapshot s (tenant_uuid t) (new_volume_snapshot u)) (rv_volume_snapshots rs) r8;
     r10 \<leftarrow> sync_reserved cid resource_keypair
       (\<lambda>u t. sync_cluster_keypair s (new_keypair u)) (without_tenant (rv_keypairs rs)) r9;
     (e', r11) \<leftarrow> sync_reserved_instances cid (wait_instance_status took s)
       (\<lambda>u t. sync_cluster_instance net grp s (tenant_uuid t) (new_instance u)) (rv_instances rs) e r10;
     _ \<leftarrow> set_status cid (if rr_reasons r11 \<noteq> []
       then (status_code cluster_sync_state_code_failed)\<lparr>ss_reasons := rr_reasons r11\<rparr>
       else status_code cluster_sync_state_code_done);
     State_Monad.return (e', r11)
   })"

text \<open>
  Each of the two lists ends the function with \<open>return nil\<close>: what else is reserved is neither
  synchronised nor kept, and the status stays \<open>Running\<close>.
\<close>

definition reserved_sync_body ::
    "(nat \<Rightarrow> nat) \<Rightarrow> nat \<Rightarrow> synchronizer \<Rightarrow> nat \<Rightarrow> reserved \<Rightarrow> err option \<Rightarrow> reserved_run \<Rightarrow> (err option \<times> reserved_run) op" where
  "reserved_sync_body took k s cid rs e r = do {
     r0 \<leftarrow> sync_reserved cid resource_tenant
       (\<lambda>u t. sync_cluster_tenant s no_options (new_tenant u)) (without_tenant (rv_projects rs)) r;
     if rv_availability_zone_list rs then do {
       e0 \<leftarrow> sync_cluster_availability_zone_list s no_options;
       State_Monad.return (e, if e0 = None then r0
         else reserve_again cid resource_availability_zone_list [] [] r0)
     }
     else if rv_hypervisor_list rs then do {
       e0 \<leftarrow> sync_cluster_hypervisor_list s no_options;
       State_Monad.return (e, if e0 = None then r0
         else reserve_again cid resource_hypervisor_list [] [] r0)
     }
     else reserved_sync_resources took k s cid rs e r0
   }"

definition cluster_db_lock :: "err option op" where
  "cluster_db_lock = do { f \<leftarrow> pop_fault; State_Monad.return (map_option Unknown f) }"

text \<open>The error, and the map afterwards. Closing the client changes nothing here.\<close>

definition reserved_sync ::
    "connector \<Rightarrow> (nat \<Rightarrow> nat) \<Rightarrow> nat \<Rightarrow> nat \<Rightarrow> reserved \<Rightarrow> reserved_map \<Rightarrow> (err option \<times> reserved_map) op" where
  "reserved_sync connect took k cid rs m = do {
     locked \<leftarrow> cluster_db_lock;
     if locked \<noteq> None then State_Monad.return (locked, m) else do {
       t \<leftarrow> now;
       _ \<leftarrow> set_status cid ((status_code cluster_sync_state_code_init)\<lparr>ss_started_at := t\<rparr>);
       q \<leftarrow> new_synchronizer connect cid;
       case q of
         Inl e \<Rightarrow> State_Monad.return (Some e, m)
       | Inr s \<Rightarrow> do {
           e \<leftarrow> set_status cid (status_code cluster_sync_state_code_running);
           (e', r) \<leftarrow> reserved_sync_body took k s cid rs e \<lparr>rr_reasons = [], rr_map = m\<rparr>;
           _ \<leftarrow> (if e' = None then return_nil
             else set_status cid (status_code cluster_sync_state_code_failed));
           State_Monad.return (None, rr_map r)
         }
     }
   }"

text \<open>All reservations are taken at once; the errors of single clusters are only logged.\<close>

fun reserved_sync_clusters ::
    "connector \<Rightarrow> (nat \<Rightarrow> nat) \<Rightarrow> nat \<Rightarrow> reserved_map \<Rightarrow> reserved_map \<Rightarrow> reserved_map op" where
  "reserved_sync_clusters connect took k [] m = State_Monad.return m"
| "reserved_sync_clusters connect took k ((cid, rs) # xs) m = do {
     r \<leftarrow> reserved_sync connect took k cid rs m;
     reserved_sync_clusters connect took k xs (snd r)
   }"

definition reserved_sync_all :: "connector \<Rightarrow> (nat \<Rightarrow> nat) \<Rightarrow> nat \<Rightarrow> reserved_map \<Rightarrow> reserved_map op" where
  "reserved_sync_all connect took k m = reserved_sync_clusters connect took k m []"

end
