(* ===== verification/WellFormed.thy ===== *)
theory WellFormed
  imports Reserve Confinement
begin

text \<open>
  Every statement the synchroniser executes leaves a well-formed database well-formed, saves
  included: a deletion removes rows nothing refers to, a save replaces the row of its key or adds
  a row under a key that is not in use, and its foreign keys have been checked.
\<close>

section \<open>Deletions\<close>

text \<open>A statement that is confined to the whole database is only known to keep it well-formed.\<close>

lemma sound_wf_confined:
  assumes "\<And>c. sound (confined (\<lambda>_. UNIV) c) q"
  shows "sound wf_db q"
proof (rule soundI)
  fix db d assume "wf_db db" "q db = Inr d"
  with assms [of db] confined_self [of db] have "confined (\<lambda>_. UNIV) db d"
    unfolding sound_def by blast
  then show "wf_db d" by (simp add: confined_def)
qed

named_theorems wf_statements "statements that keep a database well-formed"

lemma wf_delete_volume_rows [wf_statements]: "sound wf_db (delete_volume_rows P)"
  by (rule sound_wf_confined, rule sound_volume_rows) simp

lemma wf_delete_volume_snapshot_rows [wf_statements]: "sound wf_db (delete_volume_snapshot_rows P)"
  by (rule sound_wf_confined, rule sound_volume_snapshot_rows) simp

lemma wf_delete_instance_volume_rows [wf_statements]: "sound wf_db (delete_instance_volume_rows P)"
  by (rule sound_wf_confined, rule sound_instance_volume_rows) simp

lemma wf_delete_instance_network_rows [wf_statements]: "sound wf_db (delete_instance_network_rows P)"
  by (rule sound_wf_confined, rule sound_instance_network_rows) simp

lemma wf_delete_instance_security_group_rows [wf_statements]: "sound wf_db (delete_instance_security_group_rows P)"
  by (rule sound_wf_confined, rule sound_instance_security_group_rows) simp

lemma wf_delete_instance_user_script_rows [wf_statements]: "sound wf_db (delete_instance_user_script_rows P)"
  by (rule sound_wf_confined, rule sound_instance_user_script_rows) simp

lemma wf_delete_instance_rows [wf_statements]: "sound wf_db (delete_instance_rows P)"
  by (rule sound_wf_confined, rule sound_instance_rows) simp

lemma wf_delete_security_group_rule_rows [wf_statements]: "sound wf_db (delete_security_group_rule_rows P)"
  by (rule sound_wf_confined, rule sound_security_group_rule_rows) simp

lemma wf_delete_security_group_rows [wf_statements]: "sound wf_db (delete_security_group_rows P)"
  by (rule sound_wf_confined, rule sound_security_group_rows) simp

lemma wf_delete_floating_ip_rows [wf_statements]: "sound wf_db (delete_floating_ip_rows P)"
  by (rule sound_wf_confined, rule sound_floating_ip_rows) simp

lemma wf_delete_routing_interface_rows [wf_statements]: "sound wf_db (delete_routing_interface_rows P)"
  by (rule sound_wf_confined, rule sound_routing_interface_rows) simp

lemma wf_delete_extra_route_rows [wf_statements]: "sound wf_db (delete_extra_route_rows P)"
  by (rule sound_wf_confined, rule sound_extra_route_rows) simp

lemma wf_delete_router_rows [wf_statements]: "sound wf_db (delete_router_rows P)"
  by (rule sound_wf_confined, rule sound_router_rows) simp

lemma wf_delete_nameserver_rows [wf_statements]: "sound wf_db (delete_nameserver_rows P)"
  by (rule sound_wf_confined, rule sound_nameserver_rows) simp

lemma wf_delete_dhcp_pool_rows [wf_statements]: "sound wf_db (delete_dhcp_pool_rows P)"
  by (rule sound_wf_confined, rule sound_dhcp_pool_rows) simp

lemma wf_delete_subnet_rows [wf_statements]: "sound wf_db (delete_subnet_rows P)"
  by (rule sound_wf_confined, rule sound_subnet_rows) simp

lemma wf_delete_network_rows [wf_statements]: "sound wf_db (delete_network_rows P)"
  by (rule sound_wf_confined, rule sound_network_rows) simp

lemma wf_delete_hypervisor_rows [wf_statements]: "sound wf_db (delete_hypervisor_rows P)"
  by (rule sound_wf_confined, rule sound_hypervisor_rows) simp

lemma wf_delete_availability_zone_rows [wf_statements]: "sound wf_db (delete_availability_zone_rows P)"
  by (rule sound_wf_confined, rule sound_availability_zone_rows) simp

lemma wf_delete_quota_rows [wf_statements]: "sound wf_db (delete_quota_rows P)"
  by (rule sound_wf_confined, rule sound_quota_rows) simp

lemma wf_delete_tenant_rows [wf_statements]: "sound wf_db (delete_tenant_rows P)"
  by (rule sound_wf_confined, rule sound_tenant_rows) simp

lemma wf_delete_storage_rows [wf_statements]: "sound wf_db (delete_storage_rows P)"
  by (rule sound_wf_confined, rule sound_storage_rows) simp

lemma wf_delete_extra_spec_rows [wf_statements]: "sound wf_db (delete_extra_spec_rows P)"
proof (rule soundI)
  fix db d assume db: "wf_db db" and d: "delete_extra_spec_rows P db = Inr d"
  have "d = db\<lparr>db_extra_spec := filter (\<lambda>r. \<not> P r) (db_extra_spec db)\<rparr>"
    using deleted_rows [OF d [unfolded delete_extra_spec_rows_def]] by blast
  with db show "wf_db d" by (simp add: wf_db_def)
qed

lemma wf_delete_instance_spec_rows [wf_statements]: "sound wf_db (delete_instance_spec_rows P)"
proof (rule soundI)
  fix db d assume db: "wf_db db" and d: "delete_instance_spec_rows P db = Inr d"
  have "d = db\<lparr>db_instance_spec := filter (\<lambda>r. \<not> P r) (db_instance_spec db)\<rparr>"
    using deleted_rows [OF d [unfolded delete_instance_spec_rows_def]] by blast
  with db show "wf_db d" by (simp add: wf_db_def)
qed

lemma wf_delete_keypair_rows [wf_statements]: "sound wf_db (delete_keypair_rows P)"
proof (rule soundI)
  fix db d assume db: "wf_db db" and d: "delete_keypair_rows P db = Inr d"
  have "d = db\<lparr>db_keypair := filter (\<lambda>r. \<not> P r) (db_keypair db)\<rparr>"
    using deleted_rows [OF d [unfolded delete_keypair_rows_def]] by blast
  with db show "wf_db d" by (simp add: wf_db_def)
qed

section \<open>Saves\<close>

text \<open>
  The rows afterwards: the old ones and the new one, under the same keys and at most one more. What
  the constraint was checked against is a row of the same key.
\<close>

lemma saved_rows:
  assumes "map_sum (\<lambda>m. m) f (save_into pk ok new rows) = Inr d"
  shows "\<exists>rs old. d = f rs \<and> set rs \<subseteq> insert new (set rows) \<and>
     (distinct (map pk rows) \<longrightarrow> distinct (map pk rs)) \<and>
     (\<forall>r \<in> set rows. \<exists>r' \<in> set rs. pk r' = pk r) \<and>
     ok old new \<and> (\<forall>r. old = Some r \<longrightarrow> r \<in> set rows \<and> pk r = pk new)"
proof (cases "List.find (\<lambda>r. pk r = pk new) rows")
  case None
  then have "d = f (rows @ [new])" "ok None new"
    using assms by (simp_all add: save_into_def split: if_splits)
  moreover have "pk new \<notin> pk ` set rows"
    using None by (auto simp: find_None_iff)
  ultimately show ?thesis by (intro exI [of _ "rows @ [new]"] exI [of _ None]) auto
next
  case (Some old)
  let ?rs = "map (\<lambda>r. if pk r = pk new then new else r) rows"
  have old: "old \<in> set rows" "pk old = pk new"
    using Some by (auto simp: find_Some_iff)
  have keys: "map pk ?rs = map pk rows" by simp
  have "d = f ?rs" "ok (Some old) new"
    using assms Some by (simp_all add: save_into_def split: if_splits)
  moreover have "\<forall>r \<in> set rows. \<exists>r' \<in> set ?rs. pk r' = pk r"
    by (metis (no_types, lifting) image_eqI image_iff keys list.set_map)
  moreover have "set ?rs \<subseteq> insert new (set rows)" by auto
  moreover have "distinct (map pk rows) \<longrightarrow> distinct (map pk ?rs)" unfolding keys ..
  ultimately show ?thesis
    using old by (intro exI [of _ ?rs] exI [of _ "Some old"]) blast
qed

lemma saved_set:
  assumes "map_sum (\<lambda>m. m) f (save_into pk ok new rows) = Inr d"
  shows "\<exists>rs. d = f rs \<and> set rs \<subseteq> insert new (set rows) \<and>
    (distinct (map pk rows) \<longrightarrow> distinct (map pk rs))"
  using saved_rows [OF assms] by blast

lemma saved_check:
  assumes "map_sum (\<lambda>m. m) f (save_into pk ok new rows) = Inr d"
  shows "\<exists>old. ok old new \<and> (\<forall>r. old = Some r \<longrightarrow> r \<in> set rows \<and> pk r = pk new)"
  using saved_rows [OF assms] by blast

text \<open>All rows of a table have keys that are not zero, before a save and after it.\<close>

lemma saved_nonzero:
  assumes "set rs \<subseteq> insert new (set rows)" and "pk new \<noteq> 0" and "\<forall>r \<in> set rows. pk r \<noteq> 0"
  shows "\<forall>r \<in> set rs. pk r \<noteq> (0::nat)"
  using assms by auto

lemma wf_keyed:
  assumes "wf_db db"
  shows "\<forall>r \<in> set (db_hypervisor db). hv_id r \<noteq> 0" "\<forall>r \<in> set (db_instance db). ins_id r \<noteq> 0"
    "\<forall>r \<in> set (db_security_group db). sg_id r \<noteq> 0"
    "\<forall>r \<in> set (db_security_group_rule db). sgr_id r \<noteq> 0"
    "\<forall>r \<in> set (db_network db). nw_id r \<noteq> 0" "\<forall>r \<in> set (db_floating_ip db). fip_id r \<noteq> 0"
    "\<forall>r \<in> set (db_subnet db). sn_id r \<noteq> 0" "\<forall>r \<in> set (db_router db). rt_id r \<noteq> 0"
    "\<forall>r \<in> set (db_volume db). vol_id r \<noteq> 0" "\<forall>r \<in> set (db_volume_snapshot db). vs_id r \<noteq> 0"
    "\<forall>r \<in> set (db_instance_network db). inw_id r \<noteq> 0"
  using assms by (simp_all add: wf_db_def)

lemma wf_save_hypervisor [wf_statements]:
  assumes "hv_id r \<noteq> 0"
  shows "sound wf_db (save_hypervisor r)"
proof (rule soundI)
  fix db d assume db: "wf_db db" and d: "save_hypervisor r db = Inr d"
  from saved_set [OF d [unfolded save_hypervisor_def]] obtain rs where rs:
    "d = db\<lparr>db_hypervisor := rs\<rparr>" "set rs \<subseteq> insert r (set (db_hypervisor db))"
    "distinct (map hv_id (db_hypervisor db)) \<longrightarrow> distinct (map hv_id rs)" by blast
  from saved_nonzero [OF rs(2) assms wf_keyed(1) [OF db]]
  show "wf_db d" using db rs(3) by (simp add: rs(1) wf_db_def)
qed

lemma wf_save_instance [wf_statements]:
  assumes "ins_id r \<noteq> 0"
  shows "sound wf_db (save_instance r)"
proof (rule soundI)
  fix db d assume db: "wf_db db" and d: "save_instance r db = Inr d"
  from saved_set [OF d [unfolded save_instance_def]] obtain rs where rs:
    "d = db\<lparr>db_instance := rs\<rparr>" "set rs \<subseteq> insert r (set (db_instance db))"
    "distinct (map ins_id (db_instance db)) \<longrightarrow> distinct (map ins_id rs)" by blast
  from saved_nonzero [OF rs(2) assms wf_keyed(2) [OF db]]
  show "wf_db d" using db rs(3) by (simp add: rs(1) wf_db_def)
qed

lemma wf_save_security_group [wf_statements]:
  assumes "sg_id r \<noteq> 0"
  shows "sound wf_db (save_security_group r)"
proof (rule soundI)
  fix db d assume db: "wf_db db" and d: "save_security_group r db = Inr d"
  from saved_set [OF d [unfolded save_security_group_def]] obtain rs where rs:
    "d = db\<lparr>db_security_group := rs\<rparr>" "set rs \<subseteq> insert r (set (db_security_group db))"
    "distinct (map sg_id (db_security_group db)) \<longrightarrow> distinct (map sg_id rs)" by blast
  from saved_nonzero [OF rs(2) assms wf_keyed(3) [OF db]]
  show "wf_db d" using db rs(3) by (simp add: rs(1) wf_db_def)
qed

lemma wf_save_security_group_rule [wf_statements]:
  assumes "sgr_id r \<noteq> 0"
  shows "sound wf_db (save_security_group_rule r)"
proof (rule soundI)
  fix db d assume db: "wf_db db" and d: "save_security_group_rule r db = Inr d"
  from saved_set [OF d [unfolded save_security_group_rule_def]] obtain rs where rs:
    "d = db\<lparr>db_security_group_rule := rs\<rparr>" "set rs \<subseteq> insert r (set (db_security_group_rule db))"
    "distinct (map sgr_id (db_security_group_rule db)) \<longrightarrow> distinct (map sgr_id rs)" by blast
  from saved_nonzero [OF rs(2) assms wf_keyed(4) [OF db]]
  show "wf_db d" using db rs(3) by (simp add: rs(1) wf_db_def)
qed

lemma wf_save_network [wf_statements]:
  assumes "nw_id r \<noteq> 0"
  shows "sound wf_db (save_network r)"
proof (rule soundI)
  fix db d assume db: "wf_db db" and d: "save_network r db = Inr d"
  from saved_set [OF d [unfolded save_network_def]] obtain rs where rs:
    "d = db\<lparr>db_network := rs\<rparr>" "set rs \<subseteq> insert r (set (db_network db))"
    "distinct (map nw_id (db_network db)) \<longrightarrow> distinct (map nw_id rs)" by blast
  from saved_nonzero [OF rs(2) assms wf_keyed(5) [OF db]]
  show "wf_db d" using db rs(3) by (simp add: rs(1) wf_db_def)
qed

lemma wf_save_floating_ip [wf_statements]:
  assumes "fip_id r \<noteq> 0"
  shows "sound wf_db (save_floating_ip r)"
proof (rule soundI)
  fix db d assume db: "wf_db db" and d: "save_floating_ip r db = Inr d"
  from saved_set [OF d [unfolded save_floating_ip_def]] obtain rs where rs:
    "d = db\<lparr>db_floating_ip := rs\<rparr>" "set rs \<subseteq> insert r (set (db_floating_ip db))"
    "distinct (map fip_id (db_floating_ip db)) \<longrightarrow> distinct (map fip_id rs)" by blast
  from saved_nonzero [OF rs(2) assms wf_keyed(6) [OF db]]
  show "wf_db d" using db rs(3) by (simp add: rs(1) wf_db_def)
qed

lemma wf_save_subnet [wf_statements]:
  assumes "sn_id r \<noteq> 0"
  shows "sound wf_db (save_subnet r)"
proof (rule soundI)
  fix db d assume db: "wf_db db" and d: "save_subnet r db = Inr d"
  from saved_set [OF d [unfolded save_subnet_def]] obtain rs where rs:
    "d = db\<lparr>db_subnet := rs\<rparr>" "set rs \<subseteq> insert r (set (db_subnet db))"
    "distinct (map sn_id (db_subnet db)) \<longrightarrow> distinct (map sn_id rs)" by blast
  from saved_nonzero [OF rs(2) assms wf_keyed(7) [OF db]]
  show "wf_db d" using db rs(3) by (simp add: rs(1) wf_db_def)
qed

lemma wf_save_router [wf_statements]:
  assumes "rt_id r \<noteq> 0"
  shows "sound wf_db (save_router r)"
proof (rule soundI)
  fix db d assume db: "wf_db db" and d: "save_router r db = Inr d"
  from saved_set [OF d [unfolded save_router_def]] obtain rs where rs:
    "d = db\<lparr>db_router := rs\<rparr>" "set rs \<subseteq> insert r (set (db_router db))"
    "distinct (map rt_id (db_router db)) \<longrightarrow> distinct (map rt_id rs)" by blast
  from saved_nonzero [OF rs(2) assms wf_keyed(8) [OF db]]
  show "wf_db d" using db rs(3) by (simp add: rs(1) wf_db_def)
qed

lemma wf_save_volume [wf_statements]:
  assumes "vol_id r \<noteq> 0"
  shows "sound wf_db (save_volume r)"
proof (rule soundI)
  fix db d assume db: "wf_db db" and d: "save_volume r db = Inr d"
  from saved_rows [OF d [unfolded save_volume_def]] obtain rs where rs:
    "d = db\<lparr>db_volume := rs\<rparr>" "set rs \<subseteq> insert r (set (db_volume db))"
    "\<forall>v \<in> set (db_volume db). \<exists>v' \<in> set rs. vol_id v' = vol_id v" by blast
  have "\<forall>x \<in> set rs. vol_id x \<noteq> 0" by (rule saved_nonzero [OF rs(2) assms wf_keyed(9) [OF db]])
  moreover have "\<forall>x \<in> set (db_instance_volume db). \<exists>v \<in> set rs. vol_id v = ivol_cluster_volume_id x"
    using wf_attachment [OF db] rs(3) by metis
  ultimately show "wf_db d" using db by (simp add: rs(1) wf_db_def)
qed

lemma wf_save_volume_snapshot [wf_statements]:
  assumes "vs_id r \<noteq> 0"
  shows "sound wf_db (save_volume_snapshot r)"
proof (rule soundI)
  fix db d assume db: "wf_db db" and d: "save_volume_snapshot r db = Inr d"
  from saved_set [OF d [unfolded save_volume_snapshot_def]] obtain rs where rs:
    "d = db\<lparr>db_volume_snapshot := rs\<rparr>" "set rs \<subseteq> insert r (set (db_volume_snapshot db))"
    "distinct (map vs_id (db_volume_snapshot db)) \<longrightarrow> distinct (map vs_id rs)" by blast
  from saved_nonzero [OF rs(2) assms wf_keyed(10) [OF db]]
  show "wf_db d" using db rs(3) by (simp add: rs(1) wf_db_def)
qed

lemma wf_save_instance_network [wf_statements]:
  assumes "inw_id r \<noteq> 0"
  shows "sound wf_db (save_instance_network r)"
proof (rule soundI)
  fix db d assume db: "wf_db db" and d: "save_instance_network r db = Inr d"
  from saved_set [OF d [unfolded save_instance_network_def]] obtain rs where rs:
    "d = db\<lparr>db_instance_network := rs\<rparr>" "set rs \<subseteq> insert r (set (db_instance_network db))"
    "distinct (map inw_id (db_instance_network db)) \<longrightarrow> distinct (map inw_id rs)" by blast
  from saved_nonzero [OF rs(2) assms wf_keyed(11) [OF db]]
  show "wf_db d" using db rs(3) by (simp add: rs(1) wf_db_def)
qed

lemma wf_save_tenant [wf_statements]: "sound wf_db (save_tenant r)"
proof (rule soundI)
  fix db d assume db: "wf_db db" and d: "save_tenant r db = Inr d"
  from saved_set [OF d [unfolded save_tenant_def]] obtain rs where "d = db\<lparr>db_tenant := rs\<rparr>" by blast
  with db show "wf_db d" by (simp add: wf_db_def)
qed

lemma wf_save_quota [wf_statements]: "sound wf_db (save_quota r)"
proof (rule soundI)
  fix db d assume db: "wf_db db" and d: "save_quota r db = Inr d"
  from saved_set [OF d [unfolded save_quota_def]] obtain rs where "d = db\<lparr>db_quota := rs\<rparr>" by blast
  with db show "wf_db d" by (simp add: wf_db_def)
qed

lemma wf_save_availability_zone [wf_statements]: "sound wf_db (save_availability_zone r)"
proof (rule soundI)
  fix db d assume db: "wf_db db" and d: "save_availability_zone r db = Inr d"
  from saved_set [OF d [unfolded save_availability_zone_def]] obtain rs where "d = db\<lparr>db_availability_zone := rs\<rparr>" by blast
  with db show "wf_db d" by (simp add: wf_db_def)
qed

lemma wf_save_storage [wf_statements]: "sound wf_db (save_storage r)"
proof (rule soundI)
  fix db d assume db: "wf_db db" and d: "save_storage r db = Inr d"
  from saved_set [OF d [unfolded save_storage_def]] obtain rs where "d = db\<lparr>db_storage := rs\<rparr>" by blast
  with db show "wf_db d" by (simp add: wf_db_def)
qed

lemma wf_save_keypair [wf_statements]: "sound wf_db (save_keypair r)"
proof (rule soundI)
  fix db d assume db: "wf_db db" and d: "save_keypair r db = Inr d"
  from saved_set [OF d [unfolded save_keypair_def]] obtain rs where "d = db\<lparr>db_keypair := rs\<rparr>" by blast
  with db show "wf_db d" by (simp add: wf_db_def)
qed

lemma wf_save_instance_spec [wf_statements]: "sound wf_db (save_instance_spec r)"
proof (rule soundI)
  fix db d assume db: "wf_db db" and d: "save_instance_spec r db = Inr d"
  from saved_set [OF d [unfolded save_instance_spec_def]] obtain rs where "d = db\<lparr>db_instance_spec := rs\<rparr>" by blast
  with db show "wf_db d" by (simp add: wf_db_def)
qed

lemma wf_save_extra_spec [wf_statements]: "sound wf_db (save_extra_spec r)"
proof (rule soundI)
  fix db d assume db: "wf_db db" and d: "save_extra_spec r db = Inr d"
  from saved_set [OF d [unfolded save_extra_spec_def]] obtain rs where "d = db\<lparr>db_extra_spec := rs\<rparr>" by blast
  with db show "wf_db d" by (simp add: wf_db_def)
qed

lemma wf_save_nameserver [wf_statements]: "sound wf_db (save_nameserver r)"
proof (rule soundI)
  fix db d assume db: "wf_db db" and d: "save_nameserver r db = Inr d"
  from saved_set [OF d [unfolded save_nameserver_def]] obtain rs where "d = db\<lparr>db_nameserver := rs\<rparr>" by blast
  with db show "wf_db d" by (simp add: wf_db_def)
qed

lemma wf_save_dhcp_pool [wf_statements]: "sound wf_db (save_dhcp_pool r)"
proof (rule soundI)
  fix db d assume db: "wf_db db" and d: "save_dhcp_pool r db = Inr d"
  from saved_set [OF d [unfolded save_dhcp_pool_def]] obtain rs where "d = db\<lparr>db_dhcp_pool := rs\<rparr>" by blast
  with db show "wf_db d" by (simp add: wf_db_def)
qed

lemma wf_save_extra_route [wf_statements]: "sound wf_db (save_extra_route r)"
proof (rule soundI)
  fix db d assume db: "wf_db db" and d: "save_extra_route r db = Inr d"
  from saved_set [OF d [unfolded save_extra_route_def]] obtain rs where "d = db\<lparr>db_extra_route := rs\<rparr>" by blast
  with db show "wf_db d" by (simp add: wf_db_def)
qed

text \<open>The key of these rows is a pair of foreign keys, and no row has the identifier zero.\<close>

lemma wf_links:
  assumes "wf_db db"
  shows "r1 \<in> set (db_routing_interface db) \<Longrightarrow> ri_cluster_router_id r1 \<noteq> 0"
    "r2 \<in> set (db_instance_security_group db) \<Longrightarrow> isg_cluster_instance_id r2 \<noteq> 0"
    "r3 \<in> set (db_instance_volume db) \<Longrightarrow> ivol_cluster_instance_id r3 \<noteq> 0"
  using assms by (simp_all add: wf_db_def)

text \<open>The first column of such a key is not zero.\<close>

lemma checked_nonzero:
  assumes "points_to col pk parents old r" and "\<forall>x. old = Some x \<longrightarrow> x \<in> set rows \<and> col x = col r"
    and "\<And>p. p \<in> set parents \<Longrightarrow> pk p \<noteq> 0" and "\<And>x. x \<in> set rows \<Longrightarrow> col x \<noteq> 0"
  shows "col r \<noteq> (0::nat)"
proof (cases old)
  case None
  then show ?thesis using assms(1,3) by (fastforce simp: points_to_def changed_def list_ex_iff)
next
  case (Some x)
  with assms(2) have "x \<in> set rows" "col x = col r" by blast+
  then show ?thesis using assms(4) [of x] by simp
qed

lemma wf_save_routing_interface [wf_statements]: "sound wf_db (save_routing_interface r)"
proof (rule soundI)
  fix db d assume db: "wf_db db" and d: "save_routing_interface r db = Inr d"
  obtain rs where rs: "d = db\<lparr>db_routing_interface := rs\<rparr>" "set rs \<subseteq> insert r (set (db_routing_interface db))"
    using saved_set [OF d [unfolded save_routing_interface_def]] by blast
  from saved_check [OF d [unfolded save_routing_interface_def]] obtain old where
    fk: "points_to ri_cluster_router_id rt_id (db_router db) old r"
    and old: "\<forall>x. old = Some x \<longrightarrow> x \<in> set (db_routing_interface db) \<and>
      (ri_cluster_router_id x, ri_cluster_subnet_id x) = (ri_cluster_router_id r, ri_cluster_subnet_id r)" by blast
  have "\<forall>x. old = Some x \<longrightarrow> x \<in> set (db_routing_interface db) \<and> ri_cluster_router_id x = ri_cluster_router_id r" using old unfolding prod.inject by blast
  then have nz: "ri_cluster_router_id r \<noteq> 0"
    by (rule checked_nonzero [OF fk _ wf_ids(7) [OF db] wf_links(1) [OF db]])
  have "\<forall>x \<in> set rs. ri_cluster_router_id x \<noteq> 0"
    using rs(2) nz wf_links(1) [OF db] by auto
  then show "wf_db d" using db by (simp add: rs(1) wf_db_def)
qed

lemma wf_save_instance_security_group [wf_statements]: "sound wf_db (save_instance_security_group r)"
proof (rule soundI)
  fix db d assume db: "wf_db db" and d: "save_instance_security_group r db = Inr d"
  obtain rs where rs: "d = db\<lparr>db_instance_security_group := rs\<rparr>"
      "set rs \<subseteq> insert r (set (db_instance_security_group db))"
    using saved_set [OF d [unfolded save_instance_security_group_def]] by blast
  from saved_check [OF d [unfolded save_instance_security_group_def]] obtain old where
    fk: "points_to isg_cluster_instance_id ins_id (db_instance db) old r"
    and old: "\<forall>x. old = Some x \<longrightarrow> x \<in> set (db_instance_security_group db) \<and>
      (isg_cluster_instance_id x, isg_cluster_security_group_id x) = (isg_cluster_instance_id r, isg_cluster_security_group_id r)" by blast
  have "\<forall>x. old = Some x \<longrightarrow> x \<in> set (db_instance_security_group db) \<and> isg_cluster_instance_id x = isg_cluster_instance_id r" using old unfolding prod.inject by blast
  then have nz: "isg_cluster_instance_id r \<noteq> 0"
    by (rule checked_nonzero [OF fk _ wf_ids(2) [OF db] wf_links(2) [OF db]])
  have "\<forall>x \<in> set rs. isg_cluster_instance_id x \<noteq> 0"
    using rs(2) nz wf_links(2) [OF db] by auto
  then show "wf_db d" using db by (simp add: rs(1) wf_db_def)
qed

lemma wf_save_instance_volume [wf_statements]: "sound wf_db (save_instance_volume r)"
proof (rule soundI)
  fix db d assume db: "wf_db db" and d: "save_instance_volume r db = Inr d"
  obtain rs where rs: "d = db\<lparr>db_instance_volume := rs\<rparr>" "set rs \<subseteq> insert r (set (db_instance_volume db))"
    using saved_set [OF d [unfolded save_instance_volume_def]] by blast
  from saved_check [OF d [unfolded save_instance_volume_def]] obtain old where
    fk: "points_to ivol_cluster_instance_id ins_id (db_instance db) old r"
      "points_to ivol_cluster_volume_id vol_id (db_volume db) old r"
    and old: "\<forall>x. old = Some x \<longrightarrow> x \<in> set (db_instance_volume db) \<and>
      (ivol_cluster_instance_id x, ivol_cluster_volume_id x) =
      (ivol_cluster_instance_id r, ivol_cluster_volume_id r)" by blast
  have "\<forall>x. old = Some x \<longrightarrow> x \<in> set (db_instance_volume db) \<and>
      ivol_cluster_instance_id x = ivol_cluster_instance_id r" using old unfolding prod.inject by blast
  then have nz: "ivol_cluster_instance_id r \<noteq> 0"
    by (rule checked_nonzero [OF fk(1) _ wf_ids(2) [OF db] wf_links(3) [OF db]])
  have "\<forall>x \<in> set rs. ivol_cluster_instance_id x \<noteq> 0"
    using rs(2) nz wf_links(3) [OF db] by auto
  moreover have "\<exists>v \<in> set (db_volume db). vol_id v = ivol_cluster_volume_id r"
  proof (cases old)
    case None
    then show ?thesis using fk(2) by (simp add: points_to_def changed_def list_ex_iff)
  next
    case (Some x)
    then show ?thesis using old wf_attachment [OF db, of x] by simp
  qed
  then have "\<forall>x \<in> set rs. \<exists>v \<in> set (db_volume db). vol_id v = ivol_cluster_volume_id x"
    using rs(2) wf_attachment [OF db] by blast
  ultimately show "wf_db d" using db by (simp add: rs(1) wf_db_def)
qed

end
