(* ===== verification/Upheld.thy ===== *)
theory Upheld
  imports WellFormed
begin

text \<open>
  What every synchronisation upholds. The locale \<open>upheld\<close> has a predicate on worlds, for the inside
  and for the outside of a transaction, that the primitive steps of a synchronisation preserve;
  in it every function of the synchroniser is shown to preserve it, in worlds in which any call
  may fail and for every behaviour of the cluster. Its interpretations are about well-formed
  databases, worlds without failures, the status of a synchronisation in the store, and what is
  shown of its progress.
\<close>

section \<open>Queries and documents\<close>

text \<open>What a query does to the world does not depend on what is queried.\<close>

lemma read_world:
  "snd (run_state (statement (\<lambda>db. Inr (f db, db))) w) = snd (run_state (exec Inr) w)"
  by (simp add: exec_def statement_def split: prod.split sum.split option.split)

lemma sound_read: "sound F Inr"
  by (rule soundI) simp

text \<open>The documents of volumes and storages have other keys than the status of the synchronisation.\<close>

lemma volume_key_not_status: "cluster_sync_status_key i \<noteq> cluster_volume_key c v @ q"
  using cluster_key_inject [of i "''sync/status''" c "''volumes/'' @ itoa v @ q"]
  by (auto simp: cluster_sync_status_key_def cluster_volume_key_def)

lemma storage_key_not_status: "cluster_sync_status_key i \<noteq> cluster_storage_key c v @ q"
  using cluster_key_inject [of i "''sync/status''" c "''storages/'' @ itoa v @ q"]
  by (auto simp: cluster_sync_status_key_def cluster_storage_key_def)

lemmas key_not_status = volume_key_not_status volume_key_not_status [of _ _ _ "[]", simplified]
  storage_key_not_status storage_key_not_status [of _ _ _ "[]", simplified]

definition spares_status :: "((string \<Rightarrow> document option) \<Rightarrow> string \<Rightarrow> document option) \<Rightarrow> bool" where
  "spares_status g \<longleftrightarrow> (\<forall>m i. g m (cluster_sync_status_key i) = m (cluster_sync_status_key i))"

section \<open>The interface\<close>

named_theorems up_intros "operations that uphold a predicate"

locale upheld =
  fixes P :: "bool \<Rightarrow> world \<Rightarrow> bool"
  assumes pop: "P t w \<Longrightarrow> P t (snd (run_state pop_fault w))"
    and tick: "P t w \<Longrightarrow> P t (w\<lparr>w_ticks := Suc (w_ticks w)\<rparr>)"
    and sent: "P t w \<Longrightarrow> P t (w\<lparr>w_events := w_events w @ [Published topic cid rows]\<rparr>)"
    and cleared: "P t w \<Longrightarrow> P t (w\<lparr>w_events := w_events w @ [SharedTaskCleared cid i u ty]\<rparr>)"
    and stored: "P t w \<Longrightarrow> spares_status g \<Longrightarrow> P t (w\<lparr>w_kv := g (w_kv w)\<rparr>)"
    and drawn_id: "P t w \<Longrightarrow> P t (w\<lparr>w_seq := Suc (w_seq w)\<rparr>)"
    and executed: "sound wf_db q \<Longrightarrow> P t w \<Longrightarrow> P t (snd (run_state (exec q) w))"
    and tx_opened: "P False w \<Longrightarrow> P True (w\<lparr>w_tx := Open\<rparr>)"
    and tx_closed: "P False w0 \<Longrightarrow> P True w \<Longrightarrow>
      P False (w\<lparr>w_tx := NoTx, w_db := (if b then w_db w0 else w_db w)\<rparr>)"
begin

lemmas up_structure [up_intros] = keeps_return keeps_bind keeps_get keeps_if keeps_option keeps_sum
  keeps_prod keeps_execute keeps_db_res keeps_db_err keeps_check keeps_fetch keeps_ignoring
  keeps_return_nil keeps_for_err keeps_for_last

lemma up_pop_fault [up_intros]: "keeps (P t) pop_fault"
  by (rule keepsI) (rule pop)

lemma up_ask [up_intros]: "keeps (P t) (ask f)" "keeps (P t) now"
  by (simp_all add: keeps_def tick)

lemma up_modify: "(\<And>w. P t w \<Longrightarrow> P t (f w)) \<Longrightarrow> keeps (P t) (modify f)"
  by (simp add: keeps_def)

lemma up_publish [up_intros]: "keeps (P t) (publish (Published topic cid rows))"
  unfolding publish_def by (intro up_intros up_modify sent)

lemma up_announce [up_intros]: "keeps (P t) k \<Longrightarrow> keeps (P t) (announce s topic rows k)"
  unfolding announce_def by (intro up_intros)

lemma up_clear_shared_task [up_intros]: "keeps (P t) (clear_shared_task cid i u ty)"
  unfolding clear_shared_task_def by (intro up_modify cleared)

lemma up_exec [up_intros]: "sound wf_db q \<Longrightarrow> keeps (P t) (exec q)"
  by (rule keepsI) (rule executed)

lemma up_read: "keeps (P t) (statement (\<lambda>db. Inr (f db, db)))"
  by (rule keepsI) (simp only: read_world, rule executed [OF sound_read])

lemma up_execute_err [up_intros]: "keeps (P t) m \<Longrightarrow> keeps (P t) (execute_err m)"
  unfolding execute_err_def by (intro up_intros)

lemma up_find_rows [up_intros]: "keeps (P t) (find_rows sel)"
  unfolding find_rows_def by (rule up_read)

lemma up_find_all [up_intros]: "keeps (P t) (find_all tab Q)"
  unfolding find_all_def by (rule up_find_rows)

lemma up_find_row [up_intros]: "keeps (P t) (find_row sel)"
  unfolding find_row_def by (intro up_intros)

lemma up_first_row [up_intros]: "keeps (P t) (first_row key sel)"
  unfolding first_row_def by (intro up_intros up_read)

lemma up_both [up_intros]: "keeps (P t) m \<Longrightarrow> keeps (P t) n \<Longrightarrow> keeps (P t) (both m n)"
  unfolding both_def by (intro up_intros)

lemma up_exec_all [up_intros]: "\<forall>q \<in> set qs. sound wf_db q \<Longrightarrow> keeps (P t) (exec_all qs)"
  by (induction qs) (auto simp: exec_all.simps intro!: up_intros)

lemma up_transaction_with [up_intros]:
  assumes "keeps (P True) m"
  shows "keeps (P False) (gorm_transaction_with d m)"
proof (rule keepsI)
  fix w assume w: "P False w"
  obtain f w1 where f: "run_state pop_fault w = (f, w1)" by force
  then have w1: "P False w1" using pop [OF w] by simp
  show "P False (snd (run_state (gorm_transaction_with d m) w))"
  proof (cases f)
    case (Some e)
    then show ?thesis using f w1 by (simp add: gorm_transaction_with_def)
  next
    case None
    obtain x w2 where m: "run_state m (w1\<lparr>w_tx := Open\<rparr>) = (x, w2)" by force
    then have "P True w2" using keepsD [OF assms tx_opened [OF w1]] by simp
    obtain g w3 where g: "run_state pop_fault w2 = (g, w3)" by force
    then have "P True w3" using pop [OF \<open>P True w2\<close>] by simp
    then have "P False (w3\<lparr>w_tx := NoTx, w_db := (if w_tx w3 = Aborted \<or> g \<noteq> None then w_db w1 else w_db w3)\<rparr>)"
      by (rule tx_closed [OF w1])
    then show ?thesis using f None m g by (simp add: gorm_transaction_with_def)
  qed
qed

lemma up_gorm_transaction [up_intros]: "keeps (P True) m \<Longrightarrow> keeps (P False) (gorm_transaction m)"
  unfolding gorm_transaction_def by (intro up_intros)

lemma up_transact [up_intros]: "\<forall>q \<in> set qs. sound wf_db q \<Longrightarrow> keeps (P False) (transact qs)"
  unfolding transact_def by (intro up_intros)

text \<open>The key a row is saved under is not zero.\<close>

lemma up_fresh_id [up_intros]: "keeps (P t) (fresh_id i)"
  by (auto simp: keeps_def fresh_id_def drawn_id)

lemma fresh_id_nonzero: "fst (run_state (fresh_id i) w) \<noteq> 0"
  by (simp add: fresh_id_def)

lemma up_save_statement [up_intros]:
  assumes "\<And>j. j \<noteq> 0 \<Longrightarrow> sound wf_db (q j)"
  shows "keeps (P t) (save_statement i q)"
proof (rule keepsI)
  fix w assume w: "P t w"
  obtain j w1 where j: "run_state (fresh_id i) w = (j, w1)" by force
  then have "P t w1" "j \<noteq> 0"
    using keepsD [OF up_fresh_id w, of i] fresh_id_nonzero [of i w] by auto
  then have "P t (snd (run_state (exec (q j)) w1))" using executed assms by blast
  then show "P t (snd (run_state (save_statement i q) w))"
    using j by (cases "run_state (exec (q j)) w1") (simp_all add: save_statement_def)
qed

lemma up_saving [up_intros]:
  "(\<And>j. j \<noteq> 0 \<Longrightarrow> sound wf_db (q j)) \<Longrightarrow> (\<And>j. keeps (P False) (k j)) \<Longrightarrow> keeps (P False) (saving i q k)"
  unfolding saving_def by (intro up_intros)

lemma up_save_row [up_intros]:
  "(\<And>j x. j \<noteq> 0 \<Longrightarrow> sound wf_db (stmt (set_key j x))) \<Longrightarrow> (\<And>x. keeps (P False) (k x)) \<Longrightarrow>
   keeps (P False) (save_row key set_key stmt r k)"
  unfolding save_row_def by (intro up_intros)

lemma up_save_all [up_intros]:
  "(\<And>i r. sound wf_db (stmt i r)) \<Longrightarrow> keeps (P t) (save_all key stmt rs)"
  by (induction rs) (auto intro!: up_intros)

section \<open>The store\<close>

lemma up_load [up_intros]: "keeps (P t) (load k dec missing)"
  unfolding load_def store_get_def by (intro up_intros)

lemma up_save: "(\<And>i. k \<noteq> cluster_sync_status_key i) \<Longrightarrow> keeps (P t) (save k j)"
  unfolding save_def store_put_def store_update_def
  by (intro up_intros up_modify stored) (auto simp: spares_status_def)

lemma up_erase_prefix:
  "(\<And>i. \<not> has_prefix k (cluster_sync_status_key i)) \<Longrightarrow> keeps (P t) (erase_prefix k)"
  unfolding erase_prefix_def store_delete_prefix_def store_update_def
  by (intro up_intros up_modify stored) (simp_all add: spares_status_def)

lemma up_agent [up_intros]: "keeps (P t) (get_agent cid)"
  unfolding get_agent_def by (intro up_intros)

lemma up_get_volume [up_intros]: "keeps (P t) (get_volume cid i)"
  unfolding get_volume_def
  by (intro up_intros)

lemma up_put_volume [up_intros]: "keeps (P t) (put_volume v)"
  unfolding put_volume_def volume_get_key_def
  by (intro up_intros up_save key_not_status [symmetric])

lemma up_delete_volume_document [up_intros]: "keeps (P t) (delete_volume_document v)"
  unfolding delete_volume_document_def volume_get_key_def
  by (intro up_erase_prefix, simp add: has_prefix_iff key_not_status)

lemma up_get_volume_metadata [up_intros]: "keeps (P t) (get_volume_metadata v)"
  unfolding get_volume_metadata_def
  by (intro up_intros)

lemma up_set_volume_metadata [up_intros]: "keeps (P t) (set_volume_metadata v md)"
  unfolding set_volume_metadata_def volume_get_key_def
  by (intro up_intros up_save key_not_status [symmetric])

lemma up_get_storage [up_intros]: "keeps (P t) (get_storage cid i)"
  unfolding get_storage_def
  by (intro up_intros)

lemma up_put_storage [up_intros]: "keeps (P t) (put_storage d)"
  unfolding put_storage_def storage_get_key_def
  by (intro up_intros up_save key_not_status [symmetric])

lemma up_delete_storage_document [up_intros]: "keeps (P t) (delete_storage_document d)"
  unfolding delete_storage_document_def storage_get_key_def
  by (intro up_erase_prefix, simp add: has_prefix_iff key_not_status)

lemma up_get_storage_metadata [up_intros]: "keeps (P t) (get_storage_metadata d)"
  unfolding get_storage_metadata_def
  by (intro up_intros)

lemma up_set_storage_metadata [up_intros]: "keeps (P t) (set_storage_metadata d md)"
  unfolding set_storage_metadata_def storage_get_key_def
  by (intro up_intros up_save key_not_status [symmetric])

lemma up_merge_metadata [up_intros]:
  "keeps (P t) (merge_volume_metadata v md)" "keeps (P t) (merge_storage_metadata d md)"
  unfolding merge_volume_metadata_def merge_storage_metadata_def
  by (auto split: sum.split err.split intro!: up_intros)

section \<open>Specs\<close>

lemma up_delete_instance_extra_spec [up_intros]: "keeps (P False) (delete_instance_extra_spec s x)"
  unfolding delete_instance_extra_spec_def by (auto simp: wf_statements intro!: up_intros)

lemma up_save_extra [up_intros]: "(\<And>x. keeps (P False) (k x)) \<Longrightarrow>
   keeps (P False) (save_extra x k)"
  unfolding save_extra_def by (auto simp: wf_statements intro!: up_intros)

lemma up_sync_cluster_instance_extra_spec [up_intros]: "keeps (P False) (sync_cluster_instance_extra_spec s force sp x)"
  unfolding sync_cluster_instance_extra_spec_def by (auto split: sum.split err.split simp: Let_def wf_statements intro!: up_intros)

lemma up_delete_extra_specs [up_intros]: "keeps (P False) (delete_extra_specs s xs flag e)"
  by (induction xs arbitrary: flag e) (auto intro!: up_intros)

lemma up_sync_extra_specs [up_intros]: "keeps (P False) (sync_extra_specs s force sp xs e)"
  by (induction xs arbitrary: e) (auto intro!: up_intros)

lemma up_delete_instance_spec [up_intros]: "keeps (P False) (delete_instance_spec s sp)"
  unfolding delete_instance_spec_def by (auto simp: wf_statements intro!: up_intros)

lemma up_save_spec [up_intros]: "(\<And>x. keeps (P False) (k x)) \<Longrightarrow>
   keeps (P False) (save_spec x k)"
  unfolding save_spec_def by (auto simp: wf_statements intro!: up_intros)

lemma up_sync_cluster_instance_spec [up_intros]: "keeps (P False) (sync_cluster_instance_spec s force sp)"
  unfolding sync_cluster_instance_spec_def by (auto split: sum.split err.split simp: Let_def wf_statements intro!: up_intros)

lemma up_sync_cluster_instance_spec_list [up_intros]: "keeps (P False) (sync_cluster_instance_spec_list s)"
  unfolding sync_cluster_instance_spec_list_def get_instance_spec_list_def by (intro up_intros)

section \<open>Deletions\<close>

lemma up_delete_volume_snapshot [up_intros]: "keeps (P False) (delete_volume_snapshot s v sn)"
  unfolding delete_volume_snapshot_def by (auto simp: wf_statements intro!: up_intros)

lemma up_delete_instance_volume [up_intros]: "keeps (P False) (delete_instance_volume s v iv)"
  unfolding delete_instance_volume_def by (auto simp: wf_statements intro!: up_intros)

lemma up_delete_volume [up_intros]: "keeps (P False) (delete_volume s v)"
  unfolding delete_volume_def by (auto simp: wf_statements intro!: up_intros)

lemma up_delete_storage [up_intros]: "keeps (P False) (delete_storage s st)"
  unfolding delete_storage_def by (auto simp: wf_statements intro!: up_intros)

lemma up_delete_instance_network [up_intros]: "keeps (P False) (delete_instance_network s n)"
  unfolding delete_instance_network_def by (auto simp: wf_statements intro!: up_intros)

lemma up_delete_instance_network_floating_ip [up_intros]: "keeps (P False) (delete_instance_network_floating_ip s n)"
  unfolding delete_instance_network_floating_ip_def Let_def by (auto simp: wf_statements intro!: up_intros)

lemma up_delete_instance_keypair [up_intros]: "keeps (P False) (delete_instance_keypair s x)"
  unfolding delete_instance_keypair_def Let_def by (auto simp: wf_statements intro!: up_intros)

lemma up_get_instance_volume_records [up_intros]: "keeps (P False) (get_instance_volume_records i)"
  unfolding get_instance_volume_records_def by (auto simp: wf_statements intro!: up_intros)

lemma up_instance_dependents [up_intros]: "keeps (P False) (instance_dependents x)"
  unfolding instance_dependents_def by (auto simp: wf_statements intro!: up_intros)

lemma up_delete_instance [up_intros]: "keeps (P False) (delete_instance s x)"
  unfolding delete_instance_def delete_instance_security_group_def delete_instance_user_script_def by (auto simp: wf_statements intro!: up_intros)

lemma up_delete_keypair [up_intros]: "keeps (P False) (delete_keypair s k)"
  unfolding delete_keypair_def by (auto simp: wf_statements intro!: up_intros)

lemma up_delete_security_group_rule [up_intros]: "keeps (P False) (delete_security_group_rule s r)"
  unfolding delete_security_group_rule_def by (auto simp: wf_statements intro!: up_intros)

lemma up_delete_security_group [up_intros]: "keeps (P False) (delete_security_group s g)"
  unfolding delete_security_group_def delete_instance_security_group_def by (auto simp: wf_statements intro!: up_intros)

lemma up_delete_floating_ip [up_intros]: "keeps (P False) (delete_floating_ip s f)"
  unfolding delete_floating_ip_def by (auto simp: wf_statements intro!: up_intros)

lemma up_delete_routing_interface [up_intros]: "keeps (P False) (delete_routing_interface s i)"
  unfolding delete_routing_interface_def by (auto simp: wf_statements intro!: up_intros)

lemma up_delete_subnet [up_intros]: "keeps (P False) (delete_subnet s sn)"
  unfolding delete_subnet_def by (auto simp: wf_statements intro!: up_intros)

lemma up_delete_network [up_intros]: "keeps (P False) (delete_network s n)"
  unfolding delete_network_def by (auto simp: wf_statements intro!: up_intros)

lemma up_delete_router [up_intros]: "keeps (P False) (delete_router s r)"
  unfolding delete_router_def by (auto simp: wf_statements intro!: up_intros)

lemma up_delete_hypervisor [up_intros]: "keeps (P False) (delete_hypervisor s h)"
  unfolding delete_hypervisor_def by (auto simp: wf_statements intro!: up_intros)

lemma up_delete_availability_zone [up_intros]: "keeps (P False) (delete_availability_zone s z)"
  unfolding delete_availability_zone_def by (auto simp: wf_statements intro!: up_intros)

lemma up_delete_tenant [up_intros]: "keeps (P False) (delete_tenant s t)"
  unfolding delete_tenant_def by (auto simp: wf_statements intro!: up_intros)

section \<open>Lookups and cases\<close>

lemma up_respond [up_intros]: "(keeps (P t) (k)) \<Longrightarrow>
   keeps (P t) (respond rsp k)"
  unfolding respond_def by (intro up_intros)

lemma up_compare_sides [up_intros]:
  "keeps (P t) neither \<Longrightarrow> (\<And>x. keeps (P t) (gone x)) \<Longrightarrow> (\<And>x. keeps (P t) (new x)) \<Longrightarrow>
   (\<And>x y. keeps (P t) (known x y)) \<Longrightarrow> keeps (P t) (compare_sides rsp row neither gone new known)"
  unfolding compare_sides_def by (auto split: sum.split err.split intro!: up_intros)

lemma up_sync_each [up_intros]: "(\<And>x. keeps (P t) (f x)) \<Longrightarrow> keeps (P t) (sync_each f xs)"
  unfolding sync_each_def by (intro up_intros)

lemma up_delete_missing [up_intros]:
  "(\<And>x. keeps (P t) (del x)) \<Longrightarrow> keeps (P t) (delete_missing uuid del reported rows)"
  unfolding delete_missing_def by (intro up_intros)

lemma up_lookup_or_sync [up_intros]: "(keeps (P t) (q)) \<Longrightarrow> (keeps (P t) (m)) \<Longrightarrow> (keeps (P t) (q')) \<Longrightarrow>
   keeps (P t) (lookup_or_sync q m q')"
  unfolding lookup_or_sync_def by (intro up_intros)

section \<open>Tenants, zones and hypervisors\<close>

lemma up_find_tenant [up_intros]: "keeps (P False) (find_tenant s x)"
  unfolding find_tenant_def by (intro up_intros)

lemma up_is_deleted_tenant [up_intros]: "keeps (P False) (is_deleted_tenant s u)"
  unfolding is_deleted_tenant_def by (intro up_intros)

lemma up_unless_deleted [up_intros]: "(keeps (P False) (k)) \<Longrightarrow>
   keeps (P False) (unless_deleted s opts k)"
  unfolding unless_deleted_def by (intro up_intros)

lemma up_sync_cluster_tenant_quota [up_intros]: "keeps (P t) (sync_cluster_tenant_quota x q)"
  unfolding sync_cluster_tenant_quota_def by (auto simp: wf_statements intro!: up_intros)

lemma up_sync_quotas [up_intros]: "keeps (P t) (sync_quotas x qs)"
  by (induction qs) (auto intro!: up_intros)

lemma up_sync_tenant_quotas [up_intros]: "keeps (P False) (sync_tenant_quotas x qs)"
  unfolding sync_tenant_quotas_def by (intro up_intros)

lemma up_save_tenant_row [up_intros]: "(\<And>x. keeps (P False) (k x)) \<Longrightarrow>
   keeps (P False) (save_tenant_row r k)"
  unfolding save_tenant_row_def by (auto simp: wf_statements intro!: up_intros)

lemma up_sync_cluster_tenant [up_intros]: "keeps (P False) (sync_cluster_tenant s opts x)"
  unfolding sync_cluster_tenant_def by (intro up_intros)

lemma up_get_tenant [up_intros]: "keeps (P False) (get_tenant s opts u)"
  unfolding get_tenant_def by (intro up_intros)

lemma up_sync_deleted_tenant_list [up_intros]: "keeps (P False) (sync_deleted_tenant_list s rsp)"
  unfolding sync_deleted_tenant_list_def by (intro up_intros)

lemma up_sync_cluster_tenant_list [up_intros]: "keeps (P False) (sync_cluster_tenant_list s opts)"
  unfolding sync_cluster_tenant_list_def by (intro up_intros)

lemma up_find_availability_zone [up_intros]: "keeps (P False) (find_availability_zone s n)"
  unfolding find_availability_zone_def by (intro up_intros)

lemma up_save_availability_zone_row [up_intros]: "(\<And>x. keeps (P False) (k x)) \<Longrightarrow>
   keeps (P False) (save_availability_zone_row r k)"
  unfolding save_availability_zone_row_def by (auto simp: wf_statements intro!: up_intros)

lemma up_sync_cluster_availability_zone [up_intros]: "keeps (P False) (sync_cluster_availability_zone s opts z)"
  unfolding sync_cluster_availability_zone_def by (auto split: sum.split err.split simp: Let_def wf_statements intro!: up_intros)

lemma up_sync_deleted_availability_zone_list [up_intros]: "keeps (P False) (sync_deleted_availability_zone_list s rsp)"
  unfolding sync_deleted_availability_zone_list_def by (intro up_intros)

lemma up_sync_cluster_availability_zone_list [up_intros]: "keeps (P False) (sync_cluster_availability_zone_list s opts)"
  unfolding sync_cluster_availability_zone_list_def by (intro up_intros)

lemma up_get_availability_zone [up_intros]: "keeps (P False) (get_availability_zone s opts n)"
  unfolding get_availability_zone_def by (intro up_intros)

lemma up_compare_hypervisor [up_intros]: "keeps (P False) (compare_hypervisor d r)"
  unfolding compare_hypervisor_def by (intro up_intros)

lemma up_find_hypervisor [up_intros]: "keeps (P False) (find_hypervisor s h)"
  unfolding find_hypervisor_def by (intro up_intros)

lemma up_save_hypervisor_row [up_intros]: "(\<And>x. keeps (P False) (k x)) \<Longrightarrow>
   keeps (P False) (save_hypervisor_row r k)"
  unfolding save_hypervisor_row_def by (auto simp: wf_statements intro!: up_intros)

lemma up_sync_cluster_hypervisor [up_intros]: "keeps (P False) (sync_cluster_hypervisor s opts h)"
  unfolding sync_cluster_hypervisor_def by (auto split: sum.split err.split simp: Let_def wf_statements intro!: up_intros)

lemma up_get_hypervisor [up_intros]: "keeps (P False) (get_hypervisor s opts u)"
  unfolding get_hypervisor_def by (intro up_intros)

lemma up_sync_deleted_hypervisor_list [up_intros]: "keeps (P False) (sync_deleted_hypervisor_list s rsp)"
  unfolding sync_deleted_hypervisor_list_def by (intro up_intros)

lemma up_sync_cluster_hypervisor_list [up_intros]: "keeps (P False) (sync_cluster_hypervisor_list s opts)"
  unfolding sync_cluster_hypervisor_list_def by (intro up_intros)

section \<open>Storages, volumes and snapshots\<close>

lemma up_get_storage_service_list [up_intros]: "keeps (P False) (get_storage_service_list s)"
  unfolding get_storage_service_list_def by (intro up_intros)

lemma up_get_storage_status [up_intros]: "keeps (P False) (get_storage_status s code)"
  unfolding get_storage_status_def by (intro up_intros)

lemma up_find_storage [up_intros]: "keeps (P False) (find_storage s x)"
  unfolding find_storage_def by (intro up_intros)

lemma up_save_storage_row [up_intros]: "(\<And>x. keeps (P False) (k x)) \<Longrightarrow>
   keeps (P False) (save_storage_row r k)"
  unfolding save_storage_row_def by (auto simp: wf_statements intro!: up_intros)

lemma up_sync_cluster_storage_metadata [up_intros]: "keeps (P False) (sync_cluster_storage_metadata d md)"
  unfolding sync_cluster_storage_metadata_def by (intro up_intros)

lemma up_sync_cluster_storage [up_intros]: "keeps (P False) (sync_cluster_storage s opts x)"
  unfolding sync_cluster_storage_def by (intro up_intros)

lemma up_get_storage_row [up_intros]: "keeps (P False) (get_storage_row s opts u)"
  unfolding get_storage_row_def by (intro up_intros)

lemma up_sync_deleted_storage_list [up_intros]: "keeps (P False) (sync_deleted_storage_list s rsp)"
  unfolding sync_deleted_storage_list_def by (intro up_intros)

lemma up_sync_cluster_storage_list [up_intros]: "keeps (P False) (sync_cluster_storage_list s opts)"
  unfolding sync_cluster_storage_list_def by (intro up_intros)

lemma up_compare_volume [up_intros]: "keeps (P False) (compare_volume d r)"
  unfolding compare_volume_def by (intro up_intros)

lemma up_find_volume [up_intros]: "keeps (P False) (find_volume s v)"
  unfolding find_volume_def by (intro up_intros)

lemma up_save_volume_row [up_intros]: "(\<And>x. keeps (P False) (k x)) \<Longrightarrow>
   keeps (P False) (save_volume_row r k)"
  unfolding save_volume_row_def by (auto simp: wf_statements intro!: up_intros)

lemma up_sync_cluster_volume_metadata [up_intros]: "keeps (P False) (sync_cluster_volume_metadata d md)"
  unfolding sync_cluster_volume_metadata_def by (intro up_intros)

lemma up_with_owners [up_intros]: "(\<And>x y. keeps (P False) (k x y)) \<Longrightarrow>
   keeps (P False) (with_owners s opts res k)"
  unfolding with_owners_def by (intro up_intros)

lemma up_sync_cluster_volume [up_intros]: "keeps (P False) (sync_cluster_volume s opts v)"
  unfolding sync_cluster_volume_def by (intro up_intros)

lemma up_get_volume_row [up_intros]: "keeps (P False) (get_volume_row s opts u)"
  unfolding get_volume_row_def by (intro up_intros)

lemma up_sync_deleted_volume_list [up_intros]: "keeps (P False) (sync_deleted_volume_list s rsp)"
  unfolding sync_deleted_volume_list_def by (intro up_intros)

lemma up_sync_cluster_volume_list [up_intros]: "keeps (P False) (sync_cluster_volume_list s opts)"
  unfolding sync_cluster_volume_list_def by (intro up_intros)

lemma up_compare_volume_snapshot [up_intros]: "keeps (P False) (compare_volume_snapshot d r)"
  unfolding compare_volume_snapshot_def by (intro up_intros)

lemma up_save_volume_snapshot_row [up_intros]: "(\<And>x. keeps (P False) (k x)) \<Longrightarrow>
   keeps (P False) (save_volume_snapshot_row r k)"
  unfolding save_volume_snapshot_row_def by (auto simp: wf_statements intro!: up_intros)

lemma up_sync_deleted_volume_snapshot_list [up_intros]: "keeps (P False) (sync_deleted_volume_snapshot_list s rsp)"
  unfolding sync_deleted_volume_snapshot_list_def by (intro up_intros)

lemma up_sync_cluster_volume_snapshot [up_intros]: "keeps (P False) (sync_cluster_volume_snapshot s opts sn)"
  unfolding sync_cluster_volume_snapshot_def by (auto split: sum.split err.split simp: Let_def wf_statements intro!: up_intros)

lemma up_sync_cluster_volume_snapshot_list [up_intros]: "keeps (P False) (sync_cluster_volume_snapshot_list s opts)"
  unfolding sync_cluster_volume_snapshot_list_def by (intro up_intros)

section \<open>Networks, subnets, floating IPs and routers\<close>

lemma up_with_tenant [up_intros]: "(\<And>x. keeps (P False) (k x)) \<Longrightarrow>
   keeps (P False) (with_tenant s opts u k)"
  unfolding with_tenant_def by (intro up_intros)

lemma up_find_network [up_intros]: "keeps (P False) (find_network s n)"
  unfolding find_network_def by (intro up_intros)

lemma up_get_network [up_intros]: "(\<And>o' n'. keeps (P False) (again o' n')) \<Longrightarrow>
   keeps (P False) (get_network again s opts u)"
  unfolding get_network_def by (intro up_intros)

lemma up_network_has_uuid [up_intros]: "keeps (P False) (network_has_uuid i u)"
  unfolding network_has_uuid_def by (intro up_intros)

lemma up_tenant_has_uuid [up_intros]: "keeps (P False) (tenant_has_uuid i u)"
  unfolding tenant_has_uuid_def by (intro up_intros)

lemma up_compare_subnet [up_intros]: "keeps (P False) (compare_subnet d r)"
  unfolding compare_subnet_def by (intro up_intros)

lemma up_find_subnet [up_intros]: "keeps (P False) (find_subnet s n)"
  unfolding find_subnet_def by (intro up_intros)

lemma up_save_subnet_row [up_intros]: "(\<And>x. keeps (P False) (k x)) \<Longrightarrow>
   keeps (P False) (save_subnet_row r k)"
  unfolding save_subnet_row_def by (auto simp: wf_statements intro!: up_intros)

lemma up_sync_cluster_subnet_nameserver_list [up_intros]: "keeps (P False) (sync_cluster_subnet_nameserver_list sn ns)"
  unfolding sync_cluster_subnet_nameserver_list_def by (auto simp: wf_statements intro!: up_intros)

lemma up_sync_cluster_subnet_dhcp_pool_list [up_intros]: "keeps (P False) (sync_cluster_subnet_dhcp_pool_list sn ps)"
  unfolding sync_cluster_subnet_dhcp_pool_list_def by (auto simp: wf_statements intro!: up_intros)

lemma up_sync_subnet_parts [up_intros]: "keeps (P False) (sync_subnet_parts sn res)"
  unfolding sync_subnet_parts_def by (intro up_intros)

lemma up_sync_cluster_subnet [up_intros]: "(\<And>o' n'. keeps (P False) (again o' n')) \<Longrightarrow>
   keeps (P False) (sync_cluster_subnet again s opts sn)"
  unfolding sync_cluster_subnet_def by (intro up_intros)

lemma up_get_subnet [up_intros]: "(\<And>o' n'. keeps (P False) (again o' n')) \<Longrightarrow>
   keeps (P False) (get_subnet again s opts u)"
  unfolding get_subnet_def by (intro up_intros)

lemma up_sync_deleted_subnet_list [up_intros]: "keeps (P False) (sync_deleted_subnet_list s n rsp)"
  unfolding sync_deleted_subnet_list_def by (intro up_intros)

lemma up_sync_cluster_subnet_list [up_intros]: "(\<And>o' n'. keeps (P False) (again o' n')) \<Longrightarrow>
   keeps (P False) (sync_cluster_subnet_list again s opts n xs)"
  unfolding sync_cluster_subnet_list_def by (intro up_intros)

lemma up_compare_floating_ip [up_intros]: "keeps (P False) (compare_floating_ip d r)"
  unfolding compare_floating_ip_def by (auto split: sum.split err.split simp: Let_def wf_statements intro!: up_intros)

lemma up_find_floating_ip [up_intros]: "keeps (P False) (find_floating_ip s f)"
  unfolding find_floating_ip_def by (intro up_intros)

lemma up_save_floating_ip_row [up_intros]: "(\<And>x. keeps (P False) (k x)) \<Longrightarrow>
   keeps (P False) (save_floating_ip_row r k)"
  unfolding save_floating_ip_row_def by (auto simp: wf_statements intro!: up_intros)

lemma up_floating_ip_owners [up_intros]: "(\<And>x y. keeps (P False) (k x y)) \<Longrightarrow> (\<And>o' n'. keeps (P False) (again o' n')) \<Longrightarrow>
   keeps (P False) (floating_ip_owners again s opts rsp k)"
  unfolding floating_ip_owners_def by (intro up_intros)

lemma up_sync_cluster_floating_ip [up_intros]: "(\<And>o' n'. keeps (P False) (again o' n')) \<Longrightarrow>
   keeps (P False) (sync_cluster_floating_ip again s opts f)"
  unfolding sync_cluster_floating_ip_def by (intro up_intros)

lemma up_get_floating_ip [up_intros]: "(\<And>o' n'. keeps (P False) (again o' n')) \<Longrightarrow>
   keeps (P False) (get_floating_ip again s opts u)"
  unfolding get_floating_ip_def by (intro up_intros)

lemma up_sync_deleted_floating_ip_list [up_intros]: "keeps (P False) (sync_deleted_floating_ip_list s n rsp)"
  unfolding sync_deleted_floating_ip_list_def by (intro up_intros)

lemma up_sync_cluster_floating_ip_list [up_intros]: "(\<And>o' n'. keeps (P False) (again o' n')) \<Longrightarrow>
   keeps (P False) (sync_cluster_floating_ip_list again s opts n xs)"
  unfolding sync_cluster_floating_ip_list_def by (intro up_intros)

lemma up_compare_network [up_intros]: "keeps (P False) (compare_network d r)"
  unfolding compare_network_def by (auto split: sum.split err.split simp: Let_def wf_statements intro!: up_intros)

lemma up_save_network_row [up_intros]: "(\<And>x. keeps (P False) (k x)) \<Longrightarrow>
   keeps (P False) (save_network_row r k)"
  unfolding save_network_row_def by (auto simp: wf_statements intro!: up_intros)

lemma up_sync_network_parts [up_intros]: "(\<And>o' n'. keeps (P False) (again o' n')) \<Longrightarrow>
   keeps (P False) (sync_network_parts again s opts n res)"
  unfolding sync_network_parts_def by (intro up_intros)

lemma up_sync_cluster_network_with [up_intros]: "(\<And>o' n'. keeps (P False) (again o' n')) \<Longrightarrow>
   keeps (P False) (sync_cluster_network_with again s opts n)"
  unfolding sync_cluster_network_with_def by (intro up_intros)

lemma up_sync_cluster_network [up_intros]: "keeps (P False) (sync_cluster_network k s opts n)"
  by (induction k arbitrary: opts n) (auto intro!: up_intros)

lemma up_sync_deleted_network_list [up_intros]: "keeps (P False) (sync_deleted_network_list s rsp)"
  unfolding sync_deleted_network_list_def by (intro up_intros)

lemma up_sync_cluster_network_list [up_intros]: "keeps (P False) (sync_cluster_network_list k s opts)"
  unfolding sync_cluster_network_list_def by (intro up_intros)

lemma up_compare_router [up_intros]: "keeps (P False) (compare_router d r)"
  unfolding compare_router_def by (auto split: sum.split err.split simp: Let_def wf_statements intro!: up_intros)

lemma up_find_router [up_intros]: "keeps (P False) (find_router s x)"
  unfolding find_router_def by (intro up_intros)

lemma up_save_router_row [up_intros]: "(\<And>x. keeps (P False) (k x)) \<Longrightarrow>
   keeps (P False) (save_router_row r k)"
  unfolding save_router_row_def by (auto simp: wf_statements intro!: up_intros)

lemma up_sync_cluster_router_extra_route_list [up_intros]: "keeps (P False) (sync_cluster_router_extra_route_list x routes)"
  unfolding sync_cluster_router_extra_route_list_def by (auto simp: wf_statements intro!: up_intros)

lemma up_sync_deleted_routing_interface_list [up_intros]: "keeps (P False) (sync_deleted_routing_interface_list s i rsp)"
  unfolding sync_deleted_routing_interface_list_def by (intro up_intros)

lemma up_sync_routing_interface [up_intros]: "(\<And>o' n'. keeps (P False) (again o' n')) \<Longrightarrow>
   keeps (P False) (sync_routing_interface again s x r)"
  unfolding sync_routing_interface_def by (auto split: sum.split err.split simp: Let_def wf_statements intro!: up_intros)

lemma up_sync_cluster_network_routing_interface_list [up_intros]: "(\<And>o' n'. keeps (P False) (again o' n')) \<Longrightarrow>
   keeps (P False) (sync_cluster_network_routing_interface_list again s x res)"
  unfolding sync_cluster_network_routing_interface_list_def Let_def by (intro up_intros)

lemma up_sync_router_parts [up_intros]: "(\<And>o' n'. keeps (P False) (again o' n')) \<Longrightarrow>
   keeps (P False) (sync_router_parts again s x res)"
  unfolding sync_router_parts_def by (intro up_intros)

lemma up_sync_cluster_router [up_intros]: "(\<And>o' n'. keeps (P False) (again o' n')) \<Longrightarrow>
   keeps (P False) (sync_cluster_router again s opts x)"
  unfolding sync_cluster_router_def by (intro up_intros)

lemma up_sync_deleted_router_list [up_intros]: "keeps (P False) (sync_deleted_router_list s rsp)"
  unfolding sync_deleted_router_list_def by (intro up_intros)

lemma up_sync_cluster_router_list [up_intros]: "(\<And>o' n'. keeps (P False) (again o' n')) \<Longrightarrow>
   keeps (P False) (sync_cluster_router_list again s opts)"
  unfolding sync_cluster_router_list_def by (intro up_intros)

section \<open>Security groups\<close>

lemma up_sync_last [up_intros]: "(\<And>x. keeps (P t) (f x)) \<Longrightarrow> keeps (P t) (sync_last f xs e)"
  by (induction xs arbitrary: e) (auto intro!: up_intros)

lemma up_find_security_group [up_intros]: "keeps (P False) (find_security_group s g)"
  unfolding find_security_group_def by (intro up_intros)

lemma up_get_security_group [up_intros]: "(\<And>o' n'. keeps (P False) (again o' n')) \<Longrightarrow>
   keeps (P False) (get_security_group again s opts u)"
  unfolding get_security_group_def by (intro up_intros)

lemma up_compare_security_group_rule [up_intros]: "keeps (P False) (compare_security_group_rule d r)"
  unfolding compare_security_group_rule_def by (auto split: sum.split err.split simp: Let_def wf_statements intro!: up_intros)

lemma up_find_security_group_rule [up_intros]: "keeps (P False) (find_security_group_rule s x)"
  unfolding find_security_group_rule_def by (intro up_intros)

lemma up_save_security_group_rule_row [up_intros]: "(\<And>x. keeps (P False) (k x)) \<Longrightarrow>
   keeps (P False) (save_security_group_rule_row r k)"
  unfolding save_security_group_rule_row_def by (auto simp: wf_statements intro!: up_intros)

lemma up_with_remote_group [up_intros]: "(\<And>x. keeps (P False) (k x)) \<Longrightarrow> (\<And>o' n'. keeps (P False) (again o' n')) \<Longrightarrow>
   keeps (P False) (with_remote_group again s opts res rule k)"
  unfolding with_remote_group_def by (intro up_intros)

lemma up_sync_cluster_security_group_rule [up_intros]: "(\<And>o' n'. keeps (P False) (again o' n')) \<Longrightarrow>
   keeps (P False) (sync_cluster_security_group_rule again s opts x)"
  unfolding sync_cluster_security_group_rule_def by (intro up_intros)

lemma up_sync_deleted_security_group_rule_list [up_intros]: "keeps (P False) (sync_deleted_security_group_rule_list s g rs)"
  unfolding sync_deleted_security_group_rule_list_def by (intro up_intros)

lemma up_sync_cluster_security_group_rule_list [up_intros]: "(\<And>o' n'. keeps (P False) (again o' n')) \<Longrightarrow>
   keeps (P False) (sync_cluster_security_group_rule_list again s opts g rs)"
  unfolding sync_cluster_security_group_rule_list_def by (intro up_intros)

lemma up_compare_security_group [up_intros]: "keeps (P False) (compare_security_group d r)"
  unfolding compare_security_group_def by (auto split: sum.split err.split simp: Let_def wf_statements intro!: up_intros)

lemma up_save_security_group_row [up_intros]: "(\<And>x. keeps (P False) (k x)) \<Longrightarrow>
   keeps (P False) (save_security_group_row r k)"
  unfolding save_security_group_row_def by (auto simp: wf_statements intro!: up_intros)

lemma up_sync_cluster_security_group_with [up_intros]: "(\<And>o' n'. keeps (P False) (again o' n')) \<Longrightarrow>
   keeps (P False) (sync_cluster_security_group_with again s opts g)"
  unfolding sync_cluster_security_group_with_def by (intro up_intros)

lemma up_sync_cluster_security_group [up_intros]: "keeps (P False) (sync_cluster_security_group k s opts g)"
  by (induction k arbitrary: opts g) (auto intro!: up_intros)

lemma up_sync_deleted_security_group_list [up_intros]: "keeps (P False) (sync_deleted_security_group_list s rsp)"
  unfolding sync_deleted_security_group_list_def by (intro up_intros)

lemma up_sync_cluster_security_group_list [up_intros]: "keeps (P False) (sync_cluster_security_group_list k s opts)"
  unfolding sync_cluster_security_group_list_def by (intro up_intros)

section \<open>Keypairs and instances\<close>

lemma up_find_keypair [up_intros]: "keeps (P False) (find_keypair s x)"
  unfolding find_keypair_def by (intro up_intros)

lemma up_save_keypair_row [up_intros]: "(\<And>x. keeps (P False) (k x)) \<Longrightarrow>
   keeps (P False) (save_keypair_row r k)"
  unfolding save_keypair_row_def by (auto simp: wf_statements intro!: up_intros)

lemma up_sync_cluster_keypair [up_intros]: "keeps (P False) (sync_cluster_keypair s x)"
  unfolding sync_cluster_keypair_def by (intro up_intros)

lemma up_get_keypair [up_intros]: "keeps (P False) (get_keypair s n)"
  unfolding get_keypair_def by (intro up_intros)

lemma up_sync_deleted_keypair_list [up_intros]: "keeps (P False) (sync_deleted_keypair_list s rsp)"
  unfolding sync_deleted_keypair_list_def by (intro up_intros)

lemma up_sync_cluster_keypair_list [up_intros]: "keeps (P False) (sync_cluster_keypair_list s)"
  unfolding sync_cluster_keypair_list_def by (intro up_intros)

lemma up_find_instance_spec [up_intros]: "keeps (P False) (find_instance_spec s u)"
  unfolding find_instance_spec_def by (intro up_intros)

lemma up_get_instance_spec [up_intros]: "keeps (P False) (get_instance_spec s opts u)"
  unfolding get_instance_spec_def by (intro up_intros)

lemma up_sync_deleted_instance_volume_list [up_intros]: "keeps (P False) (sync_deleted_instance_volume_list s x rs)"
  unfolding sync_deleted_instance_volume_list_def by (intro up_intros)

lemma up_sync_instance_volume [up_intros]: "keeps (P False) (sync_instance_volume s x r)"
  unfolding sync_instance_volume_def by (auto split: sum.split err.split simp: Let_def wf_statements intro!: up_intros)

lemma up_sync_cluster_instance_volume_list [up_intros]: "keeps (P False) (sync_cluster_instance_volume_list s x rs)"
  unfolding sync_cluster_instance_volume_list_def by (intro up_intros)

lemma up_get_instance_network_records [up_intros]: "keeps (P False) (get_instance_network_records i)"
  unfolding get_instance_network_records_def by (intro up_intros)

lemma up_sync_deleted_instance_network_list [up_intros]: "keeps (P False) (sync_deleted_instance_network_list s x rs)"
  unfolding sync_deleted_instance_network_list_def by (intro up_intros)

lemma up_compare_instance_network [up_intros]: "keeps (P False) (compare_instance_network d r)"
  unfolding compare_instance_network_def by (auto split: sum.split err.split simp: Let_def wf_statements intro!: up_intros)

lemma up_save_instance_network_row [up_intros]: "(\<And>x. keeps (P False) (k x)) \<Longrightarrow>
   keeps (P False) (save_instance_network_row r k)"
  unfolding save_instance_network_row_def by (auto simp: wf_statements intro!: up_intros)

lemma up_instance_floating_ip [up_intros]: "(\<And>x. keeps (P False) (k x)) \<Longrightarrow> (\<And>o' n'. keeps (P False) (again o' n')) \<Longrightarrow>
   keeps (P False) (instance_floating_ip again s r k)"
  unfolding instance_floating_ip_def by (intro up_intros)

lemma up_sync_instance_network [up_intros]: "(\<And>o' n'. keeps (P False) (again o' n')) \<Longrightarrow>
   keeps (P False) (sync_instance_network again s x r)"
  unfolding sync_instance_network_def by (auto split: sum.split err.split simp: Let_def wf_statements intro!: up_intros)

lemma up_sync_cluster_instance_network_list [up_intros]: "(\<And>o' n'. keeps (P False) (again o' n')) \<Longrightarrow>
   keeps (P False) (sync_cluster_instance_network_list again s x rs)"
  unfolding sync_cluster_instance_network_list_def by (intro up_intros)

lemma up_sync_cluster_instance_security_group_list [up_intros]: "(\<And>o' n'. keeps (P False) (again o' n')) \<Longrightarrow>
   keeps (P False) (sync_cluster_instance_security_group_list again s x gs)"
  unfolding sync_cluster_instance_security_group_list_def by (auto simp: wf_statements intro!: up_intros)

lemma up_row_with_id [up_intros]: "keeps (P False) (row_with_id tab key i)"
  unfolding row_with_id_def by (intro up_intros)

lemma up_compare_instance [up_intros]: "keeps (P False) (compare_instance d r)"
  unfolding compare_instance_def by (auto split: sum.split err.split simp: Let_def wf_statements intro!: up_intros)

lemma up_find_instance [up_intros]: "keeps (P False) (find_instance s x)"
  unfolding find_instance_def by (intro up_intros)

lemma up_save_instance_row [up_intros]: "(\<And>x. keeps (P False) (k x)) \<Longrightarrow>
   keeps (P False) (save_instance_row r k)"
  unfolding save_instance_row_def by (auto simp: wf_statements intro!: up_intros)

lemma up_sync_instance_parts [up_intros]: "(\<And>o' n'. keeps (P False) (net o' n')) \<Longrightarrow> (\<And>o' n'. keeps (P False) (grp o' n')) \<Longrightarrow>
   keeps (P False) (sync_instance_parts net grp s x res)"
  unfolding sync_instance_parts_def by (intro up_intros)

lemma up_instance_keypair [up_intros]: "keeps (P False) (instance_keypair s res)"
  unfolding instance_keypair_def by (intro up_intros)

lemma up_with_instance_owners [up_intros]: "(\<And>x. keeps (P False) (k x)) \<Longrightarrow>
   keeps (P False) (with_instance_owners s res k)"
  unfolding with_instance_owners_def by (intro up_intros)

lemma up_respond_instance [up_intros]: "(keeps (P False) (k)) \<Longrightarrow>
   keeps (P False) (respond_instance rsp k)"
  unfolding respond_instance_def by (auto split: sum.split err.split simp: Let_def wf_statements intro!: up_intros)

lemma up_sync_cluster_instance [up_intros]: "(\<And>o' n'. keeps (P False) (net o' n')) \<Longrightarrow> (\<And>o' n'. keeps (P False) (grp o' n')) \<Longrightarrow>
   keeps (P False) (sync_cluster_instance net grp s opts x)"
  unfolding sync_cluster_instance_def by (auto split: sum.split err.split simp: Let_def wf_statements intro!: up_intros)

lemma up_sync_deleted_instance_list [up_intros]: "keeps (P False) (sync_deleted_instance_list s rsp)"
  unfolding sync_deleted_instance_list_def by (intro up_intros)

lemma up_sync_cluster_instance_list [up_intros]: "(\<And>o' n'. keeps (P False) (net o' n')) \<Longrightarrow> (\<And>o' n'. keeps (P False) (grp o' n')) \<Longrightarrow>
   keeps (P False) (sync_cluster_instance_list net grp s opts)"
  unfolding sync_cluster_instance_list_def by (intro up_intros)

lemma up_poll [up_intros]: "keeps (P t) (poll limit took request gone busy i elapsed)"
proof (induction limit took request gone busy i elapsed rule: poll.induct)
  case (1 limit took request gone busy i elapsed)
  have "keeps (P t) (case rsp of Inl e \<Rightarrow> State_Monad.return (if gone e then None else Some e)
      | Inr x \<Rightarrow> (case busy x of None \<Rightarrow> State_Monad.return None
         | Some timeout \<Rightarrow> (if elapsed + took i + poll_interval < limit
             then poll limit took request gone busy (Suc i) (elapsed + took i + poll_interval)
             else State_Monad.return (Some timeout))))" for rsp
  proof (cases rsp)
    case (Inr x)
    then show ?thesis using 1 [of x] by (cases "busy x") (simp_all add: keeps_return)
  qed (simp add: keeps_return)
  then show ?case by (subst poll.simps) (intro keeps_bind up_ask)
qed

lemma up_wait_volume_status [up_intros]: "keeps (P False) (wait_volume_status took s u)"
  unfolding wait_volume_status_def by (intro up_intros)

lemma up_wait_instance_status [up_intros]: "keeps (P False) (wait_instance_status took s u)"
  unfolding wait_instance_status_def by (intro up_intros)

lemma up_sync_reserved [up_intros]:
  "(\<And>u t'. keeps (P t) (f u t')) \<Longrightarrow> keeps (P t) (sync_reserved cid ty f xs r)"
  by (induction xs arbitrary: r) (auto intro!: up_intros)

end

section \<open>Whole synchronisations\<close>

text \<open>
  The synchronisation of a cluster and the reserved one also write the status of the
  synchronisation and show its progress.
\<close>

locale upheld_throughout = upheld +
  assumes stored_any: "P t w \<Longrightarrow> P t (w\<lparr>w_kv := g (w_kv w)\<rparr>)"
    and shown: "P t w \<Longrightarrow> P t (w\<lparr>w_events := w_events w @ [PublishedDoc topic doc]\<rparr>)"
begin

lemma up_set_status [up_intros]: "keeps (P t) (set_status cid st)"
  unfolding set_status_def save_def store_put_def store_update_def
  by (intro up_intros up_modify stored_any)

lemma up_new_synchronizer [up_intros]: "keeps (P t) (new_synchronizer connect cid)"
  unfolding new_synchronizer_def by (auto split: sum.split err.split intro!: up_intros)

lemma up_publish_to_status [up_intros]: "keeps (P t) (publish_to_status cid completion)"
  unfolding publish_to_status_def publish_def by (intro up_intros up_modify shown)

lemma up_show_status [up_intros]: "keeps (P t) (show_status cid r v st)"
  unfolding show_status_def Let_def by (intro up_intros)

lemma up_sync_resource [up_intros]: "keeps (P t) (snd x) \<Longrightarrow> keeps (P t) (sync_resource cid x st)"
  unfolding sync_resource_def by (cases x) (auto intro!: up_intros)

lemma up_sync_resources [up_intros]:
  "\<forall>x \<in> set xs. keeps (P t) (snd x) \<Longrightarrow> keeps (P t) (sync_resources cid xs st)"
  by (induction xs arbitrary: st) (auto intro!: up_intros)

lemma up_sync_specs [up_intros]: "keeps (P t) m \<Longrightarrow> keeps (P t) (sync_specs m st)"
  unfolding sync_specs_def by (intro up_intros)

lemma up_sync_rounds [up_intros]:
  "\<forall>x \<in> set steps. keeps (P t) (snd x) \<Longrightarrow> keeps (P t) specs \<Longrightarrow>
   keeps (P t) (sync_rounds cid steps specs n st)"
  by (induction n arbitrary: st) (auto intro!: up_intros)

lemma up_cluster_steps: "\<forall>x \<in> set (cluster_steps k s). keeps (P False) (snd x)"
  by (simp add: cluster_steps_def up_intros)

lemma up_sync_all [up_intros]:
  "\<forall>x \<in> set steps. keeps (P t) (snd x) \<Longrightarrow> keeps (P t) specs \<Longrightarrow> keeps (P t) (sync_all cid steps specs)"
  unfolding sync_all_def by (intro up_intros)

lemma up_or_failed [up_intros]: "keeps (P t) m \<Longrightarrow> keeps (P t) (or_failed cid m)"
  unfolding or_failed_def by (intro up_intros)

lemma up_sync_cluster [up_intros]: "keeps (P False) (sync_cluster connect k c)"
  unfolding sync_cluster_def by (intro up_intros up_cluster_steps)

lemma up_sync_reserved_instances [up_intros]:
  "(\<And>u. keeps (P t) (waiting u)) \<Longrightarrow> (\<And>u t'. keeps (P t) (f u t')) \<Longrightarrow>
   keeps (P t) (sync_reserved_instances cid waiting f xs e r)"
  by (induction xs arbitrary: e r) (auto intro!: up_intros)

lemma up_reserved_sync_resources [up_intros]:
  "keeps (P False) (reserved_sync_resources took k s cid rs e r)"
  unfolding reserved_sync_resources_def Let_def by (intro up_intros)

lemma up_reserved_sync_body [up_intros]: "keeps (P False) (reserved_sync_body took k s cid rs e r)"
  unfolding reserved_sync_body_def by (intro up_intros)

lemma up_reserved_sync [up_intros]: "keeps (P False) (reserved_sync connect took k cid rs m)"
  unfolding reserved_sync_def cluster_db_lock_def by (intro up_intros)

lemma up_reserved_sync_clusters [up_intros]:
  "keeps (P False) (reserved_sync_clusters connect took k xs m)"
  by (induction xs arbitrary: m) (auto intro!: up_intros)

lemma up_reserved_sync_all [up_intros]: "keeps (P False) (reserved_sync_all connect took k m)"
  unfolding reserved_sync_all_def by (intro up_intros)

end

section \<open>Interpretations\<close>

text \<open>The database stays well-formed, whatever fails.\<close>

interpretation formed: upheld_throughout "\<lambda>_ w. wf_db (w_db w)"
proof
  show "wf_db (w_db (snd (run_state (exec q) w)))" if "sound wf_db q" "wf_db (w_db w)" for q w
    using keepsD [OF db_exec [OF that(1)], of w] that(2) by (simp add: on_db_def)
qed simp_all

text \<open>A world without failures stays one; inside a transaction the handle may be aborted.\<close>

interpretation calm: upheld_throughout "\<lambda>t w. w_faults w = [] \<and> (\<not> t \<longrightarrow> w_tx w = NoTx)"
proof
  show "w_faults (snd (run_state (exec q) w)) = [] \<and> (\<not> t \<longrightarrow> w_tx (snd (run_state (exec q) w)) = NoTx)"
    if "w_faults w = [] \<and> (\<not> t \<longrightarrow> w_tx w = NoTx)" for q :: "database \<Rightarrow> string + database" and t w
    using that by (cases "w_tx w = Aborted")
      (auto simp: exec_def statement_def pop_fault_def split: sum.split)
qed (auto simp: pop_fault_def)

text \<open>The status of a synchronisation is stored only by the synchronisations as a whole.\<close>

interpretation stored_status: upheld "\<lambda>_ w. w_kv w (cluster_sync_status_key i) = d"
proof
  show "w_kv (snd (run_state (exec q) w)) (cluster_sync_status_key i) = d"
    if "w_kv w (cluster_sync_status_key i) = d" for q :: "database \<Rightarrow> string + database" and w
    using that by (auto simp: exec_def statement_def pop_fault_def split: sum.split list.split option.split)
qed (auto simp: pop_fault_def spares_status_def split: list.split)

text \<open>So is its progress shown.\<close>

definition shown_documents :: "world \<Rightarrow> event list" where
  "shown_documents w = filter (\<lambda>e. case e of PublishedDoc t j \<Rightarrow> True | _ \<Rightarrow> False) (w_events w)"

interpretation shown_progress: upheld "\<lambda>_ w. shown_documents w = ds"
proof
  show "shown_documents (snd (run_state (exec q) w)) = ds"
    if "shown_documents w = ds" for q :: "database \<Rightarrow> string + database" and w
    using that by (auto simp: shown_documents_def exec_def statement_def pop_fault_def
        split: sum.split list.split option.split)
qed (auto simp: shown_documents_def pop_fault_def split: list.split)

text \<open>Requests are only ever added.\<close>

interpretation requested: upheld_throughout "\<lambda>_ w. n \<le> w_ticks w"
proof
  show "n \<le> w_ticks (snd (run_state (exec q) w))"
    if "n \<le> w_ticks w" for q :: "database \<Rightarrow> string + database" and w
    using that by (auto simp: exec_def statement_def pop_fault_def split: sum.split list.split option.split)
qed (auto simp: pop_fault_def split: list.split)

end
