(* ===== verification/SyncHistory.thy ===== *)
theory SyncHistory
  imports Upheld Reconcile
begin

text \<open>
  Whole synchronisations: what holds after any history of them, how they end, and what becomes of
  reservations.
\<close>

section \<open>Histories\<close>

text \<open>
  One step of a history: a synchronisation of a cluster or of what is reserved for it, or of one
  resource, or the environment choosing anew which calls will fail and how the clock runs.
\<close>

inductive sync_step :: "world \<Rightarrow> world \<Rightarrow> bool" where
  cluster: "sync_step w (snd (run_state (sync_cluster connect k c) w))"
| reserved: "sync_step w (snd (run_state (reserved_sync_all connect took k m) w))"
| tenant: "sync_step w (snd (run_state (sync_cluster_tenant s opts x1) w))"
| network: "sync_step w (snd (run_state (sync_cluster_network k s opts x2) w))"
| security_group: "sync_step w (snd (run_state (sync_cluster_security_group k s opts x3) w))"
| volume: "sync_step w (snd (run_state (sync_cluster_volume s opts x4) w))"
| one_instance: "sync_step w (snd (run_state (sync_cluster_instance (sync_cluster_network k s)
    (sync_cluster_security_group k s) s opts x5) w))"
| environment: "sync_step w (w\<lparr>w_faults := fs, w_clock := cl\<rparr>)"

text \<open>C1. Whatever synchronisations run one after the other, of whatever clusters, and whichever of
  their calls fail, a well-formed database stays well-formed: identifiers are never zero, the keys
  of the tables that are deleted row by row stay unique, and attachments keep their volumes. So the
  hypothesis of the deletion theorems holds after every history.\<close>

theorem sync_history_well_formed:
  assumes "sync_step\<^sup>*\<^sup>* w w'" and "wf_db (w_db w)"
  shows "wf_db (w_db w')"
  using assms(1)
proof (induction rule: rtranclp_induct)
  case base
  show ?case by (rule assms(2))
next
  case (step y z)
  note keep = formed.up_sync_cluster formed.up_reserved_sync_all formed.up_sync_cluster_tenant
    formed.up_sync_cluster_network formed.up_sync_cluster_security_group formed.up_sync_cluster_volume
    formed.up_sync_cluster_instance [OF formed.up_sync_cluster_network formed.up_sync_cluster_security_group]
  from step(2) show ?case
    by cases (use step.IH in \<open>simp_all add: keep [THEN keepsD]\<close>)
qed

theorem sync_history_well_formed_witness:
  "wf_db (w_db (snd (run_state (sync_cluster (\<lambda>_ _. Inr (empty_client 1)) 2 (example_cluster 1)) example_world)))"
proof -
  have "wf_db (w_db example_world)" by (simp add: wf_db_def example_world_def empty_db_def)
  then show ?thesis
    using sync_history_well_formed [OF r_into_rtranclp [of sync_step, OF sync_step.cluster]] by blast
qed

section \<open>Waiting\<close>

lemma poll_bound:
  assumes "0 < m" and "limit = poll_interval * m"
  shows "\<exists>e n. run_state (poll limit took request gone busy 0 0) w = (e, w\<lparr>w_ticks := w_ticks w + n\<rparr>) \<and>
    1 \<le> n \<and> n \<le> m"
proof -
  obtain e n where run: "run_state (poll limit took request gone busy 0 0) w
      = (e, w\<lparr>w_ticks := w_ticks w + Suc n\<rparr>)" and n: "n = 0 \<or> 0 + poll_interval * n < limit"
    using poll_settles by blast
  have "Suc n \<le> m" using n assms by (auto simp: poll_interval_def)
  then show ?thesis using run by (intro exI [of _ e] exI [of _ "Suc n"]) simp
qed


text \<open>C29. Waiting for a volume ends after at most 40 requests and waiting for an instance after at most
  20, however long the requests take and whatever the cluster answers, and neither changes anything.\<close>

theorem waiting_ends:
  "(\<exists>e n. run_state (wait_volume_status took s u) w = (e, w\<lparr>w_ticks := w_ticks w + n\<rparr>) \<and> 1 \<le> n \<and> n \<le> 40) \<and>
   (\<exists>e n. run_state (wait_instance_status took s u') w = (e, w\<lparr>w_ticks := w_ticks w + n\<rparr>) \<and> 1 \<le> n \<and> n \<le> 20)"
  unfolding wait_volume_status_def wait_instance_status_def
  by (intro conjI poll_bound) (simp_all add: poll_interval_def)

section \<open>How the synchronisation of a cluster ends\<close>

lemma set_status_quiet [quiet_run]:
  "quiet w \<Longrightarrow> run_state (set_status cid st) w =
     (None, w\<lparr>w_kv := (w_kv w)(cluster_sync_status_key cid \<mapsto> Doc (encode_status st))\<rparr>)"
  by (simp add: set_status_def save_def store_put_def store_update_quiet unusable_store_def fun_upd_def)

lemma get_status_quiet:
  "quiet w \<Longrightarrow> w_kv w (cluster_sync_status_key cid) = Some (Doc (encode_status st)) \<Longrightarrow>
   run_state (get_status cid) w = (Inr st, w)"
  by (simp add: get_status_def load_quiet decode_encode_status)

definition always_connects :: "connector \<Rightarrow> bool" where
  "always_connects connect \<longleftrightarrow> (\<forall>c t. \<exists>s. connect c t = Inr s)"

lemma new_synchronizer_quiet:
  assumes "quiet w" and "\<exists>r \<in> set (db_cluster (w_db w)). cl_id r = cid" and "always_connects connect"
  obtains s where "run_state (new_synchronizer connect cid) w = (Inr s, w\<lparr>w_ticks := Suc (w_ticks w)\<rparr>)"
    and "sy_cluster_id s = cid"
proof -
  let ?rows = "filter (\<lambda>c. cond_nat cid (cl_id c)) (db_cluster (w_db w))"
  have "?rows \<noteq> []" using assms(2) by (auto simp: filter_empty_conv cond_nat_def)
  then obtain c where "least_by cl_id ?rows = Some c" using least_by_None [of cl_id ?rows] by fastforce
  moreover obtain s where "connect c (w_ticks w) = Inr s" using assms(3) unfolding always_connects_def by blast
  ultimately show ?thesis using assms(1) that [of "s\<lparr>sy_cluster_id := cid\<rparr>"]
    by (simp add: new_synchronizer_def execute_def first_row_quiet)
qed

text \<open>The loop never adds a resource to the first map, and never forgets one.\<close>

lemma show_status_func: "fst (run_state (show_status cid r v st) w) = st\<lparr>sr_status := AList.update r v (sr_status st)\<rparr>"
  by (simp add: show_status_def Let_def split: prod.split)

lemma sync_resource_func:
  assumes "r \<in> set (map fst (sr_func st))"
  shows "map fst (sr_func (fst (run_state (sync_resource cid (r, m) st) w))) = map fst (sr_func st)"
proof -
  obtain st1 w1 where 1: "run_state (if map_of (sr_status st) r \<noteq> Some completed then show_status cid r running st
      else State_Monad.return st) w = (st1, w1)" by force
  have f: "sr_func st1 = sr_func st"
    using 1 show_status_func [of cid r running st w] by (auto split: if_splits)
  obtain e w2 where 2: "run_state m w1 = (e, w2)" by force
  show ?thesis
    using 1 2 f assms
    by (auto simp: sync_resource_def show_status_func update_keys split: option.split prod.split)
qed

lemma sync_resources_func:
  "set (map fst steps) \<subseteq> set (map fst (sr_func st)) \<Longrightarrow>
   map fst (sr_func (fst (run_state (sync_resources cid steps st) w))) = map fst (sr_func st)"
proof (induction steps arbitrary: st w)
  case (Cons x xs)
  obtain r m where x: "x = (r, m)" by force
  obtain st1 w1 where 1: "run_state (sync_resource cid x st) w = (st1, w1)" by force
  then have "map fst (sr_func st1) = map fst (sr_func st)"
    using sync_resource_func [of r st cid m w] Cons.prems x by simp
  then show ?case using Cons.IH [of st1 w1] Cons.prems 1 by simp
qed simp

lemma sync_specs_func: "sr_func (fst (run_state (sync_specs m st) w)) = sr_func st"
  by (simp add: sync_specs_def split: prod.split)

lemma sync_rounds_func:
  "set (map fst steps) \<subseteq> set (map fst (sr_func st)) \<Longrightarrow>
   map fst (sr_func (fst (run_state (sync_rounds cid steps specs n st) w))) = map fst (sr_func st)"
proof (induction n arbitrary: st w)
  case (Suc n)
  obtain st1 w1 where 1: "run_state (sync_resources cid steps st) w = (st1, w1)" by force
  obtain st2 w2 where 2: "run_state (sync_specs specs st1) w1 = (st2, w2)" by force
  have "map fst (sr_func st2) = map fst (sr_func st)"
    using sync_resources_func [OF Suc.prems, of cid w] sync_specs_func [of specs st1 w1] 1 2 by simp
  then show ?case using Suc.IH [of st2 w2] Suc.prems 1 2 by simp
qed simp

definition list_resources :: "string list" where
  "list_resources = [resource_tenant_list, resource_availability_zone_list, resource_hypervisor_list,
     resource_security_group_list, resource_network_list, resource_router_list, resource_storage_list,
     resource_volume_list, resource_volume_snapshot_list, resource_keypair_list, resource_instance_list]"

lemma map_fst_cluster_steps: "map fst (cluster_steps k s) = list_resources"
  by (simp add: cluster_steps_def list_resources_def)

lemma map_fst_first_round: "map fst (sr_func (first_round steps)) = map fst steps"
  "map fst (sr_status (first_round steps)) = map fst steps"
  by (simp_all add: first_round_def case_prod_unfold comp_def)

lemma quiet_calm: "quiet w \<longleftrightarrow> w_faults w = [] \<and> (\<not> False \<longrightarrow> w_tx w = NoTx)"
  by (simp add: quiet_def)

lemma quiet_after: "keeps (\<lambda>w. w_faults w = [] \<and> (\<not> False \<longrightarrow> w_tx w = NoTx)) m \<Longrightarrow> quiet w \<Longrightarrow>
    run_state m w = (x, w') \<Longrightarrow> quiet w'"
  using keepsD [of "\<lambda>w. w_faults w = [] \<and> (\<not> False \<longrightarrow> w_tx w = NoTx)" m w] by (simp add: quiet_calm)

text \<open>Of the resources some failed in every round; they are the reasons of the final status.\<close>

definition ended_with :: "string list \<Rightarrow> sync_status" where
  "ended_with failures = (if failures = [] then status_code cluster_sync_state_code_done
     else (status_code cluster_sync_state_code_failed)\<lparr>ss_reasons := map make_failed_message failures\<rparr>)"

lemma final_status_ended:
  "final_status m = ended_with (map fst (filter (\<lambda>x. \<not> snd x) m))"
  by (simp add: final_status_def ended_with_def failed_resources_def case_prod_unfold comp_def)

text \<open>
  What is tried: the lists in the order they are synchronised in, each with the error it ended with, in one round
  and in all of them.
\<close>

definition attempt_of :: "nat \<Rightarrow> string \<times> err option op \<Rightarrow> sync_round \<Rightarrow> world \<Rightarrow> (string \<times> err option) list" where
  "attempt_of cid x st w = (case x of (r, m) \<Rightarrow>
     if map_of (sr_func st) r = Some True then []
     else [(r, fst (run_state m (snd (run_state
       (if map_of (sr_status st) r \<noteq> Some completed then show_status cid r running st else State_Monad.return st) w))))])"

fun attempts_in_round :: "nat \<Rightarrow> (string \<times> err option op) list \<Rightarrow> sync_round \<Rightarrow> world \<Rightarrow> (string \<times> err option) list" where
  "attempts_in_round cid [] st w = []"
| "attempts_in_round cid (x # xs) st w = attempt_of cid x st w @
     (case run_state (sync_resource cid x st) w of (st1, w1) \<Rightarrow> attempts_in_round cid xs st1 w1)"

fun attempts :: "nat \<Rightarrow> (string \<times> err option op) list \<Rightarrow> err option op \<Rightarrow> nat \<Rightarrow> sync_round \<Rightarrow> world \<Rightarrow> (string \<times> err option) list" where
  "attempts cid steps specs 0 st w = []"
| "attempts cid steps specs (Suc n) st w =
     (if check_failed_sync_func (sr_func st) then attempts_in_round cid steps st w @
        (case run_state (sync_resources cid steps st) w of (st1, w1) \<Rightarrow>
         case run_state (sync_specs specs st1) w1 of (st2, w2) \<Rightarrow> attempts cid steps specs n st2 w2)
      else [])"

definition outcomes :: "string \<Rightarrow> (string \<times> err option) list \<Rightarrow> err option list" where
  "outcomes r log = map snd (filter (\<lambda>x. fst x = r) log)"

lemma outcomes_simps [simp]: "outcomes r [] = []" "outcomes r (xs @ ys) = outcomes r xs @ outcomes r ys"
  by (simp_all add: outcomes_def)

abbreviation is_done :: "string \<Rightarrow> sync_round \<Rightarrow> bool" where
  "is_done r st \<equiv> map_of (sr_func st) r = Some True"

text \<open>
  A list that is done is not tried again, one that is not is tried until it succeeds.
\<close>

definition tried :: "bool \<Rightarrow> err option list \<Rightarrow> bool \<Rightarrow> bool" where
  "tried old es new \<longleftrightarrow> (if old then es = [] \<and> new else if new then \<exists>fs. es = fs @ [None] \<and> None \<notin> set fs else None \<notin> set es)"

lemma tried_append: "tried b es c \<Longrightarrow> tried c fs d \<Longrightarrow> tried b (es @ fs) d"
  by (auto simp: tried_def split: if_splits)

lemma sync_resource_tries:
  assumes "run_state (sync_resource cid x st) w = (st1, w1)"
  shows "fst x = r \<Longrightarrow> tried (is_done r st) (outcomes r (attempt_of cid x st w)) (is_done r st1) \<and>
      length (outcomes r (attempt_of cid x st w)) = (if is_done r st then 0 else 1)"
    and "fst x \<noteq> r \<Longrightarrow> outcomes r (attempt_of cid x st w) = [] \<and> (is_done r st1 \<longleftrightarrow> is_done r st)"
proof -
  obtain q m where x: "x = (q, m)" by force
  obtain st0 w0 where 0: "run_state (if map_of (sr_status st) q \<noteq> Some completed then show_status cid q running st
      else State_Monad.return st) w = (st0, w0)" by force
  have f: "sr_func st0 = sr_func st" using 0 show_status_func [of cid q running st w] by (auto split: if_splits)
  obtain e w2 where 2: "run_state m w0 = (e, w2)" by force
  have st1: "sr_func st1 = (if is_done q st \<or> e \<noteq> None then sr_func st else AList.update q True (sr_func st))"
    using assms 0 2 f show_status_func [of cid q failed st0 w2]
      show_status_func [of cid q completed "st0\<lparr>sr_func := AList.update q True (sr_func st0)\<rparr>" w2]
    by (auto simp: x sync_resource_def split: option.splits if_splits)
  have log: "attempt_of cid x st w = (if is_done q st then [] else [(q, e)])"
    using 0 2 by (simp add: x attempt_of_def)
  show "fst x = r \<Longrightarrow> tried (is_done r st) (outcomes r (attempt_of cid x st w)) (is_done r st1) \<and>
      length (outcomes r (attempt_of cid x st w)) = (if is_done r st then 0 else 1)"
    unfolding log by (auto simp: x st1 outcomes_def tried_def update_conv')
  show "fst x \<noteq> r \<Longrightarrow> outcomes r (attempt_of cid x st w) = [] \<and> (is_done r st1 \<longleftrightarrow> is_done r st)"
    unfolding log by (auto simp: x st1 outcomes_def update_conv')
qed

lemma sync_resources_tries:
  assumes "distinct (map fst steps)" and "run_state (sync_resources cid steps st) w = (st1, w1)"
  shows "(r \<in> set (map fst steps) \<longrightarrow> tried (is_done r st) (outcomes r (attempts_in_round cid steps st w)) (is_done r st1) \<and>
      length (outcomes r (attempts_in_round cid steps st w)) = (if is_done r st then 0 else 1)) \<and>
    (r \<notin> set (map fst steps) \<longrightarrow> outcomes r (attempts_in_round cid steps st w) = [] \<and> (is_done r st1 \<longleftrightarrow> is_done r st))"
  using assms
proof (induction steps arbitrary: st w)
  case Nil
  then show ?case by simp
next
  case (Cons x xs)
  obtain st0 w0 where 0: "run_state (sync_resource cid x st) w = (st0, w0)" by force
  have run: "run_state (sync_resources cid xs st0) w0 = (st1, w1)" using Cons.prems(2) 0 by simp
  note here = sync_resource_tries [OF 0, of r]
  note rest = Cons.IH [OF _ run]
  show ?case
  proof (cases "fst x = r")
    case True
    then have "r \<notin> set (map fst xs)" using Cons.prems(1) by auto
    then show ?thesis using here(1) [OF True] rest Cons.prems(1) True 0 by simp
  next
    case False
    then show ?thesis using here(2) [OF False] rest Cons.prems(1) 0 by auto
  qed
qed

text \<open>Over the rounds: what is not done in the end was tried, without success, in every one.\<close>

lemma sync_rounds_tries:
  assumes "distinct (map fst steps)" and "map fst (sr_func st) = map fst steps" and "r \<in> set (map fst steps)"
    and "run_state (sync_rounds cid steps specs n st) w = (st1, w1)"
  shows "tried (is_done r st) (outcomes r (attempts cid steps specs n st w)) (is_done r st1) \<and>
    length (outcomes r (attempts cid steps specs n st w)) \<le> n \<and>
    (\<not> is_done r st1 \<longrightarrow> length (outcomes r (attempts cid steps specs n st w)) = n)"
  using assms(2,4)
proof (induction n arbitrary: st w)
  case 0
  then show ?case by (auto simp: tried_def)
next
  case (Suc n)
  show ?case
  proof (cases "check_failed_sync_func (sr_func st)")
    case False
    then have "\<forall>x \<in> set (sr_func st). snd x" by (auto simp: check_failed_sync_func_def list_ex_iff)
    moreover have "r \<in> fst ` set (sr_func st)" using assms(3) Suc.prems(1) by (metis set_map)
    ultimately have "is_done r st" by (metis (full_types) map_of_SomeD map_of_eq_None_iff not_Some_eq snd_conv)
    then show ?thesis using Suc.prems(2) False by (simp add: tried_def)
  next
    case True
    obtain st2 w2 where 2: "run_state (sync_resources cid steps st) w = (st2, w2)" by force
    obtain st3 w3 where 3: "run_state (sync_specs specs st2) w2 = (st3, w3)" by force
    have f: "sr_func st3 = sr_func st2" using sync_specs_func [of specs st2 w2] 3 by simp
    have keys: "map fst (sr_func st3) = map fst steps"
      using sync_resources_func [of steps st cid w] Suc.prems(1) 2 f by simp
    have run: "run_state (sync_rounds cid steps specs n st3) w3 = (st1, w1)" using Suc.prems(2) True 2 3 by simp
    have round: "tried (is_done r st) (outcomes r (attempts_in_round cid steps st w)) (is_done r st3)"
        "length (outcomes r (attempts_in_round cid steps st w)) = (if is_done r st then 0 else 1)"
      using sync_resources_tries [OF assms(1) 2, of r] assms(3) unfolding f by blast+
    have log: "attempts cid steps specs (Suc n) st w = attempts_in_round cid steps st w @ attempts cid steps specs n st3 w3"
      using True 2 3 by simp
    note rest = Suc.IH [OF keys run]
    have "tried (is_done r st) (outcomes r (attempts cid steps specs (Suc n) st w)) (is_done r st1)"
      unfolding log outcomes_simps using tried_append round(1) rest by blast
    moreover have "is_done r st \<longrightarrow> is_done r st1" using calculation by (simp add: tried_def split: if_splits)
    ultimately show ?thesis using round(2) rest unfolding log outcomes_simps by auto
  qed
qed

text \<open>Tried until it succeeded, at most \<open>n\<close> times, or \<open>n\<close> times without success.\<close>

definition retried :: "nat \<Rightarrow> err option list \<Rightarrow> bool" where
  "retried n es \<longleftrightarrow> (if None \<in> set es then (\<exists>fs. es = fs @ [None] \<and> None \<notin> set fs) \<and> length es \<le> n else length es = n)"

definition never_done :: "(string \<times> err option) list \<Rightarrow> string list" where
  "never_done log = filter (\<lambda>r. None \<notin> set (outcomes r log)) list_resources"

lemma distinct_list_resources: "distinct list_resources"
  by (simp add: list_resources_def list_resource_defs)

lemma undone_keys:
  assumes "distinct (map fst m)"
  shows "map fst (filter (\<lambda>x. \<not> snd x) m) = filter (\<lambda>r. map_of m r \<noteq> Some True) (map fst m)"
proof -
  have "filter (\<lambda>x. \<not> snd x) m = filter (\<lambda>x. map_of m (fst x) \<noteq> Some True) m"
    using assms by (intro filter_cong refl) (metis (full_types) map_of_is_SomeI option.inject prod.collapse)
  then show ?thesis by (simp add: filter_map comp_def)
qed

lemma sync_all_ends:
  fixes cid :: nat
  assumes "quiet w" and "map fst steps = list_resources"
    and "\<forall>x \<in> set steps. keeps (\<lambda>w. w_faults w = [] \<and> (\<not> False \<longrightarrow> w_tx w = NoTx)) (snd x)"
    and "keeps (\<lambda>w. w_faults w = [] \<and> (\<not> False \<longrightarrow> w_tx w = NoTx)) specs"
  defines "log \<equiv> attempts cid steps specs 3 (first_round steps)
      (w\<lparr>w_kv := (w_kv w)(cluster_sync_status_key cid \<mapsto> Doc (encode_status (status_code cluster_sync_state_code_running)))\<rparr>)"
  shows "\<exists>w'. run_state (sync_all cid steps specs) w = (None, w') \<and> quiet w' \<and>
    w_kv w' (cluster_sync_status_key cid) = Some (Doc (encode_status (ended_with (never_done log)))) \<and>
    (\<forall>r \<in> set list_resources. retried 3 (outcomes r log))"
proof -
  let ?w1 = "w\<lparr>w_kv := (w_kv w)(cluster_sync_status_key cid \<mapsto>
    Doc (encode_status (status_code cluster_sync_state_code_running)))\<rparr>"
  obtain st w2 where 2: "run_state (sync_rounds cid steps specs 3 (first_round steps)) ?w1 = (st, w2)" by force
  have q2: "quiet w2"
    by (rule quiet_after [OF calm.up_sync_rounds [OF assms(3,4)] _ 2]) (use assms(1) in simp)
  have keys: "map fst (sr_func st) = list_resources"
    using sync_rounds_func [of steps "first_round steps" cid specs 3 ?w1] 2 assms(2)
    by (simp add: map_fst_first_round)
  have start: "\<not> is_done r (first_round steps)" for r
    by (auto simp: first_round_def dest!: map_of_SomeD)
  have each: "tried False (outcomes r log) (is_done r st) \<and> length (outcomes r log) \<le> 3 \<and>
      (\<not> is_done r st \<longrightarrow> length (outcomes r log) = 3)" if "r \<in> set list_resources" for r
    using sync_rounds_tries [OF _ _ _ 2, of r] that start [of r] assms(2) distinct_list_resources
    by (simp add: map_fst_first_round log_def)
  have done_iff: "is_done r st \<longleftrightarrow> None \<in> set (outcomes r log)" if "r \<in> set list_resources" for r
    using each [OF that] by (auto simp: tried_def split: if_splits)
  have "map fst (filter (\<lambda>x. \<not> snd x) (sr_func st)) = never_done log"
    unfolding undone_keys [of "sr_func st", unfolded keys, OF distinct_list_resources] never_done_def
    using done_iff by (intro filter_cong refl) auto
  moreover have "retried 3 (outcomes r log)" if "r \<in> set list_resources" for r
    using each [OF that] done_iff [OF that] by (auto simp: retried_def tried_def)
  ultimately show ?thesis
    using 2 q2 assms(1)
    by (auto simp: sync_all_def check_def set_status_quiet final_status_ended numeral_3_eq_3
        simp del: sync_rounds.simps)
qed

text \<open>The log of the synchronisation of a cluster, which starts after the status \<open>Running\<close> was stored.\<close>

definition sync_attempts :: "nat \<Rightarrow> synchronizer \<Rightarrow> nat \<Rightarrow> world \<Rightarrow> (string \<times> err option) list" where
  "sync_attempts k s cid w = attempts cid (cluster_steps k s) (sync_cluster_instance_spec_list s) 3 (first_round (cluster_steps k s))
     (w\<lparr>w_ticks := Suc (Suc (w_ticks w)), w_kv := (w_kv w)(cluster_sync_status_key cid \<mapsto>
       Doc (encode_status (status_code cluster_sync_state_code_running)))\<rparr>)"

lemma new_synchronizer_row:
  assumes "quiet w" and "filter (\<lambda>r. cl_id r = cid) (db_cluster (w_db w)) = [row]" and "cid \<noteq> 0"
  shows "run_state (new_synchronizer connect cid) w =
    (map_sum (\<lambda>e. e) (\<lambda>s. s\<lparr>sy_cluster_id := cid\<rparr>) (connect row (w_ticks w)), w\<lparr>w_ticks := Suc (w_ticks w)\<rparr>)"
proof -
  have "filter (\<lambda>c. cond_nat cid (cl_id c)) (db_cluster (w_db w)) = [row]" using assms(2,3) by simp
  moreover have "least_by cl_id [row] = Some row" by simp
  ultimately show ?thesis using assms(1) by (simp add: new_synchronizer_def execute_def first_row_quiet)
qed

text \<open>C6. How the synchronisation of a cluster that is in the database ends, without failures of the store and the
  database and whatever the cluster answers. When the cluster cannot be connected to, it returns the error, and the
  status stays \<open>Init\<close> with the time it was set. Otherwise it returns no error. Each of the eleven lists was tried
  until it succeeded, at most three times, or three times without success; and the status is \<open>Done\<close> when every
  list succeeded, and \<open>Failed\<close> with a reason for exactly the lists that never did.\<close>

theorem sync_cluster_ends_done_or_failed:
  assumes "quiet w" and "filter (\<lambda>r. cl_id r = cl_id c) (db_cluster (w_db w)) = [row]" and "cl_id c \<noteq> 0"
  shows "case connect row (Suc (w_ticks w)) of
      Inl e \<Rightarrow> \<exists>w'. run_state (sync_cluster connect k c) w = (Some e, w') \<and>
        fst (run_state (get_status (cl_id c)) w') =
          Inr ((status_code cluster_sync_state_code_init)\<lparr>ss_started_at := w_clock w (w_ticks w)\<rparr>)
    | Inr s \<Rightarrow> \<exists>w'. let log = sync_attempts k (s\<lparr>sy_cluster_id := cl_id c\<rparr>) (cl_id c) w in
        run_state (sync_cluster connect k c) w = (None, w') \<and>
        (\<forall>r \<in> set list_resources. retried 3 (outcomes r log)) \<and>
        fst (run_state (get_status (cl_id c)) w') = Inr (ended_with (never_done log))"
proof -
  let ?init = "(status_code cluster_sync_state_code_init)\<lparr>ss_started_at := w_clock w (w_ticks w)\<rparr>"
  let ?w1 = "w\<lparr>w_ticks := Suc (w_ticks w), w_kv := (w_kv w)(cluster_sync_status_key (cl_id c) \<mapsto> Doc (encode_status ?init))\<rparr>"
  let ?w2 = "?w1\<lparr>w_ticks := Suc (w_ticks ?w1)\<rparr>"
  have q: "quiet (w\<lparr>w_ticks := Suc (w_ticks w)\<rparr>)" "quiet ?w1" "quiet ?w2" using assms(1) by simp_all
  have new: "run_state (new_synchronizer connect (cl_id c)) ?w1 =
      (map_sum (\<lambda>e. e) (\<lambda>s. s\<lparr>sy_cluster_id := cl_id c\<rparr>) (connect row (Suc (w_ticks w))), ?w2)"
    using new_synchronizer_row [OF q(2) _ assms(3), of row] assms(2) by simp
  have run: "run_state (sync_cluster connect k c) w = run_state (fetch (new_synchronizer connect (cl_id c)) (\<lambda>s.
      or_failed (cl_id c) (sync_all (cl_id c) (cluster_steps k s) (sync_cluster_instance_spec_list s)))) ?w1"
    using q(1) by (simp add: sync_cluster_def check_def set_status_quiet)
  show ?thesis
  proof (cases "connect row (Suc (w_ticks w))")
    case (Inl e)
    then show ?thesis using get_status_quiet [OF q(3), of "cl_id c" ?init] new by (simp add: run fetch_def)
  next
    case (Inr s)
    let ?s = "s\<lparr>sy_cluster_id := cl_id c\<rparr>"
    have log: "attempts (cl_id c) (cluster_steps k ?s) (sync_cluster_instance_spec_list ?s) 3 (first_round (cluster_steps k ?s))
        (?w2\<lparr>w_kv := (w_kv ?w2)(cluster_sync_status_key (cl_id c) \<mapsto>
           Doc (encode_status (status_code cluster_sync_state_code_running)))\<rparr>) = sync_attempts k ?s (cl_id c) w"
      by (simp add: sync_attempts_def)
    obtain w' where w': "run_state (sync_all (cl_id c) (cluster_steps k ?s) (sync_cluster_instance_spec_list ?s)) ?w2 = (None, w')"
      "quiet w'" "\<forall>r \<in> set list_resources. retried 3 (outcomes r (sync_attempts k ?s (cl_id c) w))"
      "w_kv w' (cluster_sync_status_key (cl_id c)) =
        Some (Doc (encode_status (ended_with (never_done (sync_attempts k ?s (cl_id c) w)))))"
      using sync_all_ends [where cid = "cl_id c" and steps = "cluster_steps k ?s" and specs = "sync_cluster_instance_spec_list ?s",
          OF q(3) map_fst_cluster_steps calm.up_cluster_steps calm.up_sync_cluster_instance_spec_list, unfolded log] by blast
    have "run_state (sync_cluster connect k c) w = (None, w')"
      using new w'(1) by (simp add: run fetch_def Inr or_failed_def)
    then show ?thesis using w'(3) get_status_quiet [OF w'(2,4)] by (auto simp: Inr Let_def)
  qed
qed

text \<open>A cluster that refuses the connection, and one that answers nothing.\<close>

theorem sync_cluster_ends_done_or_failed_witness:
  "let w = example_world\<lparr>w_db := empty_db\<lparr>db_cluster := [example_cluster 1]\<rparr>\<rparr> in
   (\<exists>w'. run_state (sync_cluster (\<lambda>_ _. Inl ClientNotFound) 2 (example_cluster 1)) w = (Some ClientNotFound, w') \<and>
     fst (run_state (get_status 1) w') =
       Inr ((status_code cluster_sync_state_code_init)\<lparr>ss_started_at := 10 ^ 12\<rparr>)) \<and>
   (\<exists>w' failures. run_state (sync_cluster (\<lambda>_ _. Inr (empty_client 1)) 2 (example_cluster 1)) w = (None, w') \<and>
     fst (run_state (get_status 1) w') = Inr (ended_with failures))"
proof -
  let ?w = "example_world\<lparr>w_db := empty_db\<lparr>db_cluster := [example_cluster 1]\<rparr>\<rparr>"
  have ready: "quiet ?w" "filter (\<lambda>r. cl_id r = cl_id (example_cluster 1)) (db_cluster (w_db ?w)) = [example_cluster 1]"
    "cl_id (example_cluster 1) \<noteq> 0" "cl_id (example_cluster 1) = 1"
    by (simp_all add: quiet_def example_world_def example_cluster_def)
  have clock: "w_clock ?w (w_ticks ?w) = 10 ^ 12" by (simp add: example_world_def)
  show ?thesis
    using sync_cluster_ends_done_or_failed [OF ready(1-3), of "\<lambda>_ _. Inl ClientNotFound" 2]
      sync_cluster_ends_done_or_failed [OF ready(1-3), of "\<lambda>_ _. Inr (empty_client 1)" 2]
    unfolding Let_def sum.case ready(4) clock by blast
qed

section \<open>What becomes of reservations\<close>

text \<open>What is reserved for a cluster, and the part of it that is synchronised after the two lists.\<close>

definition reservation_of :: "reserved_map \<Rightarrow> nat \<Rightarrow> reserved" where
  "reservation_of m cid = (case map_of m cid of None \<Rightarrow> no_reservation | Some rs \<Rightarrow> rs)"

definition later_resources :: "reserved \<Rightarrow> reserved" where
  "later_resources rs = rs\<lparr>rv_availability_zone_list := False, rv_hypervisor_list := False, rv_projects := []\<rparr>"

lemma reservation_of_reserve:
  "reservation_of (reserve cid ty u t m) i =
     (if i = cid then reserve_resource ty u t (reservation_of m cid) else reservation_of m i)"
  by (simp add: reservation_of_def reserve_def update_conv')

lemma reserve_early:
  "reserve_resource resource_tenant u t rs = (if u = [] then rs else rs\<lparr>rv_projects := AList.update u True (rv_projects rs)\<rparr>)"
  "reserve_resource resource_availability_zone_list u t rs = rs\<lparr>rv_availability_zone_list := True\<rparr>"
  "reserve_resource resource_hypervisor_list u t rs = rs\<lparr>rv_hypervisor_list := True\<rparr>"
  by (simp_all add: reserve_resource_def resource_tenant_def list_resource_defs)

lemma later_resources_reserve:
  assumes "ty = resource_tenant \<or> ty = resource_availability_zone_list \<or> ty = resource_hypervisor_list"
  shows "later_resources (reservation_of (reserve cid ty u t m) cid) = later_resources (reservation_of m cid)"
  using assms by (elim disjE) (simp_all add: reservation_of_reserve reserve_early later_resources_def)

lemma sync_reserved_tenants:
  "later_resources (reservation_of (rr_map (fst (run_state (sync_reserved cid resource_tenant f xs r) w))) cid)
     = later_resources (reservation_of (rr_map r) cid)"
proof (induction xs arbitrary: r w)
  case (Cons x xs)
  obtain u t where x: "x = (u, t)" by force
  obtain e w1 where "run_state (f u t) w = (e, w1)" by force
  then show ?case using Cons.IH x
    by (simp add: reserve_again_def later_resources_reserve)
qed simp

definition list_reserved :: "reserved \<Rightarrow> bool" where
  "list_reserved rs = (rv_availability_zone_list rs \<or> rv_hypervisor_list rs)"

text \<open>The part of the function that runs when one of the lists is reserved.\<close>

lemma reserved_sync_body_list:
  assumes "list_reserved rs" and "quiet w" and "w_kv w (cluster_sync_status_key cid) = d"
  shows "\<exists>r' w'. run_state (reserved_sync_body took k s cid rs None r) w = ((None, r'), w') \<and> quiet w' \<and>
    w_kv w' (cluster_sync_status_key cid) = d \<and>
    later_resources (reservation_of (rr_map r') cid) = later_resources (reservation_of (rr_map r) cid)"
proof -
  let ?tenants = "sync_reserved cid resource_tenant (\<lambda>u t. sync_cluster_tenant s no_options (new_tenant u))
    (without_tenant (rv_projects rs)) r"
  obtain r0 w0 where 0: "run_state ?tenants w = (r0, w0)" by force
  have later: "later_resources (reservation_of (rr_map r0) cid) = later_resources (reservation_of (rr_map r) cid)"
    using sync_reserved_tenants [of cid _ _ r w] 0 by (metis fst_conv)
  have q0: "quiet w0"
    by (rule quiet_after [OF calm.up_sync_reserved [OF calm.up_sync_cluster_tenant] assms(2) 0])
  have kv0: "w_kv w0 (cluster_sync_status_key cid) = d"
  proof -
    have "keeps (\<lambda>w. w_kv w (cluster_sync_status_key cid) = d) ?tenants"
      by (intro stored_status.up_sync_reserved stored_status.up_sync_cluster_tenant)
    then show ?thesis using keepsD [of _ ?tenants w] assms(3) 0 by fastforce
  qed
  let ?rest = "if rv_availability_zone_list rs then sync_cluster_availability_zone_list s no_options
    else sync_cluster_hypervisor_list s no_options"
  obtain e1 w1 where 1: "run_state ?rest w0 = (e1, w1)" by force
  have "quiet w1"
    using quiet_after [OF calm.up_sync_cluster_availability_zone_list q0]
      quiet_after [OF calm.up_sync_cluster_hypervisor_list q0] 1 by (metis (full_types))
  moreover have "w_kv w1 (cluster_sync_status_key cid) = d"
    using keepsD [OF stored_status.up_sync_cluster_availability_zone_list kv0]
      keepsD [OF stored_status.up_sync_cluster_hypervisor_list kv0] 1 by (metis (full_types) snd_conv)
  ultimately show ?thesis
    using 0 1 later assms(1)
    by (cases "rv_availability_zone_list rs")
      (auto simp: reserved_sync_body_def list_reserved_def reserve_again_def later_resources_reserve)
qed

text \<open>C28. When the list of availability zones or of hypervisors is reserved, the reserved
  synchronisation of a cluster that can be connected to forgets everything that is reserved after the two lists: it returns
  no error, the reservations of networks, volumes, instances and so on are those that were made
  meanwhile, and the status stays \<open>Running\<close>.\<close>

theorem reserved_sync_forgets:
  assumes "list_reserved rs" and "quiet w" and "\<exists>r \<in> set (db_cluster (w_db w)). cl_id r = cid"
    and "always_connects connect"
  shows "\<exists>m' w'. run_state (reserved_sync connect took k cid rs m) w = ((None, m'), w') \<and>
    later_resources (reservation_of m' cid) = later_resources (reservation_of m cid) \<and>
    fst (run_state (get_status cid) w') = Inr (status_code cluster_sync_state_code_running)"
proof -
  let ?w0 = "w\<lparr>w_ticks := Suc (w_ticks w)\<rparr>"
  let ?init = "(status_code cluster_sync_state_code_init)\<lparr>ss_started_at := w_clock w (w_ticks w)\<rparr>"
  let ?w1 = "?w0\<lparr>w_kv := (w_kv w)(cluster_sync_status_key cid \<mapsto> Doc (encode_status ?init))\<rparr>"
  have q: "quiet ?w0" "quiet ?w1" using assms(2) by simp_all
  obtain s where s: "run_state (new_synchronizer connect cid) ?w1 = (Inr s, ?w1\<lparr>w_ticks := Suc (w_ticks ?w1)\<rparr>)"
    using new_synchronizer_quiet [OF q(2) _ assms(4), of cid] assms(3) by auto
  let ?run = "Doc (encode_status (status_code cluster_sync_state_code_running))"
  let ?w2 = "?w1\<lparr>w_ticks := Suc (w_ticks ?w1)\<rparr>"
  let ?w3 = "?w2\<lparr>w_kv := (w_kv ?w2)(cluster_sync_status_key cid \<mapsto> ?run)\<rparr>"
  have q3: "quiet ?w2" "quiet ?w3" using q(2) by simp_all
  obtain r' w' where w': "run_state (reserved_sync_body took k s cid rs None \<lparr>rr_reasons = [], rr_map = m\<rparr>) ?w3 = ((None, r'), w')"
    "quiet w'" "w_kv w' (cluster_sync_status_key cid) = Some ?run"
    "later_resources (reservation_of (rr_map r') cid) = later_resources (reservation_of m cid)"
    using reserved_sync_body_list [OF assms(1) q3(2), of cid "Some ?run" took k s "\<lparr>rr_reasons = [], rr_map = m\<rparr>"] by auto
  have "run_state (reserved_sync connect took k cid rs m) w = ((None, rr_map r'), w')"
    using assms(2) q q3 s w'(1)
    by (simp add: reserved_sync_def cluster_db_lock_def pop_fault_quiet set_status_quiet return_nil_def)
  then show ?thesis using w'(4) get_status_quiet [OF w'(2,3)] by auto
qed

text \<open>A reservation of the zones and of one network: the network is forgotten.\<close>

theorem reserved_sync_forgets_witness:
  "\<exists>m' w'. run_state (reserved_sync (\<lambda>_ _. Inr (empty_client 1)) (\<lambda>_. 0) 2 1
       (no_reservation\<lparr>rv_availability_zone_list := True, rv_networks := [(''n1'', [])]\<rparr>) [])
       (example_world\<lparr>w_db := empty_db\<lparr>db_cluster := [example_cluster 1]\<rparr>\<rparr>) = ((None, m'), w') \<and>
     rv_networks (reservation_of m' 1) = []"
proof -
  let ?rs = "no_reservation\<lparr>rv_availability_zone_list := True, rv_networks := [(''n1'', [])]\<rparr>"
  let ?w = "example_world\<lparr>w_db := empty_db\<lparr>db_cluster := [example_cluster 1]\<rparr>\<rparr>"
  have "always_connects (\<lambda>_ _. Inr (empty_client 1))" by (simp add: always_connects_def)
  moreover have "list_reserved ?rs" by (simp add: list_reserved_def)
  ultimately obtain m' w' where
    "run_state (reserved_sync (\<lambda>_ _. Inr (empty_client 1)) (\<lambda>_. 0) 2 1 ?rs []) ?w = ((None, m'), w')"
    and m': "later_resources (reservation_of m' 1) = later_resources (reservation_of [] 1)"
    using reserved_sync_forgets [of ?rs ?w 1 "\<lambda>_ _. Inr (empty_client 1)" "\<lambda>_. 0" 2 "[]"]
    by (auto simp: quiet_def example_world_def example_cluster_def)
  moreover have "rv_networks (reservation_of m' 1) = []"
    using arg_cong [OF m', of rv_networks] by (simp add: later_resources_def reservation_of_def no_reservation_def)
  ultimately show ?thesis by blast
qed

end
