(* ===== verification/SyncEdges.thy ===== *)
theory SyncEdges
  imports SyncHistory
begin

text \<open>
  Where the synchroniser does something else than reconcile: an insertion that fails without being
  noticed, a resource that neither side has, routes that are saved and deleted again, recursion
  without a bound, and progress beyond one hundred per cent.
\<close>

section \<open>Insertions that fail unnoticed\<close>

lemma first_row_pops:
  assumes "w_faults w = None # fs" and "w_tx w = NoTx"
  shows "run_state (first_row key sel) w =
    (case least_by key (sel (w_db w)) of None \<Rightarrow> Inl RecordNotFound | Some x \<Rightarrow> Inr x, w\<lparr>w_faults := fs\<rparr>)"
  using assms by (simp add: first_row_def statement_def pop_fault_def)

text \<open>The transaction works and only the insertion does not: the row goes on under the key zero.\<close>

lemma saving_lost:
  assumes "w_faults w = None # Some m # fs" and "fs = [] \<or> hd fs = None" and "w_tx w = NoTx"
  shows "run_state (saving 0 q k) w = run_state (k 0) (w\<lparr>w_faults := tl fs, w_seq := Suc (w_seq w)\<rparr>)"
proof -
  have norm: "w\<lparr>w_seq := n, w_faults := gs, w_tx := NoTx\<rparr> = w\<lparr>w_faults := gs, w_seq := n\<rparr>" for gs n
    using assms(3) by (cases w) simp
  show ?thesis
    using assms by (cases fs) (auto simp: saving_def gorm_transaction_with_def pop_fault_def save_statement_def
        fresh_id_def exec_def statement_def norm)
qed

lemma sync_deleted_subnet_list_unsaved:
  assumes "quiet w" and "wf_db (w_db w)" and "nw_id n = 0"
  obtains w' where "run_state (sync_deleted_subnet_list s n []) w = (None, w')" and "quiet w'"
    and "core (w_db w') = purge (only Subnets (sn_id ` set (db_subnet (w_db w)))) (core (w_db w))"
proof -
  let ?c = "core (w_db w)"
  have nz: "\<forall>x \<in> set (db_subnet (w_db w)). sn_id x \<noteq> 0" using wf_keyed(7) [OF assms(2)] .
  have "settles (for_err (delete_subnet s) (db_subnet (w_db w))) ?c
      (purge (SUP x\<in>set (db_subnet (w_db w)). only Subnets {sn_id x}) ?c)"
    by (rule subnets.run_all) (use assms(2) nz in simp_all)
  then obtain w' where "run_state (for_err (delete_subnet s) (db_subnet (w_db w))) w = (None, w')" "quiet w'"
      "core (w_db w') = purge (only Subnets (sn_id ` set (db_subnet (w_db w)))) ?c"
    using settles_run [OF _ assms(1)] by (metis SUP_only)
  then show ?thesis
    using that assms(1,3)
    by (simp add: sync_deleted_subnet_list_def fetch_def db_res_def execute_def find_all_def find_rows_quiet
        delete_missing_def cond_nat_def)
qed

lemma sync_deleted_floating_ip_list_unsaved:
  assumes "quiet w" and "wf_db (w_db w)" and "nw_id n = 0"
  obtains w' where "run_state (sync_deleted_floating_ip_list s n []) w = (None, w')" and "quiet w'"
    and "core (w_db w') = purge (only FloatingIPs (fip_id ` set (db_floating_ip (w_db w)))) (core (w_db w))"
proof -
  let ?c = "core (w_db w)"
  have nz: "\<forall>x \<in> set (db_floating_ip (w_db w)). fip_id x \<noteq> 0" using wf_keyed(6) [OF assms(2)] .
  have "settles (for_err (delete_floating_ip s) (db_floating_ip (w_db w))) ?c
      (purge (SUP x\<in>set (db_floating_ip (w_db w)). only FloatingIPs {fip_id x}) ?c)"
    by (rule floating_ips.run_all) (use assms(2) nz in simp_all)
  then obtain w' where del: "run_state (for_err (delete_floating_ip s) (db_floating_ip (w_db w))) w = (None, w')" "quiet w'"
      "core (w_db w') = purge (only FloatingIPs (fip_id ` set (db_floating_ip (w_db w)))) ?c"
    using settles_run [OF _ assms(1)] by (metis SUP_only)
  have w: "w_faults w = []" "w_tx w = NoTx" using assms(1) by (simp_all add: quiet_def)
  have "w\<lparr>w_tx := NoTx\<rparr> = w" using w by simp
  then have "run_state (gorm_transaction_with (Inr []) (find_all db_floating_ip (\<lambda>r. cond_nat 0 (fip_cluster_network_id r)))) w
      = ((None, Inr (db_floating_ip (w_db w))), w)"
    using w by (simp add: gorm_transaction_with_def pop_fault_def find_all_def find_rows_def statement_open cond_nat_def)
  then show ?thesis
    using that del assms(3) by (simp add: sync_deleted_floating_ip_list_def delete_missing_def)
qed

text \<open>C25. When the insertion of a new network fails, \<open>GormTransaction\<close> does not report it, and the
  synchronisation goes on with a network whose identifier is zero. The queries for its subnets and
  floating IPs then have no condition: every subnet and every floating IP of every cluster that the
  network does not have is deleted.\<close>

theorem unsaved_network_deletes_all_subnets:
  assumes "w_faults w = [None, None, None, Some m]" and "w_tx w = NoTx" and "wf_db (w_db w)"
    and "sy_get_network s u (w_ticks w) = Inr res" and "u \<noteq> []" and "sy_cluster_id s \<noteq> 0"
    and "nw_id (gnr_network res) = 0" and "gnr_subnet_list res = []" and "gnr_floating_ip_list res = []"
    and "\<exists>t \<in> set (db_tenant (w_db w)). tn_cluster_id t = sy_cluster_id s \<and> tn_uuid t = tn_uuid (gnr_tenant res)"
    and "\<forall>r \<in> set (db_network (w_db w)). nw_uuid r \<noteq> u"
  shows "\<exists>w'. run_state (sync_cluster_network (Suc k) s no_options (new_network u)) w = (None, w') \<and>
    db_subnet (w_db w') = [] \<and> db_floating_ip (w_db w') = []"
proof -
  let ?w1 = "w\<lparr>w_ticks := Suc (w_ticks w)\<rparr>"
  have find: "run_state (find_network s (new_network u)) ?w1 = (Inl RecordNotFound, ?w1\<lparr>w_faults := [None, None, Some m]\<rparr>)"
  proof -
    have "filter (\<lambda>r. tenant_of_cluster s (nw_cluster_tenant_id r) (w_db w) \<and> cond_str u (nw_uuid r) \<and> cond_nat 0 (nw_id r))
        (db_network (w_db w)) = []" (is "?rows = []")
      using assms(5,11) by (auto simp: filter_empty_conv cond_str_def)
    then have "least_by nw_id ?rows = None" by simp
    then show ?thesis
      using assms(1,2) by (simp add: find_network_def execute_def new_network_def first_row_pops)
  qed
  let ?w2 = "?w1\<lparr>w_faults := [None, None, Some m]\<rparr>"
  obtain t where tenant: "run_state (get_tenant s no_options (tn_uuid (gnr_tenant res))) ?w2
      = (Inr (Some t), ?w2\<lparr>w_faults := [None, Some m]\<rparr>)"
  proof -
    let ?rows = "filter (\<lambda>r. cond_nat (sy_cluster_id s) (tn_cluster_id r) \<and> cond_str (tn_uuid (gnr_tenant res)) (tn_uuid r) \<and>
      cond_nat 0 (tn_id r)) (db_tenant (w_db w))"
    have "?rows \<noteq> []" using assms(10) by (auto simp: filter_empty_conv cond_nat_def cond_str_def)
    then obtain t where "least_by tn_id ?rows = Some t" using least_by_None [of tn_id ?rows] by fastforce
    then show ?thesis using that [of t] assms(2)
      by (simp add: get_tenant_def find_tenant_def execute_def new_tenant_def first_row_pops)
  qed
  let ?w3 = "?w2\<lparr>w_faults := [None, Some m]\<rparr>"
  let ?n = "(gnr_network res)\<lparr>nw_cluster_tenant_id := tn_id t\<rparr>"
  have nid: "?n\<lparr>nw_id := 0\<rparr> = ?n" using assms(7) by (cases "gnr_network res") simp
  let ?w4 = "?w3\<lparr>w_faults := [], w_seq := Suc (w_seq w)\<rparr>"
  have save: "run_state (save_network_row ?n c) ?w3 = run_state (c ?n) ?w4" for c
    using saving_lost [of ?w3 m "[]"] assms(2,7) by (simp add: save_network_row_def save_row_def nid)
  let ?w5 = "?w4\<lparr>w_events := w_events w @ [Published queue_notice_cluster_network_created (sy_cluster_id s)
    [(''Network'', RNetwork ?n)]]\<rparr>"
  have w5: "quiet ?w5" "wf_db (w_db ?w5)" using assms(2,3) by (simp_all add: quiet_def)
  obtain w6 where w6: "run_state (sync_deleted_subnet_list s ?n []) ?w5 = (None, w6)" "quiet w6"
    "core (w_db w6) = purge (only Subnets (sn_id ` set (db_subnet (w_db w)))) (core (w_db w))"
    using sync_deleted_subnet_list_unsaved [OF w5, of ?n s] assms(7) by auto
  have "wf_db (w_db w6)" using assms(3) w6(3) wf_core [of "w_db w6"] by simp
  then obtain w7 where w7: "run_state (sync_deleted_floating_ip_list s ?n []) w6 = (None, w7)"
    "core (w_db w7) = purge (only FloatingIPs (fip_id ` set (db_floating_ip (w_db w6)))) (core (w_db w6))"
    using sync_deleted_floating_ip_list_unsaved [OF w6(2), of ?n s] assms(7) by auto
  have "run_state (sync_cluster_network (Suc k) s no_options (new_network u)) w = (None, w7)"
    using assms(4,8,9) find tenant save w5(1) w6(1) w7(1)
    by (simp add: sync_cluster_network_with_def unless_deleted_def no_options_def new_network_def respond_def
        compare_sides_def with_tenant_def fetch_def announce_quiet sync_network_parts_def ignoring_def check_def
        sync_cluster_subnet_list_def sync_cluster_floating_ip_list_def sync_each_def)
  moreover have "db_subnet (w_db w7) = []" "db_floating_ip (w_db w7) = []"
    using arg_cong [OF w7(2), of db_subnet] arg_cong [OF w7(2), of db_floating_ip]
      arg_cong [OF w6(3), of db_subnet] arg_cong [OF w6(3), of db_floating_ip]
    by (simp_all add: core_def filter_empty_conv)
  ultimately show ?thesis by blast
qed

text \<open>The new network belongs to cluster 1; the floating IPs of two other networks are deleted.\<close>

definition found_network :: get_network_result where
  "found_network = \<lparr>gnr_network = (example_network 0 0)\<lparr>nw_uuid := ''new''\<rparr>, gnr_tenant = example_tenant 0,
     gnr_subnet_list = [], gnr_floating_ip_list = []\<rparr>"

theorem unsaved_network_deletes_all_subnets_witness:
  "\<exists>w'. run_state (sync_cluster_network (Suc 0) ((empty_client 1)\<lparr>sy_get_network := \<lambda>_ _. Inr found_network\<rparr>)
       no_options (new_network ''new''))
       (example_world\<lparr>w_faults := [None, None, None, Some ''refused''], w_db := example_db\<rparr>) = (None, w') \<and>
     db_subnet (w_db w') = [] \<and> db_floating_ip (w_db w') = []"
proof (rule unsaved_network_deletes_all_subnets [where res = found_network])
  show "wf_db (w_db (example_world\<lparr>w_faults := [None, None, None, Some ''refused''], w_db := example_db\<rparr>))"
    using example_wf by simp
qed (simp_all add: example_world_def found_network_def example_defs)

end
