(* ===== verification/ClusterRemoval.thy ===== *)
theory ClusterRemoval
  imports Yields ClusterStatus
begin

text \<open>
  Removing a cluster (\<open>Delete\<close> and what it calls in \<open>internal/cluster/cluster.go\<close>): in one
  transaction the rows of every table that belong to the cluster, then its keys in the store and
  the tasks that are shared about it.
\<close>

section \<open>Shared tasks\<close>

definition migration_task_type_create_router :: string where
  "migration_task_type_create_router = ''dr.migration.task.create.router''"

definition clear_tasks_by_id :: "nat \<Rightarrow> string \<Rightarrow> unit op" where
  "clear_tasks_by_id i t = modify (\<lambda>w. w\<lparr>w_events := w_events w @ [SharedTasksCleared i t]\<rparr>)"

definition clear_tasks_of_cluster :: "nat \<Rightarrow> unit op" where
  "clear_tasks_of_cluster cid = modify (\<lambda>w. w\<lparr>w_events := w_events w @ [ClusterTasksCleared cid]\<rparr>)"

definition clear_each :: "string \<Rightarrow> nat list \<Rightarrow> err option op" where
  "clear_each t is = for_err (\<lambda>i. ignoring (clear_tasks_by_id i t) return_nil) is"

section \<open>The rows of a cluster\<close>

text \<open>\<open>db.Where("column in (?)", ids)\<close>; without identifiers the condition is \<open>in (NULL)\<close>, which no row meets.\<close>

definition delete_permission_rows where
  "delete_permission_rows P db =
     map_sum (\<lambda>m. m) (\<lambda>rs. db\<lparr>db_permission := rs\<rparr>) (delete_from (\<lambda>_. False) P (db_permission db))"

definition cluster_referenced where
  "cluster_referenced db r = (
      list_ex (\<lambda>x. cp_cluster_id x = cl_id r) (db_permission db) \<or>
      list_ex (\<lambda>x. az_cluster_id x = cl_id r) (db_availability_zone db) \<or>
      list_ex (\<lambda>x. hv_cluster_id x = cl_id r) (db_hypervisor db) \<or>
      list_ex (\<lambda>x. tn_cluster_id x = cl_id r) (db_tenant db) \<or>
      list_ex (\<lambda>x. st_cluster_id x = cl_id r) (db_storage db) \<or>
      list_ex (\<lambda>x. sp_cluster_id x = cl_id r) (db_instance_spec db))"

definition delete_cluster_rows where
  "delete_cluster_rows P db =
     map_sum (\<lambda>m. m) (\<lambda>rs. db\<lparr>db_cluster := rs\<rparr>) (delete_from (cluster_referenced db) P (db_cluster db))"

definition delete_cluster_security_group :: "nat list \<Rightarrow> err option op" where
  "delete_cluster_security_group ts =
     fetch (find_all db_security_group (\<lambda>r. sg_cluster_tenant_id r \<in> set ts)) (\<lambda>sgs.
     check (for_err (\<lambda>g.
         fetch (find_all db_security_group_rule (\<lambda>r. cond_nat (sg_id g) (sgr_security_group_id r))) (\<lambda>rs.
         check (clear_each migration_task_type_create_security_group_rule (map sgr_id rs))
           (clear_each migration_task_type_create_security_group [sg_id g]))) sgs)
    (check (exec (delete_instance_security_group_rows (\<lambda>r. isg_cluster_security_group_id r \<in> set (map sg_id sgs))))
    (check (exec (delete_security_group_rule_rows (\<lambda>r. sgr_security_group_id r \<in> set (map sg_id sgs))))
       (exec (delete_security_group_rows (\<lambda>r. sg_cluster_tenant_id r \<in> set ts))))))"

definition delete_cluster_network :: "nat list \<Rightarrow> err option op" where
  "delete_cluster_network ts =
     fetch (find_all db_network (\<lambda>r. nw_cluster_tenant_id r \<in> set ts)) (\<lambda>ns.
     check (clear_each migration_task_type_create_network (map nw_id ns))
    (fetch (find_all db_subnet (\<lambda>r. sn_cluster_network_id r \<in> set (map nw_id ns))) (\<lambda>sns.
     check (clear_each migration_task_type_create_subnet (map sn_id sns))
    (check (exec (delete_instance_network_rows (\<lambda>r. inw_cluster_network_id r \<in> set (map nw_id ns))))
    (check (exec (delete_floating_ip_rows (\<lambda>r. fip_cluster_network_id r \<in> set (map nw_id ns))))
    (check (exec (delete_routing_interface_rows (\<lambda>r. ri_cluster_subnet_id r \<in> set (map sn_id sns))))
    (check (exec (delete_nameserver_rows (\<lambda>r. ns_cluster_subnet_id r \<in> set (map sn_id sns))))
    (check (exec (delete_dhcp_pool_rows (\<lambda>r. dp_cluster_subnet_id r \<in> set (map sn_id sns))))
    (check (exec (delete_subnet_rows (\<lambda>r. sn_cluster_network_id r \<in> set (map nw_id ns))))
       (exec (delete_network_rows (\<lambda>r. nw_cluster_tenant_id r \<in> set ts))))))))))))"

definition delete_cluster_router :: "nat list \<Rightarrow> err option op" where
  "delete_cluster_router ts =
     fetch (find_all db_router (\<lambda>r. rt_cluster_tenant_id r \<in> set ts)) (\<lambda>rs.
     check (clear_each migration_task_type_create_router (map rt_id rs))
    (check (exec (delete_extra_route_rows (\<lambda>r. er_cluster_router_id r \<in> set (map rt_id rs))))
       (exec (delete_router_rows (\<lambda>r. rt_id r \<in> set (map rt_id rs))))))"

definition delete_cluster_storage :: "nat \<Rightarrow> err option op" where
  "delete_cluster_storage cid =
     fetch (find_all db_storage (\<lambda>r. st_cluster_id r = cid)) (\<lambda>ss.
     fetch (find_all db_volume (\<lambda>r. vol_cluster_storage_id r \<in> set (map st_id ss))) (\<lambda>vs.
     check (exec (delete_volume_snapshot_rows (\<lambda>r. vs_cluster_volume_id r \<in> set (map vol_id vs))))
    (check (exec (delete_instance_volume_rows (\<lambda>r. ivol_cluster_volume_id r \<in> set (map vol_id vs))))
    (check (exec (delete_volume_rows (\<lambda>r. vol_id r \<in> set (map vol_id vs))))
       (exec (delete_storage_rows (\<lambda>r. st_id r \<in> set (map st_id ss))))))))"

definition delete_cluster_instance :: "nat list \<Rightarrow> nat \<Rightarrow> err option op" where
  "delete_cluster_instance ts cid =
     fetch (find_all db_instance_spec (\<lambda>r. sp_cluster_id r = cid)) (\<lambda>sps.
     check (clear_each migration_task_type_create_spec (map sp_id sps))
    (check (exec (delete_instance_rows (\<lambda>r. ins_cluster_tenant_id r \<in> set ts)))
    (check (exec (delete_extra_spec_rows (\<lambda>r. es_cluster_instance_spec_id r \<in> set (map sp_id sps))))
    (check (exec (delete_instance_spec_rows (\<lambda>r. sp_cluster_id r = cid)))
    (fetch (find_all db_keypair (\<lambda>r. kp_cluster_id r = cid)) (\<lambda>ks.
     check (clear_each migration_task_type_create_keypair (map kp_id ks))
       (exec (delete_keypair_rows (\<lambda>r. kp_cluster_id r = cid)))))))))"

definition delete_relation :: "nat \<Rightarrow> err option op" where
  "delete_relation cid =
     check (exec (delete_permission_rows (\<lambda>r. cp_cluster_id r = cid)))
    (check (delete_cluster_storage cid)
    (fetch (find_all db_tenant (\<lambda>r. tn_cluster_id r = cid)) (\<lambda>tns. let ts = map tn_id tns in
     check (clear_each migration_task_type_create_tenant ts)
    (check (delete_cluster_security_group ts)
    (check (delete_cluster_network ts)
    (check (delete_cluster_instance ts cid)
    (check (delete_cluster_router ts)
    (check (exec (delete_quota_rows (\<lambda>r. qt_cluster_tenant_id r \<in> set ts)))
    (check (exec (delete_tenant_rows (\<lambda>r. tn_cluster_id r = cid)))
    (check (exec (delete_hypervisor_rows (\<lambda>r. hv_cluster_id r = cid)))
       (exec (delete_availability_zone_rows (\<lambda>r. az_cluster_id r = cid)))))))))))))"

section \<open>Delete\<close>

definition get_cluster :: "request_context \<Rightarrow> nat \<Rightarrow> (err + cluster) op" where
  "get_cluster ctx cid = do {
     r \<leftarrow> first_row cl_id (\<lambda>db. filter (\<lambda>c. cond_nat cid (cl_id c) \<and> cond_nat (ctx_tenant ctx) (cl_tenant_id c)) (db_cluster db));
     State_Monad.return (case r of Inl RecordNotFound \<Rightarrow> Inl (NotFoundCluster cid)
       | Inl e \<Rightarrow> Inl (unusable_database e) | Inr c \<Rightarrow> Inr c)
   }"

definition unauthorised :: "request_context \<Rightarrow> cluster \<Rightarrow> bool" where
  "unauthorised ctx c = (\<not> is_admin_user (ctx_user ctx) \<and> \<not> is_group_user (ctx_user ctx) (cl_owner_group_id c))"

text \<open>\<open>deletable\<close> is the answer of the disaster recovery manager, which may refuse.\<close>

definition delete_cluster :: "(nat \<Rightarrow> nat \<Rightarrow> string option) \<Rightarrow> request_context \<Rightarrow> nat \<Rightarrow> err option op" where
  "delete_cluster deletable ctx cid =
     (if cid = 0 then State_Monad.return (Some (RequiredParameter ''cluster_id''))
      else fetch (execute (get_cluster ctx cid)) (\<lambda>c.
        if unauthorised ctx c then State_Monad.return (Some UnauthorizedRequest)
        else do {
          refused \<leftarrow> ask (deletable (cl_id c));
          case refused of Some m \<Rightarrow> State_Monad.return (Some (IPCFailed m))
          | None \<Rightarrow>
              check (db_err (gorm_transaction (check (delete_relation cid)
                (exec (delete_cluster_rows (\<lambda>r. cond_nat cid (cl_id r)))))))
             (check (delete_clusters cid)
                (ignoring (clear_tasks_of_cluster cid) return_nil))
        }))"

end
