(* ===== verification/RemovalSteps.thy ===== *)
theory RemovalSteps
  imports ClusterRemoval TenantReconcile
begin

text \<open>
  The specification of the removal of a cluster, which rows belong to it and what the database is
  without them, and the steps of the removal: without failures each statement inside of the
  transaction writes what the specification says.
\<close>

section \<open>The rows of a cluster\<close>

definition tenant_ids :: "nat \<Rightarrow> database \<Rightarrow> nat list" where
  "tenant_ids cid db = map tn_id (filter (\<lambda>r. tn_cluster_id r = cid) (db_tenant db))"

definition storage_ids :: "nat \<Rightarrow> database \<Rightarrow> nat list" where
  "storage_ids cid db = map st_id (filter (\<lambda>r. st_cluster_id r = cid) (db_storage db))"

definition volume_ids :: "nat \<Rightarrow> database \<Rightarrow> nat list" where
  "volume_ids cid db = map vol_id (filter (\<lambda>r. vol_cluster_storage_id r \<in> set (storage_ids cid db)) (db_volume db))"

definition group_ids :: "nat \<Rightarrow> database \<Rightarrow> nat list" where
  "group_ids cid db = map sg_id (filter (\<lambda>r. sg_cluster_tenant_id r \<in> set (tenant_ids cid db)) (db_security_group db))"

definition network_ids :: "nat \<Rightarrow> database \<Rightarrow> nat list" where
  "network_ids cid db = map nw_id (filter (\<lambda>r. nw_cluster_tenant_id r \<in> set (tenant_ids cid db)) (db_network db))"

definition subnet_ids :: "nat \<Rightarrow> database \<Rightarrow> nat list" where
  "subnet_ids cid db = map sn_id (filter (\<lambda>r. sn_cluster_network_id r \<in> set (network_ids cid db)) (db_subnet db))"

definition router_ids :: "nat \<Rightarrow> database \<Rightarrow> nat list" where
  "router_ids cid db = map rt_id (filter (\<lambda>r. rt_cluster_tenant_id r \<in> set (tenant_ids cid db)) (db_router db))"

definition spec_ids :: "nat \<Rightarrow> database \<Rightarrow> nat list" where
  "spec_ids cid db = map sp_id (filter (\<lambda>r. sp_cluster_id r = cid) (db_instance_spec db))"

lemmas id_defs = tenant_ids_def storage_ids_def volume_ids_def group_ids_def network_ids_def
  subnet_ids_def router_ids_def spec_ids_def

text \<open>The database without the rows of a cluster, its own row included.\<close>

definition without_storages :: "nat \<Rightarrow> database \<Rightarrow> database" where
  "without_storages cid db = db\<lparr>
     db_volume_snapshot := filter (\<lambda>r. vs_cluster_volume_id r \<notin> set (volume_ids cid db)) (db_volume_snapshot db),
     db_instance_volume := filter (\<lambda>r. ivol_cluster_volume_id r \<notin> set (volume_ids cid db)) (db_instance_volume db),
     db_volume := filter (\<lambda>r. vol_id r \<notin> set (volume_ids cid db)) (db_volume db),
     db_storage := filter (\<lambda>r. st_id r \<notin> set (storage_ids cid db)) (db_storage db)\<rparr>"

definition without_groups :: "nat \<Rightarrow> database \<Rightarrow> database" where
  "without_groups cid db = db\<lparr>
     db_instance_security_group := filter (\<lambda>r. isg_cluster_security_group_id r \<notin> set (group_ids cid db)) (db_instance_security_group db),
     db_security_group_rule := filter (\<lambda>r. sgr_security_group_id r \<notin> set (group_ids cid db)) (db_security_group_rule db),
     db_security_group := filter (\<lambda>r. sg_cluster_tenant_id r \<notin> set (tenant_ids cid db)) (db_security_group db)\<rparr>"

definition without_networks :: "nat \<Rightarrow> database \<Rightarrow> database" where
  "without_networks cid db = db\<lparr>
     db_instance_network := filter (\<lambda>r. inw_cluster_network_id r \<notin> set (network_ids cid db)) (db_instance_network db),
     db_floating_ip := filter (\<lambda>r. fip_cluster_network_id r \<notin> set (network_ids cid db)) (db_floating_ip db),
     db_routing_interface := filter (\<lambda>r. ri_cluster_subnet_id r \<notin> set (subnet_ids cid db)) (db_routing_interface db),
     db_nameserver := filter (\<lambda>r. ns_cluster_subnet_id r \<notin> set (subnet_ids cid db)) (db_nameserver db),
     db_dhcp_pool := filter (\<lambda>r. dp_cluster_subnet_id r \<notin> set (subnet_ids cid db)) (db_dhcp_pool db),
     db_subnet := filter (\<lambda>r. sn_cluster_network_id r \<notin> set (network_ids cid db)) (db_subnet db),
     db_network := filter (\<lambda>r. nw_cluster_tenant_id r \<notin> set (tenant_ids cid db)) (db_network db)\<rparr>"

definition without_instances :: "nat \<Rightarrow> database \<Rightarrow> database" where
  "without_instances cid db = db\<lparr>
     db_instance := filter (\<lambda>r. ins_cluster_tenant_id r \<notin> set (tenant_ids cid db)) (db_instance db),
     db_extra_spec := filter (\<lambda>r. es_cluster_instance_spec_id r \<notin> set (spec_ids cid db)) (db_extra_spec db),
     db_instance_spec := filter (\<lambda>r. sp_cluster_id r \<noteq> cid) (db_instance_spec db),
     db_keypair := filter (\<lambda>r. kp_cluster_id r \<noteq> cid) (db_keypair db)\<rparr>"

definition without_routers :: "nat \<Rightarrow> database \<Rightarrow> database" where
  "without_routers cid db = db\<lparr>
     db_extra_route := filter (\<lambda>r. er_cluster_router_id r \<notin> set (router_ids cid db)) (db_extra_route db),
     db_router := filter (\<lambda>r. rt_id r \<notin> set (router_ids cid db)) (db_router db)\<rparr>"

definition without_tenants :: "nat \<Rightarrow> database \<Rightarrow> database" where
  "without_tenants cid db = db\<lparr>
     db_quota := filter (\<lambda>r. qt_cluster_tenant_id r \<notin> set (tenant_ids cid db)) (db_quota db),
     db_tenant := filter (\<lambda>r. tn_cluster_id r \<noteq> cid) (db_tenant db),
     db_hypervisor := filter (\<lambda>r. hv_cluster_id r \<noteq> cid) (db_hypervisor db),
     db_availability_zone := filter (\<lambda>r. az_cluster_id r \<noteq> cid) (db_availability_zone db)\<rparr>"

definition without_permissions :: "nat \<Rightarrow> database \<Rightarrow> database" where
  "without_permissions cid db = db\<lparr>db_permission := filter (\<lambda>r. cp_cluster_id r \<noteq> cid) (db_permission db)\<rparr>"

definition without_cluster :: "nat \<Rightarrow> database \<Rightarrow> database" where
  "without_cluster cid db = (without_tenants cid (without_routers cid (without_instances cid (without_networks cid
     (without_groups cid (without_storages cid (without_permissions cid db)))))))
     \<lparr>db_cluster := filter (\<lambda>r. cl_id r \<noteq> cid) (db_cluster db)\<rparr>"

text \<open>The tables of each of them.\<close>

lemma without_permissions_simps [simp]:
  "db_groups (without_permissions cid db) = db_groups db"
  "db_cluster (without_permissions cid db) = db_cluster db"
  "db_permission (without_permissions cid db) = filter (\<lambda>r. cp_cluster_id r \<noteq> cid) (db_permission db)"
  "db_hypervisor (without_permissions cid db) = db_hypervisor db"
  "db_availability_zone (without_permissions cid db) = db_availability_zone db"
  "db_tenant (without_permissions cid db) = db_tenant db"
  "db_quota (without_permissions cid db) = db_quota db"
  "db_network (without_permissions cid db) = db_network db"
  "db_floating_ip (without_permissions cid db) = db_floating_ip db"
  "db_subnet (without_permissions cid db) = db_subnet db"
  "db_nameserver (without_permissions cid db) = db_nameserver db"
  "db_dhcp_pool (without_permissions cid db) = db_dhcp_pool db"
  "db_router (without_permissions cid db) = db_router db"
  "db_routing_interface (without_permissions cid db) = db_routing_interface db"
  "db_extra_route (without_permissions cid db) = db_extra_route db"
  "db_security_group (without_permissions cid db) = db_security_group db"
  "db_security_group_rule (without_permissions cid db) = db_security_group_rule db"
  "db_storage (without_permissions cid db) = db_storage db"
  "db_volume (without_permissions cid db) = db_volume db"
  "db_volume_snapshot (without_permissions cid db) = db_volume_snapshot db"
  "db_instance_spec (without_permissions cid db) = db_instance_spec db"
  "db_extra_spec (without_permissions cid db) = db_extra_spec db"
  "db_keypair (without_permissions cid db) = db_keypair db"
  "db_instance (without_permissions cid db) = db_instance db"
  "db_instance_network (without_permissions cid db) = db_instance_network db"
  "db_instance_security_group (without_permissions cid db) = db_instance_security_group db"
  "db_instance_volume (without_permissions cid db) = db_instance_volume db"
  "db_instance_user_script (without_permissions cid db) = db_instance_user_script db"
  by (simp_all add: without_permissions_def)

lemma without_storages_simps [simp]:
  "db_groups (without_storages cid db) = db_groups db"
  "db_cluster (without_storages cid db) = db_cluster db"
  "db_permission (without_storages cid db) = db_permission db"
  "db_hypervisor (without_storages cid db) = db_hypervisor db"
  "db_availability_zone (without_storages cid db) = db_availability_zone db"
  "db_tenant (without_storages cid db) = db_tenant db" "db_quota (without_storages cid db) = db_quota db"
  "db_network (without_storages cid db) = db_network db"
  "db_floating_ip (without_storages cid db) = db_floating_ip db"
  "db_subnet (without_storages cid db) = db_subnet db"
  "db_nameserver (without_storages cid db) = db_nameserver db"
  "db_dhcp_pool (without_storages cid db) = db_dhcp_pool db"
  "db_router (without_storages cid db) = db_router db"
  "db_routing_interface (without_storages cid db) = db_routing_interface db"
  "db_extra_route (without_storages cid db) = db_extra_route db"
  "db_security_group (without_storages cid db) = db_security_group db"
  "db_security_group_rule (without_storages cid db) = db_security_group_rule db"
  "db_storage (without_storages cid db) = filter (\<lambda>r. st_id r \<notin> set (storage_ids cid db)) (db_storage db)"
  "db_volume (without_storages cid db) = filter (\<lambda>r. vol_id r \<notin> set (volume_ids cid db)) (db_volume db)"
  "db_volume_snapshot (without_storages cid db) = filter (\<lambda>r. vs_cluster_volume_id r \<notin> set (volume_ids cid db)) (db_volume_snapshot db)"
  "db_instance_spec (without_storages cid db) = db_instance_spec db"
  "db_extra_spec (without_storages cid db) = db_extra_spec db"
  "db_keypair (without_storages cid db) = db_keypair db"
  "db_instance (without_storages cid db) = db_instance db"
  "db_instance_network (without_storages cid db) = db_instance_network db"
  "db_instance_security_group (without_storages cid db) = db_instance_security_group db"
  "db_instance_volume (without_storages cid db) = filter (\<lambda>r. ivol_cluster_volume_id r \<notin> set (volume_ids cid db)) (db_instance_volume db)"
  "db_instance_user_script (without_storages cid db) = db_instance_user_script db"
  by (simp_all add: without_storages_def)

lemma without_groups_simps [simp]:
  "db_groups (without_groups cid db) = db_groups db" "db_cluster (without_groups cid db) = db_cluster db"
  "db_permission (without_groups cid db) = db_permission db"
  "db_hypervisor (without_groups cid db) = db_hypervisor db"
  "db_availability_zone (without_groups cid db) = db_availability_zone db"
  "db_tenant (without_groups cid db) = db_tenant db" "db_quota (without_groups cid db) = db_quota db"
  "db_network (without_groups cid db) = db_network db"
  "db_floating_ip (without_groups cid db) = db_floating_ip db"
  "db_subnet (without_groups cid db) = db_subnet db"
  "db_nameserver (without_groups cid db) = db_nameserver db"
  "db_dhcp_pool (without_groups cid db) = db_dhcp_pool db"
  "db_router (without_groups cid db) = db_router db"
  "db_routing_interface (without_groups cid db) = db_routing_interface db"
  "db_extra_route (without_groups cid db) = db_extra_route db"
  "db_security_group (without_groups cid db) = filter (\<lambda>r. sg_cluster_tenant_id r \<notin> set (tenant_ids cid db)) (db_security_group db)"
  "db_security_group_rule (without_groups cid db) = filter (\<lambda>r. sgr_security_group_id r \<notin> set (group_ids cid db)) (db_security_group_rule db)"
  "db_storage (without_groups cid db) = db_storage db" "db_volume (without_groups cid db) = db_volume db"
  "db_volume_snapshot (without_groups cid db) = db_volume_snapshot db"
  "db_instance_spec (without_groups cid db) = db_instance_spec db"
  "db_extra_spec (without_groups cid db) = db_extra_spec db"
  "db_keypair (without_groups cid db) = db_keypair db"
  "db_instance (without_groups cid db) = db_instance db"
  "db_instance_network (without_groups cid db) = db_instance_network db"
  "db_instance_security_group (without_groups cid db) = filter (\<lambda>r. isg_cluster_security_group_id r \<notin> set (group_ids cid db)) (db_instance_security_group db)"
  "db_instance_volume (without_groups cid db) = db_instance_volume db"
  "db_instance_user_script (without_groups cid db) = db_instance_user_script db"
  by (simp_all add: without_groups_def)

lemma without_networks_simps [simp]:
  "db_groups (without_networks cid db) = db_groups db"
  "db_cluster (without_networks cid db) = db_cluster db"
  "db_permission (without_networks cid db) = db_permission db"
  "db_hypervisor (without_networks cid db) = db_hypervisor db"
  "db_availability_zone (without_networks cid db) = db_availability_zone db"
  "db_tenant (without_networks cid db) = db_tenant db" "db_quota (without_networks cid db) = db_quota db"
  "db_network (without_networks cid db) = filter (\<lambda>r. nw_cluster_tenant_id r \<notin> set (tenant_ids cid db)) (db_network db)"
  "db_floating_ip (without_networks cid db) = filter (\<lambda>r. fip_cluster_network_id r \<notin> set (network_ids cid db)) (db_floating_ip db)"
  "db_subnet (without_networks cid db) = filter (\<lambda>r. sn_cluster_network_id r \<notin> set (network_ids cid db)) (db_subnet db)"
  "db_nameserver (without_networks cid db) = filter (\<lambda>r. ns_cluster_subnet_id r \<notin> set (subnet_ids cid db)) (db_nameserver db)"
  "db_dhcp_pool (without_networks cid db) = filter (\<lambda>r. dp_cluster_subnet_id r \<notin> set (subnet_ids cid db)) (db_dhcp_pool db)"
  "db_router (without_networks cid db) = db_router db"
  "db_routing_interface (without_networks cid db) = filter (\<lambda>r. ri_cluster_subnet_id r \<notin> set (subnet_ids cid db)) (db_routing_interface db)"
  "db_extra_route (without_networks cid db) = db_extra_route db"
  "db_security_group (without_networks cid db) = db_security_group db"
  "db_security_group_rule (without_networks cid db) = db_security_group_rule db"
  "db_storage (without_networks cid db) = db_storage db"
  "db_volume (without_networks cid db) = db_volume db"
  "db_volume_snapshot (without_networks cid db) = db_volume_snapshot db"
  "db_instance_spec (without_networks cid db) = db_instance_spec db"
  "db_extra_spec (without_networks cid db) = db_extra_spec db"
  "db_keypair (without_networks cid db) = db_keypair db"
  "db_instance (without_networks cid db) = db_instance db"
  "db_instance_network (without_networks cid db) = filter (\<lambda>r. inw_cluster_network_id r \<notin> set (network_ids cid db)) (db_instance_network db)"
  "db_instance_security_group (without_networks cid db) = db_instance_security_group db"
  "db_instance_volume (without_networks cid db) = db_instance_volume db"
  "db_instance_user_script (without_networks cid db) = db_instance_user_script db"
  by (simp_all add: without_networks_def)

lemma without_instances_simps [simp]:
  "db_groups (without_instances cid db) = db_groups db"
  "db_cluster (without_instances cid db) = db_cluster db"
  "db_permission (without_instances cid db) = db_permission db"
  "db_hypervisor (without_instances cid db) = db_hypervisor db"
  "db_availability_zone (without_instances cid db) = db_availability_zone db"
  "db_tenant (without_instances cid db) = db_tenant db"
  "db_quota (without_instances cid db) = db_quota db"
  "db_network (without_instances cid db) = db_network db"
  "db_floating_ip (without_instances cid db) = db_floating_ip db"
  "db_subnet (without_instances cid db) = db_subnet db"
  "db_nameserver (without_instances cid db) = db_nameserver db"
  "db_dhcp_pool (without_instances cid db) = db_dhcp_pool db"
  "db_router (without_instances cid db) = db_router db"
  "db_routing_interface (without_instances cid db) = db_routing_interface db"
  "db_extra_route (without_instances cid db) = db_extra_route db"
  "db_security_group (without_instances cid db) = db_security_group db"
  "db_security_group_rule (without_instances cid db) = db_security_group_rule db"
  "db_storage (without_instances cid db) = db_storage db"
  "db_volume (without_instances cid db) = db_volume db"
  "db_volume_snapshot (without_instances cid db) = db_volume_snapshot db"
  "db_instance_spec (without_instances cid db) = filter (\<lambda>r. sp_cluster_id r \<noteq> cid) (db_instance_spec db)"
  "db_extra_spec (without_instances cid db) = filter (\<lambda>r. es_cluster_instance_spec_id r \<notin> set (spec_ids cid db)) (db_extra_spec db)"
  "db_keypair (without_instances cid db) = filter (\<lambda>r. kp_cluster_id r \<noteq> cid) (db_keypair db)"
  "db_instance (without_instances cid db) = filter (\<lambda>r. ins_cluster_tenant_id r \<notin> set (tenant_ids cid db)) (db_instance db)"
  "db_instance_network (without_instances cid db) = db_instance_network db"
  "db_instance_security_group (without_instances cid db) = db_instance_security_group db"
  "db_instance_volume (without_instances cid db) = db_instance_volume db"
  "db_instance_user_script (without_instances cid db) = db_instance_user_script db"
  by (simp_all add: without_instances_def)

lemma without_routers_simps [simp]:
  "db_groups (without_routers cid db) = db_groups db"
  "db_cluster (without_routers cid db) = db_cluster db"
  "db_permission (without_routers cid db) = db_permission db"
  "db_hypervisor (without_routers cid db) = db_hypervisor db"
  "db_availability_zone (without_routers cid db) = db_availability_zone db"
  "db_tenant (without_routers cid db) = db_tenant db" "db_quota (without_routers cid db) = db_quota db"
  "db_network (without_routers cid db) = db_network db"
  "db_floating_ip (without_routers cid db) = db_floating_ip db"
  "db_subnet (without_routers cid db) = db_subnet db"
  "db_nameserver (without_routers cid db) = db_nameserver db"
  "db_dhcp_pool (without_routers cid db) = db_dhcp_pool db"
  "db_router (without_routers cid db) = filter (\<lambda>r. rt_id r \<notin> set (router_ids cid db)) (db_router db)"
  "db_routing_interface (without_routers cid db) = db_routing_interface db"
  "db_extra_route (without_routers cid db) = filter (\<lambda>r. er_cluster_router_id r \<notin> set (router_ids cid db)) (db_extra_route db)"
  "db_security_group (without_routers cid db) = db_security_group db"
  "db_security_group_rule (without_routers cid db) = db_security_group_rule db"
  "db_storage (without_routers cid db) = db_storage db"
  "db_volume (without_routers cid db) = db_volume db"
  "db_volume_snapshot (without_routers cid db) = db_volume_snapshot db"
  "db_instance_spec (without_routers cid db) = db_instance_spec db"
  "db_extra_spec (without_routers cid db) = db_extra_spec db"
  "db_keypair (without_routers cid db) = db_keypair db"
  "db_instance (without_routers cid db) = db_instance db"
  "db_instance_network (without_routers cid db) = db_instance_network db"
  "db_instance_security_group (without_routers cid db) = db_instance_security_group db"
  "db_instance_volume (without_routers cid db) = db_instance_volume db"
  "db_instance_user_script (without_routers cid db) = db_instance_user_script db"
  by (simp_all add: without_routers_def)

lemma without_tenants_simps [simp]:
  "db_groups (without_tenants cid db) = db_groups db"
  "db_cluster (without_tenants cid db) = db_cluster db"
  "db_permission (without_tenants cid db) = db_permission db"
  "db_hypervisor (without_tenants cid db) = filter (\<lambda>r. hv_cluster_id r \<noteq> cid) (db_hypervisor db)"
  "db_availability_zone (without_tenants cid db) = filter (\<lambda>r. az_cluster_id r \<noteq> cid) (db_availability_zone db)"
  "db_tenant (without_tenants cid db) = filter (\<lambda>r. tn_cluster_id r \<noteq> cid) (db_tenant db)"
  "db_quota (without_tenants cid db) = filter (\<lambda>r. qt_cluster_tenant_id r \<notin> set (tenant_ids cid db)) (db_quota db)"
  "db_network (without_tenants cid db) = db_network db"
  "db_floating_ip (without_tenants cid db) = db_floating_ip db"
  "db_subnet (without_tenants cid db) = db_subnet db"
  "db_nameserver (without_tenants cid db) = db_nameserver db"
  "db_dhcp_pool (without_tenants cid db) = db_dhcp_pool db"
  "db_router (without_tenants cid db) = db_router db"
  "db_routing_interface (without_tenants cid db) = db_routing_interface db"
  "db_extra_route (without_tenants cid db) = db_extra_route db"
  "db_security_group (without_tenants cid db) = db_security_group db"
  "db_security_group_rule (without_tenants cid db) = db_security_group_rule db"
  "db_storage (without_tenants cid db) = db_storage db"
  "db_volume (without_tenants cid db) = db_volume db"
  "db_volume_snapshot (without_tenants cid db) = db_volume_snapshot db"
  "db_instance_spec (without_tenants cid db) = db_instance_spec db"
  "db_extra_spec (without_tenants cid db) = db_extra_spec db"
  "db_keypair (without_tenants cid db) = db_keypair db"
  "db_instance (without_tenants cid db) = db_instance db"
  "db_instance_network (without_tenants cid db) = db_instance_network db"
  "db_instance_security_group (without_tenants cid db) = db_instance_security_group db"
  "db_instance_volume (without_tenants cid db) = db_instance_volume db"
  "db_instance_user_script (without_tenants cid db) = db_instance_user_script db"
  by (simp_all add: without_tenants_def)

text \<open>What refers to a row of the cluster is a row of the cluster.\<close>

definition references_inside :: "nat \<Rightarrow> database \<Rightarrow> bool" where
  "references_inside cid db \<longleftrightarrow>
     (\<forall>r \<in> set (db_security_group_rule db). \<forall>g \<in> set (group_ids cid db).
        sgr_remote_security_group_id r = Some g \<longrightarrow> sgr_security_group_id r \<in> set (group_ids cid db)) \<and>
     (\<forall>r \<in> set (db_instance_network db). \<forall>f \<in> set (db_floating_ip db).
        inw_cluster_floating_ip_id r = Some (fip_id f) \<and> fip_cluster_network_id f \<in> set (network_ids cid db) \<longrightarrow>
        inw_cluster_network_id r \<in> set (network_ids cid db)) \<and>
     (\<forall>r \<in> set (db_instance_network db). inw_cluster_subnet_id r \<in> set (subnet_ids cid db) \<longrightarrow>
        inw_cluster_network_id r \<in> set (network_ids cid db)) \<and>
     (\<forall>i \<in> set (db_instance db). ins_cluster_tenant_id i \<in> set (tenant_ids cid db) \<longrightarrow>
        (\<forall>r \<in> set (db_instance_network db). inw_cluster_instance_id r = ins_id i \<longrightarrow>
           inw_cluster_network_id r \<in> set (network_ids cid db)) \<and>
        (\<forall>r \<in> set (db_instance_security_group db). isg_cluster_instance_id r = ins_id i \<longrightarrow>
           isg_cluster_security_group_id r \<in> set (group_ids cid db)) \<and>
        (\<forall>r \<in> set (db_instance_volume db). ivol_cluster_instance_id r = ins_id i \<longrightarrow>
           ivol_cluster_volume_id r \<in> set (volume_ids cid db))) \<and>
     (\<forall>i \<in> set (db_instance db).
        (\<exists>r \<in> set (db_instance_spec db). sp_cluster_id r = cid \<and> ins_cluster_instance_spec_id i = sp_id r) \<or>
        (\<exists>r \<in> set (db_keypair db). kp_cluster_id r = cid \<and> ins_cluster_keypair_id i = Some (kp_id r)) \<or>
        (\<exists>r \<in> set (db_hypervisor db). hv_cluster_id r = cid \<and> ins_cluster_hypervisor_id i = hv_id r) \<or>
        (\<exists>r \<in> set (db_availability_zone db). az_cluster_id r = cid \<and> ins_cluster_availability_zone_id i = az_id r) \<longrightarrow>
        ins_cluster_tenant_id i \<in> set (tenant_ids cid db)) \<and>
     (\<forall>r \<in> set (db_routing_interface db). ri_cluster_router_id r \<in> set (router_ids cid db) \<longrightarrow>
        ri_cluster_subnet_id r \<in> set (subnet_ids cid db)) \<and>
     (\<forall>f \<in> set (db_floating_ip db). fip_cluster_tenant_id f \<in> set (tenant_ids cid db) \<longrightarrow>
        fip_cluster_network_id f \<in> set (network_ids cid db)) \<and>
     (\<forall>v \<in> set (db_volume db). vol_cluster_tenant_id v \<in> set (tenant_ids cid db) \<longrightarrow>
        vol_cluster_storage_id v \<in> set (storage_ids cid db)) \<and>
     (\<forall>h \<in> set (db_hypervisor db). \<forall>z \<in> set (db_availability_zone db).
        az_cluster_id z = cid \<and> hv_cluster_availability_zone_id h = az_id z \<longrightarrow> hv_cluster_id h = cid)"

lemma inside:
  assumes "references_inside cid db"
  shows "r1 \<in> set (db_security_group_rule db) \<Longrightarrow> g \<in> set (group_ids cid db) \<Longrightarrow>
      sgr_remote_security_group_id r1 = Some g \<Longrightarrow> sgr_security_group_id r1 \<in> set (group_ids cid db)"
    and "r2 \<in> set (db_instance_network db) \<Longrightarrow> f \<in> set (db_floating_ip db) \<Longrightarrow>
      inw_cluster_floating_ip_id r2 = Some (fip_id f) \<Longrightarrow> fip_cluster_network_id f \<in> set (network_ids cid db) \<Longrightarrow>
      inw_cluster_network_id r2 \<in> set (network_ids cid db)"
    and "r2 \<in> set (db_instance_network db) \<Longrightarrow> inw_cluster_subnet_id r2 \<in> set (subnet_ids cid db) \<Longrightarrow>
      inw_cluster_network_id r2 \<in> set (network_ids cid db)"
    and "i \<in> set (db_instance db) \<Longrightarrow> ins_cluster_tenant_id i \<in> set (tenant_ids cid db) \<Longrightarrow>
      r2 \<in> set (db_instance_network db) \<Longrightarrow> inw_cluster_instance_id r2 = ins_id i \<Longrightarrow>
      inw_cluster_network_id r2 \<in> set (network_ids cid db)"
    and "i \<in> set (db_instance db) \<Longrightarrow> ins_cluster_tenant_id i \<in> set (tenant_ids cid db) \<Longrightarrow>
      r3 \<in> set (db_instance_security_group db) \<Longrightarrow> isg_cluster_instance_id r3 = ins_id i \<Longrightarrow>
      isg_cluster_security_group_id r3 \<in> set (group_ids cid db)"
    and "i \<in> set (db_instance db) \<Longrightarrow> ins_cluster_tenant_id i \<in> set (tenant_ids cid db) \<Longrightarrow>
      r4 \<in> set (db_instance_volume db) \<Longrightarrow> ivol_cluster_instance_id r4 = ins_id i \<Longrightarrow>
      ivol_cluster_volume_id r4 \<in> set (volume_ids cid db)"
    and "i \<in> set (db_instance db) \<Longrightarrow> sp \<in> set (db_instance_spec db) \<Longrightarrow> sp_cluster_id sp = cid \<Longrightarrow>
      ins_cluster_instance_spec_id i = sp_id sp \<Longrightarrow> ins_cluster_tenant_id i \<in> set (tenant_ids cid db)"
    and "i \<in> set (db_instance db) \<Longrightarrow> k \<in> set (db_keypair db) \<Longrightarrow> kp_cluster_id k = cid \<Longrightarrow>
      ins_cluster_keypair_id i = Some (kp_id k) \<Longrightarrow> ins_cluster_tenant_id i \<in> set (tenant_ids cid db)"
    and "i \<in> set (db_instance db) \<Longrightarrow> h \<in> set (db_hypervisor db) \<Longrightarrow> hv_cluster_id h = cid \<Longrightarrow>
      ins_cluster_hypervisor_id i = hv_id h \<Longrightarrow> ins_cluster_tenant_id i \<in> set (tenant_ids cid db)"
    and "i \<in> set (db_instance db) \<Longrightarrow> z \<in> set (db_availability_zone db) \<Longrightarrow> az_cluster_id z = cid \<Longrightarrow>
      ins_cluster_availability_zone_id i = az_id z \<Longrightarrow> ins_cluster_tenant_id i \<in> set (tenant_ids cid db)"
    and "r5 \<in> set (db_routing_interface db) \<Longrightarrow> ri_cluster_router_id r5 \<in> set (router_ids cid db) \<Longrightarrow>
      ri_cluster_subnet_id r5 \<in> set (subnet_ids cid db)"
    and "f \<in> set (db_floating_ip db) \<Longrightarrow> fip_cluster_tenant_id f \<in> set (tenant_ids cid db) \<Longrightarrow>
      fip_cluster_network_id f \<in> set (network_ids cid db)"
    and "v \<in> set (db_volume db) \<Longrightarrow> vol_cluster_tenant_id v \<in> set (tenant_ids cid db) \<Longrightarrow>
      vol_cluster_storage_id v \<in> set (storage_ids cid db)"
    and "h \<in> set (db_hypervisor db) \<Longrightarrow> z \<in> set (db_availability_zone db) \<Longrightarrow> az_cluster_id z = cid \<Longrightarrow>
      hv_cluster_availability_zone_id h = az_id z \<Longrightarrow> hv_cluster_id h = cid"
  using assms unfolding references_inside_def by (elim conjE; metis)+

definition without_scripts :: "nat \<Rightarrow> database \<Rightarrow> bool" where
  "without_scripts cid db \<longleftrightarrow> (\<forall>i \<in> set (db_instance db). ins_cluster_tenant_id i \<in> set (tenant_ids cid db) \<longrightarrow>
     (\<forall>u \<in> set (db_instance_user_script db). us_cluster_instance_id u \<noteq> ins_id i))"

section \<open>What the statements write\<close>

definition writes :: "err option op \<Rightarrow> database \<Rightarrow> database \<Rightarrow> bool" where
  "writes m db db' \<longleftrightarrow> (\<forall>w. undisturbed w \<and> w_db w = db \<longrightarrow>
     (\<exists>ev. run_state m w = (None, w\<lparr>w_db := db', w_events := ev\<rparr>)))"

lemma writesD: "writes m db db' \<Longrightarrow> undisturbed w \<Longrightarrow> w_db w = db \<Longrightarrow>
    \<exists>ev. run_state m w = (None, w\<lparr>w_db := db', w_events := ev\<rparr>)"
  by (simp add: writes_def)

lemma undisturbed_events [simp]: "undisturbed (w\<lparr>w_events := ev\<rparr>) = undisturbed w"
  by (simp add: undisturbed_def)

lemma writes_check:
  assumes "writes m db d" and "writes k d db'"
  shows "writes (check m k) db db'"
  unfolding writes_def
proof (intro allI impI)
  fix w assume w: "undisturbed w \<and> w_db w = db"
  obtain ev where ev: "run_state m w = (None, w\<lparr>w_db := d, w_events := ev\<rparr>)" using writesD [OF assms(1)] w by blast
  obtain ev' where "run_state k (w\<lparr>w_db := d, w_events := ev\<rparr>) = (None, w\<lparr>w_db := db', w_events := ev'\<rparr>)"
    using writesD [OF assms(2), of "w\<lparr>w_db := d, w_events := ev\<rparr>"] w by auto
  then show "\<exists>ev. run_state (check m k) w = (None, w\<lparr>w_db := db', w_events := ev\<rparr>)" using ev by (intro exI [of _ ev']) (simp add: check_def)
qed

lemma writes_exec: "q db = Inr db' \<Longrightarrow> writes (exec q) db db'"
  unfolding writes_def
  by (intro allI impI, rule_tac x = "w_events w" in exI) (auto simp: exec_def statement_open undisturbed_def)

lemma writes_fetch:
  assumes "writes (k (filter P (t db))) db db'"
  shows "writes (fetch (find_all t P) k) db db'"
  using assms by (auto simp: writes_def fetch_def find_all_def find_rows_def statement_open undisturbed_def)

lemma writes_nothing: "writes return_nil db db"
  unfolding writes_def
  by (intro allI impI, rule_tac x = "w_events w" in exI) (auto simp: return_nil_def)

lemma writes_for_err: "(\<And>x. x \<in> set xs \<Longrightarrow> writes (f x) db db) \<Longrightarrow> writes (for_err f xs) db db"
proof (induction xs)
  case Nil
  then show ?case using writes_nothing by (simp add: return_nil_def)
next
  case (Cons x xs)
  then have "writes (check (f x) (for_err f xs)) db db" by (intro writes_check) simp_all
  then show ?case by (simp add: check_def cong: option.case_cong)
qed

lemma writes_clear_each: "writes (clear_each t is) db db"
  unfolding clear_each_def
  by (rule writes_for_err)
    (auto simp: writes_def ignoring_def clear_tasks_by_id_def return_nil_def)

lemmas writes_intros = writes_fetch writes_check [OF writes_clear_each] writes_check [OF writes_exec] writes_exec

lemma removes_free:
  "delete_permission_rows P1 db = Inr (db\<lparr>db_permission := filter (\<lambda>r. \<not> P1 r) (db_permission db)\<rparr>)"
  "delete_volume_snapshot_rows P2 db = Inr (db\<lparr>db_volume_snapshot := filter (\<lambda>r. \<not> P2 r) (db_volume_snapshot db)\<rparr>)"
  "delete_instance_volume_rows P3 db = Inr (db\<lparr>db_instance_volume := filter (\<lambda>r. \<not> P3 r) (db_instance_volume db)\<rparr>)"
  "delete_instance_security_group_rows P4 db = Inr (db\<lparr>db_instance_security_group := filter (\<lambda>r. \<not> P4 r) (db_instance_security_group db)\<rparr>)"
  "delete_security_group_rule_rows P5 db = Inr (db\<lparr>db_security_group_rule := filter (\<lambda>r. \<not> P5 r) (db_security_group_rule db)\<rparr>)"
  "delete_instance_network_rows P6 db = Inr (db\<lparr>db_instance_network := filter (\<lambda>r. \<not> P6 r) (db_instance_network db)\<rparr>)"
  "delete_routing_interface_rows P7 db = Inr (db\<lparr>db_routing_interface := filter (\<lambda>r. \<not> P7 r) (db_routing_interface db)\<rparr>)"
  "delete_nameserver_rows P8 db = Inr (db\<lparr>db_nameserver := filter (\<lambda>r. \<not> P8 r) (db_nameserver db)\<rparr>)"
  "delete_dhcp_pool_rows P9 db = Inr (db\<lparr>db_dhcp_pool := filter (\<lambda>r. \<not> P9 r) (db_dhcp_pool db)\<rparr>)"
  "delete_extra_spec_rows P10 db = Inr (db\<lparr>db_extra_spec := filter (\<lambda>r. \<not> P10 r) (db_extra_spec db)\<rparr>)"
  "delete_extra_route_rows P11 db = Inr (db\<lparr>db_extra_route := filter (\<lambda>r. \<not> P11 r) (db_extra_route db)\<rparr>)"
  "delete_quota_rows P12 db = Inr (db\<lparr>db_quota := filter (\<lambda>r. \<not> P12 r) (db_quota db)\<rparr>)"
  by (simp_all add: delete_permission_rows_def delete_volume_snapshot_rows_def delete_instance_volume_rows_def delete_instance_security_group_rows_def delete_security_group_rule_rows_def delete_instance_network_rows_def delete_routing_interface_rows_def delete_nameserver_rows_def delete_dhcp_pool_rows_def delete_extra_spec_rows_def delete_extra_route_rows_def delete_quota_rows_def)

lemma removes_referenced:
  "(\<And>r. r \<in> set (db_volume db) \<Longrightarrow> P1 r \<Longrightarrow> \<not> volume_referenced db r) \<Longrightarrow>
    delete_volume_rows P1 db = Inr (db\<lparr>db_volume := filter (\<lambda>r. \<not> P1 r) (db_volume db)\<rparr>)"
  "(\<And>r. r \<in> set (db_storage db) \<Longrightarrow> P2 r \<Longrightarrow> \<not> storage_referenced db r) \<Longrightarrow>
    delete_storage_rows P2 db = Inr (db\<lparr>db_storage := filter (\<lambda>r. \<not> P2 r) (db_storage db)\<rparr>)"
  "(\<And>r. r \<in> set (db_security_group db) \<Longrightarrow> P3 r \<Longrightarrow> \<not> security_group_referenced db r) \<Longrightarrow>
    delete_security_group_rows P3 db = Inr (db\<lparr>db_security_group := filter (\<lambda>r. \<not> P3 r) (db_security_group db)\<rparr>)"
  "(\<And>r. r \<in> set (db_floating_ip db) \<Longrightarrow> P4 r \<Longrightarrow> \<not> floating_ip_referenced db r) \<Longrightarrow>
    delete_floating_ip_rows P4 db = Inr (db\<lparr>db_floating_ip := filter (\<lambda>r. \<not> P4 r) (db_floating_ip db)\<rparr>)"
  "(\<And>r. r \<in> set (db_subnet db) \<Longrightarrow> P5 r \<Longrightarrow> \<not> subnet_referenced db r) \<Longrightarrow>
    delete_subnet_rows P5 db = Inr (db\<lparr>db_subnet := filter (\<lambda>r. \<not> P5 r) (db_subnet db)\<rparr>)"
  "(\<And>r. r \<in> set (db_network db) \<Longrightarrow> P6 r \<Longrightarrow> \<not> network_referenced db r) \<Longrightarrow>
    delete_network_rows P6 db = Inr (db\<lparr>db_network := filter (\<lambda>r. \<not> P6 r) (db_network db)\<rparr>)"
  "(\<And>r. r \<in> set (db_instance db) \<Longrightarrow> P7 r \<Longrightarrow> \<not> instance_referenced db r) \<Longrightarrow>
    delete_instance_rows P7 db = Inr (db\<lparr>db_instance := filter (\<lambda>r. \<not> P7 r) (db_instance db)\<rparr>)"
  "(\<And>r. r \<in> set (db_instance_spec db) \<Longrightarrow> P8 r \<Longrightarrow> \<not> instance_spec_referenced db r) \<Longrightarrow>
    delete_instance_spec_rows P8 db = Inr (db\<lparr>db_instance_spec := filter (\<lambda>r. \<not> P8 r) (db_instance_spec db)\<rparr>)"
  "(\<And>r. r \<in> set (db_keypair db) \<Longrightarrow> P9 r \<Longrightarrow> \<not> keypair_referenced db r) \<Longrightarrow>
    delete_keypair_rows P9 db = Inr (db\<lparr>db_keypair := filter (\<lambda>r. \<not> P9 r) (db_keypair db)\<rparr>)"
  "(\<And>r. r \<in> set (db_router db) \<Longrightarrow> P10 r \<Longrightarrow> \<not> router_referenced db r) \<Longrightarrow>
    delete_router_rows P10 db = Inr (db\<lparr>db_router := filter (\<lambda>r. \<not> P10 r) (db_router db)\<rparr>)"
  "(\<And>r. r \<in> set (db_tenant db) \<Longrightarrow> P11 r \<Longrightarrow> \<not> tenant_referenced db r) \<Longrightarrow>
    delete_tenant_rows P11 db = Inr (db\<lparr>db_tenant := filter (\<lambda>r. \<not> P11 r) (db_tenant db)\<rparr>)"
  "(\<And>r. r \<in> set (db_hypervisor db) \<Longrightarrow> P12 r \<Longrightarrow> \<not> hypervisor_referenced db r) \<Longrightarrow>
    delete_hypervisor_rows P12 db = Inr (db\<lparr>db_hypervisor := filter (\<lambda>r. \<not> P12 r) (db_hypervisor db)\<rparr>)"
  "(\<And>r. r \<in> set (db_availability_zone db) \<Longrightarrow> P13 r \<Longrightarrow> \<not> availability_zone_referenced db r) \<Longrightarrow>
    delete_availability_zone_rows P13 db = Inr (db\<lparr>db_availability_zone := filter (\<lambda>r. \<not> P13 r) (db_availability_zone db)\<rparr>)"
  "(\<And>r. r \<in> set (db_cluster db) \<Longrightarrow> P14 r \<Longrightarrow> \<not> cluster_referenced db r) \<Longrightarrow>
    delete_cluster_rows P14 db = Inr (db\<lparr>db_cluster := filter (\<lambda>r. \<not> P14 r) (db_cluster db)\<rparr>)"
  by (simp_all add: delete_volume_rows_def delete_storage_rows_def delete_security_group_rows_def delete_floating_ip_rows_def delete_subnet_rows_def delete_network_rows_def delete_instance_rows_def delete_instance_spec_rows_def delete_keypair_rows_def delete_router_rows_def delete_tenant_rows_def delete_hypervisor_rows_def delete_availability_zone_rows_def delete_cluster_rows_def delete_from_free)

lemmas removes = removes_free removes_referenced

lemma writes_eq: "writes m db d \<Longrightarrow> d = db' \<Longrightarrow> writes m db db'"
  by simp

lemma writes_storages: "writes (delete_cluster_storage cid) db (without_storages cid db)"
  unfolding delete_cluster_storage_def
  by (rule writes_eq) (rule writes_intros removes | force simp: volume_referenced_def storage_referenced_def id_defs list_ex_iff
    without_storages_def)+

lemma writes_groups:
  assumes "\<And>r g. r \<in> set (db_security_group_rule db) \<Longrightarrow> g \<in> set (group_ids cid db) \<Longrightarrow>
      sgr_remote_security_group_id r = Some g \<Longrightarrow> sgr_security_group_id r \<in> set (group_ids cid db)"
  shows "writes (delete_cluster_security_group (tenant_ids cid db)) db (without_groups cid db)"
proof -
  have loop: "writes (for_err (\<lambda>g.
         fetch (find_all db_security_group_rule (\<lambda>r. cond_nat (sg_id g) (sgr_security_group_id r))) (\<lambda>rs.
         check (clear_each migration_task_type_create_security_group_rule (map sgr_id rs))
           (clear_each migration_task_type_create_security_group [sg_id g]))) sgs) d d" for sgs d
    by (intro writes_for_err writes_intros writes_clear_each)
  show ?thesis
    unfolding delete_cluster_security_group_def group_ids_def [symmetric]
    by (rule writes_eq) (rule writes_check [OF loop] writes_intros removes |
      force simp: security_group_referenced_def list_ex_iff without_groups_def group_ids_def
        dest: assms [unfolded group_ids_def])+
qed

lemma writes_networks:
  assumes "\<And>r f. r \<in> set (db_instance_network db) \<Longrightarrow> f \<in> set (db_floating_ip db) \<Longrightarrow>
      inw_cluster_floating_ip_id r = Some (fip_id f) \<Longrightarrow> fip_cluster_network_id f \<in> set (network_ids cid db) \<Longrightarrow>
      inw_cluster_network_id r \<in> set (network_ids cid db)"
    and "\<And>r. r \<in> set (db_instance_network db) \<Longrightarrow> inw_cluster_subnet_id r \<in> set (subnet_ids cid db) \<Longrightarrow>
      inw_cluster_network_id r \<in> set (network_ids cid db)"
  shows "writes (delete_cluster_network (tenant_ids cid db)) db (without_networks cid db)"
proof -
  let ?N = "set (network_ids cid db)" and ?S = "set (subnet_ids cid db)"
  let ?inw = "filter (\<lambda>r. inw_cluster_network_id r \<notin> ?N) (db_instance_network db)"
  let ?fip = "filter (\<lambda>r. fip_cluster_network_id r \<notin> ?N) (db_floating_ip db)"
  have ip: "\<not> floating_ip_referenced (db\<lparr>db_instance_network := ?inw\<rparr>) f"
    if "f \<in> set (db_floating_ip db)" "fip_cluster_network_id f \<in> ?N" for f
    unfolding floating_ip_referenced_def list_ex_iff using assms(1) that by auto
  have sn: "\<not> subnet_referenced (db\<lparr>db_instance_network := ?inw, db_floating_ip := ?fip,
      db_routing_interface := filter (\<lambda>r. ri_cluster_subnet_id r \<notin> ?S) (db_routing_interface db),
      db_nameserver := filter (\<lambda>r. ns_cluster_subnet_id r \<notin> ?S) (db_nameserver db),
      db_dhcp_pool := filter (\<lambda>r. dp_cluster_subnet_id r \<notin> ?S) (db_dhcp_pool db)\<rparr>) r"
    if "r \<in> set (db_subnet db)" "sn_cluster_network_id r \<in> ?N" for r
  proof -
    have "sn_id r \<in> ?S" using that by (simp add: subnet_ids_def)
    then show ?thesis unfolding subnet_referenced_def list_ex_iff using assms(2) by auto
  qed
  have nw: "\<not> network_referenced (db\<lparr>db_instance_network := ?inw, db_floating_ip := ?fip, db_routing_interface := a,
      db_nameserver := b, db_dhcp_pool := c,
      db_subnet := filter (\<lambda>r. sn_cluster_network_id r \<notin> ?N) (db_subnet db)\<rparr>) n"
    if "n \<in> set (db_network db)" "nw_cluster_tenant_id n \<in> set (tenant_ids cid db)" for n a b c
  proof -
    have "nw_id n \<in> ?N" using that by (simp add: network_ids_def)
    then show ?thesis unfolding network_referenced_def list_ex_iff by auto
  qed
  show ?thesis
    unfolding delete_cluster_network_def
    apply (rule writes_eq, rule writes_fetch, rule writes_check [OF writes_clear_each], rule writes_fetch)
     apply (unfold network_ids_def [symmetric] subnet_ids_def [symmetric])
     apply (rule writes_intros removes | (simp, rule ip sn nw, assumption+))+
    apply (simp add: without_networks_def)
    done
qed

lemma writes_routers:
  assumes "\<And>r. r \<in> set (db_routing_interface db) \<Longrightarrow> ri_cluster_router_id r \<notin> set (router_ids cid db)"
  shows "writes (delete_cluster_router (tenant_ids cid db)) db (without_routers cid db)"
  unfolding delete_cluster_router_def router_ids_def [symmetric]
  by (rule writes_eq) (rule writes_intros removes |
    force simp: router_referenced_def list_ex_iff without_routers_def router_ids_def
      dest: assms [unfolded router_ids_def])+

lemma writes_instances:
  assumes "\<And>i r. i \<in> set (db_instance db) \<Longrightarrow> ins_cluster_tenant_id i \<in> set (tenant_ids cid db) \<Longrightarrow>
      \<not> instance_referenced db i"
    and "\<And>i r. i \<in> set (db_instance db) \<Longrightarrow> r \<in> set (db_instance_spec db) \<Longrightarrow> sp_cluster_id r = cid \<Longrightarrow>
      ins_cluster_instance_spec_id i = sp_id r \<Longrightarrow> ins_cluster_tenant_id i \<in> set (tenant_ids cid db)"
    and "\<And>i r. i \<in> set (db_instance db) \<Longrightarrow> r \<in> set (db_keypair db) \<Longrightarrow> kp_cluster_id r = cid \<Longrightarrow>
      ins_cluster_keypair_id i = Some (kp_id r) \<Longrightarrow> ins_cluster_tenant_id i \<in> set (tenant_ids cid db)"
  shows "writes (delete_cluster_instance (tenant_ids cid db) cid) db (without_instances cid db)"
  unfolding delete_cluster_instance_def spec_ids_def [symmetric]
  by (rule writes_eq) (rule writes_intros removes |
    force simp: instance_spec_referenced_def keypair_referenced_def list_ex_iff without_instances_def spec_ids_def
      dest: assms)+

lemma writes_tenants:
  assumes "\<And>t. t \<in> set (db_tenant db) \<Longrightarrow> tn_cluster_id t = cid \<Longrightarrow>
      \<not> tenant_referenced (db\<lparr>db_quota := []\<rparr>) t"
    and "\<And>h. h \<in> set (db_hypervisor db) \<Longrightarrow> hv_cluster_id h = cid \<Longrightarrow> \<not> hypervisor_referenced db h"
    and "\<And>z. z \<in> set (db_availability_zone db) \<Longrightarrow> az_cluster_id z = cid \<Longrightarrow>
      \<not> availability_zone_referenced (db\<lparr>db_hypervisor := filter (\<lambda>h. hv_cluster_id h \<noteq> cid) (db_hypervisor db)\<rparr>) z"
  shows "writes (check (exec (delete_quota_rows (\<lambda>r. qt_cluster_tenant_id r \<in> set (tenant_ids cid db))))
    (check (exec (delete_tenant_rows (\<lambda>r. tn_cluster_id r = cid)))
    (check (exec (delete_hypervisor_rows (\<lambda>r. hv_cluster_id r = cid)))
       (exec (delete_availability_zone_rows (\<lambda>r. az_cluster_id r = cid)))))) db (without_tenants cid db)"
proof -
  have tenant: "\<not> tenant_referenced (db\<lparr>db_quota := filter (\<lambda>r. qt_cluster_tenant_id r \<notin> set (tenant_ids cid db)) (db_quota db)\<rparr>) t"
    if "t \<in> set (db_tenant db)" "tn_cluster_id t = cid" for t
    using assms(1) [OF that] that by (auto simp: tenant_referenced_def list_ex_iff tenant_ids_def)
  have hv: "\<not> hypervisor_referenced (db\<lparr>db_quota := q, db_tenant := ts\<rparr>) h"
    if "h \<in> set (db_hypervisor db)" "hv_cluster_id h = cid" for h q ts
    using assms(2) [OF that] by (simp add: hypervisor_referenced_def)
  have az: "\<not> availability_zone_referenced (db\<lparr>db_quota := q, db_tenant := ts,
      db_hypervisor := filter (\<lambda>h. hv_cluster_id h \<noteq> cid) (db_hypervisor db)\<rparr>) z"
    if "z \<in> set (db_availability_zone db)" "az_cluster_id z = cid" for z q ts
    using assms(3) [OF that] by (simp add: availability_zone_referenced_def)
  show ?thesis
    by (rule writes_eq) (rule writes_intros removes | simp add: tenant hv az without_tenants_def)+
qed

section \<open>Removing everything\<close>

lemmas without_defs = without_permissions_def without_storages_def without_groups_def without_networks_def
  without_instances_def without_routers_def without_tenants_def

definition stage :: "nat \<Rightarrow> nat \<Rightarrow> database \<Rightarrow> database" where
  "stage n cid db = fold (\<lambda>f d. f cid d) (take n [\<lambda>_ d. d, without_permissions, without_storages, without_groups, without_networks,
     without_instances, without_routers, without_tenants]) db"

lemma stage_simps:
  "stage 2 cid db = without_permissions cid db" "stage 3 cid db = without_storages cid (stage 2 cid db)"
  "stage 4 cid db = without_groups cid (stage 3 cid db)" "stage 5 cid db = without_networks cid (stage 4 cid db)"
  "stage 6 cid db = without_instances cid (stage 5 cid db)" "stage 7 cid db = without_routers cid (stage 6 cid db)"
  "stage 8 cid db = without_tenants cid (stage 7 cid db)"
  by (simp_all add: stage_def)

text \<open>The tables before each step are those of the original database or have lost their rows already.\<close>

lemma stage_ids:
  "tenant_ids cid (stage 3 cid db) = tenant_ids cid db" "tenant_ids cid (stage 4 cid db) = tenant_ids cid db"
  "tenant_ids cid (stage 5 cid db) = tenant_ids cid db" "tenant_ids cid (stage 6 cid db) = tenant_ids cid db"
  "tenant_ids cid (stage 7 cid db) = tenant_ids cid db" "volume_ids cid (stage 2 cid db) = volume_ids cid db"
  "storage_ids cid (stage 2 cid db) = storage_ids cid db"
  "group_ids cid (stage 3 cid db) = group_ids cid db" "network_ids cid (stage 4 cid db) = network_ids cid db"
  "subnet_ids cid (stage 4 cid db) = subnet_ids cid db" "router_ids cid (stage 6 cid db) = router_ids cid db"
  by (simp_all add: stage_simps id_defs)

lemma stage_tables:
  "db_security_group_rule (stage 3 cid db) = db_security_group_rule db"
  "db_instance_network (stage 4 cid db) = db_instance_network db" "db_floating_ip (stage 4 cid db) = db_floating_ip db"
  "db_instance (stage 5 cid db) = db_instance db" "db_instance_spec (stage 5 cid db) = db_instance_spec db"
  "db_keypair (stage 5 cid db) = db_keypair db" "db_instance_user_script (stage 5 cid db) = db_instance_user_script db"
  "db_instance_network (stage 5 cid db) = filter (\<lambda>r. inw_cluster_network_id r \<notin> set (network_ids cid db)) (db_instance_network db)"
  "db_instance_security_group (stage 5 cid db) =
     filter (\<lambda>r. isg_cluster_security_group_id r \<notin> set (group_ids cid db)) (db_instance_security_group db)"
  "db_instance_volume (stage 5 cid db) = filter (\<lambda>r. ivol_cluster_volume_id r \<notin> set (volume_ids cid db)) (db_instance_volume db)"
  "db_routing_interface (stage 6 cid db) =
     filter (\<lambda>r. ri_cluster_subnet_id r \<notin> set (subnet_ids cid db)) (db_routing_interface db)"
  "db_tenant (stage 7 cid db) = db_tenant db" "db_hypervisor (stage 7 cid db) = db_hypervisor db"
  "db_availability_zone (stage 7 cid db) = db_availability_zone db"
  "db_network (stage 7 cid db) = filter (\<lambda>r. nw_cluster_tenant_id r \<notin> set (tenant_ids cid db)) (db_network db)"
  "db_floating_ip (stage 7 cid db) = filter (\<lambda>r. fip_cluster_network_id r \<notin> set (network_ids cid db)) (db_floating_ip db)"
  "db_router (stage 7 cid db) = filter (\<lambda>r. rt_id r \<notin> set (router_ids cid db)) (db_router db)"
  "db_security_group (stage 7 cid db) = filter (\<lambda>r. sg_cluster_tenant_id r \<notin> set (tenant_ids cid db)) (db_security_group db)"
  "db_volume (stage 7 cid db) = filter (\<lambda>r. vol_id r \<notin> set (volume_ids cid db)) (db_volume db)"
  "db_instance (stage 7 cid db) = filter (\<lambda>r. ins_cluster_tenant_id r \<notin> set (tenant_ids cid db)) (db_instance db)"
  by (simp_all add: stage_simps id_defs)

end
