(* ===== verification/RemovalResults.thy ===== *)
theory RemovalResults
  imports RemovalSteps
begin

text \<open>
  What the removal of a cluster does: without failures and with references that stay inside of
  clusters it removes exactly the rows of the cluster and its keys; and the case in which the rows
  stay although the removal reports success.
\<close>

lemma stage_writes:
  assumes refs: "references_inside cid db"
  shows "writes (exec (delete_permission_rows (\<lambda>r. cp_cluster_id r = cid))) db (stage 2 cid db)"
    and "writes (delete_cluster_storage cid) (stage 2 cid db) (stage 3 cid db)"
    and "writes (delete_cluster_security_group (tenant_ids cid db)) (stage 3 cid db) (stage 4 cid db)"
    and "writes (delete_cluster_network (tenant_ids cid db)) (stage 4 cid db) (stage 5 cid db)"
    and "without_scripts cid db \<Longrightarrow> writes (delete_cluster_instance (tenant_ids cid db) cid) (stage 5 cid db) (stage 6 cid db)"
    and "writes (delete_cluster_router (tenant_ids cid db)) (stage 6 cid db) (stage 7 cid db)"
proof -
  note here = inside [OF refs]
  show "writes (exec (delete_permission_rows (\<lambda>r. cp_cluster_id r = cid))) db (stage 2 cid db)"
    by (rule writes_exec) (simp add: removes_free stage_simps(1) without_permissions_def)
  show "writes (delete_cluster_storage cid) (stage 2 cid db) (stage 3 cid db)"
    using writes_storages [of cid "stage 2 cid db"] by (simp add: stage_simps(2))
  show "writes (delete_cluster_security_group (tenant_ids cid db)) (stage 3 cid db) (stage 4 cid db)"
    by (rule writes_groups [of "stage 3 cid db" cid, unfolded stage_ids stage_tables stage_simps(3) [symmetric]])
      (rule here)
  show "writes (delete_cluster_network (tenant_ids cid db)) (stage 4 cid db) (stage 5 cid db)"
    by (rule writes_networks [of "stage 4 cid db" cid, unfolded stage_ids stage_tables stage_simps(4) [symmetric]])
      (rule here; assumption)+
  show "writes (delete_cluster_router (tenant_ids cid db)) (stage 6 cid db) (stage 7 cid db)"
    by (rule writes_routers [of "stage 6 cid db" cid, unfolded stage_ids stage_tables stage_simps(6) [symmetric]])
      (use here(11) in auto)
  assume scripts: "without_scripts cid db"
  have free: "\<not> instance_referenced (stage 5 cid db) i"
    if "i \<in> set (db_instance db)" "ins_cluster_tenant_id i \<in> set (tenant_ids cid db)" for i
    unfolding instance_referenced_def stage_tables list_ex_iff set_filter de_Morgan_disj
    using here(4-6) [OF that] scripts that by (auto simp: without_scripts_def)
  show "writes (delete_cluster_instance (tenant_ids cid db) cid) (stage 5 cid db) (stage 6 cid db)"
    by (rule writes_instances [of "stage 5 cid db" cid, unfolded stage_ids stage_tables stage_simps(5) [symmetric]])
      (rule free here; assumption)+
qed

lemma delete_relation_writes:
  assumes refs: "references_inside cid db" and scripts: "without_scripts cid db"
  shows "writes (delete_relation cid) db (stage 8 cid db)"
proof -
  note here = inside [OF refs] and steps = stage_writes [OF refs]
  have gone: "\<not> tenant_referenced (stage 7 cid db\<lparr>db_quota := []\<rparr>) t"
    if t: "t \<in> set (db_tenant db)" "tn_cluster_id t = cid" for t
  proof -
    have tid: "tn_id t \<in> set (tenant_ids cid db)" using t by (simp add: tenant_ids_def)
    have "\<not> (\<exists>r\<in>set (db_router (stage 7 cid db)). rt_cluster_tenant_id r = tn_id t)"
      using tid by (auto simp: stage_tables router_ids_def)
    moreover have "\<not> (\<exists>r\<in>set (db_volume (stage 7 cid db)). vol_cluster_tenant_id r = tn_id t)"
      using tid here(13) by (auto simp: stage_tables volume_ids_def)
    moreover have "\<not> (\<exists>r\<in>set (db_floating_ip (stage 7 cid db)). fip_cluster_tenant_id r = tn_id t)"
      using tid here(12) by (auto simp: stage_tables)
    ultimately show ?thesis
      using tid unfolding tenant_referenced_def list_ex_iff by (auto simp: stage_tables)
  qed
  have hosts: "\<not> hypervisor_referenced (stage 7 cid db) h"
    if "h \<in> set (db_hypervisor db)" "hv_cluster_id h = cid" for h
    using here(9) that unfolding hypervisor_referenced_def list_ex_iff by (auto simp: stage_tables)
  have zones: "\<not> availability_zone_referenced (stage 7 cid db\<lparr>db_hypervisor :=
      filter (\<lambda>h. hv_cluster_id h \<noteq> cid) (db_hypervisor (stage 7 cid db))\<rparr>) z"
    if "z \<in> set (db_availability_zone db)" "az_cluster_id z = cid" for z
    using here(10,14) that unfolding availability_zone_referenced_def list_ex_iff by (auto simp: stage_tables)
  note tenants = writes_tenants [of "stage 7 cid db" cid, unfolded stage_ids stage_tables stage_simps(7) [symmetric],
      OF gone hosts zones [unfolded stage_tables]]
  show ?thesis
    unfolding delete_relation_def Let_def
    by (rule writes_check [OF steps(1)], rule writes_check [OF steps(2)], rule writes_fetch,
        unfold tenant_ids_def [symmetric] stage_ids, rule writes_check [OF writes_clear_each],
        rule writes_check [OF steps(3)], rule writes_check [OF steps(4)], rule writes_check [OF steps(5) [OF scripts]],
        rule writes_check [OF steps(6)], rule tenants)
qed

section \<open>Statements that are refused\<close>

definition refuses :: "err option op \<Rightarrow> database \<Rightarrow> bool" where
  "refuses m db \<longleftrightarrow> (\<forall>w. undisturbed w \<and> w_db w = db \<longrightarrow>
     (\<exists>e w'. run_state m w = (Some e, w') \<and> w_tx w' = Aborted \<and> w_faults w' = [] \<and> w_kv w' = w_kv w))"

lemma refusesD:
  assumes "refuses m db" and "undisturbed w" and "w_db w = db"
  obtains e w' where "run_state m w = (Some e, w')" and "w_tx w' = Aborted" and "w_faults w' = []" and "w_kv w' = w_kv w"
  using assms unfolding refuses_def by blast

lemma refuses_exec: "q db = Inl e \<Longrightarrow> refuses (exec q) db"
  by (auto simp: refuses_def exec_def statement_open undisturbed_def)

lemma refuses_first: "refuses m db \<Longrightarrow> refuses (check m k) db"
  by (fastforce simp: refuses_def check_def)

lemma refuses_check:
  assumes "writes m db d" and "refuses k d"
  shows "refuses (check m k) db"
  unfolding refuses_def
proof (intro allI impI)
  fix w assume w: "undisturbed w \<and> w_db w = db"
  then obtain ev where ev: "run_state m w = (None, w\<lparr>w_db := d, w_events := ev\<rparr>)" using writesD [OF assms(1)] by blast
  have "undisturbed (w\<lparr>w_db := d, w_events := ev\<rparr>)" using w by simp
  then obtain e w' where "run_state k (w\<lparr>w_db := d, w_events := ev\<rparr>) = (Some e, w')" "w_tx w' = Aborted"
      "w_faults w' = []" "w_kv w' = w_kv w"
    using refusesD [OF assms(2), of "w\<lparr>w_db := d, w_events := ev\<rparr>"] by auto
  then show "\<exists>e w'. run_state (check m k) w = (Some e, w') \<and> w_tx w' = Aborted \<and> w_faults w' = [] \<and> w_kv w' = w_kv w"
    using ev by (auto simp: check_def)
qed

lemma refuses_fetch: "refuses (k (filter P (t db))) db \<Longrightarrow> refuses (fetch (find_all t P) k) db"
  by (auto simp: refuses_def fetch_def find_all_def find_rows_def statement_open undisturbed_def)

lemma transaction_writes:
  assumes "writes m (w_db w) db'" and "quiet w"
  shows "\<exists>ev. run_state (db_err (gorm_transaction m)) w = (None, w\<lparr>w_db := db', w_events := ev\<rparr>)"
proof -
  have w: "w_faults w = []" "w_tx w = NoTx" using assms(2) by (simp_all add: quiet_def)
  obtain ev where "run_state m (w\<lparr>w_tx := Open\<rparr>) = (None, w\<lparr>w_tx := Open, w_db := db', w_events := ev\<rparr>)"
    using writesD [OF assms(1), of "w\<lparr>w_tx := Open\<rparr>"] w by (auto simp: undisturbed_def)
  moreover have "w\<lparr>w_db := db', w_events := ev, w_tx := NoTx\<rparr> = w\<lparr>w_db := db', w_events := ev\<rparr>" using w(2) by (cases w) simp
  ultimately show ?thesis
    using w by (intro exI [of _ ev])
      (simp add: db_err_def gorm_transaction_def gorm_transaction_with_def pop_fault_def)
qed

lemma transaction_refused:
  assumes "refuses m (w_db w)" and "quiet w"
  shows "\<exists>w'. run_state (db_err (gorm_transaction m)) w = (None, w') \<and> quiet w' \<and> w_db w' = w_db w \<and> w_kv w' = w_kv w"
proof -
  have w: "w_faults w = []" "w_tx w = NoTx" using assms(2) by (simp_all add: quiet_def)
  obtain e w' where "run_state m (w\<lparr>w_tx := Open\<rparr>) = (Some e, w')" "w_tx w' = Aborted" "w_faults w' = []" "w_kv w' = w_kv w"
    using refusesD [OF assms(1), of "w\<lparr>w_tx := Open\<rparr>"] w by (auto simp: undisturbed_def)
  then show ?thesis
    using w by (auto simp: db_err_def gorm_transaction_def gorm_transaction_with_def pop_fault_def quiet_def)
qed

lemma delete_relation_refuses:
  assumes refs: "references_inside cid db" and "\<not> without_scripts cid db"
  shows "refuses (delete_relation cid) db"
proof -
  note steps = stage_writes [OF refs]
  obtain i u where iu: "i \<in> set (db_instance db)" "ins_cluster_tenant_id i \<in> set (tenant_ids cid db)"
      "u \<in> set (db_instance_user_script db)" "us_cluster_instance_id u = ins_id i"
    using assms(2) by (auto simp: without_scripts_def)
  have "instance_referenced (stage 5 cid db) i"
    using iu unfolding instance_referenced_def list_ex_iff stage_tables by blast
  then have "delete_instance_rows (\<lambda>r. ins_cluster_tenant_id r \<in> set (tenant_ids cid db)) (stage 5 cid db) = Inl fk_violation"
    using iu by (auto simp: delete_instance_rows_def delete_from_def list_ex_iff stage_tables)
  then have "refuses (delete_cluster_instance (tenant_ids cid db) cid) (stage 5 cid db)"
    unfolding delete_cluster_instance_def
    by (intro refuses_fetch refuses_check [OF writes_clear_each] refuses_first refuses_exec)
  then show ?thesis
    unfolding delete_relation_def Let_def
    by (intro refuses_check [OF steps(1)] refuses_check [OF steps(2)] refuses_fetch,
        unfold tenant_ids_def [symmetric] stage_ids, intro refuses_check [OF writes_clear_each]
        refuses_check [OF steps(3)] refuses_check [OF steps(4)] refuses_first)
qed

section \<open>Delete\<close>

text \<open>The request names a cluster of the caller's tenant that the caller may change.\<close>

definition may_remove :: "request_context \<Rightarrow> nat \<Rightarrow> database \<Rightarrow> bool" where
  "may_remove ctx cid db \<longleftrightarrow> cid \<noteq> 0 \<and> (\<exists>c \<in> set (db_cluster db). cl_id c = cid) \<and>
     (\<forall>c \<in> set (db_cluster db). cl_id c = cid \<longrightarrow> cl_tenant_id c = ctx_tenant ctx \<and> \<not> unauthorised ctx c)"

lemma get_cluster_allowed:
  assumes "may_remove ctx cid (w_db w)" and "quiet w"
  obtains c where "run_state (execute (get_cluster ctx cid)) w = (Inr c, w)" and "cl_id c = cid" and "\<not> unauthorised ctx c"
proof -
  let ?rows = "filter (\<lambda>c. cond_nat cid (cl_id c) \<and> cond_nat (ctx_tenant ctx) (cl_tenant_id c)) (db_cluster (w_db w))"
  obtain r where "r \<in> set (db_cluster (w_db w))" "cl_id r = cid" using assms(1) by (auto simp: may_remove_def)
  then have "r \<in> set ?rows" using assms(1) by (simp add: may_remove_def cond_nat_def)
  then have "least_by cl_id ?rows \<noteq> None" unfolding least_by_None by (metis list.set_cases list.distinct(1))
  then obtain c where c: "least_by cl_id ?rows = Some c" by (meson option.exhaust)
  have "c \<in> set ?rows" using least_by_Some [OF c] by (rule conjunct1)
  then have c1: "c \<in> set (db_cluster (w_db w))" "cond_nat cid (cl_id c)" by simp_all
  have nz: "cid \<noteq> 0" using assms(1) unfolding may_remove_def by blast
  then have c2: "cl_id c = cid" using c1(2) unfolding cond_nat_def by blast
  then have "\<not> unauthorised ctx c" using assms(1) c1(1) unfolding may_remove_def by blast
  moreover have "run_state (execute (get_cluster ctx cid)) w = (Inr c, w)"
    using c assms(2) by (simp del: cond_nat_nonzero add: execute_def get_cluster_def first_row_quiet)
  ultimately show ?thesis using that c2 by blast
qed

lemma stage_last:
  "db_permission (stage 8 cid db) = filter (\<lambda>r. cp_cluster_id r \<noteq> cid) (db_permission db)"
  "db_availability_zone (stage 8 cid db) = filter (\<lambda>r. az_cluster_id r \<noteq> cid) (db_availability_zone db)"
  "db_hypervisor (stage 8 cid db) = filter (\<lambda>r. hv_cluster_id r \<noteq> cid) (db_hypervisor db)"
  "db_tenant (stage 8 cid db) = filter (\<lambda>r. tn_cluster_id r \<noteq> cid) (db_tenant db)"
  "db_storage (stage 8 cid db) = filter (\<lambda>r. st_id r \<notin> set (storage_ids cid db)) (db_storage db)"
  "db_instance_spec (stage 8 cid db) = filter (\<lambda>r. sp_cluster_id r \<noteq> cid) (db_instance_spec db)"
  "db_cluster (stage 8 cid db) = db_cluster db"
  by (simp_all add: stage_simps without_permissions_def stage_ids(7) [unfolded stage_simps without_permissions_def])

lemma cluster_row_writes:
  assumes "cid \<noteq> 0"
  shows "writes (exec (delete_cluster_rows (\<lambda>r. cond_nat cid (cl_id r)))) (stage 8 cid db) (without_cluster cid db)"
proof (rule writes_exec)
  have free: "\<not> cluster_referenced (stage 8 cid db) r" if "cl_id r = cid" for r
  proof -
    have "\<not> (\<exists>x\<in>set (db_storage (stage 8 cid db)). st_cluster_id x = cid)"
      by (auto simp: stage_last storage_ids_def)
    then show ?thesis unfolding cluster_referenced_def list_ex_iff that stage_last(1-4,6) by simp
  qed
  have "delete_cluster_rows (\<lambda>r. cond_nat cid (cl_id r)) (stage 8 cid db) =
      Inr (stage 8 cid db\<lparr>db_cluster := filter (\<lambda>r. \<not> cond_nat cid (cl_id r)) (db_cluster db)\<rparr>)"
    using free assms unfolding stage_last(7) [of cid db, symmetric] by (intro removes_referenced(14)) (simp add: cond_nat_def)
  moreover have "filter (\<lambda>r. \<not> cond_nat cid (cl_id r)) (db_cluster db) = filter (\<lambda>r. cl_id r \<noteq> cid) (db_cluster db)"
    using assms by (intro filter_cong) (auto simp: cond_nat_def)
  ultimately show "delete_cluster_rows (\<lambda>r. cond_nat cid (cl_id r)) (stage 8 cid db) = Inr (without_cluster cid db)"
    by (simp only: without_cluster_def stage_simps)
qed

lemma delete_clusters_quiet:
  assumes "quiet w"
  shows "\<exists>w'. run_state (delete_clusters cid) w = (None, w') \<and> quiet w' \<and> w_db w' = w_db w \<and>
    w_kv w' = (\<lambda>k. if cluster_owns_key cid k then None else w_kv w k)"
  using assms
  by (auto simp: delete_clusters_def erase_prefix_quiet erase_quiet cluster_owns_key_def fun_eq_iff)

lemma check_passes: "run_state m w = (None, w1) \<Longrightarrow> run_state (check m k) w = run_state k w1"
  by (simp add: check_def)

lemma fetch_passes: "run_state m w = (Inr x, w1) \<Longrightarrow> run_state (fetch m k) w = run_state (k x) w1"
  by (simp add: fetch_def)

lemma delete_cluster_runs:
  assumes "may_remove ctx cid (w_db w)" and "quiet w" and "deletable cid (w_ticks w) = None"
    and tx: "run_state (db_err (gorm_transaction (check (delete_relation cid)
           (exec (delete_cluster_rows (\<lambda>r. cond_nat cid (cl_id r))))))) (w\<lparr>w_ticks := Suc (w_ticks w)\<rparr>) = (None, w1)"
    and "quiet w1" and "w_kv w1 = w_kv w"
  shows "\<exists>w'. run_state (delete_cluster deletable ctx cid) w = (None, w') \<and> w_db w' = w_db w1 \<and>
    w_kv w' = (\<lambda>k. if cluster_owns_key cid k then None else w_kv w k)"
proof -
  obtain c where c: "run_state (execute (get_cluster ctx cid)) w = (Inr c, w)" "cl_id c = cid" "\<not> unauthorised ctx c"
    using get_cluster_allowed [OF assms(1,2)] by blast
  obtain w2 where w2: "run_state (delete_clusters cid) w1 = (None, w2)" "w_db w2 = w_db w1"
      "w_kv w2 = (\<lambda>k. if cluster_owns_key cid k then None else w_kv w k)"
    using delete_clusters_quiet [OF assms(5), of cid] unfolding assms(6) by blast
  have "cid \<noteq> 0" using assms(1) by (simp add: may_remove_def)
  then have "run_state (delete_cluster deletable ctx cid) w = (None, w2\<lparr>w_events := w_events w2 @ [ClusterTasksCleared cid]\<rparr>)"
    by (simp del: cond_nat_nonzero add: delete_cluster_def fetch_passes [OF c(1)] c(2,3) ask_def assms(3) check_passes [OF tx]
      check_passes [OF w2(1)] ignoring_def clear_tasks_of_cluster_def return_nil_def)
  then show ?thesis using w2 by simp
qed

text \<open>C2. Removing a cluster that the user may remove and the disaster recovery manager lets go: when no call
  fails, no row of another cluster refers to a row of this one and none of its instances has a user script, the
  removal returns no error and removes exactly the rows of the cluster, from every table, and its keys, from the
  store. Rows and keys of other clusters stay as they are. With a user script no row is removed
  (\<open>delete_cluster_script\<close>).\<close>

theorem delete_cluster_exact:
  assumes "may_remove ctx cid (w_db w)" and "quiet w" and "deletable cid (w_ticks w) = None"
    and "references_inside cid (w_db w)" and "without_scripts cid (w_db w)"
  shows "\<exists>w'. run_state (delete_cluster deletable ctx cid) w = (None, w') \<and> w_db w' = without_cluster cid (w_db w) \<and>
    w_kv w' = (\<lambda>k. if cluster_owns_key cid k then None else w_kv w k)"
proof -
  have "cid \<noteq> 0" using assms(1) by (simp add: may_remove_def)
  then have "writes (check (delete_relation cid) (exec (delete_cluster_rows (\<lambda>r. cond_nat cid (cl_id r)))))
      (w_db w) (without_cluster cid (w_db w))"
    by (rule writes_check [OF delete_relation_writes [OF assms(4,5)] cluster_row_writes])
  then obtain ev where "run_state (db_err (gorm_transaction (check (delete_relation cid)
        (exec (delete_cluster_rows (\<lambda>r. cond_nat cid (cl_id r))))))) (w\<lparr>w_ticks := Suc (w_ticks w)\<rparr>)
      = (None, w\<lparr>w_ticks := Suc (w_ticks w), w_db := without_cluster cid (w_db w), w_events := ev\<rparr>)"
    using transaction_writes [of _ "w\<lparr>w_ticks := Suc (w_ticks w)\<rparr>"] assms(2) by auto
  from delete_cluster_runs [where deletable = deletable, OF assms(1,2,3) this] assms(2) show ?thesis by simp
qed

definition owner_context :: request_context where
  "owner_context = \<lparr>ctx_user = Some \<lparr>user_roles = [''user''], user_groups = [1]\<rparr>, ctx_tenant = 1\<rparr>"

definition two_clusters :: database where
  "two_clusters = empty_db\<lparr>db_cluster := [Reconcile.example_cluster 2, Reconcile.example_cluster 3],
     db_tenant := [(example_tenant 4)\<lparr>tn_cluster_id := 2\<rparr>, (example_tenant 5)\<lparr>tn_cluster_id := 3\<rparr>],
     db_network := [example_network 6 4, example_network 7 5]\<rparr>"

lemmas two_clusters_defs = two_clusters_def owner_context_def empty_db_def Reconcile.example_cluster_def
  example_tenant_def example_network_def

lemma two_clusters_ready:
  "may_remove owner_context 2 two_clusters" "references_inside 2 two_clusters" "without_scripts 2 two_clusters"
  by (simp add: may_remove_def unauthorised_def is_group_user_def two_clusters_defs)
    (simp add: references_inside_def two_clusters_defs, simp add: without_scripts_def two_clusters_defs)

theorem delete_cluster_exact_witness:
  "\<exists>w'. run_state (delete_cluster (\<lambda>_ _. None) owner_context 2) (example_world\<lparr>w_db := two_clusters\<rparr>) = (None, w') \<and>
     map nw_id (db_network (w_db w')) = [7] \<and> map cl_id (db_cluster (w_db w')) = [3]"
proof -
  have "w_db (example_world\<lparr>w_db := two_clusters\<rparr>) = two_clusters" by simp
  then obtain w' where "run_state (delete_cluster (\<lambda>_ _. None) owner_context 2) (example_world\<lparr>w_db := two_clusters\<rparr>) = (None, w')"
      "w_db w' = without_cluster 2 two_clusters"
    using delete_cluster_exact [of owner_context 2 "example_world\<lparr>w_db := two_clusters\<rparr>" "\<lambda>_ _. None"] two_clusters_ready by auto
  moreover have "map nw_id (db_network (without_cluster 2 two_clusters)) = [7]"
    by (simp add: without_cluster_def id_defs two_clusters_defs)
  moreover have "map cl_id (db_cluster (without_cluster 2 two_clusters)) = [3]"
    by (simp add: without_cluster_def two_clusters_defs)
  ultimately show ?thesis by metis
qed

text \<open>C36. When an instance of the cluster has a user script, the removal fails on the foreign key of the
  script, which it does not delete. The transaction is rolled back, but \<open>GormTransaction\<close> does not
  report it: no error is returned, every row stays, and the keys of the cluster are gone.\<close>

theorem delete_cluster_script:
  assumes "may_remove ctx cid (w_db w)" and "quiet w" and "deletable cid (w_ticks w) = None"
    and "references_inside cid (w_db w)" and "\<not> without_scripts cid (w_db w)"
  shows "\<exists>w'. run_state (delete_cluster deletable ctx cid) w = (None, w') \<and> w_db w' = w_db w \<and>
    w_kv w' = (\<lambda>k. if cluster_owns_key cid k then None else w_kv w k)"
proof -
  have "refuses (check (delete_relation cid) (exec (delete_cluster_rows (\<lambda>r. cond_nat cid (cl_id r))))) (w_db w)"
    by (rule refuses_first [OF delete_relation_refuses [OF assms(4,5)]])
  then obtain w1 where w1: "run_state (db_err (gorm_transaction (check (delete_relation cid)
        (exec (delete_cluster_rows (\<lambda>r. cond_nat cid (cl_id r))))))) (w\<lparr>w_ticks := Suc (w_ticks w)\<rparr>) = (None, w1)"
      "quiet w1" "w_db w1 = w_db w" "w_kv w1 = w_kv w"
    using transaction_refused [of _ "w\<lparr>w_ticks := Suc (w_ticks w)\<rparr>"] assms(2) by auto
  from delete_cluster_runs [where deletable = deletable, OF assms(1,2,3) w1(1,2,4)] w1(3) show ?thesis by simp
qed

definition example_instance :: "nat \<Rightarrow> nat \<Rightarrow> cluster_instance" where
  "example_instance i t = \<lparr>ins_id = i, ins_cluster_tenant_id = t, ins_cluster_availability_zone_id = 20,
     ins_cluster_hypervisor_id = 21, ins_cluster_instance_spec_id = 22, ins_cluster_keypair_id = None,
     ins_uuid = ''i'', ins_name = ''vm'', ins_description = None, ins_state = ''up'', ins_status = ''ACTIVE'',
     ins_raw = None\<rparr>"

definition scripted_clusters :: database where
  "scripted_clusters = two_clusters\<lparr>db_instance := [example_instance 8 4],
     db_instance_user_script := [\<lparr>us_cluster_instance_id = 8, us_user_data = ''x''\<rparr>]\<rparr>"

lemma scripted_clusters_ready:
  "may_remove owner_context 2 scripted_clusters" "references_inside 2 scripted_clusters"
  "\<not> without_scripts 2 scripted_clusters"
  by (simp add: may_remove_def unauthorised_def is_group_user_def scripted_clusters_def two_clusters_defs)
    (simp add: references_inside_def scripted_clusters_def example_instance_def two_clusters_defs,
     simp add: without_scripts_def tenant_ids_def scripted_clusters_def example_instance_def two_clusters_defs)

theorem delete_cluster_script_witness:
  "\<exists>w'. run_state (delete_cluster (\<lambda>_ _. None) owner_context 2)
       (example_world\<lparr>w_db := scripted_clusters, w_kv := [cluster_base_key 2 \<mapsto> Doc JNull]\<rparr>) = (None, w') \<and>
     map cl_id (db_cluster (w_db w')) = [2, 3] \<and> w_kv w' (cluster_base_key 2) = None"
proof -
  let ?w = "example_world\<lparr>w_db := scripted_clusters, w_kv := [cluster_base_key 2 \<mapsto> Doc JNull]\<rparr>"
  have "w_db ?w = scripted_clusters" by simp
  then obtain w' where "run_state (delete_cluster (\<lambda>_ _. None) owner_context 2) ?w = (None, w')"
      "w_db w' = scripted_clusters" "w_kv w' = (\<lambda>k. if cluster_owns_key 2 k then None else w_kv ?w k)"
    using delete_cluster_script [of owner_context 2 ?w "\<lambda>_ _. None"] scripted_clusters_ready by auto
  moreover have "map cl_id (db_cluster scripted_clusters) = [2, 3]" by (simp add: scripted_clusters_def two_clusters_defs)
  moreover have "cluster_owns_key 2 (cluster_base_key 2)" by (simp add: cluster_owns_key_def)
  ultimately show ?thesis by metis
qed

end
