(* ===== verification/ServiceStatus.thy ===== *)
theory ServiceStatus
  imports SyncStorage
begin

text \<open>
  The status of the services of a cluster: the messages that carry it (\<open>queue/message.go\<close>), the
  services a user excludes (\<open>internal/cluster/cluster_util.go\<close>), the network agents
  (\<open>sync/network_agent.go\<close>), and how the request handler keeps the status of every cluster in
  memory (\<open>handler/monitor.go\<close>).
\<close>

section \<open>Messages\<close>

text \<open>
  A nil slice is the empty list: \<open>omitempty\<close> leaves out an empty slice, so the receiver of a
  message never gets one that is empty and not nil.
\<close>

record compute_services =
  cmp_id :: string
  cmp_binary :: string
  cmp_host :: string
  cmp_zone :: string
  cmp_status :: string
  cmp_state :: string
  cmp_updated_at :: string
  cmp_exception :: bool
  cmp_deleted :: bool

record network_agent =
  agn_id :: string
  agn_type :: string
  agn_binary :: string
  agn_host :: string
  agn_status :: string
  agn_heartbeat_timestamp :: string
  agn_exception :: bool
  agn_deleted :: bool

record cluster_service_status =
  svc_cluster_id :: nat
  svc_storage :: "storage_services list"
  svc_compute :: "compute_services list"
  svc_network :: "network_agent list"
  svc_status :: string
  svc_is_new :: bool
  svc_storage_error :: string
  svc_compute_error :: string
  svc_network_error :: string

record storage_status_message =
  stm_id :: string
  stm_binary :: string
  stm_backend_name :: string
  stm_host :: string
  stm_zone :: string
  stm_status :: string
  stm_last_updated :: string
  stm_exception :: bool
  stm_deleted :: bool

record compute_status_message =
  com_id :: string
  com_binary :: string
  com_host :: string
  com_zone :: string
  com_status :: string
  com_last_updated :: string
  com_exception :: bool
  com_deleted :: bool

record network_status_message =
  nem_id :: string
  nem_type :: string
  nem_binary :: string
  nem_host :: string
  nem_status :: string
  nem_last_updated :: string
  nem_exception :: bool
  nem_deleted :: bool

text \<open>A map is the list of its entries.\<close>

record excluded_cluster =
  xc_cluster_id :: nat
  xc_storage :: "(string \<times> storage_status_message) list"
  xc_compute :: "(string \<times> compute_status_message) list"
  xc_network :: "(string \<times> network_status_message) list"

section \<open>Their documents\<close>

definition put_bool :: "string \<Rightarrow> bool \<Rightarrow> (string \<times> json) list" where
  "put_bool k b = unless (\<not> b) k (JBool b)"

definition put_list :: "string \<Rightarrow> ('a \<Rightarrow> json) \<Rightarrow> 'a list \<Rightarrow> (string \<times> json) list" where
  "put_list k f xs = unless (xs = []) k (JArr (map f xs))"

definition put_map :: "string \<Rightarrow> ('a \<Rightarrow> json) \<Rightarrow> (string \<times> 'a) list \<Rightarrow> (string \<times> json) list" where
  "put_map k f xs = unless (xs = []) k (JObj (map (\<lambda>(i, x). (i, f x)) xs))"

definition decode_entry :: "(json \<Rightarrow> 'a option) \<Rightarrow> string \<times> json \<Rightarrow> (string \<times> 'a) option" where
  "decode_entry f e = map_option (Pair (fst e)) (f (snd e))"

lemmas put_all_defs = put_defs put_bool_def put_list_def put_map_def

lemma decode_map:
  "(\<And>x. f (g x) = Some x) \<Longrightarrow> decode_all (decode_entry f) (map (\<lambda>(i, x). (i, g x)) xs) = Some xs"
  by (induction xs) (auto simp: decode_entry_def)

definition encode_storage_services :: "storage_services \<Rightarrow> json" where
  "encode_storage_services x = JObj [(''id'', JStr (ss_id x)), (''binary'', JStr (ss_binary x)),
     (''backendName'', JStr (ss_backend_name x)), (''host'', JStr (ss_host x)), (''zone'', JStr (ss_zone x)),
     (''status'', JStr (ss_status x)), (''updated_at'', JStr (ss_updated_at x)),
     (''exception'', JBool (ss_exception x)), (''deleted'', JBool (ss_deleted x))]"

definition decode_storage_services :: "json \<Rightarrow> storage_services option" where
  "decode_storage_services j = do {
     fs \<leftarrow> as_obj j;
     i \<leftarrow> as_str (jfield ''id'' fs); b \<leftarrow> as_str (jfield ''binary'' fs);
     n \<leftarrow> as_str (jfield ''backendName'' fs); h \<leftarrow> as_str (jfield ''host'' fs);
     z \<leftarrow> as_str (jfield ''zone'' fs); s \<leftarrow> as_str (jfield ''status'' fs);
     u \<leftarrow> as_str (jfield ''updated_at'' fs); e \<leftarrow> as_bool (jfield ''exception'' fs);
     d \<leftarrow> as_bool (jfield ''deleted'' fs);
     Some \<lparr>ss_id = i, ss_binary = b, ss_backend_name = n, ss_host = h, ss_zone = z, ss_status = s,
       ss_updated_at = u, ss_exception = e, ss_deleted = d\<rparr>
   }"

definition encode_compute_services :: "compute_services \<Rightarrow> json" where
  "encode_compute_services x = JObj [(''id'', JStr (cmp_id x)), (''binary'', JStr (cmp_binary x)),
     (''host'', JStr (cmp_host x)), (''zone'', JStr (cmp_zone x)), (''status'', JStr (cmp_status x)),
     (''state'', JStr (cmp_state x)), (''updated_at'', JStr (cmp_updated_at x)),
     (''exception'', JBool (cmp_exception x)), (''deleted'', JBool (cmp_deleted x))]"

definition decode_compute_services :: "json \<Rightarrow> compute_services option" where
  "decode_compute_services j = do {
     fs \<leftarrow> as_obj j;
     i \<leftarrow> as_str (jfield ''id'' fs); b \<leftarrow> as_str (jfield ''binary'' fs);
     h \<leftarrow> as_str (jfield ''host'' fs); z \<leftarrow> as_str (jfield ''zone'' fs);
     s \<leftarrow> as_str (jfield ''status'' fs); t \<leftarrow> as_str (jfield ''state'' fs);
     u \<leftarrow> as_str (jfield ''updated_at'' fs); e \<leftarrow> as_bool (jfield ''exception'' fs);
     d \<leftarrow> as_bool (jfield ''deleted'' fs);
     Some \<lparr>cmp_id = i, cmp_binary = b, cmp_host = h, cmp_zone = z, cmp_status = s, cmp_state = t,
       cmp_updated_at = u, cmp_exception = e, cmp_deleted = d\<rparr>
   }"

definition encode_network_agent :: "network_agent \<Rightarrow> json" where
  "encode_network_agent x = JObj [(''id'', JStr (agn_id x)), (''type'', JStr (agn_type x)),
     (''binary'', JStr (agn_binary x)), (''host'', JStr (agn_host x)), (''status'', JStr (agn_status x)),
     (''heartbeat_timestamp'', JStr (agn_heartbeat_timestamp x)),
     (''exception'', JBool (agn_exception x)), (''deleted'', JBool (agn_deleted x))]"

definition decode_network_agent :: "json \<Rightarrow> network_agent option" where
  "decode_network_agent j = do {
     fs \<leftarrow> as_obj j;
     i \<leftarrow> as_str (jfield ''id'' fs); t \<leftarrow> as_str (jfield ''type'' fs);
     b \<leftarrow> as_str (jfield ''binary'' fs); h \<leftarrow> as_str (jfield ''host'' fs);
     s \<leftarrow> as_str (jfield ''status'' fs); u \<leftarrow> as_str (jfield ''heartbeat_timestamp'' fs);
     e \<leftarrow> as_bool (jfield ''exception'' fs); d \<leftarrow> as_bool (jfield ''deleted'' fs);
     Some \<lparr>agn_id = i, agn_type = t, agn_binary = b, agn_host = h, agn_status = s,
       agn_heartbeat_timestamp = u, agn_exception = e, agn_deleted = d\<rparr>
   }"

definition encode_service_status :: "cluster_service_status \<Rightarrow> json" where
  "encode_service_status m = JObj (put_nat ''cluster_id'' (svc_cluster_id m) @
     put_list ''storage'' encode_storage_services (svc_storage m) @
     put_list ''compute'' encode_compute_services (svc_compute m) @
     put_list ''network'' encode_network_agent (svc_network m) @
     put_str ''status'' (svc_status m) @ put_bool ''is_new'' (svc_is_new m) @
     put_str ''storage_error'' (svc_storage_error m) @ put_str ''compute_error'' (svc_compute_error m) @
     put_str ''network_error'' (svc_network_error m))"

definition decode_service_status :: "json \<Rightarrow> cluster_service_status option" where
  "decode_service_status j = do {
     fs \<leftarrow> as_obj j;
     c \<leftarrow> as_nat (jfield ''cluster_id'' fs);
     js \<leftarrow> as_arr (jfield ''storage'' fs); ss \<leftarrow> decode_all decode_storage_services js;
     jc \<leftarrow> as_arr (jfield ''compute'' fs); cs \<leftarrow> decode_all decode_compute_services jc;
     jn \<leftarrow> as_arr (jfield ''network'' fs); ns \<leftarrow> decode_all decode_network_agent jn;
     s \<leftarrow> as_str (jfield ''status'' fs); n \<leftarrow> as_bool (jfield ''is_new'' fs);
     se \<leftarrow> as_str (jfield ''storage_error'' fs); ce \<leftarrow> as_str (jfield ''compute_error'' fs);
     ne \<leftarrow> as_str (jfield ''network_error'' fs);
     Some \<lparr>svc_cluster_id = c, svc_storage = ss, svc_compute = cs, svc_network = ns, svc_status = s,
       svc_is_new = n, svc_storage_error = se, svc_compute_error = ce, svc_network_error = ne\<rparr>
   }"

lemma decode_encode_services:
  "decode_storage_services (encode_storage_services x) = Some x"
  "decode_compute_services (encode_compute_services y) = Some y"
  "decode_network_agent (encode_network_agent z) = Some z"
  by (simp_all add: decode_storage_services_def encode_storage_services_def decode_compute_services_def
    encode_compute_services_def decode_network_agent_def encode_network_agent_def jfield_def)

text \<open>A field of an object that is a concatenation of optional members.\<close>

lemma jfield_append: "jfield k (xs @ ys) = (if map_of (rev ys) k = None then jfield k xs else jfield k ys)"
  by (simp add: jfield_def map_add_def split: option.split)

lemma members:
  "map_of (rev (unless b k' j)) k = (if \<not> b \<and> k = k' then Some j else None)"
  "jfield k (unless b k' j) = (if \<not> b \<and> k = k' then j else JNull)"
  "map_of (rev (put_str k' t)) k = (if t \<noteq> [] \<and> k = k' then Some (JStr t) else None)"
  "jfield k (put_str k' t) = (if t \<noteq> [] \<and> k = k' then JStr t else JNull)"
  "map_of (rev (put_nat k' n)) k = (if n \<noteq> 0 \<and> k = k' then Some (JInt (int n)) else None)"
  "jfield k (put_nat k' n) = (if n \<noteq> 0 \<and> k = k' then JInt (int n) else JNull)"
  "map_of (rev (put_bool k' c)) k = (if c \<and> k = k' then Some (JBool c) else None)"
  "jfield k (put_bool k' c) = (if c \<and> k = k' then JBool c else JNull)"
  "map_of (rev (put_list k' f xs)) k = (if xs \<noteq> [] \<and> k = k' then Some (JArr (map f xs)) else None)"
  "jfield k (put_list k' f xs) = (if xs \<noteq> [] \<and> k = k' then JArr (map f xs) else JNull)"
  "map_of (rev (put_map k' f ys)) k = (if ys \<noteq> [] \<and> k = k' then Some (JObj (map (\<lambda>(i, x). (i, f x)) ys)) else None)"
  "jfield k (put_map k' f ys) = (if ys \<noteq> [] \<and> k = k' then JObj (map (\<lambda>(i, x). (i, f x)) ys) else JNull)"
  by (simp_all add: put_all_defs)

lemma as_optional:
  "as_str (if t \<noteq> [] then JStr t else JNull) = Some t"
  "as_nat (if 0 < n then JInt (int n) else JNull) = Some n"
  "as_bool (if c then JBool c else JNull) = Some c"
  "as_arr (if xs \<noteq> [] then JArr (map f xs) else JNull) = Some (map f xs)"
  "as_obj (if ys \<noteq> [] then JObj (map g ys) else JNull) = Some (map g ys)"
  by simp_all

text \<open>The members of a status, read back one by one.\<close>

lemma service_fields:
  fixes m :: cluster_service_status
  defines "fs \<equiv> put_nat ''cluster_id'' (svc_cluster_id m) @
     put_list ''storage'' encode_storage_services (svc_storage m) @
     put_list ''compute'' encode_compute_services (svc_compute m) @
     put_list ''network'' encode_network_agent (svc_network m) @
     put_str ''status'' (svc_status m) @ put_bool ''is_new'' (svc_is_new m) @
     put_str ''storage_error'' (svc_storage_error m) @ put_str ''compute_error'' (svc_compute_error m) @
     put_str ''network_error'' (svc_network_error m)"
  shows "as_nat (jfield ''cluster_id'' fs) = Some (svc_cluster_id m)"
    and "as_arr (jfield ''storage'' fs) = Some (map encode_storage_services (svc_storage m))"
    and "as_arr (jfield ''compute'' fs) = Some (map encode_compute_services (svc_compute m))"
    and "as_arr (jfield ''network'' fs) = Some (map encode_network_agent (svc_network m))"
    and "as_str (jfield ''status'' fs) = Some (svc_status m)"
    and "as_bool (jfield ''is_new'' fs) = Some (svc_is_new m)"
    and "as_str (jfield ''storage_error'' fs) = Some (svc_storage_error m)"
    and "as_str (jfield ''compute_error'' fs) = Some (svc_compute_error m)"
    and "as_str (jfield ''network_error'' fs) = Some (svc_network_error m)"
  unfolding fs_def by (simp_all add: jfield_append members)

lemma decode_encode_service_status: "decode_service_status (encode_service_status m) = Some m"
  unfolding decode_service_status_def encode_service_status_def as_obj.simps Option.bind.simps service_fields
  by (simp add: decode_all_map decode_encode_services)

section \<open>Excluded services\<close>

definition encode_storage_status :: "storage_status_message \<Rightarrow> json" where
  "encode_storage_status x = JObj (put_str ''id'' (stm_id x) @
     put_str ''binary'' (stm_binary x) @
     put_str ''backend_name'' (stm_backend_name x) @
     put_str ''host'' (stm_host x) @
     put_str ''zone'' (stm_zone x) @
     put_str ''status'' (stm_status x) @
     put_str ''last_updated'' (stm_last_updated x) @
     put_bool ''exception'' (stm_exception x) @
     put_bool ''deleted'' (stm_deleted x))"

definition decode_storage_status :: "json \<Rightarrow> storage_status_message option" where
  "decode_storage_status j = do {
     fs \<leftarrow> as_obj j;
     x1 \<leftarrow> as_str (jfield ''id'' fs);
     x2 \<leftarrow> as_str (jfield ''binary'' fs);
     x3 \<leftarrow> as_str (jfield ''backend_name'' fs);
     x4 \<leftarrow> as_str (jfield ''host'' fs);
     x5 \<leftarrow> as_str (jfield ''zone'' fs);
     x6 \<leftarrow> as_str (jfield ''status'' fs);
     x7 \<leftarrow> as_str (jfield ''last_updated'' fs);
     x8 \<leftarrow> as_bool (jfield ''exception'' fs);
     x9 \<leftarrow> as_bool (jfield ''deleted'' fs);
     Some \<lparr>stm_id = x1, stm_binary = x2, stm_backend_name = x3, stm_host = x4, stm_zone = x5, stm_status = x6, stm_last_updated = x7, stm_exception = x8, stm_deleted = x9\<rparr>
   }"

lemma storage_status_fields:
  fixes x :: storage_status_message
  defines "fs \<equiv> put_str ''id'' (stm_id x) @
     put_str ''binary'' (stm_binary x) @
     put_str ''backend_name'' (stm_backend_name x) @
     put_str ''host'' (stm_host x) @
     put_str ''zone'' (stm_zone x) @
     put_str ''status'' (stm_status x) @
     put_str ''last_updated'' (stm_last_updated x) @
     put_bool ''exception'' (stm_exception x) @
     put_bool ''deleted'' (stm_deleted x)"
  shows "as_str (jfield ''id'' fs) = Some (stm_id x)"
    and "as_str (jfield ''binary'' fs) = Some (stm_binary x)"
    and "as_str (jfield ''backend_name'' fs) = Some (stm_backend_name x)"
    and "as_str (jfield ''host'' fs) = Some (stm_host x)"
    and "as_str (jfield ''zone'' fs) = Some (stm_zone x)"
    and "as_str (jfield ''status'' fs) = Some (stm_status x)"
    and "as_str (jfield ''last_updated'' fs) = Some (stm_last_updated x)"
    and "as_bool (jfield ''exception'' fs) = Some (stm_exception x)"
    and "as_bool (jfield ''deleted'' fs) = Some (stm_deleted x)"
  unfolding fs_def by (simp_all add: jfield_append members)

lemma decode_encode_storage_status: "decode_storage_status (encode_storage_status x) = Some x"
  unfolding decode_storage_status_def encode_storage_status_def as_obj.simps Option.bind.simps storage_status_fields
  by simp

definition encode_compute_status :: "compute_status_message \<Rightarrow> json" where
  "encode_compute_status x = JObj (put_str ''id'' (com_id x) @
     put_str ''binary'' (com_binary x) @
     put_str ''host'' (com_host x) @
     put_str ''zone'' (com_zone x) @
     put_str ''status'' (com_status x) @
     put_str ''last_updated'' (com_last_updated x) @
     put_bool ''exception'' (com_exception x) @
     put_bool ''deleted'' (com_deleted x))"

definition decode_compute_status :: "json \<Rightarrow> compute_status_message option" where
  "decode_compute_status j = do {
     fs \<leftarrow> as_obj j;
     x1 \<leftarrow> as_str (jfield ''id'' fs);
     x2 \<leftarrow> as_str (jfield ''binary'' fs);
     x3 \<leftarrow> as_str (jfield ''host'' fs);
     x4 \<leftarrow> as_str (jfield ''zone'' fs);
     x5 \<leftarrow> as_str (jfield ''status'' fs);
     x6 \<leftarrow> as_str (jfield ''last_updated'' fs);
     x7 \<leftarrow> as_bool (jfield ''exception'' fs);
     x8 \<leftarrow> as_bool (jfield ''deleted'' fs);
     Some \<lparr>com_id = x1, com_binary = x2, com_host = x3, com_zone = x4, com_status = x5, com_last_updated = x6, com_exception = x7, com_deleted = x8\<rparr>
   }"

lemma compute_status_fields:
  fixes x :: compute_status_message
  defines "fs \<equiv> put_str ''id'' (com_id x) @
     put_str ''binary'' (com_binary x) @
     put_str ''host'' (com_host x) @
     put_str ''zone'' (com_zone x) @
     put_str ''status'' (com_status x) @
     put_str ''last_updated'' (com_last_updated x) @
     put_bool ''exception'' (com_exception x) @
     put_bool ''deleted'' (com_deleted x)"
  shows "as_str (jfield ''id'' fs) = Some (com_id x)"
    and "as_str (jfield ''binary'' fs) = Some (com_binary x)"
    and "as_str (jfield ''host'' fs) = Some (com_host x)"
    and "as_str (jfield ''zone'' fs) = Some (com_zone x)"
    and "as_str (jfield ''status'' fs) = Some (com_status x)"
    and "as_str (jfield ''last_updated'' fs) = Some (com_last_updated x)"
    and "as_bool (jfield ''exception'' fs) = Some (com_exception x)"
    and "as_bool (jfield ''deleted'' fs) = Some (com_deleted x)"
  unfolding fs_def by (simp_all add: jfield_append members)

lemma decode_encode_compute_status: "decode_compute_status (encode_compute_status x) = Some x"
  unfolding decode_compute_status_def encode_compute_status_def as_obj.simps Option.bind.simps compute_status_fields
  by simp

definition encode_network_status :: "network_status_message \<Rightarrow> json" where
  "encode_network_status x = JObj (put_str ''id'' (nem_id x) @
     put_str ''type'' (nem_type x) @
     put_str ''binary'' (nem_binary x) @
     put_str ''host'' (nem_host x) @
     put_str ''status'' (nem_status x) @
     put_str ''last_updated'' (nem_last_updated x) @
     put_bool ''exception'' (nem_exception x) @
     put_bool ''deleted'' (nem_deleted x))"

definition decode_network_status :: "json \<Rightarrow> network_status_message option" where
  "decode_network_status j = do {
     fs \<leftarrow> as_obj j;
     x1 \<leftarrow> as_str (jfield ''id'' fs);
     x2 \<leftarrow> as_str (jfield ''type'' fs);
     x3 \<leftarrow> as_str (jfield ''binary'' fs);
     x4 \<leftarrow> as_str (jfield ''host'' fs);
     x5 \<leftarrow> as_str (jfield ''status'' fs);
     x6 \<leftarrow> as_str (jfield ''last_updated'' fs);
     x7 \<leftarrow> as_bool (jfield ''exception'' fs);
     x8 \<leftarrow> as_bool (jfield ''deleted'' fs);
     Some \<lparr>nem_id = x1, nem_type = x2, nem_binary = x3, nem_host = x4, nem_status = x5, nem_last_updated = x6, nem_exception = x7, nem_deleted = x8\<rparr>
   }"

lemma network_status_fields:
  fixes x :: network_status_message
  defines "fs \<equiv> put_str ''id'' (nem_id x) @
     put_str ''type'' (nem_type x) @
     put_str ''binary'' (nem_binary x) @
     put_str ''host'' (nem_host x) @
     put_str ''status'' (nem_status x) @
     put_str ''last_updated'' (nem_last_updated x) @
     put_bool ''exception'' (nem_exception x) @
     put_bool ''deleted'' (nem_deleted x)"
  shows "as_str (jfield ''id'' fs) = Some (nem_id x)"
    and "as_str (jfield ''type'' fs) = Some (nem_type x)"
    and "as_str (jfield ''binary'' fs) = Some (nem_binary x)"
    and "as_str (jfield ''host'' fs) = Some (nem_host x)"
    and "as_str (jfield ''status'' fs) = Some (nem_status x)"
    and "as_str (jfield ''last_updated'' fs) = Some (nem_last_updated x)"
    and "as_bool (jfield ''exception'' fs) = Some (nem_exception x)"
    and "as_bool (jfield ''deleted'' fs) = Some (nem_deleted x)"
  unfolding fs_def by (simp_all add: jfield_append members)

lemma decode_encode_network_status: "decode_network_status (encode_network_status x) = Some x"
  unfolding decode_network_status_def encode_network_status_def as_obj.simps Option.bind.simps network_status_fields
  by simp

definition encode_excluded :: "excluded_cluster \<Rightarrow> json" where
  "encode_excluded x = JObj (put_nat ''cluster_id'' (xc_cluster_id x) @
     put_map ''storage'' encode_storage_status (xc_storage x) @
     put_map ''compute'' encode_compute_status (xc_compute x) @
     put_map ''network'' encode_network_status (xc_network x))"

definition decode_excluded :: "json \<Rightarrow> excluded_cluster option" where
  "decode_excluded j = do {
     fs \<leftarrow> as_obj j;
     c \<leftarrow> as_nat (jfield ''cluster_id'' fs);
     js \<leftarrow> as_obj (jfield ''storage'' fs); ss \<leftarrow> decode_all (decode_entry decode_storage_status) js;
     jc \<leftarrow> as_obj (jfield ''compute'' fs); cs \<leftarrow> decode_all (decode_entry decode_compute_status) jc;
     jn \<leftarrow> as_obj (jfield ''network'' fs); ns \<leftarrow> decode_all (decode_entry decode_network_status) jn;
     Some \<lparr>xc_cluster_id = c, xc_storage = ss, xc_compute = cs, xc_network = ns\<rparr>
   }"

lemma excluded_fields:
  fixes x :: excluded_cluster
  defines "fs \<equiv> put_nat ''cluster_id'' (xc_cluster_id x) @
     put_map ''storage'' encode_storage_status (xc_storage x) @
     put_map ''compute'' encode_compute_status (xc_compute x) @
     put_map ''network'' encode_network_status (xc_network x)"
  shows "as_nat (jfield ''cluster_id'' fs) = Some (xc_cluster_id x)"
    and "as_obj (jfield ''storage'' fs) = Some (map (\<lambda>(i, x). (i, encode_storage_status x)) (xc_storage x))"
    and "as_obj (jfield ''compute'' fs) = Some (map (\<lambda>(i, x). (i, encode_compute_status x)) (xc_compute x))"
    and "as_obj (jfield ''network'' fs) = Some (map (\<lambda>(i, x). (i, encode_network_status x)) (xc_network x))"
  unfolding fs_def by (simp_all add: jfield_append members)

lemma decode_encode_excluded: "decode_excluded (encode_excluded x) = Some x"
  unfolding decode_excluded_def encode_excluded_def as_obj.simps Option.bind.simps excluded_fields
  by (simp add: decode_map decode_encode_storage_status decode_encode_compute_status decode_encode_network_status)

definition cluster_exception_key :: "nat \<Rightarrow> string" where
  "cluster_exception_key cid = ''clusters/'' @ itoa cid @ ''/check/exception''"

definition set_exception :: "nat \<Rightarrow> excluded_cluster \<Rightarrow> err option op" where
  "set_exception cid x = save (cluster_exception_key cid) (encode_excluded x)"

definition get_exception :: "nat \<Rightarrow> (err + excluded_cluster) op" where
  "get_exception cid = load (cluster_exception_key cid) decode_excluded (NotFoundClusterException cid)"

definition delete_exception :: "nat \<Rightarrow> err option op" where
  "delete_exception cid = erase_prefix (cluster_exception_key cid)"

interpretation exception_store: prefix_document_store cluster_exception_key fst snd encode_excluded
  decode_excluded NotFoundClusterException get_exception "\<lambda>a. set_exception (fst a) (snd a)" delete_exception
proof
  show "i = j" if "cluster_exception_key i = cluster_exception_key j" for i j
    using cluster_key_inject [of i "''check/exception''" j "''check/exception''"] that
    by (simp add: cluster_exception_key_def)
qed (simp_all add: decode_encode_excluded get_exception_def set_exception_def delete_exception_def)

text \<open>
  \<open>SyncException\<close> replaces what is stored by the entries of the request, each under its
  identifier; of two entries with one identifier the later stays.
\<close>

record sync_exception_request =
  sxr_cluster_id :: nat
  sxr_networks :: "network_status_message list"
  sxr_storages :: "storage_status_message list"
  sxr_computes :: "compute_status_message list"

fun by_key :: "('a \<Rightarrow> string) \<Rightarrow> 'a list \<Rightarrow> (string \<times> 'a) list" where
  "by_key f [] = []"
| "by_key f (x # xs) = (let m = by_key f xs in if f x \<in> fst ` set m then m else (f x, x) # m)"

definition excluded_by :: "sync_exception_request \<Rightarrow> excluded_cluster" where
  "excluded_by req = \<lparr>xc_cluster_id = 0, xc_storage = by_key stm_id (sxr_storages req),
     xc_compute = by_key com_id (sxr_computes req), xc_network = by_key nem_id (sxr_networks req)\<rparr>"

definition sync_exception :: "sync_exception_request \<Rightarrow> (err + excluded_cluster) op" where
  "sync_exception req = do {
     r \<leftarrow> get_exception (sxr_cluster_id req);
     e \<leftarrow> (case r of
         Inr _ \<Rightarrow> delete_exception (sxr_cluster_id req)
       | Inl (NotFoundClusterException _) \<Rightarrow> State_Monad.return None
       | Inl e \<Rightarrow> State_Monad.return (Some e));
     case e of Some x \<Rightarrow> State_Monad.return (Inl x)
     | None \<Rightarrow> do {
         e' \<leftarrow> set_exception (sxr_cluster_id req) (excluded_by req);
         State_Monad.return (case e' of Some x \<Rightarrow> Inl x | None \<Rightarrow> Inr (excluded_by req))
       }
   }"

end
