(* ===== verification/ServiceMonitor.thy ===== *)
theory ServiceMonitor
  imports ServiceStatus
begin

text \<open>
  What the request handler remembers about clusters (\<open>handler/monitor.go\<close>): the progress of
  synchronisations and the status of the services, merged from the messages of the leader.
\<close>

section \<open>Merging a list of services\<close>

text \<open>
  For each service of the message the first remembered one that is the same is replaced, and a
  new one is added at the end (\<open>fresh\<close> is given the number of services added before it).
\<close>

fun replace_first :: "('a \<Rightarrow> bool) \<Rightarrow> ('a \<Rightarrow> 'a) \<Rightarrow> 'a list \<Rightarrow> 'a list option" where
  "replace_first P f [] = None"
| "replace_first P f (x # xs) = (if P x then Some (f x # xs) else map_option ((#) x) (replace_first P f xs))"

fun merge_services ::
    "('a \<Rightarrow> 'a \<Rightarrow> bool) \<Rightarrow> ('a \<Rightarrow> 'a \<Rightarrow> 'a) \<Rightarrow> (nat \<Rightarrow> 'a \<Rightarrow> 'a) \<Rightarrow> nat \<Rightarrow> 'a list \<Rightarrow> 'a list \<Rightarrow> 'a list" where
  "merge_services same adopt fresh k [] xs = xs"
| "merge_services same adopt fresh k (m # ms) xs =
     (case replace_first (\<lambda>n. same n m) (adopt m) xs of
        Some ys \<Rightarrow> merge_services same adopt fresh k ms ys
      | None \<Rightarrow> merge_services same adopt fresh (Suc k) ms (xs @ [fresh k m]))"

text \<open>A remembered service that the message does not have is marked as deleted, and counted.\<close>

definition gone :: "('a \<Rightarrow> 'a \<Rightarrow> bool) \<Rightarrow> 'a list \<Rightarrow> 'a \<Rightarrow> bool" where
  "gone same ms x = (\<not> list_ex (\<lambda>m. same x m) ms)"

definition mark_gone :: "('a \<Rightarrow> 'a \<Rightarrow> bool) \<Rightarrow> ('a \<Rightarrow> 'a) \<Rightarrow> 'a list \<Rightarrow> 'a list \<Rightarrow> 'a list" where
  "mark_gone same delete ms xs = map (\<lambda>x. if gone same ms x then delete x else x) xs"

text \<open>The three kinds of services.\<close>

definition same_agent :: "network_agent \<Rightarrow> network_agent \<Rightarrow> bool" where
  "same_agent n m = (agn_id n = agn_id m)"

definition adopt_agent :: "bool \<Rightarrow> network_agent \<Rightarrow> network_agent \<Rightarrow> network_agent" where
  "adopt_agent new m n = (if new then m\<lparr>agn_deleted := False\<rparr> else m)"

definition delete_agent :: "network_agent \<Rightarrow> network_agent" where
  "delete_agent n = n\<lparr>agn_deleted := True\<rparr>"

definition same_compute :: "compute_services \<Rightarrow> compute_services \<Rightarrow> bool" where
  "same_compute n m = (cmp_id n = cmp_id m)"

definition adopt_compute :: "bool \<Rightarrow> compute_services \<Rightarrow> compute_services \<Rightarrow> compute_services" where
  "adopt_compute new m n = (if new then m\<lparr>cmp_deleted := False\<rparr> else m)"

definition delete_compute :: "compute_services \<Rightarrow> compute_services" where
  "delete_compute n = n\<lparr>cmp_deleted := True\<rparr>"

text \<open>A storage service has no identifier in the message; it gets one when it is first remembered.\<close>

definition same_storage :: "storage_services \<Rightarrow> storage_services \<Rightarrow> bool" where
  "same_storage n m = (ss_binary n = ss_binary m \<and> ss_host n = ss_host m \<and> ss_zone n = ss_zone m)"

definition adopt_storage :: "bool \<Rightarrow> storage_services \<Rightarrow> storage_services \<Rightarrow> storage_services" where
  "adopt_storage new m n =
     (let x = m\<lparr>ss_id := ss_id n\<rparr> in if new then x\<lparr>ss_deleted := False\<rparr> else x)"

definition fresh_storage :: "(nat \<Rightarrow> string) \<Rightarrow> nat \<Rightarrow> storage_services \<Rightarrow> storage_services" where
  "fresh_storage uuid k m = m\<lparr>ss_id := uuid k, ss_exception := False, ss_deleted := False\<rparr>"

definition delete_storage_service :: "storage_services \<Rightarrow> storage_services" where
  "delete_storage_service n = n\<lparr>ss_deleted := True\<rparr>"

section \<open>The memory of the handler\<close>

record sync_cluster_status =
  scs_completion :: "(string \<times> string) list"
  scs_progress :: int

record cluster_monitor =
  mon_sync_status :: "nat \<Rightarrow> sync_cluster_status option"
  mon_check_status :: "nat \<Rightarrow> cluster_service_status option"
  mon_updated_at :: "nat \<Rightarrow> int option"

definition no_services :: cluster_service_status where
  "no_services = \<lparr>svc_cluster_id = 0, svc_storage = [], svc_compute = [], svc_network = [], svc_status = '''',
     svc_is_new = False, svc_storage_error = '''', svc_compute_error = '''', svc_network_error = ''''\<rparr>"

definition deleted_in :: "string \<Rightarrow> string" where
  "deleted_in kind = ''check if there is a deleted service in the '' @ kind"

text \<open>
  The list to remember, and whether a remembered service is gone. Only when both lists are there
  are they merged; what is first heard of is remembered as it is. The code asks for \<open>nil\<close>, and that is the
  empty list here: the fields of the message are written with \<open>omitempty\<close>, so an empty list is left out of
  the message and read back as \<open>nil\<close>, and what is remembered grew out of such lists.
\<close>

definition merge_kind ::
    "('a \<Rightarrow> 'a \<Rightarrow> bool) \<Rightarrow> ('a \<Rightarrow> 'a \<Rightarrow> 'a) \<Rightarrow> (nat \<Rightarrow> 'a \<Rightarrow> 'a) \<Rightarrow> ('a \<Rightarrow> 'a) \<Rightarrow> 'a list \<Rightarrow> 'a list \<Rightarrow> 'a list \<times> bool" where
  "merge_kind same adopt fresh delete ms xs =
     (if xs \<noteq> [] \<and> ms \<noteq> [] then
        (let ys = merge_services same adopt fresh 0 ms xs in
         (mark_gone same delete ms ys, list_ex (gone same ms) ys))
      else if xs = [] then (map (\<lambda>(k, m). fresh k m) (zip [0..<length ms] ms), False)
      else (xs, False))"

definition merge_agents :: "bool \<Rightarrow> network_agent list \<Rightarrow> network_agent list \<Rightarrow> network_agent list \<times> bool" where
  "merge_agents new = merge_kind same_agent (adopt_agent new) (\<lambda>_ m. m) delete_agent"

definition merge_computes :: "bool \<Rightarrow> compute_services list \<Rightarrow> compute_services list \<Rightarrow> compute_services list \<times> bool" where
  "merge_computes new = merge_kind same_compute (adopt_compute new) (\<lambda>_ m. m) delete_compute"

definition merge_storages ::
    "(nat \<Rightarrow> string) \<Rightarrow> bool \<Rightarrow> storage_services list \<Rightarrow> storage_services list \<Rightarrow> storage_services list \<times> bool" where
  "merge_storages uuid new = merge_kind same_storage (adopt_storage new) (fresh_storage uuid) delete_storage_service"

text \<open>\<open>getClusterStatusMonitor\<close>, for a message that could be decoded.\<close>

definition merge_status :: "(nat \<Rightarrow> string) \<Rightarrow> cluster_service_status \<Rightarrow> cluster_service_status \<Rightarrow> cluster_service_status" where
  "merge_status uuid msg old =
     (let (networks, n) = merge_agents (svc_is_new msg) (svc_network msg) (svc_network old);
          (computes, c) = merge_computes (svc_is_new msg) (svc_compute msg) (svc_compute old);
          (storages, s) = merge_storages uuid (svc_is_new msg) (svc_storage msg) (svc_storage old) in
      \<lparr>svc_cluster_id = svc_cluster_id msg, svc_storage = storages, svc_compute = computes, svc_network = networks,
       svc_status = (if n \<or> c \<or> s then ''cluster.state.warning'' else svc_status msg), svc_is_new = False,
       svc_storage_error = (if s then deleted_in ''storage'' else svc_storage_error msg),
       svc_compute_error = (if c then deleted_in ''compute'' else svc_compute_error msg),
       svc_network_error = (if n then deleted_in ''network'' else svc_network_error msg)\<rparr>)"

definition remembered :: "cluster_monitor \<Rightarrow> nat \<Rightarrow> cluster_service_status" where
  "remembered h cid = (case mon_check_status h cid of None \<Rightarrow> no_services | Some s \<Rightarrow> s)"

definition get_cluster_status_monitor ::
    "(nat \<Rightarrow> string) \<Rightarrow> int \<Rightarrow> json \<Rightarrow> cluster_monitor \<Rightarrow> err option \<times> cluster_monitor" where
  "get_cluster_status_monitor uuid stamp body h =
     (case decode_service_status body of
        None \<Rightarrow> (Some (Unknown ''cannot unmarshal''), h)
      | Some msg \<Rightarrow>
          let cid = svc_cluster_id msg in
          (None, h\<lparr>mon_check_status := (mon_check_status h)(cid \<mapsto> merge_status uuid msg (remembered h cid)),
             mon_updated_at := (mon_updated_at h)(cid \<mapsto> stamp)\<rparr>))"

text \<open>\<open>syncClusterStatusMonitor\<close> returns the error of the decoder as it is.\<close>

definition sync_cluster_status_monitor :: "json \<Rightarrow> cluster_monitor \<Rightarrow> err option \<times> cluster_monitor" where
  "sync_cluster_status_monitor body h =
     (case (do {
        fs \<leftarrow> as_obj body;
        cid \<leftarrow> as_nat (jfield ''cluster_id'' fs);
        js \<leftarrow> as_obj (jfield ''completion'' fs); c \<leftarrow> decode_all (decode_entry as_str) js;
        p \<leftarrow> as_int (jfield ''progress'' fs);
        Some (cid, \<lparr>scs_completion = c, scs_progress = p\<rparr>)
      }) of
        None \<Rightarrow> (Some (DriverError ''cannot unmarshal''), h)
      | Some (cid, s) \<Rightarrow> (None, h\<lparr>mon_sync_status := (mon_sync_status h)(cid \<mapsto> s)\<rparr>))"

definition delete_cluster_monitor :: "json \<Rightarrow> cluster_monitor \<Rightarrow> err option \<times> cluster_monitor" where
  "delete_cluster_monitor body h =
     (case as_nat body of
        None \<Rightarrow> (Some (Unknown ''cannot unmarshal''), h)
      | Some cid \<Rightarrow> (None, h\<lparr>mon_check_status := (mon_check_status h)(cid := None),
          mon_updated_at := (mon_updated_at h)(cid := None), mon_sync_status := (mon_sync_status h)(cid := None)\<rparr>))"

section \<open>The interface of a kind of services\<close>

text \<open>A list as a map: the first entry of a key counts for what is remembered, the last for a message.\<close>

definition view_by :: "('a \<Rightarrow> 'k) \<Rightarrow> 'a list \<Rightarrow> 'k \<Rightarrow> 'a option" where
  "view_by key xs = map_of (map (\<lambda>x. (key x, x)) xs)"

definition last_by :: "('a \<Rightarrow> 'k) \<Rightarrow> ('a \<Rightarrow> 'b) \<Rightarrow> 'a list \<Rightarrow> 'k \<Rightarrow> 'b option" where
  "last_by key shown ms = map_of (rev (map (\<lambda>m. (key m, shown m)) ms))"

text \<open>
  What is to be remembered of a kind of services after a message, and whether a service is missing from it: a
  message without the kind changes nothing, the first one is taken over, and then the last entry of the message
  counts for each service and the others are as they were, but marked.
\<close>

definition remembered_view ::
    "('a \<Rightarrow> 'k) \<Rightarrow> ('a \<Rightarrow> 'b) \<Rightarrow> ('a \<Rightarrow> 'a) \<Rightarrow> 'a list \<Rightarrow> 'a list \<Rightarrow> 'k \<Rightarrow> 'b option" where
  "remembered_view key shown delete ms xs =
     (if ms = [] then (\<lambda>k. map_option shown (view_by key xs k))
      else if xs = [] then (\<lambda>k. map_option shown (view_by key ms k))
      else (\<lambda>k. map_option (\<lambda>x. shown (delete x)) (view_by key xs k)) ++ last_by key shown ms)"

definition misses :: "('a \<Rightarrow> 'k) \<Rightarrow> 'a list \<Rightarrow> 'a list \<Rightarrow> bool" where
  "misses key ms xs \<longleftrightarrow> ms \<noteq> [] \<and> \<not> key ` set xs \<subseteq> key ` set ms"

text \<open>
  What identifies a service, and what of it is shown. Of the services in a message only \<open>fine\<close>
  ones are shown as they are: those that are not marked themselves.
\<close>

locale service_kind =
  fixes key :: "'a \<Rightarrow> 'k" and shown :: "'a \<Rightarrow> 'b" and fine :: "'a \<Rightarrow> bool"
    and same :: "'a \<Rightarrow> 'a \<Rightarrow> bool" and adopt :: "'a \<Rightarrow> 'a \<Rightarrow> 'a" and fresh :: "nat \<Rightarrow> 'a \<Rightarrow> 'a"
    and delete :: "'a \<Rightarrow> 'a"
  assumes same_key: "same n m \<longleftrightarrow> key n = key m"
    and key_adopt: "key n = key m \<Longrightarrow> key (adopt m n) = key m"
    and key_fresh: "key (fresh k m) = key m"
    and key_delete: "key (delete n) = key n"
    and shown_adopt: "fine m \<Longrightarrow> shown (adopt m n) = shown m"
    and shown_fresh: "fine m \<Longrightarrow> shown (fresh k m) = shown m"
begin

abbreviation view :: "'a list \<Rightarrow> 'k \<Rightarrow> 'a option" where
  "view \<equiv> view_by key"

definition shows_as :: "'a list \<Rightarrow> 'k \<Rightarrow> 'b option" where
  "shows_as xs = (\<lambda>k. map_option shown (view xs k))"

lemma view_simps: "view [] = Map.empty" "view (x # xs) = (view xs)(key x \<mapsto> x)"
  by (simp_all add: view_by_def)

lemma view_None: "view xs k = None \<longleftrightarrow> k \<notin> key ` set xs"
  by (auto simp: view_by_def map_of_eq_None_iff image_image)

lemma view_append: "view (xs @ ys) k = (case view xs k of None \<Rightarrow> view ys k | Some x \<Rightarrow> Some x)"
  by (simp add: view_by_def map_add_def split: option.split)

lemma replace_first_view:
  assumes "replace_first (\<lambda>n. key n = k) f xs = Some ys" and "\<And>n. key n = k \<Longrightarrow> key (f n) = k"
  shows "\<exists>n. view xs k = Some n \<and> key n = k \<and> view ys = (view xs)(k \<mapsto> f n) \<and> key ` set ys = key ` set xs"
  using assms(1)
proof (induction xs arbitrary: ys)
  case Nil
  then show ?case by simp
next
  case (Cons x xs)
  then show ?case using assms(2) [of x] by (cases "key x = k") (auto simp: view_simps fun_eq_iff split: if_splits)
qed

lemma replace_first_None: "replace_first P f xs = None \<longleftrightarrow> (\<forall>x \<in> set xs. \<not> P x)"
  by (induction xs) auto

abbreviation last_shown :: "'a list \<Rightarrow> 'k \<Rightarrow> 'b option" where
  "last_shown \<equiv> last_by key shown"

lemma last_shown_Cons: "f(key m \<mapsto> shown m) ++ last_shown ms = f ++ last_shown (m # ms)"
  by (auto simp: last_by_def map_add_def fun_eq_iff split: option.split)

text \<open>One service of the message is shown in place of the one that was, or added.\<close>

lemma merge_step:
  assumes "fine m"
  obtains k' ys where "merge_services same adopt fresh k (m # ms) xs = merge_services same adopt fresh k' ms ys"
    and "shows_as ys = (shows_as xs)(key m \<mapsto> shown m)" and "key ` set ys = insert (key m) (key ` set xs)"
    and "\<And>j. j \<noteq> key m \<Longrightarrow> view ys j = view xs j"
proof (cases "replace_first (\<lambda>n. same n m) (adopt m) xs")
  case None
  then have none: "view xs (key m) = None" by (auto simp: replace_first_None same_key view_None)
  then have "shows_as (xs @ [fresh k m]) = (shows_as xs)(key m \<mapsto> shown m)"
    using assms by (auto simp: shows_as_def fun_eq_iff view_append view_simps key_fresh shown_fresh split: option.split)
  moreover have "view (xs @ [fresh k m]) j = view xs j" if "j \<noteq> key m" for j
    using that by (simp add: view_append view_simps key_fresh split: option.split)
  ultimately show ?thesis using that [of "Suc k" "xs @ [fresh k m]"] None by (auto simp: key_fresh)
next
  case (Some ys)
  obtain n where n: "view xs (key m) = Some n" "key n = key m" "view ys = (view xs)(key m \<mapsto> adopt m n)"
      "key ` set ys = key ` set xs"
    using replace_first_view [of "key m" "adopt m" xs ys] Some key_adopt by (auto simp: same_key)
  then have "shows_as ys = (shows_as xs)(key m \<mapsto> shown m)"
    using assms by (auto simp: shows_as_def shown_adopt)
  moreover have "key m \<in> key ` set xs" using n(1) view_None [of xs "key m"] by (metis option.distinct(1))
  ultimately show ?thesis using that [of k ys] Some n(3,4) by (auto simp: insert_absorb)
qed

lemma merge_shows:
  assumes "\<forall>m \<in> set ms. fine m"
  shows "shows_as (merge_services same adopt fresh k ms xs) = shows_as xs ++ last_shown ms \<and>
    key ` set (merge_services same adopt fresh k ms xs) = key ` set xs \<union> key ` set ms \<and>
    (\<forall>j. j \<notin> key ` set ms \<longrightarrow> view (merge_services same adopt fresh k ms xs) j = view xs j)"
  using assms
proof (induction ms arbitrary: k xs)
  case Nil
  then show ?case by (simp add: last_by_def)
next
  case (Cons m ms)
  obtain k' ys where step: "merge_services same adopt fresh k (m # ms) xs = merge_services same adopt fresh k' ms ys"
      "shows_as ys = (shows_as xs)(key m \<mapsto> shown m)" "key ` set ys = insert (key m) (key ` set xs)"
      "\<And>j. j \<noteq> key m \<Longrightarrow> view ys j = view xs j"
    using merge_step [of m k ms xs] Cons.prems by auto
  then show ?case
    unfolding step(1) using Cons.IH [of k' ys] Cons.prems by (auto simp: last_shown_Cons [symmetric] fun_upd_def)
qed

lemma gone_iff: "gone same ms x \<longleftrightarrow> key x \<notin> key ` set ms"
  by (auto simp: gone_def list_ex_iff same_key)

lemma view_mark_gone:
  "view (mark_gone same delete ms xs) k = (if k \<in> key ` set ms then view xs k else map_option delete (view xs k))"
proof (induction xs)
  case Nil
  then show ?case by (simp add: mark_gone_def view_simps)
next
  case (Cons x xs)
  then show ?case by (auto simp: mark_gone_def view_simps gone_iff key_delete)
qed

text \<open>
  What is remembered after a message: the last entry of the message for each service it has, and
  the others, marked as deleted.
\<close>

lemma last_shown_None: "last_shown ms k = None \<longleftrightarrow> k \<notin> key ` set ms"
  by (auto simp: last_by_def map_of_eq_None_iff image_image)

lemma merge_kind_shows:
  assumes "\<forall>m \<in> set ms. fine m" and "xs \<noteq> []" and "ms \<noteq> []"
  shows "shows_as (fst (merge_kind same adopt fresh delete ms xs)) =
      (\<lambda>k. map_option (\<lambda>x. shown (delete x)) (view xs k)) ++ last_shown ms"
    and "snd (merge_kind same adopt fresh delete ms xs) \<longleftrightarrow> \<not> key ` set xs \<subseteq> key ` set ms"
proof -
  let ?ys = "merge_services same adopt fresh 0 ms xs"
  have ys: "shows_as ?ys = shows_as xs ++ last_shown ms" "key ` set ?ys = key ` set xs \<union> key ` set ms"
      "\<And>j. j \<notin> key ` set ms \<Longrightarrow> view ?ys j = view xs j"
    using merge_shows [OF assms(1)] by blast+
  show "shows_as (fst (merge_kind same adopt fresh delete ms xs)) =
      (\<lambda>k. map_option (\<lambda>x. shown (delete x)) (view xs k)) ++ last_shown ms"
  proof
    fix k
    have "shows_as (mark_gone same delete ms ?ys) k =
        ((\<lambda>k. map_option (\<lambda>x. shown (delete x)) (view xs k)) ++ last_shown ms) k"
    proof (cases "k \<in> key ` set ms")
      case True
      then obtain s where "last_shown ms k = Some s" using last_shown_None [of ms k] by blast
      then show ?thesis using True fun_cong [OF ys(1), of k] by (simp add: shows_as_def view_mark_gone)
    next
      case False
      then show ?thesis
        using ys(3) [OF False] last_shown_None [of ms k]
        by (simp add: shows_as_def view_mark_gone map_add_def option.map_comp comp_def)
    qed
    then show "shows_as (fst (merge_kind same adopt fresh delete ms xs)) k =
        ((\<lambda>k. map_option (\<lambda>x. shown (delete x)) (view xs k)) ++ last_shown ms) k"
      using assms(2,3) by (simp add: merge_kind_def Let_def)
  qed
  have "list_ex (gone same ms) ?ys \<longleftrightarrow> \<not> key ` set ?ys \<subseteq> key ` set ms"
    by (auto simp: list_ex_iff gone_iff)
  then show "snd (merge_kind same adopt fresh delete ms xs) \<longleftrightarrow> \<not> key ` set xs \<subseteq> key ` set ms"
    using assms(2,3) by (simp add: merge_kind_def Let_def ys(2))
qed

lemma first_heard_shows:
  "\<forall>m \<in> set ms. fine m \<Longrightarrow>
   map_option shown (view (map (\<lambda>(k, m). fresh k m) (zip [i..<i + length ms] ms)) j) = map_option shown (view ms j)"
proof (induction ms arbitrary: i)
  case Nil
  then show ?case by (simp add: view_simps)
next
  case (Cons m ms)
  have "[i..<i + length (m # ms)] = i # [Suc i..<Suc i + length ms]" by (simp add: upt_rec [of i] del: upt_Suc)
  then show ?case
    using Cons.IH [of "Suc i"] Cons.prems by (simp add: view_simps key_fresh shown_fresh del: upt_Suc)
qed

text \<open>The three cases together.\<close>

lemma merge_kind_remembers:
  assumes "\<forall>m \<in> set ms. fine m"
  shows "shows_as (fst (merge_kind same adopt fresh delete ms xs)) = remembered_view key shown delete ms xs"
    and "snd (merge_kind same adopt fresh delete ms xs) \<longleftrightarrow> misses key ms xs"
proof -
  consider "ms = []" | "ms \<noteq> []" "xs = []" | "ms \<noteq> []" "xs \<noteq> []" by blast
  then have "shows_as (fst (merge_kind same adopt fresh delete ms xs)) = remembered_view key shown delete ms xs \<and>
      (snd (merge_kind same adopt fresh delete ms xs) \<longleftrightarrow> misses key ms xs)"
  proof cases
    case 1
    then show ?thesis by (cases "xs = []") (simp_all add: merge_kind_def remembered_view_def misses_def shows_as_def)
  next
    case 2
    then show ?thesis
      using first_heard_shows [OF assms, of 0]
      by (simp add: merge_kind_def remembered_view_def misses_def shows_as_def)
  next
    case 3
    then show ?thesis using merge_kind_shows [OF assms 3(2,1)] by (simp add: remembered_view_def misses_def)
  qed
  then show "shows_as (fst (merge_kind same adopt fresh delete ms xs)) = remembered_view key shown delete ms xs"
    and "snd (merge_kind same adopt fresh delete ms xs) \<longleftrightarrow> misses key ms xs" by blast+
qed

end

definition storage_key :: "storage_services \<Rightarrow> string \<times> string \<times> string" where
  "storage_key x = (ss_binary x, ss_host x, ss_zone x)"

definition storage_shown :: "storage_services \<Rightarrow> storage_services" where
  "storage_shown x = x\<lparr>ss_id := ''''\<rparr>"

interpretation agents: service_kind agn_id "\<lambda>x. x" "\<lambda>m. \<not> agn_deleted m" same_agent "adopt_agent new" "\<lambda>_ m. m" delete_agent
  for new
  by unfold_locales (auto simp: same_agent_def adopt_agent_def delete_agent_def)

interpretation computes: service_kind cmp_id "\<lambda>x. x" "\<lambda>m. \<not> cmp_deleted m" same_compute "adopt_compute new" "\<lambda>_ m. m" delete_compute
  for new
  by unfold_locales (auto simp: same_compute_def adopt_compute_def delete_compute_def)

interpretation storages: service_kind storage_key storage_shown "\<lambda>m. \<not> ss_deleted m \<and> \<not> ss_exception m" same_storage
  "adopt_storage new" "fresh_storage uuid" delete_storage_service for new uuid
  by unfold_locales
    (auto simp: storage_key_def storage_shown_def same_storage_def adopt_storage_def fresh_storage_def
      delete_storage_service_def Let_def)

end
