(* ===== verification/Leader.thy ===== *)
theory Leader
  imports ServiceMonitor Reserve
begin

text \<open>
  The leader (\<open>leader/*.go\<close>): it checks the services of every cluster, tells the request handlers
  what it found, and keeps the state of the cluster in the database. The goroutines of one check
  share nothing but the database and a lock; they are modelled one after the other.
\<close>

section \<open>What the leader remembers\<close>

record leader =
  ld_openstack :: bool
  ld_given_excluded :: "excluded_cluster option"
  ld_given_status :: "cluster_service_status option"
  ld_excluded :: "nat \<Rightarrow> excluded_cluster option"
  ld_clusters :: "nat \<Rightarrow> cluster option"
  ld_cfg :: "nat \<Rightarrow> config option"
  ld_is_running :: "nat \<Rightarrow> bool option"

definition cluster_state_active :: string where "cluster_state_active = ''cluster.state.active''"
definition cluster_state_inactive :: string where "cluster_state_inactive = ''cluster.state.inactive''"
definition cluster_state_warning :: string where "cluster_state_warning = ''cluster.state.warning''"

section \<open>The state of the services\<close>

definition storage_excluded :: "excluded_cluster \<Rightarrow> storage_services \<Rightarrow> bool" where
  "storage_excluded x v = list_ex (\<lambda>(_, e). ss_binary v = stm_binary e \<and> ss_host v = stm_host e \<and>
     ss_zone v = stm_zone e \<and> stm_exception e) (xc_storage x)"

definition compute_excluded :: "excluded_cluster \<Rightarrow> string \<Rightarrow> bool" where
  "compute_excluded x i = (case map_of (xc_compute x) i of None \<Rightarrow> False | Some e \<Rightarrow> com_exception e)"

definition network_excluded :: "excluded_cluster \<Rightarrow> string \<Rightarrow> bool" where
  "network_excluded x i = (case map_of (xc_network x) i of None \<Rightarrow> False | Some e \<Rightarrow> nem_exception e)"

text \<open>
  The loops of \<open>checkStorageWarning\<close>, \<open>checkComputeWarning\<close> and \<open>checkNetworkWarning\<close>: every
  unavailable service sets the state anew.
\<close>

definition warn_if :: "('a \<Rightarrow> bool) \<Rightarrow> ('a \<Rightarrow> bool) \<Rightarrow> 'a list \<Rightarrow> string" where
  "warn_if unavailable excluded xs = fold (\<lambda>v state.
     if unavailable v then (if excluded v then cluster_state_active else cluster_state_warning) else state) xs []"

definition warning_error :: "string \<Rightarrow> string \<Rightarrow> err option" where
  "warning_error state kind = (if state = cluster_state_warning
     then Some (NewError (''Inoperative due to 'unavailable' condition in the '' @ kind)) else None)"

definition check_storage_warning :: "storage_services list \<Rightarrow> excluded_cluster option \<Rightarrow> string \<times> err option" where
  "check_storage_warning vs x =
     (let state = warn_if (\<lambda>v. ss_status v = ''unavailable'')
        (\<lambda>v. case x of None \<Rightarrow> False | Some e \<Rightarrow> storage_excluded e v) vs
      in (state, warning_error state ''storage''))"

definition check_network_warning :: "network_agent list \<Rightarrow> excluded_cluster option \<Rightarrow> string \<times> err option" where
  "check_network_warning vs x =
     (let state = warn_if (\<lambda>v. agn_status v = ''unavailable'')
        (\<lambda>v. case x of None \<Rightarrow> False | Some e \<Rightarrow> network_excluded e (agn_id v)) vs
      in (state, warning_error state ''network''))"

text \<open>
  The services of the compute component come as a map; \<open>entries\<close> are its entries in the order
  of the iteration, which Go leaves open. The exclusion is looked up under the identifier in the
  value, which \<open>GetComputeServiceList\<close> does not set.
\<close>

definition compute_up :: "compute_services \<Rightarrow> bool" where
  "compute_up v = (cmp_state v = ''up'' \<and> cmp_status v = ''enabled'')"

definition check_compute_warning ::
    "(string \<times> compute_services) list \<Rightarrow> excluded_cluster option \<Rightarrow> compute_services list \<times> string \<times> err option" where
  "check_compute_warning entries x =
     (let state = warn_if (\<lambda>(_, v). \<not> compute_up v)
        (\<lambda>(_, v). case x of None \<Rightarrow> False | Some e \<Rightarrow> compute_excluded e (cmp_id v)) entries
      in (map (\<lambda>(i, v). \<lparr>cmp_id = i, cmp_binary = cmp_binary v, cmp_host = cmp_host v, cmp_zone = cmp_zone v,
            cmp_status = (if compute_up v then ''available'' else ''unavailable''), cmp_state = [],
            cmp_updated_at = cmp_updated_at v, cmp_exception = False, cmp_deleted = False\<rparr>) entries,
          state, warning_error state ''compute''))"

definition validate_status_and_err ::
    "string \<Rightarrow> string \<Rightarrow> string \<Rightarrow> err option \<Rightarrow> err option \<Rightarrow> err option \<Rightarrow> string \<times> string \<times> string \<times> string" where
  "validate_status_and_err s c n se ce ne =
     (let message = (\<lambda>e. case e of None \<Rightarrow> [] | Some x \<Rightarrow> err_text x) in
      (if cluster_state_inactive \<in> {s, c, n} then cluster_state_inactive
       else if cluster_state_warning \<in> {s, c, n} then cluster_state_warning
       else cluster_state_active, message se, message ce, message ne))"

section \<open>The state of given services\<close>

text \<open>
  \<open>checkStatus\<close>: unavailable services and exclusions of them are counted, a service once for every
  entry that excludes it, and the error is written and cleared as the loop goes. The code skips a
  kind whose map of exclusions is nil; its only caller, \<open>SyncException\<close> of the handler, makes all three maps.
\<close>

fun count_kind :: "('a \<Rightarrow> bool) \<Rightarrow> ('a \<Rightarrow> nat) \<Rightarrow> string \<Rightarrow> 'a list \<Rightarrow> nat \<times> nat \<times> string \<Rightarrow> nat \<times> nat \<times> string" where
  "count_kind unavailable hits kind [] acc = acc"
| "count_kind unavailable hits kind (v # vs) (un, ex, msg) =
     (if unavailable v then count_kind unavailable hits kind vs
        (Suc un, ex + hits v, if hits v = 0 then ''Inoperative due to 'unavailable' condition in the '' @ kind else [])
      else count_kind unavailable hits kind vs (un, ex, msg))"

definition exclusions_of :: "excluded_cluster \<Rightarrow> storage_services \<Rightarrow> nat" where
  "exclusions_of x v = length (filter (\<lambda>(_, e). ss_binary v = stm_binary e \<and> ss_host v = stm_host e \<and>
     ss_zone v = stm_zone e \<and> stm_exception e) (xc_storage x))"

definition check_status :: "excluded_cluster option \<Rightarrow> cluster_service_status \<Rightarrow> string \<times> cluster_service_status" where
  "check_status given m =
     (case given of None \<Rightarrow> (svc_status m, m)
      | Some x \<Rightarrow>
          let (u1, e1, se) = count_kind (\<lambda>v. ss_status v = ''unavailable'') (exclusions_of x) ''storage''
                (svc_storage m) (0, 0, svc_storage_error m);
              (u2, e2, ce) = count_kind (\<lambda>v. cmp_status v = ''unavailable'') (\<lambda>v. of_bool (compute_excluded x (cmp_id v)))
                ''compute'' (svc_compute m) (u1, e1, svc_compute_error m);
              (u3, e3, ne) = count_kind (\<lambda>v. agn_status v = ''unavailable'') (\<lambda>v. of_bool (network_excluded x (agn_id v)))
                ''network'' (svc_network m) (u2, e2, svc_network_error m)
          in (if 0 < u3 then (if u3 = e3 then cluster_state_active else cluster_state_warning) else svc_status m,
              m\<lparr>svc_storage_error := se, svc_compute_error := ce, svc_network_error := ne\<rparr>))"

section \<open>Checking a cluster\<close>

definition network_agents :: "agent_service list \<Rightarrow> network_agent list" where
  "network_agents as = map (\<lambda>a. \<lparr>agn_id = na_uuid a, agn_type = na_agent_type a, agn_binary = na_binary a,
     agn_host = na_host a, agn_status = (if na_admin_state_up a \<and> na_alive a then ''available'' else ''unavailable''),
     agn_heartbeat_timestamp = na_heartbeat_timestamp a, agn_exception = False, agn_deleted = False\<rparr>) as"

definition get_network_agent_services :: "synchronizer \<Rightarrow> (err + network_agent list) op" where
  "get_network_agent_services s = do {
     rsp \<leftarrow> ask (sy_list_all_network_agents s);
     State_Monad.return (map_sum (\<lambda>e. e) network_agents rsp)
   }"

text \<open>The entries of a map of compute services, whose keys \<open>order\<close> enumerates.\<close>

definition compute_entries ::
    "((string \<Rightarrow> compute_status option) \<Rightarrow> string list) \<Rightarrow> (string \<Rightarrow> compute_status option) \<Rightarrow> (string \<times> compute_services) list" where
  "compute_entries order m = List.map_filter (\<lambda>i. map_option (\<lambda>c. (i, \<lparr>cmp_id = [], cmp_binary = cst_binary c,
     cmp_host = cst_host c, cmp_zone = cst_zone c, cmp_status = cst_status c, cmp_state = cst_state c,
     cmp_updated_at = cst_updated_at c, cmp_exception = False, cmp_deleted = False\<rparr>)) (m i)) (order m)"

definition failed_state :: "err \<Rightarrow> string" where
  "failed_state e = (case e of RemoteServerError _ \<Rightarrow> cluster_state_inactive | _ \<Rightarrow> cluster_state_warning)"

text \<open>
  One kind of services is looked up at most twice; the number counts the attempts that are left. A
  kind is tried again when its rows could not be updated or it needs a warning, not when the
  cluster does not answer. The result is the list, the state and the error of the kind. A storage
  host without an at sign makes the process panic: \<open>None\<close>.
\<close>

fun check_storages :: "synchronizer \<Rightarrow> nat \<Rightarrow> excluded_cluster option \<Rightarrow> nat \<Rightarrow>
    storage_services list \<times> string \<times> err option \<Rightarrow> (storage_services list \<times> string \<times> err option) option op" where
  "check_storages s cid x 0 acc = State_Monad.return (Some acc)"
| "check_storages s cid x (Suc n) acc = do {
     r \<leftarrow> get_storage_service_list s;
     case r of
       Inl NilDereference \<Rightarrow> State_Monad.return None
     | Inl e \<Rightarrow> do {
         u \<leftarrow> set_unknown_cluster_storages_status cid;
         if u \<noteq> None then check_storages s cid x n ([], failed_state e, Some e)
         else State_Monad.return (Some ([], failed_state e, Some e))
       }
     | Inr (vs, _) \<Rightarrow> do {
         u \<leftarrow> update_cluster_storages_status s vs;
         if u \<noteq> None \<and> n \<noteq> 0 then check_storages s cid x n (vs, fst (snd acc), None)
         else (case check_storage_warning vs x of (state, e) \<Rightarrow>
           if state = cluster_state_warning then check_storages s cid x n (vs, state, e)
           else State_Monad.return (Some (vs, state, e)))
       }
   }"

fun check_computes :: "((string \<Rightarrow> compute_status option) \<Rightarrow> string list) \<Rightarrow> synchronizer \<Rightarrow> nat \<Rightarrow>
    excluded_cluster option \<Rightarrow> nat \<Rightarrow> compute_services list \<times> string \<times> err option \<Rightarrow>
    (compute_services list \<times> string \<times> err option) op" where
  "check_computes order s cid x 0 acc = State_Monad.return acc"
| "check_computes order s cid x (Suc n) acc = do {
     r \<leftarrow> get_compute_service_list s;
     case r of
       Inl e \<Rightarrow> do {
         u \<leftarrow> set_unknown_cluster_hypervisor_status cid;
         if u \<noteq> None then check_computes order s cid x n (fst acc, failed_state e, Some e)
         else State_Monad.return (fst acc, failed_state e, Some e)
       }
     | Inr m \<Rightarrow> do {
         u \<leftarrow> update_cluster_hypervisor_status s m;
         if u \<noteq> None \<and> n \<noteq> 0 then check_computes order s cid x n (fst acc, fst (snd acc), None)
         else (case check_compute_warning (compute_entries order m) x of (vs, state, e) \<Rightarrow>
           if state = cluster_state_warning then check_computes order s cid x n (vs, state, e)
           else State_Monad.return (vs, state, e))
       }
   }"

fun check_networks :: "synchronizer \<Rightarrow> excluded_cluster option \<Rightarrow> nat \<Rightarrow>
    network_agent list \<times> string \<times> err option \<Rightarrow> (network_agent list \<times> string \<times> err option) op" where
  "check_networks s x 0 acc = State_Monad.return acc"
| "check_networks s x (Suc n) acc = do {
     r \<leftarrow> get_network_agent_services s;
     case r of
       Inl e \<Rightarrow> State_Monad.return ([], failed_state e, Some e)
     | Inr vs \<Rightarrow>
         (case check_network_warning vs x of (state, e) \<Rightarrow>
           if state = cluster_state_warning then check_networks s x n (vs, state, e)
           else State_Monad.return (vs, state, e))
   }"

definition publish_to_message :: "cluster_service_status \<Rightarrow> err option op" where
  "publish_to_message m = publish (PublishedDoc queue_cluster_service_get_status (encode_service_status m))"

text \<open>A check of the services of a connected cluster: the state, or \<open>None\<close> for a panic.\<close>

definition check_services ::
    "((string \<Rightarrow> compute_status option) \<Rightarrow> string list) \<Rightarrow> synchronizer \<Rightarrow> nat \<Rightarrow> excluded_cluster option \<Rightarrow> string option op" where
  "check_services order s cid x = do {
     r \<leftarrow> check_storages s cid x 2 ([], cluster_state_active, None);
     case r of None \<Rightarrow> State_Monad.return None
     | Some (ss, st, se) \<Rightarrow> do {
         (cs, ct, ce) \<leftarrow> check_computes order s cid x 2 ([], cluster_state_active, None);
         (ns, nt, ne) \<leftarrow> check_networks s x 2 ([], cluster_state_active, None);
         (case validate_status_and_err st ct nt se ce ne of (state, sm, cm, nm) \<Rightarrow> do {
           _ \<leftarrow> publish_to_message \<lparr>svc_cluster_id = cid, svc_storage = ss, svc_compute = cs, svc_network = ns,
             svc_status = state, svc_is_new = True, svc_storage_error = sm, svc_compute_error = cm,
             svc_network_error = nm\<rparr>;
           State_Monad.return (Some state)
         })
       }
   }"

text \<open>
  The state that was found and the leader; failing to tell it is only logged. With the option
  \<open>OpenStack\<close> the state of the given services is told instead.
\<close>

definition leader_check_cluster ::
    "connector \<Rightarrow> ((string \<Rightarrow> compute_status option) \<Rightarrow> string list) \<Rightarrow> leader \<Rightarrow> nat \<Rightarrow> (string option \<times> leader) op" where
  "leader_check_cluster connect order l cid = do {
     q \<leftarrow> new_synchronizer connect cid;
     case q of
       Inl e \<Rightarrow> do {
         _ \<leftarrow> publish_to_message \<lparr>svc_cluster_id = cid, svc_storage = [], svc_compute = [], svc_network = [],
           svc_status = cluster_state_inactive, svc_is_new = False, svc_storage_error = err_text e,
           svc_compute_error = err_text e, svc_network_error = err_text e\<rparr>;
         State_Monad.return (Some cluster_state_inactive, l)
       }
     | Inr s \<Rightarrow>
         (if ld_openstack l then
            (case ld_given_status l of None \<Rightarrow> State_Monad.return (Some [], l)
             | Some m \<Rightarrow> (case check_status (ld_given_excluded l) m of (state, m') \<Rightarrow> do {
                 _ \<leftarrow> publish_to_message (m'\<lparr>svc_cluster_id := cid, svc_status := state, svc_is_new := False\<rparr>);
                 State_Monad.return (Some state, l\<lparr>ld_given_status := Some m'\<rparr>)
               }))
          else do {
            state \<leftarrow> check_services order s cid (ld_excluded l cid);
            State_Monad.return (state, l)
          })
   }"

section \<open>The state of a cluster in the database\<close>

definition unix :: "int \<Rightarrow> int" where
  "unix t = t div 10 ^ 9 - 62135596800"

definition unique_violation :: string where
  "unique_violation = ''duplicate key value violates unique constraint''"

text \<open>The row of a cluster; its name is unique among all clusters.\<close>

definition save_cluster where
  "save_cluster new db = map_sum (\<lambda>_. unique_violation) (\<lambda>rs. db\<lparr>db_cluster := rs\<rparr>)
     (save_into cl_id (\<lambda>_ r. \<not> list_ex (\<lambda>x. cl_id x \<noteq> cl_id r \<and> cl_name x = cl_name r) (db_cluster db)) new (db_cluster db))"

text \<open>
  \<open>updateClusterState\<close> saves the row the leader remembers. The state and the time in that row are
  overwritten before it is saved again, so the model leaves them as they were.
\<close>

definition update_cluster_state :: "cluster \<Rightarrow> string \<Rightarrow> err option op" where
  "update_cluster_state c code = check cluster_db_lock (do {
     t \<leftarrow> now;
     transaction (do {
       r \<leftarrow> first_row cl_id (\<lambda>db. filter (\<lambda>x. cond_nat (cl_id c) (cl_id x)) (db_cluster db));
       case r of
         Inl RecordNotFound \<Rightarrow> State_Monad.return (Some (NotFoundCluster (cl_id c)))
       | Inl x \<Rightarrow> State_Monad.return (Some (unusable_database x))
       | Inr _ \<Rightarrow> db_err (exec (save_cluster (c\<lparr>cl_state_code := code, cl_updated_at := unix t\<rparr>)))
     })
   })"

text \<open>\<open>check\<close>: the errors of the update are only logged; \<open>None\<close> is a panic.\<close>

definition leader_check ::
    "connector \<Rightarrow> ((string \<Rightarrow> compute_status option) \<Rightarrow> string list) \<Rightarrow> cluster \<Rightarrow> leader \<Rightarrow> leader option op" where
  "leader_check connect order c l = do {
     r \<leftarrow> leader_check_cluster connect order l (cl_id c);
     case r of (None, _) \<Rightarrow> State_Monad.return None
     | (Some state, l') \<Rightarrow>
         (if state \<in> {cluster_state_inactive, cluster_state_warning, cluster_state_active}
          then ignoring (update_cluster_state c state) (State_Monad.return (Some l'))
          else State_Monad.return (Some l'))
   }"

section \<open>Starting\<close>

text \<open>\<open>healthCheckClusterInit\<close>, one cluster after the other, and \<open>leaderInit\<close>.\<close>

fun check_init ::
    "connector \<Rightarrow> ((string \<Rightarrow> compute_status option) \<Rightarrow> string list) \<Rightarrow> cluster list \<Rightarrow> leader \<Rightarrow> leader option op" where
  "check_init connect order [] l = State_Monad.return (Some l)"
| "check_init connect order (c # cs) l = do {
     x \<leftarrow> get_exception (cl_id c);
     let l1 = l\<lparr>ld_excluded := (ld_excluded l)(cl_id c := (case x of Inl _ \<Rightarrow> None | Inr e \<Rightarrow> Some e))\<rparr>;
     r \<leftarrow> leader_check connect order c l1;
     case r of None \<Rightarrow> State_Monad.return None | Some l2 \<Rightarrow> check_init connect order cs l2
   }"

definition default_config :: "nat \<Rightarrow> config" where
  "default_config cid = \<lparr>cf_cluster_id = cid, cf_timestamp_interval = 5, cf_reserved_sync_interval = 1\<rparr>"

fun leader_init :: "cluster list \<Rightarrow> leader \<Rightarrow> leader op" where
  "leader_init [] l = State_Monad.return l"
| "leader_init (c # cs) l = do {
     r \<leftarrow> get_config (cl_id c);
     cfg \<leftarrow> (case r of
         Inr x \<Rightarrow> State_Monad.return (Some x)
       | Inl (NotFoundConfig _) \<Rightarrow> ignoring (put_config (default_config (cl_id c)))
           (State_Monad.return (Some (default_config (cl_id c))))
       | Inl _ \<Rightarrow> State_Monad.return None);
     leader_init cs (l\<lparr>ld_cfg := (ld_cfg l)(cl_id c := cfg), ld_clusters := (ld_clusters l)(cl_id c \<mapsto> c),
       ld_is_running := (ld_is_running l)(cl_id c \<mapsto> False)\<rparr>)
   }"

text \<open>A query in a \<open>database.Transaction\<close>, whose error is wrapped.\<close>

definition read_transaction :: "(err + 'a) op \<Rightarrow> (err + 'a) op" where
  "read_transaction m = do {
     b \<leftarrow> pop_fault;
     case b of Some e \<Rightarrow> State_Monad.return (Inl (UnusableDatabase e))
     | None \<Rightarrow> do {
         modify (\<lambda>w. w\<lparr>w_tx := Open\<rparr>);
         r \<leftarrow> m;
         c \<leftarrow> (case r of Inl _ \<Rightarrow> State_Monad.return None | Inr _ \<Rightarrow> pop_fault);
         modify (\<lambda>w. w\<lparr>w_tx := NoTx\<rparr>);
         State_Monad.return (case r of Inl e \<Rightarrow> Inl (unusable_database e)
           | Inr x \<Rightarrow> (case c of Some m \<Rightarrow> Inl (UnusableDatabase m) | None \<Rightarrow> Inr x))
       }
   }"

definition get_cluster_list :: "(err + cluster list) op" where
  "get_cluster_list = read_transaction (find_rows db_cluster)"

definition leader_start ::
    "connector \<Rightarrow> ((string \<Rightarrow> compute_status option) \<Rightarrow> string list) \<Rightarrow> leader \<Rightarrow> leader option op" where
  "leader_start connect order l = do {
     r \<leftarrow> get_cluster_list;
     case r of Inl _ \<Rightarrow> State_Monad.return (Some l)
     | Inr cs \<Rightarrow> do {
         r1 \<leftarrow> check_init connect order cs l;
         case r1 of None \<Rightarrow> State_Monad.return None
         | Some l1 \<Rightarrow> do { l2 \<leftarrow> leader_init cs l1; State_Monad.return (Some l2) }
       }
   }"

section \<open>Notices\<close>

text \<open>A cluster was created: its row is remembered, and it is checked.\<close>

definition create_cluster_event ::
    "connector \<Rightarrow> ((string \<Rightarrow> compute_status option) \<Rightarrow> string list) \<Rightarrow> nat \<Rightarrow> leader \<Rightarrow> (err option \<times> leader option) op" where
  "create_cluster_event connect order cid l = do {
     r \<leftarrow> read_transaction (first_row cl_id (\<lambda>db. filter (\<lambda>c. cond_nat cid (cl_id c)) (db_cluster db)));
     case r of Inl e \<Rightarrow> State_Monad.return (Some e, Some l)
     | Inr c \<Rightarrow> do {
         l' \<leftarrow> leader_check connect order c
           (l\<lparr>ld_clusters := (ld_clusters l)(cl_id c \<mapsto> c), ld_is_running := (ld_is_running l)(cl_id c \<mapsto> False),
              ld_cfg := (ld_cfg l)(cl_id c \<mapsto> default_config (cl_id c))\<rparr>);
         State_Monad.return (None, l')
       }
   }"

definition delete_cluster_event :: "nat \<Rightarrow> leader \<Rightarrow> leader" where
  "delete_cluster_event cid l = l\<lparr>ld_is_running := (ld_is_running l)(cid := None),
     ld_clusters := (ld_clusters l)(cid := None), ld_cfg := (ld_cfg l)(cid := None),
     ld_excluded := (ld_excluded l)(cid := None)\<rparr>"

text \<open>The intervals of a cluster that is not remembered are written through a nil pointer: \<open>None\<close>.\<close>

definition update_config_event :: "nat \<Rightarrow> config \<Rightarrow> leader \<Rightarrow> leader option" where
  "update_config_event cid new l =
     (if cf_reserved_sync_interval new = 0 \<and> cf_timestamp_interval new = 0 then Some l
      else (case ld_cfg l cid of None \<Rightarrow> None
        | Some old \<Rightarrow> Some (l\<lparr>ld_cfg := (ld_cfg l)(cid \<mapsto> old
            \<lparr>cf_timestamp_interval := (if cf_timestamp_interval new \<noteq> 0 then cf_timestamp_interval new else cf_timestamp_interval old),
             cf_reserved_sync_interval := (if cf_reserved_sync_interval new \<noteq> 0 then cf_reserved_sync_interval new
               else cf_reserved_sync_interval old)\<rparr>)\<rparr>)))"

definition cluster_exception_event :: "excluded_cluster \<Rightarrow> leader \<Rightarrow> err option \<times> leader" where
  "cluster_exception_event x l =
     (if xc_cluster_id x = 0 then (Some (InvalidParameterValue ''cluster.id'' (GNat 0) ''not found cluster_id''), l)
      else (None, l\<lparr>ld_excluded := (ld_excluded l)(xc_cluster_id x \<mapsto> x)\<rparr>))"

end
