(* ===== verification/ServiceResults.thy ===== *)
theory ServiceResults
  imports Leader Reconcile
begin

text \<open>
  What becomes of the status of services: what the handler remembers after a message, when a check
  warns, and what a check does to the row of the cluster.
\<close>

section \<open>The memory of the handler\<close>

text \<open>None of the services a message reports is marked in it.\<close>

definition plain_message :: "cluster_service_status \<Rightarrow> bool" where
  "plain_message m \<longleftrightarrow> (\<forall>x \<in> set (svc_network m). \<not> agn_deleted x) \<and> (\<forall>x \<in> set (svc_compute m). \<not> cmp_deleted x) \<and>
     (\<forall>x \<in> set (svc_storage m). \<not> ss_deleted x \<and> \<not> ss_exception x)"

text \<open>C7. What the handler remembers after a message of the leader that marks none of its services, kind by kind. A
  kind the message does not have (the leader sends none of it when asking for it failed) stays as it was, with no
  service marked. Of a kind that was not known before the services of the message are taken over. Otherwise it is,
  for each service, the last entry of the message, and the services that are missing from the message stay as
  they were, but marked as deleted. Storages keep the identifier they got when they were first seen. The status is a
  warning if a service is missing in this way, with the reason under its kind, and otherwise the one of the
  message. Other clusters stay as they are.\<close>

theorem service_status_remembered:
  assumes "plain_message m"
    and "get_cluster_status_monitor uuid stamp (encode_service_status m) h = (e, h')"
  defines "old \<equiv> remembered h (svc_cluster_id m)" and "new \<equiv> remembered h' (svc_cluster_id m)"
  shows "e = None \<and>
    view_by agn_id (svc_network new) = remembered_view agn_id (\<lambda>x. x) delete_agent (svc_network m) (svc_network old) \<and>
    view_by cmp_id (svc_compute new) = remembered_view cmp_id (\<lambda>x. x) delete_compute (svc_compute m) (svc_compute old) \<and>
    (\<lambda>k. map_option storage_shown (view_by storage_key (svc_storage new) k)) =
      remembered_view storage_key storage_shown delete_storage_service (svc_storage m) (svc_storage old) \<and>
    (let n = misses agn_id (svc_network m) (svc_network old); c = misses cmp_id (svc_compute m) (svc_compute old);
         s = misses storage_key (svc_storage m) (svc_storage old) in
       svc_status new = (if n \<or> c \<or> s then cluster_state_warning else svc_status m) \<and>
       svc_network_error new = (if n then deleted_in ''network'' else svc_network_error m) \<and>
       svc_compute_error new = (if c then deleted_in ''compute'' else svc_compute_error m) \<and>
       svc_storage_error new = (if s then deleted_in ''storage'' else svc_storage_error m)) \<and>
    (\<forall>i. i \<noteq> svc_cluster_id m \<longrightarrow> mon_check_status h' i = mon_check_status h i)"
proof -
  have h': "e = None" "h' = h\<lparr>mon_check_status := (mon_check_status h)(svc_cluster_id m \<mapsto> merge_status uuid m old),
      mon_updated_at := (mon_updated_at h)(svc_cluster_id m \<mapsto> stamp)\<rparr>"
    using assms(2) by (simp_all add: get_cluster_status_monitor_def decode_encode_service_status old_def Let_def)
  have new: "new = merge_status uuid m old" by (simp add: new_def remembered_def h')
  note plain = assms(1) [unfolded plain_message_def]
  let ?n = "merge_agents (svc_is_new m) (svc_network m) (svc_network old)"
  let ?c = "merge_computes (svc_is_new m) (svc_compute m) (svc_compute old)"
  let ?s = "merge_storages uuid (svc_is_new m) (svc_storage m) (svc_storage old)"
  have parts: "svc_network new = fst ?n" "svc_compute new = fst ?c" "svc_storage new = fst ?s"
      "svc_status new = (if snd ?n \<or> snd ?c \<or> snd ?s then cluster_state_warning else svc_status m)"
      "svc_network_error new = (if snd ?n then deleted_in ''network'' else svc_network_error m)"
      "svc_compute_error new = (if snd ?c then deleted_in ''compute'' else svc_compute_error m)"
      "svc_storage_error new = (if snd ?s then deleted_in ''storage'' else svc_storage_error m)"
    unfolding new merge_status_def by (simp_all add: Let_def cluster_state_warning_def split: prod.split)
  have n: "view_by agn_id (fst ?n) = remembered_view agn_id (\<lambda>x. x) delete_agent (svc_network m) (svc_network old)"
      "snd ?n \<longleftrightarrow> misses agn_id (svc_network m) (svc_network old)"
    using agents.merge_kind_remembers [of "svc_network m" "svc_is_new m" "svc_network old"] plain
    by (simp_all add: merge_agents_def agents.shows_as_def option.map_ident)
  have c: "view_by cmp_id (fst ?c) = remembered_view cmp_id (\<lambda>x. x) delete_compute (svc_compute m) (svc_compute old)"
      "snd ?c \<longleftrightarrow> misses cmp_id (svc_compute m) (svc_compute old)"
    using computes.merge_kind_remembers [of "svc_compute m" "svc_is_new m" "svc_compute old"] plain
    by (simp_all add: merge_computes_def computes.shows_as_def option.map_ident)
  have s: "(\<lambda>k. map_option storage_shown (view_by storage_key (fst ?s) k)) =
        remembered_view storage_key storage_shown delete_storage_service (svc_storage m) (svc_storage old)"
      "snd ?s \<longleftrightarrow> misses storage_key (svc_storage m) (svc_storage old)"
    using storages.merge_kind_remembers [of "svc_storage m" "svc_is_new m" uuid "svc_storage old"] plain
    by (simp_all add: merge_storages_def storages.shows_as_def)
  show ?thesis
    unfolding parts n c s using h' by (simp add: Let_def)
qed

definition example_agent :: "string \<Rightarrow> string \<Rightarrow> network_agent" where
  "example_agent i s = \<lparr>agn_id = i, agn_type = ''L3'', agn_binary = ''neutron'', agn_host = ''h'', agn_status = s,
     agn_heartbeat_timestamp = [], agn_exception = False, agn_deleted = False\<rparr>"

definition example_compute :: "string \<Rightarrow> string \<Rightarrow> compute_services" where
  "example_compute i s = \<lparr>cmp_id = i, cmp_binary = ''nova'', cmp_host = ''h'', cmp_zone = ''z'', cmp_status = s,
     cmp_state = [], cmp_updated_at = [], cmp_exception = False, cmp_deleted = False\<rparr>"

definition example_storage_service :: "string \<Rightarrow> string \<Rightarrow> storage_services" where
  "example_storage_service h s = \<lparr>ss_id = [], ss_binary = ''cinder'', ss_backend_name = [], ss_host = h, ss_zone = ''z'',
     ss_status = s, ss_updated_at = [], ss_exception = False, ss_deleted = False\<rparr>"

definition example_status :: "string \<Rightarrow> cluster_service_status" where
  "example_status a = \<lparr>svc_cluster_id = 2, svc_storage = [example_storage_service ''s'' ''available''],
     svc_compute = [example_compute ''c'' ''available''], svc_network = [example_agent a ''available''],
     svc_status = ''cluster.state.active'', svc_is_new = True, svc_storage_error = [], svc_compute_error = [],
     svc_network_error = []\<rparr>"

definition example_monitor :: cluster_monitor where
  "example_monitor = \<lparr>mon_sync_status = Map.empty, mon_check_status = [2 \<mapsto> example_status ''a''],
     mon_updated_at = Map.empty\<rparr>"

lemmas example_service_defs = example_status_def example_agent_def example_compute_def example_storage_service_def

text \<open>The agent \<open>a\<close> is missing from a message that has the agent \<open>b\<close> and no storages.\<close>

theorem service_status_remembered_witness:
  "let m = (example_status ''b'')\<lparr>svc_storage := []\<rparr>;
       new = remembered (snd (get_cluster_status_monitor (\<lambda>_. []) 0 (encode_service_status m) example_monitor)) 2 in
     svc_status new = cluster_state_warning \<and> svc_network_error new = deleted_in ''network'' \<and>
     view_by agn_id (svc_network new) ''a'' = Some ((example_agent ''a'' ''available'')\<lparr>agn_deleted := True\<rparr>) \<and>
     map_option storage_shown (view_by storage_key (svc_storage new) (''cinder'', ''s'', ''z'')) =
       Some (example_storage_service ''s'' ''available'')"
proof -
  let ?m = "(example_status ''b'')\<lparr>svc_storage := []\<rparr>"
  obtain e h' where run: "get_cluster_status_monitor (\<lambda>_. []) 0 (encode_service_status ?m) example_monitor = (e, h')"
    by fastforce
  have known: "remembered example_monitor 2 = example_status ''a''"
    by (simp add: remembered_def example_monitor_def)
  have cid: "svc_cluster_id ?m = 2" by (simp add: example_status_def)
  have plain: "plain_message ?m"
    by (simp add: plain_message_def example_service_defs)
  have "misses agn_id (svc_network ?m) (svc_network (example_status ''a''))"
    by (simp add: misses_def example_service_defs)
  moreover have "view_by agn_id (svc_network (example_status ''a'')) ''a'' = Some (example_agent ''a'' ''available'')"
      "last_by agn_id (\<lambda>x. x) (svc_network ?m) ''a'' = None" "svc_network ?m \<noteq> []" "svc_network (example_status ''a'') \<noteq> []"
    by (simp_all add: view_by_def last_by_def example_service_defs)
  moreover have "map_option storage_shown (view_by storage_key (svc_storage (example_status ''a'')) (''cinder'', ''s'', ''z'')) =
      Some (example_storage_service ''s'' ''available'')"
    by (simp add: view_by_def storage_key_def storage_shown_def example_service_defs)
  ultimately show ?thesis
    using service_status_remembered [OF plain run] unfolding Let_def run cid known snd_conv
    by (simp add: remembered_view_def map_add_def delete_agent_def fun_eq_iff)
qed

section \<open>Warnings\<close>

lemma warn_if_last:
  "warn_if P X xs = (if filter P xs = [] then [] else if X (last (filter P xs)) then cluster_state_active
     else cluster_state_warning)"
proof (induction xs rule: rev_induct)
  case Nil
  then show ?case by (simp add: warn_if_def)
next
  case (snoc x xs)
  then show ?case by (simp add: warn_if_def)
qed

text \<open>C37. A check warns about the storage services exactly when the last unavailable one is not
  excluded: an excluded service at the end of the list hides every other one that is unavailable.
  The same holds for the network agents.\<close>

theorem check_warning_last:
  "(fst (check_storage_warning vs (Some x)) = cluster_state_warning \<longleftrightarrow>
      (let us = filter (\<lambda>v. ss_status v = ''unavailable'') vs in us \<noteq> [] \<and> \<not> storage_excluded x (last us))) \<and>
   (fst (check_network_warning ns (Some x)) = cluster_state_warning \<longleftrightarrow>
      (let us = filter (\<lambda>v. agn_status v = ''unavailable'') ns in us \<noteq> [] \<and> \<not> network_excluded x (agn_id (last us))))"
  by (simp add: check_storage_warning_def check_network_warning_def warn_if_last Let_def
    cluster_state_warning_def cluster_state_active_def)

lemma compute_entries_id: "(i, v) \<in> set (compute_entries order m) \<Longrightarrow> cmp_id v = []"
  by (auto simp: compute_entries_def List.map_filter_def)

text \<open>The exclusion of a compute service has no effect on a check: it is looked up under the
  identifier in the value, which is always empty.\<close>

theorem compute_exclusion_ignored:
  assumes "map_of (xc_compute x) [] = None"
  shows "check_compute_warning (compute_entries order m) (Some x) = check_compute_warning (compute_entries order m) None"
proof -
  have "\<not> compute_excluded x (cmp_id v)" if "(i, v) \<in> set (compute_entries order m)" for i v
    using assms compute_entries_id [OF that] by (simp add: compute_excluded_def)
  then have "warn_if (\<lambda>(_, v). \<not> compute_up v) (\<lambda>(_, v). compute_excluded x (cmp_id v)) (compute_entries order m) =
      warn_if (\<lambda>(_, v). \<not> compute_up v) (\<lambda>_. False) (compute_entries order m)"
    unfolding warn_if_def by (intro fold_cong) auto
  then show ?thesis by (simp add: check_compute_warning_def case_prod_unfold)
qed

theorem compute_exclusion_ignored_witness:
  "fst (snd (check_compute_warning (compute_entries (\<lambda>_. [''c'']) [''c'' \<mapsto> \<lparr>cst_binary = ''nova'', cst_host = ''h'',
       cst_zone = ''z'', cst_status = ''enabled'', cst_state = ''down'', cst_updated_at = []\<rparr>])
     (Some \<lparr>xc_cluster_id = 2, xc_storage = [], xc_compute = [(''c'', \<lparr>com_id = ''c'', com_binary = ''nova'', com_host = ''h'',
       com_zone = ''z'', com_status = ''unavailable'', com_last_updated = [], com_exception = True, com_deleted = False\<rparr>)],
       xc_network = []\<rparr>))) = cluster_state_warning"
proof (subst compute_exclusion_ignored)
  show "map_of (xc_compute \<lparr>xc_cluster_id = 2, xc_storage = [], xc_compute = [(''c'', \<lparr>com_id = ''c'', com_binary = ''nova'',
      com_host = ''h'', com_zone = ''z'', com_status = ''unavailable'', com_last_updated = [], com_exception = True,
      com_deleted = False\<rparr>)], xc_network = []\<rparr>) [] = None"
    by simp
qed (simp add: check_compute_warning_def compute_entries_def List.map_filter_def warn_if_def compute_up_def)

section \<open>The row of a checked cluster\<close>

lemma save_cluster_known:
  assumes "c0 \<in> set (db_cluster db)" and "cl_id c0 = cl_id c" and "\<forall>r \<in> set (db_cluster db). cl_id r \<noteq> cl_id c \<longrightarrow> cl_name r \<noteq> cl_name c"
  shows "save_cluster c db = Inr (db\<lparr>db_cluster := map (\<lambda>r. if cl_id r = cl_id c then c else r) (db_cluster db)\<rparr>)"
proof -
  obtain r where "List.find (\<lambda>r. cl_id r = cl_id c) (db_cluster db) = Some r"
    using assms(1,2) by (cases "List.find (\<lambda>r. cl_id r = cl_id c) (db_cluster db)") (auto simp: find_None_iff)
  moreover have "\<not> list_ex (\<lambda>x. cl_id x \<noteq> cl_id c \<and> cl_name x = cl_name c) (db_cluster db)"
    using assms(3) by (auto simp: list_ex_iff)
  ultimately show ?thesis by (simp add: save_cluster_def save_into_def)
qed

text \<open>A check saves the whole row the leader remembers: without failures the name, the remarks
  and the credential of the cluster are those of that row, whatever they were changed to since.\<close>

theorem update_cluster_state_overwrites:
  assumes "quiet w" and "c0 \<in> set (db_cluster (w_db w))" and "cl_id c0 = cl_id c" and "cl_id c \<noteq> 0"
    and "\<forall>r \<in> set (db_cluster (w_db w)). cl_id r \<noteq> cl_id c \<longrightarrow> cl_name r \<noteq> cl_name c"
  shows "run_state (update_cluster_state c code) w = (None, w\<lparr>w_ticks := Suc (w_ticks w),
     w_db := (w_db w)\<lparr>db_cluster := map (\<lambda>r. if cl_id r = cl_id c
       then c\<lparr>cl_state_code := code, cl_updated_at := unix (w_clock w (w_ticks w))\<rparr> else r) (db_cluster (w_db w))\<rparr>\<rparr>)"
proof -
  let ?c = "c\<lparr>cl_state_code := code, cl_updated_at := unix (w_clock w (w_ticks w))\<rparr>"
  have w: "w_faults w = []" "w_tx w = NoTx" using assms(1) by (simp_all add: quiet_def)
  have saved: "save_cluster ?c (w_db w) =
      Inr ((w_db w)\<lparr>db_cluster := map (\<lambda>r. if cl_id r = cl_id c then ?c else r) (db_cluster (w_db w))\<rparr>)"
    using save_cluster_known [of c0 "w_db w" ?c] assms(2,3,5) by simp
  have "c0 \<in> set (filter (\<lambda>x. cond_nat (cl_id c) (cl_id x)) (db_cluster (w_db w)))"
    using assms(2,3) by (simp add: cond_nat_def)
  then obtain r where r: "least_by cl_id (filter (\<lambda>x. cond_nat (cl_id c) (cl_id x)) (db_cluster (w_db w))) = Some r"
    using least_by_None [of cl_id "filter (\<lambda>x. cond_nat (cl_id c) (cl_id x)) (db_cluster (w_db w))"] by fastforce
  show ?thesis
    using w r saved assms(4)
    by (simp add: update_cluster_state_def check_def cluster_db_lock_def pop_fault_def now_def transaction_def
      first_row_def statement_open exec_def db_err_def Let_def)
qed

text \<open>The name was changed after the leader had read the row.\<close>

theorem update_cluster_state_overwrites_witness:
  "map cl_name (db_cluster (w_db (snd (run_state (update_cluster_state (Reconcile.example_cluster 2) cluster_state_active)
     (example_world\<lparr>w_db := empty_db\<lparr>db_cluster := [(Reconcile.example_cluster 2)\<lparr>cl_name := ''renamed''\<rparr>]\<rparr>\<rparr>))))) = [''c'']"
proof -
  let ?w = "example_world\<lparr>w_db := empty_db\<lparr>db_cluster := [(Reconcile.example_cluster 2)\<lparr>cl_name := ''renamed''\<rparr>]\<rparr>\<rparr>"
  have "quiet ?w" by (simp add: example_world_def quiet_def)
  from update_cluster_state_overwrites [OF this, of "(Reconcile.example_cluster 2)\<lparr>cl_name := ''renamed''\<rparr>"
      "Reconcile.example_cluster 2" cluster_state_active]
  show ?thesis by (simp add: Reconcile.example_cluster_def empty_db_def)
qed

end
