(* ===== verification/ClusterOperations.thy ===== *)
theory ClusterOperations
  imports Leader ClusterRemoval ClusterValidator "HOL-Library.Signed_Division"
begin

text \<open>
  The operations on clusters (\<open>internal/cluster/cluster.go\<close>) beside the removal: reading, adding and
  changing a cluster, its credential, and the state of its services as it is shown. \<open>decrypt\<close> stands
  for \<open>DecryptCredentialPassword\<close> with the key of the process, and \<open>dial\<close> for creating a client and
  connecting it, whose closing is only logged.
\<close>

section \<open>Results\<close>

definition given :: "('s, err + 'a) state \<Rightarrow> ('a \<Rightarrow> ('s, err + 'b) state) \<Rightarrow> ('s, err + 'b) state" where
  "given m k = do { r \<leftarrow> m; case r of Inl e \<Rightarrow> State_Monad.return (Inl e) | Inr x \<Rightarrow> k x }"

definition after :: "('s, err option) state \<Rightarrow> ('s, err + 'b) state \<Rightarrow> ('s, err + 'b) state" where
  "after m k = do { e \<leftarrow> m; case e of Some x \<Rightarrow> State_Monad.return (Inl x) | None \<Rightarrow> k }"

definition failed_with :: "err \<Rightarrow> ('s, err + 'a) state" where
  "failed_with e = State_Monad.return (Inl e)"

definition succeed :: "'a \<Rightarrow> ('s, err + 'a) state" where
  "succeed x = State_Monad.return (Inr x)"

text \<open>A loop that fills a list and ends at the first error.\<close>

fun gather :: "('a \<Rightarrow> ('s, err + 'b) state) \<Rightarrow> 'a list \<Rightarrow> ('s, err + 'b list) state" where
  "gather f [] = succeed []"
| "gather f (x # xs) = given (f x) (\<lambda>y. given (gather f xs) (\<lambda>ys. succeed (y # ys)))"

text \<open>
  A validator with \<open>n\<close> queries. One that refuses the request ends the operation, and nothing is
  asked of the database after it.
\<close>

definition validating :: "nat \<Rightarrow> (database \<Rightarrow> (nat \<Rightarrow> string option) \<Rightarrow> err option) \<Rightarrow> err option op" where
  "validating n v = State (\<lambda>w.
     (v (w_db w) (\<lambda>i. if w_tx w = Aborted then Some ''current transaction is aborted''
        else if i < length (w_faults w) then w_faults w ! i else None),
      w\<lparr>w_faults := drop n (w_faults w)\<rparr>))"

section \<open>Reading a cluster\<close>

record group_view =
  gv_id :: nat
  gv_name :: string
  gv_remarks :: string
  gv_deleted_flag :: bool

record permission_view =
  pv_group :: group_view
  pv_mode_code :: string

record cluster_view =
  cv_id :: nat
  cv_owner_group :: "group_view option"
  cv_permissions :: "permission_view list"
  cv_name :: string
  cv_state_code :: string
  cv_type_code :: string
  cv_api_server_url :: string
  cv_credential :: string
  cv_remarks :: string
  cv_created_at :: int
  cv_updated_at :: int
  cv_synchronized_at :: int

text \<open>\<open>SetFromModel\<close> copies the fields that the JSON names of both structs share.\<close>

definition text_or_empty :: "string option \<Rightarrow> string" where
  "text_or_empty t = (case t of None \<Rightarrow> [] | Some s \<Rightarrow> s)"

definition group_from_model :: "user_group \<Rightarrow> group_view" where
  "group_from_model g = \<lparr>gv_id = ug_id g, gv_name = ug_name g, gv_remarks = text_or_empty (ug_remarks g),
     gv_deleted_flag = ug_deleted_flag g\<rparr>"

definition cluster_from_model :: "cluster \<Rightarrow> cluster_view" where
  "cluster_from_model c = \<lparr>cv_id = cl_id c, cv_owner_group = None, cv_permissions = [], cv_name = cl_name c,
     cv_state_code = cl_state_code c, cv_type_code = cl_type_code c, cv_api_server_url = cl_api_server_url c,
     cv_credential = cl_credential c, cv_remarks = text_or_empty (cl_remarks c), cv_created_at = cl_created_at c,
     cv_updated_at = cl_updated_at c, cv_synchronized_at = cl_synchronized_at c\<rparr>"

definition get_group :: "request_context \<Rightarrow> nat \<Rightarrow> (err + user_group) op" where
  "get_group ctx gid = do {
     r \<leftarrow> first_row ug_id (\<lambda>db. filter (\<lambda>g. cond_nat gid (ug_id g) \<and> cond_nat (ctx_tenant ctx) (ug_tenant_id g)) (db_groups db));
     State_Monad.return (case r of Inl RecordNotFound \<Rightarrow> Inl (NotFoundGroup gid)
       | Inl e \<Rightarrow> Inl (unusable_database e) | Inr g \<Rightarrow> Inr g)
   }"

definition get_cluster_permissions :: "nat \<Rightarrow> (err + cluster_permission list) op" where
  "get_cluster_permissions cid = db_res (find_rows (\<lambda>db. filter (\<lambda>p. cond_nat cid (cp_cluster_id p)) (db_permission db)))"

definition view_permission :: "request_context \<Rightarrow> cluster_permission \<Rightarrow> (err + permission_view) op" where
  "view_permission ctx p = given (get_group ctx (cp_group_id p)) (\<lambda>g.
     succeed \<lparr>pv_group = group_from_model g, pv_mode_code = cp_mode_code p\<rparr>)"

definition get_cluster_view :: "request_context \<Rightarrow> nat \<Rightarrow> (err + cluster_view) op" where
  "get_cluster_view ctx cid =
     (if cid = 0 then failed_with (RequiredParameter ''cluster_id'')
      else given (get_cluster ctx cid) (\<lambda>c.
        given (get_group ctx (cl_owner_group_id c)) (\<lambda>g.
        given (get_cluster_permissions (cl_id c)) (\<lambda>ps.
          if unauthorised ctx c then failed_with UnauthorizedRequest
          else given (gather (view_permission ctx) ps) (\<lambda>vs.
            succeed ((cluster_from_model c)\<lparr>cv_owner_group := Some (group_from_model g), cv_permissions := vs\<rparr>))))))"

definition validate_sync_cluster :: "request_context \<Rightarrow> nat \<Rightarrow> (err + cluster) op" where
  "validate_sync_cluster ctx cid =
     (if cid = 0 then failed_with (RequiredParameter ''cluster_id'')
      else given (get_cluster ctx cid) (\<lambda>c.
        if unauthorised ctx c then failed_with UnauthorizedRequest else succeed c))"

section \<open>Adding and changing a cluster\<close>

definition check_connection ::
    "externals \<Rightarrow> (connection_info \<Rightarrow> nat \<Rightarrow> err option) \<Rightarrow> connection_info \<Rightarrow> err option op" where
  "check_connection ext dial conn =
     (case check_valid_cluster_connection_info ext (Some conn) of
        Some e \<Rightarrow> State_Monad.return (Some e) | None \<Rightarrow> ask (dial conn))"

text \<open>
  The row of a message: fields with their zero value stay as they are, so an empty remark is a nil
  pointer. Saving a row sets the times of its last change and, of a new one, of its creation.
\<close>

definition cluster_model :: "cluster_message \<Rightarrow> cluster" where
  "cluster_model m = \<lparr>cl_id = cm_id m, cl_tenant_id = 0,
     cl_owner_group_id = (case cm_owner_group m of None \<Rightarrow> 0 | Some g \<Rightarrow> g), cl_name = cm_name m,
     cl_remarks = (if cm_remarks m = [] then None else Some (cm_remarks m)), cl_type_code = cm_type_code m,
     cl_api_server_url = cm_api_server_url m, cl_credential = cm_credential m, cl_state_code = [],
     cl_created_at = 0, cl_updated_at = 0, cl_synchronized_at = 0\<rparr>"

definition create_cluster_row :: "cluster \<Rightarrow> (err + cluster) op" where
  "create_cluster_row c = do {
     t \<leftarrow> now;
     u \<leftarrow> now;
     i \<leftarrow> fresh_id (cl_id c);
     let new = c\<lparr>cl_id := i, cl_created_at := unix t, cl_updated_at := unix u\<rparr>;
     after (db_err (exec (save_cluster new))) (succeed new)
   }"

definition update_cluster_row :: "cluster \<Rightarrow> err option op" where
  "update_cluster_row c = do { t \<leftarrow> now; db_err (exec (save_cluster (c\<lparr>cl_updated_at := unix t\<rparr>))) }"

text \<open>\<open>Add\<close> decrypts the credential before it looks whether there is a cluster in the request.\<close>

definition add_cluster ::
    "externals \<Rightarrow> (string \<Rightarrow> err + string) \<Rightarrow> (connection_info \<Rightarrow> nat \<Rightarrow> err option) \<Rightarrow> request_context \<Rightarrow>
     cluster_message option \<Rightarrow> (err + cluster_view) op" where
  "add_cluster ext decrypt dial ctx req =
     (case req of None \<Rightarrow> failed_with NilDereference
      | Some m \<Rightarrow>
        (case decrypt (cm_credential m) of Inl e \<Rightarrow> failed_with e
         | Inr credential \<Rightarrow>
           after (validating 3 (\<lambda>db fault. validate_add_cluster_request ext ctx db fault req credential))
          (after (check_connection ext dial \<lparr>ci_type_code = cm_type_code m, ci_api_server_url = cm_api_server_url m,
                    ci_credential = credential, ci_tenant_id = []\<rparr>)
          (given (create_cluster_row ((cluster_model m)\<lparr>cl_tenant_id := ctx_tenant ctx, cl_state_code := cluster_state_active\<rparr>))
             (\<lambda>c. ignoring (put_config (default_config (cl_id c))) (get_cluster_view ctx (cl_id c)))))))"

definition update_cluster :: "request_context \<Rightarrow> nat \<Rightarrow> cluster_message option \<Rightarrow> (err + cluster_view) op" where
  "update_cluster ctx cid req =
     after (validating 2 (\<lambda>db fault. validate_update_cluster_request ctx db fault cid req))
    (given (get_cluster ctx cid) (\<lambda>orig.
       if unauthorised ctx orig then failed_with UnauthorizedRequest
       else (case req of None \<Rightarrow> failed_with NilDereference
         | Some m \<Rightarrow> (case check_updatable_cluster orig m of Some e \<Rightarrow> failed_with e
           | None \<Rightarrow> after (update_cluster_row (orig\<lparr>cl_name := cl_name (cluster_model m), cl_remarks := cl_remarks (cluster_model m)\<rparr>))
               (get_cluster_view ctx (cl_id orig))))))"

text \<open>The owner of the cluster is not checked here.\<close>

definition update_credential ::
    "externals \<Rightarrow> (string \<Rightarrow> err + string) \<Rightarrow> (connection_info \<Rightarrow> nat \<Rightarrow> err option) \<Rightarrow> request_context \<Rightarrow>
     nat \<Rightarrow> string \<Rightarrow> err option op" where
  "update_credential ext decrypt dial ctx cid new =
     fetch (get_cluster ctx cid) (\<lambda>c.
       (case decrypt new of Inl e \<Rightarrow> State_Monad.return (Some e)
        | Inr credential \<Rightarrow>
          check (check_connection ext dial \<lparr>ci_type_code = cl_type_code c, ci_api_server_url = cl_api_server_url c,
                   ci_credential = credential, ci_tenant_id = []\<rparr>)
            (update_cluster_row (c\<lparr>cl_credential := new\<rparr>))))"

section \<open>The services of a cluster\<close>

text \<open>
  Durations are nanoseconds in 64 bits; Go's division truncates towards zero, and the difference of
  two instants saturates.
\<close>

definition time_sub :: "int \<Rightarrow> int \<Rightarrow> int" where
  "time_sub t u = max (- (2 ^ 63)) (min (2 ^ 63 - 1) (t - u))"

definition hour :: int where "hour = 60 * minute"
definition day :: int where "day = 24 * hour"

definition print_int :: "int \<Rightarrow> string" where
  "print_int z = (if z < 0 then CHR ''-'' # itoa (nat (- z)) else itoa (nat z))"

text \<open>The units in Korean: year, month, day, hour and minute.\<close>

definition unit_year :: string where "unit_year = [CHR 0xEB, CHR 0x85, CHR 0x84]"
definition unit_month :: string where "unit_month = [CHR 0xEA, CHR 0xB0, CHR 0x9C, CHR 0xEC, CHR 0x9B, CHR 0x94]"
definition unit_day :: string where "unit_day = [CHR 0xEC, CHR 0x9D, CHR 0xBC]"
definition unit_hour :: string where "unit_hour = [CHR 0xEC, CHR 0x8B, CHR 0x9C, CHR 0xEA, CHR 0xB0, CHR 0x84]"
definition unit_minute :: string where "unit_minute = [CHR 0xEB, CHR 0xB6, CHR 0x84]"

record duration_parts =
  dur_year :: int
  dur_month :: int
  dur_day :: int
  dur_hour :: int
  dur_minute :: int

definition duration_parts :: "int \<Rightarrow> duration_parts" where
  "duration_parts d = \<lparr>dur_year = d sdiv (365 * day), dur_month = (d smod (365 * day)) sdiv (30 * day),
     dur_day = (d smod (30 * day)) sdiv day, dur_hour = (d smod day) sdiv hour, dur_minute = (d smod hour) sdiv minute\<rparr>"

definition duration_to_string :: "int \<Rightarrow> string" where
  "duration_to_string d =
     (let p = duration_parts d;
          y = print_int (dur_year p) @ unit_year @ '' '';
          mo = print_int (dur_month p) @ unit_month @ '' '';
          da = print_int (dur_day p) @ unit_day @ '' '';
          h = print_int (dur_hour p) @ unit_hour @ '' '';
          mi = print_int (dur_minute p) @ unit_minute
      in if dur_year p > 0 then y @ mo @ da @ h @ mi
         else if dur_month p > 0 then mo @ da @ h @ mi
         else if dur_day p > 0 then da @ h @ mi
         else if dur_hour p > 0 then h @ mi
         else mi)"

text \<open>
  \<open>time.Parse\<close> for the layouts \<open>2006-01-02T15:04:05.000000\<close> and \<open>2006-01-02 15:04:05\<close>. The first
  wants six characters after the dot, which may begin with a sign; the second takes a fraction of any
  length and any number of spaces between the day and the hour.
\<close>

definition skip_spaces :: "string \<Rightarrow> string option" where
  "skip_spaces v = (case v of [] \<Rightarrow> Some [] | c # _ \<Rightarrow> if c = CHR '' '' then Some (dropWhile (\<lambda>d. d = CHR '' '') v) else None)"

definition days_before_year :: "nat \<Rightarrow> int" where
  "days_before_year y = (let p = int y - 1 in 365 * p + p div 4 - p div 100 + p div 400)"

definition days_before_month :: "nat \<Rightarrow> nat \<Rightarrow> int" where
  "days_before_month m y = int (sum_list (map (\<lambda>k. days_in k y) [1..<m]))"

definition instant :: "nat \<Rightarrow> nat \<Rightarrow> nat \<Rightarrow> nat \<Rightarrow> nat \<Rightarrow> nat \<Rightarrow> int \<Rightarrow> int" where
  "instant y m d h mi s ns = (days_before_year y + days_before_month m y + int d - 1) * day
     + int h * hour + int mi * minute + int s * 10 ^ 9 + ns"

definition parse_date :: "string \<Rightarrow> ((nat \<times> nat \<times> nat) \<times> string) option" where
  "parse_date v = do {
     (y, v) \<leftarrow> getyear v;
     v \<leftarrow> skip_prefix ''-'' v; (m, v) \<leftarrow> getnum True v; _ \<leftarrow> accept (1 \<le> m \<and> m \<le> 12);
     v \<leftarrow> skip_prefix ''-'' v; (d, v) \<leftarrow> getnum True v;
     Some ((y, m, d), v)
   }"

definition parse_clock :: "string \<Rightarrow> ((nat \<times> nat \<times> nat) \<times> string) option" where
  "parse_clock v = do {
     (h, v) \<leftarrow> getnum False v; _ \<leftarrow> accept (h < 24);
     v \<leftarrow> skip_prefix '':'' v; (mi, v) \<leftarrow> getnum True v; _ \<leftarrow> accept (mi < 60);
     v \<leftarrow> skip_prefix '':'' v; (s, v) \<leftarrow> getnum True v; _ \<leftarrow> accept (s < 60);
     Some ((h, mi, s), v)
   }"

definition parse_micros :: "string \<Rightarrow> (int \<times> string) option" where
  "parse_micros v = (case v of [] \<Rightarrow> None | c # ds0 \<Rightarrow>
     if length v < 7 \<or> c \<noteq> CHR ''.'' then None
     else (let ds = take 6 ds0;
               digits = (if hd ds \<in> {CHR ''+'', CHR ''-''} then tl ds else ds);
               n = dec_val 0 digits
           in if list_all is_digit digits \<and> (hd ds = CHR ''-'' \<longrightarrow> n = 0) then Some (int n * 1000, drop 6 ds0) else None))"

definition parse_fraction :: "string \<Rightarrow> (int \<times> string) option" where
  "parse_fraction v = (case v of
       c # d # cs \<Rightarrow>
         if c = CHR ''.'' \<and> is_digit d then
           (let ds = takeWhile is_digit (d # cs); n = dec_val 0 ds
            in if n < 1000000000 then Some (int n * 10 ^ (9 - length ds), dropWhile is_digit (d # cs)) else None)
         else Some (0, v)
     | _ \<Rightarrow> Some (0, v))"

definition parse_update_time :: "string \<Rightarrow> int option" where
  "parse_update_time v = do {
     ((y, m, d), v) \<leftarrow> parse_date v; v \<leftarrow> skip_prefix ''T'' v; ((h, mi, s), v) \<leftarrow> parse_clock v;
     (ns, v) \<leftarrow> parse_micros v;
     _ \<leftarrow> accept (v = [] \<and> 1 \<le> d \<and> d \<le> days_in m y);
     Some (instant y m d h mi s ns)
   }"

definition parse_heartbeat_time :: "string \<Rightarrow> int option" where
  "parse_heartbeat_time v = do {
     ((y, m, d), v) \<leftarrow> parse_date v; v \<leftarrow> skip_spaces v; ((h, mi, s), v) \<leftarrow> parse_clock v;
     (ns, v) \<leftarrow> parse_fraction v;
     _ \<leftarrow> accept (v = [] \<and> 1 \<le> d \<and> d \<le> days_in m y);
     Some (instant y m d h mi s ns)
   }"

text \<open>How long ago a service was seen; the text of the parser's error is left out.\<close>

definition last_updated :: "string \<Rightarrow> (string \<Rightarrow> int option) \<Rightarrow> string \<Rightarrow> (err + string) op" where
  "last_updated p parse v = (case parse v of
       None \<Rightarrow> failed_with (InvalidParameterValue p (GStr v) ''cannot parse'')
     | Some u \<Rightarrow> do { t \<leftarrow> now; succeed (duration_to_string (time_sub t u)) })"

definition show_storage :: "excluded_cluster option \<Rightarrow> storage_services \<Rightarrow> (err + storage_status_message) op" where
  "show_storage x v = given (last_updated ''cluster.updated_at'' parse_update_time (ss_updated_at v)) (\<lambda>ago.
     succeed \<lparr>stm_id = ss_id v, stm_binary = ss_binary v, stm_backend_name = ss_backend_name v, stm_host = ss_host v,
       stm_zone = ss_zone v, stm_status = ss_status v, stm_last_updated = ago,
       stm_exception = (case x of None \<Rightarrow> False | Some e \<Rightarrow> storage_excluded e v), stm_deleted = ss_deleted v\<rparr>)"

definition show_compute :: "excluded_cluster option \<Rightarrow> compute_services \<Rightarrow> (err + compute_status_message) op" where
  "show_compute x v = given (last_updated ''cluster.updated_at'' parse_update_time (cmp_updated_at v)) (\<lambda>ago.
     succeed \<lparr>com_id = cmp_id v, com_binary = cmp_binary v, com_host = cmp_host v, com_zone = cmp_zone v,
       com_status = cmp_status v, com_last_updated = ago,
       com_exception = (case x of None \<Rightarrow> False | Some e \<Rightarrow> compute_excluded e (cmp_id v)), com_deleted = cmp_deleted v\<rparr>)"

definition show_network :: "excluded_cluster option \<Rightarrow> network_agent \<Rightarrow> (err + network_status_message) op" where
  "show_network x v = given (last_updated ''cluster.heartbeat_timestamp'' parse_heartbeat_time (agn_heartbeat_timestamp v)) (\<lambda>ago.
     succeed \<lparr>nem_id = agn_id v, nem_type = agn_type v, nem_binary = agn_binary v, nem_host = agn_host v,
       nem_status = agn_status v, nem_last_updated = ago,
       nem_exception = (case x of None \<Rightarrow> False | Some e \<Rightarrow> network_excluded e (agn_id v)), nem_deleted = agn_deleted v\<rparr>)"

definition optional_exception :: "nat \<Rightarrow> (err + excluded_cluster option) op" where
  "optional_exception cid = do {
     r \<leftarrow> get_exception cid;
     State_Monad.return (case r of Inr x \<Rightarrow> Inr (Some x) | Inl (NotFoundClusterException _) \<Rightarrow> Inr None | Inl e \<Rightarrow> Inl e)
   }"

definition show_services :: "nat \<Rightarrow> cluster_service_status \<Rightarrow>
    (err + compute_status_message list \<times> storage_status_message list \<times> network_status_message list \<times> string) op" where
  "show_services cid data =
     given (optional_exception cid) (\<lambda>x.
     given (gather (show_storage x) (svc_storage data)) (\<lambda>ss.
     given (gather (show_compute x) (svc_compute data)) (\<lambda>cs.
     given (gather (show_network x) (svc_network data)) (\<lambda>ns.
       succeed (cs, ss, ns, svc_status data)))))"

end
