(* ===== verification/ClusterList.thy ===== *)
theory ClusterList
  imports ClusterOperations "HOL-Library.Word"
begin

text \<open>
  The list of clusters: the filters of \<open>internal/cluster/cluster_filter.go\<close>, and \<open>GetList\<close> with its
  pages from \<open>internal/cluster/cluster.go\<close>.
\<close>

section \<open>Patterns\<close>

text \<open>
  \<open>LIKE\<close>: a percent sign stands for any text, an underscore for one character, and a backslash takes
  the next character literally.
\<close>

lemma drop_rune_shorter: "s \<noteq> [] \<Longrightarrow> length s - rune_len s < length s"
  using rune_len_bounds [of s] by linarith

function like :: "string \<Rightarrow> string \<Rightarrow> bool" where
  "like p s = (case p of [] \<Rightarrow> s = []
     | c # ps \<Rightarrow>
         if c = CHR ''%'' then like ps s \<or> (if s = [] then False else like p (drop (rune_len s) s))
         else if c = CHR ''_'' then s \<noteq> [] \<and> like ps (drop (rune_len s) s)
         else if c = CHR 0x5C then (case ps of [] \<Rightarrow> False | d # qs \<Rightarrow> s \<noteq> [] \<and> hd s = d \<and> like qs (tl s))
         else s \<noteq> [] \<and> hd s = c \<and> like ps (tl s))"
  by pat_completeness auto
termination
  by (relation "measures [\<lambda>(p, s). length p, \<lambda>(p, s). length s]") (auto simp: drop_rune_shorter)

declare like.simps [simp del]

section \<open>Filters\<close>

datatype cluster_filter = TenantIs nat | OwnerGroupIs nat | OwnerGroupIn "nat list" | TypeIs string
  | NameLike string | Page "64 word option" "64 word option"

text \<open>A query in the making: its conditions, and the numbers of its \<open>OFFSET\<close> and \<open>LIMIT\<close>.\<close>

record 'r query =
  qu_where :: "'r \<Rightarrow> bool"
  qu_offset :: "64 word option"
  qu_limit :: "64 word option"

definition all_rows :: "'r query" where
  "all_rows = \<lparr>qu_where = (\<lambda>_. True), qu_offset = None, qu_limit = None\<rparr>"

definition where_also :: "('r \<Rightarrow> bool) \<Rightarrow> 'r query \<Rightarrow> 'r query" where
  "where_also c q = q\<lparr>qu_where := (\<lambda>r. qu_where q r \<and> c r)\<rparr>"

definition page_also :: "64 word option \<Rightarrow> 64 word option \<Rightarrow> 'r query \<Rightarrow> 'r query" where
  "page_also offset limit q = q\<lparr>qu_offset := (case offset of None \<Rightarrow> qu_offset q | Some n \<Rightarrow> Some n),
     qu_limit := (case limit of None \<Rightarrow> qu_limit q | Some n \<Rightarrow> Some n)\<rparr>"

fun apply_filter :: "cluster_filter \<Rightarrow> cluster query \<Rightarrow> cluster query" where
  "apply_filter (TenantIs t) q = where_also (\<lambda>c. cl_tenant_id c = t) q"
| "apply_filter (OwnerGroupIs g) q = where_also (\<lambda>c. cl_owner_group_id c = g) q"
| "apply_filter (OwnerGroupIn gs) q = where_also (\<lambda>c. cl_owner_group_id c \<in> set gs) q"
| "apply_filter (TypeIs t) q = where_also (\<lambda>c. cl_type_code c = t) q"
| "apply_filter (NameLike n) q = where_also (\<lambda>c. like (CHR ''%'' # n @ ''%'') (cl_name c)) q"
| "apply_filter (Page offset limit) q = page_also offset limit q"

record cluster_list = cluster_list_request +
  clr_limit :: "64 word option"
  clr_offset :: "64 word option"

text \<open>The groups of a missing user are read through a nil pointer: \<open>None\<close>.\<close>

definition make_cluster_filter :: "request_context \<Rightarrow> cluster_list \<Rightarrow> cluster_filter list option" where
  "make_cluster_filter ctx req =
     (let owner = (if clr_owner_group_id req \<noteq> 0 then Some [OwnerGroupIs (clr_owner_group_id req)]
            else if is_admin_user (ctx_user ctx) then Some []
            else map_option (\<lambda>u. [OwnerGroupIn (user_groups u)]) (ctx_user ctx))
      in map_option (\<lambda>fs. [TenantIs (ctx_tenant ctx)] @ fs @
           (if length (clr_type_code req) \<noteq> 0 then [TypeIs (clr_type_code req)] else []) @
           (if rune_count (clr_name req) \<noteq> 0 then [NameLike (clr_name req)] else []) @
           (if clr_offset req \<noteq> None \<or> clr_limit req \<noteq> None then [Page (clr_offset req) (clr_limit req)] else [])) owner)"

section \<open>Queries\<close>

text \<open>
  gorm reads the numbers of a page as signed integers of 64 bits, and refuses larger ones. The
  offset is taken first. The rows come in the order of the table: no list request asks for an order.
\<close>

definition page_fits :: "64 word option \<Rightarrow> bool" where
  "page_fits n = (case n of None \<Rightarrow> True | Some v \<Rightarrow> unat v < 2 ^ 63)"

definition page_of :: "64 word option \<Rightarrow> 64 word option \<Rightarrow> 'r list \<Rightarrow> 'r list" where
  "page_of offset limit rs =
     (let rest = (case offset of None \<Rightarrow> rs | Some n \<Rightarrow> drop (unat n) rs)
      in case limit of None \<Rightarrow> rest | Some n \<Rightarrow> take (unat n) rest)"

definition run_query :: "(database \<Rightarrow> 'r list) \<Rightarrow> 'r query \<Rightarrow> (err + 'r list) op" where
  "run_query rows q =
     (if page_fits (qu_offset q) \<and> page_fits (qu_limit q)
      then db_res (find_rows (\<lambda>db. page_of (qu_offset q) (qu_limit q) (filter (qu_where q) (rows db))))
      else failed_with (UnusableDatabase ''value out of range''))"

definition count_query :: "(database \<Rightarrow> 'r list) \<Rightarrow> 'r query \<Rightarrow> (err + 64 word) op" where
  "count_query rows q = do {
     r \<leftarrow> db_res (find_rows (\<lambda>db. filter (qu_where q) (rows db)));
     State_Monad.return (map_sum (\<lambda>e. e) (\<lambda>rs. of_nat (length rs)) r)
   }"

text \<open>The columns that the list reads.\<close>

definition listed_columns :: "cluster \<Rightarrow> cluster" where
  "listed_columns c = c\<lparr>cl_tenant_id := 0, cl_api_server_url := [], cl_credential := []\<rparr>"

definition get_clusters :: "cluster_filter list \<Rightarrow> (err + cluster list) op" where
  "get_clusters fs = given (run_query db_cluster (fold apply_filter fs all_rows)) (\<lambda>cs. succeed (map listed_columns cs))"

record pagination =
  pg_page :: "64 word"
  pg_total_page :: "64 word"
  pg_total_items :: "64 word"

definition pagination_of :: "64 word \<Rightarrow> 64 word \<Rightarrow> 64 word \<Rightarrow> pagination" where
  "pagination_of offset limit n =
     (if limit = 0 then \<lparr>pg_page = 1, pg_total_page = 1, pg_total_items = n\<rparr>
      else \<lparr>pg_page = offset div limit + 1, pg_total_page = (n + limit - 1) div limit, pg_total_items = n\<rparr>)"

text \<open>The last page filter gives the numbers; the others make the query.\<close>

definition page_numbers :: "cluster_filter list \<Rightarrow> 64 word \<times> 64 word" where
  "page_numbers fs = fold (\<lambda>f n. case f of
       Page offset limit \<Rightarrow> (case offset of None \<Rightarrow> 0 | Some v \<Rightarrow> v, case limit of None \<Rightarrow> 0 | Some v \<Rightarrow> v)
     | _ \<Rightarrow> n) fs (0, 0)"

definition is_page :: "cluster_filter \<Rightarrow> bool" where
  "is_page f = (case f of Page _ _ \<Rightarrow> True | _ \<Rightarrow> False)"

definition get_clusters_pagination :: "cluster_filter list \<Rightarrow> (err + pagination) op" where
  "get_clusters_pagination fs = given (count_query db_cluster (fold apply_filter (filter (\<lambda>f. \<not> is_page f) fs) all_rows))
     (\<lambda>n. succeed (pagination_of (fst (page_numbers fs)) (snd (page_numbers fs)) n))"

definition list_entry :: "request_context \<Rightarrow> cluster \<Rightarrow> (err + cluster_view) op" where
  "list_entry ctx c = given (get_group ctx (cl_owner_group_id c)) (\<lambda>g.
     succeed ((cluster_from_model c)\<lparr>cv_owner_group := Some (group_from_model g)\<rparr>))"

definition get_cluster_list_page :: "request_context \<Rightarrow> cluster_list \<Rightarrow> (err + cluster_view list \<times> pagination) op" where
  "get_cluster_list_page ctx req =
     (case validate_get_clusters ctx (cluster_list_request.truncate req) of Some e \<Rightarrow> failed_with e
      | None \<Rightarrow> (case make_cluster_filter ctx req of None \<Rightarrow> failed_with NilDereference
        | Some fs \<Rightarrow>
            given (get_clusters fs) (\<lambda>cs.
            given (gather (list_entry ctx) cs) (\<lambda>vs.
            given (get_clusters_pagination fs) (\<lambda>p. succeed (vs, p))))))"

end
