(* ===== verification/Handler.thy ===== *)
theory Handler
  imports ClusterList ServiceMonitor
begin

text \<open>
  The requests about clusters (\<open>handler/handler.go\<close>): who may ask, the transaction each operation runs
  in, what is announced, and the status of the answer (\<open>handler/util.go\<close>). A reply is the code of an
  event with an error, or what the handler answers. A synchronisation that a request starts runs beside
  it; it is a definition of its own. The events that answers report to another service are left out.
\<close>

section \<open>Requests and replies\<close>

text \<open>The user and the tenant in the metadata; what is missing or cannot be read is \<open>None\<close>.\<close>

record rpc =
  rpc_user :: "user option"
  rpc_tenant :: "nat option"

definition context_of :: "rpc \<Rightarrow> request_context" where
  "context_of r = \<lparr>ctx_user = rpc_user r, ctx_tenant = (case rpc_tenant r of None \<Rightarrow> 0 | Some t \<Rightarrow> t)\<rparr>"

definition validate_request :: "rpc \<Rightarrow> err option" where
  "validate_request r = fail_if (rpc_tenant r = None \<or> rpc_user r = None) InvalidRequest"

type_synonym 'a reply = "(string \<times> err) + 'a"

definition failure :: "string \<Rightarrow> string \<Rightarrow> string" where
  "failure name step = ''cdm-center.manager.'' @ name @ ''.failure-'' @ step"

definition stage :: "string \<Rightarrow> (err + 'a) op \<Rightarrow> ('a \<Rightarrow> 'b reply op) \<Rightarrow> 'b reply op" where
  "stage code m k = do { r \<leftarrow> m; case r of Inl e \<Rightarrow> State_Monad.return (Inl (code, e)) | Inr x \<Rightarrow> k x }"

definition stage_err :: "string \<Rightarrow> err option op \<Rightarrow> 'b reply op \<Rightarrow> 'b reply op" where
  "stage_err code m k = do { e \<leftarrow> m; case e of Some x \<Rightarrow> State_Monad.return (Inl (code, x)) | None \<Rightarrow> k }"

definition answer :: "'a \<Rightarrow> 'a reply op" where
  "answer x = State_Monad.return (Inr x)"

definition admitted :: "string \<Rightarrow> rpc \<Rightarrow> 'b reply op \<Rightarrow> 'b reply op" where
  "admitted name r k = stage_err (failure name ''validate_request'') (State_Monad.return (validate_request r)) k"

text \<open>
  \<open>createError\<close>: the status and the code of an error. \<open>ClientError\<close> is \<open>client.ErrUnknown\<close>.
  \<open>errors.Equal\<close> compares texts: \<open>errors.ErrUnknown\<close> has the text of \<open>client.ErrUnknown\<close>, and
  \<open>ErrUnAuthorizedUser\<close> that of \<open>ErrUnAuthorized\<close>, whose case comes first.
\<close>

fun create_error :: "err \<Rightarrow> nat \<times> string" where
  "create_error NotFoundVolumeType = (404, ''not_found_volume_type'')"
| "create_error (NotFoundVolumeBackendName _) = (404, ''not_found_volume_backend_name'')"
| "create_error (NotFoundAvailableServiceHostName _) = (404, ''not_found_available_service_host_name'')"
| "create_error NotFoundInstanceHypervisor = (404, ''not_found_instance_hypervisor'')"
| "create_error NotFoundInstanceSpec = (404, ''not_found_instance_spec'')"
| "create_error (UnknownInstanceState _ _) = (400, ''unknown_instance_state'')"
| "create_error ClientNotFound = (404, ''not_found'')"
| "create_error (UnAuthenticated _) = (401, ''unauthenticated'')"
| "create_error (ClientBadRequest _) = (400, ''bad_request'')"
| "create_error (ClientUnAuthorized _) = (403, ''unauthorized'')"
| "create_error (UnAuthorizedUser _ _ _) = (403, ''unauthorized'')"
| "create_error (NotConnected _) = (500, ''not_connected'')"
| "create_error (ClientConflict _) = (409, ''conflict'')"
| "create_error (NotFoundEndpoint _) = (404, ''not_found_endpoint'')"
| "create_error (ClientError _) = (400, ''unknown'')"
| "create_error (Unknown _) = (400, ''unknown'')"
| "create_error (RemoteServerError _) = (400, ''remote_server_error'')"
| "create_error (NotFoundGroup _) = (500, ''not_found_group'')"
| "create_error (NotFoundCluster _) = (404, ''not_found_cluster'')"
| "create_error (NotFoundClusterTenant _) = (404, ''not_found_cluster_tenant'')"
| "create_error (NotFoundClusterResource kind _) = (404, ''not_found_cluster_'' @ kind)"
| "create_error (UnsupportedClusterType _) = (400, ''unsupported_cluster_type'')"
| "create_error (NotFoundClusterSyncStatus _) = (404, ''not_found_cluster_sync_status'')"
| "create_error (UnableSynchronizeStatus _ _) = (400, ''unable_to_synchronize_because_of_status'')"
| "create_error (NotFoundClusterException _) = (400, ''not_found_cluster_sync_exception'')"
| "create_error (NotFoundStorage _ _) = (404, ''not_found_storage'')"
| "create_error (UnsupportedStorageType _) = (400, ''unsupported_storage_type'')"
| "create_error (NotFoundStorageMetadata _ _) = (404, ''not_found_storage_metadata'')"
| "create_error (VolumeStatusTimeout _ _) = (500, ''volume_status_timeout'')"
| "create_error (InstanceStatusTimeout _ _) = (500, ''instance_status_timeout'')"
| "create_error (NotFoundVolume _ _) = (404, ''not_found_volume'')"
| "create_error (NotFoundVolumeMetadata _ _) = (404, ''not_found_volume_metadata'')"
| "create_error (RequiredParameter _) = (400, ''required_parameter'')"
| "create_error (UnchangeableParameter _) = (400, ''unchangeable_parameter'')"
| "create_error (ConflictParameterValue _ _) = (409, ''conflict_parameter'')"
| "create_error (InvalidParameterValue _ _ _) = (400, ''invalid_parameter'')"
| "create_error (LengthOverflowParameterValue _ _ _) = (400, ''length_overflow_parameter'')"
| "create_error (OutOfRangeParameterValue _ _ _ _) = (400, ''out_of_range_parameter'')"
| "create_error (UnavailableParameterValue _ _ _) = (400, ''unavailable_parameter'')"
| "create_error (FormatMismatchParameterValue _ _ _) = (400, ''format_mismatch_parameter'')"
| "create_error InvalidRequest = (500, ''invalid_request'')"
| "create_error UnauthorizedRequest = (403, ''unauthorized_request'')"
| "create_error NoContent = (204, ''no_content'')"
| "create_error (UnusableDatabase _) = (500, ''unusable_database'')"
| "create_error (UnusableStore _) = (500, ''unusable_store'')"
| "create_error (UnusableBroker _) = (500, ''unusable_broker'')"
| "create_error (IPCFailed _) = (500, ''ipc_failed'')"
| "create_error NotFoundKey = (404, ''not_found_key'')"
| "create_error _ = (500, ''unknown'')"

section \<open>The configuration\<close>

text \<open>Whatever goes wrong when the configuration is read, the defaults are stored in its place.\<close>

definition get_center_config :: "nat \<Rightarrow> (int \<times> int) reply op" where
  "get_center_config cid = do {
     r \<leftarrow> get_config cid;
     case r of Inr c \<Rightarrow> answer (cf_timestamp_interval c, cf_reserved_sync_interval c)
     | Inl _ \<Rightarrow> stage_err (failure ''get_center_config'' ''put'') (put_config (default_config cid)) (answer (5, 1))
   }"

definition encode_cluster_config :: "nat \<Rightarrow> config \<Rightarrow> json" where
  "encode_cluster_config cid c = JObj (put_nat ''cluster_id'' cid @ [(''config'', encode_config c)])"

text \<open>
  A request without configuration, or about a cluster whose configuration cannot be read, dereferences
  a nil pointer. The guard of an interval is that it is at least the lower or at most the upper bound.
\<close>

definition new_interval :: "int \<Rightarrow> int \<Rightarrow> int \<Rightarrow> int" where
  "new_interval upper new old = (if new \<noteq> 0 \<and> (new \<ge> 1 \<or> new \<le> upper) then new else old)"

definition update_center_config :: "nat \<Rightarrow> (int \<times> int) option \<Rightarrow> unit reply op" where
  "update_center_config cid req = do {
     r \<leftarrow> get_config cid;
     case (r, req) of
       (Inr old, Some (ts, rs)) \<Rightarrow>
         (let c = old\<lparr>cf_timestamp_interval := new_interval 10 ts (cf_timestamp_interval old),
                      cf_reserved_sync_interval := new_interval 3 rs (cf_reserved_sync_interval old)\<rparr>
          in stage_err (failure ''update_center_config'' ''put'') (put_config c)
            (ignoring (publish (PublishedDoc topic_notice_center_config_updated (encode_cluster_config cid c))) (answer ())))
     | _ \<Rightarrow> State_Monad.return (Inl ([], NilDereference))
   }"

section \<open>The state and the synchronisation of a cluster\<close>

definition cluster_state_loading :: string where "cluster_state_loading = ''cluster.state.loading''"

definition check_connection_request ::
    "externals \<Rightarrow> (string \<Rightarrow> err + string) \<Rightarrow> (connection_info \<Rightarrow> nat \<Rightarrow> err option) \<Rightarrow> rpc \<Rightarrow> connection_info \<Rightarrow> unit reply op" where
  "check_connection_request ext decrypt dial r conn =
     admitted ''check_connection'' r
      (stage (failure ''check_connection'' ''credential_password'') (State_Monad.return (decrypt (ci_credential conn))) (\<lambda>c.
        stage_err (failure ''check_connection'' ''check'') (check_connection ext dial (conn\<lparr>ci_credential := c\<rparr>)) (answer ())))"

record check_cluster_response =
  ccr_computes :: "compute_status_message list"
  ccr_storages :: "storage_status_message list"
  ccr_networks :: "network_status_message list"
  ccr_status :: string
  ccr_updated_at :: string
  ccr_compute_error :: string
  ccr_storage_error :: string
  ccr_network_error :: string

text \<open>A cluster without a message so far was updated at the zero time.\<close>

definition check_cluster_request :: "rpc \<Rightarrow> cluster_monitor \<Rightarrow> nat \<Rightarrow> check_cluster_response reply op" where
  "check_cluster_request r h cid =
     admitted ''check_cluster'' r
      (stage (failure ''check_cluster'' ''validate_sync_cluster'') (transaction_with (validate_sync_cluster (context_of r) cid)) (\<lambda>c.
       (let data = remembered h cid; updated = (case mon_updated_at h cid of None \<Rightarrow> 0 | Some t \<Rightarrow> t) in
        stage (failure ''check_cluster'' ''check_cluster'') (show_services (cl_id c) data) (\<lambda>(cs, ss, ns, status). do {
          t \<leftarrow> now;
          answer \<lparr>ccr_computes = cs, ccr_storages = ss, ccr_networks = ns,
            ccr_status = (if svc_network data = [] \<and> svc_compute data = [] \<and> svc_storage data = [] \<and>
              status \<noteq> cluster_state_inactive then cluster_state_loading else status),
            ccr_updated_at = duration_to_string (time_sub t updated), ccr_compute_error = svc_compute_error data,
            ccr_storage_error = svc_storage_error data, ccr_network_error = svc_network_error data\<rparr>
        }))))"

definition update_credential_request ::
    "externals \<Rightarrow> (string \<Rightarrow> err + string) \<Rightarrow> (connection_info \<Rightarrow> nat \<Rightarrow> err option) \<Rightarrow> rpc \<Rightarrow> nat \<Rightarrow> string \<Rightarrow> unit reply op" where
  "update_credential_request ext decrypt dial r cid new =
     admitted ''update_credential'' r
      (stage_err (failure ''update_credential'' ''update_credential'')
        (transaction (update_credential ext decrypt dial (context_of r) cid new)) (answer ()))"

text \<open>The request, and the synchronisation that runs after it was admitted.\<close>

definition sync_cluster_request :: "rpc \<Rightarrow> nat \<Rightarrow> unit reply op" where
  "sync_cluster_request r cid =
     admitted ''sync_cluster'' r
      (stage (failure ''sync_cluster'' ''sync'') (transaction_with (validate_sync_cluster (context_of r) cid)) (\<lambda>c. do {
        (able, status) \<leftarrow> is_able_to_sync (cl_id c);
        if able then answer ()
        else State_Monad.return (Inl (failure ''sync_cluster'' ''sync'', UnableSynchronizeStatus (cl_id c) (ss_status_code status)))
      }))"

definition sync_cluster_job :: "connector \<Rightarrow> nat \<Rightarrow> cluster \<Rightarrow> err option op" where
  "sync_cluster_job connect k c = check cluster_db_lock (sync_cluster connect k c)"

record sync_status_response =
  ssr_id :: nat
  ssr_status :: string
  ssr_progress :: int
  ssr_completion :: "(string \<times> string) list"
  ssr_reasons :: "sync_message list"

definition idle_progress :: sync_cluster_status where
  "idle_progress = \<lparr>scs_completion = [], scs_progress = 0\<rparr>"

text \<open>
  The status of a cluster that has none is written through the nil pointer that came with the error.
  A status before or without a synchronisation forgets the progress of the last one.
\<close>

definition get_cluster_sync_status :: "rpc \<Rightarrow> nat \<Rightarrow> cluster_monitor \<Rightarrow> (sync_status_response reply \<times> cluster_monitor) op" where
  "get_cluster_sync_status r cid h = do {
     v \<leftarrow> admitted ''get_cluster_sync_status'' r
       (stage (failure ''get_sync_cluster_status'' ''validate_sync_cluster'')
         (transaction_with (validate_sync_cluster (context_of r) cid)) answer);
     case v of Inl e \<Rightarrow> State_Monad.return (Inl e, h)
     | Inr c \<Rightarrow> do {
         s \<leftarrow> get_status (cl_id c);
         State_Monad.return (case s of Inl _ \<Rightarrow> (Inl ([], NilDereference), h)
           | Inr st \<Rightarrow>
             (let h1 = (if ss_status_code st \<in> {cluster_sync_state_code_init, cluster_sync_state_code_unknown}
                        then h\<lparr>mon_sync_status := (mon_sync_status h)(cl_id c \<mapsto> idle_progress)\<rparr> else h);
                  p = (case mon_sync_status h1 (cl_id c) of None \<Rightarrow> idle_progress | Some p \<Rightarrow> p)
              in (Inr \<lparr>ssr_id = cl_id c, ssr_status = ss_status_code st, ssr_progress = scs_progress p,
                       ssr_completion = scs_completion p, ssr_reasons = ss_reasons st\<rparr>, h1)))
       }
   }"

text \<open>
  Services are excluded for every user whose request names the cluster, and the state is computed
  anew from what the handler remembers. The context is not validated.
\<close>

definition exception_leader :: "cluster_service_status \<Rightarrow> excluded_cluster \<Rightarrow> leader" where
  "exception_leader data x = \<lparr>ld_openstack = True, ld_given_excluded = Some (x\<lparr>xc_cluster_id := 0\<rparr>),
     ld_given_status = Some (data\<lparr>svc_is_new := False\<rparr>), ld_excluded = Map.empty, ld_clusters = Map.empty,
     ld_cfg = Map.empty, ld_is_running = Map.empty\<rparr>"

definition sync_exception_handler ::
    "connector \<Rightarrow> ((string \<Rightarrow> compute_status option) \<Rightarrow> string list) \<Rightarrow> rpc \<Rightarrow> cluster_monitor \<Rightarrow>
     sync_exception_request \<Rightarrow> unit reply op" where
  "sync_exception_handler connect order r h req =
     (let cid = sxr_cluster_id req in
      stage (failure ''sync_exception'' ''sync'') (transaction_with (validate_sync_cluster (context_of r) cid)) (\<lambda>c.
      stage (failure ''sync_exception'' ''set_sync_exception'') (sync_exception req) (\<lambda>x.
      stage_err (failure ''sync_exception'' ''publish'')
        (publish (PublishedDoc queue_cluster_service_exception (encode_excluded (x\<lparr>xc_cluster_id := cid\<rparr>)))) (do {
          s \<leftarrow> leader_check_cluster connect order (exception_leader (remembered h cid) x) cid;
          case fst s of None \<Rightarrow> State_Monad.return (Inl ([], NilDereference))
          | Some state \<Rightarrow>
              stage_err (failure ''sync_exception'' ''update'') (do {
                t \<leftarrow> now;
                transaction (exec (save_cluster (c\<lparr>cl_state_code := state, cl_updated_at := unix t\<rparr>)))
              }) (answer ())
        }))))"

section \<open>Clusters\<close>

definition get_cluster_list_request :: "rpc \<Rightarrow> cluster_list \<Rightarrow> (cluster_view list \<times> pagination) reply op" where
  "get_cluster_list_request r req =
     admitted ''get_cluster_list'' r
      (stage (failure ''get_cluster_list'' ''get'') (transaction_with (get_cluster_list_page (context_of r) req)) (\<lambda>(vs, p).
        if vs = [] then State_Monad.return (Inl (''cdm-center.manager.get_cluster_list.success-get'', NoContent))
        else answer (vs, p)))"

text \<open>
  \<open>host\<close> is the host of a URL without its port (\<open>url.Parse\<close> and \<open>net.SplitHostPort\<close>). The agent
  and the notice of a new cluster may fail without consequence; its synchronisation runs afterwards.
\<close>

definition add_cluster_request ::
    "externals \<Rightarrow> (string \<Rightarrow> err + string) \<Rightarrow> (connection_info \<Rightarrow> nat \<Rightarrow> err option) \<Rightarrow> (string \<Rightarrow> string) \<Rightarrow> rpc \<Rightarrow>
     cluster_message option \<Rightarrow> cluster_view reply op" where
  "add_cluster_request ext decrypt dial host r req =
     admitted ''add_cluster'' r
      (stage (failure ''add_cluster'' ''add'') (transaction_with (add_cluster ext decrypt dial (context_of r) req)) (\<lambda>v.
        ignoring (set_agent (cv_id v) \<lparr>ag_ip = host (cv_api_server_url v), ag_port = 61001, ag_version = ''1.0.0'',
           ag_installed_at = 0, ag_last_upgraded_at = 0\<rparr>)
       (ignoring (publish (PublishedDoc topic_notice_cluster_created (JInt (int (cv_id v)))))
        (answer v))))"

definition get_cluster_request :: "rpc \<Rightarrow> nat \<Rightarrow> cluster_view reply op" where
  "get_cluster_request r cid =
     admitted ''get_cluster'' r
      (stage (failure ''get_cluster'' ''get'') (transaction_with (get_cluster_view (context_of r) cid)) answer)"

definition update_cluster_request :: "rpc \<Rightarrow> nat \<Rightarrow> cluster_message option \<Rightarrow> cluster_view reply op" where
  "update_cluster_request r cid req =
     admitted ''update_cluster'' r
      (stage_err (failure ''update_cluster'' ''cluster_db_lock'') cluster_db_lock
      (stage (failure ''update_cluster'' ''update'') (transaction_with (update_cluster (context_of r) cid req)) (\<lambda>v.
        ignoring (publish (PublishedDoc topic_notice_cluster_updated (JInt (int cid)))) (answer v))))"

definition delete_cluster_request :: "(nat \<Rightarrow> nat \<Rightarrow> string option) \<Rightarrow> rpc \<Rightarrow> nat \<Rightarrow> unit reply op" where
  "delete_cluster_request deletable r cid =
     stage_err (failure ''delete_cluster'' ''cluster_db_lock'') cluster_db_lock
    (stage_err (failure ''delete_cluster'' ''delete'') (delete_cluster deletable (context_of r) cid)
      (ignoring (delete_exception cid)
      (ignoring (delete_config cid)
      (ignoring (publish (PublishedDoc queue_cluster_service_delete (JInt (int cid))))
      (ignoring (publish (PublishedDoc topic_notice_cluster_deleted (JInt (int cid)))) (answer ()))))))"

end
