(* ===== verification/ListResults.thy ===== *)
theory ListResults
  imports ClusterList
begin

text \<open>
  What the list of clusters shows: the name filter, the clusters a user sees, and the pages. The last
  section is about the text of a duration.
\<close>

section \<open>Runes\<close>

text \<open>The ends of a text that begin with one of its runes.\<close>

function rune_suffixes :: "string \<Rightarrow> string set" where
  "rune_suffixes s = insert s (if s = [] then {} else rune_suffixes (drop (rune_len s) s))"
  by pat_completeness auto
termination
  by (relation "measure length") (auto simp: drop_rune_shorter)

declare rune_suffixes.simps [simp del]

lemma rune_suffixes_Nil [simp]: "rune_suffixes [] = {[]}"
  by (subst rune_suffixes.simps) simp

lemma rune_suffixes_step: "s \<noteq> [] \<Longrightarrow> rune_suffixes s = insert s (rune_suffixes (drop (rune_len s) s))"
  by (subst rune_suffixes.simps) simp

lemma rune_suffix_end: "t \<in> rune_suffixes s \<Longrightarrow> \<exists>a. s = a @ t"
proof (induction s rule: rune_suffixes.induct)
  case (1 s)
  show ?case
  proof (cases "s = [] \<or> t = s")
    case True
    then show ?thesis using 1 by (cases "s = []") auto
  next
    case False
    then obtain a where "drop (rune_len s) s = a @ t" using 1 by (auto simp: rune_suffixes_step)
    then have "s = take (rune_len s) s @ a @ t" by (metis append_take_drop_id)
    then show ?thesis by (metis append_assoc)
  qed
qed

definition continuation :: "char \<Rightarrow> bool" where
  "continuation c = byte_in 0x80 0xBF c"

lemma second_continuation:
  "\<not> (case second_range b of (lo, hi) \<Rightarrow> byte_in lo hi c) \<or> continuation c"
  by (auto simp: second_range_def continuation_def byte_in_def)

text \<open>The bytes of a rune after its first are continuation bytes.\<close>

lemma rune_len_continuation: "0 < k \<Longrightarrow> k < rune_len s \<Longrightarrow> continuation (s ! k)"
proof -
  assume k: "0 < k" "k < rune_len s"
  have two: "byte_in lo hi c \<Longrightarrow> second_range b = (lo, hi) \<Longrightarrow> continuation c" for lo hi b c
    using second_continuation [where b = b and c = c] by auto
  show ?thesis
  proof (cases s)
    case Nil
    then show ?thesis using k by (simp add: rune_len.simps)
  next
    case (Cons c cs)
    obtain lo hi where lh: "second_range (of_char c) = (lo, hi)" by fastforce
    have cont: "byte_in 0x80 0xBF d \<Longrightarrow> continuation d" for d by (simp add: continuation_def)
    show ?thesis
      using k unfolding Cons
      by (auto simp: rune_len.simps Let_def lh nth_Cons' less_Suc_eq numeral_eq_Suc split: if_splits list.splits
          intro: two [OF _ lh] cont)
  qed
qed

lemma rune_suffix_at:
  "s = a @ x # r \<Longrightarrow> \<not> continuation x \<Longrightarrow> x # r \<in> rune_suffixes s"
proof (induction s arbitrary: a rule: rune_suffixes.induct)
  case (1 s)
  show ?case
  proof (cases "a = []")
    case True
    then show ?thesis using 1 by (simp add: rune_suffixes.simps [of "x # r"])
  next
    case False
    have s: "s \<noteq> []" using 1 by simp
    have "rune_len s \<le> length a"
    proof (rule ccontr)
      assume "\<not> ?thesis"
      then have "continuation (s ! length a)" using False by (intro rune_len_continuation) auto
      then show False using 1 by (simp add: nth_append)
    qed
    then have "drop (rune_len s) s = drop (rune_len s) a @ x # r" using 1 by simp
    from "1.IH" [OF s this] 1 s show ?thesis by (subst rune_suffixes.simps) simp
  qed
qed

section \<open>The name filter\<close>

definition wildcard :: "char \<Rightarrow> bool" where
  "wildcard c = (c = CHR ''%'' \<or> c = CHR ''_'' \<or> c = CHR 0x5C)"

lemma like_percent: "like (CHR ''%'' # ps) s \<longleftrightarrow> (\<exists>t \<in> rune_suffixes s. like ps t)"
proof (induction s rule: rune_suffixes.induct)
  case (1 s)
  have "like (CHR ''%'' # ps) s \<longleftrightarrow> like ps s \<or> (s \<noteq> [] \<and> like (CHR ''%'' # ps) (drop (rune_len s) s))"
    by (subst like.simps) simp
  then show ?case using 1 by (cases "s = []") (simp_all add: rune_suffixes_step)
qed

lemma like_rest: "like ''%'' s"
proof -
  have "[] \<in> rune_suffixes s"
    by (induction s rule: rune_suffixes.induct) (case_tac "s = []", simp_all add: rune_suffixes_step)
  moreover have "like [] []" by (subst like.simps) simp
  ultimately show ?thesis unfolding like_percent by blast
qed

lemma like_plain: "list_all (\<lambda>c. \<not> wildcard c) n \<Longrightarrow> like (n @ ps) s \<longleftrightarrow> (\<exists>t. s = n @ t \<and> like ps t)"
proof (induction n arbitrary: s)
  case Nil
  then show ?case by simp
next
  case (Cons c n)
  have "like ((c # n) @ ps) s \<longleftrightarrow> s \<noteq> [] \<and> hd s = c \<and> like (n @ ps) (tl s)"
    using Cons.prems by (subst like.simps) (simp add: wildcard_def)
  also have "\<dots> \<longleftrightarrow> (\<exists>t. s = (c # n) @ t \<and> like ps t)"
    using Cons by (cases s) auto
  finally show ?case .
qed

lemma like_substring:
  assumes "list_all (\<lambda>c. \<not> wildcard c) n" and "n \<noteq> []" and "\<not> continuation (hd n)"
  shows "like (CHR ''%'' # n @ ''%'') s \<longleftrightarrow> (\<exists>a b. s = a @ n @ b)"
proof -
  have "like (CHR ''%'' # n @ ''%'') s \<longleftrightarrow> (\<exists>u. n @ u \<in> rune_suffixes s)"
    unfolding like_percent [of "n @ _"] like_plain [OF assms(1)] by (auto simp: like_rest)
  also have "\<dots> \<longleftrightarrow> (\<exists>a b. s = a @ n @ b)"
  proof
    assume "\<exists>u. n @ u \<in> rune_suffixes s"
    then show "\<exists>a b. s = a @ n @ b" using rune_suffix_end by blast
  next
    assume "\<exists>a b. s = a @ n @ b"
    then obtain a b where "s = a @ n @ b" by blast
    moreover have n: "n @ b = hd n # (tl n @ b)" using assms(2) by (cases n) simp_all
    ultimately have "hd n # (tl n @ b) \<in> rune_suffixes s"
      using rune_suffix_at [OF _ assms(3), of s a "tl n @ b"] by metis
    then have "n @ b \<in> rune_suffixes s" using n by metis
    then show "\<exists>u. n @ u \<in> rune_suffixes s" ..
  qed
  finally show ?thesis .
qed

text \<open>Names as the validator accepts them: the underscore is the only wildcard they can have.\<close>

lemma high_byte: "0x80 \<le> (of_char c :: nat) \<Longrightarrow> c \<noteq> CHR ''%'' \<and> c \<noteq> CHR 0x5C"
  by auto

lemma valid_name_bytes:
  "valid_name n \<Longrightarrow> (\<forall>c \<in> set n. c \<noteq> CHR ''%'' \<and> c \<noteq> CHR 0x5C) \<and> (n \<noteq> [] \<longrightarrow> \<not> continuation (hd n))"
proof (induction n rule: valid_name.induct)
  case (1 n)
  have ascii: "of_char (CHR ''%'') = (37 :: nat)" "of_char (CHR 0x5C) = (92 :: nat)" by simp_all
  show ?case
  proof (cases "n = []")
    case False
    note step = "1.prems" [unfolded valid_name.simps [of n]]
    consider (one) "rune_len n = 1" "name_byte (hd n)" "valid_name (drop 1 n)"
      | (three) "rune_len n = 3" "valid_name (drop 3 n)"
      using step False by (auto split: if_splits)
    then show ?thesis
    proof cases
      case one
      have "hd n \<noteq> CHR ''%'' \<and> hd n \<noteq> CHR 0x5C \<and> \<not> continuation (hd n)"
        using one(2) by (auto simp: name_byte_def continuation_def byte_in_def Let_def)
      moreover have "\<forall>c \<in> set (drop 1 n). c \<noteq> CHR ''%'' \<and> c \<noteq> CHR 0x5C"
        using "1.IH"(1) False one by blast
      ultimately show ?thesis using False by (cases n) auto
    next
      case three
      have "\<forall>c \<in> set (drop 3 n). c \<noteq> CHR ''%'' \<and> c \<noteq> CHR 0x5C"
        using "1.IH"(2) False three by (metis numeral_eq_one_iff semiring_norm(86))
      moreover obtain x y z r where n: "n = x # y # z # r"
        using three(1) rune_len_bounds [OF False] by (cases n; cases "tl n"; cases "tl (tl n)") auto
      moreover have "continuation y \<and> continuation z"
        using rune_len_continuation [of 1 n] rune_len_continuation [of 2 n] three(1) n by simp
      moreover have "0xE0 \<le> (of_char x :: nat) \<and> (of_char x :: nat) \<le> 0xEF"
        using three(1) n by (auto simp: rune_len.simps Let_def split: if_splits list.splits prod.splits)
      ultimately have x: "0xE0 \<le> (of_char x :: nat)" and yz: "continuation y" "continuation z"
        and r: "\<forall>c \<in> set r. c \<noteq> CHR ''%'' \<and> c \<noteq> CHR 0x5C" and n': "n = x # y # z # r" by simp_all
      have "\<not> continuation x" using x by (simp add: continuation_def byte_in_def)
      moreover have "x \<noteq> CHR ''%'' \<and> x \<noteq> CHR 0x5C" "y \<noteq> CHR ''%'' \<and> y \<noteq> CHR 0x5C" "z \<noteq> CHR ''%'' \<and> z \<noteq> CHR 0x5C"
        using x yz by (auto intro!: high_byte simp: continuation_def byte_in_def)
      ultimately show ?thesis using r unfolding n' by simp
    qed
  qed simp
qed

text \<open>A search for clusters by a text that the validator accepts as a name and that has no
  underscore finds exactly the clusters whose name contains the text.\<close>

theorem name_filter_finds_substrings:
  assumes "acceptable_name n" and "CHR ''_'' \<notin> set n"
  shows "qu_where (apply_filter (NameLike n) q) c \<longleftrightarrow> qu_where q c \<and> (\<exists>a b. cl_name c = a @ n @ b)"
proof -
  have n: "valid_name n" "n \<noteq> []" using assms(1) by (simp_all add: acceptable_name_def)
  have "list_all (\<lambda>c. \<not> wildcard c) n"
    using valid_name_bytes [OF n(1)] assms(2) by (auto simp: list_all_iff wildcard_def)
  then show ?thesis
    using like_substring [of n] n valid_name_bytes [OF n(1)] by (simp add: where_also_def)
qed

theorem name_filter_finds_substrings_witness:
  "qu_where (apply_filter (NameLike ''b'') all_rows) (example_cluster\<lparr>cl_name := ''abc''\<rparr>)"
proof -
  have ok: "acceptable_name ''b''"
    by (simp add: acceptable_name_def rune_count.simps rune_len.simps second_range_def valid_name.simps name_byte_def)
  have "''abc'' = ''a'' @ ''b'' @ ''c''" by simp
  then have "\<exists>a b. ''abc'' = a @ ''b'' @ b" by blast
  then show ?thesis using name_filter_finds_substrings [OF ok, of all_rows] by (simp add: all_rows_def)
qed

text \<open>With an underscore, which names may have, the search finds more.\<close>

lemma underscore_matches_any: "like (CHR ''%'' # ''a_b'' @ ''%'') ''axb''"
  by (simp add: like.simps rune_len.simps second_range_def)

section \<open>The clusters a user sees\<close>

lemma given_Inr:
  "run_state (given m k) w = (Inr y, w') \<longleftrightarrow>
     (\<exists>x w1. run_state m w = (Inr x, w1) \<and> run_state (k x) w1 = (Inr y, w'))"
  by (auto simp: given_def split: prod.splits sum.splits)

lemma succeed_run [simp]: "run_state (succeed x) w = (Inr x, w)"
  by (simp add: succeed_def)

lemma failed_run [simp]: "run_state (failed_with e) w = (Inl e, w)"
  by (simp add: failed_with_def)

lemma gather_Inr:
  "run_state (gather f xs) w = (Inr ys, w') \<Longrightarrow>
   list_all2 (\<lambda>x y. \<exists>w1 w2. run_state (f x) w1 = (Inr y, w2)) xs ys"
proof (induction xs arbitrary: ys w)
  case Nil
  then show ?case by simp
next
  case (Cons x xs)
  then show ?case by (auto simp: given_Inr)
qed

fun filter_holds :: "cluster_filter \<Rightarrow> cluster \<Rightarrow> bool" where
  "filter_holds (TenantIs t) c = (cl_tenant_id c = t)"
| "filter_holds (OwnerGroupIs g) c = (cl_owner_group_id c = g)"
| "filter_holds (OwnerGroupIn gs) c = (cl_owner_group_id c \<in> set gs)"
| "filter_holds (TypeIs t) c = (cl_type_code c = t)"
| "filter_holds (NameLike n) c = like (CHR ''%'' # n @ ''%'') (cl_name c)"
| "filter_holds (Page _ _) c = True"

lemma fold_filters_where:
  "qu_where (fold apply_filter fs q) c \<longleftrightarrow> qu_where q c \<and> (\<forall>f \<in> set fs. filter_holds f c)"
proof (induction fs arbitrary: q)
  case Nil
  then show ?case by simp
next
  case (Cons f fs)
  then show ?case by (cases f) (auto simp: where_also_def page_also_def)
qed

lemma fold_filters_page:
  "(\<forall>f \<in> set fs. \<not> is_page f) \<Longrightarrow> qu_offset (fold apply_filter fs q) = qu_offset q \<and> qu_limit (fold apply_filter fs q) = qu_limit q"
proof (induction fs arbitrary: q)
  case Nil
  then show ?case by simp
next
  case (Cons f fs)
  then show ?case by (cases f) (auto simp: where_also_def is_page_def)
qed

lemma run_query_Inr:
  "run_state (run_query rows q) w = (Inr rs, w') \<Longrightarrow>
     rs = page_of (qu_offset q) (qu_limit q) (filter (qu_where q) (rows (w_db w)))"
  by (auto simp: run_query_def db_res_def find_rows_def statement_def pop_fault_def map_sum_def
      split: if_splits sum.splits prod.splits list.splits option.splits)

text \<open>The clusters a user may see in a list, and those the request asks for.\<close>

definition listable :: "request_context \<Rightarrow> cluster \<Rightarrow> bool" where
  "listable ctx c \<longleftrightarrow> cl_tenant_id c = ctx_tenant ctx \<and>
     (is_admin_user (ctx_user ctx) \<or> is_group_user (ctx_user ctx) (cl_owner_group_id c))"

definition asked_for :: "cluster_list \<Rightarrow> cluster \<Rightarrow> bool" where
  "asked_for req c \<longleftrightarrow> (clr_owner_group_id req = 0 \<or> cl_owner_group_id c = clr_owner_group_id req) \<and>
     (clr_type_code req = [] \<or> cl_type_code c = clr_type_code req) \<and>
     (clr_name req = [] \<or> like (CHR ''%'' # clr_name req @ ''%'') (cl_name c))"

lemma rune_count_zero: "rune_count n = 0 \<longleftrightarrow> n = []"
  by (subst rune_count.simps) simp

lemma ball_front: "(\<forall>f \<in> set ([a] @ xs @ ys). P f) \<longleftrightarrow> P a \<and> (\<forall>f \<in> set xs. P f) \<and> (\<forall>f \<in> set ys. P f)"
  by auto

lemma list_filters:
  assumes "make_cluster_filter ctx req = Some fs"
    and "validate_get_clusters ctx (cluster_list_request.truncate req) = None"
  shows "qu_where (fold apply_filter fs all_rows) c \<longleftrightarrow> listable ctx c \<and> asked_for req c"
    and "qu_offset (fold apply_filter fs all_rows) = clr_offset req"
    and "qu_limit (fold apply_filter fs all_rows) = clr_limit req"
proof -
  let ?ty = "if length (clr_type_code req) \<noteq> 0 then [TypeIs (clr_type_code req)] else []"
  let ?nm = "if rune_count (clr_name req) \<noteq> 0 then [NameLike (clr_name req)] else []"
  let ?pg = "if clr_offset req \<noteq> None \<or> clr_limit req \<noteq> None then [Page (clr_offset req) (clr_limit req)] else []"
  obtain own where fs: "fs = [TenantIs (ctx_tenant ctx)] @ own @ ?ty @ ?nm @ ?pg"
    and own: "(if clr_owner_group_id req \<noteq> 0 then Some [OwnerGroupIs (clr_owner_group_id req)]
            else if is_admin_user (ctx_user ctx) then Some []
            else map_option (\<lambda>u. [OwnerGroupIn (user_groups u)]) (ctx_user ctx)) = Some own"
    using assms(1) by (auto simp only: make_cluster_filter_def Let_def map_option_eq_Some)
  have named: "clr_owner_group_id req \<noteq> 0 \<Longrightarrow> is_admin_user (ctx_user ctx) \<or> is_group_user (ctx_user ctx) (clr_owner_group_id req)"
    using assms(2) by (auto simp: validate_get_clusters_def cluster_list_request.defs first_error_None fail_if_None)
  have owned: "(\<forall>f \<in> set own. filter_holds f c) \<longleftrightarrow>
      (is_admin_user (ctx_user ctx) \<or> is_group_user (ctx_user ctx) (cl_owner_group_id c)) \<and>
      (clr_owner_group_id req = 0 \<or> cl_owner_group_id c = clr_owner_group_id req)"
  proof (cases "clr_owner_group_id req = 0")
    case True
    then show ?thesis using own
      by (cases "ctx_user ctx") (auto simp: is_group_user_def list_ex_iff split: if_splits)
  next
    case False
    then show ?thesis using own named by auto
  qed
  have "(\<forall>f \<in> set ?ty. filter_holds f c) \<longleftrightarrow> clr_type_code req = [] \<or> cl_type_code c = clr_type_code req"
    "(\<forall>f \<in> set ?nm. filter_holds f c) \<longleftrightarrow> clr_name req = [] \<or> like (CHR ''%'' # clr_name req @ ''%'') (cl_name c)"
    "(\<forall>f \<in> set ?pg. filter_holds f c)"
    by (simp_all add: rune_count_zero disj_imp)
  then have "(\<forall>f \<in> set (?ty @ ?nm @ ?pg). filter_holds f c) \<longleftrightarrow>
      (clr_type_code req = [] \<or> cl_type_code c = clr_type_code req) \<and>
      (clr_name req = [] \<or> like (CHR ''%'' # clr_name req @ ''%'') (cl_name c))"
    unfolding set_append ball_Un by blast
  with owned have "(\<forall>f \<in> set fs. filter_holds f c) \<longleftrightarrow> listable ctx c \<and> asked_for req c"
    unfolding fs ball_front listable_def asked_for_def filter_holds.simps by blast
  then show "qu_where (fold apply_filter fs all_rows) c \<longleftrightarrow> listable ctx c \<and> asked_for req c"
    unfolding fold_filters_where by (simp add: all_rows_def)
  let ?front = "[TenantIs (ctx_tenant ctx)] @ own @ ?ty @ ?nm"
  have "\<forall>f \<in> set own. \<not> is_page f"
    using own by (auto simp: is_page_def split: if_splits)
  moreover have "\<forall>f \<in> set (?ty @ ?nm). \<not> is_page f" by (auto simp: is_page_def split: if_splits)
  ultimately have front: "\<forall>f \<in> set ?front. \<not> is_page f" unfolding ball_front by (simp only: is_page_def) simp
  have fs': "fs = ?front @ ?pg" unfolding fs by simp
  have none: "qu_offset (fold apply_filter ?front all_rows) = None" "qu_limit (fold apply_filter ?front all_rows) = None"
    using fold_filters_page [OF front, of all_rows] by (simp_all add: all_rows_def)
  show "qu_offset (fold apply_filter fs all_rows) = clr_offset req"
    unfolding fs' fold_append comp_apply using none by (cases "clr_offset req"; cases "clr_limit req") (simp_all add: page_also_def)
  show "qu_limit (fold apply_filter fs all_rows) = clr_limit req"
    unfolding fs' fold_append comp_apply using none by (cases "clr_offset req"; cases "clr_limit req") (simp_all add: page_also_def)
qed

text \<open>C8. Whatever fails, a list of clusters that is returned has exactly the clusters of the tenant that the
  request asks for and whose owner group the user belongs to, or all of them for an administrator, on the page it
  asks for, and it shows no credential and no address.\<close>

theorem cluster_list_exact:
  assumes "run_state (get_cluster_list_page ctx req) w = (Inr (vs, p), w')"
  shows "map (\<lambda>v. (cv_id v, cv_name v)) vs = map (\<lambda>c. (cl_id c, cl_name c))
      (page_of (clr_offset req) (clr_limit req) (filter (\<lambda>c. listable ctx c \<and> asked_for req c) (db_cluster (w_db w)))) \<and>
    list_all (\<lambda>v. cv_credential v = [] \<and> cv_api_server_url v = []) vs"
proof -
  have ok: "validate_get_clusters ctx (cluster_list_request.truncate req) = None"
    using assms by (auto simp: get_cluster_list_page_def split: option.splits)
  obtain fs where fs: "make_cluster_filter ctx req = Some fs"
    using assms ok by (auto simp: get_cluster_list_page_def split: option.splits)
  obtain cs w1 w2 where cs: "run_state (get_clusters fs) w = (Inr cs, w1)"
    and vs: "run_state (gather (list_entry ctx) cs) w1 = (Inr vs, w2)"
    using assms by (auto simp: get_cluster_list_page_def ok fs given_Inr)
  have where_eq: "qu_where (fold apply_filter fs all_rows) = (\<lambda>c. listable ctx c \<and> asked_for req c)"
    using list_filters(1) [OF fs ok] by blast
  obtain rs where rs: "cs = map listed_columns rs"
    "rs = page_of (clr_offset req) (clr_limit req) (filter (\<lambda>c. listable ctx c \<and> asked_for req c) (db_cluster (w_db w)))"
    using cs unfolding get_clusters_def given_Inr
    by (auto simp: list_filters(2,3) [OF fs ok] where_eq dest!: run_query_Inr)
  have "list_all2 (\<lambda>c v. (cv_id v, cv_name v) = (cl_id c, cl_name c) \<and> cv_credential v = cl_credential c \<and>
      cv_api_server_url v = cl_api_server_url c) cs vs"
    by (rule list_all2_mono [OF gather_Inr [OF vs]]) (auto simp: list_entry_def given_Inr cluster_from_model_def)
  then have "list_all2 (\<lambda>c v. (cv_id v, cv_name v) = (cl_id c, cl_name c) \<and> cv_credential v = [] \<and>
      cv_api_server_url v = []) rs vs"
    unfolding rs(1) list_all2_map1 by (simp add: listed_columns_def)
  then have "map (\<lambda>v. (cv_id v, cv_name v)) vs = map (\<lambda>c. (cl_id c, cl_name c)) rs \<and>
      list_all (\<lambda>v. cv_credential v = [] \<and> cv_api_server_url v = []) vs"
    by (induction rule: list_all2_induct) simp_all
  then show ?thesis unfolding rs(2) .
qed

definition example_listing :: cluster_list where
  "example_listing = \<lparr>clr_type_code = [], clr_name = [], clr_owner_group_id = 0, clr_limit = Some 10, clr_offset = None\<rparr>"

definition example_inventory :: world where
  "example_inventory = example_world\<lparr>w_db := empty_db\<lparr>db_groups := [example_group], db_cluster := [example_cluster]\<rparr>\<rparr>"

definition example_page :: "cluster_filter list" where
  "example_page = [TenantIs 1, OwnerGroupIn [7], Page None (Some 10)]"

lemma example_filters:
  "validate_get_clusters example_context (cluster_list_request.truncate example_listing) = None"
  "make_cluster_filter example_context example_listing = Some example_page"
  by (simp_all add: validate_get_clusters_def cluster_list_request.defs example_listing_def max_runes_def
      make_cluster_filter_def example_context_def is_admin_user_def example_page_def)

theorem cluster_list_exact_witness:
  "\<exists>vs p. fst (run_state (get_cluster_list_page example_context example_listing) example_inventory) = Inr (vs, p) \<and>
     map (\<lambda>v. (cv_id v, cv_name v)) vs = [(3, ''c'')]"
proof -
  have q: "quiet example_inventory" by (simp add: example_inventory_def example_world_def quiet_def)
  have group: "run_state (get_group example_context 7) example_inventory = (Inr example_group, example_inventory)"
    by (simp add: get_group_def quiet_run q) (simp add: example_inventory_def example_group_def example_context_def cond_nat_def)
  have entry: "\<exists>v. run_state (list_entry example_context (listed_columns example_cluster)) example_inventory = (Inr v, example_inventory)"
    by (simp add: list_entry_def given_def listed_columns_def example_cluster_def group)
  have rows: "run_state (get_clusters example_page) example_inventory
      = (Inr [listed_columns example_cluster], example_inventory)"
    by (simp add: example_page_def get_clusters_def given_def run_query_def where_also_def page_also_def page_fits_def all_rows_def
        db_res_def quiet_run q) (simp add: example_inventory_def example_cluster_def page_of_def)
  have pages: "\<exists>p. run_state (get_clusters_pagination example_page) example_inventory
      = (Inr p, example_inventory)"
    by (simp add: get_clusters_pagination_def given_def count_query_def db_res_def quiet_run q)
  obtain v p where run: "run_state (get_cluster_list_page example_context example_listing) example_inventory
      = (Inr ([v], p), example_inventory)"
    using entry pages by (auto simp: get_cluster_list_page_def example_filters given_def rows)
  have "listable example_context example_cluster" "asked_for example_listing example_cluster"
    by (simp_all add: listable_def asked_for_def example_context_def example_cluster_def example_listing_def is_group_user_def)
  then have "map (\<lambda>c. (cl_id c, cl_name c)) (page_of (clr_offset example_listing) (clr_limit example_listing)
      (filter (\<lambda>c. listable example_context c \<and> asked_for example_listing c) (db_cluster (w_db example_inventory)))) = [(3, ''c'')]"
    by (simp add: example_inventory_def page_of_def example_listing_def) (simp add: example_cluster_def)
  with cluster_list_exact [OF run] have "map (\<lambda>v. (cv_id v, cv_name v)) [v] = [(3, ''c'')]" by (metis (no_types, lifting))
  then show ?thesis using run by (metis fst_conv)
qed

section \<open>Pages\<close>

lemma concat_pages: "concat (map (\<lambda>i. take n (drop (i * n) xs)) [0..<k]) = take (k * n) xs"
proof (induction k)
  case 0
  then show ?case by simp
next
  case (Suc k)
  have "take (k * n) xs @ take n (drop (k * n) xs) = take (k * n + n) xs" by (simp add: take_add)
  then show ?case using Suc by (simp add: add.commute)
qed

lemma pages_cover:
  fixes m n :: nat
  assumes "0 < n"
  shows "m \<le> (m + n - 1) div n * n"
proof -
  have "(m + n - 1) mod n < n" using assms by simp
  then show ?thesis using div_mult_mod_eq [of "m + n - 1" n] by linarith
qed

lemma page_before:
  fixes i m n :: nat
  assumes "0 < n" and "i < (m + n - 1) div n"
  shows "i * n < m"
proof -
  have "Suc i * n \<le> (m + n - 1) div n * n" using assms(2) by (intro mult_right_mono) auto
  also have "\<dots> \<le> m + n - 1" by simp
  finally show ?thesis using assms(1) by simp
qed

lemma unat_total_page:
  fixes n limit :: "64 word"
  assumes "limit \<noteq> 0" and "unat limit < 2 ^ 63" and "unat n < 2 ^ 63"
  shows "unat ((n + limit - 1) div limit) = (unat n + unat limit - 1) div unat limit"
proof -
  have l: "0 < unat limit" using assms(1) by (simp add: unat_gt_0)
  have "unat (n + limit) = unat n + unat limit"
    using assms by (subst unat_add_lem [THEN iffD1]) simp_all
  moreover have "1 \<le> n + limit" using calculation l by (simp add: word_le_nat_alt)
  ultimately have "unat (n + limit - 1) = unat n + unat limit - 1" by (simp add: unat_sub)
  then show ?thesis by (simp add: unat_div)
qed

text \<open>Queries without failures.\<close>

lemma get_clusters_quiet:
  assumes "quiet w" and "page_fits (qu_offset (fold apply_filter fs all_rows))" and "page_fits (qu_limit (fold apply_filter fs all_rows))"
  shows "run_state (get_clusters fs) w = (Inr (map listed_columns (page_of (qu_offset (fold apply_filter fs all_rows))
     (qu_limit (fold apply_filter fs all_rows)) (filter (qu_where (fold apply_filter fs all_rows)) (db_cluster (w_db w))))), w)"
  using assms by (simp add: get_clusters_def given_def run_query_def db_res_def quiet_run)

lemma plain_filters:
  assumes "\<forall>f \<in> set fs. \<not> is_page f"
  shows "qu_offset (fold apply_filter fs all_rows) = None" and "qu_limit (fold apply_filter fs all_rows) = None"
    and "filter (\<lambda>f. \<not> is_page f) (fs @ [Page offset limit]) = fs"
    and "page_numbers (fs @ [Page offset limit]) = (case offset of None \<Rightarrow> 0 | Some v \<Rightarrow> v, case limit of None \<Rightarrow> 0 | Some v \<Rightarrow> v)"
  using fold_filters_page [OF assms, of all_rows] assms
  by (simp_all add: all_rows_def is_page_def page_numbers_def)

text \<open>A limit of zero is a page without clusters, and the pagination speaks of one page with all of them.\<close>

lemma limit_zero:
  assumes "quiet w" and "\<forall>f \<in> set fs. \<not> is_page f"
  shows "fst (run_state (get_clusters (fs @ [Page None (Some 0)])) w) = Inr []"
    and "pg_total_page (pagination_of 0 0 n) = 1"
  using get_clusters_quiet [OF assms(1), of "fs @ [Page None (Some 0)]"] plain_filters(1,2) [OF assms(2)]
  by (simp_all add: page_also_def page_fits_def page_of_def pagination_of_def)

section \<open>Durations\<close>

lemma div_mod_unit: "0 < c \<Longrightarrow> (a mod (b * c)) div b = a div b mod (c :: int)" if "0 < b" for a b c :: int
  using that by (simp add: zmod_zmult2_eq)

text \<open>The parts of a duration as it is printed, in minutes.\<close>

definition printed_minutes :: "duration_parts \<Rightarrow> int" where
  "printed_minutes p = 60 * (24 * (365 * dur_year p + 30 * dur_month p + dur_day p) + dur_hour p) + dur_minute p"

lemma duration_parts_days:
  assumes "0 \<le> d"
  shows "duration_parts d = \<lparr>dur_year = d div day div 365, dur_month = d div day mod 365 div 30,
     dur_day = d div day mod 30, dur_hour = d div hour mod 24, dur_minute = d div minute mod 60\<rparr>"
proof -
  have pos: "0 < day" "0 < hour" "0 < minute" by (simp_all add: day_def hour_def minute_def)
  have s: "a sdiv b = a div b" "a smod b = a mod b" if "0 \<le> a" "0 < b" for a b :: int
    using that by (simp_all add: signed_divide_int_def signed_modulo_int_def sgn_if minus_div_mult_eq_mod)
  have m: "0 \<le> d mod b" if "0 < b" for b using that by simp
  have u: "365 * day = day * 365" "30 * day = day * 30" "day = hour * 24" "hour = minute * 60" by (simp_all add: day_def hour_def)
  have month: "d mod (day * 365) div (day * 30) = d div day mod 365 div 30"
    using pos by (simp add: zdiv_zmult2_eq div_mod_unit)
  have "d smod (365 * day) sdiv (30 * day) = d div day mod 365 div 30" "d smod (30 * day) sdiv day = d div day mod 30"
    "d sdiv (365 * day) = d div day div 365"
    using assms pos by (simp_all add: s u(1,2) month div_mod_unit zdiv_zmult2_eq)
  moreover have "d smod day sdiv hour = d div hour mod 24" "d smod hour sdiv minute = d div minute mod 60"
    using assms pos div_mod_unit [of hour 24 d] div_mod_unit [of minute 60 d] by (simp_all add: s u(3,4) [symmetric] mult.commute)
  ultimately show ?thesis by (simp add: duration_parts_def)
qed

text \<open>The parts that are printed add up to the duration exactly when its years are a multiple of six: the days are
  counted in months of thirty days from the beginning of the duration, not from that of its last year.\<close>

theorem duration_parts_exact_iff:
  assumes "0 \<le> d"
  shows "printed_minutes (duration_parts d) = d div minute \<longleftrightarrow> 6 dvd dur_year (duration_parts d)"
proof -
  define D where "D = d div day"
  have h: "d div hour = D * 24 + d div hour mod 24"
    using zdiv_zmult2_eq [of 24 d hour] by (simp add: D_def day_def mult.commute [of 24 hour])
  have m: "d div minute = d div hour * 60 + d div minute mod 60"
    using zdiv_zmult2_eq [of 60 d minute] by (simp add: hour_def mult.commute [of 60 minute])
  have key: "60 * (24 * x + a) + b = c \<longleftrightarrow> x = D" if "c = 60 * (24 * D + a) + b" for x a b c
    using that by auto
  have sum: "y = 60 * (24 * D + a) + b" if "x = D * 24 + a" and "y = x * 60 + b" for x y a b
    using that by simp
  note c = sum [OF h m]
  have "printed_minutes (duration_parts d) = d div minute \<longleftrightarrow>
      365 * (D div 365) + 30 * (D mod 365 div 30) + D mod 30 = D"
    unfolding duration_parts_days [OF assms] printed_minutes_def duration_parts.simps D_def [symmetric]
    by (rule key) (rule c)
  also have "\<dots> \<longleftrightarrow> D mod 30 = D mod 365 mod 30"
  proof -
    have "365 * (D div 365) + 30 * (D mod 365 div 30) + D mod 365 mod 30 = D"
      by (metis add.assoc mult_div_mod_eq)
    then show ?thesis by (metis add_left_cancel)
  qed
  also have "\<dots> \<longleftrightarrow> 30 dvd 365 * (D div 365)"
    by (simp add: mod_eq_dvd_iff minus_mod_eq_mult_div)
  also have "\<dots> \<longleftrightarrow> 6 dvd D div 365"
  proof -
    have "30 * 1 dvd 5 * (73 * y) \<longleftrightarrow> 6 dvd y" for y :: int
    proof -
      have "30 dvd 5 * (73 * y) \<longleftrightarrow> 5 * 6 dvd 5 * (73 * y)" by simp
      also have "\<dots> \<longleftrightarrow> 6 dvd 73 * y" by (subst dvd_mult_cancel_left) simp
      also have "\<dots> \<longleftrightarrow> 6 dvd y"
      proof -
        have "73 * y = y + 12 * y * 6" by simp
        then show ?thesis by (simp only: dvd_add_times_triv_right_iff)
      qed
      finally show ?thesis by simp
    qed
    from this [of "D div 365"] show ?thesis by simp
  qed
  finally show ?thesis unfolding duration_parts_days [OF assms] D_def by simp
qed

theorem duration_parts_exact_iff_witness:
  "printed_minutes (duration_parts (365 * day)) \<noteq> 365 * day div minute"
proof -
  have "(0 :: int) \<le> 365 * day" by (simp add: day_def hour_def minute_def)
  moreover have "dur_year (duration_parts (365 * day)) = 1"
    by (simp add: duration_parts_days day_def hour_def minute_def)
  ultimately show ?thesis using duration_parts_exact_iff [of "365 * day"] by simp
qed

text \<open>A year is printed as one year and five days.\<close>

lemma one_year: "duration_parts (365 * day) = \<lparr>dur_year = 1, dur_month = 0, dur_day = 5, dur_hour = 0, dur_minute = 0\<rparr>"
  by (simp add: duration_parts_days day_def hour_def minute_def)

end
