(* ===== verification/HandlerResults.thy ===== *)
theory HandlerResults
  imports Handler ListResults
begin

text \<open>
  What the requests about clusters guarantee, and where they do something else than they mean to.
\<close>

section \<open>Who may ask\<close>

text \<open>The cluster exists, the request comes from its tenant, and from an administrator or a member of its group.\<close>

definition authorised :: "request_context \<Rightarrow> nat \<Rightarrow> database \<Rightarrow> bool" where
  "authorised ctx cid db \<longleftrightarrow> (\<exists>c \<in> set (db_cluster db). cl_id c = cid \<and>
     cond_nat (ctx_tenant ctx) (cl_tenant_id c) \<and> \<not> unauthorised ctx c)"

lemma stage_Inr:
  "run_state (stage code m k) w = (Inr y, w') \<longleftrightarrow>
     (\<exists>x w1. run_state m w = (Inr x, w1) \<and> run_state (k x) w1 = (Inr y, w'))"
  by (auto simp: stage_def split: prod.splits sum.splits)

lemma stage_err_Inr:
  "run_state (stage_err code m k) w = (Inr y, w') \<longleftrightarrow>
     (\<exists>w1. run_state m w = (None, w1) \<and> run_state k w1 = (Inr y, w'))"
  by (auto simp: stage_err_def split: prod.splits option.splits)

lemma after_Inr:
  "run_state (after m k) w = (Inr y, w') \<longleftrightarrow>
     (\<exists>w1. run_state m w = (None, w1) \<and> run_state k w1 = (Inr y, w'))"
  by (auto simp: after_def split: prod.splits option.splits)

lemma admitted_Inr:
  "run_state (admitted name r k) w = (Inr y, w') \<longleftrightarrow> validate_request r = None \<and> run_state k w = (Inr y, w')"
  by (auto simp: admitted_def stage_err_Inr)

lemma pop_fault_keeps_db [simp]: "w_db (snd (run_state pop_fault w)) = w_db w"
  by (simp add: pop_fault_def split: list.split)

lemma transaction_with_Inr:
  assumes "run_state (transaction_with m) w = (Inr x, w')"
  obtains w0 w1 where "w_db w0 = w_db w" "run_state m w0 = (Inr x, w1)"
proof -
  let ?w = "(snd (run_state pop_fault w))\<lparr>w_tx := Open\<rparr>"
  have "fst (run_state m ?w) = Inr x"
    using assms
    by (cases "run_state pop_fault w"; cases "run_state m ?w")
      (auto simp: transaction_with_def Let_def split: option.splits prod.splits sum.splits if_splits)
  then have "run_state m ?w = (Inr x, snd (run_state m ?w))" by (metis prod.collapse)
  with that [of ?w] show thesis by simp
qed

lemma get_cluster_Inr:
  "run_state (get_cluster ctx cid) w = (Inr c, w') \<Longrightarrow>
     c \<in> set (db_cluster (w_db w)) \<and> cond_nat cid (cl_id c) \<and> cond_nat (ctx_tenant ctx) (cl_tenant_id c) \<and> w_db w' = w_db w"
  by (auto simp: get_cluster_def first_row_def statement_def pop_fault_def
      split: prod.splits sum.splits option.splits err.splits if_splits list.splits dest!: least_by_Some)

lemma authorisedI:
  assumes "run_state (get_cluster ctx cid) w = (Inr c, w1)" and "cid \<noteq> 0" and "\<not> unauthorised ctx c"
  shows "authorised ctx cid (w_db w)"
  using get_cluster_Inr [OF assms(1)] assms(2,3) by (auto simp: authorised_def cond_nat_def)

lemma view_authorised:
  "run_state (get_cluster_view ctx cid) w = (Inr v, w') \<Longrightarrow> authorised ctx cid (w_db w)"
  by (auto simp: get_cluster_view_def given_Inr split: if_splits dest!: authorisedI)

lemma validate_sync_authorised:
  "run_state (validate_sync_cluster ctx cid) w = (Inr c, w') \<Longrightarrow> authorised ctx cid (w_db w)"
  by (auto simp: validate_sync_cluster_def given_Inr split: if_splits intro: authorisedI)

lemma update_authorised:
  assumes "run_state (update_cluster ctx cid req) w = (Inr v, w')"
  shows "authorised ctx cid (w_db w)"
proof -
  obtain w1 c w2 where v: "run_state (validating 2 (\<lambda>db fault. validate_update_cluster_request ctx db fault cid req)) w = (None, w1)"
    and c: "run_state (get_cluster ctx cid) w1 = (Inr c, w2)" "\<not> unauthorised ctx c"
    using assms by (auto simp: update_cluster_def after_Inr given_Inr split: if_splits)
  have "cid \<noteq> 0"
    using v by (auto simp: validating_def validate_update_cluster_request_def first_error_None required_id_def fail_if_None)
  moreover have "w_db w1 = w_db w" using v by (auto simp: validating_def)
  ultimately show ?thesis using authorisedI [OF c(1) _ c(2)] by simp
qed

lemma map_sum_Inr: "map_sum f g x = Inr y \<longleftrightarrow> (\<exists>z. x = Inr z \<and> y = g z)"
  by (cases x) auto

lemma delete_authorised:
  assumes "run_state (delete_cluster deletable ctx cid) w = (None, w')"
  shows "authorised ctx cid (w_db w)"
  using assms
  by (auto simp: delete_cluster_def fetch_def execute_def map_sum_Inr split: if_splits prod.splits sum.splits
      intro: authorisedI)

lemma in_transaction:
  assumes "run_state (transaction_with (m ctx)) w = (Inr x, w')"
    and "\<And>w x w'. run_state (m ctx) w = (Inr x, w') \<Longrightarrow> authorised ctx cid (w_db w)"
  shows "authorised ctx cid (w_db w)"
proof -
  obtain w0 w1 where "w_db w0 = w_db w" "run_state (m ctx) w0 = (Inr x, w1)"
    using transaction_with_Inr [OF assms(1)] by metis
  then show ?thesis using assms(2) by metis
qed

lemma cluster_db_lock_db: "run_state cluster_db_lock w = (e, w') \<Longrightarrow> w_db w' = w_db w"
  by (auto simp: cluster_db_lock_def pop_fault_def split: list.splits)

text \<open>C3. Whatever fails, a request to read, check, synchronise, exclude services of, change or delete a cluster
  succeeds only when the cluster exists in the tenant of the request (or the request names no tenant) and the user is
  an administrator or belongs to the cluster's owner group.\<close>

theorem cluster_requests_authorised:
  assumes "(\<exists>v. fst (run_state (get_cluster_request r cid) w) = Inr v) \<or>
     (\<exists>v. fst (run_state (check_cluster_request r h cid) w) = Inr v) \<or>
     (\<exists>v. fst (run_state (sync_cluster_request r cid) w) = Inr v) \<or>
     (\<exists>v. fst (fst (run_state (get_cluster_sync_status r cid h) w)) = Inr v) \<or>
     (\<exists>v. fst (run_state (sync_exception_handler connect order r h (req\<lparr>sxr_cluster_id := cid\<rparr>)) w) = Inr v) \<or>
     (\<exists>v. fst (run_state (update_cluster_request r cid m) w) = Inr v) \<or>
     (\<exists>v. fst (run_state (delete_cluster_request deletable r cid) w) = Inr v)"
  shows "authorised (context_of r) cid (w_db w)"
proof -
  have runs: "(\<exists>v. fst z = Inr v) \<longleftrightarrow> (\<exists>v w'. z = (Inr v, w'))" for z :: "('a + 'b) \<times> world"
    by (cases z) auto
  note tx = in_transaction [of "\<lambda>c. validate_sync_cluster c cid"] in_transaction [of "\<lambda>c. get_cluster_view c cid"]
    in_transaction [of "\<lambda>c. update_cluster c cid m"]
  consider "\<exists>v. fst (run_state (get_cluster_request r cid) w) = Inr v"
    | "\<exists>v. fst (run_state (check_cluster_request r h cid) w) = Inr v"
    | "\<exists>v. fst (run_state (sync_cluster_request r cid) w) = Inr v"
    | "\<exists>v. fst (fst (run_state (get_cluster_sync_status r cid h) w)) = Inr v"
    | "\<exists>v. fst (run_state (sync_exception_handler connect order r h (req\<lparr>sxr_cluster_id := cid\<rparr>)) w) = Inr v"
    | "\<exists>v. fst (run_state (update_cluster_request r cid m) w) = Inr v"
    | "\<exists>v. fst (run_state (delete_cluster_request deletable r cid) w) = Inr v"
    using assms by blast
  then show ?thesis
  proof cases
    case 1
    then show ?thesis unfolding runs get_cluster_request_def admitted_Inr stage_Inr
      by (auto intro: tx(2) view_authorised)
  next
    case 2
    then show ?thesis unfolding runs check_cluster_request_def admitted_Inr stage_Inr
      by (auto intro: tx(1) validate_sync_authorised)
  next
    case 3
    then show ?thesis unfolding runs sync_cluster_request_def admitted_Inr stage_Inr
      by (auto intro: tx(1) validate_sync_authorised)
  next
    case 4
    then obtain c w1 where "run_state (transaction_with (validate_sync_cluster (context_of r) cid)) w = (Inr c, w1)"
      unfolding get_cluster_sync_status_def
      by (auto simp: admitted_def stage_def stage_err_def split: prod.splits sum.splits option.splits)
    then show ?thesis by (auto intro: tx(1) validate_sync_authorised)
  next
    case 5
    then show ?thesis unfolding runs sync_exception_handler_def Let_def stage_Inr
      by (auto intro: tx(1) validate_sync_authorised)
  next
    case 6
    then show ?thesis unfolding runs update_cluster_request_def admitted_Inr stage_err_Inr stage_Inr
      by (auto dest!: cluster_db_lock_db dest: tx(3) update_authorised)
  next
    case 7
    then show ?thesis unfolding runs delete_cluster_request_def stage_err_Inr
      by (auto dest!: cluster_db_lock_db dest: delete_authorised)
  qed
qed

text \<open>A member of the owner group asks for a synchronisation.\<close>

definition example_rpc :: rpc where
  "example_rpc = \<lparr>rpc_user = Some \<lparr>user_roles = [''user''], user_groups = [7]\<rparr>, rpc_tenant = Some 1\<rparr>"

lemma example_context_of: "context_of example_rpc = example_context"
  by (simp add: example_rpc_def context_of_def example_context_def)

lemma transaction_quiet:
  assumes "quiet w" and "run_state m (w\<lparr>w_tx := Open\<rparr>) = (Inr x, w\<lparr>w_tx := Open, w_db := db\<rparr>)"
  shows "run_state (transaction_with m) w = (Inr x, w\<lparr>w_db := db\<rparr>)"
proof -
  have w: "w_faults w = []" "w_tx w = NoTx" using assms(1) by (auto simp: quiet_def)
  then have same: "w\<lparr>w_tx := NoTx, w_db := d\<rparr> = w\<lparr>w_db := d\<rparr>" for d by (cases w) simp
  show ?thesis using w assms(2) same by (simp add: transaction_with_def pop_fault_def Let_def)
qed

lemma open_queries:
  assumes "w_faults w = []" and "w_tx w = Open"
  shows "run_state (first_row key sel) w = (case least_by key (sel (w_db w)) of None \<Rightarrow> Inl RecordNotFound | Some x \<Rightarrow> Inr x, w)"
    and "run_state (exec q) w = (case q (w_db w) of Inl m \<Rightarrow> (Some (DriverError m), w\<lparr>w_tx := Aborted\<rparr>) | Inr db \<Rightarrow> (None, w\<lparr>w_db := db\<rparr>))"
  using assms by (simp_all add: first_row_def exec_def statement_open split: sum.split)

lemma validated_cluster:
  assumes "quiet w" and "cid \<noteq> 0" and "\<not> unauthorised ctx c"
    and "least_by cl_id (filter (\<lambda>c. cond_nat cid (cl_id c) \<and> cond_nat (ctx_tenant ctx) (cl_tenant_id c)) (db_cluster (w_db w))) = Some c"
  shows "run_state (transaction_with (validate_sync_cluster ctx cid)) w = (Inr c, w)"
proof -
  let ?w = "w\<lparr>w_tx := Open\<rparr>"
  have w: "w_faults ?w = []" "w_tx ?w = Open" using assms(1) by (simp_all add: quiet_def)
  have "run_state (get_cluster ctx cid) ?w = (Inr c, ?w)"
    unfolding get_cluster_def using assms(4) by (simp add: open_queries(1) [OF w])
  then have "run_state (validate_sync_cluster ctx cid) ?w = (Inr c, w\<lparr>w_tx := Open, w_db := w_db w\<rparr>)"
    using assms(2,3) by (simp add: validate_sync_cluster_def given_def)
  from transaction_quiet [OF assms(1) this] show ?thesis by simp
qed

lemma inventory_quiet: "quiet example_inventory"
  by (simp add: example_inventory_def example_world_def quiet_def)

lemma example_validated:
  "run_state (transaction_with (validate_sync_cluster (context_of example_rpc) 3)) example_inventory = (Inr example_cluster, example_inventory)"
proof (rule validated_cluster [OF inventory_quiet])
  show "\<not> unauthorised (context_of example_rpc) example_cluster"
    by (simp add: unauthorised_def example_context_of example_context_def example_cluster_def is_group_user_def)
  show "least_by cl_id (filter (\<lambda>c. cond_nat 3 (cl_id c) \<and> cond_nat (ctx_tenant (context_of example_rpc)) (cl_tenant_id c))
      (db_cluster (w_db example_inventory))) = Some example_cluster"
    by (simp add: example_context_of example_context_def cond_nat_def example_inventory_def) (simp add: example_cluster_def)
qed simp

theorem cluster_requests_authorised_witness: "authorised (context_of example_rpc) 3 (w_db example_inventory)"
proof -
  have "validate_request example_rpc = None" by (simp add: validate_request_def example_rpc_def)
  moreover have "run_state (is_able_to_sync 3) example_inventory = ((True, unknown_status), example_inventory)"
    by (simp add: is_able_to_sync_def get_status_def quiet_run inventory_quiet)
      (simp add: example_inventory_def example_world_def)
  ultimately have "fst (run_state (sync_cluster_request example_rpc 3) example_inventory) = Inr ()"
    using example_validated
    by (simp add: sync_cluster_request_def admitted_def stage_err_def stage_def)
      (simp add: example_cluster_def answer_def)
  then show ?thesis using cluster_requests_authorised [of example_rpc 3 example_inventory] by blast
qed

section \<open>The key of the process\<close>

definition client_key :: string where "client_key = ''cdm''"

text \<open>The decryption of credentials in the running process.\<close>

definition process_decrypt :: "(string \<Rightarrow> string option) \<Rightarrow> (string \<Rightarrow> string \<Rightarrow> string \<Rightarrow> string) \<Rightarrow> string \<Rightarrow> err + string" where
  "process_decrypt base64 cbc = decrypt_credential_password base64 cbc client_key"

lemma key_never_decrypts: "\<exists>e. process_decrypt base64 cbc p = Inl e"
  by (simp add: process_decrypt_def decrypt_credential_password_def decrypt_aes_cbc_def client_key_def split: option.split)

lemma transaction_fails:
  assumes "\<And>w. fst (run_state m w) \<noteq> None \<and> w_events (snd (run_state m w)) = w_events w"
  shows "\<exists>e. fst (run_state (transaction m) w) = Some e" and "w_db (snd (run_state (transaction m) w)) = w_db w"
    and "w_events (snd (run_state (transaction m) w)) = w_events w"
proof -
  obtain b w1 where b: "run_state pop_fault w = (b, w1)" by fastforce
  have w1: "w_db w1 = w_db w" "w_events w1 = w_events w"
    using b by (auto simp: pop_fault_def split: list.splits)
  obtain e w2 where m: "run_state m (w1\<lparr>w_tx := Open\<rparr>) = (Some e, w2)" "w_events w2 = w_events w1"
    using assms [of "w1\<lparr>w_tx := Open\<rparr>"] by (cases "run_state m (w1\<lparr>w_tx := Open\<rparr>)") auto
  show "\<exists>e. fst (run_state (transaction m) w) = Some e" "w_db (snd (run_state (transaction m) w)) = w_db w"
    "w_events (snd (run_state (transaction m) w)) = w_events w"
    by (cases b; simp add: transaction_def b m w1)+
qed

lemma transaction_with_fails:
  assumes "\<And>w. isl (fst (run_state m w)) \<and> w_events (snd (run_state m w)) = w_events w"
  shows "\<exists>e. fst (run_state (transaction_with m) w) = Inl e" and "w_db (snd (run_state (transaction_with m) w)) = w_db w"
    and "w_events (snd (run_state (transaction_with m) w)) = w_events w"
proof -
  obtain b w1 where b: "run_state pop_fault w = (b, w1)" by fastforce
  have w1: "w_db w1 = w_db w" "w_events w1 = w_events w"
    using b by (auto simp: pop_fault_def split: list.splits)
  obtain e w2 where m: "run_state m (w1\<lparr>w_tx := Open\<rparr>) = (Inl e, w2)" "w_events w2 = w_events w1"
    using assms [of "w1\<lparr>w_tx := Open\<rparr>"] by (cases "run_state m (w1\<lparr>w_tx := Open\<rparr>)") (auto simp: isl_def)
  show "\<exists>e. fst (run_state (transaction_with m) w) = Inl e" "w_db (snd (run_state (transaction_with m) w)) = w_db w"
    "w_events (snd (run_state (transaction_with m) w)) = w_events w"
    by (cases b; simp add: transaction_with_def b m w1)+
qed

lemma pop_fault_events: "w_events (snd (run_state pop_fault w)) = w_events w"
  by (simp add: pop_fault_def split: list.split)

lemma statement_events: "w_events (snd (run_state (statement q) w)) = w_events w"
  using pop_fault_events [of w]
  by (auto simp: statement_def split: prod.split sum.split option.split)

lemma statement_events_after: "run_state (statement q) w = (x, w') \<Longrightarrow> w_events w' = w_events w"
  using statement_events [of q w] by simp

lemma get_cluster_events: "w_events (snd (run_state (get_cluster ctx cid) w)) = w_events w"
  by (auto simp: get_cluster_def first_row_def split: prod.split dest!: statement_events_after)

text \<open>C26. With the key the handler sets, which has three bytes, no credential can be decrypted: whatever is asked and
  whatever works, no cluster is added and no credential is replaced, and the database stays as it is.\<close>

theorem no_cluster_is_ever_added:
  "(\<exists>e. fst (run_state (add_cluster_request ext (process_decrypt base64 cbc) dial host r m) w) = Inl e) \<and>
    w_db (snd (run_state (add_cluster_request ext (process_decrypt base64 cbc) dial host r m) w)) = w_db w \<and>
    w_events (snd (run_state (add_cluster_request ext (process_decrypt base64 cbc) dial host r m) w)) = w_events w \<and>
    (\<exists>e. fst (run_state (update_credential_request ext (process_decrypt base64 cbc) dial r cid new) w) = Inl e) \<and>
    w_db (snd (run_state (update_credential_request ext (process_decrypt base64 cbc) dial r cid new) w)) = w_db w"
proof -
  let ?decrypt = "process_decrypt base64 cbc"
  obtain f where never: "\<And>p. ?decrypt p = Inl (f p)" using key_never_decrypts [of base64 cbc] by metis
  have add: "isl (fst (run_state (add_cluster ext ?decrypt dial (context_of r) m) w)) \<and>
      w_events (snd (run_state (add_cluster ext ?decrypt dial (context_of r) m) w)) = w_events w" for w
    by (cases m) (simp_all add: add_cluster_def never)
  have cred: "fst (run_state (update_credential ext ?decrypt dial (context_of r) cid new) w) \<noteq> None \<and>
      w_events (snd (run_state (update_credential ext ?decrypt dial (context_of r) cid new) w)) = w_events w" for w
    using get_cluster_events [of "context_of r" cid w]
    by (auto simp: update_credential_def fetch_def never split: prod.splits sum.splits)
  note added = transaction_with_fails [OF add, of w]
  obtain e1 w1 where t1: "run_state (transaction_with (add_cluster ext ?decrypt dial (context_of r) m)) w = (Inl e1, w1)"
    using added(1) by (metis prod.collapse)
  note replaced = transaction_fails [OF cred, of w]
  obtain e2 w2 where t2: "run_state (transaction (update_credential ext ?decrypt dial (context_of r) cid new)) w = (Some e2, w2)"
    using replaced(1) by (metis prod.collapse)
  show ?thesis
    using added(2,3) replaced(2) t1 t2
    by (cases "validate_request r")
      (simp_all add: add_cluster_request_def update_credential_request_def admitted_def stage_err_def stage_def)
qed

section \<open>The status of a synchronisation\<close>

text \<open>Without failures, the request for the status of a synchronisation of a cluster the user may see
  dereferences a nil pointer exactly when no readable status is stored, as for a cluster that was never synchronised.\<close>

theorem sync_status_panics_iff:
  assumes "quiet w" and "validate_request r = None" and "cid \<noteq> 0" and "\<not> unauthorised (context_of r) c"
    and "least_by cl_id (filter (\<lambda>c. cond_nat cid (cl_id c) \<and> cond_nat (ctx_tenant (context_of r)) (cl_tenant_id c))
      (db_cluster (w_db w))) = Some c"
  shows "fst (fst (run_state (get_cluster_sync_status r cid h) w)) = Inl ([], NilDereference) \<longleftrightarrow>
    (case w_kv w (cluster_sync_status_key (cl_id c)) of Some (Doc j) \<Rightarrow> decode_status j = None | _ \<Rightarrow> True)"
proof -
  have found: "run_state (transaction_with (validate_sync_cluster (context_of r) cid)) w = (Inr c, w)"
    by (rule validated_cluster [OF assms(1,3,4,5)])
  have "run_state (get_cluster_sync_status r cid h) w = (case fst (run_state (get_status (cl_id c)) w) of
      Inl _ \<Rightarrow> (Inl ([], NilDereference), h)
    | Inr st \<Rightarrow> (let h1 = (if ss_status_code st \<in> {cluster_sync_state_code_init, cluster_sync_state_code_unknown}
                        then h\<lparr>mon_sync_status := (mon_sync_status h)(cl_id c \<mapsto> idle_progress)\<rparr> else h);
                  p = (case mon_sync_status h1 (cl_id c) of None \<Rightarrow> idle_progress | Some p \<Rightarrow> p)
              in (Inr \<lparr>ssr_id = cl_id c, ssr_status = ss_status_code st, ssr_progress = scs_progress p,
                       ssr_completion = scs_completion p, ssr_reasons = ss_reasons st\<rparr>, h1)), w)"
    by (simp add: get_cluster_sync_status_def admitted_def stage_err_def stage_def assms(2) found answer_def get_status_def
        load_quiet [OF assms(1)])
  then show ?thesis
    by (auto simp: get_status_def load_quiet [OF assms(1)] Let_def split: sum.splits option.splits document.splits)
qed

theorem sync_status_panics_iff_witness:
  "fst (fst (run_state (get_cluster_sync_status example_rpc 3
     \<lparr>mon_sync_status = \<lambda>_. None, mon_check_status = \<lambda>_. None, mon_updated_at = \<lambda>_. None\<rparr>) example_inventory)) =
   Inl ([], NilDereference)"
proof -
  have "validate_request example_rpc = None" by (simp add: validate_request_def example_rpc_def)
  moreover have "\<not> unauthorised (context_of example_rpc) example_cluster"
    by (simp add: unauthorised_def example_context_of example_context_def example_cluster_def is_group_user_def)
  moreover have "least_by cl_id (filter (\<lambda>c. cond_nat 3 (cl_id c) \<and> cond_nat (ctx_tenant (context_of example_rpc)) (cl_tenant_id c))
      (db_cluster (w_db example_inventory))) = Some example_cluster"
    by (simp add: example_context_of example_context_def cond_nat_def example_inventory_def) (simp add: example_cluster_def)
  moreover have "w_kv example_inventory k = None" for k by (simp add: example_inventory_def example_world_def)
  ultimately show ?thesis
    using sync_status_panics_iff [OF inventory_quiet, of example_rpc 3 example_cluster] by simp
qed

end
