(* ===== verification/MessageRows.thy ===== *)
theory MessageRows
  imports ResourceValidator
begin

text \<open>
  The rows of request messages: the methods \<open>Model\<close> of \<open>proto/cluster-manager.pb.util.go\<close>. They copy a
  message to the row through JSON. A field with its zero value is left out of the JSON, so it stays zero
  in the row, or nil where the row has a pointer; the row of a nil message is the zero row.
\<close>

definition optional :: "string \<Rightarrow> string option" where
  "optional s = (if s = [] then None else Some s)"

definition optional_nat :: "nat \<Rightarrow> nat option" where
  "optional_nat n = (if n = 0 then None else Some n)"

definition row_of :: "('m \<Rightarrow> 'r) \<Rightarrow> 'r \<Rightarrow> 'm option \<Rightarrow> 'r" where
  "row_of f zero m = (case m of None \<Rightarrow> zero | Some m \<Rightarrow> f m)"

section \<open>Tenants and storages\<close>

definition named_tenant :: "string \<Rightarrow> cluster_tenant" where
  "named_tenant u = \<lparr>tn_id = 0, tn_cluster_id = 0, tn_uuid = u, tn_name = [], tn_description = None, tn_enabled = False, tn_raw = None\<rparr>"

definition tenant_row :: "tenant_message option \<Rightarrow> cluster_tenant" where
  "tenant_row = row_of (\<lambda>m. (named_tenant (tm_uuid m))\<lparr>tn_id := tm_id m, tn_name := tm_name m,
     tn_description := optional (tm_description m), tn_enabled := tm_enabled m\<rparr>) (named_tenant [])"

definition quota_row :: "string \<times> int \<Rightarrow> cluster_quota" where
  "quota_row q = \<lparr>qt_cluster_tenant_id = 0, qt_key = fst q, qt_value = snd q\<rparr>"

definition named_storage :: "string \<Rightarrow> string \<Rightarrow> cluster_storage" where
  "named_storage u n = \<lparr>st_id = 0, st_cluster_id = 0, st_uuid = u, st_name = n, st_description = None, st_type_code = [],
     st_capacity_bytes = None, st_used_bytes = None, st_status = [], st_credential = None, st_raw = None\<rparr>"

definition storage_row :: "storage_message option \<Rightarrow> cluster_storage" where
  "storage_row = row_of (\<lambda>m. (named_storage (sm_uuid m) (sm_name m))\<lparr>st_id := sm_id m,
     st_cluster_id := getf (\<lambda>i. i) 0 (sm_cluster_id m), st_description := optional (sm_description m),
     st_type_code := sm_type_code m, st_capacity_bytes := optional_nat (sm_capacity_bytes m),
     st_used_bytes := optional_nat (sm_used_bytes m), st_status := sm_status m\<rparr>) (named_storage [] [])"

section \<open>Networks\<close>

definition named_network :: "string \<Rightarrow> cluster_network" where
  "named_network u = \<lparr>nw_id = 0, nw_cluster_tenant_id = 0, nw_uuid = u, nw_name = [], nw_description = None, nw_type_code = [],
     nw_external_flag = False, nw_state = [], nw_status = [], nw_raw = None\<rparr>"

definition network_row :: "network_message option \<Rightarrow> cluster_network" where
  "network_row = row_of (\<lambda>m. (named_network (nm_uuid m))\<lparr>nw_id := nm_id m, nw_name := nm_name m,
     nw_description := optional (nm_description m), nw_type_code := nm_type_code m, nw_external_flag := nm_external_flag m,
     nw_state := nm_state m, nw_status := nm_status m\<rparr>) (named_network [])"

definition named_subnet :: "string \<Rightarrow> cluster_subnet" where
  "named_subnet u = \<lparr>sn_id = 0, sn_cluster_network_id = 0, sn_uuid = u, sn_name = [], sn_description = None, sn_network_cidr = [],
     sn_dhcp_enabled = False, sn_gateway_enabled = False, sn_gateway_ip_address = None, sn_ipv6_address_mode_code = None,
     sn_ipv6_ra_mode_code = None, sn_raw = None\<rparr>"

definition subnet_row :: "subnet_message option \<Rightarrow> cluster_subnet" where
  "subnet_row = row_of (\<lambda>m. (named_subnet (snm_uuid m))\<lparr>sn_id := snm_id m, sn_name := snm_name m,
     sn_description := optional (snm_description m), sn_network_cidr := snm_network_cidr m, sn_dhcp_enabled := snm_dhcp_enabled m,
     sn_gateway_enabled := snm_gateway_enabled m, sn_gateway_ip_address := optional (snm_gateway_ip_address m),
     sn_ipv6_address_mode_code := optional (snm_ipv6_address_mode_code m),
     sn_ipv6_ra_mode_code := optional (snm_ipv6_ra_mode_code m)\<rparr>) (named_subnet [])"

definition dhcp_pool_row :: "dhcp_pool_message \<Rightarrow> cluster_subnet_dhcp_pool" where
  "dhcp_pool_row m = \<lparr>dp_id = 0, dp_cluster_subnet_id = 0, dp_start_ip_address = dpm_start_ip_address m,
     dp_end_ip_address = dpm_end_ip_address m\<rparr>"

definition nameserver_row :: "string \<Rightarrow> cluster_subnet_nameserver" where
  "nameserver_row n = \<lparr>ns_id = 0, ns_cluster_subnet_id = 0, ns_nameserver = n\<rparr>"

definition named_floating_ip :: "string \<Rightarrow> cluster_floating_ip" where
  "named_floating_ip u = \<lparr>fip_id = 0, fip_cluster_tenant_id = 0, fip_cluster_network_id = 0, fip_uuid = u, fip_description = None,
     fip_ip_address = [], fip_status = [], fip_raw = None\<rparr>"

definition floating_ip_row :: "floating_ip_message option \<Rightarrow> cluster_floating_ip" where
  "floating_ip_row = row_of (\<lambda>m. (named_floating_ip (fm_uuid m))\<lparr>fip_id := fm_id m, fip_description := optional (fm_description m),
     fip_ip_address := fm_ip_address m, fip_status := fm_status m\<rparr>) (named_floating_ip [])"

definition router_row :: "router_message option \<Rightarrow> cluster_router" where
  "router_row = row_of (\<lambda>m. \<lparr>rt_id = rm_id m, rt_cluster_tenant_id = 0, rt_uuid = rm_uuid m, rt_name = rm_name m,
     rt_description = optional (rm_description m), rt_state = rm_state m, rt_status = rm_status m, rt_raw = None\<rparr>)
     \<lparr>rt_id = 0, rt_cluster_tenant_id = 0, rt_uuid = [], rt_name = [], rt_description = None, rt_state = [], rt_status = [], rt_raw = None\<rparr>"

definition extra_route_row :: "extra_route_message \<Rightarrow> cluster_router_extra_route" where
  "extra_route_row m = \<lparr>er_id = 0, er_cluster_router_id = 0, er_destination = erm_destination m, er_nexthop = erm_nexthop m\<rparr>"

section \<open>Security groups\<close>

definition named_group :: "string \<Rightarrow> string \<Rightarrow> cluster_security_group" where
  "named_group u n = \<lparr>sg_id = 0, sg_cluster_tenant_id = 0, sg_uuid = u, sg_name = n, sg_description = None, sg_raw = None\<rparr>"

definition group_row :: "security_group_message option \<Rightarrow> cluster_security_group" where
  "group_row = row_of (\<lambda>m. (named_group (sgm_uuid m) (sgm_name m))\<lparr>sg_id := sgm_id m,
     sg_description := optional (sgm_description m)\<rparr>) (named_group [] [])"

definition zero_rule :: cluster_security_group_rule where
  "zero_rule = \<lparr>sgr_id = 0, sgr_security_group_id = 0, sgr_remote_security_group_id = None, sgr_uuid = [], sgr_description = None,
     sgr_network_cidr = None, sgr_direction = [], sgr_port_range_min = None, sgr_port_range_max = None, sgr_protocol = None,
     sgr_ether_type = 0, sgr_raw = None\<rparr>"

definition rule_row :: "security_group_rule_message option \<Rightarrow> cluster_security_group_rule" where
  "rule_row = row_of (\<lambda>m. zero_rule\<lparr>sgr_id := srm_id m, sgr_uuid := srm_uuid m, sgr_description := optional (srm_description m),
     sgr_network_cidr := optional (srm_network_cidr m), sgr_direction := srm_direction m,
     sgr_port_range_min := optional_nat (srm_port_range_min m), sgr_port_range_max := optional_nat (srm_port_range_max m),
     sgr_protocol := optional (srm_protocol m), sgr_ether_type := srm_ether_type m\<rparr>) zero_rule"

section \<open>Volumes\<close>

definition named_volume :: "string \<Rightarrow> cluster_volume" where
  "named_volume u = \<lparr>vol_id = 0, vol_cluster_tenant_id = 0, vol_cluster_storage_id = 0, vol_uuid = u, vol_name = [],
     vol_description = None, vol_size_bytes = 0, vol_multiattach = False, vol_bootable = False, vol_readonly = False,
     vol_status = [], vol_raw = None\<rparr>"

definition volume_row :: "volume_message option \<Rightarrow> cluster_volume" where
  "volume_row = row_of (\<lambda>m. (named_volume (vm_uuid m))\<lparr>vol_id := vm_id m, vol_name := vm_name m,
     vol_description := optional (vm_description m), vol_size_bytes := vm_size_bytes m, vol_multiattach := vm_multiattach m,
     vol_bootable := vm_bootable m, vol_readonly := vm_readonly m, vol_status := vm_status m\<rparr>) (named_volume [])"

definition zero_snapshot :: cluster_volume_snapshot where
  "zero_snapshot = \<lparr>vs_id = 0, vs_cluster_volume_id = 0, vs_uuid = [], vs_cluster_volume_group_snapshot_uuid = None, vs_name = [],
     vs_description = None, vs_size_bytes = 0, vs_status = [], vs_created_at = 0, vs_raw = None\<rparr>"

definition snapshot_row :: "snapshot_message option \<Rightarrow> cluster_volume_snapshot" where
  "snapshot_row = row_of (\<lambda>m. zero_snapshot\<lparr>vs_id := ssm_id m, vs_uuid := ssm_uuid m,
     vs_cluster_volume_group_snapshot_uuid := optional (ssm_cluster_volume_group_snapshot_uuid m), vs_name := ssm_name m,
     vs_description := optional (ssm_description m), vs_size_bytes := ssm_size_bytes m, vs_status := ssm_status m,
     vs_created_at := int (ssm_created_at m)\<rparr>) zero_snapshot"

section \<open>Compute resources\<close>

definition spec_row :: "spec_message option \<Rightarrow> cluster_instance_spec" where
  "spec_row = row_of (\<lambda>m. \<lparr>sp_id = spm_id m, sp_cluster_id = 0, sp_uuid = spm_uuid m, sp_name = spm_name m,
     sp_description = optional (spm_description m), sp_vcpu_total_cnt = spm_vcpu_total_cnt m, sp_mem_total_bytes = spm_mem_total_bytes m,
     sp_disk_total_bytes = spm_disk_total_bytes m, sp_swap_total_bytes = spm_swap_total_bytes m,
     sp_ephemeral_total_bytes = spm_ephemeral_total_bytes m\<rparr>)
     \<lparr>sp_id = 0, sp_cluster_id = 0, sp_uuid = [], sp_name = [], sp_description = None, sp_vcpu_total_cnt = 0, sp_mem_total_bytes = 0,
      sp_disk_total_bytes = 0, sp_swap_total_bytes = 0, sp_ephemeral_total_bytes = 0\<rparr>"

definition extra_spec_row :: "extra_spec_message \<Rightarrow> cluster_instance_extra_spec" where
  "extra_spec_row m = \<lparr>es_id = 0, es_cluster_instance_spec_id = 0, es_key = esm_key m, es_value = esm_value m\<rparr>"

definition keypair_row :: "keypair_message option \<Rightarrow> cluster_keypair" where
  "keypair_row = row_of (\<lambda>m. \<lparr>kp_id = kpm_id m, kp_cluster_id = 0, kp_name = kpm_name m, kp_fingerprint = kpm_fingerprint m,
     kp_public_key = kpm_public_key m, kp_type_code = kpm_type_code m\<rparr>)
     \<lparr>kp_id = 0, kp_cluster_id = 0, kp_name = [], kp_fingerprint = [], kp_public_key = [], kp_type_code = []\<rparr>"

definition named_instance :: "string \<Rightarrow> cluster_instance" where
  "named_instance u = \<lparr>ins_id = 0, ins_cluster_tenant_id = 0, ins_cluster_availability_zone_id = 0, ins_cluster_hypervisor_id = 0,
     ins_cluster_instance_spec_id = 0, ins_cluster_keypair_id = None, ins_uuid = u, ins_name = [], ins_description = None,
     ins_state = [], ins_status = [], ins_raw = None\<rparr>"

definition instance_row :: "instance_message option \<Rightarrow> cluster_instance" where
  "instance_row = row_of (\<lambda>m. (named_instance (im_uuid m))\<lparr>ins_id := im_id m, ins_name := im_name m,
     ins_description := optional (im_description m), ins_state := im_state m, ins_status := im_status m\<rparr>) (named_instance [])"

text \<open>
  The row of a hypervisor asks its cluster for its row, which reads the owner group of the cluster: without
  a cluster, and without a hypervisor, a nil pointer.
\<close>

definition hypervisor_row :: "hypervisor_message option \<Rightarrow> err + cluster_hypervisor" where
  "hypervisor_row h = (case h of None \<Rightarrow> Inl NilDereference
     | Some m \<Rightarrow> (case hm_cluster_id m of None \<Rightarrow> Inl NilDereference
       | Some c \<Rightarrow> Inr \<lparr>hv_id = hm_id m, hv_cluster_id = c, hv_cluster_availability_zone_id = 0, hv_uuid = hm_uuid m,
           hv_type_code = hm_type_code m, hv_hostname = hm_hostname m, hv_ip_address = hm_ip_address m,
           hv_vcpu_total_cnt = hm_vcpu_total_cnt m, hv_vcpu_used_cnt = hm_vcpu_used_cnt m,
           hv_mem_total_bytes = hm_mem_total_bytes m, hv_mem_used_bytes = hm_mem_used_bytes m,
           hv_disk_total_bytes = hm_disk_total_bytes m, hv_disk_used_bytes = hm_disk_used_bytes m,
           hv_state = hm_state m, hv_status = hm_status m, hv_ssh_port = optional_nat (hm_ssh_port m),
           hv_ssh_account = optional (hm_ssh_account m), hv_ssh_password = optional (hm_ssh_password m),
           hv_agent_port = optional_nat (hm_agent_port m), hv_agent_version = optional (hm_agent_version m),
           hv_agent_installed_at = (if hm_agent_installed_at m = 0 then None else Some (hm_agent_installed_at m)),
           hv_agent_last_upgraded_at = (if hm_agent_last_upgraded_at m = 0 then None else Some (hm_agent_last_upgraded_at m)),
           hv_raw = None\<rparr>))"

end
