(* ===== verification/Listing.thy ===== *)
theory Listing
  imports Handler
begin

text \<open>
  What the packages of the resources share (\<open>internal/*/\<close>): the lookup of one row, the filters of a
  list request (\<open>*_filter.go\<close>), the list with its pages, and the rows of a resource as a message
  shows them (\<open>proto/cluster-manager.pb.util.go\<close>).
\<close>

section \<open>One row\<close>

text \<open>The row with the least key, or the error of a missing one; every other error is wrapped.\<close>

definition look_up :: "err \<Rightarrow> ('r \<Rightarrow> nat) \<Rightarrow> (database \<Rightarrow> 'r list) \<Rightarrow> (err + 'r) op" where
  "look_up missing key rows = do {
     r \<leftarrow> first_row key rows;
     State_Monad.return (case r of Inl RecordNotFound \<Rightarrow> Inl missing | Inl e \<Rightarrow> Inl (unusable_database e) | Inr x \<Rightarrow> Inr x)
   }"

text \<open>Rows that belong to another one, and whether there is one at all.\<close>

definition related_rows :: "(database \<Rightarrow> 'r list) \<Rightarrow> (err + 'r list) op" where
  "related_rows rows = db_res (find_rows rows)"

definition exists_row :: "(database \<Rightarrow> 'r list) \<Rightarrow> (err + bool) op" where
  "exists_row rows = given (db_res (find_rows rows)) (\<lambda>rs. succeed (0 < length rs))"

text \<open>
  A loop that appends to a list of its caller until an error ends it: the list so far stays.
\<close>

fun gather_so_far :: "('a \<Rightarrow> (err + 'b) op) \<Rightarrow> 'a list \<Rightarrow> ('b list \<times> err option) op" where
  "gather_so_far f [] = State_Monad.return ([], None)"
| "gather_so_far f (x # xs) = do {
     r \<leftarrow> f x;
     case r of Inl e \<Rightarrow> State_Monad.return ([], Some e)
     | Inr y \<Rightarrow> do { (ys, e) \<leftarrow> gather_so_far f xs; State_Monad.return (y # ys, e) }
   }"

text \<open>The rows of two tables that belong together, in the order of the first one.\<close>

definition join_rows :: "('a \<Rightarrow> 'b \<Rightarrow> bool) \<Rightarrow> 'a list \<Rightarrow> 'b list \<Rightarrow> ('a \<times> 'b) list" where
  "join_rows on xs ys = concat (map (\<lambda>x. map (Pair x) (filter (on x) ys)) xs)"

text \<open>\<open>Find\<close> into a struct: the last row that matches, or the error of a missing one.\<close>

definition find_last :: "(database \<Rightarrow> 'r list) \<Rightarrow> (err + 'r) op" where
  "find_last rows = do {
     r \<leftarrow> find_rows rows;
     State_Monad.return (case r of Inl e \<Rightarrow> Inl e | Inr [] \<Rightarrow> Inl RecordNotFound | Inr (x # xs) \<Rightarrow> Inr (last (x # xs)))
   }"

section \<open>Lists\<close>

text \<open>
  A filter with a condition on the rows, one that asks the database for the rows it admits, and the
  page. The error of the second one is wrapped once or twice, which leaves its text. A filter on the
  rows of a table also selects the rows of a join (\<open>via\<close>).
\<close>

datatype 'r list_filter = Matching "'r \<Rightarrow> bool" | Related "(err + ('r \<Rightarrow> bool)) op"
  | Paged "64 word option" "64 word option"

fun via :: "('a \<Rightarrow> 'b) \<Rightarrow> 'b list_filter \<Rightarrow> 'a list_filter" where
  "via f (Matching c) = Matching (\<lambda>r. c (f r))"
| "via f (Related m) = Related (given m (\<lambda>c. succeed (\<lambda>r. c (f r))))"
| "via f (Paged offset limit) = Paged offset limit"

fun apply_list_filter :: "'r list_filter \<Rightarrow> 'r query \<Rightarrow> (err + 'r query) op" where
  "apply_list_filter (Matching c) q = succeed (where_also c q)"
| "apply_list_filter (Related m) q = given m (\<lambda>admitted. succeed (where_also admitted q))"
| "apply_list_filter (Paged offset limit) q = succeed (page_also offset limit q)"

fun apply_list_filters :: "'r list_filter list \<Rightarrow> 'r query \<Rightarrow> (err + 'r query) op" where
  "apply_list_filters [] q = succeed q"
| "apply_list_filters (f # fs) q = given (apply_list_filter f q) (apply_list_filters fs)"

definition list_rows :: "(database \<Rightarrow> 'r list) \<Rightarrow> 'r list_filter list \<Rightarrow> (err + 'r list) op" where
  "list_rows rows fs = given (apply_list_filters fs all_rows) (run_query rows)"

fun is_paged :: "'r list_filter \<Rightarrow> bool" where
  "is_paged (Paged _ _) = True"
| "is_paged _ = False"

fun page_of_filters :: "64 word \<times> 64 word \<Rightarrow> 'r list_filter list \<Rightarrow> 64 word \<times> 64 word" where
  "page_of_filters n [] = n"
| "page_of_filters n (Paged offset limit # fs) = page_of_filters
     (case offset of None \<Rightarrow> 0 | Some v \<Rightarrow> v, case limit of None \<Rightarrow> 0 | Some v \<Rightarrow> v) fs"
| "page_of_filters n (_ # fs) = page_of_filters n fs"

definition paginate :: "(database \<Rightarrow> 'r list) \<Rightarrow> 'r list_filter list \<Rightarrow> (err + pagination) op" where
  "paginate rows fs =
     given (apply_list_filters (filter (\<lambda>f. \<not> is_paged f) fs) all_rows) (\<lambda>q.
     given (count_query rows q) (\<lambda>n.
       succeed (pagination_of (fst (page_of_filters (0, 0) fs)) (snd (page_of_filters (0, 0) fs)) n)))"

text \<open>A filter that a request may leave out, and the page of a request.\<close>

definition filter_if :: "bool \<Rightarrow> 'r list_filter \<Rightarrow> 'r list_filter list" where
  "filter_if b f = (if b then [f] else [])"

type_synonym page = "64 word option \<times> 64 word option"

definition page_filter :: "page \<Rightarrow> 'r list_filter list" where
  "page_filter p = filter_if (fst p \<noteq> None \<or> snd p \<noteq> None) (Paged (fst p) (snd p))"

definition contains_text :: "string \<Rightarrow> string \<Rightarrow> bool" where
  "contains_text n s = like (CHR ''%'' # n @ ''%'') s"

section \<open>Rows in messages\<close>

text \<open>
  \<open>SetFromModel\<close> copies the columns that the message has, under their JSON names. The row of a
  message is the row with its other columns erased; a nil pointer reads as the zero value.
\<close>

definition shown_cluster :: "cluster \<Rightarrow> cluster" where
  "shown_cluster c = c\<lparr>cl_tenant_id := 0, cl_owner_group_id := 0\<rparr>"

definition shown_zone :: "cluster_availability_zone \<Rightarrow> cluster_availability_zone" where
  "shown_zone z = z\<lparr>az_cluster_id := 0, az_raw := None\<rparr>"

definition shown_hypervisor :: "cluster_hypervisor \<Rightarrow> cluster_hypervisor" where
  "shown_hypervisor h = h\<lparr>hv_cluster_id := 0, hv_cluster_availability_zone_id := 0, hv_raw := None\<rparr>"

definition shown_tenant :: "cluster_tenant \<Rightarrow> cluster_tenant" where
  "shown_tenant t = t\<lparr>tn_cluster_id := 0, tn_raw := None\<rparr>"

definition shown_quota :: "cluster_quota \<Rightarrow> cluster_quota" where
  "shown_quota q = q\<lparr>qt_cluster_tenant_id := 0\<rparr>"

definition shown_network :: "cluster_network \<Rightarrow> cluster_network" where
  "shown_network n = n\<lparr>nw_cluster_tenant_id := 0, nw_raw := None\<rparr>"

definition shown_floating_ip :: "cluster_floating_ip \<Rightarrow> cluster_floating_ip" where
  "shown_floating_ip f = f\<lparr>fip_cluster_tenant_id := 0, fip_cluster_network_id := 0, fip_raw := None\<rparr>"

definition shown_subnet :: "cluster_subnet \<Rightarrow> cluster_subnet" where
  "shown_subnet s = s\<lparr>sn_cluster_network_id := 0, sn_raw := None\<rparr>"

definition shown_nameserver :: "cluster_subnet_nameserver \<Rightarrow> cluster_subnet_nameserver" where
  "shown_nameserver n = n\<lparr>ns_cluster_subnet_id := 0\<rparr>"

definition shown_dhcp_pool :: "cluster_subnet_dhcp_pool \<Rightarrow> cluster_subnet_dhcp_pool" where
  "shown_dhcp_pool p = p\<lparr>dp_cluster_subnet_id := 0\<rparr>"

definition shown_router :: "cluster_router \<Rightarrow> cluster_router" where
  "shown_router r = r\<lparr>rt_cluster_tenant_id := 0, rt_raw := None\<rparr>"

definition shown_interface :: "cluster_network_routing_interface \<Rightarrow> cluster_network_routing_interface" where
  "shown_interface i = i\<lparr>ri_cluster_router_id := 0, ri_cluster_subnet_id := 0, ri_external_flag := False\<rparr>"

definition shown_extra_route :: "cluster_router_extra_route \<Rightarrow> cluster_router_extra_route" where
  "shown_extra_route r = r\<lparr>er_cluster_router_id := 0\<rparr>"

definition shown_security_group :: "cluster_security_group \<Rightarrow> cluster_security_group" where
  "shown_security_group g = g\<lparr>sg_cluster_tenant_id := 0, sg_raw := None\<rparr>"

definition shown_rule :: "cluster_security_group_rule \<Rightarrow> cluster_security_group_rule" where
  "shown_rule r = r\<lparr>sgr_security_group_id := 0, sgr_remote_security_group_id := None, sgr_raw := None\<rparr>"

definition shown_storage :: "cluster_storage \<Rightarrow> cluster_storage" where
  "shown_storage s = s\<lparr>st_cluster_id := 0, st_credential := None, st_raw := None\<rparr>"

definition shown_volume :: "cluster_volume \<Rightarrow> cluster_volume" where
  "shown_volume v = v\<lparr>vol_cluster_tenant_id := 0, vol_cluster_storage_id := 0, vol_raw := None\<rparr>"

definition shown_snapshot :: "cluster_volume_snapshot \<Rightarrow> cluster_volume_snapshot" where
  "shown_snapshot s = s\<lparr>vs_cluster_volume_id := 0, vs_raw := None\<rparr>"

definition shown_spec :: "cluster_instance_spec \<Rightarrow> cluster_instance_spec" where
  "shown_spec s = s\<lparr>sp_cluster_id := 0\<rparr>"

definition shown_extra_spec :: "cluster_instance_extra_spec \<Rightarrow> cluster_instance_extra_spec" where
  "shown_extra_spec e = e\<lparr>es_id := 0, es_cluster_instance_spec_id := 0\<rparr>"

definition shown_keypair :: "cluster_keypair \<Rightarrow> cluster_keypair" where
  "shown_keypair k = k\<lparr>kp_cluster_id := 0\<rparr>"

definition shown_instance :: "cluster_instance \<Rightarrow> cluster_instance" where
  "shown_instance i = i\<lparr>ins_cluster_tenant_id := 0, ins_cluster_availability_zone_id := 0, ins_cluster_hypervisor_id := 0,
     ins_cluster_instance_spec_id := 0, ins_cluster_keypair_id := None, ins_raw := None\<rparr>"

definition shown_instance_network :: "cluster_instance_network \<Rightarrow> cluster_instance_network" where
  "shown_instance_network n = n\<lparr>inw_cluster_instance_id := 0, inw_cluster_network_id := 0, inw_cluster_subnet_id := 0,
     inw_cluster_floating_ip_id := None\<rparr>"

definition shown_instance_volume :: "cluster_instance_volume \<Rightarrow> cluster_instance_volume" where
  "shown_instance_volume v = v\<lparr>ivol_cluster_instance_id := 0, ivol_cluster_volume_id := 0\<rparr>"

section \<open>The cluster of a resource\<close>

text \<open>The packages read four columns of the cluster, which has to be one of the tenant of the request.\<close>

definition brief_cluster :: "cluster \<Rightarrow> cluster" where
  "brief_cluster c = c\<lparr>cl_tenant_id := 0, cl_owner_group_id := 0, cl_api_server_url := [], cl_credential := [],
     cl_state_code := [], cl_created_at := 0, cl_updated_at := 0, cl_synchronized_at := 0\<rparr>"

definition get_brief_cluster :: "request_context \<Rightarrow> nat \<Rightarrow> (err + cluster) op" where
  "get_brief_cluster ctx cid = given (look_up (NotFoundCluster cid) cl_id (\<lambda>db.
       filter (\<lambda>c. cond_nat cid (cl_id c) \<and> cond_nat (ctx_tenant ctx) (cl_tenant_id c)) (db_cluster db)))
     (\<lambda>c. succeed (brief_cluster c))"

end
