(* ===== verification/InventoryQueries.thy ===== *)
theory InventoryQueries
  imports Listing ResourceValidator
begin

text \<open>
  The requests that read the inventory of a cluster beside its networks and instances: availability
  zones, hypervisors, tenants, storages, keypairs, floating IPs and instance specs (the packages of
  these names under \<open>internal/\<close>).
\<close>

text \<open>
  The fields of the list requests; a request reads those its message has. The check of a request
  makes one query, and another one when a list of hypervisors or networks names a zone or a tenant.
\<close>

record list_request = lookup_request +
  lq_cluster_network_id :: nat
  lq_cluster_instance_id :: nat
  lq_cluster_availability_zone_id :: nat
  lq_cluster_hypervisor_id :: nat
  lq_cluster_volume_id :: nat
  lq_cluster_storage_id :: nat
  lq_external_only :: bool
  lq_page :: page

definition checked :: "lookup_validator \<Rightarrow> request_context \<Rightarrow> lookup_request \<Rightarrow> err option op" where
  "checked v ctx req = validating 1 (\<lambda>db fault. v ctx db fault req)"

definition checked_list :: "lookup_validator \<Rightarrow> request_context \<Rightarrow> list_request \<Rightarrow> err option op" where
  "checked_list v ctx req = checked v ctx (lookup_request.truncate req)"

definition list_pages :: "list_request \<Rightarrow> 'r list_filter list" where
  "list_pages req = page_filter (lq_page req)"

section \<open>Availability zones\<close>

record zone_view =
  zv_zone :: cluster_availability_zone
  zv_cluster :: cluster
  zv_hypervisors :: "cluster_hypervisor list"

definition brief_hypervisor :: "cluster_hypervisor \<Rightarrow> cluster_hypervisor" where
  "brief_hypervisor h = \<lparr>hv_id = hv_id h, hv_cluster_id = 0, hv_cluster_availability_zone_id = 0, hv_uuid = [],
     hv_type_code = hv_type_code h, hv_hostname = hv_hostname h, hv_ip_address = hv_ip_address h,
     hv_vcpu_total_cnt = 0, hv_vcpu_used_cnt = 0, hv_mem_total_bytes = 0, hv_mem_used_bytes = 0,
     hv_disk_total_bytes = 0, hv_disk_used_bytes = 0, hv_state = [], hv_status = [], hv_ssh_port = None,
     hv_ssh_account = None, hv_ssh_password = None, hv_agent_port = None, hv_agent_version = None,
     hv_agent_installed_at = None, hv_agent_last_upgraded_at = None, hv_raw = None\<rparr>"

definition get_zone_view :: "request_context \<Rightarrow> lookup_request \<Rightarrow> (err + zone_view) op" where
  "get_zone_view ctx req =
     after (execute_err (checked validate_get_availability_zone_request ctx req))
      (execute (given (look_up (NotFoundClusterResource ''availability_zone'' (GNat (lr_resource_id req))) az_id
         (\<lambda>db. filter (\<lambda>z. cond_nat (lr_resource_id req) (az_id z) \<and> cond_nat (lr_cluster_id req) (az_cluster_id z))
           (db_availability_zone db))) (\<lambda>z.
       given (get_brief_cluster ctx (lr_cluster_id req)) (\<lambda>c.
       given (related_rows (\<lambda>db. filter (\<lambda>h. hv_cluster_availability_zone_id h = lr_resource_id req) (db_hypervisor db)))
         (\<lambda>hs. succeed \<lparr>zv_zone = shown_zone z, zv_cluster = c, zv_hypervisors = map brief_hypervisor hs\<rparr>)))))"

definition zones_of_cluster :: "nat \<Rightarrow> database \<Rightarrow> cluster_availability_zone list" where
  "zones_of_cluster cid db = filter (\<lambda>z. cond_nat cid (az_cluster_id z)) (db_availability_zone db)"

definition get_availability_zone_list ::
    "request_context \<Rightarrow> list_request \<Rightarrow> (err + zone_view list \<times> pagination) op" where
  "get_availability_zone_list ctx req =
     after (execute_err (checked_list validate_get_availability_zone_list_request ctx req))
      (given (execute (get_brief_cluster ctx (lr_cluster_id req))) (\<lambda>c.
       given (execute (list_rows (zones_of_cluster (lr_cluster_id req)) (list_pages req))) (\<lambda>zs.
       given (execute (paginate (zones_of_cluster (cl_id c)) (list_pages req))) (\<lambda>p.
         succeed (map (\<lambda>z. \<lparr>zv_zone = shown_zone z, zv_cluster = c, zv_hypervisors = []\<rparr>) zs, p)))))"

section \<open>Hypervisors\<close>

record hypervisor_view =
  hvv_hypervisor :: cluster_hypervisor
  hvv_cluster :: cluster
  hvv_zone :: cluster_availability_zone

definition hypervisor_records :: "nat \<Rightarrow> database \<Rightarrow> (cluster_hypervisor \<times> cluster_availability_zone) list" where
  "hypervisor_records cid db = join_rows (\<lambda>h z. az_id z = hv_cluster_availability_zone_id h)
     (filter (\<lambda>h. cond_nat cid (hv_cluster_id h)) (db_hypervisor db)) (db_availability_zone db)"

definition view_hypervisor :: "cluster \<Rightarrow> cluster_hypervisor \<times> cluster_availability_zone \<Rightarrow> hypervisor_view" where
  "view_hypervisor c r = \<lparr>hvv_hypervisor = shown_hypervisor (fst r), hvv_cluster = c, hvv_zone = shown_zone (snd r)\<rparr>"

definition get_hypervisor_view :: "request_context \<Rightarrow> lookup_request \<Rightarrow> (err + hypervisor_view) op" where
  "get_hypervisor_view ctx req =
     after (execute_err (checked validate_hypervisor_request ctx req))
      (execute (given (get_brief_cluster ctx (lr_cluster_id req)) (\<lambda>c.
       given (look_up (NotFoundClusterResource ''hypervisor'' (GNat (lr_resource_id req))) (\<lambda>r. hv_id (fst r))
         (\<lambda>db. filter (\<lambda>r. cond_nat (lr_resource_id req) (hv_id (fst r))) (hypervisor_records (lr_cluster_id req) db)))
         (\<lambda>r. succeed (view_hypervisor c r)))))"

definition make_hypervisor_filters :: "hypervisor_list_request \<Rightarrow> page \<Rightarrow> cluster_hypervisor list_filter list" where
  "make_hypervisor_filters req p =
     filter_if (hlr_hostname req \<noteq> []) (Matching (\<lambda>h. contains_text (hlr_hostname req) (hv_hostname h))) @
     filter_if (hlr_ip_address req \<noteq> []) (Matching (\<lambda>h. hv_ip_address h = hlr_ip_address req)) @
     filter_if (hlr_cluster_availability_zone_id req \<noteq> 0)
       (Matching (\<lambda>h. hv_cluster_availability_zone_id h = hlr_cluster_availability_zone_id req)) @
     page_filter p"

text \<open>The count reads the hypervisors alone, without their zones.\<close>

definition get_hypervisor_list ::
    "externals \<Rightarrow> request_context \<Rightarrow> hypervisor_list_request \<Rightarrow> page \<Rightarrow> (err + hypervisor_view list \<times> pagination) op" where
  "get_hypervisor_list ext ctx req p =
     (let cid = hlr_cluster_id req; fs = make_hypervisor_filters req p in
      after (execute_err (validating (if hlr_cluster_availability_zone_id req \<noteq> 0 then 2 else 1)
         (\<lambda>db fault. validate_hypervisor_list_request ext ctx db fault req)))
       (given (execute (given (get_brief_cluster ctx cid) (\<lambda>c.
          given (list_rows (hypervisor_records cid) (map (via fst) fs)) (\<lambda>rs. succeed (c, rs))))) (\<lambda>(c, rs).
        given (execute (paginate (\<lambda>db. filter (\<lambda>h. cond_nat (cl_id c) (hv_cluster_id h)) (db_hypervisor db)) fs)) (\<lambda>pg.
          succeed (map (view_hypervisor c) rs, pg)))))"

text \<open>
  The extra information a request changes. The update selects the columns that are not nil, and its
  own error is lost in \<open>GormTransaction\<close>, unless the transaction cannot begin.
\<close>

definition extra_hypervisor_info :: "hypervisor_message option \<Rightarrow> cluster_hypervisor \<Rightarrow> cluster_hypervisor" where
  "extra_hypervisor_info m h =
     (let keep = (\<lambda>old new. if new = [] then old else Some new);
          keep_time = (\<lambda>old new. if new = 0 then old else Some new)
      in h\<lparr>hv_ssh_port := Some (getf hm_ssh_port 0 m),
           hv_ssh_account := keep (hv_ssh_account h) (getf hm_ssh_account [] m),
           hv_ssh_password := keep (hv_ssh_password h) (getf hm_ssh_password [] m),
           hv_agent_port := Some (getf hm_agent_port 0 m),
           hv_agent_version := keep (hv_agent_version h) (getf hm_agent_version [] m),
           hv_agent_installed_at := keep_time (hv_agent_installed_at h) (getf hm_agent_installed_at 0 m),
           hv_agent_last_upgraded_at := keep_time (hv_agent_last_upgraded_at h) (getf hm_agent_last_upgraded_at 0 m)\<rparr>)"

definition update_hypervisor_rows :: "update_hypervisor_request \<Rightarrow> database \<Rightarrow> string + database" where
  "update_hypervisor_rows req db = Inr (db\<lparr>db_hypervisor := map (\<lambda>h.
     if cond_nat (uhr_cluster_id req) (hv_cluster_id h) \<and> cond_nat (uhr_cluster_hypervisor_id req) (hv_id h)
     then extra_hypervisor_info (uhr_hypervisor req) h else h) (db_hypervisor db)\<rparr>)"

definition update_hypervisor :: "request_context \<Rightarrow> update_hypervisor_request \<Rightarrow> (err + hypervisor_view) op" where
  "update_hypervisor ctx req =
     after (execute_err (validating 1 (\<lambda>db fault. validate_update_hypervisor_request ctx db (fault 0) req)))
      (after (State_Monad.return (check_valid_hypervisor (uhr_hypervisor req)))
      (after (db_err (gorm_transaction (exec (update_hypervisor_rows req))))
        (get_hypervisor_view ctx \<lparr>lr_cluster_id = uhr_cluster_id req, lr_resource_id = uhr_cluster_hypervisor_id req,
           lr_uuid = [], lr_name = [], lr_cluster_tenant_id = 0\<rparr>)))"

section \<open>Tenants\<close>

record tenant_view =
  tnv_tenant :: cluster_tenant
  tnv_cluster :: cluster
  tnv_quotas :: "cluster_quota list"

definition quotas_of_tenant :: "nat \<Rightarrow> (err + cluster_quota list) op" where
  "quotas_of_tenant t = related_rows (\<lambda>db. filter (\<lambda>q. qt_cluster_tenant_id q = t) (db_quota db))"

definition view_tenant :: "cluster \<Rightarrow> cluster_tenant \<Rightarrow> cluster_quota list \<Rightarrow> tenant_view" where
  "view_tenant c t qs = \<lparr>tnv_tenant = shown_tenant t, tnv_cluster = c, tnv_quotas = map shown_quota qs\<rparr>"

definition get_tenant_view :: "request_context \<Rightarrow> lookup_request \<Rightarrow> (err + tenant_view) op" where
  "get_tenant_view ctx req =
     after (execute_err (checked validate_get_cluster_tenant_request ctx req))
      (given (execute (given (get_brief_cluster ctx (lr_cluster_id req)) (\<lambda>c.
         given (look_up (NotFoundClusterTenant (lr_resource_id req)) tn_id
           (\<lambda>db. filter (\<lambda>t. cond_nat (lr_cluster_id req) (tn_cluster_id t) \<and> cond_nat (lr_resource_id req) (tn_id t))
             (db_tenant db))) (\<lambda>t. succeed (c, t))))) (\<lambda>(c, t).
       given (execute (quotas_of_tenant (tn_id t))) (\<lambda>qs. succeed (view_tenant c t qs))))"

definition get_tenant_by_uuid :: "request_context \<Rightarrow> lookup_request \<Rightarrow> (err + tenant_view) op" where
  "get_tenant_by_uuid ctx req =
     after (execute_err (checked validate_get_cluster_tenant_by_uuid_request ctx req))
      (given (execute (get_brief_cluster ctx (lr_cluster_id req))) (\<lambda>c.
       given (execute (given (look_up (NotFoundClusterResource ''tenant_by_uuid'' (GStr (lr_uuid req))) tn_id
           (\<lambda>db. filter (\<lambda>t. cond_nat (lr_cluster_id req) (tn_cluster_id t) \<and> cond_str (lr_uuid req) (tn_uuid t))
             (db_tenant db))) (\<lambda>t.
         given (quotas_of_tenant (tn_id t)) (\<lambda>qs. succeed (t, qs))))) (\<lambda>(t, qs).
       succeed (view_tenant c t qs))))"

definition tenants_of_cluster :: "nat \<Rightarrow> database \<Rightarrow> cluster_tenant list" where
  "tenants_of_cluster cid db = filter (\<lambda>t. cond_nat cid (tn_cluster_id t)) (db_tenant db)"

definition make_tenant_filters :: "list_request \<Rightarrow> cluster_tenant list_filter list" where
  "make_tenant_filters req = filter_if (length (lr_uuid req) \<noteq> 0) (Matching (\<lambda>t. tn_uuid t = lr_uuid req)) @ list_pages req"

definition brief_tenant :: "cluster_tenant \<Rightarrow> cluster_tenant" where
  "brief_tenant t = t\<lparr>tn_cluster_id := 0, tn_description := None, tn_raw := None\<rparr>"

definition get_tenant_list :: "request_context \<Rightarrow> list_request \<Rightarrow> (err + tenant_view list \<times> pagination) op" where
  "get_tenant_list ctx req =
     (let fs = make_tenant_filters req in
      after (execute_err (checked_list validate_cluster_tenant_list_request ctx req))
       (given (execute (get_brief_cluster ctx (lr_cluster_id req))) (\<lambda>c.
         execute (given (list_rows (tenants_of_cluster (lr_cluster_id req)) fs) (\<lambda>ts.
           given (gather (\<lambda>t. given (quotas_of_tenant (tn_id t)) (\<lambda>qs. succeed (view_tenant c (brief_tenant t) qs))) ts) (\<lambda>vs.
           given (paginate (tenants_of_cluster (cl_id c)) fs) (\<lambda>p. succeed (vs, p))))))))"

definition check_is_exist_tenant :: "request_context \<Rightarrow> lookup_request \<Rightarrow> (err + bool) op" where
  "check_is_exist_tenant ctx req =
     execute (after (checked validate_check_is_exist_tenant ctx req)
      (exists_row (\<lambda>db. filter (\<lambda>t. cond_nat (lr_cluster_id req) (tn_cluster_id t) \<and> cond_str (lr_name req) (tn_name t))
        (db_tenant db))))"

section \<open>Storages\<close>

record storage_view =
  stv_storage :: cluster_storage
  stv_cluster :: cluster

definition view_storage :: "cluster \<Rightarrow> cluster_storage \<Rightarrow> storage_view" where
  "view_storage c s = \<lparr>stv_storage = shown_storage s, stv_cluster = c\<rparr>"

definition get_storage_view :: "request_context \<Rightarrow> lookup_request \<Rightarrow> (err + storage_view) op" where
  "get_storage_view ctx req =
     execute (after (checked validate_storage_request ctx req)
      (given (get_brief_cluster ctx (lr_cluster_id req)) (\<lambda>c.
       given (look_up (NotFoundClusterResource ''storage'' (GNat (lr_resource_id req))) st_id
         (\<lambda>db. filter (\<lambda>s. cond_nat (lr_resource_id req) (st_id s) \<and> cond_nat (lr_cluster_id req) (st_cluster_id s))
           (db_storage db))) (\<lambda>s. succeed (view_storage c s)))))"

definition storages_of_cluster :: "nat \<Rightarrow> database \<Rightarrow> cluster_storage list" where
  "storages_of_cluster cid db = filter (\<lambda>s. cond_nat cid (st_cluster_id s)) (db_storage db)"

definition make_storage_filters :: "storage_list_request \<Rightarrow> page \<Rightarrow> cluster_storage list_filter list" where
  "make_storage_filters req p =
     filter_if (slr_type_code req \<noteq> []) (Matching (\<lambda>s. st_type_code s = slr_type_code req)) @
     filter_if (slr_name req \<noteq> []) (Matching (\<lambda>s. contains_text (slr_name req) (st_name s))) @
     page_filter p"

definition get_storage_list ::
    "request_context \<Rightarrow> storage_list_request \<Rightarrow> page \<Rightarrow> (err + storage_view list \<times> pagination) op" where
  "get_storage_list ctx req p =
     (let cid = slr_cluster_id req; fs = make_storage_filters req p in
      after (execute_err (validating 1 (\<lambda>db fault. validate_storage_list_request ctx db (fault 0) req)))
       (execute (given (get_brief_cluster ctx cid) (\<lambda>c.
          given (list_rows (storages_of_cluster cid) fs) (\<lambda>ss.
          given (paginate (storages_of_cluster cid) fs) (\<lambda>pg. succeed (map (view_storage c) ss, pg)))))))"

section \<open>Keypairs\<close>

record keypair_view =
  kpv_keypair :: cluster_keypair
  kpv_cluster :: cluster

text \<open>The messages without content, which a nil row leaves as they are.\<close>

definition zero_cluster :: cluster where
  "zero_cluster = \<lparr>cl_id = 0, cl_tenant_id = 0, cl_owner_group_id = 0, cl_name = [], cl_remarks = None, cl_type_code = [],
     cl_api_server_url = [], cl_credential = [], cl_state_code = [], cl_created_at = 0, cl_updated_at = 0, cl_synchronized_at = 0\<rparr>"

definition zero_keypair :: cluster_keypair where
  "zero_keypair = \<lparr>kp_id = 0, kp_cluster_id = 0, kp_name = [], kp_fingerprint = [], kp_public_key = [], kp_type_code = []\<rparr>"

definition find_keypair_row :: "nat \<Rightarrow> nat \<Rightarrow> (err + cluster_keypair) op" where
  "find_keypair_row cid kid = look_up (NotFoundClusterResource ''keypair'' (GNat kid)) kp_id
     (\<lambda>db. filter (\<lambda>k. cond_nat kid (kp_id k) \<and> cond_nat cid (kp_cluster_id k)) (db_keypair db))"

text \<open>The errors of both lookups are dropped.\<close>

definition get_keypair_view :: "request_context \<Rightarrow> lookup_request \<Rightarrow> (err + keypair_view) op" where
  "get_keypair_view ctx req =
     after (execute_err (checked validate_keypair_get_request ctx req)) (do {
       c \<leftarrow> get_brief_cluster ctx (lr_cluster_id req);
       case c of Inl _ \<Rightarrow> succeed \<lparr>kpv_keypair = zero_keypair, kpv_cluster = zero_cluster\<rparr>
       | Inr c \<Rightarrow> do {
           k \<leftarrow> find_keypair_row (lr_cluster_id req) (lr_resource_id req);
           succeed \<lparr>kpv_keypair = (case k of Inl _ \<Rightarrow> zero_keypair | Inr k \<Rightarrow> shown_keypair k), kpv_cluster = c\<rparr>
         }
     })"

definition check_is_exist_keypair :: "request_context \<Rightarrow> lookup_request \<Rightarrow> (err + bool) op" where
  "check_is_exist_keypair ctx req =
     execute (after (checked validate_check_is_exist_keypair ctx req)
      (exists_row (\<lambda>db. filter (\<lambda>k. cond_nat (lr_cluster_id req) (kp_cluster_id k) \<and> cond_str (lr_name req) (kp_name k))
        (db_keypair db))))"

section \<open>Floating IPs\<close>

record floating_ip_view =
  fiv_floating_ip :: cluster_floating_ip
  fiv_network :: cluster_network
  fiv_tenant :: cluster_tenant

definition floating_ip_records :: "nat \<Rightarrow> database \<Rightarrow> ((cluster_floating_ip \<times> cluster_network) \<times> cluster_tenant) list" where
  "floating_ip_records cid db =
     join_rows (\<lambda>r t. tn_id t = fip_cluster_tenant_id (fst r))
       (join_rows (\<lambda>f n. nw_id n = fip_cluster_network_id f) (db_floating_ip db) (db_network db))
       (filter (\<lambda>t. cond_nat cid (tn_cluster_id t)) (db_tenant db))"

definition get_floating_ip_view :: "request_context \<Rightarrow> lookup_request \<Rightarrow> (err + floating_ip_view) op" where
  "get_floating_ip_view ctx req =
     execute (after (checked validate_get_cluster_floating_ip ctx req)
      (given (look_up (NotFoundClusterResource ''floating_ip'' (GNat (lr_resource_id req))) (\<lambda>r. fip_id (fst (fst r)))
         (\<lambda>db. filter (\<lambda>r. cond_nat (lr_resource_id req) (fip_id (fst (fst r)))) (floating_ip_records (lr_cluster_id req) db)))
       (\<lambda>r. succeed \<lparr>fiv_floating_ip = shown_floating_ip (fst (fst r)), fiv_network = shown_network (snd (fst r)),
          fiv_tenant = shown_tenant (snd r)\<rparr>)))"

definition check_is_exist_floating_ip :: "request_context \<Rightarrow> lookup_request \<Rightarrow> (err + bool) op" where
  "check_is_exist_floating_ip ctx req =
     execute (after (checked validate_check_is_exist_floating_ip ctx req)
      (exists_row (\<lambda>db. filter (\<lambda>r. cond_str (lr_name req) (fip_ip_address (fst (fst r))))
        (floating_ip_records (lr_cluster_id req) db))))"

section \<open>Instance specs\<close>

record spec_view =
  spv_spec :: cluster_instance_spec
  spv_cluster :: cluster
  spv_extra_specs :: "cluster_instance_extra_spec list"

definition extra_specs_of :: "nat \<Rightarrow> (err + cluster_instance_extra_spec list) op" where
  "extra_specs_of i = related_rows (\<lambda>db. filter (\<lambda>e. es_cluster_instance_spec_id e = i) (db_extra_spec db))"

definition view_spec :: "cluster \<Rightarrow> cluster_instance_spec \<Rightarrow> cluster_instance_extra_spec list \<Rightarrow> spec_view" where
  "view_spec c s es = \<lparr>spv_spec = shown_spec s, spv_cluster = c, spv_extra_specs = map shown_extra_spec es\<rparr>"

definition get_spec :: "request_context \<Rightarrow> lookup_request \<Rightarrow> (err + spec_view) op" where
  "get_spec ctx req =
     given (execute (after (checked validate_instance_spec_request ctx req)
        (given (get_brief_cluster ctx (lr_cluster_id req)) (\<lambda>c.
         given (look_up (NotFoundClusterResource ''instance_spec'' (GNat (lr_resource_id req))) sp_id
           (\<lambda>db. filter (\<lambda>s. cond_nat (lr_cluster_id req) (sp_cluster_id s) \<and> cond_nat (lr_resource_id req) (sp_id s))
             (db_instance_spec db))) (\<lambda>s. succeed (c, s)))))) (\<lambda>(c, s).
      given (execute (extra_specs_of (sp_id s))) (\<lambda>es. succeed (view_spec c s es)))"

definition get_spec_by_uuid :: "request_context \<Rightarrow> lookup_request \<Rightarrow> (err + spec_view) op" where
  "get_spec_by_uuid ctx req =
     given (execute (after (checked validate_instance_spec_by_uuid_request ctx req)
        (get_brief_cluster ctx (lr_cluster_id req)))) (\<lambda>c.
      given (execute (given (look_up (NotFoundClusterResource ''instance_spec_by_uuid'' (GStr (lr_uuid req))) sp_id
           (\<lambda>db. filter (\<lambda>s. cond_nat (lr_cluster_id req) (sp_cluster_id s) \<and> cond_str (lr_uuid req) (sp_uuid s))
             (db_instance_spec db))) (\<lambda>s.
         given (extra_specs_of (sp_id s)) (\<lambda>es. succeed (s, es))))) (\<lambda>(s, es).
      succeed (view_spec c s es)))"

definition specs_of_cluster :: "nat \<Rightarrow> database \<Rightarrow> cluster_instance_spec list" where
  "specs_of_cluster cid db = filter (\<lambda>s. cond_nat cid (sp_cluster_id s)) (db_instance_spec db)"

definition make_spec_filters :: "list_request \<Rightarrow> cluster_instance_spec list_filter list" where
  "make_spec_filters req =
     filter_if (length (lr_uuid req) \<noteq> 0) (Matching (\<lambda>s. sp_uuid s = lr_uuid req)) @
     filter_if (rune_count (lr_name req) \<noteq> 0) (Matching (\<lambda>s. contains_text (lr_name req) (sp_name s))) @
     list_pages req"

text \<open>The list runs in the transaction of its caller.\<close>

definition get_spec_list :: "request_context \<Rightarrow> list_request \<Rightarrow> (err + spec_view list \<times> pagination) op" where
  "get_spec_list ctx req =
     (let cid = lr_cluster_id req; fs = make_spec_filters req in
      after (checked_list validate_instance_spec_list_request ctx req)
       (given (get_brief_cluster ctx cid) (\<lambda>c.
        given (list_rows (specs_of_cluster cid) fs) (\<lambda>ss.
        given (gather (\<lambda>s. given (extra_specs_of (sp_id s)) (\<lambda>es. succeed (view_spec c s es))) ss) (\<lambda>vs.
        given (paginate (specs_of_cluster cid) fs) (\<lambda>p. succeed (vs, p)))))))"

text \<open>
  Before a spec is looked up by its name, those whose name contains it are synchronised, so the answer
  is the one of the cluster. The errors of the synchronisation are dropped.
\<close>

definition check_is_exist_spec :: "connector \<Rightarrow> request_context \<Rightarrow> lookup_request \<Rightarrow> (err + bool) op" where
  "check_is_exist_spec connect ctx req =
     (let cid = lr_cluster_id req; name = lr_name req in
      execute (after (checked validate_check_is_exist_instance_spec ctx req)
       (given (list_rows (specs_of_cluster cid)
          (filter_if (rune_count name \<noteq> 0) (Matching (\<lambda>s. contains_text name (sp_name s))))) (\<lambda>ss.
        given (new_synchronizer connect cid) (\<lambda>s.
          ignoring (sync_cluster_instance_specs s ss)
           (exists_row (\<lambda>db. filter (\<lambda>s. cond_nat cid (sp_cluster_id s) \<and> cond_str name (sp_name s))
             (db_instance_spec db))))))))"

end
