(* ===== verification/NetworkQueries.thy ===== *)
theory NetworkQueries
  imports InventoryQueries
begin

text \<open>
  The requests that read networks, subnets, routers and security groups (\<open>internal/network\<close>,
  \<open>internal/router\<close>, \<open>internal/security_group\<close>). A row of these tables belongs to the cluster of its
  tenant, so every query joins the tenants.
\<close>

section \<open>Networks and subnets\<close>

record subnet_view =
  snv_subnet :: cluster_subnet
  snv_dhcp_pools :: "cluster_subnet_dhcp_pool list"
  snv_nameservers :: "cluster_subnet_nameserver list"

record network_view =
  nwv_network :: cluster_network
  nwv_cluster :: cluster
  nwv_tenant :: cluster_tenant
  nwv_subnets :: "subnet_view list"
  nwv_floating_ips :: "cluster_floating_ip list"

definition network_records :: "nat \<Rightarrow> database \<Rightarrow> (cluster_network \<times> cluster_tenant) list" where
  "network_records cid db = join_rows (\<lambda>n t. tn_id t = nw_cluster_tenant_id n) (db_network db)
     (filter (\<lambda>t. cond_nat cid (tn_cluster_id t)) (db_tenant db))"

definition pools_of_subnet :: "nat \<Rightarrow> (err + cluster_subnet_dhcp_pool list) op" where
  "pools_of_subnet i = related_rows (\<lambda>db. filter (\<lambda>p. dp_cluster_subnet_id p = i) (db_dhcp_pool db))"

definition nameservers_of_subnet :: "nat \<Rightarrow> (err + cluster_subnet_nameserver list) op" where
  "nameservers_of_subnet i = related_rows (\<lambda>db. filter (\<lambda>n. ns_cluster_subnet_id n = i) (db_nameserver db))"

definition view_subnet :: "cluster_subnet \<Rightarrow> (err + subnet_view) op" where
  "view_subnet s = given (pools_of_subnet (sn_id s)) (\<lambda>ps. given (nameservers_of_subnet (sn_id s)) (\<lambda>ns.
     succeed \<lparr>snv_subnet = shown_subnet s, snv_dhcp_pools = map shown_dhcp_pool ps, snv_nameservers = map shown_nameserver ns\<rparr>))"

definition view_network :: "cluster \<Rightarrow> cluster_network \<times> cluster_tenant \<Rightarrow> network_view" where
  "view_network c r = \<lparr>nwv_network = shown_network (fst r), nwv_cluster = c, nwv_tenant = shown_tenant (snd r),
     nwv_subnets = [], nwv_floating_ips = []\<rparr>"

definition network_details :: "cluster \<Rightarrow> cluster_network \<times> cluster_tenant \<Rightarrow> (err + network_view) op" where
  "network_details c r = execute
     (given (related_rows (\<lambda>db. filter (\<lambda>s. sn_cluster_network_id s = nw_id (fst r)) (db_subnet db))) (\<lambda>ss.
      given (gather view_subnet ss) (\<lambda>sv.
      given (related_rows (\<lambda>db. filter (\<lambda>f. fip_cluster_network_id f = nw_id (fst r)) (db_floating_ip db))) (\<lambda>fs.
        succeed ((view_network c r)\<lparr>nwv_subnets := sv, nwv_floating_ips := map shown_floating_ip fs\<rparr>)))))"

definition get_network_view :: "request_context \<Rightarrow> lookup_request \<Rightarrow> (err + network_view) op" where
  "get_network_view ctx req =
     given (execute (after (checked validate_network_request ctx req)
        (given (get_brief_cluster ctx (lr_cluster_id req)) (\<lambda>c.
         given (look_up (NotFoundClusterResource ''network'' (GNat (lr_resource_id req))) (\<lambda>r. nw_id (fst r))
           (\<lambda>db. filter (\<lambda>r. cond_nat (lr_resource_id req) (nw_id (fst r))) (network_records (lr_cluster_id req) db))) (\<lambda>r.
           succeed (c, r)))))) (\<lambda>(c, r). network_details c r)"

definition get_network_by_uuid :: "request_context \<Rightarrow> lookup_request \<Rightarrow> (err + network_view) op" where
  "get_network_by_uuid ctx req =
     given (execute (after (checked validate_network_by_uuid_request ctx req) (get_brief_cluster ctx (lr_cluster_id req)))) (\<lambda>c.
     given (execute (look_up (NotFoundClusterResource ''network_by_uuid'' (GStr (lr_uuid req))) (\<lambda>r. nw_id (fst r))
         (\<lambda>db. filter (\<lambda>r. cond_str (lr_uuid req) (nw_uuid (fst r))) (network_records (lr_cluster_id req) db)))) (\<lambda>r.
       network_details c r))"

definition make_network_filters :: "list_request \<Rightarrow> (cluster_network \<times> cluster_tenant) list_filter list" where
  "make_network_filters req =
     filter_if (lr_cluster_tenant_id req \<noteq> 0) (Matching (\<lambda>r. nw_cluster_tenant_id (fst r) = lr_cluster_tenant_id req)) @
     filter_if (length (lr_uuid req) \<noteq> 0) (Matching (\<lambda>r. nw_uuid (fst r) = lr_uuid req)) @
     filter_if (lq_external_only req) (Matching (\<lambda>r. nw_external_flag (fst r))) @
     list_pages req"

definition get_network_list :: "request_context \<Rightarrow> list_request \<Rightarrow> (err + network_view list \<times> pagination) op" where
  "get_network_list ctx req =
     (let cid = lr_cluster_id req; fs = make_network_filters req in
      after (execute_err (validating (if lr_cluster_tenant_id req \<noteq> 0 then 2 else 1)
         (\<lambda>db fault. validate_network_list_request ctx db fault (lookup_request.truncate req))))
       (given (execute (get_brief_cluster ctx cid)) (\<lambda>c.
        given (execute (list_rows (network_records cid) fs)) (\<lambda>rs.
        given (execute (paginate (network_records cid) fs)) (\<lambda>p. succeed (map (view_network c) rs, p))))))"

definition subnet_records :: "nat \<Rightarrow> database \<Rightarrow> (cluster_subnet \<times> cluster_network \<times> cluster_tenant) list" where
  "subnet_records cid db = join_rows (\<lambda>s r. nw_id (fst r) = sn_cluster_network_id s) (db_subnet db) (network_records cid db)"

definition get_subnet_view :: "request_context \<Rightarrow> lookup_request \<Rightarrow> (err + subnet_view) op" where
  "get_subnet_view ctx req =
     given (execute (after (checked validate_get_cluster_subnet_request ctx req)
        (look_up (NotFoundClusterResource ''subnet'' (GNat (lr_resource_id req))) (\<lambda>r. sn_id (fst r))
          (\<lambda>db. filter (\<lambda>r. cond_nat (lr_resource_id req) (sn_id (fst r))) (subnet_records (lr_cluster_id req) db))))) (\<lambda>r.
      execute (view_subnet (fst r)))"

section \<open>Routers\<close>

record interface_view =
  riv_interface :: cluster_network_routing_interface
  riv_network :: cluster_network
  riv_subnet :: subnet_view

record router_view =
  rtv_router :: cluster_router
  rtv_tenant :: cluster_tenant
  rtv_external :: "interface_view list"
  rtv_internal :: "interface_view list"
  rtv_extra_routes :: "cluster_router_extra_route list"

definition router_records :: "nat \<Rightarrow> database \<Rightarrow> (cluster_router \<times> cluster_tenant) list" where
  "router_records cid db = join_rows (\<lambda>r t. tn_id t = rt_cluster_tenant_id r) (db_router db)
     (filter (\<lambda>t. cond_nat cid (tn_cluster_id t)) (db_tenant db))"

definition interface_records ::
    "(cluster_network_routing_interface \<Rightarrow> bool) \<Rightarrow> database \<Rightarrow>
     ((cluster_network_routing_interface \<times> cluster_subnet) \<times> cluster_network) list" where
  "interface_records p db =
     join_rows (\<lambda>r n. nw_id n = sn_cluster_network_id (snd r))
       (join_rows (\<lambda>i s. sn_id s = ri_cluster_subnet_id i) (filter p (db_routing_interface db)) (db_subnet db))
       (db_network db)"

text \<open>An interface of a router, marked as external or not, with the name servers of its subnet.\<close>

definition view_interface ::
    "(cluster_network_routing_interface \<times> cluster_subnet) \<times> cluster_network \<Rightarrow> (err + bool \<times> interface_view) op" where
  "view_interface r = (case r of ((i, s), n) \<Rightarrow> given (nameservers_of_subnet (sn_id s)) (\<lambda>ns.
     succeed (ri_external_flag i, \<lparr>riv_interface = shown_interface i, riv_network = shown_network n,
       riv_subnet = \<lparr>snv_subnet = shown_subnet s, snv_dhcp_pools = [], snv_nameservers = map shown_nameserver ns\<rparr>\<rparr>)))"

text \<open>
  The details of a router. The second part of the result is the error that ended the loop; the view
  has what was found before it.
\<close>

definition router_interfaces :: "nat \<Rightarrow> ((bool \<times> interface_view) list \<times> err option) op" where
  "router_interfaces rid = do {
     rs \<leftarrow> related_rows (interface_records (\<lambda>i. cond_nat rid (ri_cluster_router_id i)));
     case rs of Inl e \<Rightarrow> State_Monad.return ([], Some e) | Inr rs \<Rightarrow> gather_so_far view_interface rs
   }"

definition router_details :: "cluster_router \<times> cluster_tenant \<Rightarrow> (router_view \<times> err option) op" where
  "router_details r = do {
     (ivs, e) \<leftarrow> router_interfaces (rt_id (fst r));
     let view = \<lparr>rtv_router = shown_router (fst r), rtv_tenant = shown_tenant (snd r),
       rtv_external = map snd (filter fst ivs), rtv_internal = map snd (filter (\<lambda>i. \<not> fst i) ivs), rtv_extra_routes = []\<rparr>;
     case e of Some x \<Rightarrow> State_Monad.return (view, Some x)
     | None \<Rightarrow> do {
         xs \<leftarrow> related_rows (\<lambda>db. filter (\<lambda>x. cond_nat (rt_id (fst r)) (er_cluster_router_id x)) (db_extra_route db));
         State_Monad.return (case xs of Inl x \<Rightarrow> (view, Some x)
           | Inr xs \<Rightarrow> (view\<lparr>rtv_extra_routes := map shown_extra_route xs\<rparr>, None))
       }
   }"

definition whole_router :: "cluster_router \<times> cluster_tenant \<Rightarrow> (err + router_view) op" where
  "whole_router r = do {
     (v, e) \<leftarrow> router_details r;
     State_Monad.return (case e of Some x \<Rightarrow> Inl x | None \<Rightarrow> Inr v)
   }"

text \<open>The lookup by identifier drops the errors of the details, the one by UUID returns them.\<close>

definition get_router_view :: "request_context \<Rightarrow> lookup_request \<Rightarrow> (err + router_view) op" where
  "get_router_view ctx req =
     given (execute (after (checked validate_get_cluster_router_request ctx req) (do {
        r \<leftarrow> find_last (\<lambda>db. filter (\<lambda>r. cond_nat (lr_resource_id req) (rt_id (fst r))) (router_records (lr_cluster_id req) db));
        State_Monad.return (case r of
            Inl RecordNotFound \<Rightarrow> Inl (NotFoundClusterResource ''router'' (GNat (lr_resource_id req)))
          | Inl e \<Rightarrow> Inl (unusable_database e) | Inr x \<Rightarrow> Inr x)
      }))) (\<lambda>r. do { (v, e) \<leftarrow> router_details r; succeed v })"

definition get_router_by_uuid :: "request_context \<Rightarrow> lookup_request \<Rightarrow> (err + router_view) op" where
  "get_router_by_uuid ctx req =
     after (execute_err (checked validate_get_cluster_router_by_uuid_request ctx req))
      (execute (given (look_up (NotFoundClusterResource ''router_by_uuid'' (GStr (lr_uuid req))) (\<lambda>r. rt_id (fst r))
          (\<lambda>db. filter (\<lambda>r. cond_str (lr_uuid req) (rt_uuid (fst r))) (router_records (lr_cluster_id req) db)))
        whole_router))"

text \<open>The routers with an interface in a network that is not external.\<close>

definition routers_of_network :: "nat \<Rightarrow> (err + (cluster_router \<times> cluster_tenant \<Rightarrow> bool)) op" where
  "routers_of_network nid =
     given (related_rows (\<lambda>db. filter (\<lambda>r. \<not> nw_external_flag (snd r) \<and> cond_nat nid (nw_id (snd r))) (interface_records (\<lambda>_. True) db)))
       (\<lambda>rs. succeed (\<lambda>r. rt_id (fst r) \<in> (\<lambda>i. ri_cluster_router_id (fst (fst i))) ` set rs))"

definition make_router_filters :: "list_request \<Rightarrow> (cluster_router \<times> cluster_tenant) list_filter list" where
  "make_router_filters req =
     filter_if (lr_cluster_tenant_id req \<noteq> 0) (Matching (\<lambda>r. rt_cluster_tenant_id (fst r) = lr_cluster_tenant_id req)) @
     filter_if (lq_cluster_network_id req \<noteq> 0) (Related (routers_of_network (lq_cluster_network_id req))) @
     filter_if (length (lr_uuid req) \<noteq> 0) (Matching (\<lambda>r. rt_uuid (fst r) = lr_uuid req)) @
     list_pages req"

text \<open>
  Only the check of the request can fail: every other error is dropped, and the answer has the routers
  that were complete before it, without pages.
\<close>

definition get_router_list :: "request_context \<Rightarrow> list_request \<Rightarrow> (err + router_view list \<times> pagination option) op" where
  "get_router_list ctx req =
     (let cid = lr_cluster_id req; fs = make_router_filters req in
      after (execute_err (checked_list validate_get_cluster_router_list_request ctx req)) (do {
        rs \<leftarrow> list_rows (router_records cid) fs;
        case rs of Inl _ \<Rightarrow> succeed ([], None)
        | Inr rs \<Rightarrow> do {
            (vs, e) \<leftarrow> gather_so_far whole_router rs;
            case e of Some _ \<Rightarrow> succeed (vs, None)
            | None \<Rightarrow> do {
                p \<leftarrow> paginate (router_records cid) fs;
                succeed (vs, case p of Inl _ \<Rightarrow> None | Inr p \<Rightarrow> Some p)
              }
          }
      }))"

definition validate_check_is_exist_routing_interface :: lookup_validator where
  "validate_check_is_exist_routing_interface ctx db fault req =
     first_error [
       required_id ''cluster_id'' (lr_cluster_id req),
       required ''cluster_routing_interface_address'' (lr_name req),
       map_option unwrap (is_cluster_owner ctx db (fault 0) (lr_cluster_id req))]"

definition check_is_exist_routing_interface :: "request_context \<Rightarrow> lookup_request \<Rightarrow> (err + bool) op" where
  "check_is_exist_routing_interface ctx req =
     after (checked validate_check_is_exist_routing_interface ctx req)
      (exists_row (\<lambda>db. join_rows (\<lambda>i r. rt_id (fst r) = ri_cluster_router_id i)
         (filter (\<lambda>i. cond_str (lr_name req) (ri_ip_address i)) (db_routing_interface db))
         (router_records (lr_cluster_id req) db)))"

section \<open>Security groups\<close>

record rule_view =
  rlv_rule :: cluster_security_group_rule
  rlv_remote :: "cluster_security_group option"

record group_of_rules_view =
  sgv_group :: cluster_security_group
  sgv_cluster :: cluster
  sgv_tenant :: cluster_tenant
  sgv_rules :: "rule_view list"

definition group_records :: "nat \<Rightarrow> database \<Rightarrow> (cluster_security_group \<times> cluster_tenant) list" where
  "group_records cid db = join_rows (\<lambda>g t. tn_id t = sg_cluster_tenant_id g) (db_security_group db)
     (filter (\<lambda>t. cond_nat cid (tn_cluster_id t)) (db_tenant db))"

definition view_group :: "cluster \<Rightarrow> cluster_security_group \<times> cluster_tenant \<Rightarrow> group_of_rules_view" where
  "view_group c r = \<lparr>sgv_group = shown_security_group (fst r), sgv_cluster = c, sgv_tenant = shown_tenant (snd r), sgv_rules = []\<rparr>"

definition rules_of_group :: "nat \<Rightarrow> (err + cluster_security_group_rule list) op" where
  "rules_of_group i = related_rows (\<lambda>db. filter (\<lambda>r. sgr_security_group_id r = i) (db_security_group_rule db))"

definition view_rule :: "cluster_security_group_rule \<Rightarrow> (err + rule_view) op" where
  "view_rule r = (case sgr_remote_security_group_id r of
       None \<Rightarrow> succeed \<lparr>rlv_rule = shown_rule r, rlv_remote = None\<rparr>
     | Some i \<Rightarrow> do {
         g \<leftarrow> find_last (\<lambda>db. filter (\<lambda>g. sg_id g = i) (db_security_group db));
         State_Monad.return (case g of Inl RecordNotFound \<Rightarrow> Inl (Unknown ''record not found'')
           | Inl e \<Rightarrow> Inl (unusable_database e)
           | Inr g \<Rightarrow> Inr \<lparr>rlv_rule = shown_rule r, rlv_remote = Some (shown_security_group g)\<rparr>)
       })"

definition group_details :: "cluster \<Rightarrow> cluster_security_group \<times> cluster_tenant \<Rightarrow> (err + group_of_rules_view) op" where
  "group_details c r = execute (given (rules_of_group (sg_id (fst r))) (\<lambda>rs.
     given (gather view_rule rs) (\<lambda>vs. succeed ((view_group c r)\<lparr>sgv_rules := vs\<rparr>))))"

definition get_security_group_view :: "request_context \<Rightarrow> lookup_request \<Rightarrow> (err + group_of_rules_view) op" where
  "get_security_group_view ctx req =
     given (execute (after (checked validate_get_security_group ctx req)
        (given (get_brief_cluster ctx (lr_cluster_id req)) (\<lambda>c.
         given (look_up (NotFoundClusterResource ''security_group'' (GNat (lr_resource_id req))) (\<lambda>r. sg_id (fst r))
           (\<lambda>db. filter (\<lambda>r. cond_nat (lr_resource_id req) (sg_id (fst r))) (group_records (lr_cluster_id req) db))) (\<lambda>r.
           succeed (c, r)))))) (\<lambda>(c, r). group_details c r)"

definition get_security_group_by_uuid :: "request_context \<Rightarrow> lookup_request \<Rightarrow> (err + group_of_rules_view) op" where
  "get_security_group_by_uuid ctx req =
     given (execute (after (checked validate_get_security_group_by_uuid ctx req) (get_brief_cluster ctx (lr_cluster_id req)))) (\<lambda>c.
     given (execute (look_up (NotFoundClusterResource ''security_group_by_uuid'' (GStr (lr_uuid req))) (\<lambda>r. sg_id (fst r))
         (\<lambda>db. filter (\<lambda>r. cond_str (lr_uuid req) (sg_uuid (fst r))) (group_records (lr_cluster_id req) db)))) (\<lambda>r.
       group_details c r))"

definition groups_of_instance :: "nat \<Rightarrow> (err + (cluster_security_group \<times> cluster_tenant \<Rightarrow> bool)) op" where
  "groups_of_instance iid =
     given (related_rows (\<lambda>db. filter (\<lambda>r. isg_cluster_instance_id r = iid) (db_instance_security_group db)))
       (\<lambda>rs. succeed (\<lambda>r. sg_id (fst r) \<in> isg_cluster_security_group_id ` set rs))"

definition make_group_filters :: "list_request \<Rightarrow> (cluster_security_group \<times> cluster_tenant) list_filter list" where
  "make_group_filters req =
     filter_if (lr_cluster_tenant_id req \<noteq> 0) (Matching (\<lambda>r. sg_cluster_tenant_id (fst r) = lr_cluster_tenant_id req)) @
     filter_if (lq_cluster_instance_id req \<noteq> 0) (Related (groups_of_instance (lq_cluster_instance_id req))) @
     filter_if (length (lr_uuid req) \<noteq> 0) (Matching (\<lambda>r. sg_uuid (fst r) = lr_uuid req)) @
     list_pages req"

definition get_security_group_list ::
    "request_context \<Rightarrow> list_request \<Rightarrow> (err + group_of_rules_view list \<times> pagination) op" where
  "get_security_group_list ctx req =
     (let cid = lr_cluster_id req; fs = make_group_filters req in
      after (execute_err (checked_list validate_get_security_group_list ctx req))
       (given (execute (given (get_brief_cluster ctx cid) (\<lambda>c.
          given (list_rows (group_records cid) fs) (\<lambda>rs. succeed (c, rs))))) (\<lambda>(c, rs).
        given (execute (paginate (group_records cid) fs)) (\<lambda>p. succeed (map (view_group c) rs, p)))))"

text \<open>The name is looked up in the tenant whose identifier is the one of the cluster.\<close>

definition check_is_exist_security_group :: "request_context \<Rightarrow> lookup_request \<Rightarrow> (err + bool) op" where
  "check_is_exist_security_group ctx req =
     execute (after (checked validate_check_is_exist_security_group ctx req)
      (exists_row (\<lambda>db. filter (\<lambda>g. cond_nat (lr_cluster_id req) (sg_cluster_tenant_id g) \<and> cond_str (lr_name req) (sg_name g))
        (db_security_group db))))"

end
