(* ===== verification/InstanceQueries.thy ===== *)
theory InstanceQueries
  imports NetworkQueries "HOL-Library.AList"
begin

text \<open>
  The requests that read volumes and instances (\<open>internal/volume\<close>, \<open>internal/instance\<close>), and the user
  script of an instance.
\<close>

section \<open>Volumes\<close>

record volume_view =
  vov_volume :: cluster_volume
  vov_cluster :: cluster
  vov_tenant :: cluster_tenant
  vov_storage :: cluster_storage
  vov_snapshots :: "cluster_volume_snapshot list"

type_synonym volume_record = "(cluster_volume \<times> cluster_tenant) \<times> cluster_storage"

definition volume_tenant_records :: "nat \<Rightarrow> database \<Rightarrow> (cluster_volume \<times> cluster_tenant) list" where
  "volume_tenant_records cid db = join_rows (\<lambda>v t. tn_id t = vol_cluster_tenant_id v) (db_volume db)
     (filter (\<lambda>t. cond_nat cid (tn_cluster_id t)) (db_tenant db))"

definition volume_records :: "nat \<Rightarrow> database \<Rightarrow> volume_record list" where
  "volume_records cid db = join_rows (\<lambda>r s. st_id s = vol_cluster_storage_id (fst r)) (volume_tenant_records cid db)
     (filter (\<lambda>s. cond_nat cid (st_cluster_id s)) (db_storage db))"

definition snapshots_of_volume :: "nat \<Rightarrow> (err + cluster_volume_snapshot list) op" where
  "snapshots_of_volume i = related_rows (\<lambda>db. filter (\<lambda>s. vs_cluster_volume_id s = i) (db_volume_snapshot db))"

definition volume_details :: "cluster \<Rightarrow> volume_record \<Rightarrow> (err + volume_view) op" where
  "volume_details c r = given (execute (snapshots_of_volume (vol_id (fst (fst r))))) (\<lambda>ss.
     succeed \<lparr>vov_volume = shown_volume (fst (fst r)), vov_cluster = c, vov_tenant = shown_tenant (snd (fst r)),
       vov_storage = shown_storage (snd r), vov_snapshots = map shown_snapshot ss\<rparr>)"

definition volume_request_of :: "lookup_request \<Rightarrow> volume_request" where
  "volume_request_of req = \<lparr>vr_cluster_id = lr_cluster_id req, vr_cluster_volume_id = lr_resource_id req,
     vr_uuid = lr_uuid req, vr_name = lr_name req\<rparr>"

definition checked_volume ::
    "(request_context \<Rightarrow> database \<Rightarrow> string option \<Rightarrow> volume_request \<Rightarrow> err option) \<Rightarrow> request_context \<Rightarrow>
     lookup_request \<Rightarrow> err option op" where
  "checked_volume v ctx req = validating 1 (\<lambda>db fault. v ctx db (fault 0) (volume_request_of req))"

definition get_volume_view :: "request_context \<Rightarrow> lookup_request \<Rightarrow> (err + volume_view) op" where
  "get_volume_view ctx req =
     given (execute (after (checked_volume validate_volume_request ctx req)
        (given (get_brief_cluster ctx (lr_cluster_id req)) (\<lambda>c.
         given (look_up (NotFoundClusterResource ''volume'' (GNat (lr_resource_id req))) (\<lambda>r. vol_id (fst (fst r)))
           (\<lambda>db. filter (\<lambda>r. cond_nat (lr_resource_id req) (vol_id (fst (fst r)))) (volume_records (lr_cluster_id req) db))) (\<lambda>r.
           succeed (c, r)))))) (\<lambda>(c, r). volume_details c r)"

definition get_volume_by_uuid :: "request_context \<Rightarrow> lookup_request \<Rightarrow> (err + volume_view) op" where
  "get_volume_by_uuid ctx req =
     given (execute (after (checked_volume validate_volume_by_uuid_request ctx req) (get_brief_cluster ctx (lr_cluster_id req)))) (\<lambda>c.
     given (execute (look_up (NotFoundClusterResource ''volume_by_uuid'' (GStr (lr_uuid req))) (\<lambda>r. vol_id (fst (fst r)))
         (\<lambda>db. filter (\<lambda>r. cond_str (lr_uuid req) (vol_uuid (fst (fst r)))) (volume_records (lr_cluster_id req) db)))) (\<lambda>r.
       volume_details c r))"

text \<open>The volumes attached to an instance: their identifiers, and those of them that exist.\<close>

definition volumes_of_instance :: "nat \<Rightarrow> (err + (cluster_volume \<times> cluster_tenant \<Rightarrow> bool)) op" where
  "volumes_of_instance iid =
     given (related_rows (\<lambda>db. filter (\<lambda>a. ivol_cluster_instance_id a = iid) (db_instance_volume db))) (\<lambda>as.
     given (related_rows (\<lambda>db. filter (\<lambda>v. vol_id v \<in> ivol_cluster_volume_id ` set as) (db_volume db))) (\<lambda>vs.
       succeed (\<lambda>r. vol_id (fst r) \<in> vol_id ` set vs)))"

definition make_volume_filters :: "list_request \<Rightarrow> (cluster_volume \<times> cluster_tenant) list_filter list" where
  "make_volume_filters req =
     filter_if (lr_cluster_tenant_id req \<noteq> 0) (Matching (\<lambda>r. vol_cluster_tenant_id (fst r) = lr_cluster_tenant_id req)) @
     filter_if (lq_cluster_storage_id req \<noteq> 0) (Matching (\<lambda>r. vol_cluster_storage_id (fst r) = lq_cluster_storage_id req)) @
     filter_if (lq_cluster_instance_id req \<noteq> 0) (Related (volumes_of_instance (lq_cluster_instance_id req))) @
     filter_if (length (lr_uuid req) \<noteq> 0) (Matching (\<lambda>r. vol_uuid (fst r) = lr_uuid req)) @
     filter_if (rune_count (lr_name req) \<noteq> 0) (Matching (\<lambda>r. contains_text (lr_name req) (vol_name (fst r)))) @
     list_pages req"

text \<open>The count joins the tenants, but not the storages.\<close>

definition get_volume_list :: "request_context \<Rightarrow> list_request \<Rightarrow> (err + volume_view list \<times> pagination) op" where
  "get_volume_list ctx req =
     (let cid = lr_cluster_id req; fs = make_volume_filters req in
      after (execute_err (checked_volume validate_volume_list_request ctx (lookup_request.truncate req)))
       (given (execute (given (get_brief_cluster ctx cid) (\<lambda>c.
          given (list_rows (volume_records cid) (map (via fst) fs)) (\<lambda>rs. succeed (c, rs))))) (\<lambda>(c, rs).
        given (gather (volume_details c) rs) (\<lambda>vs.
        given (execute (paginate (volume_tenant_records cid) fs)) (\<lambda>p. succeed (vs, p))))))"

section \<open>Instances\<close>

record instance_record =
  inr_instance :: cluster_instance
  inr_tenant :: cluster_tenant
  inr_hypervisor :: cluster_hypervisor
  inr_zone :: cluster_availability_zone
  inr_spec :: cluster_instance_spec

text \<open>
  The row of an instance with those it refers to. The keypair is joined from the left by its key, which
  neither drops nor repeats a row, and is read by another query.
\<close>

definition instance_records :: "nat \<Rightarrow> database \<Rightarrow> instance_record list" where
  "instance_records cid db =
     [\<lparr>inr_instance = i, inr_tenant = t, inr_hypervisor = h, inr_zone = z, inr_spec = s\<rparr>.
       i \<leftarrow> db_instance db,
       t \<leftarrow> db_tenant db, tn_id t = ins_cluster_tenant_id i \<and> cond_nat cid (tn_cluster_id t),
       h \<leftarrow> db_hypervisor db, hv_id h = ins_cluster_hypervisor_id i \<and> cond_nat cid (hv_cluster_id h),
       z \<leftarrow> db_availability_zone db, az_id z = ins_cluster_availability_zone_id i \<and> cond_nat cid (az_cluster_id z),
       s \<leftarrow> db_instance_spec db, sp_id s = ins_cluster_instance_spec_id i]"

record instance_network_record =
  nrr_network :: cluster_instance_network
  nrr_of :: cluster_network
  nrr_subnet :: cluster_subnet
  nrr_floating_ip :: "cluster_floating_ip option"

definition left_join :: "'a list \<Rightarrow> 'a option list" where
  "left_join xs = (if xs = [] then [None] else map Some xs)"

definition instance_network_records :: "nat \<Rightarrow> database \<Rightarrow> instance_network_record list" where
  "instance_network_records iid db =
     [\<lparr>nrr_network = n, nrr_of = w, nrr_subnet = s, nrr_floating_ip = f\<rparr>.
       n \<leftarrow> filter (\<lambda>n. cond_nat iid (inw_cluster_instance_id n)) (db_instance_network db),
       w \<leftarrow> filter (\<lambda>w. nw_id w = inw_cluster_network_id n) (db_network db),
       s \<leftarrow> filter (\<lambda>s. sn_id s = inw_cluster_subnet_id n) (db_subnet db),
       f \<leftarrow> left_join (filter (\<lambda>f. inw_cluster_floating_ip_id n = Some (fip_id f)) (db_floating_ip db))]"

definition instance_volume_records ::
    "nat \<Rightarrow> database \<Rightarrow> ((cluster_instance_volume \<times> cluster_volume) \<times> cluster_storage) list" where
  "instance_volume_records iid db =
     join_rows (\<lambda>r s. st_id s = vol_cluster_storage_id (snd r))
       (join_rows (\<lambda>a v. vol_id v = ivol_cluster_volume_id a)
         (filter (\<lambda>a. cond_nat iid (ivol_cluster_instance_id a)) (db_instance_volume db)) (db_volume db))
       (db_storage db)"

record instance_network_view =
  inv_network :: cluster_instance_network
  inv_of :: network_view
  inv_subnet :: cluster_subnet
  inv_floating_ip :: "cluster_floating_ip option"

record instance_volume_view =
  ivv_attachment :: cluster_instance_volume
  ivv_volume :: cluster_volume
  ivv_storage :: cluster_storage

record instance_group_view =
  igv_group :: cluster_security_group
  igv_rules :: "rule_view list"

record instance_entry =
  isv_instance :: cluster_instance
  isv_cluster :: cluster
  isv_tenant :: cluster_tenant
  isv_hypervisor :: cluster_hypervisor
  isv_zone :: cluster_availability_zone

record instance_view = instance_entry +
  isv_keypair :: cluster_keypair
  isv_spec :: cluster_instance_spec
  isv_extra_specs :: "cluster_instance_extra_spec list"
  isv_networks :: "instance_network_view list"
  isv_routers :: "router_view list"
  isv_volumes :: "instance_volume_view list"
  isv_groups :: "instance_group_view list"

definition view_instance :: "cluster \<Rightarrow> instance_record \<Rightarrow> instance_entry" where
  "view_instance c r = \<lparr>isv_instance = shown_instance (inr_instance r), isv_cluster = c, isv_tenant = shown_tenant (inr_tenant r),
     isv_hypervisor = shown_hypervisor (inr_hypervisor r), isv_zone = shown_zone (inr_zone r)\<rparr>"

text \<open>An instance without keypair gets the keypair without content.\<close>

definition keypair_of_instance :: "cluster_instance \<Rightarrow> (err + cluster_keypair) op" where
  "keypair_of_instance i = do {
     k \<leftarrow> find_last (\<lambda>db. filter (\<lambda>k. ins_cluster_keypair_id i = Some (kp_id k)) (db_keypair db));
     State_Monad.return (case k of Inl RecordNotFound \<Rightarrow> Inr zero_keypair | Inl e \<Rightarrow> Inl (unusable_database e)
       | Inr k \<Rightarrow> Inr (shown_keypair k))
   }"

definition instance_parts ::
    "instance_record \<Rightarrow> (err + cluster_keypair \<times> cluster_instance_extra_spec list \<times> instance_network_record list) op" where
  "instance_parts r =
     given (keypair_of_instance (inr_instance r)) (\<lambda>k.
     given (extra_specs_of (sp_id (inr_spec r))) (\<lambda>es.
     given (related_rows (instance_network_records (ins_id (inr_instance r)))) (\<lambda>ns. succeed (k, es, ns))))"

definition request_of :: "nat \<Rightarrow> nat \<Rightarrow> lookup_request" where
  "request_of cid i = \<lparr>lr_cluster_id = cid, lr_resource_id = i, lr_uuid = [], lr_name = [], lr_cluster_tenant_id = 0\<rparr>"

definition router_request :: "nat \<Rightarrow> nat \<Rightarrow> list_request" where
  "router_request cid nid = lookup_request.extend (request_of cid 0)
     \<lparr>lq_cluster_network_id = nid, lq_cluster_instance_id = 0, lq_cluster_availability_zone_id = 0, lq_cluster_hypervisor_id = 0,
      lq_cluster_volume_id = 0, lq_cluster_storage_id = 0, lq_external_only = False, lq_page = (None, None)\<rparr>"

text \<open>The routers of all networks by their identifier; the map is the list of its entries.\<close>

fun routers_of_networks ::
    "request_context \<Rightarrow> nat \<Rightarrow> instance_network_record list \<Rightarrow> (nat \<times> router_view) list \<Rightarrow> (err + (nat \<times> router_view) list) op" where
  "routers_of_networks ctx cid [] found = succeed found"
| "routers_of_networks ctx cid (n # ns) found =
     given (get_router_list ctx (router_request cid (nw_id (nrr_of n)))) (\<lambda>(rs, _).
       routers_of_networks ctx cid ns (fold (\<lambda>r. AList.update (rt_id (rtv_router r)) r) rs found))"

text \<open>
  Each network is read once. \<open>always\<close> tells whether a missing floating IP is left out, or shown as one
  without content.
\<close>

definition zero_floating_ip :: cluster_floating_ip where
  "zero_floating_ip = \<lparr>fip_id = 0, fip_cluster_tenant_id = 0, fip_cluster_network_id = 0, fip_uuid = [],
     fip_description = None, fip_ip_address = [], fip_status = [], fip_raw = None\<rparr>"

definition shown_optional :: "bool \<Rightarrow> instance_network_record \<Rightarrow> cluster_floating_ip option" where
  "shown_optional always n =
     (if always \<or> inw_cluster_floating_ip_id (nrr_network n) \<noteq> None
      then Some (case nrr_floating_ip n of None \<Rightarrow> zero_floating_ip | Some f \<Rightarrow> shown_floating_ip f) else None)"

fun networks_of_instance ::
    "bool \<Rightarrow> request_context \<Rightarrow> nat \<Rightarrow> (nat \<times> network_view) list \<Rightarrow> instance_network_record list \<Rightarrow>
     (err + instance_network_view list) op" where
  "networks_of_instance always ctx cid seen [] = succeed []"
| "networks_of_instance always ctx cid seen (n # ns) =
     given (case map_of seen (nw_id (nrr_of n)) of Some v \<Rightarrow> succeed v
        | None \<Rightarrow> get_network_view ctx (request_of cid (nw_id (nrr_of n)))) (\<lambda>v.
     given (networks_of_instance always ctx cid (AList.update (nw_id (nrr_of n)) v seen) ns) (\<lambda>vs.
       succeed (\<lparr>inv_network = shown_instance_network (nrr_network n), inv_of = v, inv_subnet = shown_subnet (nrr_subnet n),
         inv_floating_ip = shown_optional always n\<rparr> # vs)))"

definition view_attachment ::
    "(cluster_instance_volume \<times> cluster_volume) \<times> cluster_storage \<Rightarrow> instance_volume_view" where
  "view_attachment r = \<lparr>ivv_attachment = shown_instance_volume (fst (fst r)), ivv_volume = shown_volume (snd (fst r)),
     ivv_storage = shown_storage (snd r)\<rparr>"

definition groups_of :: "nat \<Rightarrow> (err + cluster_security_group list) op" where
  "groups_of iid =
     given (related_rows (\<lambda>db. filter (\<lambda>r. isg_cluster_instance_id r = iid) (db_instance_security_group db))) (\<lambda>rs.
       related_rows (\<lambda>db. filter (\<lambda>g. sg_id g \<in> isg_cluster_security_group_id ` set rs) (db_security_group db)))"

text \<open>The rules of a group; the lookup by UUID drops the errors, and shows the rules before the first one.\<close>

definition group_of_instance :: "cluster_security_group \<Rightarrow> (err + instance_group_view) op" where
  "group_of_instance g = given (execute (rules_of_group (sg_id g))) (\<lambda>rs.
     given (gather (\<lambda>r. execute (view_rule r)) rs) (\<lambda>vs. succeed \<lparr>igv_group = shown_security_group g, igv_rules = vs\<rparr>))"

definition group_of_instance_so_far :: "cluster_security_group \<Rightarrow> (err + instance_group_view) op" where
  "group_of_instance_so_far g = do {
     rs \<leftarrow> rules_of_group (sg_id g);
     case rs of Inl _ \<Rightarrow> succeed \<lparr>igv_group = shown_security_group g, igv_rules = []\<rparr>
     | Inr rs \<Rightarrow> do {
         (vs, e) \<leftarrow> gather_so_far view_rule rs;
         succeed \<lparr>igv_group = shown_security_group g, igv_rules = vs\<rparr>
       }
   }"

definition instance_details ::
    "bool \<Rightarrow> (cluster_security_group \<Rightarrow> (err + instance_group_view) op) \<Rightarrow> request_context \<Rightarrow> nat \<Rightarrow> cluster \<Rightarrow> instance_record \<Rightarrow>
     cluster_keypair \<Rightarrow> cluster_instance_extra_spec list \<Rightarrow> instance_network_record list \<Rightarrow> (err + instance_view) op" where
  "instance_details always view_rules ctx cid c r k es ns =
     given (routers_of_networks ctx cid ns []) (\<lambda>routers.
     given (execute (given (related_rows (instance_volume_records (ins_id (inr_instance r)))) (\<lambda>vs.
        given (groups_of (ins_id (inr_instance r))) (\<lambda>gs. succeed (vs, gs))))) (\<lambda>(vs, gs).
     given (networks_of_instance always ctx cid [] ns) (\<lambda>networks.
     given (gather view_rules gs) (\<lambda>groups.
       succeed (instance_entry.extend (view_instance c r)
         \<lparr>isv_keypair = k, isv_spec = shown_spec (inr_spec r), isv_extra_specs = map shown_extra_spec es,
          isv_networks = networks, isv_routers = map snd routers, isv_volumes = map view_attachment vs, isv_groups = groups\<rparr>)))))"

definition get_instance_view :: "request_context \<Rightarrow> lookup_request \<Rightarrow> (err + instance_view) op" where
  "get_instance_view ctx req =
     (let cid = lr_cluster_id req in
      given (execute (after (checked validate_instance_request ctx req)
        (given (get_brief_cluster ctx cid) (\<lambda>c.
         given (look_up (NotFoundClusterResource ''instance'' (GNat (lr_resource_id req))) (\<lambda>r. ins_id (inr_instance r))
           (\<lambda>db. filter (\<lambda>r. cond_nat (lr_resource_id req) (ins_id (inr_instance r))) (instance_records cid db))) (\<lambda>r.
           succeed (c, r)))))) (\<lambda>(c, r).
      given (execute (instance_parts r)) (\<lambda>(k, es, ns). instance_details False group_of_instance ctx cid c r k es ns)))"

definition get_instance_by_uuid :: "request_context \<Rightarrow> lookup_request \<Rightarrow> (err + instance_view) op" where
  "get_instance_by_uuid ctx req =
     (let cid = lr_cluster_id req in
      given (execute (after (checked validate_instance_by_uuid_request ctx req) (get_brief_cluster ctx cid))) (\<lambda>c.
      given (execute (given (look_up (NotFoundClusterResource ''instance_by_uuid'' (GStr (lr_uuid req))) (\<lambda>r. ins_id (inr_instance r))
           (\<lambda>db. filter (\<lambda>r. cond_str (lr_uuid req) (ins_uuid (inr_instance r))) (instance_records cid db))) (\<lambda>r.
         given (instance_parts r) (\<lambda>p. succeed (r, p))))) (\<lambda>(r, k, es, ns).
        instance_details True group_of_instance_so_far ctx cid c r k es ns)))"

section \<open>Lists of instances\<close>

definition instance_tenant_records :: "database \<Rightarrow> (cluster_instance \<times> cluster_tenant) list" where
  "instance_tenant_records db = join_rows (\<lambda>i t. tn_id t = ins_cluster_tenant_id i) (db_instance db) (db_tenant db)"

definition instances_of_volume :: "nat \<Rightarrow> (err + (cluster_instance \<Rightarrow> bool)) op" where
  "instances_of_volume vid =
     given (related_rows (\<lambda>db. filter (\<lambda>a. ivol_cluster_volume_id a = vid) (db_instance_volume db)))
       (\<lambda>as. succeed (\<lambda>i. ins_id i \<in> ivol_cluster_instance_id ` set as))"

definition make_instance_filters :: "list_request \<Rightarrow> cluster_instance list_filter list" where
  "make_instance_filters req =
     filter_if (lr_cluster_tenant_id req \<noteq> 0) (Matching (\<lambda>i. ins_cluster_tenant_id i = lr_cluster_tenant_id req)) @
     filter_if (lq_cluster_availability_zone_id req \<noteq> 0)
       (Matching (\<lambda>i. ins_cluster_availability_zone_id i = lq_cluster_availability_zone_id req)) @
     filter_if (lq_cluster_hypervisor_id req \<noteq> 0) (Matching (\<lambda>i. ins_cluster_hypervisor_id i = lq_cluster_hypervisor_id req)) @
     filter_if (lq_cluster_volume_id req \<noteq> 0) (Related (instances_of_volume (lq_cluster_volume_id req))) @
     filter_if (length (lr_uuid req) \<noteq> 0) (Matching (\<lambda>i. ins_uuid i = lr_uuid req)) @
     filter_if (rune_count (lr_name req) \<noteq> 0) (Matching (\<lambda>i. contains_text (lr_name req) (ins_name i))) @
     list_pages req"

text \<open>The count joins the tenants alone.\<close>

definition get_instance_list :: "request_context \<Rightarrow> list_request \<Rightarrow> (err + instance_entry list \<times> pagination) op" where
  "get_instance_list ctx req =
     (let cid = lr_cluster_id req; fs = make_instance_filters req in
      after (execute_err (checked_list validate_instance_list_request ctx req))
       (given (execute (given (get_brief_cluster ctx cid) (\<lambda>c.
          given (list_rows (instance_records cid) (map (via inr_instance) fs)) (\<lambda>rs. succeed (c, rs))))) (\<lambda>(c, rs).
        given (execute (paginate (\<lambda>db. filter (\<lambda>r. cond_nat cid (tn_cluster_id (snd r))) (instance_tenant_records db))
          (map (via fst) fs))) (\<lambda>p. succeed (map (view_instance c) rs, p)))))"

text \<open>The number of instances of one cluster, or of all clusters the user may list.\<close>

definition count_instances :: "nat list \<Rightarrow> (err + 64 word) op" where
  "count_instances cids =
     given (apply_list_filters [Matching (\<lambda>r. tn_cluster_id (snd r) \<in> set cids)] all_rows) (count_query instance_tenant_records)"

definition every_cluster :: cluster_list where
  "every_cluster = \<lparr>clr_type_code = [], clr_name = [], clr_owner_group_id = 0, clr_limit = None, clr_offset = None\<rparr>"

definition get_instance_number :: "request_context \<Rightarrow> nat \<Rightarrow> (err + 64 word) op" where
  "get_instance_number ctx cid =
     given (if cid = 0 then given (get_cluster_list_page ctx every_cluster) (\<lambda>(vs, _). succeed (map cv_id vs))
            else given (get_cluster_view ctx cid) (\<lambda>v. succeed [cv_id v])) count_instances"

section \<open>User scripts\<close>

text \<open>
  Neither request looks at the user or at the cluster of the instance. \<open>base64\<close> is the decoder of the
  standard library.
\<close>

definition script_row :: "nat \<Rightarrow> (err + cluster_instance_user_script) op" where
  "script_row iid = first_row us_cluster_instance_id
     (\<lambda>db. filter (\<lambda>s. cond_nat iid (us_cluster_instance_id s)) (db_instance_user_script db))"

definition get_instance_user_script :: "nat \<Rightarrow> (err + string) op" where
  "get_instance_user_script iid =
     (if iid = 0 then failed_with (RequiredParameter ''cluster_instance_id'')
      else do {
        s \<leftarrow> script_row iid;
        State_Monad.return (case s of Inl RecordNotFound \<Rightarrow> Inr [] | Inl e \<Rightarrow> Inl (unusable_database e) | Inr s \<Rightarrow> Inr (us_user_data s))
      })"

definition save_user_script :: "cluster_instance_user_script \<Rightarrow> database \<Rightarrow> string + database" where
  "save_user_script new db = map_sum (\<lambda>m. m) (\<lambda>rs. db\<lparr>db_instance_user_script := rs\<rparr>)
     (save_into us_cluster_instance_id (\<lambda>old r. points_to us_cluster_instance_id ins_id (db_instance db) old r) new
       (db_instance_user_script db))"

definition kb16 :: nat where "kb16 = 16 * 1024"

definition update_instance_user_script :: "(string \<Rightarrow> err + string) \<Rightarrow> nat \<Rightarrow> string \<Rightarrow> err option op" where
  "update_instance_user_script base64 iid script =
     (if iid = 0 then State_Monad.return (Some (RequiredParameter ''cluster_instance_id''))
      else case base64 script of Inl e \<Rightarrow> State_Monad.return (Some e)
        | Inr decoded \<Rightarrow>
            (if length decoded > kb16
             then State_Monad.return (Some (OutOfRangeParameterValue ''cluster.instance.user_data'' (GStr script) (GNat 0) (GNat kb16)))
             else db_err (transaction (exec (save_user_script \<lparr>us_cluster_instance_id = iid, us_user_data = script\<rparr>)))))"

end
