(* ===== verification/ClusterCalls.thy ===== *)
theory ClusterCalls
  imports MessageRows InstanceQueries
begin

text \<open>
  The requests that a resource package passes on to the cluster (the \<open>Create\<close>, \<open>Delete\<close>, \<open>Start\<close> and
  \<open>Stop\<close> functions of the packages under \<open>internal/\<close>): decrypt the credential, check the request, dial,
  call the client and show its answer. The client of a connection is a parameter of the model. The
  rollback of a creation stands behind conversions that cannot fail, so it is never reached.
\<close>

section \<open>The client\<close>

record routed_interface =
  rif_network :: cluster_network
  rif_subnet :: cluster_subnet
  rif_ip_address :: string
  rif_external_flag :: bool

record router_call =
  rc_tenant :: cluster_tenant
  rc_router :: cluster_router
  rc_extra_routes :: "cluster_router_extra_route list"
  rc_external :: "routed_interface list"
  rc_internal :: "routed_interface list"

record router_creation =
  nr_created :: cluster_router
  nr_extra_routes :: "cluster_router_extra_route list"
  nr_external :: "routed_interface list"
  nr_internal :: "routed_interface list"

record subnet_creation =
  nsu_subnet :: cluster_subnet
  nsu_nameservers :: "cluster_subnet_nameserver list"
  nsu_pools :: "cluster_subnet_dhcp_pool list"

record move_call =
  mc_tenant :: cluster_tenant
  mc_source_storage :: cluster_storage
  mc_target_storage :: cluster_storage
  mc_target_metadata :: "(string \<times> string) list"
  mc_volume :: cluster_volume
  mc_volume_id :: nat
  mc_snapshots :: "cluster_volume_snapshot list"

record 'a file_pair =
  fp_source :: 'a
  fp_target :: 'a
  fp_source_file :: string
  fp_target_file :: string

record unmanage_call =
  uc_tenant :: cluster_tenant
  uc_source_storage :: cluster_storage
  uc_target_storage :: cluster_storage
  uc_target_metadata :: "(string \<times> string) list"
  uc_volume_pair :: "cluster_volume file_pair"
  uc_volume_id :: nat
  uc_snapshot_pairs :: "cluster_volume_snapshot file_pair list"

record volume_group =
  vg_uuid :: string
  vg_name :: string
  vg_description :: string
  vg_storages :: "cluster_storage list"
  vg_volumes :: "cluster_volume list"

record volume_group_snapshot =
  vgs_uuid :: string
  vgs_name :: string
  vgs_description :: string

record assigned_network =
  an_network :: cluster_network
  an_subnet :: cluster_subnet
  an_floating_ip :: "cluster_floating_ip option"
  an_dhcp_flag :: bool
  an_ip_address :: string

record attached_volume =
  av_volume :: cluster_volume
  av_device_path :: string
  av_boot_index :: int

record instance_call =
  ic_tenant_uuid :: string
  ic_hostname :: string
  ic_zone_name :: string
  ic_spec_uuid :: string
  ic_keypair_name :: string
  ic_instance :: cluster_instance
  ic_user_data :: string
  ic_networks :: "assigned_network list"
  ic_security_groups :: "cluster_security_group list"
  ic_volumes :: "attached_volume list"

text \<open>
  What the client of a connection answers to a request made at a time. \<open>ca_dial\<close> is the creation of the
  client and its connection; a deletion answers with an error or nothing.
\<close>

record cluster_api =
  ca_dial :: "nat \<Rightarrow> err option"
  ca_create_tenant :: "cluster_tenant \<times> cluster_quota list \<Rightarrow> nat \<Rightarrow> err + cluster_tenant \<times> cluster_quota list"
  ca_delete_tenant :: "cluster_tenant \<Rightarrow> nat \<Rightarrow> err option"
  ca_create_keypair :: "cluster_keypair \<Rightarrow> nat \<Rightarrow> err + cluster_keypair"
  ca_delete_keypair :: "string \<Rightarrow> nat \<Rightarrow> err option"
  ca_create_instance_spec :: "cluster_instance_spec \<times> cluster_instance_extra_spec list \<Rightarrow> nat \<Rightarrow> err + cluster_instance_spec"
  ca_delete_instance_spec :: "string \<Rightarrow> nat \<Rightarrow> err option"
  ca_create_floating_ip :: "cluster_tenant \<times> cluster_network \<times> cluster_floating_ip \<Rightarrow> nat \<Rightarrow> err + cluster_floating_ip"
  ca_delete_floating_ip :: "cluster_tenant \<times> cluster_floating_ip \<Rightarrow> nat \<Rightarrow> err option"
  ca_create_network :: "cluster_tenant \<times> cluster_network \<Rightarrow> nat \<Rightarrow> err + cluster_network"
  ca_delete_network :: "cluster_tenant \<times> cluster_network \<Rightarrow> nat \<Rightarrow> err option"
  ca_create_subnet :: "cluster_tenant \<times> cluster_network \<times> subnet_creation \<Rightarrow> nat \<Rightarrow> err + subnet_creation"
  ca_delete_subnet :: "cluster_tenant \<times> cluster_network \<times> cluster_subnet \<Rightarrow> nat \<Rightarrow> err option"
  ca_create_router :: "router_call \<Rightarrow> nat \<Rightarrow> err + router_creation"
  ca_delete_router :: "cluster_tenant \<times> cluster_router \<Rightarrow> nat \<Rightarrow> err option"
  ca_create_security_group :: "cluster_tenant \<times> cluster_security_group \<Rightarrow> nat \<Rightarrow> err + cluster_security_group"
  ca_delete_security_group :: "cluster_tenant \<times> cluster_security_group \<Rightarrow> nat \<Rightarrow> err option"
  ca_create_security_group_rule ::
    "cluster_tenant \<times> cluster_security_group \<times> cluster_security_group_rule \<times> string option \<Rightarrow> nat \<Rightarrow>
     err + cluster_security_group_rule \<times> cluster_security_group option"
  ca_delete_security_group_rule ::
    "cluster_tenant \<times> cluster_security_group \<times> cluster_security_group_rule \<Rightarrow> nat \<Rightarrow> err option"
  ca_create_volume :: "string \<times> string \<times> cluster_volume \<Rightarrow> nat \<Rightarrow> err + cluster_volume"
  ca_delete_volume :: "string \<times> cluster_volume \<Rightarrow> nat \<Rightarrow> err option"
  ca_import_volume :: "move_call \<Rightarrow> nat \<Rightarrow> err + cluster_volume file_pair \<times> cluster_volume_snapshot file_pair list"
  ca_copy_volume :: "move_call \<Rightarrow> nat \<Rightarrow> err + cluster_volume"
  ca_delete_volume_copy :: "move_call \<Rightarrow> nat \<Rightarrow> err option"
  ca_unmanage_volume :: "unmanage_call \<Rightarrow> nat \<Rightarrow> err option"
  ca_create_volume_snapshot :: "string \<times> string \<times> cluster_volume_snapshot \<Rightarrow> nat \<Rightarrow> err + cluster_volume_snapshot"
  ca_delete_volume_snapshot :: "string \<times> cluster_volume_snapshot \<Rightarrow> nat \<Rightarrow> err option"
  ca_get_volume_group_list :: "nat \<Rightarrow> err + volume_group list"
  ca_get_volume_group :: "(nat \<times> nat) \<times> string \<Rightarrow> nat \<Rightarrow> err + volume_group"
  ca_create_volume_group :: "cluster_tenant \<times> volume_group \<Rightarrow> nat \<Rightarrow> err + volume_group"
  ca_delete_volume_group :: "cluster_tenant \<times> volume_group \<Rightarrow> nat \<Rightarrow> err option"
  ca_update_volume_group :: "cluster_tenant \<times> volume_group \<times> cluster_volume list \<times> cluster_volume list \<Rightarrow> nat \<Rightarrow> err option"
  ca_create_volume_group_snapshot :: "cluster_tenant \<times> string \<times> volume_group_snapshot \<Rightarrow> nat \<Rightarrow> err + volume_group_snapshot"
  ca_delete_volume_group_snapshot :: "cluster_tenant \<times> string \<times> string \<Rightarrow> nat \<Rightarrow> err option"
  ca_get_volume_group_snapshot_list :: "nat \<Rightarrow> err + (string \<times> volume_group_snapshot) list"
  ca_start_instance :: "string \<times> string \<Rightarrow> nat \<Rightarrow> err option"
  ca_stop_instance :: "string \<times> string \<Rightarrow> nat \<Rightarrow> err option"
  ca_preprocess_creating_instance :: "cluster_storage list \<times> cluster_hypervisor \<Rightarrow> nat \<Rightarrow> err option"
  ca_create_instance :: "instance_call \<Rightarrow> nat \<Rightarrow> err + cluster_instance"
  ca_delete_instance :: "string \<times> string \<Rightarrow> nat \<Rightarrow> err option"
  ca_get_instance :: "string \<Rightarrow> nat \<Rightarrow> err option"

type_synonym cluster_client = "connection_info \<Rightarrow> cluster_api"
type_synonym decryption = "string \<Rightarrow> err + string"

text \<open>
  The frame of every call. The decrypted credential is written through the connection of the request,
  which is a nil pointer when there is none; the request is checked with it.
\<close>

definition dialled :: "cluster_client \<Rightarrow> connection_info \<Rightarrow> (cluster_api \<Rightarrow> (err + 'a) op) \<Rightarrow> (err + 'a) op" where
  "dialled client c k = after (ask (ca_dial (client c))) (k (client c))"

definition decrypted :: "decryption \<Rightarrow> connection_info \<Rightarrow> err + connection_info" where
  "decrypted decrypt c = map_sum (\<lambda>e. e) (\<lambda>p. c\<lparr>ci_credential := p\<rparr>) (decrypt (ci_credential c))"

definition on_cluster ::
    "decryption \<Rightarrow> cluster_client \<Rightarrow> connection_info option \<Rightarrow> (connection_info option \<Rightarrow> err option) \<Rightarrow>
     (cluster_api \<Rightarrow> (err + 'a) op) \<Rightarrow> (err + 'a) op" where
  "on_cluster decrypt client conn valid k =
     (case conn of None \<Rightarrow> failed_with NilDereference
      | Some c \<Rightarrow> given (State_Monad.return (decrypted decrypt c)) (\<lambda>c.
          after (State_Monad.return (valid (Some c))) (dialled client c k)))"

text \<open>A call that answers with a value, which is shown, and one that only succeeds or fails.\<close>

definition show_answer :: "('a \<Rightarrow> 'b) \<Rightarrow> (nat \<Rightarrow> err + 'a) \<Rightarrow> (err + 'b) op" where
  "show_answer f m = given (ask m) (\<lambda>x. succeed (f x))"

definition told :: "(nat \<Rightarrow> err option) \<Rightarrow> (err + unit) op" where
  "told m = after (ask m) (succeed ())"

section \<open>Tenants, keypairs and specs\<close>

definition create_tenant ::
    "externals \<Rightarrow> decryption \<Rightarrow> cluster_client \<Rightarrow> resource_request \<Rightarrow> (err + cluster_tenant \<times> cluster_quota list) op" where
  "create_tenant ext decrypt client req =
     on_cluster decrypt client (rr_conn req) (\<lambda>c. validate_create_cluster_tenant_request ext (req\<lparr>rr_conn := c\<rparr>)) (\<lambda>cli.
       show_answer (map_prod shown_tenant (map shown_quota))
         (ca_create_tenant cli (tenant_row (rr_tenant req), map quota_row (getf tm_quotas [] (rr_tenant req)))))"

definition delete_tenant_request ::
    "externals \<Rightarrow> decryption \<Rightarrow> cluster_client \<Rightarrow> resource_request \<Rightarrow> (err + unit) op" where
  "delete_tenant_request ext decrypt client req =
     on_cluster decrypt client (rr_conn req) (\<lambda>c. validate_delete_cluster_tenant_request ext (req\<lparr>rr_conn := c\<rparr>)) (\<lambda>cli.
       told (ca_delete_tenant cli (tenant_row (rr_tenant req))))"

definition create_keypair ::
    "externals \<Rightarrow> decryption \<Rightarrow> cluster_client \<Rightarrow> resource_request \<Rightarrow> (err + cluster_keypair) op" where
  "create_keypair ext decrypt client req =
     on_cluster decrypt client (rr_conn req) (\<lambda>c. validate_create_keypair_request ext (req\<lparr>rr_conn := c\<rparr>)) (\<lambda>cli.
       show_answer shown_keypair (ca_create_keypair cli (keypair_row (rr_keypair req))))"

definition delete_keypair_request ::
    "externals \<Rightarrow> decryption \<Rightarrow> cluster_client \<Rightarrow> resource_request \<Rightarrow> (err + unit) op" where
  "delete_keypair_request ext decrypt client req =
     on_cluster decrypt client (rr_conn req) (\<lambda>c. validate_delete_keypair_request ext (req\<lparr>rr_conn := c\<rparr>)) (\<lambda>cli.
       told (ca_delete_keypair cli (getf kpm_name [] (rr_keypair req))))"

definition create_instance_spec ::
    "externals \<Rightarrow> decryption \<Rightarrow> cluster_client \<Rightarrow> resource_request \<Rightarrow> (err + cluster_instance_spec) op" where
  "create_instance_spec ext decrypt client req =
     on_cluster decrypt client (rr_conn req) (\<lambda>c. validate_create_cluster_instance_spec_request ext (req\<lparr>rr_conn := c\<rparr>)) (\<lambda>cli.
       show_answer shown_spec (ca_create_instance_spec cli (spec_row (rr_spec req), map extra_spec_row (rr_extra_specs req))))"

text \<open>
  After a spec was deleted in the cluster, the one of the database is synchronised; what goes wrong
  there is only logged. A spec of no cluster does not get past the check of the request.
\<close>

definition delete_instance_spec_request ::
    "externals \<Rightarrow> decryption \<Rightarrow> cluster_client \<Rightarrow> connector \<Rightarrow> resource_request \<Rightarrow> (err + unit) op" where
  "delete_instance_spec_request ext decrypt client connect req =
     on_cluster decrypt client (rr_conn req) (\<lambda>c. validate_delete_cluster_instance_spec_request ext (req\<lparr>rr_conn := c\<rparr>)) (\<lambda>cli.
       given (told (ca_delete_instance_spec cli (getf spm_uuid [] (rr_spec req)))) (\<lambda>_.
         ignoring (fetch (new_synchronizer connect (getf (\<lambda>i. i) 0 (getf spm_cluster_id None (rr_spec req)))) (\<lambda>s.
           sync_cluster_instance_spec s True ((spec_row None)\<lparr>sp_uuid := getf spm_uuid [] (rr_spec req)\<rparr>))) (succeed ())))"

section \<open>Networks\<close>

definition create_network ::
    "externals \<Rightarrow> decryption \<Rightarrow> cluster_client \<Rightarrow> network_request \<Rightarrow> (err + cluster_network) op" where
  "create_network ext decrypt client req =
     on_cluster decrypt client (nr_conn req) (\<lambda>c. validate_create_cluster_network_request ext (req\<lparr>nr_conn := c\<rparr>)) (\<lambda>cli.
       show_answer shown_network (ca_create_network cli (tenant_row (nr_tenant req), network_row (nr_network req))))"

definition delete_network_request ::
    "externals \<Rightarrow> decryption \<Rightarrow> cluster_client \<Rightarrow> network_request \<Rightarrow> (err + unit) op" where
  "delete_network_request ext decrypt client req =
     on_cluster decrypt client (nr_conn req) (\<lambda>c. validate_delete_cluster_network_request ext (req\<lparr>nr_conn := c\<rparr>)) (\<lambda>cli.
       told (ca_delete_network cli (tenant_row (nr_tenant req), network_row (nr_network req))))"

definition create_subnet ::
    "externals \<Rightarrow> decryption \<Rightarrow> cluster_client \<Rightarrow> network_request \<Rightarrow> (err + subnet_creation) op" where
  "create_subnet ext decrypt client req =
     on_cluster decrypt client (nr_conn req) (\<lambda>c. validate_create_cluster_subnet_request ext (req\<lparr>nr_conn := c\<rparr>)) (\<lambda>cli.
       show_answer (\<lambda>r. \<lparr>nsu_subnet = shown_subnet (nsu_subnet r), nsu_nameservers = map shown_nameserver (nsu_nameservers r),
           nsu_pools = map shown_dhcp_pool (nsu_pools r)\<rparr>)
         (ca_create_subnet cli (tenant_row (nr_tenant req), network_row (nr_network req),
           \<lparr>nsu_subnet = subnet_row (nr_subnet req),
            nsu_nameservers = map nameserver_row (getf snm_nameservers [] (nr_subnet req)),
            nsu_pools = map dhcp_pool_row (getf snm_dhcp_pools [] (nr_subnet req))\<rparr>)))"

definition delete_subnet_request ::
    "externals \<Rightarrow> decryption \<Rightarrow> cluster_client \<Rightarrow> network_request \<Rightarrow> (err + unit) op" where
  "delete_subnet_request ext decrypt client req =
     on_cluster decrypt client (nr_conn req) (\<lambda>c. validate_delete_cluster_subnet_request ext (req\<lparr>nr_conn := c\<rparr>)) (\<lambda>cli.
       told (ca_delete_subnet cli (tenant_row (nr_tenant req), network_row (nr_network req), subnet_row (nr_subnet req))))"

definition create_floating_ip ::
    "externals \<Rightarrow> decryption \<Rightarrow> cluster_client \<Rightarrow> network_request \<Rightarrow> (err + cluster_floating_ip) op" where
  "create_floating_ip ext decrypt client req =
     on_cluster decrypt client (nr_conn req) (\<lambda>c. validate_create_cluster_floating_ip_request ext (req\<lparr>nr_conn := c\<rparr>)) (\<lambda>cli.
       show_answer shown_floating_ip
         (ca_create_floating_ip cli (tenant_row (nr_tenant req), network_row (nr_network req), floating_ip_row (nr_floating_ip req))))"

definition delete_floating_ip_request ::
    "externals \<Rightarrow> decryption \<Rightarrow> cluster_client \<Rightarrow> network_request \<Rightarrow> (err + unit) op" where
  "delete_floating_ip_request ext decrypt client req =
     on_cluster decrypt client (nr_conn req) (\<lambda>c. validate_delete_cluster_floating_ip_request ext (req\<lparr>nr_conn := c\<rparr>)) (\<lambda>cli.
       told (ca_delete_floating_ip cli (tenant_row (nr_tenant req), floating_ip_row (nr_floating_ip req))))"

section \<open>Routers\<close>

definition convert_interfaces_to_client :: "bool \<Rightarrow> routing_interface_message list \<Rightarrow> routed_interface list" where
  "convert_interfaces_to_client external = map (\<lambda>i. \<lparr>rif_network = network_row (rim_network i), rif_subnet = subnet_row (rim_subnet i),
     rif_ip_address = rim_ip_address i, rif_external_flag = external\<rparr>)"

definition convert_interfaces_to_message :: "routed_interface list \<Rightarrow> routed_interface list" where
  "convert_interfaces_to_message = map (\<lambda>i. \<lparr>rif_network = shown_network (rif_network i), rif_subnet = shown_subnet (rif_subnet i),
     rif_ip_address = rif_ip_address i, rif_external_flag = False\<rparr>)"

definition create_router ::
    "externals \<Rightarrow> decryption \<Rightarrow> cluster_client \<Rightarrow> network_request \<Rightarrow> (err + router_creation) op" where
  "create_router ext decrypt client req =
     on_cluster decrypt client (nr_conn req) (\<lambda>c. validate_create_cluster_router_request ext (req\<lparr>nr_conn := c\<rparr>)) (\<lambda>cli.
       show_answer (\<lambda>r. \<lparr>nr_created = shown_router (nr_created r), nr_extra_routes = map shown_extra_route (nr_extra_routes r),
           nr_external = convert_interfaces_to_message (nr_external r), nr_internal = convert_interfaces_to_message (nr_internal r)\<rparr>)
         (ca_create_router cli \<lparr>rc_tenant = tenant_row (nr_tenant req), rc_router = router_row (nr_router req),
           rc_extra_routes = map extra_route_row (getf rm_extra_routes [] (nr_router req)),
           rc_external = convert_interfaces_to_client True (getf rm_external_routing_interfaces [] (nr_router req)),
           rc_internal = convert_interfaces_to_client False (getf rm_internal_routing_interfaces [] (nr_router req))\<rparr>))"

definition delete_router_request ::
    "externals \<Rightarrow> decryption \<Rightarrow> cluster_client \<Rightarrow> network_request \<Rightarrow> (err + unit) op" where
  "delete_router_request ext decrypt client req =
     on_cluster decrypt client (nr_conn req) (\<lambda>c. validate_delete_cluster_router_request ext (req\<lparr>nr_conn := c\<rparr>)) (\<lambda>cli.
       told (ca_delete_router cli (tenant_row (nr_tenant req), router_row (nr_router req))))"

section \<open>Security groups\<close>

definition create_security_group ::
    "externals \<Rightarrow> decryption \<Rightarrow> cluster_client \<Rightarrow> security_group_request \<Rightarrow> (err + cluster_security_group) op" where
  "create_security_group ext decrypt client req =
     on_cluster decrypt client (sgq_conn req) (\<lambda>c. validate_create_security_group ext (req\<lparr>sgq_conn := c\<rparr>)) (\<lambda>cli.
       show_answer shown_security_group
         (ca_create_security_group cli (tenant_row (sgq_tenant req), group_row (sgq_security_group req))))"

definition create_security_group_rule ::
    "externals \<Rightarrow> decryption \<Rightarrow> cluster_client \<Rightarrow> security_group_request \<Rightarrow>
     (err + cluster_security_group_rule \<times> cluster_security_group option) op" where
  "create_security_group_rule ext decrypt client req =
     on_cluster decrypt client (sgq_conn req) (\<lambda>c. validate_create_security_group_rule ext (req\<lparr>sgq_conn := c\<rparr>)) (\<lambda>cli.
       show_answer (map_prod shown_rule (map_option shown_security_group))
         (ca_create_security_group_rule cli (tenant_row (sgq_tenant req), group_row (sgq_security_group req),
           rule_row (sgq_security_group_rule req),
           optional (getf srm_remote_security_group_uuid [] (sgq_security_group_rule req)))))"

text \<open>The rules of the request first, one by one, then the group.\<close>

fun delete_rules :: "cluster_api \<Rightarrow> cluster_tenant \<Rightarrow> cluster_security_group \<Rightarrow> security_group_rule_message list \<Rightarrow> err option op" where
  "delete_rules cli t g [] = return_nil"
| "delete_rules cli t g (r # rs) = check (ask (ca_delete_security_group_rule cli (t, g, rule_row (Some r)))) (delete_rules cli t g rs)"

definition delete_security_group_request ::
    "externals \<Rightarrow> decryption \<Rightarrow> cluster_client \<Rightarrow> security_group_request \<Rightarrow> (err + unit) op" where
  "delete_security_group_request ext decrypt client req =
     (let t = tenant_row (sgq_tenant req); g = group_row (sgq_security_group req) in
      on_cluster decrypt client (sgq_conn req) (\<lambda>c. validate_delete_security_group ext (req\<lparr>sgq_conn := c\<rparr>)) (\<lambda>cli.
        after (delete_rules cli t g (getf sgm_rules [] (sgq_security_group req)))
          (told (ca_delete_security_group cli (t, g)))))"

end
