(* ===== verification/ResourceCalls.thy ===== *)
theory ResourceCalls
  imports ClusterCalls
begin

text \<open>
  The requests about volumes, volume groups and instances that go to the cluster
  (\<open>internal/volume/volume.go\<close>, \<open>internal/volume_group/volume_group.go\<close>, \<open>internal/instance/instance.go\<close>).
\<close>

section \<open>Volumes\<close>

text \<open>The request to create a volume is the one that does not decrypt the credential.\<close>

definition create_volume :: "externals \<Rightarrow> cluster_client \<Rightarrow> create_volume_request \<Rightarrow> (err + cluster_volume) op" where
  "create_volume ext client req =
     after (State_Monad.return (validate_create_cluster_volume_request ext req))
      (case cvr_conn req of None \<Rightarrow> failed_with NilDereference
       | Some c \<Rightarrow> dialled client c (\<lambda>cli.
           show_answer shown_volume (ca_create_volume cli (getf tm_uuid [] (cvr_tenant req), getf sm_name [] (cvr_storage req),
             volume_row (cvr_volume req)))))"

definition delete_volume_request ::
    "externals \<Rightarrow> decryption \<Rightarrow> cluster_client \<Rightarrow> create_volume_request \<Rightarrow> (err + unit) op" where
  "delete_volume_request ext decrypt client req =
     on_cluster decrypt client (cvr_conn req) (\<lambda>c. validate_delete_cluster_volume_request ext (req\<lparr>cvr_conn := c\<rparr>)) (\<lambda>cli.
       told (ca_delete_volume cli (getf tm_uuid [] (cvr_tenant req), volume_row (cvr_volume req))))"

text \<open>
  A copy or an import takes the metadata of the target storage beside the request. Without metadata the
  client is not called, and the answer has neither a result nor an error (\<open>None\<close>).
\<close>

definition move_call_of :: "move_volume_request \<Rightarrow> (string \<times> string) list \<Rightarrow> move_call" where
  "move_call_of req metadata = \<lparr>mc_tenant = tenant_row (mvr_tenant req), mc_source_storage = storage_row (mvr_source_storage req),
     mc_target_storage = storage_row (mvr_target_storage req), mc_target_metadata = metadata, mc_volume = volume_row (mvr_volume req),
     mc_volume_id = 0, mc_snapshots = map (\<lambda>s. snapshot_row (Some s)) (mvr_snapshots req)\<rparr>"

definition show_pair :: "('a \<Rightarrow> 'a) \<Rightarrow> 'a file_pair \<Rightarrow> 'a file_pair" where
  "show_pair f p = p\<lparr>fp_source := f (fp_source p), fp_target := f (fp_target p)\<rparr>"

definition import_volume ::
    "externals \<Rightarrow> decryption \<Rightarrow> cluster_client \<Rightarrow> move_volume_request \<Rightarrow> (string \<times> string) list \<Rightarrow>
     (err + (cluster_volume file_pair \<times> cluster_volume_snapshot file_pair list) option) op" where
  "import_volume ext decrypt client req metadata =
     on_cluster decrypt client (mvr_conn req) (\<lambda>c. validate_import_cluster_volume_request ext (req\<lparr>mvr_conn := c\<rparr>)) (\<lambda>cli.
       if metadata = [] then succeed None
       else show_answer (\<lambda>r. Some (map_prod (show_pair shown_volume) (map (show_pair shown_snapshot)) r))
         (ca_import_volume cli (move_call_of req metadata)))"

text \<open>The snapshots of the answer to a copy are not shown.\<close>

definition copy_volume ::
    "externals \<Rightarrow> decryption \<Rightarrow> cluster_client \<Rightarrow> move_volume_request \<Rightarrow> (string \<times> string) list \<Rightarrow> (err + cluster_volume option) op" where
  "copy_volume ext decrypt client req metadata =
     on_cluster decrypt client (mvr_conn req) (\<lambda>c. validate_copy_cluster_volume_request ext (req\<lparr>mvr_conn := c\<rparr>)) (\<lambda>cli.
       if metadata = [] then succeed None
       else show_answer (\<lambda>r. Some (shown_volume r)) (ca_copy_volume cli (move_call_of req metadata)))"

definition delete_volume_copy ::
    "externals \<Rightarrow> decryption \<Rightarrow> cluster_client \<Rightarrow> move_volume_request \<Rightarrow> (string \<times> string) list \<Rightarrow> (err + unit) op" where
  "delete_volume_copy ext decrypt client req metadata =
     on_cluster decrypt client (mvr_conn req) (\<lambda>c. validate_delete_cluster_volume_copy_request ext (req\<lparr>mvr_conn := c\<rparr>)) (\<lambda>cli.
       if metadata = [] then succeed ()
       else told (ca_delete_volume_copy cli ((move_call_of req metadata)\<lparr>mc_volume_id := mvr_volume_id req\<rparr>)))"

definition unmanage_call_of :: "unmanage_volume_request \<Rightarrow> (string \<times> string) list \<Rightarrow> unmanage_call" where
  "unmanage_call_of req metadata =
     (let pair = uvr_volume_pair req in
      \<lparr>uc_tenant = tenant_row (uvr_tenant req), uc_source_storage = storage_row (uvr_source_storage req),
       uc_target_storage = storage_row (uvr_target_storage req), uc_target_metadata = metadata,
       uc_volume_pair = \<lparr>fp_source = volume_row (getf vp_source None pair), fp_target = volume_row (getf vp_target None pair),
         fp_source_file = getf vp_source_file [] pair, fp_target_file = getf vp_target_file [] pair\<rparr>,
       uc_volume_id = uvr_volume_id req,
       uc_snapshot_pairs = map (\<lambda>p. \<lparr>fp_source = snapshot_row (spp_source p), fp_target = snapshot_row (spp_target p),
         fp_source_file = spp_source_file p, fp_target_file = spp_target_file p\<rparr>) (uvr_snapshot_pairs req)\<rparr>)"

definition unmanage_volume ::
    "externals \<Rightarrow> decryption \<Rightarrow> cluster_client \<Rightarrow> unmanage_volume_request \<Rightarrow> (string \<times> string) list \<Rightarrow> (err + unit) op" where
  "unmanage_volume ext decrypt client req metadata =
     on_cluster decrypt client (uvr_conn req) (\<lambda>c. validate_unmanage_cluster_volume_request ext (req\<lparr>uvr_conn := c\<rparr>)) (\<lambda>cli.
       if metadata = [] then succeed () else told (ca_unmanage_volume cli (unmanage_call_of req metadata)))"

definition create_volume_snapshot ::
    "externals \<Rightarrow> decryption \<Rightarrow> cluster_client \<Rightarrow> volume_snapshot_request \<Rightarrow> (err + cluster_volume_snapshot) op" where
  "create_volume_snapshot ext decrypt client req =
     on_cluster decrypt client (vsr_conn req) (\<lambda>c. validate_create_cluster_volume_snapshot_request ext (req\<lparr>vsr_conn := c\<rparr>)) (\<lambda>cli.
       show_answer shown_snapshot (ca_create_volume_snapshot cli (getf tm_uuid [] (vsr_tenant req), getf vm_uuid [] (vsr_volume req),
         snapshot_row (vsr_snapshot req))))"

definition delete_volume_snapshot_request ::
    "externals \<Rightarrow> decryption \<Rightarrow> cluster_client \<Rightarrow> volume_snapshot_request \<Rightarrow> (err + unit) op" where
  "delete_volume_snapshot_request ext decrypt client req =
     on_cluster decrypt client (vsr_conn req) (\<lambda>c. validate_delete_cluster_volume_snapshot_request ext (req\<lparr>vsr_conn := c\<rparr>)) (\<lambda>cli.
       told (ca_delete_volume_snapshot cli (getf tm_uuid [] (vsr_tenant req), snapshot_row (vsr_snapshot req))))"

text \<open>A request without a cluster dereferences a nil pointer.\<close>

definition sync_volume_snapshot_list :: "connector \<Rightarrow> nat option \<Rightarrow> (err + unit) op" where
  "sync_volume_snapshot_list connect c =
     (case c of None \<Rightarrow> failed_with NilDereference
      | Some cid \<Rightarrow> after (fetch (new_synchronizer connect cid) (\<lambda>s. sync_cluster_volume_snapshot_list s (no_options\<lparr>opt_force := True\<rparr>)))
          (succeed ()))"

section \<open>Volume groups\<close>

text \<open>The connection of a cluster as its row has it; whose cluster it is does not matter here.\<close>

definition get_connection_info :: "nat \<Rightarrow> (err + connection_info) op" where
  "get_connection_info cid =
     given (look_up (NotFoundCluster cid) cl_id (\<lambda>db. filter (\<lambda>c. cond_nat cid (cl_id c)) (db_cluster db)))
       (\<lambda>c. succeed \<lparr>ci_type_code = cl_type_code c, ci_api_server_url = cl_api_server_url c, ci_credential = cl_credential c,
          ci_tenant_id = []\<rparr>)"

definition with_cluster ::
    "decryption \<Rightarrow> cluster_client \<Rightarrow> (err + connection_info) op \<Rightarrow> (cluster_api \<Rightarrow> (err + 'a) op) \<Rightarrow> (err + 'a) op" where
  "with_cluster decrypt client conn k =
     given conn (\<lambda>c. given (State_Monad.return (decrypted decrypt c)) (\<lambda>c. dialled client c k))"

text \<open>
  A volume or a storage of a group is the row with the least key that has its UUID: of any cluster in
  the list, of the tenant or the cluster of the request in the lookup.
\<close>

definition volume_named :: "nat \<Rightarrow> string \<Rightarrow> (err + cluster_volume) op" where
  "volume_named t u = db_res (first_row vol_id (\<lambda>db. filter (\<lambda>v. cond_nat t (vol_cluster_tenant_id v) \<and> cond_str u (vol_uuid v)) (db_volume db)))"

definition storage_named :: "nat \<Rightarrow> string \<Rightarrow> (err + cluster_storage) op" where
  "storage_named cid u = db_res (first_row st_id (\<lambda>db. filter (\<lambda>s. cond_nat cid (st_cluster_id s) \<and> cond_str u (st_uuid s)) (db_storage db)))"

definition shown_named :: "('a \<Rightarrow> 'a) \<Rightarrow> ('b \<Rightarrow> (err + 'a) op) \<Rightarrow> 'b list \<Rightarrow> (err + 'a list) op" where
  "shown_named f look = gather (\<lambda>x. given (look x) (\<lambda>r. succeed (f r)))"

definition get_volume_group_list ::
    "decryption \<Rightarrow> cluster_client \<Rightarrow> nat \<Rightarrow> (err + volume_group list) op" where
  "get_volume_group_list decrypt client cid =
     (if cid = 0 then failed_with (RequiredParameter ''cluster.id'')
      else with_cluster decrypt client (get_connection_info cid) (\<lambda>cli.
        given (ask (ca_get_volume_group_list cli)) (\<lambda>gs.
        gather (\<lambda>g.
          given (ask (ca_get_volume_group cli ((0, 0), vg_uuid g))) (\<lambda>g.
          given (shown_named shown_volume (\<lambda>v. volume_named 0 (vol_uuid v)) (vg_volumes g)) (\<lambda>vs.
            succeed (g\<lparr>vg_storages := [], vg_volumes := vs\<rparr>)))) gs)))"

definition tenant_request :: "volume_group_lookup \<Rightarrow> lookup_request" where
  "tenant_request req = \<lparr>lr_cluster_id = vgl_cluster_id req, lr_resource_id = vgl_cluster_tenant_id req,
     lr_uuid = [], lr_name = [], lr_cluster_tenant_id = 0\<rparr>"

definition get_volume_group_by_uuid ::
    "decryption \<Rightarrow> cluster_client \<Rightarrow> request_context \<Rightarrow> volume_group_lookup \<Rightarrow> (err + volume_group \<times> tenant_view) op" where
  "get_volume_group_by_uuid decrypt client ctx req =
     after (validating 1 (\<lambda>db fault. validate_get_cluster_volume_group_request db (fault 0) req))
      (with_cluster decrypt client (get_connection_info (vgl_cluster_id req)) (\<lambda>cli.
        given (ask (ca_get_volume_group cli ((vgl_cluster_id req, vgl_cluster_tenant_id req), vgl_cluster_volume_group_uuid req))) (\<lambda>g.
        given (get_tenant_view ctx (tenant_request req)) (\<lambda>t.
        given (shown_named shown_storage (\<lambda>s. storage_named (vgl_cluster_id req) (st_uuid s)) (vg_storages g)) (\<lambda>ss.
        given (shown_named shown_volume (\<lambda>v. volume_named (vgl_cluster_tenant_id req) (vol_uuid v)) (vg_volumes g)) (\<lambda>vs.
          succeed (g\<lparr>vg_storages := ss, vg_volumes := vs\<rparr>, t)))))))"

definition group_call_of :: "string \<Rightarrow> volume_group_message option \<Rightarrow> volume_group" where
  "group_call_of u m = \<lparr>vg_uuid = u, vg_name = getf vgm_name [] m, vg_description = getf vgm_description [] m,
     vg_storages = map (\<lambda>s. storage_row (Some s)) (getf vgm_storages [] m), vg_volumes = []\<rparr>"

definition create_volume_group ::
    "externals \<Rightarrow> decryption \<Rightarrow> cluster_client \<Rightarrow> volume_group_request \<Rightarrow> (err + volume_group) op" where
  "create_volume_group ext decrypt client req =
     on_cluster decrypt client (vgr_conn req) (\<lambda>c. validate_create_cluster_volume_group_request ext (req\<lparr>vgr_conn := c\<rparr>)) (\<lambda>cli.
       show_answer (\<lambda>g. g\<lparr>vg_storages := map shown_storage (vg_storages g), vg_volumes := []\<rparr>)
         (ca_create_volume_group cli (tenant_row (vgr_tenant req), group_call_of [] (vgr_volume_group req))))"

definition delete_volume_group ::
    "externals \<Rightarrow> decryption \<Rightarrow> cluster_client \<Rightarrow> volume_group_request \<Rightarrow> (err + unit) op" where
  "delete_volume_group ext decrypt client req =
     on_cluster decrypt client (vgr_conn req) (\<lambda>c. validate_delete_cluster_volume_group_request ext (req\<lparr>vgr_conn := c\<rparr>)) (\<lambda>cli.
       told (ca_delete_volume_group cli (tenant_row (vgr_tenant req),
         group_call_of (getf vgm_uuid [] (vgr_volume_group req)) (vgr_volume_group req))))"

definition update_volume_group ::
    "externals \<Rightarrow> decryption \<Rightarrow> cluster_client \<Rightarrow> volume_group_request \<Rightarrow> (err + unit) op" where
  "update_volume_group ext decrypt client req =
     on_cluster decrypt client (vgr_conn req) (\<lambda>c. validate_update_cluster_volume_group_request ext (req\<lparr>vgr_conn := c\<rparr>)) (\<lambda>cli.
       told (ca_update_volume_group cli (tenant_row (vgr_tenant req),
         group_call_of (getf vgm_uuid [] (vgr_volume_group req)) (vgr_volume_group req),
         map (\<lambda>v. volume_row (Some v)) (vgr_add_volumes req), map (\<lambda>v. volume_row (Some v)) (vgr_delete_volumes req))))"

definition create_volume_group_snapshot ::
    "externals \<Rightarrow> decryption \<Rightarrow> cluster_client \<Rightarrow> volume_group_request \<Rightarrow> (err + volume_group_snapshot) op" where
  "create_volume_group_snapshot ext decrypt client req =
     on_cluster decrypt client (vgr_conn req) (\<lambda>c. validate_create_cluster_volume_group_snapshot_request ext (req\<lparr>vgr_conn := c\<rparr>)) (\<lambda>cli.
       show_answer (\<lambda>s. s) (ca_create_volume_group_snapshot cli (tenant_row (vgr_tenant req), getf vgm_uuid [] (vgr_volume_group req),
         \<lparr>vgs_uuid = [], vgs_name = getf ssm_name [] (vgr_volume_group_snapshot req),
          vgs_description = getf ssm_description [] (vgr_volume_group_snapshot req)\<rparr>)))"

definition delete_volume_group_snapshot ::
    "externals \<Rightarrow> decryption \<Rightarrow> cluster_client \<Rightarrow> volume_group_request \<Rightarrow> (err + unit) op" where
  "delete_volume_group_snapshot ext decrypt client req =
     on_cluster decrypt client (vgr_conn req) (\<lambda>c. validate_delete_cluster_volume_group_snapshot_request ext (req\<lparr>vgr_conn := c\<rparr>)) (\<lambda>cli.
       told (ca_delete_volume_group_snapshot cli (tenant_row (vgr_tenant req), getf vgm_uuid [] (vgr_volume_group req),
         getf ssm_uuid [] (vgr_volume_group_snapshot req))))"

definition get_volume_group_snapshot_list ::
    "externals \<Rightarrow> decryption \<Rightarrow> cluster_client \<Rightarrow> volume_group_request \<Rightarrow> (err + (string \<times> volume_group_snapshot) list) op" where
  "get_volume_group_snapshot_list ext decrypt client req =
     on_cluster decrypt client (vgr_conn req) (\<lambda>c. validate_get_cluster_volume_group_snapshot_list_request ext (req\<lparr>vgr_conn := c\<rparr>))
       (\<lambda>cli. ask (ca_get_volume_group_snapshot_list cli))"

section \<open>Instances\<close>

definition start_instance ::
    "externals \<Rightarrow> decryption \<Rightarrow> cluster_client \<Rightarrow> resource_request \<Rightarrow> (err + unit) op" where
  "start_instance ext decrypt client req =
     on_cluster decrypt client (rr_conn req) (\<lambda>c. validate_start_cluster_instance_request ext (req\<lparr>rr_conn := c\<rparr>)) (\<lambda>cli.
       told (ca_start_instance cli (getf tm_uuid [] (rr_tenant req), getf im_uuid [] (rr_instance req))))"

definition stop_instance ::
    "externals \<Rightarrow> decryption \<Rightarrow> cluster_client \<Rightarrow> resource_request \<Rightarrow> (err + unit) op" where
  "stop_instance ext decrypt client req =
     on_cluster decrypt client (rr_conn req) (\<lambda>c. validate_stop_cluster_instance_request ext (req\<lparr>rr_conn := c\<rparr>)) (\<lambda>cli.
       told (ca_stop_instance cli (getf tm_uuid [] (rr_tenant req), getf im_uuid [] (rr_instance req))))"

definition delete_instance_request ::
    "externals \<Rightarrow> decryption \<Rightarrow> cluster_client \<Rightarrow> resource_request \<Rightarrow> (err + unit) op" where
  "delete_instance_request ext decrypt client req =
     on_cluster decrypt client (rr_conn req) (\<lambda>c. validate_delete_cluster_instance_request ext (req\<lparr>rr_conn := c\<rparr>)) (\<lambda>cli.
       told (ca_delete_instance cli (getf tm_uuid [] (rr_tenant req), getf im_uuid [] (rr_instance req))))"

definition assigned_network_of :: "instance_network_message \<Rightarrow> assigned_network" where
  "assigned_network_of n = \<lparr>an_network = named_network (getf nm_uuid [] (inm_network n)),
     an_subnet = named_subnet (getf snm_uuid [] (inm_subnet n)),
     an_floating_ip = map_option (\<lambda>f. named_floating_ip (fm_uuid f)) (inm_floating_ip n),
     an_dhcp_flag = inm_dhcp_flag n, an_ip_address = inm_ip_address n\<rparr>"

text \<open>The bootable volumes are numbered in the order of the request, the others get -1.\<close>

fun attached_volumes :: "int \<Rightarrow> instance_volume_message list \<Rightarrow> attached_volume list" where
  "attached_volumes n [] = []"
| "attached_volumes n (v # vs) =
     (let bootable = getf vm_bootable False (ivm_volume v) in
      \<lparr>av_volume = named_volume (getf vm_uuid [] (ivm_volume v)), av_device_path = ivm_device_path v,
       av_boot_index = (if bootable then n else -1)\<rparr> # attached_volumes (if bootable then n + 1 else n) vs)"

definition instance_call_of :: "create_instance_request \<Rightarrow> string \<Rightarrow> instance_call" where
  "instance_call_of req script =
     \<lparr>ic_tenant_uuid = getf tm_uuid [] (cir_tenant req), ic_hostname = getf hm_hostname [] (cir_hypervisor req),
      ic_zone_name = getf (\<lambda>n. n) [] (cir_availability_zone_name req), ic_spec_uuid = getf spm_uuid [] (cir_spec req),
      ic_keypair_name = getf kpm_name [] (cir_keypair req), ic_instance = instance_row (cir_instance req), ic_user_data = script,
      ic_networks = map assigned_network_of (cir_networks req),
      ic_security_groups = map (\<lambda>g. named_group (sgm_uuid g) (sgm_name g)) (cir_security_groups req),
      ic_volumes = attached_volumes 0 (cir_volumes req)\<rparr>"

text \<open>The script of the instance, looked up by its identifier; a missing one is empty.\<close>

definition script_of :: "nat \<Rightarrow> (err + string) op" where
  "script_of i = do {
     s \<leftarrow> script_row i;
     State_Monad.return (case s of Inl RecordNotFound \<Rightarrow> Inr [] | Inl e \<Rightarrow> Inl (unusable_database e) | Inr s \<Rightarrow> Inr (us_user_data s))
   }"

definition create_instance ::
    "externals \<Rightarrow> decryption \<Rightarrow> cluster_client \<Rightarrow> create_instance_request \<Rightarrow> (err + cluster_instance) op" where
  "create_instance ext decrypt client req =
     on_cluster decrypt client (cir_conn req) (\<lambda>c. validate_create_cluster_instance_request ext (req\<lparr>cir_conn := c\<rparr>)) (\<lambda>cli.
       given (State_Monad.return (hypervisor_row (cir_hypervisor req))) (\<lambda>h.
       after (ask (ca_preprocess_creating_instance cli
           (map (\<lambda>v. storage_row (getf vm_storage None (ivm_volume v))) (cir_volumes req), h)))
       (given (script_of (ins_id (instance_row (cir_instance req)))) (\<lambda>script.
         show_answer shown_instance (ca_create_instance cli (instance_call_of req script))))))"

definition check_is_exist_instance ::
    "decryption \<Rightarrow> cluster_client \<Rightarrow> nat \<Rightarrow> string \<Rightarrow> (err + bool) op" where
  "check_is_exist_instance decrypt client cid u =
     (if cid = 0 then failed_with (RequiredParameter ''cluster_id'')
      else if u = [] then failed_with (RequiredParameter ''cluster_instance_uuid'')
      else with_cluster decrypt client (execute (get_connection_info cid)) (\<lambda>cli. do {
        e \<leftarrow> ask (ca_get_instance cli u);
        State_Monad.return (case e of None \<Rightarrow> Inr True | Some ClientNotFound \<Rightarrow> Inr False | Some e \<Rightarrow> Inl e)
      }))"

end
