(* ===== verification/ResourceHandlers.thy ===== *)
theory ResourceHandlers
  imports ResourceCalls ResourceDocuments
begin

text \<open>
  The requests about resources (\<open>handler/handler.go\<close>). The requests that read the inventory are admitted
  only with a user and a tenant, those that go to a cluster are not looked at. A panic inside an
  operation counts as its error.
\<close>

section \<open>What the requests share\<close>

definition served :: "string \<Rightarrow> rpc \<Rightarrow> (err + 'a) op \<Rightarrow> 'a reply op" where
  "served name r m = admitted name r (stage (failure name ''get'') m answer)"

definition unless_empty :: "string \<Rightarrow> (err + 'a list \<times> 'b) op \<Rightarrow> ('a list \<times> 'b) reply op" where
  "unless_empty name m = stage (failure name ''get'') m (\<lambda>(xs, p).
     if xs = [] then State_Monad.return (Inl (''cdm-center.manager.'' @ name @ ''.success-get'', NoContent)) else answer (xs, p))"

definition served_list :: "string \<Rightarrow> rpc \<Rightarrow> (err + 'a list \<times> 'b) op \<Rightarrow> ('a list \<times> 'b) reply op" where
  "served_list name r m = admitted name r (unless_empty name m)"

definition passed_on :: "string \<Rightarrow> string \<Rightarrow> (err + 'a) op \<Rightarrow> 'a reply op" where
  "passed_on name step m = stage (failure name step) m answer"

section \<open>Hypervisors, availability zones and tenants\<close>

definition get_hypervisor_list_handler where
  "get_hypervisor_list_handler ext r req p =
     served_list ''get_cluster_hypervisor_list'' r (get_hypervisor_list ext (context_of r) req p)"

definition get_hypervisor_handler where
  "get_hypervisor_handler r req = served ''get_cluster_hypervisor'' r (get_hypervisor_view (context_of r) req)"

definition update_hypervisor_handler where
  "update_hypervisor_handler r req =
     stage_err (failure ''update_cluster_hypervisor'' ''cluster_db_lock'') cluster_db_lock
      (admitted ''update_cluster_hypervisor'' r
        (stage (failure ''update_cluster_hypervisor'' ''update'') (update_hypervisor (context_of r) req) answer))"

definition get_availability_zone_list_handler where
  "get_availability_zone_list_handler r req =
     served_list ''get_cluster_availability_zone_list'' r (get_availability_zone_list (context_of r) req)"

definition get_availability_zone_handler where
  "get_availability_zone_handler r req = served ''get_cluster_availability_zone'' r (get_zone_view (context_of r) req)"

definition get_tenant_list_handler where
  "get_tenant_list_handler r req = served_list ''get_cluster_tenant_list'' r (get_tenant_list (context_of r) req)"

definition create_tenant_handler where
  "create_tenant_handler ext decrypt client req = passed_on ''create_cluster_tenant'' ''create'' (create_tenant ext decrypt client req)"

definition get_tenant_handler where
  "get_tenant_handler r req = served ''get_cluster_tenant'' r (get_tenant_view (context_of r) req)"

definition delete_tenant_handler where
  "delete_tenant_handler ext decrypt client req =
     passed_on ''delete_cluster_tenant'' ''delete'' (delete_tenant_request ext decrypt client req)"

definition check_is_exist_tenant_handler where
  "check_is_exist_tenant_handler r req = served ''check_is_exist_cluster_tenant'' r (check_is_exist_tenant (context_of r) req)"

section \<open>Networks\<close>

definition get_network_list_handler where
  "get_network_list_handler r req = served_list ''get_cluster_network_list'' r (get_network_list (context_of r) req)"

definition create_network_handler where
  "create_network_handler ext decrypt client req =
     passed_on ''create_cluster_network'' ''create'' (create_network ext decrypt client req)"

definition delete_network_handler where
  "delete_network_handler ext decrypt client req =
     passed_on ''delete_cluster_network'' ''delete'' (delete_network_request ext decrypt client req)"

definition get_network_handler where
  "get_network_handler r req = served ''get_cluster_network'' r (get_network_view (context_of r) req)"

definition get_network_by_uuid_handler where
  "get_network_by_uuid_handler r req = served ''get_cluster_network_by_uuid'' r (get_network_by_uuid (context_of r) req)"

definition create_subnet_handler where
  "create_subnet_handler ext decrypt client req =
     passed_on ''create_cluster_subnet'' ''create'' (create_subnet ext decrypt client req)"

definition get_subnet_handler where
  "get_subnet_handler r req = served ''get_cluster_subnet'' r (get_subnet_view (context_of r) req)"

definition create_floating_ip_handler where
  "create_floating_ip_handler ext decrypt client req =
     passed_on ''create_cluster_floating_ip'' ''create'' (create_floating_ip ext decrypt client req)"

definition delete_floating_ip_handler where
  "delete_floating_ip_handler ext decrypt client req =
     passed_on ''delete_cluster_floating_ip'' ''delete'' (delete_floating_ip_request ext decrypt client req)"

definition get_floating_ip_handler where
  "get_floating_ip_handler r req = served ''get_cluster_floating_ip'' r (get_floating_ip_view (context_of r) req)"

definition check_is_exist_floating_ip_handler where
  "check_is_exist_floating_ip_handler r req =
     served ''check_is_exist_cluster_floating_ip'' r (check_is_exist_floating_ip (context_of r) req)"

definition create_router_handler where
  "create_router_handler ext decrypt client req =
     passed_on ''create_cluster_router'' ''create'' (create_router ext decrypt client req)"

definition delete_router_handler where
  "delete_router_handler ext decrypt client req =
     passed_on ''delete_cluster_router'' ''delete'' (delete_router_request ext decrypt client req)"

definition get_router_list_handler where
  "get_router_list_handler r req = served_list ''get_cluster_router_list'' r (get_router_list (context_of r) req)"

definition get_router_handler where
  "get_router_handler r req = served ''get_cluster_router'' r (get_router_view (context_of r) req)"

definition check_is_exist_routing_interface_handler where
  "check_is_exist_routing_interface_handler r req =
     served ''check_is_exist_cluster_routing_interface'' r (check_is_exist_routing_interface (context_of r) req)"

section \<open>Storages\<close>

text \<open>The requests that read storages are not admitted, their check asks for the owner of the cluster.\<close>

definition get_storage_list_handler where
  "get_storage_list_handler r req p = unless_empty ''get_cluster_storage_list'' (get_storage_list (context_of r) req p)"

definition get_storage_handler where
  "get_storage_handler r req = passed_on ''get_cluster_storage'' ''get'' (get_storage_view (context_of r) req)"

text \<open>
  The metadata is stored whoever owns the cluster. \<open>sprint\<close> is \<open>fmt.Sprint\<close> of a decoded value.
\<close>

definition update_storage_metadata_handler ::
    "(json \<Rightarrow> string) \<Rightarrow> rpc \<Rightarrow> nat \<Rightarrow> nat \<Rightarrow> (string \<times> string) list \<Rightarrow> (string \<times> string) list reply op" where
  "update_storage_metadata_handler sprint r cid sid metadata =
     (let name = ''update_cluster_storage_metadata'' in
      admitted name r
       (stage_err (failure name ''get_storage'')
          (State_Monad.return (first_error [required_id ''cluster_id'' cid, required_id ''cluster_storage_id'' sid]))
       (stage (failure name ''get_storage'') (get_storage cid sid) (\<lambda>s.
        stage_err (failure name ''merge'') (merge_storage_metadata s (map (map_prod (\<lambda>k. k) JStr) metadata))
       (stage (failure name ''get'') (get_storage_metadata s) (\<lambda>md. answer (map (map_prod (\<lambda>k. k) sprint) md)))))))"

section \<open>Volume groups\<close>

definition get_volume_group_list_handler where
  "get_volume_group_list_handler decrypt client cid =
     unless_empty ''get_cluster_volume_group_list''
       (given (transaction_with (get_volume_group_list decrypt client cid)) (\<lambda>gs. succeed (gs, ())))"

definition get_volume_group_by_uuid_handler where
  "get_volume_group_by_uuid_handler decrypt client r req =
     passed_on ''get_cluster_volume_group'' ''get'' (transaction_with (get_volume_group_by_uuid decrypt client (context_of r) req))"

definition create_volume_group_handler where
  "create_volume_group_handler ext decrypt client req =
     passed_on ''create_cluster_volume_group'' ''create'' (create_volume_group ext decrypt client req)"

definition delete_volume_group_handler where
  "delete_volume_group_handler ext decrypt client req =
     passed_on ''delete_cluster_volume_group'' ''delete'' (delete_volume_group ext decrypt client req)"

definition update_volume_group_handler where
  "update_volume_group_handler ext decrypt client req =
     passed_on ''update_cluster_volume_group'' ''update'' (update_volume_group ext decrypt client req)"

text \<open>The snapshot of a group is refused.\<close>

definition create_volume_group_snapshot_handler :: "unit reply op" where
  "create_volume_group_snapshot_handler = State_Monad.return
     (Inl (failure ''create_cluster_volume_group_snapshot'' ''create'', UnsupportedStorageType []))"

definition get_volume_group_snapshot_list_handler where
  "get_volume_group_snapshot_list_handler ext decrypt client req =
     stage ''cdm-center.manager.get_cluster_volume_group_snapshot_list.failure''
       (get_volume_group_snapshot_list ext decrypt client req) answer"

text \<open>The lock of a volume group is like the one of a cluster; its name is read through a nil pointer when the request has no group.\<close>

definition cluster_volume_group_snapshot_lock :: "err option op" where
  "cluster_volume_group_snapshot_lock = cluster_db_lock"

definition delete_volume_group_snapshot_handler where
  "delete_volume_group_snapshot_handler ext decrypt client req =
     (case vgr_volume_group req of None \<Rightarrow> State_Monad.return (Inl ([], NilDereference))
      | Some _ \<Rightarrow>
         stage_err (failure ''delete_cluster_volume_group_snapshot'' ''volume_group_snapshot_db_lock'')
           cluster_volume_group_snapshot_lock
           (passed_on ''delete_cluster_volume_group_snapshot'' ''delete'' (delete_volume_group_snapshot ext decrypt client req)))"

section \<open>Volumes\<close>

definition get_volume_list_handler where
  "get_volume_list_handler r req = served_list ''get_cluster_volume_list'' r (get_volume_list (context_of r) req)"

definition get_volume_handler where
  "get_volume_handler r req = served ''get_cluster_volume'' r (get_volume_view (context_of r) req)"

text \<open>
  The target storage is written through the answer, which is a nil pointer when there was no metadata.
  A copy answers with the volume of the request; neither it nor the deletions do anything.
\<close>

definition import_volume_handler where
  "import_volume_handler ext decrypt client req metadata =
     stage (failure ''import_cluster_volume'' ''import'') (import_volume ext decrypt client req metadata) (\<lambda>pairs.
       case pairs of None \<Rightarrow> State_Monad.return (Inl ([], NilDereference))
       | Some ps \<Rightarrow> answer (mvr_source_storage req, mvr_target_storage req, ps))"

definition copy_volume_handler where
  "copy_volume_handler req = answer (mvr_volume req, mvr_source_storage req, mvr_target_storage req)"

definition delete_volume_copy_handler :: "move_volume_request \<Rightarrow> unit reply op" where
  "delete_volume_copy_handler req = answer ()"

definition delete_volume_handler :: "create_volume_request \<Rightarrow> unit reply op" where
  "delete_volume_handler req = answer ()"

definition unmanage_volume_handler where
  "unmanage_volume_handler ext decrypt client req metadata =
     passed_on ''unmanage_cluster_volume'' ''unmanage'' (unmanage_volume ext decrypt client req metadata)"

definition sync_volume_snapshot_list_handler where
  "sync_volume_snapshot_list_handler connect c =
     (case c of None \<Rightarrow> State_Monad.return (Inl ([], NilDereference))
      | Some _ \<Rightarrow>
         stage_err (failure ''sync_cluster_volume_snapshot_list'' ''cluster_db_lock'') cluster_db_lock
           (passed_on ''sync_cluster_volume_snapshot_list'' ''sync'' (sync_volume_snapshot_list connect c)))"

section \<open>Instances\<close>

definition get_instance_list_handler where
  "get_instance_list_handler r req = served_list ''get_cluster_instance_list'' r (get_instance_list (context_of r) req)"

definition get_instance_handler where
  "get_instance_handler r req = served ''get_cluster_instance'' r (get_instance_view (context_of r) req)"

definition get_instance_by_uuid_handler where
  "get_instance_by_uuid_handler r req = served ''get_cluster_instance_by_uuid'' r (get_instance_by_uuid (context_of r) req)"

definition get_instance_number_handler where
  "get_instance_number_handler r cid =
     passed_on ''get_cluster_instance_number'' ''get'' (transaction_with (get_instance_number (context_of r) cid))"

definition check_is_exist_instance_handler where
  "check_is_exist_instance_handler decrypt client r cid u =
     served ''check_is_exist_cluster_instance'' r (check_is_exist_instance decrypt client cid u)"

definition create_instance_handler where
  "create_instance_handler ext decrypt client req =
     passed_on ''create_cluster_instance'' ''create'' (create_instance ext decrypt client req)"

definition delete_instance_handler where
  "delete_instance_handler ext decrypt client req =
     passed_on ''delete_cluster_instance'' ''delete'' (delete_instance_request ext decrypt client req)"

definition stop_instance_handler where
  "stop_instance_handler ext decrypt client req =
     passed_on ''stop_cluster_instance'' ''stop'' (stop_instance ext decrypt client req)"

section \<open>Specs, keypairs and scripts\<close>

definition get_spec_by_uuid_handler where
  "get_spec_by_uuid_handler r req = served ''get_cluster_instance_spec_by_uuid'' r (get_spec_by_uuid (context_of r) req)"

definition check_is_exist_spec_handler where
  "check_is_exist_spec_handler connect r req =
     served ''check_is_exist_cluster_instance_spec'' r (check_is_exist_spec connect (context_of r) req)"

definition create_instance_spec_handler where
  "create_instance_spec_handler ext decrypt client req =
     passed_on ''create_cluster_instance_spec'' ''create'' (create_instance_spec ext decrypt client req)"

definition delete_instance_spec_handler where
  "delete_instance_spec_handler ext decrypt client connect req =
     passed_on ''delete_cluster_instance_spec'' ''delete'' (delete_instance_spec_request ext decrypt client connect req)"

definition get_keypair_handler where
  "get_keypair_handler r req = served ''get_cluster_keypair'' r (get_keypair_view (context_of r) req)"

definition check_is_exist_keypair_handler where
  "check_is_exist_keypair_handler r req = served ''check_is_exist_cluster_keypair'' r (check_is_exist_keypair (context_of r) req)"

definition create_keypair_handler where
  "create_keypair_handler ext decrypt client req =
     passed_on ''create_cluster_keypair'' ''create'' (create_keypair ext decrypt client req)"

definition delete_keypair_handler where
  "delete_keypair_handler ext decrypt client req =
     passed_on ''delete_cluster_keypair'' ''delete'' (delete_keypair_request ext decrypt client req)"

definition get_user_script_handler where
  "get_user_script_handler r iid = served ''get_cluster_instance_user_script'' r (get_instance_user_script iid)"

definition update_user_script_handler :: "(string \<Rightarrow> err + string) \<Rightarrow> rpc \<Rightarrow> nat \<Rightarrow> string \<Rightarrow> unit reply op" where
  "update_user_script_handler base64 r iid script =
     admitted ''update_cluster_instance_user_script'' r
      (stage_err (failure ''update_cluster_instance_user_script'' ''update'') (update_instance_user_script base64 iid script) (answer ()))"

section \<open>Security groups\<close>

definition create_security_group_handler where
  "create_security_group_handler ext decrypt client req =
     passed_on ''create_cluster_security_group'' ''create'' (create_security_group ext decrypt client req)"

definition create_security_group_rule_handler where
  "create_security_group_rule_handler ext decrypt client req =
     passed_on ''create_cluster_security_group_rule'' ''create'' (create_security_group_rule ext decrypt client req)"

definition delete_security_group_handler where
  "delete_security_group_handler ext decrypt client req =
     passed_on ''delete_cluster_security_group'' ''delete'' (delete_security_group_request ext decrypt client req)"

definition get_security_group_list_handler where
  "get_security_group_list_handler r req =
     served_list ''get_cluster_security_group_list'' r (get_security_group_list (context_of r) req)"

definition get_security_group_handler where
  "get_security_group_handler r req = served ''get_cluster_security_group'' r (get_security_group_view (context_of r) req)"

definition check_is_exist_security_group_handler where
  "check_is_exist_security_group_handler r req =
     served ''check_is_exist_cluster_security_group'' r (check_is_exist_security_group (context_of r) req)"

end
