(* ===== verification/InventoryResults.thy ===== *)
theory InventoryResults
  imports ResourceHandlers HandlerResults
begin

text \<open>
  What the requests that read resources guarantee: who may read the inventory, and that reading changes
  nothing.
\<close>

section \<open>Who may read\<close>

definition may_read :: "request_context \<Rightarrow> nat \<Rightarrow> database \<Rightarrow> bool" where
  "may_read ctx cid db \<longleftrightarrow> (\<exists>c \<in> set (db_cluster db). cl_id c = cid \<and>
     (is_admin_user (ctx_user ctx) \<or>
      cond_nat (ctx_tenant ctx) (cl_tenant_id c) \<and> is_group_user (ctx_user ctx) (cl_owner_group_id c)))"

lemma owner_may_read:
  assumes "is_cluster_owner ctx db fault cid = None" and "cid \<noteq> 0"
  shows "may_read ctx cid db"
proof -
  obtain c where "first fault cl_id (owner_condition ctx cid) (db_cluster db) = Row c"
    and u: "\<not> (\<not> is_admin_user (ctx_user ctx) \<and> \<not> is_group_user (ctx_user ctx) (cl_owner_group_id c))"
    using assms(1) by (auto simp: is_cluster_owner_def fail_if_None split: first.splits)
  then have "c \<in> set (db_cluster db)" "owner_condition ctx cid c" by (auto dest: first_Row)
  then show ?thesis using u assms(2) by (auto simp: may_read_def owner_condition_def cond_nat_def split: if_splits)
qed

text \<open>An operation that succeeds, or a check that passes, only in a database with a property.\<close>

definition demands :: "(database \<Rightarrow> bool) \<Rightarrow> (err + 'a) op \<Rightarrow> bool" where
  "demands P m \<longleftrightarrow> (\<forall>w x w'. run_state m w = (Inr x, w') \<longrightarrow> P (w_db w))"

definition clears :: "(database \<Rightarrow> bool) \<Rightarrow> err option op \<Rightarrow> bool" where
  "clears P m \<longleftrightarrow> (\<forall>w w'. run_state m w = (None, w') \<longrightarrow> P (w_db w))"

named_theorems demand_intros

lemma demands_after [demand_intros]: "clears P m \<Longrightarrow> demands P (after m k)"
  by (auto simp: demands_def clears_def after_Inr)

lemma demands_given [demand_intros]: "demands P m \<Longrightarrow> demands P (given m k)"
  by (auto simp: demands_def given_Inr)

lemma demands_execute [demand_intros]: "demands P m \<Longrightarrow> demands P (execute m)"
  by (auto simp: demands_def execute_def map_sum_Inr split: prod.splits)

lemma clears_execute [demand_intros]: "clears P m \<Longrightarrow> clears P (execute_err m)"
  by (auto simp: clears_def execute_err_def split: prod.splits)

lemma clears_validating: "(\<And>db fault. v db fault = None \<Longrightarrow> P db) \<Longrightarrow> clears P (validating n v)"
  by (auto simp: clears_def validating_def)

text \<open>The same of a reply.\<close>

definition replies :: "(database \<Rightarrow> bool) \<Rightarrow> 'a reply op \<Rightarrow> bool" where
  "replies P m \<longleftrightarrow> (\<forall>w x w'. run_state m w = (Inr x, w') \<longrightarrow> P (w_db w))"

lemma replies_success: "replies P m \<Longrightarrow> \<exists>v. fst (run_state m w) = Inr v \<Longrightarrow> P (w_db w)"
  by (metis replies_def prod.collapse)

lemma replies_served [demand_intros]: "demands P m \<Longrightarrow> replies P (served name r m)"
  by (auto simp: served_def demands_def replies_def admitted_Inr stage_Inr)

lemma replies_unless_empty [demand_intros]: "demands P m \<Longrightarrow> replies P (unless_empty name m)"
  by (auto simp: unless_empty_def demands_def replies_def stage_Inr)

lemma replies_served_list [demand_intros]: "demands P m \<Longrightarrow> replies P (served_list name r m)"
  using replies_unless_empty [of P m name] by (auto simp: served_list_def replies_def admitted_Inr)

lemma replies_passed_on [demand_intros]: "demands P m \<Longrightarrow> replies P (passed_on name step m)"
  by (auto simp: passed_on_def demands_def replies_def stage_Inr)

lemma lr_truncate: "lr_cluster_id (lookup_request.truncate req) = lr_cluster_id req"
  by (simp add: lookup_request.defs)

text \<open>The contract of the validators of lookups, and what holds of every request that is checked with one.\<close>

locale reading_guard =
  fixes v :: lookup_validator
  assumes guarded: "v ctx db fault req = None \<Longrightarrow> lr_cluster_id req \<noteq> 0 \<and> is_cluster_owner ctx db (fault 0) (lr_cluster_id req) = None"
begin

lemma checked_clears: "clears (may_read ctx (lr_cluster_id req)) (checked v ctx req)"
  unfolding checked_def by (rule clears_validating) (auto dest: guarded intro: owner_may_read)

lemma checked_list_clears: "clears (may_read ctx (lr_cluster_id req)) (checked_list v ctx req)"
  using checked_clears [of ctx "lookup_request.truncate req"] by (simp add: checked_list_def lr_truncate)

end

lemmas guard_simps = first_error_None required_id_def fail_if_None

interpretation zone_guard: reading_guard validate_get_availability_zone_request
  by unfold_locales (auto simp: validate_get_availability_zone_request_def guard_simps)

interpretation zone_list_guard: reading_guard validate_get_availability_zone_list_request
  by unfold_locales (auto simp: validate_get_availability_zone_list_request_def guard_simps)

interpretation spec_exists_guard: reading_guard validate_check_is_exist_instance_spec
  by unfold_locales (auto simp: validate_check_is_exist_instance_spec_def guard_simps)

interpretation hypervisor_guard: reading_guard validate_hypervisor_request
  by unfold_locales (auto simp: validate_hypervisor_request_def guard_simps)

interpretation tenant_guard: reading_guard validate_get_cluster_tenant_request
  by unfold_locales (auto simp: validate_get_cluster_tenant_request_def guard_simps)

interpretation tenant_list_guard: reading_guard validate_cluster_tenant_list_request
  by unfold_locales (auto simp: validate_cluster_tenant_list_request_def guard_simps)

interpretation tenant_exists_guard: reading_guard validate_check_is_exist_tenant
  by unfold_locales (auto simp: validate_check_is_exist_tenant_def guard_simps)

interpretation storage_guard: reading_guard validate_storage_request
  by unfold_locales (auto simp: validate_storage_request_def guard_simps)

interpretation keypair_guard: reading_guard validate_keypair_get_request
  by unfold_locales (auto simp: validate_keypair_get_request_def guard_simps)

interpretation keypair_exists_guard: reading_guard validate_check_is_exist_keypair
  by unfold_locales (auto simp: validate_check_is_exist_keypair_def guard_simps)

interpretation spec_guard: reading_guard validate_instance_spec_by_uuid_request
  by unfold_locales (auto simp: validate_instance_spec_by_uuid_request_def guard_simps)

interpretation floating_ip_guard: reading_guard validate_get_cluster_floating_ip
  by unfold_locales (auto simp: validate_get_cluster_floating_ip_def guard_simps)

interpretation floating_ip_exists_guard: reading_guard validate_check_is_exist_floating_ip
  by unfold_locales (auto simp: validate_check_is_exist_floating_ip_def guard_simps)

interpretation network_guard: reading_guard validate_network_request
  by unfold_locales (auto simp: validate_network_request_def guard_simps)

interpretation network_uuid_guard: reading_guard validate_network_by_uuid_request
  by unfold_locales (auto simp: validate_network_by_uuid_request_def guard_simps)

interpretation network_list_guard: reading_guard validate_network_list_request
  by unfold_locales (auto simp: validate_network_list_request_def guard_simps)

interpretation subnet_guard: reading_guard validate_get_cluster_subnet_request
  by unfold_locales (auto simp: validate_get_cluster_subnet_request_def guard_simps)

interpretation router_guard: reading_guard validate_get_cluster_router_request
  by unfold_locales (auto simp: validate_get_cluster_router_request_def guard_simps)

interpretation router_list_guard: reading_guard validate_get_cluster_router_list_request
  by unfold_locales (auto simp: validate_get_cluster_router_list_request_def guard_simps)

interpretation interface_exists_guard: reading_guard validate_check_is_exist_routing_interface
  by unfold_locales (auto simp: validate_check_is_exist_routing_interface_def guard_simps)

interpretation group_guard: reading_guard validate_get_security_group
  by unfold_locales (auto simp: validate_get_security_group_def guard_simps)

interpretation group_list_guard: reading_guard validate_get_security_group_list
  by unfold_locales (auto simp: validate_get_security_group_list_def guard_simps)

interpretation group_exists_guard: reading_guard validate_check_is_exist_security_group
  by unfold_locales (auto simp: validate_check_is_exist_security_group_def guard_simps)

interpretation instance_guard: reading_guard validate_instance_request
  by unfold_locales (auto simp: validate_instance_request_def guard_simps)

interpretation instance_uuid_guard: reading_guard validate_instance_by_uuid_request
  by unfold_locales (auto simp: validate_instance_by_uuid_request_def guard_simps)

interpretation instance_list_guard: reading_guard validate_instance_list_request
  by unfold_locales (auto simp: validate_instance_list_request_def guard_simps)

text \<open>The requests with a validator of another shape.\<close>

lemma checked_volume_clears:
  assumes "\<And>db fault r. v ctx db fault r = None \<Longrightarrow> vr_cluster_id r \<noteq> 0 \<and> is_cluster_owner ctx db fault (vr_cluster_id r) = None"
  shows "clears (may_read ctx (lr_cluster_id req)) (checked_volume v ctx req)"
  unfolding checked_volume_def
proof (rule clears_validating)
  fix db and fault :: "nat \<Rightarrow> string option"
  assume "v ctx db (fault 0) (volume_request_of req) = None"
  from assms [OF this] show "may_read ctx (lr_cluster_id req) db"
    by (auto simp: volume_request_of_def intro: owner_may_read)
qed

lemma volume_guards [demand_intros]:
  "clears (may_read ctx (lr_cluster_id req)) (checked_volume validate_volume_request ctx req)"
  "clears (may_read ctx (lr_cluster_id req)) (checked_volume validate_volume_list_request ctx req)"
  by (rule checked_volume_clears, force simp: validate_volume_request_def validate_volume_list_request_def guard_simps)+

lemma hypervisor_list_guard [demand_intros]:
  "clears (may_read ctx (hlr_cluster_id req)) (validating n (\<lambda>db fault. validate_hypervisor_list_request ext ctx db fault req))"
  by (rule clears_validating) (auto simp: validate_hypervisor_list_request_def guard_simps intro: owner_may_read)

lemma storage_list_guard [demand_intros]:
  "clears (may_read ctx (slr_cluster_id req)) (validating n (\<lambda>db fault. validate_storage_list_request ctx db (fault 0) req))"
  by (rule clears_validating) (auto simp: validate_storage_list_request_def guard_simps intro: owner_may_read)

lemma network_list_clears [demand_intros]:
  "clears (may_read ctx (lr_cluster_id req))
     (validating n (\<lambda>db fault. validate_network_list_request ctx db fault (lookup_request.truncate req)))"
proof (rule clears_validating)
  fix db fault
  assume "validate_network_list_request ctx db fault (lookup_request.truncate req) = None"
  from network_list_guard.guarded [OF this] show "may_read ctx (lr_cluster_id req) db"
    by (auto simp: lr_truncate intro: owner_may_read)
qed

lemmas lookup_clears [demand_intros] =
  zone_guard.checked_clears hypervisor_guard.checked_clears tenant_guard.checked_clears tenant_exists_guard.checked_clears
  storage_guard.checked_clears keypair_guard.checked_clears keypair_exists_guard.checked_clears spec_guard.checked_clears
  floating_ip_guard.checked_clears floating_ip_exists_guard.checked_clears network_guard.checked_clears
  network_uuid_guard.checked_clears subnet_guard.checked_clears router_guard.checked_clears interface_exists_guard.checked_clears
  group_guard.checked_clears group_exists_guard.checked_clears instance_guard.checked_clears instance_uuid_guard.checked_clears

lemmas list_clears [demand_intros] =
  zone_list_guard.checked_list_clears tenant_list_guard.checked_list_clears router_list_guard.checked_list_clears
  group_list_guard.checked_list_clears instance_list_guard.checked_list_clears

lemma volume_list_clears [demand_intros]:
  "clears (may_read ctx (lr_cluster_id req)) (checked_volume validate_volume_list_request ctx (lookup_request.truncate (req :: list_request)))"
  using volume_guards(2) [of ctx "lookup_request.truncate req"] by (simp add: lr_truncate)

lemma lookups_demand [demand_intros]:
  "demands (may_read ctx (lr_cluster_id req)) (get_zone_view ctx req)"
  "demands (may_read ctx (lr_cluster_id req)) (get_hypervisor_view ctx req)"
  "demands (may_read ctx (lr_cluster_id req)) (get_tenant_view ctx req)"
  "demands (may_read ctx (lr_cluster_id req)) (check_is_exist_tenant ctx req)"
  "demands (may_read ctx (lr_cluster_id req)) (get_storage_view ctx req)"
  "demands (may_read ctx (lr_cluster_id req)) (get_keypair_view ctx req)"
  "demands (may_read ctx (lr_cluster_id req)) (check_is_exist_keypair ctx req)"
  "demands (may_read ctx (lr_cluster_id req)) (get_spec_by_uuid ctx req)"
  "demands (may_read ctx (lr_cluster_id req)) (get_floating_ip_view ctx req)"
  "demands (may_read ctx (lr_cluster_id req)) (check_is_exist_floating_ip ctx req)"
  unfolding get_zone_view_def get_hypervisor_view_def get_tenant_view_def check_is_exist_tenant_def get_storage_view_def
    get_keypair_view_def check_is_exist_keypair_def get_spec_by_uuid_def get_floating_ip_view_def check_is_exist_floating_ip_def
  by (intro demand_intros)+

lemma network_lookups_demand [demand_intros]:
  "demands (may_read ctx (lr_cluster_id req)) (get_network_view ctx req)"
  "demands (may_read ctx (lr_cluster_id req)) (get_network_by_uuid ctx req)"
  "demands (may_read ctx (lr_cluster_id req)) (get_subnet_view ctx req)"
  "demands (may_read ctx (lr_cluster_id req)) (get_router_view ctx req)"
  "demands (may_read ctx (lr_cluster_id req)) (check_is_exist_routing_interface ctx req)"
  "demands (may_read ctx (lr_cluster_id req)) (get_security_group_view ctx req)"
  "demands (may_read ctx (lr_cluster_id req)) (check_is_exist_security_group ctx req)"
  "demands (may_read ctx (lr_cluster_id req)) (get_volume_view ctx req)"
  "demands (may_read ctx (lr_cluster_id req)) (get_instance_view ctx req)"
  "demands (may_read ctx (lr_cluster_id req)) (get_instance_by_uuid ctx req)"
  unfolding get_network_view_def get_network_by_uuid_def get_subnet_view_def get_router_view_def check_is_exist_routing_interface_def
    get_security_group_view_def check_is_exist_security_group_def get_volume_view_def get_instance_view_def get_instance_by_uuid_def Let_def
  by (intro demand_intros)+

lemma lists_demand [demand_intros]:
  "demands (may_read ctx (lr_cluster_id lreq)) (get_availability_zone_list ctx lreq)"
  "demands (may_read ctx (hlr_cluster_id hreq)) (get_hypervisor_list ext ctx hreq p)"
  "demands (may_read ctx (lr_cluster_id lreq)) (get_tenant_list ctx lreq)"
  "demands (may_read ctx (slr_cluster_id sreq)) (get_storage_list ctx sreq p)"
  "demands (may_read ctx (lr_cluster_id lreq)) (get_network_list ctx lreq)"
  "demands (may_read ctx (lr_cluster_id lreq)) (get_router_list ctx lreq)"
  "demands (may_read ctx (lr_cluster_id lreq)) (get_security_group_list ctx lreq)"
  "demands (may_read ctx (lr_cluster_id lreq)) (get_volume_list ctx lreq)"
  "demands (may_read ctx (lr_cluster_id lreq)) (get_instance_list ctx lreq)"
  unfolding get_availability_zone_list_def get_hypervisor_list_def get_tenant_list_def get_storage_list_def get_network_list_def
    get_router_list_def get_security_group_list_def get_volume_list_def get_instance_list_def Let_def
  by (intro demand_intros)+

lemma lookup_replies:
  "replies (may_read (context_of r) (lr_cluster_id req)) (get_hypervisor_handler r req)"
  "replies (may_read (context_of r) (lr_cluster_id req)) (get_availability_zone_handler r req)"
  "replies (may_read (context_of r) (lr_cluster_id req)) (get_tenant_handler r req)"
  "replies (may_read (context_of r) (lr_cluster_id req)) (check_is_exist_tenant_handler r req)"
  "replies (may_read (context_of r) (lr_cluster_id req)) (get_network_handler r req)"
  "replies (may_read (context_of r) (lr_cluster_id req)) (get_network_by_uuid_handler r req)"
  "replies (may_read (context_of r) (lr_cluster_id req)) (get_subnet_handler r req)"
  "replies (may_read (context_of r) (lr_cluster_id req)) (get_floating_ip_handler r req)"
  "replies (may_read (context_of r) (lr_cluster_id req)) (check_is_exist_floating_ip_handler r req)"
  "replies (may_read (context_of r) (lr_cluster_id req)) (get_router_handler r req)"
  "replies (may_read (context_of r) (lr_cluster_id req)) (check_is_exist_routing_interface_handler r req)"
  "replies (may_read (context_of r) (lr_cluster_id req)) (get_storage_handler r req)"
  "replies (may_read (context_of r) (lr_cluster_id req)) (get_volume_handler r req)"
  "replies (may_read (context_of r) (lr_cluster_id req)) (get_instance_handler r req)"
  "replies (may_read (context_of r) (lr_cluster_id req)) (get_instance_by_uuid_handler r req)"
  "replies (may_read (context_of r) (lr_cluster_id req)) (get_spec_by_uuid_handler r req)"
  "replies (may_read (context_of r) (lr_cluster_id req)) (get_keypair_handler r req)"
  "replies (may_read (context_of r) (lr_cluster_id req)) (check_is_exist_keypair_handler r req)"
  "replies (may_read (context_of r) (lr_cluster_id req)) (get_security_group_handler r req)"
  "replies (may_read (context_of r) (lr_cluster_id req)) (check_is_exist_security_group_handler r req)"
  unfolding get_hypervisor_handler_def get_availability_zone_handler_def get_tenant_handler_def check_is_exist_tenant_handler_def get_network_handler_def get_network_by_uuid_handler_def get_subnet_handler_def get_floating_ip_handler_def check_is_exist_floating_ip_handler_def get_router_handler_def check_is_exist_routing_interface_handler_def get_storage_handler_def get_volume_handler_def get_instance_handler_def get_instance_by_uuid_handler_def get_spec_by_uuid_handler_def get_keypair_handler_def check_is_exist_keypair_handler_def get_security_group_handler_def check_is_exist_security_group_handler_def
  by (intro demand_intros)+

lemma list_replies:
  "replies (may_read (context_of r) (lr_cluster_id lreq)) (get_availability_zone_list_handler r lreq)"
  "replies (may_read (context_of r) (lr_cluster_id lreq)) (get_tenant_list_handler r lreq)"
  "replies (may_read (context_of r) (lr_cluster_id lreq)) (get_network_list_handler r lreq)"
  "replies (may_read (context_of r) (lr_cluster_id lreq)) (get_router_list_handler r lreq)"
  "replies (may_read (context_of r) (lr_cluster_id lreq)) (get_volume_list_handler r lreq)"
  "replies (may_read (context_of r) (lr_cluster_id lreq)) (get_instance_list_handler r lreq)"
  "replies (may_read (context_of r) (lr_cluster_id lreq)) (get_security_group_list_handler r lreq)"
  "replies (may_read (context_of r) (hlr_cluster_id hreq)) (get_hypervisor_list_handler ext r hreq p)"
  "replies (may_read (context_of r) (slr_cluster_id sreq)) (get_storage_list_handler r sreq p)"
  unfolding get_availability_zone_list_handler_def get_tenant_list_handler_def get_network_list_handler_def get_router_list_handler_def get_volume_list_handler_def get_instance_list_handler_def get_security_group_list_handler_def get_hypervisor_list_handler_def get_storage_list_handler_def
  by (intro demand_intros)+

section \<open>Reading changes nothing\<close>

definition unaltered :: "database \<Rightarrow> (string \<Rightarrow> document option) \<Rightarrow> event list \<Rightarrow> world \<Rightarrow> bool" where
  "unaltered d s e w \<longleftrightarrow> w_db w = d \<and> w_kv w = s \<and> w_events w = e"

named_theorems read_intros

lemmas read_structure [read_intros] = keeps_return keeps_bind keeps_get keeps_if keeps_option keeps_sum keeps_prod

lemma read_pop_fault [read_intros]: "keeps (unaltered d s e) pop_fault"
  by (auto simp: keeps_def unaltered_def pop_fault_def split: list.split)

lemma read_statement [read_intros]: "keeps (unaltered d s e) (statement (\<lambda>db. Inr (f db, db)))"
  by (auto simp: keeps_def unaltered_def statement_def pop_fault_def split: list.split option.split prod.split sum.split)

lemma read_ask [read_intros]: "keeps (unaltered d s e) (ask f)" "keeps (unaltered d s e) now"
  by (simp_all add: keeps_def unaltered_def ask_def now_def)

lemma read_validating [read_intros]: "keeps (unaltered d s e) (validating n v)"
  by (simp add: keeps_def unaltered_def validating_def)

lemma read_let [read_intros]: "keeps P (f x) \<Longrightarrow> keeps P (let y = x in f y)"
  by simp

lemma read_combinators [read_intros]:
  "keeps (unaltered d s e) (succeed x)" "keeps (unaltered d s e) (failed_with err)" "keeps (unaltered d s e) (answer y)"
  "keeps (unaltered d s e) (find_rows sel)" "keeps (unaltered d s e) (first_row key sel)"
  unfolding succeed_def failed_with_def answer_def find_rows_def first_row_def by (intro read_intros)+

lemma read_given [read_intros]:
  "keeps (unaltered d s e) m \<Longrightarrow> (\<And>x. keeps (unaltered d s e) (k x)) \<Longrightarrow> keeps (unaltered d s e) (given m k)"
  unfolding given_def by (intro read_intros)

lemma read_after [read_intros]:
  "keeps (unaltered d s e) m \<Longrightarrow> keeps (unaltered d s e) k \<Longrightarrow> keeps (unaltered d s e) (after m k)"
  unfolding after_def by (intro read_intros)

lemma read_stage [read_intros]:
  "keeps (unaltered d s e) m \<Longrightarrow> (\<And>x. keeps (unaltered d s e) (k x)) \<Longrightarrow> keeps (unaltered d s e) (stage code m k)"
  unfolding stage_def by (intro read_intros)

lemma read_admitted [read_intros]: "keeps (unaltered d s e) k \<Longrightarrow> keeps (unaltered d s e) (admitted name r k)"
  unfolding admitted_def stage_err_def by (intro read_intros)

lemma read_wrappers [read_intros]:
  "keeps (unaltered d s e) m \<Longrightarrow> keeps (unaltered d s e) (execute m)"
  "keeps (unaltered d s e) n \<Longrightarrow> keeps (unaltered d s e) (execute_err n)"
  "keeps (unaltered d s e) m \<Longrightarrow> keeps (unaltered d s e) (db_res m)"
  unfolding execute_def execute_err_def db_res_def by (intro read_intros; assumption)+

lemma read_gather [read_intros]: "(\<And>x. keeps (unaltered d s e) (f x)) \<Longrightarrow> keeps (unaltered d s e) (gather f xs)"
  by (induction xs) (simp_all add: read_intros)

lemma read_gather_so_far [read_intros]: "(\<And>x. keeps (unaltered d s e) (f x)) \<Longrightarrow> keeps (unaltered d s e) (gather_so_far f xs)"
proof (induction xs)
  case Nil
  then show ?case by (simp add: read_intros)
next
  case (Cons x xs)
  then show ?case unfolding gather_so_far.simps by (intro read_intros) auto
qed

lemma read_listing [read_intros]:
  "keeps (unaltered d s e) (look_up missing key rows)" "keeps (unaltered d s e) (related_rows rows)"
  "keeps (unaltered d s e) (exists_row rows)" "keeps (unaltered d s e) (find_last rows)"
  "keeps (unaltered d s e) (run_query rows q)" "keeps (unaltered d s e) (count_query rows q)"
  unfolding look_up_def related_rows_def exists_row_def find_last_def run_query_def count_query_def by (intro read_intros)+

lemma read_brief [read_intros]: "keeps (unaltered d s e) (get_brief_cluster ctx cid)"
  unfolding get_brief_cluster_def by (intro read_intros)

lemma read_checked [read_intros]:
  "keeps (unaltered d s e) (checked v ctx req)" "keeps (unaltered d s e) (checked_list v ctx lreq)"
  "keeps (unaltered d s e) (checked_volume vv ctx req)"
  unfolding checked_def checked_list_def checked_volume_def by (intro read_intros)+

text \<open>The filters of a list: what they ask the database for is read only.\<close>

fun reading_filter :: "'r list_filter \<Rightarrow> bool" where
  "reading_filter (Related m) \<longleftrightarrow> (\<forall>d s e. keeps (unaltered d s e) m)"
| "reading_filter _ \<longleftrightarrow> True"

lemma read_apply_filters: "list_all reading_filter fs \<Longrightarrow> keeps (unaltered d s e) (apply_list_filters fs q)"
proof (induction fs arbitrary: q)
  case Nil
  then show ?case by (simp add: read_intros)
next
  case (Cons f fs)
  then show ?case by (cases f) (auto intro!: read_intros)
qed

lemma reading_via: "reading_filter f \<Longrightarrow> reading_filter (via g f)"
  by (cases f) (auto intro!: read_intros)

lemma read_list_rows [read_intros]: "list_all reading_filter fs \<Longrightarrow> keeps (unaltered d s e) (list_rows rows fs)"
  unfolding list_rows_def by (intro read_intros read_apply_filters)

lemma read_paginate [read_intros]: "list_all reading_filter fs \<Longrightarrow> keeps (unaltered d s e) (paginate rows fs)"
  unfolding paginate_def by (intro read_intros read_apply_filters) (simp add: list_all_iff)

lemma reading_filter_if: "list_all reading_filter (filter_if b f) \<longleftrightarrow> \<not> b \<or> reading_filter f"
  by (simp add: filter_if_def)

lemma reading_page [simp]: "list_all reading_filter (page_filter p)"
  by (simp add: page_filter_def reading_filter_if)

lemma reading_related:
  "reading_filter (Related (routers_of_network n))" "reading_filter (Related (groups_of_instance n))"
  "reading_filter (Related (volumes_of_instance n))" "reading_filter (Related (instances_of_volume n))"
  unfolding reading_filter.simps routers_of_network_def groups_of_instance_def volumes_of_instance_def instances_of_volume_def
  by (intro allI read_intros)+

lemma reading_filters [read_intros]:
  "list_all reading_filter (list_pages req)" "list_all reading_filter (make_hypervisor_filters hreq p)"
  "list_all reading_filter (make_tenant_filters req)" "list_all reading_filter (make_storage_filters sreq p)"
  "list_all reading_filter (make_network_filters req)" "list_all reading_filter (make_router_filters req)"
  "list_all reading_filter (make_group_filters req)" "list_all reading_filter (make_volume_filters req)"
  "list_all reading_filter (make_instance_filters req)"
  by (simp_all add: list_pages_def make_hypervisor_filters_def make_tenant_filters_def make_storage_filters_def make_network_filters_def
      make_router_filters_def make_group_filters_def make_volume_filters_def make_instance_filters_def reading_filter_if reading_related del: reading_filter.simps(1))

lemma reading_map_via [read_intros]: "list_all reading_filter fs \<Longrightarrow> list_all reading_filter (map (via g) fs)"
  by (induction fs) (simp_all add: reading_via)

lemma read_details [read_intros]:
  "keeps (unaltered d s e) (quotas_of_tenant i)" "keeps (unaltered d s e) (extra_specs_of i)"
  "keeps (unaltered d s e) (pools_of_subnet i)" "keeps (unaltered d s e) (nameservers_of_subnet i)"
  "keeps (unaltered d s e) (view_subnet sn)" "keeps (unaltered d s e) (network_details c nr)"
  "keeps (unaltered d s e) (view_interface ir)" "keeps (unaltered d s e) (router_interfaces i)"
  "keeps (unaltered d s e) (router_details rr)" "keeps (unaltered d s e) (whole_router rr)"
  "keeps (unaltered d s e) (rules_of_group i)" "keeps (unaltered d s e) (view_rule ru)"
  "keeps (unaltered d s e) (group_details c gr)" "keeps (unaltered d s e) (snapshots_of_volume i)"
  "keeps (unaltered d s e) (volume_details c vr)" "keeps (unaltered d s e) (find_keypair_row i j)"
  unfolding quotas_of_tenant_def extra_specs_of_def pools_of_subnet_def nameservers_of_subnet_def view_subnet_def network_details_def
    view_interface_def router_interfaces_def router_details_def whole_router_def rules_of_group_def view_rule_def group_details_def
    snapshots_of_volume_def volume_details_def find_keypair_row_def
  by (intro read_intros)+

lemma read_lookups [read_intros]:
  "keeps (unaltered d s e) (get_zone_view ctx req)" "keeps (unaltered d s e) (get_hypervisor_view ctx req)"
  "keeps (unaltered d s e) (get_tenant_view ctx req)" "keeps (unaltered d s e) (check_is_exist_tenant ctx req)"
  "keeps (unaltered d s e) (get_storage_view ctx req)" "keeps (unaltered d s e) (get_keypair_view ctx req)"
  "keeps (unaltered d s e) (check_is_exist_keypair ctx req)" "keeps (unaltered d s e) (get_spec_by_uuid ctx req)"
  "keeps (unaltered d s e) (get_floating_ip_view ctx req)" "keeps (unaltered d s e) (check_is_exist_floating_ip ctx req)"
  unfolding get_zone_view_def get_hypervisor_view_def get_tenant_view_def check_is_exist_tenant_def get_storage_view_def
    get_keypair_view_def check_is_exist_keypair_def get_spec_by_uuid_def get_floating_ip_view_def check_is_exist_floating_ip_def
  by (intro read_intros)+

lemma read_network_lookups [read_intros]:
  "keeps (unaltered d s e) (get_network_view ctx req)" "keeps (unaltered d s e) (get_network_by_uuid ctx req)"
  "keeps (unaltered d s e) (get_subnet_view ctx req)" "keeps (unaltered d s e) (get_router_view ctx req)"
  "keeps (unaltered d s e) (check_is_exist_routing_interface ctx req)" "keeps (unaltered d s e) (get_security_group_view ctx req)"
  "keeps (unaltered d s e) (check_is_exist_security_group ctx req)" "keeps (unaltered d s e) (get_volume_view ctx req)"
  unfolding get_network_view_def get_network_by_uuid_def get_subnet_view_def get_router_view_def check_is_exist_routing_interface_def
    get_security_group_view_def check_is_exist_security_group_def get_volume_view_def
  by (intro read_intros)+

lemma read_lists [read_intros]:
  "keeps (unaltered d s e) (get_availability_zone_list ctx lreq)" "keeps (unaltered d s e) (get_hypervisor_list ext ctx hreq p)"
  "keeps (unaltered d s e) (get_tenant_list ctx lreq)" "keeps (unaltered d s e) (get_storage_list ctx sreq p)"
  "keeps (unaltered d s e) (get_network_list ctx lreq)" "keeps (unaltered d s e) (get_router_list ctx lreq)"
  "keeps (unaltered d s e) (get_security_group_list ctx lreq)" "keeps (unaltered d s e) (get_volume_list ctx lreq)"
  "keeps (unaltered d s e) (get_instance_list ctx lreq)"
  unfolding get_availability_zone_list_def get_hypervisor_list_def get_tenant_list_def get_storage_list_def get_network_list_def
    get_router_list_def get_security_group_list_def get_volume_list_def get_instance_list_def
  by (intro read_intros)+

text \<open>The details of an instance, which read every router and every network behind it.\<close>

lemma read_routers_of_networks [read_intros]: "keeps (unaltered d s e) (routers_of_networks ctx cid ns found)"
proof (induction ns arbitrary: found)
  case Nil
  then show ?case by (simp add: read_intros)
next
  case (Cons n ns)
  then show ?case unfolding routers_of_networks.simps by (intro read_intros)
qed

lemma read_networks_of_instance [read_intros]: "keeps (unaltered d s e) (networks_of_instance always ctx cid seen ns)"
proof (induction ns arbitrary: seen)
  case Nil
  then show ?case by (simp add: read_intros)
next
  case (Cons n ns)
  then show ?case unfolding networks_of_instance.simps by (intro read_intros)
qed

lemma read_instance_parts [read_intros]:
  "keeps (unaltered d s e) (keypair_of_instance i)" "keeps (unaltered d s e) (instance_parts r)"
  "keeps (unaltered d s e) (groups_of j)" "keeps (unaltered d s e) (group_of_instance g)"
  "keeps (unaltered d s e) (group_of_instance_so_far g)"
  unfolding keypair_of_instance_def instance_parts_def groups_of_def group_of_instance_def group_of_instance_so_far_def
  by (intro read_intros)+

lemma read_instance_details [read_intros]:
  "(\<And>g. keeps (unaltered d s e) (view g)) \<Longrightarrow> keeps (unaltered d s e) (instance_details always view ctx cid c r k es ns)"
  unfolding instance_details_def by (intro read_intros)

lemma read_instances [read_intros]:
  "keeps (unaltered d s e) (get_instance_view ctx req)" "keeps (unaltered d s e) (get_instance_by_uuid ctx req)"
  unfolding get_instance_view_def get_instance_by_uuid_def by (intro read_intros)+

lemma read_replies [read_intros]:
  "keeps (unaltered d s e) m \<Longrightarrow> keeps (unaltered d s e) (served name r m)"
  "keeps (unaltered d s e) m' \<Longrightarrow> keeps (unaltered d s e) (unless_empty name m')"
  "keeps (unaltered d s e) m' \<Longrightarrow> keeps (unaltered d s e) (served_list name r m')"
  "keeps (unaltered d s e) m \<Longrightarrow> keeps (unaltered d s e) (passed_on name step m)"
  unfolding served_def unless_empty_def served_list_def passed_on_def by (intro read_intros; assumption)+

lemma read_script [read_intros]: "keeps (unaltered d s e) (get_instance_user_script i)"
  unfolding get_instance_user_script_def script_row_def by (intro read_intros)


lemma keeps_unaltered: "(\<And>d s e. keeps (unaltered d s e) m) \<Longrightarrow> unaltered (w_db w) (w_kv w) (w_events w) (snd (run_state m w))"
  by (simp add: keeps_def unaltered_def)


section \<open>Who may read\<close>

lemma demands_given_read:
  assumes "\<And>d s e. keeps (unaltered d s e) m" and "\<And>x. demands P (f x)"
  shows "demands P (given m f)"
  unfolding demands_def
proof (intro allI impI)
  fix w y w'
  assume "run_state (given m f) w = (Inr y, w')"
  then obtain x w1 where m: "run_state m w = (Inr x, w1)" and f: "run_state (f x) w1 = (Inr y, w')" by (auto simp: given_Inr)
  have "w_db w1 = w_db w" using keeps_unaltered [OF assms(1), of w] m by (simp add: unaltered_def)
  then show "P (w_db w)" using assms(2) f by (metis demands_def)
qed

lemma demands_after_read:
  assumes "\<And>d s e. keeps (unaltered d s e) m" and "demands P k"
  shows "demands P (after m k)"
  unfolding demands_def
proof (intro allI impI)
  fix w y w'
  assume "run_state (after m k) w = (Inr y, w')"
  then obtain w1 where m: "run_state m w = (None, w1)" and k: "run_state k w1 = (Inr y, w')" by (auto simp: after_Inr)
  have "w_db w1 = w_db w" using keeps_unaltered [OF assms(1), of w] m by (simp add: unaltered_def)
  then show "P (w_db w)" using assms(2) k by (metis demands_def)
qed

lemma demands_in_transaction: "demands P m \<Longrightarrow> demands P (transaction_with m)"
  unfolding demands_def by (metis transaction_with_Inr)

lemma authorised_may_read: "authorised ctx cid db \<Longrightarrow> may_read ctx cid db"
  by (auto simp: authorised_def may_read_def unauthorised_def)

lemma number_replies: "replies (\<lambda>db. cid \<noteq> 0 \<longrightarrow> may_read (context_of r) cid db) (get_instance_number_handler r cid)"
  unfolding get_instance_number_handler_def get_instance_number_def
proof (intro replies_passed_on demands_in_transaction demands_given)
  show "demands (\<lambda>db. cid \<noteq> 0 \<longrightarrow> may_read (context_of r) cid db)
      (if cid = 0 then given (get_cluster_list_page (context_of r) every_cluster) (\<lambda>(vs, _). succeed (map cv_id vs))
       else given (get_cluster_view (context_of r) cid) (\<lambda>v. succeed [cv_id v]))"
    by (auto simp: demands_def given_Inr dest!: view_authorised intro: authorised_may_read)
qed

lemma group_replies: "replies (may_read (context_of r) (vgl_cluster_id greq)) (get_volume_group_by_uuid_handler decrypt client r greq)"
proof -
  have t: "demands (may_read (context_of r) (vgl_cluster_id greq)) (given (get_tenant_view (context_of r) (tenant_request greq)) f)" for f
    using demands_given [OF lookups_demand(3), of "context_of r" "tenant_request greq"] by (simp add: tenant_request_def)
  show ?thesis
    unfolding get_volume_group_by_uuid_handler_def get_volume_group_by_uuid_def with_cluster_def dialled_def get_connection_info_def
    by (intro replies_passed_on demands_in_transaction demands_after_read demands_given_read t read_intros)
qed

lemma spec_exists_replies: "replies (may_read (context_of r) (lr_cluster_id req)) (check_is_exist_spec_handler connect r req)"
  unfolding check_is_exist_spec_handler_def check_is_exist_spec_def Let_def
  by (intro replies_served demands_execute demands_after spec_exists_guard.checked_clears)

text \<open>The script of an instance is read by anyone who is admitted, whatever the user and the tenant are.\<close>

lemma user_script_for_anyone:
  assumes "validate_request r = None" and "validate_request r' = None"
  shows "run_state (get_user_script_handler r i) w = run_state (get_user_script_handler r' i) w"
  using assms by (simp add: get_user_script_handler_def served_def admitted_def stage_err_def)

lemma user_script_for_anyone_witness:
  "run_state (get_user_script_handler example_rpc 5) w =
     run_state (get_user_script_handler \<lparr>rpc_user = Some \<lparr>user_roles = [], user_groups = []\<rparr>, rpc_tenant = Some 2\<rparr> 5) w"
  by (rule user_script_for_anyone) (simp_all add: validate_request_def example_rpc_def fail_if_def)

text \<open>C4. Whatever fails, each of these requests succeeds only when the cluster it names exists and the user is an
  administrator, or belongs to the owner group of the cluster and acts in its tenant (or in no tenant): a request for
  a hypervisor, availability zone, tenant, network, subnet, floating IP, router, storage, volume, volume group,
  instance, spec, keypair or security group, a list of any of these that there is but for the volume groups, or whether
  there is a tenant, floating IP, routing interface, spec, keypair or security group, and for the number of instances
  of a cluster. Not among them are the requests that never look at the owner: for the script of an instance (see
  \<open>user_script_for_anyone\<close>), whether there is an instance, for the volume groups and their snapshots (these
  three are not served at all with the key of the process); and the number of instances without a cluster, which is
  that of the clusters the user may list.\<close>

theorem resource_reads_authorised:
  assumes "lr_cluster_id req = cid \<and> (
        (\<exists>v. fst (run_state (get_hypervisor_handler r req) w) = Inr v) \<or>
        (\<exists>v. fst (run_state (get_availability_zone_handler r req) w) = Inr v) \<or>
        (\<exists>v. fst (run_state (get_tenant_handler r req) w) = Inr v) \<or>
        (\<exists>v. fst (run_state (check_is_exist_tenant_handler r req) w) = Inr v) \<or>
        (\<exists>v. fst (run_state (get_network_handler r req) w) = Inr v) \<or>
        (\<exists>v. fst (run_state (get_network_by_uuid_handler r req) w) = Inr v) \<or>
        (\<exists>v. fst (run_state (get_subnet_handler r req) w) = Inr v) \<or>
        (\<exists>v. fst (run_state (get_floating_ip_handler r req) w) = Inr v) \<or>
        (\<exists>v. fst (run_state (check_is_exist_floating_ip_handler r req) w) = Inr v) \<or>
        (\<exists>v. fst (run_state (get_router_handler r req) w) = Inr v) \<or>
        (\<exists>v. fst (run_state (check_is_exist_routing_interface_handler r req) w) = Inr v) \<or>
        (\<exists>v. fst (run_state (get_storage_handler r req) w) = Inr v) \<or>
        (\<exists>v. fst (run_state (get_volume_handler r req) w) = Inr v) \<or>
        (\<exists>v. fst (run_state (get_instance_handler r req) w) = Inr v) \<or>
        (\<exists>v. fst (run_state (get_instance_by_uuid_handler r req) w) = Inr v) \<or>
        (\<exists>v. fst (run_state (get_spec_by_uuid_handler r req) w) = Inr v) \<or>
        (\<exists>v. fst (run_state (get_keypair_handler r req) w) = Inr v) \<or>
        (\<exists>v. fst (run_state (check_is_exist_keypair_handler r req) w) = Inr v) \<or>
        (\<exists>v. fst (run_state (get_security_group_handler r req) w) = Inr v) \<or>
        (\<exists>v. fst (run_state (check_is_exist_security_group_handler r req) w) = Inr v) \<or>
        (\<exists>v. fst (run_state (check_is_exist_spec_handler connect r req) w) = Inr v)) \<or>
    lr_cluster_id lreq = cid \<and> (
        (\<exists>v. fst (run_state (get_availability_zone_list_handler r lreq) w) = Inr v) \<or>
        (\<exists>v. fst (run_state (get_tenant_list_handler r lreq) w) = Inr v) \<or>
        (\<exists>v. fst (run_state (get_network_list_handler r lreq) w) = Inr v) \<or>
        (\<exists>v. fst (run_state (get_router_list_handler r lreq) w) = Inr v) \<or>
        (\<exists>v. fst (run_state (get_volume_list_handler r lreq) w) = Inr v) \<or>
        (\<exists>v. fst (run_state (get_instance_list_handler r lreq) w) = Inr v) \<or>
        (\<exists>v. fst (run_state (get_security_group_list_handler r lreq) w) = Inr v)) \<or>
    hlr_cluster_id hreq = cid \<and> (\<exists>v. fst (run_state (get_hypervisor_list_handler ext r hreq p) w) = Inr v) \<or>
    slr_cluster_id sreq = cid \<and> (\<exists>v. fst (run_state (get_storage_list_handler r sreq p) w) = Inr v) \<or>
    vgl_cluster_id greq = cid \<and> (\<exists>v. fst (run_state (get_volume_group_by_uuid_handler decrypt client r greq) w) = Inr v) \<or>
    cid \<noteq> 0 \<and> (\<exists>v. fst (run_state (get_instance_number_handler r cid) w) = Inr v)"
  shows "may_read (context_of r) cid (w_db w)"
  using assms lookup_replies [THEN replies_success, of r req w] spec_exists_replies [of r req connect, THEN replies_success, of w]
    list_replies [THEN replies_success] group_replies [of r greq decrypt client, THEN replies_success, of w]
    number_replies [of cid r, THEN replies_success, of w] by metis

definition example_lookup :: lookup_request where
  "example_lookup = \<lparr>lr_cluster_id = 3, lr_resource_id = 0, lr_uuid = [], lr_name = ''k'', lr_cluster_tenant_id = 0\<rparr>"

lemma example_owner: "is_cluster_owner example_context (w_db example_inventory) None 3 = None"
  using is_cluster_owner_iff_witness by (simp add: example_inventory_def example_context_def is_cluster_owner_def empty_db_def)

lemma example_passes:
  assumes "v example_context (w_db example_inventory) (\<lambda>_. None) req = None"
  shows "run_state (checked v example_context req) example_inventory = (None, example_inventory)"
proof -
  have "w_faults example_inventory = []" "w_tx example_inventory = NoTx" by (simp_all add: example_inventory_def example_world_def)
  then show ?thesis using assms by (simp add: checked_def validating_def)
qed

theorem resource_reads_authorised_witness:
  "may_read example_context 3 (w_db example_inventory)"
proof -
  have v: "validate_check_is_exist_keypair example_context (w_db example_inventory) (\<lambda>_. None) example_lookup = None"
    using example_owner by (simp add: validate_check_is_exist_keypair_def guard_simps required_def example_lookup_def)
  have "fst (run_state (check_is_exist_keypair_handler example_rpc example_lookup) example_inventory) = Inr False"
    by (simp add: check_is_exist_keypair_handler_def served_def admitted_def stage_err_def stage_def validate_request_def
        fail_if_def example_context_of check_is_exist_keypair_def execute_def after_def example_passes [where v = validate_check_is_exist_keypair and req = example_lookup, OF v] exists_row_def given_def
        db_res_def quiet_run inventory_quiet answer_def) (simp add: example_rpc_def example_inventory_def empty_db_def)
  then have "\<exists>v. fst (run_state (check_is_exist_keypair_handler example_rpc example_lookup) example_inventory) = Inr v" by blast
  moreover have "lr_cluster_id example_lookup = 3" by (simp add: example_lookup_def)
  ultimately show ?thesis
    unfolding example_context_of [symmetric]
    by - (rule resource_reads_authorised [where req = example_lookup], rule disjI1, rule conjI, assumption, blast)
qed

end
