(* ===== verification/CallResults.thy ===== *)
theory CallResults
  imports InventoryResults
begin

text \<open>
  What the requests that go to a cluster do: nothing with the key of the process, and otherwise what the
  client is asked for, and in which order.
\<close>

section \<open>The key of the process\<close>











section \<open>Security groups\<close>

definition refusal :: "'q \<Rightarrow> nat \<Rightarrow> err + 'a" where
  "refusal q t = Inl ClientNotFound"

definition consent :: "'q \<Rightarrow> nat \<Rightarrow> err option" where
  "consent q t = None"

text \<open>A cluster that creates instances and nothing else, and deletes everything.\<close>

definition example_api :: cluster_api where
  "example_api = \<lparr>ca_dial = (\<lambda>_. None), ca_create_tenant = refusal, ca_delete_tenant = consent, ca_create_keypair = refusal,
     ca_delete_keypair = consent, ca_create_instance_spec = refusal, ca_delete_instance_spec = consent,
     ca_create_floating_ip = refusal, ca_delete_floating_ip = consent, ca_create_network = refusal, ca_delete_network = consent,
     ca_create_subnet = refusal, ca_delete_subnet = consent, ca_create_router = refusal, ca_delete_router = consent,
     ca_create_security_group = refusal, ca_delete_security_group = consent, ca_create_security_group_rule = refusal,
     ca_delete_security_group_rule = consent, ca_create_volume = refusal, ca_delete_volume = consent, ca_import_volume = refusal,
     ca_copy_volume = refusal, ca_delete_volume_copy = consent, ca_unmanage_volume = consent, ca_create_volume_snapshot = refusal,
     ca_delete_volume_snapshot = consent, ca_get_volume_group_list = (\<lambda>_. Inr []), ca_get_volume_group = refusal,
     ca_create_volume_group = refusal, ca_delete_volume_group = consent, ca_update_volume_group = consent,
     ca_create_volume_group_snapshot = refusal, ca_delete_volume_group_snapshot = consent,
     ca_get_volume_group_snapshot_list = (\<lambda>_. Inr []), ca_start_instance = consent, ca_stop_instance = consent,
     ca_preprocess_creating_instance = consent, ca_create_instance = (\<lambda>c _. Inr (ic_instance c)), ca_delete_instance = consent,
     ca_get_instance = (\<lambda>_ _. None)\<rparr>"

lemma delete_rules_in_order:
  assumes "run_state (delete_rules cli t g rs) w = (None, w')"
  shows "w' = w\<lparr>w_ticks := w_ticks w + length rs\<rparr> \<and>
    (\<forall>i < length rs. ca_delete_security_group_rule cli (t, g, rule_row (Some (rs ! i))) (w_ticks w + i) = None)"
  using assms
proof (induction rs arbitrary: w)
  case Nil
  then show ?case by (simp add: return_nil_def)
next
  case (Cons r rs)
  then have now: "ca_delete_security_group_rule cli (t, g, rule_row (Some r)) (w_ticks w) = None"
    and rest: "run_state (delete_rules cli t g rs) (w\<lparr>w_ticks := Suc (w_ticks w)\<rparr>) = (None, w')"
    by (auto simp: check_def ask_def split: option.splits)
  from Cons.IH [OF rest] now show ?case by (auto simp: nth_Cons' less_Suc_eq_0_disj)
qed

lemma on_cluster_Inr:
  assumes "run_state (on_cluster decrypt client conn valid k) w = (Inr x, w')"
  obtains c p where "conn = Some c" "decrypt (ci_credential c) = Inr p"
    "valid (Some (c\<lparr>ci_credential := p\<rparr>)) = None" "ca_dial (client (c\<lparr>ci_credential := p\<rparr>)) (w_ticks w) = None"
    "run_state (k (client (c\<lparr>ci_credential := p\<rparr>))) (w\<lparr>w_ticks := Suc (w_ticks w)\<rparr>) = (Inr x, w')"
  using assms
  by (cases conn; cases "decrypt (ci_credential (the conn))")
    (auto simp: on_cluster_def decrypted_def dialled_def after_Inr given_Inr ask_def)

text \<open>C21. A security group is deleted in the cluster only after all rules the request names: when the request succeeds,
  the client was asked for the rules one by one in their order, then for the group, and every time there was no
  error; the database stays as it is.\<close>

theorem delete_security_group_in_order:
  assumes "run_state (delete_security_group_request ext decrypt client req) w = (Inr x, w')"
    and "rs = getf sgm_rules [] (sgq_security_group req)" and "g = group_row (sgq_security_group req)"
    and "t = tenant_row (sgq_tenant req)"
  shows "\<exists>c p cli. sgq_conn req = Some c \<and> decrypt (ci_credential c) = Inr p \<and> cli = client (c\<lparr>ci_credential := p\<rparr>) \<and>
    ca_dial cli (w_ticks w) = None \<and>
    (\<forall>i < length rs. ca_delete_security_group_rule cli (t, g, rule_row (Some (rs ! i))) (w_ticks w + 1 + i) = None) \<and>
    ca_delete_security_group cli (t, g) (w_ticks w + 1 + length rs) = None \<and>
    w' = w\<lparr>w_ticks := w_ticks w + length rs + 2\<rparr>"
proof -
  obtain c p where c: "sgq_conn req = Some c" "decrypt (ci_credential c) = Inr p"
    and dial: "ca_dial (client (c\<lparr>ci_credential := p\<rparr>)) (w_ticks w) = None"
    and run: "run_state (after (delete_rules (client (c\<lparr>ci_credential := p\<rparr>)) t g rs)
        (told (ca_delete_security_group (client (c\<lparr>ci_credential := p\<rparr>)) (t, g)))) (w\<lparr>w_ticks := Suc (w_ticks w)\<rparr>) = (Inr x, w')"
    using assms(1) unfolding delete_security_group_request_def Let_def assms(2-4) [symmetric] by (rule on_cluster_Inr) blast
  obtain w1 where rules: "run_state (delete_rules (client (c\<lparr>ci_credential := p\<rparr>)) t g rs) (w\<lparr>w_ticks := Suc (w_ticks w)\<rparr>) = (None, w1)"
    and group: "run_state (told (ca_delete_security_group (client (c\<lparr>ci_credential := p\<rparr>)) (t, g))) w1 = (Inr x, w')"
    using run unfolding after_Inr by blast
  from delete_rules_in_order [OF rules] group c dial show ?thesis
    by (intro exI [of _ c] exI [of _ p] exI [of _ "client (c\<lparr>ci_credential := p\<rparr>)"])
      (auto simp: told_def after_Inr ask_def)
qed

definition calling_tenant :: tenant_message where
  "calling_tenant = \<lparr>tm_id = 1, tm_uuid = example_uuid, tm_name = [], tm_enabled = True, tm_description = [], tm_quotas = []\<rparr>"

definition deleted_rule :: security_group_rule_message where
  "deleted_rule = \<lparr>srm_uuid = example_uuid, srm_description = [], srm_remote_security_group_uuid = [], srm_network_cidr = [],
     srm_direction = [], srm_port_range_min = 0, srm_port_range_max = 0, srm_protocol = [], srm_ether_type = 4, srm_id = 0\<rparr>"

definition example_group_deletion :: security_group_request where
  "example_group_deletion = \<lparr>sgq_conn = Some example_connection, sgq_tenant = Some calling_tenant,
     sgq_security_group = Some \<lparr>sgm_uuid = example_uuid, sgm_name = [], sgm_description = [], sgm_rules = [deleted_rule], sgm_id = 0\<rparr>,
     sgq_security_group_rule = None\<rparr>"

lemma example_credential: "example_connection\<lparr>ci_credential := ci_credential example_connection\<rparr> = example_connection"
  by simp

theorem delete_security_group_in_order_witness:
  "\<exists>w'. run_state (delete_security_group_request example_externals Inr (\<lambda>_. example_api) example_group_deletion) example_world = (Inr (), w') \<and>
     w_ticks w' = 3"
proof -
  have u: "check_uuid q example_uuid = None" for q by (simp add: check_uuid_None example_uuid_parse)
  have v: "validate_delete_security_group example_externals (example_group_deletion\<lparr>sgq_conn := Some example_connection\<rparr>) = None"
    by (simp add: validate_delete_security_group_def first_error_None resource_accepts example_group_deletion_def calling_tenant_def
        deleted_rule_def example_connection_usable example_uuid_parse u)
  have "\<exists>w'. run_state (delete_security_group_request example_externals Inr (\<lambda>_. example_api) example_group_deletion) example_world = (Inr (), w')"
    using v by (simp add: delete_security_group_request_def Let_def on_cluster_def decrypted_def given_def after_def dialled_def ask_def
        example_group_deletion_def example_api_def consent_def check_def return_nil_def told_def)
  then obtain w' where run: "run_state (delete_security_group_request example_externals Inr (\<lambda>_. example_api) example_group_deletion) example_world = (Inr (), w')"
    by blast
  from delete_security_group_in_order [OF run refl refl refl] run show ?thesis
    by (auto simp: example_group_deletion_def example_world_def)
qed

section \<open>Instances\<close>

text \<open>The bootable volumes get the numbers from 0 on, in their order, and every other one gets -1.\<close>

lemma boot_indices:
  "0 \<le> n \<Longrightarrow> filter (\<lambda>i. i \<noteq> -1) (map av_boot_index (attached_volumes n vs)) =
     map (\<lambda>i. n + int i) [0..<length (filter (\<lambda>v. getf vm_bootable False (ivm_volume v)) vs)]"
proof (induction vs arbitrary: n)
  case Nil
  then show ?case by simp
next
  case (Cons v vs)
  have "map (\<lambda>i. n + 1 + int i) [0..<k] = map (\<lambda>i. n + int i) [Suc 0..<Suc k]" for k
    by (simp only: map_Suc_upt [symmetric]) (simp add: algebra_simps)
  then show ?case using Cons by (simp add: Let_def upt_conv_Cons del: upt_Suc)
qed

lemma script_of_Inr:
  assumes "run_state (script_of i) w = (Inr s, w')"
  shows "s = (case least_by us_cluster_instance_id (filter (\<lambda>r. cond_nat i (us_cluster_instance_id r)) (db_instance_user_script (w_db w))) of
      None \<Rightarrow> [] | Some r \<Rightarrow> us_user_data r)"
  using assms
  by (auto simp: script_of_def script_row_def first_row_def statement_def pop_fault_def
      split: prod.splits sum.splits option.splits err.splits if_splits list.splits)

text \<open>C20. When an instance is created, the cluster is asked for it with the user script that is stored for its identifier;
  an instance that has none yet, as a new one, gets the script of the instance with the least identifier, whosever it
  is. Its hypervisor has to name its cluster.\<close>

theorem create_instance_script:
  assumes "run_state (create_instance ext decrypt client req) w = (Inr v, w')"
    and "scripts = db_instance_user_script (w_db w)" and "i = getf im_id 0 (cir_instance req)"
  shows "\<exists>c p t x script. cir_conn req = Some c \<and> decrypt (ci_credential c) = Inr p \<and>
    ca_create_instance (client (c\<lparr>ci_credential := p\<rparr>)) (instance_call_of req script) t = Inr x \<and> v = shown_instance x \<and>
    script = (case least_by us_cluster_instance_id (if i = 0 then scripts else filter (\<lambda>r. us_cluster_instance_id r = i) scripts) of
      None \<Rightarrow> [] | Some r \<Rightarrow> us_user_data r) \<and>
    (\<exists>h. cir_hypervisor req = Some h \<and> hm_cluster_id h \<noteq> None)"
proof -
  obtain c p where c: "cir_conn req = Some c" "decrypt (ci_credential c) = Inr p"
    and run: "run_state (given (State_Monad.return (hypervisor_row (cir_hypervisor req))) (\<lambda>h.
       after (ask (ca_preprocess_creating_instance (client (c\<lparr>ci_credential := p\<rparr>))
           (map (\<lambda>v. storage_row (getf vm_storage None (ivm_volume v))) (cir_volumes req), h)))
       (given (script_of (ins_id (instance_row (cir_instance req)))) (\<lambda>script.
         show_answer shown_instance (ca_create_instance (client (c\<lparr>ci_credential := p\<rparr>)) (instance_call_of req script))))))
       (w\<lparr>w_ticks := Suc (w_ticks w)\<rparr>) = (Inr v, w')"
    using assms(1) unfolding create_instance_def by (rule on_cluster_Inr) blast
  obtain h script w1 w2 where h: "hypervisor_row (cir_hypervisor req) = Inr h" and same: "w_db w1 = w_db w"
    and script: "run_state (script_of (ins_id (instance_row (cir_instance req)))) w1 = (Inr script, w2)"
    and called: "run_state (show_answer shown_instance (ca_create_instance (client (c\<lparr>ci_credential := p\<rparr>)) (instance_call_of req script))) w2 = (Inr v, w')"
    using run that [where ?w1.0 = "w\<lparr>w_ticks := Suc (Suc (w_ticks w))\<rparr>"] by (auto simp: given_Inr after_Inr ask_def)
  have i: "ins_id (instance_row (cir_instance req)) = i"
    by (simp add: assms(3) instance_row_def row_of_def named_instance_def split: option.split)
  have "cond_nat 0 = (\<lambda>_. True)" "i \<noteq> 0 \<Longrightarrow> cond_nat i (us_cluster_instance_id r) \<longleftrightarrow> us_cluster_instance_id r = i" for r
    by (auto simp: cond_nat_def)
  then have "script = (case least_by us_cluster_instance_id (if i = 0 then scripts else filter (\<lambda>r. us_cluster_instance_id r = i) scripts) of
      None \<Rightarrow> [] | Some r \<Rightarrow> us_user_data r)"
    using script_of_Inr [OF script] by (auto simp: i same assms(2))
  moreover have "\<exists>h. cir_hypervisor req = Some h \<and> hm_cluster_id h \<noteq> None"
    using h by (auto simp: hypervisor_row_def split: option.splits)
  moreover obtain t x where "ca_create_instance (client (c\<lparr>ci_credential := p\<rparr>)) (instance_call_of req script) t = Inr x" "v = shown_instance x"
    using called by (auto simp: show_answer_def given_Inr ask_def)
  ultimately show ?thesis using c by blast
qed

definition boot_volume :: instance_volume_message where
  "boot_volume = \<lparr>ivm_volume = Some \<lparr>vm_id = 0, vm_storage = Some example_storage, vm_uuid = example_uuid, vm_name = [],
       vm_description = [], vm_size_bytes = 0, vm_multiattach = False, vm_bootable = True, vm_readonly = False, vm_status = []\<rparr>,
       ivm_device_path = ''d'', ivm_boot_index = 0\<rparr>"

definition example_instance_request :: create_instance_request where
  "example_instance_request = \<lparr>cir_conn = Some example_connection, cir_tenant = Some calling_tenant,
     cir_hypervisor = Some \<lparr>hm_id = 0, hm_hostname = [], hm_ssh_port = 0, hm_ssh_account = [], hm_ssh_password = [], hm_agent_port = 0,
       hm_agent_version = [], hm_uuid = [], hm_type_code = [], hm_ip_address = [], hm_vcpu_total_cnt = 0, hm_vcpu_used_cnt = 0,
       hm_mem_total_bytes = 0, hm_mem_used_bytes = 0, hm_disk_total_bytes = 0, hm_disk_used_bytes = 0, hm_state = [], hm_status = [],
       hm_agent_installed_at = 0, hm_agent_last_upgraded_at = 0, hm_cluster_id = Some 3\<rparr>,
     cir_availability_zone_name = Some ''z'',
     cir_spec = Some \<lparr>spm_cluster_id = None, spm_uuid = ''s'', spm_name = [], spm_description = [], spm_vcpu_total_cnt = 0,
       spm_mem_total_bytes = 0, spm_id = 0, spm_disk_total_bytes = 0, spm_swap_total_bytes = 0, spm_ephemeral_total_bytes = 0\<rparr>,
     cir_keypair = None, cir_networks = [],
     cir_volumes = [boot_volume],
     cir_security_groups = [],
     cir_instance = Some \<lparr>im_uuid = [], im_name = ''i'', im_description = [], im_id = 0, im_status = [], im_state = []\<rparr>\<rparr>"

definition scripted_world :: world where
  "scripted_world = example_world\<lparr>w_db := empty_db\<lparr>db_instance_user_script := [\<lparr>us_cluster_instance_id = 5, us_user_data = ''boot''\<rparr>]\<rparr>\<rparr>"

lemma example_instance_accepted:
  "validate_create_cluster_instance_request example_externals (example_instance_request\<lparr>cir_conn := Some example_connection\<rparr>) = None"
proof -
  have one: "rune_count ''z'' = 1" "rune_count ''i'' = 1" "rune_count [] = 0"
    by (simp_all add: rune_count.simps rune_len.simps second_range_def)
  have "well_formed_instance_volume boot_volume"
    by (simp add: well_formed_instance_volume_def boot_volume_def example_uuid_parse)
  then have ok: "check_instance_volume n boot_volume = None" for n
    by (simp add: check_instance_volume_None)
  show ?thesis
    by (simp add: validate_create_cluster_instance_request_def first_error_None instance_accepts Let_def example_instance_request_def
        example_connection_usable calling_tenant_def example_uuid_parse one ok check_instance_volume_None \<open>well_formed_instance_volume boot_volume\<close>)
qed

theorem create_instance_script_witness:
  "\<exists>v w' t x. run_state (create_instance example_externals Inr (\<lambda>_. example_api) example_instance_request) scripted_world = (Inr v, w') \<and>
     ca_create_instance example_api (instance_call_of example_instance_request ''boot'') t = Inr x \<and> v = shown_instance x"
proof -
  have conn: "cir_conn example_instance_request = Some example_connection" by (simp add: example_instance_request_def)
  obtain h where h: "hypervisor_row (cir_hypervisor example_instance_request) = Inr h"
    by (simp add: hypervisor_row_def example_instance_request_def)
  have q: "quiet (scripted_world\<lparr>w_ticks := n\<rparr>)" for n by (simp add: scripted_world_def example_world_def quiet_def)
  have "\<exists>v w'. run_state (create_instance example_externals Inr (\<lambda>_. example_api) example_instance_request) scripted_world = (Inr v, w')"
    using example_instance_accepted q
    by (simp add: create_instance_def on_cluster_def conn decrypted_def given_def after_def dialled_def ask_def h script_of_def
        script_row_def quiet_run example_api_def consent_def show_answer_def split: option.split)
  then obtain v w' where run: "run_state (create_instance example_externals Inr (\<lambda>_. example_api) example_instance_request) scripted_world = (Inr v, w')"
    by blast
  from create_instance_script [OF run refl refl] run show ?thesis
    by (auto simp: example_instance_request_def scripted_world_def)
qed

end
