(* ===== verification/InventoryLists.thy ===== *)
theory InventoryLists
  imports CallResults
begin

text \<open>
  What the lists of the inventory answer (\<open>internal/hypervisor\<close>, \<open>internal/storage\<close>): the page that was
  asked for, of the rows that were asked for, and their number; and two requests that answer more than
  they should.
\<close>

section \<open>Answers of reads\<close>

text \<open>
  An operation that reads the database \<open>d\<close>, leaves it, and whose answer, if it has one, satisfies \<open>Q\<close>.
\<close>

definition answers :: "database \<Rightarrow> (err + 'a) op \<Rightarrow> ('a \<Rightarrow> bool) \<Rightarrow> bool" where
  "answers d m Q \<longleftrightarrow> (\<forall>w x w'. w_db w = d \<longrightarrow> run_state m w = (Inr x, w') \<longrightarrow> w_db w' = d \<and> Q x)"

lemma answersD: "answers (w_db w) m Q \<Longrightarrow> run_state m w = (Inr x, w') \<Longrightarrow> w_db w' = w_db w \<and> Q x"
  unfolding answers_def by blast

lemma answers_succeed: "answers d (succeed x) (\<lambda>y. y = x)"
  by (simp add: answers_def)

lemma answers_given:
  assumes "answers d m P" and "\<And>x. P x \<Longrightarrow> answers d (k x) Q"
  shows "answers d (given m k) Q"
  unfolding answers_def given_Inr
proof (intro allI impI, elim exE conjE)
  fix w y w' x w1
  assume "w_db w = d" and m: "run_state m w = (Inr x, w1)" and k: "run_state (k x) w1 = (Inr y, w')"
  then have "w_db w1 = d" "P x" using assms(1) unfolding answers_def by blast+
  then show "w_db w' = d \<and> Q y" using assms(2) [of x] k unfolding answers_def by blast
qed

lemma answers_after:
  assumes "\<And>s e. keeps (unaltered d s e) m" and "clears (\<lambda>_. P) m" and "P \<Longrightarrow> answers d k Q"
  shows "answers d (after m k) Q"
  unfolding answers_def after_Inr
proof (intro allI impI, elim exE conjE)
  fix w y w' w1
  assume "w_db w = d" and m: "run_state m w = (None, w1)" and k: "run_state k w1 = (Inr y, w')"
  have "w_db w1 = d"
    using assms(1) [of "w_kv w" "w_events w"] \<open>w_db w = d\<close> m by (simp add: keeps_def unaltered_def) (metis snd_conv)
  moreover have P using assms(2) m unfolding clears_def by blast
  ultimately show "w_db w' = d \<and> Q y" using assms(3) k unfolding answers_def by blast
qed

lemma answers_execute: "answers d m Q \<Longrightarrow> answers d (execute m) Q"
proof -
  have "run_state m w = (Inr x, w')" if "run_state (execute m) w = (Inr x, w')" for w x w'
    using that by (auto simp: execute_def map_sum_Inr split: prod.splits)
  then show "answers d m Q \<Longrightarrow> answers d (execute m) Q" unfolding answers_def by blast
qed

lemma answers_mono: "answers d m P \<Longrightarrow> (\<And>x. P x \<Longrightarrow> Q x) \<Longrightarrow> answers d m Q"
  unfolding answers_def by blast

lemma statement_read_Inr:
  "run_state (statement (\<lambda>db. Inr (f db, db))) w = (Inr x, w') \<Longrightarrow> x = f (w_db w) \<and> w_db w' = w_db w"
  by (auto simp: statement_def pop_fault_def split: list.splits option.splits prod.splits if_splits)

lemma first_row_Inr:
  "run_state (first_row key rows) w = (Inr x, w') \<Longrightarrow> x \<in> set (rows (w_db w)) \<and> w_db w' = w_db w"
  by (auto simp: first_row_def split: sum.splits prod.splits option.splits dest!: statement_read_Inr dest: least_by_Some [OF sym])

lemma look_up_Inr:
  "run_state (look_up missing key rows) w = (Inr x, w') \<Longrightarrow> run_state (first_row key rows) w = (Inr x, w')"
proof -
  assume run: "run_state (look_up missing key rows) w = (Inr x, w')"
  obtain r v where r: "run_state (first_row key rows) w = (r, v)" by fastforce
  show ?thesis
  proof (cases r)
    case (Inl e)
    then show ?thesis using run r by (cases e) (simp_all add: look_up_def)
  next
    case (Inr y)
    then show ?thesis using run unfolding look_up_def by (simp add: r)
  qed
qed

lemma answers_look_up: "answers d (look_up missing key rows) (\<lambda>r. r \<in> set (rows d))"
  unfolding answers_def by (blast dest: look_up_Inr first_row_Inr)

lemma answers_brief:
  "answers d (get_brief_cluster ctx cid) (\<lambda>c. \<exists>k \<in> set (db_cluster d). c = brief_cluster k \<and>
     cond_nat cid (cl_id k) \<and> cond_nat (ctx_tenant ctx) (cl_tenant_id k))"
  unfolding get_brief_cluster_def
  by (rule answers_given [OF answers_look_up]) (auto intro!: answers_mono [OF answers_succeed])

section \<open>Filters\<close>

text \<open>The conditions of a list request, and its page.\<close>

fun condition :: "'r list_filter \<Rightarrow> ('r \<Rightarrow> bool) option" where
  "condition (Matching c) = Some c"
| "condition _ = None"

definition conditions :: "'r list_filter list \<Rightarrow> bool" where
  "conditions fs \<longleftrightarrow> (\<forall>f \<in> set fs. condition f \<noteq> None)"

definition admits :: "'r list_filter list \<Rightarrow> 'r \<Rightarrow> bool" where
  "admits fs r \<longleftrightarrow> (\<forall>f \<in> set fs. \<forall>c. condition f = Some c \<longrightarrow> c r)"

lemma admits_append [simp]: "admits (fs @ gs) r \<longleftrightarrow> admits fs r \<and> admits gs r"
  by (auto simp: admits_def)

lemma admits_filter_if [simp]: "admits (filter_if b (Matching c)) r \<longleftrightarrow> b \<longrightarrow> c r"
  by (simp add: admits_def filter_if_def)

lemma conditions_append [simp]: "conditions (fs @ gs) \<longleftrightarrow> conditions fs \<and> conditions gs"
  by (auto simp: conditions_def)

lemma conditions_filter_if [simp]: "conditions (filter_if b (Matching c))"
  by (simp add: conditions_def filter_if_def)

lemma admits_via: "conditions fs \<Longrightarrow> conditions (map (via g) fs) \<and> admits (map (via g) fs) r = admits fs (g r)"
proof (induction fs)
  case Nil
  then show ?case by (simp add: conditions_def admits_def)
next
  case (Cons f fs)
  then show ?case by (cases f) (auto simp: conditions_def admits_def)
qed

lemma via_page: "map (via g) (page_filter p) = page_filter p"
  by (simp add: page_filter_def filter_if_def)

lemma conditions_applied:
  "conditions fs \<Longrightarrow> \<exists>q'. apply_list_filters fs q = succeed q' \<and> qu_offset q' = qu_offset q \<and> qu_limit q' = qu_limit q \<and>
     qu_where q' = (\<lambda>r. qu_where q r \<and> admits fs r)"
proof (induction fs arbitrary: q)
  case Nil
  show ?case by (rule exI [of _ q]) (simp add: admits_def)
next
  case (Cons f fs)
  then obtain c where f: "f = Matching c" "conditions fs" by (cases f) (auto simp: conditions_def)
  have run: "apply_list_filters (f # fs) q = apply_list_filters fs (where_also c q)"
    by (simp add: f(1) given_def succeed_def)
  have "admits (f # fs) r \<longleftrightarrow> c r \<and> admits fs r" for r by (auto simp: admits_def f(1))
  with Cons.IH [OF f(2), of "where_also c q"] show ?case unfolding run by (auto simp: where_also_def fun_eq_iff)
qed

lemma page_applied:
  "apply_list_filters (page_filter p) q = succeed (page_also (fst p) (snd p) q)"
  by (cases "fst p"; cases "snd p") (simp_all add: page_filter_def filter_if_def page_also_def given_def succeed_def)

lemma apply_append: "apply_list_filters (fs @ gs) q = given (apply_list_filters fs q) (apply_list_filters gs)"
proof (induction fs arbitrary: q)
  case Nil
  then show ?case by (simp add: given_def succeed_def)
next
  case (Cons f fs)
  show ?case by (rule state.expand) (auto simp: Cons given_def fun_eq_iff split: prod.split sum.split)
qed

lemma answers_list_rows:
  assumes "conditions fs"
  shows "answers d (list_rows rows (fs @ page_filter p)) (\<lambda>rs. rs = page_of (fst p) (snd p) (filter (admits fs) (rows d)))"
proof -
  obtain q where q: "apply_list_filters fs all_rows = succeed q" "qu_offset q = None" "qu_limit q = None" "qu_where q = admits fs"
    using conditions_applied [OF assms, of all_rows] by (auto simp: all_rows_def)
  have "apply_list_filters (fs @ page_filter p) all_rows = succeed (page_also (fst p) (snd p) q)"
    by (simp add: apply_append q(1) given_def succeed_def page_applied [unfolded succeed_def])
  moreover have "qu_offset (page_also (fst p) (snd p) q) = fst p" "qu_limit (page_also (fst p) (snd p) q) = snd p"
    "qu_where (page_also (fst p) (snd p) q) = admits fs"
    using q(2-4) by (simp_all add: page_also_def split: option.split)
  moreover have "w_db w' = w_db w" if "run_state (run_query rows Q) w = (r, w')" for Q w r w'
    using read_listing(5) [of "w_db w" "w_kv w" "w_events w" rows Q] that by (force simp: keeps_def unaltered_def)
  ultimately show ?thesis by (auto simp: answers_def list_rows_def given_Inr dest!: run_query_Inr)
qed

definition page_number :: "64 word option \<Rightarrow> 64 word" where
  "page_number n = (case n of None \<Rightarrow> 0 | Some v \<Rightarrow> v)"

lemma count_query_Inr:
  "run_state (count_query rows q) w = (Inr n, w') \<Longrightarrow> n = of_nat (length (filter (qu_where q) (rows (w_db w)))) \<and> w_db w' = w_db w"
  by (auto simp: count_query_def db_res_def find_rows_def map_sum_Inr split: prod.splits dest!: statement_read_Inr)

lemma conditions_unpaged:
  assumes "conditions fs"
  shows "filter (\<lambda>f. \<not> is_paged f) (fs @ page_filter p) = fs" and "page_of_filters n (fs @ gs) = page_of_filters n gs"
proof -
  have "\<not> is_paged f" if "f \<in> set fs" for f using assms that by (cases f) (auto simp: conditions_def)
  then show "filter (\<lambda>f. \<not> is_paged f) (fs @ page_filter p) = fs"
    by (simp add: page_filter_def filter_if_def)
  show "page_of_filters n (fs @ gs) = page_of_filters n gs"
    using assms by (induction fs) (auto simp: conditions_def elim!: condition.elims)
qed

lemma page_of_page_filter:
  "page_of_filters n (page_filter p) = (if fst p = None \<and> snd p = None then n else (page_number (fst p), page_number (snd p)))"
  by (cases "fst p"; cases "snd p") (simp_all add: page_filter_def filter_if_def page_number_def)

lemma answers_paginate:
  assumes "conditions fs"
  shows "answers d (paginate rows (fs @ page_filter p))
    (\<lambda>pg. pg = pagination_of (page_number (fst p)) (page_number (snd p)) (of_nat (length (filter (admits fs) (rows d)))))"
proof -
  obtain q where q: "apply_list_filters fs all_rows = succeed q" "qu_where q = admits fs"
    using conditions_applied [OF assms, of all_rows] by (auto simp: all_rows_def)
  show ?thesis
    by (auto simp: page_of_page_filter page_number_def answers_def paginate_def conditions_unpaged [OF assms] q given_Inr simp del: filter_append dest!: count_query_Inr)
qed

text \<open>Without failures, they return.\<close>

lemma look_up_quiet:
  "quiet w \<Longrightarrow> run_state (look_up missing key rows) w =
     (case least_by key (rows (w_db w)) of None \<Rightarrow> Inl missing | Some x \<Rightarrow> Inr x, w)"
  by (simp add: look_up_def quiet_run split: option.split)

lemma list_rows_quiet:
  assumes "quiet w" "conditions fs" "page_fits (fst p)" "page_fits (snd p)"
  shows "run_state (list_rows rows (fs @ page_filter p)) w =
    (Inr (page_of (fst p) (snd p) (filter (admits fs) (rows (w_db w)))), w)"
proof -
  have "\<exists>x. run_state (list_rows rows (fs @ page_filter p)) w = (Inr x, w)"
  proof -
    obtain q where q: "apply_list_filters fs all_rows = succeed q" "qu_offset q = None" "qu_limit q = None"
      using conditions_applied [OF assms(2), of all_rows] by (auto simp: all_rows_def)
    have "page_fits (qu_offset (page_also (fst p) (snd p) q))" "page_fits (qu_limit (page_also (fst p) (snd p) q))"
      using assms(3,4) q(2,3) by (auto simp: page_also_def split: option.split)
    then show ?thesis
      by (simp add: list_rows_def given_def apply_append q(1) page_applied run_query_def db_res_def quiet_run assms(1))
  qed
  with answersD [OF answers_list_rows [OF assms(2)]] show ?thesis by fastforce
qed

lemma paginate_quiet:
  assumes "quiet w" "conditions fs"
  shows "run_state (paginate rows (fs @ page_filter p)) w =
    (Inr (pagination_of (page_number (fst p)) (page_number (snd p)) (of_nat (length (filter (admits fs) (rows (w_db w)))))), w)"
proof -
  have "\<exists>x. run_state (paginate rows (fs @ page_filter p)) w = (Inr x, w)"
    using conditions_applied [OF assms(2), of all_rows]
    by (auto simp: paginate_def conditions_unpaged [OF assms(2)] given_def count_query_def db_res_def quiet_run assms(1)
        simp del: filter_append)
  with answersD [OF answers_paginate [OF assms(2)]] show ?thesis by fastforce
qed

section \<open>Storages\<close>

definition storage_conditions :: "storage_list_request \<Rightarrow> cluster_storage list_filter list" where
  "storage_conditions req =
     filter_if (slr_type_code req \<noteq> []) (Matching (\<lambda>s. st_type_code s = slr_type_code req)) @
     filter_if (slr_name req \<noteq> []) (Matching (\<lambda>s. contains_text (slr_name req) (st_name s)))"

lemma storage_filters: "make_storage_filters req p = storage_conditions req @ page_filter p" "conditions (storage_conditions req)"
  by (simp_all add: make_storage_filters_def storage_conditions_def)

text \<open>The storages of a cluster that a request asks for.\<close>

definition wanted_storage :: "storage_list_request \<Rightarrow> cluster_storage \<Rightarrow> bool" where
  "wanted_storage req s \<longleftrightarrow> st_cluster_id s = slr_cluster_id req \<and> (slr_type_code req = [] \<or> st_type_code s = slr_type_code req) \<and>
     (slr_name req = [] \<or> contains_text (slr_name req) (st_name s))"

lemma storages_wanted:
  "slr_cluster_id req \<noteq> 0 \<Longrightarrow>
   filter (admits (storage_conditions req)) (storages_of_cluster (slr_cluster_id req) db) = filter (wanted_storage req) (db_storage db)"
  by (auto simp: storages_of_cluster_def storage_conditions_def wanted_storage_def cond_nat_def intro!: filter_cong)

lemma storage_list_answers:
  "answers d (get_storage_list ctx req p) (\<lambda>(vs, pg). \<exists>c \<in> set (db_cluster d). cl_id c = slr_cluster_id req \<and>
     vs = map (view_storage (brief_cluster c)) (page_of (fst p) (snd p) (filter (wanted_storage req) (db_storage d))) \<and>
     pg = pagination_of (page_number (fst p)) (page_number (snd p)) (of_nat (length (filter (wanted_storage req) (db_storage d)))))"
  unfolding get_storage_list_def Let_def storage_filters(1)
proof (rule answers_after [where P = "slr_cluster_id req \<noteq> 0"])
  fix s e
  show "keeps (unaltered d s e) (execute_err (validating 1 (\<lambda>db fault. validate_storage_list_request ctx db (fault 0) req)))"
    by (intro read_intros)
next
  show "clears (\<lambda>_. slr_cluster_id req \<noteq> 0)
      (execute_err (validating 1 (\<lambda>db fault. validate_storage_list_request ctx db (fault 0) req)))"
    by (intro clears_execute clears_validating) (simp add: validate_storage_list_request_def guard_simps)
next
  assume id: "slr_cluster_id req \<noteq> 0"
  let ?rows = "filter (wanted_storage req) (db_storage d)"
  show "answers d (execute (given (get_brief_cluster ctx (slr_cluster_id req)) (\<lambda>c.
      given (list_rows (storages_of_cluster (slr_cluster_id req)) (storage_conditions req @ page_filter p)) (\<lambda>ss.
      given (paginate (storages_of_cluster (slr_cluster_id req)) (storage_conditions req @ page_filter p)) (\<lambda>pg.
        succeed (map (view_storage c) ss, pg))))))
    (\<lambda>(vs, pg). \<exists>c \<in> set (db_cluster d). cl_id c = slr_cluster_id req \<and>
      vs = map (view_storage (brief_cluster c)) (page_of (fst p) (snd p) ?rows) \<and>
      pg = pagination_of (page_number (fst p)) (page_number (snd p)) (of_nat (length ?rows)))"
    by (rule answers_execute, rule answers_given [OF answers_brief], rule answers_given [OF answers_list_rows [OF storage_filters(2)]],
        rule answers_given [OF answers_paginate [OF storage_filters(2)]], rule answers_mono [OF answers_succeed])
      (auto simp: storages_wanted [OF id] cond_nat_def id)
qed

text \<open>C19. Whatever fails, a list of storages that is returned shows exactly the storages of the cluster that have the
  type and the name the request asks for, on the page it asks for, and counts all of them.\<close>

theorem storage_list_exact:
  assumes "run_state (get_storage_list ctx req p) w = (Inr (vs, pg), w')"
  shows "\<exists>c \<in> set (db_cluster (w_db w)). cl_id c = slr_cluster_id req \<and>
     vs = map (view_storage (brief_cluster c)) (page_of (fst p) (snd p) (filter (wanted_storage req) (db_storage (w_db w)))) \<and>
     pg = pagination_of (page_number (fst p)) (page_number (snd p)) (of_nat (length (filter (wanted_storage req) (db_storage (w_db w)))))"
  using answersD [OF storage_list_answers assms] by simp

definition example_storages :: "cluster_storage list" where
  "example_storages = [\<lparr>st_id = 4, st_cluster_id = 3, st_uuid = ''u'', st_name = ''first'', st_description = None,
     st_type_code = ''openstack.storage.type.nfs'', st_capacity_bytes = None, st_used_bytes = None, st_status = [],
     st_credential = Some ''x'', st_raw = None\<rparr>,
   \<lparr>st_id = 5, st_cluster_id = 3, st_uuid = ''v'', st_name = ''second'', st_description = None,
     st_type_code = ''openstack.storage.type.ceph'', st_capacity_bytes = None, st_used_bytes = None, st_status = [],
     st_credential = None, st_raw = None\<rparr>]"

definition storage_world :: world where
  "storage_world = example_inventory\<lparr>w_db := (w_db example_inventory)\<lparr>db_storage := example_storages\<rparr>\<rparr>"

definition example_storage_request :: storage_list_request where
  "example_storage_request = \<lparr>slr_cluster_id = 3, slr_type_code = [], slr_name = []\<rparr>"

theorem storage_list_exact_witness:
  "\<exists>vs pg. fst (run_state (get_storage_list example_context example_storage_request (Some 1, Some 1)) storage_world) = Inr (vs, pg) \<and>
     map (\<lambda>v. st_name (stv_storage v)) vs = [''second''] \<and> pg_total_items pg = 2"
proof -
  have q: "quiet storage_world" by (simp add: storage_world_def example_inventory_def example_world_def quiet_def)
  have plain: "w_faults storage_world = []" "w_tx storage_world = NoTx"
    by (simp_all add: storage_world_def example_inventory_def example_world_def)
  have v: "validate_storage_list_request example_context (w_db storage_world) None example_storage_request = None"
    using example_owner by (simp add: validate_storage_list_request_def guard_simps example_storage_request_def max_runes_def
        storage_world_def is_cluster_owner_def)
  have same: "storage_world\<lparr>w_faults := []\<rparr> = storage_world"
    by (simp add: storage_world_def example_inventory_def example_world_def)
  have three: "slr_cluster_id example_storage_request = 3" by (simp add: example_storage_request_def)
  have found: "run_state (get_brief_cluster example_context 3) storage_world = (Inr (brief_cluster example_cluster), storage_world)"
    by (simp add: get_brief_cluster_def given_def look_up_quiet q)
      (simp add: storage_world_def example_inventory_def example_cluster_def example_context_def cond_nat_def)
  have "\<exists>vs pg. fst (run_state (get_storage_list example_context example_storage_request (Some 1, Some 1)) storage_world) = Inr (vs, pg)"
    using v found
    by (simp add: get_storage_list_def Let_def after_def execute_err_def execute_def validating_def plain given_def storage_filters
        list_rows_quiet paginate_quiet q page_fits_def same three)
  then obtain vs pg w' where run:
      "run_state (get_storage_list example_context example_storage_request (Some 1, Some 1)) storage_world = (Inr (vs, pg), w')"
    by (metis prod.collapse)
  have rows: "filter (wanted_storage example_storage_request) (db_storage (w_db storage_world)) = example_storages"
    by (simp add: storage_world_def example_storages_def wanted_storage_def example_storage_request_def)
  from storage_list_exact [OF run] obtain c where
      "vs = map (view_storage (brief_cluster c)) (page_of (Some 1) (Some 1) example_storages)"
      "pg = pagination_of 1 1 (of_nat (length example_storages))"
    unfolding rows by (auto simp: page_number_def)
  then have "map (\<lambda>v. st_name (stv_storage v)) vs = [''second'']" "pg_total_items pg = 2"
    by (simp_all add: page_of_def view_storage_def shown_storage_def example_storages_def pagination_of_def)
  then show ?thesis using run by (metis fst_conv)
qed

section \<open>Hypervisors\<close>

definition hypervisor_conditions :: "hypervisor_list_request \<Rightarrow> cluster_hypervisor list_filter list" where
  "hypervisor_conditions req =
     filter_if (hlr_hostname req \<noteq> []) (Matching (\<lambda>h. contains_text (hlr_hostname req) (hv_hostname h))) @
     filter_if (hlr_ip_address req \<noteq> []) (Matching (\<lambda>h. hv_ip_address h = hlr_ip_address req)) @
     filter_if (hlr_cluster_availability_zone_id req \<noteq> 0)
       (Matching (\<lambda>h. hv_cluster_availability_zone_id h = hlr_cluster_availability_zone_id req))"

lemma hypervisor_filters:
  "make_hypervisor_filters req p = hypervisor_conditions req @ page_filter p" "conditions (hypervisor_conditions req)"
  by (simp_all add: make_hypervisor_filters_def hypervisor_conditions_def)

definition wanted_hypervisor :: "hypervisor_list_request \<Rightarrow> cluster_hypervisor \<Rightarrow> bool" where
  "wanted_hypervisor req h \<longleftrightarrow> hv_cluster_id h = hlr_cluster_id req \<and>
     (hlr_hostname req = [] \<or> contains_text (hlr_hostname req) (hv_hostname h)) \<and>
     (hlr_ip_address req = [] \<or> hv_ip_address h = hlr_ip_address req) \<and>
     (hlr_cluster_availability_zone_id req = 0 \<or> hv_cluster_availability_zone_id h = hlr_cluster_availability_zone_id req)"

text \<open>A join over a foreign key keeps every row, and its order.\<close>

lemma join_rows_filter: "filter (\<lambda>r. P (fst r)) (join_rows on xs ys) = join_rows on (filter P xs) ys"
proof -
  have "filter (\<lambda>r. P (fst r)) (map (Pair x) zs) = (if P x then map (Pair x) zs else [])" for x and zs :: "'b list"
    by (induction zs) auto
  then show ?thesis by (induction xs) (simp_all add: join_rows_def)
qed

lemma one_with_key: "distinct (map key ys) \<Longrightarrow> k \<in> key ` set ys \<Longrightarrow> \<exists>y. filter (\<lambda>y. key y = k) ys = [y]"
proof (induction ys)
  case Nil
  then show ?case by simp
next
  case (Cons y ys)
  then show ?case by (cases "key y = k") (auto simp: filter_empty_conv image_iff)
qed

lemma join_rows_fst:
  assumes "distinct (map key ys)" and "\<forall>x \<in> set xs. ref x \<in> key ` set ys"
  shows "map fst (join_rows (\<lambda>x y. key y = ref x) xs ys) = xs"
  using assms(2)
proof (induction xs)
  case Nil
  then show ?case by (simp add: join_rows_def)
next
  case (Cons x xs)
  obtain y where "filter (\<lambda>y. key y = ref x) ys = [y]" using one_with_key [OF assms(1)] Cons.prems by fastforce
  with Cons show ?case by (simp add: join_rows_def)
qed

lemma hypervisors_wanted:
  assumes "hlr_cluster_id req \<noteq> 0"
  shows "filter (admits (map (via fst) (hypervisor_conditions req))) (hypervisor_records (hlr_cluster_id req) db) =
      join_rows (\<lambda>h z. az_id z = hv_cluster_availability_zone_id h) (filter (wanted_hypervisor req) (db_hypervisor db))
        (db_availability_zone db)"
    and "filter (admits (hypervisor_conditions req)) (filter (\<lambda>h. cond_nat (hlr_cluster_id req) (hv_cluster_id h)) (db_hypervisor db)) =
      filter (wanted_hypervisor req) (db_hypervisor db)"
proof -
  have selects: "admits (map (via fst) (hypervisor_conditions req)) = (\<lambda>r. admits (hypervisor_conditions req) (fst r))"
    by (intro ext) (rule conjunct2 [OF admits_via [OF hypervisor_filters(2)]])
  show own: "filter (admits (hypervisor_conditions req)) (filter (\<lambda>h. cond_nat (hlr_cluster_id req) (hv_cluster_id h)) (db_hypervisor db)) =
      filter (wanted_hypervisor req) (db_hypervisor db)" for db
    by (auto simp: hypervisor_conditions_def wanted_hypervisor_def cond_nat_def assms intro!: filter_cong)
  show "filter (admits (map (via fst) (hypervisor_conditions req))) (hypervisor_records (hlr_cluster_id req) db) =
      join_rows (\<lambda>h z. az_id z = hv_cluster_availability_zone_id h) (filter (wanted_hypervisor req) (db_hypervisor db))
        (db_availability_zone db)"
    unfolding hypervisor_records_def selects join_rows_filter own ..
qed

lemma hypervisor_list_answers:
  "answers d (get_hypervisor_list ext ctx req p) (\<lambda>(vs, pg). \<exists>c \<in> set (db_cluster d). cl_id c = hlr_cluster_id req \<and>
     vs = map (view_hypervisor (brief_cluster c)) (page_of (fst p) (snd p)
       (join_rows (\<lambda>h z. az_id z = hv_cluster_availability_zone_id h) (filter (wanted_hypervisor req) (db_hypervisor d))
          (db_availability_zone d))) \<and>
     pg = pagination_of (page_number (fst p)) (page_number (snd p)) (of_nat (length (filter (wanted_hypervisor req) (db_hypervisor d)))))"
  unfolding get_hypervisor_list_def Let_def hypervisor_filters(1) map_append via_page
proof (rule answers_after [where P = "hlr_cluster_id req \<noteq> 0"])
  fix s e
  show "keeps (unaltered d s e) (execute_err (validating (if hlr_cluster_availability_zone_id req \<noteq> 0 then 2 else 1)
      (\<lambda>db fault. validate_hypervisor_list_request ext ctx db fault req)))"
    by (intro read_intros)
next
  show "clears (\<lambda>_. hlr_cluster_id req \<noteq> 0) (execute_err (validating (if hlr_cluster_availability_zone_id req \<noteq> 0 then 2 else 1)
      (\<lambda>db fault. validate_hypervisor_list_request ext ctx db fault req)))"
    by (intro clears_execute clears_validating) (simp add: validate_hypervisor_list_request_def guard_simps)
next
  assume id: "hlr_cluster_id req \<noteq> 0"
  let ?h = "filter (wanted_hypervisor req) (db_hypervisor d)"
  let ?r = "join_rows (\<lambda>h z. az_id z = hv_cluster_availability_zone_id h) ?h (db_availability_zone d)"
  have conds: "conditions (map (via fst) (hypervisor_conditions req))" by (rule conjunct1 [OF admits_via [OF hypervisor_filters(2)]])
  show "answers d (given (execute (given (get_brief_cluster ctx (hlr_cluster_id req)) (\<lambda>c.
      given (list_rows (hypervisor_records (hlr_cluster_id req)) (map (via fst) (hypervisor_conditions req) @ page_filter p)) (\<lambda>rs.
        succeed (c, rs))))) (\<lambda>(c, rs).
      given (execute (paginate (\<lambda>db. filter (\<lambda>h. cond_nat (cl_id c) (hv_cluster_id h)) (db_hypervisor db))
        (hypervisor_conditions req @ page_filter p))) (\<lambda>pg. succeed (map (view_hypervisor c) rs, pg))))
    (\<lambda>(vs, pg). \<exists>c \<in> set (db_cluster d). cl_id c = hlr_cluster_id req \<and>
      vs = map (view_hypervisor (brief_cluster c)) (page_of (fst p) (snd p) ?r) \<and>
      pg = pagination_of (page_number (fst p)) (page_number (snd p)) (of_nat (length ?h)))"
  proof (rule answers_given [where P = "\<lambda>(c, rs). rs = page_of (fst p) (snd p) ?r \<and>
      (\<exists>k \<in> set (db_cluster d). c = brief_cluster k \<and> cl_id k = hlr_cluster_id req)"])
    show "answers d (execute (given (get_brief_cluster ctx (hlr_cluster_id req)) (\<lambda>c.
        given (list_rows (hypervisor_records (hlr_cluster_id req)) (map (via fst) (hypervisor_conditions req) @ page_filter p)) (\<lambda>rs.
          succeed (c, rs))))) (\<lambda>(c, rs). rs = page_of (fst p) (snd p) ?r \<and>
        (\<exists>k \<in> set (db_cluster d). c = brief_cluster k \<and> cl_id k = hlr_cluster_id req))"
      by (rule answers_execute, rule answers_given [OF answers_brief], rule answers_given [OF answers_list_rows [OF conds]],
          rule answers_mono [OF answers_succeed]) (auto simp: hypervisors_wanted(1) [OF id] cond_nat_def id)
  next
    fix x :: "cluster \<times> (cluster_hypervisor \<times> cluster_availability_zone) list"
    assume "case x of (c, rs) \<Rightarrow> rs = page_of (fst p) (snd p) ?r \<and>
      (\<exists>k \<in> set (db_cluster d). c = brief_cluster k \<and> cl_id k = hlr_cluster_id req)"
    then obtain k where x: "x = (brief_cluster k, page_of (fst p) (snd p) ?r)" "k \<in> set (db_cluster d)" "cl_id k = hlr_cluster_id req"
      by auto
    then have own: "cl_id (brief_cluster k) = hlr_cluster_id req" by (simp add: brief_cluster_def)
    show "answers d (case x of (c, rs) \<Rightarrow> given (execute (paginate (\<lambda>db. filter (\<lambda>h. cond_nat (cl_id c) (hv_cluster_id h)) (db_hypervisor db))
        (hypervisor_conditions req @ page_filter p))) (\<lambda>pg. succeed (map (view_hypervisor c) rs, pg)))
      (\<lambda>(vs, pg). \<exists>c \<in> set (db_cluster d). cl_id c = hlr_cluster_id req \<and>
        vs = map (view_hypervisor (brief_cluster c)) (page_of (fst p) (snd p) ?r) \<and>
        pg = pagination_of (page_number (fst p)) (page_number (snd p)) (of_nat (length ?h)))"
      unfolding x(1) prod.case own
      by (rule answers_given [OF answers_execute [OF answers_paginate [OF hypervisor_filters(2)]]], rule answers_mono [OF answers_succeed])
        (use x(2,3) in \<open>auto intro!: bexI [of _ k] simp: hypervisors_wanted(2) [OF id] simp del: filter_filter map_eq_conv\<close>)
  qed
qed

text \<open>C9. The list of hypervisors joins their zones, and its count does not. Where the identifiers of the zones are
  distinct and every hypervisor refers to one, as the keys of the tables demand, the two agree: whatever fails, a list
  that is returned is a page of rows that are exactly the hypervisors asked for, each with its zone, and the number it
  gives is the number of those rows.\<close>

theorem hypervisor_list_and_count_agree:
  assumes "run_state (get_hypervisor_list ext ctx req p) w = (Inr (vs, pg), w')"
    and "distinct (map az_id (db_availability_zone (w_db w)))"
    and "\<forall>h \<in> set (db_hypervisor (w_db w)). hv_cluster_availability_zone_id h \<in> az_id ` set (db_availability_zone (w_db w))"
  shows "\<exists>c \<in> set (db_cluster (w_db w)). \<exists>rs. cl_id c = hlr_cluster_id req \<and>
     map fst rs = filter (wanted_hypervisor req) (db_hypervisor (w_db w)) \<and>
     list_all (\<lambda>(h, z). z \<in> set (db_availability_zone (w_db w)) \<and> az_id z = hv_cluster_availability_zone_id h) rs \<and>
     vs = map (view_hypervisor (brief_cluster c)) (page_of (fst p) (snd p) rs) \<and>
     pg = pagination_of (page_number (fst p)) (page_number (snd p)) (of_nat (length rs))"
proof -
  let ?hs = "filter (wanted_hypervisor req) (db_hypervisor (w_db w))"
  let ?rs = "join_rows (\<lambda>h z. az_id z = hv_cluster_availability_zone_id h) ?hs (db_availability_zone (w_db w))"
  have fst: "map fst ?rs = ?hs" using assms(2,3) by (intro join_rows_fst) auto
  then have "length ?rs = length ?hs" by (metis length_map)
  moreover have "list_all (\<lambda>(h, z). z \<in> set (db_availability_zone (w_db w)) \<and> az_id z = hv_cluster_availability_zone_id h) ?rs"
    by (auto simp: list_all_iff join_rows_def)
  moreover obtain c where "c \<in> set (db_cluster (w_db w))" "cl_id c = hlr_cluster_id req"
    "vs = map (view_hypervisor (brief_cluster c)) (page_of (fst p) (snd p) ?rs)"
    "pg = pagination_of (page_number (fst p)) (page_number (snd p)) (of_nat (length ?hs))"
    using answersD [OF hypervisor_list_answers assms(1)] by auto
  ultimately show ?thesis using fst by (intro bexI [of _ c] exI [of _ ?rs]) simp_all
qed

definition listed_hypervisor :: cluster_hypervisor where
  "listed_hypervisor = \<lparr>hv_id = 6, hv_cluster_id = 3, hv_cluster_availability_zone_id = 9, hv_uuid = [], hv_type_code = [],
     hv_hostname = ''h'', hv_ip_address = [], hv_vcpu_total_cnt = 0, hv_vcpu_used_cnt = 0, hv_mem_total_bytes = 0, hv_mem_used_bytes = 0,
     hv_disk_total_bytes = 0, hv_disk_used_bytes = 0, hv_state = [], hv_status = [], hv_ssh_port = None, hv_ssh_account = None,
     hv_ssh_password = None, hv_agent_port = None, hv_agent_version = None, hv_agent_installed_at = None,
     hv_agent_last_upgraded_at = None, hv_raw = None\<rparr>"

definition hypervisor_world :: world where
  "hypervisor_world = example_inventory\<lparr>w_db := (w_db example_inventory)\<lparr>
     db_availability_zone := [\<lparr>az_id = 9, az_cluster_id = 3, az_name = ''z'', az_available = True, az_raw = None\<rparr>],
     db_hypervisor := [listed_hypervisor]\<rparr>\<rparr>"

definition example_hypervisor_request :: hypervisor_list_request where
  "example_hypervisor_request = \<lparr>hlr_cluster_id = 3, hlr_hostname = [], hlr_ip_address = [], hlr_cluster_availability_zone_id = 0\<rparr>"

theorem hypervisor_list_and_count_agree_witness:
  "\<exists>vs pg. fst (run_state (get_hypervisor_list example_externals example_context example_hypervisor_request (None, None))
       hypervisor_world) = Inr (vs, pg) \<and>
     map (\<lambda>v. hv_hostname (hvv_hypervisor v)) vs = [''h''] \<and> pg_total_items pg = 1"
proof -
  have q: "quiet hypervisor_world" by (simp add: hypervisor_world_def example_inventory_def example_world_def quiet_def)
  have plain: "w_faults hypervisor_world = []" "w_tx hypervisor_world = NoTx" "hypervisor_world\<lparr>w_faults := []\<rparr> = hypervisor_world"
    by (simp_all add: hypervisor_world_def example_inventory_def example_world_def)
  have request: "hlr_cluster_id example_hypervisor_request = 3" "hlr_cluster_availability_zone_id example_hypervisor_request = 0"
    by (simp_all add: example_hypervisor_request_def)
  have v: "validate_hypervisor_list_request example_externals example_context (w_db hypervisor_world) (\<lambda>_. None) example_hypervisor_request = None"
    using example_owner by (simp add: validate_hypervisor_list_request_def guard_simps example_hypervisor_request_def max_runes_def
        hypervisor_world_def is_cluster_owner_def)
  have found: "run_state (get_brief_cluster example_context 3) hypervisor_world = (Inr (brief_cluster example_cluster), hypervisor_world)"
    by (simp add: get_brief_cluster_def given_def look_up_quiet q)
      (simp add: hypervisor_world_def example_inventory_def example_cluster_def example_context_def cond_nat_def)
  have conds: "conditions (map (via fst) (hypervisor_conditions example_hypervisor_request))"
    by (rule conjunct1 [OF admits_via [OF hypervisor_filters(2)]])
  have "\<exists>vs pg. fst (run_state (get_hypervisor_list example_externals example_context example_hypervisor_request (None, None))
      hypervisor_world) = Inr (vs, pg)"
    using v found
    by (simp add: get_hypervisor_list_def Let_def after_def execute_err_def execute_def validating_def plain given_def hypervisor_filters
        via_page list_rows_quiet conds paginate_quiet q page_fits_def request)
  then obtain vs pg w' where run: "run_state (get_hypervisor_list example_externals example_context example_hypervisor_request (None, None))
      hypervisor_world = (Inr (vs, pg), w')"
    by (metis prod.collapse)
  have rows: "filter (wanted_hypervisor example_hypervisor_request) (db_hypervisor (w_db hypervisor_world)) = [listed_hypervisor]"
    by (simp add: hypervisor_world_def listed_hypervisor_def wanted_hypervisor_def example_hypervisor_request_def)
  have keys: "distinct (map az_id (db_availability_zone (w_db hypervisor_world)))"
    "\<forall>h \<in> set (db_hypervisor (w_db hypervisor_world)). hv_cluster_availability_zone_id h \<in> az_id ` set (db_availability_zone (w_db hypervisor_world))"
    by (simp_all add: hypervisor_world_def listed_hypervisor_def)
  from hypervisor_list_and_count_agree [OF run keys] obtain c rs where "map fst rs = [listed_hypervisor]"
      "vs = map (view_hypervisor (brief_cluster c)) (page_of None None rs)" "pg = pagination_of 0 0 (of_nat (length rs))"
    unfolding rows by (simp add: page_number_def) (elim bexE exE conjE, rule that)
  then have "map (\<lambda>v. hv_hostname (hvv_hypervisor v)) vs = [''h'']" "pg_total_items pg = 1"
    by (auto simp: page_of_def view_hypervisor_def shown_hypervisor_def listed_hypervisor_def pagination_of_def)
  then show ?thesis using run by (metis fst_conv)
qed

section \<open>More than was asked\<close>

text \<open>A key pair that does not exist is shown as one without content: the errors of the lookups are dropped.\<close>

theorem missing_keypair_is_shown:
  assumes "quiet w" and "validate_keypair_get_request ctx (w_db w) (\<lambda>_. None) req = None"
    and "\<forall>k \<in> set (db_keypair (w_db w)). \<not> (cond_nat (lr_resource_id req) (kp_id k) \<and> cond_nat (lr_cluster_id req) (kp_cluster_id k))"
  shows "\<exists>v. fst (run_state (get_keypair_view ctx req) w) = Inr v \<and> kpv_keypair v = zero_keypair"
proof -
  have plain: "run_state (checked validate_keypair_get_request ctx req) w = (None, w)"
    using assms(1,2) by (simp add: checked_def validating_def quiet_def)
  have none: "run_state (find_keypair_row (lr_cluster_id req) (lr_resource_id req)) w
      = (Inl (NotFoundClusterResource ''keypair'' (GNat (lr_resource_id req))), w)"
    using assms(3) by (simp add: find_keypair_row_def look_up_quiet assms(1) filter_False)
  show ?thesis
    by (simp add: get_keypair_view_def after_def execute_err_def plain get_brief_cluster_def given_def look_up_quiet assms(1) none
        split: option.split)
qed

text \<open>The script of an instance is given to every user, whatever the cluster.\<close>

theorem user_script_without_owner:
  assumes "quiet w" and "i \<noteq> 0" and "filter (\<lambda>s. us_cluster_instance_id s = i) (db_instance_user_script (w_db w)) = [s]"
  shows "run_state (get_instance_user_script i) w = (Inr (us_user_data s), w)"
  using assms by (simp add: get_instance_user_script_def script_row_def quiet_run cond_nat_def)

end
