(* ===== verification/ClusterPages.thy ===== *)
theory ClusterPages
  imports ListResults "HOL-Library.Multiset"
begin

text \<open>
  The pages of the list of clusters (\<open>internal/cluster/cluster.go\<close>), whose queries have a limit and an offset but name
  no order.
\<close>

section \<open>Pages in any order\<close>











end
