(* ===== verification/TrainTypes.thy ===== *)
theory TrainTypes
  imports ClusterCalls ServiceStatus
begin

text \<open>
  What goes over the wire between a cluster's client and OpenStack (\<open>client/openstack/train\<close>): the structs
  of the requests and of the answers, and the JSON of each request body, field by field as the struct tags
  have it. Reading an answer is left to the parameter that stands for the servers: it gives the value the
  body decodes to, or the error of decoding it.
\<close>

section \<open>Requests and answers\<close>

datatype http_method = MethodGet | MethodPost | MethodPut | MethodDelete

datatype http_body = NoBody | Literal string | Marshalled json

record http_request =
  hq_method :: http_method
  hq_url :: string
  hq_token :: "string option"
  hq_version :: "string option"
  hq_body :: http_body

text \<open>\<open>hp_text\<close> is what the method \<open>Error\<close> of the response renders; it becomes the cause of an error.\<close>

record http_response =
  hp_code :: nat
  hp_body :: string
  hp_text :: string

datatype 'a answer = NotSent err | Answered http_response "string + 'a"

text \<open>
  A server answers to a request after the requests it got before; the first component is the time that
  passes, in milliseconds.
\<close>

type_synonym 'a served = "http_request list \<Rightarrow> http_request \<Rightarrow> nat \<times> 'a answer"

text \<open>A pointer to a string with \<open>omitempty\<close>: left out when it is nil, not when it points to nothing.\<close>

definition put_pointer :: "string \<Rightarrow> string option \<Rightarrow> (string \<times> json) list" where
  "put_pointer k p = (case p of None \<Rightarrow> [] | Some s \<Rightarrow> [(k, JStr s)])"

definition put_number_pointer :: "string \<Rightarrow> nat option \<Rightarrow> (string \<times> json) list" where
  "put_number_pointer k p = (case p of None \<Rightarrow> [] | Some n \<Rightarrow> [(k, JInt (int n))])"

section \<open>Identity\<close>

record os_token =
  tk_key :: string
  tk_project_name :: string
  tk_user_id :: string
  tk_user_name :: string
  tk_roles :: "(string \<times> string) list"
  tk_expires_at :: nat
  tk_catalog :: "(string \<times> string list) list"

record os_project =
  pj_uuid :: string
  pj_name :: string
  pj_description :: "string option"
  pj_enabled :: bool

record project_creation =
  pc_uuid :: string
  pc_name :: string
  pc_description :: string
  pc_enabled :: bool

definition encode_project_creation :: "project_creation \<Rightarrow> json" where
  "encode_project_creation p = JObj [(''project'', JObj ([(''id'', JStr (pc_uuid p)), (''name'', JStr (pc_name p))] @
     put_str ''description'' (pc_description p) @ put_bool ''enabled'' (pc_enabled p)))]"

datatype identity_reply =
    ReToken os_token
  | ReScopes "string list"
  | ReProject os_project
  | ReProjectCreation project_creation
  | ReProjects "os_project list"

section \<open>Network\<close>

record fixed_ip =
  fx_subnet_uuid :: string
  fx_ip_address :: string

record os_port =
  pt_uuid :: string
  pt_network_uuid :: string
  pt_fixed_ips :: "fixed_ip list"
  pt_device_id :: string
  pt_device_owner :: string
  pt_project_id :: string
  pt_security_groups :: "string list"

record extra_route =
  xr_destination :: string
  xr_nexthop :: string

record os_router =
  ro_uuid :: string
  ro_name :: string
  ro_description :: "string option"
  ro_project_id :: string
  ro_state :: bool
  ro_status :: string
  ro_routes :: "extra_route list"
  ro_gateway_network :: string
  ro_gateway_ips :: "fixed_ip list"

record os_floating_ip =
  ofi_uuid :: string
  ofi_network_id :: string
  ofi_project_id :: string
  ofi_ip_address :: string
  ofi_description :: "string option"
  ofi_status :: string

record floating_ip_update =
  fu_port_id :: string
  fu_fixed_ip_address :: string
  fu_description :: "string option"

record os_network =
  onw_uuid :: string
  onw_name :: string
  onw_admin_state_up :: bool
  onw_project_id :: string
  onw_external :: bool
  onw_description :: "string option"
  onw_type :: string
  onw_status :: string
  onw_subnets :: "string list"

record os_subnet =
  osn_network_uuid :: string
  osn_ip_version :: nat
  osn_cidr :: string
  osn_uuid :: string
  osn_project_id :: string
  osn_name :: string
  osn_enable_dhcp :: bool
  osn_nameservers :: "string list"
  osn_pools :: "(string \<times> string) list"
  osn_gateway_ip :: "string option"
  osn_description :: "string option"
  osn_ipv6_address_mode :: "string option"
  osn_ipv6_ra_mode :: "string option"

text \<open>The rule of a request names the remote group by a string, the rule of an answer by a pointer.\<close>

record os_rule =
  oru_uuid :: string
  oru_direction :: string
  oru_security_group_uuid :: string
  oru_remote_group_uuid :: string
  oru_protocol :: "string option"
  oru_ether_type :: "string option"
  oru_port_range_max :: "nat option"
  oru_port_range_min :: "nat option"
  oru_remote_ip_prefix :: "string option"
  oru_description :: "string option"

record os_rule_details =
  ord_security_group_id :: string
  ord_remote_group_id :: "string option"
  ord_uuid :: string
  ord_description :: "string option"
  ord_network_cidr :: "string option"
  ord_direction :: string
  ord_port_range_min :: "nat option"
  ord_port_range_max :: "nat option"
  ord_protocol :: "string option"
  ord_ether_type :: string

record os_security_group =
  osg_uuid :: string
  osg_name :: string
  osg_project_id :: string
  osg_description :: "string option"
  osg_rules :: "string list"

record router_interface =
  rin_uuid :: string
  rin_network_uuid :: string
  rin_port_uuid :: string
  rin_subnet_uuid :: string
  rin_project_uuid :: string

record os_extension =
  ex_name :: string
  ex_alias :: string
  ex_description :: string
  ex_updated :: string
  ex_links :: "string list"

definition encode_fixed_ip :: "fixed_ip \<Rightarrow> json" where
  "encode_fixed_ip i = JObj (put_str ''subnet_id'' (fx_subnet_uuid i) @ put_str ''ip_address'' (fx_ip_address i))"

definition encode_port :: "os_port \<Rightarrow> json" where
  "encode_port p = JObj [(''port'', JObj (put_str ''id'' (pt_uuid p) @ put_str ''network_id'' (pt_network_uuid p) @
     put_list ''fixed_ips'' encode_fixed_ip (pt_fixed_ips p) @ put_str ''device_id'' (pt_device_id p) @
     put_str ''device_owner'' (pt_device_owner p) @ put_str ''project_id'' (pt_project_id p) @
     put_list ''security_groups'' JStr (pt_security_groups p)))]"

definition encode_route :: "extra_route \<Rightarrow> json" where
  "encode_route r = JObj [(''destination'', JStr (xr_destination r)), (''nexthop'', JStr (xr_nexthop r))]"

text \<open>\<open>omitempty\<close> does not leave a struct out, so the gateway is always there, perhaps as an empty object.\<close>

definition encode_router :: "os_router \<Rightarrow> json" where
  "encode_router r = JObj [(''router'', JObj (put_str ''id'' (ro_uuid r) @ put_str ''name'' (ro_name r) @
     put_pointer ''description'' (ro_description r) @ put_str ''project_id'' (ro_project_id r) @
     put_bool ''admin_state_up'' (ro_state r) @ put_str ''status'' (ro_status r) @
     put_list ''routes'' encode_route (ro_routes r) @
     [(''external_gateway_info'', JObj (put_str ''network_id'' (ro_gateway_network r) @
        put_list ''external_fixed_ips'' encode_fixed_ip (ro_gateway_ips r)))]))]"

definition encode_floating_ip :: "os_floating_ip \<Rightarrow> json" where
  "encode_floating_ip f = JObj [(''floatingip'', JObj (put_str ''id'' (ofi_uuid f) @
     put_str ''floating_network_id'' (ofi_network_id f) @ put_str ''project_id'' (ofi_project_id f) @
     put_str ''floating_ip_address'' (ofi_ip_address f) @ put_pointer ''description'' (ofi_description f) @
     put_str ''status'' (ofi_status f)))]"

definition encode_floating_ip_update :: "floating_ip_update \<Rightarrow> json" where
  "encode_floating_ip_update f = JObj [(''floatingip'', JObj ([(''port_id'', JStr (fu_port_id f))] @
     put_str ''fixed_ip_address'' (fu_fixed_ip_address f) @ put_pointer ''description'' (fu_description f)))]"

definition encode_network_creation :: "os_network \<Rightarrow> json" where
  "encode_network_creation n = JObj [(''network'', JObj (put_str ''id'' (onw_uuid n) @ put_str ''name'' (onw_name n) @
     put_bool ''admin_state_up'' (onw_admin_state_up n) @ put_str ''project_id'' (onw_project_id n) @
     put_bool ''router:external'' (onw_external n) @ put_pointer ''description'' (onw_description n) @
     put_str ''provider:network_type'' (onw_type n) @ put_str ''status'' (onw_status n)))]"

definition encode_pool :: "string \<times> string \<Rightarrow> json" where
  "encode_pool p = JObj (put_str ''start'' (fst p) @ put_str ''end'' (snd p))"

definition encode_subnet :: "os_subnet \<Rightarrow> json" where
  "encode_subnet s = JObj [(''subnet'', JObj (put_str ''network_id'' (osn_network_uuid s) @
     put_nat ''ip_version'' (osn_ip_version s) @ put_str ''cidr'' (osn_cidr s) @ put_str ''id'' (osn_uuid s) @
     put_str ''project_id'' (osn_project_id s) @ put_str ''name'' (osn_name s) @
     put_bool ''enable_dhcp'' (osn_enable_dhcp s) @ put_list ''dns_nameservers'' JStr (osn_nameservers s) @
     put_list ''allocation_pools'' encode_pool (osn_pools s) @ put_pointer ''gateway_ip'' (osn_gateway_ip s) @
     put_pointer ''description'' (osn_description s) @ put_pointer ''ipv6_address_mode'' (osn_ipv6_address_mode s) @
     put_pointer ''ipv6_ra_mode'' (osn_ipv6_ra_mode s)))]"

definition encode_security_group_creation :: "os_security_group \<Rightarrow> json" where
  "encode_security_group_creation g = JObj [(''security_group'', JObj (put_str ''id'' (osg_uuid g) @
     put_str ''name'' (osg_name g) @ put_str ''project_id'' (osg_project_id g) @
     put_pointer ''description'' (osg_description g)))]"

definition encode_rule :: "os_rule \<Rightarrow> json" where
  "encode_rule r = JObj [(''security_group_rule'', JObj (put_str ''id'' (oru_uuid r) @
     put_str ''direction'' (oru_direction r) @ put_str ''security_group_id'' (oru_security_group_uuid r) @
     put_str ''remote_group_id'' (oru_remote_group_uuid r) @ put_pointer ''protocol'' (oru_protocol r) @
     put_pointer ''ethertype'' (oru_ether_type r) @ put_number_pointer ''port_range_max'' (oru_port_range_max r) @
     put_number_pointer ''port_range_min'' (oru_port_range_min r) @
     put_pointer ''remote_ip_prefix'' (oru_remote_ip_prefix r) @ put_pointer ''description'' (oru_description r)))]"

text \<open>
  The rules of a group are never set in a request.
  An interface is added by pointers to the identifiers and removed by the identifiers themselves.
\<close>

definition encode_interface_addition :: "string option \<Rightarrow> string option \<Rightarrow> json" where
  "encode_interface_addition subnet port = JObj (put_pointer ''subnet_id'' subnet @ put_pointer ''port_id'' port)"

definition encode_interface_removal :: "string \<Rightarrow> string \<Rightarrow> json" where
  "encode_interface_removal port subnet = JObj (put_str ''port_id'' port @ put_str ''subnet_id'' subnet)"

datatype network_reply =
    RePort os_port
  | RePorts "os_port list"
  | ReRouter os_router
  | ReRouters "os_router list"
  | ReFloatingIP os_floating_ip
  | ReFloatingIPs "os_floating_ip list"
  | ReNetwork os_network
  | ReNetworks "os_network list"
  | ReSubnet os_subnet
  | ReSecurityGroup os_security_group
  | ReSecurityGroups "os_security_group list"
  | ReRule os_rule
  | ReRuleDetails os_rule_details
  | ReInterface router_interface
  | ReAgents "agent_service list"
  | ReExtensions "os_extension list"
  | ReNetworkQuotaUpdate "(string \<times> int) list"
  | ReNetworkQuotas "(string \<times> json) list"

section \<open>Volumes\<close>

record os_volume =
  ovo_project_id :: string
  ovo_type_name :: string
  ovo_uuid :: string
  ovo_name :: string
  ovo_description :: "string option"
  ovo_size :: nat
  ovo_multiattach :: bool
  ovo_bootable :: string
  ovo_status :: string
  ovo_metadata :: "(string \<times> json) list"
  ovo_attachments :: "string list"

record volume_import =
  vi_name :: string
  vi_description :: "string option"
  vi_type_uuid :: string
  vi_bootable :: bool
  vi_host :: string
  vi_source_name :: string

record os_snapshot =
  ovs_uuid :: string
  ovs_name :: string
  ovs_description :: "string option"
  ovs_size :: nat
  ovs_status :: string
  ovs_created_at :: string
  ovs_volume_id :: string
  ovs_group_snapshot_id :: "string option"

record snapshot_import =
  si_name :: string
  si_description :: "string option"
  si_volume_id :: string
  si_source_name :: string

record os_group =
  ogr_name :: string
  ogr_description :: string
  ogr_availability_zone :: string
  ogr_group_type :: string
  ogr_volume_types :: "string list"
  ogr_volumes :: "string list"
  ogr_id :: string
  ogr_project_id :: string
  ogr_status :: string
  ogr_created_at :: string

record group_update =
  gu_name :: string
  gu_description :: string
  gu_add_volumes :: string
  gu_remove_volumes :: string

record os_group_snapshot =
  ogs_group_id :: string
  ogs_name :: string
  ogs_description :: string
  ogs_id :: string
  ogs_status :: string
  ogs_created_at :: string
  ogs_group_type_id :: string
  ogs_project_uuid :: string

record os_group_type =
  ogt_id :: string
  ogt_name :: string
  ogt_description :: string
  ogt_is_public :: bool

record os_volume_type =
  ovt_uuid :: string
  ovt_name :: string
  ovt_description :: "string option"
  ovt_extra_specs :: "(string \<times> json) list"

text \<open>
  A capacity is any JSON value; only a number is used, as bytes: \<open>Some\<close> is the value of
  \<open>uint64(x * 1000 * 1000 * 1000)\<close>.
\<close>

record storage_pool =
  sp_backend_name :: string
  sp_total_bytes :: "nat option"
  sp_free_bytes :: "nat option"

record manageable_volume =
  mv_safe :: bool
  mv_source_name :: string
  mv_size :: nat

record manageable_snapshot =
  ms_volume_source_name :: string
  ms_safe :: bool
  ms_source_name :: string
  ms_size :: nat

text \<open>The metadata and the attachments of a volume are never set in a request.\<close>

definition encode_volume :: "os_volume \<Rightarrow> json" where
  "encode_volume v = JObj [(''volume'', JObj (put_str ''os-vol-tenant-attr:tenant_id'' (ovo_project_id v) @
     put_str ''volume_type'' (ovo_type_name v) @ put_str ''id'' (ovo_uuid v) @ put_str ''name'' (ovo_name v) @
     put_pointer ''description'' (ovo_description v) @ put_nat ''size'' (ovo_size v) @
     put_bool ''multiattach'' (ovo_multiattach v) @ put_str ''bootable'' (ovo_bootable v) @
     put_str ''status'' (ovo_status v)))]"

definition encode_readonly_flag :: "bool \<Rightarrow> json" where
  "encode_readonly_flag b = JObj [(''os-update_readonly_flag'', JObj (put_bool ''readonly'' b))]"

definition encode_bootable_status :: "bool \<Rightarrow> json" where
  "encode_bootable_status b = JObj [(''os-set_bootable'', JObj (put_bool ''bootable'' b))]"

definition encode_source :: "string \<Rightarrow> json" where
  "encode_source n = JObj [(''source-name'', JStr n)]"

definition encode_volume_import :: "volume_import \<Rightarrow> json" where
  "encode_volume_import v = JObj [(''volume'', JObj (put_str ''name'' (vi_name v) @
     put_pointer ''description'' (vi_description v) @ put_str ''volume_type'' (vi_type_uuid v) @
     put_bool ''bootable'' (vi_bootable v) @
     [(''host'', JStr (vi_host v)), (''ref'', encode_source (vi_source_name v))]))]"

definition encode_snapshot :: "os_snapshot \<Rightarrow> json" where
  "encode_snapshot v = JObj [(''snapshot'', JObj (put_str ''id'' (ovs_uuid v) @ put_str ''name'' (ovs_name v) @
     put_pointer ''description'' (ovs_description v) @ put_nat ''size'' (ovs_size v) @
     put_str ''status'' (ovs_status v) @ put_str ''created_at'' (ovs_created_at v) @
     put_str ''volume_id'' (ovs_volume_id v) @ put_pointer ''group_snapshot_id'' (ovs_group_snapshot_id v)))]"

definition encode_snapshot_import :: "snapshot_import \<Rightarrow> json" where
  "encode_snapshot_import v = JObj [(''snapshot'', JObj (put_str ''name'' (si_name v) @
     put_pointer ''description'' (si_description v) @ put_str ''volume_id'' (si_volume_id v) @
     [(''ref'', encode_source (si_source_name v))]))]"

definition encode_group :: "os_group \<Rightarrow> json" where
  "encode_group g = JObj [(''group'', JObj (put_str ''name'' (ogr_name g) @
     put_str ''description'' (ogr_description g) @ put_str ''availability_zone'' (ogr_availability_zone g) @
     put_str ''group_type'' (ogr_group_type g) @ put_list ''volume_types'' JStr (ogr_volume_types g) @
     put_list ''volumes'' JStr (ogr_volumes g) @ put_str ''id'' (ogr_id g) @
     put_str ''project_id'' (ogr_project_id g) @ put_str ''status'' (ogr_status g) @
     put_str ''created_at'' (ogr_created_at g)))]"

definition encode_group_deletion :: "bool \<Rightarrow> json" where
  "encode_group_deletion volumes = JObj [(''delete'', JObj [(''delete-volumes'', JBool volumes)])]"

definition encode_group_update :: "group_update \<Rightarrow> json" where
  "encode_group_update g = JObj [(''group'', JObj (put_str ''name'' (gu_name g) @
     put_str ''description'' (gu_description g) @ put_str ''add_volumes'' (gu_add_volumes g) @
     put_str ''remove_volumes'' (gu_remove_volumes g)))]"

definition encode_group_snapshot :: "os_group_snapshot \<Rightarrow> json" where
  "encode_group_snapshot g = JObj [(''group_snapshot'', JObj (put_str ''group_id'' (ogs_group_id g) @
     put_str ''name'' (ogs_name g) @ put_str ''description'' (ogs_description g) @ put_str ''id'' (ogs_id g) @
     put_str ''status'' (ogs_status g) @ put_str ''created_at'' (ogs_created_at g) @
     put_str ''group_type_id'' (ogs_group_type_id g) @ put_str ''project_id'' (ogs_project_uuid g)))]"

definition encode_group_type :: "os_group_type \<Rightarrow> json" where
  "encode_group_type g = JObj [(''group_type'', JObj (put_str ''id'' (ogt_id g) @ put_str ''name'' (ogt_name g) @
     put_str ''description'' (ogt_description g) @ put_bool ''is_public'' (ogt_is_public g)))]"

datatype volume_reply =
    ReVolume os_volume
  | ReVolumes "os_volume list"
  | ReVolumeSnapshot os_snapshot
  | ReVolumeSnapshots "os_snapshot list"
  | ReGroup os_group
  | ReGroups "(string \<times> string) list"
  | ReGroupSnapshot os_group_snapshot
  | ReGroupSnapshots "os_group_snapshot list"
  | ReGroupType os_group_type
  | ReGroupTypes "os_group_type list"
  | ReVolumeType os_volume_type
  | ReVolumeTypes "os_volume_type list"
  | RePools "storage_pool list"
  | ReCinderServices "cinder_service list"
  | ReAttachment "(string \<times> json) list"
  | ReManageableVolumes "manageable_volume list"
  | ReManageableSnapshots "manageable_snapshot list"
  | ReStorageQuotaUpdate "(string \<times> int) list"
  | ReStorageQuotas "(string \<times> json) list"

section \<open>Compute\<close>

record os_zone =
  oz_name :: string
  oz_available :: bool
  oz_raw :: string

record os_hypervisor =
  ohv_uuid :: string
  ohv_type_code :: string
  ohv_hostname :: string
  ohv_ip_address :: string
  ohv_vcpu_total_cnt :: nat
  ohv_vcpu_used_cnt :: nat
  ohv_mem_total_mib :: nat
  ohv_mem_used_mib :: nat
  ohv_disk_total_gib :: nat
  ohv_disk_used_gib :: nat
  ohv_state :: string
  ohv_status :: string
  ohv_service_host :: string
  ohv_servers :: "string list"

record os_server =
  osr_uuid :: string
  osr_name :: string
  osr_description :: "string option"
  osr_state :: int
  osr_status :: string
  osr_key_name :: "string option"
  osr_tenant_id :: string
  osr_flavor_name :: string
  osr_zone_name :: string
  osr_attached_volumes :: "string list"
  osr_security_groups :: "string list"

record block_device =
  bd_uuid :: string
  bd_boot_index :: int
  bd_device_name :: string
  bd_source_type :: string
  bd_destination_type :: string
  bd_volume_type :: string

record server_creation =
  sc_name :: string
  sc_flavor_ref :: string
  sc_key_name :: string
  sc_zone_name :: string
  sc_hypervisor_hostname :: string
  sc_user_data :: string
  sc_description :: "string option"
  sc_networks :: "string list"
  sc_block_devices :: "block_device list"
  sc_security_groups :: "string list"

record port_interface =
  pif_fixed_ips :: "fixed_ip list"
  pif_network_id :: string
  pif_port_id :: string

record os_flavor =
  ofl_uuid :: string
  ofl_name :: string
  ofl_description :: "string option"
  ofl_vcpus :: nat
  ofl_ram_mib :: nat
  ofl_disk_gib :: nat
  ofl_swap_mib :: nat
  ofl_ephemeral_gib :: nat
  ofl_extra_specs :: "(string \<times> json) list"

record os_keypair =
  okp_name :: string
  okp_fingerprint :: string
  okp_public_key :: string
  okp_type_code :: string

definition encode_block_device :: "block_device \<Rightarrow> json" where
  "encode_block_device b = JObj ([(''uuid'', JStr (bd_uuid b)), (''boot_index'', JInt (bd_boot_index b))] @
     put_str ''device_name'' (bd_device_name b) @ [(''source_type'', JStr (bd_source_type b))] @
     put_str ''destination_type'' (bd_destination_type b) @ put_str ''volume_type'' (bd_volume_type b))"

definition encode_named :: "string \<Rightarrow> json" where
  "encode_named n = JObj (put_str ''name'' n)"

definition encode_server_creation :: "server_creation \<Rightarrow> json" where
  "encode_server_creation s = JObj [(''server'', JObj (put_str ''name'' (sc_name s) @
     [(''flavorRef'', JStr (sc_flavor_ref s))] @ put_str ''key_name'' (sc_key_name s) @
     put_str ''availability_zone'' (sc_zone_name s) @ put_str ''hypervisor_hostname'' (sc_hypervisor_hostname s) @
     put_str ''user_data'' (sc_user_data s) @ put_pointer ''description'' (sc_description s) @
     [(''networks'', JArr (map (\<lambda>p. JObj [(''port'', JStr p)]) (sc_networks s))),
      (''block_device_mapping_v2'', JArr (map encode_block_device (sc_block_devices s)))] @
     put_list ''security_groups'' encode_named (sc_security_groups s)))]"

text \<open>The extra specs of a flavour are not part of its creation.\<close>

definition encode_flavor :: "os_flavor \<Rightarrow> json" where
  "encode_flavor f = JObj [(''flavor'', JObj (put_str ''id'' (ofl_uuid f) @ put_str ''name'' (ofl_name f) @
     put_pointer ''description'' (ofl_description f) @ put_nat ''vcpus'' (ofl_vcpus f) @
     put_nat ''ram'' (ofl_ram_mib f) @ [(''disk'', JInt (int (ofl_disk_gib f)))] @
     put_nat ''swap'' (ofl_swap_mib f) @ put_nat ''OS-FLV-EXT-DATA:ephemeral'' (ofl_ephemeral_gib f)))]"

definition encode_extra_specs :: "(string \<times> string) list \<Rightarrow> json" where
  "encode_extra_specs m = JObj [(''extra_specs'', JObj (map (\<lambda>(k, v). (k, JStr v)) m))]"

definition encode_keypair :: "os_keypair \<Rightarrow> json" where
  "encode_keypair k = JObj [(''keypair'', JObj (put_str ''name'' (okp_name k) @
     put_str ''fingerprint'' (okp_fingerprint k) @ put_str ''public_key'' (okp_public_key k) @
     put_str ''type'' (okp_type_code k)))]"

definition encode_group_action :: "string \<Rightarrow> string \<Rightarrow> json" where
  "encode_group_action action n = JObj [(action, JObj [(''name'', JStr n)])]"

datatype compute_reply =
    ReZones "os_zone list"
  | ReHypervisor os_hypervisor
  | ReHypervisors "os_hypervisor list"
  | ReComputeServices "compute_service list"
  | ReServer os_server
  | ReServers "os_server list"
  | ReServerCreated string
  | ReServerGroups "string list"
  | ReFlavor os_flavor
  | ReFlavors "os_flavor list"
  | ReVolumeAttachment "string \<times> string"
  | RePortInterfaces "port_interface list"
  | ReExtraSpec "(string \<times> string) list"
  | ReExtraSpecsCreated "(string \<times> string) list"
  | ReKeypair os_keypair
  | ReKeypairs "os_keypair list"
  | ReComputeQuotaUpdate "(string \<times> int) list"
  | ReComputeQuotas "(string \<times> json) list"

section \<open>Quotas\<close>

text \<open>
  The keys of the quotas of a tenant and the names they have in the requests: the switches of the methods
  \<open>Set\<close> with the struct tags, in the order of the structs.
\<close>

definition compute_quota_fields :: "(string \<times> string) list" where
  "compute_quota_fields = [(''instances'', ''instances''), (''key_pairs'', ''key_pairs''),
     (''metadata_items'', ''metadata_items''), (''ram'', ''ram''), (''server_groups'', ''server_groups''),
     (''server_group_members'', ''server_group_members''), (''vcpus'', ''cores''),
     (''injected_file_content_bytes'', ''injected_file_content_bytes''),
     (''injected_file_path_bytes'', ''injected_file_path_bytes''), (''injected_files'', ''injected_files'')]"

definition network_quota_fields :: "(string \<times> string) list" where
  "network_quota_fields = [(''floating_ip'', ''floatingip''), (''networks'', ''network''), (''ports'', ''port''),
     (''rbac_policies'', ''rbac_policy''), (''routers'', ''router''), (''security_groups'', ''security_group''),
     (''security_group_rules'', ''security_group_rule''), (''subnets'', ''subnet''), (''subnet_pools'', ''subnetpool'')]"

definition storage_quota_fields :: "(string \<times> string) list" where
  "storage_quota_fields = [(''volumes'', ''volumes''), (''snapshots'', ''snapshots''), (''groups'', ''groups''),
     (''per_volume_gigabytes'', ''per_volume_gigabytes''), (''gigabytes'', ''gigabytes''), (''backups'', ''backups''),
     (''backup_gigabytes'', ''backup_gigabytes'')]"

text \<open>The struct after \<open>Set\<close> was called for every quota of a list: the last one of a key counts.\<close>

definition quota_set :: "(string \<times> string) list \<Rightarrow> cluster_quota list \<Rightarrow> (string \<times> int) list" where
  "quota_set ks qs = map (\<lambda>(k, tag). (tag,
     case filter (\<lambda>q. qt_key q = k) qs of [] \<Rightarrow> 0 | q # r \<Rightarrow> qt_value (last (q # r)))) ks"

definition quotas_given :: "(string \<times> int) list \<Rightarrow> bool" where
  "quotas_given q = list_ex (\<lambda>(_, v). v \<noteq> 0) q"

definition encode_quotas :: "string \<Rightarrow> (string \<times> int) list \<Rightarrow> json" where
  "encode_quotas name q = JObj [(name, JObj (concat (map (\<lambda>(tag, v). put_int tag v) q)))]"

text \<open>
  \<open>ToMap\<close> of an answer, which is nil when the request was not made. The map is given in the order of the
  struct; the code goes through it in any order.
\<close>

definition quotas_to_map :: "(string \<times> string) list \<Rightarrow> (string \<times> int) list option \<Rightarrow> (string \<times> int) list" where
  "quotas_to_map ks a = (case a of None \<Rightarrow> []
     | Some q \<Rightarrow> map (\<lambda>(k, tag). (k, case map_of q tag of None \<Rightarrow> 0 | Some v \<Rightarrow> v)) ks)"

text \<open>
  The quotas of an answer: the object under \<open>name\<close>, without its identifier. A missing object and a value
  that is no number are failed type assertions.
\<close>

fun numbers_of :: "bool \<Rightarrow> (string \<times> json) list \<Rightarrow> err + (string \<times> int) list" where
  "numbers_of skip [] = Inr []"
| "numbers_of skip ((k, v) # kvs) =
     (if skip \<and> k = ''id'' then numbers_of skip kvs
      else case v of JInt n \<Rightarrow> map_sum (\<lambda>e. e) (\<lambda>r. (k, n) # r) (numbers_of skip kvs) | _ \<Rightarrow> Inl NilDereference)"

definition quotas_of :: "string \<Rightarrow> bool \<Rightarrow> (string \<times> json) list \<Rightarrow> err + (string \<times> int) list" where
  "quotas_of name skip dat = (case map_of dat name of Some (JObj q) \<Rightarrow> numbers_of skip q | _ \<Rightarrow> Inl NilDereference)"

section \<open>The servers\<close>

record os_servers =
  sv_identity :: "identity_reply served"
  sv_network :: "network_reply served"
  sv_volume :: "volume_reply served"
  sv_compute :: "compute_reply served"

end
