(* ===== verification/TrainConnection.thy ===== *)
theory TrainConnection
  imports TrainTypes
begin

text \<open>
  The connection to a cluster's OpenStack (\<open>client/openstack/train/identity_connection.go\<close>,
  \<open>client/util/http.go\<close>) and what the client does with it (\<open>client/openstack/openstack.go\<close>): tokens and
  the cache of the process they are kept in, endpoints, the frame all requests share with its codes of
  refused codes, and the loop that waits for an asynchronous operation.
\<close>

section \<open>State\<close>

text \<open>
  The connection of the client (\<open>train.Connection\<close>), the process-wide cache of tokens by request
  (\<open>clusterTokenMap\<close>), the clock in milliseconds, and the requests sent so far.
\<close>

record os_state =
  os_token :: "os_token option"
  os_endpoints :: "(string \<times> string) list"
  os_tokens :: "((string \<times> string) \<times> os_token) list"
  os_time :: nat
  os_sent :: "http_request list"

type_synonym 'a os = "(os_state, 'a) state"

text \<open>The client: the address of the cluster, the credential and the tenant it works for.\<close>

record os_client =
  oc_url :: string
  oc_credential :: string
  oc_tenant_id :: string

text \<open>
  \<open>Request\<close>: the request is sent and answered, or it fails and counts as sent all the same.
\<close>

definition request :: "'a served \<Rightarrow> http_request \<Rightarrow> 'a answer os" where
  "request serve r = State (\<lambda>s. let (d, a) = serve (os_sent s) r
     in (a, s\<lparr>os_sent := os_sent s @ [r], os_time := os_time s + d\<rparr>))"

definition wait_for :: "nat \<Rightarrow> unit os" where
  "wait_for d = State_Monad.update (\<lambda>s. s\<lparr>os_time := os_time s + d\<rparr>)"

section \<open>The cache of tokens\<close>

text \<open>\<open>VerifyToken\<close>: a token that expires within a minute is thrown away.\<close>

definition verify_token :: "string \<times> string \<Rightarrow> os_token option os" where
  "verify_token r = do {
     s \<leftarrow> State_Monad.get;
     case map_of (os_tokens s) r of
       Some t \<Rightarrow> if os_time s + 60000 < tk_expires_at t then State_Monad.return (Some t)
         else do { State_Monad.set (s\<lparr>os_tokens := filter (\<lambda>(k, _). k \<noteq> r) (os_tokens s)\<rparr>); State_Monad.return None }
     | None \<Rightarrow> State_Monad.return None
   }"

definition update_token :: "string \<times> string \<Rightarrow> os_token \<Rightarrow> unit os" where
  "update_token r t = State_Monad.update (\<lambda>s. s\<lparr>os_tokens := (r, t) # filter (\<lambda>(k, _). k \<noteq> r) (os_tokens s)\<rparr>)"

definition delete_token :: "string \<Rightarrow> unit os" where
  "delete_token key = State_Monad.update (\<lambda>s. s\<lparr>os_tokens := filter (\<lambda>(_, t). tk_key t \<noteq> key) (os_tokens s)\<rparr>)"

section \<open>Addresses\<close>

text \<open>
  \<open>url.Parse\<close> of Go 1.14, as far as the host goes: the text of the host with its port, or no URL at all. Letters
  are those of ASCII, and other bytes are only taken as they are.
\<close>

definition code_of :: "char \<Rightarrow> nat" where "code_of c = of_char c"

definition letter :: "char \<Rightarrow> bool" where
  "letter c \<longleftrightarrow> 65 \<le> code_of c \<and> code_of c \<le> 90 \<or> 97 \<le> code_of c \<and> code_of c \<le> 122"

definition hex_value :: "char \<Rightarrow> nat option" where
  "hex_value c = (if is_digit c then Some (code_of c - 48)
     else if 97 \<le> code_of c \<and> code_of c \<le> 102 then Some (code_of c - 87)
     else if 65 \<le> code_of c \<and> code_of c \<le> 70 then Some (code_of c - 55) else None)"

text \<open>\<open>unescape\<close>: a host may have some characters only, and only bytes that are not of ASCII, or a percent sign, escaped.\<close>

datatype url_part = HostPart | ZonePart | OtherPart

definition host_char :: "char \<Rightarrow> bool" where
  "host_char c \<longleftrightarrow> letter c \<or> is_digit c \<or> c \<in> set ''!$&'()*+,;=:[]<>-_.~'' \<or> c = CHR 0x22"

definition escape_allowed :: "url_part \<Rightarrow> nat \<Rightarrow> nat \<Rightarrow> bool" where
  "escape_allowed part h l = (case part of
     HostPart \<Rightarrow> 8 \<le> h \<or> (h, l) = (2, 5)
   | ZonePart \<Rightarrow> (h, l) \<in> {(2, 5), (2, 0)} \<or> host_char (char_of (16 * h + l))
   | OtherPart \<Rightarrow> True)"

fun unescape :: "url_part \<Rightarrow> string \<Rightarrow> string option" where
  "unescape part [] = Some []"
| "unescape part (c # s) =
     (if c = CHR ''%'' then (case s of
        x # y # r \<Rightarrow> (case (hex_value x, hex_value y) of
            (Some h, Some l) \<Rightarrow> if escape_allowed part h l then map_option ((#) (char_of (16 * h + l))) (unescape part r) else None
          | _ \<Rightarrow> None)
      | _ \<Rightarrow> None)
      else if part \<noteq> OtherPart \<and> code_of c < 128 \<and> \<not> host_char c then None
      else map_option ((#) c) (unescape part s))"

definition before_last :: "char \<Rightarrow> string \<Rightarrow> string" where
  "before_last c s = rev (drop 1 (dropWhile (\<lambda>x. x \<noteq> c) (rev s)))"

definition after_last :: "char \<Rightarrow> string \<Rightarrow> string" where
  "after_last c s = rev (takeWhile (\<lambda>x. x \<noteq> c) (rev s))"

fun split_text :: "string \<Rightarrow> string \<Rightarrow> (string \<times> string) option" where
  "split_text p [] = (if p = [] then Some ([], []) else None)"
| "split_text p (c # s) = (if take (length p) (c # s) = p then Some ([], c # s)
     else map_option (map_prod ((#) c) (\<lambda>r. r)) (split_text p s))"

definition valid_optional_port :: "string \<Rightarrow> bool" where
  "valid_optional_port p = (case p of [] \<Rightarrow> True | c # ds \<Rightarrow> c = CHR '':'' \<and> list_all is_digit ds)"

text \<open>A host in brackets is an address of version 6, and may have a zone after \<open>%25\<close>.\<close>

definition parse_host :: "string \<Rightarrow> string option" where
  "parse_host h =
     (if take 1 h = ''['' then
        (if CHR '']'' \<notin> set h \<or> \<not> valid_optional_port (after_last CHR '']'' h) then None
         else let inner = before_last CHR '']'' h; rest = CHR '']'' # after_last CHR '']'' h in
           case split_text ''%25'' inner of
             None \<Rightarrow> unescape HostPart h
           | Some (a, z) \<Rightarrow> (case (unescape HostPart a, unescape ZonePart z, unescape HostPart rest) of
               (Some x, Some y, Some r) \<Rightarrow> Some (x @ y @ r) | _ \<Rightarrow> None))
      else if CHR '':'' \<in> set h \<and> \<not> list_all is_digit (after_last CHR '':'' h) then None
      else unescape HostPart h)"

definition valid_userinfo :: "string \<Rightarrow> bool" where
  "valid_userinfo s = list_all (\<lambda>c. letter c \<or> is_digit c \<or> c \<in> set ''-._:~!$&'()*+,;=%@'') s"

definition parse_authority :: "string \<Rightarrow> string option" where
  "parse_authority a = (if CHR ''@'' \<notin> set a then parse_host a
     else case parse_host (after_last CHR ''@'' a) of None \<Rightarrow> None
       | Some h \<Rightarrow> (let user = before_last CHR ''@'' a in
           if valid_userinfo user \<and> unescape OtherPart user \<noteq> None then Some h else None))"

fun get_scheme :: "string \<Rightarrow> string \<Rightarrow> string \<Rightarrow> (string \<times> string) option" where
  "get_scheme whole seen [] = Some ([], whole)"
| "get_scheme whole seen (c # s) =
     (if letter c \<or> seen \<noteq> [] \<and> (is_digit c \<or> c \<in> set ''+-.'') then get_scheme whole (seen @ [c]) s
      else if c = CHR '':'' then (if seen = [] then None else Some (seen, s))
      else Some ([], whole))"

definition parse_path :: "string \<Rightarrow> string \<Rightarrow> string option" where
  "parse_path host path = map_option (\<lambda>_. host) (unescape OtherPart path)"

definition parse_rest :: "string \<Rightarrow> string \<Rightarrow> string option" where
  "parse_rest scheme rest =
     (if take 1 rest \<noteq> ''/'' \<and> scheme \<noteq> [] then Some []
      else if take 1 rest \<noteq> ''/'' \<and> CHR '':'' \<in> set (takeWhile (\<lambda>c. c \<noteq> CHR ''/'') rest) then None
      else if take 2 rest = ''//'' \<and> (scheme \<noteq> [] \<or> take 3 rest \<noteq> ''///'') then
        (case parse_authority (takeWhile (\<lambda>c. c \<noteq> CHR ''/'') (drop 2 rest)) of None \<Rightarrow> None
         | Some h \<Rightarrow> parse_path h (dropWhile (\<lambda>c. c \<noteq> CHR ''/'') (drop 2 rest)))
      else parse_path [] rest)"

definition url_host :: "string \<Rightarrow> string option" where
  "url_host u = (let main = takeWhile (\<lambda>c. c \<noteq> CHR ''#'') u; fragment = drop 1 (dropWhile (\<lambda>c. c \<noteq> CHR ''#'') u) in
     if list_ex (\<lambda>c. code_of c < 32 \<or> code_of c = 127) main \<or> unescape OtherPart fragment = None then None
     else if main = ''*'' then Some []
     else case get_scheme main [] main of None \<Rightarrow> None
       | Some (scheme, rest) \<Rightarrow> parse_rest scheme (takeWhile (\<lambda>c. c \<noteq> CHR ''?'') rest))"

text \<open>
  \<open>net.SplitHostPort\<close>, whose error is ignored: the host is empty then. \<open>strings.Replace\<close> replaces every occurrence; an
  empty text occurs before every rune and at the end.
\<close>

definition split_host :: "string \<Rightarrow> string" where
  "split_host hp =
     (case split_on (CHR '':'') hp of
        [h, _] \<Rightarrow> if CHR ''['' \<in> set hp \<or> CHR '']'' \<in> set hp then [] else h
      | _ \<Rightarrow> (case hp of
          c # r \<Rightarrow> (let h = takeWhile (\<lambda>x. x \<noteq> CHR '']'') r; rest = dropWhile (\<lambda>x. x \<noteq> CHR '']'') r
            in if c = CHR ''['' \<and> 2 \<le> length rest \<and> rest ! 1 = CHR '':'' \<and> CHR '':'' \<notin> set (drop 2 rest) \<and>
                 CHR ''['' \<notin> set r \<and> CHR '']'' \<notin> set (tl rest) then h else [])
        | [] \<Rightarrow> []))"

function between_runes :: "string \<Rightarrow> string \<Rightarrow> string" where
  "between_runes new s = (if s = [] then new
     else new @ take (rune_len s) s @ between_runes new (drop (rune_len s) s))"
  by auto

termination
  by (relation "measure (\<lambda>(_, s). length s)") (use rune_len_bounds in fastforce)+

declare between_runes.simps [simp del]

function replace_text :: "string \<Rightarrow> string \<Rightarrow> string \<Rightarrow> string" where
  "replace_text old new s = (if old = [] \<or> s = [] then s
     else if take (length old) s = old then new @ replace_text old new (drop (length old) s)
     else hd s # replace_text old new (tl s))"
  by auto

termination
  by (relation "measure (\<lambda>(_, _, s). length s)") auto

declare replace_text.simps [simp del]

definition replace_all :: "string \<Rightarrow> string \<Rightarrow> string \<Rightarrow> string" where
  "replace_all old new s = (if old = [] then between_runes new s else replace_text old new s)"

text \<open>
  The endpoint of a service is the first of its catalogue, with its host replaced by that of the cluster. A
  later catalogue of the same type wins. The errors of \<open>url.Parse\<close> are dropped: a URL it refuses, of the cluster or of
  the catalogue, is a nil pointer that is read, and the endpoints are those before it.
\<close>

fun endpoints_of :: "string \<Rightarrow> (string \<times> string list) list \<Rightarrow> (string \<times> string) list \<Rightarrow> bool \<times> (string \<times> string) list" where
  "endpoints_of url [] m = (True, m)"
| "endpoints_of url ((kind, []) # cs) m = endpoints_of url cs m"
| "endpoints_of url ((kind, u # us) # cs) m = (case (url_host url, url_host u) of
     (Some h1, Some h2) \<Rightarrow> endpoints_of url cs ((kind, replace_all (split_host h2) (split_host h1) u) # m)
   | _ \<Rightarrow> (False, m))"

section \<open>Authentication\<close>

definition the_token :: "string + identity_reply \<Rightarrow> err + os_token" where
  "the_token d = (case d of Inl m \<Rightarrow> Inl (Unknown m) | Inr (ReToken t) \<Rightarrow> Inr t | Inr _ \<Rightarrow> Inl (Unknown ''token''))"

text \<open>The case for the codes from 500 on stands behind the one for the codes from 400 on.\<close>

definition authentication_error :: "http_response \<Rightarrow> err option" where
  "authentication_error r =
     (if hp_code r = 400 then Some (ClientError (hp_text r))
      else if hp_code r = 404 then Some (ClientError (hp_text r))
      else if hp_code r = 401 then Some (UnAuthenticated (hp_text r))
      else if hp_code r = 403 then Some (ClientUnAuthorized (hp_text r))
      else if hp_code r \<ge> 400 then Some (ClientError (hp_text r))
      else if hp_code r \<ge> 500 then Some (RemoteServerError (hp_text r))
      else None)"

definition connected_with :: "string \<Rightarrow> os_token \<Rightarrow> err option os" where
  "connected_with url t = (case endpoints_of url (tk_catalog t) [] of (parsed, m) \<Rightarrow> do {
     State_Monad.update (\<lambda>s. s\<lparr>os_token := Some t, os_endpoints := m\<rparr>);
     State_Monad.return (if parsed then None else Some NilDereference)
   })"

definition authentication :: "os_servers \<Rightarrow> string \<times> string \<Rightarrow> err option os" where
  "authentication sv r = do {
     found \<leftarrow> verify_token r;
     case found of
       Some t \<Rightarrow> connected_with (fst r) t
     | None \<Rightarrow> do {
         a \<leftarrow> request (sv_identity sv) \<lparr>hq_method = MethodPost, hq_url = fst r @ ''/v3/auth/tokens'',
             hq_token = None, hq_version = None, hq_body = Literal (snd r)\<rparr>;
         case a of
           NotSent e \<Rightarrow> State_Monad.return (Some e)
         | Answered p d \<Rightarrow> (case authentication_error p of
             Some e \<Rightarrow> State_Monad.return (Some e)
           | None \<Rightarrow> (case the_token d of
               Inl e \<Rightarrow> State_Monad.return (Some e)
             | Inr t \<Rightarrow> ignoring (update_token r t) (connected_with (fst r) t)))
       }
   }"

definition get_token_key :: "string os" where
  "get_token_key = do {
     s \<leftarrow> State_Monad.get;
     State_Monad.return (case os_token s of None \<Rightarrow> [] | Some t \<Rightarrow> tk_key t)
   }"

text \<open>The substring test of \<open>strings.Contains\<close>.\<close>

fun contains :: "string \<Rightarrow> string \<Rightarrow> bool" where
  "contains [] p = (p = [])"
| "contains (c # s) p = (take (length p) (c # s) = p \<or> contains s p)"

definition get_endpoint :: "string \<Rightarrow> (err + string) os" where
  "get_endpoint service = do {
     s \<leftarrow> State_Monad.get;
     State_Monad.return (case map_of (os_endpoints s) service of
       Some u \<Rightarrow> Inr (if service = ''identity'' \<and> \<not> contains u ''/v3'' then u @ ''/v3'' else u)
     | None \<Rightarrow> Inl (NotFoundEndpoint service))
   }"

text \<open>The token is read without a test whether there is one.\<close>

definition token_authority :: "os_token option \<Rightarrow> err option" where
  "token_authority t = (case t of None \<Rightarrow> Some NilDereference
     | Some t \<Rightarrow> if tk_project_name t = ''admin'' \<and> list_ex (\<lambda>(_, n). n = ''admin'') (tk_roles t) then None
       else Some (UnAuthorizedUser (tk_project_name t) (tk_user_name t) ''admin''))"

definition connection_check_authority :: "err option os" where
  "connection_check_authority = do { s \<leftarrow> State_Monad.get; State_Monad.return (token_authority (os_token s)) }"

section \<open>The frame of a request\<close>

text \<open>
  The codes a request lists, in the order of its switch: \<open>Some\<close> makes an error of the answer, \<open>None\<close> is
  only logged. Then come the codes from 500 on and the rest.
\<close>

type_synonym refusals = "(nat \<times> (string \<Rightarrow> err) option) list"

definition refusal :: "refusals \<Rightarrow> http_response \<Rightarrow> err option" where
  "refusal codes r = (case map_of codes (hp_code r) of
       Some (Some f) \<Rightarrow> Some (f (hp_text r))
     | Some None \<Rightarrow> None
     | None \<Rightarrow> if hp_code r \<ge> 500 then Some (RemoteServerError (hp_text r)) else Some (ClientError (hp_text r)))"

abbreviation not_found :: "string \<Rightarrow> err" where
  "not_found \<equiv> (\<lambda>_. ClientNotFound)"

text \<open>
  A code from 400 on takes the tokens with the key of the connection out of the cache, before it is looked at.
\<close>

definition exchange ::
    "'a served \<Rightarrow> string \<Rightarrow> http_method \<Rightarrow> (string \<Rightarrow> string) \<Rightarrow> string option \<Rightarrow> http_body \<Rightarrow> refusals \<Rightarrow>
     (err + http_response \<times> (string + 'a)) os" where
  "exchange serve service m url version body codes = given (get_endpoint service) (\<lambda>endpoint. do {
     key \<leftarrow> get_token_key;
     a \<leftarrow> request serve \<lparr>hq_method = m, hq_url = url endpoint, hq_token = Some key, hq_version = version, hq_body = body\<rparr>;
     case a of
       NotSent e \<Rightarrow> failed_with e
     | Answered r d \<Rightarrow> if hp_code r \<ge> 400
         then do { key \<leftarrow> get_token_key; _ \<leftarrow> delete_token key;
                   case refusal codes r of Some e \<Rightarrow> failed_with e | None \<Rightarrow> succeed (r, d) }
         else succeed (r, d)
   })"

text \<open>A request whose answer is decoded, and one of which only the success matters.\<close>

definition decoded :: "('a \<Rightarrow> 'b option) \<Rightarrow> http_response \<times> (string + 'a) \<Rightarrow> err + http_response \<times> 'b" where
  "decoded pick a = (case snd a of Inl m \<Rightarrow> Inl (Unknown m)
     | Inr x \<Rightarrow> (case pick x of None \<Rightarrow> Inl (Unknown ''unmarshal'') | Some y \<Rightarrow> Inr (fst a, y)))"

definition reads ::
    "'a served \<Rightarrow> ('a \<Rightarrow> 'b option) \<Rightarrow> string \<Rightarrow> http_method \<Rightarrow> (string \<Rightarrow> string) \<Rightarrow> string option \<Rightarrow> http_body \<Rightarrow>
     refusals \<Rightarrow> (err + http_response \<times> 'b) os" where
  "reads serve pick service m url version body codes =
     given (exchange serve service m url version body codes) (\<lambda>a. State_Monad.return (decoded pick a))"

definition sends ::
    "'a served \<Rightarrow> string \<Rightarrow> http_method \<Rightarrow> (string \<Rightarrow> string) \<Rightarrow> string option \<Rightarrow> http_body \<Rightarrow> refusals \<Rightarrow> err option os" where
  "sends serve service m url version body codes =
     fetch (exchange serve service m url version body codes) (\<lambda>_. return_nil)"

definition value_of :: "(err + http_response \<times> 'b) os \<Rightarrow> (err + 'b) os" where
  "value_of m = given m (\<lambda>(_, x). succeed x)"

definition with_raw :: "(err + http_response \<times> 'b) os \<Rightarrow> (err + 'b \<times> string) os" where
  "with_raw m = given m (\<lambda>(r, x). succeed (x, hp_body r))"

text \<open>
  A creation that is waited for returns what was created beside the error of the waiting: such an answer is
  a pair, as it is in the code. The raw text is there only when all went well.
\<close>

type_synonym 'b created = "('b \<times> string option) option \<times> err option"

definition awaited :: "(err + http_response \<times> 'b) os \<Rightarrow> (http_response \<Rightarrow> 'b \<Rightarrow> err option os) \<Rightarrow> 'b created os" where
  "awaited m look = do {
     r \<leftarrow> m;
     case r of
       Inl e \<Rightarrow> State_Monad.return (None, Some e)
     | Inr (p, x) \<Rightarrow> do {
         e \<leftarrow> look p x;
         State_Monad.return (case e of Some e \<Rightarrow> (Some (x, None), Some e) | None \<Rightarrow> (Some (x, Some (hp_body p)), None))
       }
   }"

text \<open>The tables most requests share.\<close>

definition read_refusals :: refusals where
  "read_refusals = [(400, Some ClientError), (401, Some UnAuthenticated), (403, Some ClientUnAuthorized)]"

definition show_refusals :: refusals where
  "show_refusals = read_refusals @ [(404, Some not_found)]"

section \<open>Waiting\<close>

text \<open>
  The loops that wait for an operation: look, and look again after the interval until the time is over. Both
  timers run at the \<open>select\<close>; the one that is due first wins, and the end of the time when they are due
  together. The first argument bounds the rounds; \<open>waiting\<close> gives as many as there can be.
\<close>

datatype verdict = Finished | Failed err | Pending

definition timed_out :: err where
  "timed_out = Unknown ''asynchronous processing is timeout''"

primrec wait_rounds :: "nat \<Rightarrow> nat \<Rightarrow> nat \<Rightarrow> verdict os \<Rightarrow> err option os" where
  "wait_rounds 0 deadline interval look = State_Monad.return (Some timed_out)"
| "wait_rounds (Suc n) deadline interval look = do {
     v \<leftarrow> look;
     case v of
       Finished \<Rightarrow> return_nil
     | Failed e \<Rightarrow> State_Monad.return (Some e)
     | Pending \<Rightarrow> do {
         s \<leftarrow> State_Monad.get;
         if deadline \<le> os_time s + interval
         then ignoring (wait_for (deadline - os_time s)) (State_Monad.return (Some timed_out))
         else ignoring (wait_for interval) (wait_rounds n deadline interval look)
       }
   }"

definition waiting :: "nat \<Rightarrow> nat \<Rightarrow> verdict os \<Rightarrow> err option os" where
  "waiting timeout interval look = do {
     s \<leftarrow> State_Monad.get;
     wait_rounds (Suc (timeout div interval)) (os_time s + 1000 * timeout) (1000 * interval) look
   }"

text \<open>What is looked at: an error ends the loop; when something is to disappear, not finding it is the end.\<close>

definition judged :: "(err + 'a) os \<Rightarrow> ('a \<Rightarrow> verdict) \<Rightarrow> verdict os" where
  "judged m f = do { r \<leftarrow> m; State_Monad.return (case r of Inl e \<Rightarrow> Failed e | Inr x \<Rightarrow> f x) }"

definition gone :: "(err + 'a) os \<Rightarrow> ('a \<Rightarrow> verdict) \<Rightarrow> verdict os" where
  "gone m f = do { r \<leftarrow> m; State_Monad.return (case r of Inl ClientNotFound \<Rightarrow> Finished | Inl e \<Rightarrow> Failed e | Inr x \<Rightarrow> f x) }"

section \<open>Connecting\<close>

definition unscoped_auth :: "string \<Rightarrow> string" where
  "unscoped_auth credential = ''{ \"auth\": { \"identity\": '' @ credential @ ''}}''"

definition scoped_auth :: "string \<Rightarrow> string \<Rightarrow> string" where
  "scoped_auth credential tenant =
     ''{ \"auth\": { \"identity\": '' @ credential @ '', \"scope\": { \"project\": { \"id\": \"'' @ tenant @ ''\"}}}}''"

definition scopes_error :: "http_response \<Rightarrow> err option" where
  "scopes_error r =
     (if hp_code r = 400 then Some (ClientError (hp_text r))
      else if hp_code r = 401 then Some (UnAuthenticated (hp_text r))
      else if hp_code r = 403 then Some (ClientUnAuthorized (hp_text r))
      else if hp_code r \<ge> 400 then Some (ClientError (hp_text r))
      else if hp_code r \<ge> 500 then Some (RemoteServerError (hp_text r))
      else None)"

definition get_available_project_scopes :: "os_servers \<Rightarrow> string \<Rightarrow> (err + string list) os" where
  "get_available_project_scopes sv url = do {
     key \<leftarrow> get_token_key;
     a \<leftarrow> request (sv_identity sv) \<lparr>hq_method = MethodGet, hq_url = url @ ''/v3/auth/projects'', hq_token = Some key,
         hq_version = None, hq_body = NoBody\<rparr>;
     case a of
       NotSent e \<Rightarrow> failed_with e
     | Answered r d \<Rightarrow> do {
         _ \<leftarrow> (if hp_code r \<ge> 400 then do { key \<leftarrow> get_token_key; delete_token key } else State_Monad.return ());
         case scopes_error r of Some e \<Rightarrow> failed_with e
         | None \<Rightarrow> State_Monad.return (case d of Inl m \<Rightarrow> Inl (Unknown m) | Inr (ReScopes ps) \<Rightarrow> Inr ps
             | Inr _ \<Rightarrow> Inl (Unknown ''projects''))
       }
   }"

definition drop_token :: "unit os" where
  "drop_token = State_Monad.update (\<lambda>s. s\<lparr>os_token := None\<rparr>)"

text \<open>
  The loop over the projects keeps the error of the last test of the authority; without projects it is the
  nil error of the request, and the identifier is empty.
\<close>

fun first_admin_project :: "os_servers \<Rightarrow> os_client \<Rightarrow> string list \<Rightarrow> err option \<Rightarrow> (err + string) os" where
  "first_admin_project sv c [] e = State_Monad.return (case e of None \<Rightarrow> Inr [] | Some e \<Rightarrow> Inl e)"
| "first_admin_project sv c (p # ps) e =
     after (authentication sv (oc_url c, scoped_auth (oc_credential c) p)) (do {
       e' \<leftarrow> connection_check_authority;
       case e' of None \<Rightarrow> succeed p | Some _ \<Rightarrow> first_admin_project sv c ps e'
     })"

definition get_admin_role_tenant_id :: "os_servers \<Rightarrow> os_client \<Rightarrow> (err + string) os" where
  "get_admin_role_tenant_id sv c =
     after (authentication sv (oc_url c, unscoped_auth (oc_credential c))) (do {
       r \<leftarrow> given (get_available_project_scopes sv (oc_url c)) (\<lambda>ps. first_admin_project sv c ps None);
       _ \<leftarrow> drop_token;
       State_Monad.return r
     })"

definition get_tenant_id :: "os_servers \<Rightarrow> os_client \<Rightarrow> (err + string) os" where
  "get_tenant_id sv c = (if oc_tenant_id c \<noteq> [] then succeed (oc_tenant_id c) else get_admin_role_tenant_id sv c)"

definition openstack_connect :: "os_servers \<Rightarrow> os_client \<Rightarrow> err option os" where
  "openstack_connect sv c = do {
     s \<leftarrow> State_Monad.get;
     if os_token s \<noteq> None then return_nil
     else fetch (get_tenant_id sv c) (\<lambda>t. authentication sv (oc_url c, scoped_auth (oc_credential c) t))
   }"

definition openstack_close :: "err option os" where
  "openstack_close = ignoring drop_token return_nil"

definition openstack_check_authority :: "err option os" where
  "openstack_check_authority = do {
     s \<leftarrow> State_Monad.get;
     if os_token s = None then State_Monad.return (Some (NotConnected ''cluster.type.openstack'')) else connection_check_authority
   }"

text \<open>\<open>New\<close>: a client starts without a token; the cache is shared.\<close>

definition openstack_new :: "string \<Rightarrow> string \<Rightarrow> string \<Rightarrow> os_client" where
  "openstack_new url credential tenant = \<lparr>oc_url = url, oc_credential = credential, oc_tenant_id = tenant\<rparr>"

definition new_connection :: "os_state \<Rightarrow> os_state" where
  "new_connection s = s\<lparr>os_token := None, os_endpoints := []\<rparr>"

end
