(* ===== verification/TrainNetwork.thy ===== *)
theory TrainNetwork
  imports TrainConnection
begin

text \<open>
  The requests to the network service (\<open>client/openstack/train/network_*.go\<close>), one definition per function:
  service, method, path, body, the codes it tells apart, and what is made of the answer.
\<close>

section \<open>Answers\<close>

definition as_port :: "network_reply \<Rightarrow> os_port option" where
  "as_port a = (case a of RePort x \<Rightarrow> Some x | _ \<Rightarrow> None)"

definition as_ports :: "network_reply \<Rightarrow> os_port list option" where
  "as_ports a = (case a of RePorts x \<Rightarrow> Some x | _ \<Rightarrow> None)"

definition as_router :: "network_reply \<Rightarrow> os_router option" where
  "as_router a = (case a of ReRouter x \<Rightarrow> Some x | _ \<Rightarrow> None)"

definition as_routers :: "network_reply \<Rightarrow> os_router list option" where
  "as_routers a = (case a of ReRouters x \<Rightarrow> Some x | _ \<Rightarrow> None)"

definition as_floating_ip :: "network_reply \<Rightarrow> os_floating_ip option" where
  "as_floating_ip a = (case a of ReFloatingIP x \<Rightarrow> Some x | _ \<Rightarrow> None)"

definition as_floating_ips :: "network_reply \<Rightarrow> os_floating_ip list option" where
  "as_floating_ips a = (case a of ReFloatingIPs x \<Rightarrow> Some x | _ \<Rightarrow> None)"

definition as_network :: "network_reply \<Rightarrow> os_network option" where
  "as_network a = (case a of ReNetwork x \<Rightarrow> Some x | _ \<Rightarrow> None)"

definition as_networks :: "network_reply \<Rightarrow> os_network list option" where
  "as_networks a = (case a of ReNetworks x \<Rightarrow> Some x | _ \<Rightarrow> None)"

definition as_subnet :: "network_reply \<Rightarrow> os_subnet option" where
  "as_subnet a = (case a of ReSubnet x \<Rightarrow> Some x | _ \<Rightarrow> None)"

definition as_security_group :: "network_reply \<Rightarrow> os_security_group option" where
  "as_security_group a = (case a of ReSecurityGroup x \<Rightarrow> Some x | _ \<Rightarrow> None)"

definition as_security_groups :: "network_reply \<Rightarrow> os_security_group list option" where
  "as_security_groups a = (case a of ReSecurityGroups x \<Rightarrow> Some x | _ \<Rightarrow> None)"

definition as_rule :: "network_reply \<Rightarrow> os_rule option" where
  "as_rule a = (case a of ReRule x \<Rightarrow> Some x | _ \<Rightarrow> None)"

definition as_rule_details :: "network_reply \<Rightarrow> os_rule_details option" where
  "as_rule_details a = (case a of ReRuleDetails x \<Rightarrow> Some x | _ \<Rightarrow> None)"

definition as_interface :: "network_reply \<Rightarrow> router_interface option" where
  "as_interface a = (case a of ReInterface x \<Rightarrow> Some x | _ \<Rightarrow> None)"

definition as_agents :: "network_reply \<Rightarrow> agent_service list option" where
  "as_agents a = (case a of ReAgents x \<Rightarrow> Some x | _ \<Rightarrow> None)"

definition as_extensions :: "network_reply \<Rightarrow> os_extension list option" where
  "as_extensions a = (case a of ReExtensions x \<Rightarrow> Some x | _ \<Rightarrow> None)"

definition as_network_quota_update :: "network_reply \<Rightarrow> (string \<times> int) list option" where
  "as_network_quota_update a = (case a of ReNetworkQuotaUpdate x \<Rightarrow> Some x | _ \<Rightarrow> None)"

definition as_network_quotas :: "network_reply \<Rightarrow> (string \<times> json) list option" where
  "as_network_quotas a = (case a of ReNetworkQuotas x \<Rightarrow> Some x | _ \<Rightarrow> None)"

section \<open>Networks and subnets\<close>

definition train_create_network :: "os_servers \<Rightarrow> os_network \<Rightarrow> (err + os_network \<times> string) os" where
  "train_create_network sv n = with_raw (reads (sv_network sv) as_network ''network'' MethodPost (\<lambda>u. u @ ''/v2.0/networks'') None
     (Marshalled (encode_network_creation n)) [(400, Some ClientError), (401, Some ClientError), (403, Some ClientUnAuthorized)])"

definition train_delete_network :: "os_servers \<Rightarrow> string \<Rightarrow> err option os" where
  "train_delete_network sv i = sends (sv_network sv) ''network'' MethodDelete (\<lambda>u. u @ ''/v2.0/networks/'' @ i) None
     NoBody [(401, Some ClientError), (403, Some ClientUnAuthorized), (404, None), (409, Some ClientConflict), (412, Some ClientError)]"

definition train_list_networks :: "os_servers \<Rightarrow> (err + os_network list) os" where
  "train_list_networks sv = value_of (reads (sv_network sv) as_networks ''network'' MethodGet (\<lambda>u. u @ ''/v2.0/networks'') None
     NoBody read_refusals)"

definition train_show_network_details :: "os_servers \<Rightarrow> string \<Rightarrow> (err + os_network \<times> string) os" where
  "train_show_network_details sv i = with_raw (reads (sv_network sv) as_network ''network'' MethodGet (\<lambda>u. u @ ''/v2.0/networks/'' @ i) None
     NoBody show_refusals)"

definition train_create_subnet :: "os_servers \<Rightarrow> os_subnet \<Rightarrow> (err + os_subnet \<times> string) os" where
  "train_create_subnet sv s = with_raw (reads (sv_network sv) as_subnet ''network'' MethodPost (\<lambda>u. u @ ''/v2.0/subnets'') None
     (Marshalled (encode_subnet s)) [(400, Some ClientError), (401, Some ClientError), (403, Some ClientUnAuthorized), (404, Some not_found), (409, Some ClientConflict)])"

definition train_delete_subnet :: "os_servers \<Rightarrow> string \<Rightarrow> err option os" where
  "train_delete_subnet sv i = sends (sv_network sv) ''network'' MethodDelete (\<lambda>u. u @ ''/v2.0/subnets/'' @ i) None
     NoBody [(401, Some ClientError), (403, Some ClientUnAuthorized), (404, None), (409, Some ClientConflict), (412, Some ClientError)]"

definition train_show_subnet_details :: "os_servers \<Rightarrow> string \<Rightarrow> (err + os_subnet \<times> string) os" where
  "train_show_subnet_details sv i = with_raw (reads (sv_network sv) as_subnet ''network'' MethodGet (\<lambda>u. u @ ''/v2.0/subnets/'' @ i) None
     NoBody show_refusals)"

section \<open>Ports and routers\<close>

definition train_create_port :: "os_servers \<Rightarrow> os_port \<Rightarrow> (err + os_port) os" where
  "train_create_port sv p = value_of (reads (sv_network sv) as_port ''network'' MethodPost (\<lambda>u. u @ ''/v2.0/ports'') None
     (Marshalled (encode_port p)) [(400, Some ClientError), (401, Some ClientError), (403, Some ClientUnAuthorized), (404, Some not_found)])"

definition train_delete_port :: "os_servers \<Rightarrow> string \<Rightarrow> err option os" where
  "train_delete_port sv i = sends (sv_network sv) ''network'' MethodDelete (\<lambda>u. u @ ''/v2.0/ports/'' @ i) None
     NoBody [(400, Some ClientError), (401, Some ClientError), (403, Some ClientUnAuthorized), (404, None), (412, Some ClientError)]"

definition train_show_port_details :: "os_servers \<Rightarrow> string \<Rightarrow> (err + os_port \<times> string) os" where
  "train_show_port_details sv i = with_raw (reads (sv_network sv) as_port ''network'' MethodGet (\<lambda>u. u @ ''/v2.0/ports/'' @ i) None
     NoBody show_refusals)"

definition train_list_ports :: "os_servers \<Rightarrow> string \<Rightarrow> string \<Rightarrow> (err + os_port list) os" where
  "train_list_ports sv owner device = value_of (reads (sv_network sv) as_ports ''network'' MethodGet (\<lambda>u. u @ ''/v2.0/ports?device_id='' @ device @ (if owner = [] then [] else ''&device_owner='' @ owner)) None
     NoBody read_refusals)"

definition train_create_router :: "os_servers \<Rightarrow> os_router \<Rightarrow> (err + os_router \<times> string) os" where
  "train_create_router sv r = with_raw (reads (sv_network sv) as_router ''network'' MethodPost (\<lambda>u. u @ ''/v2.0/routers'') None
     (Marshalled (encode_router r)) [(400, Some ClientError), (401, Some ClientError), (403, Some ClientUnAuthorized), (409, Some ClientConflict)])"

definition train_delete_router :: "os_servers \<Rightarrow> string \<Rightarrow> err option os" where
  "train_delete_router sv i = sends (sv_network sv) ''network'' MethodDelete (\<lambda>u. u @ ''/v2.0/routers/'' @ i) None
     NoBody [(401, Some ClientError), (403, Some ClientUnAuthorized), (404, None), (409, Some ClientConflict), (412, Some ClientError)]"

definition train_list_routers :: "os_servers \<Rightarrow> (err + os_router list) os" where
  "train_list_routers sv = value_of (reads (sv_network sv) as_routers ''network'' MethodGet (\<lambda>u. u @ ''/v2.0/routers'') None
     NoBody read_refusals)"

definition train_show_router_details :: "os_servers \<Rightarrow> string \<Rightarrow> (err + os_router \<times> string) os" where
  "train_show_router_details sv i = with_raw (reads (sv_network sv) as_router ''network'' MethodGet (\<lambda>u. u @ ''/v2.0/routers/'' @ i) None
     NoBody show_refusals)"

text \<open>The requests about routes send a router that has nothing but routes.\<close>

definition routes_only :: "extra_route list \<Rightarrow> os_router" where
  "routes_only rs = \<lparr>ro_uuid = [], ro_name = [], ro_description = None, ro_project_id = [], ro_state = False, ro_status = [],
     ro_routes = rs, ro_gateway_network = [], ro_gateway_ips = []\<rparr>"

definition train_add_extra_routes_to_router :: "os_servers \<Rightarrow> string \<Rightarrow> extra_route list \<Rightarrow> (err + os_router) os" where
  "train_add_extra_routes_to_router sv i rs = value_of (reads (sv_network sv) as_router ''network'' MethodPut (\<lambda>u. u @ ''/v2.0/routers/'' @ i @ ''/add_extraroutes'') None
     (Marshalled (encode_router (routes_only rs))) [(400, Some ClientError), (401, Some ClientError), (403, Some ClientUnAuthorized), (404, Some not_found), (412, Some ClientError)])"

definition train_remove_extra_routes_from_router :: "os_servers \<Rightarrow> string \<Rightarrow> extra_route list \<Rightarrow> err option os" where
  "train_remove_extra_routes_from_router sv i rs = sends (sv_network sv) ''network'' MethodPut (\<lambda>u. u @ ''/v2.0/routers/'' @ i @ ''/remove_extraroutes'') None
     (Marshalled (encode_router (routes_only rs))) [(400, Some ClientError), (401, Some ClientError), (403, Some ClientUnAuthorized), (404, None), (412, Some ClientError)]"

definition train_add_interface_to_router :: "os_servers \<Rightarrow> string \<Rightarrow> string option \<Rightarrow> string option \<Rightarrow> (err + router_interface) os" where
  "train_add_interface_to_router sv i subnet port = value_of (reads (sv_network sv) as_interface ''network'' MethodPut (\<lambda>u. u @ ''/v2.0/routers/'' @ i @ ''/add_router_interface'') None
     (Marshalled (encode_interface_addition subnet port)) [(400, Some ClientError), (401, Some ClientError), (403, Some ClientUnAuthorized), (404, Some not_found), (409, Some ClientConflict)])"

definition train_remove_interface_from_router :: "os_servers \<Rightarrow> string \<Rightarrow> string \<Rightarrow> string \<Rightarrow> err option os" where
  "train_remove_interface_from_router sv i port subnet = sends (sv_network sv) ''network'' MethodPut (\<lambda>u. u @ ''/v2.0/routers/'' @ i @ ''/remove_router_interface'') None
     (Marshalled (encode_interface_removal port subnet)) [(400, Some ClientError), (401, Some ClientError), (403, Some ClientUnAuthorized), (404, None), (409, Some ClientConflict)]"

section \<open>Floating IPs\<close>

definition train_create_floating_ip :: "os_servers \<Rightarrow> os_floating_ip \<Rightarrow> (err + os_floating_ip \<times> string) os" where
  "train_create_floating_ip sv f = with_raw (reads (sv_network sv) as_floating_ip ''network'' MethodPost (\<lambda>u. u @ ''/v2.0/floatingips'') None
     (Marshalled (encode_floating_ip f)) [(400, Some ClientError), (401, Some ClientError), (403, Some ClientUnAuthorized), (404, Some not_found), (409, Some ClientConflict)])"

definition train_list_floating_ips :: "os_servers \<Rightarrow> string \<Rightarrow> (err + os_floating_ip list) os" where
  "train_list_floating_ips sv i = value_of (reads (sv_network sv) as_floating_ips ''network'' MethodGet (\<lambda>u. u @ ''/v2.0/floatingips?floating_network_id='' @ i) None
     NoBody read_refusals)"

definition train_show_floating_ip_details :: "os_servers \<Rightarrow> string \<Rightarrow> (err + os_floating_ip \<times> string) os" where
  "train_show_floating_ip_details sv i = with_raw (reads (sv_network sv) as_floating_ip ''network'' MethodGet (\<lambda>u. u @ ''/v2.0/floatingips/'' @ i) None
     NoBody show_refusals)"

definition train_delete_floating_ip :: "os_servers \<Rightarrow> string \<Rightarrow> err option os" where
  "train_delete_floating_ip sv i = sends (sv_network sv) ''network'' MethodDelete (\<lambda>u. u @ ''/v2.0/floatingips/'' @ i) None
     NoBody [(401, Some ClientError), (403, Some ClientUnAuthorized), (404, None), (412, Some ClientError)]"

definition train_update_floating_ip :: "os_servers \<Rightarrow> string \<Rightarrow> floating_ip_update \<Rightarrow> (err + os_floating_ip) os" where
  "train_update_floating_ip sv i f = value_of (reads (sv_network sv) as_floating_ip ''network'' MethodPut (\<lambda>u. u @ ''/v2.0/floatingips/'' @ i) None
     (Marshalled (encode_floating_ip_update f)) [(400, Some ClientError), (401, Some ClientError), (403, Some ClientUnAuthorized), (404, Some not_found), (409, Some ClientConflict), (412, Some ClientError)])"

text \<open>This one stands among the requests about instances (\<open>compute_instance.go\<close>).\<close>

definition train_list_floating_ips_by_port_interface :: "os_servers \<Rightarrow> string \<Rightarrow> string \<Rightarrow> (err + os_floating_ip list) os" where
  "train_list_floating_ips_by_port_interface sv port ip = value_of (reads (sv_network sv) as_floating_ips ''network'' MethodGet (\<lambda>u. u @ ''/v2.0/floatingips?port_id='' @ port @ ''&fixed_ip_address='' @ ip) None
     NoBody read_refusals)"

section \<open>Security groups\<close>

definition train_create_security_group :: "os_servers \<Rightarrow> os_security_group \<Rightarrow> (err + os_security_group \<times> string) os" where
  "train_create_security_group sv g = with_raw (reads (sv_network sv) as_security_group ''network'' MethodPost (\<lambda>u. u @ ''/v2.0/security-groups'') None
     (Marshalled (encode_security_group_creation g)) [(400, Some ClientError), (401, Some ClientError), (403, Some ClientUnAuthorized), (409, Some ClientConflict)])"

definition train_delete_security_group :: "os_servers \<Rightarrow> string \<Rightarrow> err option os" where
  "train_delete_security_group sv i = sends (sv_network sv) ''network'' MethodDelete (\<lambda>u. u @ ''/v2.0/security-groups/'' @ i) None
     NoBody [(401, Some ClientError), (403, Some ClientUnAuthorized), (404, None), (409, Some ClientConflict), (412, Some ClientError)]"

definition train_list_security_groups :: "os_servers \<Rightarrow> (err + os_security_group list) os" where
  "train_list_security_groups sv = value_of (reads (sv_network sv) as_security_groups ''network'' MethodGet (\<lambda>u. u @ ''/v2.0/security-groups'') None
     NoBody read_refusals)"

definition train_show_security_group :: "os_servers \<Rightarrow> string \<Rightarrow> (err + os_security_group \<times> string) os" where
  "train_show_security_group sv i = with_raw (reads (sv_network sv) as_security_group ''network'' MethodGet (\<lambda>u. u @ ''/v2.0/security-groups/'' @ i) None
     NoBody show_refusals)"

definition train_create_security_group_rule :: "os_servers \<Rightarrow> os_rule \<Rightarrow> (err + os_rule \<times> string) os" where
  "train_create_security_group_rule sv r = with_raw (reads (sv_network sv) as_rule ''network'' MethodPost (\<lambda>u. u @ ''/v2.0/security-group-rules'') None
     (Marshalled (encode_rule r)) [(400, Some ClientError), (401, Some ClientError), (403, Some ClientUnAuthorized), (404, Some not_found), (409, Some ClientConflict)])"

definition train_delete_security_group_rule :: "os_servers \<Rightarrow> string \<Rightarrow> err option os" where
  "train_delete_security_group_rule sv i = sends (sv_network sv) ''network'' MethodDelete (\<lambda>u. u @ ''/v2.0/security-group-rules/'' @ i) None
     NoBody [(401, Some ClientError), (403, Some ClientUnAuthorized), (404, None), (412, Some ClientError)]"

definition train_show_security_group_rule :: "os_servers \<Rightarrow> string \<Rightarrow> (err + os_rule_details \<times> string) os" where
  "train_show_security_group_rule sv i = with_raw (reads (sv_network sv) as_rule_details ''network'' MethodGet (\<lambda>u. u @ ''/v2.0/security-group-rules/'' @ i) None
     NoBody show_refusals)"

definition uint32_ether_type :: "nat \<Rightarrow> string" where
  "uint32_ether_type t = (if t = 4 then ''IPv4'' else ''IPv6'')"

definition string_ether_type :: "string \<Rightarrow> nat" where
  "string_ether_type t = (if t = ''IPv6'' then 6 else 4)"

section \<open>Agents, extensions and quotas\<close>

definition train_list_all_network_agents :: "os_servers \<Rightarrow> (err + agent_service list) os" where
  "train_list_all_network_agents sv = value_of (reads (sv_network sv) as_agents ''network'' MethodGet (\<lambda>u. u @ ''/v2.0/agents'') None
     NoBody [(401, Some ClientError), (403, Some ClientUnAuthorized)])"

definition train_list_extensions :: "os_servers \<Rightarrow> (err + os_extension list) os" where
  "train_list_extensions sv = value_of (reads (sv_network sv) as_extensions ''network'' MethodGet (\<lambda>u. u @ ''/v2.0/extensions'') None
     NoBody [(401, Some ClientError), (403, Some ClientUnAuthorized)])"

definition train_update_network_quota :: "os_servers \<Rightarrow> string \<Rightarrow> (string \<times> int) list \<Rightarrow> (err + (string \<times> int) list) os" where
  "train_update_network_quota sv i q = value_of (reads (sv_network sv) as_network_quota_update ''network'' MethodPut (\<lambda>u. u @ ''/v2.0/quotas/'' @ i) None
     (Marshalled (encode_quotas ''quota'' q)) [(401, Some ClientError), (403, Some ClientError)])"

definition train_show_network_quota :: "os_servers \<Rightarrow> string \<Rightarrow> (err + (string \<times> int) list) os" where
  "train_show_network_quota sv i = given (value_of (reads (sv_network sv) as_network_quotas ''network'' MethodGet (\<lambda>u. u @ ''/v2.0/quotas/'' @ i) None
     NoBody read_refusals))
     (\<lambda>dat. State_Monad.return (quotas_of ''quota'' False dat))"

end
