(* ===== verification/TrainIdentity.thy ===== *)
theory TrainIdentity
  imports TrainNetwork
begin

text \<open>
  The requests to the identity service (\<open>client/openstack/train/identity_tenant.go\<close>, \<open>identity_role.go\<close>).
\<close>

section \<open>Answers\<close>

definition as_project :: "identity_reply \<Rightarrow> os_project option" where
  "as_project a = (case a of ReProject x \<Rightarrow> Some x | _ \<Rightarrow> None)"

definition as_project_creation :: "identity_reply \<Rightarrow> project_creation option" where
  "as_project_creation a = (case a of ReProjectCreation x \<Rightarrow> Some x | _ \<Rightarrow> None)"

definition as_projects :: "identity_reply \<Rightarrow> os_project list option" where
  "as_projects a = (case a of ReProjects x \<Rightarrow> Some x | _ \<Rightarrow> None)"

section \<open>Projects\<close>

definition train_create_project :: "os_servers \<Rightarrow> project_creation \<Rightarrow> (err + project_creation \<times> string) os" where
  "train_create_project sv p = with_raw (reads (sv_identity sv) as_project_creation ''identity'' MethodPost (\<lambda>u. u @ ''/projects'') None
     (Marshalled (encode_project_creation p)) [(400, Some ClientError), (401, Some ClientError), (403, Some ClientUnAuthorized), (409, Some ClientConflict)])"

definition train_list_projects :: "os_servers \<Rightarrow> (err + os_project list) os" where
  "train_list_projects sv = value_of (reads (sv_identity sv) as_projects ''identity'' MethodGet (\<lambda>u. u @ ''/projects'') None
     NoBody read_refusals)"

definition train_show_project_details :: "os_servers \<Rightarrow> string \<Rightarrow> (err + os_project \<times> string) os" where
  "train_show_project_details sv i = with_raw (reads (sv_identity sv) as_project ''identity'' MethodGet (\<lambda>u. u @ ''/projects/'' @ i) None
     NoBody show_refusals)"

definition train_assign_role_to_user_on_project :: "os_servers \<Rightarrow> string \<Rightarrow> string \<Rightarrow> string \<Rightarrow> err option os" where
  "train_assign_role_to_user_on_project sv project user role = sends (sv_identity sv) ''identity'' MethodPut (\<lambda>u. u @ ''/projects/'' @ project @ ''/users/'' @ user @ ''/roles/'' @ role) None
     NoBody [(400, Some ClientError), (401, Some ClientError), (403, Some ClientUnAuthorized), (404, Some not_found), (409, Some ClientConflict)]"

text \<open>
  A deleted project takes the connection with it, so the client connects again; then the security groups that
  are left over are deleted, and nothing of that is an error.
\<close>

fun delete_groups_of :: "os_servers \<Rightarrow> string \<Rightarrow> os_security_group list \<Rightarrow> unit os" where
  "delete_groups_of sv p [] = State_Monad.return ()"
| "delete_groups_of sv p (g # gs) =
     ignoring (if osg_project_id g = p then train_delete_security_group sv (osg_uuid g) else return_nil)
       (delete_groups_of sv p gs)"

definition train_delete_project :: "os_servers \<Rightarrow> os_client \<Rightarrow> string \<Rightarrow> err option os" where
  "train_delete_project sv c i = check (sends (sv_identity sv) ''identity'' MethodDelete (\<lambda>u. u @ ''/projects/'' @ i) None
     NoBody [(400, Some ClientError), (401, Some ClientError), (403, Some ClientUnAuthorized), (404, None)])
     (ignoring openstack_close (check (openstack_connect sv c) (do {
       gs \<leftarrow> train_list_security_groups sv;
       case gs of Inl _ \<Rightarrow> return_nil | Inr gs \<Rightarrow> ignoring (delete_groups_of sv i gs) return_nil
     })))"

end
