(* ===== verification/TrainVolume.thy ===== *)
theory TrainVolume
  imports TrainConnection
begin

text \<open>
  The requests to the block storage service (\<open>client/openstack/train/storage_*.go\<close>), with the loops that wait
  for volumes, snapshots, groups and group snapshots.
\<close>

section \<open>Answers\<close>

definition as_volume :: "volume_reply \<Rightarrow> os_volume option" where
  "as_volume a = (case a of ReVolume x \<Rightarrow> Some x | _ \<Rightarrow> None)"

definition as_volumes :: "volume_reply \<Rightarrow> os_volume list option" where
  "as_volumes a = (case a of ReVolumes x \<Rightarrow> Some x | _ \<Rightarrow> None)"

definition as_snapshot :: "volume_reply \<Rightarrow> os_snapshot option" where
  "as_snapshot a = (case a of ReVolumeSnapshot x \<Rightarrow> Some x | _ \<Rightarrow> None)"

definition as_snapshots :: "volume_reply \<Rightarrow> os_snapshot list option" where
  "as_snapshots a = (case a of ReVolumeSnapshots x \<Rightarrow> Some x | _ \<Rightarrow> None)"

definition as_group :: "volume_reply \<Rightarrow> os_group option" where
  "as_group a = (case a of ReGroup x \<Rightarrow> Some x | _ \<Rightarrow> None)"

definition as_groups :: "volume_reply \<Rightarrow> (string \<times> string) list option" where
  "as_groups a = (case a of ReGroups x \<Rightarrow> Some x | _ \<Rightarrow> None)"

definition as_group_snapshot :: "volume_reply \<Rightarrow> os_group_snapshot option" where
  "as_group_snapshot a = (case a of ReGroupSnapshot x \<Rightarrow> Some x | _ \<Rightarrow> None)"

definition as_group_snapshots :: "volume_reply \<Rightarrow> os_group_snapshot list option" where
  "as_group_snapshots a = (case a of ReGroupSnapshots x \<Rightarrow> Some x | _ \<Rightarrow> None)"

definition as_group_type :: "volume_reply \<Rightarrow> os_group_type option" where
  "as_group_type a = (case a of ReGroupType x \<Rightarrow> Some x | _ \<Rightarrow> None)"

definition as_group_types :: "volume_reply \<Rightarrow> os_group_type list option" where
  "as_group_types a = (case a of ReGroupTypes x \<Rightarrow> Some x | _ \<Rightarrow> None)"

definition as_volume_type :: "volume_reply \<Rightarrow> os_volume_type option" where
  "as_volume_type a = (case a of ReVolumeType x \<Rightarrow> Some x | _ \<Rightarrow> None)"

definition as_volume_types :: "volume_reply \<Rightarrow> os_volume_type list option" where
  "as_volume_types a = (case a of ReVolumeTypes x \<Rightarrow> Some x | _ \<Rightarrow> None)"

definition as_pools :: "volume_reply \<Rightarrow> storage_pool list option" where
  "as_pools a = (case a of RePools x \<Rightarrow> Some x | _ \<Rightarrow> None)"

definition as_cinder_services :: "volume_reply \<Rightarrow> cinder_service list option" where
  "as_cinder_services a = (case a of ReCinderServices x \<Rightarrow> Some x | _ \<Rightarrow> None)"

definition as_attachment :: "volume_reply \<Rightarrow> (string \<times> json) list option" where
  "as_attachment a = (case a of ReAttachment x \<Rightarrow> Some x | _ \<Rightarrow> None)"

definition as_manageable_volumes :: "volume_reply \<Rightarrow> manageable_volume list option" where
  "as_manageable_volumes a = (case a of ReManageableVolumes x \<Rightarrow> Some x | _ \<Rightarrow> None)"

definition as_manageable_snapshots :: "volume_reply \<Rightarrow> manageable_snapshot list option" where
  "as_manageable_snapshots a = (case a of ReManageableSnapshots x \<Rightarrow> Some x | _ \<Rightarrow> None)"

definition as_storage_quota_update :: "volume_reply \<Rightarrow> (string \<times> int) list option" where
  "as_storage_quota_update a = (case a of ReStorageQuotaUpdate x \<Rightarrow> Some x | _ \<Rightarrow> None)"

definition as_storage_quotas :: "volume_reply \<Rightarrow> (string \<times> json) list option" where
  "as_storage_quotas a = (case a of ReStorageQuotas x \<Rightarrow> Some x | _ \<Rightarrow> None)"

definition show_bool :: "bool \<Rightarrow> string" where
  "show_bool b = (if b then ''true'' else ''false'')"

section \<open>Volume types, pools and services\<close>

definition train_list_all_volume_types :: "os_servers \<Rightarrow> (err + os_volume_type list) os" where
  "train_list_all_volume_types sv = value_of (reads (sv_volume sv) as_volume_types ''volumev3'' MethodGet (\<lambda>u. u @ ''/types'') None
     NoBody read_refusals)"

definition train_show_volume_type_detail :: "os_servers \<Rightarrow> string \<Rightarrow> (err + os_volume_type \<times> string) os" where
  "train_show_volume_type_detail sv i = with_raw (reads (sv_volume sv) as_volume_type ''volumev3'' MethodGet (\<lambda>u. u @ ''/types/'' @ i) None
     NoBody show_refusals)"

definition train_show_default_volume_type :: "os_servers \<Rightarrow> (err + os_volume_type \<times> string) os" where
  "train_show_default_volume_type sv = with_raw (reads (sv_volume sv) as_volume_type ''volumev3'' MethodGet (\<lambda>u. u @ ''/types/default'') None
     NoBody [(403, Some ClientUnAuthorized)])"

definition train_list_all_backend_storage_pools :: "os_servers \<Rightarrow> (err + storage_pool list) os" where
  "train_list_all_backend_storage_pools sv = value_of (reads (sv_volume sv) as_pools ''volumev3'' MethodGet (\<lambda>u. u @ ''/scheduler-stats/get_pools?detail=true'') None
     NoBody read_refusals)"

definition train_list_all_cinder_services :: "os_servers \<Rightarrow> (err + cinder_service list) os" where
  "train_list_all_cinder_services sv = value_of (reads (sv_volume sv) as_cinder_services ''volumev3'' MethodGet (\<lambda>u. u @ ''/os-services'') (Some ''volume 3.59'')
     NoBody [(400, Some ClientError), (401, Some ClientError), (403, Some ClientUnAuthorized)])"

definition train_list_summary_of_volumes_available_to_manage :: "os_servers \<Rightarrow> string \<Rightarrow> (err + manageable_volume list) os" where
  "train_list_summary_of_volumes_available_to_manage sv host = value_of (reads (sv_volume sv) as_manageable_volumes ''volumev3'' MethodGet (\<lambda>u. u @ ''/manageable_volumes?host='' @ host) (Some ''volume 3.59'')
     NoBody [(403, Some ClientUnAuthorized)])"

definition train_list_summary_of_snapshots_available_to_manage :: "os_servers \<Rightarrow> string \<Rightarrow> (err + manageable_snapshot list) os" where
  "train_list_summary_of_snapshots_available_to_manage sv host = value_of (reads (sv_volume sv) as_manageable_snapshots ''volumev3'' MethodGet (\<lambda>u. u @ ''/manageable_snapshots?host='' @ host) (Some ''volume 3.59'')
     NoBody [(403, Some ClientUnAuthorized)])"

definition train_show_attachment_details :: "os_servers \<Rightarrow> string \<Rightarrow> (err + (string \<times> json) list) os" where
  "train_show_attachment_details sv i = value_of (reads (sv_volume sv) as_attachment ''volumev3'' MethodGet (\<lambda>u. u @ ''/attachments/'' @ i) (Some ''volume 3.59'')
     NoBody show_refusals)"

section \<open>Volumes\<close>

definition train_list_accessible_volumes :: "os_servers \<Rightarrow> (err + os_volume list) os" where
  "train_list_accessible_volumes sv = value_of (reads (sv_volume sv) as_volumes ''volumev3'' MethodGet (\<lambda>u. u @ ''/volumes?all_tenants=true'') None
     NoBody read_refusals)"

definition train_show_volume_details :: "os_servers \<Rightarrow> string \<Rightarrow> (err + os_volume \<times> string) os" where
  "train_show_volume_details sv i = with_raw (reads (sv_volume sv) as_volume ''volumev3'' MethodGet (\<lambda>u. u @ ''/volumes/'' @ i) None
     NoBody show_refusals)"

text \<open>\<open>strconv.ParseBool\<close>.\<close>

definition parse_bool :: "string \<Rightarrow> bool option" where
  "parse_bool s = (if s \<in> {''1'', ''t'', ''T'', ''true'', ''TRUE'', ''True''} then Some True
     else if s \<in> {''0'', ''f'', ''F'', ''false'', ''FALSE'', ''False''} then Some False else None)"

text \<open>The flag is expected to be a string: any other value is a failed type assertion.\<close>

definition readonly_flag :: "(string \<times> json) list \<Rightarrow> (err + bool) option" where
  "readonly_flag md = (case map_of md ''readonly'' of None \<Rightarrow> None
     | Some (JStr s) \<Rightarrow> Some (case parse_bool s of None \<Rightarrow> Inl (NewError ''strconv.ParseBool: invalid syntax'') | Some b \<Rightarrow> Inr b)
     | Some _ \<Rightarrow> Some (Inl NilDereference))"

definition check_volume_read_only_flag :: "os_servers \<Rightarrow> string \<Rightarrow> err option os" where
  "check_volume_read_only_flag sv i = waiting 30 1 (judged (train_show_volume_details sv i)
     (\<lambda>(v, _). case readonly_flag (ovo_metadata v) of None \<Rightarrow> Pending
        | Some (Inl e) \<Rightarrow> Failed e | Some (Inr True) \<Rightarrow> Finished
        | Some (Inr False) \<Rightarrow> Failed (RemoteServerError ''failed to set volume to read only'')))"

definition check_volume_creation :: "os_servers \<Rightarrow> string \<Rightarrow> err option os" where
  "check_volume_creation sv i = waiting 3600 1 (judged (train_show_volume_details sv i)
     (\<lambda>(v, _). if ovo_status v = ''available'' then Finished else if ovo_status v = ''error''
        then Failed (RemoteServerError ''error occurred during creation of volume'') else Pending))"

definition train_create_volume :: "os_servers \<Rightarrow> os_volume \<Rightarrow> os_volume created os" where
  "train_create_volume sv v = awaited (reads (sv_volume sv) as_volume ''volumev3'' MethodPost (\<lambda>u. u @ ''/volumes'') (Some ''volume 3.59'')
     (Marshalled (encode_volume v)) [(400, Some ClientError), (401, Some ClientError), (403, Some ClientUnAuthorized)])
     (\<lambda>_ v. check_volume_creation sv (ovo_uuid v))"

definition train_updates_volume_read_only :: "os_servers \<Rightarrow> string \<Rightarrow> bool \<Rightarrow> err option os" where
  "train_updates_volume_read_only sv i b = check (sends (sv_volume sv) ''volumev3'' MethodPost (\<lambda>u. u @ ''/volumes/'' @ i @ ''/action'') (Some ''volume 3.59'')
     (Marshalled (encode_readonly_flag b)) [(400, Some ClientError), (401, Some ClientError), (403, Some ClientUnAuthorized)])
     (check_volume_read_only_flag sv i)"

definition train_update_volume_bootable_status :: "os_servers \<Rightarrow> string \<Rightarrow> bool \<Rightarrow> err option os" where
  "train_update_volume_bootable_status sv i b = sends (sv_volume sv) ''volumev3'' MethodPost (\<lambda>u. u @ ''/volumes/'' @ i @ ''/action'') (Some ''volume 3.59'')
     (Marshalled (encode_bootable_status b)) [(400, Some ClientError), (401, Some ClientError), (403, Some ClientUnAuthorized)]"

definition check_volume_deletion :: "os_servers \<Rightarrow> string \<Rightarrow> err option os" where
  "check_volume_deletion sv i = waiting 120 1 (gone (train_show_volume_details sv i)
     (\<lambda>(v, _). if ovo_status v = ''error_deleting''
        then Failed (RemoteServerError ''error occurred during deletion of volume'') else Pending))"

definition train_delete_volume :: "os_servers \<Rightarrow> string \<Rightarrow> bool \<Rightarrow> err option os" where
  "train_delete_volume sv i cascade = check (sends (sv_volume sv) ''volumev3'' MethodDelete (\<lambda>u. u @ ''/volumes/'' @ i @ ''?cascade='' @ show_bool cascade) (Some ''volume 3.59'')
     NoBody [(401, Some ClientError), (403, Some ClientUnAuthorized), (404, None)])
     (check_volume_deletion sv i)"

definition check_volume_unmanaging :: "os_servers \<Rightarrow> string \<Rightarrow> err option os" where
  "check_volume_unmanaging sv i = waiting 120 1 (gone (train_show_volume_details sv i)
     (\<lambda>(v, _). if ovo_status v \<noteq> ''unmanaging''
        then Failed (RemoteServerError ''error occurred during unmanaging of volume'') else Pending))"

definition train_unmanage_volume :: "os_servers \<Rightarrow> string \<Rightarrow> err option os" where
  "train_unmanage_volume sv i = check (sends (sv_volume sv) ''volumev3'' MethodPost (\<lambda>u. u @ ''/volumes/'' @ i @ ''/action'') (Some ''volume 3.59'')
     (Literal ''{\"os-unmanage\":{}}'') [(403, Some ClientUnAuthorized), (404, None)])
     (check_volume_unmanaging sv i)"

definition train_manage_existing_volume :: "os_servers \<Rightarrow> volume_import \<Rightarrow> os_volume created os" where
  "train_manage_existing_volume sv v = awaited (reads (sv_volume sv) as_volume ''volumev3'' MethodPost (\<lambda>u. u @ ''/manageable_volumes'') (Some ''volume 3.59'')
     (Marshalled (encode_volume_import v)) [(400, Some ClientError), (401, Some ClientError), (403, Some ClientUnAuthorized)])
     (\<lambda>_ v. check_volume_creation sv (ovo_uuid v))"

section \<open>Snapshots\<close>

definition train_list_accessible_snapshots :: "os_servers \<Rightarrow> (err + os_snapshot list) os" where
  "train_list_accessible_snapshots sv = value_of (reads (sv_volume sv) as_snapshots ''volumev3'' MethodGet (\<lambda>u. u @ ''/snapshots?all_tenants=true'') None
     NoBody read_refusals)"

definition train_show_volume_snapshot_details :: "os_servers \<Rightarrow> string \<Rightarrow> (err + os_snapshot \<times> string) os" where
  "train_show_volume_snapshot_details sv i = with_raw (reads (sv_volume sv) as_snapshot ''volumev3'' MethodGet (\<lambda>u. u @ ''/snapshots/'' @ i) (Some ''volume 3.59'')
     NoBody show_refusals)"

definition check_volume_snapshot_creation :: "os_servers \<Rightarrow> string \<Rightarrow> err option os" where
  "check_volume_snapshot_creation sv i = waiting 120 1 (judged (train_show_volume_snapshot_details sv i)
     (\<lambda>(v, _). if ovs_status v = ''available'' then Finished else if ovs_status v = ''error''
        then Failed (RemoteServerError ''error occurred during creation of volume snapshot'') else Pending))"

text \<open>Only the answer 202 is waited for.\<close>

definition train_create_volume_snapshot :: "os_servers \<Rightarrow> os_snapshot \<Rightarrow> os_snapshot created os" where
  "train_create_volume_snapshot sv v = awaited (reads (sv_volume sv) as_snapshot ''volumev3'' MethodPost (\<lambda>u. u @ ''/snapshots'') (Some ''volume 3.59'')
     (Marshalled (encode_snapshot v)) [(400, Some ClientError), (401, Some ClientError)])
     (\<lambda>r v. if hp_code r = 202 then check_volume_snapshot_creation sv (ovs_uuid v) else return_nil)"

definition train_manage_existing_volume_snapshot :: "os_servers \<Rightarrow> snapshot_import \<Rightarrow> os_snapshot created os" where
  "train_manage_existing_volume_snapshot sv v = awaited (reads (sv_volume sv) as_snapshot ''volumev3'' MethodPost (\<lambda>u. u @ ''/manageable_snapshots'') (Some ''volume 3.59'')
     (Marshalled (encode_snapshot_import v)) [(400, Some ClientError), (401, Some ClientError), (403, Some ClientUnAuthorized)])
     (\<lambda>_ v. check_volume_snapshot_creation sv (ovs_uuid v))"

definition check_volume_snapshot_deletion :: "os_servers \<Rightarrow> string \<Rightarrow> err option os" where
  "check_volume_snapshot_deletion sv i = waiting 120 1 (gone (train_show_volume_snapshot_details sv i)
     (\<lambda>(v, _). if ovs_status v = ''deleted'' then Finished else if ovs_status v = ''error_deleting''
        then Failed (RemoteServerError ''error occurred during deletion of volume snapshot'') else Pending))"

definition train_delete_volume_snapshot :: "os_servers \<Rightarrow> string \<Rightarrow> err option os" where
  "train_delete_volume_snapshot sv i = check (sends (sv_volume sv) ''volumev3'' MethodDelete (\<lambda>u. u @ ''/snapshots/'' @ i) (Some ''volume 3.59'')
     NoBody [(401, Some ClientError), (403, Some ClientUnAuthorized), (404, None)])
     (check_volume_snapshot_deletion sv i)"

definition check_volume_snapshot_unmanaging :: "os_servers \<Rightarrow> string \<Rightarrow> err option os" where
  "check_volume_snapshot_unmanaging sv i = waiting 120 1 (gone (train_show_volume_snapshot_details sv i)
     (\<lambda>(v, _). if ovs_status v \<noteq> ''unmanaging''
        then Failed (RemoteServerError ''error occurred during unmanaging of volume snapshot'') else Pending))"

definition train_unmanage_volume_snapshot :: "os_servers \<Rightarrow> string \<Rightarrow> err option os" where
  "train_unmanage_volume_snapshot sv i = check (sends (sv_volume sv) ''volumev3'' MethodPost (\<lambda>u. u @ ''/snapshots/'' @ i @ ''/action'') (Some ''volume 3.59'')
     (Literal ''{\"os-unmanage\":{}}'') [(403, Some ClientUnAuthorized), (404, None)])
     (check_volume_snapshot_unmanaging sv i)"

section \<open>Volume groups\<close>

definition train_list_all_volume_groups :: "os_servers \<Rightarrow> (err + (string \<times> string) list) os" where
  "train_list_all_volume_groups sv = value_of (reads (sv_volume sv) as_groups ''volumev3'' MethodGet (\<lambda>u. u @ ''/consistencygroups'') None
     NoBody read_refusals)"

definition train_show_volume_group_details :: "os_servers \<Rightarrow> string \<Rightarrow> bool \<Rightarrow> (err + os_group) os" where
  "train_show_volume_group_details sv i volumes = value_of (reads (sv_volume sv) as_group ''volumev3'' MethodGet (\<lambda>u. u @ ''/groups/'' @ i @ ''?list_volume='' @ show_bool volumes) (Some ''volume 3.59'')
     NoBody [(403, Some ClientUnAuthorized), (404, Some not_found)])"

definition check_volume_group_creation :: "os_servers \<Rightarrow> string \<Rightarrow> err option os" where
  "check_volume_group_creation sv i = waiting 120 1 (judged (train_show_volume_group_details sv i False)
     (\<lambda>v. if ogr_status v = ''available'' then Finished else if ogr_status v = ''error''
        then Failed (RemoteServerError ''error occurred during creation of volume group'') else Pending))"

definition train_create_volume_group :: "os_servers \<Rightarrow> os_group \<Rightarrow> os_group created os" where
  "train_create_volume_group sv g = awaited (reads (sv_volume sv) as_group ''volumev3'' MethodPost (\<lambda>u. u @ ''/groups'') (Some ''volume 3.59'')
     (Marshalled (encode_group g)) [(400, Some ClientError), (403, Some ClientUnAuthorized), (404, Some not_found)])
     (\<lambda>_ g. check_volume_group_creation sv (ogr_id g))"

definition check_volume_group_deletion :: "os_servers \<Rightarrow> string \<Rightarrow> err option os" where
  "check_volume_group_deletion sv i = waiting 3600 3 (gone (train_show_volume_group_details sv i False)
     (\<lambda>v. if ogr_status v = ''error_deleting''
        then Failed (RemoteServerError ''error occurred during deletion of volume group'') else Pending))"

definition train_delete_volume_group :: "os_servers \<Rightarrow> string \<Rightarrow> bool \<Rightarrow> err option os" where
  "train_delete_volume_group sv i volumes = check (sends (sv_volume sv) ''volumev3'' MethodPost (\<lambda>u. u @ ''/groups/'' @ i @ ''/action'') (Some ''volume 3.59'')
     (Marshalled (encode_group_deletion volumes)) [(400, Some ClientError), (403, Some ClientUnAuthorized), (404, None)])
     (check_volume_group_deletion sv i)"

definition check_volume_group_update :: "os_servers \<Rightarrow> string \<Rightarrow> err option os" where
  "check_volume_group_update sv i = waiting 120 1 (judged (train_show_volume_group_details sv i False)
     (\<lambda>v. if ogr_status v = ''available'' then Finished else if ogr_status v = ''error''
        then Failed (RemoteServerError ''error occurred during update of volume group'') else Pending))"

definition train_update_volume_group :: "os_servers \<Rightarrow> string \<Rightarrow> group_update \<Rightarrow> err option os" where
  "train_update_volume_group sv i g = check (sends (sv_volume sv) ''volumev3'' MethodPut (\<lambda>u. u @ ''/groups/'' @ i) (Some ''volume 3.59'')
     (Marshalled (encode_group_update g)) [(400, Some ClientError), (403, Some ClientUnAuthorized), (404, Some not_found)])
     (check_volume_group_update sv i)"

section \<open>Group snapshots and group types\<close>

definition train_list_volume_group_snapshots_with_details :: "os_servers \<Rightarrow> (err + os_group_snapshot list) os" where
  "train_list_volume_group_snapshots_with_details sv = value_of (reads (sv_volume sv) as_group_snapshots ''volumev3'' MethodGet (\<lambda>u. u @ ''/group_snapshots/detail?all_tenants=true'') (Some ''volume 3.59'')
     NoBody [(400, Some ClientError), (403, Some ClientUnAuthorized)])"

definition train_show_volume_group_snapshot_details :: "os_servers \<Rightarrow> string \<Rightarrow> (err + os_group_snapshot) os" where
  "train_show_volume_group_snapshot_details sv i = value_of (reads (sv_volume sv) as_group_snapshot ''volumev3'' MethodGet (\<lambda>u. u @ ''/group_snapshots/'' @ i) (Some ''volume 3.59'')
     NoBody [(400, Some ClientError), (403, Some ClientUnAuthorized), (404, Some not_found)])"

definition check_volume_group_snapshot_deletion :: "os_servers \<Rightarrow> string \<Rightarrow> err option os" where
  "check_volume_group_snapshot_deletion sv i = waiting 120 1 (gone (train_show_volume_group_snapshot_details sv i)
     (\<lambda>v. if ogs_status v = ''error_deleting''
        then Failed (RemoteServerError ''error occurred during deletion of volume group snapshot'') else Pending))"

definition train_delete_volume_group_snapshot :: "os_servers \<Rightarrow> string \<Rightarrow> err option os" where
  "train_delete_volume_group_snapshot sv i = check (sends (sv_volume sv) ''volumev3'' MethodDelete (\<lambda>u. u @ ''/group_snapshots/'' @ i) (Some ''volume 3.59'')
     NoBody [(400, Some ClientError), (403, Some ClientUnAuthorized), (404, None)])
     (check_volume_group_snapshot_deletion sv i)"

definition check_volume_group_snapshot_creation :: "os_servers \<Rightarrow> string \<Rightarrow> err option os" where
  "check_volume_group_snapshot_creation sv i = waiting 3600 3 (judged (train_show_volume_group_snapshot_details sv i)
     (\<lambda>v. if ogs_status v = ''available'' then Finished else if ogs_status v = ''error''
        then Failed (RemoteServerError ''error occurred during creation of volume group snapshot'') else Pending))"

definition train_create_volume_group_snapshot :: "os_servers \<Rightarrow> os_group_snapshot \<Rightarrow> os_group_snapshot created os" where
  "train_create_volume_group_snapshot sv g = awaited (reads (sv_volume sv) as_group_snapshot ''volumev3'' MethodPost (\<lambda>u. u @ ''/group_snapshots'') (Some ''volume 3.59'')
     (Marshalled (encode_group_snapshot g)) [(400, Some ClientError), (403, Some ClientUnAuthorized), (404, Some not_found)])
     (\<lambda>_ g. check_volume_group_snapshot_creation sv (ogs_id g))"

definition train_create_volume_group_type :: "os_servers \<Rightarrow> os_group_type \<Rightarrow> (err + os_group_type) os" where
  "train_create_volume_group_type sv g = value_of (reads (sv_volume sv) as_group_type ''volumev3'' MethodPost (\<lambda>u. u @ ''/group_types'') (Some ''volume 3.59'')
     (Marshalled (encode_group_type g)) [(400, Some ClientError), (403, Some ClientUnAuthorized), (404, Some not_found), (409, Some ClientConflict)])"

definition train_delete_volume_group_type :: "os_servers \<Rightarrow> string \<Rightarrow> err option os" where
  "train_delete_volume_group_type sv i = sends (sv_volume sv) ''volumev3'' MethodDelete (\<lambda>u. u @ ''/group_types/'' @ i) (Some ''volume 3.59'')
     NoBody [(400, Some ClientError), (403, Some ClientUnAuthorized), (404, None)]"

definition train_list_volume_group_types :: "os_servers \<Rightarrow> (err + os_group_type list) os" where
  "train_list_volume_group_types sv = value_of (reads (sv_volume sv) as_group_types ''volumev3'' MethodGet (\<lambda>u. u @ ''/group_types'') (Some ''volume 3.59'')
     NoBody [(403, Some ClientUnAuthorized)])"

definition train_show_volume_group_type_details :: "os_servers \<Rightarrow> string \<Rightarrow> (err + os_group_type) os" where
  "train_show_volume_group_type_details sv i = value_of (reads (sv_volume sv) as_group_type ''volumev3'' MethodGet (\<lambda>u. u @ ''/group_types/'' @ i) (Some ''volume 3.59'')
     NoBody [(403, Some ClientUnAuthorized), (404, Some not_found)])"

section \<open>Quotas\<close>

definition train_update_storage_quotas :: "os_servers \<Rightarrow> string \<Rightarrow> (string \<times> int) list \<Rightarrow> (err + (string \<times> int) list) os" where
  "train_update_storage_quotas sv i q = value_of (reads (sv_volume sv) as_storage_quota_update ''volumev3'' MethodPut (\<lambda>u. u @ ''/os-quota-sets/'' @ i) None
     (Marshalled (encode_quotas ''quota_set'' q)) [])"

definition train_show_storage_quota :: "os_servers \<Rightarrow> string \<Rightarrow> (err + (string \<times> int) list) os" where
  "train_show_storage_quota sv i = given (value_of (reads (sv_volume sv) as_storage_quotas ''volumev3'' MethodGet (\<lambda>u. u @ ''/os-quota-sets/'' @ i) None
     NoBody read_refusals))
     (\<lambda>dat. State_Monad.return (quotas_of ''quota_set'' True dat))"

end
