(* ===== verification/TrainCompute.thy ===== *)
theory TrainCompute
  imports TrainConnection
begin

text \<open>
  The requests to the compute service (\<open>client/openstack/train/compute_*.go\<close>), with the loops that wait for
  instances, flavours and keypairs.
\<close>

section \<open>Answers\<close>

definition as_zones :: "compute_reply \<Rightarrow> os_zone list option" where
  "as_zones a = (case a of ReZones x \<Rightarrow> Some x | _ \<Rightarrow> None)"

definition as_hypervisor :: "compute_reply \<Rightarrow> os_hypervisor option" where
  "as_hypervisor a = (case a of ReHypervisor x \<Rightarrow> Some x | _ \<Rightarrow> None)"

definition as_hypervisors :: "compute_reply \<Rightarrow> os_hypervisor list option" where
  "as_hypervisors a = (case a of ReHypervisors x \<Rightarrow> Some x | _ \<Rightarrow> None)"

definition as_compute_services :: "compute_reply \<Rightarrow> compute_service list option" where
  "as_compute_services a = (case a of ReComputeServices x \<Rightarrow> Some x | _ \<Rightarrow> None)"

definition as_server :: "compute_reply \<Rightarrow> os_server option" where
  "as_server a = (case a of ReServer x \<Rightarrow> Some x | _ \<Rightarrow> None)"

definition as_servers :: "compute_reply \<Rightarrow> os_server list option" where
  "as_servers a = (case a of ReServers x \<Rightarrow> Some x | _ \<Rightarrow> None)"

definition as_server_created :: "compute_reply \<Rightarrow> string option" where
  "as_server_created a = (case a of ReServerCreated x \<Rightarrow> Some x | _ \<Rightarrow> None)"

definition as_server_groups :: "compute_reply \<Rightarrow> string list option" where
  "as_server_groups a = (case a of ReServerGroups x \<Rightarrow> Some x | _ \<Rightarrow> None)"

definition as_flavor :: "compute_reply \<Rightarrow> os_flavor option" where
  "as_flavor a = (case a of ReFlavor x \<Rightarrow> Some x | _ \<Rightarrow> None)"

definition as_flavors :: "compute_reply \<Rightarrow> os_flavor list option" where
  "as_flavors a = (case a of ReFlavors x \<Rightarrow> Some x | _ \<Rightarrow> None)"

definition as_volume_attachment :: "compute_reply \<Rightarrow> (string \<times> string) option" where
  "as_volume_attachment a = (case a of ReVolumeAttachment x \<Rightarrow> Some x | _ \<Rightarrow> None)"

definition as_port_interfaces :: "compute_reply \<Rightarrow> port_interface list option" where
  "as_port_interfaces a = (case a of RePortInterfaces x \<Rightarrow> Some x | _ \<Rightarrow> None)"

definition as_extra_spec :: "compute_reply \<Rightarrow> (string \<times> string) list option" where
  "as_extra_spec a = (case a of ReExtraSpec x \<Rightarrow> Some x | _ \<Rightarrow> None)"

definition as_extra_specs_created :: "compute_reply \<Rightarrow> (string \<times> string) list option" where
  "as_extra_specs_created a = (case a of ReExtraSpecsCreated x \<Rightarrow> Some x | _ \<Rightarrow> None)"

definition as_keypair :: "compute_reply \<Rightarrow> os_keypair option" where
  "as_keypair a = (case a of ReKeypair x \<Rightarrow> Some x | _ \<Rightarrow> None)"

definition as_keypairs :: "compute_reply \<Rightarrow> os_keypair list option" where
  "as_keypairs a = (case a of ReKeypairs x \<Rightarrow> Some x | _ \<Rightarrow> None)"

definition as_compute_quota_update :: "compute_reply \<Rightarrow> (string \<times> int) list option" where
  "as_compute_quota_update a = (case a of ReComputeQuotaUpdate x \<Rightarrow> Some x | _ \<Rightarrow> None)"

definition as_compute_quotas :: "compute_reply \<Rightarrow> (string \<times> json) list option" where
  "as_compute_quotas a = (case a of ReComputeQuotas x \<Rightarrow> Some x | _ \<Rightarrow> None)"

section \<open>Zones, hypervisors and services\<close>

definition train_get_availability_zone_information :: "os_servers \<Rightarrow> (err + os_zone list) os" where
  "train_get_availability_zone_information sv = value_of (reads (sv_compute sv) as_zones ''compute'' MethodGet (\<lambda>u. u @ ''/os-availability-zone'') (Some ''compute 2.79'')
     NoBody read_refusals)"

definition train_list_hypervisors :: "os_servers \<Rightarrow> (err + os_hypervisor list) os" where
  "train_list_hypervisors sv = value_of (reads (sv_compute sv) as_hypervisors ''compute'' MethodGet (\<lambda>u. u @ ''/os-hypervisors?with_servers=true'') (Some ''compute 2.79'')
     NoBody read_refusals)"

definition train_show_hypervisor_details :: "os_servers \<Rightarrow> string \<Rightarrow> (err + os_hypervisor \<times> string) os" where
  "train_show_hypervisor_details sv i = with_raw (reads (sv_compute sv) as_hypervisor ''compute'' MethodGet (\<lambda>u. u @ ''/os-hypervisors/'' @ i) (Some ''compute 2.79'')
     NoBody read_refusals)"

text \<open>No service at all is an error with the answer as its cause.\<close>

definition train_list_compute_services :: "os_servers \<Rightarrow> string \<Rightarrow> string \<Rightarrow> (err + compute_service list) os" where
  "train_list_compute_services sv binary host = given (reads (sv_compute sv) as_compute_services ''compute'' MethodGet (\<lambda>u. u @ ''/os-services?binary='' @ binary @ ''&host='' @ host) (Some ''compute 2.79'')
     NoBody read_refusals)
     (\<lambda>(r, cs). if cs = [] then failed_with (ClientError (hp_text r)) else succeed cs)"

definition train_list_all_compute_services :: "os_servers \<Rightarrow> (err + compute_service list) os" where
  "train_list_all_compute_services sv = value_of (reads (sv_compute sv) as_compute_services ''compute'' MethodGet (\<lambda>u. u @ ''/os-services'') (Some ''compute 2.53'')
     NoBody read_refusals)"

section \<open>Instances\<close>

definition train_list_servers :: "os_servers \<Rightarrow> (err + os_server list) os" where
  "train_list_servers sv = value_of (reads (sv_compute sv) as_servers ''compute'' MethodGet (\<lambda>u. u @ ''/servers?all_tenants=true'') (Some ''compute 2.79'')
     NoBody read_refusals)"

definition train_show_server_details :: "os_servers \<Rightarrow> string \<Rightarrow> (err + os_server \<times> string) os" where
  "train_show_server_details sv i = with_raw (reads (sv_compute sv) as_server ''compute'' MethodGet (\<lambda>u. u @ ''/servers/'' @ i) (Some ''compute 2.79'')
     NoBody show_refusals)"

definition train_list_security_groups_by_server :: "os_servers \<Rightarrow> string \<Rightarrow> (err + string list) os" where
  "train_list_security_groups_by_server sv i = value_of (reads (sv_compute sv) as_server_groups ''compute'' MethodGet (\<lambda>u. u @ ''/servers/'' @ i @ ''/os-security-groups'') (Some ''compute 2.79'')
     NoBody show_refusals)"

definition train_show_detail_volume_attachment :: "os_servers \<Rightarrow> string \<Rightarrow> string \<Rightarrow> (err + string \<times> string) os" where
  "train_show_detail_volume_attachment sv i volume = value_of (reads (sv_compute sv) as_volume_attachment ''compute'' MethodGet (\<lambda>u. u @ ''/servers/'' @ i @ ''/os-volume_attachments/'' @ volume) (Some ''compute 2.79'')
     NoBody show_refusals)"

definition train_list_port_interfaces :: "os_servers \<Rightarrow> string \<Rightarrow> (err + port_interface list) os" where
  "train_list_port_interfaces sv i = value_of (reads (sv_compute sv) as_port_interfaces ''compute'' MethodGet (\<lambda>u. u @ ''/servers/'' @ i @ ''/os-interface'') (Some ''compute 2.79'')
     NoBody show_refusals)"

definition check_instance_creation :: "os_servers \<Rightarrow> string \<Rightarrow> err option os" where
  "check_instance_creation sv i = waiting 3600 1 (judged (train_show_server_details sv i)
     (\<lambda>(v, _). if osr_status v = ''ACTIVE'' then Finished else if osr_status v = ''ERROR''
        then Failed (RemoteServerError ''error occurred during creation of instance'') else Pending))"

definition train_create_server :: "os_servers \<Rightarrow> server_creation \<Rightarrow> string created os" where
  "train_create_server sv s = awaited (reads (sv_compute sv) as_server_created ''compute'' MethodPost (\<lambda>u. u @ ''/servers'') (Some ''compute 2.79'')
     (Marshalled (encode_server_creation s)) [(400, Some ClientError), (401, Some ClientError), (403, Some ClientUnAuthorized), (404, Some not_found), (409, Some ClientConflict)])
     (\<lambda>_ i. check_instance_creation sv i)"

definition check_add_security_group_to_server :: "os_servers \<Rightarrow> string \<Rightarrow> string \<Rightarrow> err option os" where
  "check_add_security_group_to_server sv i g = waiting 30 1 (judged (train_show_server_details sv i)
     (\<lambda>(v, _). if g \<in> set (osr_security_groups v) then Finished else Pending))"

definition train_add_security_group_to_server :: "os_servers \<Rightarrow> string \<Rightarrow> string \<Rightarrow> err option os" where
  "train_add_security_group_to_server sv i g = check (sends (sv_compute sv) ''compute'' MethodPost (\<lambda>u. u @ ''/servers/'' @ i @ ''/action'') (Some ''compute 2.79'')
     (Marshalled (encode_group_action ''addSecurityGroup'' g)) [(400, Some ClientError), (401, Some ClientError), (403, Some ClientUnAuthorized), (404, Some not_found), (409, Some ClientConflict)])
     (check_add_security_group_to_server sv i g)"

definition check_instance_deletion :: "os_servers \<Rightarrow> string \<Rightarrow> err option os" where
  "check_instance_deletion sv i = waiting 120 1 (gone (train_show_server_details sv i)
     (\<lambda>(v, _). if osr_status v = ''DELETED'' then Finished else if osr_status v = ''SOFT_DELETED''
        then Failed (RemoteServerError ''instance was not completely deleted'') else Pending))"

definition train_delete_server :: "os_servers \<Rightarrow> string \<Rightarrow> err option os" where
  "train_delete_server sv i = check (sends (sv_compute sv) ''compute'' MethodDelete (\<lambda>u. u @ ''/servers/'' @ i) (Some ''compute 2.79'')
     NoBody [(401, Some ClientError), (403, Some ClientUnAuthorized), (404, None), (409, Some ClientConflict)])
     (check_instance_deletion sv i)"

definition check_instance_force_deletion :: "os_servers \<Rightarrow> string \<Rightarrow> err option os" where
  "check_instance_force_deletion sv i = waiting 120 1 (gone (train_show_server_details sv i)
     (\<lambda>(v, _). if osr_status v = ''DELETED'' then Finished else Pending))"

definition train_force_delete_server :: "os_servers \<Rightarrow> string \<Rightarrow> err option os" where
  "train_force_delete_server sv i = check (sends (sv_compute sv) ''compute'' MethodPost (\<lambda>u. u @ ''/servers/'' @ i @ ''/action'') (Some ''compute 2.79'')
     (Literal ''{ \"forceDelete\": null }'') [(401, Some ClientError), (403, Some ClientUnAuthorized), (404, None), (409, Some ClientConflict)])
     (check_instance_force_deletion sv i)"

definition check_instance_started :: "os_servers \<Rightarrow> string \<Rightarrow> err option os" where
  "check_instance_started sv i = waiting 120 1 (judged (train_show_server_details sv i)
     (\<lambda>(v, _). if osr_status v = ''ACTIVE'' then Finished else if osr_status v = ''ERROR''
        then Failed (RemoteServerError ''error occurred during start of instance'') else Pending))"

definition train_start_server :: "os_servers \<Rightarrow> string \<Rightarrow> err option os" where
  "train_start_server sv i = check (sends (sv_compute sv) ''compute'' MethodPost (\<lambda>u. u @ ''/servers/'' @ i @ ''/action'') (Some ''compute 2.79'')
     (Literal ''{ \"os-start\": null }'') [(401, Some ClientError), (403, Some ClientUnAuthorized), (404, Some not_found), (409, Some ClientConflict)])
     (check_instance_started sv i)"

definition check_instance_stopped :: "os_servers \<Rightarrow> string \<Rightarrow> err option os" where
  "check_instance_stopped sv i = waiting 120 1 (judged (train_show_server_details sv i)
     (\<lambda>(v, _). if osr_status v = ''SHUTOFF'' then Finished else Pending))"

definition train_stop_server :: "os_servers \<Rightarrow> string \<Rightarrow> err option os" where
  "train_stop_server sv i = check (sends (sv_compute sv) ''compute'' MethodPost (\<lambda>u. u @ ''/servers/'' @ i @ ''/action'') (Some ''compute 2.79'')
     (Literal ''{ \"os-stop\": null }'') [(401, Some ClientError), (403, Some ClientUnAuthorized), (404, Some not_found), (409, Some ClientConflict)])
     (check_instance_stopped sv i)"

definition check_remove_security_group_to_server :: "os_servers \<Rightarrow> string \<Rightarrow> string \<Rightarrow> err option os" where
  "check_remove_security_group_to_server sv i g = waiting 30 1 (judged (train_show_server_details sv i)
     (\<lambda>(v, _). if g \<in> set (osr_security_groups v) then Pending else Finished))"

definition train_remove_security_group_to_server :: "os_servers \<Rightarrow> string \<Rightarrow> string \<Rightarrow> err option os" where
  "train_remove_security_group_to_server sv i g = check (sends (sv_compute sv) ''compute'' MethodPost (\<lambda>u. u @ ''/servers/'' @ i @ ''/action'') (Some ''compute 2.79'')
     (Marshalled (encode_group_action ''removeSecurityGroup'' g)) [(400, Some ClientError), (401, Some ClientError), (403, Some ClientUnAuthorized), (404, Some not_found), (409, Some ClientConflict)])
     (check_remove_security_group_to_server sv i g)"

section \<open>Flavours\<close>

definition train_list_flavors :: "os_servers \<Rightarrow> (err + os_flavor list) os" where
  "train_list_flavors sv = value_of (reads (sv_compute sv) as_flavors ''compute'' MethodGet (\<lambda>u. u @ ''/flavors'') (Some ''compute 2.79'')
     NoBody read_refusals)"

definition train_show_flavor_details :: "os_servers \<Rightarrow> string \<Rightarrow> (err + os_flavor \<times> string) os" where
  "train_show_flavor_details sv i = with_raw (reads (sv_compute sv) as_flavor ''compute'' MethodGet (\<lambda>u. u @ ''/flavors/'' @ i) (Some ''compute 2.79'')
     NoBody show_refusals)"

definition train_create_flavor :: "os_servers \<Rightarrow> os_flavor \<Rightarrow> (err + os_flavor) os" where
  "train_create_flavor sv f = value_of (reads (sv_compute sv) as_flavor ''compute'' MethodPost (\<lambda>u. u @ ''/flavors'') (Some ''compute 2.79'')
     (Marshalled (encode_flavor f)) [(400, Some ClientError), (401, Some ClientError), (403, Some ClientUnAuthorized), (409, Some ClientConflict)])"

definition check_flavor_deletion :: "os_servers \<Rightarrow> string \<Rightarrow> err option os" where
  "check_flavor_deletion sv i = waiting 120 1 (gone (train_show_flavor_details sv i)
     (\<lambda>_. Pending))"

definition train_delete_flavor :: "os_servers \<Rightarrow> string \<Rightarrow> err option os" where
  "train_delete_flavor sv i = check (sends (sv_compute sv) ''compute'' MethodDelete (\<lambda>u. u @ ''/flavors/'' @ i) (Some ''compute 2.79'')
     NoBody [(401, Some ClientError), (403, Some ClientUnAuthorized), (404, None)])
     (check_flavor_deletion sv i)"

text \<open>The answer is an object with one field; of several the code keeps any one, the model the last.\<close>

definition train_show_flavor_extra_spec :: "os_servers \<Rightarrow> string \<Rightarrow> string \<Rightarrow> (err + string \<times> string) os" where
  "train_show_flavor_extra_spec sv i key = given (value_of (reads (sv_compute sv) as_extra_spec ''compute'' MethodGet (\<lambda>u. u @ ''/flavors/'' @ i @ ''/os-extra_specs/'' @ key) (Some ''compute 2.79'')
     NoBody show_refusals))
     (\<lambda>m. succeed (if m = [] then ([], []) else last m))"

definition train_create_extra_specs_for_flavor :: "os_servers \<Rightarrow> string \<Rightarrow> (string \<times> string) list \<Rightarrow> (err + (string \<times> string) list) os" where
  "train_create_extra_specs_for_flavor sv i m = value_of (reads (sv_compute sv) as_extra_specs_created ''compute'' MethodPost (\<lambda>u. u @ ''/flavors/'' @ i @ ''/os-extra_specs'') (Some ''compute 2.79'')
     (Marshalled (encode_extra_specs m)) [(401, Some ClientError), (403, Some ClientUnAuthorized), (404, Some not_found), (409, Some ClientConflict)])"

section \<open>Keypairs\<close>

definition train_list_keypairs :: "os_servers \<Rightarrow> (err + os_keypair list) os" where
  "train_list_keypairs sv = value_of (reads (sv_compute sv) as_keypairs ''compute'' MethodGet (\<lambda>u. u @ ''/os-keypairs'') (Some ''compute 2.79'')
     NoBody read_refusals)"

definition train_show_keypair_details :: "os_servers \<Rightarrow> string \<Rightarrow> (err + os_keypair) os" where
  "train_show_keypair_details sv i = value_of (reads (sv_compute sv) as_keypair ''compute'' MethodGet (\<lambda>u. u @ ''/os-keypairs/'' @ i) (Some ''compute 2.79'')
     NoBody show_refusals)"

definition train_import_or_create_keypair :: "os_servers \<Rightarrow> os_keypair \<Rightarrow> (err + os_keypair) os" where
  "train_import_or_create_keypair sv k = value_of (reads (sv_compute sv) as_keypair ''compute'' MethodPost (\<lambda>u. u @ ''/os-keypairs'') (Some ''compute 2.79'')
     (Marshalled (encode_keypair k)) [(400, Some ClientError), (401, Some UnAuthenticated), (403, Some ClientUnAuthorized), (409, Some ClientConflict)])"

definition check_keypair_deletion :: "os_servers \<Rightarrow> string \<Rightarrow> err option os" where
  "check_keypair_deletion sv i = waiting 120 1 (gone (train_show_keypair_details sv i)
     (\<lambda>_. Pending))"

definition train_delete_keypair :: "os_servers \<Rightarrow> string \<Rightarrow> err option os" where
  "train_delete_keypair sv i = check (sends (sv_compute sv) ''compute'' MethodDelete (\<lambda>u. u @ ''/os-keypairs/'' @ i) (Some ''compute 2.79'')
     NoBody [(401, Some ClientError), (403, Some ClientUnAuthorized), (404, None)])
     (check_keypair_deletion sv i)"

section \<open>Quotas\<close>

definition train_update_compute_quotas :: "os_servers \<Rightarrow> string \<Rightarrow> (string \<times> int) list \<Rightarrow> (err + (string \<times> int) list) os" where
  "train_update_compute_quotas sv i q = value_of (reads (sv_compute sv) as_compute_quota_update ''compute'' MethodPut (\<lambda>u. u @ ''/os-quota-sets/'' @ i) None
     (Marshalled (encode_quotas ''quota_set'' q)) [(400, Some ClientError), (401, Some ClientError), (403, Some ClientError)])"

definition train_show_compute_quota :: "os_servers \<Rightarrow> string \<Rightarrow> (err + (string \<times> int) list) os" where
  "train_show_compute_quota sv i = given (value_of (reads (sv_compute sv) as_compute_quotas ''compute'' MethodGet (\<lambda>u. u @ ''/os-quota-sets/'' @ i) (Some ''compute 2.79'')
     NoBody read_refusals))
     (\<lambda>dat. State_Monad.return (quotas_of ''quota_set'' True dat))"

end
