(* ===== verification/OpenstackReads.thy ===== *)
theory OpenstackReads
  imports TrainIdentity TrainVolume TrainCompute "HOL-Library.Word"
begin

text \<open>
  The client of OpenStack, reading (\<open>client/openstack/openstack.go\<close>): each query puts together the answers of
  one or more requests and copies them into the rows of the service. Counters of bytes are 64 bits wide: the
  sizes OpenStack gives in mebi- and gibibytes wrap around.
\<close>

section \<open>Sizes\<close>

definition uint64 :: "nat \<Rightarrow> 64 word" where
  "uint64 = word_of_nat"

definition mib_bytes :: "nat \<Rightarrow> nat" where
  "mib_bytes n = unat (uint64 n * 1024 * 1024)"

definition gib_bytes :: "nat \<Rightarrow> nat" where
  "gib_bytes n = unat (uint64 n * 1024 * 1024 * 1024)"

definition up_down :: "bool \<Rightarrow> string" where
  "up_down b = (if b then ''up'' else ''down'')"

section \<open>Zones and hypervisors\<close>

definition openstack_get_availability_zone_list :: "os_servers \<Rightarrow> (err + cluster_availability_zone list) os" where
  "openstack_get_availability_zone_list sv = given (train_get_availability_zone_information sv) (\<lambda>zs.
     succeed (map (\<lambda>z. \<lparr>az_id = 0, az_cluster_id = 0, az_name = oz_name z, az_available = oz_available z,
       az_raw = Some (oz_raw z)\<rparr>) zs))"

definition named_zone :: "string \<Rightarrow> cluster_availability_zone" where
  "named_zone n = \<lparr>az_id = 0, az_cluster_id = 0, az_name = n, az_available = False, az_raw = None\<rparr>"

definition named_hypervisor :: "string \<Rightarrow> cluster_hypervisor" where
  "named_hypervisor u = \<lparr>hv_id = 0, hv_cluster_id = 0, hv_cluster_availability_zone_id = 0, hv_uuid = u, hv_type_code = [],
     hv_hostname = [], hv_ip_address = [], hv_vcpu_total_cnt = 0, hv_vcpu_used_cnt = 0, hv_mem_total_bytes = 0,
     hv_mem_used_bytes = 0, hv_disk_total_bytes = 0, hv_disk_used_bytes = 0, hv_state = [], hv_status = [],
     hv_ssh_port = None, hv_ssh_account = None, hv_ssh_password = None, hv_agent_port = None, hv_agent_version = None,
     hv_agent_installed_at = None, hv_agent_last_upgraded_at = None, hv_raw = None\<rparr>"

definition openstack_get_hypervisor_list :: "os_servers \<Rightarrow> (err + get_hypervisor_result list) os" where
  "openstack_get_hypervisor_list sv = given (train_list_hypervisors sv) (\<lambda>hs.
     succeed (map (\<lambda>h. \<lparr>ghr_hypervisor = named_hypervisor (ohv_uuid h), ghr_availability_zone = named_zone []\<rparr>) hs))"

text \<open>No service at all is already an error of the request, so there is a first one.\<close>

definition openstack_get_hypervisor :: "os_servers \<Rightarrow> string \<Rightarrow> (err + get_hypervisor_result) os" where
  "openstack_get_hypervisor sv u = given (train_show_hypervisor_details sv u) (\<lambda>(h, raw).
     given (train_list_compute_services sv ''nova-compute'' (ohv_service_host h)) (\<lambda>cs.
       succeed \<lparr>ghr_hypervisor = (named_hypervisor (ohv_uuid h))\<lparr>hv_type_code := ohv_type_code h, hv_hostname := ohv_hostname h,
           hv_ip_address := ohv_ip_address h, hv_vcpu_total_cnt := ohv_vcpu_total_cnt h, hv_vcpu_used_cnt := ohv_vcpu_used_cnt h,
           hv_mem_total_bytes := mib_bytes (ohv_mem_total_mib h), hv_mem_used_bytes := mib_bytes (ohv_mem_used_mib h),
           hv_disk_total_bytes := gib_bytes (ohv_disk_total_gib h), hv_disk_used_bytes := gib_bytes (ohv_disk_used_gib h),
           hv_state := ohv_state h, hv_status := ohv_status h, hv_raw := Some raw\<rparr>,
         ghr_availability_zone = named_zone (co_zone_name (hd cs))\<rparr>))"

section \<open>Tenants\<close>

definition openstack_get_tenant_list :: "os_servers \<Rightarrow> (err + get_tenant_result list) os" where
  "openstack_get_tenant_list sv = given (train_list_projects sv) (\<lambda>ps.
     succeed (map (\<lambda>p. \<lparr>gtr_tenant = named_tenant (pj_uuid p), gtr_quota_list = []\<rparr>) ps))"

text \<open>The quotas have the names of the servers.\<close>

definition openstack_get_tenant :: "os_servers \<Rightarrow> string \<Rightarrow> (err + get_tenant_result) os" where
  "openstack_get_tenant sv u = given (train_show_project_details sv u) (\<lambda>(p, raw).
     given (train_show_compute_quota sv u) (\<lambda>cq. given (train_show_network_quota sv u) (\<lambda>nq.
       given (train_show_storage_quota sv u) (\<lambda>sq.
         succeed \<lparr>gtr_tenant = (named_tenant (pj_uuid p))\<lparr>tn_name := pj_name p, tn_description := pj_description p,
             tn_enabled := pj_enabled p, tn_raw := Some raw\<rparr>,
           gtr_quota_list = map quota_row (cq @ nq @ sq)\<rparr>))))"

section \<open>Networks\<close>

definition openstack_get_network_list :: "os_servers \<Rightarrow> (err + get_network_result list) os" where
  "openstack_get_network_list sv = given (train_list_networks sv) (\<lambda>ns.
     succeed (map (\<lambda>n. \<lparr>gnr_network = named_network (onw_uuid n), gnr_tenant = named_tenant [], gnr_subnet_list = [],
       gnr_floating_ip_list = []\<rparr>) ns))"

definition openstack_get_network :: "os_servers \<Rightarrow> string \<Rightarrow> (err + get_network_result) os" where
  "openstack_get_network sv u = given (train_show_network_details sv u) (\<lambda>(n, raw).
     given (train_list_floating_ips sv u) (\<lambda>fs.
       succeed \<lparr>gnr_network = (named_network (onw_uuid n))\<lparr>nw_name := onw_name n, nw_description := onw_description n,
           nw_type_code := onw_type n, nw_external_flag := onw_external n, nw_state := up_down (onw_admin_state_up n),
           nw_status := onw_status n, nw_raw := Some raw\<rparr>,
         gnr_tenant = named_tenant (onw_project_id n), gnr_subnet_list = map named_subnet (onw_subnets n),
         gnr_floating_ip_list = map (\<lambda>f. named_floating_ip (ofi_uuid f)) fs\<rparr>))"

definition pool_row :: "string \<times> string \<Rightarrow> cluster_subnet_dhcp_pool" where
  "pool_row p = \<lparr>dp_id = 0, dp_cluster_subnet_id = 0, dp_start_ip_address = fst p, dp_end_ip_address = snd p\<rparr>"

definition subnet_of :: "os_subnet \<Rightarrow> string \<Rightarrow> cluster_subnet" where
  "subnet_of n raw = (named_subnet (osn_uuid n))\<lparr>sn_name := osn_name n, sn_description := osn_description n,
     sn_network_cidr := osn_cidr n, sn_dhcp_enabled := osn_enable_dhcp n, sn_gateway_enabled := osn_gateway_ip n \<noteq> None,
     sn_gateway_ip_address := osn_gateway_ip n, sn_ipv6_address_mode_code := osn_ipv6_address_mode n,
     sn_ipv6_ra_mode_code := osn_ipv6_ra_mode n, sn_raw := Some raw\<rparr>"

definition openstack_get_subnet :: "os_servers \<Rightarrow> string \<Rightarrow> (err + get_subnet_result) os" where
  "openstack_get_subnet sv u = given (train_show_subnet_details sv u) (\<lambda>(n, raw).
     succeed \<lparr>gsn_subnet = subnet_of n raw, gsn_network = named_network (osn_network_uuid n),
       gsn_nameserver_list = map nameserver_row (osn_nameservers n), gsn_pool_list = map pool_row (osn_pools n)\<rparr>)"

definition floating_ip_of :: "os_floating_ip \<Rightarrow> string \<Rightarrow> cluster_floating_ip" where
  "floating_ip_of f raw = (named_floating_ip (ofi_uuid f))\<lparr>fip_description := ofi_description f,
     fip_ip_address := ofi_ip_address f, fip_status := ofi_status f, fip_raw := Some raw\<rparr>"

definition openstack_get_floating_ip :: "os_servers \<Rightarrow> string \<Rightarrow> (err + get_floating_ip_result) os" where
  "openstack_get_floating_ip sv u = given (train_show_floating_ip_details sv u) (\<lambda>(f, raw).
     succeed \<lparr>gfr_tenant = named_tenant (ofi_project_id f), gfr_floating_ip = floating_ip_of f raw,
       gfr_network = named_network (ofi_network_id f)\<rparr>)"

definition zero_router :: cluster_router where
  "zero_router = router_row None"

definition openstack_get_router_list :: "os_servers \<Rightarrow> (err + get_router_result list) os" where
  "openstack_get_router_list sv = given (train_list_routers sv) (\<lambda>rs.
     succeed (map (\<lambda>r. \<lparr>grr_router = zero_router\<lparr>rt_uuid := ro_uuid r\<rparr>, grr_tenant = named_tenant [], grr_extra_route = [],
       grr_external_routing_interface_list = [], grr_internal_routing_interface_list = []\<rparr>) rs))"

definition router_of :: "os_router \<Rightarrow> string \<Rightarrow> cluster_router" where
  "router_of r raw = zero_router\<lparr>rt_uuid := ro_uuid r, rt_name := ro_name r, rt_description := ro_description r,
     rt_state := up_down (ro_state r), rt_status := ro_status r, rt_raw := Some raw\<rparr>"

definition extra_route_of :: "extra_route \<Rightarrow> cluster_router_extra_route" where
  "extra_route_of r = \<lparr>er_id = 0, er_cluster_router_id = 0, er_destination = xr_destination r, er_nexthop = xr_nexthop r\<rparr>"

definition interface_of :: "bool \<Rightarrow> fixed_ip \<Rightarrow> routing_interface_result" where
  "interface_of external i = \<lparr>rir_subnet = named_subnet (fx_subnet_uuid i),
     rir_routing_interface = \<lparr>ri_cluster_router_id = 0, ri_cluster_subnet_id = 0, ri_ip_address = fx_ip_address i,
       ri_external_flag = external\<rparr>\<rparr>"

text \<open>A port of no project is that of the gateway, and no internal interface.\<close>

definition openstack_get_router :: "os_servers \<Rightarrow> string \<Rightarrow> (err + get_router_result) os" where
  "openstack_get_router sv u = given (train_show_router_details sv u) (\<lambda>(r, raw).
     given (train_list_ports sv [] u) (\<lambda>ps.
       succeed \<lparr>grr_router = router_of r raw, grr_tenant = named_tenant (ro_project_id r),
         grr_extra_route = map extra_route_of (ro_routes r),
         grr_external_routing_interface_list = map (interface_of True) (ro_gateway_ips r),
         grr_internal_routing_interface_list =
           concat (map (\<lambda>p. map (interface_of False) (pt_fixed_ips p)) (filter (\<lambda>p. pt_project_id p \<noteq> []) ps))\<rparr>))"

section \<open>Security groups\<close>

definition openstack_get_security_group_list :: "os_servers \<Rightarrow> (err + get_security_group_result list) os" where
  "openstack_get_security_group_list sv = given (train_list_security_groups sv) (\<lambda>gs.
     succeed (map (\<lambda>g. \<lparr>ggr_security_group = named_group (osg_uuid g) [], ggr_tenant = named_tenant [], ggr_rule_list = []\<rparr>) gs))"

definition security_group_of :: "os_security_group \<Rightarrow> string \<Rightarrow> cluster_security_group" where
  "security_group_of g raw = (named_group (osg_uuid g) (osg_name g))\<lparr>sg_description := osg_description g, sg_raw := Some raw\<rparr>"

definition openstack_get_security_group :: "os_servers \<Rightarrow> string \<Rightarrow> (err + get_security_group_result) os" where
  "openstack_get_security_group sv u = given (train_show_security_group sv u) (\<lambda>(g, raw).
     succeed \<lparr>ggr_security_group = security_group_of g raw, ggr_tenant = named_tenant (osg_project_id g),
       ggr_rule_list = map (\<lambda>r. zero_rule\<lparr>sgr_uuid := r\<rparr>) (osg_rules g)\<rparr>)"

definition openstack_get_security_group_rule :: "os_servers \<Rightarrow> string \<Rightarrow> (err + get_security_group_rule_result) os" where
  "openstack_get_security_group_rule sv u = given (train_show_security_group_rule sv u) (\<lambda>(r, raw).
     succeed \<lparr>gru_security_group_rule = zero_rule\<lparr>sgr_uuid := ord_uuid r, sgr_description := ord_description r,
         sgr_network_cidr := ord_network_cidr r, sgr_direction := ord_direction r, sgr_port_range_min := ord_port_range_min r,
         sgr_port_range_max := ord_port_range_max r, sgr_protocol := ord_protocol r,
         sgr_ether_type := string_ether_type (ord_ether_type r), sgr_raw := Some raw\<rparr>,
       gru_security_group = named_group (ord_security_group_id r) [],
       gru_remote_security_group = map_option (\<lambda>g. named_group g []) (ord_remote_group_id r)\<rparr>)"

section \<open>Storages\<close>

definition openstack_get_storage_list :: "os_servers \<Rightarrow> (err + get_storage_result list) os" where
  "openstack_get_storage_list sv = given (train_list_all_volume_types sv) (\<lambda>ts.
     succeed (map (\<lambda>t. \<lparr>gsr_storage = named_storage (ovt_uuid t) [], gsr_volume_backend_name = [], gsr_metadata = []\<rparr>) ts))"

text \<open>The name of the backend: a name that is no string is a failed type assertion.\<close>

definition backend_name_of :: "os_volume_type \<Rightarrow> err + string" where
  "backend_name_of t = (case map_of (ovt_extra_specs t) ''volume_backend_name'' of
       None \<Rightarrow> if ovt_name t = ''__DEFAULT__'' then Inr ''ceph'' else Inl (NotFoundVolumeBackendName (ovt_name t))
     | Some (JStr n) \<Rightarrow> Inr n
     | Some _ \<Rightarrow> Inl NilDereference)"

definition used_bytes :: "nat \<Rightarrow> nat \<Rightarrow> nat" where
  "used_bytes c f = unat (uint64 c - uint64 f)"

text \<open>The capacity and the used bytes of the first pool of the backend.\<close>

definition pool_bytes :: "string \<Rightarrow> storage_pool list \<Rightarrow> nat option \<times> nat option" where
  "pool_bytes backend ps = (case find (\<lambda>p. backend = sp_backend_name p) ps of
       None \<Rightarrow> (None, None)
     | Some p \<Rightarrow> (sp_total_bytes p, case sp_total_bytes p of None \<Rightarrow> None
         | Some c \<Rightarrow> map_option (used_bytes c) (sp_free_bytes p)))"

definition backend_type :: "string \<Rightarrow> string" where
  "backend_type b = (if contains b ''ceph'' then ''openstack.storage.type.ceph''
     else if contains b ''nfs'' then ''openstack.storage.type.nfs''
     else if contains b ''iscsi'' then ''openstack.storage.type.lvm''
     else if contains b ''lvm'' then ''openstack.storage.type.lvm''
     else ''openstack.storage.type.unknown'')"

definition backend_metadata :: "string \<Rightarrow> (string \<times> json) list" where
  "backend_metadata b = (''backend'', JStr b) # (if contains b ''ceph''
     then [(''driver'', JStr ''cinder.volume.drivers.rbd.RBDDriver''), (''client'', JStr ''cinder''), (''pool'', JStr ''volumes'')]
     else [])"

text \<open>The pools are asked for, and an error of that is only logged.\<close>

definition openstack_get_storage :: "os_servers \<Rightarrow> string \<Rightarrow> (err + get_storage_result) os" where
  "openstack_get_storage sv u = given (train_show_volume_type_detail sv u) (\<lambda>(t, raw).
     given (State_Monad.return (backend_name_of t)) (\<lambda>b. do {
       ps \<leftarrow> train_list_all_backend_storage_pools sv;
       let (capacity, used) = (case ps of Inl _ \<Rightarrow> (None, None) | Inr ps \<Rightarrow> pool_bytes b ps);
       succeed \<lparr>gsr_storage = (named_storage (ovt_uuid t) (ovt_name t))\<lparr>st_description := ovt_description t,
           st_type_code := backend_type b, st_capacity_bytes := capacity, st_used_bytes := used, st_raw := Some raw\<rparr>,
         gsr_volume_backend_name = b, gsr_metadata = backend_metadata b\<rparr>
     }))"

section \<open>Volumes and snapshots\<close>

definition openstack_get_volume_list :: "os_servers \<Rightarrow> (err + get_volume_result list) os" where
  "openstack_get_volume_list sv = given (train_list_accessible_volumes sv) (\<lambda>vs.
     succeed (map (\<lambda>v. \<lparr>gvr_volume = named_volume (ovo_uuid v), gvr_tenant = named_tenant [], gvr_storage = named_storage [] [],
       gvr_metadata = []\<rparr>) vs))"

definition parsed_bool :: "string \<Rightarrow> err + bool" where
  "parsed_bool s = (case parse_bool s of None \<Rightarrow> Inl (Unknown ''strconv.ParseBool: invalid syntax'') | Some b \<Rightarrow> Inr b)"

definition volume_readonly :: "(string \<times> json) list \<Rightarrow> err + bool" where
  "volume_readonly md = (case map_of md ''readonly'' of None \<Rightarrow> Inr False
     | Some (JStr s) \<Rightarrow> parsed_bool s
     | Some _ \<Rightarrow> Inl NilDereference)"

text \<open>The identifier of the first type with a name; without one, or when it is empty, there is none.\<close>

definition storage_of_type :: "string \<Rightarrow> os_volume_type list \<Rightarrow> err + string" where
  "storage_of_type n ts = (case find (\<lambda>t. ovt_name t = n) ts of
       None \<Rightarrow> Inl NotFoundVolumeType
     | Some t \<Rightarrow> if ovt_uuid t = [] then Inl NotFoundVolumeType else Inr (ovt_uuid t))"

definition openstack_get_volume :: "os_servers \<Rightarrow> string \<Rightarrow> (err + get_volume_result) os" where
  "openstack_get_volume sv u = given (train_show_volume_details sv u) (\<lambda>(v, raw).
     given (State_Monad.return (parsed_bool (ovo_bootable v))) (\<lambda>bootable.
     given (State_Monad.return (volume_readonly (ovo_metadata v))) (\<lambda>readonly.
     given (train_list_all_volume_types sv) (\<lambda>ts.
     given (State_Monad.return (storage_of_type (ovo_type_name v) ts)) (\<lambda>storage.
     given (case ovo_attachments v of [] \<Rightarrow> succeed [] | a # _ \<Rightarrow> train_show_attachment_details sv a) (\<lambda>md.
       succeed \<lparr>gvr_volume = (named_volume (ovo_uuid v))\<lparr>vol_name := ovo_name v, vol_description := ovo_description v,
           vol_size_bytes := gib_bytes (ovo_size v), vol_multiattach := ovo_multiattach v, vol_bootable := bootable,
           vol_readonly := readonly, vol_status := ovo_status v, vol_raw := Some raw\<rparr>,
         gvr_tenant = named_tenant (ovo_project_id v), gvr_storage = named_storage storage [], gvr_metadata = md\<rparr>))))))"

definition group_of :: "os_group \<Rightarrow> volume_group" where
  "group_of g = \<lparr>vg_uuid = ogr_id g, vg_name = ogr_name g, vg_description = ogr_description g, vg_storages = [], vg_volumes = []\<rparr>"

definition openstack_get_volume_group_list :: "os_servers \<Rightarrow> (err + volume_group list) os" where
  "openstack_get_volume_group_list sv = given (train_list_all_volume_groups sv) (\<lambda>gs.
     succeed (map (\<lambda>(u, n). \<lparr>vg_uuid = u, vg_name = n, vg_description = [], vg_storages = [], vg_volumes = []\<rparr>) gs))"

definition openstack_get_volume_group :: "os_servers \<Rightarrow> string \<Rightarrow> (err + volume_group) os" where
  "openstack_get_volume_group sv u = given (train_show_volume_group_details sv u True) (\<lambda>g.
     succeed ((group_of g)\<lparr>vg_storages := map (\<lambda>i. named_storage i []) (ogr_volume_types g),
       vg_volumes := map named_volume (ogr_volumes g)\<rparr>))"

definition group_snapshot_of :: "os_group_snapshot \<Rightarrow> volume_group_snapshot" where
  "group_snapshot_of g = \<lparr>vgs_uuid = ogs_id g, vgs_name = ogs_name g, vgs_description = ogs_description g\<rparr>"

definition openstack_get_volume_group_snapshot_list :: "os_servers \<Rightarrow> (err + (string \<times> volume_group_snapshot) list) os" where
  "openstack_get_volume_group_snapshot_list sv = given (train_list_volume_group_snapshots_with_details sv) (\<lambda>gs.
     succeed (map (\<lambda>g. (ogs_group_id g, group_snapshot_of g)) gs))"

definition openstack_get_volume_snapshot_list :: "os_servers \<Rightarrow> (err + get_volume_snapshot_result list) os" where
  "openstack_get_volume_snapshot_list sv = given (train_list_accessible_snapshots sv) (\<lambda>vs.
     succeed (map (\<lambda>v. \<lparr>gvs_volume_snapshot = zero_snapshot\<lparr>vs_uuid := ovs_uuid v\<rparr>, gvs_volume = named_volume []\<rparr>) vs))"

text \<open>The time of creation in seconds; the text of the parser's error is left out.\<close>

definition created_at :: "string \<Rightarrow> err + int" where
  "created_at s = (case parse_update_time s of None \<Rightarrow> Inl (Unknown ''parsing time'') | Some t \<Rightarrow> Inr (unix t))"

definition snapshot_of :: "os_snapshot \<Rightarrow> int \<Rightarrow> string option \<Rightarrow> cluster_volume_snapshot" where
  "snapshot_of v t raw = zero_snapshot\<lparr>vs_uuid := ovs_uuid v, vs_name := ovs_name v, vs_description := ovs_description v,
     vs_size_bytes := gib_bytes (ovs_size v), vs_created_at := t, vs_raw := raw\<rparr>"

definition openstack_get_volume_snapshot :: "os_servers \<Rightarrow> string \<Rightarrow> (err + get_volume_snapshot_result) os" where
  "openstack_get_volume_snapshot sv u = given (train_show_volume_snapshot_details sv u) (\<lambda>(v, raw).
     given (State_Monad.return (created_at (ovs_created_at v))) (\<lambda>t.
       succeed \<lparr>gvs_volume_snapshot = (snapshot_of v t (Some raw))\<lparr>vs_cluster_volume_group_snapshot_uuid := ovs_group_snapshot_id v,
           vs_status := ovs_status v\<rparr>,
         gvs_volume = named_volume (ovs_volume_id v)\<rparr>))"

section \<open>Instances\<close>

definition openstack_get_key_pair_list :: "os_servers \<Rightarrow> (err + cluster_keypair list) os" where
  "openstack_get_key_pair_list sv = given (train_list_keypairs sv) (\<lambda>ks.
     succeed (map (\<lambda>k. (keypair_row None)\<lparr>kp_name := okp_name k\<rparr>) ks))"

text \<open>Without a type, a key that does not begin with \<open>ssh-rsa\<close> is taken for one of X.509.\<close>

definition keypair_type :: "os_keypair \<Rightarrow> string" where
  "keypair_type k = (if okp_type_code k = [] then if take 7 (okp_public_key k) \<noteq> ''ssh-rsa'' then ''x509'' else ''ssh''
     else if okp_type_code k = ''x509'' then ''x509'' else ''ssh'')"

definition openstack_get_key_pair :: "os_servers \<Rightarrow> string \<Rightarrow> (err + cluster_keypair) os" where
  "openstack_get_key_pair sv n = given (train_show_keypair_details sv n) (\<lambda>k.
     succeed ((keypair_row None)\<lparr>kp_name := okp_name k, kp_fingerprint := okp_fingerprint k, kp_public_key := okp_public_key k,
       kp_type_code := keypair_type k\<rparr>))"

definition spec_of :: "os_flavor \<Rightarrow> cluster_instance_spec" where
  "spec_of f = (spec_row None)\<lparr>sp_uuid := ofl_uuid f, sp_name := ofl_name f, sp_description := ofl_description f,
     sp_vcpu_total_cnt := ofl_vcpus f, sp_mem_total_bytes := mib_bytes (ofl_ram_mib f),
     sp_disk_total_bytes := gib_bytes (ofl_disk_gib f), sp_swap_total_bytes := mib_bytes (ofl_swap_mib f),
     sp_ephemeral_total_bytes := gib_bytes (ofl_ephemeral_gib f)\<rparr>"

definition extra_spec :: "string \<Rightarrow> string \<Rightarrow> cluster_instance_extra_spec" where
  "extra_spec k v = \<lparr>es_id = 0, es_cluster_instance_spec_id = 0, es_key = k, es_value = v\<rparr>"

text \<open>The keys of the extra specs stand in a map, which the code goes through in any order.\<close>

definition openstack_get_instance_spec ::
    "os_servers \<Rightarrow> string \<Rightarrow> (err + cluster_instance_spec \<times> cluster_instance_extra_spec list) os" where
  "openstack_get_instance_spec sv u = given (train_show_flavor_details sv u) (\<lambda>(f, _).
     succeed (spec_of f, map (\<lambda>(k, _). extra_spec k []) (ofl_extra_specs f)))"

definition openstack_get_instance_extra_spec :: "os_servers \<Rightarrow> string \<Rightarrow> string \<Rightarrow> (err + cluster_instance_extra_spec) os" where
  "openstack_get_instance_extra_spec sv u k = given (train_show_flavor_extra_spec sv u k) (\<lambda>(k, v). succeed (extra_spec k v))"

definition empty_instance_result :: "string \<Rightarrow> get_instance_result" where
  "empty_instance_result u = \<lparr>gir_instance = named_instance u, gir_tenant = named_tenant [], gir_instance_spec = spec_row None,
     gir_key_pair = None, gir_hypervisor = named_hypervisor [], gir_availability_zone = named_zone [],
     gir_security_group_list = [], gir_instance_volume_list = [], gir_instance_network_list = []\<rparr>"

definition openstack_get_instance_list :: "os_servers \<Rightarrow> (err + get_instance_result list) os" where
  "openstack_get_instance_list sv = given (train_list_servers sv) (\<lambda>ss.
     succeed (map (\<lambda>s. empty_instance_result (osr_uuid s)) ss))"

definition instance_state_map :: "(int \<times> string) list" where
  "instance_state_map = [(0, ''NOSTATE''), (1, ''RUNNING''), (3, ''PAUSED''), (4, ''SHUTDOWN''), (6, ''CRASHED''), (7, ''SUSPENDED'')]"

definition instance_state :: "os_server \<Rightarrow> err + string" where
  "instance_state s = (case map_of instance_state_map (osr_state s) of
       None \<Rightarrow> Inl (UnknownInstanceState (osr_name s) (osr_state s)) | Some st \<Rightarrow> Inr st)"

text \<open>The loop over the hypervisors goes on until one with a server of the identifier has an identifier itself.\<close>

definition hypervisor_of :: "os_server \<Rightarrow> os_hypervisor list \<Rightarrow> err + string" where
  "hypervisor_of s hs = (case find (\<lambda>h. osr_uuid s \<in> set (ohv_servers h) \<and> ohv_uuid h \<noteq> []) hs of
       None \<Rightarrow> Inl NotFoundInstanceHypervisor | Some h \<Rightarrow> Inr (ohv_uuid h))"

definition flavor_of :: "os_server \<Rightarrow> os_flavor list \<Rightarrow> err + string" where
  "flavor_of s fs = (case find (\<lambda>f. ofl_name f = osr_flavor_name s) fs of
       None \<Rightarrow> Inl NotFoundInstanceSpec | Some f \<Rightarrow> if ofl_uuid f = [] then Inl NotFoundInstanceSpec else Inr (ofl_uuid f))"

definition attached_volume_of :: "os_servers \<Rightarrow> string \<Rightarrow> string \<Rightarrow> (err + get_instance_volume_result) os" where
  "attached_volume_of sv s v = given (train_show_detail_volume_attachment sv s v) (\<lambda>(path, u).
     succeed \<lparr>giv_instance_volume = \<lparr>ivol_cluster_instance_id = 0, ivol_cluster_volume_id = 0, ivol_device_path = path,
       ivol_boot_index = 0\<rparr>, giv_volume = named_volume u\<rparr>)"

text \<open>
  The floating IP of an address is the last one of the answer. It is kept in a variable outside of the loops,
  so an address without floating IP has that of an address before it.
\<close>

fun networks_of_port ::
    "os_servers \<Rightarrow> port_interface \<Rightarrow> fixed_ip list \<Rightarrow> cluster_floating_ip option \<Rightarrow>
     (err + get_instance_network_result list \<times> cluster_floating_ip option) os" where
  "networks_of_port sv p [] fip = succeed ([], fip)"
| "networks_of_port sv p (i # is) fip =
     given (train_list_floating_ips_by_port_interface sv (pif_port_id p) (fx_ip_address i)) (\<lambda>fs.
     let fip' = (if fs = [] then fip else Some (named_floating_ip (ofi_uuid (last fs)))) in
     given (train_show_subnet_details sv (fx_subnet_uuid i)) (\<lambda>(n, _).
     given (networks_of_port sv p is fip') (\<lambda>(ns, fip'').
       succeed (\<lparr>gin_instance_network = \<lparr>inw_id = 0, inw_cluster_instance_id = 0, inw_cluster_network_id = 0,
           inw_cluster_subnet_id = 0, inw_cluster_floating_ip_id = None, inw_dhcp_flag = osn_enable_dhcp n,
           inw_ip_address = fx_ip_address i\<rparr>,
         gin_network = named_network (pif_network_id p), gin_subnet = named_subnet (fx_subnet_uuid i),
         gin_floating_ip = fip'\<rparr> # ns, fip''))))"

fun networks_of_ports ::
    "os_servers \<Rightarrow> port_interface list \<Rightarrow> cluster_floating_ip option \<Rightarrow> (err + get_instance_network_result list) os" where
  "networks_of_ports sv [] fip = succeed []"
| "networks_of_ports sv (p # ps) fip = given (networks_of_port sv p (pif_fixed_ips p) fip) (\<lambda>(ns, fip').
     given (networks_of_ports sv ps fip') (\<lambda>ns'. succeed (ns @ ns')))"

definition instance_of :: "os_server \<Rightarrow> string \<Rightarrow> string \<Rightarrow> cluster_instance" where
  "instance_of s state raw = (named_instance (osr_uuid s))\<lparr>ins_name := osr_name s, ins_description := osr_description s,
     ins_state := state, ins_status := osr_status s, ins_raw := Some raw\<rparr>"

definition openstack_get_instance :: "os_servers \<Rightarrow> string \<Rightarrow> (err + get_instance_result) os" where
  "openstack_get_instance sv u = given (train_show_server_details sv u) (\<lambda>(s, raw).
     given (State_Monad.return (instance_state s)) (\<lambda>state.
     given (train_list_hypervisors sv) (\<lambda>hs.
     given (State_Monad.return (hypervisor_of s hs)) (\<lambda>h.
     given (train_list_security_groups_by_server sv (osr_uuid s)) (\<lambda>gs.
     given (train_list_flavors sv) (\<lambda>fs.
     given (State_Monad.return (flavor_of s fs)) (\<lambda>f.
     given (gather (attached_volume_of sv (osr_uuid s)) (osr_attached_volumes s)) (\<lambda>vs.
     given (train_list_port_interfaces sv (osr_uuid s)) (\<lambda>ps.
     given (networks_of_ports sv ps None) (\<lambda>ns.
       succeed \<lparr>gir_instance = instance_of s state raw, gir_tenant = named_tenant (osr_tenant_id s),
         gir_instance_spec = (spec_row None)\<lparr>sp_uuid := f\<rparr>,
         gir_key_pair = map_option (\<lambda>k. (keypair_row None)\<lparr>kp_name := k\<rparr>) (osr_key_name s),
         gir_hypervisor = named_hypervisor h, gir_availability_zone = named_zone (osr_zone_name s),
         gir_security_group_list = map (\<lambda>g. named_group g []) gs, gir_instance_volume_list = vs,
         gir_instance_network_list = ns\<rparr>))))))))))"

end
