(* ===== verification/OpenstackChanges.thy ===== *)
theory OpenstackChanges
  imports OpenstackReads ClusterCalls "HOL-Library.AList"
begin

text \<open>
  The client of OpenStack, creating and deleting (\<open>client/openstack/openstack.go\<close>, \<open>ceph.go\<close>,
  \<open>direct_command.go\<close>). A creation of several requests deletes what it created when one of them fails, and
  the failures of that are only logged.
\<close>

section \<open>Rollback\<close>

text \<open>The deferred function of a creation: it runs when the rest fails, or panics, and changes nothing of the result.\<close>

definition undoing :: "'u os \<Rightarrow> (err + 'a) os \<Rightarrow> (err + 'a) os" where
  "undoing undo m = do {
     r \<leftarrow> m;
     case r of Inl e \<Rightarrow> ignoring undo (failed_with e) | Inr x \<Rightarrow> succeed x
   }"

text \<open>A creation that is waited for: what was created is deleted when the waiting failed as well.\<close>

definition created_or_undone :: "'b created os \<Rightarrow> ('b \<Rightarrow> 'u os) \<Rightarrow> ('b \<Rightarrow> string option \<Rightarrow> (err + 'a) os) \<Rightarrow> (err + 'a) os" where
  "created_or_undone m undo k = do {
     (x, e) \<leftarrow> m;
     case x of
       None \<Rightarrow> failed_with (case e of Some e \<Rightarrow> e | None \<Rightarrow> NilDereference)
     | Some (b, raw) \<Rightarrow> undoing (undo b) (case e of Some e \<Rightarrow> failed_with e | None \<Rightarrow> k b raw)
   }"

section \<open>Tenants\<close>

definition update_quota :: "(string \<times> string) list \<Rightarrow> cluster_quota list \<Rightarrow>
    ((string \<times> int) list \<Rightarrow> (err + (string \<times> int) list) os) \<Rightarrow> (err + (string \<times> int) list option) os" where
  "update_quota ks qs send = (if quotas_given (quota_set ks qs)
     then given (send (quota_set ks qs)) (\<lambda>a. succeed (Some a)) else succeed None)"

definition update_quotas :: "os_servers \<Rightarrow> string \<Rightarrow> cluster_quota list \<Rightarrow> (err + cluster_quota list) os" where
  "update_quotas sv u qs =
     given (update_quota compute_quota_fields qs (train_update_compute_quotas sv u)) (\<lambda>c.
     given (update_quota network_quota_fields qs (train_update_network_quota sv u)) (\<lambda>n.
     given (update_quota storage_quota_fields qs (train_update_storage_quotas sv u)) (\<lambda>s.
       succeed (map quota_row (quotas_to_map compute_quota_fields c @ quotas_to_map network_quota_fields n @
         quotas_to_map storage_quota_fields s)))))"

text \<open>The identifier of the first role that is called \<open>admin\<close>.\<close>

definition admin_role :: "os_token \<Rightarrow> string" where
  "admin_role t = (case find (\<lambda>(_, n). n = ''admin'') (tk_roles t) of None \<Rightarrow> [] | Some (i, _) \<Rightarrow> i)"

definition project_request :: "cluster_tenant \<Rightarrow> project_creation" where
  "project_request t = \<lparr>pc_uuid = [], pc_name = tn_name t, pc_description = getf (\<lambda>d. d) [] (tn_description t),
     pc_enabled = tn_enabled t\<rparr>"

definition openstack_create_tenant ::
    "os_servers \<Rightarrow> os_client \<Rightarrow> cluster_tenant \<times> cluster_quota list \<Rightarrow> (err + cluster_tenant \<times> cluster_quota list) os" where
  "openstack_create_tenant sv c tq = (case tq of (t, qs) \<Rightarrow>
     given (train_create_project sv (project_request t)) (\<lambda>(p, raw).
     undoing (train_delete_project sv c (pc_uuid p)) (do {
       s \<leftarrow> State_Monad.get;
       case os_token s of
         None \<Rightarrow> failed_with NilDereference
       | Some k \<Rightarrow> if admin_role k = [] then failed_with (Unknown ''not found admin role'')
           else after (train_assign_role_to_user_on_project sv (pc_uuid p) (tk_user_id k) (admin_role k))
             (given (update_quotas sv (pc_uuid p) qs) (\<lambda>qs.
               succeed ((named_tenant (pc_uuid p))\<lparr>tn_name := pc_name p, tn_description := Some (pc_description p),
                 tn_enabled := pc_enabled p, tn_raw := Some raw\<rparr>, qs)))
     })))"

definition openstack_delete_tenant :: "os_servers \<Rightarrow> os_client \<Rightarrow> cluster_tenant \<Rightarrow> err option os" where
  "openstack_delete_tenant sv c t = train_delete_project sv c (tn_uuid t)"

section \<open>Networks\<close>

definition openstack_create_floating_ip ::
    "os_servers \<Rightarrow> cluster_tenant \<times> cluster_network \<times> cluster_floating_ip \<Rightarrow> (err + cluster_floating_ip) os" where
  "openstack_create_floating_ip sv req = (case req of (t, n, f) \<Rightarrow>
     given (train_create_floating_ip sv \<lparr>ofi_uuid = [], ofi_network_id = nw_uuid n, ofi_project_id = tn_uuid t,
         ofi_ip_address = fip_ip_address f, ofi_description = fip_description f, ofi_status = []\<rparr>) (\<lambda>(i, raw).
       if ofi_status i = ''ERROR''
       then ignoring (train_delete_floating_ip sv (ofi_uuid i))
         (failed_with (RemoteServerError ''error occurred during creation of floating ip''))
       else succeed (floating_ip_of i raw)))"

definition openstack_delete_floating_ip :: "os_servers \<Rightarrow> cluster_floating_ip \<Rightarrow> err option os" where
  "openstack_delete_floating_ip sv f = train_delete_floating_ip sv (fip_uuid f)"

definition openstack_create_network :: "os_servers \<Rightarrow> cluster_tenant \<times> cluster_network \<Rightarrow> (err + cluster_network) os" where
  "openstack_create_network sv req = (case req of (t, n) \<Rightarrow>
     given (train_create_network sv \<lparr>onw_uuid = [], onw_name = nw_name n, onw_admin_state_up = (nw_state n = ''up''),
         onw_project_id = tn_uuid t, onw_external = nw_external_flag n, onw_description = nw_description n, onw_type = [],
         onw_status = [], onw_subnets = []\<rparr>) (\<lambda>(n, raw).
       succeed ((named_network (onw_uuid n))\<lparr>nw_name := onw_name n, nw_description := onw_description n,
         nw_type_code := onw_type n, nw_external_flag := onw_external n, nw_state := up_down (onw_admin_state_up n),
         nw_status := onw_status n, nw_raw := Some raw\<rparr>)))"

definition openstack_delete_network :: "os_servers \<Rightarrow> cluster_network \<Rightarrow> err option os" where
  "openstack_delete_network sv n = train_delete_network sv (nw_uuid n)"

text \<open>Whether a text is a CIDR, and whether one of version 4, is decided by \<open>net.ParseCIDR\<close>, an argument.\<close>

definition ip_version :: "(string \<Rightarrow> bool option) \<Rightarrow> string \<Rightarrow> err + nat" where
  "ip_version parse_cidr cidr = (case parse_cidr cidr of None \<Rightarrow> Inl (Unknown ''invalid CIDR address'')
     | Some v4 \<Rightarrow> Inr (if v4 then 4 else 6))"

definition openstack_create_subnet ::
    "(string \<Rightarrow> bool option) \<Rightarrow> os_servers \<Rightarrow> cluster_tenant \<times> cluster_network \<times> subnet_creation \<Rightarrow> (err + subnet_creation) os" where
  "openstack_create_subnet parse_cidr sv req = (case req of (t, n, c) \<Rightarrow>
     let s = nsu_subnet c in
     given (State_Monad.return (ip_version parse_cidr (sn_network_cidr s))) (\<lambda>v.
     given (train_create_subnet sv \<lparr>osn_network_uuid = nw_uuid n, osn_ip_version = v, osn_cidr = sn_network_cidr s, osn_uuid = [],
         osn_project_id = tn_uuid t, osn_name = sn_name s, osn_enable_dhcp = sn_dhcp_enabled s,
         osn_nameservers = map ns_nameserver (nsu_nameservers c),
         osn_pools = map (\<lambda>p. (dp_start_ip_address p, dp_end_ip_address p)) (nsu_pools c),
         osn_gateway_ip = sn_gateway_ip_address s, osn_description = sn_description s,
         osn_ipv6_address_mode = sn_ipv6_address_mode_code s, osn_ipv6_ra_mode = sn_ipv6_ra_mode_code s\<rparr>) (\<lambda>(r, raw).
       succeed \<lparr>nsu_subnet = subnet_of r raw, nsu_nameservers = map nameserver_row (osn_nameservers r),
         nsu_pools = map pool_row (osn_pools r)\<rparr>)))"

definition openstack_delete_subnet :: "os_servers \<Rightarrow> cluster_subnet \<Rightarrow> err option os" where
  "openstack_delete_subnet sv s = train_delete_subnet sv (sn_uuid s)"

section \<open>Routers\<close>

text \<open>A port of the router for every internal interface; the ports that were added are what the rollback removes.\<close>

fun add_interfaces :: "os_servers \<Rightarrow> string \<Rightarrow> routed_interface list \<Rightarrow> string list \<Rightarrow> (string list \<times> err option) os" where
  "add_interfaces sv u [] ports = State_Monad.return (ports, None)"
| "add_interfaces sv u (i # is) ports = do {
     p \<leftarrow> train_create_port sv \<lparr>pt_uuid = [], pt_network_uuid = nw_uuid (rif_network i),
       pt_fixed_ips = [\<lparr>fx_subnet_uuid = sn_uuid (rif_subnet i), fx_ip_address = rif_ip_address i\<rparr>], pt_device_id = [],
       pt_device_owner = [], pt_project_id = [], pt_security_groups = []\<rparr>;
     case p of
       Inl e \<Rightarrow> State_Monad.return (ports, Some e)
     | Inr p \<Rightarrow> do {
         a \<leftarrow> train_add_interface_to_router sv u None (Some (pt_uuid p));
         case a of Inl e \<Rightarrow> State_Monad.return (ports, Some e) | Inr _ \<Rightarrow> add_interfaces sv u is (ports @ [pt_uuid p])
       }
   }"

fun remove_interfaces :: "os_servers \<Rightarrow> string \<Rightarrow> string list \<Rightarrow> err option os" where
  "remove_interfaces sv u [] = return_nil"
| "remove_interfaces sv u (p # ps) = check (train_remove_interface_from_router sv u p []) (remove_interfaces sv u ps)"

text \<open>The first failure ends the rollback.\<close>

definition undo_router :: "os_servers \<Rightarrow> os_router \<Rightarrow> string list \<Rightarrow> err option os" where
  "undo_router sv r ports = check (train_remove_extra_routes_from_router sv (ro_uuid r) (ro_routes r))
     (check (remove_interfaces sv (ro_uuid r) ports) (train_delete_router sv (ro_uuid r)))"

definition routed :: "bool \<Rightarrow> string \<Rightarrow> fixed_ip \<Rightarrow> routed_interface" where
  "routed external n i = \<lparr>rif_network = named_network n, rif_subnet = named_subnet (fx_subnet_uuid i),
     rif_ip_address = fx_ip_address i, rif_external_flag = external\<rparr>"

text \<open>The first address of every port of a project; a port without address is an index out of range.\<close>

fun internal_interfaces :: "os_port list \<Rightarrow> err + routed_interface list" where
  "internal_interfaces [] = Inr []"
| "internal_interfaces (p # ps) = (if pt_project_id p = [] then internal_interfaces ps
     else case pt_fixed_ips p of [] \<Rightarrow> Inl NilDereference
       | i # _ \<Rightarrow> map_sum (\<lambda>e. e) (\<lambda>is. routed False (pt_network_uuid p) i # is) (internal_interfaces ps))"

text \<open>A failure of the server is no failure of the routes: the router is created without them.\<close>

definition add_routes :: "os_servers \<Rightarrow> string \<Rightarrow> extra_route list \<Rightarrow> (err + cluster_router_extra_route list) os" where
  "add_routes sv u rs = (if rs = [] then succeed [] else do {
     r \<leftarrow> train_add_extra_routes_to_router sv u rs;
     case r of
       Inl (RemoteServerError _) \<Rightarrow> succeed []
     | Inl e \<Rightarrow> failed_with e
     | Inr r \<Rightarrow> succeed (map extra_route_of (ro_routes r))
   })"

definition gateway_network :: "routed_interface list \<Rightarrow> string" where
  "gateway_network is = (case is of [] \<Rightarrow> [] | i # _ \<Rightarrow> nw_uuid (rif_network i))"

definition openstack_create_router :: "os_servers \<Rightarrow> router_call \<Rightarrow> (err + router_creation) os" where
  "openstack_create_router sv q =
     (if list_ex (\<lambda>i. nw_uuid (rif_network i) \<noteq> gateway_network (rc_external q)) (rc_external q)
      then failed_with (Unknown ''error occurred during creation of router'')
      else given (train_create_router sv \<lparr>ro_uuid = [], ro_name = rt_name (rc_router q), ro_description = rt_description (rc_router q),
          ro_project_id = tn_uuid (rc_tenant q), ro_state = (rt_state (rc_router q) \<in> {''up'', []}), ro_status = [], ro_routes = [],
          ro_gateway_network = gateway_network (rc_external q),
          ro_gateway_ips = map (\<lambda>i. \<lparr>fx_subnet_uuid = sn_uuid (rif_subnet i), fx_ip_address = rif_ip_address i\<rparr>) (rc_external q)\<rparr>)
        (\<lambda>(r, raw). do {
          (ports, e) \<leftarrow> add_interfaces sv (ro_uuid r) (rc_internal q) [];
          undoing (undo_router sv r ports) (after (State_Monad.return e)
            (given (train_list_ports sv [] (ro_uuid r)) (\<lambda>ps.
             given (State_Monad.return (internal_interfaces ps)) (\<lambda>internals.
             given (add_routes sv (ro_uuid r) (map (\<lambda>x. \<lparr>xr_destination = er_destination x, xr_nexthop = er_nexthop x\<rparr>) (rc_extra_routes q)))
               (\<lambda>routes.
               succeed \<lparr>nr_created = router_of r raw, nr_extra_routes = routes,
                 nr_external = map (routed True (ro_gateway_network r)) (ro_gateway_ips r), nr_internal = internals\<rparr>)))))
        }))"

definition openstack_delete_router :: "os_servers \<Rightarrow> cluster_router \<Rightarrow> err option os" where
  "openstack_delete_router sv r = fetch (train_list_ports sv [] (rt_uuid r)) (\<lambda>ps.
     fetch (train_show_router_details sv (rt_uuid r)) (\<lambda>(d, _).
       check (if ro_routes d = [] then return_nil else train_remove_extra_routes_from_router sv (ro_uuid d) (ro_routes d))
         (check (remove_interfaces sv (rt_uuid r) (map pt_uuid ps)) (train_delete_router sv (rt_uuid r)))))"

section \<open>Security groups\<close>

text \<open>A new group has rules of its own, which are deleted.\<close>

fun delete_group_rules :: "os_servers \<Rightarrow> string list \<Rightarrow> err option os" where
  "delete_group_rules sv [] = return_nil"
| "delete_group_rules sv (r # rs) = check (train_delete_security_group_rule sv r) (delete_group_rules sv rs)"

definition security_group_request :: "cluster_tenant \<Rightarrow> cluster_security_group \<Rightarrow> os_security_group" where
  "security_group_request t g = \<lparr>osg_uuid = [], osg_name = sg_name g, osg_project_id = tn_uuid t,
     osg_description = sg_description g, osg_rules = []\<rparr>"

definition openstack_create_security_group :: "os_servers \<Rightarrow> cluster_tenant \<times> cluster_security_group \<Rightarrow> (err + cluster_security_group) os" where
  "openstack_create_security_group sv req = (case req of (t, g) \<Rightarrow>
     given (train_create_security_group sv (security_group_request t g)) (\<lambda>(x, raw).
       undoing (train_delete_security_group sv (osg_uuid x))
         (after (delete_group_rules sv (osg_rules x)) (succeed (security_group_of x raw)))))"

text \<open>The ether type of the answer is read without a test whether there is one.\<close>

definition openstack_create_security_group_rule ::
    "os_servers \<Rightarrow> cluster_security_group \<times> cluster_security_group_rule \<times> string option \<Rightarrow>
     (err + cluster_security_group_rule \<times> cluster_security_group option) os" where
  "openstack_create_security_group_rule sv req = (case req of (g, r, remote) \<Rightarrow>
     given (train_create_security_group_rule sv \<lparr>oru_uuid = [], oru_direction = sgr_direction r, oru_security_group_uuid = sg_uuid g,
         oru_remote_group_uuid = getf (\<lambda>u. u) [] remote, oru_protocol = sgr_protocol r,
         oru_ether_type = Some (uint32_ether_type (sgr_ether_type r)), oru_port_range_max = sgr_port_range_max r,
         oru_port_range_min = sgr_port_range_min r, oru_remote_ip_prefix = sgr_network_cidr r,
         oru_description = sgr_description r\<rparr>) (\<lambda>(x, raw).
       case oru_ether_type x of
         None \<Rightarrow> failed_with NilDereference
       | Some ether \<Rightarrow> succeed (zero_rule\<lparr>sgr_uuid := oru_uuid x, sgr_description := oru_description x,
             sgr_ether_type := string_ether_type ether, sgr_network_cidr := oru_remote_ip_prefix x, sgr_direction := oru_direction x,
             sgr_port_range_min := oru_port_range_min x, sgr_port_range_max := oru_port_range_max x,
             sgr_protocol := oru_protocol x, sgr_raw := Some raw\<rparr>,
           if oru_remote_group_uuid x = [] then None else Some (named_group (oru_remote_group_uuid x) []))))"

definition openstack_delete_security_group :: "os_servers \<Rightarrow> cluster_security_group \<Rightarrow> err option os" where
  "openstack_delete_security_group sv g = train_delete_security_group sv (sg_uuid g)"

definition openstack_delete_security_group_rule :: "os_servers \<Rightarrow> cluster_security_group_rule \<Rightarrow> err option os" where
  "openstack_delete_security_group_rule sv r = train_delete_security_group_rule sv (sgr_uuid r)"

section \<open>Volumes and snapshots\<close>

definition update_volume_mode :: "os_servers \<Rightarrow> string \<Rightarrow> bool \<Rightarrow> bool \<Rightarrow> err option os" where
  "update_volume_mode sv u bootable readonly =
     check (if readonly then train_updates_volume_read_only sv u readonly else return_nil)
       (if bootable then train_update_volume_bootable_status sv u bootable else return_nil)"

text \<open>The size is asked for in gibibytes, rounded down.\<close>

definition volume_request :: "string \<Rightarrow> cluster_volume \<Rightarrow> os_volume" where
  "volume_request type v = \<lparr>ovo_project_id = [], ovo_type_name = type, ovo_uuid = [], ovo_name = vol_name v,
     ovo_description = vol_description v, ovo_size = vol_size_bytes v div (1024 * 1024 * 1024),
     ovo_multiattach = vol_multiattach v, ovo_bootable = [], ovo_status = [], ovo_metadata = [], ovo_attachments = []\<rparr>"

definition volume_of :: "os_volume \<Rightarrow> cluster_volume \<Rightarrow> string option \<Rightarrow> cluster_volume" where
  "volume_of x v raw = (named_volume (ovo_uuid x))\<lparr>vol_name := ovo_name x, vol_description := ovo_description x,
     vol_size_bytes := gib_bytes (ovo_size x), vol_multiattach := ovo_multiattach x, vol_readonly := vol_readonly v,
     vol_bootable := vol_bootable v, vol_raw := raw\<rparr>"

definition openstack_create_volume :: "os_servers \<Rightarrow> string \<times> cluster_volume \<Rightarrow> (err + cluster_volume) os" where
  "openstack_create_volume sv req = (case req of (type, v) \<Rightarrow>
     created_or_undone (train_create_volume sv (volume_request type v)) (\<lambda>x. train_delete_volume sv (ovo_uuid x) False)
       (\<lambda>x raw. after (update_volume_mode sv (ovo_uuid x) (vol_bootable v) (vol_readonly v)) (succeed (volume_of x v raw))))"

definition openstack_delete_volume :: "os_servers \<Rightarrow> cluster_volume \<Rightarrow> err option os" where
  "openstack_delete_volume sv v = train_delete_volume sv (vol_uuid v) True"

definition snapshot_request :: "string \<Rightarrow> cluster_volume_snapshot \<Rightarrow> os_snapshot" where
  "snapshot_request u v = \<lparr>ovs_uuid = [], ovs_name = vs_name v, ovs_description = vs_description v, ovs_size = 0, ovs_status = [],
     ovs_created_at = [], ovs_volume_id = u, ovs_group_snapshot_id = None\<rparr>"

text \<open>Here the error of the parser is returned as it is.\<close>

definition openstack_create_volume_snapshot :: "os_servers \<Rightarrow> string \<times> cluster_volume_snapshot \<Rightarrow> (err + cluster_volume_snapshot) os" where
  "openstack_create_volume_snapshot sv req = (case req of (u, v) \<Rightarrow>
     created_or_undone (train_create_volume_snapshot sv (snapshot_request u v)) (\<lambda>x. train_delete_volume_snapshot sv (ovs_uuid x))
       (\<lambda>x raw. case parse_update_time (ovs_created_at x) of
          None \<Rightarrow> failed_with (NewError ''parsing time'')
        | Some t \<Rightarrow> succeed (snapshot_of x (unix t) raw)))"

definition openstack_delete_volume_snapshot :: "os_servers \<Rightarrow> cluster_volume_snapshot \<Rightarrow> err option os" where
  "openstack_delete_volume_snapshot sv v = train_delete_volume_snapshot sv (vs_uuid v)"

section \<open>Volumes of another cluster\<close>

text \<open>The first available service of the backend; the part behind the at sign of a host is its backend.\<close>

definition serves_backend :: "string \<Rightarrow> cinder_service \<Rightarrow> bool" where
  "serves_backend b s = (case split_on (CHR ''@'') (cs_host s) of
     [_, n] \<Rightarrow> n = b \<and> cs_state s = ''up'' \<and> cs_status s = ''enabled'' | _ \<Rightarrow> False)"

definition get_service_hostname :: "os_servers \<Rightarrow> string \<Rightarrow> (err + string) os" where
  "get_service_hostname sv b = given (train_list_all_cinder_services sv) (\<lambda>ss.
     case find (serves_backend b) ss of
       None \<Rightarrow> failed_with (NotFoundAvailableServiceHostName b)
     | Some s \<Rightarrow> succeed (cs_host s))"

definition ceph_volume_name :: "string \<Rightarrow> string" where
  "ceph_volume_name u = ''volume-'' @ u"

definition ceph_snapshot_name :: "string \<Rightarrow> string" where
  "ceph_snapshot_name u = ''snapshot-'' @ u"

definition ceph_backend_name :: "(string \<times> string) list \<Rightarrow> string" where
  "ceph_backend_name md = getf (\<lambda>b. b) [] (map_of md ''backend'')"

text \<open>A creation that is waited for and not undone.\<close>

definition created :: "'b created os \<Rightarrow> (err + 'b \<times> string option) os" where
  "created m = do {
     (x, e) \<leftarrow> m;
     State_Monad.return (case e of Some e \<Rightarrow> Inl e | None \<Rightarrow> (case x of None \<Rightarrow> Inl NilDereference | Some y \<Rightarrow> Inr y))
   }"

definition import_snapshot :: "os_servers \<Rightarrow> string \<Rightarrow> cluster_volume_snapshot \<Rightarrow> (err + cluster_volume_snapshot file_pair) os" where
  "import_snapshot sv u v = given (created (train_manage_existing_volume_snapshot sv \<lparr>si_name = vs_name v,
       si_description = vs_description v, si_volume_id = u, si_source_name = ceph_snapshot_name (vs_uuid v)\<rparr>)) (\<lambda>(x, raw).
     given (State_Monad.return (created_at (ovs_created_at x))) (\<lambda>t.
       succeed \<lparr>fp_source = v, fp_target = snapshot_of x t raw, fp_source_file = [], fp_target_file = []\<rparr>))"

text \<open>Nothing that was imported before a failure is given back.\<close>

definition import_ceph :: "os_servers \<Rightarrow> move_call \<Rightarrow> (err + cluster_volume file_pair \<times> cluster_volume_snapshot file_pair list) os" where
  "import_ceph sv q = (let v = mc_volume q in
     given (get_service_hostname sv (ceph_backend_name (mc_target_metadata q))) (\<lambda>host.
     given (created (train_manage_existing_volume sv \<lparr>vi_name = vol_name v, vi_description = vol_description v,
         vi_type_uuid = st_uuid (mc_target_storage q), vi_bootable = vol_bootable v, vi_host = host,
         vi_source_name = ceph_volume_name (vol_uuid v)\<rparr>)) (\<lambda>(x, raw).
     after (update_volume_mode sv (ovo_uuid x) (vol_bootable v) (vol_readonly v))
     (given (gather (import_snapshot sv (ovo_uuid x)) (mc_snapshots q)) (\<lambda>ps.
       succeed (\<lparr>fp_source = v, fp_target = volume_of x v raw, fp_source_file = [], fp_target_file = []\<rparr>, ps))))))"

definition no_such_storage :: "string \<Rightarrow> string \<Rightarrow> err" where
  "no_such_storage p code = UnavailableParameterValue p (GStr code) (GStrs cluster_storage_type_codes)"

definition is_ceph :: "cluster_storage \<Rightarrow> bool" where
  "is_ceph s \<longleftrightarrow> st_type_code s = ''openstack.storage.type.ceph''"

definition openstack_import_volume ::
    "os_servers \<Rightarrow> move_call \<Rightarrow> (err + cluster_volume file_pair \<times> cluster_volume_snapshot file_pair list) os" where
  "openstack_import_volume sv q = (if is_ceph (mc_target_storage q) then import_ceph sv q
     else failed_with (no_such_storage ''target_storage.type_code'' (st_type_code (mc_target_storage q))))"

text \<open>Nothing is copied: the storage of the target has the image already.\<close>

definition openstack_copy_volume :: "move_call \<Rightarrow> (err + cluster_volume) os" where
  "openstack_copy_volume q = (if is_ceph (mc_target_storage q) then succeed (mc_volume q)
     else failed_with (no_such_storage ''target_storage.type_code'' (st_type_code (mc_target_storage q))))"

definition openstack_delete_volume_copy :: "move_call \<Rightarrow> err option os" where
  "openstack_delete_volume_copy q = (if is_ceph (mc_target_storage q) then return_nil
     else State_Monad.return (Some (no_such_storage ''target_storage.type_code'' (st_type_code (mc_target_storage q)))))"

fun unmanage_snapshots :: "os_servers \<Rightarrow> cluster_volume_snapshot file_pair list \<Rightarrow> err option os" where
  "unmanage_snapshots sv [] = return_nil"
| "unmanage_snapshots sv (p # ps) = check (train_unmanage_volume_snapshot sv (vs_uuid (fp_target p))) (unmanage_snapshots sv ps)"

definition unmanage_ceph :: "os_servers \<Rightarrow> unmanage_call \<Rightarrow> err option os" where
  "unmanage_ceph sv q = check (unmanage_snapshots sv (uc_snapshot_pairs q))
     (train_unmanage_volume sv (vol_uuid (fp_target (uc_volume_pair q))))"

definition openstack_unmanage_volume :: "os_servers \<Rightarrow> unmanage_call \<Rightarrow> err option os" where
  "openstack_unmanage_volume sv q = do {
     r \<leftarrow> train_show_volume_details sv (vol_uuid (fp_target (uc_volume_pair q)));
     case r of
       Inl ClientNotFound \<Rightarrow> return_nil
     | Inl e \<Rightarrow> State_Monad.return (Some e)
     | Inr _ \<Rightarrow> if is_ceph (uc_target_storage q) then unmanage_ceph sv q
         else State_Monad.return (Some (no_such_storage ''storage.type_code'' (st_type_code (uc_target_storage q))))
   }"

section \<open>Volume groups\<close>

definition group_request :: "volume_group \<Rightarrow> string \<Rightarrow> os_group" where
  "group_request g type = \<lparr>ogr_name = vg_name g, ogr_description = vg_description g, ogr_availability_zone = [],
     ogr_group_type = type, ogr_volume_types = map st_uuid (vg_storages g), ogr_volumes = [], ogr_id = [], ogr_project_id = [],
     ogr_status = [], ogr_created_at = []\<rparr>"

text \<open>The rollback deletes the group, when there is one, and its type; neither failure keeps the other from it.\<close>

definition openstack_create_volume_group :: "os_servers \<Rightarrow> volume_group \<Rightarrow> (err + volume_group) os" where
  "openstack_create_volume_group sv g =
     given (train_create_volume_group_type sv \<lparr>ogt_id = [], ogt_name = vg_name g, ogt_description = vg_description g,
         ogt_is_public = True\<rparr>) (\<lambda>t.
     undoing (train_delete_volume_group_type sv (ogt_id t))
       (created_or_undone (train_create_volume_group sv (group_request g (ogt_id t)))
         (\<lambda>x. train_delete_volume_group sv (ogr_id x) False) (\<lambda>x _. succeed (group_of x))))"

definition group_snapshot_request :: "string \<Rightarrow> volume_group_snapshot \<Rightarrow> os_group_snapshot" where
  "group_snapshot_request u g = \<lparr>ogs_group_id = u, ogs_name = vgs_name g, ogs_description = vgs_description g, ogs_id = [],
     ogs_status = [], ogs_created_at = [], ogs_group_type_id = [], ogs_project_uuid = []\<rparr>"

definition openstack_create_volume_group_snapshot ::
    "os_servers \<Rightarrow> string \<times> volume_group_snapshot \<Rightarrow> (err + volume_group_snapshot) os" where
  "openstack_create_volume_group_snapshot sv req = (case req of (u, g) \<Rightarrow>
     created_or_undone (train_create_volume_group_snapshot sv (group_snapshot_request u g)) (\<lambda>x. train_delete_volume_group_snapshot sv (ogs_id x)) (\<lambda>x _. succeed (group_snapshot_of x)))"

definition openstack_delete_volume_group_snapshot :: "os_servers \<Rightarrow> string \<Rightarrow> err option os" where
  "openstack_delete_volume_group_snapshot sv u = train_delete_volume_group_snapshot sv u"

text \<open>The volumes of a group are changed six at a time; \<open>None\<close> when none are left.\<close>

definition part_volumes :: "nat \<Rightarrow> string list \<Rightarrow> string list option" where
  "part_volumes i vs = (let retry = length vs div 6 in
     if i > retry then None
     else if i = retry then (if length vs mod 6 = 0 then None else Some (drop (i * 6) vs))
     else Some (take 6 (drop (i * 6) vs)))"

text \<open>\<open>strings.Join(parts, ",")\<close> of a part, which is empty when it is nil.\<close>

fun comma_joined :: "string list \<Rightarrow> string" where
  "comma_joined [] = []"
| "comma_joined [u] = u"
| "comma_joined (u # us) = u @ '','' @ comma_joined us"

definition joined :: "string list option \<Rightarrow> string" where
  "joined p = (case p of None \<Rightarrow> [] | Some us \<Rightarrow> comma_joined us)"

lemma part_volumes_bound: "part_volumes i vs = Some p \<Longrightarrow> i \<le> length vs div 6"
  by (auto simp: part_volumes_def Let_def split: if_splits)

lemma parts_left_bound:
  "\<not> (part_volumes i add = None \<and> part_volumes i del = None) \<Longrightarrow> i \<le> length add div 6 + length del div 6"
  using part_volumes_bound [of i add] part_volumes_bound [of i del] by fastforce

function update_parts :: "os_servers \<Rightarrow> string \<Rightarrow> string \<Rightarrow> string \<Rightarrow> string list \<Rightarrow> string list \<Rightarrow> nat \<Rightarrow> err option os" where
  "update_parts sv u n d add del i =
     (if part_volumes i add = None \<and> part_volumes i del = None then return_nil
      else check (train_update_volume_group sv u \<lparr>gu_name = n, gu_description = d, gu_add_volumes = joined (part_volumes i add),
          gu_remove_volumes = joined (part_volumes i del)\<rparr>) (update_parts sv u n d add del (Suc i)))"
  by auto

termination
  by (relation "measure (\<lambda>(_, _, _, _, add, del, i). Suc (length add div 6 + length del div 6) - i)")
    (simp_all add: parts_left_bound Suc_diff_le)

declare update_parts.simps [simp del]

definition openstack_update_volume_group ::
    "os_servers \<Rightarrow> volume_group \<times> cluster_volume list \<times> cluster_volume list \<Rightarrow> err option os" where
  "openstack_update_volume_group sv req = (case req of (g, add, del) \<Rightarrow> do {
     r \<leftarrow> train_show_volume_group_details sv (vg_uuid g) True;
     case r of
       Inl ClientNotFound \<Rightarrow> return_nil
     | Inl e \<Rightarrow> State_Monad.return (Some e)
     | Inr x \<Rightarrow> update_parts sv (vg_uuid g) (vg_name g) (vg_description g)
         (filter (\<lambda>v. v \<notin> set (ogr_volumes x)) (map vol_uuid add)) (filter (\<lambda>v. v \<in> set (ogr_volumes x)) (map vol_uuid del)) 0
   })"

fun delete_group_snapshots :: "os_servers \<Rightarrow> string \<Rightarrow> os_group_snapshot list \<Rightarrow> err option os" where
  "delete_group_snapshots sv u [] = return_nil"
| "delete_group_snapshots sv u (g # gs) =
     check (if ogs_group_id g = u then train_delete_volume_group_snapshot sv (ogs_id g) else return_nil)
       (delete_group_snapshots sv u gs)"

definition openstack_delete_volume_group :: "os_servers \<Rightarrow> volume_group \<Rightarrow> err option os" where
  "openstack_delete_volume_group sv g = do {
     r \<leftarrow> train_show_volume_group_details sv (vg_uuid g) True;
     case r of
       Inl ClientNotFound \<Rightarrow> return_nil
     | Inl e \<Rightarrow> State_Monad.return (Some e)
     | Inr x \<Rightarrow> fetch (train_list_volume_group_snapshots_with_details sv) (\<lambda>gs.
         check (delete_group_snapshots sv (vg_uuid g) gs)
         (check (update_parts sv (vg_uuid g) [] [] [] (ogr_volumes x) 0)
         (check (train_delete_volume_group sv (vg_uuid g) False)
           (train_delete_volume_group_type sv (ogr_group_type x)))))
   }"

section \<open>Keypairs, specs and instances\<close>

definition openstack_create_keypair :: "os_servers \<Rightarrow> cluster_keypair \<Rightarrow> (err + cluster_keypair) os" where
  "openstack_create_keypair sv k = given (train_import_or_create_keypair sv \<lparr>okp_name = kp_name k, okp_fingerprint = [],
       okp_public_key = kp_public_key k, okp_type_code = kp_type_code k\<rparr>) (\<lambda>x.
     succeed ((keypair_row None)\<lparr>kp_name := okp_name x, kp_fingerprint := okp_fingerprint x, kp_public_key := okp_public_key x,
       kp_type_code := okp_type_code x\<rparr>))"

definition openstack_delete_keypair :: "os_servers \<Rightarrow> string \<Rightarrow> err option os" where
  "openstack_delete_keypair sv n = train_delete_keypair sv n"

definition flavor_request :: "cluster_instance_spec \<Rightarrow> os_flavor" where
  "flavor_request p = \<lparr>ofl_uuid = [], ofl_name = sp_name p, ofl_description = None, ofl_vcpus = sp_vcpu_total_cnt p,
     ofl_ram_mib = sp_mem_total_bytes p div (1024 * 1024), ofl_disk_gib = sp_disk_total_bytes p div (1024 * 1024 * 1024),
     ofl_swap_mib = sp_swap_total_bytes p div (1024 * 1024),
     ofl_ephemeral_gib = sp_ephemeral_total_bytes p div (1024 * 1024 * 1024), ofl_extra_specs = []\<rparr>"

text \<open>The extra specs as a map: the last value of a key counts.\<close>

definition extra_spec_map :: "cluster_instance_extra_spec list \<Rightarrow> (string \<times> string) list" where
  "extra_spec_map es = fold (\<lambda>e. AList.update (es_key e) (es_value e)) es []"

definition openstack_create_instance_spec ::
    "os_servers \<Rightarrow> cluster_instance_spec \<times> cluster_instance_extra_spec list \<Rightarrow>
     (err + cluster_instance_spec \<times> cluster_instance_extra_spec list) os" where
  "openstack_create_instance_spec sv req = (case req of (p, es) \<Rightarrow>
     given (train_create_flavor sv (flavor_request p)) (\<lambda>f.
     undoing (train_delete_flavor sv (ofl_uuid f))
       (given (train_create_extra_specs_for_flavor sv (ofl_uuid f) (extra_spec_map es)) (\<lambda>m.
         succeed (spec_of f, map (\<lambda>(k, v). extra_spec k v) m)))))"

definition openstack_delete_instance_spec :: "os_servers \<Rightarrow> string \<Rightarrow> err option os" where
  "openstack_delete_instance_spec sv u = train_delete_flavor sv u"

text \<open>The ports created so far are the result beside the error.\<close>

definition port_request :: "string list \<Rightarrow> assigned_network \<Rightarrow> os_port" where
  "port_request groups n = \<lparr>pt_uuid = [], pt_network_uuid = nw_uuid (an_network n),
     pt_fixed_ips = [\<lparr>fx_subnet_uuid = sn_uuid (an_subnet n), fx_ip_address = an_ip_address n\<rparr>], pt_device_id = [],
     pt_device_owner = [], pt_project_id = [], pt_security_groups = groups\<rparr>"

fun create_ports :: "os_servers \<Rightarrow> string list \<Rightarrow> assigned_network list \<Rightarrow> string list \<Rightarrow> (string list \<times> err option) os" where
  "create_ports sv groups [] ports = State_Monad.return (ports, None)"
| "create_ports sv groups (n # ns) ports = do {
     p \<leftarrow> train_create_port sv (port_request groups n);
     case p of
       Inl e \<Rightarrow> State_Monad.return (ports, Some e)
     | Inr p \<Rightarrow> (case an_floating_ip n of
         None \<Rightarrow> create_ports sv groups ns (ports @ [pt_uuid p])
       | Some f \<Rightarrow> do {
           r \<leftarrow> train_update_floating_ip sv (fip_uuid f) \<lparr>fu_port_id = pt_uuid p, fu_fixed_ip_address = an_ip_address n,
             fu_description = fip_description f\<rparr>;
           case r of
             Inl e \<Rightarrow> State_Monad.return (ports @ [pt_uuid p], Some e)
           | Inr _ \<Rightarrow> create_ports sv groups ns (ports @ [pt_uuid p])
         })
   }"

fun delete_ports :: "os_servers \<Rightarrow> string list \<Rightarrow> unit os" where
  "delete_ports sv [] = State_Monad.return ()"
| "delete_ports sv (p # ps) = ignoring (train_delete_port sv p) (delete_ports sv ps)"

definition server_request :: "instance_call \<Rightarrow> string list \<Rightarrow> server_creation" where
  "server_request q ports = \<lparr>sc_name = ins_name (ic_instance q), sc_flavor_ref = ic_spec_uuid q, sc_key_name = ic_keypair_name q,
     sc_zone_name = ic_zone_name q, sc_hypervisor_hostname = ic_hostname q, sc_user_data = ic_user_data q,
     sc_description = ins_description (ic_instance q), sc_networks = ports,
     sc_block_devices = map (\<lambda>v. \<lparr>bd_uuid = vol_uuid (av_volume v), bd_boot_index = av_boot_index v,
       bd_device_name = av_device_path v, bd_source_type = ''volume'', bd_destination_type = ''volume'', bd_volume_type = []\<rparr>)
       (ic_volumes q),
     sc_security_groups = map sg_name (ic_security_groups q)\<rparr>"

text \<open>The rollback deletes the server, when there is one, and then the ports, whatever fails.\<close>

definition openstack_create_instance :: "os_servers \<Rightarrow> instance_call \<Rightarrow> (err + cluster_instance) os" where
  "openstack_create_instance sv q = do {
     (ports, e) \<leftarrow> create_ports sv (map sg_uuid (ic_security_groups q)) (ic_networks q) [];
     undoing (delete_ports sv ports) (after (State_Monad.return e)
       (created_or_undone (train_create_server sv (server_request q ports)) (train_delete_server sv) (\<lambda>u _.
         given (train_show_server_details sv u) (\<lambda>(s, raw).
         given (State_Monad.return (instance_state s)) (\<lambda>state. succeed (instance_of s state raw))))))
   }"

text \<open>The ports are those before the deletion, and they are deleted whether it succeeds or not.\<close>

definition openstack_delete_instance :: "os_servers \<Rightarrow> string \<Rightarrow> err option os" where
  "openstack_delete_instance sv u = fetch (train_list_port_interfaces sv u) (\<lambda>ps. do {
     e \<leftarrow> train_delete_server sv u;
     r \<leftarrow> (case e of None \<Rightarrow> return_nil | Some _ \<Rightarrow> train_force_delete_server sv u);
     _ \<leftarrow> delete_ports sv (map pif_port_id ps);
     State_Monad.return r
   })"

definition openstack_start_instance :: "os_servers \<Rightarrow> string \<Rightarrow> err option os" where
  "openstack_start_instance sv u = train_start_server sv u"

definition openstack_stop_instance :: "os_servers \<Rightarrow> string \<Rightarrow> err option os" where
  "openstack_stop_instance sv u = train_stop_server sv u"

text \<open>The groups of a server, which a creation names itself by now.\<close>

fun add_security_group :: "os_servers \<Rightarrow> string \<Rightarrow> cluster_security_group list \<Rightarrow> err option os" where
  "add_security_group sv u [] = return_nil"
| "add_security_group sv u (g # gs) = check (train_add_security_group_to_server sv u (sg_name g)) (add_security_group sv u gs)"

definition remove_security_group :: "os_servers \<Rightarrow> string \<Rightarrow> string \<Rightarrow> err option os" where
  "remove_security_group sv u n = ignoring (train_remove_security_group_to_server sv u n) return_nil"

text \<open>
  The storages of an instance are looked at before it is created: one of NFS has to have an export. The
  exports are read from the metadata in the store; a value that is no list of strings is a failed type
  assertion.
\<close>

fun all_strings :: "json list \<Rightarrow> bool" where
  "all_strings [] = True"
| "all_strings (JStr _ # vs) = all_strings vs"
| "all_strings (_ # vs) = False"

definition exports_error :: "metadata \<Rightarrow> err option" where
  "exports_error md = (case map_of md ''exports'' of
       Some (JArr vs) \<Rightarrow> if vs = [] then Some (Unknown ''not found export'')
         else if all_strings vs then None else Some NilDereference
     | _ \<Rightarrow> Some NilDereference)"

fun preprocess_creating_instance :: "cluster_storage list \<Rightarrow> err option op" where
  "preprocess_creating_instance [] = return_nil"
| "preprocess_creating_instance (s # ss) =
     (if st_type_code s \<noteq> ''openstack.storage.type.nfs'' then preprocess_creating_instance ss
      else fetch (get_storage (st_cluster_id s) (st_id s)) (\<lambda>d.
        fetch (get_storage_metadata d) (\<lambda>md.
          check (State_Monad.return (exports_error md)) (preprocess_creating_instance ss))))"

end
