(* ===== verification/TrainResults.thy ===== *)
theory TrainResults
  imports TrainIdentity TrainVolume TrainCompute
begin

text \<open>
  What holds of the client of OpenStack (\<open>client/openstack/train\<close>): where the token of a connection goes
  to, how many requests an operation makes and that its waiting ends, and what a login does with the tokens
  it has and with the failures of the server.
\<close>

named_theorems quiet_intros "operations that send only requests of their connection"

section \<open>Requests of a connection\<close>

definition token_key_of :: "os_state \<Rightarrow> string" where
  "token_key_of s = (case os_token s of None \<Rightarrow> [] | Some t \<Rightarrow> tk_key t)"

text \<open>A request of the connection carries its token, to an address below one of its endpoints.\<close>

definition own_request :: "os_state \<Rightarrow> http_request \<Rightarrow> bool" where
  "own_request s r \<longleftrightarrow> hq_token r = Some (token_key_of s) \<and>
     (\<exists>service u rest. map_of (os_endpoints s) service = Some u \<and> hq_url r = u @ rest)"

text \<open>
  At most \<open>n\<close> requests are made, all of them requests of the connection. The connection stays what it is, no
  token enters the cache, and the clock is not turned back.
\<close>

definition makes_own :: "nat \<Rightarrow> 'a os \<Rightarrow> bool" where
  "makes_own n m \<longleftrightarrow> (\<forall>s. let s' = snd (run_state m s) in
     (\<exists>rs. os_sent s' = os_sent s @ rs \<and> length rs \<le> n \<and> (\<forall>r \<in> set rs. own_request s r)) \<and>
     os_token s' = os_token s \<and> os_endpoints s' = os_endpoints s \<and>
     set (os_tokens s') \<subseteq> set (os_tokens s) \<and> os_time s \<le> os_time s')"

lemma own_request_cong: "os_token s = os_token s' \<Longrightarrow> os_endpoints s = os_endpoints s' \<Longrightarrow> own_request s = own_request s'"
  by (simp add: own_request_def token_key_of_def fun_eq_iff)

lemma makes_ownI:
  assumes "\<And>s. \<exists>rs. os_sent (snd (run_state m s)) = os_sent s @ rs \<and> length rs \<le> n \<and> (\<forall>r \<in> set rs. own_request s r)"
    and "\<And>s. os_token (snd (run_state m s)) = os_token s" and "\<And>s. os_endpoints (snd (run_state m s)) = os_endpoints s"
    and "\<And>s. set (os_tokens (snd (run_state m s))) \<subseteq> set (os_tokens s)" and "\<And>s. os_time s \<le> os_time (snd (run_state m s))"
  shows "makes_own n m"
  unfolding makes_own_def Let_def using assms by blast

lemma makes_ownE:
  assumes "makes_own n m"
  obtains rs where "os_sent (snd (run_state m s)) = os_sent s @ rs" and "length rs \<le> n" and "\<And>r. r \<in> set rs \<Longrightarrow> own_request s r"
    and "os_token (snd (run_state m s)) = os_token s" and "os_endpoints (snd (run_state m s)) = os_endpoints s"
    and "set (os_tokens (snd (run_state m s))) \<subseteq> set (os_tokens s)" and "os_time s \<le> os_time (snd (run_state m s))"
  using assms unfolding makes_own_def Let_def by metis

lemma makes_own_mono: "makes_own n m \<Longrightarrow> n \<le> k \<Longrightarrow> makes_own k m"
  unfolding makes_own_def Let_def by (meson le_trans)

lemma makes_own_time: "makes_own n m \<Longrightarrow> os_time s \<le> os_time (snd (run_state m s))"
  unfolding makes_own_def Let_def by blast

lemma makes_own_return [quiet_intros]: "makes_own n (State_Monad.return x)"
  by (rule makes_ownI) simp_all

lemma makes_own_nil [quiet_intros]: "makes_own n return_nil"
  by (simp add: return_nil_def makes_own_return)

lemma makes_own_succeed [quiet_intros]: "makes_own n (succeed x)"
  by (simp add: succeed_def makes_own_return)

lemma makes_own_failed [quiet_intros]: "makes_own n (failed_with e)"
  by (simp add: failed_with_def makes_own_return)

lemma makes_own_get: "makes_own n State_Monad.get"
  by (rule makes_ownI) simp_all

text \<open>What is done one after the other makes the requests of both.\<close>

lemma makes_own_bind:
  assumes "makes_own n m" and "\<And>x. makes_own k (f x)"
  shows "makes_own (n + k) (State_Monad.bind m f)"
  unfolding makes_own_def Let_def
proof (intro allI)
  fix s
  obtain x s1 where m: "run_state m s = (x, s1)" by force
  show "(\<exists>rs. os_sent (snd (run_state (State_Monad.bind m f) s)) = os_sent s @ rs \<and> length rs \<le> n + k \<and>
        (\<forall>r \<in> set rs. own_request s r)) \<and>
      os_token (snd (run_state (State_Monad.bind m f) s)) = os_token s \<and>
      os_endpoints (snd (run_state (State_Monad.bind m f) s)) = os_endpoints s \<and>
      set (os_tokens (snd (run_state (State_Monad.bind m f) s))) \<subseteq> set (os_tokens s) \<and>
      os_time s \<le> os_time (snd (run_state (State_Monad.bind m f) s))"
  proof (rule makes_ownE [OF assms(1), of s], rule makes_ownE [OF assms(2), of x s1], goal_cases)
    case (1 rs rs')
    then have "own_request s1 = own_request s" by (intro own_request_cong) (simp_all add: m)
    with 1 show ?case by (auto simp: m intro!: exI [of _ "rs @ rs'"])
  qed
qed

lemma makes_own_ignoring: "makes_own n m \<Longrightarrow> makes_own k m' \<Longrightarrow> makes_own (n + k) (ignoring m m')"
  by (simp add: ignoring_def makes_own_bind)

lemma makes_own_given:
  assumes "makes_own n m" and "\<And>x. makes_own k (f x)"
  shows "makes_own (n + k) (given m f)"
  unfolding given_def by (rule makes_own_bind [OF assms(1)]) (auto intro: makes_own_return assms(2) split: sum.split)

lemma makes_own_given_quiet [quiet_intros]:
  "makes_own n m \<Longrightarrow> (\<And>x. makes_own 0 (f x)) \<Longrightarrow> makes_own n (given m f)"
  using makes_own_given [of n m 0 f] by simp

lemma makes_own_fetch_quiet [quiet_intros]:
  assumes "makes_own n m" and "\<And>x. makes_own 0 (f x)"
  shows "makes_own n (fetch m f)"
proof -
  have "makes_own (n + 0) (fetch m f)"
    unfolding fetch_def by (rule makes_own_bind [OF assms(1)]) (auto intro: makes_own_return assms(2) split: sum.split)
  then show ?thesis by simp
qed

lemma makes_own_check:
  assumes "makes_own n m" and "makes_own k m'"
  shows "makes_own (n + k) (check m m')"
  unfolding check_def by (rule makes_own_bind [OF assms(1)]) (auto intro: makes_own_return assms(2) split: option.split)

lemma makes_own_prod [quiet_intros]: "(\<And>x y. makes_own n (f x y)) \<Longrightarrow> makes_own n (case p of (x, y) \<Rightarrow> f x y)"
  by (simp split: prod.split)

lemma makes_own_if [quiet_intros]: "makes_own n a \<Longrightarrow> makes_own n b \<Longrightarrow> makes_own n (if c then a else b)"
  by simp

section \<open>One request\<close>

lemma run_get_token_key [simp]: "run_state get_token_key s = (token_key_of s, s)"
  by (simp add: get_token_key_def token_key_of_def)

lemma run_delete_token [simp]:
  "run_state (delete_token k) s = ((), s\<lparr>os_tokens := filter (\<lambda>(_, t). tk_key t \<noteq> k) (os_tokens s)\<rparr>)"
  by (simp add: delete_token_def State_Monad.update_def)

text \<open>The endpoint a service is reached under, below the one of the catalogue.\<close>

definition reached_under :: "os_state \<Rightarrow> string \<Rightarrow> (err + string)" where
  "reached_under s service = fst (run_state (get_endpoint service) s)"

lemma run_get_endpoint: "run_state (get_endpoint service) s = (reached_under s service, s)"
  by (simp add: reached_under_def get_endpoint_def)

lemma reached_under_below:
  "reached_under s service = Inr u \<Longrightarrow> \<exists>v rest. map_of (os_endpoints s) service = Some v \<and> u = v @ rest"
  by (auto simp: reached_under_def get_endpoint_def split: option.splits if_splits)

definition request_of ::
    "os_state \<Rightarrow> string \<Rightarrow> http_method \<Rightarrow> (string \<Rightarrow> string) \<Rightarrow> string option \<Rightarrow> http_body \<Rightarrow> http_request" where
  "request_of s u m url version body =
     \<lparr>hq_method = m, hq_url = url u, hq_token = Some (token_key_of s), hq_version = version, hq_body = body\<rparr>"

lemma own_request_of:
  assumes "reached_under s service = Inr u" and "\<And>u. \<exists>rest. url u = u @ rest"
  shows "own_request s (request_of s u m url version body)"
proof -
  obtain v rest where v: "map_of (os_endpoints s) service = Some v" "u = v @ rest" using reached_under_below [OF assms(1)] by blast
  moreover obtain rest' where "url u = u @ rest'" using assms(2) by blast
  ultimately show ?thesis by (auto simp: own_request_def request_of_def)
qed

text \<open>
  What one request does: nothing is sent without an endpoint; otherwise it is sent once, and a code from 400 on
  takes the token of the connection out of the cache.
\<close>

lemma run_exchange:
  "run_state (exchange serve service m url version body codes) s =
     (case reached_under s service of Inl e \<Rightarrow> (Inl e, s)
      | Inr u \<Rightarrow> (case serve (os_sent s) (request_of s u m url version body) of (d, a) \<Rightarrow>
          (let s' = s\<lparr>os_sent := os_sent s @ [request_of s u m url version body], os_time := os_time s + d\<rparr> in
           case a of NotSent e \<Rightarrow> (Inl e, s')
           | Answered r x \<Rightarrow> if hp_code r \<ge> 400
               then (case refusal codes r of Some e \<Rightarrow> Inl e | None \<Rightarrow> Inr (r, x),
                     s'\<lparr>os_tokens := filter (\<lambda>(_, t). tk_key t \<noteq> token_key_of s) (os_tokens s)\<rparr>)
               else (Inr (r, x), s'))))"
  by (simp add: exchange_def given_def run_get_endpoint request_def failed_with_def succeed_def request_of_def
        token_key_of_def Let_def split: sum.split prod.split answer.split option.split)

lemma makes_own_exchange:
  assumes "\<And>u. \<exists>rest. url u = u @ rest"
  shows "makes_own 1 (exchange serve service m url version body codes)"
  unfolding makes_own_def Let_def
  by (auto simp: run_exchange Let_def own_request_of [OF _ assms] split: sum.split prod.split answer.split)

lemma makes_own_reads [quiet_intros]:
  "(\<And>u. \<exists>rest. url u = u @ rest) \<Longrightarrow> makes_own 1 (reads serve pick service m url version body codes)"
  unfolding reads_def by (intro makes_own_given_quiet makes_own_exchange makes_own_return)

lemma makes_own_sends [quiet_intros]:
  "(\<And>u. \<exists>rest. url u = u @ rest) \<Longrightarrow> makes_own 1 (sends serve service m url version body codes)"
  unfolding sends_def by (intro makes_own_fetch_quiet makes_own_exchange makes_own_nil)

lemma makes_own_value_of [quiet_intros]: "makes_own n m \<Longrightarrow> makes_own n (value_of m)"
  unfolding value_of_def by (auto intro!: makes_own_given_quiet makes_own_succeed split: prod.split)

lemma makes_own_with_raw [quiet_intros]: "makes_own n m \<Longrightarrow> makes_own n (with_raw m)"
  unfolding with_raw_def by (auto intro!: makes_own_given_quiet makes_own_succeed split: prod.split)

lemma makes_own_judged [quiet_intros]: "makes_own n m \<Longrightarrow> makes_own n (judged m f)"
  unfolding judged_def using makes_own_bind [of n m 0] makes_own_return by fastforce

lemma makes_own_gone [quiet_intros]: "makes_own n m \<Longrightarrow> makes_own n (gone m f)"
  unfolding gone_def using makes_own_bind [of n m 0] makes_own_return by fastforce

lemma makes_own_awaited:
  assumes "makes_own n m" and "\<And>p x. makes_own k (look p x)"
  shows "makes_own (n + k) (awaited m look)"
proof -
  have "makes_own (k + 0) (State_Monad.bind (look p x) (\<lambda>e. State_Monad.return (g e)))" for p x and g :: "err option \<Rightarrow> 'b created"
    by (rule makes_own_bind) (rule assms(2) makes_own_return)+
  then show ?thesis
    unfolding awaited_def by (intro makes_own_bind [OF assms(1)]) (auto intro: makes_own_return split: sum.split prod.split)
qed

section \<open>Waiting\<close>

lemma run_wait_for [simp]: "run_state (wait_for d) s = ((), s\<lparr>os_time := os_time s + d\<rparr>)"
  by (simp add: wait_for_def State_Monad.update_def)

text \<open>Each round of the loop: look, and when nothing is decided wait for the next round or for the end.\<close>

lemma run_wait_rounds_Suc:
  "run_state (wait_rounds (Suc n) deadline interval look) s =
     (case run_state look s of (v, s') \<Rightarrow> (case v of
        Finished \<Rightarrow> (None, s') | Failed e \<Rightarrow> (Some e, s')
      | Pending \<Rightarrow> if deadline \<le> os_time s' + interval then (Some timed_out, s'\<lparr>os_time := os_time s' + (deadline - os_time s')\<rparr>)
          else run_state (wait_rounds n deadline interval look) (s'\<lparr>os_time := os_time s' + interval\<rparr>)))"
  by (simp add: return_nil_def ignoring_def split: prod.split verdict.split)

lemma run_wait_rounds_0: "run_state (wait_rounds 0 deadline interval look) s = (Some timed_out, s)"
  by simp

declare wait_rounds.simps [simp del]

text \<open>A clock that is not turned back reaches the end after so many rounds; more rounds change nothing.\<close>

lemma wait_rounds_enough:
  assumes "\<And>s. os_time s \<le> os_time (snd (run_state look s))"
    and "deadline \<le> os_time s + m * interval" and "1 \<le> m" and "m \<le> n"
  shows "run_state (wait_rounds n deadline interval look) s = run_state (wait_rounds m deadline interval look) s"
  using assms(2-4)
proof (induction m arbitrary: n s)
  case 0
  then show ?case by simp
next
  case (Suc m)
  from Suc.prems(3) obtain n' where n: "n = Suc n'" "m \<le> n'" by (cases n) auto
  obtain v s' where v: "run_state look s = (v, s')" by force
  have le: "os_time s \<le> os_time s'" using assms(1) [of s] by (simp add: v)
  show ?case
  proof (cases "deadline \<le> os_time s' + interval")
    case True
    then show ?thesis by (simp only: n run_wait_rounds_Suc v prod.case if_True)
  next
    case False
    then have "1 \<le> m" using Suc.prems(1) le by (cases m) auto
    moreover have "deadline \<le> os_time s' + interval + m * interval" using Suc.prems(1) le by simp
    ultimately have "run_state (wait_rounds n' deadline interval look) (s'\<lparr>os_time := os_time s' + interval\<rparr>) =
        run_state (wait_rounds m deadline interval look) (s'\<lparr>os_time := os_time s' + interval\<rparr>)"
      using n(2) by (intro Suc.IH) simp_all
    then show ?thesis by (simp only: n run_wait_rounds_Suc v prod.case)
  qed
qed

lemma makes_own_wait_rounds:
  assumes "makes_own 1 look" and "deadline \<le> os_time s + m * interval" and "1 \<le> m"
  shows "\<exists>rs. os_sent (snd (run_state (wait_rounds n deadline interval look) s)) = os_sent s @ rs \<and> length rs \<le> m \<and>
      (\<forall>r \<in> set rs. own_request s r)"
    and "os_token (snd (run_state (wait_rounds n deadline interval look) s)) = os_token s"
    and "os_endpoints (snd (run_state (wait_rounds n deadline interval look) s)) = os_endpoints s"
    and "set (os_tokens (snd (run_state (wait_rounds n deadline interval look) s))) \<subseteq> set (os_tokens s)"
    and "os_time s \<le> os_time (snd (run_state (wait_rounds n deadline interval look) s))"
proof -
  let ?ok = "\<lambda>m s s'. (\<exists>rs. os_sent s' = os_sent s @ rs \<and> length rs \<le> m \<and> (\<forall>r \<in> set rs. own_request s r)) \<and>
     os_token s' = os_token s \<and> os_endpoints s' = os_endpoints s \<and>
     set (os_tokens s') \<subseteq> set (os_tokens s) \<and> os_time s \<le> os_time s'"
  have "?ok m s (snd (run_state (wait_rounds n deadline interval look) s))"
    using assms(2,3)
  proof (induction n arbitrary: m s)
    case 0
    then show ?case by (simp add: run_wait_rounds_0)
  next
    case (Suc n)
    obtain v s1 where v: "run_state look s = (v, s1)" by force
    obtain rs where s1: "os_sent s1 = os_sent s @ rs" "length rs \<le> 1" "\<And>r. r \<in> set rs \<Longrightarrow> own_request s r"
      "os_token s1 = os_token s" "os_endpoints s1 = os_endpoints s" "set (os_tokens s1) \<subseteq> set (os_tokens s)"
      "os_time s \<le> os_time s1"
      using makes_ownE [OF assms(1), of s] by (metis v snd_conv)
    let ?t = "s1\<lparr>os_time := os_time s1 + interval\<rparr>"
    have once: "?ok m s s1" using s1 Suc.prems(2) by auto
    show ?case
    proof (cases "v = Pending \<and> \<not> deadline \<le> os_time s1 + interval")
      case False
      with once show ?thesis by (auto simp: run_wait_rounds_Suc v own_request_def token_key_of_def split: verdict.split)
    next
      case True
      then have m: "1 \<le> m - 1" "deadline \<le> os_time ?t + (m - 1) * interval"
        using Suc.prems s1(7) by (cases m; cases "m - 1"; auto)+
      have "own_request ?t = own_request s" by (intro own_request_cong) (simp_all add: s1)
      moreover have "?ok (m - 1) ?t (snd (run_state (wait_rounds n deadline interval look) ?t))" by (rule Suc.IH [OF m(2,1)])
      ultimately have "?ok m s (snd (run_state (wait_rounds n deadline interval look) ?t))"
        using s1 m(1) by (auto intro!: exI [of _ "rs @ _"])
      then show ?thesis using True by (simp only: run_wait_rounds_Suc v prod.case verdict.case if_False simp_thms)
    qed
  qed
  then show "\<exists>rs. os_sent (snd (run_state (wait_rounds n deadline interval look) s)) = os_sent s @ rs \<and> length rs \<le> m \<and>
      (\<forall>r \<in> set rs. own_request s r)"
    and "os_token (snd (run_state (wait_rounds n deadline interval look) s)) = os_token s"
    and "os_endpoints (snd (run_state (wait_rounds n deadline interval look) s)) = os_endpoints s"
    and "set (os_tokens (snd (run_state (wait_rounds n deadline interval look) s))) \<subseteq> set (os_tokens s)"
    and "os_time s \<le> os_time (snd (run_state (wait_rounds n deadline interval look) s))" by blast+
qed

lemma makes_own_waiting:
  assumes "makes_own 1 look" and "timeout \<le> k * interval" and "1 \<le> k"
  shows "makes_own k (waiting timeout interval look)"
proof -
  have run: "run_state (waiting timeout interval look) s =
      run_state (wait_rounds (Suc (timeout div interval)) (os_time s + 1000 * timeout) (1000 * interval) look) s" for s
    by (simp add: waiting_def)
  have "os_time s + 1000 * timeout \<le> os_time s + k * (1000 * interval)" for s :: os_state
    using assms(2) by (metis mult.commute mult.left_commute mult_le_mono2 nat_add_left_cancel_le)
  note loop = makes_own_wait_rounds [OF assms(1) this assms(3), where n = "Suc (timeout div interval)"]
  show ?thesis by (rule makes_ownI; unfold run; rule loop)
qed

text \<open>The rounds \<open>waiting\<close> allows are enough: with more of them it does the same.\<close>

lemma waiting_any_rounds:
  assumes "makes_own n look" and "0 < interval" and "timeout div interval < k"
  shows "run_state (wait_rounds k (os_time s + 1000 * timeout) (1000 * interval) look) s = run_state (waiting timeout interval look) s"
proof -
  have "timeout \<le> Suc (timeout div interval) * interval" using assms(2) by (simp add: dividend_less_div_times less_imp_le add.commute)
  then have "1000 * timeout \<le> 1000 * (Suc (timeout div interval) * interval)" by (rule mult_le_mono2)
  then have "os_time s + 1000 * timeout \<le> os_time s + Suc (timeout div interval) * (1000 * interval)"
    by (simp only: mult.left_commute nat_add_left_cancel_le)
  then show ?thesis
    using wait_rounds_enough [OF makes_own_time [OF assms(1)], of "os_time s + 1000 * timeout" s "Suc (timeout div interval)"
        "1000 * interval" k] assms(3) by (simp add: waiting_def)
qed

section \<open>The operations\<close>

lemma check_then_waits: "makes_own 1 m \<Longrightarrow> makes_own k m' \<Longrightarrow> n = Suc k \<Longrightarrow> makes_own n (check m m')"
  using makes_own_check [of 1 m k m'] by simp

lemma awaited_then_waits: "makes_own 1 m \<Longrightarrow> (\<And>p x. makes_own k (look p x)) \<Longrightarrow> n = Suc k \<Longrightarrow> makes_own n (awaited m look)"
  using makes_own_awaited [of 1 m k look] by simp

lemmas first_then_waits = check_then_waits awaited_then_waits

lemma makes_own_train_create_project [quiet_intros]: "makes_own 1 (train_create_project sv p)"
  unfolding train_create_project_def by (rule quiet_intros exI refl)+

lemma makes_own_train_list_projects [quiet_intros]: "makes_own 1 (train_list_projects sv)"
  unfolding train_list_projects_def by (rule quiet_intros exI refl)+

lemma makes_own_train_show_project_details [quiet_intros]: "makes_own 1 (train_show_project_details sv i)"
  unfolding train_show_project_details_def by (rule quiet_intros exI refl)+

lemma makes_own_train_assign_role_to_user_on_project [quiet_intros]: "makes_own 1 (train_assign_role_to_user_on_project sv project user role)"
  unfolding train_assign_role_to_user_on_project_def by (rule quiet_intros exI refl)+

lemma makes_own_train_create_network [quiet_intros]: "makes_own 1 (train_create_network sv n)"
  unfolding train_create_network_def by (rule quiet_intros exI refl)+

lemma makes_own_train_delete_network [quiet_intros]: "makes_own 1 (train_delete_network sv i)"
  unfolding train_delete_network_def by (rule quiet_intros exI refl)+

lemma makes_own_train_list_networks [quiet_intros]: "makes_own 1 (train_list_networks sv)"
  unfolding train_list_networks_def by (rule quiet_intros exI refl)+

lemma makes_own_train_show_network_details [quiet_intros]: "makes_own 1 (train_show_network_details sv i)"
  unfolding train_show_network_details_def by (rule quiet_intros exI refl)+

lemma makes_own_train_create_subnet [quiet_intros]: "makes_own 1 (train_create_subnet sv s)"
  unfolding train_create_subnet_def by (rule quiet_intros exI refl)+

lemma makes_own_train_delete_subnet [quiet_intros]: "makes_own 1 (train_delete_subnet sv i)"
  unfolding train_delete_subnet_def by (rule quiet_intros exI refl)+

lemma makes_own_train_show_subnet_details [quiet_intros]: "makes_own 1 (train_show_subnet_details sv i)"
  unfolding train_show_subnet_details_def by (rule quiet_intros exI refl)+

lemma makes_own_train_create_port [quiet_intros]: "makes_own 1 (train_create_port sv p)"
  unfolding train_create_port_def by (rule quiet_intros exI refl)+

lemma makes_own_train_delete_port [quiet_intros]: "makes_own 1 (train_delete_port sv i)"
  unfolding train_delete_port_def by (rule quiet_intros exI refl)+

lemma makes_own_train_show_port_details [quiet_intros]: "makes_own 1 (train_show_port_details sv i)"
  unfolding train_show_port_details_def by (rule quiet_intros exI refl)+

lemma makes_own_train_list_ports [quiet_intros]: "makes_own 1 (train_list_ports sv owner device)"
  unfolding train_list_ports_def by (rule quiet_intros exI refl)+

lemma makes_own_train_create_router [quiet_intros]: "makes_own 1 (train_create_router sv r)"
  unfolding train_create_router_def by (rule quiet_intros exI refl)+

lemma makes_own_train_delete_router [quiet_intros]: "makes_own 1 (train_delete_router sv i)"
  unfolding train_delete_router_def by (rule quiet_intros exI refl)+

lemma makes_own_train_list_routers [quiet_intros]: "makes_own 1 (train_list_routers sv)"
  unfolding train_list_routers_def by (rule quiet_intros exI refl)+

lemma makes_own_train_show_router_details [quiet_intros]: "makes_own 1 (train_show_router_details sv i)"
  unfolding train_show_router_details_def by (rule quiet_intros exI refl)+

lemma makes_own_train_add_extra_routes_to_router [quiet_intros]: "makes_own 1 (train_add_extra_routes_to_router sv i rs)"
  unfolding train_add_extra_routes_to_router_def by (rule quiet_intros exI refl)+

lemma makes_own_train_remove_extra_routes_from_router [quiet_intros]: "makes_own 1 (train_remove_extra_routes_from_router sv i rs)"
  unfolding train_remove_extra_routes_from_router_def by (rule quiet_intros exI refl)+

lemma makes_own_train_add_interface_to_router [quiet_intros]: "makes_own 1 (train_add_interface_to_router sv i subnet port)"
  unfolding train_add_interface_to_router_def by (rule quiet_intros exI refl)+

lemma makes_own_train_remove_interface_from_router [quiet_intros]: "makes_own 1 (train_remove_interface_from_router sv i port subnet)"
  unfolding train_remove_interface_from_router_def by (rule quiet_intros exI refl)+

lemma makes_own_train_create_floating_ip [quiet_intros]: "makes_own 1 (train_create_floating_ip sv f)"
  unfolding train_create_floating_ip_def by (rule quiet_intros exI refl)+

lemma makes_own_train_list_floating_ips [quiet_intros]: "makes_own 1 (train_list_floating_ips sv i)"
  unfolding train_list_floating_ips_def by (rule quiet_intros exI refl)+

lemma makes_own_train_show_floating_ip_details [quiet_intros]: "makes_own 1 (train_show_floating_ip_details sv i)"
  unfolding train_show_floating_ip_details_def by (rule quiet_intros exI refl)+

lemma makes_own_train_delete_floating_ip [quiet_intros]: "makes_own 1 (train_delete_floating_ip sv i)"
  unfolding train_delete_floating_ip_def by (rule quiet_intros exI refl)+

lemma makes_own_train_update_floating_ip [quiet_intros]: "makes_own 1 (train_update_floating_ip sv i f)"
  unfolding train_update_floating_ip_def by (rule quiet_intros exI refl)+

lemma makes_own_train_list_floating_ips_by_port_interface [quiet_intros]: "makes_own 1 (train_list_floating_ips_by_port_interface sv port ip)"
  unfolding train_list_floating_ips_by_port_interface_def by (rule quiet_intros exI refl)+

lemma makes_own_train_create_security_group [quiet_intros]: "makes_own 1 (train_create_security_group sv g)"
  unfolding train_create_security_group_def by (rule quiet_intros exI refl)+

lemma makes_own_train_delete_security_group [quiet_intros]: "makes_own 1 (train_delete_security_group sv i)"
  unfolding train_delete_security_group_def by (rule quiet_intros exI refl)+

lemma makes_own_train_list_security_groups [quiet_intros]: "makes_own 1 (train_list_security_groups sv)"
  unfolding train_list_security_groups_def by (rule quiet_intros exI refl)+

lemma makes_own_train_show_security_group [quiet_intros]: "makes_own 1 (train_show_security_group sv i)"
  unfolding train_show_security_group_def by (rule quiet_intros exI refl)+

lemma makes_own_train_create_security_group_rule [quiet_intros]: "makes_own 1 (train_create_security_group_rule sv r)"
  unfolding train_create_security_group_rule_def by (rule quiet_intros exI refl)+

lemma makes_own_train_delete_security_group_rule [quiet_intros]: "makes_own 1 (train_delete_security_group_rule sv i)"
  unfolding train_delete_security_group_rule_def by (rule quiet_intros exI refl)+

lemma makes_own_train_show_security_group_rule [quiet_intros]: "makes_own 1 (train_show_security_group_rule sv i)"
  unfolding train_show_security_group_rule_def by (rule quiet_intros exI refl)+

lemma makes_own_train_list_all_network_agents [quiet_intros]: "makes_own 1 (train_list_all_network_agents sv)"
  unfolding train_list_all_network_agents_def by (rule quiet_intros exI refl)+

lemma makes_own_train_list_extensions [quiet_intros]: "makes_own 1 (train_list_extensions sv)"
  unfolding train_list_extensions_def by (rule quiet_intros exI refl)+

lemma makes_own_train_update_network_quota [quiet_intros]: "makes_own 1 (train_update_network_quota sv i q)"
  unfolding train_update_network_quota_def by (rule quiet_intros exI refl)+

lemma makes_own_train_show_network_quota [quiet_intros]: "makes_own 1 (train_show_network_quota sv i)"
  unfolding train_show_network_quota_def by (rule quiet_intros exI refl)+

lemma makes_own_train_list_all_volume_types [quiet_intros]: "makes_own 1 (train_list_all_volume_types sv)"
  unfolding train_list_all_volume_types_def by (rule quiet_intros exI refl)+

lemma makes_own_train_show_volume_type_detail [quiet_intros]: "makes_own 1 (train_show_volume_type_detail sv i)"
  unfolding train_show_volume_type_detail_def by (rule quiet_intros exI refl)+

lemma makes_own_train_show_default_volume_type [quiet_intros]: "makes_own 1 (train_show_default_volume_type sv)"
  unfolding train_show_default_volume_type_def by (rule quiet_intros exI refl)+

lemma makes_own_train_list_all_backend_storage_pools [quiet_intros]: "makes_own 1 (train_list_all_backend_storage_pools sv)"
  unfolding train_list_all_backend_storage_pools_def by (rule quiet_intros exI refl)+

lemma makes_own_train_list_all_cinder_services [quiet_intros]: "makes_own 1 (train_list_all_cinder_services sv)"
  unfolding train_list_all_cinder_services_def by (rule quiet_intros exI refl)+

lemma makes_own_train_list_summary_of_volumes_available_to_manage [quiet_intros]: "makes_own 1 (train_list_summary_of_volumes_available_to_manage sv host)"
  unfolding train_list_summary_of_volumes_available_to_manage_def by (rule quiet_intros exI refl)+

lemma makes_own_train_list_summary_of_snapshots_available_to_manage [quiet_intros]: "makes_own 1 (train_list_summary_of_snapshots_available_to_manage sv host)"
  unfolding train_list_summary_of_snapshots_available_to_manage_def by (rule quiet_intros exI refl)+

lemma makes_own_train_show_attachment_details [quiet_intros]: "makes_own 1 (train_show_attachment_details sv i)"
  unfolding train_show_attachment_details_def by (rule quiet_intros exI refl)+

lemma makes_own_train_list_accessible_volumes [quiet_intros]: "makes_own 1 (train_list_accessible_volumes sv)"
  unfolding train_list_accessible_volumes_def by (rule quiet_intros exI refl)+

lemma makes_own_train_show_volume_details [quiet_intros]: "makes_own 1 (train_show_volume_details sv i)"
  unfolding train_show_volume_details_def by (rule quiet_intros exI refl)+

lemma makes_own_train_update_volume_bootable_status [quiet_intros]: "makes_own 1 (train_update_volume_bootable_status sv i b)"
  unfolding train_update_volume_bootable_status_def by (rule quiet_intros exI refl)+

lemma makes_own_train_list_accessible_snapshots [quiet_intros]: "makes_own 1 (train_list_accessible_snapshots sv)"
  unfolding train_list_accessible_snapshots_def by (rule quiet_intros exI refl)+

lemma makes_own_train_show_volume_snapshot_details [quiet_intros]: "makes_own 1 (train_show_volume_snapshot_details sv i)"
  unfolding train_show_volume_snapshot_details_def by (rule quiet_intros exI refl)+

lemma makes_own_train_list_all_volume_groups [quiet_intros]: "makes_own 1 (train_list_all_volume_groups sv)"
  unfolding train_list_all_volume_groups_def by (rule quiet_intros exI refl)+

lemma makes_own_train_show_volume_group_details [quiet_intros]: "makes_own 1 (train_show_volume_group_details sv i volumes)"
  unfolding train_show_volume_group_details_def by (rule quiet_intros exI refl)+

lemma makes_own_train_list_volume_group_snapshots_with_details [quiet_intros]: "makes_own 1 (train_list_volume_group_snapshots_with_details sv)"
  unfolding train_list_volume_group_snapshots_with_details_def by (rule quiet_intros exI refl)+

lemma makes_own_train_show_volume_group_snapshot_details [quiet_intros]: "makes_own 1 (train_show_volume_group_snapshot_details sv i)"
  unfolding train_show_volume_group_snapshot_details_def by (rule quiet_intros exI refl)+

lemma makes_own_train_create_volume_group_type [quiet_intros]: "makes_own 1 (train_create_volume_group_type sv g)"
  unfolding train_create_volume_group_type_def by (rule quiet_intros exI refl)+

lemma makes_own_train_delete_volume_group_type [quiet_intros]: "makes_own 1 (train_delete_volume_group_type sv i)"
  unfolding train_delete_volume_group_type_def by (rule quiet_intros exI refl)+

lemma makes_own_train_list_volume_group_types [quiet_intros]: "makes_own 1 (train_list_volume_group_types sv)"
  unfolding train_list_volume_group_types_def by (rule quiet_intros exI refl)+

lemma makes_own_train_show_volume_group_type_details [quiet_intros]: "makes_own 1 (train_show_volume_group_type_details sv i)"
  unfolding train_show_volume_group_type_details_def by (rule quiet_intros exI refl)+

lemma makes_own_train_update_storage_quotas [quiet_intros]: "makes_own 1 (train_update_storage_quotas sv i q)"
  unfolding train_update_storage_quotas_def by (rule quiet_intros exI refl)+

lemma makes_own_train_show_storage_quota [quiet_intros]: "makes_own 1 (train_show_storage_quota sv i)"
  unfolding train_show_storage_quota_def by (rule quiet_intros exI refl)+

lemma makes_own_train_get_availability_zone_information [quiet_intros]: "makes_own 1 (train_get_availability_zone_information sv)"
  unfolding train_get_availability_zone_information_def by (rule quiet_intros exI refl)+

lemma makes_own_train_list_hypervisors [quiet_intros]: "makes_own 1 (train_list_hypervisors sv)"
  unfolding train_list_hypervisors_def by (rule quiet_intros exI refl)+

lemma makes_own_train_show_hypervisor_details [quiet_intros]: "makes_own 1 (train_show_hypervisor_details sv i)"
  unfolding train_show_hypervisor_details_def by (rule quiet_intros exI refl)+

lemma makes_own_train_list_compute_services [quiet_intros]: "makes_own 1 (train_list_compute_services sv binary host)"
  unfolding train_list_compute_services_def by (rule quiet_intros exI refl)+

lemma makes_own_train_list_all_compute_services [quiet_intros]: "makes_own 1 (train_list_all_compute_services sv)"
  unfolding train_list_all_compute_services_def by (rule quiet_intros exI refl)+

lemma makes_own_train_list_servers [quiet_intros]: "makes_own 1 (train_list_servers sv)"
  unfolding train_list_servers_def by (rule quiet_intros exI refl)+

lemma makes_own_train_show_server_details [quiet_intros]: "makes_own 1 (train_show_server_details sv i)"
  unfolding train_show_server_details_def by (rule quiet_intros exI refl)+

lemma makes_own_train_list_security_groups_by_server [quiet_intros]: "makes_own 1 (train_list_security_groups_by_server sv i)"
  unfolding train_list_security_groups_by_server_def by (rule quiet_intros exI refl)+

lemma makes_own_train_show_detail_volume_attachment [quiet_intros]: "makes_own 1 (train_show_detail_volume_attachment sv i volume)"
  unfolding train_show_detail_volume_attachment_def by (rule quiet_intros exI refl)+

lemma makes_own_train_list_port_interfaces [quiet_intros]: "makes_own 1 (train_list_port_interfaces sv i)"
  unfolding train_list_port_interfaces_def by (rule quiet_intros exI refl)+

lemma makes_own_train_list_flavors [quiet_intros]: "makes_own 1 (train_list_flavors sv)"
  unfolding train_list_flavors_def by (rule quiet_intros exI refl)+

lemma makes_own_train_show_flavor_details [quiet_intros]: "makes_own 1 (train_show_flavor_details sv i)"
  unfolding train_show_flavor_details_def by (rule quiet_intros exI refl)+

lemma makes_own_train_create_flavor [quiet_intros]: "makes_own 1 (train_create_flavor sv f)"
  unfolding train_create_flavor_def by (rule quiet_intros exI refl)+

lemma makes_own_train_show_flavor_extra_spec [quiet_intros]: "makes_own 1 (train_show_flavor_extra_spec sv i key)"
  unfolding train_show_flavor_extra_spec_def by (rule quiet_intros exI refl)+

lemma makes_own_train_create_extra_specs_for_flavor [quiet_intros]: "makes_own 1 (train_create_extra_specs_for_flavor sv i m)"
  unfolding train_create_extra_specs_for_flavor_def by (rule quiet_intros exI refl)+

lemma makes_own_train_list_keypairs [quiet_intros]: "makes_own 1 (train_list_keypairs sv)"
  unfolding train_list_keypairs_def by (rule quiet_intros exI refl)+

lemma makes_own_train_show_keypair_details [quiet_intros]: "makes_own 1 (train_show_keypair_details sv i)"
  unfolding train_show_keypair_details_def by (rule quiet_intros exI refl)+

lemma makes_own_train_import_or_create_keypair [quiet_intros]: "makes_own 1 (train_import_or_create_keypair sv k)"
  unfolding train_import_or_create_keypair_def by (rule quiet_intros exI refl)+

lemma makes_own_train_update_compute_quotas [quiet_intros]: "makes_own 1 (train_update_compute_quotas sv i q)"
  unfolding train_update_compute_quotas_def by (rule quiet_intros exI refl)+

lemma makes_own_train_show_compute_quota [quiet_intros]: "makes_own 1 (train_show_compute_quota sv i)"
  unfolding train_show_compute_quota_def by (rule quiet_intros exI refl)+

lemma makes_own_check_volume_read_only_flag [quiet_intros]: "makes_own 30 (check_volume_read_only_flag sv i)"
  unfolding check_volume_read_only_flag_def by (rule makes_own_waiting, (rule quiet_intros)+) simp_all

lemma makes_own_check_volume_creation [quiet_intros]: "makes_own 3600 (check_volume_creation sv i)"
  unfolding check_volume_creation_def by (rule makes_own_waiting, (rule quiet_intros)+) simp_all

lemma makes_own_check_volume_deletion [quiet_intros]: "makes_own 120 (check_volume_deletion sv i)"
  unfolding check_volume_deletion_def by (rule makes_own_waiting, (rule quiet_intros)+) simp_all

lemma makes_own_check_volume_unmanaging [quiet_intros]: "makes_own 120 (check_volume_unmanaging sv i)"
  unfolding check_volume_unmanaging_def by (rule makes_own_waiting, (rule quiet_intros)+) simp_all

lemma makes_own_check_volume_snapshot_creation [quiet_intros]: "makes_own 120 (check_volume_snapshot_creation sv i)"
  unfolding check_volume_snapshot_creation_def by (rule makes_own_waiting, (rule quiet_intros)+) simp_all

lemma makes_own_check_volume_snapshot_deletion [quiet_intros]: "makes_own 120 (check_volume_snapshot_deletion sv i)"
  unfolding check_volume_snapshot_deletion_def by (rule makes_own_waiting, (rule quiet_intros)+) simp_all

lemma makes_own_check_volume_snapshot_unmanaging [quiet_intros]: "makes_own 120 (check_volume_snapshot_unmanaging sv i)"
  unfolding check_volume_snapshot_unmanaging_def by (rule makes_own_waiting, (rule quiet_intros)+) simp_all

lemma makes_own_check_volume_group_creation [quiet_intros]: "makes_own 120 (check_volume_group_creation sv i)"
  unfolding check_volume_group_creation_def by (rule makes_own_waiting, (rule quiet_intros)+) simp_all

lemma makes_own_check_volume_group_deletion [quiet_intros]: "makes_own 1200 (check_volume_group_deletion sv i)"
  unfolding check_volume_group_deletion_def by (rule makes_own_waiting, (rule quiet_intros)+) simp_all

lemma makes_own_check_volume_group_update [quiet_intros]: "makes_own 120 (check_volume_group_update sv i)"
  unfolding check_volume_group_update_def by (rule makes_own_waiting, (rule quiet_intros)+) simp_all

lemma makes_own_check_volume_group_snapshot_deletion [quiet_intros]: "makes_own 120 (check_volume_group_snapshot_deletion sv i)"
  unfolding check_volume_group_snapshot_deletion_def by (rule makes_own_waiting, (rule quiet_intros)+) simp_all

lemma makes_own_check_volume_group_snapshot_creation [quiet_intros]: "makes_own 1200 (check_volume_group_snapshot_creation sv i)"
  unfolding check_volume_group_snapshot_creation_def by (rule makes_own_waiting, (rule quiet_intros)+) simp_all

lemma makes_own_check_instance_creation [quiet_intros]: "makes_own 3600 (check_instance_creation sv i)"
  unfolding check_instance_creation_def by (rule makes_own_waiting, (rule quiet_intros)+) simp_all

lemma makes_own_check_add_security_group_to_server [quiet_intros]: "makes_own 30 (check_add_security_group_to_server sv i g)"
  unfolding check_add_security_group_to_server_def by (rule makes_own_waiting, (rule quiet_intros)+) simp_all

lemma makes_own_check_instance_deletion [quiet_intros]: "makes_own 120 (check_instance_deletion sv i)"
  unfolding check_instance_deletion_def by (rule makes_own_waiting, (rule quiet_intros)+) simp_all

lemma makes_own_check_instance_force_deletion [quiet_intros]: "makes_own 120 (check_instance_force_deletion sv i)"
  unfolding check_instance_force_deletion_def by (rule makes_own_waiting, (rule quiet_intros)+) simp_all

lemma makes_own_check_instance_started [quiet_intros]: "makes_own 120 (check_instance_started sv i)"
  unfolding check_instance_started_def by (rule makes_own_waiting, (rule quiet_intros)+) simp_all

lemma makes_own_check_instance_stopped [quiet_intros]: "makes_own 120 (check_instance_stopped sv i)"
  unfolding check_instance_stopped_def by (rule makes_own_waiting, (rule quiet_intros)+) simp_all

lemma makes_own_check_remove_security_group_to_server [quiet_intros]: "makes_own 30 (check_remove_security_group_to_server sv i g)"
  unfolding check_remove_security_group_to_server_def by (rule makes_own_waiting, (rule quiet_intros)+) simp_all

lemma makes_own_check_flavor_deletion [quiet_intros]: "makes_own 120 (check_flavor_deletion sv i)"
  unfolding check_flavor_deletion_def by (rule makes_own_waiting, (rule quiet_intros)+) simp_all

lemma makes_own_check_keypair_deletion [quiet_intros]: "makes_own 120 (check_keypair_deletion sv i)"
  unfolding check_keypair_deletion_def by (rule makes_own_waiting, (rule quiet_intros)+) simp_all

lemma makes_own_train_create_volume [quiet_intros]: "makes_own 3601 (train_create_volume sv v)"
  unfolding train_create_volume_def by (rule first_then_waits, (rule quiet_intros exI refl)+) simp

lemma makes_own_train_updates_volume_read_only [quiet_intros]: "makes_own 31 (train_updates_volume_read_only sv i b)"
  unfolding train_updates_volume_read_only_def by (rule first_then_waits, (rule quiet_intros exI refl)+) simp

lemma makes_own_train_delete_volume [quiet_intros]: "makes_own 121 (train_delete_volume sv i cascade)"
  unfolding train_delete_volume_def by (rule first_then_waits, (rule quiet_intros exI refl)+) simp

lemma makes_own_train_unmanage_volume [quiet_intros]: "makes_own 121 (train_unmanage_volume sv i)"
  unfolding train_unmanage_volume_def by (rule first_then_waits, (rule quiet_intros exI refl)+) simp

lemma makes_own_train_manage_existing_volume [quiet_intros]: "makes_own 3601 (train_manage_existing_volume sv v)"
  unfolding train_manage_existing_volume_def by (rule first_then_waits, (rule quiet_intros exI refl)+) simp

lemma makes_own_train_create_volume_snapshot [quiet_intros]: "makes_own 121 (train_create_volume_snapshot sv v)"
  unfolding train_create_volume_snapshot_def by (rule first_then_waits, (rule quiet_intros exI refl)+) simp

lemma makes_own_train_manage_existing_volume_snapshot [quiet_intros]: "makes_own 121 (train_manage_existing_volume_snapshot sv v)"
  unfolding train_manage_existing_volume_snapshot_def by (rule first_then_waits, (rule quiet_intros exI refl)+) simp

lemma makes_own_train_delete_volume_snapshot [quiet_intros]: "makes_own 121 (train_delete_volume_snapshot sv i)"
  unfolding train_delete_volume_snapshot_def by (rule first_then_waits, (rule quiet_intros exI refl)+) simp

lemma makes_own_train_unmanage_volume_snapshot [quiet_intros]: "makes_own 121 (train_unmanage_volume_snapshot sv i)"
  unfolding train_unmanage_volume_snapshot_def by (rule first_then_waits, (rule quiet_intros exI refl)+) simp

lemma makes_own_train_create_volume_group [quiet_intros]: "makes_own 121 (train_create_volume_group sv g)"
  unfolding train_create_volume_group_def by (rule first_then_waits, (rule quiet_intros exI refl)+) simp

lemma makes_own_train_delete_volume_group [quiet_intros]: "makes_own 1201 (train_delete_volume_group sv i volumes)"
  unfolding train_delete_volume_group_def by (rule first_then_waits, (rule quiet_intros exI refl)+) simp

lemma makes_own_train_update_volume_group [quiet_intros]: "makes_own 121 (train_update_volume_group sv i g)"
  unfolding train_update_volume_group_def by (rule first_then_waits, (rule quiet_intros exI refl)+) simp

lemma makes_own_train_delete_volume_group_snapshot [quiet_intros]: "makes_own 121 (train_delete_volume_group_snapshot sv i)"
  unfolding train_delete_volume_group_snapshot_def by (rule first_then_waits, (rule quiet_intros exI refl)+) simp

lemma makes_own_train_create_volume_group_snapshot [quiet_intros]: "makes_own 1201 (train_create_volume_group_snapshot sv g)"
  unfolding train_create_volume_group_snapshot_def by (rule first_then_waits, (rule quiet_intros exI refl)+) simp

lemma makes_own_train_create_server [quiet_intros]: "makes_own 3601 (train_create_server sv s)"
  unfolding train_create_server_def by (rule first_then_waits, (rule quiet_intros exI refl)+) simp

lemma makes_own_train_add_security_group_to_server [quiet_intros]: "makes_own 31 (train_add_security_group_to_server sv i g)"
  unfolding train_add_security_group_to_server_def by (rule first_then_waits, (rule quiet_intros exI refl)+) simp

lemma makes_own_train_delete_server [quiet_intros]: "makes_own 121 (train_delete_server sv i)"
  unfolding train_delete_server_def by (rule first_then_waits, (rule quiet_intros exI refl)+) simp

lemma makes_own_train_force_delete_server [quiet_intros]: "makes_own 121 (train_force_delete_server sv i)"
  unfolding train_force_delete_server_def by (rule first_then_waits, (rule quiet_intros exI refl)+) simp

lemma makes_own_train_start_server [quiet_intros]: "makes_own 121 (train_start_server sv i)"
  unfolding train_start_server_def by (rule first_then_waits, (rule quiet_intros exI refl)+) simp

lemma makes_own_train_stop_server [quiet_intros]: "makes_own 121 (train_stop_server sv i)"
  unfolding train_stop_server_def by (rule first_then_waits, (rule quiet_intros exI refl)+) simp

lemma makes_own_train_remove_security_group_to_server [quiet_intros]: "makes_own 31 (train_remove_security_group_to_server sv i g)"
  unfolding train_remove_security_group_to_server_def by (rule first_then_waits, (rule quiet_intros exI refl)+) simp

lemma makes_own_train_delete_flavor [quiet_intros]: "makes_own 121 (train_delete_flavor sv i)"
  unfolding train_delete_flavor_def by (rule first_then_waits, (rule quiet_intros exI refl)+) simp

lemma makes_own_train_delete_keypair [quiet_intros]: "makes_own 121 (train_delete_keypair sv i)"
  unfolding train_delete_keypair_def by (rule first_then_waits, (rule quiet_intros exI refl)+) simp

text \<open>C15. Whatever the servers answer, an operation of one request makes one request at most. It carries the
  token of the connection to an address below one of its endpoints; the connection stays as it is and no
  token enters the cache.\<close>

theorem single_requests_stay_own:
  "makes_own 1 (train_create_project sv project) \<and> makes_own 1 (train_list_projects sv) \<and>
   makes_own 1 (train_show_project_details sv i) \<and>
   makes_own 1 (train_assign_role_to_user_on_project sv i j k) \<and>
   makes_own 1 (train_create_network sv network) \<and> makes_own 1 (train_delete_network sv i) \<and>
   makes_own 1 (train_list_networks sv) \<and> makes_own 1 (train_show_network_details sv i) \<and>
   makes_own 1 (train_create_subnet sv sub) \<and> makes_own 1 (train_delete_subnet sv i) \<and>
   makes_own 1 (train_show_subnet_details sv i) \<and> makes_own 1 (train_create_port sv the_port) \<and>
   makes_own 1 (train_delete_port sv i) \<and> makes_own 1 (train_show_port_details sv i) \<and>
   makes_own 1 (train_list_ports sv j i) \<and> makes_own 1 (train_create_router sv router) \<and>
   makes_own 1 (train_delete_router sv i) \<and> makes_own 1 (train_list_routers sv) \<and>
   makes_own 1 (train_show_router_details sv i) \<and>
   makes_own 1 (train_add_extra_routes_to_router sv i routes) \<and>
   makes_own 1 (train_remove_extra_routes_from_router sv i routes) \<and>
   makes_own 1 (train_add_interface_to_router sv i a_subnet a_port) \<and>
   makes_own 1 (train_remove_interface_from_router sv i j k) \<and>
   makes_own 1 (train_create_floating_ip sv ip) \<and> makes_own 1 (train_list_floating_ips sv i) \<and>
   makes_own 1 (train_show_floating_ip_details sv i) \<and> makes_own 1 (train_delete_floating_ip sv i) \<and>
   makes_own 1 (train_update_floating_ip sv i new_ip) \<and>
   makes_own 1 (train_list_floating_ips_by_port_interface sv j k) \<and>
   makes_own 1 (train_create_security_group sv the_group) \<and>
   makes_own 1 (train_delete_security_group sv i) \<and> makes_own 1 (train_list_security_groups sv) \<and>
   makes_own 1 (train_show_security_group sv i) \<and>
   makes_own 1 (train_create_security_group_rule sv rule) \<and>
   makes_own 1 (train_delete_security_group_rule sv i) \<and>
   makes_own 1 (train_show_security_group_rule sv i) \<and>
   makes_own 1 (train_list_all_network_agents sv) \<and> makes_own 1 (train_list_extensions sv) \<and>
   makes_own 1 (train_update_network_quota sv i quotas) \<and>
   makes_own 1 (train_show_network_quota sv i) \<and> makes_own 1 (train_list_all_volume_types sv) \<and>
   makes_own 1 (train_show_volume_type_detail sv i) \<and>
   makes_own 1 (train_show_default_volume_type sv) \<and>
   makes_own 1 (train_list_all_backend_storage_pools sv) \<and>
   makes_own 1 (train_list_all_cinder_services sv) \<and>
   makes_own 1 (train_list_summary_of_volumes_available_to_manage sv j) \<and>
   makes_own 1 (train_list_summary_of_snapshots_available_to_manage sv j) \<and>
   makes_own 1 (train_show_attachment_details sv i) \<and> makes_own 1 (train_list_accessible_volumes sv) \<and>
   makes_own 1 (train_show_volume_details sv i) \<and>
   makes_own 1 (train_update_volume_bootable_status sv i flag) \<and>
   makes_own 1 (train_list_accessible_snapshots sv) \<and>
   makes_own 1 (train_show_volume_snapshot_details sv i) \<and>
   makes_own 1 (train_list_all_volume_groups sv) \<and>
   makes_own 1 (train_show_volume_group_details sv i flag) \<and>
   makes_own 1 (train_list_volume_group_snapshots_with_details sv) \<and>
   makes_own 1 (train_show_volume_group_snapshot_details sv i) \<and>
   makes_own 1 (train_create_volume_group_type sv group_type) \<and>
   makes_own 1 (train_delete_volume_group_type sv i) \<and>
   makes_own 1 (train_list_volume_group_types sv) \<and>
   makes_own 1 (train_show_volume_group_type_details sv i) \<and>
   makes_own 1 (train_update_storage_quotas sv i quotas) \<and>
   makes_own 1 (train_show_storage_quota sv i) \<and>
   makes_own 1 (train_get_availability_zone_information sv) \<and>
   makes_own 1 (train_list_hypervisors sv) \<and> makes_own 1 (train_show_hypervisor_details sv i) \<and>
   makes_own 1 (train_list_compute_services sv k j) \<and>
   makes_own 1 (train_list_all_compute_services sv) \<and> makes_own 1 (train_list_servers sv) \<and>
   makes_own 1 (train_show_server_details sv i) \<and>
   makes_own 1 (train_list_security_groups_by_server sv i) \<and>
   makes_own 1 (train_show_detail_volume_attachment sv i j) \<and>
   makes_own 1 (train_list_port_interfaces sv i) \<and> makes_own 1 (train_list_flavors sv) \<and>
   makes_own 1 (train_show_flavor_details sv i) \<and> makes_own 1 (train_create_flavor sv flavor) \<and>
   makes_own 1 (train_show_flavor_extra_spec sv i j) \<and>
   makes_own 1 (train_create_extra_specs_for_flavor sv i specs) \<and>
   makes_own 1 (train_list_keypairs sv) \<and> makes_own 1 (train_show_keypair_details sv i) \<and>
   makes_own 1 (train_import_or_create_keypair sv keypair) \<and>
   makes_own 1 (train_update_compute_quotas sv i quotas) \<and> makes_own 1 (train_show_compute_quota sv i)"
  by (intro conjI) (rule quiet_intros)+

text \<open>C16. The operations that are waited for end as well, whatever the servers answer: so many requests are
  made at most, the first of them and one for each look, and all of them are requests of the connection.\<close>

theorem waited_operations_end:
  "makes_own 3601 (train_create_volume sv volume) \<and>
   makes_own 31 (train_updates_volume_read_only sv i flag) \<and>
   makes_own 121 (train_delete_volume sv i flag) \<and> makes_own 121 (train_unmanage_volume sv i) \<and>
   makes_own 3601 (train_manage_existing_volume sv imported) \<and>
   makes_own 121 (train_create_volume_snapshot sv snapshot) \<and>
   makes_own 121 (train_manage_existing_volume_snapshot sv imported_snapshot) \<and>
   makes_own 121 (train_delete_volume_snapshot sv i) \<and>
   makes_own 121 (train_unmanage_volume_snapshot sv i) \<and>
   makes_own 121 (train_create_volume_group sv volumes_group) \<and>
   makes_own 1201 (train_delete_volume_group sv i flag) \<and>
   makes_own 121 (train_update_volume_group sv i new_group) \<and>
   makes_own 121 (train_delete_volume_group_snapshot sv i) \<and>
   makes_own 1201 (train_create_volume_group_snapshot sv group_snapshot) \<and>
   makes_own 3601 (train_create_server sv server) \<and>
   makes_own 31 (train_add_security_group_to_server sv i j) \<and>
   makes_own 121 (train_delete_server sv i) \<and> makes_own 121 (train_force_delete_server sv i) \<and>
   makes_own 121 (train_start_server sv i) \<and> makes_own 121 (train_stop_server sv i) \<and>
   makes_own 31 (train_remove_security_group_to_server sv i j) \<and>
   makes_own 121 (train_delete_flavor sv i) \<and> makes_own 121 (train_delete_keypair sv i)"
  by (intro conjI) (rule quiet_intros)+

section \<open>Login\<close>

definition login_request :: "string \<times> string \<Rightarrow> http_request" where
  "login_request r = \<lparr>hq_method = MethodPost, hq_url = fst r @ ''/v3/auth/tokens'', hq_token = None, hq_version = None,
     hq_body = Literal (snd r)\<rparr>"

definition still_valid :: "os_state \<Rightarrow> os_token \<Rightarrow> bool" where
  "still_valid s t \<longleftrightarrow> os_time s + 60000 < tk_expires_at t"

abbreviation without_token :: "string \<times> string \<Rightarrow> ((string \<times> string) \<times> os_token) list \<Rightarrow> ((string \<times> string) \<times> os_token) list" where
  "without_token r \<equiv> filter (\<lambda>(k, _). k \<noteq> r)"

lemma without_token_fresh: "map_of m r = None \<Longrightarrow> without_token r m = m"
  by (induction m) (auto split: if_splits)

lemma without_token_gone: "map_of (without_token r m) r = None"
  by (induction m) auto

lemma run_verify_token:
  "run_state (verify_token r) s = (case map_of (os_tokens s) r of
     Some t \<Rightarrow> if still_valid s t then (Some t, s) else (None, s\<lparr>os_tokens := without_token r (os_tokens s)\<rparr>)
   | None \<Rightarrow> (None, s))"
  by (simp add: verify_token_def still_valid_def split: option.split)

lemma run_connected_with:
  "run_state (connected_with url t) s = (if fst (endpoints_of url (tk_catalog t) []) then None else Some NilDereference,
     s\<lparr>os_token := Some t, os_endpoints := snd (endpoints_of url (tk_catalog t) [])\<rparr>)"
  by (simp add: connected_with_def State_Monad.update_def split: prod.split)

lemma run_update_token: "run_state (update_token r t) s = ((), s\<lparr>os_tokens := (r, t) # without_token r (os_tokens s)\<rparr>)"
  by (simp add: update_token_def State_Monad.update_def)

text \<open>What a login does: it takes the token it has, or asks for one and keeps it.\<close>

definition asks_for_token :: "os_servers \<Rightarrow> string \<times> string \<Rightarrow> os_state \<Rightarrow> err option \<times> os_state" where
  "asks_for_token sv r s = (case sv_identity sv (os_sent s) (login_request r) of (d, a) \<Rightarrow>
     (let s' = s\<lparr>os_sent := os_sent s @ [login_request r], os_time := os_time s + d\<rparr> in
      case a of NotSent e \<Rightarrow> (Some e, s')
      | Answered p x \<Rightarrow> (case authentication_error p of Some e \<Rightarrow> (Some e, s')
        | None \<Rightarrow> (case the_token x of Inl e \<Rightarrow> (Some e, s')
          | Inr t \<Rightarrow> run_state (connected_with (fst r) t) (s'\<lparr>os_tokens := (r, t) # os_tokens s\<rparr>)))))"

lemma authentication_fresh:
  "map_of (os_tokens s) r = None \<Longrightarrow> run_state (authentication sv r) s = asks_for_token sv r s"
  by (simp add: authentication_def run_verify_token asks_for_token_def request_def login_request_def Let_def ignoring_def
        run_update_token run_connected_with without_token_fresh split: prod.split answer.split option.split sum.split)

lemma authentication_known:
  assumes "map_of (os_tokens s) r = Some t"
  shows "run_state (authentication sv r) s =
     (if still_valid s t then run_state (connected_with (fst r) t) s
      else asks_for_token sv r (s\<lparr>os_tokens := without_token r (os_tokens s)\<rparr>))"
proof (cases "still_valid s t")
  case True
  then show ?thesis by (simp add: authentication_def run_verify_token run_connected_with assms)
next
  case False
  let ?s = "s\<lparr>os_tokens := without_token r (os_tokens s)\<rparr>"
  have "run_state (verify_token r) s = (None, ?s)" using False assms by (simp add: run_verify_token)
  moreover have "run_state (verify_token r) ?s = (None, ?s)" by (simp add: run_verify_token without_token_gone)
  ultimately have "run_state (authentication sv r) s = run_state (authentication sv r) ?s" by (simp add: authentication_def)
  also have "\<dots> = asks_for_token sv r ?s" by (rule authentication_fresh) (simp add: without_token_gone)
  finally show ?thesis using False by simp
qed

lemmas run_authentication = authentication_fresh authentication_known

text \<open>The answers to a login that fail it are never taken for a failure of the server.\<close>

definition answers_logins :: "os_servers \<Rightarrow> bool" where
  "answers_logins sv \<longleftrightarrow> (\<forall>sent r. \<exists>d p x. sv_identity sv sent r = (d, Answered p x))"

lemma answers_loginsE:
  assumes "answers_logins sv" obtains d p x where "sv_identity sv sent r = (d, Answered p x)"
  using assms unfolding answers_logins_def by blast

lemma authentication_error_not_server: "authentication_error p \<noteq> Some (RemoteServerError m)"
  by (simp add: authentication_error_def)

lemma the_token_not_server: "the_token x \<noteq> Inl (RemoteServerError m)"
  by (simp add: the_token_def split: sum.split identity_reply.split)

lemma asks_not_server: "answers_logins sv \<Longrightarrow> fst (asks_for_token sv r s) \<noteq> Some (RemoteServerError m)"
  by (rule answers_loginsE [of sv "os_sent s" "login_request r"])
    (auto simp: asks_for_token_def Let_def authentication_error_not_server the_token_not_server run_connected_with
      split: option.split sum.split)

lemma authentication_not_server:
  "answers_logins sv \<Longrightarrow> fst (run_state (authentication sv r) s) \<noteq> Some (RemoteServerError m)"
  by (cases "map_of (os_tokens s) r") (simp_all add: run_authentication asks_not_server run_connected_with)

lemma token_authority_not_server: "token_authority t \<noteq> Some (RemoteServerError m)"
  by (simp add: token_authority_def split: option.split)

lemma run_check_authority: "run_state connection_check_authority s = (token_authority (os_token s), s)"
  by (simp add: connection_check_authority_def)

lemma run_after:
  "run_state (after m k) s = (case run_state m s of (e, s') \<Rightarrow> (case e of Some x \<Rightarrow> (Inl x, s') | None \<Rightarrow> run_state k s'))"
  by (simp add: after_def split: prod.split option.split)

lemma run_given:
  "run_state (given m k) s = (case run_state m s of (r, s') \<Rightarrow> (case r of Inl e \<Rightarrow> (Inl e, s') | Inr x \<Rightarrow> run_state (k x) s'))"
  by (simp add: given_def split: prod.split sum.split)

lemma first_admin_not_server:
  assumes "answers_logins sv"
  shows "e \<noteq> Some (RemoteServerError m) \<Longrightarrow> fst (run_state (first_admin_project sv c ps e) s) \<noteq> Inl (RemoteServerError m)"
proof (induction ps arbitrary: e s)
  case Nil
  then show ?case by (auto split: option.split)
next
  case (Cons p ps)
  obtain e1 s1 where a: "run_state (authentication sv (oc_url c, scoped_auth (oc_credential c) p)) s = (e1, s1)" by force
  then have "e1 \<noteq> Some (RemoteServerError m)" using authentication_not_server [OF assms] by (metis fst_conv)
  have "fst (run_state (first_admin_project sv c ps (token_authority t)) s1) \<noteq> Inl (RemoteServerError m)" for t
    by (rule Cons.IH) (rule token_authority_not_server)
  from this [of "os_token s1"] \<open>e1 \<noteq> Some (RemoteServerError m)\<close> show ?case
    by (auto simp: run_after a run_check_authority succeed_def split: option.split)
qed

lemma scopes_not_server:
  assumes "answers_logins sv"
  shows "fst (run_state (get_available_project_scopes sv url) s) \<noteq> Inl (RemoteServerError m)"
proof -
  let ?q = "\<lparr>hq_method = MethodGet, hq_url = url @ ''/v3/auth/projects'', hq_token = Some (token_key_of s),
         hq_version = None, hq_body = NoBody\<rparr>"
  obtain d p x where "sv_identity sv (os_sent s) ?q = (d, Answered p x)" by (rule answers_loginsE [OF assms])
  then show ?thesis
    by (auto simp: get_available_project_scopes_def request_def failed_with_def scopes_error_def
        split: sum.split identity_reply.split option.split if_splits)
qed

lemma admin_tenant_not_server:
  assumes "answers_logins sv"
  shows "fst (run_state (get_admin_role_tenant_id sv c) s) \<noteq> Inl (RemoteServerError m)"
proof -
  obtain e1 s1 where a: "run_state (authentication sv (oc_url c, unscoped_auth (oc_credential c))) s = (e1, s1)" by force
  then have e1: "e1 \<noteq> Some (RemoteServerError m)" using authentication_not_server [OF assms] by (metis fst_conv)
  obtain ps s2 where g: "run_state (get_available_project_scopes sv (oc_url c)) s1 = (ps, s2)" by force
  then have ps: "ps \<noteq> Inl (RemoteServerError m)" using scopes_not_server [OF assms] by (metis fst_conv)
  have "fst (run_state (first_admin_project sv c xs None) s2) \<noteq> Inl (RemoteServerError m)" for xs
    by (rule first_admin_not_server [OF assms]) simp
  with e1 ps show ?thesis
    by (auto simp: get_admin_role_tenant_id_def run_after run_given a g drop_token_def State_Monad.update_def
        split: option.split sum.split prod.split dest: arg_cong [of _ _ fst])
qed

text \<open>C27. When the server answers every request of a login, with whatever code, connecting to it never fails with
  the error for a failure of the server: the case for the codes from 500 on is never reached.\<close>

theorem login_never_server_error:
  assumes "answers_logins sv"
  shows "fst (run_state (openstack_connect sv c) s) \<noteq> Some (RemoteServerError m)"
proof (cases "os_token s")
  case None
  obtain r s1 where t: "run_state (get_tenant_id sv c) s = (r, s1)" by force
  have "r \<noteq> Inl (RemoteServerError m)"
    using admin_tenant_not_server [OF assms, of c s m] t by (auto simp: get_tenant_id_def succeed_def split: if_splits)
  then show ?thesis
    using None authentication_not_server [OF assms]
    by (auto simp: openstack_connect_def fetch_def t split: sum.split)
next
  case (Some t)
  then show ?thesis by (simp add: openstack_connect_def return_nil_def)
qed

definition down_servers :: os_servers where
  "down_servers = \<lparr>sv_identity = (\<lambda>_ _. (0, Answered \<lparr>hp_code = 503, hp_body = [], hp_text = ''down''\<rparr> (Inl []))),
     sv_network = (\<lambda>_ _. (0, NotSent ClientNotFound)), sv_volume = (\<lambda>_ _. (0, NotSent ClientNotFound)),
     sv_compute = (\<lambda>_ _. (0, NotSent ClientNotFound))\<rparr>"

definition new_os_state :: os_state where
  "new_os_state = \<lparr>os_token = None, os_endpoints = [], os_tokens = [], os_time = 0, os_sent = []\<rparr>"

definition example_client :: os_client where
  "example_client = openstack_new ''http://10.0.0.1:5000'' ''{}'' ''p1''"

lemma down_login:
  "run_state (openstack_connect down_servers example_client) new_os_state = (Some (ClientError ''down''),
     new_os_state\<lparr>os_sent := [login_request (''http://10.0.0.1:5000'', scoped_auth ''{}'' ''p1'')]\<rparr>)"
  by (simp add: openstack_connect_def fetch_def get_tenant_id_def succeed_def example_client_def openstack_new_def
      authentication_fresh asks_for_token_def down_servers_def new_os_state_def authentication_error_def)

lemma login_never_server_error_witness:
  "fst (run_state (openstack_connect down_servers example_client) new_os_state) \<noteq> Some (RemoteServerError ''down'') \<and>
   fst (run_state (openstack_connect down_servers example_client) new_os_state) = Some (ClientError ''down'')"
proof
  have "answers_logins down_servers" by (simp add: answers_logins_def down_servers_def)
  then show "fst (run_state (openstack_connect down_servers example_client) new_os_state) \<noteq> Some (RemoteServerError ''down'')"
    by (rule login_never_server_error)
qed (simp add: down_login)

text \<open>
  Connected with the cached token of a login, the client has the endpoints of the token; a failed login
  leaves neither.
\<close>

definition logged_in :: "string \<times> string \<Rightarrow> os_state \<Rightarrow> bool" where
  "logged_in r s \<longleftrightarrow> (case os_token s of None \<Rightarrow> False
     | Some t \<Rightarrow> map_of (os_tokens s) r = Some t \<and> endpoints_of (fst r) (tk_catalog t) [] = (True, os_endpoints s))"

text \<open>A login that ends in a panic, because the URL of the cluster or one of the catalogue is refused.\<close>

definition stranded :: "string \<times> string \<Rightarrow> os_state \<Rightarrow> bool" where
  "stranded r s \<longleftrightarrow> (case os_token s of None \<Rightarrow> False
     | Some t \<Rightarrow> map_of (os_tokens s) r = Some t \<and> endpoints_of (fst r) (tk_catalog t) [] = (False, os_endpoints s))"

definition logged_out :: "string \<times> string \<Rightarrow> os_state \<Rightarrow> bool" where
  "logged_out r s \<longleftrightarrow> os_token s = None \<and> map_of (os_tokens s) r = None"

definition login_left :: "string \<times> string \<Rightarrow> err option \<Rightarrow> os_state \<Rightarrow> bool" where
  "login_left r e s \<longleftrightarrow> (case e of None \<Rightarrow> logged_in r s
     | Some x \<Rightarrow> logged_out r s \<or> x = NilDereference \<and> stranded r s)"

definition has_valid_token :: "string \<times> string \<Rightarrow> os_state \<Rightarrow> bool" where
  "has_valid_token r s = (case map_of (os_tokens s) r of None \<Rightarrow> False | Some t \<Rightarrow> still_valid s t)"

lemma asks_for_token_result:
  assumes "os_token s = None" and "map_of (os_tokens s) r = None"
  shows "case asks_for_token sv r s of (e, s') \<Rightarrow>
    os_sent s' = os_sent s @ [login_request r] \<and> login_left r e s'"
  using assms by (auto simp: asks_for_token_def Let_def login_left_def logged_in_def logged_out_def stranded_def run_connected_with
      prod_eq_iff split: prod.split answer.split option.split sum.split)

lemma authentication_result:
  assumes "os_token s = None"
  shows "case run_state (authentication sv r) s of (e, s') \<Rightarrow>
    os_sent s' = (if has_valid_token r s then os_sent s else os_sent s @ [login_request r]) \<and> login_left r e s'"
proof (cases "map_of (os_tokens s) r")
  case None
  then show ?thesis using asks_for_token_result [OF assms None, where sv = sv] by (simp add: authentication_fresh has_valid_token_def)
next
  case (Some t)
  show ?thesis
  proof (cases "still_valid s t")
    case True
    then show ?thesis using Some
      by (simp add: authentication_known has_valid_token_def login_left_def logged_in_def stranded_def run_connected_with prod_eq_iff)
  next
    case False
    let ?s = "s\<lparr>os_tokens := without_token r (os_tokens s)\<rparr>"
    have "os_token ?s = None" and "map_of (os_tokens ?s) r = None" using assms by (simp_all add: without_token_gone)
    from asks_for_token_result [OF this, where sv = sv] False Some show ?thesis
      by (simp add: authentication_known has_valid_token_def)
  qed
qed

text \<open>C17. A client of a tenant that is not connected uses the token it has for this login while that lives for more
  than a minute, without a request, and asks for one otherwise. When it is connected, its token is the cached
  one and its endpoints are those of the token; when it failed, no token is left, in the connection or the cache. The
  one other end is a panic, when the token has been kept and the URL of the cluster or one of the catalogue is refused.\<close>

theorem login_of_tenant:
  assumes "os_token s = None" and "oc_tenant_id c \<noteq> []"
    and "r = (oc_url c, scoped_auth (oc_credential c) (oc_tenant_id c))"
  shows "case run_state (openstack_connect sv c) s of (e, s') \<Rightarrow>
    os_sent s' = (if has_valid_token r s then os_sent s else os_sent s @ [login_request r]) \<and>
    (case e of None \<Rightarrow> logged_in r s' | Some x \<Rightarrow> logged_out r s' \<or> x = NilDereference \<and> stranded r s')"
  using authentication_result [OF assms(1), where sv = sv and r = r] assms
  by (auto simp: openstack_connect_def fetch_def get_tenant_id_def succeed_def login_left_def)

lemma login_of_tenant_witness:
  "let r = (''http://10.0.0.1:5000'', scoped_auth ''{}'' ''p1'');
       t = \<lparr>tk_key = ''k'', tk_project_name = ''admin'', tk_user_id = ''u'', tk_user_name = ''u'', tk_roles = [],
         tk_expires_at = 60001, tk_catalog = []\<rparr>;
       s = new_os_state\<lparr>os_tokens := [(r, t)]\<rparr>
   in case run_state (openstack_connect down_servers example_client) s of (e, s') \<Rightarrow>
     os_sent s' = [] \<and> (case e of None \<Rightarrow> logged_in r s' | Some x \<Rightarrow> logged_out r s' \<or> x = NilDereference \<and> stranded r s')"
proof -
  define r where "r = (''http://10.0.0.1:5000'', scoped_auth ''{}'' ''p1'')"
  define t where "t = \<lparr>tk_key = ''k'', tk_project_name = ''admin'', tk_user_id = ''u'', tk_user_name = ''u'', tk_roles = [],
         tk_expires_at = 60001, tk_catalog = []\<rparr>"
  define s where "s = new_os_state\<lparr>os_tokens := [(r, t)]\<rparr>"
  have "has_valid_token r s" by (simp add: has_valid_token_def s_def still_valid_def t_def new_os_state_def)
  moreover have "os_token s = None" "os_sent s = []" by (simp_all add: s_def new_os_state_def)
  moreover have "oc_tenant_id example_client \<noteq> []"
    "r = (oc_url example_client, scoped_auth (oc_credential example_client) (oc_tenant_id example_client))"
    by (simp_all add: example_client_def openstack_new_def r_def)
  ultimately show ?thesis
    using login_of_tenant [of s example_client r down_servers] unfolding Let_def r_def [symmetric] t_def [symmetric] s_def [symmetric]
    by simp
qed

section \<open>Endpoints\<close>

lemma split_on_alone: "sep \<notin> set s \<Longrightarrow> split_on sep s = [s]"
  by (induction s) auto

lemma split_host_without_port:
  assumes "CHR '':'' \<notin> set h"
  shows "split_host h = []"
proof -
  have "rest ! 1 \<noteq> CHR '':''" if "h = c # r" and "rest = dropWhile (\<lambda>x. x \<noteq> CHR '']'') r" and "2 \<le> length rest" for c r rest
  proof -
    have "rest ! 1 \<in> set rest" using that(3) by (intro nth_mem) simp
    then have "rest ! 1 \<in> set h" using that(1,2) by (auto dest: set_dropWhileD)
    with assms show ?thesis by metis
  qed
  then show ?thesis
    by (auto simp: split_host_def split_on_alone [OF assms] Let_def split: list.split)
qed

lemma length_between_runes: "length (between_runes a u) = length u + Suc (rune_count u) * length a"
proof (induction u rule: rune_count.induct)
  case (1 u)
  show ?case
  proof (cases "u = []")
    case True
    then show ?thesis by (simp add: between_runes.simps)
  next
    case False
    have count: "rune_count u = Suc (rune_count (drop (rune_len u) u))" using False by (subst rune_count.simps) simp
    have "length (between_runes a u) = length a + (rune_len u + length (between_runes a (drop (rune_len u) u)))"
      using False rune_len_bounds [OF False] by (subst between_runes.simps) simp
    with 1 [OF False] rune_len_bounds [OF False] show ?thesis by (simp add: count)
  qed
qed

text \<open>An endpoint whose URL names no port becomes a text with the host of the cluster before every rune and at
  the end, which is so much longer than the URL.\<close>

theorem endpoint_without_port:
  assumes "url_host u = Some h" and "CHR '':'' \<notin> set h" and "url_host url = Some h'"
  shows "endpoints_of url [(kind, u # us)] [] = (True, [(kind, between_runes (split_host h') u)]) \<and>
     length (between_runes (split_host h') u) = length u + Suc (rune_count u) * length (split_host h')"
  by (simp add: assms replace_all_def split_host_without_port [OF assms(2)] length_between_runes)

lemma endpoint_without_port_witness:
  "endpoints_of ''http://10.0.0.1:5000'' [(''network'', [''http://n''])] [] =
     (True, [(''network'', between_runes ''10.0.0.1'' ''http://n'')]) \<and> length (between_runes ''10.0.0.1'' ''http://n'') = 80"
proof -
  have hosts: "url_host ''http://n'' = Some ''n''" "url_host ''http://10.0.0.1:5000'' = Some ''10.0.0.1:5000''"
    by code_simp+
  have "split_host ''10.0.0.1:5000'' = ''10.0.0.1''" by (simp add: split_host_def)
  moreover have "rune_count ''http://n'' = 8" by (subst rune_count_ascii) simp_all
  ultimately show ?thesis using endpoint_without_port [OF hosts(1) _ hosts(2), of "''network''" "[]"] by simp
qed

text \<open>A URL that is refused: the login panics.\<close>

lemma catalogue_url_refused:
  "endpoints_of ''http://10.0.0.1:5000'' [(''network'', [''http://n:port'']), (''compute'', [''http://n:1''])] [] = (False, [])"
  by code_simp

end
