(* ===== verification/OpenstackResults.thy ===== *)
theory OpenstackResults
  imports OpenstackChanges TrainResults
begin

text \<open>
  What holds of the client of OpenStack (\<open>client/openstack/openstack.go\<close>) as a whole: its requests are those of
  its connection, a creation that fails is undone, the volumes of a group are changed once each, and what
  becomes of the sizes.
\<close>

named_theorems own_intros "operations that send only requests of their connection, any number of them"

section \<open>Requests of the connection\<close>

definition stays_own :: "'a os \<Rightarrow> bool" where
  "stays_own m \<longleftrightarrow> (\<forall>s. let s' = snd (run_state m s) in
     (\<exists>rs. os_sent s' = os_sent s @ rs \<and> (\<forall>r \<in> set rs. own_request s r)) \<and>
     os_token s' = os_token s \<and> os_endpoints s' = os_endpoints s \<and>
     set (os_tokens s') \<subseteq> set (os_tokens s) \<and> os_time s \<le> os_time s')"

lemma makes_own_stays: "makes_own n m \<Longrightarrow> stays_own m"
  unfolding makes_own_def stays_own_def Let_def by meson

lemma stays_ownE:
  assumes "stays_own m"
  obtains rs where "os_sent (snd (run_state m s)) = os_sent s @ rs" and "\<And>r. r \<in> set rs \<Longrightarrow> own_request s r"
    and "os_token (snd (run_state m s)) = os_token s" and "os_endpoints (snd (run_state m s)) = os_endpoints s"
    and "set (os_tokens (snd (run_state m s))) \<subseteq> set (os_tokens s)" and "os_time s \<le> os_time (snd (run_state m s))"
  using assms unfolding stays_own_def Let_def by metis

lemma stays_own_bind [own_intros]:
  assumes "stays_own m" and "\<And>x. stays_own (f x)"
  shows "stays_own (State_Monad.bind m f)"
  unfolding stays_own_def Let_def
proof (intro allI)
  fix s
  obtain x s1 where m: "run_state m s = (x, s1)" by force
  show "(\<exists>rs. os_sent (snd (run_state (State_Monad.bind m f) s)) = os_sent s @ rs \<and> (\<forall>r \<in> set rs. own_request s r)) \<and>
      os_token (snd (run_state (State_Monad.bind m f) s)) = os_token s \<and>
      os_endpoints (snd (run_state (State_Monad.bind m f) s)) = os_endpoints s \<and>
      set (os_tokens (snd (run_state (State_Monad.bind m f) s))) \<subseteq> set (os_tokens s) \<and>
      os_time s \<le> os_time (snd (run_state (State_Monad.bind m f) s))"
  proof (rule stays_ownE [OF assms(1), of s], rule stays_ownE [OF assms(2), of x s1], goal_cases)
    case (1 rs rs')
    then have "own_request s1 = own_request s" by (intro own_request_cong) (simp_all add: m)
    with 1 show ?case by (auto simp: m intro!: exI [of _ "rs @ rs'"])
  qed
qed

lemma stays_own_return [own_intros]: "stays_own (State_Monad.return x)"
  by (rule makes_own_stays [OF makes_own_return])

lemma stays_own_nil [own_intros]: "stays_own return_nil"
  by (rule makes_own_stays [OF makes_own_nil])

lemma stays_own_succeed [own_intros]: "stays_own (succeed x)"
  by (rule makes_own_stays [OF makes_own_succeed])

lemma stays_own_failed [own_intros]: "stays_own (failed_with e)"
  by (rule makes_own_stays [OF makes_own_failed])

lemma stays_own_cases [own_intros]:
  "stays_own a \<Longrightarrow> stays_own b \<Longrightarrow> stays_own (if c then a else b)"
  "stays_own a \<Longrightarrow> (\<And>x. stays_own (f x)) \<Longrightarrow> stays_own (case v of None \<Rightarrow> a | Some x \<Rightarrow> f x)"
  "(\<And>x. stays_own (g x)) \<Longrightarrow> (\<And>x. stays_own (f' x)) \<Longrightarrow> stays_own (case w of Inl x \<Rightarrow> g x | Inr x \<Rightarrow> f' x)"
  "(\<And>x y. stays_own (h x y)) \<Longrightarrow> stays_own (case p of (x, y) \<Rightarrow> h x y)"
  "stays_own a \<Longrightarrow> (\<And>x xs. stays_own (k x xs)) \<Longrightarrow> stays_own (case l of [] \<Rightarrow> a | x # xs \<Rightarrow> k x xs)"
  by (simp_all split: option.split sum.split prod.split list.split)

lemma stays_own_let [own_intros]: "(\<And>x. stays_own (f x)) \<Longrightarrow> stays_own (Let v f)"
  by (simp add: Let_def)

lemma stays_own_given [own_intros]: "stays_own m \<Longrightarrow> (\<And>x. stays_own (f x)) \<Longrightarrow> stays_own (given m f)"
  unfolding given_def by (intro stays_own_bind own_intros)

lemma stays_own_after [own_intros]: "stays_own m \<Longrightarrow> stays_own k \<Longrightarrow> stays_own (after m k)"
  unfolding after_def by (intro stays_own_bind own_intros)

lemma stays_own_fetch [own_intros]: "stays_own m \<Longrightarrow> (\<And>x. stays_own (f x)) \<Longrightarrow> stays_own (fetch m f)"
  unfolding fetch_def by (intro stays_own_bind own_intros)

lemma stays_own_check [own_intros]: "stays_own m \<Longrightarrow> stays_own k \<Longrightarrow> stays_own (check m k)"
  unfolding check_def by (intro stays_own_bind own_intros)

lemma stays_own_ignoring [own_intros]: "stays_own m \<Longrightarrow> stays_own k \<Longrightarrow> stays_own (ignoring m k)"
  unfolding ignoring_def by (intro stays_own_bind)

lemma stays_own_undoing [own_intros]: "stays_own u \<Longrightarrow> stays_own m \<Longrightarrow> stays_own (undoing u m)"
  unfolding undoing_def by (intro stays_own_bind own_intros)

lemma stays_own_created_or_undone [own_intros]:
  "stays_own m \<Longrightarrow> (\<And>b. stays_own (u b)) \<Longrightarrow> (\<And>b r. stays_own (k b r)) \<Longrightarrow> stays_own (created_or_undone m u k)"
  unfolding created_or_undone_def by (intro stays_own_bind own_intros)

lemma stays_own_created [own_intros]: "stays_own m \<Longrightarrow> stays_own (created m)"
  unfolding created_def by (intro stays_own_bind own_intros)

lemma stays_own_gather [own_intros]: "(\<And>x. stays_own (f x)) \<Longrightarrow> stays_own (gather f xs)"
  by (induction xs) (simp_all add: own_intros)

section \<open>Loops\<close>

lemma stays_own_networks_of_port [own_intros]: "stays_own (networks_of_port sv p is fip)"
proof (induction "is" arbitrary: fip)
  case Nil
  show ?case by (simp add: own_intros)
next
  case (Cons i "is")
  show ?case by (simp only: networks_of_port.simps) (rule own_intros Cons makes_own_stays quiet_intros)+
qed

lemma stays_own_networks_of_ports [own_intros]: "stays_own (networks_of_ports sv ps fip)"
proof (induction ps arbitrary: fip)
  case Nil
  show ?case by (simp add: own_intros)
next
  case (Cons p ps)
  show ?case by (simp only: networks_of_ports.simps) (rule own_intros Cons)+
qed

section \<open>Every operation\<close>

lemma stays_own_openstack_get_availability_zone_list [own_intros]: "stays_own (openstack_get_availability_zone_list sv)"
  unfolding openstack_get_availability_zone_list_def by (rule own_intros makes_own_stays quiet_intros)+

lemma stays_own_openstack_get_hypervisor_list [own_intros]: "stays_own (openstack_get_hypervisor_list sv)"
  unfolding openstack_get_hypervisor_list_def by (rule own_intros makes_own_stays quiet_intros)+

lemma stays_own_openstack_get_hypervisor [own_intros]: "stays_own (openstack_get_hypervisor sv b)"
  unfolding openstack_get_hypervisor_def by (rule own_intros makes_own_stays quiet_intros)+

lemma stays_own_openstack_get_tenant_list [own_intros]: "stays_own (openstack_get_tenant_list sv)"
  unfolding openstack_get_tenant_list_def by (rule own_intros makes_own_stays quiet_intros)+

lemma stays_own_openstack_get_tenant [own_intros]: "stays_own (openstack_get_tenant sv b)"
  unfolding openstack_get_tenant_def by (rule own_intros makes_own_stays quiet_intros)+

lemma stays_own_openstack_get_network_list [own_intros]: "stays_own (openstack_get_network_list sv)"
  unfolding openstack_get_network_list_def by (rule own_intros makes_own_stays quiet_intros)+

lemma stays_own_openstack_get_network [own_intros]: "stays_own (openstack_get_network sv b)"
  unfolding openstack_get_network_def by (rule own_intros makes_own_stays quiet_intros)+

lemma stays_own_openstack_get_subnet [own_intros]: "stays_own (openstack_get_subnet sv b)"
  unfolding openstack_get_subnet_def by (rule own_intros makes_own_stays quiet_intros)+

lemma stays_own_openstack_get_floating_ip [own_intros]: "stays_own (openstack_get_floating_ip sv b)"
  unfolding openstack_get_floating_ip_def by (rule own_intros makes_own_stays quiet_intros)+

lemma stays_own_openstack_get_router_list [own_intros]: "stays_own (openstack_get_router_list sv)"
  unfolding openstack_get_router_list_def by (rule own_intros makes_own_stays quiet_intros)+

lemma stays_own_openstack_get_router [own_intros]: "stays_own (openstack_get_router sv b)"
  unfolding openstack_get_router_def by (rule own_intros makes_own_stays quiet_intros)+

lemma stays_own_openstack_get_security_group_list [own_intros]: "stays_own (openstack_get_security_group_list sv)"
  unfolding openstack_get_security_group_list_def by (rule own_intros makes_own_stays quiet_intros)+

lemma stays_own_openstack_get_security_group [own_intros]: "stays_own (openstack_get_security_group sv b)"
  unfolding openstack_get_security_group_def by (rule own_intros makes_own_stays quiet_intros)+

lemma stays_own_openstack_get_security_group_rule [own_intros]: "stays_own (openstack_get_security_group_rule sv b)"
  unfolding openstack_get_security_group_rule_def by (rule own_intros makes_own_stays quiet_intros)+

lemma stays_own_openstack_get_storage_list [own_intros]: "stays_own (openstack_get_storage_list sv)"
  unfolding openstack_get_storage_list_def by (rule own_intros makes_own_stays quiet_intros)+

lemma stays_own_openstack_get_storage [own_intros]: "stays_own (openstack_get_storage sv b)"
  unfolding openstack_get_storage_def by (rule own_intros makes_own_stays quiet_intros)+

lemma stays_own_openstack_get_volume_list [own_intros]: "stays_own (openstack_get_volume_list sv)"
  unfolding openstack_get_volume_list_def by (rule own_intros makes_own_stays quiet_intros)+

lemma stays_own_openstack_get_volume [own_intros]: "stays_own (openstack_get_volume sv b)"
  unfolding openstack_get_volume_def by (rule own_intros makes_own_stays quiet_intros)+

lemma stays_own_openstack_get_volume_group_list [own_intros]: "stays_own (openstack_get_volume_group_list sv)"
  unfolding openstack_get_volume_group_list_def by (rule own_intros makes_own_stays quiet_intros)+

lemma stays_own_openstack_get_volume_group [own_intros]: "stays_own (openstack_get_volume_group sv b)"
  unfolding openstack_get_volume_group_def by (rule own_intros makes_own_stays quiet_intros)+

lemma stays_own_openstack_get_volume_group_snapshot_list [own_intros]: "stays_own (openstack_get_volume_group_snapshot_list sv)"
  unfolding openstack_get_volume_group_snapshot_list_def by (rule own_intros makes_own_stays quiet_intros)+

lemma stays_own_openstack_get_volume_snapshot_list [own_intros]: "stays_own (openstack_get_volume_snapshot_list sv)"
  unfolding openstack_get_volume_snapshot_list_def by (rule own_intros makes_own_stays quiet_intros)+

lemma stays_own_openstack_get_volume_snapshot [own_intros]: "stays_own (openstack_get_volume_snapshot sv b)"
  unfolding openstack_get_volume_snapshot_def by (rule own_intros makes_own_stays quiet_intros)+

lemma stays_own_openstack_get_key_pair_list [own_intros]: "stays_own (openstack_get_key_pair_list sv)"
  unfolding openstack_get_key_pair_list_def by (rule own_intros makes_own_stays quiet_intros)+

lemma stays_own_openstack_get_key_pair [own_intros]: "stays_own (openstack_get_key_pair sv b)"
  unfolding openstack_get_key_pair_def by (rule own_intros makes_own_stays quiet_intros)+

lemma stays_own_openstack_get_instance_spec [own_intros]: "stays_own (openstack_get_instance_spec sv b)"
  unfolding openstack_get_instance_spec_def by (rule own_intros makes_own_stays quiet_intros)+

lemma stays_own_openstack_get_instance_extra_spec [own_intros]: "stays_own (openstack_get_instance_extra_spec sv b c)"
  unfolding openstack_get_instance_extra_spec_def by (rule own_intros makes_own_stays quiet_intros)+

lemma stays_own_openstack_get_instance_list [own_intros]: "stays_own (openstack_get_instance_list sv)"
  unfolding openstack_get_instance_list_def by (rule own_intros makes_own_stays quiet_intros)+

lemma stays_own_attached_volume_of [own_intros]: "stays_own (attached_volume_of sv b c)"
  unfolding attached_volume_of_def by (rule own_intros makes_own_stays quiet_intros)+

lemma stays_own_openstack_get_instance [own_intros]: "stays_own (openstack_get_instance sv b)"
  unfolding openstack_get_instance_def by (rule own_intros makes_own_stays quiet_intros)+

lemma stays_own_update_quota [own_intros]: "(\<And>q. stays_own (send q)) \<Longrightarrow> stays_own (update_quota ks qs send)"
  unfolding update_quota_def by (rule own_intros | assumption)+

lemma stays_own_update_quotas [own_intros]: "stays_own (update_quotas sv b c)"
  unfolding update_quotas_def by (rule own_intros makes_own_stays quiet_intros)+

lemma stays_own_openstack_create_floating_ip [own_intros]: "stays_own (openstack_create_floating_ip sv b)"
  unfolding openstack_create_floating_ip_def by (rule own_intros makes_own_stays quiet_intros)+

lemma stays_own_openstack_delete_floating_ip [own_intros]: "stays_own (openstack_delete_floating_ip sv b)"
  unfolding openstack_delete_floating_ip_def by (rule own_intros makes_own_stays quiet_intros)+

lemma stays_own_openstack_create_network [own_intros]: "stays_own (openstack_create_network sv b)"
  unfolding openstack_create_network_def by (rule own_intros makes_own_stays quiet_intros)+

lemma stays_own_openstack_delete_network [own_intros]: "stays_own (openstack_delete_network sv b)"
  unfolding openstack_delete_network_def by (rule own_intros makes_own_stays quiet_intros)+

lemma stays_own_openstack_create_subnet [own_intros]: "stays_own (openstack_create_subnet a b c)"
  unfolding openstack_create_subnet_def by (rule own_intros makes_own_stays quiet_intros)+

lemma stays_own_openstack_delete_subnet [own_intros]: "stays_own (openstack_delete_subnet sv b)"
  unfolding openstack_delete_subnet_def by (rule own_intros makes_own_stays quiet_intros)+

lemma stays_own_add_interfaces [own_intros]: "stays_own (add_interfaces sv u is ports)"
proof (induction "is" arbitrary: ports)
  case Nil
  show ?case by (simp add: own_intros)
next
  case (Cons x "is")
  show ?case by (simp only: add_interfaces.simps) (rule Cons own_intros makes_own_stays quiet_intros)+
qed

lemma stays_own_remove_interfaces [own_intros]: "stays_own (remove_interfaces sv u ps)"
proof (induction ps)
  case Nil
  show ?case by (simp add: own_intros)
next
  case (Cons x xs)
  show ?case by (simp only: remove_interfaces.simps) (rule Cons own_intros makes_own_stays quiet_intros)+
qed

lemma stays_own_undo_router [own_intros]: "stays_own (undo_router sv b c)"
  unfolding undo_router_def by (rule own_intros makes_own_stays quiet_intros)+

lemma stays_own_add_routes [own_intros]: "stays_own (add_routes sv b c)"
  unfolding add_routes_def by (rule own_intros | (split err.split, intro conjI allI impI) | rule makes_own_stays quiet_intros)+

lemma stays_own_openstack_create_router [own_intros]: "stays_own (openstack_create_router sv b)"
  unfolding openstack_create_router_def by (rule own_intros makes_own_stays quiet_intros)+

lemma stays_own_openstack_delete_router [own_intros]: "stays_own (openstack_delete_router sv b)"
  unfolding openstack_delete_router_def by (rule own_intros makes_own_stays quiet_intros)+

lemma stays_own_delete_group_rules [own_intros]: "stays_own (delete_group_rules sv rs)"
proof (induction rs)
  case Nil
  show ?case by (simp add: own_intros)
next
  case (Cons x xs)
  show ?case by (simp only: delete_group_rules.simps) (rule Cons own_intros makes_own_stays quiet_intros)+
qed

lemma stays_own_openstack_create_security_group [own_intros]: "stays_own (openstack_create_security_group sv b)"
  unfolding openstack_create_security_group_def by (rule own_intros makes_own_stays quiet_intros)+

lemma stays_own_openstack_create_security_group_rule [own_intros]: "stays_own (openstack_create_security_group_rule sv b)"
  unfolding openstack_create_security_group_rule_def by (rule own_intros makes_own_stays quiet_intros)+

lemma stays_own_openstack_delete_security_group [own_intros]: "stays_own (openstack_delete_security_group sv b)"
  unfolding openstack_delete_security_group_def by (rule own_intros makes_own_stays quiet_intros)+

lemma stays_own_openstack_delete_security_group_rule [own_intros]: "stays_own (openstack_delete_security_group_rule sv b)"
  unfolding openstack_delete_security_group_rule_def by (rule own_intros makes_own_stays quiet_intros)+

lemma stays_own_update_volume_mode [own_intros]: "stays_own (update_volume_mode sv b c d)"
  unfolding update_volume_mode_def by (rule own_intros makes_own_stays quiet_intros)+

lemma stays_own_openstack_create_volume [own_intros]: "stays_own (openstack_create_volume sv b)"
  unfolding openstack_create_volume_def by (rule own_intros makes_own_stays quiet_intros)+

lemma stays_own_openstack_delete_volume [own_intros]: "stays_own (openstack_delete_volume sv b)"
  unfolding openstack_delete_volume_def by (rule own_intros makes_own_stays quiet_intros)+

lemma stays_own_openstack_create_volume_snapshot [own_intros]: "stays_own (openstack_create_volume_snapshot sv b)"
  unfolding openstack_create_volume_snapshot_def by (rule own_intros makes_own_stays quiet_intros)+

lemma stays_own_openstack_delete_volume_snapshot [own_intros]: "stays_own (openstack_delete_volume_snapshot sv b)"
  unfolding openstack_delete_volume_snapshot_def by (rule own_intros makes_own_stays quiet_intros)+

lemma stays_own_get_service_hostname [own_intros]: "stays_own (get_service_hostname sv b)"
  unfolding get_service_hostname_def by (rule own_intros makes_own_stays quiet_intros)+

lemma stays_own_import_snapshot [own_intros]: "stays_own (import_snapshot sv b c)"
  unfolding import_snapshot_def by (rule own_intros makes_own_stays quiet_intros)+

lemma stays_own_import_ceph [own_intros]: "stays_own (import_ceph sv b)"
  unfolding import_ceph_def by (rule own_intros makes_own_stays quiet_intros)+

lemma stays_own_openstack_import_volume [own_intros]: "stays_own (openstack_import_volume sv b)"
  unfolding openstack_import_volume_def by (rule own_intros makes_own_stays quiet_intros)+

lemma stays_own_openstack_copy_volume [own_intros]: "stays_own (openstack_copy_volume a)"
  unfolding openstack_copy_volume_def by (rule own_intros makes_own_stays quiet_intros)+

lemma stays_own_openstack_delete_volume_copy [own_intros]: "stays_own (openstack_delete_volume_copy a)"
  unfolding openstack_delete_volume_copy_def by (rule own_intros makes_own_stays quiet_intros)+

lemma stays_own_unmanage_snapshots [own_intros]: "stays_own (unmanage_snapshots sv ps)"
proof (induction ps)
  case Nil
  show ?case by (simp add: own_intros)
next
  case (Cons x xs)
  show ?case by (simp only: unmanage_snapshots.simps) (rule Cons own_intros makes_own_stays quiet_intros)+
qed

lemma stays_own_unmanage_ceph [own_intros]: "stays_own (unmanage_ceph sv b)"
  unfolding unmanage_ceph_def by (rule own_intros makes_own_stays quiet_intros)+

lemma stays_own_openstack_unmanage_volume [own_intros]: "stays_own (openstack_unmanage_volume sv b)"
  unfolding openstack_unmanage_volume_def by (rule own_intros | (split err.split, intro conjI allI impI) | rule makes_own_stays quiet_intros)+

lemma stays_own_openstack_create_volume_group [own_intros]: "stays_own (openstack_create_volume_group sv b)"
  unfolding openstack_create_volume_group_def by (rule own_intros makes_own_stays quiet_intros)+

lemma stays_own_openstack_create_volume_group_snapshot [own_intros]: "stays_own (openstack_create_volume_group_snapshot sv b)"
  unfolding openstack_create_volume_group_snapshot_def by (rule own_intros makes_own_stays quiet_intros)+

lemma stays_own_openstack_delete_volume_group_snapshot [own_intros]: "stays_own (openstack_delete_volume_group_snapshot sv b)"
  unfolding openstack_delete_volume_group_snapshot_def by (rule own_intros makes_own_stays quiet_intros)+

lemma stays_own_update_parts [own_intros]: "stays_own (update_parts sv u n d add del i)"
proof (induction sv u n d add del i rule: update_parts.induct)
  case (1 sv u n d add del i)
  then show ?case by (subst update_parts.simps) (auto intro: stays_own_check own_intros makes_own_stays makes_own_train_update_volume_group)
qed

lemma stays_own_openstack_update_volume_group [own_intros]: "stays_own (openstack_update_volume_group sv b)"
  unfolding openstack_update_volume_group_def by (rule own_intros | (split err.split, intro conjI allI impI) | rule makes_own_stays quiet_intros)+

lemma stays_own_delete_group_snapshots [own_intros]: "stays_own (delete_group_snapshots sv u gs)"
proof (induction gs)
  case Nil
  show ?case by (simp add: own_intros)
next
  case (Cons x xs)
  show ?case by (simp only: delete_group_snapshots.simps) (rule Cons own_intros makes_own_stays quiet_intros)+
qed

lemma stays_own_openstack_delete_volume_group [own_intros]: "stays_own (openstack_delete_volume_group sv b)"
  unfolding openstack_delete_volume_group_def by (rule own_intros | (split err.split, intro conjI allI impI) | rule makes_own_stays quiet_intros)+

lemma stays_own_openstack_create_keypair [own_intros]: "stays_own (openstack_create_keypair sv b)"
  unfolding openstack_create_keypair_def by (rule own_intros makes_own_stays quiet_intros)+

lemma stays_own_openstack_delete_keypair [own_intros]: "stays_own (openstack_delete_keypair sv b)"
  unfolding openstack_delete_keypair_def by (rule own_intros makes_own_stays quiet_intros)+

lemma stays_own_openstack_create_instance_spec [own_intros]: "stays_own (openstack_create_instance_spec sv b)"
  unfolding openstack_create_instance_spec_def by (rule own_intros makes_own_stays quiet_intros)+

lemma stays_own_openstack_delete_instance_spec [own_intros]: "stays_own (openstack_delete_instance_spec sv b)"
  unfolding openstack_delete_instance_spec_def by (rule own_intros makes_own_stays quiet_intros)+

lemma stays_own_create_ports [own_intros]: "stays_own (create_ports sv groups ns ports)"
proof (induction ns arbitrary: ports)
  case Nil
  show ?case by (simp add: own_intros)
next
  case (Cons x xs)
  show ?case by (simp only: create_ports.simps) (rule Cons own_intros makes_own_stays quiet_intros)+
qed

lemma stays_own_delete_ports [own_intros]: "stays_own (delete_ports sv ps)"
proof (induction ps)
  case Nil
  show ?case by (simp add: own_intros)
next
  case (Cons x xs)
  show ?case by (simp only: delete_ports.simps) (rule Cons own_intros makes_own_stays quiet_intros)+
qed

lemma stays_own_openstack_create_instance [own_intros]: "stays_own (openstack_create_instance sv b)"
  unfolding openstack_create_instance_def by (rule own_intros makes_own_stays quiet_intros)+

lemma stays_own_openstack_delete_instance [own_intros]: "stays_own (openstack_delete_instance sv b)"
  unfolding openstack_delete_instance_def by (rule own_intros makes_own_stays quiet_intros)+

lemma stays_own_openstack_start_instance [own_intros]: "stays_own (openstack_start_instance sv b)"
  unfolding openstack_start_instance_def by (rule own_intros makes_own_stays quiet_intros)+

lemma stays_own_openstack_stop_instance [own_intros]: "stays_own (openstack_stop_instance sv b)"
  unfolding openstack_stop_instance_def by (rule own_intros makes_own_stays quiet_intros)+

text \<open>C13. Whatever the servers answer, every operation of the client, apart from those that create and delete a
  tenant and log in anew, sends only requests with the token of its connection to its own endpoints. It
  keeps the connection as it is and lets no token into the cache.\<close>

theorem client_stays_own:
  "stays_own (openstack_get_availability_zone_list sv) \<and>
   stays_own (openstack_get_hypervisor_list sv) \<and> stays_own (openstack_get_hypervisor sv u) \<and>
   stays_own (openstack_get_tenant_list sv) \<and> stays_own (openstack_get_tenant sv u) \<and>
   stays_own (openstack_get_network_list sv) \<and> stays_own (openstack_get_network sv u) \<and>
   stays_own (openstack_get_subnet sv u) \<and> stays_own (openstack_get_floating_ip sv u) \<and>
   stays_own (openstack_get_router_list sv) \<and> stays_own (openstack_get_router sv u) \<and>
   stays_own (openstack_get_security_group_list sv) \<and> stays_own (openstack_get_security_group sv u) \<and>
   stays_own (openstack_get_security_group_rule sv u) \<and> stays_own (openstack_get_storage_list sv) \<and>
   stays_own (openstack_get_storage sv u) \<and> stays_own (openstack_get_volume_list sv) \<and>
   stays_own (openstack_get_volume sv u) \<and> stays_own (openstack_get_volume_group_list sv) \<and>
   stays_own (openstack_get_volume_group sv u) \<and>
   stays_own (openstack_get_volume_group_snapshot_list sv) \<and>
   stays_own (openstack_get_volume_snapshot_list sv) \<and>
   stays_own (openstack_get_volume_snapshot sv u) \<and> stays_own (openstack_get_key_pair_list sv) \<and>
   stays_own (openstack_get_key_pair sv u) \<and> stays_own (openstack_get_instance_spec sv u) \<and>
   stays_own (openstack_get_instance_extra_spec sv u u') \<and>
   stays_own (openstack_get_instance_list sv) \<and> stays_own (openstack_get_instance sv u) \<and>
   stays_own (openstack_create_floating_ip sv (t, n, ip)) \<and>
   stays_own (openstack_delete_floating_ip sv ip) \<and> stays_own (openstack_create_network sv (t, n)) \<and>
   stays_own (openstack_delete_network sv n) \<and>
   stays_own (openstack_create_subnet cidr sv (t, n, sc)) \<and>
   stays_own (openstack_delete_subnet sv sub) \<and> stays_own (openstack_create_router sv rc) \<and>
   stays_own (openstack_delete_router sv r) \<and> stays_own (openstack_create_security_group sv (t, g)) \<and>
   stays_own (openstack_create_security_group_rule sv (g, rule, remote)) \<and>
   stays_own (openstack_delete_security_group sv g) \<and>
   stays_own (openstack_delete_security_group_rule sv rule) \<and>
   stays_own (openstack_create_volume sv (u, v)) \<and> stays_own (openstack_delete_volume sv v) \<and>
   stays_own (openstack_create_volume_snapshot sv (u, snap)) \<and>
   stays_own (openstack_delete_volume_snapshot sv snap) \<and> stays_own (openstack_import_volume sv mc) \<and>
   stays_own (openstack_unmanage_volume sv uc) \<and> stays_own (openstack_create_volume_group sv vg) \<and>
   stays_own (openstack_create_volume_group_snapshot sv (u, vgs)) \<and>
   stays_own (openstack_delete_volume_group_snapshot sv u) \<and>
   stays_own (openstack_update_volume_group sv (vg, vs, vs')) \<and>
   stays_own (openstack_delete_volume_group sv vg) \<and> stays_own (openstack_create_keypair sv key) \<and>
   stays_own (openstack_delete_keypair sv u) \<and>
   stays_own (openstack_create_instance_spec sv (spec, specs)) \<and>
   stays_own (openstack_delete_instance_spec sv u) \<and> stays_own (openstack_create_instance sv ic) \<and>
   stays_own (openstack_delete_instance sv u) \<and> stays_own (openstack_start_instance sv u) \<and>
   stays_own (openstack_stop_instance sv u)"
  by (intro conjI) (rule own_intros)+

section \<open>Rollback\<close>

lemma run_undoing:
  "run_state (undoing u m) s = (case run_state m s of (r, s') \<Rightarrow>
     (case r of Inl e \<Rightarrow> (Inl e, snd (run_state u s')) | Inr x \<Rightarrow> (Inr x, s')))"
  by (auto simp: undoing_def ignoring_def failed_with_def succeed_def split: prod.split sum.split)

text \<open>
  A later state of the same connection: nothing that was sent is taken back.
\<close>

definition later :: "os_state \<Rightarrow> os_state \<Rightarrow> bool" where
  "later s s' \<longleftrightarrow> (\<exists>rs. os_sent s' = os_sent s @ rs \<and> (\<forall>r \<in> set rs. own_request s r)) \<and>
     os_token s' = os_token s \<and> os_endpoints s' = os_endpoints s \<and> os_time s \<le> os_time s'"

lemma stays_own_later: "stays_own m \<Longrightarrow> later s (snd (run_state m s))"
  unfolding stays_own_def later_def Let_def by blast

text \<open>
  How a creation of a resource ends when the operation around it fails: in the state the request to create it left
  when that created nothing, and otherwise with the deletion of what it created, in some later state.
\<close>

definition on_failure :: "(err + 'a) \<times> os_state \<Rightarrow> (os_state \<Rightarrow> bool) \<Rightarrow> bool" where
  "on_failure a P = (case a of (Inl _, s') \<Rightarrow> P s' | (Inr _, _) \<Rightarrow> True)"

definition undone_after :: "os_state \<Rightarrow> 'u os \<Rightarrow> os_state \<Rightarrow> bool" where
  "undone_after s1 undo s' \<longleftrightarrow> (\<exists>s2. later s1 s2 \<and> s' = snd (run_state undo s2))"

definition undone :: "(err + 'a) \<times> os_state \<Rightarrow> ('a \<Rightarrow> 'u os) \<Rightarrow> os_state \<Rightarrow> bool" where
  "undone made undo s' = (case made of (Inl _, s1) \<Rightarrow> s' = s1 | (Inr x, s1) \<Rightarrow> undone_after s1 (undo x) s')"

definition undone_created :: "(('a \<times> string option) option \<times> err option) \<times> os_state \<Rightarrow> ('a \<Rightarrow> 'u os) \<Rightarrow> os_state \<Rightarrow> bool" where
  "undone_created made undo s' = (case made of ((None, _), s1) \<Rightarrow> s' = s1 | ((Some (x, _), _), s1) \<Rightarrow> undone_after s1 (undo x) s')"

lemma undoing_failed:
  assumes "run_state (undoing u m) s = (Inl e, s')" and "stays_own m"
  shows "undone_after s u s'"
proof -
  obtain r s1 where m: "run_state m s = (r, s1)" by force
  then have "later s s1" using stays_own_later [OF assms(2), of s] by simp
  then show ?thesis using assms(1) m by (auto simp: run_undoing undone_after_def split: sum.splits)
qed

lemma given_undoing:
  assumes "\<And>x. \<exists>m. k x = undoing (u x) m \<and> stays_own m"
  shows "on_failure (run_state (given m k) s) (undone (run_state m s) u)"
proof -
  obtain r s1 where m: "run_state m s = (r, s1)" by force
  show ?thesis
  proof (cases r)
    case (Inl e)
    then show ?thesis by (simp add: on_failure_def undone_def run_given m)
  next
    case (Inr x)
    obtain m' where "k x = undoing (u x) m'" "stays_own m'" using assms by blast
    then show ?thesis using undoing_failed [of "u x" m' s1]
      by (auto simp: on_failure_def undone_def run_given m Inr split: prod.split sum.split)
  qed
qed

lemma created_undone:
  assumes "\<And>b raw. stays_own (k b raw)"
  shows "on_failure (run_state (created_or_undone m u k) s) (undone_created (run_state m s) u)"
proof -
  obtain x e s1 where m: "run_state m s = ((x, e), s1)" by (metis surj_pair)
  show ?thesis
  proof (cases x)
    case None
    then show ?thesis by (simp add: on_failure_def undone_created_def created_or_undone_def m failed_with_def)
  next
    case (Some y)
    obtain b raw where y: "y = (b, raw)" by force
    have "stays_own (case e of Some e \<Rightarrow> failed_with e | None \<Rightarrow> k b raw)"
      using assms by (simp add: stays_own_failed split: option.split)
    then show ?thesis
      using undoing_failed [of "u b" "case e of Some e \<Rightarrow> failed_with e | None \<Rightarrow> k b raw" s1]
      by (auto simp: on_failure_def undone_created_def created_or_undone_def m Some y split: prod.split sum.split)
  qed
qed

lemma undoing_body: "stays_own m \<Longrightarrow> \<exists>m'. undoing u m = undoing u m' \<and> stays_own m'"
  by blast

lemma volume_failure_undone: "on_failure (run_state (openstack_create_volume sv (type, v)) s)
    (undone_created (run_state (train_create_volume sv (volume_request type v)) s) (\<lambda>x. train_delete_volume sv (ovo_uuid x) False))"
  unfolding openstack_create_volume_def prod.case
  by (rule created_undone) (rule own_intros makes_own_stays quiet_intros)+

lemma snapshot_failure_undone: "on_failure (run_state (openstack_create_volume_snapshot sv (u, snap)) s)
    (undone_created (run_state (train_create_volume_snapshot sv (snapshot_request u snap)) s) (\<lambda>x. train_delete_volume_snapshot sv (ovs_uuid x)))"
  unfolding openstack_create_volume_snapshot_def prod.case
  by (rule created_undone) (rule own_intros makes_own_stays quiet_intros)+

lemma group_snapshot_failure_undone: "on_failure (run_state (openstack_create_volume_group_snapshot sv (u, vgs)) s)
    (undone_created (run_state (train_create_volume_group_snapshot sv (group_snapshot_request u vgs)) s)
      (\<lambda>x. train_delete_volume_group_snapshot sv (ogs_id x)))"
  unfolding openstack_create_volume_group_snapshot_def prod.case
  by (rule created_undone) (rule own_intros makes_own_stays quiet_intros)+

lemma group_failure_undone: "on_failure (run_state (openstack_create_security_group sv (t, g)) s)
    (undone (run_state (train_create_security_group sv (security_group_request t g)) s) (\<lambda>(x, _). train_delete_security_group sv (osg_uuid x)))"
  unfolding openstack_create_security_group_def prod.case
  by (rule given_undoing, split prod.split, intro allI impI, simp only: prod.case, rule undoing_body)
    (rule own_intros makes_own_stays quiet_intros)+

lemma spec_failure_undone: "on_failure (run_state (openstack_create_instance_spec sv (spec, specs)) s)
    (undone (run_state (train_create_flavor sv (flavor_request spec)) s) (\<lambda>f. train_delete_flavor sv (ofl_uuid f)))"
  unfolding openstack_create_instance_spec_def prod.case
  by (rule given_undoing, rule undoing_body) (rule own_intros makes_own_stays quiet_intros)+

lemma tenant_failure_undone: "on_failure (run_state (openstack_create_tenant sv c (t, quotas)) s)
    (undone (run_state (train_create_project sv (project_request t)) s) (\<lambda>(p, _). train_delete_project sv c (pc_uuid p)))"
  unfolding openstack_create_tenant_def prod.case
  by (rule given_undoing, split prod.split, intro allI impI, simp only: prod.case, rule undoing_body)
    (rule own_intros makes_own_stays [OF makes_own_get] makes_own_stays quiet_intros)+

text \<open>
  The rollback of an instance. When its ports could not all be created, those that were are deleted at once.
  Otherwise the server is asked for, deleted if there is one, and the ports are deleted after that.
\<close>

definition instance_undone :: "os_servers \<Rightarrow> instance_call \<Rightarrow> os_state \<Rightarrow> os_state \<Rightarrow> bool" where
  "instance_undone sv ic s s' \<longleftrightarrow>
     (case run_state (create_ports sv (map sg_uuid (ic_security_groups ic)) (ic_networks ic) []) s of ((ports, e), s1) \<Rightarrow>
        (case e of Some _ \<Rightarrow> s' = snd (run_state (delete_ports sv ports) s1)
         | None \<Rightarrow> \<exists>s2. undone_created (run_state (train_create_server sv (server_request ic ports)) s1) (train_delete_server sv) s2 \<and>
             s' = snd (run_state (delete_ports sv ports) s2)))"

lemma instance_failure_undone:
  "on_failure (run_state (openstack_create_instance sv ic) s) (instance_undone sv ic s)"
proof -
  obtain ports e s1 where c: "run_state (create_ports sv (map sg_uuid (ic_security_groups ic)) (ic_networks ic) []) s = ((ports, e), s1)"
    by (metis surj_pair)
  let ?rest = "\<lambda>u (_ :: string option). given (train_show_server_details sv u) (\<lambda>(s, raw).
      given (State_Monad.return (instance_state s)) (\<lambda>state. succeed (instance_of s state raw)))"
  let ?m = "created_or_undone (train_create_server sv (server_request ic ports)) (train_delete_server sv) ?rest"
  have run: "run_state (openstack_create_instance sv ic) s =
      run_state (undoing (delete_ports sv ports) (after (State_Monad.return e) ?m)) s1"
    by (simp add: openstack_create_instance_def c)
  show ?thesis
  proof (cases e)
    case (Some x)
    then show ?thesis by (simp add: run run_undoing run_after on_failure_def instance_undone_def c)
  next
    case None
    have "stays_own (?rest u raw)" for u raw
      by (rule own_intros makes_own_stays quiet_intros)+
    then have "on_failure (run_state ?m s1)
        (undone_created (run_state (train_create_server sv (server_request ic ports)) s1) (train_delete_server sv))"
      by (rule created_undone)
    then show ?thesis
      by (auto simp: run run_undoing run_after None on_failure_def instance_undone_def c split: prod.splits sum.splits)
  qed
qed

text \<open>C14. When the creation of a volume, of a snapshot of a volume or of a group, of a security group, of a spec or of
  a tenant fails, whatever the servers answer, then either the request to create it created nothing and was the
  last thing done, or the last thing done, after more requests of the connection, was the deletion of what it had
  created. When the creation of an instance fails after its ports were created, its server is asked for and, if
  it was created, deleted in the same way, and then the ports are deleted; when a port fails, those before it
  are deleted. The deletions themselves may fail, which is only logged.\<close>

theorem failed_creation_is_undone:
  "on_failure (run_state (openstack_create_volume sv (type, v)) s)
     (undone_created (run_state (train_create_volume sv (volume_request type v)) s) (\<lambda>x. train_delete_volume sv (ovo_uuid x) False)) \<and>
   on_failure (run_state (openstack_create_volume_snapshot sv (u, snap)) s)
     (undone_created (run_state (train_create_volume_snapshot sv (snapshot_request u snap)) s)
       (\<lambda>x. train_delete_volume_snapshot sv (ovs_uuid x))) \<and>
   on_failure (run_state (openstack_create_volume_group_snapshot sv (u, vgs)) s)
     (undone_created (run_state (train_create_volume_group_snapshot sv (group_snapshot_request u vgs)) s)
       (\<lambda>x. train_delete_volume_group_snapshot sv (ogs_id x))) \<and>
   on_failure (run_state (openstack_create_security_group sv (t, g)) s)
     (undone (run_state (train_create_security_group sv (security_group_request t g)) s)
       (\<lambda>(x, _). train_delete_security_group sv (osg_uuid x))) \<and>
   on_failure (run_state (openstack_create_instance_spec sv (spec, specs)) s)
     (undone (run_state (train_create_flavor sv (flavor_request spec)) s) (\<lambda>f. train_delete_flavor sv (ofl_uuid f))) \<and>
   on_failure (run_state (openstack_create_tenant sv c (t, quotas)) s)
     (undone (run_state (train_create_project sv (project_request t)) s) (\<lambda>(p, _). train_delete_project sv c (pc_uuid p))) \<and>
   on_failure (run_state (openstack_create_instance sv ic) s) (instance_undone sv ic s)"
  by (intro conjI volume_failure_undone snapshot_failure_undone group_snapshot_failure_undone group_failure_undone
      spec_failure_undone tenant_failure_undone instance_failure_undone)

section \<open>Volumes of a group\<close>

lemma part_volumes_eq: "part_volumes i vs = (if i * 6 < length vs then Some (take 6 (drop (i * 6) vs)) else None)"
proof -
  have all: "length vs = 6 * (length vs div 6) + length vs mod 6" and "length vs mod 6 < 6" by simp_all
  consider "i < length vs div 6" | "i = length vs div 6" | "length vs div 6 < i" by linarith
  then show ?thesis
  proof cases
    case 1
    then have "i * 6 < length vs" using all by linarith
    with 1 show ?thesis by (simp add: part_volumes_def)
  next
    case 2
    then have "length vs = i * 6 + length vs mod 6" using all by simp
    then have "i * 6 < length vs \<longleftrightarrow> length vs mod 6 \<noteq> 0" by linarith
    moreover have "length (drop (i * 6) vs) \<le> 6"
      using \<open>length vs = i * 6 + length vs mod 6\<close> \<open>length vs mod 6 < 6\<close> by (simp only: length_drop)
    ultimately show ?thesis using 2 by (simp add: part_volumes_def)
  next
    case 3
    then have "\<not> i * 6 < length vs" using all \<open>length vs mod 6 < 6\<close> by linarith
    with 3 show ?thesis by (simp add: part_volumes_def)
  qed
qed

lemma concat_parts: "concat (map (\<lambda>i. take 6 (drop (i * 6) vs)) [0..<n]) = take (n * 6) vs"
proof (induction n)
  case 0
  then show ?case by simp
next
  case (Suc n)
  have "take (Suc n * 6) vs = take (n * 6) vs @ take 6 (drop (n * 6) vs)"
    using take_add [of "n * 6" 6 vs] by (simp add: add.commute)
  then show ?case using Suc by simp
qed

text \<open>C23. The parts in which the volumes of a group are changed have one to six volumes each, come one after the
  other until there are none left, and are together the list of the volumes.\<close>

theorem parts_are_all_volumes:
  "\<exists>n. list_all (\<lambda>i. case part_volumes i vs of None \<Rightarrow> False | Some p \<Rightarrow> p \<noteq> [] \<and> length p \<le> 6) [0..<n] \<and>
     part_volumes n vs = None \<and> concat (map (\<lambda>i. case part_volumes i vs of None \<Rightarrow> [] | Some p \<Rightarrow> p) [0..<n]) = vs"
proof (intro exI conjI)
  let ?n = "(length vs + 5) div 6"
  have less: "i * 6 < length vs \<longleftrightarrow> i < ?n" for i by linarith
  show "list_all (\<lambda>i. case part_volumes i vs of None \<Rightarrow> False | Some p \<Rightarrow> p \<noteq> [] \<and> length p \<le> 6) [0..<?n]"
    by (auto simp: list_all_iff part_volumes_eq less simp del: not_le dest: less [THEN iffD2])
  show "part_volumes ?n vs = None" by (simp add: part_volumes_eq less)
  have "map (\<lambda>i. case part_volumes i vs of None \<Rightarrow> [] | Some p \<Rightarrow> p) [0..<?n] = map (\<lambda>i. take 6 (drop (i * 6) vs)) [0..<?n]"
    by (simp add: part_volumes_eq less)
  moreover have "length vs \<le> ?n * 6" by linarith
  ultimately show "concat (map (\<lambda>i. case part_volumes i vs of None \<Rightarrow> [] | Some p \<Rightarrow> p) [0..<?n]) = vs"
    by (simp only: concat_parts take_all)
qed

section \<open>Sizes\<close>

lemma unat_uint64: "n < 2 ^ 64 \<Longrightarrow> unat (uint64 n) = n"
  by (simp add: uint64_def unat_of_nat take_bit_nat_eq_self)

text \<open>C24. The used bytes of a storage are what is not free of its capacity, when that is not more than the capacity;
  else they are a number beyond all sizes.\<close>

theorem used_bytes_wrap:
  assumes "c < 2 ^ 64" and "f < 2 ^ 64" and "find (\<lambda>p. b = sp_backend_name p) ps = Some p"
    and "sp_total_bytes p = Some c" and "sp_free_bytes p = Some f"
  shows "pool_bytes b ps = (Some c, Some (if f \<le> c then c - f else 2 ^ 64 - (f - c)))"
proof -
  have "used_bytes c f = (if f \<le> c then c - f else 2 ^ 64 - (f - c))"
    using assms(1,2) by (auto simp: used_bytes_def unat_sub_if' unat_uint64)
  then show ?thesis using assms(3-5) by (simp add: pool_bytes_def)
qed

lemma used_bytes_wrap_witness:
  "pool_bytes ''ceph'' [\<lparr>sp_backend_name = ''ceph'', sp_total_bytes = Some 10, sp_free_bytes = Some 12\<rparr>] =
     (Some 10, Some 18446744073709551614)"
  using used_bytes_wrap [of 10 12 "''ceph''" "[\<lparr>sp_backend_name = ''ceph'', sp_total_bytes = Some 10, sp_free_bytes = Some 12\<rparr>]"
    "\<lparr>sp_backend_name = ''ceph'', sp_total_bytes = Some 10, sp_free_bytes = Some 12\<rparr>"] by simp

section \<open>Floating IPs of an instance\<close>

text \<open>An address for which the servers know no floating IP is given that of an address before it.\<close>

lemma stale_floating_ip:
  assumes "run_state (train_list_floating_ips_by_port_interface sv (pif_port_id p) (fx_ip_address i)) s = (Inr [], s1)"
    and "run_state (train_show_subnet_details sv (fx_subnet_uuid i)) s1 = (Inr (n, raw), s2)"
  shows "\<exists>x. fst (run_state (networks_of_port sv p [i] fip) s) = Inr ([x], fip) \<and> gin_floating_ip x = fip"
  using assms by (simp add: run_given succeed_def)

end
