(* ===== verification/Spec2Isabelle.thy ===== *)
theory Spec2Isabelle
  imports ResourceValidator TenantReconcile SyncEdges RemovalResults ServiceResults HandlerResults InventoryLists ClusterPages OpenstackResults
begin

text \<open>
  Verification of the cluster manager, the Go service under \<open>src/cluster-manager\<close>.

  The service keeps an inventory of clouds. Requests arrive over gRPC (\<open>handler/\<close>), are checked
  (\<open>internal/*/validator.go\<close>) and reach a cluster through its client (\<open>client/\<close>). What a cluster
  holds is copied into a relational database (\<open>database/model/\<close>) by the synchroniser (\<open>sync/\<close>);
  what changes is announced on a message broker (\<open>queue/\<close>, \<open>constant/queue.go\<close>). Status,
  configuration and metadata of clusters, storages and volumes are documents in a key-value store
  (\<open>internal/cluster/cluster_util.go\<close>, \<open>config/\<close>, \<open>storage/\<close>, \<open>volume/\<close>). A leader
  (\<open>leader/\<close>) starts the synchronisations.

  \<^bold>\<open>Theories.\<close>

  \<^item> \<open>Prelude\<close>, \<open>GoText\<close>, \<open>GoErrors\<close>: Go errors as options and sums, chains of early returns, byte
    strings with decimal numbers, runes, UUIDs and prefixes, and the error values.
  \<^item> \<open>Schema\<close>, \<open>Tables\<close>, \<open>World\<close>, \<open>Topics\<close>: the tables as records, the statements of gorm on them
    with the foreign keys of \<open>src/documents/database/cdm-cluster-manager.ddl\<close>, and the world: the
    database, the open transaction, the store, the messages sent, the clock, and the list of calls
    that will fail. An operation is a \<open>State_Monad\<close> computation on the world. The wrapper
    \<open>GormTransaction\<close> is modelled with its behaviour of reporting only a failed \<open>BEGIN\<close>.
  \<^item> \<open>Access\<close>, \<open>ClusterValidator\<close>, \<open>Messages\<close>, \<open>VolumeValidator\<close>, \<open>NetworkValidator\<close>,
    \<open>ResourceValidator\<close>: who may use a cluster, and the validators of all requests.
  \<^item> \<open>Documents\<close>, \<open>ClusterStatus\<close>, \<open>ResourceDocuments\<close>: the documents in the store. The locale
    \<open>document_store\<close> is the contract of a family of documents; it is interpreted for the status,
    the agent, the configuration and the volumes.
  \<^item> \<open>Client\<close>, \<open>InstanceSpec\<close>, \<open>Deletion\<close>, \<open>SyncTenant\<close>, \<open>SyncStorage\<close>, \<open>SyncNetwork\<close>, \<open>SyncGroup\<close>,
    \<open>SyncInstance\<close>, \<open>ClusterSync\<close>, \<open>Reserve\<close>: the synchroniser, function by function.
  \<^item> \<open>ClusterOperations\<close>, \<open>ClusterList\<close>, \<open>ClusterRemoval\<close>: the operations on clusters
    (\<open>internal/cluster/cluster.go\<close>, \<open>internal/cluster/cluster_filter.go\<close>).
  \<^item> \<open>ServiceStatus\<close>, \<open>Leader\<close>, \<open>ServiceMonitor\<close>: the status of the services of a cluster, the leader
    that checks it (\<open>leader/\<close>), and what the handlers remember of it (\<open>handler/monitor.go\<close>).
  \<^item> \<open>Handler\<close>: the requests about clusters (\<open>handler/handler.go\<close>), with their transactions, locks,
    error codes and the messages they send.
  \<^item> \<open>Listing\<close>, \<open>InventoryQueries\<close>, \<open>NetworkQueries\<close>, \<open>InstanceQueries\<close>: the requests that read
    resources (\<open>internal/availability_zone\<close>, \<open>hypervisor\<close>, \<open>tenant\<close>, \<open>storage\<close>, \<open>keypair\<close>, \<open>floating_ip\<close>,
    \<open>spec\<close>, \<open>network\<close>, \<open>router\<close>, \<open>security_group\<close>, \<open>volume\<close>, \<open>instance\<close>), with the filters of their
    lists (\<open>*_filter.go\<close>) and their pages.
  \<^item> \<open>MessageRows\<close>, \<open>ClusterCalls\<close>, \<open>ResourceCalls\<close>: the requests that go to a cluster, to create or
    delete a resource in it. The record \<open>cluster_api\<close> is the interface \<open>Client\<close> of \<open>client/client.go\<close>; its
    answers are a parameter, and the rows it gets are those of the messages
    (\<open>proto/cluster-manager.pb.util.go\<close>).
  \<^item> \<open>ResourceHandlers\<close>: the requests about resources (\<open>handler/handler.go\<close>).
  \<^item> \<open>TrainTypes\<close>, \<open>TrainConnection\<close>, \<open>TrainIdentity\<close>, \<open>TrainNetwork\<close>, \<open>TrainVolume\<close>, \<open>TrainCompute\<close>:
    the requests to the services of OpenStack (\<open>client/openstack/train/\<close>, \<open>client/util/http.go\<close>), as
    \<open>State_Monad\<close> computations on the connection, the cache of tokens, the clock and the requests sent. What
    a server answers, decoded or not, is a parameter that knows all requests before.
  \<^item> \<open>OpenstackReads\<close>, \<open>OpenstackChanges\<close>: the operations of the client that put these requests together
    (\<open>client/openstack/openstack.go\<close>, \<open>ceph.go\<close>, \<open>direct_command.go\<close>), one definition for each function, with the
    rollbacks of the creations. The interfaces \<open>synchronizer\<close> and \<open>cluster_api\<close> have the types of their results.

  \<^bold>\<open>Lemmas.\<close>

  \<^item> Deletions: \<open>Purge\<close> specifies what a deletion removes, as a set of resources closed under what
    depends on them. \<open>Yields\<close> is a calculus of total correctness without failures; \<open>Cascade\<close>,
    \<open>NetworkCascade\<close>, \<open>InstanceCascade\<close> and \<open>ResourceCascade\<close> (locales \<open>deletion\<close> and \<open>cascade\<close>)
    prove that every deletion purges exactly its target. \<open>Faults\<close>, \<open>Confine\<close> and \<open>Confinement\<close>
    prove that, whichever calls fail, nothing outside of the target changes. \<open>DeletionResults\<close>
    holds the theorems and the exceptions.
  \<^item> Synchronisation: \<open>Reconciler\<close> states what a list synchronisation is for (locale \<open>reconciler\<close>);
    \<open>Sequence\<close>, \<open>Reconcile\<close> and \<open>TenantReconcile\<close> prove it for availability zones and tenants.
    \<open>WellFormed\<close> and \<open>Upheld\<close> (locales \<open>upheld\<close> and \<open>upheld_throughout\<close>) prove what every
    synchronisation keeps: unique keys, foreign keys, the status of other clusters. \<open>SyncHistory\<close>
    has the step relation of a service that synchronises, the log of the attempts of the rounds
    (\<open>sync_attempts\<close>), and how a synchronisation ends by it, with a cluster that can be connected to or not;
    \<open>SyncEdges\<close> the cases in which the synchroniser does something else than reconcile.
  \<^item> Removal: \<open>RemovalSteps\<close> specifies which rows belong to a cluster and proves each statement;
    \<open>RemovalResults\<close> composes them.
  \<^item> Services: \<open>ServiceResults\<close> relates what a handler remembers to the messages it got, kind by kind,
    with and without services of the kind in the message and in the memory, and states when a check
    warns and what it overwrites.
  \<^item> Lists and requests: \<open>ListResults\<close> proves that a list shows exactly the clusters asked for.
    The queries of a list name no order: \<open>ClusterPages\<close> lets each of them see the rows in an order
    of its own, and proves what holds of the pages anyway and what only in one order.
    \<open>HandlerResults\<close> proves who may do what with a cluster, and
    where a request cannot succeed.
  \<^item> Resources: \<open>InventoryResults\<close> proves who may read the inventory (locale \<open>reading_guard\<close>, interpreted
    for the validators of the packages), that the script of an instance is there for anyone, and that
    reading changes nothing; \<open>InventoryLists\<close> that a list is
    the page of exactly the rows asked for, and agrees with its count; \<open>CallResults\<close> what is asked of a
    cluster, in which order, when nothing is, and which two requests answer with success without asking.
  \<^item> The client of OpenStack: \<open>TrainResults\<close> proves for each operation how many requests it makes at most and
    that they carry the token of the connection to its own endpoints, what a login does with the tokens of
    the cache, that no answer to a login counts as a failure of the server, where an endpoint is lost, and
    that a URL that cannot be parsed is a panic after the token is kept.
    \<open>OpenstackResults\<close> carries the first to all operations of the client, and proves which requests undo a creation
    that fails and in which order, that the volumes of a group are changed once each, and where sizes wrap around.

  \<^bold>\<open>Order of rows.\<close> A table is a list, and a query returns its rows in the order of the list, since
  the code names none; a limit and an offset are \<open>take\<close> and \<open>drop\<close> of that one answer. A theorem about one
  query holds for every order, because it holds for every list; only \<open>ClusterPages\<close> speaks of several.

  \<^bold>\<open>Conventions.\<close> Identifiers are natural numbers, zero for a row that has not been saved; a
  pointer is an option. What a cluster answers, whether a text is a CIDR or an address, AES, and
  the decision of the disaster recovery manager are arguments of the definitions. An answer may
  depend on the number of requests made before it, so nothing is assumed about two equal requests.
  A call fails when the next entry of \<open>w_faults\<close> says so, with any error and at any point.

  \<^bold>\<open>Bounds.\<close> Networks refer to routers and routers to networks, groups to groups: these mutual
  recursions of the synchroniser have no bound in the code, since the answers of the cluster drive
  them. The model counts down \<open>k\<close>, the depth of the stack, and at zero returns the error
  \<open>StackOverflow\<close>; every theorem about a synchronisation holds for all \<open>k\<close>. The three rounds over
  the resources are written out as in the code. The waits for a volume and an instance are
  terminating functions: each turn lets at least three seconds pass of two minutes and of one.
  The waiting loops of the client of OpenStack (\<open>wait_rounds\<close>) count their rounds; \<open>waiting\<close> allows as many
  as the timeout has intervals and one more, and \<open>waiting_any_rounds\<close> proves that more change nothing.

  \<^bold>\<open>Not modelled.\<close> The decoding of JSON; the notifications of OpenStack and the log of its requests; the generated protocol code; logging, which has no effect the service reads; \<open>main.go\<close>, which
  registers the service; the tickers and the campaign of the leader; the public key of the service. The
  handlers that are commented out have no model, but the functions they would call do. Requests are modelled
  one at a time: a lock is taken or fails, and is not contended. Of gorm, etcd and the broker the model has
  what the source uses of them.
\<close>

end
